(* ===== verification/Prelude.thy ===== *)
theory Prelude
  imports Main "HOL-Library.AList"
begin

text \<open>
  Shared vocabulary of the development: Go's error values and results, machine
  integers with their wrap-around written out, the string operations of package
  strings that the sources use, and generic facts on lists and association lists.
  A Go function \<open>f(...) (T, error)\<close> becomes a function into \<open>T result\<close>: \<open>Ok\<close> for a
  nil error, \<open>Err\<close> for an error value, \<open>Panic\<close> for a run-time panic such as the
  dereference of a nil pointer.
\<close>

named_theorems txstore_defs
named_theorems txm_upd
named_theorems scval_defs

section \<open>Errors and results\<close>

text \<open>
  An error keeps the format string and the arguments of the \<open>fmt.Errorf\<close> or
  \<open>errors.New\<close> call that built it, so two error paths of the source never collapse
  into one value.
\<close>

datatype error = New string | Errorf string "errarg list"
and errarg = AStr string | AInt int | AErr error

datatype 'a result = Ok 'a | Err error | Panic string

fun is_Ok :: "'a result \<Rightarrow> bool" where
  "is_Ok (Ok _) = True"
| "is_Ok _ = False"

fun bind_r :: "'a result \<Rightarrow> ('a \<Rightarrow> 'b result) \<Rightarrow> 'b result" where
  "bind_r (Ok x) f = f x"
| "bind_r (Err e) f = Err e"
| "bind_r (Panic p) f = Panic p"

text \<open>\<open>if err != nil { return fmt.Errorf(..., err) }\<close>\<close>

fun wrap_err :: "(error \<Rightarrow> error) \<Rightarrow> 'a result \<Rightarrow> 'a result" where
  "wrap_err g (Ok x) = Ok x"
| "wrap_err g (Err e) = Err (g e)"
| "wrap_err g (Panic p) = Panic p"

lemma bind_r_cong [fundef_cong]:
  "m = m' \<Longrightarrow> (\<And>x. m' = Ok x \<Longrightarrow> f x = f' x) \<Longrightarrow> bind_r m f = bind_r m' f'"
  by (cases m') auto

lemma bind_r_Ok_iff [simp]: "bind_r m f = Ok y \<longleftrightarrow> (\<exists>x. m = Ok x \<and> f x = Ok y)"
  by (cases m) auto

lemma wrap_err_Ok_iff [simp]: "wrap_err g m = Ok x \<longleftrightarrow> m = Ok x"
  by (cases m) auto

lemma is_Ok_iff: "is_Ok m \<longleftrightarrow> (\<exists>x. m = Ok x)"
  by (cases m) auto

lemma not_is_Ok_cases [simp]: "\<not> is_Ok m \<longleftrightarrow> (\<exists>e. m = Err e) \<or> (\<exists>p. m = Panic p)"
  by (cases m) auto

section \<open>Machine integers\<close>

text \<open>
  Go's fixed-width integers are mathematical integers reduced to the range of the
  type after every operation that can leave it.
\<close>

definition i64 :: "int \<Rightarrow> int" where
  "i64 x = (x + 2 ^ 63) mod 2 ^ 64 - 2 ^ 63"

definition u64 :: "int \<Rightarrow> int" where
  "u64 x = x mod 2 ^ 64"

definition u32 :: "int \<Rightarrow> int" where
  "u32 x = x mod 2 ^ 32"

definition in_i64 :: "int \<Rightarrow> bool" where
  "in_i64 x \<longleftrightarrow> - (2 ^ 63) \<le> x \<and> x < 2 ^ 63"

definition in_u64 :: "int \<Rightarrow> bool" where
  "in_u64 x \<longleftrightarrow> 0 \<le> x \<and> x < 2 ^ 64"

definition in_u32 :: "int \<Rightarrow> bool" where
  "in_u32 x \<longleftrightarrow> 0 \<le> x \<and> x < 2 ^ 32"

lemma i64_id: "in_i64 x \<Longrightarrow> i64 x = x"
  by (simp add: i64_def in_i64_def)

lemma in_i64_i64 [simp]: "in_i64 (i64 x)"
proof -
  have "0 \<le> (x + 2 ^ 63) mod 2 ^ 64" and "(x + 2 ^ 63) mod 2 ^ 64 < (2 ^ 64 :: int)"
    by (rule pos_mod_sign, simp) (rule pos_mod_bound, simp)
  then show ?thesis by (simp add: i64_def in_i64_def)
qed

lemma u64_id: "in_u64 x \<Longrightarrow> u64 x = x"
  by (simp add: u64_def in_u64_def)

lemma u32_id: "in_u32 x \<Longrightarrow> u32 x = x"
  by (simp add: u32_def in_u32_def)

lemma in_u32_u32 [simp]: "in_u32 (u32 x)"
  by (simp add: in_u32_def u32_def)

lemma in_u64_u64 [simp]: "in_u64 (u64 x)"
  by (simp add: in_u64_def u64_def)

section \<open>Strings\<close>

text \<open>\<open>strings.HasPrefix\<close>, \<open>strings.TrimPrefix\<close>, \<open>strings.Contains\<close> and, for ASCII
  text, \<open>strings.ToLower\<close>.\<close>

fun HasPrefix :: "string \<Rightarrow> string \<Rightarrow> bool" where
  "HasPrefix s [] = True"
| "HasPrefix [] (p # ps) = False"
| "HasPrefix (c # s) (p # ps) = (c = p \<and> HasPrefix s ps)"

definition TrimPrefix :: "string \<Rightarrow> string \<Rightarrow> string" where
  "TrimPrefix s p = (if HasPrefix s p then drop (length p) s else s)"

fun Contains :: "string \<Rightarrow> string \<Rightarrow> bool" where
  "Contains [] p = HasPrefix [] p"
| "Contains (c # s) p = (HasPrefix (c # s) p \<or> Contains s p)"

definition lower_char :: "char \<Rightarrow> char" where
  "lower_char c = (let n = of_char c :: nat in
     if 65 \<le> n \<and> n \<le> 90 then char_of (n + 32) else c)"

definition ToLower :: "string \<Rightarrow> string" where
  "ToLower s = map lower_char s"

lemma HasPrefix_iff: "HasPrefix s p \<longleftrightarrow> (\<exists>t. s = p @ t)"
  by (induction s p rule: HasPrefix.induct) auto

lemma Contains_iff: "Contains s p \<longleftrightarrow> (\<exists>a b. s = a @ p @ b)"
proof (induction s)
  case Nil
  then show ?case by (auto simp: HasPrefix_iff)
next
  case (Cons c s)
  have "(\<exists>a b. c # s = a @ p @ b) \<longleftrightarrow> HasPrefix (c # s) p \<or> (\<exists>a b. s = a @ p @ b)"
    (is "?L \<longleftrightarrow> ?P \<or> ?R")
  proof
    assume ?L
    then obtain a b where "c # s = a @ p @ b" by blast
    then show "?P \<or> ?R" by (cases a) (auto simp: HasPrefix_iff)
  next
    assume "?P \<or> ?R"
    then show ?L
    proof
      assume ?P
      then obtain t where "c # s = [] @ p @ t" by (auto simp: HasPrefix_iff)
      then show ?L by blast
    next
      assume ?R
      then obtain a b where "s = a @ p @ b" by blast
      then have "c # s = (c # a) @ p @ b" by simp
      then show ?L by blast
    qed
  qed
  with Cons show ?case by simp
qed

text \<open>Decimal text of an integer, as \<open>%d\<close> prints it.\<close>

fun show_nat :: "nat \<Rightarrow> string" where
  "show_nat n = (if n < 10 then [char_of (48 + n)]
     else show_nat (n div 10) @ [char_of (48 + n mod 10)])"

declare show_nat.simps [simp del]

definition show_int :: "int \<Rightarrow> string" where
  "show_int i = (if i < 0 then CHR ''-'' # show_nat (nat (- i)) else show_nat (nat i))"

text \<open>\<open>err.Error()\<close>: each verb of the format is replaced by the text of the next
  argument.\<close>

fun subst_verbs :: "string \<Rightarrow> string list \<Rightarrow> string" where
  "subst_verbs [] as = []"
| "subst_verbs [c] as = [c]"
| "subst_verbs (c # d # cs) as =
     (if c = CHR ''%'' \<and> as \<noteq> [] then hd as @ subst_verbs cs (tl as)
      else c # subst_verbs (d # cs) as)"

fun err_text :: "error \<Rightarrow> string" and arg_text :: "errarg \<Rightarrow> string" where
  "err_text (New s) = s"
| "err_text (Errorf f as) = subst_verbs f (map arg_text as)"
| "arg_text (AStr s) = s"
| "arg_text (AInt i) = show_int i"
| "arg_text (AErr e) = err_text e"

section \<open>Lists and association lists\<close>

lemma fold_min_le_start: "fold min xs (a :: 'a :: linorder) \<le> a"
  by (induction xs arbitrary: a) (auto intro: order.trans min.cobounded2)

lemma fold_min_le_elem: "x \<in> set xs \<Longrightarrow> fold min xs (a :: 'a :: linorder) \<le> x"
proof (induction xs arbitrary: a)
  case Nil
  then show ?case by simp
next
  case (Cons y ys)
  then show ?case
    using fold_min_le_start [of ys "min x a"] by (auto intro: order.trans)
qed

lemma fold_min_in: "fold min xs (a :: 'a :: linorder) \<in> insert a (set xs)"
proof (induction xs arbitrary: a)
  case Nil
  then show ?case by simp
next
  case (Cons y ys)
  from Cons [of "min y a"] show ?case by (auto simp: min_def split: if_splits)
qed

lemma fold_min_eq_Min: "fold min xs (a :: 'a :: linorder) = Min (insert a (set xs))"
proof (rule Min_eqI [symmetric])
  show "fold min xs a \<le> y" if "y \<in> insert a (set xs)" for y
    using that fold_min_le_start fold_min_le_elem by blast
qed (simp_all only: fold_min_in finite_insert finite_set)

lemma map_of_delete [simp]: "map_of (AList.delete k al) = (map_of al)(k := None)"
  by (rule delete_conv')

lemma map_of_update [simp]: "map_of (AList.update k v al) = (map_of al)(k \<mapsto> v)"
  by (rule update_conv')

lemma distinct_keys_delete:
  "distinct (map fst al) \<Longrightarrow> distinct (map fst (AList.delete k al))"
  by (simp add: distinct_delete)

lemma map_insort_key: "map f (insort_key f x xs) = insort (f x) (map f xs)"
  by (induction xs) auto

lemma map_sort_key: "map f (sort_key f xs) = sort (map f xs)"
  by (induction xs) (simp_all add: map_insort_key)

end
