(* ===== verification/TxStore.thy ===== *)
theory TxStore
  imports Prelude
begin

text \<open>
  The per-account sequence allocator of the transaction manager
  (relayer/txm/txstore.go): \<open>TxStore\<close> hands out Stellar sequence numbers, tracks the
  transactions in flight at each of them and recycles the numbers of transactions
  that never made it into a ledger; \<open>AccountStore\<close> holds one \<open>TxStore\<close> per account.
  Every method of both types holds the mutex for its whole body, so each definition
  below is one atomic step.
  A Go map is an association list with distinct keys (the code iterates over it), the
  set \<open>failedSequences\<close> is a list of its members, and a \<open>*StellarTx\<close> is a reference
  into the heap of transactions of the manager.
\<close>

section \<open>Data and operations\<close>

type_synonym tx_ref = nat

record UnconfirmedTx =
  utx_Sequence :: int
  utx_Hash :: string
  utx_MaxLedger :: int
  utx_Tx :: tx_ref

record TxStore =
  nextSequence :: int
  unconfirmedSequences :: "(int \<times> UnconfirmedTx) list"
  failedSequences :: "int list"
  lastOnchainSequence :: int

definition NewTxStore :: "int \<Rightarrow> TxStore" where
  "NewTxStore initialSequence =
     \<lparr>nextSequence = initialSequence, unconfirmedSequences = [], failedSequences = [],
      lastOnchainSequence = initialSequence\<rparr>"

definition ResyncNonce :: "int \<Rightarrow> TxStore \<Rightarrow> TxStore" where
  "ResyncNonce nextExpectedSequence s =
     (let badFailedSeqs = filter (\<lambda>q. \<not> q \<ge> nextExpectedSequence) (failedSequences s);
          s1 = s\<lparr>failedSequences := fold removeAll badFailedSeqs (failedSequences s)\<rparr>;
          s2 = (if nextSequence s1 < nextExpectedSequence
                then s1\<lparr>nextSequence := nextExpectedSequence\<rparr> else s1)
      in s2\<lparr>lastOnchainSequence := nextExpectedSequence\<rparr>)"

definition GetLastResyncedNonce :: "TxStore \<Rightarrow> int" where
  "GetLastResyncedNonce s = lastOnchainSequence s"

definition GetNextSequence :: "TxStore \<Rightarrow> int" where
  "GetNextSequence s = fold min (failedSequences s) (nextSequence s)"

definition AddUnconfirmed ::
    "int \<Rightarrow> string \<Rightarrow> int \<Rightarrow> tx_ref \<Rightarrow> TxStore \<Rightarrow> TxStore result" where
  "AddUnconfirmed seq hash maxLedger tx s =
     (let record = \<lparr>utx_Sequence = seq, utx_Hash = hash, utx_MaxLedger = maxLedger, utx_Tx = tx\<rparr>;
          add = (\<lambda>s. s\<lparr>unconfirmedSequences :=
                          AList.update seq record (unconfirmedSequences s)\<rparr>)
      in case map_of (unconfirmedSequences s) seq of
        Some existing \<Rightarrow>
          Err (Errorf ''sequence used: tried to use sequence (%d) for tx (%s), already used by (%s)''
                 [AInt seq, AStr hash, AStr (utx_Hash existing)])
      | None \<Rightarrow>
          if seq \<notin> set (failedSequences s) then
            if seq < nextSequence s then
              Err (Errorf ''tried to add an unconfirmed tx at an old sequence: expected %d, got %d''
                     [AInt (nextSequence s), AInt seq])
            else if seq > nextSequence s then
              Err (Errorf ''tried to add an unconfirmed tx at a future sequence: expected %d, got %d''
                     [AInt (nextSequence s), AInt seq])
            else Ok (add (s\<lparr>nextSequence := i64 (nextSequence s + 1)\<rparr>))
          else Ok (add (s\<lparr>failedSequences := removeAll seq (failedSequences s)\<rparr>)))"

definition mark_failed :: "int \<Rightarrow> TxStore \<Rightarrow> TxStore" where
  "mark_failed seq s = s\<lparr>failedSequences := List.insert seq (failedSequences s)\<rparr>"

definition Confirm :: "int \<Rightarrow> string \<Rightarrow> bool \<Rightarrow> TxStore \<Rightarrow> TxStore result" where
  "Confirm seq hash failed s =
     (case map_of (unconfirmedSequences s) seq of
        None \<Rightarrow> Err (Errorf ''no such unconfirmed sequence: %d'' [AInt seq])
      | Some unconfirmed \<Rightarrow>
          if utx_Hash unconfirmed \<noteq> hash then
            Err (Errorf ''unexpected tx hash: expected %s, got %s''
                   [AStr (utx_Hash unconfirmed), AStr hash])
          else
            let s1 = s\<lparr>unconfirmedSequences := AList.delete seq (unconfirmedSequences s)\<rparr>
            in Ok (if failed \<and> seq \<ge> lastOnchainSequence s1 then mark_failed seq s1 else s1))"

definition Release :: "int \<Rightarrow> TxStore \<Rightarrow> TxStore" where
  "Release seq s =
     (let s1 = s\<lparr>unconfirmedSequences := AList.delete seq (unconfirmedSequences s)\<rparr>
      in if seq \<ge> lastOnchainSequence s1 then mark_failed seq s1 else s1)"

definition GetUnconfirmed :: "TxStore \<Rightarrow> UnconfirmedTx list" where
  "GetUnconfirmed s = sort_key utx_Sequence (map snd (unconfirmedSequences s))"

definition InflightCount :: "TxStore \<Rightarrow> nat" where
  "InflightCount s = length (unconfirmedSequences s)"

type_synonym AccountStore = "(string \<times> TxStore) list"

definition NewAccountStore :: AccountStore where
  "NewAccountStore = []"

definition CreateTxStore :: "string \<Rightarrow> int \<Rightarrow> AccountStore \<Rightarrow> AccountStore result" where
  "CreateTxStore accountAddress initialSequence c =
     (case map_of c accountAddress of
        Some _ \<Rightarrow> Err (Errorf ''TxStore already exists: %s'' [AStr accountAddress])
      | None \<Rightarrow> Ok (AList.update accountAddress (NewTxStore initialSequence) c))"

definition GetTxStore :: "string \<Rightarrow> AccountStore \<Rightarrow> TxStore option" where
  "GetTxStore accountAddress c = map_of c accountAddress"

definition GetTotalInflightCount :: "AccountStore \<Rightarrow> nat" where
  "GetTotalInflightCount c = sum_list (map (\<lambda>(addr, store). InflightCount store) c)"

definition GetAllUnconfirmed :: "AccountStore \<Rightarrow> (string \<times> UnconfirmedTx list) list" where
  "GetAllUnconfirmed c = map (\<lambda>(addr, store). (addr, GetUnconfirmed store)) c"

section \<open>Well-formed stores and the status of a sequence number\<close>

text \<open>
  \<open>store_wf\<close> is the structural invariant of the two maps. \<open>below_next\<close> says that no
  number at or above \<open>nextSequence\<close> is in use, which is what makes \<open>nextSequence\<close> a
  fresh number.
\<close>

definition inflight :: "TxStore \<Rightarrow> int set" where
  "inflight s = dom (map_of (unconfirmedSequences s))"

definition store_wf :: "TxStore \<Rightarrow> bool" where
  "store_wf s \<longleftrightarrow> distinct (map fst (unconfirmedSequences s)) \<and> distinct (failedSequences s) \<and>
     (\<forall>k u. map_of (unconfirmedSequences s) k = Some u \<longrightarrow> utx_Sequence u = k) \<and>
     inflight s \<inter> set (failedSequences s) = {}"

definition below_next :: "TxStore \<Rightarrow> bool" where
  "below_next s \<longleftrightarrow> (\<forall>k \<in> inflight s \<union> set (failedSequences s). k < nextSequence s)"

definition has_room :: "TxStore \<Rightarrow> bool" where
  "has_room s \<longleftrightarrow> - (2 ^ 63) \<le> nextSequence s \<and> nextSequence s < 2 ^ 63 - 1"

text \<open>
  The abstract specification: what a store knows about one sequence number. A number
  is \<open>Unallocated\<close> until it is used, \<open>InFlight\<close> while a transaction that uses it is
  unconfirmed, \<open>Recyclable\<close> when its transaction failed before reaching a ledger and
  \<open>Retired\<close> otherwise.
\<close>

datatype seq_status = Unallocated | InFlight string tx_ref | Recyclable | Retired

definition seq_abs :: "TxStore \<Rightarrow> int \<Rightarrow> seq_status" where
  "seq_abs s n = (case map_of (unconfirmedSequences s) n of
      Some u \<Rightarrow> InFlight (utx_Hash u) (utx_Tx u)
    | None \<Rightarrow> if n \<in> set (failedSequences s) then Recyclable
              else if n < nextSequence s then Retired else Unallocated)"

definition available :: "TxStore \<Rightarrow> int \<Rightarrow> bool" where
  "available s n \<longleftrightarrow> seq_abs s n = Recyclable \<or> seq_abs s n = Unallocated"

lemmas store_inv_defs = store_wf_def below_next_def inflight_def

lemma has_room_i64: "has_room s \<Longrightarrow> i64 (nextSequence s + 1) = nextSequence s + 1"
  by (rule i64_id) (simp add: has_room_def in_i64_def)

lemma GetNextSequence_Min:
  "GetNextSequence s = Min (insert (nextSequence s) (set (failedSequences s)))"
  by (simp add: GetNextSequence_def fold_min_eq_Min)

lemma GetNextSequence_cases:
  "GetNextSequence s = nextSequence s \<and> (\<forall>q \<in> set (failedSequences s). nextSequence s \<le> q) \<or>
   GetNextSequence s \<in> set (failedSequences s)"
  using fold_min_in [of "failedSequences s" "nextSequence s"]
    fold_min_le_elem [of _ "failedSequences s" "nextSequence s"]
  by (auto simp: GetNextSequence_def)

lemma GetNextSequence_le_next: "GetNextSequence s \<le> nextSequence s"
  by (simp add: GetNextSequence_def fold_min_le_start)

lemma GetNextSequence_le_failed: "q \<in> set (failedSequences s) \<Longrightarrow> GetNextSequence s \<le> q"
  by (simp add: GetNextSequence_def fold_min_le_elem)

lemma fold_removeAll_filter:
  "fold removeAll (filter P xs) xs = filter (\<lambda>x. \<not> P x) xs"
proof -
  have "fold removeAll ys xs = filter (\<lambda>x. x \<notin> set ys) xs" for ys :: "'a list"
    by (induction ys arbitrary: xs)
       (auto simp: removeAll_filter_not_eq intro!: filter_cong)
  then show ?thesis by (auto intro!: filter_cong)
qed

lemma ResyncNonce_fields [simp]:
  "nextSequence (ResyncNonce n s) = max (nextSequence s) n"
  "unconfirmedSequences (ResyncNonce n s) = unconfirmedSequences s"
  "failedSequences (ResyncNonce n s) = filter (\<lambda>q. n \<le> q) (failedSequences s)"
  "lastOnchainSequence (ResyncNonce n s) = n"
  by (simp_all add: ResyncNonce_def Let_def fold_removeAll_filter max_def not_le not_less)

lemma Release_fields [simp]:
  "nextSequence (Release q s) = nextSequence s"
  "unconfirmedSequences (Release q s) = AList.delete q (unconfirmedSequences s)"
  "failedSequences (Release q s) =
     (if lastOnchainSequence s \<le> q then List.insert q (failedSequences s) else failedSequences s)"
  "lastOnchainSequence (Release q s) = lastOnchainSequence s"
  by (simp_all add: Release_def mark_failed_def Let_def)

lemma Confirm_Ok_iff:
  "Confirm q h failed s = Ok s' \<longleftrightarrow>
     (\<exists>u. map_of (unconfirmedSequences s) q = Some u \<and> utx_Hash u = h) \<and>
     s' = (let s1 = s\<lparr>unconfirmedSequences := AList.delete q (unconfirmedSequences s)\<rparr>
           in if failed \<and> lastOnchainSequence s \<le> q then mark_failed q s1 else s1)"
  by (auto simp: Confirm_def Let_def split: option.splits if_splits)

lemma AddUnconfirmed_Ok_iff:
  "AddUnconfirmed q h m t s = Ok s' \<longleftrightarrow>
     q \<notin> inflight s \<and> (q \<in> set (failedSequences s) \<or> q = nextSequence s) \<and>
     s' = s\<lparr>nextSequence := (if q \<in> set (failedSequences s) then nextSequence s
                              else i64 (nextSequence s + 1)),
            failedSequences := removeAll q (failedSequences s),
            unconfirmedSequences := AList.update q
              \<lparr>utx_Sequence = q, utx_Hash = h, utx_MaxLedger = m, utx_Tx = t\<rparr>
              (unconfirmedSequences s)\<rparr>"
  by (cases s) (auto simp: AddUnconfirmed_def Let_def inflight_def split: option.splits if_splits)

section \<open>Every operation keeps a store well-formed\<close>

lemma store_wf_New [simp]: "store_wf (NewTxStore n)"
  by (simp add: store_inv_defs NewTxStore_def)

lemma below_next_New [simp]: "below_next (NewTxStore n)"
  by (simp add: store_inv_defs NewTxStore_def)

lemma store_wf_Resync: "store_wf s \<Longrightarrow> store_wf (ResyncNonce n s)"
  by (auto simp: store_inv_defs)

lemma below_next_Resync: "below_next s \<Longrightarrow> below_next (ResyncNonce n s)"
  by (auto simp: below_next_def inflight_def less_max_iff_disj)

lemma store_wf_Release: "store_wf s \<Longrightarrow> store_wf (Release q s)"
  by (auto simp: store_inv_defs distinct_keys_delete split: if_splits)

lemma below_next_Release: "below_next s \<Longrightarrow> q < nextSequence s \<Longrightarrow> below_next (Release q s)"
  by (auto simp: store_inv_defs split: if_splits)

lemma store_wf_Confirm: "store_wf s \<Longrightarrow> Confirm q h f s = Ok s' \<Longrightarrow> store_wf s'"
  by (auto simp: Confirm_Ok_iff store_inv_defs mark_failed_def Let_def distinct_keys_delete
      simp del: map_of_eq_Some_iff split: if_splits)

lemma below_next_Confirm: "below_next s \<Longrightarrow> Confirm q h f s = Ok s' \<Longrightarrow> below_next s'"
  by (force simp: Confirm_Ok_iff store_inv_defs mark_failed_def Let_def split: if_splits)

lemma store_wf_Add: "store_wf s \<Longrightarrow> AddUnconfirmed q h m t s = Ok s' \<Longrightarrow> store_wf s'"
  by (auto simp: AddUnconfirmed_Ok_iff store_inv_defs distinct_update distinct_removeAll
      split: if_splits)

lemma inflight_Add: "AddUnconfirmed q h m t s = Ok s' \<Longrightarrow> inflight s' = insert q (inflight s)"
  by (simp add: AddUnconfirmed_Ok_iff inflight_def)

lemma inflight_Confirm: "Confirm q h f s = Ok s' \<Longrightarrow> inflight s' = inflight s - {q}"
  by (auto simp: Confirm_Ok_iff inflight_def mark_failed_def Let_def
      simp del: map_of_eq_Some_iff split: if_splits)

lemma inflight_Release [simp]: "inflight (Release q s) = inflight s - {q}"
  by (auto simp: inflight_def)

lemma inflight_Resync [simp]: "inflight (ResyncNonce n s) = inflight s"
  by (simp add: inflight_def)

lemma below_next_Add:
  assumes "below_next s" and "has_room s" and "AddUnconfirmed q h m t s = Ok s'"
  shows "below_next s'"
proof -
  from assms(3) have "nextSequence s \<le> nextSequence s'" and "q < nextSequence s'"
    using assms(1,2) by (auto simp: AddUnconfirmed_Ok_iff below_next_def has_room_i64 split: if_splits)
  moreover from assms(3) have sub: "set (failedSequences s') \<subseteq> set (failedSequences s)"
    by (auto simp: AddUnconfirmed_Ok_iff)
  moreover have "k < nextSequence s" if "k \<in> inflight s \<union> set (failedSequences s')" for k
    using that sub assms(1) by (auto simp: below_next_def)
  ultimately show ?thesis
    by (auto simp: below_next_def inflight_Add [OF assms(3)] intro: less_le_trans)
qed

lemmas store_wf_intros =
  store_wf_Resync store_wf_Release store_wf_Confirm store_wf_Add

section \<open>Refinement of the sequence-status specification\<close>

lemma seq_abs_simps:
  "n \<in> inflight s \<Longrightarrow> \<exists>h t. seq_abs s n = InFlight h t"
  "n \<notin> inflight s \<Longrightarrow> seq_abs s n =
     (if n \<in> set (failedSequences s) then Recyclable
      else if n < nextSequence s then Retired else Unallocated)"
  by (auto simp: seq_abs_def inflight_def split: option.splits)

lemma available_iff:
  "available s n \<longleftrightarrow> n \<notin> inflight s \<and> (n \<in> set (failedSequences s) \<or> nextSequence s \<le> n)"
  using seq_abs_simps [of n s] by (cases "n \<in> inflight s") (auto simp: available_def)

lemma GetNextSequence_free:
  assumes "store_wf s" and "below_next s"
  shows "GetNextSequence s \<notin> inflight s"
  using GetNextSequence_cases [of s] assms by (auto simp: store_wf_def below_next_def)

lemma claim_abs:
  assumes "has_room s" and "below_next s" and "AddUnconfirmed q h m t s = Ok s'"
  shows "seq_abs s' = (seq_abs s)(q := InFlight h t)"
proof
  fix n
  have "nextSequence s' = (if q \<in> set (failedSequences s) then nextSequence s else q + 1)"
    using assms(1,3) by (auto simp: AddUnconfirmed_Ok_iff has_room_i64 simp del: map_of_eq_Some_iff)
  then show "seq_abs s' n = ((seq_abs s)(q := InFlight h t)) n"
    using assms(3)
    by (auto simp: seq_abs_def AddUnconfirmed_Ok_iff simp del: map_of_eq_Some_iff split: option.splits)
qed

lemma settle_abs:
  assumes "store_wf s" and "below_next s" and "Confirm q h f s = Ok s'"
  shows "seq_abs s' = (seq_abs s)(q := (if f \<and> lastOnchainSequence s \<le> q then Recyclable else Retired))"
proof
  fix n
  have "q \<in> inflight s" using assms(3) by (auto simp: Confirm_Ok_iff inflight_def)
  then have "q < nextSequence s" and "q \<notin> set (failedSequences s)"
    using assms(1,2) by (auto simp: below_next_def store_wf_def)
  then show "seq_abs s' n = ((seq_abs s)(q := (if f \<and> lastOnchainSequence s \<le> q
      then Recyclable else Retired))) n"
    using assms(3)
    by (auto simp: seq_abs_def Confirm_Ok_iff mark_failed_def Let_def
        simp del: map_of_eq_Some_iff split: option.splits if_splits)
qed

lemma release_abs:
  assumes "q < nextSequence s" and "q \<notin> set (failedSequences s) \<or> lastOnchainSequence s \<le> q"
  shows "seq_abs (Release q s) =
    (seq_abs s)(q := (if lastOnchainSequence s \<le> q then Recyclable else Retired))"
  using assms by (auto simp: fun_eq_iff seq_abs_def split: option.splits)

lemma resync_abs:
  "seq_abs (ResyncNonce k s) n =
     (if n < k \<and> n \<notin> inflight s then Retired else seq_abs s n)"
  by (auto simp: seq_abs_def inflight_def split: option.splits)

section \<open>The allocator contract\<close>

text \<open>
  What the broadcast pipeline relies on: peeking gives a number nobody holds, claiming
  the peeked number succeeds and makes it busy. \<open>room\<close> counts how many fresh numbers
  are left before the 64-bit counter wraps.
\<close>

locale sequence_allocator =
  fixes inv :: "'s \<Rightarrow> bool" and room :: "'s \<Rightarrow> nat" and busy :: "'s \<Rightarrow> int set"
    and peek :: "'s \<Rightarrow> int" and claim :: "int \<Rightarrow> 'd \<Rightarrow> 's \<Rightarrow> 's result"
  assumes peek_free: "inv s \<Longrightarrow> peek s \<notin> busy s"
    and claim_peek: "inv s \<Longrightarrow> \<exists>s'. claim (peek s) d s = Ok s'"
    and claim_inv: "inv s \<Longrightarrow> 0 < room s \<Longrightarrow> claim n d s = Ok s' \<Longrightarrow> inv s'"
    and claim_busy: "claim n d s = Ok s' \<Longrightarrow> busy s' = insert n (busy s)"
    and claim_room: "inv s \<Longrightarrow> 0 < room s \<Longrightarrow> claim n d s = Ok s' \<Longrightarrow> room s \<le> Suc (room s')"
begin

fun claim_all :: "'d list \<Rightarrow> 's \<Rightarrow> int list \<times> 's" where
  "claim_all [] s = ([], s)"
| "claim_all (d # ds) s = (case claim (peek s) d s of
      Ok s' \<Rightarrow> let (ns, s'') = claim_all ds s' in (peek s # ns, s'')
    | _ \<Rightarrow> ([], s))"

lemma claim_all_fresh:
  assumes "inv s" and "length ds \<le> room s" and "claim_all ds s = (ns, s')"
  shows "length ns = length ds \<and> distinct ns \<and> set ns \<inter> busy s = {} \<and>
    busy s' = busy s \<union> set ns \<and> inv s'"
  using assms
proof (induction ds arbitrary: s ns s')
  case Nil
  then show ?case by simp
next
  case (Cons d ds)
  from Cons.prems(1) obtain s1 where s1: "claim (peek s) d s = Ok s1"
    using claim_peek by blast
  from s1 Cons.prems(3) obtain ns1 where ns1: "claim_all ds s1 = (ns1, s')" "ns = peek s # ns1"
    by (auto split: prod.splits)
  have room: "0 < room s" using Cons.prems(2) by simp
  have "inv s1" by (rule claim_inv [OF Cons.prems(1) room s1])
  moreover have "length ds \<le> room s1"
    using claim_room [OF Cons.prems(1) room s1] Cons.prems(2) by simp
  ultimately have IH: "length ns1 = length ds \<and> distinct ns1 \<and> set ns1 \<inter> busy s1 = {} \<and>
      busy s' = busy s1 \<union> set ns1 \<and> inv s'"
    using Cons.IH ns1(1) by blast
  with claim_busy [OF s1] peek_free [OF Cons.prems(1)] ns1(2) show ?case by auto
qed

end

definition store_ok :: "TxStore \<Rightarrow> bool" where
  "store_ok s \<longleftrightarrow> store_wf s \<and> below_next s \<and> in_i64 (nextSequence s)"

definition store_room :: "TxStore \<Rightarrow> nat" where
  "store_room s = nat (2 ^ 63 - 1 - nextSequence s)"

definition claim_seq :: "int \<Rightarrow> string \<times> int \<times> tx_ref \<Rightarrow> TxStore \<Rightarrow> TxStore result" where
  "claim_seq n = (\<lambda>(h, m, t). AddUnconfirmed n h m t)"

lemma claim_seq_simp [simp]: "claim_seq n (h, m, t) s = AddUnconfirmed n h m t s"
  by (simp add: claim_seq_def)

lemma store_room_pos: "store_ok s \<Longrightarrow> 0 < store_room s \<Longrightarrow> has_room s"
  by (auto simp: store_room_def has_room_def store_ok_def in_i64_def)

lemma claim_next_Ok:
  assumes "store_ok s"
  shows "\<exists>s'. AddUnconfirmed (GetNextSequence s) h m t s = Ok s'"
  using GetNextSequence_free [of s] GetNextSequence_cases [of s] assms
  by (auto simp: AddUnconfirmed_Ok_iff store_ok_def simp del: map_of_eq_Some_iff)

interpretation seqs: sequence_allocator store_ok store_room inflight GetNextSequence claim_seq
proof unfold_locales
  fix s s' :: TxStore and n :: int and d :: "string \<times> int \<times> tx_ref"
  show "store_ok s \<Longrightarrow> GetNextSequence s \<notin> inflight s"
    by (simp add: GetNextSequence_free store_ok_def)
  show "store_ok s \<Longrightarrow> \<exists>s'. claim_seq (GetNextSequence s) d s = Ok s'"
    by (cases d) (simp add: claim_seq_def claim_next_Ok)
  show "claim_seq n d s = Ok s' \<Longrightarrow> inflight s' = insert n (inflight s)"
    by (cases d) (simp add: claim_seq_def inflight_Add)
  assume ok: "store_ok s" and room: "0 < store_room s" and c: "claim_seq n d s = Ok s'"
  have hr: "has_room s" by (rule store_room_pos [OF ok room])
  show "store_ok s'"
    using ok hr c store_wf_Add below_next_Add
    by (cases d) (auto simp: store_ok_def claim_seq_def AddUnconfirmed_Ok_iff split: if_splits)
  show "store_room s \<le> Suc (store_room s')"
    using hr c by (cases d) (auto simp: claim_seq_def AddUnconfirmed_Ok_iff store_room_def has_room_i64)
qed

section \<open>Sequences of operations\<close>

text \<open>
  The broadcast loop, the confirm loop and the restore path call a store concurrently;
  since every method is atomic, any interleaving of their calls is a list of
  operations. An operation that returns an error leaves the store as it was.
\<close>

datatype store_op =
    OpAdd int string int tx_ref
  | OpConfirm int string bool
  | OpRelease int
  | OpResync int

fun apply_op :: "store_op \<Rightarrow> TxStore \<Rightarrow> TxStore" where
  "apply_op (OpAdd q h m t) s = (case AddUnconfirmed q h m t s of Ok s' \<Rightarrow> s' | _ \<Rightarrow> s)"
| "apply_op (OpConfirm q h f) s = (case Confirm q h f s of Ok s' \<Rightarrow> s' | _ \<Rightarrow> s)"
| "apply_op (OpRelease q) s = Release q s"
| "apply_op (OpResync n) s = ResyncNonce n s"

fun run_ops :: "store_op list \<Rightarrow> TxStore \<Rightarrow> TxStore" where
  "run_ops [] s = s"
| "run_ops (x # xs) s = run_ops xs (apply_op x s)"

definition failed_ahead :: "TxStore \<Rightarrow> bool" where
  "failed_ahead s \<longleftrightarrow> (\<forall>q \<in> set (failedSequences s). lastOnchainSequence s \<le> q)"

text \<open>The specification of each operation on the status of every number.\<close>

fun spec_op :: "int \<Rightarrow> store_op \<Rightarrow> (int \<Rightarrow> seq_status) \<Rightarrow> (int \<Rightarrow> seq_status)" where
  "spec_op onchain (OpAdd q h m t) a =
     (if a q = Recyclable \<or> a q = Unallocated \<and> (\<forall>n<q. a n \<noteq> Unallocated)
      then a(q := InFlight h t) else a)"
| "spec_op onchain (OpConfirm q h f) a =
     (case a q of InFlight h' t \<Rightarrow>
        if h' = h then a(q := (if f \<and> onchain \<le> q then Recyclable else Retired)) else a
      | _ \<Rightarrow> a)"
| "spec_op onchain (OpRelease q) a = a(q := (if onchain \<le> q then Recyclable else Retired))"
| "spec_op onchain (OpResync k) a =
     (\<lambda>n. if n < k then (case a n of InFlight h t \<Rightarrow> InFlight h t | _ \<Rightarrow> Retired) else a n)"

text \<open>An operation is regular when it releases only a number that was handed out
  before (below \<open>nextSequence\<close>) and does not run the 64-bit counter over.\<close>

fun op_regular :: "store_op \<Rightarrow> TxStore \<Rightarrow> bool" where
  "op_regular (OpRelease q) s = (q < nextSequence s)"
| "op_regular (OpAdd q h m t) s = (nextSequence s < 2 ^ 63 - 1)"
| "op_regular (OpResync n) s = in_i64 n"
| "op_regular (OpConfirm q h f) s = True"

lemma store_wf_apply: "store_wf s \<Longrightarrow> store_wf (apply_op x s)"
  by (cases x) (auto split: result.splits intro: store_wf_intros)

lemma store_wf_run: "store_wf s \<Longrightarrow> store_wf (run_ops xs s)"
  by (induction xs arbitrary: s) (auto intro: store_wf_apply)

lemma failed_ahead_apply: "failed_ahead s \<Longrightarrow> failed_ahead (apply_op x s)"
  by (cases x)
     (auto simp: failed_ahead_def Confirm_Ok_iff AddUnconfirmed_Ok_iff mark_failed_def Let_def
       simp del: map_of_eq_Some_iff split: result.splits if_splits)

lemma failed_ahead_run: "failed_ahead s \<Longrightarrow> failed_ahead (run_ops xs s)"
  by (induction xs arbitrary: s) (auto intro: failed_ahead_apply)

lemma failed_ahead_New [simp]: "failed_ahead (NewTxStore n)"
  by (simp add: failed_ahead_def NewTxStore_def)

lemma has_room_iff: "store_ok s \<Longrightarrow> has_room s \<longleftrightarrow> nextSequence s < 2 ^ 63 - 1"
  by (auto simp: has_room_def store_ok_def in_i64_def)

lemma apply_op_ok:
  assumes "store_ok s" and "op_regular x s"
  shows "store_ok (apply_op x s)"
proof (cases x)
  case (OpAdd q h m t)
  with assms have "has_room s" by (simp add: has_room_iff)
  with OpAdd assms(1) show ?thesis
    using store_wf_apply [of s x] below_next_Add [of s q h m t]
    by (auto simp: store_ok_def AddUnconfirmed_Ok_iff split: result.splits)
next
  case (OpConfirm q h f)
  with assms show ?thesis
    using store_wf_apply [of s x] below_next_Confirm [of s q h f]
    by (auto simp: store_ok_def Confirm_Ok_iff mark_failed_def Let_def split: result.splits)
next
  case (OpRelease q)
  with assms show ?thesis
    using store_wf_apply [of s x] below_next_Release [of s q] by (simp add: store_ok_def)
next
  case (OpResync n)
  with assms show ?thesis
    using store_wf_apply [of s x] below_next_Resync [of s n] by (simp add: store_ok_def max_def)
qed

lemma unallocated_iff: "below_next s \<Longrightarrow> seq_abs s n = Unallocated \<longleftrightarrow> nextSequence s \<le> n"
  using seq_abs_simps [of n s] unfolding below_next_def
  by (cases "n \<in> inflight s") (auto simp flip: not_less)

lemma add_spec_guard:
  assumes "store_wf s" and "below_next s"
  shows "(seq_abs s q = Recyclable \<or> seq_abs s q = Unallocated \<and> (\<forall>n<q. seq_abs s n \<noteq> Unallocated))
    \<longleftrightarrow> q \<notin> inflight s \<and> (q \<in> set (failedSequences s) \<or> q = nextSequence s)"
proof -
  have "seq_abs s q = Recyclable \<longleftrightarrow> q \<in> set (failedSequences s)"
    using seq_abs_simps [of q s] assms(1) by (cases "q \<in> inflight s") (auto simp: store_wf_def)
  moreover have "(seq_abs s q = Unallocated \<and> (\<forall>n<q. seq_abs s n \<noteq> Unallocated)) \<longleftrightarrow> q = nextSequence s"
    unfolding unallocated_iff [OF assms(2)]
    by (metis less_irrefl not_le order.order_iff_strict)
  moreover have "nextSequence s \<notin> inflight s" and "inflight s \<inter> set (failedSequences s) = {}"
    using assms by (auto simp: below_next_def store_wf_def)
  ultimately show ?thesis by auto
qed

lemma apply_op_refines:
  assumes ok: "store_ok s" and ahead: "failed_ahead s" and reg: "op_regular x s"
  shows "seq_abs (apply_op x s) = spec_op (lastOnchainSequence s) x (seq_abs s)"
proof (cases x)
  case (OpAdd q h m t)
  have hr: "has_room s" using OpAdd ok reg by (simp add: has_room_iff)
  show ?thesis
  proof (cases "AddUnconfirmed q h m t s")
    case (Ok s')
    then have "q \<notin> inflight s \<and> (q \<in> set (failedSequences s) \<or> q = nextSequence s)"
      by (simp add: AddUnconfirmed_Ok_iff)
    with OpAdd Ok show ?thesis
      using claim_abs [OF hr _ Ok] add_spec_guard [of s q] ok by (simp add: store_ok_def)
  next
    case (Err e)
    have "\<not> (q \<notin> inflight s \<and> (q \<in> set (failedSequences s) \<or> q = nextSequence s))"
      using Err AddUnconfirmed_Ok_iff [of q h m t s] by auto
    with OpAdd Err show ?thesis
      using add_spec_guard [of s q] ok by (auto simp: store_ok_def)
  next
    case (Panic p)
    then show ?thesis by (simp add: AddUnconfirmed_def Let_def split: option.splits if_splits)
  qed
next
  case (OpConfirm q h f)
  show ?thesis
  proof (cases "Confirm q h f s")
    case (Ok s')
    then obtain u where "map_of (unconfirmedSequences s) q = Some u" "utx_Hash u = h"
      by (auto simp: Confirm_Ok_iff simp del: map_of_eq_Some_iff)
    then have "seq_abs s q = InFlight h (utx_Tx u)" by (simp add: seq_abs_def)
    with OpConfirm Ok show ?thesis
      using settle_abs [OF _ _ Ok] ok by (simp add: store_ok_def)
  next
    case (Err e)
    then show ?thesis
      using OpConfirm
      by (auto simp: Confirm_def Let_def seq_abs_def split: option.splits if_splits)
  next
    case (Panic p)
    then show ?thesis by (simp add: Confirm_def Let_def split: option.splits if_splits)
  qed
next
  case (OpRelease q)
  with reg ahead show ?thesis by (auto simp: release_abs failed_ahead_def)
next
  case (OpResync k)
  have "seq_abs (ResyncNonce k s) n = spec_op (lastOnchainSequence s) x (seq_abs s) n" for n
    using OpResync seq_abs_simps [of n s] resync_abs [of k s n]
    by (cases "n \<in> inflight s") auto
  with OpResync show ?thesis by auto
qed

section \<open>Properties\<close>

text \<open>C11: Whatever the interleaving of AddUnconfirmed, Confirm, Release and ResyncNonce
  calls on a fresh store, at most one transaction is in flight per sequence number, each
  record sits under its own number, no number is in flight and recyclable at once, and
  every recyclable number is at or ahead of the last known on-chain sequence.\<close>

theorem txstore_interleavings_wf:
  "store_wf (run_ops ops (NewTxStore n)) \<and> failed_ahead (run_ops ops (NewTxStore n))"
  by (simp add: store_wf_run failed_ahead_run)

text \<open>C10: The store refines the sequence-status specification: on a store whose used
  numbers are below nextSequence, each regular operation changes the status of exactly
  the number it names as the specification says (or, for ResyncNonce, retires everything
  behind the chain that is not in flight), and keeps the store in that shape.\<close>

theorem txstore_refines_spec:
  assumes "store_ok s" and "failed_ahead s" and "op_regular x s"
  shows "seq_abs (apply_op x s) = spec_op (lastOnchainSequence s) x (seq_abs s)
    \<and> store_ok (apply_op x s) \<and> failed_ahead (apply_op x s)"
  using apply_op_refines [OF assms] apply_op_ok [OF assms(1,3)] failed_ahead_apply [OF assms(2)]
  by blast

definition sample_store :: TxStore where
  "sample_store = run_ops [OpAdd 10 ''a'' 60 0, OpAdd 11 ''b'' 60 1, OpConfirm 10 ''a'' True]
     (NewTxStore 10)"

lemma sample_store_eq:
  "sample_store = \<lparr>nextSequence = 12,
     unconfirmedSequences = [(11, \<lparr>utx_Sequence = 11, utx_Hash = ''b'', utx_MaxLedger = 60, utx_Tx = 1\<rparr>)],
     failedSequences = [10], lastOnchainSequence = 10\<rparr>"
  by (simp add: sample_store_def NewTxStore_def AddUnconfirmed_def Confirm_def mark_failed_def i64_def
      AList.delete_eq)

lemma sample_store_ok: "store_ok sample_store" "failed_ahead sample_store"
  by (auto simp: sample_store_eq store_ok_def store_inv_defs failed_ahead_def in_i64_def)

theorem txstore_refines_spec_witness:
  "seq_abs (apply_op (OpConfirm 11 ''b'' False) sample_store) 11 = Retired
    \<and> store_ok (apply_op (OpConfirm 11 ''b'' False) sample_store)"
proof -
  have reg: "op_regular (OpConfirm 11 ''b'' False) sample_store" by simp
  have at: "seq_abs sample_store 11 = InFlight ''b'' 1" by (simp add: sample_store_eq seq_abs_def)
  show ?thesis
    using txstore_refines_spec [OF sample_store_ok reg] at by simp
qed

text \<open>C12: GetNextSequence plugs gaps: it returns an available number (recyclable or
  never allocated), and no smaller number is available.\<close>

theorem next_sequence_least_available:
  assumes "store_ok s"
  shows "available s (GetNextSequence s) \<and> (\<forall>n < GetNextSequence s. \<not> available s n)"
proof -
  have "available s (GetNextSequence s)"
    using GetNextSequence_free [of s] GetNextSequence_cases [of s] assms
    by (auto simp: available_iff store_ok_def)
  moreover have "\<not> available s n" if "n < GetNextSequence s" for n
    using that GetNextSequence_le_next [of s] GetNextSequence_le_failed [of n s]
    by (auto simp: available_iff)
  ultimately show ?thesis by blast
qed

theorem next_sequence_least_available_witness:
  "GetNextSequence sample_store = 10 \<and> available sample_store 10 \<and> \<not> available sample_store 9"
proof -
  have g: "GetNextSequence sample_store = 10" by (simp add: sample_store_eq GetNextSequence_def)
  show ?thesis
    using next_sequence_least_available [OF sample_store_ok(1)] unfolding g by simp
qed

text \<open>The broadcast loop takes transactions one after another; each accepted one claims
  the number GetNextSequence gave it.\<close>

fun submit_all :: "(string \<times> int \<times> tx_ref) list \<Rightarrow> TxStore \<Rightarrow> int list \<times> TxStore" where
  "submit_all [] s = ([], s)"
| "submit_all ((h, m, t) # ds) s =
     (case AddUnconfirmed (GetNextSequence s) h m t s of
        Ok s' \<Rightarrow> let (ns, s'') = submit_all ds s' in (GetNextSequence s # ns, s'')
      | _ \<Rightarrow> ([], s))"

lemma submit_all_claim_all: "submit_all ds s = seqs.claim_all ds s"
  by (induction ds s rule: submit_all.induct)
     (auto split: result.splits prod.splits)

text \<open>C13: A run of accepted broadcasts never fails to record a transaction and never
  uses a number twice: all get a number, the numbers are pairwise distinct, none of them
  was in flight before, and afterwards exactly the old and the new numbers are in flight.
  This holds as long as the 64-bit sequence counter has room for the run.\<close>

theorem broadcasts_get_distinct_sequences:
  assumes "store_ok s" and "length ds \<le> store_room s" and "submit_all ds s = (ns, s')"
  shows "length ns = length ds \<and> distinct ns \<and> set ns \<inter> inflight s = {}
    \<and> inflight s' = inflight s \<union> set ns"
  using seqs.claim_all_fresh [OF assms(1,2)] assms(3) by (simp add: submit_all_claim_all)

theorem broadcasts_get_distinct_sequences_witness:
  "\<exists>ns s'. submit_all [(''c'', 70, 2), (''d'', 70, 3)] sample_store = (ns, s') \<and>
     distinct ns \<and> length ns = 2"
proof -
  obtain ns s' where run: "submit_all [(''c'', 70, 2), (''d'', 70, 3)] sample_store = (ns, s')"
    by (metis surj_pair)
  have "length [(''c'', 70::int, 2::nat), (''d'', 70, 3)] \<le> store_room sample_store"
    by (simp add: sample_store_eq store_room_def)
  from broadcasts_get_distinct_sequences [OF sample_store_ok(1) this run] run show ?thesis by auto
qed

text \<open>The confirm loop's snapshot is faithful: GetUnconfirmed lists exactly the
  in-flight records, strictly ordered by sequence number, and Confirm accepts each of them
  with the hash the snapshot carries.\<close>

theorem unconfirmed_snapshot_confirmable:
  assumes "store_wf s"
  shows "map utx_Sequence (GetUnconfirmed s) = sorted_list_of_set (inflight s)
    \<and> (\<forall>u \<in> set (GetUnconfirmed s). is_Ok (Confirm (utx_Sequence u) (utx_Hash u) f s))"
proof -
  have "map (utx_Sequence \<circ> snd) (unconfirmedSequences s) = map fst (unconfirmedSequences s)"
    using assms by (auto simp: store_wf_def)
  then have "map utx_Sequence (GetUnconfirmed s) = sort (map fst (unconfirmedSequences s))"
    by (simp only: GetUnconfirmed_def map_sort_key map_map)
  also have "\<dots> = sorted_list_of_set (inflight s)"
    using assms sorted_list_of_set_sort_remdups [of "map fst (unconfirmedSequences s)"]
    by (simp add: store_wf_def inflight_def dom_map_of_conv_image_fst distinct_remdups_id)
  finally have 1: "map utx_Sequence (GetUnconfirmed s) = sorted_list_of_set (inflight s)" .
  have "is_Ok (Confirm (utx_Sequence u) (utx_Hash u) f s)" if "u \<in> set (GetUnconfirmed s)" for u
  proof -
    from that obtain k where "(k, u) \<in> set (unconfirmedSequences s)"
      by (auto simp: GetUnconfirmed_def)
    with assms have "map_of (unconfirmedSequences s) (utx_Sequence u) = Some u"
      by (auto simp: store_wf_def)
    then show ?thesis by (simp add: is_Ok_iff Confirm_Ok_iff del: map_of_eq_Some_iff)
  qed
  with 1 show ?thesis by blast
qed

theorem unconfirmed_snapshot_confirmable_witness:
  "map utx_Sequence (GetUnconfirmed sample_store) = [11]
    \<and> is_Ok (Confirm 11 ''b'' True sample_store)"
proof -
  have wf: "store_wf sample_store" using sample_store_ok by (simp add: store_ok_def)
  have "inflight sample_store = {11}" by (simp add: sample_store_eq inflight_def)
  with unconfirmed_snapshot_confirmable [OF wf] show ?thesis
    by (auto simp: sample_store_eq GetUnconfirmed_def)
qed

text \<open>C14: Releasing a number that was never broadcast (the broadcaster does so on every
  abort before SendTransaction, where the number is still nextSequence) makes the store
  hand the number out twice: after the next transaction is recorded at it, GetNextSequence
  returns it again although it is in flight, the following AddUnconfirmed at it fails, and
  the Release that this failure triggers drops the record of the transaction in flight, so
  the confirm loop never sees it again.\<close>

theorem release_of_fresh_sequence_double_allocates:
  assumes "store_ok s" and "failedSequences s = []" and "nextSequence s = q"
    and "lastOnchainSequence s \<le> q"
  shows "\<exists>s'. AddUnconfirmed (GetNextSequence (Release q s)) h m t (Release q s) = Ok s'
    \<and> q \<in> inflight s' \<and> GetNextSequence s' = q
    \<and> \<not> is_Ok (AddUnconfirmed (GetNextSequence s') h' m' t' s')
    \<and> q \<notin> inflight (Release (GetNextSequence s') s')"
proof -
  have fresh: "q \<notin> inflight s" using assms by (auto simp: store_ok_def below_next_def)
  have g: "GetNextSequence (Release q s) = q"
    using assms by (simp add: GetNextSequence_def)
  from fresh assms obtain s' where s': "AddUnconfirmed q h m t (Release q s) = Ok s'"
    by (auto simp: AddUnconfirmed_Ok_iff simp del: map_of_eq_Some_iff)
  then have fl: "failedSequences s' = []" and nx: "nextSequence s' = q" and inf: "q \<in> inflight s'"
    using assms by (auto simp: AddUnconfirmed_Ok_iff inflight_def)
  have g': "GetNextSequence s' = q" by (simp add: GetNextSequence_def fl nx)
  have "\<not> is_Ok (AddUnconfirmed q h' m' t' s')"
    using inf by (auto simp: is_Ok_iff AddUnconfirmed_Ok_iff simp del: not_is_Ok_cases)
  with g g' s' inf show ?thesis by auto
qed

theorem release_of_fresh_sequence_double_allocates_witness:
  "\<exists>s'. AddUnconfirmed 10 ''h'' 60 0 (Release 10 (NewTxStore 10)) = Ok s'
     \<and> 10 \<in> inflight s' \<and> GetNextSequence s' = 10"
proof -
  have ok: "store_ok (NewTxStore 10)"
    by (simp add: store_ok_def in_i64_def) (simp add: NewTxStore_def)
  have f: "failedSequences (NewTxStore 10) = []" "nextSequence (NewTxStore 10) = 10"
    "lastOnchainSequence (NewTxStore 10) \<le> 10"
    by (simp_all add: NewTxStore_def)
  have g: "GetNextSequence (Release 10 (NewTxStore 10)) = 10"
    by (simp add: GetNextSequence_def NewTxStore_def)
  show ?thesis
    using release_of_fresh_sequence_double_allocates [OF ok f, of "''h''" 60 0] unfolding g by blast
qed

end
