(* ===== verification/Float64.thy ===== *)
theory Float64
  imports Prelude "HOL-Library.Log_Nat"
begin

text \<open>
  The IEEE double arithmetic that relayer/txm/fee.go uses: conversion from and to
  64-bit integers, multiplication, \<open>math.Ceil\<close> and \<open>math.Pow\<close> with an integral
  exponent. A finite double is \<open>m * 2 ^ e\<close>; every operation computes the exact
  dyadic result and rounds it to nearest, ties to even, at 53 bits. The sign of zero is
  not tracked: no use in the sources observes it.
\<close>

section \<open>Values and rounding\<close>

datatype float64 = Fin int int | Inf bool | NaN

text \<open>Divide by \<open>2 ^ s\<close> and round to the nearest integer, ties to even.\<close>

definition rne :: "int \<Rightarrow> nat \<Rightarrow> int" where
  "rne m s = (let d = 2 ^ s; q = m div d; r = m mod d in
     if 2 * r < d then q else if d < 2 * r then q + 1 else if even q then q else q + 1)"

definition excess_bits :: "int \<Rightarrow> int \<Rightarrow> nat" where
  "excess_bits m e = nat (max (bitlen \<bar>m\<bar> - 53) (- 1074 - e))"

definition round53 :: "int \<Rightarrow> int \<Rightarrow> float64" where
  "round53 m e = (let s = excess_bits m e; q = rne m s; e' = e + int s in
     if bitlen \<bar>q\<bar> + e' > 1024 then Inf (q < 0) else Fin q e')"

definition of_int64 :: "int \<Rightarrow> float64" where
  "of_int64 i = round53 i 0"

fun fl_mul :: "float64 \<Rightarrow> float64 \<Rightarrow> float64" where
  "fl_mul (Fin a e) (Fin b f) = round53 (a * b) (e + f)"
| "fl_mul NaN y = NaN"
| "fl_mul x NaN = NaN"
| "fl_mul (Inf a) (Inf b) = Inf (a \<noteq> b)"
| "fl_mul (Inf a) (Fin b f) = (if b = 0 then NaN else Inf (a \<noteq> (b < 0)))"
| "fl_mul (Fin a e) (Inf b) = (if a = 0 then NaN else Inf (b \<noteq> (a < 0)))"

fun fl_ceil :: "float64 \<Rightarrow> float64" where
  "fl_ceil (Fin m e) = (if e \<ge> 0 then Fin m e else Fin (- ((- m) div 2 ^ nat (- e))) 0)"
| "fl_ceil x = x"

text \<open>Conversion to int64 truncates. A value outside the range of the type is converted
  as the amd64 instruction set does it: to the least int64.\<close>

fun trunc_fin :: "int \<Rightarrow> int \<Rightarrow> int" where
  "trunc_fin m e = (if e \<ge> 0 then m * 2 ^ nat e else sgn m * (\<bar>m\<bar> div 2 ^ nat (- e)))"

fun to_int64 :: "float64 \<Rightarrow> int" where
  "to_int64 (Fin m e) = (let t = trunc_fin m e in if in_i64 t then t else - (2 ^ 63))"
| "to_int64 x = - (2 ^ 63)"

section \<open>math.Pow\<close>

text \<open>The loop of \<open>math.Pow\<close> for an integral exponent: square-and-multiply on the
  fraction \<open>x1\<close> with its exponent \<open>xe\<close> kept apart (\<open>math.Frexp\<close>), and a final
  \<open>math.Ldexp\<close>.\<close>

fun fl_less_half :: "float64 \<Rightarrow> bool" where
  "fl_less_half (Fin m e) = (if e + 1 \<ge> 0 then m * 2 ^ nat (e + 1) < 1 else m < 2 ^ nat (- (e + 1)))"
| "fl_less_half (Inf neg) = neg"
| "fl_less_half NaN = False"

fun fl_double :: "float64 \<Rightarrow> float64" where
  "fl_double (Fin m e) = round53 m (e + 1)"
| "fl_double x = x"

function pow_loop :: "nat \<Rightarrow> float64 \<Rightarrow> int \<Rightarrow> float64 \<Rightarrow> int \<Rightarrow> float64 \<times> int" where
  "pow_loop i a1 ae x1 xe =
     (if i = 0 then (a1, ae)
      else if xe < - (2 ^ 12) \<or> 2 ^ 12 < xe then (a1, ae + xe)
      else
        let (a1', ae') = (if odd i then (fl_mul a1 x1, ae + xe) else (a1, ae));
            x2 = fl_mul x1 x1; xe2 = 2 * xe;
            (x3, xe3) = (if fl_less_half x2 then (fl_double x2, xe2 - 1) else (x2, xe2))
        in pow_loop (i div 2) a1' ae' x3 xe3)"
  by pat_completeness auto
termination
  by (relation "measure (\<lambda>(i, a1, ae, x1, xe). i)") auto

declare pow_loop.simps [simp del]

fun fl_ldexp :: "float64 \<Rightarrow> int \<Rightarrow> float64" where
  "fl_ldexp (Fin m e) k = (if m = 0 then Fin 0 0 else round53 m (e + k))"
| "fl_ldexp x k = x"

definition fl_is_one :: "float64 \<Rightarrow> bool" where
  "fl_is_one x = (case x of Fin m e \<Rightarrow> e \<le> 0 \<and> m = 2 ^ nat (- e) \<or> 0 < e \<and> m * 2 ^ nat e = 1 | _ \<Rightarrow> False)"

text \<open>\<open>math.Pow(x, float64(n))\<close> for a natural number \<open>n\<close>.\<close>

definition fl_pow :: "float64 \<Rightarrow> nat \<Rightarrow> float64" where
  "fl_pow x n =
     (if n = 0 \<or> fl_is_one x then Fin 1 0
      else if n = 1 then x
      else case x of
        NaN \<Rightarrow> NaN
      | Inf neg \<Rightarrow> Inf (neg \<and> odd n)
      | Fin m e \<Rightarrow>
          if m = 0 then Fin 0 0
          else let b = bitlen \<bar>m\<bar>; (a1, ae) = pow_loop n (Fin 1 0) 0 (Fin m (- b)) (e + b)
               in fl_ldexp a1 ae)"

section \<open>Rounding never drops below a smaller integer\<close>

lemma rne_ge_div: "m div 2 ^ s \<le> rne m s"
  by (simp add: rne_def Let_def)

lemma rne_0 [simp]: "rne m 0 = m"
  by (simp add: rne_def)

lemma div_ge_of_mult_le: "c * 2 ^ s \<le> m \<Longrightarrow> c \<le> m div (2 ^ s :: int)"
  by (simp add: zdiv_mono1 [of "c * 2 ^ s" m "2 ^ s", simplified])

lemma bitlen_le_53: "\<bar>c\<bar> < 2 ^ 53 \<Longrightarrow> bitlen \<bar>c\<bar> \<le> 53"
  using bitlen_le_iff_power [of "\<bar>c\<bar>" 53] by (cases "c = 0") auto

lemma of_int64_exact: "\<bar>c\<bar> < 2 ^ 53 \<Longrightarrow> of_int64 c = Fin c 0"
  using bitlen_le_53 [of c] by (simp add: of_int64_def round53_def excess_bits_def Let_def)

text \<open>A multiplier of at least one: \<open>m * 2 ^ e \<ge> 1\<close>.\<close>

definition ge_one :: "int \<Rightarrow> int \<Rightarrow> bool" where
  "ge_one m e \<longleftrightarrow> 0 < m \<and> (e < 0 \<longrightarrow> 2 ^ nat (- e) \<le> m)"

lemma rne_big:
  assumes "0 < p" and "excess_bits p e = s" and "0 < s" and "0 \<le> e + int s"
  shows "2 ^ 52 \<le> rne p s"
proof -
  from assms have "bitlen p = int s + 53"
    by (auto simp: excess_bits_def max_def split: if_splits)
  with bitlen_bounds [OF assms(1)] have "2 ^ nat (int s + 52) \<le> p"
    by (simp add: add.commute)
  moreover have "(2 :: int) ^ nat (int s + 52) = 2 ^ 52 * 2 ^ s"
    by (simp add: nat_add_distrib power_add)
  ultimately have "2 ^ 52 \<le> p div 2 ^ s"
    by (intro div_ge_of_mult_le) simp
  with rne_ge_div [of p s] show ?thesis by linarith
qed

lemma ge_one_scaled:
  assumes "ge_one m e" and "0 \<le> c" and "e + int s \<le> 0"
  shows "c * 2 ^ nat (- (e + int s)) \<le> (c * m) div 2 ^ s"
proof (rule div_ge_of_mult_le)
  have "nat (- (e + int s)) + s = nat (- e)" using assms(3) by simp
  then have "c * 2 ^ nat (- (e + int s)) * 2 ^ s = c * 2 ^ nat (- e)"
    by (metis mult.assoc power_add)
  also have "\<dots> \<le> c * m"
  proof (cases "e < 0")
    case True
    with assms show ?thesis by (auto simp: ge_one_def intro: mult_left_mono)
  next
    case False
    with assms have "c * 1 \<le> c * m" by (intro mult_left_mono) (auto simp: ge_one_def)
    with False show ?thesis by simp
  qed
  finally show "c * 2 ^ nat (- (e + int s)) * 2 ^ s \<le> c * m" .
qed

lemma round53_Fin_or_Inf:
  "round53 p e = Fin (rne p (excess_bits p e)) (e + int (excess_bits p e)) \<or>
   (\<exists>b. round53 p e = Inf b)"
  by (auto simp: round53_def Let_def)

lemma ceil_trunc_ge:
  assumes "ge_one m e" and "0 < c" and "c < 2 ^ 53"
    and s: "s = excess_bits (c * m) e" and q: "q = rne (c * m) s" and e': "e' = e + int s"
  shows "case fl_ceil (Fin q e') of Fin a k \<Rightarrow> c \<le> trunc_fin a k | _ \<Rightarrow> False"
proof (cases "e' < 0")
  case True
  have "c * 2 ^ nat (- e') \<le> q"
    using ge_one_scaled [OF assms(1), of c s] rne_ge_div [of "c * m" s] True assms(2) e' q by simp
  then have "(- q) div 2 ^ nat (- e') \<le> (- c * 2 ^ nat (- e')) div 2 ^ nat (- e')"
    by (intro zdiv_mono1) auto
  then have "(- q) div 2 ^ nat (- e') \<le> - c"
    by (simp only: nonzero_mult_div_cancel_right [OF power_not_zero [OF zero_neq_numeral [symmetric]]])
  with True show ?thesis by simp
next
  case False
  have pos: "0 < c * m" using assms(1,2) by (simp add: ge_one_def)
  have "c \<le> q * 2 ^ nat e'"
  proof (cases "s = 0")
    case True
    then have "c * m * 1 \<le> q * 2 ^ nat e'"
      using pos q by (intro mult_mono) auto
    moreover have "c * 1 \<le> c * m" using assms(1,2) by (intro mult_left_mono) (auto simp: ge_one_def)
    ultimately show ?thesis by simp
  next
    case sp: False
    show ?thesis
    proof (cases "e' = 0")
      case True
      then show ?thesis
        using ge_one_scaled [OF assms(1), of c s] rne_ge_div [of "c * m" s] assms(2) e' q by simp
    next
      case en: False
      have big: "2 ^ 52 \<le> q"
        using rne_big [OF pos s [symmetric]] sp False e' q by simp
      have "(2 :: int) ^ 1 \<le> 2 ^ nat e'" using False en by (intro power_increasing) auto
      with big have "2 ^ 52 * 2 ^ 1 \<le> q * 2 ^ nat e'" by (intro mult_mono) auto
      with assms(3) show ?thesis by simp
    qed
  qed
  with False show ?thesis by simp
qed

lemma mul_ceil_ge:
  assumes "ge_one m e" and "0 \<le> c" and "c < 2 ^ 53"
  defines "r \<equiv> to_int64 (fl_ceil (fl_mul (of_int64 c) (Fin m e)))"
  shows "r = - (2 ^ 63) \<or> c \<le> r"
proof (cases "c = 0")
  case True
  have "fl_mul (of_int64 c) (Fin m e) = Fin 0 (e + int (excess_bits 0 e)) \<or>
    (\<exists>b. fl_mul (of_int64 c) (Fin m e) = Inf b)"
    using True round53_Fin_or_Inf [of 0 e] by (auto simp: of_int64_exact rne_def Let_def)
  with True show ?thesis by (auto simp: r_def in_i64_def split: if_splits)
next
  case False
  have prod: "fl_mul (of_int64 c) (Fin m e) = round53 (c * m) e"
    using assms(2,3) by (simp add: of_int64_exact)
  show ?thesis
    using round53_Fin_or_Inf [of "c * m" e]
  proof
    assume fin: "round53 (c * m) e = Fin (rne (c * m) (excess_bits (c * m) e)) (e + int (excess_bits (c * m) e))"
    show ?thesis
      using ceil_trunc_ge [OF assms(1) _ assms(3) refl refl refl] False assms(2)
      by (auto simp: r_def prod fin Let_def split: float64.splits simp del: fl_ceil.simps trunc_fin.simps)
  next
    assume "\<exists>b. round53 (c * m) e = Inf b"
    then show ?thesis by (auto simp: r_def prod)
  qed
qed

end
