(* ===== verification/Txm_Config.thy ===== *)
theory Txm_Config
  imports Float64
begin

text \<open>
  The transaction manager's configuration (relayer/txm/config.go). A pointer field is
  an option: \<open>None\<close> is "not set by the user". Durations are nanoseconds, as
  \<open>time.Duration\<close> counts them.
\<close>

section \<open>The configuration record\<close>

record Config =
  BroadcastChanSize :: "int option"
  ConfirmPollInterval :: "int option"
  BaseInclusionFee :: "int option"
  MaxInclusionFee :: "int option"
  FeeBumpMultiplier :: "float64 option"
  ResourceFeeBuffer :: "int option"
  RestoreFeeBuffer :: "int option"
  FeeStatsPollInterval :: "int option"
  MaxSimulateAttempts :: "int option"
  MaxSubmitRetryAttempts :: "int option"
  SubmitRetryDelay :: "int option"
  TxTimeoutSecs :: "int option"
  LedgerBoundsOffset :: "int option"
  MaxTxRetryAttempts :: "int option"
  MaxGetClientRetryAttempts :: "int option"
  MaxRestoreAttempts :: "int option"
  SimulationTerminalHints :: "string list"
  SimulationRetryableHints :: "string list"
  PruneInterval :: "int option"
  PruneTxExpiration :: "int option"

definition builtinSimulationTerminalHints :: "string list" where
  "builtinSimulationTerminalHints =
     [''error(contract'', ''contract error'', ''trapped'', ''trap'', ''malformed'', ''bad auth'',
      ''invalid'', ''unknown function'', ''no such contract'']"

definition builtinSimulationRetryableHints :: "string list" where
  "builtinSimulationRetryableHints =
     [''timeout'', ''temporarily unavailable'', ''try_again_later'', ''too many requests'',
      ''rate limit'', ''connection refused'', ''connection reset'', ''eof'', ''bad_seq'',
      ''tx_bad_seq'', ''sequence'', ''stale'', ''ledger'']"

abbreviation second :: int where
  "second \<equiv> 1000000000"

definition DefaultConfigSet :: Config where
  "DefaultConfigSet =
     \<lparr>BroadcastChanSize = Some 100,
      ConfirmPollInterval = Some (3 * second),
      BaseInclusionFee = Some 100,
      MaxInclusionFee = Some 100000,
      FeeBumpMultiplier = Some (Fin 3 (-1)),
      ResourceFeeBuffer = Some 15000,
      RestoreFeeBuffer = Some 10000,
      FeeStatsPollInterval = Some (5 * second),
      MaxSimulateAttempts = Some 3,
      MaxSubmitRetryAttempts = Some 10,
      SubmitRetryDelay = Some (3 * second),
      TxTimeoutSecs = Some 300,
      LedgerBoundsOffset = Some 50,
      MaxTxRetryAttempts = Some 5,
      MaxGetClientRetryAttempts = Some 10,
      MaxRestoreAttempts = Some 3,
      SimulationTerminalHints = [],
      SimulationRetryableHints = [],
      PruneInterval = Some (10 * 60 * second),
      PruneTxExpiration = Some (2 * 3600 * second)\<rparr>"

text \<open>The loop over one hint list: \<open>seen\<close> and \<open>out\<close> always hold the same strings.\<close>

fun append_unseen :: "string list \<Rightarrow> string list \<Rightarrow> string list" where
  "append_unseen [] out = out"
| "append_unseen (h # hs) out = append_unseen hs (if h \<in> set out then out else out @ [h])"

definition mergeSimulationHintLists :: "string list \<Rightarrow> string list \<Rightarrow> string list" where
  "mergeSimulationHintLists builtin extra =
     (if extra = [] then builtin else append_unseen extra (append_unseen builtin []))"

definition or_default :: "'a option \<Rightarrow> 'a option \<Rightarrow> 'a option" where
  "or_default x d = (case x of None \<Rightarrow> d | Some v \<Rightarrow> Some v)"

definition Resolve :: "Config \<Rightarrow> Config" where
  "Resolve c =
     \<lparr>BroadcastChanSize = or_default (BroadcastChanSize c) (BroadcastChanSize DefaultConfigSet),
      ConfirmPollInterval = or_default (ConfirmPollInterval c) (ConfirmPollInterval DefaultConfigSet),
      BaseInclusionFee = or_default (BaseInclusionFee c) (BaseInclusionFee DefaultConfigSet),
      MaxInclusionFee = or_default (MaxInclusionFee c) (MaxInclusionFee DefaultConfigSet),
      FeeBumpMultiplier = or_default (FeeBumpMultiplier c) (FeeBumpMultiplier DefaultConfigSet),
      ResourceFeeBuffer = or_default (ResourceFeeBuffer c) (ResourceFeeBuffer DefaultConfigSet),
      RestoreFeeBuffer = or_default (RestoreFeeBuffer c) (RestoreFeeBuffer DefaultConfigSet),
      FeeStatsPollInterval = or_default (FeeStatsPollInterval c) (FeeStatsPollInterval DefaultConfigSet),
      MaxSimulateAttempts = or_default (MaxSimulateAttempts c) (MaxSimulateAttempts DefaultConfigSet),
      MaxSubmitRetryAttempts = or_default (MaxSubmitRetryAttempts c) (MaxSubmitRetryAttempts DefaultConfigSet),
      SubmitRetryDelay = or_default (SubmitRetryDelay c) (SubmitRetryDelay DefaultConfigSet),
      TxTimeoutSecs = or_default (TxTimeoutSecs c) (TxTimeoutSecs DefaultConfigSet),
      LedgerBoundsOffset = or_default (LedgerBoundsOffset c) (LedgerBoundsOffset DefaultConfigSet),
      MaxTxRetryAttempts = or_default (MaxTxRetryAttempts c) (MaxTxRetryAttempts DefaultConfigSet),
      MaxGetClientRetryAttempts = or_default (MaxGetClientRetryAttempts c) (MaxGetClientRetryAttempts DefaultConfigSet),
      MaxRestoreAttempts = or_default (MaxRestoreAttempts c) (MaxRestoreAttempts DefaultConfigSet),
      SimulationTerminalHints = mergeSimulationHintLists builtinSimulationTerminalHints (SimulationTerminalHints c),
      SimulationRetryableHints = mergeSimulationHintLists builtinSimulationRetryableHints (SimulationRetryableHints c),
      PruneInterval = or_default (PruneInterval c) (PruneInterval DefaultConfigSet),
      PruneTxExpiration = or_default (PruneTxExpiration c) (PruneTxExpiration DefaultConfigSet)\<rparr>"

text \<open>What the rest of the manager relies on after \<open>Resolve\<close>: no pointer field is nil.\<close>

definition resolved :: "Config \<Rightarrow> bool" where
  "resolved c \<longleftrightarrow> BroadcastChanSize c \<noteq> None \<and> ConfirmPollInterval c \<noteq> None \<and>
     BaseInclusionFee c \<noteq> None \<and> MaxInclusionFee c \<noteq> None \<and> FeeBumpMultiplier c \<noteq> None \<and>
     ResourceFeeBuffer c \<noteq> None \<and> RestoreFeeBuffer c \<noteq> None \<and> FeeStatsPollInterval c \<noteq> None \<and>
     MaxSimulateAttempts c \<noteq> None \<and> MaxSubmitRetryAttempts c \<noteq> None \<and> SubmitRetryDelay c \<noteq> None \<and>
     TxTimeoutSecs c \<noteq> None \<and> LedgerBoundsOffset c \<noteq> None \<and> MaxTxRetryAttempts c \<noteq> None \<and>
     MaxGetClientRetryAttempts c \<noteq> None \<and> MaxRestoreAttempts c \<noteq> None \<and>
     PruneInterval c \<noteq> None \<and> PruneTxExpiration c \<noteq> None"

section \<open>Merging hint lists\<close>

lemma append_unseen_set: "set (append_unseen hs out) = set out \<union> set hs"
  by (induction hs arbitrary: out) auto

lemma append_unseen_distinct: "distinct out \<Longrightarrow> distinct (append_unseen hs out)"
  by (induction hs arbitrary: out) auto

lemma append_unseen_prefix: "\<exists>ys. append_unseen hs out = out @ ys"
proof (induction hs arbitrary: out)
  case (Cons h hs)
  then obtain ys where "append_unseen hs (if h \<in> set out then out else out @ [h]) =
      (if h \<in> set out then out else out @ [h]) @ ys" by blast
  then show ?case by (cases "h \<in> set out") auto
qed simp

lemma append_unseen_subset: "set hs \<subseteq> set out \<Longrightarrow> append_unseen hs out = out"
  by (induction hs arbitrary: out) auto

lemma append_unseen_fresh: "distinct hs \<Longrightarrow> set hs \<inter> set out = {} \<Longrightarrow> append_unseen hs out = out @ hs"
  by (induction hs arbitrary: out) auto

lemma append_unseen_builtin: "distinct b \<Longrightarrow> append_unseen b [] = b"
  by (simp add: append_unseen_fresh)

lemma merge_set: "set (mergeSimulationHintLists b x) = set b \<union> set x"
  by (auto simp: mergeSimulationHintLists_def append_unseen_set)

lemma merge_distinct: "distinct b \<Longrightarrow> distinct (mergeSimulationHintLists b x)"
  by (simp add: mergeSimulationHintLists_def append_unseen_distinct)

lemma merge_prefix: "distinct b \<Longrightarrow> \<exists>ys. mergeSimulationHintLists b x = b @ ys"
  using append_unseen_prefix [of x b]
  by (auto simp: mergeSimulationHintLists_def append_unseen_builtin)

lemma merge_absorb:
  assumes "distinct b"
  shows "mergeSimulationHintLists b (mergeSimulationHintLists b x) = mergeSimulationHintLists b x"
proof -
  have "append_unseen (append_unseen x b) b = append_unseen x b"
  proof -
    obtain ys where ys: "append_unseen x b = b @ ys" using append_unseen_prefix by blast
    have "distinct (b @ ys)" using append_unseen_distinct [OF assms, of x] ys by simp
    moreover have "append_unseen (b @ ys) b = append_unseen ys b"
    proof -
      have "append_unseen (us @ vs) out = append_unseen vs (append_unseen us out)" for us vs out
        by (induction us arbitrary: out) auto
      then show ?thesis by (simp add: append_unseen_subset)
    qed
    ultimately show ?thesis by (simp add: ys append_unseen_fresh Int_commute)
  qed
  with assms show ?thesis
    by (auto simp: mergeSimulationHintLists_def append_unseen_builtin append_unseen_subset)
qed

lemma or_default_absorb [simp]: "or_default (or_default x d) d = or_default x d"
  by (simp add: or_default_def split: option.splits)

lemma or_default_Some [simp]: "or_default (Some v) d = Some v"
  by (simp add: or_default_def)

lemma or_default_not_None [simp]: "or_default x (Some d) \<noteq> None"
  by (simp add: or_default_def split: option.splits)

lemma builtin_hints_distinct:
  "distinct builtinSimulationTerminalHints" "distinct builtinSimulationRetryableHints"
  by (simp_all add: builtinSimulationTerminalHints_def builtinSimulationRetryableHints_def)

lemma resolved_Resolve [simp]: "resolved (Resolve c)"
  by (simp add: resolved_def Resolve_def DefaultConfigSet_def)

section \<open>Properties\<close>

text \<open>Resolve is idempotent and leaves no pointer field nil; resolving keeps every value
  the user set, and the two hint lists come out duplicate-free, with the built-in hints
  first and exactly the built-in and user hints in them.\<close>

theorem config_resolve_correct:
  "Resolve (Resolve c) = Resolve c \<and> resolved (Resolve c)
   \<and> (MaxInclusionFee c = Some v \<longrightarrow> MaxInclusionFee (Resolve c) = Some v)
   \<and> distinct (SimulationTerminalHints (Resolve c))
   \<and> distinct (SimulationRetryableHints (Resolve c))
   \<and> (\<exists>ys. SimulationTerminalHints (Resolve c) = builtinSimulationTerminalHints @ ys)
   \<and> set (SimulationTerminalHints (Resolve c)) =
       set builtinSimulationTerminalHints \<union> set (SimulationTerminalHints c)
   \<and> set (SimulationRetryableHints (Resolve c)) =
       set builtinSimulationRetryableHints \<union> set (SimulationRetryableHints c)"
proof -
  have "Resolve (Resolve c) = Resolve c"
    by (simp add: Resolve_def merge_absorb builtin_hints_distinct)
  then show ?thesis
    by (simp add: Resolve_def [of c] merge_set merge_distinct merge_prefix builtin_hints_distinct
        resolved_Resolve [unfolded Resolve_def])
qed

definition sample_config :: Config where
  "sample_config = DefaultConfigSet\<lparr>BroadcastChanSize := None, MaxInclusionFee := Some 777,
     SimulationTerminalHints := [''trap'', ''custom'']\<rparr>"

theorem config_resolve_correct_witness:
  "MaxInclusionFee (Resolve sample_config) = Some 777
   \<and> SimulationTerminalHints (Resolve sample_config) = builtinSimulationTerminalHints @ [''custom'']"
proof -
  have "MaxInclusionFee sample_config = Some 777" by (simp add: sample_config_def)
  with config_resolve_correct [of sample_config 777]
  have "MaxInclusionFee (Resolve sample_config) = Some 777" by blast
  moreover have "SimulationTerminalHints (Resolve sample_config) = builtinSimulationTerminalHints @ [''custom'']"
    by (simp add: Resolve_def sample_config_def mergeSimulationHintLists_def
        builtinSimulationTerminalHints_def)
  ultimately show ?thesis by blast
qed

end
