(* ===== verification/Fee.thy ===== *)
theory Fee
  imports Txm_Config
begin

text \<open>
  Fee calculation (relayer/txm/fee.go) and the cache of network fee percentiles
  (relayer/txm/fee_tracker.go). Stroop amounts are int64 with wrap-around, the bump
  multiplier is an IEEE double. Instants are nanoseconds since Go's zero time.
\<close>

section \<open>FeeStrategy\<close>

record FeeStrategy =
  fs_BaseInclusionFee :: int
  fs_MaxInclusionFee :: int
  fs_BumpMultiplier :: float64
  fs_ResourceFeeBuffer :: int

definition NewFeeStrategyFromConfig :: "Config \<Rightarrow> FeeStrategy" where
  "NewFeeStrategyFromConfig cfg =
     \<lparr>fs_BaseInclusionFee = the (BaseInclusionFee cfg),
      fs_MaxInclusionFee = the (MaxInclusionFee cfg),
      fs_BumpMultiplier = the (FeeBumpMultiplier cfg),
      fs_ResourceFeeBuffer = the (ResourceFeeBuffer cfg)\<rparr>"

text \<open>\<open>float64(attempt)\<close> is a natural number; \<open>exponent\<close> reads it back.\<close>

definition exponent :: "int \<Rightarrow> nat" where
  "exponent attempt = (case of_int64 attempt of Fin m e \<Rightarrow> nat (trunc_fin m e) | _ \<Rightarrow> 0)"

definition InclusionFee :: "FeeStrategy \<Rightarrow> int \<Rightarrow> int" where
  "InclusionFee f attempt =
     (if attempt = 0 then fs_BaseInclusionFee f
      else
        let fee = fl_mul (of_int64 (fs_BaseInclusionFee f)) (fl_pow (fs_BumpMultiplier f) (exponent attempt));
            res = to_int64 (fl_ceil fee)
        in if res > fs_MaxInclusionFee f then fs_MaxInclusionFee f else res)"

definition Calculate :: "FeeStrategy \<Rightarrow> int \<Rightarrow> int \<Rightarrow> int" where
  "Calculate f minResourceFee attempt =
     (let inclusionFee = InclusionFee f attempt;
          resourceFee = i64 (minResourceFee + fs_ResourceFeeBuffer f)
      in i64 (inclusionFee + resourceFee))"

definition CalculateRestoreFee :: "FeeStrategy \<Rightarrow> int \<Rightarrow> int \<Rightarrow> int" where
  "CalculateRestoreFee f preambleMinResourceFee restoreFeeBuffer =
     i64 (preambleMinResourceFee + restoreFeeBuffer)"

definition SeedInclusionFee :: "FeeStrategy \<Rightarrow> int \<Rightarrow> int \<Rightarrow> int \<times> bool" where
  "SeedInclusionFee f attempt networkPercentile =
     (let fee0 = InclusionFee f attempt;
          networkFee = i64 networkPercentile;
          fee = (if networkFee > fee0 then networkFee else fee0)
      in if fee > fs_MaxInclusionFee f then (fs_MaxInclusionFee f, True) else (fee, False))"

definition BumpInclusionFee :: "FeeStrategy \<Rightarrow> int \<Rightarrow> int \<Rightarrow> int \<times> bool" where
  "BumpInclusionFee f currentInclusionFee networkPercentile =
     (let bumped0 = to_int64 (fl_ceil (fl_mul (of_int64 currentInclusionFee) (fs_BumpMultiplier f)));
          networkFee = i64 networkPercentile;
          bumped = (if networkFee > bumped0 then networkFee else bumped0)
      in if bumped > fs_MaxInclusionFee f then (fs_MaxInclusionFee f, True) else (bumped, False))"

section \<open>feeTracker\<close>

record feeTracker =
  pollInterval :: int
  haveData :: bool
  fetchedAt :: int
  p50 :: int
  p90 :: int

definition newFeeTracker :: "int \<Rightarrow> feeTracker" where
  "newFeeTracker interval =
     \<lparr>pollInterval = interval, haveData = False, fetchedAt = 0, p50 = 0, p90 = 0\<rparr>"

text \<open>\<open>Time.Sub\<close> saturates at the range of \<open>time.Duration\<close>.\<close>

definition time_sub :: "int \<Rightarrow> int \<Rightarrow> int" where
  "time_sub t u = max (- (2 ^ 63)) (min (2 ^ 63 - 1) (t - u))"

definition fresh_enough :: "int \<Rightarrow> feeTracker \<Rightarrow> bool" where
  "fresh_enough now t \<longleftrightarrow>
     pollInterval t > 0 \<and> haveData t \<and> time_sub now (fetchedAt t) < pollInterval t"

text \<open>\<open>resp\<close> is what \<open>client.GetFeeStats\<close> answers if it is asked: the Soroban P50 and P90.\<close>

definition sorobanInclusionPercentiles ::
    "int \<Rightarrow> (int \<times> int) result \<Rightarrow> feeTracker \<Rightarrow> (int \<times> int) result \<times> feeTracker" where
  "sorobanInclusionPercentiles now resp t =
     (if fresh_enough now t then (Ok (p50 t, p90 t), t)
      else case resp of
        Ok (a, b) \<Rightarrow> (Ok (a, b), t\<lparr>p50 := a, p90 := b, fetchedAt := now, haveData := True\<rparr>)
      | Err fetchErr \<Rightarrow> if haveData t then (Ok (p50 t, p90 t), t) else (Err fetchErr, t)
      | Panic p \<Rightarrow> (Panic p, t))"

section \<open>Fee bounds\<close>

lemma to_int64_in_range: "in_i64 (to_int64 x)"
  by (cases x) (auto simp: Let_def in_i64_def)

lemma InclusionFee_le_max: "attempt \<noteq> 0 \<Longrightarrow> InclusionFee f attempt \<le> fs_MaxInclusionFee f"
  by (simp add: InclusionFee_def Let_def)

text \<open>Both bidding functions are the greater of a local and a network bid, clamped.\<close>

definition clamp_bid :: "int \<Rightarrow> int \<Rightarrow> int \<times> bool" where
  "clamp_bid cap bid = (min bid cap, cap < bid)"

lemma SeedInclusionFee_eq:
  "SeedInclusionFee f a n = clamp_bid (fs_MaxInclusionFee f) (max (InclusionFee f a) (i64 n))"
  by (auto simp: SeedInclusionFee_def clamp_bid_def Let_def)

lemma BumpInclusionFee_eq:
  "BumpInclusionFee f c n = clamp_bid (fs_MaxInclusionFee f)
     (max (to_int64 (fl_ceil (fl_mul (of_int64 c) (fs_BumpMultiplier f)))) (i64 n))"
  by (auto simp: BumpInclusionFee_def clamp_bid_def Let_def)

text \<open>A multiplier below \<open>2 ^ 9\<close> cannot push a bid below \<open>2 ^ 53\<close> out of int64.\<close>

definition moderate :: "int \<Rightarrow> int \<Rightarrow> bool" where
  "moderate m e \<longleftrightarrow> (if e < 0 then m < 2 ^ 9 * 2 ^ nat (- e) else m * 2 ^ nat e < 2 ^ 9)"

lemma rne_le_Suc: "rne m s \<le> m div 2 ^ s + 1"
  by (simp add: rne_def Let_def)


lemma moderate_product:
  assumes "moderate m e" and "0 < m" and "0 < c" and "c < 2 ^ 53"
  shows "e \<le> 9 \<and> c * m < 2 ^ nat (62 - e)"
proof (cases "e < 0")
  case True
  have "c * m < 2 ^ 53 * (2 ^ 9 * 2 ^ nat (- e))"
    using assms True by (intro mult_strict_mono) (auto simp: moderate_def)
  also have "\<dots> = 2 ^ nat (62 - e)"
  proof -
    have "nat (62 - e) = 62 + nat (- e)" using True by simp
    then show ?thesis by (simp add: power_add)
  qed
  finally show ?thesis using True by simp
next
  case False
  with assms have lt: "m * 2 ^ nat e < 2 ^ 9" by (simp add: moderate_def)
  have "1 * (2 :: int) ^ nat e \<le> m * 2 ^ nat e" using assms(2) by (intro mult_right_mono) auto
  with lt have "(2 :: int) ^ nat e < 2 ^ 9" by linarith
  then have "nat e < 9" by (rule power_less_imp_less_exp [rotated]) simp
  then have e: "e \<le> 9" by linarith
  have "c * (m * 2 ^ nat e) < 2 ^ 53 * 2 ^ 9"
    using assms lt by (intro mult_strict_mono) auto
  also have "\<dots> = 2 ^ nat (62 - e) * (2 ^ nat e :: int)"
    using False e by (simp flip: power_add nat_add_distrib)
  finally have "c * m * 2 ^ nat e < 2 ^ nat (62 - e) * 2 ^ nat e" by (simp add: mult.assoc)
  then have "c * m < 2 ^ nat (62 - e)" by (rule mult_right_less_imp_less) simp
  with e show ?thesis by simp
qed

lemma rounded_bound:
  assumes "0 < p" and "e \<le> 9" and "p < 2 ^ nat (62 - e)"
    and s: "s = excess_bits p e" and q: "q = rne p s" and e': "e' = e + int s"
  shows "e' \<le> 9 \<and> q \<le> 2 ^ nat (62 - e')"
proof -
  have "bitlen p \<le> int (nat (62 - e))"
    using bitlen_le_iff_power [of p "62 - e"] assms(1-3) by simp
  then have e9: "e' \<le> 9" and s': "int s \<le> 62 - e"
    using assms(1,2) by (auto simp: s e' excess_bits_def)
  have "nat (62 - e) = nat (62 - e') + s" using e9 by (simp add: e')
  with assms(3) have "p < 2 ^ nat (62 - e') * 2 ^ s" by (simp add: power_add)
  moreover have "p div 2 ^ s * 2 ^ s \<le> p"
    using div_mult_mod_eq [of p "2 ^ s"] pos_mod_sign [of "2 ^ s" p, OF zero_less_power, OF zero_less_numeral]
    by linarith
  ultimately have "p div 2 ^ s * 2 ^ s < 2 ^ nat (62 - e') * 2 ^ s" by linarith
  then have "p div 2 ^ s < 2 ^ nat (62 - e')" by (rule mult_right_less_imp_less) simp
  with rne_le_Suc [of p s] e9 show ?thesis by (simp add: q)
qed

lemma ceil_trunc_le:
  assumes "e' \<le> 9" and "q \<le> 2 ^ nat (62 - e')"
  shows "case fl_ceil (Fin q e') of Fin a k \<Rightarrow> trunc_fin a k \<le> 2 ^ 62 | _ \<Rightarrow> False"
proof (cases "0 \<le> e'")
  case True
  have "q * 2 ^ nat e' \<le> 2 ^ nat (62 - e') * 2 ^ nat e'"
    using assms(2) by (intro mult_right_mono) auto
  also have "\<dots> = (2 ^ 62 :: int)"
    using True assms(1) by (simp flip: power_add nat_add_distrib)
  finally show ?thesis using True by simp
next
  case False
  have "nat (62 - e') = 62 + nat (- e')" using False by simp
  with assms(2) have "- (2 ^ 62) * 2 ^ nat (- e') \<le> - q" by (simp add: power_add)
  then have "- (2 ^ 62) \<le> - q div 2 ^ nat (- e')" by (rule div_ge_of_mult_le)
  then show ?thesis using False by simp
qed

lemma bid_in_range:
  assumes ge: "ge_one m e" and mod: "moderate m e" and c: "0 < c" "c < 2 ^ 53"
  shows "c \<le> to_int64 (fl_ceil (fl_mul (of_int64 c) (Fin m e)))"
proof -
  define s where "s = excess_bits (c * m) e"
  define q where "q = rne (c * m) s"
  define e' where "e' = e + int s"
  have m: "0 < m" using ge by (simp add: ge_one_def)
  have b: "e' \<le> 9 \<and> q \<le> 2 ^ nat (62 - e')"
    using rounded_bound [OF _ _ _ s_def q_def e'_def] moderate_product [OF mod m c] m c by simp
  have prod: "fl_mul (of_int64 c) (Fin m e) = round53 (c * m) e"
    using c by (simp add: of_int64_exact)
  have "0 \<le> c * m div 2 ^ s" using m c by (simp add: pos_imp_zdiv_nonneg_iff)
  then have "0 \<le> q" using rne_ge_div [of "c * m" s] unfolding q_def by (rule order.trans)
  moreover have "(2 :: int) ^ nat (62 - e') < 2 ^ nat (63 - e')"
    using b by (intro power_strict_increasing) auto
  then have "q < 2 ^ nat (63 - e')" using b by linarith
  ultimately have "bitlen \<bar>q\<bar> \<le> 63 - e'"
    using b bitlen_le_iff_power [of "\<bar>q\<bar>" "63 - e'"] by simp
  then have fin: "round53 (c * m) e = Fin q e'"
    unfolding round53_def Let_def s_def [symmetric] q_def [symmetric] e'_def [symmetric] by simp
  have lo: "case fl_ceil (Fin q e') of Fin a k \<Rightarrow> c \<le> trunc_fin a k | _ \<Rightarrow> False"
    by (rule ceil_trunc_ge [OF ge c s_def q_def e'_def])
  have hi: "case fl_ceil (Fin q e') of Fin a k \<Rightarrow> trunc_fin a k \<le> 2 ^ 62 | _ \<Rightarrow> False"
    using b by (intro ceil_trunc_le) auto
  obtain a k where ak: "fl_ceil (Fin q e') = Fin a k"
    using lo by (cases "fl_ceil (Fin q e')") (simp_all del: fl_ceil.simps)
  have "c \<le> trunc_fin a k" and "trunc_fin a k \<le> 2 ^ 62" using lo hi by (simp_all only: ak float64.case)
  moreover from this have "in_i64 (trunc_fin a k)" using c by (simp add: in_i64_def del: trunc_fin.simps)
  ultimately show ?thesis by (simp only: prod fin ak to_int64.simps Let_def if_True)
qed

section \<open>Repeated bumping and repeated polling\<close>

text \<open>The inclusion fees the submit loop bids after each insufficient-fee rejection, given
  the network percentiles it sees.\<close>

fun bump_all :: "FeeStrategy \<Rightarrow> int \<Rightarrow> int list \<Rightarrow> int list" where
  "bump_all f c [] = [c]"
| "bump_all f c (n # ns) = c # bump_all f (fst (BumpInclusionFee f c n)) ns"

lemma bump_step:
  assumes "fs_BumpMultiplier f = Fin m e" and "ge_one m e" and "moderate m e"
    and "fs_MaxInclusionFee f < 2 ^ 53" and "0 < c" and "c \<le> fs_MaxInclusionFee f"
  shows "c \<le> fst (BumpInclusionFee f c n) \<and> fst (BumpInclusionFee f c n) \<le> fs_MaxInclusionFee f"
proof -
  have "c \<le> to_int64 (fl_ceil (fl_mul (of_int64 c) (Fin m e)))"
    using assms by (intro bid_in_range) auto
  with assms show ?thesis by (simp add: BumpInclusionFee_eq clamp_bid_def)
qed

lemma bump_all_bounds:
  assumes "fs_BumpMultiplier f = Fin m e" and "ge_one m e" and "moderate m e"
    and "fs_MaxInclusionFee f < 2 ^ 53" and "0 < c" and "c \<le> fs_MaxInclusionFee f"
  shows "sorted (bump_all f c ns) \<and> set (bump_all f c ns) \<subseteq> {c .. fs_MaxInclusionFee f}"
  using assms(5,6)
proof (induction ns arbitrary: c)
  case (Cons n ns)
  have step: "c \<le> fst (BumpInclusionFee f c n)" "fst (BumpInclusionFee f c n) \<le> fs_MaxInclusionFee f"
    using bump_step [OF assms(1-4) Cons.prems] by auto
  with Cons.IH [of "fst (BumpInclusionFee f c n)"] Cons.prems show ?case by (auto dest: order.trans)
qed simp

text \<open>A history of calls, each with the clock and the answer \<open>GetFeeStats\<close> would give:
  the results, the instants at which the cache was refilled, and the final cache.\<close>

fun run_tracker :: "(int \<times> (int \<times> int) result) list \<Rightarrow> feeTracker \<Rightarrow>
    (int \<times> int) result list \<times> int list \<times> feeTracker" where
  "run_tracker [] t = ([], [], t)"
| "run_tracker ((now, resp) # cs) t =
     (let (r, t') = sorobanInclusionPercentiles now resp t;
          (rs, ts, t'') = run_tracker cs t'
      in (r # rs, (if \<not> fresh_enough now t \<and> is_Ok resp then now # ts else ts), t''))"

fun spaced :: "int \<Rightarrow> int list \<Rightarrow> bool" where
  "spaced d (x # y # ts) \<longleftrightarrow> x + d \<le> y \<and> spaced d (y # ts)"
| "spaced d ts \<longleftrightarrow> True"

lemma stale_fetch_later:
  assumes "\<not> fresh_enough now t" and "haveData t" and "0 < pollInterval t" and "pollInterval t < 2 ^ 63"
  shows "fetchedAt t + pollInterval t \<le> now"
  using assms by (auto simp: fresh_enough_def time_sub_def)

lemma tracker_poll [simp]: "pollInterval (snd (sorobanInclusionPercentiles now resp t)) = pollInterval t"
  by (auto simp: sorobanInclusionPercentiles_def split: result.splits)

lemma run_tracker_spaced:
  assumes "0 < pollInterval t" and "pollInterval t < 2 ^ 63"
  shows "spaced (pollInterval t) ((if haveData t then [fetchedAt t] else []) @ fst (snd (run_tracker cs t)))"
  using assms
proof (induction cs arbitrary: t)
  case (Cons c cs)
  obtain now resp where c: "c = (now, resp)" by (metis surj_pair)
  define t' where "t' = snd (sorobanInclusionPercentiles now resp t)"
  have IH: "spaced (pollInterval t) ((if haveData t' then [fetchedAt t'] else []) @ fst (snd (run_tracker cs t')))"
    using Cons.IH [of t'] Cons.prems by (simp add: t'_def)
  show ?case
  proof (cases "\<not> fresh_enough now t \<and> is_Ok resp")
    case True
    then obtain a b where "resp = Ok (a, b)" by (auto simp: is_Ok_iff)
    with True have "t' = t\<lparr>p50 := a, p90 := b, fetchedAt := now, haveData := True\<rparr>"
      by (simp add: t'_def sorobanInclusionPercentiles_def)
    with IH True show ?thesis
      using stale_fetch_later [of now t] Cons.prems
      by (auto simp: c Let_def t'_def split: prod.splits)
  next
    case False
    then have "t' = t"
      by (auto simp: t'_def sorobanInclusionPercentiles_def split: result.splits)
    with IH False show ?thesis by (auto simp: c Let_def t'_def split: prod.splits)
  qed
qed simp

lemma run_tracker_Ok:
  assumes "haveData t" and "\<forall>(now, resp) \<in> set cs. \<forall>p. resp \<noteq> Panic p"
  shows "list_all is_Ok (fst (run_tracker cs t))"
  using assms
proof (induction cs arbitrary: t)
  case (Cons c cs)
  obtain now resp where c: "c = (now, resp)" by (metis surj_pair)
  have "haveData (snd (sorobanInclusionPercentiles now resp t)) \<and>
        is_Ok (fst (sorobanInclusionPercentiles now resp t))"
    using Cons.prems by (auto simp: c sorobanInclusionPercentiles_def split: result.splits)
  with Cons.IH [of "snd (sorobanInclusionPercentiles now resp t)"] Cons.prems show ?case
    by (auto simp: c Let_def split: prod.splits)
qed simp

section \<open>Properties\<close>

text \<open>C39: Fee bumping is monotone and capped: with a bump multiplier in [1, 512) and a cap
  below 2^53, every bid of the submit loop is at least the one before and never above
  MaxInclusionFee, whatever percentiles the network reports. The floating-point product is
  rounded exactly as IEEE doubles round it.\<close>

theorem fee_bumps_monotone_and_capped:
  assumes "fs_BumpMultiplier f = Fin m e" and "ge_one m e" and "moderate m e"
    and "fs_MaxInclusionFee f < 2 ^ 53" and "0 < c" and "c \<le> fs_MaxInclusionFee f"
  shows "sorted (bump_all f c ns) \<and> (\<forall>fee \<in> set (bump_all f c ns). c \<le> fee \<and> fee \<le> fs_MaxInclusionFee f)"
  using bump_all_bounds [OF assms, of ns] by auto

definition default_strategy :: FeeStrategy where
  "default_strategy = NewFeeStrategyFromConfig (Resolve DefaultConfigSet)"

lemma default_strategy_eq: "default_strategy = \<lparr>fs_BaseInclusionFee = 100, fs_MaxInclusionFee = 100000,
   fs_BumpMultiplier = Fin 3 (-1), fs_ResourceFeeBuffer = 15000\<rparr>"
  by (simp add: default_strategy_def NewFeeStrategyFromConfig_def Resolve_def DefaultConfigSet_def)

theorem fee_bumps_monotone_and_capped_witness:
  "sorted (bump_all default_strategy 100 [0, 500, 0])
   \<and> set (bump_all default_strategy 100 [0, 500, 0]) \<subseteq> {100 .. 100000}"
  using fee_bumps_monotone_and_capped [of default_strategy 3 "-1" 100 "[0, 500, 0]"]
  by (auto simp: default_strategy_eq ge_one_def moderate_def simp del: bump_all.simps)

text \<open>The seeded fee is the greater of the geometric baseline and the network percentile
  (reinterpreted as int64) unless that exceeds the cap; the clamp flag is raised exactly
  then, and the fee is the cap.\<close>

theorem seed_fee_spec:
  assumes "SeedInclusionFee f attempt n = (fee, clamped)" and "in_u64 n"
  shows "fee \<le> fs_MaxInclusionFee f
   \<and> (clamped \<longleftrightarrow> fs_MaxInclusionFee f < InclusionFee f attempt \<or> n < 2 ^ 63 \<and> fs_MaxInclusionFee f < n
                   \<or> 2 ^ 63 \<le> n \<and> fs_MaxInclusionFee f < n - 2 ^ 64)
   \<and> (clamped \<longrightarrow> fee = fs_MaxInclusionFee f)
   \<and> (\<not> clamped \<longrightarrow> InclusionFee f attempt \<le> fee \<and> (n < 2 ^ 63 \<longrightarrow> n \<le> fee))"
proof -
  have w: "i64 n = (if n < 2 ^ 63 then n else n - 2 ^ 64)"
  proof (cases "n < 2 ^ 63")
    case True
    with assms(2) show ?thesis by (simp add: i64_def in_u64_def)
  next
    case False
    have "(n + 2 ^ 63) mod 2 ^ 64 = (n + 2 ^ 63 - 2 ^ 64) mod 2 ^ 64"
      by (simp only: minus_mod_self2)
    also have "\<dots> = n + 2 ^ 63 - 2 ^ 64"
      using False assms(2) by (intro mod_pos_pos_trivial) (auto simp: in_u64_def)
    finally show ?thesis using False by (simp add: i64_def)
  qed
  have "fee = min (max (InclusionFee f attempt) (i64 n)) (fs_MaxInclusionFee f)"
    and "clamped \<longleftrightarrow> fs_MaxInclusionFee f < max (InclusionFee f attempt) (i64 n)"
    using assms(1) by (auto simp: SeedInclusionFee_eq clamp_bid_def)
  then show ?thesis by (auto simp: w less_max_iff_disj)
qed

theorem seed_fee_spec_witness:
  "fst (SeedInclusionFee default_strategy 0 200000) = 100000"
proof -
  have "SeedInclusionFee default_strategy 0 200000 = (100000, True)"
    by (simp add: SeedInclusionFee_def default_strategy_eq InclusionFee_def i64_def)
  from seed_fee_spec [OF this] show ?thesis
    by (simp add: in_u64_def default_strategy_eq SeedInclusionFee_def InclusionFee_def i64_def)
qed

text \<open>The cap of InclusionFee is applied after the conversion to int64: once the
  geometric fee leaves the int64 range (attempt 200 with the default base and multiplier)
  the conversion yields the least int64, which is below the cap, so with no network
  percentile the transaction is seeded with a bid of zero that no flag reports, although
  the same strategy bids the cap for attempt 90.\<close>

theorem inclusion_fee_overflow_escapes_cap:
  "SeedInclusionFee default_strategy 90 0 = (100000, False)
   \<and> InclusionFee default_strategy 200 = - (2 ^ 63)
   \<and> SeedInclusionFee default_strategy 200 0 = (0, False)"
proof -
  have "InclusionFee \<lparr>fs_BaseInclusionFee = 100, fs_MaxInclusionFee = 100000,
   fs_BumpMultiplier = Fin 3 (-1), fs_ResourceFeeBuffer = 15000\<rparr> 90 = 100000"
    by code_simp
  moreover
  have "InclusionFee \<lparr>fs_BaseInclusionFee = 100, fs_MaxInclusionFee = 100000,
   fs_BumpMultiplier = Fin 3 (-1), fs_ResourceFeeBuffer = 15000\<rparr> 200 = - (2 ^ 63)"
    by code_simp
  ultimately show ?thesis by (simp add: default_strategy_eq SeedInclusionFee_def i64_def)
qed

text \<open>The fee cache limits the RPC rate and serves stale data: successful fetches are at
  least a poll interval apart, and once a snapshot exists every call succeeds even when
  every further GetFeeStats call fails.\<close>

theorem fee_tracker_rate_and_staleness:
  assumes "0 < pollInterval t" and "pollInterval t < 2 ^ 63"
    and "\<forall>(now, resp) \<in> set cs. \<forall>p. resp \<noteq> Panic p"
    and "run_tracker cs t = (rs, fetches, t')"
  shows "spaced (pollInterval t) fetches \<and> (haveData t \<longrightarrow> list_all is_Ok rs)"
proof -
  have "spaced (pollInterval t) ((if haveData t then [fetchedAt t] else []) @ fetches)"
    using run_tracker_spaced [OF assms(1,2), of cs] assms(4) by simp
  then have "spaced (pollInterval t) fetches"
    by (cases fetches) (auto split: if_splits)
  moreover have "haveData t \<longrightarrow> list_all is_Ok rs"
    using run_tracker_Ok [OF _ assms(3), of t] assms(4) by simp
  ultimately show ?thesis by blast
qed

theorem fee_tracker_rate_and_staleness_witness:
  "\<exists>rs t'. run_tracker [(10, Ok (1, 2)), (12, Ok (3, 4)), (15, Err (New ''down'')), (40, Ok (5, 6))]
     (newFeeTracker 5) = (rs, [10, 40], t') \<and> spaced 5 [10, 40]"
proof -
  let ?cs = "[(10, Ok (1, 2)), (12, Ok (3, 4)), (15, Err (New ''down'')), (40, Ok (5, 6))]"
  obtain rs t' where run: "run_tracker ?cs (newFeeTracker 5) = (rs, [10, 40], t')"
    by (simp add: newFeeTracker_def sorobanInclusionPercentiles_def fresh_enough_def time_sub_def)
  have "spaced (pollInterval (newFeeTracker 5)) [10, 40]"
    using fee_tracker_rate_and_staleness [OF _ _ _ run] by (simp add: newFeeTracker_def)
  with run show ?thesis by (simp add: newFeeTracker_def)
qed

end
