(* ===== verification/Sdk.thy ===== *)
theory Sdk
  imports Prelude "HOL-Library.Word"
begin

text \<open>
  The types and functions of the Stellar Go SDK (packages xdr, strkey, txnbuild and
  protocols/rpc) that the sources use. Values are data types whose constructors are the
  union tags; a nil arm pointer is \<open>None\<close>, and the \<open>Get\<close> methods of a union dereference
  the arm (a nil arm panics). The SDK's functions are not part of the repository: they are
  the fields of the record \<open>sdk\<close>, an argument of every definition that calls them.
\<close>

type_synonym bytes = "8 word list"

section \<open>XDR values\<close>

datatype PublicKey = Ed25519 "bytes option" | PublicKeyOther int

datatype ClaimableBalanceId = ClaimableBalanceV0 "bytes option" | ClaimableBalanceOther int

datatype ScAddress =
    ScAddressAccount "PublicKey option"
  | ScAddressContract "bytes option"
  | ScAddressMuxedAccount "(int \<times> bytes) option"
  | ScAddressClaimableBalance "ClaimableBalanceId option"
  | ScAddressLiquidityPool "bytes option"
  | ScAddressOther int

datatype ScErrorType =
    SceContract | SceWasmVm | SceContext | SceStorage | SceObject | SceCrypto | SceEvents
  | SceBudget | SceValue | SceAuth | SceOther int

record ScError =
  sce_Type :: ScErrorType
  sce_ContractCode :: "int option"
  sce_Code :: "int option"

datatype ContractExecutable = ExecutableWasm "bytes option" | ExecutableStellarAsset | ExecutableOther int

text \<open>\<open>Vec\<close> and \<open>Map\<close> are pointers to pointers: \<open>None\<close> is a nil outer pointer, \<open>Some None\<close>
  a nil inner one.\<close>

datatype ScVal =
    ScvBool "bool option"
  | ScvVoid
  | ScvError "ScError option"
  | ScvU32 "int option"
  | ScvI32 "int option"
  | ScvU64 "int option"
  | ScvI64 "int option"
  | ScvTimepoint "int option"
  | ScvDuration "int option"
  | ScvU128 "(int \<times> int) option"
  | ScvI128 "(int \<times> int) option"
  | ScvU256 "(int \<times> int \<times> int \<times> int) option"
  | ScvI256 "(int \<times> int \<times> int \<times> int) option"
  | ScvBytes "bytes option"
  | ScvString "string option"
  | ScvSymbol "string option"
  | ScvVec "ScVal list option option"
  | ScvMap "(ScVal \<times> ScVal) list option option"
  | ScvAddress "ScAddress option"
  | ScvContractInstance "(ContractExecutable \<times> (ScVal \<times> ScVal) list option) option"
  | ScvLedgerKeyContractInstance
  | ScvLedgerKeyNonce "int option"
  | ScvOther int

text \<open>The XDR discriminant of a value, and of an address.\<close>

fun ScVal_Type :: "ScVal \<Rightarrow> int" where
  "ScVal_Type (ScvBool _) = 0"
| "ScVal_Type ScvVoid = 1"
| "ScVal_Type (ScvError _) = 2"
| "ScVal_Type (ScvU32 _) = 3"
| "ScVal_Type (ScvI32 _) = 4"
| "ScVal_Type (ScvU64 _) = 5"
| "ScVal_Type (ScvI64 _) = 6"
| "ScVal_Type (ScvTimepoint _) = 7"
| "ScVal_Type (ScvDuration _) = 8"
| "ScVal_Type (ScvU128 _) = 9"
| "ScVal_Type (ScvI128 _) = 10"
| "ScVal_Type (ScvU256 _) = 11"
| "ScVal_Type (ScvI256 _) = 12"
| "ScVal_Type (ScvBytes _) = 13"
| "ScVal_Type (ScvString _) = 14"
| "ScVal_Type (ScvSymbol _) = 15"
| "ScVal_Type (ScvVec _) = 16"
| "ScVal_Type (ScvMap _) = 17"
| "ScVal_Type (ScvAddress _) = 18"
| "ScVal_Type (ScvContractInstance _) = 19"
| "ScVal_Type ScvLedgerKeyContractInstance = 20"
| "ScVal_Type (ScvLedgerKeyNonce _) = 21"
| "ScVal_Type (ScvOther t) = t"

fun ScAddress_Type :: "ScAddress \<Rightarrow> int" where
  "ScAddress_Type (ScAddressAccount _) = 0"
| "ScAddress_Type (ScAddressContract _) = 1"
| "ScAddress_Type (ScAddressMuxedAccount _) = 2"
| "ScAddress_Type (ScAddressClaimableBalance _) = 3"
| "ScAddress_Type (ScAddressLiquidityPool _) = 4"
| "ScAddress_Type (ScAddressOther t) = t"

text \<open>What a \<open>Get\<close> method does with the arm of a matching union.\<close>

definition deref :: "'a option \<Rightarrow> 'a result" where
  "deref p = (case p of None \<Rightarrow> Panic ''nil pointer dereference'' | Some x \<Rightarrow> Ok x)"

lemma deref_simps [simp]: "deref (Some x) = Ok x" "deref None = Panic ''nil pointer dereference''"
  by (simp_all add: deref_def)

section \<open>Operations and transactions\<close>

record SorobanTransactionData =
  sd_Body :: string
  sd_ResourceFee :: int

text \<open>What the address of a new contract is derived from: a deployer and a salt, or a classic
  asset.\<close>

datatype ContractIdPreimage = PreimageFromAddress ScAddress bytes | PreimageFromAsset string

datatype HostFunction =
    HostFunctionInvokeContract ScAddress string "ScVal list"
  | HostFunctionUploadContractWasm bytes
  | HostFunctionCreateContract ContractIdPreimage ContractExecutable
  | HostFunctionOther string

record InvokeHostFunction =
  ihf_HostFunction :: HostFunction
  ihf_Auth :: "string list"
  ihf_SourceAccount :: string
  ihf_Ext :: "SorobanTransactionData option"

text \<open>A payment has a destination and an amount in text form.\<close>

datatype Operation =
    OpInvokeHostFunction InvokeHostFunction
  | OpRestoreFootprint string SorobanTransactionData
  | OpPayment string string
  | OpOther string

record TimeBounds =
  tb_MinTime :: int
  tb_MaxTime :: int

record TransactionParams =
  tp_AccountID :: string
  tp_Sequence :: int
  tp_IncrementSequenceNum :: bool
  tp_Operations :: "Operation list"
  tp_BaseFee :: int
  tp_TimeBounds :: TimeBounds
  tp_MaxLedger :: "int option"

record Transaction =
  t_AccountID :: string
  t_Sequence :: int
  t_Operations :: "Operation list"
  t_BaseFee :: int
  t_MaxFee :: int
  t_TimeBounds :: TimeBounds
  t_MaxLedger :: "int option"
  t_Signatures :: "(bytes \<times> bytes) list"

section \<open>Transaction results\<close>

datatype TransactionResultCode = TxSuccess | TxFailed | TxBadSeq | TxInsufficientFee | TxInternalError
  | TxResultOther int

datatype OperationResultCode = OpInner | OpExceededWorkLimit | OpResultOther int

datatype InvokeHostFunctionResultCode =
    InvokeHostFunctionSuccess | InvokeHostFunctionMalformed | InvokeHostFunctionTrapped
  | InvokeHostFunctionResourceLimitExceeded | InvokeHostFunctionEntryArchived
  | InvokeHostFunctionInsufficientRefundableFee | InvokeHostFunctionOther int

text \<open>The inner result of an operation: of a host-function invocation, or of another kind
  of operation named by its type.\<close>

datatype OperationResultTr = TrInvokeHostFunction InvokeHostFunctionResultCode | TrOther string

record OperationResult =
  or_Code :: OperationResultCode
  or_Tr :: "OperationResultTr option"

record TransactionResult =
  tr_FeeCharged :: int
  tr_Code :: TransactionResultCode
  tr_Results :: "OperationResult list option"

text \<open>An account entry: its sequence number and its native balance.\<close>

datatype LedgerEntryData = LedgerEntryAccount int int | LedgerEntryOther int

text \<open>\<open>TransactionMeta\<close>: the version, and for versions 3 and 4 the Soroban part, whose
  return value is optional in version 4 only.\<close>

datatype TransactionMeta =
    MetaV3 "ScVal option"
  | MetaV4 "ScVal option option"
  | MetaOther int

section \<open>RPC requests and responses\<close>

record SimulateResult =
  simr_AuthXDR :: "string list option"
  simr_ReturnValueXDR :: "string option"

record RestorePreamble =
  rp_TransactionDataXDR :: string
  rp_MinResourceFee :: int

record SimulateTransactionResponse =
  sim_Error :: string
  sim_TransactionDataXDR :: string
  sim_MinResourceFee :: int
  sim_Results :: "SimulateResult list"
  sim_RestorePreamble :: "RestorePreamble option"

datatype SubmitStatus = TXStatusPending | TXStatusDuplicate | TXStatusTryAgainLater | TXStatusError
  | TXStatusOther string

record SendTransactionResponse =
  send_Status :: SubmitStatus
  send_Hash :: string
  send_ErrorResultXDR :: string

datatype GetStatus = StatusSuccess | StatusNotFound | StatusFailed | StatusOther string

record GetTransactionResponse =
  get_Status :: GetStatus
  get_ResultXDR :: string
  get_ResultMetaXDR :: string
  get_LedgerCloseTime :: int

section \<open>The functions of the SDK\<close>

datatype VersionByte = VersionByteAccountID | VersionByteContract

record sdk =
  strkey_Decode :: "VersionByte \<Rightarrow> string \<Rightarrow> bytes result"
  strkey_Encode :: "VersionByte \<Rightarrow> bytes \<Rightarrow> string result"
  unmarshal_ScAddress :: "bytes \<Rightarrow> ScAddress result"
  AddressToAccountId :: "string \<Rightarrow> PublicKey result"
  marshal_AccountKey :: "PublicKey \<Rightarrow> string result"
  unb64_ScVal :: "string \<Rightarrow> ScVal result"
  unb64_SorobanData :: "string \<Rightarrow> SorobanTransactionData result"
  unb64_Auth :: "string \<Rightarrow> string result"
  unb64_TransactionResult :: "string \<Rightarrow> TransactionResult result"
  unb64_LedgerEntryData :: "string \<Rightarrow> LedgerEntryData result"
  unb64_TransactionMeta :: "string \<Rightarrow> TransactionMeta result"
  NewTransaction :: "TransactionParams \<Rightarrow> Transaction result"
  NewTimeout :: "int \<Rightarrow> int \<Rightarrow> TimeBounds"
  tx_Base64 :: "Transaction \<Rightarrow> string result"
  tx_Hash :: "Transaction \<Rightarrow> string \<Rightarrow> bytes result"
  AddSignatureDecorated :: "Transaction \<Rightarrow> bytes \<times> bytes \<Rightarrow> Transaction result"
  TransactionResultCode_String :: "TransactionResultCode \<Rightarrow> string"
  OperationResultCode_String :: "OperationResultCode \<Rightarrow> string"
  InvokeHostFunctionResultCode_String :: "InvokeHostFunctionResultCode \<Rightarrow> string"
  ParseCursor :: "string \<Rightarrow> string result"

text \<open>Documented behaviour the properties rely on. A strkey is the base32 text of a version
  byte, a payload and a checksum: decoding inverts encoding, an account key starts with G
  and a contract key with C.\<close>

definition strkey_laws :: "sdk \<Rightarrow> bool" where
  "strkey_laws lib \<longleftrightarrow>
     (\<forall>v b. length b = 32 \<longrightarrow>
        (\<exists>s. strkey_Encode lib v b = Ok s \<and> strkey_Decode lib v s = Ok b \<and>
             s \<noteq> [] \<and> hd s = (case v of VersionByteAccountID \<Rightarrow> CHR ''G'' | VersionByteContract \<Rightarrow> CHR ''C''))) \<and>
     (\<forall>v s b. strkey_Decode lib v s = Ok b \<longrightarrow> length b = 32 \<and> strkey_Encode lib v b = Ok s)"

text \<open>XDR: the union discriminant 1 followed by 32 bytes is a contract address; an account
  strkey parses to its Ed25519 key.\<close>

definition address_laws :: "sdk \<Rightarrow> bool" where
  "address_laws lib \<longleftrightarrow>
     (\<forall>b. length b = 32 \<longrightarrow> unmarshal_ScAddress lib ([0, 0, 0, 1] @ b) = Ok (ScAddressContract (Some b))) \<and>
     (\<forall>s b. strkey_Decode lib VersionByteAccountID s = Ok b \<longrightarrow>
        AddressToAccountId lib s = Ok (Ed25519 (Some b)))"

text \<open>\<open>NewTransaction\<close> copies its parameters: the sequence number is the account's, plus one
  when \<open>IncrementSequenceNum\<close> is set.\<close>

definition txnbuild_laws :: "sdk \<Rightarrow> bool" where
  "txnbuild_laws lib \<longleftrightarrow>
     (\<forall>p t. NewTransaction lib p = Ok t \<longrightarrow>
        t_AccountID t = tp_AccountID p \<and> t_Operations t = tp_Operations p \<and>
        t_BaseFee t = tp_BaseFee p \<and> t_MaxLedger t = tp_MaxLedger p \<and> t_TimeBounds t = tp_TimeBounds p \<and>
        t_Sequence t = (if tp_IncrementSequenceNum p then i64 (tp_Sequence p + 1) else tp_Sequence p))"

section \<open>A concrete instance\<close>

text \<open>An instance that satisfies the laws, so that properties with them as hypotheses can be
  evaluated: one character per byte after the version letter, transactions kept as they are.\<close>

definition version_char :: "VersionByte \<Rightarrow> char" where
  "version_char v = (case v of VersionByteAccountID \<Rightarrow> CHR ''G'' | VersionByteContract \<Rightarrow> CHR ''C'')"

definition byte_char :: "8 word \<Rightarrow> char" where
  "byte_char w = char_of (unat w)"

definition char_byte :: "char \<Rightarrow> 8 word" where
  "char_byte c = word_of_nat (of_char c)"

definition plain_encode :: "VersionByte \<Rightarrow> bytes \<Rightarrow> string result" where
  "plain_encode v b = (if length b = 32 then Ok (version_char v # map byte_char b) else Err (New ''bad length''))"

definition plain_decode :: "VersionByte \<Rightarrow> string \<Rightarrow> bytes result" where
  "plain_decode v s = (if length s = 33 \<and> hd s = version_char v then Ok (map char_byte (tl s))
     else Err (New ''invalid strkey''))"

definition plain_transaction :: "TransactionParams \<Rightarrow> Transaction result" where
  "plain_transaction p =
     (let fee = (case tp_Operations p of
            [OpInvokeHostFunction o1] \<Rightarrow> (case ihf_Ext o1 of Some d \<Rightarrow> sd_ResourceFee d | None \<Rightarrow> 0)
          | _ \<Rightarrow> 0)
      in Ok \<lparr>t_AccountID = tp_AccountID p,
             t_Sequence = (if tp_IncrementSequenceNum p then i64 (tp_Sequence p + 1) else tp_Sequence p),
             t_Operations = tp_Operations p, t_BaseFee = tp_BaseFee p,
             t_MaxFee = tp_BaseFee p * int (length (tp_Operations p)) + fee,
             t_TimeBounds = tp_TimeBounds p, t_MaxLedger = tp_MaxLedger p, t_Signatures = []\<rparr>)"

definition sample_sdk :: sdk where
  "sample_sdk =
     \<lparr>strkey_Decode = plain_decode, strkey_Encode = plain_encode,
      unmarshal_ScAddress = (\<lambda>b. if length b = 36 \<and> take 4 b = [0, 0, 0, 1]
        then Ok (ScAddressContract (Some (drop 4 b))) else Err (New ''xdr'')),
      AddressToAccountId = (\<lambda>s. bind_r (plain_decode VersionByteAccountID s) (\<lambda>b. Ok (Ed25519 (Some b)))),
      marshal_AccountKey = (\<lambda>k. Ok ''key''),
      unb64_ScVal = (\<lambda>s. Err (New ''xdr'')),
      unb64_SorobanData = (\<lambda>s. Ok \<lparr>sd_Body = s, sd_ResourceFee = 0\<rparr>),
      unb64_Auth = (\<lambda>s. Ok s),
      unb64_TransactionResult = (\<lambda>s. Err (New ''xdr'')),
      unb64_LedgerEntryData = (\<lambda>s. Ok (LedgerEntryAccount 9 0)),
      unb64_TransactionMeta = (\<lambda>s. Err (New ''xdr'')),
      NewTransaction = plain_transaction,
      NewTimeout = (\<lambda>now secs. \<lparr>tb_MinTime = 0, tb_MaxTime = now div 1000000000 + secs\<rparr>),
      tx_Base64 = (\<lambda>t. Ok ''envelope''),
      tx_Hash = (\<lambda>t net. Ok (replicate 32 7)),
      AddSignatureDecorated = (\<lambda>t s. Ok (t\<lparr>t_Signatures := t_Signatures t @ [s]\<rparr>)),
      TransactionResultCode_String = (\<lambda>c. ''TransactionResultCode''),
      OperationResultCode_String = (\<lambda>c. ''OperationResultCode''),
      InvokeHostFunctionResultCode_String = (\<lambda>c. ''InvokeHostFunctionResultCode''),
      ParseCursor = (\<lambda>s. Ok s)\<rparr>"

lemma char_byte_inverse [simp]: "char_byte (byte_char w) = w" "byte_char (char_byte c) = c"
proof -
  have "unat w < 256" using unsigned_less [of w, where ?'a = nat] by simp
  then show "char_byte (byte_char w) = w" by (simp add: char_byte_def byte_char_def)
  have "of_char c < (256 :: nat)" by (rule nat_of_char_less_256)
  then show "byte_char (char_byte c) = c" by (simp add: char_byte_def byte_char_def unat_of_nat)
qed

lemma map_char_byte [simp]: "map (\<lambda>w. char_byte (byte_char w)) b = b" "map (\<lambda>c. byte_char (char_byte c)) s = s"
  by simp_all

lemma sample_strkey_laws: "strkey_laws sample_sdk"
proof -
  have "strkey_Encode sample_sdk v b = Ok s"
    if "strkey_Decode sample_sdk v s = Ok b" for v s b
    using that by (cases s) (auto simp: sample_sdk_def plain_decode_def plain_encode_def comp_def split: if_splits)
  then show ?thesis
    by (auto simp: strkey_laws_def sample_sdk_def plain_decode_def plain_encode_def version_char_def comp_def
        split: if_splits)
qed

lemma sample_address_laws: "address_laws sample_sdk"
  by (auto simp: address_laws_def sample_sdk_def)

lemma sample_txnbuild_laws: "txnbuild_laws sample_sdk"
  by (auto simp: txnbuild_laws_def sample_sdk_def plain_transaction_def Let_def)

end
