(* ===== verification/Scval_Codec.thy ===== *)
theory Scval_Codec
  imports Sdk "HOL-Library.Multiset" "HOL-Library.List_Lexorder" "HOL-Library.Char_ord"
begin

text \<open>
  Conversions between Go values and Soroban values (bindings/scval/scval.go), used by all
  generated contract bindings. A fixed-size byte array is a byte list of that length; a Go
  map argument is an association list with distinct keys, in the order the runtime
  happens to iterate it.
\<close>

section \<open>Encoders\<close>

definition Uint64ToScVal :: "int \<Rightarrow> ScVal" where
  "Uint64ToScVal v = ScvU64 (Some v)"

definition Uint32ToScVal :: "int \<Rightarrow> ScVal" where
  "Uint32ToScVal v = ScvU32 (Some v)"

definition BoolToScVal :: "bool \<Rightarrow> ScVal" where
  "BoolToScVal v = ScvBool (Some v)"

definition I128ToScVal :: "int \<Rightarrow> ScVal" where
  "I128ToScVal v = (let hi = (if v < 0 then -1 else 0); lo = u64 v in ScvI128 (Some (hi, lo)))"

definition BytesToScVal :: "bytes \<Rightarrow> ScVal" where
  "BytesToScVal b = ScvBytes (Some b)"

definition Bytes4ToScVal :: "bytes \<Rightarrow> ScVal" where
  "Bytes4ToScVal b = ScvBytes (Some b)"

definition Bytes16ToScVal :: "bytes \<Rightarrow> ScVal" where
  "Bytes16ToScVal b = ScvBytes (Some b)"

definition Bytes32ToScVal :: "bytes \<Rightarrow> ScVal" where
  "Bytes32ToScVal b = ScvBytes (Some b)"

definition VoidScVal :: ScVal where
  "VoidScVal = ScvVoid"

definition VecToScVal :: "ScVal list \<Rightarrow> ScVal" where
  "VecToScVal items = ScvVec (Some (Some items))"

definition SymbolToScVal :: "string \<Rightarrow> ScVal" where
  "SymbolToScVal symb = ScvSymbol (Some symb)"

definition StringToScVal :: "string \<Rightarrow> ScVal" where
  "StringToScVal s = ScvString (Some s)"

definition BuildStructScVal :: "(string \<times> ScVal) list \<Rightarrow> ScVal result" where
  "BuildStructScVal flds =
     (let keys = sort (map fst flds);
          entries = map (\<lambda>k. (ScvSymbol (Some k), the (map_of flds k))) keys
      in Ok (ScvMap (Some (Some entries))))"

definition BuildContractScAddress :: "sdk \<Rightarrow> bytes \<Rightarrow> ScAddress option" where
  "BuildContractScAddress lib contractIDBytes =
     (if length contractIDBytes \<noteq> 32 then None
      else case unmarshal_ScAddress lib ([0, 0, 0, 1] @ contractIDBytes) of
        Ok addr \<Rightarrow> Some addr
      | _ \<Rightarrow> None)"

text \<open>\<open>copy(pubKey[:], decoded)\<close> into a 32-byte array.\<close>

definition copy32 :: "bytes \<Rightarrow> bytes" where
  "copy32 b = take 32 b @ replicate (32 - length b) 0"

definition ParseAddress :: "sdk \<Rightarrow> string \<Rightarrow> ScAddress option" where
  "ParseAddress lib addr =
     (case addr of [] \<Rightarrow> None
      | c # _ \<Rightarrow>
          if c = CHR ''C'' then
            (case strkey_Decode lib VersionByteContract addr of
               Ok decoded \<Rightarrow> BuildContractScAddress lib decoded
             | _ \<Rightarrow> None)
          else if c = CHR ''G'' then
            (case strkey_Decode lib VersionByteAccountID addr of
               Ok decoded \<Rightarrow> Some (ScAddressAccount (Some (Ed25519 (Some (copy32 decoded)))))
             | _ \<Rightarrow> None)
          else None)"

definition AddressToScVal :: "sdk \<Rightarrow> string \<Rightarrow> ScVal" where
  "AddressToScVal lib addr = ScvAddress (ParseAddress lib addr)"

definition OptionalAddressToScVal :: "sdk \<Rightarrow> string option \<Rightarrow> ScVal" where
  "OptionalAddressToScVal lib addr =
     (case addr of None \<Rightarrow> VoidScVal | Some a \<Rightarrow> AddressToScVal lib a)"

definition U128ToScVal :: "int \<times> int \<Rightarrow> ScVal" where
  "U128ToScVal parts = ScvU128 (Some parts)"

definition U128_ToScVal :: "int \<times> int \<Rightarrow> ScVal result" where
  "U128_ToScVal u = Ok (U128ToScVal u)"

definition MustToScVal :: "ScVal result \<Rightarrow> ScVal result" where
  "MustToScVal r = (case r of Err e \<Rightarrow> Panic (err_text e) | x \<Rightarrow> x)"

section \<open>Slice encoders\<close>

definition AddressSliceToScVal :: "sdk \<Rightarrow> string list \<Rightarrow> ScVal" where
  "AddressSliceToScVal lib items = VecToScVal (map (AddressToScVal lib) items)"

fun to_scvals :: "('a \<Rightarrow> ScVal result) \<Rightarrow> 'a list \<Rightarrow> ScVal list result" where
  "to_scvals ToScVal [] = Ok []"
| "to_scvals ToScVal (x # xs) =
     (case ToScVal x of
        Ok v \<Rightarrow> bind_r (to_scvals ToScVal xs) (\<lambda>vs. Ok (v # vs))
      | Err e \<Rightarrow> Panic (err_text e)
      | Panic p \<Rightarrow> Panic p)"

definition StructSliceToScVal :: "('a \<Rightarrow> ScVal result) \<Rightarrow> 'a list \<Rightarrow> ScVal result" where
  "StructSliceToScVal ToScVal items = bind_r (to_scvals ToScVal items) (\<lambda>vs. Ok (VecToScVal vs))"

definition BytesSliceToScVal :: "bytes list \<Rightarrow> ScVal" where
  "BytesSliceToScVal items = VecToScVal (map BytesToScVal items)"

definition Bytes32SliceToScVal :: "bytes list \<Rightarrow> ScVal" where
  "Bytes32SliceToScVal items = VecToScVal (map Bytes32ToScVal items)"

definition AddressBytes32SliceToScVal :: "bytes list \<Rightarrow> ScVal" where
  "AddressBytes32SliceToScVal items = Bytes32SliceToScVal items"

definition Bytes4SliceToScVal :: "bytes list \<Rightarrow> ScVal" where
  "Bytes4SliceToScVal items = VecToScVal (map Bytes4ToScVal items)"

definition Bytes16SliceToScVal :: "bytes list \<Rightarrow> ScVal" where
  "Bytes16SliceToScVal items = VecToScVal (map Bytes16ToScVal items)"

definition Uint64SliceToScVal :: "int list \<Rightarrow> ScVal" where
  "Uint64SliceToScVal items = VecToScVal (map Uint64ToScVal items)"

definition Uint32SliceToScVal :: "int list \<Rightarrow> ScVal" where
  "Uint32SliceToScVal items = VecToScVal (map Uint32ToScVal items)"

definition SymbolToScValPtr :: "string \<Rightarrow> ScVal option" where
  "SymbolToScValPtr symb = Some (ScvSymbol (Some symb))"

section \<open>Decoders\<close>

definition bad_type :: "string \<Rightarrow> ScVal \<Rightarrow> 'a result" where
  "bad_type msg val = Err (Errorf msg [AInt (ScVal_Type val)])"

definition SymbolFromScVal :: "ScVal \<Rightarrow> string result" where
  "SymbolFromScVal val = (case val of ScvSymbol p \<Rightarrow> deref p | _ \<Rightarrow> bad_type ''not a symbol type: %v'' val)"

definition StringFromScVal :: "ScVal \<Rightarrow> string result" where
  "StringFromScVal val = (case val of ScvString p \<Rightarrow> deref p | _ \<Rightarrow> bad_type ''not a string type: %v'' val)"

definition Uint64FromScVal :: "ScVal \<Rightarrow> int result" where
  "Uint64FromScVal val = (case val of ScvU64 p \<Rightarrow> deref p | _ \<Rightarrow> bad_type ''not a u64 type: %v'' val)"

definition Uint32FromScVal :: "ScVal \<Rightarrow> int result" where
  "Uint32FromScVal val = (case val of ScvU32 p \<Rightarrow> deref p | _ \<Rightarrow> bad_type ''not a u32 type: %v'' val)"

definition BytesFromScVal :: "ScVal \<Rightarrow> bytes result" where
  "BytesFromScVal val = (case val of ScvBytes p \<Rightarrow> deref p | _ \<Rightarrow> bad_type ''not a bytes type: %v'' val)"

definition Bytes4FromScVal :: "ScVal \<Rightarrow> bytes result" where
  "Bytes4FromScVal val =
     (case val of
        ScvBytes p \<Rightarrow> bind_r (deref p) (\<lambda>b.
          if length b \<noteq> 4 then Err (Errorf ''expected 4 bytes, got %d'' [AInt (int (length b))]) else Ok b)
      | _ \<Rightarrow> bad_type ''not a bytes type: %v'' val)"

definition Bytes16FromScVal :: "ScVal \<Rightarrow> bytes result" where
  "Bytes16FromScVal val =
     (case val of
        ScvBytes p \<Rightarrow> bind_r (deref p) (\<lambda>b.
          if length b \<noteq> 16 then Err (Errorf ''expected 16 bytes, got %d'' [AInt (int (length b))]) else Ok b)
      | _ \<Rightarrow> bad_type ''not a bytes type: %v'' val)"

definition Bytes32FromScVal :: "ScVal \<Rightarrow> bytes result" where
  "Bytes32FromScVal val =
     (case val of
        ScvBytes p \<Rightarrow> bind_r (deref p) (\<lambda>b.
          if length b \<noteq> 32 then Err (Errorf ''expected 32 bytes, got %d'' [AInt (int (length b))]) else Ok b)
      | _ \<Rightarrow> bad_type ''not a bytes type: %v'' val)"

definition I128FromScVal :: "ScVal \<Rightarrow> int result" where
  "I128FromScVal val =
     (case val of
        ScvI128 p \<Rightarrow> bind_r (deref p) (\<lambda>(hi, lo). Ok (i64 lo))
      | _ \<Rightarrow> bad_type ''not an i128 type: %v'' val)"

definition U128FromScVal :: "ScVal \<Rightarrow> (int \<times> int) result" where
  "U128FromScVal val = (case val of ScvU128 p \<Rightarrow> deref p | _ \<Rightarrow> bad_type ''not a u128 type: %v'' val)"

text \<open>The field \<open>accountID.Ed25519\<close>, read without a check of the key type.\<close>

definition ed25519_field :: "PublicKey \<Rightarrow> bytes option" where
  "ed25519_field k = (case k of Ed25519 p \<Rightarrow> p | PublicKeyOther _ \<Rightarrow> None)"

definition AddressFromScVal :: "sdk \<Rightarrow> ScVal \<Rightarrow> string result" where
  "AddressFromScVal lib val =
     (case val of
        ScvAddress p \<Rightarrow> bind_r (deref p) (\<lambda>addr.
          case addr of
            ScAddressAccount q \<Rightarrow> bind_r (deref q) (\<lambda>accountID.
              case ed25519_field accountID of
                None \<Rightarrow> Err (New ''account ID has no Ed25519 key'')
              | Some pubKey \<Rightarrow> strkey_Encode lib VersionByteAccountID pubKey)
          | ScAddressContract q \<Rightarrow> bind_r (deref q) (\<lambda>contractID. strkey_Encode lib VersionByteContract contractID)
          | _ \<Rightarrow> Err (Errorf ''unsupported address type: %s'' [AInt (ScAddress_Type addr)]))
      | _ \<Rightarrow> bad_type ''not an address type: %v'' val)"

definition OptionalAddressFromScVal :: "sdk \<Rightarrow> ScVal \<Rightarrow> string option result" where
  "OptionalAddressFromScVal lib val =
     (if ScVal_Type val = ScVal_Type ScvVoid then Ok None
      else bind_r (AddressFromScVal lib val) (\<lambda>addr. Ok (Some addr)))"

definition RawBytesFromAddressScVal :: "ScVal \<Rightarrow> bytes result" where
  "RawBytesFromAddressScVal val =
     (case val of
        ScvAddress p \<Rightarrow> bind_r (deref p) (\<lambda>addr.
          case addr of
            ScAddressAccount q \<Rightarrow> bind_r (deref q) (\<lambda>accountID.
              case ed25519_field accountID of
                None \<Rightarrow> Err (New ''account ID has no Ed25519 key'')
              | Some pubKey \<Rightarrow> Ok (copy32 pubKey))
          | ScAddressContract q \<Rightarrow> bind_r (deref q) (\<lambda>contractID. Ok (copy32 contractID))
          | _ \<Rightarrow> Err (Errorf ''unsupported address type: %s'' [AInt (ScAddress_Type addr)]))
      | _ \<Rightarrow> bad_type ''not an address (type=%s)'' val)"

fun bytes_items :: "ScVal list \<Rightarrow> bytes list result" where
  "bytes_items [] = Ok []"
| "bytes_items (item # items) =
     (case item of
        ScvBytes p \<Rightarrow> bind_r (deref p) (\<lambda>b. bind_r (bytes_items items) (\<lambda>bs. Ok (b # bs)))
      | _ \<Rightarrow> bad_type ''vec item is not bytes (type=%s)'' item)"

definition BytesVecFromScVal :: "ScVal \<Rightarrow> bytes list result" where
  "BytesVecFromScVal val =
     (case val of
        ScvVec p \<Rightarrow> bind_r (deref p) (\<lambda>vec.
          case vec of None \<Rightarrow> Err (New ''not a vec'') | Some items \<Rightarrow> bytes_items items)
      | _ \<Rightarrow> Err (New ''not a vec''))"

fun address_items :: "nat \<Rightarrow> ScVal list \<Rightarrow> bytes list result" where
  "address_items i [] = Ok []"
| "address_items i (item # items) =
     bind_r (wrap_err (\<lambda>e. Errorf ''failed to decode address at index %d: %w'' [AInt (int i), AErr e])
               (RawBytesFromAddressScVal item))
       (\<lambda>raw. bind_r (address_items (Suc i) items) (\<lambda>rest. Ok (raw # rest)))"

definition AddressVecFromScVal :: "ScVal \<Rightarrow> bytes list result" where
  "AddressVecFromScVal val =
     (case val of
        ScvVec p \<Rightarrow> bind_r (deref p) (\<lambda>vec.
          case vec of None \<Rightarrow> bad_type ''not a vec type: %v'' val | Some items \<Rightarrow> address_items 0 items)
      | _ \<Rightarrow> bad_type ''not a vec type: %v'' val)"

section \<open>encoding/hex\<close>

definition hex_digit :: "char \<Rightarrow> nat option" where
  "hex_digit c = (let n = of_char c :: nat in
     if 48 \<le> n \<and> n \<le> 57 then Some (n - 48)
     else if 97 \<le> n \<and> n \<le> 102 then Some (n - 87)
     else if 65 \<le> n \<and> n \<le> 70 then Some (n - 55) else None)"

definition InvalidByteError :: "char \<Rightarrow> error" where
  "InvalidByteError c = Errorf ''encoding/hex: invalid byte: %#U'' [AStr [c]]"

fun hex_DecodeString :: "string \<Rightarrow> bytes result" where
  "hex_DecodeString [] = Ok []"
| "hex_DecodeString [c] =
     (case hex_digit c of None \<Rightarrow> Err (InvalidByteError c)
      | Some _ \<Rightarrow> Err (New ''encoding/hex: odd length hex string''))"
| "hex_DecodeString (c # d # s) =
     (case hex_digit c of None \<Rightarrow> Err (InvalidByteError c)
      | Some a \<Rightarrow>
          (case hex_digit d of None \<Rightarrow> Err (InvalidByteError d)
           | Some b \<Rightarrow> bind_r (hex_DecodeString s) (\<lambda>bs. Ok (word_of_nat (16 * a + b) # bs))))"

definition hex_char :: "nat \<Rightarrow> char" where
  "hex_char n = (if n < 10 then char_of (48 + n) else char_of (87 + n))"

definition hex_EncodeToString :: "bytes \<Rightarrow> string" where
  "hex_EncodeToString b = concat (map (\<lambda>w. [hex_char (unat w div 16), hex_char (unat w mod 16)]) b)"

definition HexToContractStrkey :: "sdk \<Rightarrow> string \<Rightarrow> string result" where
  "HexToContractStrkey lib hexAddr =
     bind_r (wrap_err (\<lambda>e. Errorf ''decode hex address %q: %w'' [AStr hexAddr, AErr e])
               (hex_DecodeString (TrimPrefix hexAddr ''0x'')))
       (\<lambda>raw. strkey_Encode lib VersionByteContract raw)"

section \<open>The codec contract\<close>

text \<open>What a pair of conversion functions promises to the generated bindings: decoding
  inverts encoding on the values the Go type holds. An exact codec also accepts nothing
  but its own encodings.\<close>

locale scval_codec =
  fixes enc :: "'a \<Rightarrow> ScVal" and dec :: "ScVal \<Rightarrow> 'a result" and valid :: "'a \<Rightarrow> bool"
  assumes dec_enc: "valid x \<Longrightarrow> dec (enc x) = Ok x"
begin

lemma enc_eq_iff: "valid x \<Longrightarrow> valid y \<Longrightarrow> enc x = enc y \<longleftrightarrow> x = y"
  by (metis dec_enc result.inject(1))

lemma dec_slice: "list_all valid xs \<Longrightarrow> map dec (map enc xs) = map Ok xs"
  by (induction xs) (simp_all add: dec_enc)

end

locale exact_scval_codec = scval_codec +
  assumes enc_dec: "dec v = Ok x \<Longrightarrow> v = enc x \<and> valid x"
begin

lemma accepts_iff: "dec v = Ok x \<longleftrightarrow> v = enc x \<and> valid x"
  by (blast intro: dec_enc dest: enc_dec)

end

lemmas scval_dec_defs = Uint64FromScVal_def Uint32FromScVal_def SymbolFromScVal_def StringFromScVal_def
  BytesFromScVal_def Bytes4FromScVal_def Bytes16FromScVal_def Bytes32FromScVal_def U128FromScVal_def
  bad_type_def

lemmas scval_enc_defs = Uint64ToScVal_def Uint32ToScVal_def SymbolToScVal_def StringToScVal_def
  BytesToScVal_def Bytes4ToScVal_def Bytes16ToScVal_def Bytes32ToScVal_def U128ToScVal_def

lemma deref_Ok_iff [simp]: "deref p = Ok x \<longleftrightarrow> p = Some x"
  by (cases p) auto

lemma scval_dec_iff:
  "Uint64FromScVal v = Ok n \<longleftrightarrow> v = Uint64ToScVal n"
  "Uint32FromScVal v = Ok n \<longleftrightarrow> v = Uint32ToScVal n"
  "SymbolFromScVal v = Ok s \<longleftrightarrow> v = SymbolToScVal s"
  "StringFromScVal v = Ok s \<longleftrightarrow> v = StringToScVal s"
  "BytesFromScVal v = Ok b \<longleftrightarrow> v = BytesToScVal b"
  "Bytes4FromScVal v = Ok b \<longleftrightarrow> v = Bytes4ToScVal b \<and> length b = 4"
  "Bytes16FromScVal v = Ok b \<longleftrightarrow> v = Bytes16ToScVal b \<and> length b = 16"
  "Bytes32FromScVal v = Ok b \<longleftrightarrow> v = Bytes32ToScVal b \<and> length b = 32"
  "U128FromScVal v = Ok u \<longleftrightarrow> v = U128ToScVal u"
  by (cases v; auto simp: scval_dec_defs scval_enc_defs)+

interpretation u64_codec: exact_scval_codec Uint64ToScVal Uint64FromScVal "\<lambda>_. True"
  by unfold_locales (auto simp: scval_dec_iff)

interpretation u32_codec: exact_scval_codec Uint32ToScVal Uint32FromScVal "\<lambda>_. True"
  by unfold_locales (auto simp: scval_dec_iff)

interpretation symbol_codec: exact_scval_codec SymbolToScVal SymbolFromScVal "\<lambda>_. True"
  by unfold_locales (auto simp: scval_dec_iff)

interpretation string_codec: exact_scval_codec StringToScVal StringFromScVal "\<lambda>_. True"
  by unfold_locales (auto simp: scval_dec_iff)

interpretation bytes_codec: exact_scval_codec BytesToScVal BytesFromScVal "\<lambda>_. True"
  by unfold_locales (auto simp: scval_dec_iff)

interpretation bytes4_codec: exact_scval_codec Bytes4ToScVal Bytes4FromScVal "\<lambda>b. length b = 4"
  by unfold_locales (auto simp: scval_dec_iff)

interpretation bytes16_codec: exact_scval_codec Bytes16ToScVal Bytes16FromScVal "\<lambda>b. length b = 16"
  by unfold_locales (auto simp: scval_dec_iff)

interpretation bytes32_codec: exact_scval_codec Bytes32ToScVal Bytes32FromScVal "\<lambda>b. length b = 32"
  by unfold_locales (auto simp: scval_dec_iff)

interpretation u128_codec: exact_scval_codec U128ToScVal U128FromScVal "\<lambda>_. True"
  by unfold_locales (auto simp: scval_dec_iff)

lemma i64_u64 [simp]: "i64 (u64 v) = i64 v"
  by (simp add: i64_def u64_def mod_simps)

interpretation i128_codec: scval_codec I128ToScVal I128FromScVal in_i64
  by unfold_locales (simp add: I128ToScVal_def I128FromScVal_def Let_def i64_id)

section \<open>Addresses\<close>

lemma copy32_id [simp]: "length b = 32 \<Longrightarrow> copy32 b = b"
  by (simp add: copy32_def)

text \<open>A well-formed address: a strkey of either version.\<close>

definition valid_address :: "sdk \<Rightarrow> string \<Rightarrow> bytes \<Rightarrow> bool" where
  "valid_address lib s b \<longleftrightarrow>
     strkey_Decode lib VersionByteContract s = Ok b \<or> strkey_Decode lib VersionByteAccountID s = Ok b"

lemma decode_head:
  assumes "strkey_laws lib" and "strkey_Decode lib v s = Ok b"
  shows "length b = 32 \<and> strkey_Encode lib v b = Ok s \<and>
    (\<exists>t. s = (case v of VersionByteAccountID \<Rightarrow> CHR ''G'' | VersionByteContract \<Rightarrow> CHR ''C'') # t)"
proof -
  from assms have l: "length b = 32" and e: "strkey_Encode lib v b = Ok s"
    unfolding strkey_laws_def by blast+
  from assms(1) l obtain s' where "strkey_Encode lib v b = Ok s'" "s' \<noteq> []"
    "hd s' = (case v of VersionByteAccountID \<Rightarrow> CHR ''G'' | VersionByteContract \<Rightarrow> CHR ''C'')"
    unfolding strkey_laws_def by blast
  with l e show ?thesis by (cases s) auto
qed

lemma AddressToScVal_contract:
  assumes "strkey_laws lib" and "address_laws lib" and "strkey_Decode lib VersionByteContract s = Ok b"
  shows "AddressToScVal lib s = ScvAddress (Some (ScAddressContract (Some b)))"
  using decode_head [OF assms(1,3)] assms(2,3)
  by (auto simp: AddressToScVal_def ParseAddress_def BuildContractScAddress_def address_laws_def)

lemma AddressToScVal_account:
  assumes "strkey_laws lib" and "strkey_Decode lib VersionByteAccountID s = Ok b"
  shows "AddressToScVal lib s = ScvAddress (Some (ScAddressAccount (Some (Ed25519 (Some b)))))"
  using decode_head [OF assms] assms(2) by (auto simp: AddressToScVal_def ParseAddress_def)

lemma address_roundtrip:
  assumes "strkey_laws lib" and "address_laws lib" and "valid_address lib s b"
  shows "AddressFromScVal lib (AddressToScVal lib s) = Ok s"
    and "RawBytesFromAddressScVal (AddressToScVal lib s) = Ok b"
proof -
  consider "strkey_Decode lib VersionByteContract s = Ok b" | "strkey_Decode lib VersionByteAccountID s = Ok b"
    using assms(3) unfolding valid_address_def by blast
  note cs = this
  show "AddressFromScVal lib (AddressToScVal lib s) = Ok s"
    using cs
  proof cases
    case 1
    with decode_head [OF assms(1) 1] show ?thesis
      by (simp add: AddressToScVal_contract [OF assms(1,2) 1] AddressFromScVal_def)
  next
    case 2
    with decode_head [OF assms(1) 2] show ?thesis
      by (simp add: AddressToScVal_account [OF assms(1) 2] AddressFromScVal_def ed25519_field_def)
  qed
  show "RawBytesFromAddressScVal (AddressToScVal lib s) = Ok b"
    using cs
  proof cases
    case 1
    with decode_head [OF assms(1) 1] show ?thesis
      by (simp add: AddressToScVal_contract [OF assms(1,2) 1] RawBytesFromAddressScVal_def)
  next
    case 2
    with decode_head [OF assms(1) 2] show ?thesis
      by (simp add: AddressToScVal_account [OF assms(1) 2] RawBytesFromAddressScVal_def ed25519_field_def)
  qed
qed

lemma address_items_roundtrip:
  assumes "strkey_laws lib" and "address_laws lib" and "list_all2 (valid_address lib) ss bs"
  shows "address_items i (map (AddressToScVal lib) ss) = Ok bs"
  using assms(3)
proof (induction ss bs arbitrary: i rule: list_all2_induct)
  case (Cons s ss b bs)
  then show ?case using address_roundtrip(2) [OF assms(1,2), of s b] by simp
qed simp

lemma bytes_items_roundtrip: "bytes_items (map BytesToScVal bs) = Ok bs"
  by (induction bs) (simp_all add: BytesToScVal_def)

section \<open>Hexadecimal\<close>

lemma hex_digit_char: "n < 16 \<Longrightarrow> hex_digit (hex_char n) = Some n"
proof -
  assume "n < 16"
  then have "n \<in> {0..<16}" by simp
  moreover have "\<forall>k \<in> {0..<16}. hex_digit (hex_char k) = Some k"
    by (simp add: hex_digit_def hex_char_def Let_def atLeast0LessThan lessThan_nat_numeral lessThan_Suc)
  ultimately show ?thesis by blast
qed

lemma hex_roundtrip: "hex_DecodeString (hex_EncodeToString b) = Ok b"
proof (induction b)
  case (Cons w b)
  have "unat w < 256" using unsigned_less [of w, where ?'a = nat] by simp
  then have "unat w div 16 < 16" "unat w mod 16 < 16" by auto
  with Cons show ?case
    by (simp add: hex_EncodeToString_def hex_digit_char del: of_nat_add of_nat_mult)
qed (simp add: hex_EncodeToString_def)

section \<open>Structs\<close>

lemma struct_entries_lookup:
  assumes "distinct (map fst flds)"
  shows "map_of (map (\<lambda>k. (ScvSymbol (Some k), the (map_of flds k))) ks) (ScvSymbol (Some k)) =
    (if k \<in> set ks then Some (the (map_of flds k)) else None)"
  by (induction ks) auto

section \<open>Properties\<close>

text \<open>Each scalar decoder of the bindings accepts exactly the encodings its encoder
  produces, and returns the encoded value; the fixed-size byte decoders also reject every
  other length.\<close>

theorem scval_decoders_exact:
  "(Uint64FromScVal v = Ok n \<longleftrightarrow> v = Uint64ToScVal n)
   \<and> (Uint32FromScVal v = Ok n \<longleftrightarrow> v = Uint32ToScVal n)
   \<and> (SymbolFromScVal v = Ok s \<longleftrightarrow> v = SymbolToScVal s)
   \<and> (StringFromScVal v = Ok s \<longleftrightarrow> v = StringToScVal s)
   \<and> (BytesFromScVal v = Ok b \<longleftrightarrow> v = BytesToScVal b)
   \<and> (Bytes4FromScVal v = Ok b \<longleftrightarrow> v = Bytes4ToScVal b \<and> length b = 4)
   \<and> (Bytes16FromScVal v = Ok b \<longleftrightarrow> v = Bytes16ToScVal b \<and> length b = 16)
   \<and> (Bytes32FromScVal v = Ok b \<longleftrightarrow> v = Bytes32ToScVal b \<and> length b = 32)
   \<and> (U128FromScVal v = Ok u \<longleftrightarrow> v = U128ToScVal u)
   \<and> BytesVecFromScVal (BytesSliceToScVal bs) = Ok bs"
  by (simp add: u64_codec.accepts_iff u32_codec.accepts_iff symbol_codec.accepts_iff
      string_codec.accepts_iff bytes_codec.accepts_iff bytes4_codec.accepts_iff
      bytes16_codec.accepts_iff bytes32_codec.accepts_iff u128_codec.accepts_iff
      BytesVecFromScVal_def BytesSliceToScVal_def VecToScVal_def bytes_items_roundtrip)

text \<open>An int64 survives the trip through i128, and decoding an i128 (whose value is
  hi * 2^64 + lo) returns its value exactly when that value fits an int64; any other i128 is
  silently truncated.\<close>

theorem i128_decoding_exact_iff_fits:
  assumes "in_i64 n" and "in_i64 hi" and "in_u64 lo"
  shows "I128FromScVal (I128ToScVal n) = Ok n
   \<and> (I128FromScVal (ScvI128 (Some (hi, lo))) = Ok (hi * 2 ^ 64 + lo) \<longleftrightarrow> in_i64 (hi * 2 ^ 64 + lo))"
proof -
  have "i64 lo = i64 (hi * 2 ^ 64 + lo)" by (simp add: i64_def mod_simps add.assoc)
  then have "i64 lo = hi * 2 ^ 64 + lo \<longleftrightarrow> in_i64 (hi * 2 ^ 64 + lo)"
    by (metis i64_id in_i64_i64)
  then show ?thesis
    using i128_codec.dec_enc [OF assms(1)] by (simp add: I128FromScVal_def)
qed

theorem i128_decoding_exact_iff_fits_witness:
  "I128FromScVal (I128ToScVal (-5)) = Ok (-5)
   \<and> I128FromScVal (ScvI128 (Some (1, 7))) \<noteq> Ok (1 * 2 ^ 64 + 7)"
  using i128_decoding_exact_iff_fits [of "-5" 1 7] by (simp add: in_i64_def in_u64_def)

text \<open>BuildStructScVal does not depend on the iteration order of the Go map: the result
  is a map value whose symbol keys are the field names in strictly increasing order, and
  each key carries its field.\<close>

theorem struct_encoding_canonical:
  assumes "distinct (map fst flds)" and "mset flds = mset flds'"
  shows "BuildStructScVal flds = BuildStructScVal flds'
   \<and> (\<exists>entries. BuildStructScVal flds = Ok (ScvMap (Some (Some entries)))
        \<and> map fst entries = map SymbolToScVal (sorted_list_of_set (fst ` set flds))
        \<and> (\<forall>k v. (k, v) \<in> set flds \<longrightarrow> map_of entries (SymbolToScVal k) = Some v))"
proof -
  have keys: "mset (map fst flds) = mset (map fst flds')" using assms(2) by (metis mset_map)
  have "distinct (map fst flds')" using keys assms(1) by (metis mset_eq_imp_distinct_iff)
  then have m: "map_of flds = map_of flds'"
    using assms by (metis map_of_inject_set set_mset_mset)
  have ks: "sort (map fst flds) = sort (map fst flds')"
    using keys by (metis sorted_list_of_multiset_mset)
  have srt: "sort (map fst flds) = sorted_list_of_set (fst ` set flds)"
    using assms(1) by (metis distinct_remdups_id list.set_map sorted_list_of_set_sort_remdups)
  show ?thesis
    using assms(1)
    by (auto simp: BuildStructScVal_def Let_def m ks [symmetric] srt SymbolToScVal_def comp_def
        struct_entries_lookup rev_image_eqI simp flip: m)
qed

theorem struct_encoding_canonical_witness:
  "BuildStructScVal [(''b'', ScvVoid), (''a'', ScvU32 (Some 1))] =
   BuildStructScVal [(''a'', ScvU32 (Some 1)), (''b'', ScvVoid)]"
  using struct_encoding_canonical
    [of "[(''b'', ScvVoid), (''a'', ScvU32 (Some 1))]" "[(''a'', ScvU32 (Some 1)), (''b'', ScvVoid)]"]
  by (simp add: add_mset_commute)

text \<open>Addresses round trip: a G or C strkey encodes to an address value from which the
  strkey and its 32 raw bytes come back, alone, as an optional argument, and in a vector.\<close>

theorem address_encoding_roundtrip:
  assumes "strkey_laws lib" and "address_laws lib" and "list_all2 (valid_address lib) (s # ss) bs"
  shows "AddressFromScVal lib (AddressToScVal lib s) = Ok s
   \<and> OptionalAddressFromScVal lib (OptionalAddressToScVal lib (Some s)) = Ok (Some s)
   \<and> OptionalAddressFromScVal lib (OptionalAddressToScVal lib None) = Ok None
   \<and> AddressVecFromScVal (AddressSliceToScVal lib (s # ss)) = Ok bs"
proof -
  obtain b where v: "valid_address lib s b" using assms(3) by (auto simp: list_all2_Cons1)
  have a: "AddressFromScVal lib (AddressToScVal lib s) = Ok s"
    by (rule address_roundtrip(1) [OF assms(1,2) v])
  have "AddressVecFromScVal (AddressSliceToScVal lib (s # ss)) = Ok bs"
    using address_items_roundtrip [OF assms]
    by (simp add: AddressVecFromScVal_def AddressSliceToScVal_def VecToScVal_def del: list.map)
  with a show ?thesis
    by (simp add: OptionalAddressFromScVal_def OptionalAddressToScVal_def VoidScVal_def)
       (simp add: AddressToScVal_def)
qed

definition zero_contract :: string where
  "zero_contract = CHR ''C'' # replicate 32 (CHR 0x00)"

lemma zero_contract_valid: "valid_address sample_sdk zero_contract (replicate 32 0)"
  by (simp add: valid_address_def sample_sdk_def plain_decode_def zero_contract_def version_char_def
      char_byte_def)

theorem address_encoding_roundtrip_witness:
  "AddressFromScVal sample_sdk (AddressToScVal sample_sdk zero_contract) = Ok zero_contract"
proof -
  have "list_all2 (valid_address sample_sdk) [zero_contract] [replicate 32 0]"
    using zero_contract_valid by simp
  from address_encoding_roundtrip [OF sample_strkey_laws sample_address_laws this]
  show ?thesis by blast
qed

text \<open>AddressToScVal has no error result: a string that is not a strkey of its version
  becomes an address value without an address, and reading it back panics.\<close>

theorem invalid_address_becomes_nil:
  assumes "\<And>v. \<not> is_Ok (strkey_Decode lib v s)"
  shows "AddressToScVal lib s = ScvAddress None
   \<and> AddressFromScVal lib (AddressToScVal lib s) = Panic ''nil pointer dereference''"
proof -
  have "ParseAddress lib s = None"
    using assms [of VersionByteContract] assms [of VersionByteAccountID]
    by (auto simp: ParseAddress_def split: list.splits)
  then show ?thesis by (simp add: AddressToScVal_def AddressFromScVal_def)
qed

theorem invalid_address_becomes_nil_witness:
  "AddressToScVal sample_sdk ''Cxyz'' = ScvAddress None"
proof -
  have "\<not> is_Ok (strkey_Decode sample_sdk v ''Cxyz'')" for v
    by (simp add: sample_sdk_def plain_decode_def)
  from invalid_address_becomes_nil [OF this] show ?thesis by blast
qed

text \<open>HexToContractStrkey accepts the lower-case hex of a 32-byte contract id with or
  without the 0x prefix and yields a strkey that decodes to the same bytes.\<close>

theorem hex_to_contract_strkey:
  assumes "strkey_laws lib" and "length b = 32"
  shows "\<exists>s. HexToContractStrkey lib (''0x'' @ hex_EncodeToString b) = Ok s
     \<and> HexToContractStrkey lib (hex_EncodeToString b) = Ok s
     \<and> strkey_Decode lib VersionByteContract s = Ok b"
proof -
  obtain s where s: "strkey_Encode lib VersionByteContract b = Ok s" "strkey_Decode lib VersionByteContract s = Ok b"
    using assms unfolding strkey_laws_def by blast
  have "\<not> HasPrefix (hex_EncodeToString b) ''0x''"
  proof
    assume "HasPrefix (hex_EncodeToString b) ''0x''"
    then obtain t where t: "hex_EncodeToString b = CHR ''0'' # CHR ''x'' # t" by (auto simp: HasPrefix_iff)
    have "hex_digit (CHR ''x'') = None" by (simp add: hex_digit_def)
    with hex_roundtrip [of b] show False by (simp add: t split: option.splits)
  qed
  with s show ?thesis
    by (simp add: HexToContractStrkey_def TrimPrefix_def hex_roundtrip)
qed

theorem hex_to_contract_strkey_witness:
  "\<exists>s. HexToContractStrkey sample_sdk (hex_EncodeToString (replicate 32 171)) = Ok s"
  using hex_to_contract_strkey [OF sample_strkey_laws, of "replicate 32 171"] by auto

end
