(* ===== verification/Converters.thy ===== *)
theory Converters
  imports Scval_Codec
begin

text \<open>
  Conversion between the relayer's domain types (package stellartypes of chainlink-common)
  and the SDK's XDR and RPC types (relayer/type_converters.go). A domain value carries a
  type tag and one pointer field per type; the model keeps the tag as the constructor and
  the field the tag selects as an option (the other fields are never read). A nil slice and
  an empty slice are the same list.
\<close>

section \<open>Domain values\<close>

datatype DScAddress =
    DAccountID bytes
  | DContractID bytes
  | DMuxedAccount int bytes
  | DClaimableBalance bytes
  | DLiquidityPoolID bytes
  | DAddressOther int

datatype DScErrorType =
    DErrContract | DErrWasmVM | DErrContext | DErrStorage | DErrObject | DErrCrypto | DErrEvents
  | DErrBudget | DErrValue | DErrAuth

record DScError =
  dse_Type :: DScErrorType
  dse_ContractCode :: "int option"
  dse_Code :: "int option"

datatype DContractExecutable = DExecWasm bytes | DExecStellarAsset

datatype DScVal =
    DBool "bool option"
  | DVoid
  | DError "DScError option"
  | DU32 "int option"
  | DI32 "int option"
  | DU64 "int option"
  | DI64 "int option"
  | DTimepoint "int option"
  | DDuration "int option"
  | DU128 "(int \<times> int) option"
  | DI128 "(int \<times> int) option"
  | DU256 "(int \<times> int \<times> int \<times> int) option"
  | DI256 "(int \<times> int \<times> int \<times> int) option"
  | DBytes bytes
  | DString "string option"
  | DSymbol "string option"
  | DVec "DScVal option list option"
  | DMap "(DScVal option \<times> DScVal option) list option"
  | DAddress "DScAddress option"
  | DContractInstance "(DContractExecutable \<times> (DScVal option \<times> DScVal option) list) option"
  | DLedgerKeyContractInstance
  | DNonceKey "int option"
  | DOther int

text \<open>The type tags that error messages print, by the names of their constants.\<close>

fun DScVal_Type :: "DScVal \<Rightarrow> errarg" where
  "DScVal_Type (DError _) = AStr ''ScValTypeError''"
| "DScVal_Type (DContractInstance _) = AStr ''ScValTypeContractInstance''"
| "DScVal_Type DLedgerKeyContractInstance = AStr ''ScValTypeLedgerKeyContractInstance''"
| "DScVal_Type (DNonceKey _) = AStr ''ScValTypeNonceKey''"
| "DScVal_Type (DOther t) = AInt t"
| "DScVal_Type _ = AStr []"

fun DScAddress_Type :: "DScAddress \<Rightarrow> errarg" where
  "DScAddress_Type (DAccountID _) = AStr ''ScAddressTypeAccountID''"
| "DScAddress_Type (DContractID _) = AStr ''ScAddressTypeContractID''"
| "DScAddress_Type (DMuxedAccount _ _) = AStr ''ScAddressTypeMuxedAccount''"
| "DScAddress_Type (DClaimableBalance _) = AStr ''ScAddressTypeClaimableBalanceID''"
| "DScAddress_Type (DLiquidityPoolID _) = AStr ''ScAddressTypeLiquidityPoolID''"
| "DScAddress_Type (DAddressOther t) = AInt t"

section \<open>From the domain to XDR\<close>

definition errNilScValField :: "string \<Rightarrow> error" where
  "errNilScValField name = Errorf ''scVal of declared type has nil %s field'' [AStr name]"

definition need :: "string \<Rightarrow> 'a option \<Rightarrow> ('a \<Rightarrow> ScVal) \<Rightarrow> ScVal result" where
  "need name p f = (case p of None \<Rightarrow> Err (errNilScValField name) | Some x \<Rightarrow> Ok (f x))"

definition convertAddressToDomain :: "sdk \<Rightarrow> DScAddress \<Rightarrow> ScAddress result" where
  "convertAddressToDomain lib a =
     (case a of
        DAccountID accountID \<Rightarrow>
          if length accountID \<noteq> 32
          then Err (Errorf ''account id must be 32 bytes, got %d'' [AInt (int (length accountID))])
          else
            bind_r (wrap_err (\<lambda>e. Errorf ''encode account id: %w'' [AErr e])
                      (strkey_Encode lib VersionByteAccountID accountID)) (\<lambda>gAddr.
            bind_r (wrap_err (\<lambda>e. Errorf ''build account address: %w'' [AErr e])
                      (AddressToAccountId lib gAddr)) (\<lambda>acc.
            Ok (ScAddressAccount (Some acc))))
      | DContractID contractID \<Rightarrow>
          if length contractID \<noteq> 32
          then Err (Errorf ''contract id must be 32 bytes, got %d'' [AInt (int (length contractID))])
          else (case BuildContractScAddress lib contractID of
                  None \<Rightarrow> Err (New ''failed to build contract address'')
                | Some addr \<Rightarrow> Ok addr)
      | _ \<Rightarrow> Err (Errorf ''unsupported ScAddress type %d as contract argument'' [DScAddress_Type a]))"

function (sequential) convertScValFromDomain :: "sdk \<Rightarrow> DScVal \<Rightarrow> ScVal result"
  and vecFromDomain :: "sdk \<Rightarrow> nat \<Rightarrow> DScVal option list \<Rightarrow> ScVal list result"
  and mapFromDomain :: "sdk \<Rightarrow> nat \<Rightarrow> (DScVal option \<times> DScVal option) list \<Rightarrow> (ScVal \<times> ScVal) list result"
where
  "convertScValFromDomain lib (DBool p) = need ''Bool'' p (\<lambda>b. ScvBool (Some b))"
| "convertScValFromDomain lib DVoid = Ok ScvVoid"
| "convertScValFromDomain lib (DU32 p) = need ''U32'' p (\<lambda>u. ScvU32 (Some u))"
| "convertScValFromDomain lib (DI32 p) = need ''I32'' p (\<lambda>i. ScvI32 (Some i))"
| "convertScValFromDomain lib (DU64 p) = need ''U64'' p (\<lambda>u. ScvU64 (Some u))"
| "convertScValFromDomain lib (DI64 p) = need ''I64'' p (\<lambda>i. ScvI64 (Some i))"
| "convertScValFromDomain lib (DTimepoint p) = need ''Timepoint'' p (\<lambda>t. ScvTimepoint (Some t))"
| "convertScValFromDomain lib (DDuration p) = need ''Duration'' p (\<lambda>d. ScvDuration (Some d))"
| "convertScValFromDomain lib (DU128 p) = need ''U128'' p (\<lambda>(hi, lo). ScvU128 (Some (hi, lo)))"
| "convertScValFromDomain lib (DI128 p) = need ''I128'' p (\<lambda>(hi, lo). ScvI128 (Some (hi, lo)))"
| "convertScValFromDomain lib (DU256 p) =
     need ''U256'' p (\<lambda>(hihi, hilo, lohi, lolo). ScvU256 (Some (hihi, hilo, lohi, lolo)))"
| "convertScValFromDomain lib (DI256 p) =
     need ''I256'' p (\<lambda>(hihi, hilo, lohi, lolo). ScvI256 (Some (hihi, hilo, lohi, lolo)))"
| "convertScValFromDomain lib (DBytes b) = Ok (ScvBytes (Some b))"
| "convertScValFromDomain lib (DString p) = need ''String'' p (\<lambda>s. ScvString (Some s))"
| "convertScValFromDomain lib (DSymbol p) = need ''Symbol'' p (\<lambda>s. ScvSymbol (Some s))"
| "convertScValFromDomain lib (DVec None) = Err (errNilScValField ''Vec'')"
| "convertScValFromDomain lib (DVec (Some es)) =
     bind_r (vecFromDomain lib 0 es) (\<lambda>items. Ok (ScvVec (Some (Some items))))"
| "convertScValFromDomain lib (DMap None) = Err (errNilScValField ''Map'')"
| "convertScValFromDomain lib (DMap (Some es)) =
     bind_r (mapFromDomain lib 0 es) (\<lambda>entries. Ok (ScvMap (Some (Some entries))))"
| "convertScValFromDomain lib (DAddress None) = Err (errNilScValField ''Address'')"
| "convertScValFromDomain lib (DAddress (Some a)) =
     bind_r (convertAddressToDomain lib a) (\<lambda>addr. Ok (ScvAddress (Some addr)))"
| "convertScValFromDomain lib v =
     Err (Errorf ''unsupported ScVal type %d as contract argument'' [DScVal_Type v])"
| "vecFromDomain lib i [] = Ok []"
| "vecFromDomain lib i (None # es) = Err (Errorf ''vec element %d is nil'' [AInt (int i)])"
| "vecFromDomain lib i (Some e # es) =
     bind_r (wrap_err (\<lambda>x. Errorf ''vec element %d: %w'' [AInt (int i), AErr x])
               (convertScValFromDomain lib e)) (\<lambda>c.
     bind_r (vecFromDomain lib (Suc i) es) (\<lambda>cs. Ok (c # cs)))"
| "mapFromDomain lib i [] = Ok []"
| "mapFromDomain lib i ((Some k, Some v) # es) =
     bind_r (wrap_err (\<lambda>x. Errorf ''map entry %d key: %w'' [AInt (int i), AErr x])
               (convertScValFromDomain lib k)) (\<lambda>ck.
     bind_r (wrap_err (\<lambda>x. Errorf ''map entry %d val: %w'' [AInt (int i), AErr x])
               (convertScValFromDomain lib v)) (\<lambda>cv.
     bind_r (mapFromDomain lib (Suc i) es) (\<lambda>cs. Ok ((ck, cv) # cs))))"
| "mapFromDomain lib i (e # es) = Err (Errorf ''map entry %d has nil key or val'' [AInt (int i)])"
  by pat_completeness auto
termination
  by (relation "measure (\<lambda>x. case x of Inl (_, v) \<Rightarrow> size v
        | Inr (Inl (_, _, es)) \<Rightarrow> size_list (size_option size) es
        | Inr (Inr (_, _, es)) \<Rightarrow> size_list (size_prod (size_option size) (size_option size)) es)") auto

fun argsFromDomain :: "sdk \<Rightarrow> nat \<Rightarrow> DScVal list \<Rightarrow> ScVal list result" where
  "argsFromDomain lib i [] = Ok []"
| "argsFromDomain lib i (v # vs) =
     bind_r (wrap_err (\<lambda>e. Errorf ''arg[%d]: %w'' [AInt (int i), AErr e]) (convertScValFromDomain lib v)) (\<lambda>x.
     bind_r (argsFromDomain lib (Suc i) vs) (\<lambda>xs. Ok (x # xs)))"

definition convertScValsToDomain :: "sdk \<Rightarrow> DScVal list \<Rightarrow> ScVal list result" where
  "convertScValsToDomain lib vals = argsFromDomain lib 0 vals"

section \<open>From XDR to the domain\<close>

definition nil_err :: "string \<Rightarrow> 'a option \<Rightarrow> ('a \<Rightarrow> 'b) \<Rightarrow> 'b result" where
  "nil_err msg p f = (case p of None \<Rightarrow> Err (New msg) | Some x \<Rightarrow> Ok (f x))"

definition convertScErrorTypeToDomain :: "ScErrorType \<Rightarrow> DScErrorType result" where
  "convertScErrorTypeToDomain t =
     (case t of
        SceContract \<Rightarrow> Ok DErrContract
      | SceWasmVm \<Rightarrow> Ok DErrWasmVM
      | SceContext \<Rightarrow> Ok DErrContext
      | SceStorage \<Rightarrow> Ok DErrStorage
      | SceObject \<Rightarrow> Ok DErrObject
      | SceCrypto \<Rightarrow> Ok DErrCrypto
      | SceEvents \<Rightarrow> Ok DErrEvents
      | SceBudget \<Rightarrow> Ok DErrBudget
      | SceValue \<Rightarrow> Ok DErrValue
      | SceAuth \<Rightarrow> Ok DErrAuth
      | SceOther n \<Rightarrow> Err (Errorf ''unsupported sc error type: %v'' [AInt n]))"

definition convertScErrorToDomain :: "ScError \<Rightarrow> DScError result" where
  "convertScErrorToDomain e =
     bind_r (convertScErrorTypeToDomain (sce_Type e)) (\<lambda>errorType.
       if sce_Type e = SceContract then
         (case sce_ContractCode e of
            None \<Rightarrow> Err (New ''contract error code is nil'')
          | Some code \<Rightarrow> Ok \<lparr>dse_Type = errorType, dse_ContractCode = Some code, dse_Code = None\<rparr>)
       else
         (case sce_Code e of
            None \<Rightarrow> Err (New ''error code is nil'')
          | Some code \<Rightarrow> Ok \<lparr>dse_Type = errorType, dse_ContractCode = None, dse_Code = Some code\<rparr>))"

definition GetEd25519 :: "PublicKey \<Rightarrow> bytes option result" where
  "GetEd25519 k = (case k of Ed25519 p \<Rightarrow> bind_r (deref p) (\<lambda>b. Ok (Some b)) | PublicKeyOther _ \<Rightarrow> Ok None)"

definition GetV0 :: "ClaimableBalanceId \<Rightarrow> bytes option result" where
  "GetV0 c = (case c of ClaimableBalanceV0 p \<Rightarrow> bind_r (deref p) (\<lambda>b. Ok (Some b))
     | ClaimableBalanceOther _ \<Rightarrow> Ok None)"

definition convertScAddressToDomain :: "ScAddress \<Rightarrow> DScAddress result" where
  "convertScAddressToDomain addr =
     (case addr of
        ScAddressAccount None \<Rightarrow> Err (New ''account id is nil'')
      | ScAddressAccount (Some acc) \<Rightarrow>
          bind_r (GetEd25519 acc) (\<lambda>k. case k of
            None \<Rightarrow> Err (New ''account id ed25519 arm is not set'')
          | Some b \<Rightarrow> Ok (DAccountID b))
      | ScAddressContract p \<Rightarrow> nil_err ''contract id is nil'' p DContractID
      | ScAddressMuxedAccount p \<Rightarrow> nil_err ''muxed account is nil'' p (\<lambda>(i, b). DMuxedAccount i b)
      | ScAddressClaimableBalance None \<Rightarrow> Err (New ''claimable balance id is nil'')
      | ScAddressClaimableBalance (Some c) \<Rightarrow>
          bind_r (GetV0 c) (\<lambda>v0. case v0 of
            None \<Rightarrow> Err (New ''claimable balance v0 arm is not set'')
          | Some b \<Rightarrow> Ok (DClaimableBalance b))
      | ScAddressLiquidityPool p \<Rightarrow> nil_err ''liquidity pool id is nil'' p DLiquidityPoolID
      | ScAddressOther n \<Rightarrow> Err (Errorf ''unsupported sc address type: %v'' [AInt n]))"

definition convertContractExecutableToDomain :: "ContractExecutable \<Rightarrow> DContractExecutable result" where
  "convertContractExecutableToDomain e =
     (case e of
        ExecutableWasm p \<Rightarrow> nil_err ''wasm hash is nil'' p DExecWasm
      | ExecutableStellarAsset \<Rightarrow> Ok DExecStellarAsset
      | ExecutableOther n \<Rightarrow> Err (Errorf ''unsupported contract executable type: %v'' [AInt n]))"

function (sequential) convertScValToDomain :: "ScVal \<Rightarrow> DScVal result"
  and vecToDomain :: "nat \<Rightarrow> ScVal list \<Rightarrow> DScVal option list result"
  and convertScMapToDomain :: "nat \<Rightarrow> (ScVal \<times> ScVal) list \<Rightarrow> (DScVal option \<times> DScVal option) list result"
  and convertScContractInstanceToDomain ::
    "ContractExecutable \<times> (ScVal \<times> ScVal) list option \<Rightarrow>
     (DContractExecutable \<times> (DScVal option \<times> DScVal option) list) result"
where
  "convertScValToDomain (ScvBool p) = nil_err ''bool value is nil'' p (\<lambda>v. DBool (Some v))"
| "convertScValToDomain ScvVoid = Ok DVoid"
| "convertScValToDomain (ScvError None) = Err (New ''error value is nil'')"
| "convertScValToDomain (ScvError (Some e)) =
     bind_r (convertScErrorToDomain e) (\<lambda>d. Ok (DError (Some d)))"
| "convertScValToDomain (ScvU32 p) = nil_err ''u32 value is nil'' p (\<lambda>v. DU32 (Some v))"
| "convertScValToDomain (ScvI32 p) = nil_err ''i32 value is nil'' p (\<lambda>v. DI32 (Some v))"
| "convertScValToDomain (ScvU64 p) = nil_err ''u64 value is nil'' p (\<lambda>v. DU64 (Some v))"
| "convertScValToDomain (ScvI64 p) = nil_err ''i64 value is nil'' p (\<lambda>v. DI64 (Some v))"
| "convertScValToDomain (ScvTimepoint p) = nil_err ''timepoint value is nil'' p (\<lambda>v. DTimepoint (Some v))"
| "convertScValToDomain (ScvDuration p) = nil_err ''duration value is nil'' p (\<lambda>v. DDuration (Some v))"
| "convertScValToDomain (ScvU128 p) = nil_err ''u128 value is nil'' p (\<lambda>(hi, lo). DU128 (Some (hi, lo)))"
| "convertScValToDomain (ScvI128 p) = nil_err ''i128 value is nil'' p (\<lambda>(hi, lo). DI128 (Some (hi, lo)))"
| "convertScValToDomain (ScvU256 p) =
     nil_err ''u256 value is nil'' p (\<lambda>(hihi, hilo, lohi, lolo). DU256 (Some (hihi, hilo, lohi, lolo)))"
| "convertScValToDomain (ScvI256 p) =
     nil_err ''i256 value is nil'' p (\<lambda>(hihi, hilo, lohi, lolo). DI256 (Some (hihi, hilo, lohi, lolo)))"
| "convertScValToDomain (ScvBytes p) = nil_err ''bytes value is nil'' p DBytes"
| "convertScValToDomain (ScvString p) = nil_err ''string value is nil'' p (\<lambda>v. DString (Some v))"
| "convertScValToDomain (ScvSymbol p) = nil_err ''symbol value is nil'' p (\<lambda>v. DSymbol (Some v))"
| "convertScValToDomain (ScvVec None) = Err (New ''vec value is nil'')"
| "convertScValToDomain (ScvVec (Some None)) = Ok (DVec (Some []))"
| "convertScValToDomain (ScvVec (Some (Some items))) =
     bind_r (vecToDomain 0 items) (\<lambda>vs. Ok (DVec (Some vs)))"
| "convertScValToDomain (ScvMap None) = Err (New ''map value is nil'')"
| "convertScValToDomain (ScvMap (Some None)) = Ok (DMap (Some []))"
| "convertScValToDomain (ScvMap (Some (Some m))) =
     bind_r (convertScMapToDomain 0 m) (\<lambda>es. Ok (DMap (Some es)))"
| "convertScValToDomain (ScvAddress None) = Err (New ''address value is nil'')"
| "convertScValToDomain (ScvAddress (Some a)) =
     bind_r (convertScAddressToDomain a) (\<lambda>d. Ok (DAddress (Some d)))"
| "convertScValToDomain (ScvContractInstance None) = Err (New ''contract instance value is nil'')"
| "convertScValToDomain (ScvContractInstance (Some inst)) =
     bind_r (convertScContractInstanceToDomain inst) (\<lambda>d. Ok (DContractInstance (Some d)))"
| "convertScValToDomain ScvLedgerKeyContractInstance = Ok DLedgerKeyContractInstance"
| "convertScValToDomain (ScvLedgerKeyNonce p) = nil_err ''nonce key value is nil'' p (\<lambda>n. DNonceKey (Some n))"
| "convertScValToDomain (ScvOther n) = Err (Errorf ''unsupported scval type: %v'' [AInt n])"
| "vecToDomain i [] = Ok []"
| "vecToDomain i (item # items) =
     bind_r (wrap_err (\<lambda>e. Errorf ''vec[%d]: %w'' [AInt (int i), AErr e]) (convertScValToDomain item)) (\<lambda>v.
     bind_r (vecToDomain (Suc i) items) (\<lambda>vs. Ok (Some v # vs)))"
| "convertScMapToDomain i [] = Ok []"
| "convertScMapToDomain i ((k, v) # m) =
     bind_r (wrap_err (\<lambda>e. Errorf ''map[%d].key: %w'' [AInt (int i), AErr e]) (convertScValToDomain k)) (\<lambda>dk.
     bind_r (wrap_err (\<lambda>e. Errorf ''map[%d].val: %w'' [AInt (int i), AErr e]) (convertScValToDomain v)) (\<lambda>dv.
     bind_r (convertScMapToDomain (Suc i) m) (\<lambda>es. Ok ((Some dk, Some dv) # es))))"
| "convertScContractInstanceToDomain (exec, storage) =
     bind_r (wrap_err (\<lambda>e. Errorf ''executable: %w'' [AErr e]) (convertContractExecutableToDomain exec)) (\<lambda>d.
       case storage of
         None \<Rightarrow> Ok (d, [])
       | Some m \<Rightarrow>
           bind_r (wrap_err (\<lambda>e. Errorf ''storage: %w'' [AErr e]) (convertScMapToDomain 0 m)) (\<lambda>st. Ok (d, st)))"
  by pat_completeness auto
termination
  by (relation "measure (\<lambda>x. case x of Inl (Inl v) \<Rightarrow> 2 * size v
        | Inl (Inr (_, items)) \<Rightarrow> 2 * size_list size items
        | Inr (Inl (_, m)) \<Rightarrow> 2 * size_list (size_prod size size) m
        | Inr (Inr (_, st)) \<Rightarrow> 2 * size_option (size_list (size_prod size size)) st + 1)") auto

definition decodeScValBase64ToDomain :: "sdk \<Rightarrow> string \<Rightarrow> DScVal result" where
  "decodeScValBase64ToDomain lib encoded = bind_r (unb64_ScVal lib encoded) convertScValToDomain"

section \<open>Event queries\<close>

datatype DEventType = DEventTypeSystem | DEventTypeContract | DEventTypeOther int

datatype EventType = EventTypeSystem | EventTypeContract | EventTypeOther string

record DTopicSegment =
  dts_Wildcard :: "string option"
  dts_Value :: "DScVal option"

record DEventFilter =
  def_EventTypes :: "DEventType list"
  def_ContractIDs :: "string list"
  def_Topics :: "DTopicSegment list list"

record DGetEventsRequest =
  dge_StartLedger :: int
  dge_EndLedger :: int
  dge_Filters :: "DEventFilter list"
  dge_Pagination :: "(string \<times> int) option"

record SegmentFilter =
  sf_Wildcard :: "string option"
  sf_ScVal :: "ScVal option"

record EventFilter =
  ef_EventType :: "EventType list option"
  ef_ContractIDs :: "string list"
  ef_Topics :: "SegmentFilter list list"

record GetEventsRequest =
  ge_StartLedger :: int
  ge_EndLedger :: int
  ge_Filters :: "EventFilter list"
  ge_Format :: string
  ge_Pagination :: "(string option \<times> int) option"

definition WildCardExactOne :: string where
  "WildCardExactOne = ''*''"

definition WildCardZeroOrMore :: string where
  "WildCardZeroOrMore = ''**''"

text \<open>A loop over a slice that converts element \<open>i\<close> and stops at the first error, which it
  wraps with the index.\<close>

fun convert_each :: "(nat \<Rightarrow> error \<Rightarrow> error) \<Rightarrow> ('a \<Rightarrow> 'b result) \<Rightarrow> nat \<Rightarrow> 'a list \<Rightarrow> 'b list result" where
  "convert_each wrap f i [] = Ok []"
| "convert_each wrap f i (x # xs) =
     bind_r (wrap_err (wrap i) (f x)) (\<lambda>y. bind_r (convert_each wrap f (Suc i) xs) (\<lambda>ys. Ok (y # ys)))"

definition convertSegment :: "sdk \<Rightarrow> nat \<Rightarrow> DTopicSegment \<Rightarrow> SegmentFilter result" where
  "convertSegment lib i seg =
     (case (dts_Wildcard seg, dts_Value seg) of
        (Some _, Some _) \<Rightarrow>
          Err (Errorf ''segments[%d]: topic segment cannot set both wildcard and value'' [AInt (int i)])
      | (None, None) \<Rightarrow>
          Err (Errorf ''segments[%d]: topic segment must set either wildcard or value'' [AInt (int i)])
      | (Some w, None) \<Rightarrow>
          if w \<noteq> WildCardExactOne \<and> w \<noteq> WildCardZeroOrMore
          then Err (Errorf (''segments[%d]: wildcard must be '*' or '**'' @ [CHR 0x27]) [AInt (int i)])
          else Ok \<lparr>sf_Wildcard = Some w, sf_ScVal = None\<rparr>
      | (None, Some v) \<Rightarrow>
          bind_r (wrap_err (\<lambda>e. Errorf ''segments[%d]: value: %w'' [AInt (int i), AErr e])
                    (convertScValFromDomain lib v))
            (\<lambda>c. Ok \<lparr>sf_Wildcard = None, sf_ScVal = Some c\<rparr>))"

fun convertSegments :: "sdk \<Rightarrow> nat \<Rightarrow> DTopicSegment list \<Rightarrow> SegmentFilter list result" where
  "convertSegments lib i [] = Ok []"
| "convertSegments lib i (s # ss) =
     bind_r (convertSegment lib i s) (\<lambda>c. bind_r (convertSegments lib (Suc i) ss) (\<lambda>cs. Ok (c # cs)))"

definition convertTopicFilterFromDomain :: "sdk \<Rightarrow> DTopicSegment list \<Rightarrow> SegmentFilter list result" where
  "convertTopicFilterFromDomain lib segments =
     (if segments = [] then Err (New ''topic filter must have at least one segment'')
      else convertSegments lib 0 segments)"

text \<open>\<open>eventTypes[et] = nil\<close> adds a key to a map used as a set.\<close>

fun convertEventTypes :: "nat \<Rightarrow> DEventType list \<Rightarrow> EventType list \<Rightarrow> EventType list result" where
  "convertEventTypes i [] acc = Ok acc"
| "convertEventTypes i (t # ts) acc =
     (case t of
        DEventTypeSystem \<Rightarrow> convertEventTypes (Suc i) ts (List.insert EventTypeSystem acc)
      | DEventTypeContract \<Rightarrow> convertEventTypes (Suc i) ts (List.insert EventTypeContract acc)
      | DEventTypeOther n \<Rightarrow>
          Err (Errorf ''eventTypes[%d]: unsupported event type: %v'' [AInt (int i), AInt n]))"

definition convertEventFilterFromDomain :: "sdk \<Rightarrow> DEventFilter \<Rightarrow> EventFilter result" where
  "convertEventFilterFromDomain lib f =
     bind_r (if def_EventTypes f \<noteq> []
             then bind_r (convertEventTypes 0 (def_EventTypes f) []) (\<lambda>s. Ok (Some s))
             else Ok None) (\<lambda>eventTypes.
     bind_r (convert_each (\<lambda>i e. Errorf ''topics[%d]: %w'' [AInt (int i), AErr e])
               (convertTopicFilterFromDomain lib) 0 (def_Topics f)) (\<lambda>topics.
     Ok \<lparr>ef_EventType = eventTypes, ef_ContractIDs = def_ContractIDs f, ef_Topics = topics\<rparr>))"

definition convertGetEventsRequestsFromDomain :: "sdk \<Rightarrow> DGetEventsRequest \<Rightarrow> GetEventsRequest result" where
  "convertGetEventsRequestsFromDomain lib req =
     (if dge_StartLedger req \<noteq> 0 \<and> dge_EndLedger req \<noteq> 0 \<and> dge_StartLedger req > dge_EndLedger req
      then Err (Errorf ''invalid ledger range: startLedger (%d) must be <= endLedger (%d)''
                  [AInt (dge_StartLedger req), AInt (dge_EndLedger req)])
      else
        bind_r (convert_each (\<lambda>i e. Errorf ''filters[%d]: %w'' [AInt (int i), AErr e])
                  (convertEventFilterFromDomain lib) 0 (dge_Filters req)) (\<lambda>filters.
        let out = \<lparr>ge_StartLedger = dge_StartLedger req, ge_EndLedger = dge_EndLedger req,
                   ge_Filters = filters, ge_Format = ''base64'', ge_Pagination = None\<rparr>
        in case dge_Pagination req of
             None \<Rightarrow> Ok out
           | Some (cursor, limit) \<Rightarrow>
               if cursor = [] then Ok (out\<lparr>ge_Pagination := Some (None, limit)\<rparr>)
               else bind_r (wrap_err (\<lambda>e. Errorf ''pagination.cursor: %w'' [AErr e]) (ParseCursor lib cursor))
                      (\<lambda>c. Ok (out\<lparr>ge_Pagination := Some (Some c, limit)\<rparr>))))"

section \<open>Events\<close>

record EventInfo =
  ei_EventType :: EventType
  ei_Ledger :: int
  ei_LedgerClosedAt :: string
  ei_ContractID :: string
  ei_ID :: string
  ei_OpIndex :: int
  ei_TxIndex :: int
  ei_TransactionHash :: string
  ei_TopicXDR :: "string list"
  ei_ValueXDR :: string

record DEventInfo =
  dei_EventType :: DEventType
  dei_Ledger :: int
  dei_LedgerClosedAt :: string
  dei_ContractID :: string
  dei_ID :: string
  dei_OperationIndex :: int
  dei_TransactionIndex :: int
  dei_TransactionHash :: string
  dei_Topics :: "DScVal list"
  dei_Value :: DScVal

record 'ev GetEventsResponse =
  ger_Events :: "'ev list"
  ger_Cursor :: string
  ger_LatestLedger :: int
  ger_OldestLedger :: int
  ger_LatestLedgerCloseTime :: int
  ger_OldestLedgerCloseTime :: int

definition convertEventType :: "EventType \<Rightarrow> DEventType result" where
  "convertEventType t =
     (case t of
        EventTypeSystem \<Rightarrow> Ok DEventTypeSystem
      | EventTypeContract \<Rightarrow> Ok DEventTypeContract
      | EventTypeOther s \<Rightarrow> Err (Errorf ''unsupported event type: %s'' [AStr s]))"

definition convertEventInfoToDomain :: "sdk \<Rightarrow> EventInfo \<Rightarrow> DEventInfo result" where
  "convertEventInfoToDomain lib event =
     (if ei_Ledger event < 0
      then Err (Errorf ''ledger must be non-negative: %d'' [AInt (ei_Ledger event)])
      else
        bind_r (convertEventType (ei_EventType event)) (\<lambda>eventType.
        bind_r (convert_each (\<lambda>i e. Errorf ''topics[%d]: %w'' [AInt (int i), AErr e])
                  (decodeScValBase64ToDomain lib) 0 (ei_TopicXDR event)) (\<lambda>topics.
        if ei_ValueXDR event = [] then Err (New ''value is required'')
        else
          bind_r (wrap_err (\<lambda>e. Errorf ''value: %w'' [AErr e])
                    (decodeScValBase64ToDomain lib (ei_ValueXDR event))) (\<lambda>val.
          Ok \<lparr>dei_EventType = eventType, dei_Ledger = u32 (ei_Ledger event),
              dei_LedgerClosedAt = ei_LedgerClosedAt event, dei_ContractID = ei_ContractID event,
              dei_ID = ei_ID event, dei_OperationIndex = ei_OpIndex event,
              dei_TransactionIndex = ei_TxIndex event, dei_TransactionHash = ei_TransactionHash event,
              dei_Topics = topics, dei_Value = val\<rparr>))))"

definition convertGetEventsResponseToDomain ::
    "sdk \<Rightarrow> EventInfo GetEventsResponse \<Rightarrow> DEventInfo GetEventsResponse result" where
  "convertGetEventsResponseToDomain lib resp =
     bind_r (convert_each (\<lambda>i e. Errorf ''events[%d]: %w'' [AInt (int i), AErr e])
               (convertEventInfoToDomain lib) 0 (ger_Events resp)) (\<lambda>events.
     Ok \<lparr>ger_Events = events, ger_Cursor = ger_Cursor resp, ger_LatestLedger = ger_LatestLedger resp,
         ger_OldestLedger = ger_OldestLedger resp,
         ger_LatestLedgerCloseTime = ger_LatestLedgerCloseTime resp,
         ger_OldestLedgerCloseTime = ger_OldestLedgerCloseTime resp\<rparr>)"

datatype SimulateAuthMode = AuthModeUnset | AuthModeEnforce | AuthModeRecord | AuthModeRecordAllowNonroot
  | AuthModeOther string

definition validateSimulateAuthMode :: "SimulateAuthMode \<Rightarrow> SimulateAuthMode result" where
  "validateSimulateAuthMode mode =
     (case mode of
        AuthModeUnset \<Rightarrow> Ok AuthModeRecord
      | AuthModeEnforce \<Rightarrow> Ok mode
      | AuthModeRecord \<Rightarrow> Ok mode
      | AuthModeRecordAllowNonroot \<Rightarrow> Ok mode
      | AuthModeOther s \<Rightarrow> Err (Errorf ''unsupported auth mode: %s'' [AStr s]))"

section \<open>Round trip\<close>

text \<open>Domain values that can be passed as a contract argument: no nil pointer, no type that
  only occurs in results, addresses of 32 bytes.\<close>

function (sequential) arg_ok :: "DScVal \<Rightarrow> bool"
  and elems_ok :: "DScVal option list \<Rightarrow> bool"
  and entries_ok :: "(DScVal option \<times> DScVal option) list \<Rightarrow> bool"
where
  "arg_ok (DBool p) \<longleftrightarrow> p \<noteq> None"
| "arg_ok DVoid \<longleftrightarrow> True"
| "arg_ok (DU32 p) \<longleftrightarrow> p \<noteq> None"
| "arg_ok (DI32 p) \<longleftrightarrow> p \<noteq> None"
| "arg_ok (DU64 p) \<longleftrightarrow> p \<noteq> None"
| "arg_ok (DI64 p) \<longleftrightarrow> p \<noteq> None"
| "arg_ok (DTimepoint p) \<longleftrightarrow> p \<noteq> None"
| "arg_ok (DDuration p) \<longleftrightarrow> p \<noteq> None"
| "arg_ok (DU128 p) \<longleftrightarrow> p \<noteq> None"
| "arg_ok (DI128 p) \<longleftrightarrow> p \<noteq> None"
| "arg_ok (DU256 p) \<longleftrightarrow> p \<noteq> None"
| "arg_ok (DI256 p) \<longleftrightarrow> p \<noteq> None"
| "arg_ok (DBytes b) \<longleftrightarrow> True"
| "arg_ok (DString p) \<longleftrightarrow> p \<noteq> None"
| "arg_ok (DSymbol p) \<longleftrightarrow> p \<noteq> None"
| "arg_ok (DVec (Some es)) \<longleftrightarrow> elems_ok es"
| "arg_ok (DMap (Some es)) \<longleftrightarrow> entries_ok es"
| "arg_ok (DAddress (Some (DAccountID b))) \<longleftrightarrow> length b = 32"
| "arg_ok (DAddress (Some (DContractID b))) \<longleftrightarrow> length b = 32"
| "arg_ok _ \<longleftrightarrow> False"
| "elems_ok [] \<longleftrightarrow> True"
| "elems_ok (Some e # es) \<longleftrightarrow> arg_ok e \<and> elems_ok es"
| "elems_ok (None # es) \<longleftrightarrow> False"
| "entries_ok [] \<longleftrightarrow> True"
| "entries_ok ((Some k, Some v) # es) \<longleftrightarrow> arg_ok k \<and> arg_ok v \<and> entries_ok es"
| "entries_ok (_ # es) \<longleftrightarrow> False"
  by pat_completeness auto
termination
  by (relation "measure (\<lambda>x. case x of Inl v \<Rightarrow> size v
        | Inr (Inl es) \<Rightarrow> size_list (size_option size) es
        | Inr (Inr es) \<Rightarrow> size_list (size_prod (size_option size) (size_option size)) es)") auto

lemma arg_ok_address:
  "arg_ok (DAddress (Some a)) \<longleftrightarrow> (\<exists>b. length b = 32 \<and> (a = DAccountID b \<or> a = DContractID b))"
  by (cases a) auto

lemma need_Ok_iff: "need nm p f = Ok y \<longleftrightarrow> (\<exists>x. p = Some x \<and> f x = y)"
  by (auto simp: need_def split: option.splits)

lemma nil_err_Some [simp]: "nil_err msg (Some x) f = Ok (f x)"
  by (simp add: nil_err_def)

lemma convertAddress_Ok:
  assumes "strkey_laws lib" and "address_laws lib"
  shows "convertAddressToDomain lib a = Ok x \<longleftrightarrow>
    (\<exists>b. length b = 32 \<and> (a = DAccountID b \<and> x = ScAddressAccount (Some (Ed25519 (Some b)))
                          \<or> a = DContractID b \<and> x = ScAddressContract (Some b)))"
proof (cases a)
  case (DAccountID b)
  show ?thesis
  proof (cases "length b = 32")
    case True
    with assms(1) obtain s where "strkey_Encode lib VersionByteAccountID b = Ok s"
        "strkey_Decode lib VersionByteAccountID s = Ok b"
      unfolding strkey_laws_def by blast
    with assms(2) DAccountID True show ?thesis
      by (auto simp: convertAddressToDomain_def address_laws_def)
  qed (simp add: DAccountID convertAddressToDomain_def)
next
  case (DContractID b)
  with assms(2) show ?thesis
    by (auto simp: convertAddressToDomain_def BuildContractScAddress_def address_laws_def)
qed (simp_all add: convertAddressToDomain_def)

lemma from_domain_roundtrip:
  assumes "strkey_laws lib" and "address_laws lib"
  shows "convertScValFromDomain lib v = Ok x \<Longrightarrow> convertScValToDomain x = Ok v"
    and "vecFromDomain lib i es = Ok xs \<Longrightarrow> vecToDomain j xs = Ok es"
    and "mapFromDomain lib i ms = Ok ys \<Longrightarrow> convertScMapToDomain j ys = Ok ms"
  using assms
proof (induction lib v and lib i es and lib i ms arbitrary: x and xs j and ys j
    rule: convertScValFromDomain_vecFromDomain_mapFromDomain.induct)
qed (auto simp: need_Ok_iff convertAddress_Ok convertScAddressToDomain_def GetEd25519_def)

lemma from_domain_accepts:
  assumes "strkey_laws lib" and "address_laws lib"
  shows "(\<exists>x. convertScValFromDomain lib v = Ok x) \<longleftrightarrow> arg_ok v"
    and "(\<exists>xs. vecFromDomain lib i es = Ok xs) \<longleftrightarrow> elems_ok es"
    and "(\<exists>ys. mapFromDomain lib i ms = Ok ys) \<longleftrightarrow> entries_ok ms"
  using assms
proof (induction lib v and lib i es and lib i ms
    rule: convertScValFromDomain_vecFromDomain_mapFromDomain.induct)
qed (auto simp: need_Ok_iff convertAddress_Ok arg_ok_address)

section \<open>Slices of results\<close>

lemma convert_each_Ok_iff:
  "convert_each wrap f i xs = Ok ys \<longleftrightarrow> list_all2 (\<lambda>x y. f x = Ok y) xs ys"
  by (induction xs arbitrary: i ys) (auto simp: list_all2_Cons1)

lemma convertSegments_Ok_iff:
  "convertSegments lib i ss = Ok cs \<longleftrightarrow>
   length cs = length ss \<and> (\<forall>j < length ss. convertSegment lib (i + j) (ss ! j) = Ok (cs ! j))"
proof (induction ss arbitrary: i cs)
  case (Cons s ss)
  show ?case
  proof (cases cs)
    case (Cons c cs')
    then show ?thesis using Cons.IH [of "Suc i" cs'] by (auto simp: All_less_Suc2)
  qed simp
qed auto

text \<open>A well-formed topic segment of an RPC filter: a wildcard or a value, not both.\<close>

definition segment_ok :: "SegmentFilter \<Rightarrow> bool" where
  "segment_ok sf \<longleftrightarrow>
     (sf_ScVal sf = None \<and> (sf_Wildcard sf = Some WildCardExactOne \<or> sf_Wildcard sf = Some WildCardZeroOrMore)) \<or>
     (sf_Wildcard sf = None \<and> sf_ScVal sf \<noteq> None)"

lemma convertSegment_ok: "convertSegment lib i s = Ok c \<Longrightarrow> segment_ok c"
  by (auto simp: convertSegment_def segment_ok_def split: option.splits if_splits)

lemma convertTopicFilter_ok:
  "convertTopicFilterFromDomain lib ss = Ok cs \<Longrightarrow> cs \<noteq> [] \<and> length cs = length ss \<and> (\<forall>c \<in> set cs. segment_ok c)"
  using convertSegment_ok [of lib]
  by (fastforce simp: convertTopicFilterFromDomain_def convertSegments_Ok_iff in_set_conv_nth
      split: if_splits)

lemma convertEventTypes_set:
  "convertEventTypes i ts acc = Ok s \<Longrightarrow>
   set s = set acc \<union> (\<lambda>t. case t of DEventTypeContract \<Rightarrow> EventTypeContract | _ \<Rightarrow> EventTypeSystem) ` set ts"
  by (induction ts arbitrary: i acc) (auto split: DEventType.splits)

lemma convertEventFilter_ok:
  assumes "convertEventFilterFromDomain lib f = Ok g"
  shows "ef_ContractIDs g = def_ContractIDs f \<and> length (ef_Topics g) = length (def_Topics f)
    \<and> (\<forall>topic \<in> set (ef_Topics g). topic \<noteq> [] \<and> (\<forall>c \<in> set topic. segment_ok c))"
proof -
  from assms obtain ts where ts: "list_all2 (\<lambda>x y. convertTopicFilterFromDomain lib x = Ok y) (def_Topics f) ts"
    and g: "ef_Topics g = ts" "ef_ContractIDs g = def_ContractIDs f"
    by (auto simp: convertEventFilterFromDomain_def convert_each_Ok_iff split: if_splits)
  have "topic \<noteq> [] \<and> (\<forall>c \<in> set topic. segment_ok c)" if "topic \<in> set ts" for topic
    using ts that convertTopicFilter_ok [of lib] by (auto simp: list_all2_conv_all_nth in_set_conv_nth)
  with ts g show ?thesis by (auto dest: list_all2_lengthD)
qed

lemma filters_ok:
  "list_all2 (\<lambda>x y. convertEventFilterFromDomain lib x = Ok y) fs gs \<Longrightarrow>
   map ef_ContractIDs gs = map def_ContractIDs fs
   \<and> (\<forall>g \<in> set gs. \<forall>topic \<in> set (ef_Topics g). topic \<noteq> [] \<and> (\<forall>c \<in> set topic. segment_ok c))"
proof (induction rule: list_all2_induct)
  case (Cons f fs g gs)
  with convertEventFilter_ok [of lib f g] show ?case by simp
qed simp

lemma events_request_Ok:
  assumes "convertGetEventsRequestsFromDomain lib req = Ok r"
  shows "ge_StartLedger r = dge_StartLedger req \<and> ge_EndLedger r = dge_EndLedger req
    \<and> \<not> (dge_StartLedger req \<noteq> 0 \<and> dge_EndLedger req \<noteq> 0 \<and> dge_StartLedger req > dge_EndLedger req)
    \<and> list_all2 (\<lambda>x y. convertEventFilterFromDomain lib x = Ok y) (dge_Filters req) (ge_Filters r)"
proof -
  let ?bad = "dge_StartLedger req \<noteq> 0 \<and> dge_EndLedger req \<noteq> 0 \<and> dge_StartLedger req > dge_EndLedger req"
  have ok: "\<not> ?bad" using assms by (auto simp: convertGetEventsRequestsFromDomain_def)
  show ?thesis
  proof (cases "dge_Pagination req")
    case None
    with assms show ?thesis
      unfolding convertGetEventsRequestsFromDomain_def if_not_P [OF ok] Let_def convert_each_Ok_iff
      using ok by (auto simp: convert_each_Ok_iff)
  next
    case (Some cl)
    obtain c l where "cl = (c, l)" by (metis surj_pair)
    with Some assms show ?thesis
      unfolding convertGetEventsRequestsFromDomain_def if_not_P [OF ok] Let_def
      using ok by (cases "c = []") (auto simp: convert_each_Ok_iff)
  qed
qed

section \<open>Properties\<close>

text \<open>C40: Converting a contract argument from the domain to XDR loses nothing: converting the
  result back returns the argument, and the conversion succeeds exactly on arguments without
  nil fields, of a supported type, with 32-byte addresses, at every depth of vectors and
  maps.\<close>

theorem scval_domain_roundtrip:
  assumes "strkey_laws lib" and "address_laws lib"
  shows "(convertScValFromDomain lib v = Ok x \<longrightarrow> convertScValToDomain x = Ok v)
   \<and> (is_Ok (convertScValFromDomain lib v) \<longleftrightarrow> arg_ok v)"
  using from_domain_roundtrip(1) [OF assms, of v x] from_domain_accepts(1) [OF assms, of v]
  by (simp add: is_Ok_iff)

definition sample_arg :: DScVal where
  "sample_arg = DMap (Some [(Some (DSymbol (Some ''to'')),
     Some (DVec (Some [Some (DI128 (Some (0, 5))), Some (DAddress (Some (DContractID (replicate 32 1))))])))])"

theorem scval_domain_roundtrip_witness:
  "\<exists>x. convertScValFromDomain sample_sdk sample_arg = Ok x \<and> convertScValToDomain x = Ok sample_arg"
proof -
  have "arg_ok sample_arg" by (simp add: sample_arg_def)
  then obtain x where "convertScValFromDomain sample_sdk sample_arg = Ok x"
    using scval_domain_roundtrip [OF sample_strkey_laws sample_address_laws, of sample_arg]
    by (auto simp: is_Ok_iff)
  then show ?thesis
    using scval_domain_roundtrip [OF sample_strkey_laws sample_address_laws, of sample_arg x] by blast
qed

text \<open>An accepted event query is well formed: the ledger range is not inverted, every
  filter keeps its contract ids and topics, every topic filter has at least one segment, and
  every segment is either one of the two wildcards or a value, never both.\<close>

theorem events_request_well_formed:
  assumes "convertGetEventsRequestsFromDomain lib req = Ok r"
  shows "(ge_StartLedger r = 0 \<or> ge_EndLedger r = 0 \<or> ge_StartLedger r \<le> ge_EndLedger r)
   \<and> ge_StartLedger r = dge_StartLedger req \<and> ge_EndLedger r = dge_EndLedger req
   \<and> map ef_ContractIDs (ge_Filters r) = map def_ContractIDs (dge_Filters req)
   \<and> (\<forall>f \<in> set (ge_Filters r). \<forall>topic \<in> set (ef_Topics f). topic \<noteq> [] \<and> (\<forall>c \<in> set topic. segment_ok c))"
proof -
  have rng: "ge_StartLedger r = dge_StartLedger req" "ge_EndLedger r = dge_EndLedger req"
      "\<not> (dge_StartLedger req \<noteq> 0 \<and> dge_EndLedger req \<noteq> 0 \<and> dge_StartLedger req > dge_EndLedger req)"
    and fs: "list_all2 (\<lambda>x y. convertEventFilterFromDomain lib x = Ok y) (dge_Filters req) (ge_Filters r)"
    using events_request_Ok [OF assms] by blast+
  show ?thesis using filters_ok [OF fs] rng by auto
qed

definition sample_query :: DGetEventsRequest where
  "sample_query = \<lparr>dge_StartLedger = 5, dge_EndLedger = 9,
     dge_Filters = [\<lparr>def_EventTypes = [DEventTypeContract], def_ContractIDs = [''C1''],
       def_Topics = [[\<lparr>dts_Wildcard = None, dts_Value = Some (DSymbol (Some ''sent''))\<rparr>,
                      \<lparr>dts_Wildcard = Some ''**'', dts_Value = None\<rparr>]]\<rparr>],
     dge_Pagination = Some ([], 10)\<rparr>"

theorem events_request_well_formed_witness:
  "\<exists>r. convertGetEventsRequestsFromDomain sample_sdk sample_query = Ok r \<and> ge_StartLedger r \<le> ge_EndLedger r"
proof -
  obtain r where r: "convertGetEventsRequestsFromDomain sample_sdk sample_query = Ok r"
    by (simp add: convertGetEventsRequestsFromDomain_def sample_query_def convertEventFilterFromDomain_def
        convertTopicFilterFromDomain_def convertSegment_def need_def WildCardExactOne_def WildCardZeroOrMore_def)
  from events_request_well_formed [OF r] r show ?thesis by (auto simp: sample_query_def)
qed

text \<open>An event page converts without reordering, dropping or duplicating events: the
  converted page has the same length and order, each event keeps its identity, ledger and
  contract, its topics decode one by one, and the page's cursor and ledger bounds are kept.\<close>

theorem events_response_faithful:
  assumes "convertGetEventsResponseToDomain lib resp = Ok d"
    and "\<forall>e \<in> set (ger_Events resp). ei_Ledger e < 2 ^ 31"
  shows "map dei_ID (ger_Events d) = map ei_ID (ger_Events resp)
   \<and> map dei_Ledger (ger_Events d) = map ei_Ledger (ger_Events resp)
   \<and> map dei_ContractID (ger_Events d) = map ei_ContractID (ger_Events resp)
   \<and> map (length \<circ> dei_Topics) (ger_Events d) = map (length \<circ> ei_TopicXDR) (ger_Events resp)
   \<and> ger_Cursor d = ger_Cursor resp \<and> ger_LatestLedger d = ger_LatestLedger resp"
proof -
  from assms(1) have es: "list_all2 (\<lambda>x y. convertEventInfoToDomain lib x = Ok y) (ger_Events resp) (ger_Events d)"
    and pg: "ger_Cursor d = ger_Cursor resp" "ger_LatestLedger d = ger_LatestLedger resp"
    by (auto simp: convertGetEventsResponseToDomain_def convert_each_Ok_iff)
  have one: "dei_ID y = ei_ID x \<and> dei_Ledger y = ei_Ledger x \<and> dei_ContractID y = ei_ContractID x
      \<and> length (dei_Topics y) = length (ei_TopicXDR x)"
    if "convertEventInfoToDomain lib x = Ok y" "ei_Ledger x < 2 ^ 31" for x y
    using that
    by (auto simp: convertEventInfoToDomain_def convert_each_Ok_iff u32_id in_u32_def
        dest: list_all2_lengthD split: if_splits)
  from es assms(2) show ?thesis
    by (auto simp: pg list_eq_iff_nth_eq list_all2_conv_all_nth dest!: one)
qed

definition event_sdk :: sdk where
  "event_sdk = sample_sdk\<lparr>unb64_ScVal := (\<lambda>s. Ok (ScvSymbol (Some s)))\<rparr>"

definition sample_page :: "EventInfo GetEventsResponse" where
  "sample_page = \<lparr>ger_Events = [\<lparr>ei_EventType = EventTypeContract, ei_Ledger = 77, ei_LedgerClosedAt = ''t'',
      ei_ContractID = ''C1'', ei_ID = ''id1'', ei_OpIndex = 0, ei_TxIndex = 2, ei_TransactionHash = ''h'',
      ei_TopicXDR = [''a'', ''b''], ei_ValueXDR = ''v''\<rparr>],
     ger_Cursor = ''c'', ger_LatestLedger = 80, ger_OldestLedger = 1, ger_LatestLedgerCloseTime = 5,
     ger_OldestLedgerCloseTime = 4\<rparr>"

theorem events_response_faithful_witness:
  "\<exists>d. convertGetEventsResponseToDomain event_sdk sample_page = Ok d \<and> map dei_ID (ger_Events d) = [''id1'']"
proof -
  obtain d where d: "convertGetEventsResponseToDomain event_sdk sample_page = Ok d"
    by (simp add: convertGetEventsResponseToDomain_def sample_page_def convertEventInfoToDomain_def
        convertEventType_def decodeScValBase64ToDomain_def event_sdk_def)
  from events_response_faithful [OF d] d show ?thesis by (auto simp: sample_page_def)
qed

end
