(* ===== verification/Txm_State.thy ===== *)
theory Txm_State
  imports TxStore Fee Sdk "HOL-Library.State_Monad"
begin

text \<open>
  Data and state of the transaction manager (relayer/txm/tx.go, relayer/txm/txm.go), its
  environment, the status helpers, the intake (Enqueue and its backpressure) and the status
  queries. A \<open>*StellarTx\<close> is a reference into a heap, so that the transaction map, the
  broadcast channel and the stores of unconfirmed transactions share the object as they do in
  Go. Calls that leave the process (clock, context, keystore, RPC) are functions of an
  interaction counter: two calls at different times may answer differently. Log output is
  not modelled; metrics are an append-only list of events.
\<close>

section \<open>Transactions (tx.go)\<close>

datatype TransactionStatus = Unknown | Pending | Unconfirmed | Finalized | Failed | Fatal

fun status_code :: "TransactionStatus \<Rightarrow> int" where
  "status_code Unknown = 0"
| "status_code Pending = 1"
| "status_code Unconfirmed = 2"
| "status_code Finalized = 3"
| "status_code Failed = 4"
| "status_code Fatal = 5"

record StellarTx =
  tx_ID :: string
  tx_Metadata :: "string option"
  tx_Timestamp :: int
  tx_FromAddress :: string
  tx_Operations :: "Operation list"
  tx_LedgerBoundsOffset :: int
  tx_Attempt :: int
  tx_InfraAttempts :: int
  tx_Status :: TransactionStatus
  tx_TerminalTime :: int
  tx_BroadcastAt :: int
  tx_TxHash :: string
  tx_Fee :: "int option"
  tx_LedgerCloseTime :: int
  tx_ResultXDR :: string
  tx_ResultCode :: string
  tx_ResultMetaXDR :: string
  tx_MaxLedger :: int
  tx_MinResourceFee :: int
  tx_Done :: bool

text \<open>The zero value of the struct. The zero time is 0.\<close>

definition zero_tx :: StellarTx where
  "zero_tx = \<lparr>tx_ID = [], tx_Metadata = None, tx_Timestamp = 0, tx_FromAddress = [], tx_Operations = [],
     tx_LedgerBoundsOffset = 0, tx_Attempt = 0, tx_InfraAttempts = 0, tx_Status = Unknown,
     tx_TerminalTime = 0, tx_BroadcastAt = 0, tx_TxHash = [], tx_Fee = None, tx_LedgerCloseTime = 0,
     tx_ResultXDR = [], tx_ResultCode = [], tx_ResultMetaXDR = [], tx_MaxLedger = 0,
     tx_MinResourceFee = 0, tx_Done = False\<rparr>"

record TxRequest =
  req_ID :: string
  req_FromAddress :: string
  req_Operations :: "Operation list"
  req_LedgerBoundsOffset :: int
  req_Metadata :: "string option"

record TxResult =
  res_ID :: string
  res_Hash :: string
  res_Status :: TransactionStatus
  res_Fee :: "int option"
  res_LedgerCloseTime :: int
  res_ResultXDR :: string
  res_ResultMetaXDR :: string
  res_Error :: "error option"

datatype ErrorReason =
    ErrorReasonSequenceNumber | ErrorReasonStoreCreate | ErrorReasonSimulation | ErrorReasonAssembly
  | ErrorReasonSigning | ErrorReasonNoHash | ErrorReasonStoreAdd | ErrorReasonUnknownSubmit
  | ErrorReasonMaxRetries | ErrorReasonRevert | ErrorReasonRevertDecode | ErrorReasonTimedOut
  | ErrorReasonBadSeq | ErrorReasonRestoreFailed | ErrorReasonTryAgainLater
  | ErrorReasonClientUnavailable | ErrorReasonInsufficientFee | ErrorReasonInternalError
  | ErrorReasonNilTx | ErrorReasonNilTxStore | ErrorReasonSubmitErrorUndecoded
  | ErrorReasonNone
  | ErrorReasonOf string

fun reason_string :: "ErrorReason \<Rightarrow> string" where
  "reason_string ErrorReasonSequenceNumber = ''sequence_number''"
| "reason_string ErrorReasonStoreCreate = ''store_create''"
| "reason_string ErrorReasonSimulation = ''simulation''"
| "reason_string ErrorReasonAssembly = ''assembly''"
| "reason_string ErrorReasonSigning = ''signing''"
| "reason_string ErrorReasonNoHash = ''no_hash''"
| "reason_string ErrorReasonStoreAdd = ''store_add''"
| "reason_string ErrorReasonUnknownSubmit = ''unknown_submit''"
| "reason_string ErrorReasonMaxRetries = ''max_retries''"
| "reason_string ErrorReasonRevert = ''revert''"
| "reason_string ErrorReasonRevertDecode = ''revert_decode_error''"
| "reason_string ErrorReasonTimedOut = ''timed_out''"
| "reason_string ErrorReasonBadSeq = ''bad_seq''"
| "reason_string ErrorReasonRestoreFailed = ''restore_failed''"
| "reason_string ErrorReasonTryAgainLater = ''try_again_later''"
| "reason_string ErrorReasonClientUnavailable = ''client_unavailable''"
| "reason_string ErrorReasonInsufficientFee = ''insufficient_fee''"
| "reason_string ErrorReasonInternalError = ''internal_error''"
| "reason_string ErrorReasonNilTx = ''nil_tx''"
| "reason_string ErrorReasonNilTxStore = ''nil_tx_store''"
| "reason_string ErrorReasonSubmitErrorUndecoded = ''submit_error_undecoded''"
| "reason_string ErrorReasonNone = []"
| "reason_string (ErrorReasonOf s) = s"

datatype DropReason = DropReasonChannelFullOldestEvicted | DropReasonChannelFullNewRejected

fun drop_reason_string :: "DropReason \<Rightarrow> string" where
  "drop_reason_string DropReasonChannelFullOldestEvicted = ''channel_full_oldest_evicted''"
| "drop_reason_string DropReasonChannelFullNewRejected = ''channel_full_new_rejected''"

datatype RetryReason = RetryReasonResourceExhaustion | RetryReasonTimedOut

datatype RetryBudget = RetryBudgetLifecycle | RetryBudgetInfra

datatype RestoreOutcome = RestoreOutcomeInitiated | RestoreOutcomeSuccess | RestoreOutcomeFailed

datatype metric =
    IncrementDroppedTxs DropReason
  | IncrementErrorTxs ErrorReason
  | ObserveSimulationDuration int
  | IncrementRestore RestoreOutcome
  | ObserveInclusionFee int
  | ObserveResourceFee int
  | IncrementBroadcastedTxs
  | IncrementSuccessTxs
  | RecordTimeUntilTxConfirmed int
  | IncrementMaxAttemptsReached RetryBudget
  | IncrementRetryTxs RetryReason
  | SetPendingTxs int

section \<open>The manager and its environment\<close>

text \<open>\<open>heap\<close> holds the transaction objects; \<open>next_ref\<close> is the next free address, \<open>clock\<close> the
  interaction counter. The capacity of \<open>broadcastChan\<close> is in the configuration; it is at least
  one (an unbuffered channel hands over only to a waiting receiver). \<open>submissions\<close> is a ghost: the
  envelopes given to SendTransaction so far, which no operation reads.\<close>

record Txm =
  txm_config :: Config
  txm_feeStrat :: FeeStrategy
  txm_chainID :: string
  txm_networkPassphrase :: string
  heap :: "tx_ref \<Rightarrow> StellarTx"
  next_ref :: nat
  transactions :: "string \<Rightarrow> tx_ref option"
  broadcastChan :: "tx_ref list"
  accountStore :: AccountStore
  txm_feeTracker :: feeTracker
  stopped :: bool
  metrics :: "metric list"
  clock :: nat
  submissions :: "string list"

type_synonym 'a txm = "(Txm, 'a) state"

text \<open>An RPC client; \<open>None\<close> is a nil interface value.\<close>

type_synonym client = "nat option"

record env =
  now_at :: "nat \<Rightarrow> int"
  ctx_Err_at :: "nat \<Rightarrow> error option"
  uuid_at :: "nat \<Rightarrow> string"
  getClient_at :: "nat \<Rightarrow> client result"
  keystore_Accounts_at :: "nat \<Rightarrow> string list result"
  keystore_Sign_at :: "nat \<Rightarrow> string \<Rightarrow> bytes \<Rightarrow> bytes result"
  rpc_SimulateTransaction_at :: "nat \<Rightarrow> client \<Rightarrow> string \<Rightarrow> SimulateTransactionResponse result"
  rpc_SendTransaction_at :: "nat \<Rightarrow> client \<Rightarrow> string \<Rightarrow> SendTransactionResponse result"
  rpc_GetTransaction_at :: "nat \<Rightarrow> client \<Rightarrow> string \<Rightarrow> GetTransactionResponse result"
  rpc_GetLedgerEntries_at :: "nat \<Rightarrow> client \<Rightarrow> string list \<Rightarrow> string list result"
  rpc_GetLatestLedger_at :: "nat \<Rightarrow> client \<Rightarrow> int result"
  rpc_GetFeeStats_at :: "nat \<Rightarrow> client \<Rightarrow> (int \<times> int) result"

section \<open>Primitive actions\<close>

abbreviation ret :: "'a \<Rightarrow> 'a txm" where
  "ret \<equiv> State_Monad.return"

definition reads :: "(Txm \<Rightarrow> 'a) \<Rightarrow> 'a txm" where
  "reads f = State (\<lambda>s. (f s, s))"

definition modify :: "(Txm \<Rightarrow> Txm) \<Rightarrow> unit txm" where
  "modify f = State (\<lambda>s. ((), f s))"

definition tick :: "nat txm" where
  "tick = State (\<lambda>s. (clock s, s\<lparr>clock := Suc (clock s)\<rparr>))"

text \<open>One interaction with the outside: the oracle is read at the current tick.\<close>

definition ask :: "(nat \<Rightarrow> 'a) \<Rightarrow> 'a txm" where
  "ask f = do { i \<leftarrow> tick; ret (f i) }"

text \<open>\<open>client.SendTransaction\<close>: whatever the network answers, the envelope has been handed over.\<close>

definition submit_envelope :: "env \<Rightarrow> client \<Rightarrow> string \<Rightarrow> SendTransactionResponse result txm" where
  "submit_envelope env client signedXDR = do {
     modify (\<lambda>s. s\<lparr>submissions := submissions s @ [signedXDR]\<rparr>);
     ask (\<lambda>i. rpc_SendTransaction_at env i client signedXDR) }"

definition upd_tx :: "tx_ref \<Rightarrow> (StellarTx \<Rightarrow> StellarTx) \<Rightarrow> unit txm" where
  "upd_tx r f = modify (\<lambda>s. s\<lparr>heap := (heap s)(r := f (heap s r))\<rparr>)"

definition get_tx :: "tx_ref \<Rightarrow> StellarTx txm" where
  "get_tx r = reads (\<lambda>s. heap s r)"

definition emit :: "metric \<Rightarrow> unit txm" where
  "emit m = modify (\<lambda>s. s\<lparr>metrics := metrics s @ [m]\<rparr>)"

definition alloc :: "StellarTx \<Rightarrow> tx_ref txm" where
  "alloc t = State (\<lambda>s. (next_ref s, s\<lparr>heap := (heap s)(next_ref s := t), next_ref := Suc (next_ref s)\<rparr>))"

definition whenM :: "bool \<Rightarrow> unit txm \<Rightarrow> unit txm" where
  "whenM b m = (if b then m else ret ())"

text \<open>A non-blocking send: \<open>select { case ch <- tx: ... default: ... }\<close>.\<close>

definition chan_capacity :: "Txm \<Rightarrow> nat" where
  "chan_capacity s = nat (the (BroadcastChanSize (txm_config s)))"

definition try_send :: "tx_ref \<Rightarrow> bool txm" where
  "try_send r = State (\<lambda>s.
     if length (broadcastChan s) < chan_capacity s
     then (True, s\<lparr>broadcastChan := broadcastChan s @ [r]\<rparr>) else (False, s))"

definition try_recv :: "tx_ref option txm" where
  "try_recv = State (\<lambda>s. case broadcastChan s of
       [] \<Rightarrow> (None, s)
     | r # rs \<Rightarrow> (Some r, s\<lparr>broadcastChan := rs\<rparr>))"

text \<open>A method call on the \<open>*TxStore\<close> of an account.\<close>

definition upd_store :: "string \<Rightarrow> (TxStore \<Rightarrow> TxStore) \<Rightarrow> unit txm" where
  "upd_store addr f = modify (\<lambda>s. case GetTxStore addr (accountStore s) of
       None \<Rightarrow> s
     | Some st \<Rightarrow> s\<lparr>accountStore := AList.update addr (f st) (accountStore s)\<rparr>)"

definition call_store :: "string \<Rightarrow> (TxStore \<Rightarrow> TxStore result) \<Rightarrow> unit result txm" where
  "call_store addr f = do {
     st \<leftarrow> reads (\<lambda>s. GetTxStore addr (accountStore s));
     case st of
       None \<Rightarrow> ret (Panic ''nil pointer dereference'')
     | Some x \<Rightarrow>
         (case f x of
            Ok x' \<Rightarrow> do { upd_store addr (\<lambda>_. x'); ret (Ok ()) }
          | Err e \<Rightarrow> ret (Err e)
          | Panic p \<Rightarrow> ret (Panic p)) }"

definition time_now :: "env \<Rightarrow> int txm" where
  "time_now env = ask (now_at env)"

definition time_since :: "env \<Rightarrow> int \<Rightarrow> int txm" where
  "time_since env t = do { n \<leftarrow> time_now env; ret (time_sub n t) }"

text \<open>\<open>select { case <-time.After(d): ... case <-ctx.Done(): ... }\<close>: false when the context
  ends first.\<close>

definition sleep :: "env \<Rightarrow> bool txm" where
  "sleep env = do { e \<leftarrow> ask (ctx_Err_at env); ret (e = None) }"

definition ctx_Err :: "env \<Rightarrow> error txm" where
  "ctx_Err env = do { e \<leftarrow> ask (ctx_Err_at env); ret (case e of Some x \<Rightarrow> x | None \<Rightarrow> New ''context canceled'') }"

section \<open>Construction\<close>

text \<open>\<open>New\<close>; \<open>passphrase\<close> stands for \<open>chain_selectors.StellarPassphraseFromChainId\<close>.\<close>

definition NewTxm :: "(string \<Rightarrow> string result) \<Rightarrow> Config \<Rightarrow> string \<Rightarrow> Txm result" where
  "NewTxm passphrase cfg0 chainID =
     (let cfg = Resolve cfg0 in
      bind_r (wrap_err (\<lambda>e. Errorf ''resolve network passphrase: %w'' [AErr e]) (passphrase chainID)) (\<lambda>p.
      Ok \<lparr>txm_config = cfg, txm_feeStrat = NewFeeStrategyFromConfig cfg, txm_chainID = chainID,
          txm_networkPassphrase = p, heap = (\<lambda>_. zero_tx), next_ref = 0, transactions = (\<lambda>_. None),
          broadcastChan = [], accountStore = NewAccountStore,
          txm_feeTracker = newFeeTracker (the (FeeStatsPollInterval cfg)), stopped = False,
          metrics = [], clock = 0, submissions = []\<rparr>))"

section \<open>Status helpers\<close>

definition isTerminalStatus :: "TransactionStatus \<Rightarrow> bool" where
  "isTerminalStatus status \<longleftrightarrow> status = Finalized \<or> status = Failed"

definition terminalPastRetention :: "int \<Rightarrow> StellarTx \<Rightarrow> int \<Rightarrow> bool" where
  "terminalPastRetention now tx expiration =
     (if \<not> isTerminalStatus (tx_Status tx) then False
      else if tx_TerminalTime tx = 0 then False
      else time_sub now (tx_TerminalTime tx) \<ge> expiration)"

definition maybeEvictTerminalTx :: "tx_ref \<Rightarrow> unit txm" where
  "maybeEvictTerminalTx r = modify (\<lambda>s.
     if the (PruneInterval (txm_config s)) > 0 then s
     else s\<lparr>transactions := (transactions s)(tx_ID (heap s r) := None)\<rparr>)"

definition closeDone :: "tx_ref \<Rightarrow> unit txm" where
  "closeDone r = upd_tx r (\<lambda>t. t\<lparr>tx_Done := True\<rparr>)"

definition stampTerminalTime :: "env \<Rightarrow> tx_ref \<Rightarrow> unit txm" where
  "stampTerminalTime env r = do {
     t \<leftarrow> get_tx r;
     if tx_TerminalTime t = 0
     then do { n \<leftarrow> time_now env; upd_tx r (\<lambda>t. t\<lparr>tx_TerminalTime := n\<rparr>) }
     else ret () }"

definition updateTransactionStatus :: "env \<Rightarrow> tx_ref \<Rightarrow> TransactionStatus \<Rightarrow> unit txm" where
  "updateTransactionStatus env r status = do {
     upd_tx r (\<lambda>t. t\<lparr>tx_Status := status\<rparr>);
     if isTerminalStatus status
     then do { stampTerminalTime env r; maybeEvictTerminalTx r; closeDone r }
     else ret () }"

definition markTxFailed :: "env \<Rightarrow> tx_ref \<Rightarrow> ErrorReason \<Rightarrow> unit txm" where
  "markTxFailed env r metricReason = do {
     updateTransactionStatus env r Failed;
     emit (IncrementErrorTxs metricReason) }"

definition releaseSeqAndFailTx :: "env \<Rightarrow> string \<Rightarrow> int \<Rightarrow> tx_ref \<Rightarrow> ErrorReason \<Rightarrow> unit txm" where
  "releaseSeqAndFailTx env store seq r metricReason = do {
     upd_store store (Release seq);
     updateTransactionStatus env r Failed;
     emit (IncrementErrorTxs metricReason) }"

definition markBroadcastAt :: "env \<Rightarrow> tx_ref \<Rightarrow> unit txm" where
  "markBroadcastAt env r = do { n \<leftarrow> time_now env; upd_tx r (\<lambda>t. t\<lparr>tx_BroadcastAt := n\<rparr>) }"

definition recordTimeUntilConfirmed :: "env \<Rightarrow> tx_ref \<Rightarrow> unit txm" where
  "recordTimeUntilConfirmed env r = do {
     t \<leftarrow> get_tx r;
     if tx_BroadcastAt t = 0 then ret ()
     else do { d \<leftarrow> time_since env (tx_BroadcastAt t); emit (RecordTimeUntilTxConfirmed d) } }"

definition updateTransactionHash :: "tx_ref \<Rightarrow> string \<Rightarrow> unit txm" where
  "updateTransactionHash r h = upd_tx r (\<lambda>t. t\<lparr>tx_TxHash := h\<rparr>)"

definition updateTransactionFee :: "tx_ref \<Rightarrow> int \<Rightarrow> unit txm" where
  "updateTransactionFee r fee = upd_tx r (\<lambda>t. t\<lparr>tx_Fee := Some fee\<rparr>)"

definition updateTransactionLedgerCloseTime :: "tx_ref \<Rightarrow> int \<Rightarrow> unit txm" where
  "updateTransactionLedgerCloseTime r ct =
     (if ct \<le> 0 then ret () else upd_tx r (\<lambda>t. t\<lparr>tx_LedgerCloseTime := ct\<rparr>))"

definition updateTransactionResultXDR :: "tx_ref \<Rightarrow> string \<Rightarrow> unit txm" where
  "updateTransactionResultXDR r x = upd_tx r (\<lambda>t. t\<lparr>tx_ResultXDR := x\<rparr>)"

definition updateTransactionResultCode :: "tx_ref \<Rightarrow> string \<Rightarrow> unit txm" where
  "updateTransactionResultCode r c = upd_tx r (\<lambda>t. t\<lparr>tx_ResultCode := c\<rparr>)"

definition updateTransactionResultMeta :: "tx_ref \<Rightarrow> string \<Rightarrow> unit txm" where
  "updateTransactionResultMeta r m = upd_tx r (\<lambda>t. t\<lparr>tx_ResultMetaXDR := m\<rparr>)"

definition incrementTransactionAttempt :: "tx_ref \<Rightarrow> unit txm" where
  "incrementTransactionAttempt r = upd_tx r (\<lambda>t. t\<lparr>tx_Attempt := u64 (tx_Attempt t + 1)\<rparr>)"

definition getTransactionAttempt :: "tx_ref \<Rightarrow> int txm" where
  "getTransactionAttempt r = do { t \<leftarrow> get_tx r; ret (tx_Attempt t) }"

definition incrementInfraAttempts :: "tx_ref \<Rightarrow> unit txm" where
  "incrementInfraAttempts r = upd_tx r (\<lambda>t. t\<lparr>tx_InfraAttempts := u64 (tx_InfraAttempts t + 1)\<rparr>)"

definition getInfraAttempts :: "tx_ref \<Rightarrow> int txm" where
  "getInfraAttempts r = do { t \<leftarrow> get_tx r; ret (tx_InfraAttempts t) }"

section \<open>Intake\<close>

definition defaultFromAddress :: "env \<Rightarrow> string result txm" where
  "defaultFromAddress env = do {
     accounts \<leftarrow> ask (keystore_Accounts_at env);
     ret (case accounts of
            Err e \<Rightarrow> Err (Errorf ''keystore.Accounts: %w'' [AErr e])
          | Panic p \<Rightarrow> Panic p
          | Ok as \<Rightarrow> if length as = 0 then Err (New ''keystore has no accounts'') else Ok (hd as)) }"

definition dropOldestForBackpressure :: "env \<Rightarrow> tx_ref option \<Rightarrow> unit txm" where
  "dropOldestForBackpressure env dropped =
     (case dropped of
        None \<Rightarrow> ret ()
      | Some r \<Rightarrow> do {
          ok \<leftarrow> reads (\<lambda>s. transactions s (tx_ID (heap s r)) = Some r);
          if \<not> ok then ret ()
          else do {
            upd_tx r (\<lambda>t. t\<lparr>tx_ResultCode := drop_reason_string DropReasonChannelFullOldestEvicted\<rparr>);
            updateTransactionStatus env r Failed;
            emit (IncrementDroppedTxs DropReasonChannelFullOldestEvicted) } })"

text \<open>\<open>Close\<close> closes the channel after the loops have ended; a later send panics.\<close>

definition enqueueTransaction :: "env \<Rightarrow> tx_ref \<Rightarrow> string result txm" where
  "enqueueTransaction env r = do {
     t \<leftarrow> get_tx r;
     existing \<leftarrow> reads (\<lambda>s. transactions s (tx_ID t) \<noteq> None);
     if existing then do { closeDone r; ret (Ok (tx_ID t)) }
     else do {
       modify (\<lambda>s. s\<lparr>transactions := (transactions s)(tx_ID t \<mapsto> r)\<rparr>);
       closed \<leftarrow> reads stopped;
       if closed then ret (Panic ''send on closed channel'')
       else do {
       sent \<leftarrow> try_send r;
       if sent then ret (Ok (tx_ID t))
       else do {
         droppedTx \<leftarrow> try_recv;
         dropOldestForBackpressure env droppedTx;
         sent2 \<leftarrow> try_send r;
         if sent2 then ret (Ok (tx_ID t))
         else do {
           modify (\<lambda>s. s\<lparr>transactions := (transactions s)(tx_ID t := None)\<rparr>);
           emit (IncrementDroppedTxs DropReasonChannelFullNewRejected);
           ret (Err (Errorf ''broadcast channel full, tx %s dropped'' [AStr (tx_ID t)])) } } } } }"

definition Enqueue :: "env \<Rightarrow> sdk \<Rightarrow> TxRequest \<Rightarrow> string result txm" where
  "Enqueue env lib req = do {
     txID \<leftarrow> (if req_ID req = [] then ask (uuid_at env) else ret (req_ID req));
     if length (req_Operations req) \<noteq> 1
     then ret (Err (New ''currently only single-operation transactions are supported''))
     else do {
       from \<leftarrow> (if req_FromAddress req = [] then defaultFromAddress env else ret (Ok (req_FromAddress req)));
       case from of
         Err e \<Rightarrow> ret (Err e)
       | Panic p \<Rightarrow> ret (Panic p)
       | Ok fromAddr \<Rightarrow>
           (case AddressToAccountId lib fromAddr of
              Err e \<Rightarrow> ret (Err (Errorf ''invalid FromAddress %q: %w'' [AStr fromAddr, AErr e]))
            | Panic p \<Rightarrow> ret (Panic p)
            | Ok _ \<Rightarrow> do {
                now \<leftarrow> time_now env;
                r \<leftarrow> alloc (zero_tx\<lparr>tx_ID := txID, tx_Timestamp := now, tx_FromAddress := fromAddr,
                       tx_Operations := req_Operations req,
                       tx_LedgerBoundsOffset := req_LedgerBoundsOffset req,
                       tx_Metadata := req_Metadata req, tx_Status := Pending\<rparr>);
                enqueueTransaction env r }) } }"

section \<open>Results and queries\<close>

definition txResultLocked :: "StellarTx \<Rightarrow> TxResult" where
  "txResultLocked tx =
     \<lparr>res_ID = tx_ID tx, res_Hash = tx_TxHash tx, res_Status = tx_Status tx, res_Fee = tx_Fee tx,
      res_LedgerCloseTime = tx_LedgerCloseTime tx, res_ResultXDR = tx_ResultXDR tx,
      res_ResultMetaXDR = tx_ResultMetaXDR tx,
      res_Error = (if tx_ResultCode tx \<noteq> [] then Some (Errorf ''transaction result: %s'' [AStr (tx_ResultCode tx)])
                   else None)\<rparr>"

definition txResult :: "tx_ref \<Rightarrow> TxResult txm" where
  "txResult r = do { t \<leftarrow> get_tx r; ret (txResultLocked t) }"

text \<open>\<open>EnqueueAndWait\<close> blocks after the enqueue while the other goroutines run: \<open>others\<close> is
  what they do meanwhile, and \<open>wake\<close> the case of the \<open>select\<close> that fires.\<close>

datatype wakeup = WakeDone | WakeCtx error | WakeStop

definition EnqueueAndWait ::
    "env \<Rightarrow> sdk \<Rightarrow> unit txm \<Rightarrow> (Txm \<Rightarrow> tx_ref \<Rightarrow> wakeup) \<Rightarrow> TxRequest \<Rightarrow> TxResult result txm" where
  "EnqueueAndWait env lib others wake req = do {
     r \<leftarrow> Enqueue env lib req;
     case r of
       Err e \<Rightarrow> ret (Err e)
     | Panic p \<Rightarrow> ret (Panic p)
     | Ok txID \<Rightarrow> do {
         found \<leftarrow> reads (\<lambda>s. transactions s txID);
         case found of
           None \<Rightarrow> ret (Err (Errorf ''transaction %s not found after enqueue'' [AStr txID]))
         | Some ref \<Rightarrow> do {
             others;
             w \<leftarrow> reads (\<lambda>s. wake s ref);
             case w of
               WakeDone \<Rightarrow> do { res \<leftarrow> txResult ref; ret (Ok res) }
             | WakeCtx e \<Rightarrow>
                 ret (Err (Errorf ''context cancelled while waiting for tx %s: %w'' [AStr txID, AErr e]))
             | WakeStop \<Rightarrow> ret (Err (Errorf ''txm stopped while waiting for tx %s'' [AStr txID])) } } }"

definition lookup_tx :: "Txm \<Rightarrow> string \<Rightarrow> StellarTx result" where
  "lookup_tx s transactionID =
     (if transactionID = [] then Err (New ''empty transaction ID'')
      else case transactions s transactionID of
        None \<Rightarrow> Err (New ''no such transaction'')
      | Some r \<Rightarrow> Ok (heap s r))"

definition GetStatus :: "Txm \<Rightarrow> string \<Rightarrow> TransactionStatus result" where
  "GetStatus s transactionID = bind_r (lookup_tx s transactionID) (\<lambda>tx. Ok (tx_Status tx))"

definition GetTransactionResult :: "Txm \<Rightarrow> string \<Rightarrow> TxResult result" where
  "GetTransactionResult s transactionID = bind_r (lookup_tx s transactionID) (\<lambda>tx. Ok (txResultLocked tx))"

definition GetTransactionFee :: "Txm \<Rightarrow> string \<Rightarrow> int result" where
  "GetTransactionFee s transactionID = bind_r (lookup_tx s transactionID) (\<lambda>tx.
     if tx_Status tx \<noteq> Finalized
     then Err (Errorf ''transaction not finalized, current status: %v'' [AInt (status_code (tx_Status tx))])
     else case tx_Fee tx of None \<Rightarrow> Err (New ''transaction fee not available'') | Some f \<Rightarrow> Ok f)"

definition Txm_InflightCount :: "Txm \<Rightarrow> nat \<times> nat" where
  "Txm_InflightCount s = (length (broadcastChan s), GetTotalInflightCount (accountStore s))"

text \<open>The loop of \<open>pruneTerminal\<close> deletes entries one by one; \<open>nows id\<close> is the clock when it
  visits \<open>id\<close>.\<close>

definition pruneTerminal :: "(string \<Rightarrow> int) \<Rightarrow> unit txm" where
  "pruneTerminal nows = modify (\<lambda>s.
     let expiration = the (PruneTxExpiration (txm_config s)) in
     s\<lparr>transactions := (\<lambda>id. case transactions s id of
          None \<Rightarrow> None
        | Some r \<Rightarrow> if terminalPastRetention (nows id) (heap s r) expiration then None else Some r)\<rparr>)"

end
