(* ===== verification/Txm_Broadcast.thy ===== *)
theory Txm_Broadcast
  imports Txm_State
begin

text \<open>
  The broadcast side of the transaction manager: building, simulating, assembling, signing
  and sending a transaction (relayer/txm/broadcast.go), restoring archived entries
  (relayer/txm/restore.go), the sequence helpers and the pipeline
  \<open>simulateAssembleSignAndSend\<close> with its retry loops (relayer/txm/txm.go).
\<close>

section \<open>Building, simulating and assembling (broadcast.go)\<close>

abbreviation MinBaseFee :: int where
  "MinBaseFee \<equiv> 100"

definition cfg_secs :: "Config \<Rightarrow> int" where
  "cfg_secs cfg = the (TxTimeoutSecs cfg)"

definition buildPreliminaryTx :: "env \<Rightarrow> sdk \<Rightarrow> StellarTx option \<Rightarrow> int \<Rightarrow> int \<Rightarrow> Transaction result txm" where
  "buildPreliminaryTx env lib tx nextSubmitSeq maxLedger =
     (case tx of
        None \<Rightarrow> ret (Err (New ''buildPreliminaryTx: tx is nil''))
      | Some t \<Rightarrow> do {
          cfg \<leftarrow> reads txm_config;
          n \<leftarrow> time_now env;
          ret (NewTransaction lib
            \<lparr>tp_AccountID = tx_FromAddress t,
             tp_Sequence = max 0 (i64 (nextSubmitSeq - 1)),
             tp_IncrementSequenceNum = True,
             tp_Operations = tx_Operations t,
             tp_BaseFee = MinBaseFee,
             tp_TimeBounds = NewTimeout lib n (cfg_secs cfg),
             tp_MaxLedger = Some maxLedger\<rparr>) })"

definition simulateTransaction ::
    "env \<Rightarrow> sdk \<Rightarrow> client \<Rightarrow> Transaction option \<Rightarrow> SimulateTransactionResponse result txm" where
  "simulateTransaction env lib client tx =
     (case client of
        None \<Rightarrow> ret (Err (New ''client is nil''))
      | Some _ \<Rightarrow>
          (case tx of
             None \<Rightarrow> ret (Err (New ''transaction is nil''))
           | Some t \<Rightarrow>
               (case tx_Base64 lib t of
                  Err e \<Rightarrow> ret (Err (Errorf ''failed to base64 encode preliminary tx: %w'' [AErr e]))
                | Panic p \<Rightarrow> ret (Panic p)
                | Ok txXDR \<Rightarrow> do {
                    start \<leftarrow> time_now env;
                    sim \<leftarrow> ask (\<lambda>i. rpc_SimulateTransaction_at env i client txXDR);
                    d \<leftarrow> time_since env start;
                    emit (ObserveSimulationDuration (sgn d * (\<bar>d\<bar> div 1000000)));
                    ret (case sim of
                           Err e \<Rightarrow> Err (Errorf ''rpc simulate transaction failed: %w'' [AErr e])
                         | Panic p \<Rightarrow> Panic p
                         | Ok simResult \<Rightarrow>
                             if sim_Error simResult \<noteq> []
                             then Err (Errorf ''simulation error: %w'' [AErr (New (sim_Error simResult))])
                             else Ok simResult) })))"

fun any_hint :: "string \<Rightarrow> string list \<Rightarrow> bool" where
  "any_hint msg [] = False"
| "any_hint msg (hint # hints) = (Contains msg hint \<or> any_hint msg hints)"

definition isRetryableSimulationError :: "env \<Rightarrow> error option \<Rightarrow> bool txm" where
  "isRetryableSimulationError env err =
     (case err of
        None \<Rightarrow> ret False
      | Some e \<Rightarrow> do {
          c \<leftarrow> ask (ctx_Err_at env);
          cfg \<leftarrow> reads txm_config;
          let msg = ToLower (err_text e);
          ret (c = None \<and> \<not> any_hint msg (SimulationTerminalHints cfg)
               \<and> any_hint msg (SimulationRetryableHints cfg)) })"

fun decode_auth :: "sdk \<Rightarrow> string list \<Rightarrow> string list result" where
  "decode_auth lib [] = Ok []"
| "decode_auth lib (a # as) =
     bind_r (wrap_err (\<lambda>e. Errorf ''failed to decode auth: %w'' [AErr e]) (unb64_Auth lib a)) (\<lambda>x.
     bind_r (decode_auth lib as) (\<lambda>xs. Ok (x # xs)))"

text \<open>The first part of \<open>assembleTransaction\<close> writes the simulated resources and
  authorizations into the first operation in place; the result is the resource fee and the
  operations as they are afterwards, also when the function fails.\<close>

definition assembleOps ::
    "sdk \<Rightarrow> FeeStrategy \<Rightarrow> SimulateTransactionResponse \<Rightarrow> Operation list \<Rightarrow> int result \<times> Operation list" where
  "assembleOps lib fs sim ops =
     (if sim_TransactionDataXDR sim = [] then (Ok 0, ops)
      else case unb64_SorobanData lib (sim_TransactionDataXDR sim) of
        Err e \<Rightarrow> (Err (Errorf ''failed to decode soroban data: %w'' [AErr e]), ops)
      | Panic p \<Rightarrow> (Panic p, ops)
      | Ok sorobanData \<Rightarrow>
          let resourceFee = i64 (sim_MinResourceFee sim + fs_ResourceFeeBuffer fs);
              sd = sorobanData\<lparr>sd_ResourceFee := resourceFee\<rparr>
          in case ops of
               OpInvokeHostFunction ihf # rest \<Rightarrow>
                 let ihf1 = ihf\<lparr>ihf_Ext := Some sd\<rparr> in
                 (case map simr_AuthXDR (sim_Results sim) of
                    Some (a # as) # _ \<Rightarrow>
                      (case decode_auth lib (a # as) of
                         Ok auth \<Rightarrow> (Ok resourceFee, OpInvokeHostFunction (ihf1\<lparr>ihf_Auth := auth\<rparr>) # rest)
                       | Err e \<Rightarrow> (Err e, OpInvokeHostFunction ihf1 # rest)
                       | Panic p \<Rightarrow> (Panic p, OpInvokeHostFunction ihf1 # rest))
                  | _ \<Rightarrow> (Ok resourceFee, OpInvokeHostFunction ihf1 # rest))
             | _ \<Rightarrow> (Ok resourceFee, ops))"

definition assembleTransaction ::
    "sdk \<Rightarrow> FeeStrategy \<Rightarrow> Transaction option \<Rightarrow> SimulateTransactionResponse \<Rightarrow> int \<Rightarrow> int \<Rightarrow>
     (Transaction \<times> int) result \<times> Operation list" where
  "assembleTransaction lib fs tx sim inclusionFee maxLedger =
     (case tx of
        None \<Rightarrow> (Err (New ''assembleTransaction: tx is nil''), [])
      | Some t \<Rightarrow>
          if t_Operations t = [] then (Err (New ''transaction has no operations''), [])
          else
            let (fee, ops) = assembleOps lib fs sim (t_Operations t) in
            (bind_r fee (\<lambda>resourceFee.
               bind_r (wrap_err (\<lambda>e. Errorf ''failed to rebuild transaction with fee: %w'' [AErr e])
                 (NewTransaction lib
                    \<lparr>tp_AccountID = t_AccountID t, tp_Sequence = t_Sequence t,
                     tp_IncrementSequenceNum = False, tp_Operations = ops, tp_BaseFee = inclusionFee,
                     tp_TimeBounds = t_TimeBounds t, tp_MaxLedger = Some maxLedger\<rparr>)) (\<lambda>assembled.
               Ok (assembled, i64 (inclusionFee + resourceFee)))), ops))"

definition signatureHint :: "PublicKey \<Rightarrow> bytes result" where
  "signatureHint k = (case k of Ed25519 (Some b) \<Rightarrow> Ok (take 4 (drop 28 b)) | _ \<Rightarrow> Panic ''nil pointer dereference'')"

definition signTransaction :: "env \<Rightarrow> sdk \<Rightarrow> Transaction option \<Rightarrow> string \<Rightarrow> Transaction result txm" where
  "signTransaction env lib tx fromAddress =
     (case tx of
        None \<Rightarrow> ret (Err (New ''signTransaction: tx is nil''))
      | Some t \<Rightarrow> do {
          net \<leftarrow> reads txm_networkPassphrase;
          case tx_Hash lib t net of
            Err e \<Rightarrow> ret (Err (Errorf ''failed to hash transaction: %w'' [AErr e]))
          | Panic p \<Rightarrow> ret (Panic p)
          | Ok h \<Rightarrow> do {
              signature \<leftarrow> ask (\<lambda>i. keystore_Sign_at env i fromAddress h);
              ret (bind_r (wrap_err (\<lambda>e. Errorf ''failed to sign transaction: %w'' [AErr e]) signature) (\<lambda>sig.
                   bind_r (wrap_err (\<lambda>e. Errorf ''failed to parse fromAddress for hint: %w'' [AErr e])
                             (AddressToAccountId lib fromAddress)) (\<lambda>addr.
                   bind_r (signatureHint addr) (\<lambda>hint.
                   wrap_err (\<lambda>e. Errorf ''failed to add signature: %w'' [AErr e])
                     (AddSignatureDecorated lib t (hint, sig)))))) } })"

section \<open>Classifying the answer of SendTransaction\<close>

definition parseSubmitErrorResult :: "sdk \<Rightarrow> string \<Rightarrow> TransactionResultCode \<times> bool" where
  "parseSubmitErrorResult lib errorResultXDR =
     (if errorResultXDR = [] then (TxSuccess, False)
      else case unb64_TransactionResult lib errorResultXDR of
        Ok res \<Rightarrow> (tr_Code res, True)
      | _ \<Rightarrow> (TxSuccess, False))"

definition classifySubmitErrorCode :: "sdk \<Rightarrow> TransactionResultCode \<Rightarrow> bool \<times> ErrorReason" where
  "classifySubmitErrorCode lib code =
     (case code of
        TxBadSeq \<Rightarrow> (False, ErrorReasonBadSeq)
      | TxInsufficientFee \<Rightarrow> (False, ErrorReasonInsufficientFee)
      | TxInternalError \<Rightarrow> (False, ErrorReasonInternalError)
      | _ \<Rightarrow> (True, ErrorReasonOf (TransactionResultCode_String lib code)))"

text \<open>The results are \<open>accepted\<close>, \<open>fatalErr\<close> and \<open>retryReason\<close>.\<close>

definition handleSendResult ::
    "sdk \<Rightarrow> tx_ref option \<Rightarrow> SendTransactionResponse \<Rightarrow> int \<Rightarrow> string option \<Rightarrow> int \<Rightarrow>
     (bool \<times> bool \<times> ErrorReason) txm" where
  "handleSendResult lib tx submitResult seq txStore maxLedger =
     (case tx of
        None \<Rightarrow> ret (False, True, ErrorReasonNilTx)
      | Some r \<Rightarrow>
          (case txStore of
             None \<Rightarrow> ret (False, True, ErrorReasonNilTxStore)
           | Some addr \<Rightarrow>
               if send_Status submitResult = TXStatusPending \<or> send_Status submitResult = TXStatusDuplicate then
                 (if send_Hash submitResult = [] then ret (False, True, ErrorReasonNoHash)
                  else do {
                    added \<leftarrow> call_store addr (AddUnconfirmed seq (send_Hash submitResult) maxLedger r);
                    if \<not> is_Ok added then ret (False, True, ErrorReasonStoreAdd)
                    else do {
                      updateTransactionHash r (send_Hash submitResult);
                      updateTransactionResultXDR r [];
                      updateTransactionResultMeta r [];
                      updateTransactionResultCode r [];
                      ret (True, False, ErrorReasonNone) } })
               else if send_Status submitResult = TXStatusTryAgainLater then
                 ret (False, False, ErrorReasonTryAgainLater)
               else if send_Status submitResult = TXStatusError then
                 (let (code, decoded) = parseSubmitErrorResult lib (send_ErrorResultXDR submitResult) in
                  if \<not> decoded then ret (False, True, ErrorReasonSubmitErrorUndecoded)
                  else let (fatal, reason) = classifySubmitErrorCode lib code in ret (False, fatal, reason))
               else ret (False, True, ErrorReasonUnknownSubmit)))"

section \<open>Sequence helpers\<close>

definition getSequenceNumber :: "env \<Rightarrow> sdk \<Rightarrow> client \<Rightarrow> string \<Rightarrow> int result txm" where
  "getSequenceNumber env lib client address =
     (if address = [] then ret (Err (New ''address is required for sequence number lookup''))
      else case AddressToAccountId lib address of
        Err e \<Rightarrow> ret (Err (Errorf ''invalid stellar account address %q: %w'' [AStr address, AErr e]))
      | Panic p \<Rightarrow> ret (Panic p)
      | Ok accountID \<Rightarrow>
          (case marshal_AccountKey lib accountID of
             Err e \<Rightarrow> ret (Err (Errorf ''failed to marshal account key: %w'' [AErr e]))
           | Panic p \<Rightarrow> ret (Panic p)
           | Ok keyXDR \<Rightarrow> do {
               resp \<leftarrow> ask (\<lambda>i. rpc_GetLedgerEntries_at env i client [keyXDR]);
               ret (bind_r (wrap_err (\<lambda>e. Errorf ''failed to get ledger entries: %w'' [AErr e]) resp) (\<lambda>entries.
                 if entries = [] then Err (Errorf ''account %s not found on-chain'' [AStr address])
                 else if hd entries = [] then Err (Errorf ''empty entry data for account %s'' [AStr address])
                 else bind_r (wrap_err (\<lambda>e. Errorf ''failed to unmarshal account entry: %w'' [AErr e])
                        (unb64_LedgerEntryData lib (hd entries))) (\<lambda>entry.
                        case entry of
                          LedgerEntryAccount seqNum balance \<Rightarrow> Ok seqNum
                        | LedgerEntryOther ty \<Rightarrow>
                            Err (Errorf ''ledger entry for %s is not an account entry (type=%v)''
                                   [AStr address, AInt ty])))) }))"

definition resyncSequence :: "env \<Rightarrow> sdk \<Rightarrow> client \<Rightarrow> tx_ref \<Rightarrow> unit result txm" where
  "resyncSequence env lib client r = do {
     t \<leftarrow> get_tx r;
     sq \<leftarrow> getSequenceNumber env lib client (tx_FromAddress t);
     case sq of
       Err e \<Rightarrow> ret (Err (Errorf ''failed to resync sequence for %s: %w'' [AStr (tx_FromAddress t), AErr e]))
     | Panic p \<Rightarrow> ret (Panic p)
     | Ok seqNum \<Rightarrow> do {
         st \<leftarrow> reads (\<lambda>s. GetTxStore (tx_FromAddress t) (accountStore s));
         if st = None then ret (Err (Errorf ''no tx store for address %s'' [AStr (tx_FromAddress t)]))
         else do {
           upd_store (tx_FromAddress t) (ResyncNonce (i64 (seqNum + 1)));
           ret (Ok ()) } } }"

definition next_sequence :: "string \<Rightarrow> int txm" where
  "next_sequence addr = reads (\<lambda>s. GetNextSequence (the (GetTxStore addr (accountStore s))))"

definition fee_percentiles :: "env \<Rightarrow> client \<Rightarrow> (int \<times> int) result txm" where
  "fee_percentiles env client = do {
     now \<leftarrow> time_now env;
     resp \<leftarrow> ask (\<lambda>i. rpc_GetFeeStats_at env i client);
     t \<leftarrow> reads txm_feeTracker;
     let (r, t') = sorobanInclusionPercentiles now resp t;
     modify (\<lambda>s. s\<lparr>txm_feeTracker := t'\<rparr>);
     ret r }"

section \<open>Simulation with retry\<close>

definition shouldRetrySimulation :: "env \<Rightarrow> error \<Rightarrow> nat \<Rightarrow> nat \<Rightarrow> bool txm" where
  "shouldRetrySimulation env err attempt maxAttempts =
     (if attempt + 1 < maxAttempts then isRetryableSimulationError env (Some err) else ret False)"

definition sleepBeforeSimulationRetry :: "env \<Rightarrow> bool txm" where
  "sleepBeforeSimulationRetry env = sleep env"

function simulate_loop ::
    "env \<Rightarrow> sdk \<Rightarrow> client \<Rightarrow> tx_ref \<Rightarrow> int \<Rightarrow> nat \<Rightarrow> nat \<Rightarrow> error \<Rightarrow>
     (Transaction \<times> SimulateTransactionResponse \<times> int) result txm" where
  "simulate_loop env lib client r seq maxAttempts attempt lastErr =
     (if attempt < maxAttempts then do {
        latestLedger \<leftarrow> ask (\<lambda>i. rpc_GetLatestLedger_at env i client);
        case latestLedger of
          Panic p \<Rightarrow> ret (Panic p)
        | Err e \<Rightarrow>
            (let lastErr' = Errorf ''failed to get latest ledger: %w'' [AErr e] in
             if attempt + 1 \<ge> maxAttempts then ret (Err lastErr')
             else do {
               awake \<leftarrow> sleepBeforeSimulationRetry env;
               if \<not> awake then do { c \<leftarrow> ctx_Err env; ret (Err c) }
               else simulate_loop env lib client r seq maxAttempts (Suc attempt) lastErr' })
        | Ok ledgerSeq \<Rightarrow> do {
            cfg \<leftarrow> reads txm_config;
            t0 \<leftarrow> get_tx r;
            let offset = (if tx_LedgerBoundsOffset t0 > 0 then tx_LedgerBoundsOffset t0
                          else the (LedgerBoundsOffset cfg));
            let maxLedger = u32 (ledgerSeq + offset);
            upd_tx r (\<lambda>t. t\<lparr>tx_MaxLedger := maxLedger\<rparr>);
            t \<leftarrow> get_tx r;
            prelim \<leftarrow> buildPreliminaryTx env lib (Some t) seq maxLedger;
            case prelim of
              Panic p \<Rightarrow> ret (Panic p)
            | Err e \<Rightarrow> ret (Err (Errorf ''failed to build preliminary tx: %w'' [AErr e]))
            | Ok prelimTx \<Rightarrow> do {
                sim \<leftarrow> simulateTransaction env lib client (Some prelimTx);
                case sim of
                  Panic p \<Rightarrow> ret (Panic p)
                | Ok simResult \<Rightarrow> ret (Ok (prelimTx, simResult, maxLedger))
                | Err e \<Rightarrow> do {
                    retry \<leftarrow> shouldRetrySimulation env e attempt maxAttempts;
                    if \<not> retry then ret (Err e)
                    else do {
                      awake \<leftarrow> sleepBeforeSimulationRetry env;
                      if \<not> awake then do { c \<leftarrow> ctx_Err env; ret (Err c) }
                      else simulate_loop env lib client r seq maxAttempts (Suc attempt) e } } } } }
      else ret (Err (Errorf ''simulation attempts exhausted: %w'' [AErr lastErr])))"
  by pat_completeness auto
termination
  by (relation "measure (\<lambda>(env, lib, client, r, seq, maxAttempts, attempt, lastErr). maxAttempts - attempt)") auto

declare simulate_loop.simps [simp del]

definition prepareAndSimulateWithRetry ::
    "env \<Rightarrow> sdk \<Rightarrow> client \<Rightarrow> tx_ref \<Rightarrow> int \<Rightarrow>
     (Transaction \<times> SimulateTransactionResponse \<times> int) result txm" where
  "prepareAndSimulateWithRetry env lib client r seq = do {
     cfg \<leftarrow> reads txm_config;
     let m = nat (the (MaxSimulateAttempts cfg));
     simulate_loop env lib client r seq (if m = 0 then 1 else m) 0 (New []) }"

section \<open>Restoring archived entries (restore.go)\<close>

definition sleepBeforeRestoreRetry :: "env \<Rightarrow> bool txm" where
  "sleepBeforeRestoreRetry env = sleep env"

text \<open>\<open>pollRestoreTransaction\<close>: the ticker fires at most \<open>timeout div interval\<close> times before the
  context with the timeout ends; \<open>ticks\<close> counts the firings that are left.\<close>

fun poll_loop :: "env \<Rightarrow> client \<Rightarrow> string \<Rightarrow> nat \<Rightarrow> GetTransactionResponse result txm" where
  "poll_loop env client h 0 =
     ret (Err (Errorf ''poll timed out for tx %s: %w'' [AStr h, AErr (New ''context deadline exceeded'')]))"
| "poll_loop env client h (Suc ticks) = do {
     c \<leftarrow> ask (ctx_Err_at env);
     case c of
       Some e \<Rightarrow> ret (Err (Errorf ''poll timed out for tx %s: %w'' [AStr h, AErr e]))
     | None \<Rightarrow> do {
         resp \<leftarrow> ask (\<lambda>i. rpc_GetTransaction_at env i client h);
         case resp of
           Panic p \<Rightarrow> ret (Panic p)
         | Err e \<Rightarrow> poll_loop env client h ticks
         | Ok x \<Rightarrow>
             if get_Status x = StatusSuccess \<or> get_Status x = StatusFailed then ret (Ok x)
             else poll_loop env client h ticks } }"

definition pollRestoreTransaction :: "env \<Rightarrow> client \<Rightarrow> string \<Rightarrow> GetTransactionResponse result txm" where
  "pollRestoreTransaction env client h = do {
     cfg \<leftarrow> reads txm_config;
     let timeout = i64 (cfg_secs cfg * second);
     let interval = the (ConfirmPollInterval cfg);
     if interval \<le> 0 then ret (Panic ''non-positive interval for NewTicker'')
     else poll_loop env client h (nat (timeout div interval)) }"

fun restore_loop :: "env \<Rightarrow> sdk \<Rightarrow> client \<Rightarrow> tx_ref \<Rightarrow> string \<Rightarrow> nat \<Rightarrow> error option \<Rightarrow> unit result txm" where
  "restore_loop env lib client r signedXDR 0 lastErr = do {
     emit (IncrementRestore RestoreOutcomeFailed);
     ret (Err (case lastErr of
                 Some e \<Rightarrow> Errorf ''restore attempts exhausted: %w'' [AErr e]
               | None \<Rightarrow> New ''restore attempts exhausted'')) }"
| "restore_loop env lib client r signedXDR (Suc attemptsLeft) lastErr = do {
     submit \<leftarrow> submit_envelope env client signedXDR;
     case submit of
       Panic p \<Rightarrow> ret (Panic p)
     | Err e \<Rightarrow> do {
         awake \<leftarrow> sleepBeforeRestoreRetry env;
         if \<not> awake then do { c \<leftarrow> ctx_Err env; ret (Err c) }
         else restore_loop env lib client r signedXDR attemptsLeft
                (Some (Errorf ''failed to submit restore transaction: %w'' [AErr e])) }
     | Ok submitResult \<Rightarrow>
         (case send_Status submitResult of
            TXStatusTryAgainLater \<Rightarrow> do {
              awake \<leftarrow> sleepBeforeRestoreRetry env;
              if \<not> awake then do { c \<leftarrow> ctx_Err env; ret (Err c) }
              else restore_loop env lib client r signedXDR attemptsLeft
                     (Some (Errorf ''restore transaction rejected with %s'' [AStr ''TRY_AGAIN_LATER''])) }
          | TXStatusError \<Rightarrow> do {
              emit (IncrementRestore RestoreOutcomeFailed);
              ret (Err (if send_ErrorResultXDR submitResult \<noteq> []
                        then Errorf ''restore transaction rejected: %s'' [AStr (send_ErrorResultXDR submitResult)]
                        else Errorf ''restore transaction rejected with %s'' [AStr ''ERROR''])) }
          | TXStatusOther st \<Rightarrow> do {
              emit (IncrementRestore RestoreOutcomeFailed);
              ret (Err (Errorf ''unexpected restore transaction status: %s'' [AStr st])) }
          | _ \<Rightarrow> do {
              polled \<leftarrow> pollRestoreTransaction env client (send_Hash submitResult);
              case polled of
                Panic p \<Rightarrow> ret (Panic p)
              | Err e \<Rightarrow> do {
                  awake \<leftarrow> sleepBeforeRestoreRetry env;
                  if \<not> awake then do { c \<leftarrow> ctx_Err env; ret (Err c) }
                  else restore_loop env lib client r signedXDR attemptsLeft
                         (Some (Errorf ''restore transaction polling failed: %w'' [AErr e])) }
              | Ok resp \<Rightarrow>
                  if get_Status resp = StatusSuccess then do {
                    emit (IncrementRestore RestoreOutcomeSuccess);
                    res \<leftarrow> resyncSequence env lib client r;
                    ret (wrap_err (\<lambda>e. Errorf ''failed to resync sequence after restore: %w'' [AErr e]) res) }
                  else do {
                    emit (IncrementRestore RestoreOutcomeFailed);
                    ret (Err (Errorf ''restore transaction failed on-chain: %s'' [AStr ''FAILED''])) } }) }"

definition handleRestore :: "env \<Rightarrow> sdk \<Rightarrow> client \<Rightarrow> tx_ref \<Rightarrow> RestorePreamble \<Rightarrow> int \<Rightarrow> unit result txm" where
  "handleRestore env lib client r preamble seq =
     (case unb64_SorobanData lib (rp_TransactionDataXDR preamble) of
        Err e \<Rightarrow> ret (Err (Errorf ''failed to decode restore preamble soroban data: %w'' [AErr e]))
      | Panic p \<Rightarrow> ret (Panic p)
      | Ok sorobanData \<Rightarrow> do {
          t \<leftarrow> get_tx r;
          cfg \<leftarrow> reads txm_config;
          fs \<leftarrow> reads txm_feeStrat;
          n \<leftarrow> time_now env;
          let restoreFee = CalculateRestoreFee fs (rp_MinResourceFee preamble) (the (RestoreFeeBuffer cfg));
          case NewTransaction lib
                 \<lparr>tp_AccountID = tx_FromAddress t, tp_Sequence = max 0 (i64 (seq - 1)),
                  tp_IncrementSequenceNum = True,
                  tp_Operations = [OpRestoreFootprint (tx_FromAddress t) sorobanData],
                  tp_BaseFee = restoreFee, tp_TimeBounds = NewTimeout lib n (cfg_secs cfg),
                  tp_MaxLedger = None\<rparr> of
            Err e \<Rightarrow> ret (Err (Errorf ''failed to build restore transaction: %w'' [AErr e]))
          | Panic p \<Rightarrow> ret (Panic p)
          | Ok restoreTx \<Rightarrow> do {
              signed \<leftarrow> signTransaction env lib (Some restoreTx) (tx_FromAddress t);
              case signed of
                Err e \<Rightarrow> ret (Err (Errorf ''failed to sign restore transaction: %w'' [AErr e]))
              | Panic p \<Rightarrow> ret (Panic p)
              | Ok signedTx \<Rightarrow>
                  (case tx_Base64 lib signedTx of
                     Err e \<Rightarrow> ret (Err (Errorf ''failed to encode signed restore transaction: %w'' [AErr e]))
                   | Panic p \<Rightarrow> ret (Panic p)
                   | Ok signedXDR \<Rightarrow> do {
                       emit (IncrementRestore RestoreOutcomeInitiated);
                       restore_loop env lib client r signedXDR (nat (the (MaxRestoreAttempts cfg))) None }) } })"

section \<open>The broadcast pipeline\<close>

definition retryGetClientOrFail :: "env \<Rightarrow> tx_ref \<Rightarrow> unit txm" where
  "retryGetClientOrFail env r = do {
     incrementInfraAttempts r;
     attempts \<leftarrow> getInfraAttempts r;
     cfg \<leftarrow> reads txm_config;
     let maxRetries = (case MaxGetClientRetryAttempts cfg of None \<Rightarrow> 0 | Some m \<Rightarrow> m);
     if attempts < maxRetries then do {
       awake \<leftarrow> sleep env;
       if \<not> awake then ret ()
       else do {
         sent \<leftarrow> try_send r;
         if sent then ret () else emit (IncrementDroppedTxs DropReasonChannelFullNewRejected) } }
     else do {
       emit (IncrementMaxAttemptsReached RetryBudgetInfra);
       markTxFailed env r ErrorReasonClientUnavailable } }"

text \<open>What one pass over assemble, sign and send leads to: the broadcast is over, or the loop
  goes on with another attempt at the given sequence number and inclusion fee.\<close>

datatype send_outcome = Finished "unit result" | Retry int int

definition fail_release :: "env \<Rightarrow> string \<Rightarrow> int \<Rightarrow> tx_ref \<Rightarrow> ErrorReason \<Rightarrow> send_outcome txm" where
  "fail_release env addr seq r reason = do {
     releaseSeqAndFailTx env addr seq r reason;
     ret (Finished (Ok ())) }"

text \<open>A retry after a backoff; a context that ends meanwhile gives the sequence back.\<close>

definition backoff_retry :: "env \<Rightarrow> string \<Rightarrow> int \<Rightarrow> int \<Rightarrow> send_outcome txm" where
  "backoff_retry env addr seq fee = do {
     awake \<leftarrow> sleep env;
     if awake then ret (Retry seq fee)
     else do { upd_store addr (Release seq); ret (Finished (Ok ())) } }"

definition after_send ::
    "env \<Rightarrow> sdk \<Rightarrow> client \<Rightarrow> tx_ref \<Rightarrow> string \<Rightarrow> int \<Rightarrow> int \<Rightarrow> int \<Rightarrow> SendTransactionResponse \<Rightarrow> send_outcome txm" where
  "after_send env lib client r addr seq inclusionFee maxLedger submitResult = do {
     (accepted, fatalErr, retryReason) \<leftarrow> handleSendResult lib (Some r) submitResult seq (Some addr) maxLedger;
     if accepted then do {
       markBroadcastAt env r;
       emit IncrementBroadcastedTxs;
       updateTransactionStatus env r Unconfirmed;
       ret (Finished (Ok ())) }
     else if fatalErr then fail_release env addr seq r retryReason
     else if retryReason = ErrorReasonBadSeq then do {
       resyncSequence env lib client r;
       seq' \<leftarrow> next_sequence addr;
       ret (Retry seq' inclusionFee) }
     else if retryReason = ErrorReasonInsufficientFee then do {
       pct \<leftarrow> fee_percentiles env client;
       fs \<leftarrow> reads txm_feeStrat;
       let networkP90 = (case pct of Ok (_, b) \<Rightarrow> b | _ \<Rightarrow> 0);
       backoff_retry env addr seq (fst (BumpInclusionFee fs inclusionFee networkP90)) }
     else backoff_retry env addr seq inclusionFee }"

definition send_stage ::
    "env \<Rightarrow> sdk \<Rightarrow> client \<Rightarrow> tx_ref \<Rightarrow> string \<Rightarrow> nat \<Rightarrow> nat \<Rightarrow> int \<Rightarrow> int \<Rightarrow> Transaction \<Rightarrow>
     SimulateTransactionResponse \<Rightarrow> int \<Rightarrow> send_outcome txm" where
  "send_stage env lib client r addr maxSubmit submitAttempt seq inclusionFee prelimTx simResult maxLedger = do {
     upd_tx r (\<lambda>t. t\<lparr>tx_MinResourceFee := sim_MinResourceFee simResult\<rparr>);
     fs \<leftarrow> reads txm_feeStrat;
     let (asm, ops) = assembleTransaction lib fs (Some prelimTx) simResult inclusionFee maxLedger;
     upd_tx r (\<lambda>t. t\<lparr>tx_Operations := ops\<rparr>);
     case asm of
       Panic p \<Rightarrow> ret (Finished (Panic p))
     | Err e \<Rightarrow> fail_release env addr seq r ErrorReasonAssembly
     | Ok (assembledTx, totalFee) \<Rightarrow> do {
         emit (ObserveInclusionFee inclusionFee);
         emit (ObserveResourceFee (max 0 (i64 (totalFee - inclusionFee))));
         updateTransactionFee r totalFee;
         t \<leftarrow> get_tx r;
         signed \<leftarrow> signTransaction env lib (Some assembledTx) (tx_FromAddress t);
         case signed of
           Panic p \<Rightarrow> ret (Finished (Panic p))
         | Err e \<Rightarrow> fail_release env addr seq r ErrorReasonSigning
         | Ok signedTx \<Rightarrow>
             (case tx_Base64 lib signedTx of
                Panic p \<Rightarrow> ret (Finished (Panic p))
              | Err e \<Rightarrow> fail_release env addr seq r ErrorReasonAssembly
              | Ok signedXDR \<Rightarrow> do {
                  sub \<leftarrow> submit_envelope env client signedXDR;
                  case sub of
                    Panic p \<Rightarrow> ret (Finished (Panic p))
                  | Err e \<Rightarrow>
                      if submitAttempt + 1 \<ge> maxSubmit then ret (Retry seq inclusionFee)
                      else backoff_retry env addr seq inclusionFee
                  | Ok submitResult \<Rightarrow>
                      after_send env lib client r addr seq inclusionFee maxLedger submitResult }) } }"

text \<open>The submit loop: at most \<open>maxSubmit\<close> attempts and at most one restore.\<close>

function submit_loop ::
    "env \<Rightarrow> sdk \<Rightarrow> client \<Rightarrow> tx_ref \<Rightarrow> string \<Rightarrow> nat \<Rightarrow> nat \<Rightarrow> bool \<Rightarrow> int \<Rightarrow> int \<Rightarrow> unit result txm" where
  "submit_loop env lib client r addr maxSubmit submitAttempt restoreHandled seq inclusionFee =
     (if submitAttempt < maxSubmit then do {
        prep \<leftarrow> prepareAndSimulateWithRetry env lib client r seq;
        case prep of
          Panic p \<Rightarrow> ret (Panic p)
        | Err e \<Rightarrow> do { releaseSeqAndFailTx env addr seq r ErrorReasonSimulation; ret (Ok ()) }
        | Ok (prelimTx, simResult, maxLedger) \<Rightarrow>
            (case sim_RestorePreamble simResult of
               Some preamble \<Rightarrow>
                 if restoreHandled then do { releaseSeqAndFailTx env addr seq r ErrorReasonRestoreFailed; ret (Ok ()) }
                 else do {
                   restored \<leftarrow> handleRestore env lib client r preamble seq;
                   case restored of
                     Panic p \<Rightarrow> ret (Panic p)
                   | Err e \<Rightarrow> do { releaseSeqAndFailTx env addr seq r ErrorReasonRestoreFailed; ret (Ok ()) }
                   | Ok _ \<Rightarrow> do {
                       seq' \<leftarrow> next_sequence addr;
                       submit_loop env lib client r addr maxSubmit submitAttempt True seq' inclusionFee } }
             | None \<Rightarrow> do {
                 out \<leftarrow> send_stage env lib client r addr maxSubmit submitAttempt seq inclusionFee
                          prelimTx simResult maxLedger;
                 case out of
                   Finished x \<Rightarrow> ret x
                 | Retry seq' fee' \<Rightarrow>
                     submit_loop env lib client r addr maxSubmit (Suc submitAttempt) restoreHandled seq' fee' }) }
      else do { releaseSeqAndFailTx env addr seq r ErrorReasonMaxRetries; ret (Ok ()) })"
  by pat_completeness auto
termination
  by (relation "measure (\<lambda>(env, lib, client, r, addr, maxSubmit, submitAttempt, restoreHandled, seq, fee).
        2 * (maxSubmit - submitAttempt) + (if restoreHandled then 0 else 1))") auto

declare submit_loop.simps [simp del]

text \<open>The store of the sending account, created from the on-chain sequence on first use.\<close>

definition ensure_store :: "env \<Rightarrow> sdk \<Rightarrow> client \<Rightarrow> tx_ref \<Rightarrow> string \<Rightarrow> bool result txm" where
  "ensure_store env lib client r addr = do {
     st \<leftarrow> reads (\<lambda>s. GetTxStore addr (accountStore s));
     if st \<noteq> None then ret (Ok True)
     else do {
       sq \<leftarrow> getSequenceNumber env lib client addr;
       case sq of
         Panic p \<Rightarrow> ret (Panic p)
       | Err e \<Rightarrow> do { markTxFailed env r ErrorReasonSequenceNumber; ret (Ok False) }
       | Ok seqNum \<Rightarrow> do {
           cur \<leftarrow> reads accountStore;
           case CreateTxStore addr (i64 (seqNum + 1)) cur of
             Ok c' \<Rightarrow> do { modify (\<lambda>s. s\<lparr>accountStore := c'\<rparr>); ret (Ok True) }
           | _ \<Rightarrow> do { markTxFailed env r ErrorReasonStoreCreate; ret (Ok False) } } } }"

definition simulateAssembleSignAndSend :: "env \<Rightarrow> sdk \<Rightarrow> tx_ref \<Rightarrow> unit result txm" where
  "simulateAssembleSignAndSend env lib r = do {
     gc \<leftarrow> ask (getClient_at env);
     case gc of
       Panic p \<Rightarrow> ret (Panic p)
     | Err e \<Rightarrow> do { retryGetClientOrFail env r; ret (Ok ()) }
     | Ok client \<Rightarrow> do {
         t \<leftarrow> get_tx r;
         let addr = tx_FromAddress t;
         ready \<leftarrow> ensure_store env lib client r addr;
         case ready of
           Panic p \<Rightarrow> ret (Panic p)
         | Err e \<Rightarrow> ret (Err e)
         | Ok False \<Rightarrow> ret (Ok ())
         | Ok True \<Rightarrow> do {
             currentAttempt \<leftarrow> getTransactionAttempt r;
             (if currentAttempt > 0 then do { resyncSequence env lib client r; ret () } else ret ());
             pct \<leftarrow> fee_percentiles env client;
             fs \<leftarrow> reads txm_feeStrat;
             cfg \<leftarrow> reads txm_config;
             let networkPercentile = (case pct of Ok (a, b) \<Rightarrow> if currentAttempt > 0 then b else a | _ \<Rightarrow> 0);
             let inclusionFee = fst (SeedInclusionFee fs currentAttempt networkPercentile);
             seq \<leftarrow> next_sequence addr;
             submit_loop env lib client r addr (nat (the (MaxSubmitRetryAttempts cfg))) 0 False seq inclusionFee } } }"

section \<open>The broadcast loop and read-only simulation\<close>

text \<open>One pass of \<open>broadcastLoop\<close>: drain the channel, order the batch by enqueue time, process
  it. Transactions that the processing puts back into the channel wait for the next pass.\<close>

definition drain :: "tx_ref list txm" where
  "drain = State (\<lambda>s. (broadcastChan s, s\<lparr>broadcastChan := []\<rparr>))"

fun process_batch :: "env \<Rightarrow> sdk \<Rightarrow> tx_ref list \<Rightarrow> unit result txm" where
  "process_batch env lib [] = ret (Ok ())"
| "process_batch env lib (r # rs) = do {
     x \<leftarrow> simulateAssembleSignAndSend env lib r;
     case x of
       Panic p \<Rightarrow> ret (Panic p)
     | _ \<Rightarrow> process_batch env lib rs }"

definition broadcastLoop_pass :: "env \<Rightarrow> sdk \<Rightarrow> unit result txm" where
  "broadcastLoop_pass env lib = do {
     broadcastTxs \<leftarrow> drain;
     h \<leftarrow> reads heap;
     process_batch env lib (sort_key (\<lambda>r. tx_Timestamp (h r)) broadcastTxs) }"

definition Simulate :: "env \<Rightarrow> sdk \<Rightarrow> TxRequest \<Rightarrow> SimulateTransactionResponse result txm" where
  "Simulate env lib req =
     (if req_Operations req = [] then ret (Err (New ''Simulate: at least one operation is required''))
      else do {
        from \<leftarrow> (if req_FromAddress req = [] then defaultFromAddress env else ret (Ok (req_FromAddress req)));
        case from of
          Panic p \<Rightarrow> ret (Panic p)
        | Err e \<Rightarrow> ret (Err (Errorf ''Simulate: %w'' [AErr e]))
        | Ok fromAddr \<Rightarrow> do {
            gc \<leftarrow> ask (getClient_at env);
            case gc of
              Panic p \<Rightarrow> ret (Panic p)
            | Err e \<Rightarrow> ret (Err (Errorf ''Simulate: failed to get client: %w'' [AErr e]))
            | Ok client \<Rightarrow> do {
                ll \<leftarrow> ask (\<lambda>i. rpc_GetLatestLedger_at env i client);
                case ll of
                  Panic p \<Rightarrow> ret (Panic p)
                | Err e \<Rightarrow> ret (Err (Errorf ''Simulate: failed to get latest ledger: %w'' [AErr e]))
                | Ok ledgerSeq \<Rightarrow> do {
                    cfg \<leftarrow> reads txm_config;
                    prelim \<leftarrow> buildPreliminaryTx env lib
                      (Some (zero_tx\<lparr>tx_FromAddress := fromAddr, tx_Operations := req_Operations req\<rparr>)) 0
                      (u32 (ledgerSeq + the (LedgerBoundsOffset cfg)));
                    case prelim of
                      Panic p \<Rightarrow> ret (Panic p)
                    | Err e \<Rightarrow> ret (Err (Errorf ''Simulate: failed to build tx: %w'' [AErr e]))
                    | Ok prelimTx \<Rightarrow> simulateTransaction env lib client (Some prelimTx) } } } })"

end
