(* ===== verification/Txm_Confirm.thy ===== *)
theory Txm_Confirm
  imports Txm_Broadcast
begin

text \<open>
  The confirm side of the transaction manager: classification of on-chain failures
  (relayer/txm/failed_result.go), the retry decision and the poll of all unconfirmed
  transactions (relayer/txm/txm.go, checkUnconfirmed).
\<close>

section \<open>On-chain failures (failed_result.go)\<close>

record failedTxClassification =
  fc_resultCode :: ErrorReason
  fc_retryable :: bool

definition isRetryableInvokeHostFunctionResult :: "InvokeHostFunctionResultCode \<Rightarrow> bool" where
  "isRetryableInvokeHostFunctionResult code =
     (case code of
        InvokeHostFunctionResourceLimitExceeded \<Rightarrow> True
      | InvokeHostFunctionEntryArchived \<Rightarrow> True
      | InvokeHostFunctionInsufficientRefundableFee \<Rightarrow> True
      | _ \<Rightarrow> False)"

text \<open>Every path through the body of the loop over the operation results returns, so the
  first result decides.\<close>

definition classifyFailedTransactionResult :: "sdk \<Rightarrow> string \<Rightarrow> failedTxClassification" where
  "classifyFailedTransactionResult lib resultXDR =
     (if resultXDR = [] then \<lparr>fc_resultCode = ErrorReasonRevert, fc_retryable = False\<rparr>
      else case unb64_TransactionResult lib resultXDR of
        Ok res \<Rightarrow>
          (let resultCode = ErrorReasonOf (TransactionResultCode_String lib (tr_Code res)) in
           case tr_Results res of
             Some (opResult # _) \<Rightarrow>
               if or_Code opResult \<noteq> OpInner then
                 \<lparr>fc_resultCode = ErrorReasonOf (OperationResultCode_String lib (or_Code opResult)),
                  fc_retryable = (or_Code opResult = OpExceededWorkLimit)\<rparr>
               else (case or_Tr opResult of
                   None \<Rightarrow> \<lparr>fc_resultCode = ErrorReasonOf (OperationResultCode_String lib (or_Code opResult)),
                            fc_retryable = False\<rparr>
                 | Some (TrInvokeHostFunction c) \<Rightarrow>
                     \<lparr>fc_resultCode = ErrorReasonOf (InvokeHostFunctionResultCode_String lib c),
                      fc_retryable = isRetryableInvokeHostFunctionResult c\<rparr>
                 | Some (TrOther ty) \<Rightarrow> \<lparr>fc_resultCode = ErrorReasonOf ty, fc_retryable = False\<rparr>)
           | _ \<Rightarrow> \<lparr>fc_resultCode = resultCode, fc_retryable = False\<rparr>)
      | _ \<Rightarrow> \<lparr>fc_resultCode = ErrorReasonRevertDecode, fc_retryable = False\<rparr>)"

section \<open>Retry\<close>

definition maybeRetry :: "UnconfirmedTx \<Rightarrow> RetryReason \<Rightarrow> bool txm" where
  "maybeRetry utx reason = do {
     currentAttempt \<leftarrow> getTransactionAttempt (utx_Tx utx);
     cfg \<leftarrow> reads txm_config;
     if currentAttempt \<ge> the (MaxTxRetryAttempts cfg) then ret False
     else do {
       sent \<leftarrow> try_send (utx_Tx utx);
       if sent then do { emit (IncrementRetryTxs reason); ret True }
       else do { emit (IncrementDroppedTxs DropReasonChannelFullNewRejected); ret False } } }"

text \<open>What follows a transaction that can be tried again: a retry, or its failure.\<close>

definition retry_or_fail :: "env \<Rightarrow> UnconfirmedTx \<Rightarrow> RetryReason \<Rightarrow> ErrorReason \<Rightarrow> unit txm" where
  "retry_or_fail env utx why failure = do {
     incrementTransactionAttempt (utx_Tx utx);
     again \<leftarrow> maybeRetry utx why;
     if again then ret ()
     else do {
       emit (IncrementMaxAttemptsReached RetryBudgetLifecycle);
       emit (IncrementErrorTxs failure);
       updateTransactionStatus env (utx_Tx utx) Failed } }"

section \<open>Polling unconfirmed transactions\<close>

definition on_success :: "env \<Rightarrow> sdk \<Rightarrow> string \<Rightarrow> UnconfirmedTx \<Rightarrow> GetTransactionResponse \<Rightarrow> unit txm" where
  "on_success env lib addr utx resp = do {
     confirmed \<leftarrow> call_store addr (Confirm (utx_Sequence utx) (utx_Hash utx) False);
     if \<not> is_Ok confirmed then ret ()
     else do {
       updateTransactionResultXDR (utx_Tx utx) (get_ResultXDR resp);
       updateTransactionResultCode (utx_Tx utx) [];
       (if get_ResultXDR resp \<noteq> [] then
          (case unb64_TransactionResult lib (get_ResultXDR resp) of
             Ok res \<Rightarrow> updateTransactionFee (utx_Tx utx) (tr_FeeCharged res)
           | _ \<Rightarrow> ret ())
        else ret ());
       (if get_ResultMetaXDR resp \<noteq> [] then updateTransactionResultMeta (utx_Tx utx) (get_ResultMetaXDR resp)
        else ret ());
       updateTransactionLedgerCloseTime (utx_Tx utx) (get_LedgerCloseTime resp);
       emit IncrementSuccessTxs;
       recordTimeUntilConfirmed env (utx_Tx utx);
       updateTransactionStatus env (utx_Tx utx) Finalized } }"

definition on_failed :: "env \<Rightarrow> sdk \<Rightarrow> string \<Rightarrow> UnconfirmedTx \<Rightarrow> GetTransactionResponse \<Rightarrow> unit txm" where
  "on_failed env lib addr utx resp = do {
     confirmed \<leftarrow> call_store addr (Confirm (utx_Sequence utx) (utx_Hash utx) False);
     if \<not> is_Ok confirmed then ret ()
     else do {
       updateTransactionResultXDR (utx_Tx utx) (get_ResultXDR resp);
       let c = classifyFailedTransactionResult lib (get_ResultXDR resp);
       updateTransactionResultCode (utx_Tx utx) (reason_string (fc_resultCode c));
       updateTransactionLedgerCloseTime (utx_Tx utx) (get_LedgerCloseTime resp);
       if \<not> fc_retryable c then do {
         emit (IncrementErrorTxs (fc_resultCode c));
         updateTransactionStatus env (utx_Tx utx) Failed }
       else retry_or_fail env utx RetryReasonResourceExhaustion (fc_resultCode c) } }"

definition on_expired :: "env \<Rightarrow> string \<Rightarrow> UnconfirmedTx \<Rightarrow> unit txm" where
  "on_expired env addr utx = do {
     confirmed \<leftarrow> call_store addr (Confirm (utx_Sequence utx) (utx_Hash utx) True);
     if \<not> is_Ok confirmed then do {
       emit (IncrementErrorTxs ErrorReasonTimedOut);
       updateTransactionStatus env (utx_Tx utx) Failed }
     else retry_or_fail env utx RetryReasonTimedOut ErrorReasonTimedOut }"

text \<open>The result is whether the transaction still counts as pending.\<close>

definition check_expiry :: "env \<Rightarrow> client \<Rightarrow> string \<Rightarrow> UnconfirmedTx \<Rightarrow> bool txm" where
  "check_expiry env client addr utx = do {
     latest \<leftarrow> ask (\<lambda>i. rpc_GetLatestLedger_at env i client);
     cfg \<leftarrow> reads txm_config;
     t \<leftarrow> get_tx (utx_Tx utx);
     age \<leftarrow> time_since env (tx_Timestamp t);
     let wallClockExpired = (age > i64 (cfg_secs cfg * second));
     let ledgerExpired = (case latest of Ok l \<Rightarrow> l > utx_MaxLedger utx | _ \<Rightarrow> False);
     if \<not> ledgerExpired \<and> \<not> wallClockExpired then ret True
     else do { on_expired env addr utx; ret False } }"

definition check_one :: "env \<Rightarrow> sdk \<Rightarrow> client \<Rightarrow> string \<Rightarrow> UnconfirmedTx \<Rightarrow> bool txm" where
  "check_one env lib client addr utx = do {
     resp \<leftarrow> ask (\<lambda>i. rpc_GetTransaction_at env i client (utx_Hash utx));
     case resp of
       Ok x \<Rightarrow>
         (case get_Status x of
            StatusSuccess \<Rightarrow> do { on_success env lib addr utx x; ret False }
          | StatusFailed \<Rightarrow> do { on_failed env lib addr utx x; ret False }
          | _ \<Rightarrow> check_expiry env client addr utx)
     | _ \<Rightarrow> check_expiry env client addr utx }"

fun check_account :: "env \<Rightarrow> sdk \<Rightarrow> client \<Rightarrow> string \<Rightarrow> UnconfirmedTx list \<Rightarrow> int \<Rightarrow> int txm" where
  "check_account env lib client addr [] totalPending = ret totalPending"
| "check_account env lib client addr (u # us) totalPending = do {
     pending \<leftarrow> check_one env lib client addr u;
     check_account env lib client addr us (if pending then totalPending + 1 else totalPending) }"

fun check_accounts :: "env \<Rightarrow> sdk \<Rightarrow> client \<Rightarrow> (string \<times> UnconfirmedTx list) list \<Rightarrow> int \<Rightarrow> int txm" where
  "check_accounts env lib client [] totalPending = ret totalPending"
| "check_accounts env lib client ((addr, us) # rest) totalPending = do {
     n \<leftarrow> check_account env lib client addr us totalPending;
     check_accounts env lib client rest n }"

text \<open>\<open>order\<close> is the order in which the runtime iterates the map of accounts.\<close>

definition checkUnconfirmed ::
    "env \<Rightarrow> sdk \<Rightarrow> ((string \<times> UnconfirmedTx list) list \<Rightarrow> (string \<times> UnconfirmedTx list) list) \<Rightarrow> unit txm" where
  "checkUnconfirmed env lib order = do {
     gc \<leftarrow> ask (getClient_at env);
     case gc of
       Ok client \<Rightarrow> do {
         allUnconfirmed \<leftarrow> reads (\<lambda>s. GetAllUnconfirmed (accountStore s));
         totalPending \<leftarrow> check_accounts env lib client (order allUnconfirmed) 0;
         emit (SetPendingTxs totalPending) }
     | _ \<Rightarrow> ret () }"

end
