(* ===== verification/Txm_Logic.thy ===== *)
theory Txm_Logic
  imports Txm_Confirm
begin

text \<open>
  A small program logic for the handlers of the transaction manager: \<open>hoare P m Q\<close> says that
  \<open>m\<close>, started in a state with \<open>P\<close>, ends with a result and a state that satisfy \<open>Q\<close> (every
  handler terminates, so this is total correctness); \<open>keeps I m\<close> is the special case of an
  invariant. The locale \<open>txm_frame\<close> names what an invariant has to satisfy on the primitive
  actions that neither queue a transaction, nor put it in flight, nor submit an envelope;
  \<open>txm_flow\<close> adds the first two, \<open>txm_wire\<close> the third, \<open>txm_invariant\<close> joins them, and \<open>txm_service\<close>
  adds the intake. Each shows once that the handlers built from its actions keep the invariant.
\<close>

section \<open>Triples\<close>

definition hoare :: "(Txm \<Rightarrow> bool) \<Rightarrow> 'a txm \<Rightarrow> ('a \<Rightarrow> Txm \<Rightarrow> bool) \<Rightarrow> bool" where
  "hoare P m Q \<longleftrightarrow> (\<forall>s x s'. P s \<longrightarrow> run_state m s = (x, s') \<longrightarrow> Q x s')"

abbreviation keeps :: "(Txm \<Rightarrow> bool) \<Rightarrow> 'a txm \<Rightarrow> bool" where
  "keeps I m \<equiv> hoare I m (\<lambda>_. I)"

lemma hoareI: "(\<And>s x s'. P s \<Longrightarrow> run_state m s = (x, s') \<Longrightarrow> Q x s') \<Longrightarrow> hoare P m Q"
  by (simp add: hoare_def)

lemma hoareD: "hoare P m Q \<Longrightarrow> P s \<Longrightarrow> run_state m s = (x, s') \<Longrightarrow> Q x s'"
  by (simp add: hoare_def)

lemma hoare_ret: "(\<And>s. P s \<Longrightarrow> Q x s) \<Longrightarrow> hoare P (ret x) Q"
  by (simp add: hoare_def)

lemma hoare_bind: "hoare P m R \<Longrightarrow> (\<And>x. hoare (R x) (f x) Q) \<Longrightarrow> hoare P (m \<bind> f) Q"
  unfolding hoare_def by (auto split: prod.splits)

lemma hoare_weaken: "hoare P m Q \<Longrightarrow> (\<And>s. P' s \<Longrightarrow> P s) \<Longrightarrow> (\<And>x s. Q x s \<Longrightarrow> Q' x s) \<Longrightarrow> hoare P' m Q'"
  unfolding hoare_def by blast

lemma hoare_pre: "hoare P m Q \<Longrightarrow> (\<And>s. P' s \<Longrightarrow> P s) \<Longrightarrow> hoare P' m Q"
  unfolding hoare_def by blast

lemma hoare_post: "hoare P m Q \<Longrightarrow> (\<And>x s. Q x s \<Longrightarrow> Q' x s) \<Longrightarrow> hoare P m Q'"
  unfolding hoare_def by blast

lemma hoare_True: "hoare P m (\<lambda>_ _. True)"
  by (simp add: hoare_def)

lemma hoare_if: "(b \<Longrightarrow> hoare P m Q) \<Longrightarrow> (\<not> b \<Longrightarrow> hoare P n Q) \<Longrightarrow> hoare P (if b then m else n) Q"
  by simp

lemma hoare_option:
  "(p = None \<Longrightarrow> hoare P m Q) \<Longrightarrow> (\<And>x. p = Some x \<Longrightarrow> hoare P (f x) Q) \<Longrightarrow>
   hoare P (case p of None \<Rightarrow> m | Some x \<Rightarrow> f x) Q"
  by (cases p) auto

lemma hoare_result:
  "(\<And>x. p = Ok x \<Longrightarrow> hoare P (f x) Q) \<Longrightarrow> (\<And>e. p = Err e \<Longrightarrow> hoare P (g e) Q) \<Longrightarrow>
   (\<And>e. p = Panic e \<Longrightarrow> hoare P (h e) Q) \<Longrightarrow>
   hoare P (case p of Ok x \<Rightarrow> f x | Err e \<Rightarrow> g e | Panic e \<Rightarrow> h e) Q"
  by (cases p) auto

lemma hoare_prod: "(\<And>x y. p = (x, y) \<Longrightarrow> hoare P (f x y) Q) \<Longrightarrow> hoare P (case p of (x, y) \<Rightarrow> f x y) Q"
  by (cases p) auto

lemma hoare_bool:
  "(b \<Longrightarrow> hoare P m Q) \<Longrightarrow> (\<not> b \<Longrightarrow> hoare P n Q) \<Longrightarrow> hoare P (case b of True \<Rightarrow> m | False \<Rightarrow> n) Q"
  by (cases b) auto

lemma hoare_let: "hoare P (f x) Q \<Longrightarrow> hoare P (let y = x in f y) Q"
  by simp

lemmas hoare_splits = hoare_if hoare_option hoare_result hoare_prod hoare_bool hoare_let

lemma keeps_ret: "keeps I (ret x)"
  by (rule hoare_ret)

lemma keeps_bind: "keeps I m \<Longrightarrow> (\<And>x. keeps I (f x)) \<Longrightarrow> keeps I (m \<bind> f)"
  by (rule hoare_bind)

lemma keeps_if: "(b \<Longrightarrow> keeps I m) \<Longrightarrow> (\<not> b \<Longrightarrow> keeps I n) \<Longrightarrow> keeps I (if b then m else n)"
  by simp

lemma keeps_option:
  "(p = None \<Longrightarrow> keeps I m) \<Longrightarrow> (\<And>x. p = Some x \<Longrightarrow> keeps I (f x)) \<Longrightarrow> keeps I (case p of None \<Rightarrow> m | Some x \<Rightarrow> f x)"
  by (cases p) auto

lemma keeps_result:
  "(\<And>x. p = Ok x \<Longrightarrow> keeps I (f x)) \<Longrightarrow> (\<And>e. p = Err e \<Longrightarrow> keeps I (g e)) \<Longrightarrow> (\<And>e. p = Panic e \<Longrightarrow> keeps I (h e)) \<Longrightarrow>
   keeps I (case p of Ok x \<Rightarrow> f x | Err e \<Rightarrow> g e | Panic e \<Rightarrow> h e)"
  by (cases p) auto

lemma keeps_prod: "(\<And>x y. p = (x, y) \<Longrightarrow> keeps I (f x y)) \<Longrightarrow> keeps I (case p of (x, y) \<Rightarrow> f x y)"
  by (cases p) auto

lemma keeps_bool: "(b \<Longrightarrow> keeps I m) \<Longrightarrow> (\<not> b \<Longrightarrow> keeps I n) \<Longrightarrow> keeps I (case b of True \<Rightarrow> m | False \<Rightarrow> n)"
  by (cases b) auto

lemma keeps_outcome:
  "(\<And>x. p = Finished x \<Longrightarrow> keeps I (f x)) \<Longrightarrow> (\<And>q e. p = Retry q e \<Longrightarrow> keeps I (g q e)) \<Longrightarrow>
   keeps I (case p of Finished x \<Rightarrow> f x | Retry q e \<Rightarrow> g q e)"
  by (cases p) auto

lemma keeps_let: "keeps I (f x) \<Longrightarrow> keeps I (let y = x in f y)"
  by simp

lemma keeps_reads: "keeps I (reads f)"
  by (simp add: hoare_def reads_def)

lemma keeps_get_tx: "keeps I (get_tx r)"
  by (simp add: get_tx_def keeps_reads)

lemma keeps_modify: "(\<And>s. I s \<Longrightarrow> I (f s)) \<Longrightarrow> keeps I (modify f)"
  by (simp add: hoare_def modify_def)

lemmas keeps_intros =
  keeps_ret keeps_bind keeps_if keeps_option keeps_result keeps_prod keeps_bool keeps_outcome keeps_let
  keeps_reads keeps_get_tx

section \<open>Invariants of the manager\<close>

text \<open>An update of a transaction that touches neither its identity nor its status.\<close>

definition benign :: "(StellarTx \<Rightarrow> StellarTx) \<Rightarrow> bool" where
  "benign f \<longleftrightarrow> (\<forall>t. tx_ID (f t) = tx_ID t \<and> tx_FromAddress (f t) = tx_FromAddress t \<and>
     tx_Status (f t) = tx_Status t \<and> tx_Done (f t) = tx_Done t)"

text \<open>An operation on a store that puts nothing in flight.\<close>

definition quiet_step :: "(TxStore \<Rightarrow> TxStore) \<Rightarrow> bool" where
  "quiet_step f \<longleftrightarrow> (\<exists>q. f = Release q) \<or> (\<exists>n. f = ResyncNonce n) \<or> (\<exists>q h b. f = apply_op (OpConfirm q h b))"

locale txm_frame =
  fixes I :: "Txm \<Rightarrow> bool"
  assumes I_clock: "I s \<Longrightarrow> I (s\<lparr>clock := c\<rparr>)"
    and I_metrics: "I s \<Longrightarrow> I (s\<lparr>metrics := metrics s @ [m]\<rparr>)"
    and I_tracker: "I s \<Longrightarrow> I (s\<lparr>txm_feeTracker := t\<rparr>)"
    and I_benign: "benign f \<Longrightarrow> I s \<Longrightarrow> I (s\<lparr>heap := (heap s)(r := f (heap s r))\<rparr>)"
    and I_status: "keeps I (updateTransactionStatus env r st)"
    and I_store: "quiet_step g \<Longrightarrow> GetTxStore a (accountStore s) = Some old \<Longrightarrow> I s \<Longrightarrow>
      I (s\<lparr>accountStore := AList.update a (g old) (accountStore s)\<rparr>)"
    and I_new_store: "GetTxStore a (accountStore s) = None \<Longrightarrow> I s \<Longrightarrow>
      I (s\<lparr>accountStore := AList.update a (NewTxStore q) (accountStore s)\<rparr>)"
begin

lemma k_tick: "keeps I tick"
  by (simp add: hoare_def tick_def I_clock)

lemma k_ask: "keeps I (ask f)"
  unfolding ask_def by (intro keeps_intros k_tick)

lemma k_emit: "keeps I (emit m)"
  unfolding emit_def by (intro keeps_modify I_metrics)

lemma k_upd: "benign f \<Longrightarrow> keeps I (upd_tx r f)"
  unfolding upd_tx_def by (intro keeps_modify I_benign)

lemma k_now: "keeps I (time_now env)"
  unfolding time_now_def by (rule k_ask)

lemma k_since: "keeps I (time_since env t)"
  unfolding time_since_def by (intro keeps_intros k_now)

lemma k_sleep: "keeps I (sleep env)"
  unfolding sleep_def by (intro keeps_intros k_ask)

lemma k_ctx_Err: "keeps I (ctx_Err env)"
  unfolding ctx_Err_def by (intro keeps_intros k_ask)

lemma k_upd_store: "quiet_step f \<Longrightarrow> keeps I (upd_store a f)"
  unfolding upd_store_def by (intro keeps_modify) (auto split: option.splits intro: I_store)

lemma k_call_store:
  assumes "\<And>st st'. f st = Ok st' \<Longrightarrow> \<exists>g. quiet_step g \<and> g st = st'"
  shows "keeps I (call_store a f)"
proof (rule hoareI)
  fix s x s' assume I: "I s" and run: "run_state (call_store a f) s = (x, s')"
  show "I s'"
  proof (cases "GetTxStore a (accountStore s)")
    case None
    with run I show ?thesis by (auto simp: call_store_def reads_def)
  next
    case (Some st)
    show ?thesis
    proof (cases "f st")
      case (Ok st')
      with assms obtain g where "quiet_step g" "g st = st'" by blast
      with run Some Ok I_store [of g a s st] I show ?thesis
        by (auto simp: call_store_def reads_def upd_store_def modify_def)
    qed (use run Some I in \<open>auto simp: call_store_def reads_def\<close>)
  qed
qed

lemmas k_prims = k_ask k_emit k_now k_since k_sleep k_ctx_Err I_status

end

lemma benign_simps:
  "benign (tx_Metadata_update g1)" "benign (tx_MaxLedger_update g2)" "benign (tx_MinResourceFee_update g3)"
  "benign (tx_Operations_update g4)" "benign (tx_TxHash_update g5)" "benign (tx_Fee_update g6)"
  "benign (tx_LedgerCloseTime_update g7)" "benign (tx_ResultXDR_update g8)" "benign (tx_ResultCode_update g9)"
  "benign (tx_ResultMetaXDR_update g10)" "benign (tx_BroadcastAt_update g11)" "benign (tx_Attempt_update g12)"
  "benign (tx_InfraAttempts_update g13)" "benign (tx_TerminalTime_update g14)"
  by (simp_all add: benign_def)

lemma benign_attempts:
  "benign (\<lambda>t. t\<lparr>tx_Attempt := h t\<rparr>)" "benign (\<lambda>t. t\<lparr>tx_InfraAttempts := h t\<rparr>)"
  by (simp_all add: benign_def)

lemma quiet_step_ops: "quiet_step (Release q)" "quiet_step (ResyncNonce n)"
  by (auto simp: quiet_step_def)

lemma quiet_step_confirm_op: "quiet_step (apply_op (OpConfirm q h f))"
  unfolding quiet_step_def by blast

lemma quiet_step_Confirm: "Confirm q h f st = Ok st' \<Longrightarrow> \<exists>g. quiet_step g \<and> g st = st'"
  by (rule exI [of _ "apply_op (OpConfirm q h f)"]) (simp add: quiet_step_confirm_op)

lemma keeps_get_status:
  "keeps I m1 \<Longrightarrow> keeps I m2 \<Longrightarrow> keeps I m3 \<Longrightarrow> (\<And>x. keeps I (f x)) \<Longrightarrow>
   keeps I (case p of StatusSuccess \<Rightarrow> m1 | StatusNotFound \<Rightarrow> m2 | StatusFailed \<Rightarrow> m3 | StatusOther x \<Rightarrow> f x)"
  by (cases p) auto

lemma keeps_submit_status:
  "keeps I m1 \<Longrightarrow> keeps I m2 \<Longrightarrow> keeps I m3 \<Longrightarrow> keeps I m4 \<Longrightarrow> (\<And>x. keeps I (f x)) \<Longrightarrow>
   keeps I (case p of TXStatusPending \<Rightarrow> m1 | TXStatusDuplicate \<Rightarrow> m2 | TXStatusTryAgainLater \<Rightarrow> m3
            | TXStatusError \<Rightarrow> m4 | TXStatusOther x \<Rightarrow> f x)"
  by (cases p) auto

section \<open>Every handler keeps an invariant\<close>

context txm_frame
begin

lemma k_field_updates:
  "keeps I (updateTransactionHash r h)" "keeps I (updateTransactionFee r fee)"
  "keeps I (updateTransactionLedgerCloseTime r ct)" "keeps I (updateTransactionResultXDR r x)"
  "keeps I (updateTransactionResultCode r c)" "keeps I (updateTransactionResultMeta r mt)"
  "keeps I (incrementTransactionAttempt r)" "keeps I (getTransactionAttempt r)"
  "keeps I (incrementInfraAttempts r)" "keeps I (getInfraAttempts r)" "keeps I (markBroadcastAt env r)"
  "keeps I (recordTimeUntilConfirmed env r)"
  unfolding updateTransactionHash_def updateTransactionFee_def updateTransactionLedgerCloseTime_def
    updateTransactionResultXDR_def updateTransactionResultCode_def updateTransactionResultMeta_def
    incrementTransactionAttempt_def getTransactionAttempt_def incrementInfraAttempts_def
    getInfraAttempts_def markBroadcastAt_def recordTimeUntilConfirmed_def
  by (intro keeps_intros k_prims k_upd benign_simps benign_attempts)+

lemma k_fail: "keeps I (markTxFailed env r reason)" "keeps I (releaseSeqAndFailTx env a q r reason)"
  unfolding markTxFailed_def releaseSeqAndFailTx_def
  by (intro keeps_intros k_prims k_upd_store quiet_step_ops)+

lemma k_build: "keeps I (buildPreliminaryTx env lib t q m)"
  unfolding buildPreliminaryTx_def by (intro keeps_intros k_prims)

lemma k_simulate: "keeps I (simulateTransaction env lib client t)"
  unfolding simulateTransaction_def by (intro keeps_intros k_prims)

lemma k_retryable: "keeps I (isRetryableSimulationError env e)"
  unfolding isRetryableSimulationError_def by (intro keeps_intros k_prims)

lemma k_sign: "keeps I (signTransaction env lib t a)"
  unfolding signTransaction_def by (intro keeps_intros k_prims)

lemma k_confirm: "keeps I (call_store a (Confirm q h f))"
  by (rule k_call_store) (rule quiet_step_Confirm)

lemma k_getSequence: "keeps I (getSequenceNumber env lib client a)"
  unfolding getSequenceNumber_def by (intro keeps_intros k_prims)

lemma k_resync: "keeps I (resyncSequence env lib client r)"
  unfolding resyncSequence_def by (intro keeps_intros k_prims k_getSequence k_upd_store quiet_step_ops)

lemma k_next_sequence: "keeps I (next_sequence a)"
  unfolding next_sequence_def by (rule keeps_reads)

lemma k_percentiles: "keeps I (fee_percentiles env client)"
  unfolding fee_percentiles_def by (intro keeps_intros k_prims keeps_modify I_tracker)

lemma k_simulate_loop: "keeps I (simulate_loop env lib client r q n k e)"
proof (induction "n - k" arbitrary: k e)
  case 0
  then show ?case by (subst simulate_loop.simps) (simp add: keeps_ret)
next
  case (Suc d)
  have IH: "keeps I (simulate_loop env lib client r q n (Suc k) e)" for e
    using Suc.hyps by simp
  show ?case
    by (subst simulate_loop.simps, unfold shouldRetrySimulation_def sleepBeforeSimulationRetry_def)
       (intro keeps_intros k_prims k_upd benign_simps k_build k_simulate k_retryable IH)
qed

lemma k_prepare: "keeps I (prepareAndSimulateWithRetry env lib client r q)"
  unfolding prepareAndSimulateWithRetry_def by (intro keeps_intros k_simulate_loop)

lemma k_poll: "keeps I (poll_loop env client h n)"
  by (induction n) (simp_all, (intro keeps_intros k_prims; assumption?)+)

lemma k_pollRestore: "keeps I (pollRestoreTransaction env client h)"
  unfolding pollRestoreTransaction_def by (intro keeps_intros k_poll)

lemma k_fail_release: "keeps I (fail_release env a q r reason)"
  unfolding fail_release_def by (intro keeps_intros k_fail)

lemma k_backoff: "keeps I (backoff_retry env a q fee)"
  unfolding backoff_retry_def by (intro keeps_intros k_prims k_upd_store quiet_step_ops)

lemma k_ensure_store: "keeps I (ensure_store env lib client r a)"
proof (rule hoareI)
  fix s x s' assume I: "I s" and run: "run_state (ensure_store env lib client r a) s = (x, s')"
  show "I s'"
  proof (cases "GetTxStore a (accountStore s)")
    case (Some st)
    with run I show ?thesis by (auto simp: ensure_store_def reads_def)
  next
    case None
    obtain sq s1 where sq: "run_state (getSequenceNumber env lib client a) s = (sq, s1)" by fastforce
    have I1: "I s1" using hoareD [OF k_getSequence I sq] .
    have st1: "accountStore s1 = accountStore s"
      using sq by (auto simp: getSequenceNumber_def ask_def tick_def split: result.splits if_splits)
    show ?thesis
    proof (cases sq)
      case (Ok n)
      have "CreateTxStore a (i64 (n + 1)) (accountStore s1) =
          Ok (AList.update a (NewTxStore (i64 (n + 1))) (accountStore s1))"
        using None by (simp add: CreateTxStore_def GetTxStore_def st1)
      with run None sq Ok I_new_store [of a s1 "i64 (n + 1)"] I1 show ?thesis
        by (auto simp: ensure_store_def reads_def modify_def st1)
    next
      case (Err e)
      obtain y s2 where m: "run_state (markTxFailed env r ErrorReasonSequenceNumber) s1 = (y, s2)"
        by (metis surj_pair)
      with run None sq Err hoareD [OF k_fail(1) I1 m] show ?thesis
        by (auto simp: ensure_store_def reads_def)
    next
      case (Panic p)
      with run None sq I1 show ?thesis by (auto simp: ensure_store_def reads_def)
    qed
  qed
qed

lemma k_simulate_only: "keeps I (Simulate env lib req)"
  unfolding Simulate_def defaultFromAddress_def by (intro keeps_intros k_prims k_build k_simulate)

end

text \<open>Invariants that also survive the submission of an envelope.\<close>

locale txm_wire = txm_frame +
  assumes I_submit: "I s \<Longrightarrow> I (s\<lparr>submissions := submissions s @ [x]\<rparr>)"
begin

lemma k_submit: "keeps I (submit_envelope env client x)"
  unfolding submit_envelope_def by (intro keeps_intros keeps_modify I_submit k_ask)

lemma k_restore_loop: "keeps I (restore_loop env lib client r x n e)"
proof (induction n arbitrary: e)
  case 0
  then show ?case by simp (intro keeps_intros k_prims)
next
  case (Suc n)
  show ?case
    unfolding restore_loop.simps sleepBeforeRestoreRetry_def
    by (intro keeps_intros keeps_submit_status k_prims k_submit k_pollRestore k_resync Suc)
qed

lemma k_restore: "keeps I (handleRestore env lib client r pre q)"
  unfolding handleRestore_def by (intro keeps_intros k_prims k_sign k_restore_loop)

end

text \<open>Invariants that also survive putting a transaction in flight and into the channel.\<close>

locale txm_flow = txm_frame +
  assumes I_add: "keeps I (call_store a (AddUnconfirmed q h m r))"
    and I_send: "keeps I (try_send r)"
begin

lemma k_handleSend: "keeps I (handleSendResult lib r res q st m)"
  unfolding handleSendResult_def by (intro keeps_intros k_prims I_add k_field_updates)


lemma k_retryGetClient: "keeps I (retryGetClientOrFail env r)"
  unfolding retryGetClientOrFail_def by (intro keeps_intros k_prims I_send k_field_updates k_fail)

lemma k_after_send: "keeps I (after_send env lib client r a q fee m res)"
  unfolding after_send_def
  by (intro keeps_intros k_prims k_handleSend k_field_updates k_fail_release k_resync k_next_sequence
      k_percentiles k_backoff)

lemma k_maybeRetry: "keeps I (maybeRetry u why)"
  unfolding maybeRetry_def by (intro keeps_intros k_prims I_send k_field_updates)

lemma k_retry_or_fail: "keeps I (retry_or_fail env u why f)"
  unfolding retry_or_fail_def by (intro keeps_intros k_prims k_field_updates k_maybeRetry)

lemma k_check_one: "keeps I (check_one env lib client a u)"
  unfolding check_one_def on_success_def on_failed_def check_expiry_def on_expired_def
  by (intro keeps_intros keeps_get_status k_prims k_confirm k_field_updates k_retry_or_fail)

lemma k_check_account: "keeps I (check_account env lib client a us n)"
  by (induction us arbitrary: n) (simp_all, (intro keeps_intros k_check_one; assumption?)+)

lemma k_check_accounts: "keeps I (check_accounts env lib client aus n)"
  by (induction aus arbitrary: n) (auto intro!: keeps_intros k_check_account)

lemma k_confirm_pass: "keeps I (checkUnconfirmed env lib order)"
  unfolding checkUnconfirmed_def by (intro keeps_intros k_prims k_check_accounts)

end

text \<open>Invariants that survive all of it: the whole broadcast.\<close>

locale txm_invariant = txm_flow + txm_wire
begin

lemma k_send_stage: "keeps I (send_stage env lib client r a n k q fee t sim m)"
  unfolding send_stage_def
  by (intro keeps_intros k_submit k_prims k_upd benign_simps k_fail_release k_sign k_field_updates k_backoff k_after_send)

lemma k_submit_step:
  assumes "\<And>q fee. keeps I (submit_loop env lib client r a n (Suc k) b q fee)"
    and "\<not> b \<Longrightarrow> (\<And>q fee. keeps I (submit_loop env lib client r a n k True q fee))"
  shows "keeps I (submit_loop env lib client r a n k b q fee)"
  by (subst submit_loop.simps)
     (intro keeps_intros k_prepare k_fail k_restore k_next_sequence k_send_stage assms; assumption)

lemma k_submit_loop: "keeps I (submit_loop env lib client r a n k b q fee)"
proof (induction "n - k" arbitrary: k b q fee)
  case 0
  then show ?case by (subst submit_loop.simps) (simp, intro keeps_intros k_fail)
next
  case (Suc d)
  have next_ok: "keeps I (submit_loop env lib client r a n (Suc k) b q fee)" for b q fee
    using Suc.hyps by simp
  have "keeps I (submit_loop env lib client r a n k True q fee)" for q fee
    by (rule k_submit_step [OF next_ok]) simp
  then show ?case by (rule k_submit_step [OF next_ok])
qed

lemma k_broadcast: "keeps I (simulateAssembleSignAndSend env lib r)"
  unfolding simulateAssembleSignAndSend_def
  by (intro keeps_intros k_prims k_retryGetClient k_ensure_store k_field_updates k_resync k_percentiles
      k_next_sequence k_submit_loop)

lemma k_batch: "keeps I (process_batch env lib rs)"
  by (induction rs) (simp_all, (intro keeps_intros k_broadcast; assumption?)+)

end

text \<open>Invariants that also survive the intake, the drain of the channel and pruning.\<close>

locale txm_service = txm_invariant +
  assumes I_alloc: "I s \<Longrightarrow> tx_Status t = Pending \<Longrightarrow>
      I (s\<lparr>heap := (heap s)(next_ref s := t), next_ref := Suc (next_ref s)\<rparr>)"
    and I_register: "I s \<Longrightarrow> r < next_ref s \<Longrightarrow>
      I (s\<lparr>transactions := (transactions s)(tx_ID (heap s r) \<mapsto> r)\<rparr>)"
    and I_unregister: "I s \<Longrightarrow> m \<subseteq>\<^sub>m transactions s \<Longrightarrow> I (s\<lparr>transactions := m\<rparr>)"
    and I_close: "keeps I (closeDone r)"
    and I_recv: "keeps I try_recv"
    and I_drain: "keeps I drain"
    and I_stop: "I s \<Longrightarrow> I (s\<lparr>stopped := True\<rparr>)"
begin

lemma k_drop: "keeps I (dropOldestForBackpressure env p)"
  unfolding dropOldestForBackpressure_def by (intro keeps_intros k_prims k_upd benign_simps)

lemma k_forget: "keeps I (modify (\<lambda>s. s\<lparr>transactions := (transactions s)(i := None)\<rparr>))"
  by (intro keeps_modify I_unregister) (auto simp: map_le_def)

lemma k_enqueueTransaction: "hoare (\<lambda>s. I s \<and> r < next_ref s) (enqueueTransaction env r) (\<lambda>_. I)"
proof -
  have reg: "hoare (\<lambda>s. I s \<and> r < next_ref s \<and> t = heap s r)
      (modify (\<lambda>s. s\<lparr>transactions := (transactions s)(tx_ID t \<mapsto> r)\<rparr>)) (\<lambda>_. I)" for t
    by (auto simp: hoare_def modify_def intro: I_register)
  have get: "hoare (\<lambda>s. I s \<and> r < next_ref s) (get_tx r) (\<lambda>t s. I s \<and> r < next_ref s \<and> t = heap s r)"
    by (auto simp: hoare_def get_tx_def reads_def)
  have look: "hoare (\<lambda>s. I s \<and> r < next_ref s \<and> t = heap s r) (reads f)
      (\<lambda>_ s. I s \<and> r < next_ref s \<and> t = heap s r)" for t and f :: "Txm \<Rightarrow> bool"
    by (auto simp: hoare_def reads_def)
  have dup: "hoare (\<lambda>s. I s \<and> r < next_ref s \<and> t = heap s r) (do { closeDone r; ret x }) (\<lambda>_. I)"
    for t and x :: "string result"
    by (rule hoare_pre [of I]) (auto intro: keeps_bind keeps_ret I_close)
  show ?thesis
    unfolding enqueueTransaction_def
    apply (rule hoare_bind [OF get], rule hoare_bind [OF look])
    subgoal for t b
      by (cases b) (simp_all add: dup, intro hoare_bind [OF reg] keeps_intros I_send I_recv k_drop k_forget k_prims)
    done
qed

lemma k_Enqueue: "keeps I (Enqueue env lib req)"
proof -
  have al: "tx_Status t = Pending \<Longrightarrow> hoare I (alloc t) (\<lambda>r s. I s \<and> r < next_ref s)" for t
    by (auto simp: hoare_def alloc_def intro: I_alloc)
  show ?thesis
    unfolding Enqueue_def defaultFromAddress_def
    by (intro keeps_intros k_prims hoare_bind [OF al k_enqueueTransaction]) simp_all
qed

lemma k_pass: "keeps I (broadcastLoop_pass env lib)"
  unfolding broadcastLoop_pass_def by (intro keeps_intros I_drain k_batch)

lemma k_prune: "keeps I (pruneTerminal nows)"
  unfolding pruneTerminal_def Let_def
  by (intro keeps_modify I_unregister) (auto simp: map_le_def split: option.splits if_splits)

end

end
