(* ===== verification/Txm_System.thy ===== *)
theory Txm_System
  imports Txm_Logic "HOL-Library.Multiset"
begin

text \<open>
  The transaction manager as a state machine: its steps are the handlers (an Enqueue call, a
  pass of the broadcast loop, a pass of the confirm loop, a prune, a read-only simulation, the
  stop signal), in any order and any number, with arbitrary answers from the network, the clock
  and the keystore. Each handler is one step: the interleavings inside a handler that the
  mutexes allow are treated separately, for the stores in TxStore and for the status update
  race below.
\<close>

section \<open>Steps and reachable states\<close>

definition Close :: "unit txm" where
  "Close = modify (\<lambda>s. s\<lparr>stopped := True\<rparr>)"

definition pruneEnabled :: "Txm \<Rightarrow> bool" where
  "pruneEnabled s \<longleftrightarrow> the (PruneInterval (txm_config s)) > 0"

inductive txm_step :: "env \<Rightarrow> sdk \<Rightarrow> Txm \<Rightarrow> Txm \<Rightarrow> bool" for env lib where
  step_enqueue: "run_state (Enqueue env lib req) s = (x, s') \<Longrightarrow> txm_step env lib s s'"
| step_broadcast: "\<not> stopped s \<Longrightarrow> run_state (broadcastLoop_pass env lib) s = (x, s') \<Longrightarrow> txm_step env lib s s'"
| step_confirm: "\<not> stopped s \<Longrightarrow> (\<And>xs. mset (order xs) = mset xs) \<Longrightarrow>
    run_state (checkUnconfirmed env lib order) s = (x, s') \<Longrightarrow> txm_step env lib s s'"
| step_prune: "\<not> stopped s \<Longrightarrow> pruneEnabled s \<Longrightarrow> run_state (pruneTerminal nows) s = (x, s') \<Longrightarrow>
    txm_step env lib s s'"
| step_simulate: "run_state (Simulate env lib req) s = (x, s') \<Longrightarrow> txm_step env lib s s'"
| step_close: "run_state Close s = ((), s') \<Longrightarrow> txm_step env lib s s'"

inductive reachable :: "env \<Rightarrow> sdk \<Rightarrow> Txm \<Rightarrow> bool" for env lib where
  reach_new: "NewTxm passphrase cfg chainID = Ok s \<Longrightarrow> reachable env lib s"
| reach_step: "reachable env lib s \<Longrightarrow> txm_step env lib s s' \<Longrightarrow> reachable env lib s'"

context txm_service
begin

lemma step_keeps: "txm_step env lib s s' \<Longrightarrow> I s \<Longrightarrow> I s'"
proof (induction rule: txm_step.induct)
  case (step_close s s')
  then show ?case by (auto simp: Close_def modify_def I_stop)
qed (auto dest: hoareD [OF k_Enqueue] hoareD [OF k_pass] hoareD [OF k_confirm_pass] hoareD [OF k_prune]
      hoareD [OF k_simulate_only])

lemma reachable_keeps:
  assumes "\<And>pf cfg c s. NewTxm pf cfg c = Ok s \<Longrightarrow> I s" and "reachable env lib s"
  shows "I s"
  using assms(2) by (induction rule: reachable.induct) (auto intro: assms(1) step_keeps)

end

section \<open>The invariants\<close>

text \<open>Every account store is well formed, and there is one store per account.\<close>

definition stores_ok :: "Txm \<Rightarrow> bool" where
  "stores_ok s \<longleftrightarrow> distinct (map fst (accountStore s)) \<and>
     (\<forall>a st. map_of (accountStore s) a = Some st \<longrightarrow> store_wf st \<and> failed_ahead st)"

text \<open>A transaction in a terminal state has its Done channel closed.\<close>

definition done_ok :: "Txm \<Rightarrow> bool" where
  "done_ok s \<longleftrightarrow> (\<forall>r. isTerminalStatus (tx_Status (heap s r)) \<longrightarrow> tx_Done (heap s r))"

text \<open>The channel never holds more than its capacity.\<close>

definition chan_ok :: "Txm \<Rightarrow> bool" where
  "chan_ok s \<longleftrightarrow> length (broadcastChan s) \<le> chan_capacity s"

text \<open>Every registered transaction exists and is registered under its own id.\<close>

definition ids_ok :: "Txm \<Rightarrow> bool" where
  "ids_ok s \<longleftrightarrow> (\<forall>i r. transactions s i = Some r \<longrightarrow> tx_ID (heap s r) = i \<and> r < next_ref s)"

text \<open>No pointer field of the configuration is nil.\<close>

definition config_ok :: "Txm \<Rightarrow> bool" where
  "config_ok s \<longleftrightarrow> resolved (txm_config s) \<and> txm_feeStrat s = NewFeeStrategyFromConfig (txm_config s)"

lemmas run_prims = hoare_def reads_def modify_def upd_tx_def get_tx_def emit_def ask_def tick_def
  time_now_def upd_store_def submit_envelope_def

lemma run_status:
  assumes "run_state (updateTransactionStatus env r st) s = (x, s')"
  shows "broadcastChan s' = broadcastChan s" "accountStore s' = accountStore s" "next_ref s' = next_ref s"
    "txm_config s' = txm_config s" "txm_feeStrat s' = txm_feeStrat s" "transactions s' \<subseteq>\<^sub>m transactions s"
    "k \<noteq> r \<Longrightarrow> heap s' k = heap s k" "tx_ID (heap s' k) = tx_ID (heap s k)"
    "tx_FromAddress (heap s' k) = tx_FromAddress (heap s k)" "tx_TxHash (heap s' k) = tx_TxHash (heap s k)"
    "tx_Status (heap s' r) = st" "tx_Done (heap s' r) \<longleftrightarrow> tx_Done (heap s r) \<or> isTerminalStatus st"
    "metrics s' = metrics s" "submissions s' = submissions s"
    "tx_Attempt (heap s' k) = tx_Attempt (heap s k)" "tx_ResultXDR (heap s' k) = tx_ResultXDR (heap s k)"
    "tx_InfraAttempts (heap s' k) = tx_InfraAttempts (heap s k)"
  using assms
  by (auto simp: updateTransactionStatus_def stampTerminalTime_def maybeEvictTerminalTx_def closeDone_def
      map_le_def run_prims split: if_splits)

lemma run_try_send:
  "run_state (try_send r) s = (x, s') \<longleftrightarrow>
   (if length (broadcastChan s) < chan_capacity s then x = True \<and> s' = s\<lparr>broadcastChan := broadcastChan s @ [r]\<rparr>
    else x = False \<and> s' = s)"
  by (auto simp: try_send_def)

lemma run_call_store:
  "run_state (call_store a f) s = (x, s') \<Longrightarrow>
   (x = Ok () \<and> (\<exists>st st'. map_of (accountStore s) a = Some st \<and> f st = Ok st' \<and>
      s' = s\<lparr>accountStore := AList.update a st' (accountStore s)\<rparr>)) \<or> (\<not> is_Ok x \<and> s' = s)"
  by (auto simp: call_store_def reads_def upd_store_def modify_def GetTxStore_def
      split: option.splits result.splits)

lemma chan_capacity_cong: "txm_config s' = txm_config s \<Longrightarrow> chan_capacity s' = chan_capacity s"
  by (simp add: chan_capacity_def)

lemma quiet_step_wf: "quiet_step f \<Longrightarrow> store_wf st \<Longrightarrow> failed_ahead st \<Longrightarrow> store_wf (f st) \<and> failed_ahead (f st)"
proof -
  assume "quiet_step f" and wf: "store_wf st" "failed_ahead st"
  then obtain op where "f = apply_op op"
    unfolding quiet_step_def by (metis apply_op.simps(3) apply_op.simps(4) ext)
  with wf show ?thesis by (auto intro: store_wf_apply failed_ahead_apply)
qed

interpretation stores: txm_service stores_ok
proof
  fix s r env st x s' a q h m
  show "keeps stores_ok (updateTransactionStatus env r st)"
    by (auto intro!: hoareI simp: stores_ok_def dest: run_status(2))
  show "keeps stores_ok (call_store a (AddUnconfirmed q h m r))"
  proof (rule hoareI)
    fix s x s' assume "stores_ok s" "run_state (call_store a (AddUnconfirmed q h m r)) s = (x, s')"
    then show "stores_ok s'"
      using store_wf_Add failed_ahead_apply [of _ "OpAdd q h m r"]
      by (fastforce dest!: run_call_store simp: stores_ok_def distinct_update)
  qed
  show "keeps stores_ok (closeDone r)" by (auto simp: stores_ok_def closeDone_def run_prims)
qed (auto simp: stores_ok_def run_try_send hoare_def drain_def try_recv_def GetTxStore_def distinct_update
      quiet_step_wf split: list.splits if_splits)

interpretation dones: txm_service done_ok
proof
  fix env r st
  show "keeps done_ok (updateTransactionStatus env r st)"
  proof (rule hoareI)
    fix s x s' assume "done_ok s" and run: "run_state (updateTransactionStatus env r st) s = (x, s')"
    then show "done_ok s'"
      using run_status(7,11,12) [OF run] unfolding done_ok_def by metis
  qed
next
  fix a q h m r
  show "keeps done_ok (call_store a (AddUnconfirmed q h m r))"
    by (auto intro!: hoareI simp: done_ok_def dest!: run_call_store)
next
  fix f s r assume "benign f" "done_ok s"
  then show "done_ok (s\<lparr>heap := (heap s)(r := f (heap s r))\<rparr>)" by (simp add: done_ok_def benign_def)
next
  fix r show "keeps done_ok (closeDone r)" by (auto simp: done_ok_def closeDone_def run_prims)
qed (auto simp: done_ok_def run_try_send hoare_def drain_def try_recv_def isTerminalStatus_def
      split: list.splits if_splits)

interpretation chan: txm_service chan_ok
proof
  fix env r st
  show "keeps chan_ok (updateTransactionStatus env r st)"
  proof (rule hoareI)
    fix s x s' assume "chan_ok s" and run: "run_state (updateTransactionStatus env r st) s = (x, s')"
    then show "chan_ok s'"
      using run_status(1,4) [OF run] by (simp add: chan_ok_def chan_capacity_def)
  qed
next
  fix a q h m r
  show "keeps chan_ok (call_store a (AddUnconfirmed q h m r))"
    by (auto intro!: hoareI simp: chan_ok_def chan_capacity_def dest!: run_call_store)
next
  fix r show "keeps chan_ok (closeDone r)" by (auto simp: chan_ok_def chan_capacity_def closeDone_def run_prims)
qed (auto simp: chan_ok_def chan_capacity_def run_try_send hoare_def drain_def try_recv_def
      split: list.splits if_splits)

interpretation ids: txm_service ids_ok
proof
  fix env r st
  show "keeps ids_ok (updateTransactionStatus env r st)"
  proof (rule hoareI)
    fix s x s' assume I: "ids_ok s" and run: "run_state (updateTransactionStatus env r st) s = (x, s')"
    have sub: "transactions s' i = Some k \<Longrightarrow> transactions s i = Some k" for i k
      using run_status(6) [OF run] by (force simp: map_le_def dom_def)
    from I sub show "ids_ok s'"
      unfolding ids_ok_def run_status(3,8) [OF run] by blast
  qed
next
  fix a q h m r
  show "keeps ids_ok (call_store a (AddUnconfirmed q h m r))"
    by (auto intro!: hoareI simp: ids_ok_def dest!: run_call_store)
next
  fix f s r assume "benign f" "ids_ok s"
  then show "ids_ok (s\<lparr>heap := (heap s)(r := f (heap s r))\<rparr>)" by (simp add: ids_ok_def benign_def)
next
  fix s and t :: StellarTx assume "ids_ok s" "tx_Status t = Pending"
  then show "ids_ok (s\<lparr>heap := (heap s)(next_ref s := t), next_ref := Suc (next_ref s)\<rparr>)"
    by (fastforce simp: ids_ok_def)
next
  fix s m assume "ids_ok s" and m: "m \<subseteq>\<^sub>m transactions s"
  moreover have "m i = Some k \<Longrightarrow> transactions s i = Some k" for i k
    using m by (force simp: map_le_def dom_def)
  ultimately show "ids_ok (s\<lparr>transactions := m\<rparr>)" unfolding ids_ok_def by (simp, blast)
next
  fix r show "keeps ids_ok (closeDone r)" by (auto simp: ids_ok_def closeDone_def run_prims)
qed (auto simp: ids_ok_def run_try_send hoare_def drain_def try_recv_def split: list.splits if_splits)

interpretation conf: txm_service config_ok
proof
  fix env r st
  show "keeps config_ok (updateTransactionStatus env r st)"
  proof (rule hoareI)
    fix s x s' assume "config_ok s" and run: "run_state (updateTransactionStatus env r st) s = (x, s')"
    then show "config_ok s'" using run_status(4,5) [OF run] by (simp add: config_ok_def)
  qed
next
  fix a q h m r
  show "keeps config_ok (call_store a (AddUnconfirmed q h m r))"
    by (auto intro!: hoareI simp: config_ok_def dest!: run_call_store)
next
  fix r show "keeps config_ok (closeDone r)" by (auto simp: config_ok_def closeDone_def run_prims)
qed (auto simp: config_ok_def run_try_send hoare_def drain_def try_recv_def split: list.splits if_splits)

lemma NewTxm_invariants:
  assumes "NewTxm pf cfg c = Ok s"
  shows "stores_ok s" "done_ok s" "chan_ok s" "ids_ok s" "config_ok s"
  using assms
  by (auto simp: NewTxm_def Let_def stores_ok_def done_ok_def chan_ok_def ids_ok_def config_ok_def
      NewAccountStore_def zero_tx_def isTerminalStatus_def)

end
