(* ===== verification/Txm_Sample.thy ===== *)
theory Txm_Sample
  imports Txm_System
begin

text \<open>
  A concrete transaction manager: the default configuration, a network that answers every
  call, one account, one request. The witnesses of the properties run the handlers on it.
\<close>

section \<open>The environment and the request\<close>

definition zero_account :: string where
  "zero_account = CHR ''G'' # replicate 32 (CHR 0x00)"

definition sample_sim :: SimulateTransactionResponse where
  "sample_sim = \<lparr>sim_Error = [], sim_TransactionDataXDR = ''data'', sim_MinResourceFee = 500,
     sim_Results = [], sim_RestorePreamble = None\<rparr>"

definition sample_env :: env where
  "sample_env =
     \<lparr>now_at = (\<lambda>i. 1000 + int i), ctx_Err_at = (\<lambda>i. None), uuid_at = (\<lambda>i. ''uuid''),
      getClient_at = (\<lambda>i. Ok (Some 7)), keystore_Accounts_at = (\<lambda>i. Ok [zero_account]),
      keystore_Sign_at = (\<lambda>i a h. Ok [1, 2]),
      rpc_SimulateTransaction_at = (\<lambda>i c x. Ok sample_sim),
      rpc_SendTransaction_at = (\<lambda>i c x. Ok \<lparr>send_Status = TXStatusPending, send_Hash = ''hash'', send_ErrorResultXDR = []\<rparr>),
      rpc_GetTransaction_at = (\<lambda>i c h. Ok \<lparr>get_Status = StatusSuccess, get_ResultXDR = [], get_ResultMetaXDR = ''meta'',
         get_LedgerCloseTime = 77\<rparr>),
      rpc_GetLedgerEntries_at = (\<lambda>i c ks. Ok [''entry'']),
      rpc_GetLatestLedger_at = (\<lambda>i c. Ok 1000),
      rpc_GetFeeStats_at = (\<lambda>i c. Ok (150, 300))\<rparr>"

definition sample_op :: Operation where
  "sample_op = OpInvokeHostFunction \<lparr>ihf_HostFunction = HostFunctionOther ''f'', ihf_Auth = [],
     ihf_SourceAccount = zero_account, ihf_Ext = None\<rparr>"

definition sample_req :: TxRequest where
  "sample_req = \<lparr>req_ID = ''tx1'', req_FromAddress = zero_account, req_Operations = [sample_op],
     req_LedgerBoundsOffset = 0, req_Metadata = None\<rparr>"

definition sample_txm :: Txm where
  "sample_txm = (case NewTxm (\<lambda>_. Ok ''net'') DefaultConfigSet ''chain'' of Ok s \<Rightarrow> s)"

definition after_enqueue :: Txm where
  "after_enqueue = snd (run_state (Enqueue sample_env sample_sdk sample_req) sample_txm)"

lemma sample_account: "AddressToAccountId sample_sdk zero_account = Ok (Ed25519 (Some (replicate 32 0)))"
  by (simp add: sample_sdk_def plain_decode_def zero_account_def version_char_def char_byte_def)

lemma zero_account_ne: "zero_account \<noteq> []"
  by (simp add: zero_account_def)

lemma after_enqueue_eq:
  "run_state (Enqueue sample_env sample_sdk sample_req) sample_txm =
     (Ok ''tx1'', sample_txm\<lparr>clock := 1, heap := (\<lambda>_. zero_tx)(0 := zero_tx\<lparr>tx_ID := ''tx1'', tx_Timestamp := 1000,
        tx_FromAddress := zero_account, tx_Operations := [sample_op], tx_Status := Pending\<rparr>),
        next_ref := 1, transactions := [''tx1'' \<mapsto> 0], broadcastChan := [0]\<rparr>)"
  by (simp add: Enqueue_def sample_req_def zero_account_ne sample_account enqueueTransaction_def
      run_prims alloc_def try_send_def chan_capacity_def sample_txm_def NewTxm_def Let_def Resolve_def
      DefaultConfigSet_def sample_env_def zero_tx_def)

lemma sample_config_eq:
  "txm_config sample_txm = Resolve DefaultConfigSet" "txm_feeStrat sample_txm = default_strategy"
  "accountStore sample_txm = []" "txm_feeTracker sample_txm = newFeeTracker (5 * second)"
  "metrics sample_txm = []" "txm_networkPassphrase sample_txm = ''net''"
  by (simp_all add: sample_txm_def NewTxm_def Let_def default_strategy_def NewAccountStore_def)
     (simp add: Resolve_def DefaultConfigSet_def)

lemma default_config_fields:
  "MaxSubmitRetryAttempts (Resolve DefaultConfigSet) = Some 10" "MaxSimulateAttempts (Resolve DefaultConfigSet) = Some 3"
  "LedgerBoundsOffset (Resolve DefaultConfigSet) = Some 50" "TxTimeoutSecs (Resolve DefaultConfigSet) = Some 300"
  "PruneInterval (Resolve DefaultConfigSet) = Some (10 * 60 * second)"
  "BroadcastChanSize (Resolve DefaultConfigSet) = Some 100"
  "MaxTxRetryAttempts (Resolve DefaultConfigSet) = Some 5"
  "MaxGetClientRetryAttempts (Resolve DefaultConfigSet) = Some 10"
  by (simp_all add: Resolve_def DefaultConfigSet_def)

lemma sample_new: "NewTxm (\<lambda>_. Ok ''net'') DefaultConfigSet ''chain'' = Ok sample_txm"
  by (simp add: sample_txm_def NewTxm_def Let_def)

lemma after_enqueue_reachable: "reachable sample_env sample_sdk after_enqueue"
  unfolding after_enqueue_def
  by (rule reach_step [OF reach_new [OF sample_new] step_enqueue]) (simp add: prod_eq_iff)

section \<open>A broadcast that succeeds\<close>

lemma sample_env_sel:
  "now_at sample_env i = 1000 + int i" "ctx_Err_at sample_env i = None" "getClient_at sample_env i = Ok (Some 7)"
  "keystore_Sign_at sample_env i a d = Ok [1, 2]"
  "rpc_SimulateTransaction_at sample_env i c x = Ok sample_sim"
  "rpc_SendTransaction_at sample_env i c x = Ok \<lparr>send_Status = TXStatusPending, send_Hash = ''hash'', send_ErrorResultXDR = []\<rparr>"
  "rpc_GetTransaction_at sample_env i c h = Ok \<lparr>get_Status = StatusSuccess, get_ResultXDR = [],
     get_ResultMetaXDR = ''meta'', get_LedgerCloseTime = 77\<rparr>"
  "rpc_GetLedgerEntries_at sample_env i c ks = Ok [''entry'']" "rpc_GetLatestLedger_at sample_env i c = Ok 1000"
  "rpc_GetFeeStats_at sample_env i c = Ok (150, 300)"
  by (simp_all add: sample_env_def)

lemma sample_sdk_sel:
  "marshal_AccountKey sample_sdk k = Ok ''key''" "unb64_LedgerEntryData sample_sdk x = Ok (LedgerEntryAccount 9 0)"
  "unb64_SorobanData sample_sdk x = Ok \<lparr>sd_Body = x, sd_ResourceFee = 0\<rparr>"
  "NewTransaction sample_sdk = plain_transaction" "tx_Base64 sample_sdk t = Ok ''envelope''"
  "tx_Hash sample_sdk t net = Ok (replicate 32 7)"
  "AddSignatureDecorated sample_sdk t g = Ok (t\<lparr>t_Signatures := t_Signatures t @ [g]\<rparr>)"
  "NewTimeout sample_sdk now secs = \<lparr>tb_MinTime = 0, tb_MaxTime = now div 1000000000 + secs\<rparr>"
  by (simp_all add: sample_sdk_def)

lemmas run_base = run_prims sample_env_sel sample_sdk_sel Let_def

lemma small_ints: "i64 9 = 9" "i64 10 = 10" "i64 11 = 11" "u32 1050 = 1050" "i64 500 = 500"
  by (simp_all add: i64_def u32_def)

lemma run_getSeq:
  "run_state (getSequenceNumber sample_env sample_sdk c zero_account) s = (Ok 9, s\<lparr>clock := Suc (clock s)\<rparr>)"
  by (simp add: getSequenceNumber_def zero_account_ne sample_account run_base)

lemma run_ensure:
  assumes "accountStore s = []"
  shows "run_state (ensure_store sample_env sample_sdk c r zero_account) s =
     (Ok True, s\<lparr>clock := Suc (clock s), accountStore := [(zero_account, NewTxStore 10)]\<rparr>)"
  by (simp add: small_ints ensure_store_def run_getSeq run_base assms GetTxStore_def CreateTxStore_def)

lemma run_percentiles:
  assumes "txm_feeTracker s = newFeeTracker (5 * second)"
  shows "\<exists>t. run_state (fee_percentiles sample_env c) s = (Ok (150, 300), s\<lparr>clock := clock s + 2, txm_feeTracker := t\<rparr>)"
  by (rule exI [of _ "\<lparr>pollInterval = 5 * second, haveData = True, fetchedAt = 1000 + int (clock s), p50 = 150, p90 = 300\<rparr>"])
     (simp add: fee_percentiles_def run_base assms newFeeTracker_def fresh_enough_def sorobanInclusionPercentiles_def)


definition prelim_of :: "StellarTx \<Rightarrow> int \<Rightarrow> int \<Rightarrow> Transaction" where
  "prelim_of t q n = \<lparr>t_AccountID = tx_FromAddress t, t_Sequence = q, t_Operations = tx_Operations t, t_BaseFee = 100,
     t_MaxFee = 100, t_TimeBounds = \<lparr>tb_MinTime = 0, tb_MaxTime = n div 1000000000 + 300\<rparr>,
     t_MaxLedger = Some 1050, t_Signatures = []\<rparr>"

definition simulated :: "Txm \<Rightarrow> tx_ref \<Rightarrow> Txm" where
  "simulated s r = s\<lparr>clock := clock s + 5, heap := (heap s)(r := (heap s r)\<lparr>tx_MaxLedger := 1050\<rparr>),
     metrics := metrics s @ [ObserveSimulationDuration 0]\<rparr>"

lemma run_simulate:
  assumes "txm_config s = Resolve DefaultConfigSet" and "tx_LedgerBoundsOffset (heap s r) = 0"
    and "tx_Operations (heap s r) = [sample_op]"
  shows "run_state (prepareAndSimulateWithRetry sample_env sample_sdk (Some 7) r 10) s =
     (Ok (prelim_of (heap s r) 10 (1001 + int (clock s)), sample_sim, 1050), simulated s r)"
  using assms
  by (simp add: prepareAndSimulateWithRetry_def simulate_loop.simps run_base default_config_fields buildPreliminaryTx_def
      plain_transaction_def cfg_secs_def sample_op_def small_ints)
     (simp add: simulateTransaction_def time_since_def run_base time_sub_def simulated_def prelim_of_def sample_sim_def
      default_config_fields small_ints)


definition sample_record :: "tx_ref \<Rightarrow> UnconfirmedTx" where
  "sample_record r = \<lparr>utx_Sequence = 10, utx_Hash = ''hash'', utx_MaxLedger = 1050, utx_Tx = r\<rparr>"

definition sample_store :: "tx_ref \<Rightarrow> AccountStore" where
  "sample_store r = [(zero_account, \<lparr>nextSequence = 11, unconfirmedSequences = [(10, sample_record r)],
     failedSequences = [], lastOnchainSequence = 10\<rparr>)]"

definition sent_from :: "Txm \<Rightarrow> tx_ref \<Rightarrow> Txm \<Rightarrow> bool" where
  "sent_from s r s' \<longleftrightarrow> tx_Status (heap s' r) = Unconfirmed \<and> tx_TxHash (heap s' r) = ''hash''
     \<and> tx_ID (heap s' r) = tx_ID (heap s r) \<and> tx_Timestamp (heap s' r) = tx_Timestamp (heap s r)
     \<and> accountStore s' = sample_store r
     \<and> txm_config s' = txm_config s \<and> transactions s' = transactions s \<and> broadcastChan s' = broadcastChan s
     \<and> stopped s' = stopped s"

lemma run_sent:
  assumes "txm_feeStrat s = default_strategy" "tx_FromAddress (heap s r) = zero_account"
    "accountStore s = [(zero_account, NewTxStore 10)]" "tx_Operations t = [sample_op]"
  shows "\<exists>s'. run_state (send_stage sample_env sample_sdk (Some 7) r zero_account n k 10 fee
     (prelim_of t 10 m) sample_sim 1050) s = (Finished (Ok ()), s') \<and> sent_from s r s'"
  using assms
  by (simp add: send_stage_def run_base assembleTransaction_def assembleOps_def sample_sim_def prelim_of_def
      plain_transaction_def sample_op_def)
     (simp add: updateTransactionFee_def signTransaction_def run_base signatureHint_def sample_account after_send_def
      handleSendResult_def call_store_def GetTxStore_def AddUnconfirmed_def NewTxStore_def updateTransactionHash_def
      updateTransactionResultXDR_def updateTransactionResultMeta_def updateTransactionResultCode_def
      markBroadcastAt_def updateTransactionStatus_def isTerminalStatus_def sample_record_def small_ints
      sample_store_def sent_from_def)

lemma run_submit:
  assumes "txm_config s = Resolve DefaultConfigSet" "txm_feeStrat s = default_strategy"
    and "tx_FromAddress (heap s r) = zero_account" "tx_LedgerBoundsOffset (heap s r) = 0"
    and "tx_Operations (heap s r) = [sample_op]" "accountStore s = [(zero_account, NewTxStore 10)]"
  shows "\<exists>s'. run_state (submit_loop sample_env sample_sdk (Some 7) r zero_account 10 0 False 10 fee) s = (Ok (), s')
     \<and> sent_from s r s'"
proof -
  from run_sent [of "simulated s r" r "heap s r" 10 0 fee "1001 + int (clock s)"] assms
  obtain s' where "run_state (send_stage sample_env sample_sdk (Some 7) r zero_account 10 0 10 fee
      (prelim_of (heap s r) 10 (1001 + int (clock s))) sample_sim 1050) (simulated s r) = (Finished (Ok ()), s')"
    and "sent_from (simulated s r) r s'"
    by (auto simp: simulated_def)
  then show ?thesis
    by (subst submit_loop.simps) (simp add: run_simulate assms, simp add: sample_sim_def sent_from_def simulated_def)
qed

lemma next_of_new: "GetNextSequence (NewTxStore q) = q"
  by (simp add: GetNextSequence_def NewTxStore_def)

lemma run_broadcast:
  assumes "txm_config s = Resolve DefaultConfigSet" "txm_feeStrat s = default_strategy"
    and "tx_FromAddress (heap s r) = zero_account" "tx_LedgerBoundsOffset (heap s r) = 0"
    and "tx_Operations (heap s r) = [sample_op]" "accountStore s = []" "tx_Attempt (heap s r) = 0"
    and "txm_feeTracker s = newFeeTracker (5 * second)"
  shows "\<exists>s'. run_state (simulateAssembleSignAndSend sample_env sample_sdk r) s = (Ok (), s') \<and> sent_from s r s'"
proof -
  let ?s1 = "s\<lparr>clock := Suc (Suc (clock s)), accountStore := [(zero_account, NewTxStore 10)]\<rparr>"
  obtain t where pct: "run_state (fee_percentiles sample_env (Some 7)) ?s1 =
      (Ok (150, 300), ?s1\<lparr>clock := clock ?s1 + 2, txm_feeTracker := t\<rparr>)"
    using run_percentiles [of ?s1 "Some 7"] assms(8) by auto
  let ?s2 = "?s1\<lparr>clock := clock ?s1 + 2, txm_feeTracker := t\<rparr>"
  obtain s' where "run_state (submit_loop sample_env sample_sdk (Some 7) r zero_account 10 0 False 10
       (fst (SeedInclusionFee default_strategy 0 150))) ?s2 = (Ok (), s')" "sent_from ?s2 r s'"
    using run_submit [of ?s2 r "fst (SeedInclusionFee default_strategy 0 150)"] assms by auto
  then show ?thesis
    unfolding simulateAssembleSignAndSend_def
    by (simp add: run_base assms run_ensure getTransactionAttempt_def pct next_sequence_def GetTxStore_def
        default_config_fields next_of_new sent_from_def)
qed

section \<open>The run of the two loops\<close>

definition after_pass :: Txm where
  "after_pass = snd (run_state (broadcastLoop_pass sample_env sample_sdk) after_enqueue)"

definition after_confirm :: Txm where
  "after_confirm = snd (run_state (checkUnconfirmed sample_env sample_sdk (\<lambda>xs. xs)) after_pass)"

lemma after_enqueue_state:
  "txm_config after_enqueue = Resolve DefaultConfigSet" "txm_feeStrat after_enqueue = default_strategy"
  "accountStore after_enqueue = []" "broadcastChan after_enqueue = [0]" "transactions after_enqueue = [''tx1'' \<mapsto> 0]"
  "txm_feeTracker after_enqueue = newFeeTracker (5 * second)" "\<not> stopped after_enqueue"
  "heap after_enqueue 0 = zero_tx\<lparr>tx_ID := ''tx1'', tx_Timestamp := 1000,
        tx_FromAddress := zero_account, tx_Operations := [sample_op], tx_Status := Pending\<rparr>"
  by (simp_all add: after_enqueue_def after_enqueue_eq sample_config_eq) (simp add: sample_txm_def NewTxm_def Let_def)

lemma run_pass:
  "run_state (broadcastLoop_pass sample_env sample_sdk) after_enqueue = (Ok (), after_pass)
   \<and> sent_from (after_enqueue\<lparr>broadcastChan := []\<rparr>) 0 after_pass"
proof -
  obtain s' where "run_state (simulateAssembleSignAndSend sample_env sample_sdk 0) (after_enqueue\<lparr>broadcastChan := []\<rparr>) = (Ok (), s')"
      and "sent_from (after_enqueue\<lparr>broadcastChan := []\<rparr>) 0 s'"
    using run_broadcast [of "after_enqueue\<lparr>broadcastChan := []\<rparr>" 0] by (auto simp: after_enqueue_state zero_tx_def)
  then show ?thesis
    by (simp add: after_pass_def broadcastLoop_pass_def drain_def run_prims after_enqueue_state)
qed

lemma after_pass_reachable: "reachable sample_env sample_sdk after_pass"
  using run_pass after_enqueue_reachable by (metis after_enqueue_state(7) reach_step step_broadcast)

lemma after_pass_state:
  "tx_Status (heap after_pass 0) = Unconfirmed" "tx_TxHash (heap after_pass 0) = ''hash''"
  "accountStore after_pass = sample_store 0" "broadcastChan after_pass = []" "transactions after_pass = [''tx1'' \<mapsto> 0]"
  "txm_config after_pass = Resolve DefaultConfigSet" "\<not> stopped after_pass" "tx_ID (heap after_pass 0) = ''tx1''"
  "tx_Timestamp (heap after_pass 0) = 1000"
  using run_pass by (simp_all add: sent_from_def after_enqueue_state)

lemma after_confirm_state:
  "tx_Status (heap after_confirm 0) = Finalized" "tx_Done (heap after_confirm 0)"
  "unconfirmedSequences (snd (hd (accountStore after_confirm))) = []"
  "tx_LedgerCloseTime (heap after_confirm 0) = 77" "transactions after_confirm = [''tx1'' \<mapsto> 0]"
  using after_pass_state
  by (simp_all add: after_confirm_def checkUnconfirmed_def run_base GetAllUnconfirmed_def sample_store_def
    GetUnconfirmed_def check_one_def sample_record_def on_success_def call_store_def Confirm_def
    updateTransactionResultXDR_def GetTxStore_def updateTransactionResultCode_def updateTransactionResultMeta_def
    updateTransactionLedgerCloseTime_def recordTimeUntilConfirmed_def time_since_def updateTransactionStatus_def
    stampTerminalTime_def maybeEvictTerminalTx_def closeDone_def isTerminalStatus_def default_config_fields)

lemma after_confirm_reachable: "reachable sample_env sample_sdk after_confirm"
  unfolding after_confirm_def
  by (rule reach_step [OF after_pass_reachable step_confirm [where order = "\<lambda>xs. xs"]])
     (auto simp: after_pass_state prod_eq_iff)

end
