(* ===== verification/Txm_Once.thy ===== *)
theory Txm_Once
  imports Txm_Sample
begin

text \<open>
  No transaction object is ever in two places: in every reachable state it is at most once in
  the broadcast channel or recorded as unconfirmed, over all accounts and sequence numbers.
  The proof tracks the objects a handler holds in its hands (\<open>H\<close>) besides those in the channel
  and in the stores.
\<close>

section \<open>Where transactions are\<close>

definition flying :: "TxStore \<Rightarrow> tx_ref multiset" where
  "flying st = mset (map (utx_Tx \<circ> snd) (unconfirmedSequences st))"

definition flying_all :: "AccountStore \<Rightarrow> tx_ref multiset" where
  "flying_all c = sum_list (map (flying \<circ> snd) c)"

definition tokens :: "tx_ref list \<Rightarrow> Txm \<Rightarrow> tx_ref multiset" where
  "tokens H s = mset H + mset (broadcastChan s) + flying_all (accountStore s)"

text \<open>\<open>snap\<close> is the part of the confirm loop's snapshot that is still to be processed: the
  records it names are unchanged in the stores, or gone.\<close>

definition snap_ok :: "(string \<times> UnconfirmedTx) list \<Rightarrow> Txm \<Rightarrow> bool" where
  "snap_ok snap s \<longleftrightarrow> (\<forall>a u st u'. (a, u) \<in> set snap \<longrightarrow> map_of (accountStore s) a = Some st \<longrightarrow>
     map_of (unconfirmedSequences st) (utx_Sequence u) = Some u' \<longrightarrow> u' = u)"

definition once :: "tx_ref list \<Rightarrow> (string \<times> UnconfirmedTx) list \<Rightarrow> Txm \<Rightarrow> bool" where
  "once H snap s \<longleftrightarrow> stores_ok s \<and> snap_ok snap s \<and> (\<forall>r. count (tokens H s) r \<le> 1) \<and>
     (\<forall>r \<in># tokens H s. r < next_ref s)"

section \<open>Counting\<close>

lemma flying_all_update:
  assumes "distinct (map fst c)" and "map_of c a = Some st"
  shows "flying_all (AList.update a st' c) + flying st = flying_all c + flying st'"
  using assms
proof (induction c)
  case (Cons p c)
  then show ?case by (cases p) (auto simp: flying_all_def ac_simps split: if_splits)
qed simp

lemma flying_all_new:
  "map_of c a = None \<Longrightarrow> flying_all (AList.update a st c) = flying_all c + flying st"
  by (induction c) (auto simp: flying_all_def ac_simps split: if_splits)

lemma flying_New [simp]: "flying (NewTxStore n) = {#}"
  by (simp add: flying_def NewTxStore_def)

lemma mset_delete_le: "mset (map f (AList.delete q al)) \<subseteq># mset (map f al)"
  by (induction al) (auto simp: AList.delete_eq intro: subset_mset.order_trans)

lemma mset_delete:
  assumes "distinct (map fst al)" and "map_of al q = Some u"
  shows "mset (map (g \<circ> snd) al) = add_mset (g u) (mset (map (g \<circ> snd) (AList.delete q al)))"
  using assms
proof (induction al)
  case (Cons p al)
  show ?case
  proof (cases "fst p = q")
    case True
    have "q \<notin> fst ` set al" using Cons.prems True by auto
    then have "AList.delete q al = al" by (induction al) auto
    with True Cons.prems show ?thesis by (cases p) auto
  next
    case False
    with Cons show ?thesis by (cases p) auto
  qed
qed simp

lemma update_new_key: "q \<notin> fst ` set al \<Longrightarrow> AList.update q v al = al @ [(q, v)]"
  by (induction al) auto

lemma quiet_step_flying: "quiet_step f \<Longrightarrow> flying (f st) \<subseteq># flying st"
  unfolding quiet_step_def
  by (auto simp: flying_def mset_delete_le Confirm_def mark_failed_def Release_def Let_def
      simp del: mset_map split: option.splits result.splits)

lemma quiet_step_lookup:
  "quiet_step f \<Longrightarrow> map_of (unconfirmedSequences (f st)) q = Some u \<Longrightarrow> map_of (unconfirmedSequences st) q = Some u"
  unfolding quiet_step_def
  by (auto simp: Confirm_def mark_failed_def Let_def simp del: map_of_eq_Some_iff
      split: option.splits result.splits if_splits)

lemma flying_Add:
  "AddUnconfirmed q h m r st = Ok st' \<Longrightarrow> flying st' = add_mset r (flying st)"
proof -
  assume "AddUnconfirmed q h m r st = Ok st'"
  then have "q \<notin> inflight st"
    and u: "unconfirmedSequences st' = AList.update q \<lparr>utx_Sequence = q, utx_Hash = h, utx_MaxLedger = m, utx_Tx = r\<rparr>
        (unconfirmedSequences st)"
    by (auto simp: AddUnconfirmed_Ok_iff)
  then have "q \<notin> fst ` set (unconfirmedSequences st)"
    by (simp add: inflight_def dom_map_of_conv_image_fst)
  then show ?thesis by (simp add: flying_def u update_new_key)
qed

lemma once_subset:
  assumes "once H snap s" and "tokens H' s' \<subseteq># tokens H s" and "stores_ok s'" and "snap_ok snap' s'"
    and "next_ref s' = next_ref s"
  shows "once H' snap' s'"
proof -
  have "count (tokens H' s') r \<le> 1" for r
    using assms(1,2) unfolding once_def by (meson le_trans mset_subset_eq_count)
  moreover have "r < next_ref s'" if "r \<in># tokens H' s'" for r
    using assms(1,2,5) that unfolding once_def by (metis mset_subset_eqD)
  ultimately show ?thesis using assms(3,4) by (simp add: once_def)
qed

lemma onceD: "once H snap s \<Longrightarrow> stores_ok s \<and> snap_ok snap s"
  by (simp add: once_def)

lemma snap_ok_subset: "snap_ok snap s \<Longrightarrow> set snap' \<subseteq> set snap \<Longrightarrow> snap_ok snap' s"
  unfolding snap_ok_def by blast

lemma once_drop:
  assumes "once (r # H) snap s"
  shows "once H snap s"
  by (rule once_subset [OF assms]) (use onceD [OF assms] in \<open>auto simp: tokens_def\<close>)

lemma once_snap:
  assumes "once H snap s" and "set snap' \<subseteq> set snap"
  shows "once H snap' s"
  by (rule once_subset [OF assms(1)]) (use onceD [OF assms(1)] snap_ok_subset [OF _ assms(2)] in auto)

lemma once_same:
  "once H snap s \<Longrightarrow> broadcastChan s' = broadcastChan s \<Longrightarrow> accountStore s' = accountStore s \<Longrightarrow>
   next_ref s' = next_ref s \<Longrightarrow> once H snap s'"
  by (simp add: once_def tokens_def snap_ok_def stores_ok_def)

lemma tokens_store:
  assumes "stores_ok s" and "map_of (accountStore s) a = Some st"
  shows "tokens H (s\<lparr>accountStore := AList.update a st' (accountStore s)\<rparr>) + flying st = tokens H s + flying st'"
proof -
  have "flying_all (AList.update a st' (accountStore s)) + flying st = flying_all (accountStore s) + flying st'"
    using assms by (intro flying_all_update) (auto simp: stores_ok_def)
  then show ?thesis by (simp add: tokens_def ac_simps)
qed

lemma tokens_store_le:
  assumes "stores_ok s" and "map_of (accountStore s) a = Some st" and "flying st' \<subseteq># flying st"
  shows "tokens H (s\<lparr>accountStore := AList.update a st' (accountStore s)\<rparr>) \<subseteq># tokens H s"
  using tokens_store [OF assms(1,2), of H st'] assms(3)
  by (metis subset_mset.add_le_cancel_right subset_mset.add_left_mono)

lemma snap_ok_store:
  assumes "snap_ok snap s" and "map_of (accountStore s) a = Some st"
    and "\<And>q u. map_of (unconfirmedSequences st') q = Some u \<Longrightarrow> map_of (unconfirmedSequences st) q = Some u"
  shows "snap_ok snap (s\<lparr>accountStore := AList.update a st' (accountStore s)\<rparr>)"
  unfolding snap_ok_def
proof (intro allI impI)
  fix b u st2 u'
  assume mem: "(b, u) \<in> set snap"
    and st2: "map_of (accountStore (s\<lparr>accountStore := AList.update a st' (accountStore s)\<rparr>)) b = Some st2"
    and u': "map_of (unconfirmedSequences st2) (utx_Sequence u) = Some u'"
  show "u' = u"
  proof (cases "b = a")
    case True
    with st2 have "st2 = st'" by simp
    with u' assms(3) have "map_of (unconfirmedSequences st) (utx_Sequence u) = Some u'" by blast
    with True mem assms(1,2) show ?thesis unfolding snap_ok_def by blast
  next
    case False
    with st2 have "map_of (accountStore s) b = Some st2" by simp
    with mem u' assms(1) show ?thesis unfolding snap_ok_def by blast
  qed
qed

lemma snap_ok_new:
  assumes "snap_ok snap s"
  shows "snap_ok snap (s\<lparr>accountStore := AList.update a (NewTxStore q) (accountStore s)\<rparr>)"
  unfolding snap_ok_def
proof (intro allI impI)
  fix b u st2 u'
  assume mem: "(b, u) \<in> set snap"
    and st2: "map_of (accountStore (s\<lparr>accountStore := AList.update a (NewTxStore q) (accountStore s)\<rparr>)) b = Some st2"
    and u': "map_of (unconfirmedSequences st2) (utx_Sequence u) = Some u'"
  have "b \<noteq> a" using st2 u' by (auto simp: NewTxStore_def)
  with st2 have "map_of (accountStore s) b = Some st2" by simp
  with mem u' assms show "u' = u" unfolding snap_ok_def by blast
qed

interpretation once: txm_wire "once H snap" for H snap
proof
  fix f s a st assume f: "quiet_step f" and st: "GetTxStore a (accountStore s) = Some st" and I: "once H snap s"
  let ?s = "s\<lparr>accountStore := AList.update a (f st) (accountStore s)\<rparr>"
  have st': "map_of (accountStore s) a = Some st" using st by (simp add: GetTxStore_def)
  have so: "stores_ok s" using I by (simp add: once_def)
  show "once H snap ?s"
  proof (rule once_subset [OF I])
    show "tokens H ?s \<subseteq># tokens H s" by (rule tokens_store_le [OF so st' quiet_step_flying [OF f]])
    show "stores_ok ?s" by (rule stores.I_store [OF f st so])
    show "snap_ok snap ?s"
      using onceD [OF I] by (intro snap_ok_store [OF _ st']) (auto intro: quiet_step_lookup [OF f] simp del: map_of_eq_Some_iff)
  qed simp
next
  fix a s q assume st: "GetTxStore a (accountStore s) = None" and I: "once H snap s"
  let ?s = "s\<lparr>accountStore := AList.update a (NewTxStore q) (accountStore s)\<rparr>"
  have so: "stores_ok s" using I by (simp add: once_def)
  show "once H snap ?s"
  proof (rule once_subset [OF I])
    show "tokens H ?s \<subseteq># tokens H s"
      using st by (simp add: tokens_def GetTxStore_def flying_all_new)
    show "stores_ok ?s" by (rule stores.I_new_store [OF st so])
    show "snap_ok snap ?s"
      using onceD [OF I] by (intro snap_ok_new) auto
  qed simp
next
  fix env r st
  show "keeps (once H snap) (updateTransactionStatus env r st)"
  proof (rule hoareI)
    fix s x s' assume I: "once H snap s" and run: "run_state (updateTransactionStatus env r st) s = (x, s')"
    show "once H snap s'" by (rule once_same [OF I run_status(1-3) [OF run]])
  qed
qed (auto elim: once_same)

section \<open>Handlers that hand a transaction over\<close>

lemma o_send: "hoare (once (r # H) snap) (try_send r) (\<lambda>b. once (if b then H else r # H) snap)"
proof (rule hoareI)
  fix s b s' assume I: "once (r # H) snap s" and run: "run_state (try_send r) s = (b, s')"
  show "once (if b then H else r # H) snap s'"
  proof (cases "length (broadcastChan s) < chan_capacity s")
    case True
    with run have "b" and s': "s' = s\<lparr>broadcastChan := broadcastChan s @ [r]\<rparr>" by (auto simp: run_try_send)
    then show ?thesis
      by (simp, intro once_subset [OF I]) (use I in \<open>auto simp: once_def tokens_def snap_ok_def stores_ok_def\<close>)
  next
    case False
    with run I show ?thesis by (simp add: run_try_send)
  qed
qed

lemma o_add:
  "hoare (once (r # H) snap) (call_store a (AddUnconfirmed q h m r))
     (\<lambda>x. if is_Ok x then once H [] else once (r # H) [])"
proof (rule hoareI)
  fix s x s'
  assume I: "once (r # H) snap s" and run: "run_state (call_store a (AddUnconfirmed q h m r)) s = (x, s')"
  have I0: "once (r # H) [] s" by (rule once_snap [OF I]) simp
  show "(if is_Ok x then once H [] else once (r # H) []) s'"
    using run_call_store [OF run]
  proof
    assume "\<not> is_Ok x \<and> s' = s"
    then show ?thesis using I0 by (simp del: not_is_Ok_cases)
  next
    assume "x = Ok () \<and> (\<exists>st st'. map_of (accountStore s) a = Some st \<and> AddUnconfirmed q h m r st = Ok st' \<and>
      s' = s\<lparr>accountStore := AList.update a st' (accountStore s)\<rparr>)"
    then obtain st st' where x: "x = Ok ()" and st: "map_of (accountStore s) a = Some st"
      and add: "AddUnconfirmed q h m r st = Ok st'"
      and s': "s' = s\<lparr>accountStore := AList.update a st' (accountStore s)\<rparr>" by blast
    have so: "stores_ok s" using I by (simp add: once_def)
    have "tokens H s' + flying st = tokens H s + add_mset r (flying st)"
      using tokens_store [OF so st, of H st'] flying_Add [OF add] by (simp add: s')
    then have tk: "tokens H s' = tokens (r # H) s" by (simp add: tokens_def)
    have "stores_ok s'" using hoareD [OF stores.I_add so run] .
    moreover have "next_ref s' = next_ref s" by (simp add: s')
    ultimately have "once H [] s'"
      by (intro once_subset [OF I]) (simp_all add: tk snap_ok_def)
    with x show ?thesis by simp
  qed
qed

lemma o_handleSend:
  "hoare (once (r # H) []) (handleSendResult lib (Some r) res q st m)
     (\<lambda>(acc, _, _). if acc then once H [] else once (r # H) [])"
proof -
  have add: "hoare (once (r # H) []) (do {
       added \<leftarrow> call_store a (AddUnconfirmed q h m r);
       if \<not> is_Ok added then ret (False, True, ErrorReasonStoreAdd)
       else do {
         updateTransactionHash r h; updateTransactionResultXDR r []; updateTransactionResultMeta r [];
         updateTransactionResultCode r []; ret (True, False, ErrorReasonNone) } })
     (\<lambda>(acc, _, _). if acc then once H [] else once (r # H) [])" for a h
    apply (rule hoare_bind [OF o_add])
    subgoal for x
      by (cases "is_Ok x") (auto simp del: not_is_Ok_cases intro!: hoare_ret hoare_bind [OF once.k_field_updates(1)]
          hoare_bind [OF once.k_field_updates(4)] hoare_bind [OF once.k_field_updates(6)]
          hoare_bind [OF once.k_field_updates(5)])
    done
  show ?thesis
    unfolding handleSendResult_def
    by (auto simp: Let_def add simp del: not_is_Ok_cases split: option.splits prod.splits intro!: hoare_ret)
qed

lemma o_retryGetClient: "hoare (once (r # H) []) (retryGetClientOrFail env r) (\<lambda>_. once H [])"
proof -
  have queue: "hoare (once (r # H) []) (do { sent \<leftarrow> try_send r;
       if sent then ret () else emit (IncrementDroppedTxs DropReasonChannelFullNewRejected) }) (\<lambda>_. once H [])"
    by (rule hoare_bind [OF o_send]) (auto intro: hoare_ret hoare_pre [OF once.k_emit] once_drop)
  have fail: "hoare (once (r # H) []) (do { emit (IncrementMaxAttemptsReached RetryBudgetInfra);
       markTxFailed env r ErrorReasonClientUnavailable }) (\<lambda>_. once H [])"
    by (rule hoare_bind [OF once.k_emit], rule hoare_pre [OF once.k_fail(1)]) (rule once_drop)
  have wait: "hoare (once (r # H) []) (do { awake \<leftarrow> sleep env; if \<not> awake then ret () else m }) (\<lambda>_. once H [])"
    if "hoare (once (r # H) []) m (\<lambda>_. once H [])" for m
    by (rule hoare_bind [OF once.k_sleep]) (auto intro: hoare_ret that once_drop)
  show ?thesis
    unfolding retryGetClientOrFail_def Let_def
    by (intro hoare_bind [OF once.k_field_updates(9)] hoare_bind [OF once.k_field_updates(10)]
        hoare_bind [OF keeps_reads])
       (auto intro: wait [OF queue] fail)
qed

abbreviation handed :: "tx_ref \<Rightarrow> tx_ref list \<Rightarrow> send_outcome \<Rightarrow> Txm \<Rightarrow> bool" where
  "handed r H out \<equiv> (case out of Finished _ \<Rightarrow> once H [] | Retry _ _ \<Rightarrow> once (r # H) [])"

lemma o_held: "keeps (once (r # H) []) m \<Longrightarrow> hoare (once (r # H) []) m (\<lambda>_. once H [])"
  by (erule hoare_post) (rule once_drop)

lemma o_ret: "hoare (once (r # H) []) (ret x) (\<lambda>_. once H [])"
  by (rule o_held) (rule keeps_ret)

lemma o_fin: "hoare (once (r # H) []) (ret (Finished x)) (handed r H)"
  by (rule hoare_ret) (simp, erule once_drop)

lemma o_retry: "hoare (once (r # H) []) (ret (Retry q fee)) (handed r H)"
  by (rule hoare_ret) simp

lemma o_fail_release: "hoare (once (r # H) []) (fail_release env a q t reason) (handed r H)"
  unfolding fail_release_def by (rule hoare_bind [OF once.k_fail(2) o_fin])

lemma o_backoff: "hoare (once (r # H) []) (backoff_retry env a q fee) (handed r H)"
  unfolding backoff_retry_def
  by (intro hoare_bind [OF once.k_sleep] hoare_splits o_retry o_fin
      hoare_bind [OF once.k_upd_store [OF quiet_step_ops(1)]])

lemma o_accept:
  "hoare (once H []) (do { markBroadcastAt env r; emit IncrementBroadcastedTxs;
     updateTransactionStatus env r Unconfirmed; ret (Finished (Ok ())) }) (handed r H)"
  by (rule hoare_bind [OF once.k_field_updates(11)], rule hoare_bind [OF once.k_emit],
      rule hoare_bind [OF once.I_status]) (auto intro: hoare_ret)

lemma o_bad_seq:
  "hoare (once (r # H) []) (do { resyncSequence env lib client r; seq' \<leftarrow> next_sequence a;
     ret (Retry seq' fee) }) (handed r H)"
  by (rule hoare_bind [OF once.k_resync], rule hoare_bind [OF once.k_next_sequence]) (auto intro: hoare_ret)

lemma o_after_send:
  "hoare (once (r # H) []) (after_send env lib client r a q fee m res) (handed r H)"
  unfolding after_send_def
  apply (rule hoare_bind [OF o_handleSend])
  subgoal for x
    apply (cases x)
    subgoal for accepted fatalErr reason
      by (cases accepted)
         (auto intro!: o_accept o_fail_release o_bad_seq o_backoff
           hoare_bind [OF once.k_percentiles] hoare_bind [OF keeps_reads] simp: Let_def)
    done
  done

lemma o_send_stage:
  "hoare (once (r # H) []) (send_stage env lib client r a n k q fee t sim m) (handed r H)"
  unfolding send_stage_def
  by (intro hoare_bind [OF once.k_upd [OF benign_simps(3)]] hoare_bind [OF keeps_reads]
      hoare_bind [OF once.k_upd [OF benign_simps(4)]] hoare_bind [OF once.k_emit] hoare_bind [OF once.k_submit]
      hoare_bind [OF once.k_field_updates(2)] hoare_bind [OF keeps_get_tx] hoare_bind [OF once.k_sign]
      hoare_bind [OF once.k_ask] hoare_splits o_fail_release o_retry o_fin o_backoff o_after_send)

lemma o_end: "hoare (once (r # H) []) (do { releaseSeqAndFailTx env a q t reason; ret (Ok ()) }) (\<lambda>_. once H [])"
  by (rule o_held) (intro keeps_intros once.k_fail)

lemma o_submit_step:
  assumes "\<And>q fee. hoare (once (r # H) []) (submit_loop env lib client r a n (Suc k) b q fee) (\<lambda>_. once H [])"
    and "\<not> b \<Longrightarrow> (\<And>q fee. hoare (once (r # H) []) (submit_loop env lib client r a n k True q fee) (\<lambda>_. once H []))"
  shows "hoare (once (r # H) []) (submit_loop env lib client r a n k b q fee) (\<lambda>_. once H [])"
proof -
  have sent: "hoare (handed r H out) (case out of Finished x \<Rightarrow> ret x
      | Retry q' fee' \<Rightarrow> submit_loop env lib client r a n (Suc k) b q' fee') (\<lambda>_. once H [])" for out
    by (cases out) (auto intro: hoare_ret assms(1))
  show ?thesis
    by (subst submit_loop.simps)
       (intro hoare_bind [OF once.k_prepare] hoare_bind [OF o_send_stage sent] hoare_splits o_ret o_end
         hoare_bind [OF once.k_restore] hoare_bind [OF once.k_next_sequence] assms(2); assumption)
qed

lemma o_submit_loop:
  "hoare (once (r # H) []) (submit_loop env lib client r a n k b q fee) (\<lambda>_. once H [])"
proof (induction "n - k" arbitrary: k b q fee)
  case 0
  then show ?case by (subst submit_loop.simps) (simp add: o_end)
next
  case (Suc d)
  have next_ok: "hoare (once (r # H) []) (submit_loop env lib client r a n (Suc k) b q fee) (\<lambda>_. once H [])" for b q fee
    using Suc.hyps by simp
  have "hoare (once (r # H) []) (submit_loop env lib client r a n k True q fee) (\<lambda>_. once H [])" for q fee
    by (rule o_submit_step [OF next_ok]) simp
  then show ?case by (rule o_submit_step [OF next_ok])
qed

lemma o_broadcast: "hoare (once (r # H) []) (simulateAssembleSignAndSend env lib r) (\<lambda>_. once H [])"
  unfolding simulateAssembleSignAndSend_def
  by (intro hoare_bind [OF once.k_ask] hoare_bind [OF o_retryGetClient] hoare_bind [OF keeps_get_tx]
      hoare_bind [OF once.k_ensure_store] hoare_bind [OF once.k_field_updates(8)]
      hoare_bind [OF once.k_percentiles] hoare_bind [OF keeps_reads] hoare_bind [OF once.k_next_sequence]
      hoare_bind [OF keeps_if [OF keeps_bind [OF once.k_resync keeps_ret] keeps_ret]]
      hoare_splits o_ret hoare_ret o_submit_loop)

lemma o_batch: "hoare (once (rs @ H) []) (process_batch env lib rs) (\<lambda>_. once H [])"
proof (induction rs)
  case (Cons r rs)
  have drop_all: "once (rs @ H) [] s \<Longrightarrow> once H [] s" for s
    by (induction rs) (auto dest: once_drop)
  show ?case
    by simp (intro hoare_bind [OF o_broadcast] hoare_splits Cons hoare_ret drop_all)
qed (simp add: hoare_ret)

lemma once_perm:
  assumes "once H snap s" and "mset H' = mset H"
  shows "once H' snap s"
  by (rule once_subset [OF assms(1)]) (use onceD [OF assms(1)] assms(2) in \<open>auto simp: tokens_def\<close>)

lemma o_pass: "keeps (once [] []) (broadcastLoop_pass env lib)"
proof -
  have dr: "hoare (once [] []) drain (\<lambda>rs. once rs [])"
  proof (rule hoareI)
    fix s rs s' assume I: "once [] [] s" and run: "run_state drain s = (rs, s')"
    show "once rs [] s'"
      by (rule once_subset [OF I]) (use onceD [OF I] run in \<open>auto simp: drain_def tokens_def snap_ok_def stores_ok_def\<close>)
  qed
  have "hoare (once rs []) (process_batch env lib (sort_key f rs)) (\<lambda>_. once [] [])" for f rs
    by (rule hoare_pre [OF o_batch [of "sort_key f rs" "[]", simplified]]) (erule once_perm, simp)
  then show ?thesis
    unfolding broadcastLoop_pass_def by (intro hoare_bind [OF dr] hoare_bind [OF keeps_reads])
qed

lemma o_recv: "keeps (once H []) try_recv"
proof (rule hoareI)
  fix s x s' assume I: "once H [] s" and run: "run_state try_recv s = (x, s')"
  have "mset (broadcastChan s') \<subseteq># mset (broadcastChan s) \<and> accountStore s' = accountStore s \<and> next_ref s' = next_ref s"
    using run by (auto simp: try_recv_def split: list.splits)
  then show "once H [] s'"
    by (intro once_subset [OF I])
       (use onceD [OF I] in \<open>auto simp: tokens_def snap_ok_def stores_ok_def intro: subset_mset.add_mono\<close>)
qed

lemma o_modify_map: "keeps (once H []) (modify (\<lambda>s. s\<lparr>transactions := f s\<rparr>))"
  by (intro keeps_modify) (erule once_same; simp)

lemma o_drop: "keeps (once H []) (dropOldestForBackpressure env p)"
  unfolding dropOldestForBackpressure_def by (intro keeps_intros once.k_prims once.k_upd benign_simps)

lemma o_close: "keeps (once H []) (closeDone r)"
  unfolding closeDone_def upd_tx_def by (intro keeps_modify) (erule once_same; simp)

lemma o_enqueueTransaction: "hoare (once [r] []) (enqueueTransaction env r) (\<lambda>_. once [] [])"
proof -
  have send: "hoare (once [r] []) (do { b \<leftarrow> try_send r; f b }) (\<lambda>_. once [] [])"
    if "hoare (once [] []) (f True) (\<lambda>_. once [] [])" and "hoare (once [r] []) (f False) (\<lambda>_. once [] [])"
    for f :: "bool \<Rightarrow> string result txm"
    by (rule hoare_bind [OF o_send]) (metis (full_types) that)
  show ?thesis
    unfolding enqueueTransaction_def
    by (intro hoare_bind [OF keeps_get_tx] hoare_bind [OF keeps_reads] hoare_if hoare_bind [OF o_close]
        hoare_bind [OF o_modify_map] send hoare_bind [OF o_recv] hoare_bind [OF o_drop]
        hoare_bind [OF once.k_emit] o_ret)
       (simp_all add: hoare_ret)
qed

lemma o_Enqueue: "keeps (once [] []) (Enqueue env lib req)"
proof -
  have al: "hoare (once [] []) (alloc t) (\<lambda>r. once [r] [])" for t
  proof (rule hoareI)
    fix s r s' assume I: "once [] [] s" and run: "run_state (alloc t) s = (r, s')"
    have r: "r = next_ref s" and s': "broadcastChan s' = broadcastChan s" "accountStore s' = accountStore s"
        "next_ref s' = Suc r"
      using run by (auto simp: alloc_def)
    have tk: "tokens [r] s' = add_mset r (tokens [] s)" by (simp add: tokens_def s')
    have "r \<notin># tokens [] s" using I r by (auto simp: once_def)
    then have "count (tokens [r] s') k \<le> 1" for k
      using I by (auto simp: tk once_def not_in_iff)
    moreover have "\<forall>k \<in># tokens [r] s'. k < next_ref s'"
      unfolding tk s' using I by (auto simp: r once_def less_Suc_eq)
    ultimately show "once [r] [] s'" using onceD [OF I] by (simp add: once_def snap_ok_def stores_ok_def s')
  qed
  show ?thesis
    unfolding Enqueue_def defaultFromAddress_def
    by (intro keeps_intros once.k_prims hoare_bind [OF al o_enqueueTransaction])
qed

section \<open>The confirm pass\<close>

lemma o_confirm:
  "hoare (once [] ((a, u) # snap)) (call_store a (Confirm (utx_Sequence u) (utx_Hash u) f))
     (\<lambda>x. if is_Ok x then once [utx_Tx u] snap else once [] snap)"
proof (rule hoareI)
  fix s x s'
  assume I: "once [] ((a, u) # snap) s"
    and run: "run_state (call_store a (Confirm (utx_Sequence u) (utx_Hash u) f)) s = (x, s')"
  have so: "stores_ok s" and sn: "snap_ok ((a, u) # snap) s" using onceD [OF I] by auto
  show "(if is_Ok x then once [utx_Tx u] snap else once [] snap) s'"
    using run_call_store [OF run]
  proof
    assume "\<not> is_Ok x \<and> s' = s"
    moreover have "once [] snap s" by (rule once_snap [OF I]) auto
    ultimately show ?thesis by (simp del: not_is_Ok_cases)
  next
    assume "x = Ok () \<and> (\<exists>st st'. map_of (accountStore s) a = Some st \<and>
      Confirm (utx_Sequence u) (utx_Hash u) f st = Ok st' \<and>
      s' = s\<lparr>accountStore := AList.update a st' (accountStore s)\<rparr>)"
    then obtain st st' where x: "x = Ok ()" and st: "map_of (accountStore s) a = Some st"
      and cf: "Confirm (utx_Sequence u) (utx_Hash u) f st = Ok st'"
      and s': "s' = s\<lparr>accountStore := AList.update a st' (accountStore s)\<rparr>" by blast
    from cf obtain u' where u': "map_of (unconfirmedSequences st) (utx_Sequence u) = Some u'"
      and un: "unconfirmedSequences st' = AList.delete (utx_Sequence u) (unconfirmedSequences st)"
      by (auto simp: Confirm_Ok_iff mark_failed_def Let_def simp del: map_of_eq_Some_iff split: if_splits)
    have "u' = u" using sn st u' unfolding snap_ok_def by (metis list.set_intros(1))
    moreover have "distinct (map fst (unconfirmedSequences st))"
      using so st by (auto simp: stores_ok_def store_wf_def)
    ultimately have fly: "flying st = add_mset (utx_Tx u) (flying st')"
      unfolding flying_def un using mset_delete [OF _ u', of utx_Tx] by simp
    have "tokens [] s' + add_mset (utx_Tx u) (flying st') = tokens [] s + flying st'"
      using tokens_store [OF so st, of "[]" st'] by (simp only: s' fly)
    then have tk: "tokens [utx_Tx u] s' = tokens [] s" by (simp add: tokens_def)
    obtain g where g: "quiet_step g" "g st = st'" using quiet_step_Confirm [OF cf] by blast
    have "stores_ok s'" using stores.I_store [OF g(1) _ so, of a st] st g(2) by (simp add: s' GetTxStore_def)
    moreover have "snap_ok snap s'"
      unfolding s' by (rule snap_ok_store [OF snap_ok_subset [OF sn] st])
        (auto intro: quiet_step_lookup [OF g(1)] simp: g(2) [symmetric] simp del: map_of_eq_Some_iff)
    moreover have "next_ref s' = next_ref s" by (simp add: s')
    ultimately have "once [utx_Tx u] snap s'" by (intro once_subset [OF I]) (simp_all add: tk)
    with x show ?thesis by simp
  qed
qed

lemma o_held_snap: "keeps (once [r] snap) m \<Longrightarrow> hoare (once [r] snap) m (\<lambda>_. once [] snap)"
  by (erule hoare_post) (rule once_drop)

lemma o_maybeRetry:
  "hoare (once [utx_Tx u] snap) (maybeRetry u why) (\<lambda>b. once (if b then [] else [utx_Tx u]) snap)"
proof -
  have send: "hoare (once [utx_Tx u] snap) (do { sent \<leftarrow> try_send (utx_Tx u);
      if sent then do { emit (IncrementRetryTxs why); ret True }
      else do { emit (IncrementDroppedTxs DropReasonChannelFullNewRejected); ret False } })
     (\<lambda>b. once (if b then [] else [utx_Tx u]) snap)"
    apply (rule hoare_bind [OF o_send])
    subgoal for b by (cases b) (auto intro!: hoare_bind [OF once.k_emit] hoare_ret)
    done
  show ?thesis
    unfolding maybeRetry_def
    by (intro hoare_bind [OF once.k_field_updates(8)] hoare_bind [OF keeps_reads] hoare_if send) (simp add: hoare_ret)
qed

lemma o_retry_or_fail: "hoare (once [utx_Tx u] snap) (retry_or_fail env u why f) (\<lambda>_. once [] snap)"
proof -
  have fail: "hoare (once [utx_Tx u] snap) (do { emit (IncrementMaxAttemptsReached RetryBudgetLifecycle);
      emit (IncrementErrorTxs f); updateTransactionStatus env (utx_Tx u) Failed }) (\<lambda>_. once [] snap)"
    by (rule o_held_snap) (intro keeps_intros once.k_prims)
  have "hoare (once (if b then [] else [utx_Tx u]) snap) (if b then ret () else do {
      emit (IncrementMaxAttemptsReached RetryBudgetLifecycle);
      emit (IncrementErrorTxs f); updateTransactionStatus env (utx_Tx u) Failed }) (\<lambda>_. once [] snap)" for b
    by (cases b) (simp_all add: fail hoare_ret)
  then show ?thesis
    unfolding retry_or_fail_def by (intro hoare_bind [OF once.k_field_updates(7)] hoare_bind [OF o_maybeRetry])
qed

lemma o_after_confirm:
  assumes "hoare (once [utx_Tx u] snap) m (\<lambda>_. once [] snap)" and "keeps (once [] snap) n"
  shows "hoare (once [] ((a, u) # snap))
    (do { x \<leftarrow> call_store a (Confirm (utx_Sequence u) (utx_Hash u) f); if \<not> is_Ok x then n else m })
    (\<lambda>_. once [] snap)"
  apply (rule hoare_bind [OF o_confirm])
  subgoal for x using assms by (cases "is_Ok x") (simp_all del: not_is_Ok_cases)
  done

lemma o_on_success: "hoare (once [] ((a, u) # snap)) (on_success env lib a u x) (\<lambda>_. once [] snap)"
  unfolding on_success_def
  by (rule o_after_confirm, rule o_held_snap) (intro keeps_intros once.k_prims once.k_field_updates)+

lemma o_on_failed: "hoare (once [] ((a, u) # snap)) (on_failed env lib a u x) (\<lambda>_. once [] snap)"
proof -
  have fail: "hoare (once [utx_Tx u] snap) (do { emit (IncrementErrorTxs f);
      updateTransactionStatus env (utx_Tx u) Failed }) (\<lambda>_. once [] snap)" for f
    by (rule o_held_snap) (intro keeps_intros once.k_prims)
  show ?thesis
    unfolding on_failed_def
    by (rule o_after_confirm)
       (intro hoare_bind [OF once.k_field_updates(4)] hoare_let hoare_bind [OF once.k_field_updates(5)]
         hoare_bind [OF once.k_field_updates(3)] hoare_if fail o_retry_or_fail keeps_ret)+
qed

lemma o_on_expired: "hoare (once [] ((a, u) # snap)) (on_expired env a u) (\<lambda>_. once [] snap)"
  unfolding on_expired_def
  by (rule o_after_confirm [OF o_retry_or_fail]) (intro keeps_intros once.k_prims)

lemma o_check_one: "hoare (once [] ((a, u) # snap)) (check_one env lib client a u) (\<lambda>_. once [] snap)"
proof -
  have ex: "hoare (once [] ((a, u) # snap)) (check_expiry env client a u) (\<lambda>_. once [] snap)"
    unfolding check_expiry_def
    by (intro hoare_bind [OF once.k_ask] hoare_bind [OF keeps_reads] hoare_bind [OF keeps_get_tx]
        hoare_bind [OF once.k_since] hoare_let hoare_if hoare_bind [OF o_on_expired])
       (auto intro!: hoare_ret intro: once_snap)
  have "hoare (once [] ((a, u) # snap)) (case p of
        StatusSuccess \<Rightarrow> do { on_success env lib a u x; ret False }
      | StatusFailed \<Rightarrow> do { on_failed env lib a u x; ret False }
      | _ \<Rightarrow> check_expiry env client a u) (\<lambda>_. once [] snap)" for p x
    by (cases p) (auto intro: ex hoare_bind [OF o_on_success keeps_ret] hoare_bind [OF o_on_failed keeps_ret])
  then show ?thesis
    unfolding check_one_def by (intro hoare_bind [OF once.k_ask] hoare_result ex)
qed

lemma o_check_account:
  "hoare (once [] (map (Pair a) us @ snap)) (check_account env lib client a us n) (\<lambda>_. once [] snap)"
  by (induction us arbitrary: n) (simp_all add: hoare_ret hoare_bind [OF o_check_one])

lemma o_check_accounts:
  "hoare (once [] (concat (map (\<lambda>(a, us). map (Pair a) us) aus))) (check_accounts env lib client aus n)
     (\<lambda>_. once [] [])"
proof (induction aus arbitrary: n)
  case (Cons p aus)
  obtain a us where p: "p = (a, us)" by (metis surj_pair)
  show ?case by (simp add: p) (rule hoare_bind [OF o_check_account Cons])
qed (simp add: hoare_ret)

lemma snapshot_ok:
  assumes "stores_ok s" and "set aus = set (GetAllUnconfirmed (accountStore s))"
  shows "snap_ok (concat (map (\<lambda>(a, us). map (Pair a) us) aus)) s"
  unfolding snap_ok_def
proof (intro allI impI)
  fix a u st u'
  assume mem: "(a, u) \<in> set (concat (map (\<lambda>(a, us). map (Pair a) us) aus))"
    and st: "map_of (accountStore s) a = Some st"
    and u': "map_of (unconfirmedSequences st) (utx_Sequence u) = Some u'"
  from mem assms(2) obtain st2 where "(a, st2) \<in> set (accountStore s)" and u: "u \<in> set (GetUnconfirmed st2)"
    by (auto simp: GetAllUnconfirmed_def)
  with st assms(1) have "st2 = st" by (auto simp: stores_ok_def)
  with u obtain k where "(k, u) \<in> set (unconfirmedSequences st)" by (auto simp: GetUnconfirmed_def)
  moreover have "store_wf st" using assms(1) st unfolding stores_ok_def by blast
  ultimately have "map_of (unconfirmedSequences st) (utx_Sequence u) = Some u"
    by (auto simp: store_wf_def)
  with u' show "u' = u" by (simp del: map_of_eq_Some_iff)
qed

lemma o_confirm_pass:
  assumes "\<And>xs. mset (order xs) = mset xs"
  shows "keeps (once [] []) (checkUnconfirmed env lib order)"
proof -
  have rd: "hoare (once [] []) (reads (\<lambda>s. GetAllUnconfirmed (accountStore s)))
      (\<lambda>all. once [] (concat (map (\<lambda>(a, us). map (Pair a) us) (order all))))"
  proof (rule hoareI)
    fix s all s' assume I: "once [] [] s" and run: "run_state (reads (\<lambda>s. GetAllUnconfirmed (accountStore s))) s = (all, s')"
    then have s': "s' = s" "all = GetAllUnconfirmed (accountStore s)" by (auto simp: reads_def)
    have "set (order all) = set (GetAllUnconfirmed (accountStore s))"
      using assms [of all] s'(2) by (metis set_mset_mset)
    with snapshot_ok I show "once [] (concat (map (\<lambda>(a, us). map (Pair a) us) (order all))) s'"
      by (intro once_subset [OF I]) (auto simp: s' once_def)
  qed
  show ?thesis
    unfolding checkUnconfirmed_def
    by (intro hoare_bind [OF once.k_ask] hoare_result hoare_bind [OF rd] hoare_bind [OF o_check_accounts]
        once.k_emit keeps_ret)
qed

lemma o_step: "txm_step env lib s s' \<Longrightarrow> once [] [] s \<Longrightarrow> once [] [] s'"
proof (induction rule: txm_step.induct)
  case (step_enqueue req s x s')
  then show ?case by (rule hoareD [OF o_Enqueue, rotated])
next
  case (step_broadcast s x s')
  then show ?case using hoareD [OF o_pass] by blast
next
  case (step_confirm s order x s')
  then show ?case using hoareD [OF o_confirm_pass [of order]] by blast
next
  case (step_prune s nows x s')
  then show ?case by (auto simp: pruneTerminal_def modify_def Let_def intro: once_same)
next
  case (step_simulate req s x s')
  then show ?case by (rule hoareD [OF once.k_simulate_only, rotated])
next
  case (step_close s s')
  then show ?case by (auto simp: Close_def modify_def intro: once_same)
qed

lemma o_reachable: "reachable env lib s \<Longrightarrow> once [] [] s"
proof (induction rule: reachable.induct)
  case (reach_new passphrase cfg chainID s)
  then show ?case
    using NewTxm_invariants(1) [OF reach_new]
    by (auto simp: once_def snap_ok_def tokens_def NewTxm_def Let_def NewAccountStore_def flying_all_def)
qed (rule o_step)

section \<open>Properties\<close>

text \<open>C1: In every reachable state of the transaction manager, whatever the network, the clock
  and the callers do, a transaction is at most once queued for broadcast or in flight, over
  all accounts and sequence numbers: no transaction is ever submitted while it is already
  queued or unconfirmed.\<close>

theorem txm_at_most_once:
  assumes "reachable env lib s"
  shows "count (mset (broadcastChan s)) r + count (flying_all (accountStore s)) r \<le> 1"
  using o_reachable [OF assms] by (auto simp: once_def tokens_def)

theorem txm_at_most_once_witness:
  "broadcastChan after_enqueue = [0] \<and> accountStore after_pass = sample_store 0
   \<and> count (mset (broadcastChan after_enqueue)) 0 + count (flying_all (accountStore after_enqueue)) 0 \<le> 1
   \<and> count (mset (broadcastChan after_pass)) 0 + count (flying_all (accountStore after_pass)) 0 \<le> 1"
  using txm_at_most_once [OF after_enqueue_reachable, of 0] txm_at_most_once [OF after_pass_reachable, of 0]
    after_enqueue_state(4) after_pass_state(3) by blast

text \<open>C2: In every reachable state: each account has one well-formed sequence store whose
  recyclable numbers are not behind the chain; a terminal transaction has released its waiters
  (Done is closed); the channel holds at most its capacity; every id in the transaction map
  names an existing transaction with that id; and no configuration field is nil.\<close>

theorem txm_reachable_invariants:
  assumes "reachable env lib s"
  shows "stores_ok s \<and> done_ok s \<and> chan_ok s \<and> ids_ok s \<and> config_ok s"
  using stores.reachable_keeps [OF _ assms] dones.reachable_keeps [OF _ assms]
    chan.reachable_keeps [OF _ assms] ids.reachable_keeps [OF _ assms] conf.reachable_keeps [OF _ assms]
    NewTxm_invariants
  by blast

theorem txm_reachable_invariants_witness:
  "tx_Status (heap after_confirm 0) = Finalized
   \<and> stores_ok after_confirm \<and> done_ok after_confirm \<and> chan_ok after_confirm \<and> ids_ok after_confirm
   \<and> config_ok after_confirm"
  using txm_reachable_invariants [OF after_confirm_reachable] after_confirm_state(1) by simp

end
