(* ===== verification/Txm_Outcomes.thy ===== *)
theory Txm_Outcomes
  imports Txm_Once
begin

text \<open>
  What the handlers of the transaction manager achieve: how a broadcast ends, also without a
  client, and how the answer of the node to a poll settles a transaction.
\<close>

section \<open>How a broadcast ends\<close>

text \<open>The context of the loops lives as long as the manager is not stopped.\<close>

definition alive :: "env \<Rightarrow> bool" where
  "alive env \<longleftrightarrow> (\<forall>i. ctx_Err_at env i = None)"

definition failed_done :: "tx_ref \<Rightarrow> Txm \<Rightarrow> bool" where
  "failed_done r s \<longleftrightarrow> tx_Status (heap s r) = Failed \<and> tx_Done (heap s r)"

definition recorded :: "tx_ref \<Rightarrow> Txm \<Rightarrow> bool" where
  "recorded r s \<longleftrightarrow> (\<exists>a st q u. map_of (accountStore s) a = Some st \<and>
     map_of (unconfirmedSequences st) q = Some u \<and> utx_Tx u = r \<and> utx_Hash u = tx_TxHash (heap s r))"

definition settled :: "tx_ref \<Rightarrow> Txm \<Rightarrow> bool" where
  "settled r s \<longleftrightarrow> failed_done r s \<or> tx_Status (heap s r) = Unconfirmed \<and> recorded r s"

lemma b_status_failed: "hoare P (updateTransactionStatus env r Failed) (\<lambda>_. failed_done r)"
proof (rule hoareI)
  fix s x s' assume "run_state (updateTransactionStatus env r Failed) s = (x, s')"
  then show "failed_done r s'"
    using run_status(11,12) unfolding failed_done_def isTerminalStatus_def by metis
qed

lemma b_emit: "hoare (failed_done r) (emit m) (\<lambda>_. failed_done r)"
  by (auto simp: hoare_def emit_def modify_def failed_done_def)

lemma b_mark: "hoare P (markTxFailed env r reason) (\<lambda>_. failed_done r)"
  unfolding markTxFailed_def by (rule hoare_bind [OF b_status_failed b_emit])

lemma b_release: "hoare P (releaseSeqAndFailTx env a q r reason) (\<lambda>_. failed_done r)"
  unfolding releaseSeqAndFailTx_def
  by (rule hoare_bind [OF hoare_True hoare_bind [OF b_status_failed b_emit]])

abbreviation closes :: "tx_ref \<Rightarrow> send_outcome \<Rightarrow> Txm \<Rightarrow> bool" where
  "closes r out s \<equiv> (case out of Finished x \<Rightarrow> x = Ok () \<longrightarrow> settled r s | Retry _ _ \<Rightarrow> True)"

lemma b_fail_release: "hoare P (fail_release env a q r reason) (closes r)"
  unfolding fail_release_def
  by (rule hoare_bind [OF b_release]) (auto intro!: hoare_ret simp: settled_def)

lemma b_backoff: "alive env \<Longrightarrow> hoare P (backoff_retry env a q fee) (closes r)"
  by (auto simp: hoare_def backoff_retry_def sleep_def ask_def tick_def alive_def)

lemma b_add:
  "hoare P (call_store a (AddUnconfirmed q h m r))
     (\<lambda>x s. is_Ok x \<longrightarrow> (\<exists>st u. map_of (accountStore s) a = Some st \<and>
        map_of (unconfirmedSequences st) q = Some u \<and> utx_Tx u = r \<and> utx_Hash u = h))"
proof (rule hoareI, rule impI)
  fix s x s' assume run: "run_state (call_store a (AddUnconfirmed q h m r)) s = (x, s')" and "is_Ok x"
  then obtain st st' where "map_of (accountStore s) a = Some st" and add: "AddUnconfirmed q h m r st = Ok st'"
    and s': "s' = s\<lparr>accountStore := AList.update a st' (accountStore s)\<rparr>"
    using run_call_store [OF run] by blast
  have "map_of (unconfirmedSequences st') q =
      Some \<lparr>utx_Sequence = q, utx_Hash = h, utx_MaxLedger = m, utx_Tx = r\<rparr>"
    using add by (simp add: AddUnconfirmed_Ok_iff del: map_of_eq_Some_iff)
  then show "\<exists>st u. map_of (accountStore s') a = Some st \<and> map_of (unconfirmedSequences st) q = Some u \<and>
      utx_Tx u = r \<and> utx_Hash u = h"
    by (intro exI [of _ st'] exI) (auto simp: s' simp del: map_of_eq_Some_iff)
qed

lemma b_accepted:
  "hoare (\<lambda>s. \<exists>st u. map_of (accountStore s) a = Some st \<and> map_of (unconfirmedSequences st) q = Some u \<and>
       utx_Tx u = r \<and> utx_Hash u = h)
     (do { updateTransactionHash r h; updateTransactionResultXDR r []; updateTransactionResultMeta r [];
           updateTransactionResultCode r []; ret x }) (\<lambda>_. recorded r)"
  by (auto simp: hoare_def updateTransactionHash_def updateTransactionResultXDR_def
      updateTransactionResultMeta_def updateTransactionResultCode_def upd_tx_def modify_def recorded_def
      simp del: map_of_eq_Some_iff)

lemma b_handleSend:
  "hoare P (handleSendResult lib (Some r) res q (Some a) m) (\<lambda>(acc, _, _) s. acc \<longrightarrow> recorded r s)"
proof -
  have acc: "hoare P (do {
       added \<leftarrow> call_store a (AddUnconfirmed q h m r);
       if \<not> is_Ok added then ret (False, True, ErrorReasonStoreAdd)
       else do {
         updateTransactionHash r h; updateTransactionResultXDR r []; updateTransactionResultMeta r [];
         updateTransactionResultCode r []; ret (True, False, ErrorReasonNone) } })
     (\<lambda>(acc, _, _) s. acc \<longrightarrow> recorded r s)" for h
    apply (rule hoare_bind [OF b_add])
    subgoal for x
      by (cases "is_Ok x")
         (auto simp del: not_is_Ok_cases intro: hoare_ret hoare_weaken [OF b_accepted])
    done
  show ?thesis
    unfolding handleSendResult_def
    by (auto simp: Let_def acc simp del: not_is_Ok_cases split: prod.splits intro!: hoare_ret)
qed

lemma b_accept:
  "hoare (recorded r) (do { markBroadcastAt env r; emit IncrementBroadcastedTxs;
     updateTransactionStatus env r Unconfirmed; ret (Finished (Ok ())) }) (closes r)"
proof -
  have mk: "keeps (recorded r) (markBroadcastAt env r)" and em: "keeps (recorded r) (emit IncrementBroadcastedTxs)"
    by (auto simp: hoare_def markBroadcastAt_def run_prims recorded_def simp del: map_of_eq_Some_iff)
  have st: "hoare (recorded r) (updateTransactionStatus env r Unconfirmed) (\<lambda>_. settled r)"
  proof (rule hoareI)
    fix s x s' assume "recorded r s" and run: "run_state (updateTransactionStatus env r Unconfirmed) s = (x, s')"
    then show "settled r s'"
      using run_status(2,10,11) [OF run] by (simp add: settled_def recorded_def del: map_of_eq_Some_iff)
  qed
  show ?thesis
    by (rule hoare_bind [OF mk], rule hoare_bind [OF em], rule hoare_bind [OF st]) (auto intro: hoare_ret)
qed

lemma b_retry: "hoare P (ret (Retry q fee)) (closes r)"
  by (rule hoare_ret) simp

lemma b_panic: "hoare P (ret (Finished (Panic p))) (closes r)"
  by (rule hoare_ret) simp

lemma b_after_send:
  assumes "alive env"
  shows "hoare P (after_send env lib client r a q fee m res) (closes r)"
  unfolding after_send_def
  apply (rule hoare_bind [OF b_handleSend])
  subgoal for x
    apply (cases x)
    subgoal for accepted fatalErr reason
      by (cases accepted)
         (auto intro!: b_accept b_fail_release b_retry b_backoff [OF assms] hoare_bind [OF hoare_True] simp: Let_def)
    done
  done

lemma b_send_stage:
  assumes "alive env"
  shows "hoare P (send_stage env lib client r a n k q fee t sim m) (closes r)"
  unfolding send_stage_def
  by (intro hoare_bind [OF hoare_True] hoare_splits b_fail_release b_retry b_panic b_backoff [OF assms]
      b_after_send [OF assms])

abbreviation ends :: "tx_ref \<Rightarrow> unit result \<Rightarrow> Txm \<Rightarrow> bool" where
  "ends r x s \<equiv> x = Ok () \<longrightarrow> settled r s"

lemma b_end: "hoare P (do { releaseSeqAndFailTx env a q r reason; ret x }) (\<lambda>_. settled r)"
  by (rule hoare_bind [OF b_release]) (auto intro!: hoare_ret simp: settled_def)

lemma b_submit_step:
  assumes "alive env"
    and "\<And>P q fee. hoare P (submit_loop env lib client r a n (Suc k) b q fee) (ends r)"
    and "\<not> b \<Longrightarrow> (\<And>P q fee. hoare P (submit_loop env lib client r a n k True q fee) (ends r))"
  shows "hoare P (submit_loop env lib client r a n k b q fee) (ends r)"
proof -
  have sent: "hoare (closes r out) (case out of Finished x \<Rightarrow> ret x
      | Retry q' fee' \<Rightarrow> submit_loop env lib client r a n (Suc k) b q' fee') (ends r)" for out
    by (cases out) (auto intro!: hoare_ret assms(2))
  have panic: "hoare P (ret (Panic p)) (ends r)" for P p by (rule hoare_ret) simp
  have over: "hoare P (do { releaseSeqAndFailTx env a q r reason; ret x }) (ends r)" for P q reason x
    by (rule hoare_post [OF b_end]) simp
  show ?thesis
    by (subst submit_loop.simps)
       (intro hoare_bind [OF b_send_stage [OF assms(1)] sent] hoare_bind [OF hoare_True] hoare_splits panic over
         assms(3); assumption)
qed

lemma b_submit_loop:
  assumes "alive env"
  shows "hoare P (submit_loop env lib client r a n k b q fee) (ends r)"
proof (induction "n - k" arbitrary: P k b q fee)
  case 0
  then show ?case by (subst submit_loop.simps) (simp, rule hoare_post [OF b_end], simp)
next
  case (Suc d)
  have next_ok: "hoare P (submit_loop env lib client r a n (Suc k) b q fee) (ends r)" for P b q fee
    using Suc.hyps by simp
  have "hoare P (submit_loop env lib client r a n k True q fee) (ends r)" for P q fee
    by (rule b_submit_step [OF assms next_ok]) simp
  then show ?case by (rule b_submit_step [OF assms next_ok])
qed

lemma b_ensure:
  "hoare P (ensure_store env lib client r a) (\<lambda>x s. x = Ok False \<longrightarrow> failed_done r s)"
proof -
  have yes: "hoare P (ret (Ok True)) (\<lambda>x s. x = Ok False \<longrightarrow> failed_done r s)" for P
    by (rule hoare_ret) simp
  have no: "hoare P (do { markTxFailed env r reason; ret (Ok False) }) (\<lambda>x s. x = Ok False \<longrightarrow> failed_done r s)"
    for P reason by (rule hoare_bind [OF b_mark]) (auto intro: hoare_ret)
  have pan: "hoare P (ret (Panic p)) (\<lambda>x s. x = Ok False \<longrightarrow> failed_done r s)" for P p
    by (rule hoare_ret) simp
  show ?thesis
    unfolding ensure_store_def
    by (rule hoare_bind [OF hoare_True], rule hoare_if, rule yes, rule hoare_bind [OF hoare_True], rule hoare_result,
        rule hoare_bind [OF hoare_True], rule hoare_result, rule hoare_bind [OF hoare_True], rule yes)
       (rule no pan)+
qed

text \<open>The three ends of a broadcast: settled, put back into the channel, or given up with the
  drop metric because the channel is full.\<close>

definition concluded :: "tx_ref \<Rightarrow> Txm \<Rightarrow> bool" where
  "concluded r s \<longleftrightarrow> settled r s \<or> r \<in> set (broadcastChan s) \<or>
     (chan_capacity s \<le> length (broadcastChan s) \<and>
      metrics s \<noteq> [] \<and> last (metrics s) = IncrementDroppedTxs DropReasonChannelFullNewRejected)"

lemma concluded_failed: "failed_done r s \<Longrightarrow> concluded r s"
  by (simp add: concluded_def settled_def)

lemma b_retryGetClient:
  assumes "alive env"
  shows "hoare P (retryGetClientOrFail env r) (\<lambda>_. concluded r)"
proof -
  have q: "hoare P (do { sent \<leftarrow> try_send r;
       if sent then ret () else emit (IncrementDroppedTxs DropReasonChannelFullNewRejected) }) (\<lambda>_. concluded r)" for P
    by (auto simp: hoare_def try_send_def emit_def modify_def concluded_def chan_capacity_def split: if_splits)
  have w: "hoare P (do { awake \<leftarrow> sleep env; if \<not> awake then ret () else m }) (\<lambda>_. concluded r)"
    if "\<And>P. hoare P m (\<lambda>_. concluded r)" for P m
    using assms that [of "\<lambda>_. True"]
    by (auto simp: hoare_def sleep_def ask_def tick_def alive_def)
  have f: "hoare P (do { emit (IncrementMaxAttemptsReached RetryBudgetInfra);
       markTxFailed env r ErrorReasonClientUnavailable }) (\<lambda>_. concluded r)" for P
    by (rule hoare_bind [OF hoare_True], rule hoare_post [OF b_mark]) (simp add: concluded_def settled_def)
  show ?thesis
    unfolding retryGetClientOrFail_def Let_def
    by (rule hoare_bind [OF hoare_True], rule hoare_bind [OF hoare_True], rule hoare_bind [OF hoare_True],
        rule hoare_if, rule w, rule q, rule f)
qed

lemma b_broadcast:
  assumes "alive env"
  shows "hoare P (simulateAssembleSignAndSend env lib r) (\<lambda>x s. x = Ok () \<longrightarrow> concluded r s)"
proof -
  have loop: "hoare P (submit_loop env lib client r a n k b q fee) (\<lambda>x s. x = Ok () \<longrightarrow> concluded r s)"
    for P client a n k b q fee
    by (rule hoare_post [OF b_submit_loop [OF assms]]) (simp add: concluded_def)
  have ready: "hoare (\<lambda>s. x = Ok False \<longrightarrow> failed_done r s) (case x of
        Ok ok \<Rightarrow> (case ok of True \<Rightarrow> m | False \<Rightarrow> ret (Ok ())) | Err e \<Rightarrow> ret (Err e) | Panic p \<Rightarrow> ret (Panic p))
      (\<lambda>x s. x = Ok () \<longrightarrow> concluded r s)"
    if "\<And>P. hoare P m (\<lambda>x s. x = Ok () \<longrightarrow> concluded r s)" for x m
    by (cases x) (auto intro!: hoare_ret that concluded_failed split: bool.splits)
  have again: "hoare P (do { retryGetClientOrFail env r; ret (Ok ()) }) (\<lambda>x s. x = Ok () \<longrightarrow> concluded r s)" for P
    by (rule hoare_bind [OF b_retryGetClient [OF assms]]) (auto intro: hoare_ret)
  have pan: "hoare P (ret (Panic p)) (\<lambda>x s. x = Ok () \<longrightarrow> concluded r s)" for P p by (rule hoare_ret) simp
  show ?thesis
    unfolding simulateAssembleSignAndSend_def
    by (rule hoare_bind [OF hoare_True], rule hoare_result, rule hoare_bind [OF hoare_True], rule hoare_let,
        rule hoare_bind [OF b_ensure], rule ready, unfold Let_def,
        (rule hoare_bind [OF hoare_True])+, rule loop, rule again, rule pan)
qed

section \<open>How a poll ends\<close>


definition finalized_done :: "tx_ref \<Rightarrow> Txm \<Rightarrow> bool" where
  "finalized_done r s \<longleftrightarrow> tx_Status (heap s r) = Finalized \<and> tx_Done (heap s r)"

definition retried :: "tx_ref \<Rightarrow> Txm \<Rightarrow> Txm \<Rightarrow> bool" where
  "retried r s s' \<longleftrightarrow> tx_Attempt (heap s' r) = u64 (tx_Attempt (heap s r) + 1) \<and>
     (if u64 (tx_Attempt (heap s r) + 1) < the (MaxTxRetryAttempts (txm_config s)) \<and>
         length (broadcastChan s) < chan_capacity s
      then broadcastChan s' = broadcastChan s @ [r] \<and> tx_Status (heap s' r) = tx_Status (heap s r) \<and>
        tx_Done (heap s' r) = tx_Done (heap s r)
      else broadcastChan s' = broadcastChan s \<and> failed_done r s')"

text \<open>The rest of the state during a poll: the stores are \<open>A\<close>, the configuration and every other
  transaction are those of \<open>s\<close>, and the stored result is \<open>x\<close>.\<close>

definition poll_frame :: "tx_ref \<Rightarrow> Txm \<Rightarrow> AccountStore \<Rightarrow> string \<Rightarrow> Txm \<Rightarrow> bool" where
  "poll_frame r s A x t \<longleftrightarrow> accountStore t = A \<and> txm_config t = txm_config s \<and>
     (\<forall>k. k \<noteq> r \<longrightarrow> heap t k = heap s k) \<and> tx_ResultXDR (heap t r) = x"

definition poll_at :: "tx_ref \<Rightarrow> Txm \<Rightarrow> AccountStore \<Rightarrow> string \<Rightarrow> int \<Rightarrow> Txm \<Rightarrow> bool" where
  "poll_at r s A x n t \<longleftrightarrow> poll_frame r s A x t \<and> broadcastChan t = broadcastChan s \<and> tx_Attempt (heap t r) = n \<and>
     tx_Status (heap t r) = tx_Status (heap s r) \<and> tx_Done (heap t r) = tx_Done (heap s r)"

lemmas poll_defs = poll_at_def poll_frame_def


text \<open>A terminal status, set in the middle of a poll.\<close>

lemma p_terminal:
  assumes "isTerminalStatus st"
  shows "hoare (poll_at r s A x n) (updateTransactionStatus env r st)
     (\<lambda>_ t. poll_frame r s A x t \<and> broadcastChan t = broadcastChan s \<and> tx_Attempt (heap t r) = n \<and>
        tx_Status (heap t r) = st \<and> tx_Done (heap t r))"
proof (rule hoareI)
  fix t y t' assume P: "poll_at r s A x n t" and run: "run_state (updateTransactionStatus env r st) t = (y, t')"
  note at = run_status [OF run]
  show "poll_frame r s A x t' \<and> broadcastChan t' = broadcastChan s \<and> tx_Attempt (heap t' r) = n \<and>
      tx_Status (heap t' r) = st \<and> tx_Done (heap t' r)"
    using P assms at(1,2,4) at(7) at(11,12,15,16) by (auto simp: poll_defs)
qed

lemma p_observe: "keeps (poll_at r s A x n) (ask g)" "keeps (poll_at r s A x n) (emit m)"
  by (auto simp: run_prims poll_defs)

lemma p_fields:
  "keeps (poll_at r s A x n) (updateTransactionResultCode r c)" "keeps (poll_at r s A x n) (updateTransactionFee r fee)"
  "keeps (poll_at r s A x n) (updateTransactionLedgerCloseTime r ct)" "keeps (poll_at r s A x n) (updateTransactionResultMeta r mt)"
  "hoare (poll_at r s A y n) (updateTransactionResultXDR r x) (\<lambda>_. poll_at r s A x n)"
  by (auto simp: updateTransactionResultCode_def updateTransactionFee_def updateTransactionLedgerCloseTime_def
      updateTransactionResultMeta_def updateTransactionResultXDR_def run_prims poll_defs)

lemma p_retry:
  "hoare (poll_at (utx_Tx u) s A x (tx_Attempt (heap s (utx_Tx u)))) (retry_or_fail env u why f)
     (\<lambda>_ t. poll_frame (utx_Tx u) s A x t \<and> retried (utx_Tx u) s t)"
proof -
  let ?r = "utx_Tx u" and ?n = "tx_Attempt (heap s (utx_Tx u))"
  let ?room = "u64 (?n + 1) < the (MaxTxRetryAttempts (txm_config s)) \<and> length (broadcastChan s) < chan_capacity s"
  let ?Q = "\<lambda>(_::unit) t. poll_frame ?r s A x t \<and> retried ?r s t"
  have inc: "hoare (poll_at ?r s A x ?n) (incrementTransactionAttempt ?r) (\<lambda>_. poll_at ?r s A x (u64 (?n + 1)))"
    by (auto simp: incrementTransactionAttempt_def run_prims poll_defs)
  have again: "hoare (poll_at ?r s A x (u64 (?n + 1))) (maybeRetry u why) (\<lambda>b t. (b \<longleftrightarrow> ?room) \<and>
      (if b then poll_frame ?r s A x t \<and> retried ?r s t else poll_at ?r s A x (u64 (?n + 1)) t))"
    by (auto simp: maybeRetry_def getTransactionAttempt_def run_prims try_send_def poll_defs retried_def chan_capacity_def
        split: if_splits)
  have over: "hoare (poll_at ?r s A x (u64 (?n + 1))) (do { emit m1; emit m2; updateTransactionStatus env ?r Failed })
      (\<lambda>_ t. poll_frame ?r s A x t \<and> broadcastChan t = broadcastChan s \<and> tx_Attempt (heap t ?r) = u64 (?n + 1) \<and>
        failed_done ?r t)" for m1 m2
    by (rule hoare_bind [OF p_observe(2)], rule hoare_bind [OF p_observe(2)], rule hoare_post [OF p_terminal])
       (auto simp: isTerminalStatus_def failed_done_def)
  have give_up: "hoare (poll_at ?r s A x (u64 (?n + 1))) (do { emit m1; emit m2; updateTransactionStatus env ?r Failed }) ?Q"
    if "\<not> ?room" for m1 m2
    by (rule hoare_post [OF over]) (use that in \<open>auto simp: retried_def\<close>)
  have rest: "hoare (\<lambda>t. (b \<longleftrightarrow> ?room) \<and> (if b then poll_frame ?r s A x t \<and> retried ?r s t else poll_at ?r s A x (u64 (?n + 1)) t))
      (if b then ret () else do { emit m1; emit m2; updateTransactionStatus env ?r Failed }) ?Q" for b m1 m2
  proof (cases "\<not> b \<and> \<not> ?room")
    case True
    then have "\<not> b" and "\<not> ?room" by blast+
    then show ?thesis by (simp only: if_False) (rule hoare_pre [OF give_up [OF \<open>\<not> ?room\<close>]], blast)
  next
    case False
    then show ?thesis by (cases b) (auto simp: hoare_def)
  qed
  show ?thesis
    unfolding retry_or_fail_def by (rule hoare_bind [OF inc], rule hoare_bind [OF again rest])
qed

lemma p_confirm:
  assumes "map_of A a = Some st" and "map_of (unconfirmedSequences st) q = Some u" and "utx_Hash u = h"
  shows "\<exists>st'. Confirm q h f st = Ok st' \<and>
     (\<forall>s. accountStore s = A \<longrightarrow>
        run_state (call_store a (Confirm q h f)) s = (Ok (), s\<lparr>accountStore := AList.update a st' A\<rparr>))"
  using assms by (auto simp: Confirm_def Let_def call_store_def run_prims GetTxStore_def simp del: map_of_eq_Some_iff)

text \<open>\<open>taken_out f\<close>: the record of \<open>u\<close> has left the store of \<open>a\<close> as \<open>Confirm\<close> takes it out, with the
  number given back for use when \<open>f\<close>.\<close>

definition taken_out :: "string \<Rightarrow> TxStore \<Rightarrow> UnconfirmedTx \<Rightarrow> bool \<Rightarrow> Txm \<Rightarrow> Txm \<Rightarrow> bool" where
  "taken_out a st u f s s' \<longleftrightarrow> (\<exists>st'. Confirm (utx_Sequence u) (utx_Hash u) f st = Ok st' \<and>
     accountStore s' = AList.update a st' (accountStore s))"

lemma p_branch:
  assumes "map_of (accountStore s) a = Some st" and "map_of (unconfirmedSequences st) (utx_Sequence u) = Some u"
    and "\<And>A. hoare (poll_at (utx_Tx u) s A (tx_ResultXDR (heap s (utx_Tx u))) (tx_Attempt (heap s (utx_Tx u)))) m
       (\<lambda>_ t. poll_frame (utx_Tx u) s A x t \<and> Q t)"
  shows "hoare (poll_at (utx_Tx u) s (accountStore s) (tx_ResultXDR (heap s (utx_Tx u))) (tx_Attempt (heap s (utx_Tx u)))) (do {
       confirmed \<leftarrow> call_store a (Confirm (utx_Sequence u) (utx_Hash u) f);
       if \<not> is_Ok confirmed then m0 else m })
     (\<lambda>_ t. taken_out a st u f s t \<and> (\<forall>k. k \<noteq> utx_Tx u \<longrightarrow> heap t k = heap s k) \<and>
        tx_ResultXDR (heap t (utx_Tx u)) = x \<and> txm_config t = txm_config s \<and> Q t)"
proof (rule hoareI)
  obtain st' where ok: "Confirm (utx_Sequence u) (utx_Hash u) f st = Ok st'"
    and call: "\<And>t. accountStore t = accountStore s \<Longrightarrow>
         run_state (call_store a (Confirm (utx_Sequence u) (utx_Hash u) f)) t =
         (Ok (), t\<lparr>accountStore := AList.update a st' (accountStore s)\<rparr>)"
    using p_confirm [OF assms(1,2) refl, of f] by blast
  fix t y t'
  assume P: "poll_at (utx_Tx u) s (accountStore s) (tx_ResultXDR (heap s (utx_Tx u))) (tx_Attempt (heap s (utx_Tx u))) t"
    and run: "run_state (do {
       confirmed \<leftarrow> call_store a (Confirm (utx_Sequence u) (utx_Hash u) f);
       if \<not> is_Ok confirmed then m0 else m }) t = (y, t')"
  then have "run_state m (t\<lparr>accountStore := AList.update a st' (accountStore s)\<rparr>) = (y, t')"
    by (simp add: call poll_defs)
  from hoareD [OF assms(3) _ this] P ok
  show "taken_out a st u f s t' \<and> (\<forall>k. k \<noteq> utx_Tx u \<longrightarrow> heap t' k = heap s k) \<and>
      tx_ResultXDR (heap t' (utx_Tx u)) = x \<and> txm_config t' = txm_config s \<and> Q t'"
    unfolding poll_defs taken_out_def by auto
qed

lemma p_success:
  assumes "map_of (accountStore s) a = Some st" and "map_of (unconfirmedSequences st) (utx_Sequence u) = Some u"
  shows "hoare (poll_at (utx_Tx u) s (accountStore s) (tx_ResultXDR (heap s (utx_Tx u))) (tx_Attempt (heap s (utx_Tx u))))
     (on_success env lib a u resp)
     (\<lambda>_ t. taken_out a st u False s t \<and> (\<forall>k. k \<noteq> utx_Tx u \<longrightarrow> heap t k = heap s k) \<and>
        tx_ResultXDR (heap t (utx_Tx u)) = get_ResultXDR resp \<and> txm_config t = txm_config s \<and>
        finalized_done (utx_Tx u) t \<and> broadcastChan t = broadcastChan s)"
proof -
  have rec: "keeps (poll_at r s A x n) (recordTimeUntilConfirmed env r)" for r A x n
    unfolding recordTimeUntilConfirmed_def time_since_def time_now_def
    by (intro keeps_intros p_observe keeps_get_tx)
  have fin: "hoare (poll_at r s A x n) (updateTransactionStatus env r Finalized)
      (\<lambda>_ t. poll_frame r s A x t \<and> finalized_done r t \<and> broadcastChan t = broadcastChan s)" for r A x n
    by (rule hoare_post [OF p_terminal]) (auto simp: isTerminalStatus_def finalized_done_def)
  show ?thesis
    unfolding on_success_def
    by (rule p_branch [OF assms])
       (intro hoare_bind [OF p_fields(5)] hoare_bind [OF p_fields(1)] hoare_bind [OF keeps_if] hoare_bind [OF p_fields(3)]
         hoare_bind [OF p_observe(2)] hoare_bind [OF rec] fin p_fields keeps_ret keeps_result)
qed

lemma p_failed:
  assumes "map_of (accountStore s) a = Some st" and "map_of (unconfirmedSequences st) (utx_Sequence u) = Some u"
  shows "hoare (poll_at (utx_Tx u) s (accountStore s) (tx_ResultXDR (heap s (utx_Tx u))) (tx_Attempt (heap s (utx_Tx u))))
     (on_failed env lib a u resp)
     (\<lambda>_ t. taken_out a st u False s t \<and> (\<forall>k. k \<noteq> utx_Tx u \<longrightarrow> heap t k = heap s k) \<and>
        tx_ResultXDR (heap t (utx_Tx u)) = get_ResultXDR resp \<and> txm_config t = txm_config s \<and>
        (if fc_retryable (classifyFailedTransactionResult lib (get_ResultXDR resp)) then retried (utx_Tx u) s t
         else failed_done (utx_Tx u) t \<and> broadcastChan t = broadcastChan s))"
proof -
  have over: "hoare (poll_at r s A x n) (do { emit m; updateTransactionStatus env r Failed })
      (\<lambda>_ t. poll_frame r s A x t \<and> (failed_done r t \<and> broadcastChan t = broadcastChan s))" for r A x n m
    by (rule hoare_bind [OF p_observe(2)], rule hoare_post [OF p_terminal])
       (auto simp: isTerminalStatus_def failed_done_def)
  show ?thesis
    unfolding on_failed_def Let_def
    by (rule p_branch [OF assms], rule hoare_bind [OF p_fields(5)], rule hoare_bind [OF p_fields(1)],
        rule hoare_bind [OF p_fields(3)], rule hoare_if) (simp_all add: over p_retry)
qed

lemma p_expired:
  assumes "map_of (accountStore s) a = Some st" and "map_of (unconfirmedSequences st) (utx_Sequence u) = Some u"
  shows "hoare (poll_at (utx_Tx u) s (accountStore s) (tx_ResultXDR (heap s (utx_Tx u))) (tx_Attempt (heap s (utx_Tx u))))
     (on_expired env a u)
     (\<lambda>_ t. taken_out a st u True s t \<and> (\<forall>k. k \<noteq> utx_Tx u \<longrightarrow> heap t k = heap s k) \<and>
        tx_ResultXDR (heap t (utx_Tx u)) = tx_ResultXDR (heap s (utx_Tx u)) \<and> txm_config t = txm_config s \<and>
        retried (utx_Tx u) s t)"
  unfolding on_expired_def by (rule p_branch [OF assms p_retry])

text \<open>The two clocks that expire a transaction: the ledger after its ledger bound, and the age of
  the request.\<close>

definition poll_expired :: "env \<Rightarrow> client \<Rightarrow> UnconfirmedTx \<Rightarrow> Txm \<Rightarrow> bool" where
  "poll_expired env client u s \<longleftrightarrow>
     (case rpc_GetLatestLedger_at env (Suc (clock s)) client of Ok l \<Rightarrow> l > utx_MaxLedger u | _ \<Rightarrow> False) \<or>
     time_sub (now_at env (Suc (Suc (clock s)))) (tx_Timestamp (heap s (utx_Tx u))) >
       i64 (the (TxTimeoutSecs (txm_config s)) * second)"

text \<open>A poll that learns nothing: an expired transaction is retried, and for any other one the
  poll changes nothing at all (it has had three interactions with the outside).\<close>

definition poll_undecided :: "env \<Rightarrow> client \<Rightarrow> string \<Rightarrow> TxStore \<Rightarrow> UnconfirmedTx \<Rightarrow> Txm \<Rightarrow> bool \<Rightarrow> Txm \<Rightarrow> bool" where
  "poll_undecided env client a st u s pending s' \<longleftrightarrow>
     (if poll_expired env client u s then \<not> pending \<and> taken_out a st u True s s' \<and> retried (utx_Tx u) s s'
      else pending \<and> s' = s\<lparr>clock := clock s + 3\<rparr>)"

lemma p_start: "poll_at r s (accountStore s) (tx_ResultXDR (heap s r)) (tx_Attempt (heap s r)) (s\<lparr>clock := k\<rparr>)"
  by (simp add: poll_defs)

lemma p_undecided:
  assumes "map_of (accountStore s) a = Some st" and "map_of (unconfirmedSequences st) (utx_Sequence u) = Some u"
    and "run_state (check_expiry env client a u) (s\<lparr>clock := Suc (clock s)\<rparr>) = (pending, s')"
  shows "poll_undecided env client a st u s pending s' \<and> (\<forall>k. k \<noteq> utx_Tx u \<longrightarrow> heap s' k = heap s k)"
proof (cases "poll_expired env client u s")
  case True
  obtain y t where run: "run_state (on_expired env a u) (s\<lparr>clock := Suc (Suc (Suc (clock s)))\<rparr>) = (y, t)"
    by (metis surj_pair)
  have "(pending, s') = (False, t)"
    using assms(3) True run
    by (auto simp: check_expiry_def time_since_def run_prims poll_expired_def cfg_secs_def Let_def split: if_splits)
  with hoareD [OF p_expired [OF assms(1,2)] p_start run] True show ?thesis by (simp add: poll_undecided_def)
next
  case False
  with assms(3) show ?thesis
    by (auto simp: check_expiry_def time_since_def run_prims poll_expired_def poll_undecided_def cfg_secs_def Let_def
        split: if_splits)
qed

section \<open>Properties\<close>

text \<open>C4: A broadcast that runs while the manager is not being stopped never leaves its
  transaction behind silently: it is Failed with its waiters released, or Unconfirmed and
  recorded in a sequence store under its hash, or back in the broadcast channel, or the
  channel was full and the drop was counted.\<close>

theorem broadcast_concludes:
  assumes "alive env" and "run_state (simulateAssembleSignAndSend env lib r) s = (Ok (), s')"
  shows "failed_done r s' \<or> (tx_Status (heap s' r) = Unconfirmed \<and> recorded r s') \<or> r \<in> set (broadcastChan s') \<or>
     (chan_capacity s' \<le> length (broadcastChan s') \<and> metrics s' \<noteq> [] \<and>
      last (metrics s') = IncrementDroppedTxs DropReasonChannelFullNewRejected)"
  using hoareD [OF b_broadcast [OF assms(1), of "\<lambda>_. True"] _ assms(2)]
  by (simp add: concluded_def settled_def)

theorem broadcast_concludes_witness:
  "\<exists>s'. run_state (simulateAssembleSignAndSend sample_env sample_sdk 0) (after_enqueue\<lparr>broadcastChan := []\<rparr>) = (Ok (), s')
     \<and> (failed_done 0 s' \<or> tx_Status (heap s' 0) = Unconfirmed \<and> recorded 0 s' \<or> 0 \<in> set (broadcastChan s') \<or>
        chan_capacity s' \<le> length (broadcastChan s') \<and> metrics s' \<noteq> [] \<and>
        last (metrics s') = IncrementDroppedTxs DropReasonChannelFullNewRejected)
     \<and> tx_TxHash (heap s' 0) = ''hash''"
proof -
  obtain s' where run: "run_state (simulateAssembleSignAndSend sample_env sample_sdk 0) (after_enqueue\<lparr>broadcastChan := []\<rparr>) = (Ok (), s')"
      and "tx_TxHash (heap s' 0) = ''hash''"
    using run_broadcast [of "after_enqueue\<lparr>broadcastChan := []\<rparr>" 0]
    by (auto simp: after_enqueue_state zero_tx_def sent_from_def)
  moreover have "alive sample_env" by (simp add: alive_def sample_env_sel)
  ultimately show ?thesis using broadcast_concludes [OF _ run] by blast
qed

text \<open>C8: A broadcast that gets no RPC client submits nothing and touches no store and no other
  transaction; it counts one infra attempt. Below the infra budget the transaction goes back to
  the end of the channel; when the channel is full it is dropped, with no other effect than the
  drop metric: it is not queued again, and keeps its status with its waiters blocked. At the
  budget it is failed with its waiters released.\<close>

theorem getclient_failure_outcome:
  assumes "alive env" and "getClient_at env (clock s) = Err e"
    and "run_state (simulateAssembleSignAndSend env lib r) s = (x, s')"
  shows "x = Ok () \<and> accountStore s' = accountStore s \<and> submissions s' = submissions s \<and>
     (\<forall>k. k \<noteq> r \<longrightarrow> heap s' k = heap s k) \<and> tx_InfraAttempts (heap s' r) = u64 (tx_InfraAttempts (heap s r) + 1) \<and>
     (if u64 (tx_InfraAttempts (heap s r) + 1) <
         (case MaxGetClientRetryAttempts (txm_config s) of None \<Rightarrow> 0 | Some m \<Rightarrow> m)
      then tx_Status (heap s' r) = tx_Status (heap s r) \<and> tx_Done (heap s' r) = tx_Done (heap s r) \<and>
        (if length (broadcastChan s) < chan_capacity s
         then broadcastChan s' = broadcastChan s @ [r] \<and> metrics s' = metrics s
         else broadcastChan s' = broadcastChan s \<and>
           metrics s' = metrics s @ [IncrementDroppedTxs DropReasonChannelFullNewRejected])
      else failed_done r s' \<and> broadcastChan s' = broadcastChan s \<and>
        metrics s' = metrics s @ [IncrementMaxAttemptsReached RetryBudgetInfra, IncrementErrorTxs ErrorReasonClientUnavailable])"
proof -
  let ?n = "u64 (tx_InfraAttempts (heap s r) + 1)"
  let ?budget = "case MaxGetClientRetryAttempts (txm_config s) of None \<Rightarrow> 0 | Some m \<Rightarrow> m"
  let ?s = "s\<lparr>clock := Suc (clock s), heap := (heap s)(r := (heap s r)\<lparr>tx_InfraAttempts := ?n\<rparr>)\<rparr>"
  let ?t = "?s\<lparr>metrics := metrics s @ [IncrementMaxAttemptsReached RetryBudgetInfra]\<rparr>"
  show ?thesis
  proof (cases "?n < ?budget")
    case True
    then show ?thesis
      using assms
      by (auto simp: simulateAssembleSignAndSend_def retryGetClientOrFail_def incrementInfraAttempts_def
          getInfraAttempts_def run_prims sleep_def alive_def try_send_def chan_capacity_def Let_def split: if_splits)
  next
    case False
    obtain y t where run: "run_state (updateTransactionStatus env r Failed) ?t = (y, t)" by (metis surj_pair)
    from False run assms(2,3) have "x = Ok ()" "s' = t\<lparr>metrics := metrics t @ [IncrementErrorTxs ErrorReasonClientUnavailable]\<rparr>"
      by (simp_all add: simulateAssembleSignAndSend_def retryGetClientOrFail_def incrementInfraAttempts_def
          getInfraAttempts_def run_prims markTxFailed_def Let_def)
    moreover note at = run_status [OF run]
    ultimately show ?thesis
      using False at(1,2,13,14) at(7) at(17) at(11,12) by (simp add: failed_done_def isTerminalStatus_def)
  qed
qed

definition full_txm :: Txm where
  "full_txm = after_enqueue\<lparr>txm_config := (txm_config after_enqueue)\<lparr>BroadcastChanSize := Some 1\<rparr>, broadcastChan := [1]\<rparr>"

theorem getclient_failure_outcome_witness:
  "\<exists>s'. run_state (simulateAssembleSignAndSend (sample_env\<lparr>getClient_at := \<lambda>_. Err (New ''down'')\<rparr>) sample_sdk 0) full_txm = (Ok (), s') \<and>
     tx_Status (heap s' 0) = Pending \<and> \<not> tx_Done (heap s' 0) \<and> broadcastChan s' = [1] \<and> accountStore s' = []"
proof -
  let ?env = "sample_env\<lparr>getClient_at := \<lambda>_. Err (New ''down'')\<rparr>"
  obtain x s' where run: "run_state (simulateAssembleSignAndSend ?env sample_sdk 0) full_txm = (x, s')"
    by (metis surj_pair)
  have "alive ?env" and "getClient_at ?env (clock full_txm) = Err (New ''down'')"
    by (simp_all add: alive_def sample_env_sel)
  from getclient_failure_outcome [OF this run] run show ?thesis
    by (simp add: full_txm_def after_enqueue_state zero_tx_def default_config_fields chan_capacity_def u64_def)
qed

text \<open>C5: The answer of the node decides how a poll of an unconfirmed transaction ends. A success
  takes the record out of the store, keeps the result and finalizes the transaction with its
  waiters released. A failure takes it out, keeps the result, and by the class of the result
  retries the transaction or fails it. Any other answer, an error included, retries it when its
  ledger bound or its time is over and otherwise leaves it pending and the whole state as it was.
  A retry queues the transaction exactly when the retry budget and the channel have room, and
  fails it otherwise; no poll touches another transaction.\<close>

theorem poll_outcome:
  assumes "map_of (accountStore s) a = Some st"
    and "map_of (unconfirmedSequences st) (utx_Sequence u) = Some u"
    and "run_state (check_one env lib client a u) s = (pending, s')"
  shows "(\<forall>k. k \<noteq> utx_Tx u \<longrightarrow> heap s' k = heap s k) \<and>
    (case rpc_GetTransaction_at env (clock s) client (utx_Hash u) of
       Ok x \<Rightarrow> (case get_Status x of
           StatusSuccess \<Rightarrow> \<not> pending \<and> taken_out a st u False s s' \<and> finalized_done (utx_Tx u) s' \<and>
             tx_ResultXDR (heap s' (utx_Tx u)) = get_ResultXDR x \<and> broadcastChan s' = broadcastChan s
         | StatusFailed \<Rightarrow> \<not> pending \<and> taken_out a st u False s s' \<and>
             tx_ResultXDR (heap s' (utx_Tx u)) = get_ResultXDR x \<and>
             (if fc_retryable (classifyFailedTransactionResult lib (get_ResultXDR x)) then retried (utx_Tx u) s s'
              else failed_done (utx_Tx u) s' \<and> broadcastChan s' = broadcastChan s)
         | _ \<Rightarrow> poll_undecided env client a st u s pending s')
     | _ \<Rightarrow> poll_undecided env client a st u s pending s')"
proof -
  let ?s = "s\<lparr>clock := Suc (clock s)\<rparr>"
  note und = p_undecided [OF assms(1,2)]
  show ?thesis
  proof (cases "rpc_GetTransaction_at env (clock s) client (utx_Hash u)")
    case (Ok x)
    obtain y t where suc: "run_state (on_success env lib a u x) ?s = (y, t)" by (metis surj_pair)
    obtain z t' where fld: "run_state (on_failed env lib a u x) ?s = (z, t')" by (metis surj_pair)
    show ?thesis
      using assms(3) Ok suc fld hoareD [OF p_success [OF assms(1,2)] p_start suc]
        hoareD [OF p_failed [OF assms(1,2)] p_start fld] und
      by (cases "get_Status x") (simp_all add: check_one_def run_prims split: if_splits)
  qed (use assms(3) und in \<open>auto simp: check_one_def run_prims\<close>)
qed

theorem poll_outcome_witness:
  "\<exists>s'. run_state (check_one sample_env sample_sdk (Some 7) zero_account (sample_record 0)) after_pass = (False, s') \<and>
     finalized_done 0 s' \<and> broadcastChan s' = [] \<and>
     (\<exists>st'. Confirm 10 ''hash'' False (snd (hd (sample_store 0))) = Ok st' \<and>
        accountStore s' = AList.update zero_account st' (sample_store 0))"
proof -
  obtain p s' where run: "run_state (check_one sample_env sample_sdk (Some 7) zero_account (sample_record 0)) after_pass = (p, s')"
    by fastforce
  moreover have "map_of (accountStore after_pass) zero_account = Some (snd (hd (sample_store 0)))"
    "map_of (unconfirmedSequences (snd (hd (sample_store 0)))) (utx_Sequence (sample_record 0)) = Some (sample_record 0)"
    by (simp_all add: after_pass_state sample_store_def sample_record_def)
  ultimately show ?thesis
    using poll_outcome [OF _ _ run] run
    by (simp add: after_pass_state sample_record_def sample_env_sel taken_out_def del: map_of_eq_Some_iff)
qed




end
