(* ===== verification/Txm_Intake.thy ===== *)
theory Txm_Intake
  imports Txm_Outcomes
begin

text \<open>
  The intake of the transaction manager, in every reachable state: what Enqueue does with a
  request whose id is known, with a fresh one, and with a fresh one when the channel is full.
\<close>

section \<open>What the intake does\<close>

text \<open>The transaction object an accepted request becomes.\<close>

definition pending_tx :: "TxRequest \<Rightarrow> int \<Rightarrow> StellarTx" where
  "pending_tx req now = zero_tx\<lparr>tx_ID := req_ID req, tx_Timestamp := now, tx_FromAddress := req_FromAddress req,
     tx_Operations := req_Operations req, tx_LedgerBoundsOffset := req_LedgerBoundsOffset req,
     tx_Metadata := req_Metadata req, tx_Status := Pending\<rparr>"

lemma pending_tx_ID [simp]: "tx_ID (pending_tx req now) = req_ID req"
  by (simp add: pending_tx_def)

definition valid_request :: "sdk \<Rightarrow> TxRequest \<Rightarrow> bool" where
  "valid_request lib req \<longleftrightarrow> req_ID req \<noteq> [] \<and> length (req_Operations req) = 1 \<and> req_FromAddress req \<noteq> [] \<and>
     is_Ok (AddressToAccountId lib (req_FromAddress req))"

lemma run_Enqueue:
  assumes "valid_request lib req"
  shows "run_state (Enqueue env lib req) s = run_state (enqueueTransaction env (next_ref s))
     (s\<lparr>clock := Suc (clock s), heap := (heap s)(next_ref s := pending_tx req (now_at env (clock s))),
        next_ref := Suc (next_ref s)\<rparr>)"
  using assms
  by (auto simp: Enqueue_def valid_request_def is_Ok_iff run_prims alloc_def pending_tx_def zero_tx_def)

lemma run_enqueue_fresh:
  assumes "transactions s (tx_ID (heap s r)) = None" and "\<not> stopped s" and "length (broadcastChan s) < chan_capacity s"
  shows "run_state (enqueueTransaction env r) s = (Ok (tx_ID (heap s r)),
     s\<lparr>transactions := (transactions s)(tx_ID (heap s r) \<mapsto> r), broadcastChan := broadcastChan s @ [r]\<rparr>)"
  using assms by (simp add: enqueueTransaction_def run_prims try_send_def chan_capacity_def)

lemma d_drop:
  "hoare (\<lambda>s. broadcastChan s = C \<and> accountStore s = A \<and> txm_config s = c \<and> transactions s i = Some r \<and> heap s r = t \<and>
       old \<noteq> r \<and> (transactions s (tx_ID (heap s old)) = Some old) = reg)
     (dropOldestForBackpressure env (Some old))
     (\<lambda>_ s. broadcastChan s = C \<and> accountStore s = A \<and> txm_config s = c \<and> transactions s i = Some r \<and> heap s r = t \<and>
       (reg \<longrightarrow> failed_done old s))"
  by (auto simp: dropOldestForBackpressure_def updateTransactionStatus_def isTerminalStatus_def run_prims failed_done_def
      stampTerminalTime_def maybeEvictTerminalTx_def closeDone_def split: if_splits)


lemma run_enqueue_full:
  assumes "transactions s (tx_ID (heap s r)) = None" and "\<not> stopped s" and "broadcastChan s = old # rest"
    and "length (broadcastChan s) = chan_capacity s" and "old \<noteq> r"
  shows "\<exists>s'. run_state (enqueueTransaction env r) s = (Ok (tx_ID (heap s r)), s') \<and>
     broadcastChan s' = rest @ [r] \<and> accountStore s' = accountStore s \<and> transactions s' (tx_ID (heap s r)) = Some r \<and>
     heap s' r = heap s r \<and> (transactions s (tx_ID (heap s old)) = Some old \<longrightarrow> failed_done old s')"
proof -
  let ?i = "tx_ID (heap s r)"
  let ?s = "s\<lparr>transactions := (transactions s)(?i \<mapsto> r), broadcastChan := rest\<rparr>"
  obtain x s1 where run: "run_state (dropOldestForBackpressure env (Some old)) ?s = (x, s1)"
    by (cases "run_state (dropOldestForBackpressure env (Some old)) ?s") auto
  have "transactions s (tx_ID (heap s old)) = Some old \<Longrightarrow> tx_ID (heap s old) \<noteq> ?i" using assms(1) by auto
  then have "(transactions ?s (tx_ID (heap ?s old)) = Some old) = (transactions s (tx_ID (heap s old)) = Some old)"
    using assms(5) by auto
  with hoareD [OF d_drop [of rest "accountStore s" "txm_config s" ?i r "heap s r" old
       "transactions s (tx_ID (heap s old)) = Some old" env] _ run] assms(5)
  have s1: "broadcastChan s1 = rest" "accountStore s1 = accountStore s" "txm_config s1 = txm_config s"
    "transactions s1 ?i = Some r" "heap s1 r = heap s r"
    "transactions s (tx_ID (heap s old)) = Some old \<longrightarrow> failed_done old s1" by auto
  have "run_state (enqueueTransaction env r) s = (Ok ?i, s1\<lparr>broadcastChan := rest @ [r]\<rparr>)"
    using assms(1-4) s1(1,3) run
    by (simp add: enqueueTransaction_def run_prims try_send_def try_recv_def chan_capacity_def)
  then show ?thesis using s1 by (simp add: failed_done_def)
qed

lemma run_enqueue_known:
  assumes "transactions s (tx_ID (heap s r)) \<noteq> None"
  shows "run_state (enqueueTransaction env r) s = (Ok (tx_ID (heap s r)),
     s\<lparr>heap := (heap s)(r := (heap s r)\<lparr>tx_Done := True\<rparr>)\<rparr>)"
  using assms by (auto simp: enqueueTransaction_def run_prims closeDone_def)

text \<open>C3: A valid request to a running manager is always accepted under its id. A known id
  changes nothing (idempotence). A fresh id registers a new pending transaction and puts it at
  the end of the channel, in a channel with room behind what was there, in a full one behind
  all but the oldest transaction; the evicted one, if it is still the registered one, is
  Failed and its waiters are released.\<close>

theorem enqueue_effect:
  assumes "reachable env lib s" and "\<not> stopped s" and "0 < chan_capacity s" and "valid_request lib req"
  shows "\<exists>s'. run_state (Enqueue env lib req) s = (Ok (req_ID req), s') \<and> accountStore s' = accountStore s \<and>
     (case transactions s (req_ID req) of
        Some _ \<Rightarrow> broadcastChan s' = broadcastChan s \<and> transactions s' = transactions s \<and>
          (\<forall>r < next_ref s. heap s' r = heap s r)
      | None \<Rightarrow> transactions s' (req_ID req) = Some (next_ref s) \<and>
          heap s' (next_ref s) = pending_tx req (now_at env (clock s)) \<and>
          (if length (broadcastChan s) < chan_capacity s then broadcastChan s' = broadcastChan s @ [next_ref s]
           else \<exists>old rest. broadcastChan s = old # rest \<and> broadcastChan s' = rest @ [next_ref s] \<and>
             (transactions s (tx_ID (heap s old)) = Some old \<longrightarrow> failed_done old s')))"
proof -
  let ?r = "next_ref s"
  let ?s = "s\<lparr>clock := Suc (clock s), heap := (heap s)(?r := pending_tx req (now_at env (clock s))), next_ref := Suc ?r\<rparr>"
  have bound: "length (broadcastChan s) \<le> chan_capacity s"
    using chan.reachable_keeps [OF _ assms(1)] NewTxm_invariants(3) by (simp add: chan_ok_def)
  have old: "k < ?r" if "k \<in> set (broadcastChan s)" for k
    using o_reachable [OF assms(1)] that by (auto simp: once_def tokens_def)
  have cap: "chan_capacity ?s = chan_capacity s" by (simp add: chan_capacity_def)
  show ?thesis
  proof (cases "transactions s (req_ID req)")
    case (Some k)
    with run_enqueue_known [of ?s ?r env] show ?thesis
      by (simp add: run_Enqueue [OF assms(4)])
  next
    case None
    show ?thesis
    proof (cases "length (broadcastChan s) < chan_capacity s")
      case True
      with run_enqueue_fresh [of ?s ?r env] None show ?thesis
        by (simp add: run_Enqueue [OF assms(4)] cap assms(2))
    next
      case False
      with bound assms(3) obtain k rest where chan: "broadcastChan s = k # rest" by (cases "broadcastChan s") auto
      from old [of k] have "k < ?r" by (simp add: chan)
      with run_enqueue_full [of ?s ?r k rest env] None chan False bound assms(2)
      obtain s' where "run_state (enqueueTransaction env ?r) ?s = (Ok (req_ID req), s')"
        "broadcastChan s' = rest @ [?r]" "accountStore s' = accountStore s" "transactions s' (req_ID req) = Some ?r"
        "heap s' ?r = pending_tx req (now_at env (clock s))"
        "transactions s (tx_ID (heap s k)) = Some k \<longrightarrow> failed_done k s'"
        by (auto simp: cap)
      with None chan False show ?thesis by (simp add: run_Enqueue [OF assms(4)])
    qed
  qed
qed

theorem enqueue_effect_witness:
  "\<exists>s'. run_state (Enqueue sample_env sample_sdk sample_req) sample_txm = (Ok ''tx1'', s') \<and>
     transactions s' ''tx1'' = Some 0 \<and> heap s' 0 = pending_tx sample_req 1000 \<and> broadcastChan s' = [0]"
proof -
  have "valid_request sample_sdk sample_req"
    by (simp add: valid_request_def sample_req_def zero_account_ne sample_account)
  moreover have "\<not> stopped sample_txm" "chan_capacity sample_txm = 100" "transactions sample_txm ''tx1'' = None"
      "next_ref sample_txm = 0" "broadcastChan sample_txm = []" "clock sample_txm = 0"
    by (simp_all add: chan_capacity_def sample_config_eq default_config_fields)
       (simp_all add: sample_txm_def NewTxm_def Let_def)
  moreover have "req_ID sample_req = ''tx1''" by (simp add: sample_req_def)
  ultimately show ?thesis
    using enqueue_effect [OF reach_new [OF sample_new], of sample_sdk sample_req sample_env] by (auto simp: sample_env_sel)
qed

end
