(* ===== verification/Txm_Wire.thy ===== *)
theory Txm_Wire
  imports Txm_Sample
begin

text \<open>
  What a broadcast sends to the network: the fields of the envelope, and how many envelopes
  one broadcast can produce.
\<close>

section \<open>What goes on the wire\<close>

lemma w_build:
  assumes "txnbuild_laws lib" and "0 < q" and "in_i64 q"
    and "run_state (buildPreliminaryTx env lib (Some t) q m) s = (Ok p, s')"
  shows "t_Sequence p = q" "t_AccountID p = tx_FromAddress t" "t_Operations p = tx_Operations t"
    "t_MaxLedger p = Some m" "heap s' = heap s"
proof -
  from assms(4) obtain tp where "NewTransaction lib tp = Ok p" "tp_AccountID tp = tx_FromAddress t"
    "tp_Sequence tp = max 0 (i64 (q - 1))" "tp_IncrementSequenceNum tp" "tp_Operations tp = tx_Operations t"
    "tp_MaxLedger tp = Some m" "heap s' = heap s"
    by (auto simp: buildPreliminaryTx_def run_prims)
  moreover have "i64 (max 0 (i64 (q - 1)) + 1) = q"
    using assms(2,3) by (simp add: i64_id in_i64_def)
  ultimately show "t_Sequence p = q" "t_AccountID p = tx_FromAddress t" "t_Operations p = tx_Operations t"
    "t_MaxLedger p = Some m" "heap s' = heap s"
    using assms(1) unfolding txnbuild_laws_def by metis+
qed

lemma w_simulate: "hoare (\<lambda>s. heap s = h) (simulateTransaction env lib client t) (\<lambda>_ s. heap s = h)"
  unfolding simulateTransaction_def
  by (auto simp: run_prims time_since_def split: option.splits result.splits)

abbreviation wired :: "StellarTx \<Rightarrow> tx_ref \<Rightarrow> int \<Rightarrow> (Transaction \<times> SimulateTransactionResponse \<times> int) result \<Rightarrow> Txm \<Rightarrow> bool" where
  "wired t r q x s \<equiv> (case x of Ok (p, sim, m) \<Rightarrow> t_Sequence p = q \<and> t_AccountID p = tx_FromAddress t \<and>
      t_Operations p = tx_Operations t \<and> t_MaxLedger p = Some m \<and> tx_MaxLedger (heap s r) = m
    | _ \<Rightarrow> True)"

lemma w_loop:
  assumes "txnbuild_laws lib" and "0 < q" and "in_i64 q"
  shows "hoare (\<lambda>s. tx_FromAddress (heap s r) = tx_FromAddress t \<and> tx_Operations (heap s r) = tx_Operations t)
     (simulate_loop env lib client r q n k e) (wired t r q)"
proof (induction "n - k" arbitrary: k e)
  case 0
  then show ?case by (subst simulate_loop.simps) (auto intro: hoare_ret)
next
  case (Suc d)
  let ?P = "\<lambda>s. tx_FromAddress (heap s r) = tx_FromAddress t \<and> tx_Operations (heap s r) = tx_Operations t"
  let ?R = "\<lambda>m t' s. t' = heap s r \<and> tx_MaxLedger (heap s r) = m \<and> ?P s"
  let ?B = "\<lambda>m x s. tx_MaxLedger (heap s r) = m \<and> ?P s \<and> (case x of Ok p \<Rightarrow> t_Sequence p = q \<and>
      t_AccountID p = tx_FromAddress t \<and> t_Operations p = tx_Operations t \<and> t_MaxLedger p = Some m | _ \<Rightarrow> True)"
  have IH: "hoare ?P (simulate_loop env lib client r q n (Suc k) e) (wired t r q)" for e
    using Suc.hyps by simp
  have prims: "keeps ?P (ask g)" "keeps ?P (sleep env)" for g :: "nat \<Rightarrow> 'x" by (auto simp: run_prims sleep_def)
  have stop: "hoare ?P (ret (Err e)) (wired t r q)" "hoare ?P (ret (Panic p)) (wired t r q)" for e p
    by (auto intro: hoare_ret)
  have ctx: "hoare ?P (do { c \<leftarrow> ctx_Err env; ret (Err c) }) (wired t r q)"
    by (auto simp: hoare_def ctx_Err_def ask_def tick_def)
  have retry: "keeps ?P (shouldRetrySimulation env e k n)" for e
    by (auto simp: shouldRetrySimulation_def isRetryableSimulationError_def run_prims Let_def split: option.splits)
  have upd: "hoare ?P (upd_tx r (\<lambda>t. t\<lparr>tx_MaxLedger := m\<rparr>)) (\<lambda>_ s. tx_MaxLedger (heap s r) = m \<and> ?P s)" for m
    by (auto simp: run_prims)
  have get: "hoare (\<lambda>s. tx_MaxLedger (heap s r) = m \<and> ?P s) (get_tx r) (?R m)" for m
    by (auto simp: run_prims)
  have build: "hoare (?R m t') (buildPreliminaryTx env lib (Some t') q m) (?B m)" for m t'
  proof (rule hoareI)
    fix s x s' assume R: "?R m t' s" and run: "run_state (buildPreliminaryTx env lib (Some t') q m) s = (x, s')"
    then have "heap s' = heap s" by (auto simp: buildPreliminaryTx_def run_prims)
    with R w_build [OF assms, of env t' m s _ s'] run show "?B m x s'" by (cases x) auto
  qed
  have again: "hoare ?P (do { b \<leftarrow> shouldRetrySimulation env e k n; if \<not> b then ret (Err e) else do {
        awake \<leftarrow> sleepBeforeSimulationRetry env;
        if \<not> awake then do { c \<leftarrow> ctx_Err env; ret (Err c) }
        else simulate_loop env lib client r q n (Suc k) e } }) (wired t r q)" for e
    unfolding sleepBeforeSimulationRetry_def
    by (intro hoare_bind [OF retry] hoare_if stop hoare_bind [OF prims(2)] ctx IH)
  have sim: "hoare (?B m (Ok p)) (simulateTransaction env lib client (Some p)) (\<lambda>_. ?B m (Ok p))" for m p
    by (rule hoareI) (auto dest: hoareD [OF w_simulate _, OF refl])
  have fin: "hoare (?B m (Ok p)) (case y of Ok simResult \<Rightarrow> ret (Ok (p, simResult, m)) | Err e \<Rightarrow> f e | Panic e \<Rightarrow> ret (Panic e))
      (wired t r q)" if "\<And>e. hoare ?P (f e) (wired t r q)" for m p y f
    by (cases y) (auto intro: hoare_ret hoare_pre [OF that])
  have tail: "hoare (?B m x) (case x of Panic p \<Rightarrow> ret (Panic p)
      | Err e \<Rightarrow> ret (Err (Errorf ''failed to build preliminary tx: %w'' [AErr e]))
      | Ok p \<Rightarrow> simulateTransaction env lib client (Some p) \<bind>
          (\<lambda>y. case y of Ok simResult \<Rightarrow> ret (Ok (p, simResult, m)) | Err e \<Rightarrow> f e | Panic e \<Rightarrow> ret (Panic e))) (wired t r q)"
    if "\<And>e. hoare ?P (f e) (wired t r q)" for m x f
  proof (cases x)
    case (Ok p)
    show ?thesis
      unfolding Ok result.case by (rule hoare_bind [OF sim fin [OF that], unfolded result.case])
  qed (auto intro: hoare_ret)
  show ?case
    unfolding simulate_loop.simps [of _ _ _ _ _ _ k] sleepBeforeSimulationRetry_def [symmetric] Let_def
    apply (rule hoare_if)
     apply (rule hoare_bind [OF prims(1)], rule hoare_result)
       apply (rule hoare_bind [OF keeps_reads], rule hoare_bind [OF keeps_get_tx], rule hoare_bind [OF upd],
         rule hoare_bind [OF get], rule hoare_bind [OF build])
       apply (rule tail, rule again)
    subgoal by (intro hoare_if stop) (unfold sleepBeforeSimulationRetry_def, intro hoare_bind [OF prims(2)] hoare_if ctx IH)
     apply (rule stop)
    apply (rule stop)
    done
qed

lemma w_new:
  assumes "txnbuild_laws lib" and "NewTransaction lib tp = Ok a" and "\<not> tp_IncrementSequenceNum tp"
  shows "t_Sequence a = tp_Sequence tp" "t_AccountID a = tp_AccountID tp" "t_BaseFee a = tp_BaseFee tp"
    "t_MaxLedger a = tp_MaxLedger tp" "t_Operations a = tp_Operations tp"
  using assms unfolding txnbuild_laws_def by simp_all

lemma w_assemble:
  assumes "txnbuild_laws lib" and "assembleTransaction lib fs (Some p) sim fee m = (Ok (a, charge), ops)"
  shows "t_Sequence a = t_Sequence p" "t_AccountID a = t_AccountID p" "t_BaseFee a = fee" "t_MaxLedger a = Some m"
    "t_Operations a = ops" "\<exists>rf. assembleOps lib fs sim (t_Operations p) = (Ok rf, ops) \<and> charge = i64 (fee + rf)"
proof -
  from assms(2) obtain rf where rf: "assembleOps lib fs sim (t_Operations p) = (Ok rf, ops)" "charge = i64 (fee + rf)"
    and new: "NewTransaction lib \<lparr>tp_AccountID = t_AccountID p, tp_Sequence = t_Sequence p,
      tp_IncrementSequenceNum = False, tp_Operations = ops, tp_BaseFee = fee, tp_TimeBounds = t_TimeBounds p,
      tp_MaxLedger = Some m\<rparr> = Ok a"
    by (auto simp: assembleTransaction_def split: if_splits prod.splits)
  with w_new [OF assms(1) new] show "t_Sequence a = t_Sequence p" "t_AccountID a = t_AccountID p" "t_BaseFee a = fee"
    "t_MaxLedger a = Some m" "t_Operations a = ops"
    "\<exists>rf. assembleOps lib fs sim (t_Operations p) = (Ok rf, ops) \<and> charge = i64 (fee + rf)" by auto
qed

text \<open>C6: The envelope that is signed and sent carries exactly the sequence number that the
  store handed out, the sender of the request, the inclusion fee as its base fee, and the ledger
  bound that is kept with the transaction; its operations are those of the transaction with the
  simulated resources written in, and the fee reported is the inclusion fee plus the resource
  fee (so the resource fee is not charged twice).\<close>

theorem envelope_on_the_wire:
  assumes "txnbuild_laws lib" and "0 < q" and "in_i64 q"
    and "run_state (prepareAndSimulateWithRetry env lib client r q) s = (Ok (p, sim, m), s')"
    and "assembleTransaction lib fs (Some p) sim fee m = (Ok (a, charge), ops)"
  shows "t_Sequence a = q \<and> t_AccountID a = tx_FromAddress (heap s r) \<and> t_BaseFee a = fee \<and>
     t_MaxLedger a = Some (tx_MaxLedger (heap s' r)) \<and> t_Operations a = ops \<and>
     (\<exists>rf. assembleOps lib fs sim (tx_Operations (heap s r)) = (Ok rf, ops) \<and> charge = i64 (fee + rf))"
proof -
  let ?n = "let k = nat (the (MaxSimulateAttempts (txm_config s))) in if k = 0 then 1 else k"
  have "run_state (simulate_loop env lib client r q ?n 0 (New [])) s = (Ok (p, sim, m), s')"
    using assms(4) by (simp add: prepareAndSimulateWithRetry_def run_prims Let_def)
  from hoareD [OF w_loop [OF assms(1-3), of r "heap s r"] _ this]
  have "t_Sequence p = q" "t_AccountID p = tx_FromAddress (heap s r)" "t_Operations p = tx_Operations (heap s r)"
    "tx_MaxLedger (heap s' r) = m" by auto
  with w_assemble [OF assms(1,5)] show ?thesis by auto
qed

theorem envelope_on_the_wire_witness:
  "\<exists>a charge ops. assembleTransaction sample_sdk default_strategy (Some (prelim_of (heap after_enqueue 0) 10 1002)) sample_sim 100 1050
       = (Ok (a, charge), ops) \<and> t_Sequence a = 10 \<and> t_AccountID a = zero_account \<and> t_BaseFee a = 100 \<and>
     t_MaxLedger a = Some 1050"
proof -
  let ?p = "prelim_of (heap after_enqueue 0) 10 1002"
  have run: "run_state (prepareAndSimulateWithRetry sample_env sample_sdk (Some 7) 0 10) after_enqueue =
      (Ok (?p, sample_sim, 1050), simulated after_enqueue 0)"
    using run_simulate [of after_enqueue 0] by (simp add: after_enqueue_state zero_tx_def) (simp add: after_enqueue_def after_enqueue_eq)
  have "\<exists>a charge ops. assembleTransaction sample_sdk default_strategy (Some ?p) sample_sim 100 1050 = (Ok (a, charge), ops)"
    by (simp add: assembleTransaction_def assembleOps_def sample_sdk_sel sample_sim_def prelim_of_def after_enqueue_state
        sample_op_def plain_transaction_def Let_def)
  then obtain a charge ops where asm: "assembleTransaction sample_sdk default_strategy (Some ?p) sample_sim 100 1050 =
      (Ok (a, charge), ops)" by blast
  have "tx_MaxLedger (heap (simulated after_enqueue 0) 0) = 1050" by (simp add: simulated_def)
  with asm envelope_on_the_wire [OF sample_txnbuild_laws _ _ run asm] show ?thesis
    by (simp add: in_i64_def after_enqueue_state)
qed

section \<open>How many envelopes\<close>


















end
