(* ===== verification/Invoker_Adapter.thy ===== *)
theory Invoker_Adapter
  imports Txm_State Converters
begin

text \<open>
  The contract invoker on top of the transaction manager (relayer/txm/invoker_adapter.go) and
  the table of network passphrases (relayer/txm/network.go). The manager is given by the two
  operations of the interface \<open>InvokerTxManager\<close>, which read and write a state of any type.
\<close>

type_synonym 's enqueue_and_wait = "TxRequest \<Rightarrow> ('s, TxResult option result) state"
type_synonym 's simulate_op = "TxRequest \<Rightarrow> ('s, SimulateTransactionResponse result) state"

text \<open>\<open>ia_getClient\<close> is the answer of \<open>getClient\<close>: the event query of the client, or an error.\<close>

record 's InvokerAdapter =
  ia_EnqueueAndWait :: "'s enqueue_and_wait"
  ia_Simulate :: "'s simulate_op"
  ia_getClient :: "(GetEventsRequest \<Rightarrow> EventInfo GetEventsResponse result) result"
  ia_fromAddress :: string
  ia_ledgerBoundsOffset :: int

definition WithInvokerFromAddress :: "string \<Rightarrow> 's InvokerAdapter \<Rightarrow> 's InvokerAdapter" where
  "WithInvokerFromAddress fromAddress a = a\<lparr>ia_fromAddress := fromAddress\<rparr>"

definition WithInvokerLedgerBoundsOffset :: "int \<Rightarrow> 's InvokerAdapter \<Rightarrow> 's InvokerAdapter" where
  "WithInvokerLedgerBoundsOffset offset a = a\<lparr>ia_ledgerBoundsOffset := offset\<rparr>"

text \<open>The interface values may be nil.\<close>

definition NewInvokerAdapter ::
    "('s enqueue_and_wait \<times> 's simulate_op) option \<Rightarrow> (GetEventsRequest \<Rightarrow> EventInfo GetEventsResponse result) result option \<Rightarrow>
     ('s InvokerAdapter \<Rightarrow> 's InvokerAdapter) list \<Rightarrow> 's InvokerAdapter result" where
  "NewInvokerAdapter txm getClient opts =
     (case txm of
        None \<Rightarrow> Err (New ''txm is required'')
      | Some (enq, sim) \<Rightarrow>
          (case getClient of
             None \<Rightarrow> Err (New ''getClient is required'')
           | Some g \<Rightarrow> Ok (fold (\<lambda>opt. opt) opts
               \<lparr>ia_EnqueueAndWait = enq, ia_Simulate = sim, ia_getClient = g, ia_fromAddress = [], ia_ledgerBoundsOffset = 0\<rparr>)))"

definition BuildInvokeContractOperation ::
    "sdk \<Rightarrow> string \<Rightarrow> string \<Rightarrow> ScVal list \<Rightarrow> string \<Rightarrow> InvokeHostFunction result" where
  "BuildInvokeContractOperation lib contractID functionName args fromAddress =
     (if contractID = [] then Err (New ''contractID is required'')
      else if functionName = [] then Err (New ''functionName is required'')
      else
        bind_r (wrap_err (\<lambda>e. Errorf ''decode contract ID %q: %w'' [AStr contractID, AErr e])
                  (strkey_Decode lib VersionByteContract contractID)) (\<lambda>contractBytes.
        case BuildContractScAddress lib contractBytes of
          None \<Rightarrow> Err (Errorf ''build contract address %q'' [AStr contractID])
        | Some contractAddr \<Rightarrow>
            Ok \<lparr>ihf_HostFunction = HostFunctionInvokeContract contractAddr functionName args, ihf_Auth = [],
                ihf_SourceAccount = fromAddress, ihf_Ext = None\<rparr>))"

definition extractReturnValueFromTransactionMeta :: "TransactionMeta option \<Rightarrow> ScVal option result" where
  "extractReturnValueFromTransactionMeta meta =
     (case meta of
        None \<Rightarrow> Ok None
      | Some (MetaV4 soroban) \<Rightarrow> Ok (case soroban of None \<Rightarrow> None | Some v \<Rightarrow> v)
      | Some (MetaV3 soroban) \<Rightarrow> Ok soroban
      | Some (MetaOther v) \<Rightarrow> Err (Errorf ''unsupported transaction meta version: %d'' [AInt v]))"

definition extractReturnValueFromResultMetaXDR :: "sdk \<Rightarrow> string \<Rightarrow> ScVal option result" where
  "extractReturnValueFromResultMetaXDR lib resultMetaXDR =
     (if resultMetaXDR = [] then Ok None
      else bind_r (wrap_err (\<lambda>e. Errorf ''decode result meta XDR: %w'' [AErr e]) (unb64_TransactionMeta lib resultMetaXDR))
             (\<lambda>meta. extractReturnValueFromTransactionMeta (Some meta)))"

definition extractReturnValueFromSimulationResult :: "sdk \<Rightarrow> SimulateTransactionResponse \<Rightarrow> ScVal option result" where
  "extractReturnValueFromSimulationResult lib result =
     (case sim_Results result of
        [] \<Rightarrow> Ok None
      | r # _ \<Rightarrow>
          (case simr_ReturnValueXDR r of
             None \<Rightarrow> Ok None
           | Some x \<Rightarrow>
               if x = [] then Ok None
               else bind_r (wrap_err (\<lambda>e. Errorf ''decode simulation return value XDR: %w'' [AErr e]) (unb64_ScVal lib x))
                      (\<lambda>scVal. Ok (Some scVal))))"

definition invoke_request :: "'s InvokerAdapter \<Rightarrow> InvokeHostFunction \<Rightarrow> TxRequest" where
  "invoke_request a op = \<lparr>req_ID = [], req_FromAddress = ia_fromAddress a, req_Operations = [OpInvokeHostFunction op],
     req_LedgerBoundsOffset = ia_ledgerBoundsOffset a, req_Metadata = None\<rparr>"

text \<open>What \<open>InvokeContract\<close> makes of the manager's answer.\<close>

definition invoke_result :: "sdk \<Rightarrow> string \<Rightarrow> string \<Rightarrow> TxResult option result \<Rightarrow> ScVal option result" where
  "invoke_result lib contractID functionName res =
     (case res of
        Err e \<Rightarrow> Err (Errorf ''invoke %s.%s: %w'' [AStr contractID, AStr functionName, AErr e])
      | Panic q \<Rightarrow> Panic q
      | Ok None \<Rightarrow> Err (Errorf ''invoke %s.%s: nil transaction result'' [AStr contractID, AStr functionName])
      | Ok (Some result) \<Rightarrow>
          (case res_Error result of
             Some e \<Rightarrow> Err (Errorf ''invoke %s.%s tx %s failed: %w''
                         [AStr contractID, AStr functionName, AStr (res_ID result), AErr e])
           | None \<Rightarrow>
               if res_Status result \<noteq> Finalized
               then Err (Errorf ''invoke %s.%s tx %s ended with status %v''
                      [AStr contractID, AStr functionName, AStr (res_ID result), AInt (status_code (res_Status result))])
               else extractReturnValueFromResultMetaXDR lib (res_ResultMetaXDR result)))"

definition adapter_InvokeContract ::
    "sdk \<Rightarrow> 's InvokerAdapter \<Rightarrow> string \<Rightarrow> string \<Rightarrow> ScVal list \<Rightarrow> ('s, ScVal option result) state" where
  "adapter_InvokeContract lib a contractID functionName args =
     (case BuildInvokeContractOperation lib contractID functionName args (ia_fromAddress a) of
        Err e \<Rightarrow> State_Monad.return (Err e)
      | Panic q \<Rightarrow> State_Monad.return (Panic q)
      | Ok op \<Rightarrow> do {
          res \<leftarrow> ia_EnqueueAndWait a (invoke_request a op);
          State_Monad.return (invoke_result lib contractID functionName res) })"

definition adapter_SimulateContract ::
    "sdk \<Rightarrow> 's InvokerAdapter \<Rightarrow> string \<Rightarrow> string \<Rightarrow> ScVal list \<Rightarrow> ('s, ScVal option result) state" where
  "adapter_SimulateContract lib a contractID functionName args =
     (case BuildInvokeContractOperation lib contractID functionName args (ia_fromAddress a) of
        Err e \<Rightarrow> State_Monad.return (Err e)
      | Panic q \<Rightarrow> State_Monad.return (Panic q)
      | Ok op \<Rightarrow> do {
          res \<leftarrow> ia_Simulate a (invoke_request a op);
          State_Monad.return
            (bind_r (wrap_err (\<lambda>e. Errorf ''simulate %s.%s: %w'' [AStr contractID, AStr functionName, AErr e]) res) (\<lambda>result.
             if sim_RestorePreamble result \<noteq> None
             then Err (Errorf ''simulate %s.%s: restore required before read-only simulation can return a value''
                    [AStr contractID, AStr functionName])
             else extractReturnValueFromSimulationResult lib result)) })"

definition adapter_GetEvents :: "'s InvokerAdapter \<Rightarrow> string \<Rightarrow> int \<Rightarrow> string list \<Rightarrow> EventInfo list result" where
  "adapter_GetEvents a contractID startLedger topics =
     bind_r (wrap_err (\<lambda>e. Errorf ''get events client: %w'' [AErr e]) (ia_getClient a)) (\<lambda>client.
     let topicFilter = map (\<lambda>topic. \<lparr>sf_Wildcard = None, sf_ScVal = Some (SymbolToScVal topic)\<rparr>) topics @
           [\<lparr>sf_Wildcard = Some WildCardZeroOrMore, sf_ScVal = None\<rparr>] in
     bind_r (wrap_err (\<lambda>e. Errorf ''get events: %w'' [AErr e])
       (client \<lparr>ge_StartLedger = startLedger, ge_EndLedger = 0,
                ge_Filters = [\<lparr>ef_EventType = Some [EventTypeContract], ef_ContractIDs = [contractID], ef_Topics = [topicFilter]\<rparr>],
                ge_Format = [], ge_Pagination = None\<rparr>)) (\<lambda>resp. Ok (ger_Events resp)))"

text \<open>The chain ids of the chain-selectors package and the passphrases of the SDK.\<close>

record networks =
  STELLAR_MAINNET :: string
  STELLAR_TESTNET :: string
  STELLAR_LOCALNET :: string
  PublicNetworkPassphrase :: string
  TestNetworkPassphrase :: string

definition NetworkPassphrase :: "networks \<Rightarrow> string \<Rightarrow> string result" where
  "NetworkPassphrase n chainID =
     (if chainID = STELLAR_MAINNET n then Ok (PublicNetworkPassphrase n)
      else if chainID = STELLAR_TESTNET n \<or> chainID = STELLAR_LOCALNET n then Ok (TestNetworkPassphrase n)
      else Err (Errorf ''unknown stellar chain ID %q'' [AStr chainID]))"

end
