(* ===== verification/Relayer_Service.thy ===== *)
theory Relayer_Service
  imports Invoker_Adapter Txm_Intake
begin

text \<open>
  The service the relayer offers to its callers (relayer/stellar_service.go): ledger, event and
  transaction queries, simulation, and the submission of contract calls through the
  transaction manager.
\<close>

section \<open>Requests and responses\<close>

text \<open>The fields of RPC responses that only the service reads.\<close>

record FullSimulateResponse = SimulateTransactionResponse +
  sim_LatestLedger :: int
  sim_EventsXDR :: "string list"

record FullGetTransactionResponse = GetTransactionResponse +
  get_Ledger :: int

record LedgerEntryResult =
  ler_KeyXDR :: string
  ler_DataXDR :: string
  ler_LastModifiedLedger :: int
  ler_LiveUntilLedgerSeq :: "int option"
  ler_ExtensionXDR :: string

record FullLatestLedger =
  fll_Hash :: string
  fll_ProtocolVersion :: int
  fll_Sequence :: int
  fll_LedgerCloseTime :: int
  fll_LedgerHeader :: string
  fll_LedgerMetadata :: string

record LedgerInfo =
  li_Hash :: string
  li_Sequence :: int
  li_LedgerCloseTime :: int
  li_LedgerHeader :: string
  li_LedgerMetadata :: string

record LedgerPage =
  lp_Ledgers :: "LedgerInfo list"
  lp_LatestLedger :: int
  lp_LatestLedgerCloseTime :: int
  lp_OldestLedger :: int
  lp_OldestLedgerCloseTime :: int
  lp_Cursor :: string

record GetLedgersRequest =
  gl_StartLedger :: int
  gl_Format :: string
  gl_Pagination :: "(string \<times> int) option"

record SimulateRequest =
  sq_Transaction :: string
  sq_AuthMode :: SimulateAuthMode
  sq_Format :: string
  sq_ResourceConfig :: "int option"

text \<open>A client of the chain; the entries and the latest ledger of the RPC have the fields of
  the domain types.\<close>

record svc_client =
  cl_GetLedgerEntries :: "string list \<Rightarrow> (LedgerEntryResult list \<times> int) result"
  cl_GetLatestLedger :: "FullLatestLedger result"
  cl_GetLedgers :: "GetLedgersRequest \<Rightarrow> LedgerPage result"
  cl_SimulateTransaction :: "SimulateRequest \<Rightarrow> FullSimulateResponse result"
  cl_GetEvents :: "GetEventsRequest \<Rightarrow> EventInfo GetEventsResponse result"
  cl_GetTransaction :: "string \<Rightarrow> FullGetTransactionResponse result"

text \<open>\<open>fmt.Errorf("%w: %w", multinode.ErrNodeError, err)\<close>\<close>

definition node_error :: "string \<Rightarrow> error \<Rightarrow> error \<Rightarrow> error" where
  "node_error fmt ErrNodeError e = Errorf fmt [AErr ErrNodeError, AErr e]"

section \<open>Queries\<close>

definition GetSigningAccount :: "string list result option \<Rightarrow> string result" where
  "GetSigningAccount ks =
     (case ks of
        None \<Rightarrow> Err (New ''keystore is not configured'')
      | Some r \<Rightarrow>
          bind_r (wrap_err (\<lambda>e. Errorf ''keystore accounts: %w'' [AErr e]) r) (\<lambda>accounts.
          case accounts of [] \<Rightarrow> Err (New ''keystore has no accounts'') | account # _ \<Rightarrow> Ok account))"

definition svc_GetLedgerEntries :: "svc_client result \<Rightarrow> string list \<Rightarrow> (LedgerEntryResult list \<times> int) result" where
  "svc_GetLedgerEntries getClient keys =
     bind_r (wrap_err (\<lambda>e. Errorf ''failed to get client: %w'' [AErr e]) getClient) (\<lambda>rpc.
     bind_r (cl_GetLedgerEntries rpc keys) (\<lambda>(entries, latestLedger). Ok (entries, latestLedger)))"

definition svc_GetLatestLedger :: "error \<Rightarrow> svc_client result \<Rightarrow> FullLatestLedger result" where
  "svc_GetLatestLedger ErrNodeError getClient =
     bind_r (wrap_err (\<lambda>e. Errorf ''failed to get client: %w'' [AErr e]) getClient) (\<lambda>rpc.
     wrap_err (node_error ''%w: %w'' ErrNodeError) (cl_GetLatestLedger rpc))"

definition svc_GetLedgers :: "error \<Rightarrow> svc_client result \<Rightarrow> int \<Rightarrow> (string \<times> int) option \<Rightarrow> LedgerPage result" where
  "svc_GetLedgers ErrNodeError getClient startLedger pagination =
     bind_r (wrap_err (\<lambda>e. Errorf ''failed to get chain client: %w'' [AErr e]) getClient) (\<lambda>rpc.
     wrap_err (node_error ''failed to get ledgers: %w: %w'' ErrNodeError)
       (cl_GetLedgers rpc \<lparr>gl_StartLedger = startLedger, gl_Format = ''base64'', gl_Pagination = pagination\<rparr>))"

definition svc_GetEvents :: "sdk \<Rightarrow> error \<Rightarrow> svc_client result \<Rightarrow> DGetEventsRequest \<Rightarrow> DEventInfo GetEventsResponse result" where
  "svc_GetEvents lib ErrNodeError getClient req =
     bind_r (wrap_err (\<lambda>e. Errorf ''failed to get chain client: %w'' [AErr e]) getClient) (\<lambda>rpc.
     bind_r (wrap_err (\<lambda>e. Errorf ''invalid get events request: %w'' [AErr e]) (convertGetEventsRequestsFromDomain lib req)) (\<lambda>protocolReq.
     bind_r (wrap_err (node_error ''failed to get events: %w: %w'' ErrNodeError) (cl_GetEvents rpc protocolReq))
       (convertGetEventsResponseToDomain lib)))"

record SvcTransaction =
  st_FeeStroops :: int
  st_LedgerSequence :: int
  st_LedgerCloseTime :: int

definition fee_stroops :: "sdk \<Rightarrow> string \<Rightarrow> int result" where
  "fee_stroops lib resultXDR =
     (if resultXDR = [] then Ok 0
      else case unb64_TransactionResult lib resultXDR of
             Ok tr \<Rightarrow> Ok (u64 (tr_FeeCharged tr))
           | Err _ \<Rightarrow> Ok 0
           | Panic q \<Rightarrow> Panic q)"

definition svc_GetTransaction :: "sdk \<Rightarrow> error \<Rightarrow> svc_client result \<Rightarrow> string \<Rightarrow> SvcTransaction result" where
  "svc_GetTransaction lib ErrNodeError getClient txHash =
     (if txHash = [] then Err (New ''tx hash is required'')
      else
        bind_r (wrap_err (\<lambda>e. Errorf ''failed to get client: %w'' [AErr e]) getClient) (\<lambda>rpc.
        bind_r (wrap_err (node_error ''%w: %w'' ErrNodeError) (cl_GetTransaction rpc txHash)) (\<lambda>resp.
        if get_Status resp = StatusNotFound then Err (Errorf ''transaction not found: %s'' [AStr txHash])
        else bind_r (fee_stroops lib (get_ResultXDR resp)) (\<lambda>feeStroops.
          Ok \<lparr>st_FeeStroops = feeStroops, st_LedgerSequence = get_Ledger resp, st_LedgerCloseTime = get_LedgerCloseTime resp\<rparr>))))"

section \<open>Simulation\<close>

record SvcSimulateRequest =
  ssq_ContractID :: string
  ssq_Function :: string
  ssq_Args :: "DScVal list"
  ssq_SourceAccount :: string
  ssq_AuthMode :: SimulateAuthMode
  ssq_ResourceConfig :: "int option"

record SvcSimulateResponse =
  ssr_LedgerSequence :: int
  ssr_Success :: bool
  ssr_Error :: string
  ssr_EventsXDR :: "string list"
  ssr_TransactionDataXDR :: string
  ssr_MinResourceFee :: int
  ssr_ReturnValueXDR :: string
  ssr_RequiredAuthXDR :: "string list"
  ssr_RestorePreamble :: "RestorePreamble option"

definition zero_ssr :: SvcSimulateResponse where
  "zero_ssr = \<lparr>ssr_LedgerSequence = 0, ssr_Success = False, ssr_Error = [], ssr_EventsXDR = [], ssr_TransactionDataXDR = [],
     ssr_MinResourceFee = 0, ssr_ReturnValueXDR = [], ssr_RequiredAuthXDR = [], ssr_RestorePreamble = None\<rparr>"

text \<open>The last part of \<open>SimulateTransaction\<close>: response and error are both returned.\<close>

definition simulate_response :: "FullSimulateResponse \<Rightarrow> SvcSimulateResponse \<times> error option" where
  "simulate_response sim =
     (let resp = zero_ssr\<lparr>ssr_LedgerSequence := sim_LatestLedger sim, ssr_Success := (sim_Error sim = []), ssr_Error := sim_Error sim,
            ssr_EventsXDR := sim_EventsXDR sim, ssr_TransactionDataXDR := sim_TransactionDataXDR sim,
            ssr_MinResourceFee := sim_MinResourceFee sim\<rparr>;
          finish = (\<lambda>r. (r\<lparr>ssr_RestorePreamble := sim_RestorePreamble sim\<rparr>, None))
      in case sim_Results sim of
           [] \<Rightarrow> if ssr_Success resp \<and> sim_RestorePreamble sim = None
                 then (resp, Some (New ''simulation succeeded but returned no host function results''))
                 else finish resp
         | [result] \<Rightarrow>
             finish (resp\<lparr>ssr_ReturnValueXDR := (case simr_ReturnValueXDR result of None \<Rightarrow> [] | Some x \<Rightarrow> x),
                          ssr_RequiredAuthXDR := (case simr_AuthXDR result of None \<Rightarrow> [] | Some x \<Rightarrow> x)\<rparr>)
         | rs \<Rightarrow> (resp, Some (Errorf ''unexpected simulation result count: %d'' [AInt (int (length rs))])))"

text \<open>\<open>now\<close> is the clock in nanoseconds; \<open>MinBaseFee\<close> of txnbuild is 100.\<close>

definition svc_SimulateTransaction ::
    "sdk \<Rightarrow> error \<Rightarrow> int \<Rightarrow> svc_client result \<Rightarrow> SvcSimulateRequest \<Rightarrow> (SvcSimulateResponse \<times> error option) result" where
  "svc_SimulateTransaction lib ErrNodeError now getClient req =
     (if ssq_ContractID req = [] then Err (New ''contract id is required'')
      else if ssq_Function req = [] then Err (New ''function is required'')
      else
        bind_r (validateSimulateAuthMode (ssq_AuthMode req)) (\<lambda>authMode.
        bind_r (wrap_err (\<lambda>e. Errorf ''failed to get chain client: %w'' [AErr e]) getClient) (\<lambda>rpc.
        bind_r (wrap_err (\<lambda>e. Errorf ''failed to decode contract id %q: %w'' [AStr (ssq_ContractID req), AErr e])
                  (strkey_Decode lib VersionByteContract (ssq_ContractID req))) (\<lambda>contractBytes.
        case BuildContractScAddress lib contractBytes of
          None \<Rightarrow> Err (Errorf ''failed to build contract address from contractID: %s'' [AStr (ssq_ContractID req)])
        | Some contractAddr \<Rightarrow>
            bind_r (wrap_err (\<lambda>e. Errorf ''failed to convert args: %w'' [AErr e]) (convertScValsToDomain lib (ssq_Args req))) (\<lambda>args.
            bind_r (if ssq_SourceAccount req = []
                    then wrap_err (\<lambda>e. Errorf ''failed to build placeholder source account: %w'' [AErr e])
                           (strkey_Encode lib VersionByteAccountID (replicate 32 0))
                    else bind_r (wrap_err (\<lambda>e. Errorf ''failed to decode source account %q: %w'' [AStr (ssq_SourceAccount req), AErr e])
                           (strkey_Decode lib VersionByteAccountID (ssq_SourceAccount req))) (\<lambda>_. Ok (ssq_SourceAccount req))) (\<lambda>srcAddr.
            bind_r (wrap_err (\<lambda>e. Errorf ''failed to build transaction: %w'' [AErr e])
                      (NewTransaction lib \<lparr>tp_AccountID = srcAddr, tp_Sequence = 0, tp_IncrementSequenceNum = True,
                         tp_Operations = [OpInvokeHostFunction
                           \<lparr>ihf_HostFunction = HostFunctionInvokeContract contractAddr (ssq_Function req) args, ihf_Auth = [],
                            ihf_SourceAccount = srcAddr, ihf_Ext = None\<rparr>],
                         tp_BaseFee = 100, tp_TimeBounds = \<lparr>tb_MinTime = 0, tb_MaxTime = (now + 60 * 1000000000) div 1000000000\<rparr>,
                         tp_MaxLedger = None\<rparr>)) (\<lambda>tx.
            bind_r (wrap_err (\<lambda>e. Errorf ''failed to encode transaction: %w'' [AErr e]) (tx_Base64 lib tx)) (\<lambda>txXDR.
            bind_r (wrap_err (node_error ''failed to simulate transaction: %w: %w'' ErrNodeError)
                      (cl_SimulateTransaction rpc \<lparr>sq_Transaction = txXDR, sq_AuthMode = authMode, sq_Format = ''base64'',
                         sq_ResourceConfig = ssq_ResourceConfig req\<rparr>)) (\<lambda>simResult.
            Ok (simulate_response simResult))))))))))"

section \<open>Submission\<close>

record SubmitTransactionRequest =
  sub_IdempotencyKey :: string
  sub_ContractID :: string
  sub_Function :: string
  sub_Args :: "DScVal list"
  sub_FromAddress :: string
  sub_LedgerBoundsOffset :: int

datatype SvcTxStatus = SvcTxSuccess | SvcTxFailed | SvcTxFatal

record SubmitTransactionResponse =
  rpl_TxHash :: string
  rpl_TxIdempotencyKey :: string
  rpl_ResultXDR :: string
  rpl_ResultMetaXDR :: string
  rpl_TransactionFee :: "int option"
  rpl_BlockTimestamp :: "int option"
  rpl_TxStatus :: SvcTxStatus
  rpl_Error :: "error option"

text \<open>The reply for a result of the transaction manager, with the error returned beside it.\<close>

definition submit_reply :: "TxResult \<Rightarrow> SubmitTransactionResponse \<times> error option" where
  "submit_reply result =
     (let reply = \<lparr>rpl_TxHash = res_Hash result, rpl_TxIdempotencyKey = res_ID result, rpl_ResultXDR = res_ResultXDR result,
            rpl_ResultMetaXDR = res_ResultMetaXDR result,
            rpl_TransactionFee = (case res_Fee result of None \<Rightarrow> None | Some f \<Rightarrow> if in_u64 f then Some f else None),
            rpl_BlockTimestamp = (if res_LedgerCloseTime result > 0 then Some (u64 (res_LedgerCloseTime result * 1000000)) else None),
            rpl_TxStatus = SvcTxSuccess, rpl_Error = None\<rparr>
      in case res_Status result of
           Finalized \<Rightarrow> (reply, None)
         | Failed \<Rightarrow>
             if res_ResultXDR result \<noteq> [] then (reply\<lparr>rpl_TxStatus := SvcTxFailed, rpl_Error := res_Error result\<rparr>, None)
             else (reply\<lparr>rpl_TxStatus := SvcTxFatal\<rparr>, Some (New ''submit transaction: pipeline failure''))
         | st \<Rightarrow> (reply\<lparr>rpl_TxStatus := SvcTxFatal\<rparr>,
                 Some (Errorf ''submit transaction: unexpected terminal status %v'' [AInt (status_code st)])))"

definition submit_request :: "SubmitTransactionRequest \<Rightarrow> InvokeHostFunction \<Rightarrow> TxRequest" where
  "submit_request req op = \<lparr>req_ID = sub_IdempotencyKey req, req_FromAddress = sub_FromAddress req,
     req_Operations = [OpInvokeHostFunction op], req_LedgerBoundsOffset = sub_LedgerBoundsOffset req, req_Metadata = None\<rparr>"

definition submit_op :: "sdk \<Rightarrow> bool \<Rightarrow> SubmitTransactionRequest \<Rightarrow> InvokeHostFunction result" where
  "submit_op lib txMgr_nil req =
     (if txMgr_nil then Err (New ''submit transaction: txm is not configured'')
      else if sub_ContractID req = [] then Err (New ''submit transaction: contractID is required'')
      else if sub_Function req = [] then Err (New ''submit transaction: function is required'')
      else
        bind_r (wrap_err (\<lambda>e. Errorf ''submit transaction: convert args: %w'' [AErr e])
                  (convertScValsToDomain lib (sub_Args req))) (\<lambda>xdrArgs.
        wrap_err (\<lambda>e. Errorf ''submit transaction: build operation: %w'' [AErr e])
          (BuildInvokeContractOperation lib (sub_ContractID req) (sub_Function req) xdrArgs (sub_FromAddress req))))"

definition SubmitTransaction ::
    "sdk \<Rightarrow> 's enqueue_and_wait option \<Rightarrow> SubmitTransactionRequest \<Rightarrow>
     ('s, (SubmitTransactionResponse \<times> error option) result) state" where
  "SubmitTransaction lib txMgr req =
     (case submit_op lib (txMgr = None) req of
        Err e \<Rightarrow> State_Monad.return (Err e)
      | Panic q \<Rightarrow> State_Monad.return (Panic q)
      | Ok op \<Rightarrow> do {
          res \<leftarrow> the txMgr (submit_request req op);
          State_Monad.return (case res of
            Err e \<Rightarrow> Err (Errorf ''submit transaction: %w'' [AErr e])
          | Panic q \<Rightarrow> Panic q
          | Ok None \<Rightarrow> Err (New ''submit transaction: nil result returned by TXM'')
          | Ok (Some result) \<Rightarrow> Ok (submit_reply result)) })"

section \<open>The manager behind the service\<close>

text \<open>\<open>EnqueueAndWait\<close> of the transaction manager as the interface value of the service; it never
  returns a nil result without an error.\<close>

definition txm_EnqueueAndWait ::
    "env \<Rightarrow> sdk \<Rightarrow> unit txm \<Rightarrow> (Txm \<Rightarrow> tx_ref \<Rightarrow> wakeup) \<Rightarrow> Txm enqueue_and_wait" where
  "txm_EnqueueAndWait env lib others wake req = do {
     r \<leftarrow> EnqueueAndWait env lib others wake req;
     ret (bind_r r (\<lambda>x. Ok (Some x))) }"

lemma run_EnqueueAndWait:
  assumes "run_state (Enqueue env lib req) s = (Ok txID, s1)" and "transactions s1 txID = Some r"
    and "run_state others s1 = (u, s2)" and "wake s2 r = WakeDone"
  shows "run_state (txm_EnqueueAndWait env lib others wake req) s = (Ok (Some (txResultLocked (heap s2 r))), s2)"
  using assms by (simp add: txm_EnqueueAndWait_def EnqueueAndWait_def txResult_def run_prims)

lemma submit_reply_truthful:
  "submit_reply (txResultLocked t) = (reply, err) \<Longrightarrow>
     rpl_TxHash reply = tx_TxHash t \<and> rpl_TxIdempotencyKey reply = tx_ID t \<and>
     (err = None \<longleftrightarrow> tx_Status t = Finalized \<or> tx_Status t = Failed \<and> tx_ResultXDR t \<noteq> []) \<and>
     (rpl_TxStatus reply = SvcTxSuccess \<longleftrightarrow> tx_Status t = Finalized) \<and>
     (rpl_TxStatus reply = SvcTxFailed \<longleftrightarrow> tx_Status t = Failed \<and> tx_ResultXDR t \<noteq> [])"
  by (auto simp: submit_reply_def txResultLocked_def Let_def split: TransactionStatus.splits if_splits)

section \<open>Properties\<close>

text \<open>C15: Submitting is idempotent per key and truthful: a request whose idempotency key belongs
  to a registered transaction queues nothing, registers nothing and leaves every store as it
  is; the reply describes that transaction as it is when the caller is woken: its hash and id,
  success exactly when it is Finalized, failure exactly when it is Failed with a result on the
  ledger, and an error beside the reply in every other case.\<close>

theorem submit_idempotent_and_truthful:
  assumes "submit_op lib False req = Ok op" and "valid_request lib (submit_request req op)"
    and "transactions s (sub_IdempotencyKey req) = Some r"
  shows "\<exists>s1. broadcastChan s1 = broadcastChan s \<and> transactions s1 = transactions s \<and> accountStore s1 = accountStore s \<and>
    (\<forall>k < next_ref s. heap s1 k = heap s k) \<and>
    (\<forall>u s2. run_state others s1 = (u, s2) \<and> wake s2 r = WakeDone \<longrightarrow>
       (\<exists>reply err. run_state (SubmitTransaction lib (Some (txm_EnqueueAndWait env lib others wake)) req) s = (Ok (reply, err), s2) \<and>
          rpl_TxHash reply = tx_TxHash (heap s2 r) \<and> rpl_TxIdempotencyKey reply = tx_ID (heap s2 r) \<and>
          (err = None \<longleftrightarrow> tx_Status (heap s2 r) = Finalized \<or> tx_Status (heap s2 r) = Failed \<and> tx_ResultXDR (heap s2 r) \<noteq> []) \<and>
          (rpl_TxStatus reply = SvcTxSuccess \<longleftrightarrow> tx_Status (heap s2 r) = Finalized) \<and>
          (rpl_TxStatus reply = SvcTxFailed \<longleftrightarrow> tx_Status (heap s2 r) = Failed \<and> tx_ResultXDR (heap s2 r) \<noteq> [])))"
proof -
  let ?rq = "submit_request req op"
  let ?s = "s\<lparr>clock := Suc (clock s), heap := (heap s)(next_ref s := pending_tx ?rq (now_at env (clock s))),
      next_ref := Suc (next_ref s)\<rparr>"
  have id: "req_ID ?rq = sub_IdempotencyKey req" by (simp add: submit_request_def)
  obtain s1 where enq: "run_state (Enqueue env lib ?rq) s = (Ok (sub_IdempotencyKey req), s1)"
    and s1: "broadcastChan s1 = broadcastChan s" "transactions s1 = transactions s" "accountStore s1 = accountStore s"
      "\<And>k. k < next_ref s \<Longrightarrow> heap s1 k = heap s k"
    using run_Enqueue [OF assms(2)] run_enqueue_known [of ?s "next_ref s" env] assms(3) id by simp
  have key: "transactions s1 (sub_IdempotencyKey req) = Some r" using assms(3) s1(2) by simp
  have run: "run_state (SubmitTransaction lib (Some (txm_EnqueueAndWait env lib others wake)) req) s =
      (Ok (submit_reply (txResultLocked (heap s2 r))), s2)"
    if "run_state others s1 = (u, s2)" "wake s2 r = WakeDone" for u s2
    using run_EnqueueAndWait [where wake = wake, OF enq key that] assms(1) by (simp add: SubmitTransaction_def run_prims)
  show ?thesis
  proof (intro exI [of _ s1] conjI allI impI s1)
    fix u s2
    assume a: "run_state others s1 = (u, s2) \<and> wake s2 r = WakeDone"
    obtain reply err where e: "submit_reply (txResultLocked (heap s2 r)) = (reply, err)" by fastforce
    from run a e have "run_state (SubmitTransaction lib (Some (txm_EnqueueAndWait env lib others wake)) req) s =
        (Ok (reply, err), s2)" by simp
    with submit_reply_truthful [OF e]
    show "\<exists>reply err. run_state (SubmitTransaction lib (Some (txm_EnqueueAndWait env lib others wake)) req) s = (Ok (reply, err), s2) \<and>
          rpl_TxHash reply = tx_TxHash (heap s2 r) \<and> rpl_TxIdempotencyKey reply = tx_ID (heap s2 r) \<and>
          (err = None \<longleftrightarrow> tx_Status (heap s2 r) = Finalized \<or> tx_Status (heap s2 r) = Failed \<and> tx_ResultXDR (heap s2 r) \<noteq> []) \<and>
          (rpl_TxStatus reply = SvcTxSuccess \<longleftrightarrow> tx_Status (heap s2 r) = Finalized) \<and>
          (rpl_TxStatus reply = SvcTxFailed \<longleftrightarrow> tx_Status (heap s2 r) = Failed \<and> tx_ResultXDR (heap s2 r) \<noteq> [])"
      by blast
  qed
qed

definition sample_submit :: SubmitTransactionRequest where
  "sample_submit = \<lparr>sub_IdempotencyKey = ''tx1'', sub_ContractID = zero_contract, sub_Function = ''f'', sub_Args = [],
     sub_FromAddress = zero_account, sub_LedgerBoundsOffset = 0\<rparr>"

text \<open>While the caller waits, the other goroutines finalize the transaction.\<close>

definition finalize_tx1 :: "unit txm" where
  "finalize_tx1 = upd_tx 0 (\<lambda>t. t\<lparr>tx_Status := Finalized, tx_TxHash := ''h''\<rparr>)"

lemma sample_submit_op: "\<exists>op. submit_op sample_sdk False sample_submit = Ok op"
proof -
  have "strkey_Decode sample_sdk VersionByteContract zero_contract = Ok (replicate 32 0)" "zero_contract \<noteq> []"
    "unmarshal_ScAddress sample_sdk ([0, 0, 0, 1] @ replicate 32 0) = Ok (ScAddressContract (Some (replicate 32 0)))"
    by (simp_all add: sample_sdk_def plain_decode_def zero_contract_def version_char_def char_byte_def)
  then show ?thesis
    by (simp add: submit_op_def sample_submit_def convertScValsToDomain_def BuildInvokeContractOperation_def
        BuildContractScAddress_def)
qed

theorem submit_idempotent_and_truthful_witness:
  "transactions after_enqueue ''tx1'' = Some 0 \<and>
   (\<exists>reply s2. run_state (SubmitTransaction sample_sdk (Some (txm_EnqueueAndWait sample_env sample_sdk finalize_tx1
        (\<lambda>_ _. WakeDone))) sample_submit) after_enqueue = (Ok (reply, None), s2) \<and>
      rpl_TxHash reply = ''h'' \<and> rpl_TxStatus reply = SvcTxSuccess)"
proof -
  obtain op where op: "submit_op sample_sdk False sample_submit = Ok op" using sample_submit_op by blast
  have "valid_request sample_sdk (submit_request sample_submit op)"
    by (simp add: valid_request_def submit_request_def sample_submit_def zero_account_ne sample_account)
  moreover have key: "transactions after_enqueue ''tx1'' = Some 0" by (simp add: after_enqueue_state)
  then have "transactions after_enqueue (sub_IdempotencyKey sample_submit) = Some 0" by (simp add: sample_submit_def)
  moreover have run: "run_state finalize_tx1 s = (u, s2) \<and> WakeDone = WakeDone \<longleftrightarrow>
      s2 = s\<lparr>heap := (heap s)(0 := (heap s 0)\<lparr>tx_Status := Finalized, tx_TxHash := ''h''\<rparr>)\<rparr>" for s u s2
    by (auto simp: finalize_tx1_def run_prims)
  ultimately show ?thesis
    using submit_idempotent_and_truthful [OF op, of after_enqueue 0 finalize_tx1 "\<lambda>_ _. WakeDone" sample_env] key
    unfolding run by fastforce
qed

end
