(* ===== verification/Ccv_Base.thy ===== *)
theory Ccv_Base
  imports Converters
begin

text \<open>
  What the CCV services share: the CCIP message library (chainlink-ccv) and the contract
  invoker as records of functions, the \<open>Get\<close> methods of Soroban values, and the helpers of
  ccv/common.
\<close>

section \<open>The CCIP library and the contract invoker\<close>

text \<open>What the sources use of chainlink-ccv: message ids, the message codec, the sentinel
  error of the executor. \<open>'m\<close> is the type of messages.\<close>

record 'm ccip =
  MessageID :: "'m \<Rightarrow> bytes result"
  msg_Encode :: "'m \<Rightarrow> bytes result"
  DecodeMessage :: "bytes \<Rightarrow> 'm result"
  SourceChainSelector :: "'m \<Rightarrow> int"
  ErrMessageEncoding :: error

text \<open>Decoding inverts encoding, and a message id has 32 bytes.\<close>

definition ccip_laws :: "'m ccip \<Rightarrow> bool" where
  "ccip_laws P \<longleftrightarrow> (\<forall>m b. msg_Encode P m = Ok b \<longrightarrow> DecodeMessage P b = Ok m) \<and>
     (\<forall>m i. MessageID P m = Ok i \<longrightarrow> length i = 32)"

definition MustMessageID :: "'m ccip \<Rightarrow> 'm \<Rightarrow> bytes result" where
  "MustMessageID P m = (case MessageID P m of Ok i \<Rightarrow> Ok i | Err e \<Rightarrow> Panic ''MustMessageID'' | Panic p \<Rightarrow> Panic p)"

text \<open>\<open>bindings.Invoker\<close>: the contract, the function, the arguments; a nil value is \<open>None\<close>.\<close>

record invoker =
  InvokeContract :: "string \<Rightarrow> string \<Rightarrow> ScVal list \<Rightarrow> ScVal option result"
  SimulateContract :: "string \<Rightarrow> string \<Rightarrow> ScVal list \<Rightarrow> ScVal option result"

definition errors_Join :: "error \<Rightarrow> error \<Rightarrow> error" where
  "errors_Join a b = Errorf ''%w\<newline>%w'' [AErr a, AErr b]"

section \<open>Reading Soroban values\<close>

text \<open>The \<open>Get\<close> methods of the union: \<open>Ok None\<close> is a value of another kind, a matching kind
  with a nil arm panics.\<close>

definition arm :: "'a option \<Rightarrow> 'a option result" where
  "arm p = (case p of None \<Rightarrow> Panic ''nil pointer dereference'' | Some x \<Rightarrow> Ok (Some x))"

lemma arm_Some [simp]: "arm (Some x) = Ok (Some x)"
  by (simp add: arm_def)

definition GetSym :: "ScVal \<Rightarrow> string option result" where
  "GetSym v = (case v of ScvSymbol p \<Rightarrow> arm p | _ \<Rightarrow> Ok None)"

definition GetU64 :: "ScVal \<Rightarrow> int option result" where
  "GetU64 v = (case v of ScvU64 p \<Rightarrow> arm p | _ \<Rightarrow> Ok None)"

definition GetU32 :: "ScVal \<Rightarrow> int option result" where
  "GetU32 v = (case v of ScvU32 p \<Rightarrow> arm p | _ \<Rightarrow> Ok None)"

definition GetB :: "ScVal \<Rightarrow> bool option result" where
  "GetB v = (case v of ScvBool p \<Rightarrow> arm p | _ \<Rightarrow> Ok None)"

definition GetBytes :: "ScVal \<Rightarrow> bytes option result" where
  "GetBytes v = (case v of ScvBytes p \<Rightarrow> arm p | _ \<Rightarrow> Ok None)"

definition GetI128 :: "ScVal \<Rightarrow> (int \<times> int) option result" where
  "GetI128 v = (case v of ScvI128 p \<Rightarrow> arm p | _ \<Rightarrow> Ok None)"

text \<open>For vectors and maps the inner pointer may be nil; the sources treat that like a value
  of another kind.\<close>

definition GetVec :: "ScVal \<Rightarrow> ScVal list option result" where
  "GetVec v = (case v of ScvVec p \<Rightarrow> bind_r (deref p) Ok | _ \<Rightarrow> Ok None)"

definition GetMap :: "ScVal \<Rightarrow> (ScVal \<times> ScVal) list option result" where
  "GetMap v = (case v of ScvMap p \<Rightarrow> bind_r (deref p) Ok | _ \<Rightarrow> Ok None)"

lemmas get_defs = GetSym_def GetU64_def GetU32_def GetB_def GetBytes_def GetI128_def GetVec_def GetMap_def

text \<open>\<open>if v, err := f(...); err == nil { x = v }\<close>: an error keeps the old value.\<close>

definition set_if_ok :: "'a result \<Rightarrow> ('a \<Rightarrow> 's \<Rightarrow> 's) \<Rightarrow> 's \<Rightarrow> 's result" where
  "set_if_ok r f s = (case r of Ok v \<Rightarrow> Ok (f v s) | Err e \<Rightarrow> Ok s | Panic p \<Rightarrow> Panic p)"

definition set_if :: "'a option result \<Rightarrow> ('a \<Rightarrow> 's \<Rightarrow> 's) \<Rightarrow> 's \<Rightarrow> 's result" where
  "set_if r f s = bind_r r (\<lambda>x. Ok (case x of None \<Rightarrow> s | Some v \<Rightarrow> f v s))"

text \<open>The loop over the entries of a map: keys that are not symbols are skipped.\<close>

fun fold_entries :: "(string \<Rightarrow> ScVal \<Rightarrow> 's \<Rightarrow> 's result) \<Rightarrow> (ScVal \<times> ScVal) list \<Rightarrow> 's \<Rightarrow> 's result" where
  "fold_entries f [] s = Ok s"
| "fold_entries f ((k, v) # es) s =
     bind_r (GetSym k) (\<lambda>key. bind_r (case key of None \<Rightarrow> Ok s | Some x \<Rightarrow> f x v s) (fold_entries f es))"

text \<open>The 128-bit value \<open>hi << 64 + lo\<close> as an unbounded integer.\<close>

definition big_i128 :: "int \<times> int \<Rightarrow> int" where
  "big_i128 p = fst p * 2 ^ 64 + snd p"

section \<open>ccv/common\<close>

definition HexEncode :: "bytes \<Rightarrow> string" where
  "HexEncode b = ''0x'' @ hex_EncodeToString b"

definition ToUnknownAddress :: "sdk \<Rightarrow> string \<Rightarrow> bytes result" where
  "ToUnknownAddress lib addr =
     (case addr of
        [] \<Rightarrow> Err (New ''empty stellar address'')
      | c # _ \<Rightarrow>
          if c = CHR ''C'' then
            wrap_err (\<lambda>e. Errorf ''decode contract strkey: %w'' [AErr e]) (strkey_Decode lib VersionByteContract addr)
          else if c = CHR ''G'' then
            wrap_err (\<lambda>e. Errorf ''decode account strkey: %w'' [AErr e]) (strkey_Decode lib VersionByteAccountID addr)
          else Err (Errorf ''unsupported stellar strkey prefix %q (want G or C)'' [AStr [c]]))"

section \<open>A concrete instance\<close>

text \<open>Messages that are their own encoding, with their first 32 bytes as id.\<close>

definition plain_ccip :: "bytes ccip" where
  "plain_ccip = \<lparr>MessageID = (\<lambda>m. Ok (take 32 (m @ replicate 32 0))), msg_Encode = Ok, DecodeMessage = Ok,
     SourceChainSelector = (\<lambda>m. 1), ErrMessageEncoding = New ''encoding''\<rparr>"

lemma plain_ccip_laws: "ccip_laws plain_ccip"
  by (auto simp: ccip_laws_def plain_ccip_def)

definition sample_msg :: bytes where
  "sample_msg = replicate 32 7"

end
