(* ===== verification/Ccv_Transmitter.thy ===== *)
theory Ccv_Transmitter
  imports Ccv_Base
begin

text \<open>
  The contract transmitter of the CCV services (ccv/contract_transmitter): the conversion of
  verifier signatures to the compact form of EIP-2098 and the call of the OffRamp's
  \<open>execute\<close> through its generated client.
\<close>

section \<open>math/big and encoding/binary\<close>

text \<open>\<open>big.Int.SetBytes\<close>, \<open>big.Int.Bytes\<close> (the shortest big-endian form) and
  \<open>binary.BigEndian.Uint16\<close>.\<close>

definition SetBytes :: "bytes \<Rightarrow> nat" where
  "SetBytes bs = foldl (\<lambda>a b. 256 * a + unat b) 0 bs"

fun big_Bytes :: "nat \<Rightarrow> bytes" where
  "big_Bytes n = (if n = 0 then [] else big_Bytes (n div 256) @ [word_of_nat (n mod 256)])"

declare big_Bytes.simps [simp del]

definition BigEndian_Uint16 :: "bytes \<Rightarrow> nat" where
  "BigEndian_Uint16 bs = 256 * unat (bs ! 0) + unat (bs ! 1)"

text \<open>The big-endian form of fixed length.\<close>

fun be_fixed :: "nat \<Rightarrow> nat \<Rightarrow> bytes" where
  "be_fixed 0 n = []"
| "be_fixed (Suc k) n = be_fixed k (n div 256) @ [word_of_nat (n mod 256)]"

lemma length_be_fixed [simp]: "length (be_fixed k n) = k"
  by (induction k arbitrary: n) auto

lemma unat_byte [simp]: "unat (word_of_nat (n mod 256) :: 8 word) = n mod 256"
  by (simp add: unat_of_nat)

lemma SetBytes_be_fixed: "n < 256 ^ k \<Longrightarrow> SetBytes (be_fixed k n) = n"
  by (induction k arbitrary: n) (auto simp: SetBytes_def less_mult_imp_div_less mult.commute)

lemma be_fixed_SetBytes: "be_fixed (length bs) (SetBytes bs) = bs"
proof (induction bs rule: rev_induct)
  case (snoc b bs)
  have b: "unat b < 256" using unsigned_less [of b, where ?'a = nat] by simp
  have "SetBytes (bs @ [b]) = 256 * SetBytes bs + unat b" by (simp add: SetBytes_def)
  moreover have "(256 * m + unat b) mod 256 = unat b" "(256 * m + unat b) div 256 = m" for m
    using b by simp_all
  ultimately show ?case using snoc by simp
qed simp

lemma be_fixed_zero: "be_fixed k 0 = replicate k 0"
  by (induction k) (simp_all add: replicate_append_same)

lemma padded_Bytes:
  "n < 256 ^ k \<Longrightarrow> length (big_Bytes n) \<le> k \<and> replicate (k - length (big_Bytes n)) 0 @ big_Bytes n = be_fixed k n"
proof (induction k arbitrary: n)
  case 0
  then show ?case by (simp add: big_Bytes.simps)
next
  case (Suc k)
  show ?case
  proof (cases "n = 0")
    case True
    then show ?thesis using be_fixed_zero [of "Suc k"] by (simp add: big_Bytes.simps [of 0])
  next
    case False
    have "n div 256 < 256 ^ k" using Suc.prems by (simp add: less_mult_imp_div_less mult.commute)
    from Suc.IH [OF this] show ?thesis by (simp add: big_Bytes.simps [of n] False)
  qed
qed

lemma be_fixed_Cons: "be_fixed (Suc k) n = word_of_nat (n div 256 ^ k mod 256) # be_fixed k n"
proof (induction k arbitrary: n)
  case (Suc k)
  have "be_fixed (Suc (Suc k)) n = be_fixed (Suc k) (n div 256) @ [word_of_nat (n mod 256)]" by simp
  also have "\<dots> = word_of_nat (n div 256 div 256 ^ k mod 256) # be_fixed (Suc k) n" by (subst Suc) simp
  finally show ?case by (simp only: div_mult2_eq [symmetric] power_Suc)
qed simp

lemma be_fixed_mod: "be_fixed k (n mod 256 ^ k) = be_fixed k n"
proof (induction k arbitrary: n)
  case (Suc k)
  have "n mod (256 * 256 ^ k) div 256 = n div 256 mod 256 ^ k" by (simp add: mod_mult2_eq)
  moreover have "n mod (256 * 256 ^ k) mod 256 = n mod 256" by (simp add: mod_mod_cancel)
  ultimately show ?case using Suc [of "n div 256"] by simp
qed simp

lemma high_bit: "x < 128 \<Longrightarrow> or (word_of_nat x) 0x80 = (word_of_nat (x + 128) :: 8 word)"
proof -
  assume x: "x < 128"
  have "\<not> bit x 7" using x by (simp add: bit_iff_odd)
  then have "\<not> bit (word_of_nat x :: 8 word) 7" by (simp add: bit_of_nat_iff)
  moreover have "bit (128 :: 8 word) i \<Longrightarrow> i = 7" for i
    using bit_exp_iff [where ?'a = "8 word", of 7 i] by simp
  ultimately have "word_of_nat x + 128 = or (word_of_nat x) (128 :: 8 word)" by (intro disjunctive_add) auto
  then show ?thesis by simp
qed

section \<open>Signature conversion\<close>

text \<open>\<open>n\<close> is the order of the curve secp256k1, from the curve's package.\<close>

definition convert_s :: "nat \<Rightarrow> bytes \<Rightarrow> bytes" where
  "convert_s n sBytes =
     (let s = SetBytes sBytes in
      if s > n div 2 then
        let padded = big_Bytes (nat \<bar>int n - int s\<bar>);
            cleared = replicate (32 - length padded) 0 @ padded
        in cleared[0 := or (cleared ! 0) 0x80]
      else sBytes)"

definition convert_sig :: "nat \<Rightarrow> nat \<Rightarrow> bytes \<Rightarrow> bytes" where
  "convert_sig n i out =
     (let sOff = 6 + i * 64 + 32
      in take sOff out @ convert_s n (take 32 (drop sOff out)) @ drop (sOff + 32) out)"

definition convertVerifierBlobToEIP2098 :: "nat \<Rightarrow> bytes \<Rightarrow> bytes result" where
  "convertVerifierBlobToEIP2098 n blob =
     (if length blob < 6 then Ok blob
      else
        let sigPayloadLen = BigEndian_Uint16 (take 2 (drop 4 blob)) in
        if sigPayloadLen = 0 \<or> length blob < 6 + sigPayloadLen then Ok blob
        else if sigPayloadLen mod 64 \<noteq> 0 then
          Err (Errorf ''signature payload length %d is not a multiple of %d'' [AInt (int sigPayloadLen), AInt 64])
        else Ok (fold (convert_sig n) [0 ..< sigPayloadLen div 64] blob))"

section \<open>The loop, signature by signature\<close>

text \<open>Reference: the payload cut into signatures, each converted on its own.\<close>

fun convert_chunks :: "nat \<Rightarrow> nat \<Rightarrow> bytes \<Rightarrow> bytes" where
  "convert_chunks n 0 p = p"
| "convert_chunks n (Suc c) p = take 32 p @ convert_s n (take 32 (drop 32 p)) @ convert_chunks n c (drop 64 p)"

lemma length_convert_s: "length b = 32 \<Longrightarrow> n < 2 ^ 256 \<Longrightarrow> length (convert_s n b) = 32"
proof -
  assume b: "length b = 32" and n: "n < 2 ^ 256"
  have s: "SetBytes b < 256 ^ 32"
  proof -
    have "SetBytes bs < 256 ^ length bs" for bs :: bytes
    proof (induction bs rule: rev_induct)
      case (snoc x xs)
      have "unat x < 256" using unsigned_less [of x, where ?'a = nat] by simp
      with snoc show ?case by (simp add: SetBytes_def)
    qed (simp add: SetBytes_def)
    from this [of b] b show ?thesis by simp
  qed
  have "nat \<bar>int n - int m\<bar> < k" if "n < k" "m < k" for m k using that by linarith
  from this [of "256 ^ 32" "SetBytes b"] s n have "nat \<bar>int n - int (SetBytes b)\<bar> < 256 ^ 32" by simp
  from padded_Bytes [OF this] b show ?thesis by (simp add: convert_s_def Let_def)
qed

lemma convert_sig_shift:
  assumes "length out \<ge> 6 + k * 64"
  shows "convert_sig n (k + i) out = take (6 + k * 64) out @
     (let p = drop (6 + k * 64) out; o1 = i * 64 + 32
      in take o1 p @ convert_s n (take 32 (drop o1 p)) @ drop (o1 + 32) p)"
proof -
  have "take (6 + (k + i) * 64 + 32) out = take (6 + k * 64) out @ take (i * 64 + 32) (drop (6 + k * 64) out)"
    by (simp add: take_add [symmetric] algebra_simps)
  then show ?thesis by (simp add: convert_sig_def Let_def algebra_simps)
qed

lemma convert_loop:
  assumes "n < 2 ^ 256" and "length out \<ge> 6 + (k + c) * 64"
  shows "fold (convert_sig n) [k ..< k + c] out = take (6 + k * 64) out @ convert_chunks n c (drop (6 + k * 64) out)"
  using assms(2)
proof (induction c arbitrary: k out)
  case (Suc c)
  let ?p = "drop (6 + k * 64) out"
  let ?out = "convert_sig n k out"
  have s32: "length (convert_s n (take 32 (drop 32 ?p))) = 32"
    using Suc.prems by (intro length_convert_s assms(1)) simp
  have out: "?out = take (6 + k * 64) out @ take 32 ?p @ convert_s n (take 32 (drop 32 ?p)) @ drop 64 ?p"
    using convert_sig_shift [of k out n 0] Suc.prems by (simp add: Let_def)
  have len: "length (take (6 + k * 64) out) = 6 + k * 64" "length (take 32 ?p) = 32" using Suc.prems by simp_all
  have "take (6 + Suc k * 64) ?out = take (6 + k * 64) out @ take 32 ?p @ convert_s n (take 32 (drop 32 ?p))"
    "drop (6 + Suc k * 64) ?out = drop 64 ?p" "length ?out = length out"
    unfolding out using s32 len Suc.prems by simp_all
  moreover have "[k ..< k + Suc c] = k # [Suc k ..< Suc k + c]" by (simp add: upt_conv_Cons)
  ultimately show ?case using Suc.IH [of "Suc k" ?out] Suc.prems by simp
qed simp

lemma convert_reference:
  assumes "n < 2 ^ 256" and "length blob \<ge> 6 + 64 * c" and "BigEndian_Uint16 (take 2 (drop 4 blob)) = 64 * c" and "0 < c"
  shows "convertVerifierBlobToEIP2098 n blob = Ok (take 6 blob @ convert_chunks n c (drop 6 blob))"
  using convert_loop [OF assms(1), of 0 c blob] assms(2-)
  by (simp add: convertVerifierBlobToEIP2098_def Let_def mult.commute)

section \<open>EIP-2098\<close>

text \<open>A signature: \<open>r\<close>, \<open>s\<close> and the recovery id. The aggregator normalizes it to recovery
  id 0 (v = 27) by replacing \<open>s\<close> by its negation when the id is 1; EIP-2098 writes the id
  into the top bit of the \<open>s\<close> word.\<close>

type_synonym signature = "bytes \<times> nat \<times> bool"

definition canonical :: "nat \<Rightarrow> signature \<Rightarrow> bool" where
  "canonical n sig = (case sig of (r, s, v) \<Rightarrow> length r = 32 \<and> s \<le> n div 2)"

definition v27_form :: "nat \<Rightarrow> signature \<Rightarrow> bytes" where
  "v27_form n sig = (case sig of (r, s, v) \<Rightarrow> r @ be_fixed 32 (if v then n - s else s))"

definition compact_form :: "signature \<Rightarrow> bytes" where
  "compact_form sig = (case sig of (r, s, v) \<Rightarrow> r @ be_fixed 32 (if v then 2 ^ 255 + s else s))"

lemma set_recovery_bit:
  assumes "s < 2 ^ 255"
  shows "(be_fixed 32 s)[0 := or (be_fixed 32 s ! 0) 0x80] = be_fixed 32 (2 ^ 255 + s)"
proof -
  have k: "32 = Suc 31" "(2 :: nat) ^ 255 = 128 * 256 ^ 31" by simp_all
  have hd: "s div 256 ^ 31 < 128" using assms by (simp add: k(2) less_mult_imp_div_less)
  have "(2 ^ 255 + s) div 256 ^ 31 = s div 256 ^ 31 + 128" unfolding k(2) by simp
  moreover have "be_fixed 31 (2 ^ 255 + s) = be_fixed 31 s"
  proof -
    have "(128 * m + s) mod m = s mod m" for m :: nat by simp
    then show ?thesis unfolding k(2) by (metis be_fixed_mod)
  qed
  ultimately show ?thesis
    unfolding k(1) be_fixed_Cons using hd high_bit [OF hd] by simp
qed

lemma convert_one:
  assumes "odd n" and "n < 2 ^ 256" and "canonical n sig"
  shows "length (v27_form n sig) = 64" "take 32 (v27_form n sig) @ convert_s n (drop 32 (v27_form n sig)) = compact_form sig"
proof -
  obtain r s v where sig: "sig = (r, s, v)" by (metis surj_pair)
  with assms(3) have r: "length r = 32" and s: "s \<le> n div 2" by (auto simp: canonical_def)
  show "length (v27_form n sig) = 64" using r by (simp add: v27_form_def sig)
  have p: "256 ^ 32 = (2 :: nat) ^ 256" "(2 :: nat) ^ 256 = 2 * 2 ^ 255" by simp_all
  have small: "s < 2 ^ 255" "s < 256 ^ 32" "n - s < 256 ^ 32" using s assms(2) unfolding p by linarith+
  have "convert_s n (be_fixed 32 (if v then n - s else s)) = be_fixed 32 (if v then 2 ^ 255 + s else s)"
  proof (cases v)
    case True
    have "n - s > n div 2" using s assms(1) by (elim oddE) simp
    moreover have "nat \<bar>int n - int (n - s)\<bar> = s" using s by simp
    ultimately show ?thesis
      using padded_Bytes [OF small(2)] set_recovery_bit [OF small(1)] True
      by (simp add: convert_s_def SetBytes_be_fixed [OF small(3)] Let_def del: power_numeral)
  next
    case False
    with s show ?thesis by (simp add: convert_s_def SetBytes_be_fixed [OF small(2)] Let_def)
  qed
  then show "take 32 (v27_form n sig) @ convert_s n (drop 32 (v27_form n sig)) = compact_form sig"
    using r by (simp add: v27_form_def compact_form_def sig)
qed

lemma convert_all:
  assumes "odd n" and "n < 2 ^ 256" and "list_all (canonical n) sigs"
  shows "convert_chunks n (length sigs) (concat (map (v27_form n) sigs) @ rest) = concat (map compact_form sigs) @ rest"
  using assms(3)
proof (induction sigs)
  case (Cons sig sigs)
  with convert_one [OF assms(1,2), of sig] show ?case by simp
qed simp

section \<open>Transmission\<close>

record 'm AbstractAggregatedReport =
  rep_CCVS :: "bytes list"
  rep_CCVData :: "bytes list"
  rep_Message :: 'm

text \<open>\<open>OffRampClient.Execute\<close> of the generated binding.\<close>

definition execute_args :: "sdk \<Rightarrow> bytes \<Rightarrow> string list \<Rightarrow> bytes list \<Rightarrow> int \<Rightarrow> ScVal list" where
  "execute_args lib encodedMessage ccvs verifierResults gasLimitOverride =
     [BytesToScVal encodedMessage, AddressSliceToScVal lib ccvs, BytesSliceToScVal verifierResults,
      Uint32ToScVal gasLimitOverride]"

definition Execute ::
    "sdk \<Rightarrow> invoker \<Rightarrow> string \<Rightarrow> bytes \<Rightarrow> string list \<Rightarrow> bytes list \<Rightarrow> int \<Rightarrow> unit result" where
  "Execute lib ivk contractID encodedMessage ccvs verifierResults gasLimitOverride =
     bind_r (wrap_err (\<lambda>e. Errorf ''failed to call execute: %w'' [AErr e])
       (InvokeContract ivk contractID ''execute'' (execute_args lib encodedMessage ccvs verifierResults gasLimitOverride)))
       (\<lambda>_. Ok ())"

abbreviation (input) DefaultGasLimitOverride :: int where
  "DefaultGasLimitOverride \<equiv> 0"

fun convert_ccvs :: "sdk \<Rightarrow> error \<Rightarrow> nat \<Rightarrow> bytes list \<Rightarrow> string list result" where
  "convert_ccvs lib sentinel i [] = Ok []"
| "convert_ccvs lib sentinel i (ccv # ccvs) =
     bind_r (wrap_err (\<lambda>e. errors_Join sentinel
               (Errorf ''unable to submit txn: invalid CCV address at index %d: %w'' [AInt (int i), AErr e]))
              (HexToContractStrkey lib (''0x'' @ hex_EncodeToString ccv))) (\<lambda>s.
     bind_r (convert_ccvs lib sentinel (Suc i) ccvs) (\<lambda>ss. Ok (s # ss)))"

fun convert_blobs :: "nat \<Rightarrow> error \<Rightarrow> nat \<Rightarrow> bytes list \<Rightarrow> bytes list result" where
  "convert_blobs n sentinel i [] = Ok []"
| "convert_blobs n sentinel i (blob # blobs) =
     bind_r (wrap_err (\<lambda>e. errors_Join sentinel
               (Errorf ''unable to convert verifier blob %d to EIP-2098: %w'' [AInt (int i), AErr e]))
              (convertVerifierBlobToEIP2098 n blob)) (\<lambda>b.
     bind_r (convert_blobs n sentinel (Suc i) blobs) (\<lambda>bs. Ok (b # bs)))"

definition ConvertAndWriteMessageToChain ::
    "nat \<Rightarrow> sdk \<Rightarrow> 'm ccip \<Rightarrow> invoker \<Rightarrow> string \<Rightarrow> 'm AbstractAggregatedReport \<Rightarrow> unit result" where
  "ConvertAndWriteMessageToChain n lib P ivk offramp report =
     bind_r (MustMessageID P (rep_Message report)) (\<lambda>messageID.
     bind_r (wrap_err (\<lambda>e. errors_Join (ErrMessageEncoding P)
               (Errorf ''unable to submit txn: invalid message encoding: %w'' [AErr e]))
              (msg_Encode P (rep_Message report))) (\<lambda>encodedMsg.
     bind_r (convert_ccvs lib (ErrMessageEncoding P) 0 (rep_CCVS report)) (\<lambda>ccvScVals.
     bind_r (convert_blobs n (ErrMessageEncoding P) 0 (rep_CCVData report)) (\<lambda>convertedCCVData.
     Execute lib ivk offramp encodedMsg ccvScVals convertedCCVData DefaultGasLimitOverride))))"

record ContractTransmitter =
  ct_ccipOfframpAddress :: string
  ct_ccipStateChangedTopic :: string
  ct_rmnRemoteAddress :: string

definition NewContractTransmitterWithClient ::
    "invoker option \<Rightarrow> string \<Rightarrow> string \<Rightarrow> string \<Rightarrow> bool \<Rightarrow> (invoker \<times> ContractTransmitter) result" where
  "NewContractTransmitterWithClient ivk ccipOfframpAddress ccipStateChangedTopic rmnRemoteAddress lggr =
     (case ivk of
        None \<Rightarrow> Err (New ''invoker is required'')
      | Some i \<Rightarrow>
          if ccipOfframpAddress = [] then Err (New ''ccip offramp address is required'')
          else if ccipStateChangedTopic = [] then Err (New ''ccip state changed topic is required'')
          else if \<not> lggr then Err (New ''logger is required'')
          else Ok (i, \<lparr>ct_ccipOfframpAddress = ccipOfframpAddress, ct_ccipStateChangedTopic = ccipStateChangedTopic,
                      ct_rmnRemoteAddress = rmnRemoteAddress\<rparr>))"

section \<open>Properties\<close>

text \<open>C20: The conversion restores the original signatures in the compact form of EIP-2098: a
  blob that carries any number of canonical signatures (s at most half the curve order) in
  the v=27 form of the aggregator becomes the same blob with each signature's s word and
  recovery id put together; version, length field and trailing bytes are unchanged.\<close>

theorem eip2098_conversion_restores:
  assumes "odd n" and "n < 2 ^ 256" and "sigs \<noteq> []" and "64 * length sigs < 2 ^ 16"
    and "list_all (canonical n) sigs" and "length version = 4"
  shows "convertVerifierBlobToEIP2098 n
      (version @ be_fixed 2 (64 * length sigs) @ concat (map (v27_form n) sigs) @ rest) =
    Ok (version @ be_fixed 2 (64 * length sigs) @ concat (map compact_form sigs) @ rest)"
proof -
  let ?blob = "version @ be_fixed 2 (64 * length sigs) @ concat (map (v27_form n) sigs) @ rest"
  have len: "length (concat (map (v27_form n) ss)) = 64 * length ss" if "list_all (canonical n) ss" for ss
    using that by (induction ss) (simp_all add: convert_one(1) [OF assms(1,2)])
  have "BigEndian_Uint16 (be_fixed 2 k) = k" if "k < 2 ^ 16" for k
  proof -
    have "k div 256 < 256" using that by simp
    moreover have "be_fixed 2 k = [word_of_nat (k div 256 mod 256), word_of_nat (k mod 256)]"
      by (simp add: numeral_2_eq_2)
    ultimately show ?thesis by (simp add: BigEndian_Uint16_def unat_of_nat)
  qed
  then have u16: "BigEndian_Uint16 (take 2 (drop 4 ?blob)) = 64 * length sigs" using assms(4,6) by simp
  have six: "take 6 ?blob = version @ be_fixed 2 (64 * length sigs)"
    "drop 6 ?blob = concat (map (v27_form n) sigs) @ rest" using assms(6) by simp_all
  have "length ?blob \<ge> 6 + 64 * length sigs" using len [OF assms(5)] assms(6) by simp
  from convert_reference [OF assms(2) this u16, unfolded six convert_all [OF assms(1,2,5)]] assms(3)
  show ?thesis by simp
qed

definition sample_sigs :: "signature list" where
  "sample_sigs = [(replicate 32 9, 5, True), (replicate 32 8, 7, False)]"

definition curve_order :: nat where
  "curve_order = 0xFFFFFFFFFFFFFFFFFFFFFFFFFFFFFFFEBAAEDCE6AF48A03BBFD25E8CD0364141"

theorem eip2098_conversion_restores_witness:
  "convertVerifierBlobToEIP2098 curve_order
      ([0, 0, 0, 1] @ be_fixed 2 (64 * length sample_sigs) @ concat (map (v27_form curve_order) sample_sigs) @ [42]) =
    Ok ([0, 0, 0, 1] @ be_fixed 2 (64 * length sample_sigs) @ concat (map compact_form sample_sigs) @ [42])"
  by (rule eip2098_conversion_restores) (simp_all add: curve_order_def canonical_def sample_sigs_def)

text \<open>C21: The conversion rejects a blob exactly when the announced payload is present and is not a
  whole number of signatures. Any other blob is accepted: the result has the same length, the
  same six header bytes and the same bytes after the payload, and it is the blob itself when no
  payload is present.\<close>

theorem verifier_blob_shape_kept:
  assumes "n < 2 ^ 256"
  shows "let len = BigEndian_Uint16 (take 2 (drop 4 blob));
             present = (6 \<le> length blob \<and> 0 < len \<and> 6 + len \<le> length blob)
    in if present \<and> len mod 64 \<noteq> 0
       then convertVerifierBlobToEIP2098 n blob =
         Err (Errorf ''signature payload length %d is not a multiple of %d'' [AInt (int len), AInt 64])
       else \<exists>out. convertVerifierBlobToEIP2098 n blob = Ok out \<and> length out = length blob \<and>
         take 6 out = take 6 blob \<and> drop (6 + len) out = drop (6 + len) blob \<and> (present \<or> out = blob)"
proof -
  have chunks: "length (convert_chunks n c p) = length p \<and> drop (64 * c) (convert_chunks n c p) = drop (64 * c) p"
    if "64 * c \<le> length p" for c p
    using that
  proof (induction c arbitrary: p)
    case (Suc c)
    then have "length (convert_s n (take 32 (drop 32 p))) = 32" by (intro length_convert_s assms) simp
    with Suc show ?case by (simp add: algebra_simps)
  qed simp
  let ?len = "BigEndian_Uint16 (take 2 (drop 4 blob))"
  show ?thesis
  proof (cases "6 \<le> length blob \<and> 0 < ?len \<and> 6 + ?len \<le> length blob \<and> ?len mod 64 = 0")
    case True
    then obtain c where c: "?len = 64 * c" by (auto elim: dvdE simp: mod_eq_0_iff_dvd)
    with True have "64 * c \<le> length (drop 6 blob)" "6 + 64 * c \<le> length blob" "0 < c" by auto
    with convert_reference [OF assms _ c] chunks [of c "drop 6 blob"] c True show ?thesis by (simp add: Let_def add.commute)
  next
    case False
    then show ?thesis by (auto simp: convertVerifierBlobToEIP2098_def Let_def not_le)
  qed
qed

theorem verifier_blob_shape_kept_witness:
  "convertVerifierBlobToEIP2098 curve_order [0, 0, 0, 1, 0, 1, 7] = Err
     (Errorf ''signature payload length %d is not a multiple of %d'' [AInt 1, AInt 64]) \<and>
   convertVerifierBlobToEIP2098 curve_order [0, 0, 0, 1, 0, 0, 7] = Ok [0, 0, 0, 1, 0, 0, 7]"
  using verifier_blob_shape_kept [of curve_order "[0, 0, 0, 1, 0, 0, 7]"]
    verifier_blob_shape_kept [of curve_order "[0, 0, 0, 1, 0, 1, 7]"]
  by (simp add: curve_order_def BigEndian_Uint16_def)

end
