(* ===== verification/Ccv_Dest.thy ===== *)
theory Ccv_Dest
  imports Ccv_Transmitter
begin

text \<open>
  The destination side of the CCV services (ccv/destination_reader): the reader of the OffRamp
  contract, and the poller that turns ExecutionStateChanged events into execution attempts.
  The parts of the generated OffRamp and RMN bindings that they call are included.
\<close>

section \<open>Generated bindings in use\<close>

datatype MessageExecutionState = StateUntouched | StateInProgress | StateSuccess | StateFailure | StateOther int

definition MessageExecutionState_of :: "int \<Rightarrow> MessageExecutionState" where
  "MessageExecutionState_of v =
     (if v = 0 then StateUntouched else if v = 1 then StateInProgress else if v = 2 then StateSuccess
      else if v = 3 then StateFailure else StateOther v)"

definition MessageExecutionStateFromScVal :: "ScVal \<Rightarrow> MessageExecutionState result" where
  "MessageExecutionStateFromScVal val =
     bind_r (GetU32 val) (\<lambda>v. case v of
        None \<Rightarrow> Err (New ''expected u32 for MessageExecutionState enum'')
      | Some x \<Rightarrow> Ok (MessageExecutionState_of x))"

record SourceChainConfig =
  scc_DefaultCcvs :: "string list"
  scc_IsEnabled :: bool
  scc_LaneMandatedCcvs :: "string list"
  scc_OnRamps :: "bytes list"
  scc_Router :: string

definition zero_scc :: SourceChainConfig where
  "zero_scc = \<lparr>scc_DefaultCcvs = [], scc_IsEnabled = False, scc_LaneMandatedCcvs = [], scc_OnRamps = [], scc_Router = []\<rparr>"

fun strkey_items :: "sdk \<Rightarrow> ScVal list \<Rightarrow> string list result" where
  "strkey_items lib [] = Ok []"
| "strkey_items lib (item # items) =
     bind_r (AddressFromScVal lib item) (\<lambda>v. bind_r (strkey_items lib items) (\<lambda>vs. Ok (v # vs)))"

fun raw_items :: "ScVal list \<Rightarrow> bytes list result" where
  "raw_items [] = Ok []"
| "raw_items (item # items) =
     bind_r (GetBytes item) (\<lambda>v. case v of
        None \<Rightarrow> Err (New ''vec item is not bytes'')
      | Some b \<Rightarrow> bind_r (raw_items items) (\<lambda>vs. Ok (b # vs)))"

definition vec_field :: "string \<Rightarrow> (ScVal list \<Rightarrow> 'a result) \<Rightarrow> ScVal \<Rightarrow> 'a result" where
  "vec_field msg f val = bind_r (GetVec val) (\<lambda>v. case v of None \<Rightarrow> Err (New msg) | Some items \<Rightarrow> f items)"

definition scc_entry :: "sdk \<Rightarrow> string \<Rightarrow> ScVal \<Rightarrow> SourceChainConfig \<Rightarrow> SourceChainConfig result" where
  "scc_entry lib key val c =
     (if key = ''default_ccvs'' then
        bind_r (vec_field ''default_ccvs is not a vec'' (strkey_items lib) val) (\<lambda>x. Ok (c\<lparr>scc_DefaultCcvs := x\<rparr>))
      else if key = ''is_enabled'' then
        bind_r (GetB val) (\<lambda>b. case b of
            None \<Rightarrow> Err (New ''is_enabled is not bool'') | Some x \<Rightarrow> Ok (c\<lparr>scc_IsEnabled := x\<rparr>))
      else if key = ''lane_mandated_ccvs'' then
        bind_r (vec_field ''lane_mandated_ccvs is not a vec'' (strkey_items lib) val) (\<lambda>x. Ok (c\<lparr>scc_LaneMandatedCcvs := x\<rparr>))
      else if key = ''on_ramps'' then
        bind_r (vec_field ''on_ramps is not a vec'' raw_items val) (\<lambda>x. Ok (c\<lparr>scc_OnRamps := x\<rparr>))
      else if key = ''router'' then
        bind_r (wrap_err (\<lambda>e. Errorf ''router: %w'' [AErr e]) (AddressFromScVal lib val)) (\<lambda>x. Ok (c\<lparr>scc_Router := x\<rparr>))
      else Ok c)"

definition SourceChainConfigFromScVal :: "sdk \<Rightarrow> ScVal \<Rightarrow> SourceChainConfig result" where
  "SourceChainConfigFromScVal lib val =
     bind_r (GetMap val) (\<lambda>m. case m of
        None \<Rightarrow> Err (New ''not a map type'')
      | Some es \<Rightarrow> fold_entries (scc_entry lib) es zero_scc)"

text \<open>A read-only call whose value is required.\<close>

definition simulate_value :: "invoker \<Rightarrow> string \<Rightarrow> string \<Rightarrow> ScVal list \<Rightarrow> ScVal result" where
  "simulate_value ivk contractID f args =
     bind_r (wrap_err (\<lambda>e. Errorf ''failed to call %s: %w'' [AStr f, AErr e]) (SimulateContract ivk contractID f args))
       (\<lambda>r. case r of None \<Rightarrow> Err (Errorf ''no return value from %s'' [AStr f]) | Some v \<Rightarrow> Ok v)"

definition GetExecutionState :: "invoker \<Rightarrow> string \<Rightarrow> bytes \<Rightarrow> MessageExecutionState result" where
  "GetExecutionState ivk contractID messageId =
     bind_r (simulate_value ivk contractID ''get_execution_state'' [Bytes32ToScVal messageId])
       MessageExecutionStateFromScVal"

definition GetSourceChainConfig :: "sdk \<Rightarrow> invoker \<Rightarrow> string \<Rightarrow> int \<Rightarrow> SourceChainConfig result" where
  "GetSourceChainConfig lib ivk contractID selector =
     bind_r (simulate_value ivk contractID ''get_source_chain_config'' [Uint64ToScVal selector])
       (SourceChainConfigFromScVal lib)"

fun bytes16_items :: "ScVal list \<Rightarrow> bytes list result" where
  "bytes16_items [] = Ok []"
| "bytes16_items (item # items) =
     bind_r (Bytes16FromScVal item) (\<lambda>v. bind_r (bytes16_items items) (\<lambda>vs. Ok (v # vs)))"

definition GetCursedSubjects :: "invoker \<Rightarrow> string \<Rightarrow> bytes list result" where
  "GetCursedSubjects ivk contractID =
     bind_r (simulate_value ivk contractID ''get_cursed_subjects'' [])
       (vec_field ''expected vec return type'' bytes16_items)"

section \<open>The destination reader\<close>

definition GetMessageSuccess :: "'m ccip \<Rightarrow> invoker \<Rightarrow> string \<Rightarrow> 'm \<Rightarrow> bool result" where
  "GetMessageSuccess P ivk offramp message =
     bind_r (wrap_err (\<lambda>e. Errorf ''failed to compute message ID: %w'' [AErr e]) (MessageID P message)) (\<lambda>msgID.
     bind_r (wrap_err (\<lambda>e. Errorf ''failed to get execution state for message %x: %w''
                             [AStr (hex_EncodeToString msgID), AErr e])
               (GetExecutionState ivk offramp msgID)) (\<lambda>state.
     Ok (state = StateSuccess)))"

record CCVAddressInfo =
  RequiredCCVs :: "bytes list"
  OptionalCCVs :: "bytes list"
  OptionalThreshold :: int

text \<open>The loop over the strkeys of a configuration: an address that does not parse is an
  error, \<open>*parsedAddr.ContractId\<close> of another kind of address a nil dereference.\<close>

fun ccv_addresses :: "sdk \<Rightarrow> string list \<Rightarrow> bytes list result" where
  "ccv_addresses lib [] = Ok []"
| "ccv_addresses lib (addr # addrs) =
     (case ParseAddress lib addr of
        None \<Rightarrow> Err (Errorf ''failed to parse address: %s'' [AStr addr])
      | Some parsed \<Rightarrow>
          bind_r (case parsed of ScAddressContract p \<Rightarrow> deref p | _ \<Rightarrow> Panic ''nil pointer dereference'')
            (\<lambda>raw. bind_r (ccv_addresses lib addrs) (\<lambda>rest. Ok (raw # rest))))"

definition GetCCVSForMessage :: "sdk \<Rightarrow> 'm ccip \<Rightarrow> invoker \<Rightarrow> string \<Rightarrow> 'm \<Rightarrow> CCVAddressInfo result" where
  "GetCCVSForMessage lib P ivk offramp message =
     (let sourceSelector = SourceChainSelector P message in
      bind_r (wrap_err (\<lambda>e. Errorf ''failed to get source chain config for selector %d: %w'' [AInt sourceSelector, AErr e])
                (GetSourceChainConfig lib ivk offramp sourceSelector)) (\<lambda>sourceConfig.
      bind_r (ccv_addresses lib (scc_LaneMandatedCcvs sourceConfig)) (\<lambda>requiredCCVs.
      bind_r (ccv_addresses lib (scc_DefaultCcvs sourceConfig)) (\<lambda>optionalCCVs.
      Ok \<lparr>RequiredCCVs = requiredCCVs, OptionalCCVs = optionalCCVs,
          OptionalThreshold = (if length optionalCCVs > 0 then 1 else 0)\<rparr>))))"

definition GetRMNCursedSubjects :: "invoker \<Rightarrow> string \<Rightarrow> bytes list result" where
  "GetRMNCursedSubjects ivk rmnRemote =
     wrap_err (\<lambda>e. Errorf ''failed to get cursed subjects: %w'' [AErr e]) (GetCursedSubjects ivk rmnRemote)"

text \<open>Not implemented in the source: constant answers.\<close>

definition HasHonestAttempt :: "'m \<Rightarrow> bool result" where
  "HasHonestAttempt message = Ok False"

section \<open>Execution attempts\<close>

datatype XHostFunction = XInvokeContract "ScVal list option" | XHostFunctionOther int

datatype XOperation = XInvokeHostFunction XHostFunction | XOperationOther int

text \<open>A decoded envelope: its kind and its operations (of the inner transaction for a fee
  bump).\<close>

datatype TransactionEnvelope =
    EnvelopeTxV0 "XOperation list" | EnvelopeTx "XOperation list" | EnvelopeFeeBump "XOperation list" | EnvelopeOther int

definition first_args :: "XOperation list \<Rightarrow> ScVal list result" where
  "first_args ops =
     (case ops of
        [] \<Rightarrow> Err (New ''transaction has no operations'')
      | XOperationOther ty # _ \<Rightarrow> Err (Errorf ''first operation is not InvokeHostFunction (type=%v)'' [AInt ty])
      | XInvokeHostFunction f # _ \<Rightarrow>
          (case f of
             XHostFunctionOther ty \<Rightarrow> Err (Errorf ''host function is not InvokeContract (type=%v)'' [AInt ty])
           | XInvokeContract None \<Rightarrow> Err (New ''InvokeContract args are nil'')
           | XInvokeContract (Some args) \<Rightarrow> Ok args))"

definition extractInvokeContractArgs :: "(string \<Rightarrow> TransactionEnvelope result) \<Rightarrow> string \<Rightarrow> ScVal list result" where
  "extractInvokeContractArgs unb64_Envelope envelopeXDR =
     bind_r (wrap_err (\<lambda>e. Errorf ''failed to unmarshal transaction envelope: %w'' [AErr e]) (unb64_Envelope envelopeXDR))
       (\<lambda>envelope. case envelope of
          EnvelopeTxV0 ops \<Rightarrow> first_args ops
        | EnvelopeTx ops \<Rightarrow> first_args ops
        | EnvelopeFeeBump ops \<Rightarrow> first_args ops
        | EnvelopeOther ty \<Rightarrow> Err (Errorf ''unsupported envelope type: %v'' [AInt ty]))"

record 'm ExecutionAttempt =
  att_Report :: "'m AbstractAggregatedReport"
  att_TransactionGasLimit :: int

definition decodeExecuteArgsToAttempt :: "'m ccip \<Rightarrow> ScVal list \<Rightarrow> 'm ExecutionAttempt result" where
  "decodeExecuteArgsToAttempt P args =
     (if length args \<noteq> 4 then Err (Errorf ''expected %d args, got %d'' [AInt 4, AInt (int (length args))])
      else
        bind_r (wrap_err (\<lambda>e. Errorf ''failed to decode encoded_message: %w'' [AErr e]) (BytesFromScVal (args ! 0))) (\<lambda>encodedMsg.
        bind_r (wrap_err (\<lambda>e. Errorf ''failed to decode ccvs: %w'' [AErr e]) (AddressVecFromScVal (args ! 1))) (\<lambda>ccvs.
        bind_r (wrap_err (\<lambda>e. Errorf ''failed to decode verifier_results: %w'' [AErr e]) (BytesVecFromScVal (args ! 2))) (\<lambda>verifierResults.
        bind_r (GetU32 (args ! 3)) (\<lambda>g. case g of
            None \<Rightarrow> Err (New ''failed to decode gas_limit_override: not a u32'')
          | Some gasLimitOverride \<Rightarrow>
              bind_r (wrap_err (\<lambda>e. Errorf ''failed to decode message: %w'' [AErr e]) (DecodeMessage P encodedMsg)) (\<lambda>message.
              Ok \<lparr>att_Report = \<lparr>rep_CCVS = ccvs, rep_CCVData = verifierResults, rep_Message = message\<rparr>,
                  att_TransactionGasLimit = gasLimitOverride\<rparr>))))))"

section \<open>The event poller\<close>

record ExecutionStateChangedEvent =
  ese_SourceChainSelector :: int
  ese_SequenceNumber :: int
  ese_MessageId :: bytes
  ese_State :: MessageExecutionState
  ese_ReturnData :: bytes
  ese_Ledger :: int
  ese_TxHash :: string

definition ese_entry :: "string \<Rightarrow> ScVal \<Rightarrow> ExecutionStateChangedEvent \<Rightarrow> ExecutionStateChangedEvent result" where
  "ese_entry key val r =
     (if key = ''source_chain_selector'' then set_if_ok (Uint64FromScVal val) (\<lambda>v r. r\<lparr>ese_SourceChainSelector := v\<rparr>) r
      else if key = ''sequence_number'' then set_if_ok (Uint64FromScVal val) (\<lambda>v r. r\<lparr>ese_SequenceNumber := v\<rparr>) r
      else if key = ''message_id'' then set_if_ok (Bytes32FromScVal val) (\<lambda>v r. r\<lparr>ese_MessageId := v\<rparr>) r
      else if key = ''state'' then set_if_ok (MessageExecutionStateFromScVal val) (\<lambda>v r. r\<lparr>ese_State := v\<rparr>) r
      else if key = ''return_data'' then set_if (GetBytes val) (\<lambda>v r. r\<lparr>ese_ReturnData := v\<rparr>) r
      else Ok r)"

definition ParseExecutionStateChangedEvent :: "sdk \<Rightarrow> EventInfo \<Rightarrow> ExecutionStateChangedEvent result" where
  "ParseExecutionStateChangedEvent lib e =
     bind_r (wrap_err (\<lambda>e. Errorf ''failed to decode event: %w'' [AErr e]) (unb64_ScVal lib (ei_ValueXDR e))) (\<lambda>eventVal.
     bind_r (GetMap eventVal) (\<lambda>m. case m of
        None \<Rightarrow> Err (New ''event is not a map'')
      | Some es \<Rightarrow> fold_entries ese_entry es
          \<lparr>ese_SourceChainSelector = 0, ese_SequenceNumber = 0, ese_MessageId = replicate 32 0,
           ese_State = StateUntouched, ese_ReturnData = [], ese_Ledger = u32 (ei_Ledger e),
           ese_TxHash = ei_TransactionHash e\<rparr>))"

text \<open>The answers of the RPC node during one poll: the sequence of the latest ledger, the
  ExecutionStateChanged events of the OffRamp from a start ledger to an end ledger, a
  transaction by its hash (status and envelope). The cache is a map from message ids to
  attempts; the expiry of its entries (after the lookback window) is not part of a poll.\<close>

record 'm poll_env =
  pe_GetLatestLedger :: "int result"
  pe_GetEvents :: "int \<Rightarrow> int \<Rightarrow> EventInfo list result"
  pe_GetTransaction :: "string \<Rightarrow> (GetStatus \<times> string) result"

record 'm poller =
  attemptCache :: "bytes \<Rightarrow> 'm ExecutionAttempt list option"
  lastPolledLedger :: int
  startLedger :: int
  lookbackWindow :: int

text \<open>The constants and code the poller is built from: the SDK, the CCIP library, the decoder
  of envelopes.\<close>

type_synonym 'm poll_lib = "sdk \<times> 'm ccip \<times> (string \<Rightarrow> TransactionEnvelope result)"

abbreviation (input) minStellarLedger :: int where
  "minStellarLedger \<equiv> 7"

abbreviation (input) estimatedLedgerCloseTime :: int where
  "estimatedLedgerCloseTime \<equiv> 6 * 1000000000"

definition NewStellarExecutionAttemptPoller :: "bool \<Rightarrow> bool \<Rightarrow> string \<Rightarrow> int \<Rightarrow> 'm poller result" where
  "NewStellarExecutionAttemptPoller rpcClient lggr offrampContractID attemptCacheExpiration =
     (if \<not> rpcClient then Err (New ''rpc client cannot be nil'')
      else if \<not> lggr then Err (New ''logger cannot be nil'')
      else if offrampContractID = [] then Err (New ''offramp contract ID cannot be empty'')
      else Ok \<lparr>attemptCache = (\<lambda>_. None), lastPolledLedger = 0, startLedger = 0,
               lookbackWindow = attemptCacheExpiration\<rparr>)"

definition GetExecutionAttempts :: "'m ccip \<Rightarrow> 'm poller \<Rightarrow> 'm \<Rightarrow> 'm ExecutionAttempt list result" where
  "GetExecutionAttempts P p message =
     bind_r (wrap_err (\<lambda>e. Errorf ''failed to get message ID: %w'' [AErr e]) (MessageID P message)) (\<lambda>msgID.
     Ok (case attemptCache p msgID of None \<Rightarrow> [] | Some attempts \<Rightarrow> attempts))"

text \<open>\<open>lookback / estimatedLedgerCloseTime\<close> truncates towards zero.\<close>

definition getStartLedger :: "'m poll_env \<Rightarrow> 'm poller \<Rightarrow> unit result \<times> 'm poller" where
  "getStartLedger env p =
     (case pe_GetLatestLedger env of
        Err e \<Rightarrow> (Err (Errorf ''failed to get latest ledger: %w'' [AErr e]), p)
      | Panic q \<Rightarrow> (Panic q, p)
      | Ok latest \<Rightarrow>
          let lookbackLedgers = u32 (sgn (lookbackWindow p) * (\<bar>lookbackWindow p\<bar> div estimatedLedgerCloseTime)) in
          (Ok (), p\<lparr>startLedger := (if lookbackLedgers \<ge> latest then minStellarLedger
                                   else max (latest - lookbackLedgers) minStellarLedger)\<rparr>))"

text \<open>The text of a transaction status in the RPC protocol.\<close>

definition status_text :: "GetStatus \<Rightarrow> string" where
  "status_text st = (case st of StatusSuccess \<Rightarrow> ''SUCCESS'' | StatusNotFound \<Rightarrow> ''NOT_FOUND'' | StatusFailed \<Rightarrow> ''FAILED''
     | StatusOther s \<Rightarrow> s)"

definition processExecutionStateChanged ::
    "'m poll_lib \<Rightarrow> 'm poll_env \<Rightarrow> ExecutionStateChangedEvent \<Rightarrow> 'm poller \<Rightarrow> unit result \<times> 'm poller" where
  "processExecutionStateChanged libs env event p =
     (case libs of (lib, P, unb64_Envelope) \<Rightarrow>
      (case pe_GetTransaction env (ese_TxHash event) of
         Err e \<Rightarrow> (Err (Errorf ''failed to get transaction %s: %w'' [AStr (ese_TxHash event), AErr e]), p)
       | Panic q \<Rightarrow> (Panic q, p)
       | Ok (status, envelopeXDR) \<Rightarrow>
           if status \<noteq> StatusSuccess then
             (Err (Errorf ''transaction %s has non-success status: %s'' [AStr (ese_TxHash event), AStr (status_text status)]), p)
           else
             (case bind_r (wrap_err (\<lambda>e. Errorf ''failed to extract execute args from transaction %s: %w''
                              [AStr (ese_TxHash event), AErr e]) (extractInvokeContractArgs unb64_Envelope envelopeXDR)) (\<lambda>executeArgs.
                   bind_r (wrap_err (\<lambda>e. Errorf ''failed to decode execute args from transaction %s: %w''
                              [AStr (ese_TxHash event), AErr e]) (decodeExecuteArgsToAttempt P executeArgs)) (\<lambda>attempt.
                   bind_r (MustMessageID P (rep_Message (att_Report attempt))) (\<lambda>attemptMsgID.
                   if ese_MessageId event \<noteq> attemptMsgID
                   then Err (New ''computed message id does not match event message id'')
                   else Ok attempt))) of
                Err e \<Rightarrow> (Err e, p)
              | Panic q \<Rightarrow> (Panic q, p)
              | Ok attempt \<Rightarrow>
                  let attempts = (case attemptCache p (ese_MessageId event) of None \<Rightarrow> [] | Some xs \<Rightarrow> xs) in
                  (Ok (), p\<lparr>attemptCache := (attemptCache p)(ese_MessageId event \<mapsto> attempts @ [attempt])\<rparr>))))"

fun process_events :: "'m poll_lib \<Rightarrow> 'm poll_env \<Rightarrow> EventInfo list \<Rightarrow> 'm poller \<Rightarrow> unit result \<times> 'm poller" where
  "process_events libs env [] p = (Ok (), p)"
| "process_events libs env (e # es) p =
     (case ParseExecutionStateChangedEvent (fst libs) e of
        Err err \<Rightarrow> process_events libs env es p
      | Panic q \<Rightarrow> (Panic q, p)
      | Ok parsed \<Rightarrow>
          (case processExecutionStateChanged libs env parsed p of
             (Panic q, p') \<Rightarrow> (Panic q, p')
           | (_, p') \<Rightarrow> process_events libs env es p'))"

definition pollForEvents :: "'m poll_lib \<Rightarrow> 'm poll_env \<Rightarrow> 'm poller \<Rightarrow> unit result \<times> 'm poller" where
  "pollForEvents libs env p =
     (case pe_GetLatestLedger env of
        Err e \<Rightarrow> (Err (Errorf ''failed to get latest ledger: %w'' [AErr e]), p)
      | Panic q \<Rightarrow> (Panic q, p)
      | Ok toLedger \<Rightarrow>
          if toLedger \<le> lastPolledLedger p then (Ok (), p)
          else
            (case pe_GetEvents env (lastPolledLedger p) toLedger of
               Err e \<Rightarrow> (Err (Errorf ''failed to get events: %w'' [AErr e]), p)
             | Panic q \<Rightarrow> (Panic q, p)
             | Ok events \<Rightarrow>
                 (case process_events libs env events p of
                    (Ok _, p') \<Rightarrow> (Ok (), p'\<lparr>lastPolledLedger := toLedger\<rparr>)
                  | (Err e, p') \<Rightarrow> (Err e, p')
                  | (Panic q, p') \<Rightarrow> (Panic q, p'))))"

definition runBackfill :: "'m poll_lib \<Rightarrow> 'm poll_env \<Rightarrow> 'm poller \<Rightarrow> unit result \<times> 'm poller" where
  "runBackfill libs env p =
     (case pollForEvents libs env (p\<lparr>lastPolledLedger := startLedger p\<rparr>) of
        (Err e, p') \<Rightarrow> (Err (Errorf ''backfill failed: %w'' [AErr e]), p')
      | r \<Rightarrow> r)"

definition poller_Start :: "'m poll_lib \<Rightarrow> 'm poll_env \<Rightarrow> 'm poll_env \<Rightarrow> 'm poller \<Rightarrow> unit result \<times> 'm poller" where
  "poller_Start libs env env2 p =
     (case getStartLedger env p of
        (Err e, p') \<Rightarrow> (Err (Errorf ''failed to calculate start ledger: %w'' [AErr e]), p')
      | (Panic q, p') \<Rightarrow> (Panic q, p')
      | (Ok _, p') \<Rightarrow>
          (case runBackfill libs env2 p' of
             (Ok _, p'') \<Rightarrow> (Ok (), p'')
           | (Err e, p'') \<Rightarrow> (Ok (), p''\<lparr>lastPolledLedger := startLedger p''\<rparr>)
           | (Panic q, p'') \<Rightarrow> (Panic q, p'')))"

text \<open>The ticker loop: failed polls are logged and the loop goes on.\<close>

fun runPolling :: "'m poll_lib \<Rightarrow> 'm poll_env list \<Rightarrow> 'm poller \<Rightarrow> unit result \<times> 'm poller" where
  "runPolling libs [] p = (Ok (), p)"
| "runPolling libs (env # envs) p =
     (case pollForEvents libs env p of
        (Panic q, p') \<Rightarrow> (Panic q, p')
      | (_, p') \<Rightarrow> runPolling libs envs p')"

section \<open>Construction of the reader\<close>

record 'm DestinationReader =
  dr_invoker :: invoker
  dr_offrampClient :: string
  dr_rmnRemoteAddress :: string
  dr_executionAttemptPoller :: "'m poller"

definition NewDestinationReader ::
    "invoker option \<Rightarrow> bool \<Rightarrow> string \<Rightarrow> string \<Rightarrow> bool \<Rightarrow> int \<Rightarrow> 'm DestinationReader result" where
  "NewDestinationReader ivk rpcClient offRampContractID rmnRemoteContractID lggr attemptCacheExpiration =
     (case ivk of
        None \<Rightarrow> Err (New ''invoker is required'')
      | Some i \<Rightarrow>
          if \<not> rpcClient then Err (New ''rpc client is required'')
          else if offRampContractID = [] then Err (New ''offramp contract ID is required'')
          else if rmnRemoteContractID = [] then Err (New ''rmn remote contract ID is required'')
          else if \<not> lggr then Err (New ''logger is required'')
          else
            bind_r (wrap_err (\<lambda>e. Errorf ''failed to create execution attempt poller: %w'' [AErr e])
                      (NewStellarExecutionAttemptPoller rpcClient lggr offRampContractID attemptCacheExpiration)) (\<lambda>poller.
            Ok \<lparr>dr_invoker = i, dr_offrampClient = offRampContractID, dr_rmnRemoteAddress = rmnRemoteContractID,
                dr_executionAttemptPoller = poller\<rparr>))"

definition reader_Start ::
    "'m poll_lib \<Rightarrow> 'm poll_env \<Rightarrow> 'm poll_env \<Rightarrow> 'm DestinationReader \<Rightarrow> unit result \<times> 'm DestinationReader" where
  "reader_Start libs env env2 d =
     (case poller_Start libs env env2 (dr_executionAttemptPoller d) of
        (Err e, p) \<Rightarrow> (Err (Errorf ''failed to start execution attempt poller: %w'' [AErr e]), d\<lparr>dr_executionAttemptPoller := p\<rparr>)
      | (r, p) \<Rightarrow> (r, d\<lparr>dr_executionAttemptPoller := p\<rparr>))"

end
