(* ===== verification/Ccv_Attempts.thy ===== *)
theory Ccv_Attempts
  imports Ccv_Dest
begin

text \<open>
  Properties of the destination side: successive polls read every event once and in order
  as long as their ranges fit on a page of the node, and lose what does not fit; the cache only holds attempts under their own message id, and what the transmitter sends
  is what the poller reads back.
\<close>

section \<open>Processing events\<close>

lemma processExecutionStateChanged_keeps:
  "processExecutionStateChanged libs env ev (p\<lparr>lastPolledLedger := l\<rparr>) =
     (case processExecutionStateChanged libs env ev p of (r, p') \<Rightarrow> (r, p'\<lparr>lastPolledLedger := l\<rparr>))"
  by (auto simp: processExecutionStateChanged_def Let_def split: prod.splits result.splits)

lemma process_events_keeps:
  "process_events libs env es (p\<lparr>lastPolledLedger := l\<rparr>) =
     (case process_events libs env es p of (r, p') \<Rightarrow> (r, p'\<lparr>lastPolledLedger := l\<rparr>))"
  by (induction es arbitrary: p)
     (auto simp: processExecutionStateChanged_keeps split: prod.splits result.splits)

lemma processExecutionStateChanged_cursor:
  "processExecutionStateChanged libs env ev p = (r, p') \<Longrightarrow> lastPolledLedger p' = lastPolledLedger p"
  by (auto simp: processExecutionStateChanged_def Let_def split: prod.splits result.splits if_splits)

lemma process_events_cursor:
  "process_events libs env es p = (r, p') \<Longrightarrow> lastPolledLedger p' = lastPolledLedger p"
proof (induction es arbitrary: p)
  case (Cons e es)
  then show ?case
    by (auto dest!: processExecutionStateChanged_cursor split: prod.splits result.splits)
qed simp

lemma process_events_never_Err: "process_events libs env es p \<noteq> (Err e, p')"
  by (induction es arbitrary: p) (auto split: prod.splits result.splits)

lemma process_events_append:
  "process_events libs env (xs @ ys) p =
     (case process_events libs env xs p of (Ok _, p') \<Rightarrow> process_events libs env ys p' | r \<Rightarrow> r)"
proof (induction xs arbitrary: p)
  case (Cons x xs)
  then show ?case by (auto split: prod.splits result.splits)
qed simp

lemma processExecutionStateChanged_env:
  "pe_GetTransaction env = pe_GetTransaction env' \<Longrightarrow>
     processExecutionStateChanged libs env = processExecutionStateChanged libs env'"
  by (intro ext) (simp add: processExecutionStateChanged_def)

lemma process_events_env:
  "pe_GetTransaction env = pe_GetTransaction env' \<Longrightarrow> process_events libs env es p = process_events libs env' es p"
proof (induction es arbitrary: p)
  case (Cons e es)
  have "processExecutionStateChanged libs env = processExecutionStateChanged libs env'"
    by (rule processExecutionStateChanged_env) fact
  moreover have "process_events libs env es = process_events libs env' es" using Cons by blast
  ultimately show ?case by (simp only: process_events.simps)
qed simp

text \<open>The parsed event keeps the transaction hash; without the transaction nothing is
  recorded.\<close>

lemma fold_entries_keeps:
  assumes "\<And>k v s s'. f k v s = Ok s' \<Longrightarrow> g s' = g s"
  shows "fold_entries f es s = Ok s' \<Longrightarrow> g s' = g s"
proof (induction es arbitrary: s)
  case (Cons e es)
  obtain k v where e: "e = (k, v)" by fastforce
  from Cons.prems obtain key s1 where "(case key of None \<Rightarrow> Ok s | Some x \<Rightarrow> f x v s) = Ok s1"
    and s1: "fold_entries f es s1 = Ok s'" by (auto simp: e)
  then have "g s1 = g s" using assms by (cases key) auto
  with Cons.IH [OF s1] show ?case by simp
qed simp

lemma parsed_TxHash:
  "ParseExecutionStateChangedEvent lib e = Ok ev \<Longrightarrow> ese_TxHash ev = ei_TransactionHash e"
proof -
  have "ese_entry k v s = Ok s' \<Longrightarrow> ese_TxHash s' = ese_TxHash s" for k v s s'
    by (auto simp: ese_entry_def set_if_ok_def set_if_def split: if_splits result.splits option.splits)
  then have keeps: "fold_entries ese_entry es s = Ok ev' \<Longrightarrow> ese_TxHash ev' = ese_TxHash s" for es s ev'
    by (rule fold_entries_keeps)
  assume "ParseExecutionStateChangedEvent lib e = Ok ev"
  then show ?thesis
    by (auto simp: ParseExecutionStateChangedEvent_def split: option.splits) (drule keeps, simp)
qed

lemma process_events_unanswered:
  assumes "list_all (\<lambda>e. \<not> is_Ok (pe_GetTransaction env (ei_TransactionHash e))) es"
    and "\<And>q. fst (process_events libs env es p) \<noteq> Panic q"
  shows "process_events libs env es p = (Ok (), p)"
  using assms
proof (induction es)
  case (Cons e es)
  show ?case
  proof (cases "ParseExecutionStateChangedEvent (fst libs) e")
    case (Ok ev)
    obtain lib P unb where libs: "libs = (lib, P, unb)" by (cases libs)
    from Cons.prems(1) parsed_TxHash [OF Ok] consider e' where "pe_GetTransaction env (ese_TxHash ev) = Err e'"
      | q where "pe_GetTransaction env (ese_TxHash ev) = Panic q" by auto
    then show ?thesis
    proof cases
      case 1
      with Cons Ok libs show ?thesis by (simp add: processExecutionStateChanged_def)
    next
      case 2
      with Cons.prems(2) [of q] Ok libs show ?thesis by (simp add: processExecutionStateChanged_def)
    qed
  next
    case (Err x)
    with Cons show ?thesis by simp
  next
    case (Panic q)
    with Cons.prems(2) [of q] show ?thesis by simp
  qed
qed simp

section \<open>Ranges of ledgers\<close>

text \<open>The events of a chain in the half-open range of ledgers of a request.\<close>

definition in_range :: "int \<Rightarrow> int \<Rightarrow> EventInfo list \<Rightarrow> EventInfo list" where
  "in_range a b chain = filter (\<lambda>e. a \<le> ei_Ledger e \<and> ei_Ledger e < b) chain"

lemma in_range_split:
  assumes "sorted (map ei_Ledger chain)" and "a \<le> b" and "b \<le> c"
  shows "in_range a c chain = in_range a b chain @ in_range b c chain"
  using assms(1)
proof (induction chain)
  case (Cons e chain)
  show ?case
  proof (cases "ei_Ledger e < b")
    case True
    then show ?thesis using Cons assms(2,3) by (auto simp: in_range_def)
  next
    case False
    then have "in_range a b chain = []"
      using Cons.prems by (fastforce simp: in_range_def filter_empty_conv)
    with False show ?thesis using Cons assms(2,3) by (auto simp: in_range_def)
  qed
qed (simp add: in_range_def)

lemma in_range_empty [simp]: "in_range a a chain = []"
  by (auto simp: in_range_def filter_empty_conv)

text \<open>An RPC node over a chain of events: it knows a head, answers a request up to its head with
  the first page of the events of the range, which holds at most \<open>lim\<close> events, or fails; it never
  panics. \<open>get\<close> answers the requests for transactions.\<close>

definition node_of :: "nat \<Rightarrow> EventInfo list \<Rightarrow> (string \<Rightarrow> (GetStatus \<times> string) result) \<Rightarrow> 'm poll_env \<Rightarrow> bool" where
  "node_of lim chain get env \<longleftrightarrow> pe_GetTransaction env = get \<and>
     (case pe_GetLatestLedger env of
        Ok h \<Rightarrow> (\<forall>a b. b \<le> h \<longrightarrow> pe_GetEvents env a b = Ok (take lim (in_range a b chain)) \<or> (\<exists>e. pe_GetEvents env a b = Err e))
      | Err e \<Rightarrow> True
      | Panic q \<Rightarrow> False)"

text \<open>Every range that a run of polls asks for holds at most one page of events.\<close>

fun pages_fit :: "nat \<Rightarrow> EventInfo list \<Rightarrow> 'm poll_lib \<Rightarrow> 'm poll_env list \<Rightarrow> 'm poller \<Rightarrow> bool" where
  "pages_fit lim chain libs [] p = True"
| "pages_fit lim chain libs (env # envs) p =
     ((case pe_GetLatestLedger env of
         Ok h \<Rightarrow> length (in_range (lastPolledLedger p) h chain) \<le> lim
       | _ \<Rightarrow> True) \<and>
      pages_fit lim chain libs envs (snd (pollForEvents libs env p)))"

definition node_answers :: "int \<Rightarrow> 'm poll_env \<Rightarrow> bool" where
  "node_answers h env \<longleftrightarrow> pe_GetLatestLedger env = Ok h \<and> (\<forall>a b. is_Ok (pe_GetEvents env a b))"

lemma poll_of_node:
  assumes node: "node_of lim chain get env" and "pe_GetTransaction env0 = get"
    and fit: "\<And>h. pe_GetLatestLedger env = Ok h \<Longrightarrow> length (in_range (lastPolledLedger p) h chain) \<le> lim"
    and np: "\<And>q. fst (pollForEvents libs env p) \<noteq> Panic q"
  obtains t p1 where "lastPolledLedger p \<le> t"
    and "process_events libs env0 (in_range (lastPolledLedger p) t chain) p = (Ok (), p1)"
    and "snd (pollForEvents libs env p) = p1\<lparr>lastPolledLedger := t\<rparr>"
    and "\<And>h. node_answers h env \<Longrightarrow> h \<le> t"
proof -
  have page: "pe_GetEvents env (lastPolledLedger p) h = Ok (in_range (lastPolledLedger p) h chain) \<or>
      (\<exists>e. pe_GetEvents env (lastPolledLedger p) h = Err e)" if "pe_GetLatestLedger env = Ok h" for h
  proof -
    from node that have "pe_GetEvents env (lastPolledLedger p) h = Ok (take lim (in_range (lastPolledLedger p) h chain)) \<or>
        (\<exists>e. pe_GetEvents env (lastPolledLedger p) h = Err e)" by (simp add: node_of_def)
    with fit [OF that] show ?thesis by simp
  qed
  show ?thesis
  proof (cases "\<exists>h. pe_GetLatestLedger env = Ok h \<and> h > lastPolledLedger p \<and>
      pe_GetEvents env (lastPolledLedger p) h = Ok (in_range (lastPolledLedger p) h chain)")
    case True
    then obtain h where h: "pe_GetLatestLedger env = Ok h" "h > lastPolledLedger p"
      "pe_GetEvents env (lastPolledLedger p) h = Ok (in_range (lastPolledLedger p) h chain)" by blast
    have "pe_GetTransaction env = pe_GetTransaction env0" using node assms(2) by (simp add: node_of_def)
    note eq = process_events_env [OF this, of libs "in_range (lastPolledLedger p) h chain" p]
    obtain r p1 where r: "process_events libs env0 (in_range (lastPolledLedger p) h chain) p = (r, p1)" by fastforce
    from r h np have "r = Ok ()"
      using process_events_never_Err [of libs env0 _ p _ p1]
      by (cases r) (auto simp: pollForEvents_def eq)
    with r h that [of h p1] show ?thesis by (simp add: pollForEvents_def eq node_answers_def)
  next
    case False
    have "snd (pollForEvents libs env p) = p"
    proof (cases "pe_GetLatestLedger env")
      case (Ok h)
      with page False have "lastPolledLedger p < h \<Longrightarrow> \<exists>e. pe_GetEvents env (lastPolledLedger p) h = Err e"
        by blast
      with Ok show ?thesis by (auto simp: pollForEvents_def)
    qed (simp_all add: pollForEvents_def)
    moreover have "h \<le> lastPolledLedger p" if "node_answers h env" for h
    proof (rule ccontr)
      assume "\<not> h \<le> lastPolledLedger p"
      with that False page [of h] obtain e where "pe_GetEvents env (lastPolledLedger p) h = Err e"
        by (auto simp: node_answers_def)
      moreover from that have "is_Ok (pe_GetEvents env (lastPolledLedger p) h)" unfolding node_answers_def by blast
      ultimately show False by simp
    qed
    ultimately show ?thesis using that [of "lastPolledLedger p" p] by simp
  qed
qed

lemma polls_of_node:
  assumes "sorted (map ei_Ledger chain)" and "list_all (node_of lim chain get) envs" and "pe_GetTransaction env0 = get"
    and "runPolling libs envs p = (Ok (), p')" and "pages_fit lim chain libs envs p"
  shows "lastPolledLedger p \<le> lastPolledLedger p' \<and>
    process_events libs env0 (in_range (lastPolledLedger p) (lastPolledLedger p') chain) p =
      (Ok (), p'\<lparr>lastPolledLedger := lastPolledLedger p\<rparr>) \<and>
    (\<forall>h. list_ex (node_answers h) envs \<longrightarrow> h \<le> lastPolledLedger p')"
  using assms(2,4,5)
proof (induction envs arbitrary: p)
  case (Cons env envs)
  obtain r p2 where poll: "pollForEvents libs env p = (r, p2)" by fastforce
  with Cons.prems(2) have np: "fst (pollForEvents libs env p) \<noteq> Panic q" and rest: "runPolling libs envs p2 = (Ok (), p')" for q
    by (auto split: result.splits)
  from Cons.prems(1) have "node_of lim chain get env" by simp
  moreover from Cons.prems(3) have "length (in_range (lastPolledLedger p) h chain) \<le> lim"
    if "pe_GetLatestLedger env = Ok h" for h using that by simp
  ultimately obtain t p1 where t: "lastPolledLedger p \<le> t"
    "process_events libs env0 (in_range (lastPolledLedger p) t chain) p = (Ok (), p1)" "p2 = p1\<lparr>lastPolledLedger := t\<rparr>"
    and ans: "\<And>h. node_answers h env \<Longrightarrow> h \<le> t"
    using poll_of_node [OF _ assms(3) _ np, of lim chain] poll by (metis snd_conv)
  let ?l = "lastPolledLedger p'"
  from Cons.prems(3) poll have "pages_fit lim chain libs envs p2" by simp
  from Cons.IH [OF _ rest this] Cons.prems(1) t(3) have ih: "t \<le> ?l"
    "process_events libs env0 (in_range t ?l chain) (p1\<lparr>lastPolledLedger := t\<rparr>) = (Ok (), p'\<lparr>lastPolledLedger := t\<rparr>)"
    "list_ex (node_answers h) envs \<Longrightarrow> h \<le> ?l" for h
    by simp_all
  have p1: "p1\<lparr>lastPolledLedger := lastPolledLedger p\<rparr> = p1"
    using process_events_cursor [OF t(2)] by simp
  have "process_events libs env0 (in_range t ?l chain) p1 = (Ok (), p'\<lparr>lastPolledLedger := lastPolledLedger p\<rparr>)"
    using process_events_keeps [of libs env0 "in_range t ?l chain" "lastPolledLedger p" "p1\<lparr>lastPolledLedger := t\<rparr>"] ih(2)
    by (simp add: p1)
  with in_range_split [OF assms(1) t(1) ih(1)] ih(1) t show ?case
    by (auto simp: process_events_append intro: ih(3) order_trans [OF ans])
qed simp


section \<open>The cache\<close>

definition cache_ok :: "'m ccip \<Rightarrow> 'm poller \<Rightarrow> bool" where
  "cache_ok P p \<longleftrightarrow> (\<forall>k xs. attemptCache p k = Some xs \<longrightarrow>
     list_all (\<lambda>a. MessageID P (rep_Message (att_Report a)) = Ok k) xs)"

lemma cache_ok_fields [simp]:
  "cache_ok P (p\<lparr>lastPolledLedger := l\<rparr>) = cache_ok P p" "cache_ok P (p\<lparr>startLedger := l\<rparr>) = cache_ok P p"
  by (simp_all add: cache_ok_def)

lemma MustMessageID_Ok [simp]: "MustMessageID P m = Ok i \<longleftrightarrow> MessageID P m = Ok i"
  by (simp add: MustMessageID_def split: result.splits)

lemma processExecutionStateChanged_cache:
  "cache_ok P p \<Longrightarrow> cache_ok P (snd (processExecutionStateChanged (lib, P, unb64) env ev p))"
  by (auto simp: processExecutionStateChanged_def Let_def cache_ok_def split: prod.split result.split option.split)

lemma process_events_cache: "cache_ok P p \<Longrightarrow> cache_ok P (snd (process_events (lib, P, unb64) env es p))"
proof (induction es arbitrary: p)
  case (Cons e es)
  have "cache_ok P (snd (processExecutionStateChanged (lib, P, unb64) env ev p))" for ev
    using Cons.prems by (rule processExecutionStateChanged_cache)
  then have "processExecutionStateChanged (lib, P, unb64) env ev p = (r, p') \<Longrightarrow> cache_ok P p'" for ev r p'
    by (metis snd_conv)
  with Cons show ?case by (auto split: prod.split result.split)
qed simp

lemma pollForEvents_cache: "cache_ok P p \<Longrightarrow> cache_ok P (snd (pollForEvents (lib, P, unb64) env p))"
  using process_events_cache [of P p lib unb64 env]
  by (auto simp: pollForEvents_def split: prod.split result.split) (metis snd_conv)+

lemma runPolling_cache: "cache_ok P p \<Longrightarrow> cache_ok P (snd (runPolling (lib, P, unb64) envs p))"
proof (induction envs arbitrary: p)
  case (Cons env envs)
  from pollForEvents_cache [OF Cons.prems, of lib unb64 env] Cons show ?case
    by (auto split: prod.split result.split)
qed simp

lemma poller_Start_cache: "cache_ok P p \<Longrightarrow> cache_ok P (snd (poller_Start (lib, P, unb64) env env2 p))"
proof -
  assume p: "cache_ok P p"
  obtain r p' where s: "getStartLedger env p = (r, p')" by fastforce
  with p have "cache_ok P p'" by (auto simp: getStartLedger_def Let_def split: result.splits)
  then have "cache_ok P (p'\<lparr>lastPolledLedger := startLedger p'\<rparr>)" by simp
  from pollForEvents_cache [OF this, of lib unb64 env2] \<open>cache_ok P p'\<close> show ?thesis
    by (auto simp: poller_Start_def s runBackfill_def split: prod.split result.split)
qed


section \<open>From the transmitter to the poller\<close>

lemma HexToContractStrkey_encodes:
  "strkey_laws lib \<Longrightarrow> length b = 32 \<Longrightarrow>
     \<exists>s. HexToContractStrkey lib (''0x'' @ hex_EncodeToString b) = Ok s \<and> strkey_Decode lib VersionByteContract s = Ok b"
  unfolding strkey_laws_def by (fastforce simp: HexToContractStrkey_def TrimPrefix_def hex_roundtrip)

lemma convert_ccvs_valid:
  assumes "strkey_laws lib" and "list_all (\<lambda>b. length b = 32) ccvs"
  shows "\<exists>ss. convert_ccvs lib sentinel i ccvs = Ok ss \<and> list_all2 (valid_address lib) ss ccvs"
  using assms(2)
proof (induction ccvs arbitrary: i)
  case (Cons b ccvs)
  from Cons.prems HexToContractStrkey_encodes [OF assms(1), of b] obtain s
    where "HexToContractStrkey lib (''0x'' @ hex_EncodeToString b) = Ok s" "valid_address lib s b"
    by (auto simp: valid_address_def)
  moreover from Cons obtain ss where "convert_ccvs lib sentinel (Suc i) ccvs = Ok ss" "list_all2 (valid_address lib) ss ccvs"
    by auto
  ultimately show ?case by simp
qed simp

lemma convert_blobs_iff:
  "convert_blobs n sentinel i blobs = Ok outs \<longleftrightarrow> list_all2 (\<lambda>b out. convertVerifierBlobToEIP2098 n b = Ok out) blobs outs"
  by (induction blobs arbitrary: i outs) (auto simp: list_all2_Cons1)

lemma execute_args_decode:
  assumes "strkey_laws lib" and "address_laws lib" and "ccip_laws P"
    and "msg_Encode P m = Ok enc" and "list_all2 (valid_address lib) ss ccvs"
  shows "decodeExecuteArgsToAttempt P (execute_args lib enc ss blobs gas) =
    Ok \<lparr>att_Report = \<lparr>rep_CCVS = ccvs, rep_CCVData = blobs, rep_Message = m\<rparr>, att_TransactionGasLimit = gas\<rparr>"
  using address_items_roundtrip [OF assms(1,2,5), of 0] bytes_items_roundtrip [of blobs] assms(3,4)
  by (simp add: decodeExecuteArgsToAttempt_def execute_args_def BytesToScVal_def BytesFromScVal_def
      AddressSliceToScVal_def AddressVecFromScVal_def BytesSliceToScVal_def BytesVecFromScVal_def VecToScVal_def
      Uint32ToScVal_def GetU32_def ccip_laws_def)


text \<open>Two nodes with the given head that answer every request about their chain: one with all
  events of the range, and one with the first page of them.\<close>

definition full_node :: "EventInfo list \<Rightarrow> (string \<Rightarrow> (GetStatus \<times> string) result) \<Rightarrow> int \<Rightarrow> 'm poll_env" where
  "full_node chain get h =
     \<lparr>pe_GetLatestLedger = Ok h, pe_GetEvents = (\<lambda>a b. Ok (in_range a b chain)), pe_GetTransaction = get\<rparr>"

definition page_node :: "nat \<Rightarrow> EventInfo list \<Rightarrow> (string \<Rightarrow> (GetStatus \<times> string) result) \<Rightarrow> int \<Rightarrow> 'm poll_env" where
  "page_node lim chain get h =
     \<lparr>pe_GetLatestLedger = Ok h, pe_GetEvents = (\<lambda>a b. Ok (take lim (in_range a b chain))), pe_GetTransaction = get\<rparr>"

section \<open>A concrete run\<close>

text \<open>Every event names message \<open>7 7 ... 7\<close> and every
  transaction carries its execute call.\<close>

definition poll_sdk :: sdk where
  "poll_sdk = sample_sdk\<lparr>unb64_ScVal := (\<lambda>s. Ok (ScvMap (Some (Some
     [(ScvSymbol (Some ''message_id''), ScvBytes (Some sample_msg))]))))\<rparr>"

definition event_at :: "int \<Rightarrow> EventInfo" where
  "event_at l = \<lparr>ei_EventType = EventTypeContract, ei_Ledger = l, ei_LedgerClosedAt = [], ei_ContractID = ''C'', ei_ID = [],
     ei_OpIndex = 0, ei_TxIndex = 0, ei_TransactionHash = ''hash'', ei_TopicXDR = [], ei_ValueXDR = []\<rparr>"

definition poll_libs :: "bytes poll_lib" where
  "poll_libs = (poll_sdk, plain_ccip, (\<lambda>x. Ok (EnvelopeTx [XInvokeHostFunction (XInvokeContract (Some
     [ScvBytes (Some sample_msg), ScvVec (Some (Some [])), ScvVec (Some (Some [])), ScvU32 (Some 0)]))])))"

definition found :: "string \<Rightarrow> (GetStatus \<times> string) result" where
  "found h = Ok (StatusSuccess, ''xdr'')"

definition new_poller :: "bytes poller" where
  "new_poller = \<lparr>attemptCache = (\<lambda>_. None), lastPolledLedger = 7, startLedger = 7, lookbackWindow = 0\<rparr>"

definition dead_node :: "bytes poll_env" where
  "dead_node = (full_node [] found 0)\<lparr>pe_GetLatestLedger := Err (New ''timeout'')\<rparr>"

definition sample_chain :: "EventInfo list" where
  "sample_chain = [event_at 8, event_at 9]"

lemmas poll_sample = poll_libs_def poll_sdk_def event_at_def plain_ccip_def found_def sample_chain_def
  new_poller_def dead_node_def full_node_def

lemma event_processed:
  "process_events poll_libs env [event_at l] p =
     (case pe_GetTransaction env ''hash'' of
        Ok (st, x) \<Rightarrow> (Ok (), if st = StatusSuccess then p\<lparr>attemptCache := (attemptCache p)(sample_msg \<mapsto>
          (case attemptCache p sample_msg of None \<Rightarrow> [] | Some xs \<Rightarrow> xs) @
            [\<lparr>att_Report = \<lparr>rep_CCVS = [], rep_CCVData = [], rep_Message = sample_msg\<rparr>, att_TransactionGasLimit = 0\<rparr>])\<rparr> else p)
      | Err e \<Rightarrow> (Ok (), p)
      | Panic q \<Rightarrow> (Panic q, p))"
proof -
  have "take 32 sample_msg = sample_msg" "length sample_msg = 32" by (simp_all add: sample_msg_def)
  then show ?thesis
    by (simp add: poll_libs_def poll_sdk_def event_at_def plain_ccip_def ParseExecutionStateChangedEvent_def ese_entry_def
        set_if_ok_def get_defs Bytes32FromScVal_def processExecutionStateChanged_def extractInvokeContractArgs_def first_args_def
        decodeExecuteArgsToAttempt_def BytesFromScVal_def AddressVecFromScVal_def BytesVecFromScVal_def MustMessageID_def
        split: result.split)
qed

lemma sample_poll:
  "pollForEvents poll_libs (full_node sample_chain get h) p =
     (if h \<le> lastPolledLedger p then (Ok (), p)
      else case process_events poll_libs (full_node sample_chain get h) (in_range (lastPolledLedger p) h sample_chain) p of
             (Ok _, p') \<Rightarrow> (Ok (), p'\<lparr>lastPolledLedger := h\<rparr>) | (Err e, p') \<Rightarrow> (Err e, p') | (Panic q, p') \<Rightarrow> (Panic q, p'))"
  by (simp add: pollForEvents_def full_node_def)

lemma sample_ranges:
  "in_range 7 8 sample_chain = []" "in_range 8 10 sample_chain = [event_at 8] @ [event_at 9]"
  "in_range 7 10 sample_chain = [event_at 8] @ [event_at 9]"
  by (simp_all add: in_range_def sample_chain_def event_at_def)

definition sample_nodes :: "bytes poll_env list" where
  "sample_nodes = [page_node 1 sample_chain found 8, dead_node, page_node 1 sample_chain found 9, page_node 1 sample_chain found 10]"

lemma sample_polls:
  "\<exists>p'. runPolling poll_libs sample_nodes new_poller = (Ok (), p') \<and> pages_fit 1 sample_chain poll_libs sample_nodes new_poller
     \<and> lastPolledLedger p' = 10 \<and> length (the (attemptCache p' sample_msg)) = 2"
proof -
  have dead: "pe_GetLatestLedger dead_node = Err (New ''timeout'')" by (simp add: dead_node_def)
  then have dead_poll: "pollForEvents poll_libs dead_node p = (Err (Errorf ''failed to get latest ledger: %w'' [AErr (New ''timeout'')]), p)" for p
    by (simp add: pollForEvents_def)
  have node: "pe_GetTransaction (page_node 1 sample_chain found h) ''hash'' = Ok (StatusSuccess, ''xdr'')"
    "pe_GetLatestLedger (page_node 1 sample_chain found h) = Ok h" for h :: int
    by (simp_all add: page_node_def found_def)
  have poll: "pollForEvents poll_libs (page_node 1 sample_chain found h) p =
     (if h \<le> lastPolledLedger p then (Ok (), p)
      else case process_events poll_libs (page_node 1 sample_chain found h) (take 1 (in_range (lastPolledLedger p) h sample_chain)) p of
             (Ok _, p') \<Rightarrow> (Ok (), p'\<lparr>lastPolledLedger := h\<rparr>) | (Err e, p') \<Rightarrow> (Err e, p') | (Panic q, p') \<Rightarrow> (Panic q, p'))" for h p
    by (simp add: pollForEvents_def page_node_def)
  have ranges: "in_range 7 8 sample_chain = []" "in_range 8 9 sample_chain = [event_at 8]" "in_range 9 10 sample_chain = [event_at 9]"
    by (simp_all add: in_range_def sample_chain_def event_at_def)
  show ?thesis
    by (simp add: sample_nodes_def dead dead_poll node poll new_poller_def ranges event_processed
        del: process_events.simps(2) One_nat_def)
qed

lemma sample_start:
  "\<exists>p0 p1 p2 attempts. NewStellarExecutionAttemptPoller True True ''C'' 0 = Ok p0 \<and>
     poller_Start poll_libs (full_node sample_chain found 7) (full_node sample_chain found 8) p0 = (Ok (), p1) \<and>
     runPolling poll_libs [full_node sample_chain found 10] p1 = (Ok (), p2) \<and>
     GetExecutionAttempts plain_ccip p2 sample_msg = Ok attempts \<and> length attempts = 2"
proof -
  have g: "pe_GetTransaction (full_node sample_chain found h) ''hash'' = Ok (StatusSuccess, ''xdr'')"
    "pe_GetLatestLedger (full_node sample_chain found h) = Ok h" for h
    by (simp_all add: full_node_def found_def)
  have id: "MessageID plain_ccip sample_msg = Ok sample_msg" by (simp add: plain_ccip_def sample_msg_def)
  show ?thesis
    by (simp add: NewStellarExecutionAttemptPoller_def poller_Start_def getStartLedger_def runBackfill_def g id sample_poll
        GetExecutionAttempts_def sample_ranges process_events_append event_processed u32_def
        del: process_events.simps(2) append_Cons append_Nil)
qed

section \<open>Properties\<close>

text \<open>C16: Successive polls read each event exactly once, in order, and none is skipped, as long
  as no polled range holds more events than a page of the node: however the chain grows between
  the polls and whichever requests for ledgers or events fail, a run of the polling loop that
  ends with the cursor at some ledger leaves the poller in the state of one poll that gets all
  events up to that ledger at once; and the cursor has reached the head of every node that
  answered.\<close>

theorem polling_equals_single_poll:
  assumes "sorted (map ei_Ledger chain)" and "list_all (node_of lim chain get) envs"
    and "pages_fit lim chain libs envs p" and "runPolling libs envs p = (Ok (), p')"
  shows "pollForEvents libs (full_node chain get (lastPolledLedger p')) p = (Ok (), p')
    \<and> (\<forall>h. list_ex (node_answers h) envs \<longrightarrow> h \<le> lastPolledLedger p')"
proof -
  let ?env = "full_node chain get (lastPolledLedger p')"
  have "pe_GetTransaction ?env = get" by (simp add: full_node_def)
  from polls_of_node [OF assms(1,2) this assms(4,3)]
  have l: "lastPolledLedger p \<le> lastPolledLedger p'" and
    run: "process_events libs ?env (in_range (lastPolledLedger p) (lastPolledLedger p') chain) p =
      (Ok (), p'\<lparr>lastPolledLedger := lastPolledLedger p\<rparr>)" and
    ans: "\<forall>h. list_ex (node_answers h) envs \<longrightarrow> h \<le> lastPolledLedger p'" by blast+
  show ?thesis
  proof (cases "lastPolledLedger p = lastPolledLedger p'")
    case True
    with run have "p' = p" by simp
    with ans show ?thesis by (simp add: pollForEvents_def full_node_def)
  next
    case False
    with l run ans show ?thesis by (auto simp: pollForEvents_def full_node_def)
  qed
qed

theorem polling_equals_single_poll_witness:
  "\<exists>p'. runPolling poll_libs sample_nodes new_poller = (Ok (), p')
     \<and> pollForEvents poll_libs (full_node sample_chain found 10) new_poller = (Ok (), p')
     \<and> length (the (attemptCache p' sample_msg)) = 2"
proof -
  obtain p' where run: "runPolling poll_libs sample_nodes new_poller = (Ok (), p')"
    and fit: "pages_fit 1 sample_chain poll_libs sample_nodes new_poller"
    and l: "lastPolledLedger p' = 10" "length (the (attemptCache p' sample_msg)) = 2"
    using sample_polls by blast
  have "sorted (map ei_Ledger sample_chain)" by (simp add: sample_chain_def event_at_def)
  moreover have "list_all (node_of 1 sample_chain found) sample_nodes"
    by (simp add: sample_nodes_def node_of_def page_node_def full_node_def dead_node_def)
  ultimately show ?thesis using polling_equals_single_poll [OF _ _ fit run] l run by auto
qed

text \<open>C17: A page that is cut loses events for good. A poll records the events of the first page
  and moves its cursor to the head, also when its range holds more events than a page: this
  poll and all later ones, at whatever heads, leave the poller in the state that it would have
  if the events beyond the page had never happened.\<close>

theorem page_overflow_loses_events:
  assumes "lastPolledLedger p < h"
    and "chain' = take lim (in_range (lastPolledLedger p) h chain) @ filter (\<lambda>e. h \<le> ei_Ledger e) chain"
  shows "pollForEvents libs (page_node lim chain get h) p =
       (case process_events libs (page_node lim chain get h) (take lim (in_range (lastPolledLedger p) h chain)) p of
          (Ok _, p') \<Rightarrow> (Ok (), p'\<lparr>lastPolledLedger := h\<rparr>)
        | stopped \<Rightarrow> stopped) \<and>
     runPolling libs (page_node lim chain get h # map (page_node lim chain get) heads) p =
     runPolling libs (page_node lim chain' get h # map (page_node lim chain' get) heads) p"
proof -
  have same: "process_events libs (page_node lim chain get k) es q = process_events libs (page_node lim chain' get k') es q" for k k' es q
    by (rule process_events_env) (simp add: page_node_def)
  let ?page = "take lim (in_range (lastPolledLedger p) h chain)"
  have paged: "\<forall>e \<in> set ?page. lastPolledLedger p \<le> ei_Ledger e \<and> ei_Ledger e < h"
    by (auto simp: in_range_def dest!: in_set_takeD)
  have "in_range (lastPolledLedger p) h ?page = ?page"
    unfolding in_range_def [of _ _ ?page] using paged by (simp only: filter_id_conv)
  moreover have "in_range (lastPolledLedger p) h (filter (\<lambda>e. h \<le> ei_Ledger e) chain) = []"
    by (auto simp: in_range_def filter_empty_conv)
  moreover have app: "in_range a b (xs @ ys) = in_range a b xs @ in_range a b ys" for a b xs ys
    by (simp add: in_range_def)
  ultimately have "in_range (lastPolledLedger p) h chain' = ?page" by (simp only: assms(2) app append_Nil2)
  then have first: "pollForEvents libs (page_node lim chain get h) p = pollForEvents libs (page_node lim chain' get h) p"
    using same [of h "take lim (in_range (lastPolledLedger p) h chain)" p h] assms(1)
    by (simp add: pollForEvents_def) (simp add: page_node_def)
  have later: "in_range a b chain' = in_range a b chain" if "h \<le> a" for a b
  proof -
    have "in_range a b ?page = []"
      using that paged unfolding in_range_def [of _ _ ?page] filter_empty_conv by force
    moreover have "in_range a b (filter (\<lambda>e. h \<le> ei_Ledger e) chain) = in_range a b chain"
      unfolding in_range_def filter_filter using that by (intro filter_cong) auto
    ultimately show ?thesis by (simp only: assms(2) app append_Nil)
  qed
  have poll: "pollForEvents libs (page_node lim chain get k) q = pollForEvents libs (page_node lim chain' get k) q \<and>
      h \<le> lastPolledLedger (snd (pollForEvents libs (page_node lim chain get k) q))" if "h \<le> lastPolledLedger q" for k q
    using that later [OF that, of k] same [of k _ q k]
    by (auto simp: pollForEvents_def page_node_def split: prod.splits result.splits dest: process_events_cursor)
  have rest: "runPolling libs (map (page_node lim chain get) heads) q = runPolling libs (map (page_node lim chain' get) heads) q"
    if "h \<le> lastPolledLedger q" for q
    using that
  proof (induction heads arbitrary: q)
    case (Cons k heads)
    with poll [of q k] show ?case by (auto split: prod.splits result.splits)
  qed simp
  have here: "pollForEvents libs (page_node lim chain get h) p =
       (case process_events libs (page_node lim chain get h) ?page p of
          (Ok _, p') \<Rightarrow> (Ok (), p'\<lparr>lastPolledLedger := h\<rparr>)
        | stopped \<Rightarrow> stopped)"
  proof -
    have "pe_GetLatestLedger (page_node lim chain get h) = Ok h"
      "pe_GetEvents (page_node lim chain get h) a b = Ok (take lim (in_range a b chain))" for a b
      by (simp_all add: page_node_def)
    with assms(1) show ?thesis by (auto simp: pollForEvents_def split: prod.splits result.splits)
  qed
  have "(\<exists>q. r = Panic q) \<or> h \<le> lastPolledLedger p'" if "pollForEvents libs (page_node lim chain get h) p = (r, p')" for r p'
    using that assms(1) process_events_never_Err [of libs "page_node lim chain get h" ?page p _ p']
    by (auto simp: pollForEvents_def page_node_def split: prod.splits result.splits)
  with rest first have "runPolling libs (page_node lim chain get h # map (page_node lim chain get) heads) p =
     runPolling libs (page_node lim chain' get h # map (page_node lim chain' get) heads) p"
    by (auto split: prod.splits result.splits)
  with here show ?thesis by blast
qed

theorem page_overflow_loses_events_witness:
  "runPolling poll_libs [page_node 1 sample_chain found 10, page_node 1 sample_chain found 12] new_poller =
     runPolling poll_libs [page_node 1 [event_at 8] found 10, page_node 1 [event_at 8] found 12] new_poller \<and>
   (\<exists>p'. pollForEvents poll_libs (page_node 1 sample_chain found 10) new_poller = (Ok (), p') \<and>
     lastPolledLedger p' = 10 \<and> length (the (attemptCache p' sample_msg)) = 1)"
proof -
  have l: "lastPolledLedger new_poller = 7" by (simp add: new_poller_def)
  have page: "take 1 (in_range 7 10 sample_chain) = [event_at 8]" by (simp add: sample_ranges(3))
  have later: "filter (\<lambda>e. 10 \<le> ei_Ledger e) sample_chain = []" by (simp add: sample_chain_def event_at_def)
  have node: "pe_GetTransaction (page_node 1 sample_chain found 10) ''hash'' = Ok (StatusSuccess, ''xdr'')"
    by (simp add: page_node_def found_def)
  from page_overflow_loses_events [of new_poller 10 "[event_at 8]" 1 sample_chain poll_libs found "[12]"]
  have both: "pollForEvents poll_libs (page_node 1 sample_chain found 10) new_poller =
       (case process_events poll_libs (page_node 1 sample_chain found 10) [event_at 8] new_poller of
          (Ok _, p') \<Rightarrow> (Ok (), p'\<lparr>lastPolledLedger := 10\<rparr>) | stopped \<Rightarrow> stopped) \<and>
     runPolling poll_libs [page_node 1 sample_chain found 10, page_node 1 sample_chain found 12] new_poller =
     runPolling poll_libs [page_node 1 [event_at 8] found 10, page_node 1 [event_at 8] found 12] new_poller"
    unfolding l page later list.map append_Nil2
    by (simp del: process_events.simps runPolling.simps One_nat_def)
  have "process_events poll_libs (page_node 1 sample_chain found 10) [event_at 8] new_poller =
      (Ok (), new_poller\<lparr>attemptCache := (attemptCache new_poller)(sample_msg \<mapsto>
         [\<lparr>att_Report = \<lparr>rep_CCVS = [], rep_CCVData = [], rep_Message = sample_msg\<rparr>, att_TransactionGasLimit = 0\<rparr>])\<rparr>)"
    unfolding event_processed node by (simp add: new_poller_def)
  with both show ?thesis by (simp del: runPolling.simps)
qed

text \<open>C18: The cache never mixes messages: whatever the node answers, after a start and any
  number of polls the attempts returned for a message all carry a message with that message's
  id, even when the run was cut short by a panic.\<close>

theorem attempts_belong_to_message:
  assumes "NewStellarExecutionAttemptPoller rpcClient lggr offramp expiration = Ok p0"
    and "poller_Start (lib, P, unb64_Envelope) env env2 p0 = (r1, p1)"
    and "runPolling (lib, P, unb64_Envelope) envs p1 = (r2, p2)"
    and "GetExecutionAttempts P p2 message = Ok attempts"
  shows "list_all (\<lambda>a. MessageID P (rep_Message (att_Report a)) = MessageID P message) attempts"
proof -
  have "cache_ok P p0" using assms(1)
    by (auto simp: NewStellarExecutionAttemptPoller_def cache_ok_def split: if_splits)
  from poller_Start_cache [OF this] assms(2) have "cache_ok P p1" by (metis snd_conv)
  from runPolling_cache [OF this] assms(3) have "cache_ok P p2" by (metis snd_conv)
  with assms(4) show ?thesis
    by (auto simp: GetExecutionAttempts_def cache_ok_def split: option.splits)
qed

theorem attempts_belong_to_message_witness:
  "\<exists>p0 p1 p2 attempts. NewStellarExecutionAttemptPoller True True ''C'' 0 = Ok p0 \<and>
     poller_Start poll_libs (full_node sample_chain found 7) (full_node sample_chain found 8) p0 = (Ok (), p1) \<and>
     runPolling poll_libs [full_node sample_chain found 10] p1 = (Ok (), p2) \<and>
     GetExecutionAttempts plain_ccip p2 sample_msg = Ok attempts \<and> length attempts = 2 \<and>
     list_all (\<lambda>a. MessageID plain_ccip (rep_Message (att_Report a)) = MessageID plain_ccip sample_msg) attempts"
proof -
  obtain p0 p1 p2 attempts where run: "NewStellarExecutionAttemptPoller True True ''C'' 0 = Ok p0"
    "poller_Start poll_libs (full_node sample_chain found 7) (full_node sample_chain found 8) p0 = (Ok (), p1)"
    "runPolling poll_libs [full_node sample_chain found 10] p1 = (Ok (), p2)"
    "GetExecutionAttempts plain_ccip p2 sample_msg = Ok attempts" "length attempts = 2"
    using sample_start by blast
  note step = attempts_belong_to_message [of True True "''C''" 0 p0 poll_sdk plain_ccip "snd (snd poll_libs)"]
  from run step [of "full_node sample_chain found 7" "full_node sample_chain found 8" "Ok ()" p1
      "[full_node sample_chain found 10]" "Ok ()" p2 sample_msg attempts]
  show ?thesis by (auto simp: poll_libs_def)
qed

text \<open>C19: What the transmitter sends is what the poller reads: for a report with 32-byte CCV
  addresses, an encodable message and convertible blobs, the transmission is one call of
  execute on the OffRamp, and its arguments decode to an attempt with the same message and
  CCV addresses and the converted verifier results.\<close>

theorem transmitted_report_decodes:
  assumes "strkey_laws lib" and "address_laws lib" and "ccip_laws P"
    and "MessageID P (rep_Message report) = Ok messageID" and "msg_Encode P (rep_Message report) = Ok enc"
    and "list_all (\<lambda>b. length b = 32) (rep_CCVS report)"
    and "list_all2 (\<lambda>b out. convertVerifierBlobToEIP2098 n b = Ok out) (rep_CCVData report) outs"
  shows "\<exists>args. (\<forall>ivk. ConvertAndWriteMessageToChain n lib P ivk offramp report =
        bind_r (wrap_err (\<lambda>e. Errorf ''failed to call execute: %w'' [AErr e]) (InvokeContract ivk offramp ''execute'' args))
          (\<lambda>_. Ok ())) \<and>
      decodeExecuteArgsToAttempt P args =
        Ok \<lparr>att_Report = report\<lparr>rep_CCVData := outs\<rparr>, att_TransactionGasLimit = 0\<rparr>"
proof -
  obtain ss where ss: "convert_ccvs lib (ErrMessageEncoding P) 0 (rep_CCVS report) = Ok ss"
    "list_all2 (valid_address lib) ss (rep_CCVS report)"
    using convert_ccvs_valid [OF assms(1,6)] by blast
  have "convert_blobs n (ErrMessageEncoding P) 0 (rep_CCVData report) = Ok outs"
    using assms(7) by (simp add: convert_blobs_iff)
  with ss assms(4,5) have "ConvertAndWriteMessageToChain n lib P ivk offramp report =
      Execute lib ivk offramp enc ss outs 0" for ivk
    by (simp add: ConvertAndWriteMessageToChain_def MustMessageID_def)
  with execute_args_decode [OF assms(1-3,5) ss(2), of outs 0] show ?thesis
    by (intro exI [of _ "execute_args lib enc ss outs 0"]) (simp add: Execute_def)
qed

theorem transmitted_report_decodes_witness:
  "\<exists>args. (\<forall>ivk. ConvertAndWriteMessageToChain curve_order sample_sdk plain_ccip ivk ''C''
       \<lparr>rep_CCVS = [replicate 32 9], rep_CCVData = [[0, 0, 0, 1, 0, 0]], rep_Message = sample_msg\<rparr> =
        bind_r (wrap_err (\<lambda>e. Errorf ''failed to call execute: %w'' [AErr e]) (InvokeContract ivk ''C'' ''execute'' args))
          (\<lambda>_. Ok ())) \<and>
      decodeExecuteArgsToAttempt plain_ccip args =
        Ok \<lparr>att_Report = \<lparr>rep_CCVS = [replicate 32 9], rep_CCVData = [[0, 0, 0, 1, 0, 0]], rep_Message = sample_msg\<rparr>,
            att_TransactionGasLimit = 0\<rparr>"
  using transmitted_report_decodes [OF sample_strkey_laws sample_address_laws plain_ccip_laws,
      of "\<lparr>rep_CCVS = [replicate 32 9], rep_CCVData = [[0, 0, 0, 1, 0, 0]], rep_Message = sample_msg\<rparr>"
         sample_msg sample_msg curve_order "[[0, 0, 0, 1, 0, 0]]" "''C''"]
  by (simp add: plain_ccip_def sample_msg_def convertVerifierBlobToEIP2098_def BigEndian_Uint16_def)

text \<open>C24: A poll does not retry: when the transactions of a poll's events cannot be fetched,
  the poll still succeeds and moves the cursor past their ledgers with the cache unchanged, so
  these attempts are never recorded.\<close>

theorem failed_lookup_loses_attempts:
  assumes "pe_GetLatestLedger env = Ok toLedger" and "lastPolledLedger p < toLedger"
    and "pe_GetEvents env (lastPolledLedger p) toLedger = Ok events"
    and "list_all (\<lambda>e. \<not> is_Ok (pe_GetTransaction env (ei_TransactionHash e))) events"
    and "pollForEvents libs env p = (r, p')" and "\<And>q. r \<noteq> Panic q"
  shows "r = Ok () \<and> p' = p\<lparr>lastPolledLedger := toLedger\<rparr>"
proof -
  have ps: "fst (process_events libs env events p) \<noteq> Panic q" for q
    using assms by (auto simp: pollForEvents_def split: prod.splits result.splits)
  from process_events_unanswered [OF assms(4) ps] assms show ?thesis
    by (simp add: pollForEvents_def)
qed

theorem failed_lookup_loses_attempts_witness:
  "pollForEvents poll_libs (full_node sample_chain (\<lambda>h. Err (New ''timeout'')) 10) new_poller =
     (Ok (), new_poller\<lparr>lastPolledLedger := 10\<rparr>)"
proof -
  let ?env = "full_node sample_chain (\<lambda>h. Err (New ''timeout'')) 10"
  have "pe_GetTransaction ?env ''hash'' = Err (New ''timeout'')" by (simp add: full_node_def)
  then have "fst (pollForEvents poll_libs ?env new_poller) = Ok ()"
    by (simp add: sample_poll new_poller_def sample_ranges process_events_append event_processed
        del: process_events.simps(2) append_Cons append_Nil)
  then show ?thesis
    using failed_lookup_loses_attempts [of ?env 10 new_poller sample_chain poll_libs "Ok ()" "snd (pollForEvents poll_libs ?env new_poller)"]
    by (simp add: prod_eq_iff) (simp add: full_node_def new_poller_def in_range_def sample_chain_def event_at_def)
qed

text \<open>The start ledger is the latest ledger less the ledgers of the lookback window (one
  per six seconds, rounded down), but not before ledger 7; for every window, also one whose
  ledger count wraps around in 32 bits, it lies between 7 and the larger of 7 and the latest
  ledger.\<close>

theorem start_ledger_window:
  assumes "pe_GetLatestLedger env = Ok latest" and "in_u32 latest"
  shows "7 \<le> startLedger (snd (getStartLedger env p)) \<and> startLedger (snd (getStartLedger env p)) \<le> max 7 latest \<and>
    (0 \<le> lookbackWindow p \<and> lookbackWindow p < 6000000000 * 2 ^ 32 \<longrightarrow>
       startLedger (snd (getStartLedger env p)) = max 7 (latest - lookbackWindow p div 6000000000))"
proof -
  have w: "u32 (sgn (lookbackWindow p) * (\<bar>lookbackWindow p\<bar> div 6000000000)) = lookbackWindow p div 6000000000"
    if "0 \<le> lookbackWindow p" "lookbackWindow p < 6000000000 * 2 ^ 32"
  proof (cases "lookbackWindow p = 0")
    case False
    have "0 \<le> lookbackWindow p div 6000000000" "lookbackWindow p div 6000000000 < 2 ^ 32" using that by linarith+
    then have "in_u32 (lookbackWindow p div 6000000000)" by (simp add: in_u32_def)
    with that False show ?thesis by (simp add: u32_id)
  qed (simp add: u32_id in_u32_def)
  define k where "k = u32 (sgn (lookbackWindow p) * (\<bar>lookbackWindow p\<bar> div 6000000000))"
  have "0 \<le> k" using in_u32_u32 unfolding k_def in_u32_def by blast
  moreover have "startLedger (snd (getStartLedger env p)) = (if k \<ge> latest then 7 else max (latest - k) 7)"
    using assms(1) by (simp add: getStartLedger_def k_def)
  ultimately show ?thesis using w [folded k_def] by auto
qed

theorem start_ledger_window_witness:
  "startLedger (snd (getStartLedger (full_node sample_chain found 1000) (new_poller\<lparr>lookbackWindow := 3600000000000\<rparr>))) = 400"
  using start_ledger_window [of "full_node sample_chain found 1000" 1000 "new_poller\<lparr>lookbackWindow := 3600000000000\<rparr>"]
  by (simp add: full_node_def in_u32_def)


end
