(* ===== verification/Ccv_Source.thy ===== *)
theory Ccv_Source
  imports Ccv_Dest
begin

text \<open>
  The source side of the CCV services (ccv/source_reader): reading CCIPMessageSent events of
  the OnRamp contract and the headers of ledgers.
\<close>

section \<open>What the reader calls\<close>

record LatestLedgerResponse =
  ll_Hash :: string
  ll_LedgerHeader :: string
  ll_Sequence :: int
  ll_LedgerCloseTime :: int

record RLedgerInfo =
  rli_Hash :: string
  rli_LedgerMetadata :: string
  rli_Sequence :: int
  rli_LedgerCloseTime :: int

text \<open>The RPC node: \<open>GetLedgers\<close> with a start ledger and page limit, \<open>GetEvents\<close> with contract,
  first topic, start and end ledger. The XDR decoders of a ledger header (its previous hash)
  and of the close metadata, whose header accessor panics for an unknown version; \<open>'l\<close> is the
  decoded metadata.\<close>

record 'l source_env =
  se_GetLatestLedger :: "LatestLedgerResponse result"
  se_GetLedgers :: "int \<Rightarrow> int \<Rightarrow> RLedgerInfo list result"
  se_GetEvents :: "string \<Rightarrow> string \<Rightarrow> int \<Rightarrow> int \<Rightarrow> EventInfo list result"
  unb64_LedgerHeader :: "string \<Rightarrow> bytes result"
  unb64_LedgerCloseMeta :: "string \<Rightarrow> 'l result"
  LedgerHeaderHistoryEntry :: "'l \<Rightarrow> bytes result"

record SourceReader =
  sr_ccipOnrampAddress :: string
  sr_ccipMessageSentTopic :: string
  sr_rmnRemoteAddress :: string

definition NewSourceReaderWithClient :: "bool \<Rightarrow> string \<Rightarrow> string \<Rightarrow> string \<Rightarrow> bool \<Rightarrow> SourceReader result" where
  "NewSourceReaderWithClient client ccipOnrampAddress ccipMessageSentTopic rmnRemoteAddress lggr =
     (if \<not> client then Err (New ''rpc client is required'')
      else if \<not> lggr then Err (New ''logger is required'')
      else if ccipOnrampAddress = [] then Err (New ''ccip onramp address is required'')
      else if ccipMessageSentTopic = [] then Err (New ''ccip message sent topic is required'')
      else if rmnRemoteAddress = [] then Err (New ''rmn remote address is required'')
      else Ok \<lparr>sr_ccipOnrampAddress = ccipOnrampAddress, sr_ccipMessageSentTopic = ccipMessageSentTopic,
               sr_rmnRemoteAddress = rmnRemoteAddress\<rparr>)"

text \<open>\<open>big.Int.Uint64\<close> on a pointer: the low 64 bits of the magnitude.\<close>

definition big_Uint64 :: "int option \<Rightarrow> int result" where
  "big_Uint64 p = (case p of None \<Rightarrow> Panic ''nil pointer dereference'' | Some x \<Rightarrow> Ok (u64 \<bar>x\<bar>))"

abbreviation (input) MaxUint32 :: int where
  "MaxUint32 \<equiv> 2 ^ 32 - 1"

text \<open>The ledger number of a block: the value, or an error above 32 bits.\<close>

definition ledger_seq :: "int option \<Rightarrow> int result" where
  "ledger_seq p = bind_r (big_Uint64 p) (\<lambda>seq.
     if seq > MaxUint32 then Err (Errorf ''block number exceeds uint32 (ledger seq) range: %d'' [AInt seq]) else Ok seq)"

section \<open>Receipts\<close>

record ReceiptWithBlob =
  rwb_Issuer :: bytes
  rwb_DestGasLimit :: int
  rwb_DestBytesOverhead :: int
  rwb_FeeTokenAmount :: "int option"
  rwb_ExtraArgs :: bytes
  rwb_Blob :: bytes

definition receipt_entry :: "string \<Rightarrow> ScVal \<Rightarrow> ReceiptWithBlob \<Rightarrow> ReceiptWithBlob result" where
  "receipt_entry key val r =
     (if key = ''issuer'' then set_if_ok (RawBytesFromAddressScVal val) (\<lambda>v r. r\<lparr>rwb_Issuer := v\<rparr>) r
      else if key = ''dest_gas_limit'' then set_if (GetU32 val) (\<lambda>v r. r\<lparr>rwb_DestGasLimit := v\<rparr>) r
      else if key = ''dest_bytes_overhead'' then set_if (GetU32 val) (\<lambda>v r. r\<lparr>rwb_DestBytesOverhead := v\<rparr>) r
      else if key = ''fee_token_amount'' then set_if (GetI128 val) (\<lambda>v r. r\<lparr>rwb_FeeTokenAmount := Some (big_i128 v)\<rparr>) r
      else if key = ''extra_args'' then set_if (GetBytes val) (\<lambda>v r. r\<lparr>rwb_ExtraArgs := v\<rparr>) r
      else Ok r)"

definition zero_receipt :: ReceiptWithBlob where
  "zero_receipt = \<lparr>rwb_Issuer = [], rwb_DestGasLimit = 0, rwb_DestBytesOverhead = 0, rwb_FeeTokenAmount = None,
     rwb_ExtraArgs = [], rwb_Blob = []\<rparr>"

definition parseReceipt :: "ScVal \<Rightarrow> ReceiptWithBlob result" where
  "parseReceipt val = bind_r (GetMap val) (\<lambda>m. case m of
     None \<Rightarrow> Err (New ''receipt is not a map'')
   | Some es \<Rightarrow> fold_entries receipt_entry es zero_receipt)"

fun parse_receipt_items :: "ScVal list \<Rightarrow> ReceiptWithBlob list result" where
  "parse_receipt_items [] = Ok []"
| "parse_receipt_items (item # items) =
     bind_r (wrap_err (\<lambda>e. Errorf ''parse receipt: %w'' [AErr e]) (parseReceipt item)) (\<lambda>r.
     bind_r (parse_receipt_items items) (\<lambda>rs. Ok (r # rs)))"

definition parseReceipts :: "ScVal \<Rightarrow> ReceiptWithBlob list result" where
  "parseReceipts val = vec_field ''receipts is not a vec'' parse_receipt_items val"

section \<open>Message events\<close>

text \<open>The local variables of the decoder.\<close>

record sent_fields =
  sf_destChainSelector :: int
  sf_sequenceNumber :: int
  sf_sender :: string
  sf_messageID :: bytes
  sf_feeToken :: string
  sf_tokenAmountBeforeFees :: "int option"
  sf_encodedMessage :: bytes
  sf_receipts :: "ReceiptWithBlob list"
  sf_verifierBlobs :: "bytes list"

definition zero_sent :: sent_fields where
  "zero_sent = \<lparr>sf_destChainSelector = 0, sf_sequenceNumber = 0, sf_sender = [], sf_messageID = replicate 32 0,
     sf_feeToken = [], sf_tokenAmountBeforeFees = None, sf_encodedMessage = [], sf_receipts = [], sf_verifierBlobs = []\<rparr>"

definition sent_entry :: "sdk \<Rightarrow> string \<Rightarrow> ScVal \<Rightarrow> sent_fields \<Rightarrow> sent_fields result" where
  "sent_entry lib key val s =
     (if key = ''dest_chain_selector'' then set_if (GetU64 val) (\<lambda>v s. s\<lparr>sf_destChainSelector := v\<rparr>) s
      else if key = ''sequence_number'' then set_if (GetU64 val) (\<lambda>v s. s\<lparr>sf_sequenceNumber := v\<rparr>) s
      else if key = ''sender'' then set_if_ok (AddressFromScVal lib val) (\<lambda>v s. s\<lparr>sf_sender := v\<rparr>) s
      else if key = ''message_id'' then
        set_if (GetBytes val) (\<lambda>v s. if length v = 32 then s\<lparr>sf_messageID := v\<rparr> else s) s
      else if key = ''fee_token'' then set_if_ok (AddressFromScVal lib val) (\<lambda>v s. s\<lparr>sf_feeToken := v\<rparr>) s
      else if key = ''token_amount_before_fees'' then
        set_if (GetI128 val) (\<lambda>v s. s\<lparr>sf_tokenAmountBeforeFees := Some (big_i128 v)\<rparr>) s
      else if key = ''encoded_message'' then set_if (GetBytes val) (\<lambda>v s. s\<lparr>sf_encodedMessage := v\<rparr>) s
      else if key = ''receipts'' then set_if_ok (parseReceipts val) (\<lambda>v s. s\<lparr>sf_receipts := v\<rparr>) s
      else if key = ''verifier_blobs'' then set_if_ok (BytesVecFromScVal val) (\<lambda>v s. s\<lparr>sf_verifierBlobs := v\<rparr>) s
      else Ok s)"

fun pair_blobs :: "ReceiptWithBlob list \<Rightarrow> bytes list \<Rightarrow> ReceiptWithBlob list" where
  "pair_blobs (r # rs) (b # bs) = r\<lparr>rwb_Blob := b\<rparr> # pair_blobs rs bs"
| "pair_blobs rs _ = rs"

record 'm MessageSentEvent =
  mse_MessageID :: bytes
  mse_Message :: 'm
  mse_Receipts :: "ReceiptWithBlob list"
  mse_BlockNumber :: int
  mse_TxHash :: bytes

definition decodeCCIPMessageSentEvent :: "sdk \<Rightarrow> 'm ccip \<Rightarrow> EventInfo \<Rightarrow> 'm MessageSentEvent result" where
  "decodeCCIPMessageSentEvent lib P e =
     bind_r (wrap_err (\<lambda>e. Errorf ''failed to decode event value: %w'' [AErr e]) (unb64_ScVal lib (ei_ValueXDR e))) (\<lambda>eventVal.
     bind_r (GetMap eventVal) (\<lambda>m. case m of
        None \<Rightarrow> Err (New ''event value is not a map'')
      | Some es \<Rightarrow>
          bind_r (fold_entries (sent_entry lib) es zero_sent) (\<lambda>s.
          let receipts = pair_blobs (sf_receipts s) (sf_verifierBlobs s) in
          bind_r (wrap_err (\<lambda>e. Errorf ''failed to decode encoded_message as MessageV1: %w'' [AErr e])
                    (DecodeMessage P (sf_encodedMessage s))) (\<lambda>msg.
          Ok \<lparr>mse_MessageID = sf_messageID s, mse_Message = msg, mse_Receipts = receipts,
              mse_BlockNumber = u64 (ei_Ledger e), mse_TxHash = map char_byte (ei_TransactionHash e)\<rparr>))))"

fun decode_events :: "sdk \<Rightarrow> 'm ccip \<Rightarrow> EventInfo list \<Rightarrow> 'm MessageSentEvent list result" where
  "decode_events lib P [] = Ok []"
| "decode_events lib P (e # es) =
     (case decodeCCIPMessageSentEvent lib P e of
        Err x \<Rightarrow> decode_events lib P es
      | Panic q \<Rightarrow> Panic q
      | Ok msgEvent \<Rightarrow> bind_r (decode_events lib P es) (\<lambda>rest. Ok (msgEvent # rest)))"

definition FetchMessageSentEvents ::
    "sdk \<Rightarrow> 'm ccip \<Rightarrow> 'l source_env \<Rightarrow> SourceReader \<Rightarrow> int option \<Rightarrow> int option \<Rightarrow> 'm MessageSentEvent list result" where
  "FetchMessageSentEvents lib P env s fromBlock toBlock =
     bind_r (ledger_seq fromBlock) (\<lambda>fromSeq.
     let fromLedger = max fromSeq 7 in
     bind_r (if toBlock \<noteq> None then ledger_seq toBlock
             else bind_r (wrap_err (\<lambda>e. Errorf ''failed to get latest ledger: %w'' [AErr e]) (se_GetLatestLedger env))
                    (\<lambda>latestLedger. Ok (ll_Sequence latestLedger))) (\<lambda>toLedger.
     bind_r (wrap_err (\<lambda>e. Errorf ''failed to get events: %w'' [AErr e])
               (se_GetEvents env (sr_ccipOnrampAddress s) (sr_ccipMessageSentTopic s) fromLedger toLedger))
       (decode_events lib P)))"

section \<open>Block headers\<close>

record BlockHeader =
  bh_Number :: int
  bh_Hash :: bytes
  bh_ParentHash :: bytes
  bh_Timestamp :: int

definition toBytes32 :: "string \<Rightarrow> bytes result" where
  "toBytes32 hexStr0 =
     (let hexStr = (if \<not> HasPrefix hexStr0 ''0x'' then ''0x'' @ TrimPrefix hexStr0 ''0X'' else hexStr0);
          h0 = TrimPrefix hexStr ''0x'';
          h = (if length h0 mod 2 = 1 then CHR ''0'' # h0 else h0)
      in if length h > 64 then Err (Errorf ''hex string too long: %s'' [AStr hexStr])
         else bind_r (wrap_err (\<lambda>e. Errorf ''decode hex: %w'' [AErr e]) (hex_DecodeString h)) (\<lambda>decoded. Ok (copy32 decoded)))"

definition buildBlockHeader :: "'l source_env \<Rightarrow> string \<Rightarrow> string \<Rightarrow> int \<Rightarrow> int \<Rightarrow> BlockHeader result" where
  "buildBlockHeader env hashHex headerB64 sequence closeTime =
     bind_r (wrap_err (\<lambda>e. Errorf ''unmarshal ledger header: %w'' [AErr e]) (unb64_LedgerHeader env headerB64)) (\<lambda>prev.
     bind_r (wrap_err (\<lambda>e. Errorf ''parse ledger hash: %w'' [AErr e]) (toBytes32 hashHex)) (\<lambda>hash.
     Ok \<lparr>bh_Number = sequence, bh_Hash = hash, bh_ParentHash = prev, bh_Timestamp = closeTime\<rparr>))"

definition ledgerToBlockHeader :: "'l source_env \<Rightarrow> LatestLedgerResponse \<Rightarrow> BlockHeader result" where
  "ledgerToBlockHeader env resp =
     buildBlockHeader env (ll_Hash resp) (ll_LedgerHeader resp) (ll_Sequence resp) (ll_LedgerCloseTime resp)"

definition buildBlockHeaderFromMeta :: "'l source_env \<Rightarrow> string \<Rightarrow> string \<Rightarrow> int \<Rightarrow> int \<Rightarrow> BlockHeader result" where
  "buildBlockHeaderFromMeta env hashHex metadataB64 sequence closeTime =
     bind_r (wrap_err (\<lambda>e. Errorf ''unmarshal ledger metadata: %w'' [AErr e]) (unb64_LedgerCloseMeta env metadataB64)) (\<lambda>lcm.
     bind_r (wrap_err (\<lambda>e. Errorf ''parse ledger hash: %w'' [AErr e]) (toBytes32 hashHex)) (\<lambda>hash.
     bind_r (LedgerHeaderHistoryEntry env lcm) (\<lambda>previousHash.
     Ok \<lparr>bh_Number = sequence, bh_Hash = hash, bh_ParentHash = previousHash, bh_Timestamp = closeTime\<rparr>)))"

text \<open>One round of the loop of \<open>GetBlocksHeaders\<close>, and the loop with its map of headers.\<close>

definition fetch_header :: "'l source_env \<Rightarrow> int option \<Rightarrow> (int \<times> BlockHeader) result" where
  "fetch_header env n =
     bind_r (ledger_seq n) (\<lambda>seq.
     bind_r (wrap_err (\<lambda>e. Errorf ''failed to get ledger %d: %w'' [AInt seq, AErr e]) (se_GetLedgers env seq 1)) (\<lambda>ledgers.
     case ledgers of
       [] \<Rightarrow> Err (Errorf ''ledger %d not found'' [AInt seq])
     | ledger # _ \<Rightarrow>
         if rli_Sequence ledger \<noteq> seq
         then Err (Errorf ''ledger seq mismatch: requested %d got %d'' [AInt seq, AInt (rli_Sequence ledger)])
         else bind_r (wrap_err (\<lambda>e. Errorf ''failed to build header for ledger %d: %w'' [AInt seq, AErr e])
                (buildBlockHeaderFromMeta env (rli_Hash ledger) (rli_LedgerMetadata ledger) (rli_Sequence ledger)
                   (rli_LedgerCloseTime ledger))) (\<lambda>blockHeader. Ok (seq, blockHeader))))"

fun get_headers :: "'l source_env \<Rightarrow> int option list \<Rightarrow> (int \<rightharpoonup> BlockHeader) \<Rightarrow> (int \<rightharpoonup> BlockHeader) result" where
  "get_headers env [] headers = Ok headers"
| "get_headers env (n # ns) headers =
     bind_r (fetch_header env n) (\<lambda>(seq, blockHeader). get_headers env ns (headers(seq \<mapsto> blockHeader)))"

definition GetBlocksHeaders :: "'l source_env \<Rightarrow> int option list \<Rightarrow> (int \<rightharpoonup> BlockHeader) result" where
  "GetBlocksHeaders env ledgerNumber = get_headers env ledgerNumber Map.empty"

definition LatestAndFinalizedBlock :: "'l source_env \<Rightarrow> (BlockHeader \<times> BlockHeader) result" where
  "LatestAndFinalizedBlock env =
     bind_r (wrap_err (\<lambda>e. Errorf ''failed to get latest ledger: %w'' [AErr e]) (se_GetLatestLedger env)) (\<lambda>latestLedger.
     bind_r (wrap_err (\<lambda>e. Errorf ''failed to build block header: %w'' [AErr e]) (ledgerToBlockHeader env latestLedger)) (\<lambda>header.
     Ok (header, header)))"

definition LatestSafeBlock :: "BlockHeader option result" where
  "LatestSafeBlock = Ok None"

definition source_GetRMNCursedSubjects :: "invoker \<Rightarrow> SourceReader \<Rightarrow> bytes list result" where
  "source_GetRMNCursedSubjects ivk s =
     wrap_err (\<lambda>e. Errorf ''failed to get cursed subjects: %w'' [AErr e]) (GetCursedSubjects ivk (sr_rmnRemoteAddress s))"

section \<open>Hashes\<close>

lemma length_hex_EncodeToString [simp]: "length (hex_EncodeToString b) = 2 * length b"
  by (induction b) (simp_all add: hex_EncodeToString_def)

lemma hex_EncodeToString_no_prefix:
  assumes "c = CHR ''x'' \<or> c = CHR ''X''"
  shows "\<not> HasPrefix (hex_EncodeToString b) [CHR ''0'', c]"
proof
  assume "HasPrefix (hex_EncodeToString b) [CHR ''0'', c]"
  then obtain t where t: "hex_EncodeToString b = CHR ''0'' # c # t" by (auto simp: HasPrefix_iff)
  have "hex_digit c = None" using assms by (auto simp: hex_digit_def)
  with hex_roundtrip [of b] show False by (simp add: t split: option.splits)
qed

lemma toBytes32_hex:
  assumes "length b = 32" and "pre \<in> {[], ''0x'', ''0X''}"
  shows "toBytes32 (pre @ hex_EncodeToString b) = Ok b"
  using assms hex_EncodeToString_no_prefix [of "CHR ''x''" b] hex_EncodeToString_no_prefix [of "CHR ''X''" b]
  by (auto simp: toBytes32_def TrimPrefix_def hex_roundtrip copy32_def)

section \<open>Headers of a chain\<close>

text \<open>A node that serves the ledgers of a chain given by the hash and close time of each
  ledger: the metadata of ledger \<open>k\<close> carries the hash of its predecessor.\<close>

definition serves_chain :: "(int \<Rightarrow> bytes) \<Rightarrow> (int \<Rightarrow> int) \<Rightarrow> 'l source_env \<Rightarrow> bool" where
  "serves_chain H T env \<longleftrightarrow> (\<forall>k. length (H k) = 32) \<and>
     (\<forall>k. \<exists>meta lcm rest. se_GetLedgers env k 1 =
          Ok (\<lparr>rli_Hash = hex_EncodeToString (H k), rli_LedgerMetadata = meta, rli_Sequence = k, rli_LedgerCloseTime = T k\<rparr> # rest) \<and>
        unb64_LedgerCloseMeta env meta = Ok lcm \<and> LedgerHeaderHistoryEntry env lcm = Ok (H (k - 1)))"

definition chain_header :: "(int \<Rightarrow> bytes) \<Rightarrow> (int \<Rightarrow> int) \<Rightarrow> int \<Rightarrow> BlockHeader" where
  "chain_header H T k = \<lparr>bh_Number = k, bh_Hash = H k, bh_ParentHash = H (k - 1), bh_Timestamp = T k\<rparr>"

lemma fetch_header_of_chain:
  assumes "serves_chain H T env" and "0 \<le> k" and "k < 2 ^ 32"
  shows "fetch_header env (Some k) = Ok (k, chain_header H T k)"
proof -
  from assms(1) obtain meta lcm rest where "se_GetLedgers env k 1 =
      Ok (\<lparr>rli_Hash = hex_EncodeToString (H k), rli_LedgerMetadata = meta, rli_Sequence = k, rli_LedgerCloseTime = T k\<rparr> # rest)"
    "unb64_LedgerCloseMeta env meta = Ok lcm" "LedgerHeaderHistoryEntry env lcm = Ok (H (k - 1))" "length (H k) = 32"
    unfolding serves_chain_def by metis
  moreover have "ledger_seq (Some k) = Ok k" using assms(2,3) by (simp add: ledger_seq_def big_Uint64_def u64_def)
  ultimately show ?thesis
    using toBytes32_hex [of "H k" "[]"] by (simp add: fetch_header_def buildBlockHeaderFromMeta_def chain_header_def)
qed

lemma get_headers_of_chain:
  assumes "serves_chain H T env" and "list_all (\<lambda>k. 0 \<le> k \<and> k < 2 ^ 32) ks"
  shows "get_headers env (map Some ks) m = Ok (\<lambda>k. if k \<in> set ks then Some (chain_header H T k) else m k)"
  using assms(2)
  by (induction ks arbitrary: m) (auto simp: fetch_header_of_chain [OF assms(1)] fun_eq_iff)

section \<open>The event of the OnRamp\<close>

text \<open>The event as the contract publishes it: a map with the field names in the order of
  Soroban maps.\<close>

definition i128_ScVal :: "int \<Rightarrow> ScVal" where
  "i128_ScVal x = ScvI128 (Some (x div 2 ^ 64, x mod 2 ^ 64))"

definition symbol_map :: "(string \<times> ScVal) list \<Rightarrow> ScVal" where
  "symbol_map es = ScvMap (Some (Some (map (\<lambda>(k, v). (ScvSymbol (Some k), v)) es)))"

definition receipt_ScVal :: "sdk \<Rightarrow> string \<times> ReceiptWithBlob \<Rightarrow> ScVal" where
  "receipt_ScVal lib p = (case p of (issuer, r) \<Rightarrow> symbol_map
     [(''dest_bytes_overhead'', Uint32ToScVal (rwb_DestBytesOverhead r)), (''dest_gas_limit'', Uint32ToScVal (rwb_DestGasLimit r)),
      (''extra_args'', BytesToScVal (rwb_ExtraArgs r)), (''fee_token_amount'', i128_ScVal (the (rwb_FeeTokenAmount r))),
      (''issuer'', AddressToScVal lib issuer)])"

definition sent_ScVal :: "sdk \<Rightarrow> sent_fields \<Rightarrow> (string \<times> ReceiptWithBlob) list \<Rightarrow> ScVal" where
  "sent_ScVal lib s receipts = symbol_map
     [(''dest_chain_selector'', Uint64ToScVal (sf_destChainSelector s)), (''encoded_message'', BytesToScVal (sf_encodedMessage s)),
      (''fee_token'', AddressToScVal lib (sf_feeToken s)), (''message_id'', BytesToScVal (sf_messageID s)),
      (''receipts'', VecToScVal (map (receipt_ScVal lib) receipts)), (''sender'', AddressToScVal lib (sf_sender s)),
      (''sequence_number'', Uint64ToScVal (sf_sequenceNumber s)),
      (''token_amount_before_fees'', i128_ScVal (the (sf_tokenAmountBeforeFees s))),
      (''verifier_blobs'', BytesSliceToScVal (sf_verifierBlobs s))]"

text \<open>A receipt under its issuer's strkey: 32-byte issuer, an amount, no blob yet.\<close>

definition receipt_ok :: "sdk \<Rightarrow> string \<times> ReceiptWithBlob \<Rightarrow> bool" where
  "receipt_ok lib p \<longleftrightarrow> valid_address lib (fst p) (rwb_Issuer (snd p)) \<and> rwb_FeeTokenAmount (snd p) \<noteq> None \<and> rwb_Blob (snd p) = []"

lemma parseReceipt_encoded:
  assumes "strkey_laws lib" and "address_laws lib" and "receipt_ok lib p"
  shows "parseReceipt (receipt_ScVal lib p) = Ok (snd p)"
proof -
  obtain issuer r where p: "p = (issuer, r)" by fastforce
  with assms(3) have "RawBytesFromAddressScVal (AddressToScVal lib issuer) = Ok (rwb_Issuer r)"
    by (auto simp: receipt_ok_def intro: address_roundtrip(2) [OF assms(1,2)])
  with assms(3) show ?thesis
    by (auto simp: p receipt_ok_def parseReceipt_def receipt_ScVal_def symbol_map_def get_defs receipt_entry_def set_if_def
        set_if_ok_def Uint32ToScVal_def BytesToScVal_def i128_ScVal_def zero_receipt_def big_i128_def)
qed

lemma parseReceipts_encoded:
  assumes "strkey_laws lib" and "address_laws lib" and "list_all (receipt_ok lib) ps"
  shows "parseReceipts (VecToScVal (map (receipt_ScVal lib) ps)) = Ok (map snd ps)"
proof -
  have "parse_receipt_items (map (receipt_ScVal lib) ps) = Ok (map snd ps)"
    using assms(3) by (induction ps) (simp_all add: parseReceipt_encoded [OF assms(1,2)])
  then show ?thesis by (simp add: parseReceipts_def vec_field_def VecToScVal_def GetVec_def)
qed

lemma pair_blobs_index:
  "list_all (\<lambda>r. rwb_Blob r = []) rs \<Longrightarrow> pair_blobs rs bs =
     map (\<lambda>i. (rs ! i)\<lparr>rwb_Blob := if i < length bs then bs ! i else []\<rparr>) [0 ..< length rs]"
proof (induction rs arbitrary: bs)
  case (Cons r rs)
  have upt: "[0 ..< length (r # rs)] = 0 # map Suc [0 ..< length rs]"
    by (simp add: map_Suc_upt upt_conv_Cons del: upt_Suc)
  have "map (\<lambda>i. (rs ! i)\<lparr>rwb_Blob := []\<rparr>) [0 ..< length rs] = map (\<lambda>i. rs ! i) [0 ..< length rs]"
    using Cons.prems by (intro map_cong) (auto simp: list_all_length)
  then have none: "map (\<lambda>i. (rs ! i)\<lparr>rwb_Blob := []\<rparr>) [0 ..< length rs] = rs" by (simp add: map_nth)
  show ?case
    using Cons none unfolding upt by (cases bs) (simp_all add: comp_def del: upt_Suc)
qed (simp add: pair_blobs.simps)

section \<open>Properties\<close>

text \<open>C22: An event as the OnRamp publishes it is read back field by field: the message that was
  encoded, its id, the receipts in order with issuer, limits, signed 128-bit fee and extra
  arguments, the i-th verifier blob attached to the i-th receipt (none to the receipts beyond
  the blobs), and the ledger number.\<close>

theorem message_sent_event_decodes:
  assumes "strkey_laws lib" and "address_laws lib" and "ccip_laws P"
    and "unb64_ScVal lib (ei_ValueXDR e) = Ok (sent_ScVal lib s receipts)"
    and "valid_address lib (sf_sender s) senderRaw" and "valid_address lib (sf_feeToken s) feeTokenRaw"
    and "list_all (receipt_ok lib) receipts" and "length (sf_messageID s) = 32"
    and "msg_Encode P m = Ok (sf_encodedMessage s)" and "in_u64 (ei_Ledger e)"
  shows "decodeCCIPMessageSentEvent lib P e =
    Ok \<lparr>mse_MessageID = sf_messageID s, mse_Message = m,
        mse_Receipts = map (\<lambda>i. (snd (receipts ! i))\<lparr>rwb_Blob :=
            if i < length (sf_verifierBlobs s) then sf_verifierBlobs s ! i else []\<rparr>) [0 ..< length receipts],
        mse_BlockNumber = ei_Ledger e, mse_TxHash = map char_byte (ei_TransactionHash e)\<rparr>"
proof -
  have "AddressFromScVal lib (AddressToScVal lib (sf_sender s)) = Ok (sf_sender s)"
    "AddressFromScVal lib (AddressToScVal lib (sf_feeToken s)) = Ok (sf_feeToken s)"
    using address_roundtrip(1) [OF assms(1,2)] assms(5,6) by blast+
  moreover have "BytesVecFromScVal (BytesSliceToScVal (sf_verifierBlobs s)) = Ok (sf_verifierBlobs s)"
    by (simp add: BytesVecFromScVal_def BytesSliceToScVal_def VecToScVal_def bytes_items_roundtrip)
  moreover have "pair_blobs (map snd receipts) (sf_verifierBlobs s) = map (\<lambda>i. (snd (receipts ! i))\<lparr>rwb_Blob :=
      if i < length (sf_verifierBlobs s) then sf_verifierBlobs s ! i else []\<rparr>) [0 ..< length receipts]"
    using assms(7) by (subst pair_blobs_index) (auto simp: list_all_iff receipt_ok_def)
  moreover have "DecodeMessage P (sf_encodedMessage s) = Ok m" using assms(3,9) by (simp add: ccip_laws_def)
  ultimately show ?thesis
    using assms(4,8,10) parseReceipts_encoded [OF assms(1,2,7)]
    by (simp add: decodeCCIPMessageSentEvent_def sent_ScVal_def symbol_map_def get_defs sent_entry_def set_if_def set_if_ok_def
        Uint64ToScVal_def BytesToScVal_def i128_ScVal_def zero_sent_def u64_id)
qed

definition sample_sent :: sent_fields where
  "sample_sent = zero_sent\<lparr>sf_sender := zero_contract, sf_feeToken := zero_contract, sf_messageID := replicate 32 7,
     sf_encodedMessage := sample_msg, sf_tokenAmountBeforeFees := Some (- 3), sf_verifierBlobs := [[1, 2], [3]]\<rparr>"

definition sample_receipt :: ReceiptWithBlob where
  "sample_receipt = zero_receipt\<lparr>rwb_Issuer := replicate 32 0, rwb_FeeTokenAmount := Some (- 5), rwb_DestGasLimit := 9\<rparr>"

definition sent_sdk :: sdk where
  "sent_sdk = sample_sdk\<lparr>unb64_ScVal := (\<lambda>x. Ok (sent_ScVal sample_sdk sample_sent [(zero_contract, sample_receipt)]))\<rparr>"

definition sent_event :: EventInfo where
  "sent_event = \<lparr>ei_EventType = EventTypeContract, ei_Ledger = 12, ei_LedgerClosedAt = [], ei_ContractID = ''C'', ei_ID = [],
     ei_OpIndex = 0, ei_TxIndex = 0, ei_TransactionHash = ''hash'', ei_TopicXDR = [], ei_ValueXDR = []\<rparr>"

text \<open>The laws and the encodings do not depend on the decoder of XDR values.\<close>

lemma sent_sdk_laws:
  "strkey_laws sent_sdk" "address_laws sent_sdk" "valid_address sent_sdk = valid_address sample_sdk"
  "sent_ScVal sent_sdk = sent_ScVal sample_sdk"
proof -
  have c: "strkey_Decode sent_sdk = strkey_Decode sample_sdk" "strkey_Encode sent_sdk = strkey_Encode sample_sdk"
    "unmarshal_ScAddress sent_sdk = unmarshal_ScAddress sample_sdk" "AddressToAccountId sent_sdk = AddressToAccountId sample_sdk"
    by (simp_all add: sent_sdk_def)
  then show "strkey_laws sent_sdk" "address_laws sent_sdk"
    using sample_strkey_laws sample_address_laws unfolding strkey_laws_def address_laws_def by simp_all
  show "valid_address sent_sdk = valid_address sample_sdk" by (simp add: valid_address_def c fun_eq_iff)
  have b: "BuildContractScAddress sent_sdk = BuildContractScAddress sample_sdk"
    by (simp add: BuildContractScAddress_def c fun_eq_iff)
  have "AddressToScVal sent_sdk x = AddressToScVal sample_sdk x" for x
    unfolding AddressToScVal_def ParseAddress_def c b ..
  moreover from this have "receipt_ScVal sent_sdk = receipt_ScVal sample_sdk"
    by (simp add: receipt_ScVal_def fun_eq_iff)
  ultimately show "sent_ScVal sent_sdk = sent_ScVal sample_sdk" by (intro ext) (simp add: sent_ScVal_def)
qed

theorem message_sent_event_decodes_witness:
  "decodeCCIPMessageSentEvent sent_sdk plain_ccip sent_event =
    Ok \<lparr>mse_MessageID = replicate 32 7, mse_Message = sample_msg, mse_Receipts = [sample_receipt\<lparr>rwb_Blob := [1, 2]\<rparr>],
        mse_BlockNumber = 12, mse_TxHash = map char_byte ''hash''\<rparr>"
proof -
  have "unb64_ScVal sent_sdk (ei_ValueXDR sent_event) = Ok (sent_ScVal sent_sdk sample_sent [(zero_contract, sample_receipt)])"
    by (simp add: sent_sdk_laws) (simp add: sent_sdk_def)
  moreover have "list_all (receipt_ok sent_sdk) [(zero_contract, sample_receipt)]"
    by (simp add: receipt_ok_def sent_sdk_laws zero_contract_valid sample_receipt_def zero_receipt_def)
  moreover have "msg_Encode plain_ccip sample_msg = Ok (sf_encodedMessage sample_sent)" by (simp add: plain_ccip_def sample_sent_def)
  ultimately show ?thesis
    using message_sent_event_decodes [OF sent_sdk_laws(1,2) plain_ccip_laws, of sent_event sample_sent
        "[(zero_contract, sample_receipt)]" "replicate 32 0" "replicate 32 0" sample_msg] zero_contract_valid
    by (simp add: sent_sdk_laws sample_sent_def sent_event_def in_u64_def)
qed

text \<open>C23: The headers of requested ledgers describe the chain: against a node that serves a
  chain, any list of 32-bit ledger numbers (repetitions included) yields exactly one header per
  requested number, with that number, the ledger's own hash, the hash of its predecessor and
  its close time; a number above 32 bits fails the whole request.\<close>

theorem block_headers_describe_chain:
  assumes "serves_chain H T env" and "list_all (\<lambda>k. 0 \<le> k \<and> k < 2 ^ 32) ks"
  shows "GetBlocksHeaders env (map Some ks) = Ok (\<lambda>k. if k \<in> set ks then Some (chain_header H T k) else None)
    \<and> (2 ^ 32 \<le> big \<and> big < 2 ^ 64 \<longrightarrow> GetBlocksHeaders env (map Some ks @ Some big # ns) =
        Err (Errorf ''block number exceeds uint32 (ledger seq) range: %d'' [AInt big]))"
proof -
  have step: "get_headers env (map Some xs @ Some big # ns) m =
      Err (Errorf ''block number exceeds uint32 (ledger seq) range: %d'' [AInt big])"
    if "2 ^ 32 \<le> big" "big < 2 ^ 64" "list_all (\<lambda>k. 0 \<le> k \<and> k < 2 ^ 32) xs" for m xs
    using that(3)
  proof (induction xs arbitrary: m)
    case Nil
    have "fetch_header env (Some big) = Err (Errorf ''block number exceeds uint32 (ledger seq) range: %d'' [AInt big])"
      using that(1,2) by (simp add: fetch_header_def ledger_seq_def big_Uint64_def u64_def)
    then show ?case by simp
  qed (simp add: fetch_header_of_chain [OF assms(1)])
  with get_headers_of_chain [OF assms] assms(2) show ?thesis by (auto simp: GetBlocksHeaders_def)
qed

definition chain_node :: "int source_env" where
  "chain_node = \<lparr>se_GetLatestLedger = Err (New []),
     se_GetLedgers = (\<lambda>k n. Ok [\<lparr>rli_Hash = hex_EncodeToString (replicate 32 (word_of_int k)),
       rli_LedgerMetadata = [char_of (nat (k mod 256))], rli_Sequence = k, rli_LedgerCloseTime = 5 * k\<rparr>]),
     se_GetEvents = (\<lambda>a b c d. Ok []), unb64_LedgerHeader = (\<lambda>x. Err (New [])),
     unb64_LedgerCloseMeta = (\<lambda>x. Ok (int (of_char (hd x)))),
     LedgerHeaderHistoryEntry = (\<lambda>l. Ok (replicate 32 (word_of_int (l - 1))))\<rparr>"

lemma chain_node_serves: "serves_chain (\<lambda>k. replicate 32 (word_of_int k)) (\<lambda>k. 5 * k) chain_node"
proof -
  have "(word_of_int (k mod 256 - 1) :: 8 word) = word_of_int (k - 1)" for k
    by (simp add: word_of_int_eq_iff take_bit_eq_mod mod_diff_left_eq)
  moreover have "int (of_char (char_of (nat (k mod 256)) :: char)) = k mod 256" for k :: int by simp
  ultimately show ?thesis by (simp add: serves_chain_def chain_node_def)
qed

theorem block_headers_describe_chain_witness:
  "GetBlocksHeaders chain_node [Some 8, Some 9, Some 8] = Ok (\<lambda>k. if k \<in> {8, 9}
      then Some (chain_header (\<lambda>k. replicate 32 (word_of_int k)) (\<lambda>k. 5 * k) k) else None)"
  using block_headers_describe_chain [OF chain_node_serves, of "[8, 9, 8]"] by (simp add: insert_commute)

end
