(* ===== verification/Deployer.thy ===== *)
theory Deployer
  imports Invoker_Adapter Float64
begin

text \<open>
  The deployer (deployment/deployer.go): it builds, simulates, signs and submits transactions
  with one account and waits for their confirmation, restoring archived ledger entries on the
  way. It is the second implementation of the contract invoker. The state holds the fields of
  the struct, the interaction counter at which every call out of the process is answered, and
  the signed transactions handed to the network, in order.
\<close>

section \<open>Signers\<close>

record TxSigner =
  sg_Address :: string
  sg_SignTransaction :: "string \<Rightarrow> Transaction \<Rightarrow> Transaction result"

text \<open>\<open>keypair.Full\<close> with \<open>Transaction.Sign\<close> of the SDK; a signer that only signs hashes.\<close>

record keypair_Full =
  kp_Address :: string
  kp_tx_Sign :: "string \<Rightarrow> Transaction \<Rightarrow> Transaction result"

record stellarSDKSigner =
  ss_Address :: string
  ss_SignDecorated :: "bytes \<Rightarrow> (bytes \<times> bytes) result"

definition NewKeypairSigner :: "keypair_Full \<Rightarrow> TxSigner" where
  "NewKeypairSigner kp = \<lparr>sg_Address = kp_Address kp, sg_SignTransaction = kp_tx_Sign kp\<rparr>"

definition sdk_SignTransaction :: "sdk \<Rightarrow> stellarSDKSigner \<Rightarrow> string \<Rightarrow> Transaction \<Rightarrow> Transaction result" where
  "sdk_SignTransaction lib s networkPassphrase tx =
     bind_r (wrap_err (\<lambda>e. Errorf ''hash transaction envelope: %w'' [AErr e]) (tx_Hash lib tx networkPassphrase)) (\<lambda>h.
     bind_r (wrap_err (\<lambda>e. Errorf ''sign decorated: %w'' [AErr e]) (ss_SignDecorated s h)) (\<lambda>d.
     AddSignatureDecorated lib tx d))"

definition NewSDKSigner :: "sdk \<Rightarrow> stellarSDKSigner option \<Rightarrow> TxSigner option" where
  "NewSDKSigner lib s = map_option (\<lambda>x. \<lparr>sg_Address = ss_Address x, sg_SignTransaction = sdk_SignTransaction lib x\<rparr>) s"

section \<open>Construction\<close>

record Deployer =
  dep_networkPassphrase :: string
  dep_signer :: TxSigner
  dep_accountSequence :: int
  dep_autoRestore :: bool
  dep_feeBumpFactor :: float64
  dep_txnTimeBound :: int
  dep_clock :: nat
  dep_sent :: "Transaction list"

fun fl_less_one :: "float64 \<Rightarrow> bool" where
  "fl_less_one (Fin m e) = (if e \<ge> 0 then m * 2 ^ nat e < 1 else m < 2 ^ nat (- e))"
| "fl_less_one (Inf neg) = neg"
| "fl_less_one NaN = False"

definition WithAutoRestore :: "bool \<Rightarrow> Deployer \<Rightarrow> Deployer" where
  "WithAutoRestore enabled d = d\<lparr>dep_autoRestore := enabled\<rparr>"

definition WithFeeBumpFactor :: "float64 \<Rightarrow> Deployer \<Rightarrow> Deployer" where
  "WithFeeBumpFactor factor d =
     d\<lparr>dep_feeBumpFactor := (case factor of Fin m e \<Rightarrow> if fl_less_one factor then Fin 1 0 else factor | _ \<Rightarrow> Fin 1 0)\<rparr>"

definition WithTxnTimeBound :: "int \<Rightarrow> Deployer \<Rightarrow> Deployer" where
  "WithTxnTimeBound bound d = (if bound > 0 then d\<lparr>dep_txnTimeBound := bound\<rparr> else d)"

text \<open>The default factor 1.25 is \<open>5 * 2 ^ (- 2)\<close>; durations are nanoseconds.\<close>

definition NewDeployerWithSigner :: "string \<Rightarrow> TxSigner \<Rightarrow> (Deployer \<Rightarrow> Deployer) list \<Rightarrow> Deployer" where
  "NewDeployerWithSigner networkPassphrase signer opts = fold (\<lambda>opt. opt) opts
     \<lparr>dep_networkPassphrase = networkPassphrase, dep_signer = signer, dep_accountSequence = - 1, dep_autoRestore = True,
      dep_feeBumpFactor = Fin 5 (- 2), dep_txnTimeBound = 120 * 1000000000, dep_clock = 0, dep_sent = []\<rparr>"

definition NewDeployer :: "string \<Rightarrow> keypair_Full \<Rightarrow> (Deployer \<Rightarrow> Deployer) list \<Rightarrow> Deployer" where
  "NewDeployer networkPassphrase signer opts = NewDeployerWithSigner networkPassphrase (NewKeypairSigner signer) opts"

text \<open>The signer of a chain: nil, or a value whose \<open>KeypairFull\<close> may be nil.\<close>

definition NewDeployerFromChain ::
    "sdk \<Rightarrow> (keypair_Full option \<times> stellarSDKSigner) option \<Rightarrow> string \<Rightarrow> (Deployer \<Rightarrow> Deployer) list \<Rightarrow> Deployer result" where
  "NewDeployerFromChain lib signer networkPassphrase opts =
     (case signer of
        None \<Rightarrow> Err (New ''stellar chain Signer is nil'')
      | Some (Some kp, s) \<Rightarrow> Ok (NewDeployer networkPassphrase kp opts)
      | Some (None, s) \<Rightarrow> Ok (NewDeployerWithSigner networkPassphrase (the (NewSDKSigner lib (Some s))) opts))"

section \<open>Actions\<close>

text \<open>The outside: clock, RPC node, and the \<open>select\<close> of the confirmation wait: for how many rounds
  the timeout is not chosen, and whether a round sees the ticker or the end of the context.\<close>

datatype wait_event = TickerFired | CtxDone error

record denv =
  dnow_at :: "nat \<Rightarrow> int"
  dSimulate_at :: "nat \<Rightarrow> string \<Rightarrow> SimulateTransactionResponse result"
  dSend_at :: "nat \<Rightarrow> string \<Rightarrow> SendTransactionResponse result"
  dGetTransaction_at :: "nat \<Rightarrow> string \<Rightarrow> GetTransactionResponse result"
  dGetLedgerEntries_at :: "nat \<Rightarrow> string list \<Rightarrow> string list result"
  dGetEvents_at :: "nat \<Rightarrow> GetEventsRequest \<Rightarrow> EventInfo GetEventsResponse result"
  drounds_at :: "nat \<Rightarrow> nat"
  dselect_at :: "nat \<Rightarrow> wait_event"

type_synonym 'a dep = "(Deployer, 'a result) state"

definition okM :: "'a \<Rightarrow> 'a dep" where
  "okM x = State_Monad.return (Ok x)"

definition failM :: "error \<Rightarrow> 'a dep" where
  "failM e = State_Monad.return (Err e)"

definition liftM :: "'a result \<Rightarrow> 'a dep" where
  "liftM r = State_Monad.return r"

definition bindM :: "'a dep \<Rightarrow> ('a \<Rightarrow> 'b dep) \<Rightarrow> 'b dep" where
  "bindM m f = do {
     r \<leftarrow> m;
     case r of Ok x \<Rightarrow> f x | Err e \<Rightarrow> State_Monad.return (Err e) | Panic q \<Rightarrow> State_Monad.return (Panic q) }"

definition wrapM :: "(error \<Rightarrow> error) \<Rightarrow> 'a dep \<Rightarrow> 'a dep" where
  "wrapM g m = do { r \<leftarrow> m; State_Monad.return (wrap_err g r) }"

definition dask :: "(nat \<Rightarrow> 'a result) \<Rightarrow> 'a dep" where
  "dask f = State (\<lambda>d. (f (dep_clock d), d\<lparr>dep_clock := Suc (dep_clock d)\<rparr>))"

definition dreads :: "(Deployer \<Rightarrow> 'a) \<Rightarrow> 'a dep" where
  "dreads f = State (\<lambda>d. (Ok (f d), d))"

definition setSequence :: "int \<Rightarrow> unit dep" where
  "setSequence n = State (\<lambda>d. (Ok (), d\<lparr>dep_accountSequence := n\<rparr>))"

text \<open>\<open>SendTransaction\<close>: the request carries the text of a signed transaction.\<close>

definition send :: "denv \<Rightarrow> Transaction \<Rightarrow> string \<Rightarrow> SendTransactionResponse dep" where
  "send env tx signedXDR = State (\<lambda>d. (dSend_at env (dep_clock d) signedXDR,
     d\<lparr>dep_clock := Suc (dep_clock d), dep_sent := dep_sent d @ [tx]\<rparr>))"

section \<open>The source account\<close>

definition getLedgerEntryXDR :: "string \<Rightarrow> string option" where
  "getLedgerEntryXDR entry = (if entry \<noteq> [] then Some entry else None)"

definition getSourceAccount :: "denv \<Rightarrow> sdk \<Rightarrow> (string \<times> int) dep" where
  "getSourceAccount env lib =
     bindM (dreads (\<lambda>d. sg_Address (dep_signer d))) (\<lambda>address.
     bindM (liftM (case AddressToAccountId lib address of Ok k \<Rightarrow> Ok k | _ \<Rightarrow> Panic ''MustAddress'')) (\<lambda>accountID.
     bindM (wrapM (\<lambda>e. Errorf ''failed to marshal account key: %w'' [AErr e]) (liftM (marshal_AccountKey lib accountID))) (\<lambda>keyXDR.
     bindM (wrapM (\<lambda>e. Errorf ''failed to get ledger entries: %w'' [AErr e])
              (dask (\<lambda>i. dGetLedgerEntries_at env i [keyXDR]))) (\<lambda>entries.
     bindM (case entries of
              [] \<Rightarrow> okM 0
            | entry # _ \<Rightarrow>
                (case getLedgerEntryXDR entry of
                   None \<Rightarrow> okM 0
                 | Some entryXDR \<Rightarrow>
                     bindM (wrapM (\<lambda>e. Errorf ''failed to unmarshal account entry: %w'' [AErr e])
                              (liftM (unb64_LedgerEntryData lib entryXDR))) (\<lambda>data.
                     case data of LedgerEntryAccount seqNum balance \<Rightarrow> okM seqNum | _ \<Rightarrow> liftM (Panic ''MustAccount'')))) (\<lambda>sequence.
     bindM (setSequence sequence) (\<lambda>_. okM (address, sequence)))))))"

section \<open>Fees\<close>

text \<open>\<open>factor - 1.0\<close> on doubles.\<close>

fun fl_minus_one :: "float64 \<Rightarrow> float64" where
  "fl_minus_one (Fin m e) = (if e \<ge> 0 then round53 (m * 2 ^ nat e - 1) 0 else round53 (m - 2 ^ nat (- e)) e)"
| "fl_minus_one x = x"

abbreviation (input) minFeeBuffer :: int where
  "minFeeBuffer \<equiv> 10000"

abbreviation (input) MinBaseFee :: int where
  "MinBaseFee \<equiv> 100"

definition feeBumpExtra :: "int \<Rightarrow> float64 \<Rightarrow> int" where
  "feeBumpExtra minFee factor =
     (if minFee \<le> 0 then 0
      else case fl_mul (of_int64 minFee) (fl_minus_one factor) of
             Fin m e \<Rightarrow> to_int64 (fl_ceil (Fin m e))
           | _ \<Rightarrow> 0)"

definition bumped_fee :: "int \<Rightarrow> float64 \<Rightarrow> int" where
  "bumped_fee minFee factor =
     (let bump = feeBumpExtra minFee factor in i64 (minFee + (if bump < minFeeBuffer then minFeeBuffer else bump)))"

section \<open>Waiting for confirmation\<close>

text \<open>The loop of \<open>waitForTransaction\<close>; the first argument is the number of rounds before the
  case of the timeout is chosen.\<close>

fun wait_loop :: "nat \<Rightarrow> denv \<Rightarrow> sdk \<Rightarrow> string \<Rightarrow> TransactionMeta dep" where
  "wait_loop 0 env lib hash = failM (Errorf ''transaction timed out (hash: %s)'' [AStr hash])"
| "wait_loop (Suc n) env lib hash =
     bindM (dask (\<lambda>i. Ok (dselect_at env i))) (\<lambda>event. case event of
       CtxDone e \<Rightarrow> failM e
     | TickerFired \<Rightarrow>
         bindM (dask (\<lambda>i. case dGetTransaction_at env i hash of
                      Ok r \<Rightarrow> Ok (Some r) | Err e \<Rightarrow> Ok None | Panic q \<Rightarrow> Panic q)) (\<lambda>result.
         case result of
           None \<Rightarrow> wait_loop n env lib hash
         | Some r \<Rightarrow>
             (case get_Status r of
                StatusSuccess \<Rightarrow>
                  if get_ResultMetaXDR r = [] then failM (New ''no result meta XDR'')
                  else wrapM (\<lambda>e. Errorf ''failed to decode result meta: %w'' [AErr e])
                         (liftM (unb64_TransactionMeta lib (get_ResultMetaXDR r)))
              | StatusFailed \<Rightarrow>
                  failM (Errorf ''transaction failed (hash: %s, resultXDR: %q, diagnostics: %v)'' [AStr hash, AStr (get_ResultXDR r)])
              | _ \<Rightarrow> wait_loop n env lib hash)))"

definition waitForTransaction :: "denv \<Rightarrow> sdk \<Rightarrow> string \<Rightarrow> int \<Rightarrow> TransactionMeta dep" where
  "waitForTransaction env lib hash deadline =
     bindM (dask (\<lambda>i. Ok (dnow_at env i))) (\<lambda>now.
     let remaining = time_sub deadline now in
     if remaining \<le> 0 then failM (Errorf ''transaction deadline already elapsed (hash: %s)'' [AStr hash])
     else bindM (dask (\<lambda>i. Ok (drounds_at env i))) (\<lambda>rounds. wait_loop rounds env lib hash))"

section \<open>Building and submitting\<close>

definition tx_params :: "string \<times> int \<Rightarrow> Operation list \<Rightarrow> int \<Rightarrow> int \<Rightarrow> TransactionParams" where
  "tx_params src ops baseFee deadline =
     \<lparr>tp_AccountID = fst src, tp_Sequence = snd src, tp_IncrementSequenceNum = True, tp_Operations = ops, tp_BaseFee = baseFee,
      tp_TimeBounds = \<lparr>tb_MinTime = 0, tb_MaxTime = deadline div 1000000000\<rparr>, tp_MaxLedger = None\<rparr>"

text \<open>The answer to a submission; \<open>kind\<close> is empty or names the restore transaction.\<close>

definition accepted_hash :: "string \<Rightarrow> SendTransactionResponse \<Rightarrow> string result" where
  "accepted_hash kind r =
     (case send_Status r of
        TXStatusPending \<Rightarrow> Ok (send_Hash r)
      | TXStatusDuplicate \<Rightarrow> Ok (send_Hash r)
      | TXStatusTryAgainLater \<Rightarrow>
          Err (New (kind @ ''transaction submission failed: server overloaded, try again later''))
      | TXStatusError \<Rightarrow>
          if send_ErrorResultXDR r \<noteq> []
          then Err (Errorf (kind @ ''transaction rejected: %v (diagnostics: %v)'') [AStr (send_ErrorResultXDR r)])
          else Err (New (kind @ ''transaction rejected with status ERROR''))
      | TXStatusOther s \<Rightarrow> Err (Errorf (''unexpected '' @ kind @ ''transaction status: %s'') [AStr s]))"

text \<open>Sign, encode and send; the messages of the callers differ.\<close>

definition sign_and_send :: "denv \<Rightarrow> sdk \<Rightarrow> string \<Rightarrow> string \<Rightarrow> string \<Rightarrow> string \<Rightarrow> Transaction \<Rightarrow> string dep" where
  "sign_and_send env lib signMsg xdrMsg sendMsg kind tx =
     bindM (dreads (\<lambda>d. sg_SignTransaction (dep_signer d) (dep_networkPassphrase d) tx)) (\<lambda>r.
     bindM (wrapM (\<lambda>e. Errorf signMsg [AErr e]) (liftM r)) (\<lambda>signedTx.
     bindM (wrapM (\<lambda>e. Errorf xdrMsg [AErr e]) (liftM (tx_Base64 lib signedTx))) (\<lambda>signedXDR.
     bindM (wrapM (\<lambda>e. Errorf sendMsg [AErr e]) (send env signedTx signedXDR)) (\<lambda>submitResult.
     liftM (accepted_hash kind submitResult)))))"

definition deadline_now :: "denv \<Rightarrow> int dep" where
  "deadline_now env =
     bindM (dask (\<lambda>i. Ok (dnow_at env i))) (\<lambda>now. dreads (\<lambda>d. now + dep_txnTimeBound d))"

definition restoreFootprint :: "denv \<Rightarrow> sdk \<Rightarrow> RestorePreamble \<Rightarrow> unit dep" where
  "restoreFootprint env lib preamble =
     bindM (deadline_now env) (\<lambda>restoreDeadline.
     bindM (wrapM (\<lambda>e. Errorf ''failed to get source account for restore: %w'' [AErr e]) (getSourceAccount env lib)) (\<lambda>src.
     bindM (wrapM (\<lambda>e. Errorf ''failed to decode restore preamble soroban data: %w'' [AErr e])
              (liftM (unb64_SorobanData lib (rp_TransactionDataXDR preamble)))) (\<lambda>sorobanData.
     bindM (dreads (\<lambda>d. bumped_fee (rp_MinResourceFee preamble) (dep_feeBumpFactor d))) (\<lambda>baseFee.
     bindM (wrapM (\<lambda>e. Errorf ''failed to build restore transaction: %w'' [AErr e])
              (liftM (NewTransaction lib (tx_params src [OpRestoreFootprint (fst src) sorobanData] baseFee restoreDeadline)))) (\<lambda>tx.
     bindM (sign_and_send env lib ''failed to sign restore transaction: %w'' ''failed to get signed restore transaction XDR: %w''
              ''failed to submit restore transaction: %w'' ''restore '' tx) (\<lambda>hash.
     bindM (wrapM (\<lambda>e. Errorf ''restore transaction failed: %w'' [AErr e]) (waitForTransaction env lib hash restoreDeadline)) (\<lambda>_.
     okM ())))))))"

definition build_and_simulate ::
    "denv \<Rightarrow> sdk \<Rightarrow> string \<Rightarrow> string \<Rightarrow> string \<times> int \<Rightarrow> Operation \<Rightarrow> int \<Rightarrow> (Transaction \<times> SimulateTransactionResponse) dep" where
  "build_and_simulate env lib buildMsg suffix src op deadline =
     bindM (wrapM (\<lambda>e. Errorf (buildMsg @ suffix @ '': %w'') [AErr e])
              (liftM (NewTransaction lib (tx_params src [op] MinBaseFee deadline)))) (\<lambda>tx.
     bindM (wrapM (\<lambda>e. Errorf (''failed to get transaction XDR'' @ suffix @ '': %w'') [AErr e]) (liftM (tx_Base64 lib tx))) (\<lambda>txXDR.
     bindM (wrapM (\<lambda>e. Errorf (''simulation failed'' @ suffix @ '': %w'') [AErr e]) (dask (\<lambda>i. dSimulate_at env i txXDR))) (\<lambda>sim.
     if sim_Error sim \<noteq> [] then failM (Errorf (''simulation error'' @ suffix @ '': %s'') [AStr (sim_Error sim)])
     else okM (tx, sim))))"

text \<open>The part that \<open>SimulateContract\<close> and \<open>buildAndSubmitTransaction\<close> share: simulate, and when
  archived entries have to be restored, restore them and simulate again, once.\<close>

definition simulate_again :: "denv \<Rightarrow> sdk \<Rightarrow> Operation \<Rightarrow> (Transaction \<times> SimulateTransactionResponse \<times> int) dep" where
  "simulate_again env lib op =
     bindM (wrapM (\<lambda>e. Errorf ''failed to get source account after restore: %w'' [AErr e]) (getSourceAccount env lib)) (\<lambda>src.
     bindM (deadline_now env) (\<lambda>deadline.
     bindM (build_and_simulate env lib ''failed to rebuild transaction'' '' after restore'' src op deadline) (\<lambda>(tx, sim).
     if sim_RestorePreamble sim \<noteq> None
     then failM (New ''simulation after restore still requires another restore: unexpected second RestorePreamble'')
     else okM (tx, sim, deadline))))"

definition simulate_with_restore ::
    "denv \<Rightarrow> sdk \<Rightarrow> string \<times> int \<Rightarrow> Operation \<Rightarrow> (Transaction \<times> SimulateTransactionResponse \<times> int) dep" where
  "simulate_with_restore env lib src op =
     bindM (deadline_now env) (\<lambda>deadline.
     bindM (build_and_simulate env lib ''failed to build transaction'' [] src op deadline) (\<lambda>(tx, sim).
     bindM (dreads dep_autoRestore) (\<lambda>autoRestore.
     case sim_RestorePreamble sim of
       None \<Rightarrow> okM (tx, sim, deadline)
     | Some preamble \<Rightarrow>
         if autoRestore then
           bindM (wrapM (\<lambda>e. Errorf ''failed to restore expired ledger entries: %w'' [AErr e])
                    (restoreFootprint env lib preamble)) (\<lambda>_. simulate_again env lib op)
         else okM (tx, sim, deadline))))"

fun decode_auths :: "sdk \<Rightarrow> string list \<Rightarrow> string list result" where
  "decode_auths lib [] = Ok []"
| "decode_auths lib (a # as) =
     bind_r (wrap_err (\<lambda>e. Errorf ''failed to decode auth: %w'' [AErr e]) (unb64_Auth lib a)) (\<lambda>x.
     bind_r (decode_auths lib as) (\<lambda>xs. Ok (x # xs)))"

text \<open>The simulated resources and authorizations written into a host-function operation.\<close>

definition inject_simulation :: "sdk \<Rightarrow> SimulateTransactionResponse \<Rightarrow> Operation list \<Rightarrow> Operation list result" where
  "inject_simulation lib sim ops =
     (if sim_TransactionDataXDR sim = [] then Ok ops
      else bind_r (wrap_err (\<lambda>e. Errorf ''failed to decode soroban data: %w'' [AErr e])
                     (unb64_SorobanData lib (sim_TransactionDataXDR sim))) (\<lambda>sorobanData.
        case ops of
          OpInvokeHostFunction ihf # rest \<Rightarrow>
            (case map simr_AuthXDR (sim_Results sim) of
               Some (a # as) # _ \<Rightarrow>
                 bind_r (decode_auths lib (a # as)) (\<lambda>auth.
                 Ok (OpInvokeHostFunction (ihf\<lparr>ihf_Ext := Some sorobanData, ihf_Auth := auth\<rparr>) # rest))
             | _ \<Rightarrow> Ok (OpInvokeHostFunction (ihf\<lparr>ihf_Ext := Some sorobanData\<rparr>) # rest))
        | _ \<Rightarrow> Ok ops))"

text \<open>The simulated data is written into the operation values. A transaction that is not built
  again keeps the envelope it was built with.\<close>

definition dep_assembleTransaction ::
    "denv \<Rightarrow> sdk \<Rightarrow> Transaction \<Rightarrow> SimulateTransactionResponse \<Rightarrow> int \<Rightarrow> Transaction dep" where
  "dep_assembleTransaction env lib tx sim deadline =
     (if t_Operations tx = [] then okM tx
      else
        bindM (liftM (inject_simulation lib sim (t_Operations tx))) (\<lambda>ops.
        if sim_MinResourceFee sim > 0 then
          bindM (dreads (\<lambda>d. bumped_fee (sim_MinResourceFee sim) (dep_feeBumpFactor d))) (\<lambda>newFee.
          bindM (getSourceAccount env lib) (\<lambda>src.
          liftM (NewTransaction lib (tx_params src ops newFee deadline))))
        else okM tx))"

definition buildAndSubmitTransaction :: "denv \<Rightarrow> sdk \<Rightarrow> string \<times> int \<Rightarrow> Operation \<Rightarrow> TransactionMeta dep" where
  "buildAndSubmitTransaction env lib src op =
     bindM (simulate_with_restore env lib src op) (\<lambda>(tx, sim, deadline).
     bindM (wrapM (\<lambda>e. Errorf ''failed to assemble transaction: %w'' [AErr e]) (dep_assembleTransaction env lib tx sim deadline)) (\<lambda>assembledTx.
     bindM (sign_and_send env lib ''failed to sign transaction: %w'' ''failed to get signed transaction XDR: %w''
              ''failed to submit transaction: %w'' [] assembledTx) (\<lambda>hash.
     waitForTransaction env lib hash deadline)))"

section \<open>Results of a transaction\<close>

text \<open>The return value as \<open>extractWASMHash\<close> and \<open>extractContractID\<close> read it: in version 4 it is a
  pointer that is used without a check.\<close>

definition meta_return :: "TransactionMeta option \<Rightarrow> ScVal option result" where
  "meta_return meta =
     (case meta of
        None \<Rightarrow> Err (New ''nil transaction meta'')
      | Some (MetaV4 None) \<Rightarrow> Err (New ''no soroban meta'')
      | Some (MetaV4 (Some returnVal)) \<Rightarrow> Ok returnVal
      | Some (MetaV3 None) \<Rightarrow> Err (New ''no soroban meta'')
      | Some (MetaV3 (Some returnVal)) \<Rightarrow> Ok (Some returnVal)
      | Some (MetaOther v) \<Rightarrow> Err (Errorf ''unsupported version: %d'' [AInt v]))"

definition extractWASMHash :: "TransactionMeta option \<Rightarrow> bytes result" where
  "extractWASMHash meta =
     bind_r (meta_return meta) (\<lambda>p.
     bind_r (deref p) (\<lambda>returnVal.
     case returnVal of
       ScvBytes q \<Rightarrow> bind_r (deref q) (\<lambda>b. Ok (copy32 b))
     | _ \<Rightarrow> Err (New ''return value is not bytes'')))"

definition extractContractID :: "sdk \<Rightarrow> TransactionMeta option \<Rightarrow> string result" where
  "extractContractID lib meta =
     bind_r (meta_return meta) (\<lambda>p.
     bind_r (deref p) (\<lambda>returnVal.
     case returnVal of
       ScvAddress q \<Rightarrow>
         bind_r (deref q) (\<lambda>addr.
         case addr of
           ScAddressContract c \<Rightarrow> bind_r (deref c) (\<lambda>contractID. strkey_Encode lib VersionByteContract contractID)
         | _ \<Rightarrow> Err (New ''address is not contract type''))
     | _ \<Rightarrow> Err (New ''return value is not address'')))"

definition extractReturnValue :: "TransactionMeta option \<Rightarrow> ScVal option result" where
  "extractReturnValue meta =
     (case meta of
        None \<Rightarrow> Ok None
      | Some (MetaV4 None) \<Rightarrow> Ok None
      | Some (MetaV4 (Some returnVal)) \<Rightarrow> Ok returnVal
      | Some (MetaV3 None) \<Rightarrow> Ok None
      | Some (MetaV3 (Some returnVal)) \<Rightarrow> Ok (Some returnVal)
      | Some (MetaOther v) \<Rightarrow> Err (Errorf ''unsupported transaction meta version: %d'' [AInt v]))"

definition getResultXDR :: "SimulateResult \<Rightarrow> string option" where
  "getResultXDR result =
     (case simr_ReturnValueXDR result of
        Some x \<Rightarrow> if x \<noteq> [] then Some x else None
      | None \<Rightarrow> None)"

section \<open>Contracts\<close>

definition host_op :: "HostFunction \<Rightarrow> string \<Rightarrow> Operation" where
  "host_op hostFn source =
     OpInvokeHostFunction \<lparr>ihf_HostFunction = hostFn, ihf_Auth = [], ihf_SourceAccount = source, ihf_Ext = None\<rparr>"

definition SignerAddress :: "string dep" where
  "SignerAddress = dreads (\<lambda>d. sg_Address (dep_signer d))"

definition uploadWASM :: "denv \<Rightarrow> sdk \<Rightarrow> bytes \<Rightarrow> bytes dep" where
  "uploadWASM env lib wasmBytes =
     bindM (wrapM (\<lambda>e. Errorf ''failed to get source account: %w'' [AErr e]) (getSourceAccount env lib)) (\<lambda>sourceAccount.
     bindM SignerAddress (\<lambda>self.
     bindM (buildAndSubmitTransaction env lib sourceAccount (host_op (HostFunctionUploadContractWasm wasmBytes) self)) (\<lambda>resultMeta.
     wrapM (\<lambda>e. Errorf ''failed to extract WASM hash: %w'' [AErr e]) (liftM (extractWASMHash (Some resultMeta))))))"

definition createContractInstance :: "denv \<Rightarrow> sdk \<Rightarrow> bytes \<Rightarrow> bytes \<Rightarrow> string dep" where
  "createContractInstance env lib wasmHash salt =
     bindM (wrapM (\<lambda>e. Errorf ''failed to get source account: %w'' [AErr e]) (getSourceAccount env lib)) (\<lambda>sourceAccount.
     bindM SignerAddress (\<lambda>self.
     bindM (wrapM (\<lambda>e. Errorf ''failed to decode public key: %w'' [AErr e])
              (liftM (strkey_Decode lib VersionByteAccountID self))) (\<lambda>pubKeyBytes.
     bindM (buildAndSubmitTransaction env lib sourceAccount
              (host_op (HostFunctionCreateContract
                  (PreimageFromAddress (ScAddressAccount (Some (Ed25519 (Some (copy32 pubKeyBytes))))) salt)
                  (ExecutableWasm (Some wasmHash))) self)) (\<lambda>resultMeta.
     wrapM (\<lambda>e. Errorf ''failed to extract contract ID: %w'' [AErr e]) (liftM (extractContractID lib (Some resultMeta)))))))"

definition DeployContractBytes :: "denv \<Rightarrow> sdk \<Rightarrow> bytes \<Rightarrow> bytes \<Rightarrow> string dep" where
  "DeployContractBytes env lib wasmBytes salt =
     bindM (wrapM (\<lambda>e. Errorf ''failed to upload WASM: %w'' [AErr e]) (uploadWASM env lib wasmBytes)) (\<lambda>wasmHash.
     wrapM (\<lambda>e. Errorf ''failed to create contract instance: %w'' [AErr e]) (createContractInstance env lib wasmHash salt))"

text \<open>\<open>readFile\<close> is what the file at the path holds, or the error of reading it.\<close>

definition DeployContract :: "denv \<Rightarrow> sdk \<Rightarrow> (string \<Rightarrow> bytes result) \<Rightarrow> string \<Rightarrow> bytes \<Rightarrow> string dep" where
  "DeployContract env lib readFile wasmPath salt =
     bindM (wrapM (\<lambda>e. Errorf ''failed to read WASM file: %w'' [AErr e]) (liftM (readFile wasmPath))) (\<lambda>wasmBytes.
     DeployContractBytes env lib wasmBytes salt)"

definition contract_address :: "sdk \<Rightarrow> string \<Rightarrow> ScAddress result" where
  "contract_address lib contractID =
     bind_r (wrap_err (\<lambda>e. Errorf ''failed to decode contract ID: %w'' [AErr e])
               (strkey_Decode lib VersionByteContract contractID)) (\<lambda>contractBytes.
     case BuildContractScAddress lib contractBytes of
       None \<Rightarrow> Err (New ''failed to build contract address'')
     | Some contractAddr \<Rightarrow> Ok contractAddr)"

definition InvokeContract :: "denv \<Rightarrow> sdk \<Rightarrow> string \<Rightarrow> string \<Rightarrow> ScVal list \<Rightarrow> ScVal option dep" where
  "InvokeContract env lib contractID functionName args =
     bindM (wrapM (\<lambda>e. Errorf ''failed to get source account: %w'' [AErr e]) (getSourceAccount env lib)) (\<lambda>sourceAccount.
     bindM (liftM (contract_address lib contractID)) (\<lambda>contractAddr.
     bindM SignerAddress (\<lambda>self.
     bindM (buildAndSubmitTransaction env lib sourceAccount
              (host_op (HostFunctionInvokeContract contractAddr functionName args) self)) (\<lambda>resultMeta.
     wrapM (\<lambda>e. Errorf ''failed to extract return value: %w'' [AErr e]) (liftM (extractReturnValue (Some resultMeta)))))))"

definition SimulateContract :: "denv \<Rightarrow> sdk \<Rightarrow> string \<Rightarrow> string \<Rightarrow> ScVal list \<Rightarrow> ScVal option dep" where
  "SimulateContract env lib contractID functionName args =
     bindM (liftM (contract_address lib contractID)) (\<lambda>contractAddr.
     bindM (wrapM (\<lambda>e. Errorf ''failed to get source account: %w'' [AErr e]) (getSourceAccount env lib)) (\<lambda>sourceAccount.
     bindM SignerAddress (\<lambda>self.
     bindM (simulate_with_restore env lib sourceAccount
              (host_op (HostFunctionInvokeContract contractAddr functionName args) self)) (\<lambda>(tx, sim, deadline).
     case sim_Results sim of
       [] \<Rightarrow> okM None
     | result # _ \<Rightarrow>
         (case getResultXDR result of
            None \<Rightarrow> okM None
          | Some resultXDR \<Rightarrow>
              bindM (wrapM (\<lambda>e. Errorf ''failed to decode result: %w'' [AErr e]) (liftM (unb64_ScVal lib resultXDR))) (\<lambda>scVal.
              okM (Some scVal)))))))"

definition GetEvents :: "denv \<Rightarrow> string \<Rightarrow> int \<Rightarrow> string list \<Rightarrow> EventInfo list dep" where
  "GetEvents env contractID startLedger topics =
     (let topicFilter = map (\<lambda>topic. \<lparr>sf_Wildcard = None, sf_ScVal = SymbolToScValPtr topic\<rparr>) topics @
            [\<lparr>sf_Wildcard = Some WildCardZeroOrMore, sf_ScVal = None\<rparr>] in
      bindM (wrapM (\<lambda>e. Errorf ''failed to get events: %w'' [AErr e])
        (dask (\<lambda>i. dGetEvents_at env i
          \<lparr>ge_StartLedger = startLedger, ge_EndLedger = 0,
           ge_Filters = [\<lparr>ef_EventType = Some [EventTypeContract], ef_ContractIDs = [contractID], ef_Topics = [topicFilter]\<rparr>],
           ge_Format = [], ge_Pagination = None\<rparr>))) (\<lambda>resp. okM (ger_Events resp)))"

section \<open>Accounts, payments and asset contracts\<close>

text \<open>The result: balance, sequence number and whether the account exists.\<close>

definition NativeAccountState :: "denv \<Rightarrow> sdk \<Rightarrow> bytes \<Rightarrow> (int \<times> int \<times> bool) dep" where
  "NativeAccountState env lib rawAccountKey =
     (if length rawAccountKey \<noteq> 32
      then failM (Errorf ''expected 32-byte account key, got %d'' [AInt (int (length rawAccountKey))])
      else
        bindM (wrapM (\<lambda>e. Errorf ''encode account id: %w'' [AErr e])
                 (liftM (strkey_Encode lib VersionByteAccountID rawAccountKey))) (\<lambda>gAddr.
        bindM (wrapM (\<lambda>e. Errorf ''account id from address: %w'' [AErr e]) (liftM (AddressToAccountId lib gAddr))) (\<lambda>aid.
        bindM (wrapM (\<lambda>e. Errorf ''marshal account ledger key: %w'' [AErr e]) (liftM (marshal_AccountKey lib aid))) (\<lambda>keyXDR.
        bindM (wrapM (\<lambda>e. Errorf ''get ledger entries: %w'' [AErr e]) (dask (\<lambda>i. dGetLedgerEntries_at env i [keyXDR]))) (\<lambda>entries.
        case entries of
          [] \<Rightarrow> okM (0, 0, False)
        | first # _ \<Rightarrow>
            (case getLedgerEntryXDR first of
               None \<Rightarrow> okM (0, 0, False)
             | Some entryXDR \<Rightarrow>
                 bindM (wrapM (\<lambda>e. Errorf ''unmarshal account entry: %w'' [AErr e])
                          (liftM (unb64_LedgerEntryData lib entryXDR))) (\<lambda>entry.
                 case entry of
                   LedgerEntryAccount seqN balance \<Rightarrow>
                     if seqN < 0 then failM (Errorf ''invalid account sequence %d'' [AInt seqN])
                     else okM (balance, seqN, True)
                 | _ \<Rightarrow> liftM (Panic ''MustAccount''))))))))"

definition SubmitClassicOperation :: "denv \<Rightarrow> sdk \<Rightarrow> Operation \<Rightarrow> unit dep" where
  "SubmitClassicOperation env lib op =
     bindM (wrapM (\<lambda>e. Errorf ''load source account: %w'' [AErr e]) (getSourceAccount env lib)) (\<lambda>src.
     bindM (deadline_now env) (\<lambda>txnDeadline.
     bindM (wrapM (\<lambda>e. Errorf ''build transaction: %w'' [AErr e])
              (liftM (NewTransaction lib (tx_params src [op] MinBaseFee txnDeadline)))) (\<lambda>tx.
     bindM (sign_and_send env lib ''sign transaction: %w'' ''encode signed transaction: %w''
              ''submit transaction: %w'' [] tx) (\<lambda>hash.
     bindM (waitForTransaction env lib hash txnDeadline) (\<lambda>_. okM ())))))"

text \<open>SHA-256 and the XDR text of a \<open>HashIdPreimage\<close> of a contract are not part of the repository.\<close>

record hashing =
  Sum256 :: "bytes \<Rightarrow> bytes"
  marshal_ContractIdPreimage :: "bytes \<Rightarrow> ContractIdPreimage \<Rightarrow> bytes result"

definition ComputeSACContractID :: "hashing \<Rightarrow> sdk \<Rightarrow> string \<Rightarrow> string \<Rightarrow> string result" where
  "ComputeSACContractID hs lib networkPassphrase asset =
     (let networkID = Sum256 hs (map char_byte networkPassphrase) in
      bind_r (wrap_err (\<lambda>e. Errorf ''marshal preimage: %w'' [AErr e])
                (marshal_ContractIdPreimage hs networkID (PreimageFromAsset asset))) (\<lambda>b.
      strkey_Encode lib VersionByteContract (Sum256 hs b)))"

definition DeploySACToken :: "denv \<Rightarrow> hashing \<Rightarrow> sdk \<Rightarrow> string \<Rightarrow> string dep" where
  "DeploySACToken env hs lib asset =
     bindM (wrapM (\<lambda>e. Errorf ''load source account: %w'' [AErr e]) (getSourceAccount env lib)) (\<lambda>src.
     bindM SignerAddress (\<lambda>self.
     bindM (wrapM (\<lambda>e. Errorf ''deploy SAC: %w'' [AErr e])
              (buildAndSubmitTransaction env lib src
                 (host_op (HostFunctionCreateContract (PreimageFromAsset asset) ExecutableStellarAsset) self))) (\<lambda>_.
     bindM (dreads dep_networkPassphrase) (\<lambda>networkPassphrase.
     wrapM (\<lambda>e. Errorf ''compute SAC contract ID: %w'' [AErr e]) (liftM (ComputeSACContractID hs lib networkPassphrase asset))))))"

definition GenerateDeterministicSalt :: "hashing \<Rightarrow> string \<Rightarrow> string \<Rightarrow> bytes" where
  "GenerateDeterministicSalt hs deployerAddress contractName =
     Sum256 hs (map char_byte (deployerAddress @ ''-'' @ contractName))"

definition SendNativePayment :: "denv \<Rightarrow> sdk \<Rightarrow> string \<Rightarrow> int \<Rightarrow> unit dep" where
  "SendNativePayment env lib destinationStrkey stroops =
     (if stroops \<le> 0 then failM (New ''payment amount must be positive'')
      else
        bindM (wrapM (\<lambda>e. Errorf ''invalid destination account: %w'' [AErr e]) (liftM (AddressToAccountId lib destinationStrkey))) (\<lambda>_.
        bindM (wrapM (\<lambda>e. Errorf ''load source account: %w'' [AErr e]) (getSourceAccount env lib)) (\<lambda>src.
        bindM (buildAndSubmitTransaction env lib src (OpPayment destinationStrkey (show_int stroops))) (\<lambda>_. okM ()))))"

end
