(* ===== verification/Deployer_Runs.thy ===== *)
theory Deployer_Runs
  imports Deployer
begin

text \<open>
  What the deployer puts on the network. An action is followed from the state it starts in to
  the state it ends in: \<open>along R m\<close> says that every run of \<open>m\<close> relates the two by \<open>R\<close>. The locale
  \<open>dep_relation\<close> has the relations that hold along every action but a submission,
  \<open>dep_sending\<close> those that hold along a submission too. Their instances say that the
  configuration never changes and the list of submitted transactions only grows, and the
  properties follow a submission from the simulated operation to the confirmed result.
\<close>

section \<open>Runs of an action\<close>

lemma run_okM [simp]: "run_state (okM x) d = (Ok x, d)"
  by (simp add: okM_def)

lemma run_failM [simp]: "run_state (failM e) d = (Err e, d)"
  by (simp add: failM_def)

lemma run_liftM [simp]: "run_state (liftM r) d = (r, d)"
  by (simp add: liftM_def)

lemma run_dask [simp]: "run_state (dask f) d = (f (dep_clock d), d\<lparr>dep_clock := Suc (dep_clock d)\<rparr>)"
  by (simp add: dask_def)

lemma run_dreads [simp]: "run_state (dreads f) d = (Ok (f d), d)"
  by (simp add: dreads_def)

lemma run_setSequence [simp]: "run_state (setSequence n) d = (Ok (), d\<lparr>dep_accountSequence := n\<rparr>)"
  by (simp add: setSequence_def)

lemma run_send [simp]: "run_state (send env tx x) d =
    (dSend_at env (dep_clock d) x, d\<lparr>dep_clock := Suc (dep_clock d), dep_sent := dep_sent d @ [tx]\<rparr>)"
  by (simp add: send_def)

lemma run_wrapM [simp]: "run_state (wrapM g m) d = (wrap_err g (fst (run_state m d)), snd (run_state m d))"
  by (simp add: wrapM_def split: prod.splits)

lemma run_bindM:
  "run_state (bindM m f) d =
     (case run_state m d of
        (Ok x, d1) \<Rightarrow> run_state (f x) d1
      | (Err e, d1) \<Rightarrow> (Err e, d1)
      | (Panic q, d1) \<Rightarrow> (Panic q, d1))"
  by (simp add: bindM_def split: prod.splits result.splits)

text \<open>A run that returns: every step of it returned.\<close>

lemma bindM_Ok:
  assumes "run_state (bindM m f) d = (Ok y, d')"
  obtains x d1 where "run_state m d = (Ok x, d1)" and "run_state (f x) d1 = (Ok y, d')"
  using assms by (auto simp: run_bindM split: prod.splits result.splits)

lemma wrapM_Ok:
  assumes "run_state (wrapM g m) d = (Ok y, d')"
  obtains "run_state m d = (Ok y, d')"
  using assms by (cases "run_state m d"; cases "fst (run_state m d)") auto

definition along :: "(Deployer \<Rightarrow> Deployer \<Rightarrow> bool) \<Rightarrow> 'a dep \<Rightarrow> bool" where
  "along R m \<longleftrightarrow> (\<forall>d. R d (snd (run_state m d)))"

lemma alongD: "along R m \<Longrightarrow> run_state m d = (r, d') \<Longrightarrow> R d d'"
  unfolding along_def by (metis snd_conv)

section \<open>Relations along every action\<close>

locale dep_relation =
  fixes R :: "Deployer \<Rightarrow> Deployer \<Rightarrow> bool"
  assumes refl: "R d d"
    and trans: "R a b \<Longrightarrow> R b c \<Longrightarrow> R a c"
    and clock: "R d (d\<lparr>dep_clock := Suc (dep_clock d)\<rparr>)"
    and sequence: "R d (d\<lparr>dep_accountSequence := k\<rparr>)"
begin

lemma along_basic: "along R (okM x)" "along R (failM e)" "along R (liftM r)" "along R (dask f)" "along R (dreads h)"
  "along R (setSequence k)"
  by (simp_all add: along_def refl clock sequence)

lemma along_bindM:
  assumes "along R m" and "\<And>x. along R (f x)"
  shows "along R (bindM m f)"
  unfolding along_def
proof
  fix d
  obtain r d1 where m: "run_state m d = (r, d1)" by (cases "run_state m d")
  have "R d d1" using alongD [OF assms(1) m] .
  moreover have "R d1 (snd (run_state (f x) d1))" for x
    using assms(2) [of x] by (simp add: along_def)
  ultimately show "R d (snd (run_state (bindM m f) d))"
    by (cases r) (auto simp: run_bindM m intro: trans)
qed

lemma along_wrapM: "along R m \<Longrightarrow> along R (wrapM g m)"
  by (simp add: along_def)

lemma along_if: "(b \<Longrightarrow> along R m) \<Longrightarrow> (\<not> b \<Longrightarrow> along R n) \<Longrightarrow> along R (if b then m else n)"
  by simp

lemma along_let: "along R (f x) \<Longrightarrow> along R (let y = x in f y)"
  by simp

lemmas along_intros = along_basic along_bindM along_wrapM along_if along_let

lemma along_getSourceAccount: "along R (getSourceAccount env lib)"
  unfolding getSourceAccount_def
  by (intro along_intros) (auto split: list.splits option.splits LedgerEntryData.splits intro!: along_intros)

lemma along_wait_loop: "along R (wait_loop n env lib hash)"
  by (induction n) (auto simp: split: wait_event.splits option.splits GetStatus.splits intro!: along_intros)

lemma along_waitForTransaction: "along R (waitForTransaction env lib hash deadline)"
  unfolding waitForTransaction_def by (intro along_intros along_wait_loop)

lemma along_deadline_now: "along R (deadline_now env)"
  unfolding deadline_now_def by (intro along_intros)

lemma along_build_and_simulate: "along R (build_and_simulate env lib msg suffix src op deadline)"
  unfolding build_and_simulate_def by (intro along_intros)

lemma along_assemble: "along R (dep_assembleTransaction env lib tx sim deadline)"
  unfolding dep_assembleTransaction_def by (intro along_intros along_getSourceAccount)

lemmas along_parts = along_getSourceAccount along_waitForTransaction along_deadline_now along_build_and_simulate along_assemble

end

locale dep_sending = dep_relation +
  assumes sending: "R d (d\<lparr>dep_clock := Suc (dep_clock d), dep_sent := dep_sent d @ [tx]\<rparr>)"
begin

lemma along_sign_and_send: "along R (sign_and_send env lib a b c kind tx)"
  unfolding sign_and_send_def
  by (intro along_intros) (simp add: along_def sending)

lemma along_restoreFootprint: "along R (restoreFootprint env lib preamble)"
  unfolding restoreFootprint_def by (intro along_intros along_parts along_sign_and_send)

lemma along_simulate_again: "along R (simulate_again env lib op)"
  unfolding simulate_again_def
  by (intro along_intros along_parts) (auto split: prod.splits intro!: along_intros)

lemma along_simulate_with_restore: "along R (simulate_with_restore env lib src op)"
  unfolding simulate_with_restore_def
  by (intro along_intros along_parts)
    (auto split: prod.splits option.splits intro!: along_intros along_restoreFootprint along_simulate_again)

lemma along_submit: "along R (buildAndSubmitTransaction env lib src op)"
  unfolding buildAndSubmitTransaction_def
  by (intro along_intros along_simulate_with_restore)
    (auto split: prod.splits intro!: along_intros along_parts along_sign_and_send)

lemma along_InvokeContract: "along R (InvokeContract env lib contractID functionName args)"
  unfolding InvokeContract_def SignerAddress_def by (intro along_intros along_parts along_submit)

lemma along_SimulateContract: "along R (SimulateContract env lib contractID functionName args)"
  unfolding SimulateContract_def SignerAddress_def
  by (intro along_intros along_parts along_simulate_with_restore)
    (auto split: prod.splits list.splits option.splits intro!: along_intros)

lemma along_uploadWASM: "along R (uploadWASM env lib wasm)"
  unfolding uploadWASM_def SignerAddress_def by (intro along_intros along_parts along_submit)

lemma along_createContractInstance: "along R (createContractInstance env lib h salt)"
  unfolding createContractInstance_def SignerAddress_def by (intro along_intros along_parts along_submit)

end

text \<open>The configuration of a deployer.\<close>

definition same_config :: "Deployer \<Rightarrow> Deployer \<Rightarrow> bool" where
  "same_config d d' \<longleftrightarrow>
     dep_networkPassphrase d' = dep_networkPassphrase d \<and> dep_signer d' = dep_signer d \<and>
     dep_autoRestore d' = dep_autoRestore d \<and> dep_feeBumpFactor d' = dep_feeBumpFactor d \<and>
     dep_txnTimeBound d' = dep_txnTimeBound d"

definition quiet :: "Deployer \<Rightarrow> Deployer \<Rightarrow> bool" where
  "quiet d d' \<longleftrightarrow> same_config d d' \<and> dep_sent d' = dep_sent d"

interpretation qu: dep_relation quiet
  by unfold_locales (auto simp: quiet_def same_config_def)

interpretation cf: dep_sending same_config
  by unfold_locales (auto simp: same_config_def)

definition later :: "Deployer \<Rightarrow> Deployer \<Rightarrow> bool" where
  "later d d' \<longleftrightarrow> dep_clock d \<le> dep_clock d'"

interpretation lt: dep_sending later
  by unfold_locales (auto simp: later_def)

lemma quiet_fields:
  assumes "quiet d d'"
  shows "dep_sent d' = dep_sent d" "dep_signer d' = dep_signer d" "dep_networkPassphrase d' = dep_networkPassphrase d"
    "dep_autoRestore d' = dep_autoRestore d" "dep_feeBumpFactor d' = dep_feeBumpFactor d" "same_config d d'"
  using assms by (auto simp: quiet_def same_config_def)

section \<open>Triples\<close>

text \<open>\<open>valid P m Q E\<close>: started in a state with \<open>P\<close>, the action returns a value with \<open>Q\<close>, or fails in a
  state with \<open>E\<close>.\<close>

definition valid :: "(Deployer \<Rightarrow> bool) \<Rightarrow> 'a dep \<Rightarrow> ('a \<Rightarrow> Deployer \<Rightarrow> bool) \<Rightarrow> (Deployer \<Rightarrow> bool) \<Rightarrow> bool" where
  "valid P m Q E \<longleftrightarrow> (\<forall>d r d'. P d \<longrightarrow> run_state m d = (r, d') \<longrightarrow> (case r of Ok x \<Rightarrow> Q x d' | _ \<Rightarrow> E d'))"

lemma validI: "(\<And>d r d'. P d \<Longrightarrow> run_state m d = (r, d') \<Longrightarrow> case r of Ok x \<Rightarrow> Q x d' | _ \<Rightarrow> E d') \<Longrightarrow> valid P m Q E"
  by (simp add: valid_def)

lemma validD: "valid P m Q E \<Longrightarrow> P d \<Longrightarrow> run_state m d = (r, d') \<Longrightarrow> case r of Ok x \<Rightarrow> Q x d' | _ \<Rightarrow> E d'"
  by (auto simp: valid_def)

lemma valid_bind:
  assumes "valid P m R E" and "\<And>x. valid (R x) (f x) Q E"
  shows "valid P (bindM m f) Q E"
proof (rule validI)
  fix d r d' assume P: "P d" and run: "run_state (bindM m f) d = (r, d')"
  obtain r1 d1 where m: "run_state m d = (r1, d1)" by (cases "run_state m d")
  show "case r of Ok x \<Rightarrow> Q x d' | _ \<Rightarrow> E d'"
    using validD [OF assms(1) P m] validD [OF assms(2)] run by (cases r1) (auto simp: run_bindM m)
qed

lemma valid_wrap: "valid P m Q E \<Longrightarrow> valid P (wrapM g m) Q E"
proof (rule validI)
  fix d r d' assume "valid P m Q E" and "P d" and run: "run_state (wrapM g m) d = (r, d')"
  then show "case r of Ok x \<Rightarrow> Q x d' | _ \<Rightarrow> E d'"
    using validD [of P m Q E d] by (cases "run_state m d"; cases "fst (run_state m d)") auto
qed

lemma valid_okM: "(\<And>d. P d \<Longrightarrow> Q x d) \<Longrightarrow> valid P (okM x) Q E"
  by (auto simp: valid_def)

lemma valid_failM: "(\<And>d. P d \<Longrightarrow> E d) \<Longrightarrow> valid P (failM e) Q E"
  by (auto simp: valid_def)

lemma valid_if: "(b \<Longrightarrow> valid P m Q E) \<Longrightarrow> (\<not> b \<Longrightarrow> valid P n Q E) \<Longrightarrow> valid P (if b then m else n) Q E"
  by simp

lemma valid_post: "valid P m R F \<Longrightarrow> (\<And>x d. R x d \<Longrightarrow> Q x d) \<Longrightarrow> (\<And>d. F d \<Longrightarrow> E d) \<Longrightarrow> valid P m Q E"
  unfolding valid_def by (fastforce split: result.splits)

lemma valid_pre: "valid P m Q E \<Longrightarrow> (\<And>d. P' d \<Longrightarrow> P d) \<Longrightarrow> valid P' m Q E"
  by (auto simp: valid_def)

lemma valid_lift: "(\<And>d. P d \<Longrightarrow> E d) \<Longrightarrow> valid P (liftM res) (\<lambda>x d. P d \<and> res = Ok x) E"
  by (auto simp: valid_def split: result.splits)

lemma valid_dreads: "valid P (dreads f) (\<lambda>x d. P d \<and> x = f d) E"
  by (auto simp: valid_def)

lemma valid_conj_pure: "(b \<Longrightarrow> valid P m Q E) \<Longrightarrow> valid (\<lambda>d. P d \<and> b) m Q E"
  by (auto simp: valid_def)

text \<open>Predicates that no action but a submission changes.\<close>

definition stable :: "(Deployer \<Rightarrow> bool) \<Rightarrow> bool" where
  "stable P \<longleftrightarrow> (\<forall>d d'. P d \<longrightarrow> quiet d d' \<longrightarrow> P d')"

lemma valid_quiet: "along quiet m \<Longrightarrow> stable P \<Longrightarrow> (\<And>d. P d \<Longrightarrow> E d) \<Longrightarrow> valid P m (\<lambda>_. P) E"
  by (rule validI) (auto simp: stable_def split: result.splits dest: alongD)

text \<open>The deployer \<open>d0\<close> after it submitted \<open>txs\<close>.\<close>

definition after :: "Deployer \<Rightarrow> Transaction list \<Rightarrow> Deployer \<Rightarrow> bool" where
  "after d0 txs d \<longleftrightarrow> same_config d0 d \<and> dep_sent d = dep_sent d0 @ txs"

lemma stable_after: "stable (after d0 txs)"
  by (auto simp: stable_def after_def quiet_def same_config_def)

lemma after_refl: "after d [] d"
  by (simp add: after_def cf.refl)

section \<open>One submission\<close>

text \<open>A transaction of the deployer's own account, signed by it for its network.\<close>

definition own_tx :: "Deployer \<Rightarrow> Operation list \<Rightarrow> Transaction \<Rightarrow> bool" where
  "own_tx d ops tx \<longleftrightarrow>
     (\<exists>t. sg_SignTransaction (dep_signer d) (dep_networkPassphrase d) t = Ok tx \<and>
          t_AccountID t = sg_Address (dep_signer d) \<and> t_Operations t = ops)"

lemma own_tx_cong: "same_config d d' \<Longrightarrow> own_tx d' ops tx = own_tx d ops tx"
  by (simp add: own_tx_def same_config_def)

text \<open>The node answered a query at call \<open>n\<close> or later with success and this result.\<close>

definition success_after :: "denv \<Rightarrow> sdk \<Rightarrow> string \<Rightarrow> nat \<Rightarrow> TransactionMeta \<Rightarrow> bool" where
  "success_after env lib hash n meta \<longleftrightarrow>
     (\<exists>j got. n \<le> j \<and> dGetTransaction_at env j hash = Ok got \<and> get_Status got = StatusSuccess \<and>
        unb64_TransactionMeta lib (get_ResultMetaXDR got) = Ok meta)"

lemma success_after_mono: "success_after env lib hash n meta \<Longrightarrow> k \<le> n \<Longrightarrow> success_after env lib hash k meta"
  unfolding success_after_def by (meson order_trans)

text \<open>The node accepted the transaction at call \<open>i\<close> and answered it with success at a later call.\<close>

definition confirmed :: "denv \<Rightarrow> sdk \<Rightarrow> Transaction \<Rightarrow> TransactionMeta \<Rightarrow> bool" where
  "confirmed env lib tx meta \<longleftrightarrow>
     (\<exists>i x resp. tx_Base64 lib tx = Ok x \<and> dSend_at env i x = Ok resp \<and>
        (send_Status resp = TXStatusPending \<or> send_Status resp = TXStatusDuplicate) \<and>
        success_after env lib (send_Hash resp) (Suc i) meta)"

lemma getSourceAccount_Ok:
  assumes "run_state (getSourceAccount env lib) d = (Ok src, d')"
  shows "fst src = sg_Address (dep_signer d)"
  using assms unfolding getSourceAccount_def by (auto elim!: bindM_Ok)

lemma wait_loop_Ok:
  assumes "run_state (wait_loop n env lib hash) d = (Ok meta, d')"
  shows "success_after env lib hash (dep_clock d) meta"
  using assms
proof (induction n arbitrary: d)
  case 0
  then show ?case by simp
next
  case (Suc n)
  note step = Suc.prems [unfolded wait_loop.simps]
  from step obtain ev d1 where ev: "dselect_at env (dep_clock d) = ev" "d1 = d\<lparr>dep_clock := Suc (dep_clock d)\<rparr>"
    by simp
  have tick: "ev = TickerFired" using step ev by (cases ev) (auto simp: run_bindM)
  let ?d2 = "d\<lparr>dep_clock := Suc (Suc (dep_clock d))\<rparr>"
  note run = step [unfolded run_bindM, simplified, unfolded ev(1) tick, simplified, unfolded run_bindM, simplified]
  have again: "run_state (wait_loop n env lib hash) ?d2 = (Ok meta, d') \<Longrightarrow> ?case"
    using Suc.IH [of ?d2] by (auto intro: success_after_mono)
  show ?case
  proof (cases "dGetTransaction_at env (Suc (dep_clock d)) hash")
    case (Ok got)
    show ?thesis
    proof (cases "get_Status got")
      case StatusSuccess
      then have "unb64_TransactionMeta lib (get_ResultMetaXDR got) = Ok meta"
        using run Ok by (cases "unb64_TransactionMeta lib (get_ResultMetaXDR got)") (auto split: if_splits)
      then show ?thesis using Ok StatusSuccess unfolding success_after_def by (intro exI [of _ "Suc (dep_clock d)"]) auto
    qed (use run Ok again in auto)
  qed (use run again in auto)
qed

lemma waitForTransaction_Ok:
  assumes "run_state (waitForTransaction env lib hash deadline) d = (Ok meta, d')"
  shows "success_after env lib hash (dep_clock d) meta"
  using assms unfolding waitForTransaction_def Let_def
  by (auto elim!: bindM_Ok split: if_splits dest!: wait_loop_Ok) (erule success_after_mono, simp)

lemma sign_and_send_run:
  assumes "run_state (sign_and_send env lib a b c kind tx) d = (r, d')"
  shows "quiet d d' \<and> \<not> is_Ok r \<or>
    (\<exists>stx. sg_SignTransaction (dep_signer d) (dep_networkPassphrase d) tx = Ok stx \<and>
       same_config d d' \<and> dep_sent d' = dep_sent d @ [stx] \<and>
       (\<forall>hash. r = Ok hash \<longrightarrow> (\<forall>meta. success_after env lib hash (dep_clock d') meta \<longrightarrow> confirmed env lib stx meta)))"
proof -
  note run = assms [unfolded sign_and_send_def, symmetric]
  define sg where "sg = sg_SignTransaction (dep_signer d) (dep_networkPassphrase d) tx"
  show ?thesis
  proof (cases sg)
    case (Ok stx)
    show ?thesis
    proof (cases "tx_Base64 lib stx")
      case x: (Ok x)
      obtain reply where reply: "dSend_at env (dep_clock d) x = reply" by simp
      have d': "d' = d\<lparr>dep_clock := Suc (dep_clock d), dep_sent := dep_sent d @ [stx]\<rparr>"
        and r: "r = bind_r (wrap_err (\<lambda>e. Errorf c [AErr e]) reply) (accepted_hash kind)"
        using run Ok x reply by (cases reply; simp add: run_bindM sg_def)+
      have "confirmed env lib stx meta"
        if hash: "r = Ok hash" and got: "success_after env lib hash (dep_clock d') meta" for hash meta
      proof -
        from hash r obtain resp where resp: "reply = Ok resp" "accepted_hash kind resp = Ok hash"
          by (cases reply) auto
        then have "send_Hash resp = hash" "send_Status resp = TXStatusPending \<or> send_Status resp = TXStatusDuplicate"
          by (auto simp: accepted_hash_def split: SubmitStatus.splits if_splits)
        then show ?thesis using x reply resp(1) got d' unfolding confirmed_def by auto
      qed
      then show ?thesis using Ok d' by (auto simp: sg_def same_config_def)
    qed (use run Ok in \<open>simp_all add: run_bindM sg_def qu.refl\<close>)
  qed (use run in \<open>simp_all add: run_bindM sg_def qu.refl\<close>)
qed

text \<open>The rules below follow a deployer that has submitted \<open>txs\<close> since \<open>d0\<close>; \<open>E\<close> is what is left
  when a step fails.\<close>

lemma step_quiet:
  assumes "along quiet m" and "\<And>d. after d0 txs d \<Longrightarrow> E d" and "\<And>x. valid (after d0 txs) (f x) Q E"
  shows "valid (after d0 txs) (bindM m f) Q E"
  by (rule valid_bind [OF valid_quiet [OF assms(1) stable_after assms(2)] assms(3)])

lemma step_lift:
  assumes "\<And>d. P d \<Longrightarrow> E d" and "\<And>x. res = Ok x \<Longrightarrow> valid P (f x) Q E"
  shows "valid P (bindM (liftM res) f) Q E" "valid P (bindM (wrapM g (liftM res)) f) Q E"
  using assms by (auto intro!: valid_bind [OF valid_lift] valid_bind [OF valid_wrap [OF valid_lift]] valid_conj_pure)

lemma step_source:
  assumes "\<And>d. after d0 txs d \<Longrightarrow> E d"
    and "\<And>src. fst src = sg_Address (dep_signer d0) \<Longrightarrow> valid (after d0 txs) (f src) Q E"
  shows "valid (after d0 txs) (bindM (getSourceAccount env lib) f) Q E"
    "valid (after d0 txs) (bindM (wrapM g (getSourceAccount env lib)) f) Q E"
proof -
  have "valid (after d0 txs) (getSourceAccount env lib) (\<lambda>src d. after d0 txs d \<and> fst src = sg_Address (dep_signer d0)) E"
  proof (rule validI)
    fix d r d' assume P: "after d0 txs d" and run: "run_state (getSourceAccount env lib) d = (r, d')"
    have "after d0 txs d'"
      using alongD [OF qu.along_getSourceAccount run] P stable_after unfolding stable_def by blast
    then show "case r of Ok src \<Rightarrow> after d0 txs d' \<and> fst src = sg_Address (dep_signer d0) | _ \<Rightarrow> E d'"
      using assms(1) run P by (cases r) (auto dest!: getSourceAccount_Ok simp: after_def same_config_def)
  qed
  then show "valid (after d0 txs) (bindM (getSourceAccount env lib) f) Q E"
    "valid (after d0 txs) (bindM (wrapM g (getSourceAccount env lib)) f) Q E"
    using assms(2) by (auto intro!: valid_bind valid_wrap valid_conj_pure)
qed

text \<open>A submission, and the wait for its result.\<close>

definition awaiting :: "denv \<Rightarrow> sdk \<Rightarrow> Transaction \<Rightarrow> string \<Rightarrow> Deployer \<Rightarrow> bool" where
  "awaiting env lib stx hash d \<longleftrightarrow>
     (\<forall>meta. success_after env lib hash (dep_clock d) meta \<longrightarrow> confirmed env lib stx meta)"

lemma step_send:
  assumes "\<And>d. after d0 txs d \<Longrightarrow> E d"
    and "\<And>stx d. sg_SignTransaction (dep_signer d0) (dep_networkPassphrase d0) tx = Ok stx \<Longrightarrow> after d0 (txs @ [stx]) d \<Longrightarrow> E d"
    and "\<And>stx hash. sg_SignTransaction (dep_signer d0) (dep_networkPassphrase d0) tx = Ok stx \<Longrightarrow>
           valid (\<lambda>d. after d0 (txs @ [stx]) d \<and> awaiting env lib stx hash d) (f hash) Q E"
  shows "valid (after d0 txs) (bindM (sign_and_send env lib a b c kind tx) f) Q E"
proof (rule valid_bind)
  let ?R = "\<lambda>hash d. \<exists>stx. sg_SignTransaction (dep_signer d0) (dep_networkPassphrase d0) tx = Ok stx \<and>
      after d0 (txs @ [stx]) d \<and> awaiting env lib stx hash d"
  show "valid (after d0 txs) (sign_and_send env lib a b c kind tx) ?R E"
  proof (rule validI)
    fix d r d' assume P: "after d0 txs d" and run: "run_state (sign_and_send env lib a b c kind tx) d = (r, d')"
    have conf: "dep_signer d = dep_signer d0" "dep_networkPassphrase d = dep_networkPassphrase d0"
      using P by (auto simp: after_def same_config_def)
    have tr: "same_config d d' \<Longrightarrow> same_config d0 d'"
      using P cf.trans unfolding after_def by blast
    from sign_and_send_run [OF run] show "case r of Ok hash \<Rightarrow> ?R hash d' | _ \<Rightarrow> E d'"
      using P conf tr assms(1,2) by (cases r) (auto simp: quiet_def after_def awaiting_def)
  qed
  show "valid (?R hash) (f hash) Q E" for hash
    using assms(3) unfolding valid_def by blast
qed

lemma valid_waitForTransaction:
  assumes "\<And>d. after d0 txs d \<Longrightarrow> E d" and "\<And>meta d. confirmed env lib stx meta \<Longrightarrow> after d0 txs d \<Longrightarrow> Q meta d"
  shows "valid (\<lambda>d. after d0 txs d \<and> awaiting env lib stx hash d) (waitForTransaction env lib hash deadline) Q E"
proof (rule validI)
  fix d r d'
  assume P: "after d0 txs d \<and> awaiting env lib stx hash d" and run: "run_state (waitForTransaction env lib hash deadline) d = (r, d')"
  have "after d0 txs d'"
    using alongD [OF qu.along_waitForTransaction run] P stable_after unfolding stable_def by blast
  then show "case r of Ok meta \<Rightarrow> Q meta d' | _ \<Rightarrow> E d'"
    using assms P run by (cases r) (auto dest!: waitForTransaction_Ok simp: awaiting_def)
qed

section \<open>Restoring\<close>

lemma own_txI:
  assumes "txnbuild_laws lib" and "NewTransaction lib (tx_params src ops fee deadline) = Ok tx"
    and "fst src = sg_Address (dep_signer d)"
    and "sg_SignTransaction (dep_signer d) (dep_networkPassphrase d) tx = Ok stx"
  shows "own_tx d ops stx"
  using assms unfolding own_tx_def by (intro exI [of _ tx]) (simp add: txnbuild_laws_def tx_params_def)

text \<open>What a restore may submit: nothing, or one restore operation with decoded Soroban data.\<close>

definition restore_tx :: "sdk \<Rightarrow> Deployer \<Rightarrow> Transaction \<Rightarrow> bool" where
  "restore_tx lib d tx \<longleftrightarrow>
     (\<exists>text data. unb64_SorobanData lib text = Ok data \<and>
        own_tx d [OpRestoreFootprint (sg_Address (dep_signer d)) data] tx)"

definition restore_only :: "sdk \<Rightarrow> Deployer \<Rightarrow> Transaction list \<Rightarrow> bool" where
  "restore_only lib d txs \<longleftrightarrow> txs = [] \<or> dep_autoRestore d \<and> (\<exists>tx. txs = [tx] \<and> restore_tx lib d tx)"

lemma restore_only_Nil [simp]: "restore_only lib d []"
  by (simp add: restore_only_def)

lemma valid_restoreFootprint:
  assumes laws: "txnbuild_laws lib" and auto: "dep_autoRestore d0"
    and E: "\<And>txs d. restore_only lib d0 txs \<Longrightarrow> after d0 txs d \<Longrightarrow> E d"
    and Q: "\<And>txs d. restore_only lib d0 txs \<Longrightarrow> after d0 txs d \<Longrightarrow> Q () d"
  shows "valid (after d0 []) (restoreFootprint env lib preamble) Q E"
proof -
  have one: "restore_only lib d0 [stx]"
    if "unb64_SorobanData lib x = Ok data"
      "NewTransaction lib (tx_params src [OpRestoreFootprint (sg_Address (dep_signer d0)) data] fee deadline) = Ok tx"
      "fst src = sg_Address (dep_signer d0)" "sg_SignTransaction (dep_signer d0) (dep_networkPassphrase d0) tx = Ok stx"
    for x data src fee deadline tx stx
    using own_txI [OF laws that(2,3,4)] that auto by (auto simp: restore_only_def restore_tx_def)
  have none: "after d0 [] d \<Longrightarrow> E d" for d
    by (rule E [of "[]"]) simp_all
  note oneE = E [OF one] and oneQ = Q [OF one]
  show ?thesis
    unfolding restoreFootprint_def
    by (intro step_quiet [OF qu.along_deadline_now] step_quiet [OF qu.along_basic(5)] step_source step_lift step_send
        valid_bind [OF valid_wrap [OF valid_waitForTransaction]] valid_okM)
      ((simp add: none; fail) | (simp, rule oneE oneQ, assumption+))+
qed

section \<open>Simulating, assembling, submitting\<close>

text \<open>The operation with the resources and authorizations of a simulation is the same call.\<close>

definition same_call :: "Operation \<Rightarrow> Operation \<Rightarrow> bool" where
  "same_call op op' \<longleftrightarrow>
     op' = op \<or>
     (\<exists>a b. op = OpInvokeHostFunction a \<and> op' = OpInvokeHostFunction b \<and>
        ihf_HostFunction b = ihf_HostFunction a \<and> ihf_SourceAccount b = ihf_SourceAccount a)"

lemma inject_simulation_same_call:
  assumes "inject_simulation lib sim [op] = Ok ops"
  shows "\<exists>op'. ops = [op'] \<and> same_call op op'"
proof (cases "sim_TransactionDataXDR sim = []")
  case False
  then obtain data where data: "unb64_SorobanData lib (sim_TransactionDataXDR sim) = Ok data"
    using assms by (cases "unb64_SorobanData lib (sim_TransactionDataXDR sim)") (auto simp: inject_simulation_def)
  show ?thesis
  proof (cases op)
    case (OpInvokeHostFunction ihf)
    then have "\<exists>b. ops = [OpInvokeHostFunction b] \<and> ihf_HostFunction b = ihf_HostFunction ihf \<and> ihf_SourceAccount b = ihf_SourceAccount ihf"
      using assms False data by (auto simp: inject_simulation_def split: list.splits option.splits)
    then show ?thesis using OpInvokeHostFunction by (auto simp: same_call_def)
  qed (use assms False data in \<open>auto simp: inject_simulation_def same_call_def\<close>)
qed (use assms in \<open>auto simp: inject_simulation_def same_call_def\<close>)

lemma step_config:
  assumes "\<And>d. same_config d0 d \<Longrightarrow> f d = f d0" and "valid (after d0 txs) (g (f d0)) Q E"
  shows "valid (after d0 txs) (bindM (dreads f) g) Q E"
  using assms unfolding valid_def by (auto simp: run_bindM after_def)

lemma step_build_and_simulate:
  assumes "txnbuild_laws lib" and "\<And>d. after d0 txs d \<Longrightarrow> E d"
    and "\<And>tx sim. t_Operations tx = [op] \<Longrightarrow> t_AccountID tx = fst src \<Longrightarrow> valid (after d0 txs) (f (tx, sim)) Q E"
  shows "valid (after d0 txs) (bindM (build_and_simulate env lib msg suffix src op deadline) f) Q E"
proof (rule valid_bind)
  show "valid (after d0 txs) (build_and_simulate env lib msg suffix src op deadline)
      (\<lambda>(tx, sim) d. after d0 txs d \<and> (t_Operations tx = [op] \<and> t_AccountID tx = fst src)) E"
    unfolding build_and_simulate_def
    by (intro step_lift step_quiet [OF qu.along_wrapM [OF qu.along_basic(4)]])
      (use assms(1,2) in \<open>auto simp: txnbuild_laws_def tx_params_def intro!: valid_failM valid_okM\<close>)
next
  fix x :: "Transaction \<times> SimulateTransactionResponse"
  show "valid (case x of (tx, sim) \<Rightarrow> \<lambda>d. after d0 txs d \<and> (t_Operations tx = [op] \<and> t_AccountID tx = fst src)) (f x) Q E"
    using assms(3) by (cases x) (auto intro!: valid_conj_pure)
qed

text \<open>A transaction that calls the operation from the deployer's account.\<close>

definition built_for :: "Deployer \<Rightarrow> (Operation \<Rightarrow> bool) \<Rightarrow> Transaction \<Rightarrow> bool" where
  "built_for d A tx \<longleftrightarrow> t_AccountID tx = sg_Address (dep_signer d) \<and> (\<exists>op. t_Operations tx = [op] \<and> A op)"

lemma valid_simulate_again:
  assumes laws: "txnbuild_laws lib" and E: "\<And>d. after d0 txs d \<Longrightarrow> E d"
    and Q: "\<And>tx sim deadline d. built_for d0 ((=) op) tx \<Longrightarrow> after d0 txs d \<Longrightarrow> Q (tx, sim, deadline) d"
  shows "valid (after d0 txs) (simulate_again env lib op) Q E"
  unfolding simulate_again_def
  by (intro step_source step_quiet [OF qu.along_deadline_now] step_build_and_simulate [OF laws])
    (use E Q in \<open>auto simp: built_for_def intro!: valid_failM valid_okM\<close>)

lemma valid_simulate_with_restore:
  assumes laws: "txnbuild_laws lib" and src: "fst src = sg_Address (dep_signer d0)"
    and E: "\<And>txs d. restore_only lib d0 txs \<Longrightarrow> after d0 txs d \<Longrightarrow> E d"
    and Q: "\<And>tx sim deadline txs d. built_for d0 ((=) op) tx \<Longrightarrow> restore_only lib d0 txs \<Longrightarrow> after d0 txs d \<Longrightarrow> Q (tx, sim, deadline) d"
  shows "valid (after d0 []) (simulate_with_restore env lib src op) Q E"
proof -
  have none: "after d0 [] d \<Longrightarrow> E d" for d
    by (rule E [of "[]"]) simp_all
  let ?R = "\<lambda>d. \<exists>txs. restore_only lib d0 txs \<and> after d0 txs d"
  have "valid (after d0 txs) (simulate_again env lib op) Q E" if "restore_only lib d0 txs" for txs
    using that by (intro valid_simulate_again [OF laws]) (auto intro: E Q)
  then have again: "valid ?R (simulate_again env lib op) Q E"
    unfolding valid_def by blast
  have restored: "valid (after d0 []) (bindM (wrapM g (restoreFootprint env lib p)) (\<lambda>_. simulate_again env lib op)) Q E"
    if "dep_autoRestore d0" for g p
    by (rule valid_bind [OF valid_wrap [OF valid_restoreFootprint [OF laws that E, where Q = "\<lambda>_. ?R"]] again]) auto
  show ?thesis
    unfolding simulate_with_restore_def
    by (intro step_quiet [OF qu.along_deadline_now] step_build_and_simulate [OF laws])
      (auto simp: none same_config_def built_for_def src split: option.splits intro!: step_config restored valid_okM Q [of _ "[]"])
qed

lemma step_assemble:
  assumes laws: "txnbuild_laws lib" and tx: "built_for d0 ((=) op) tx" and E: "\<And>d. after d0 txs d \<Longrightarrow> E d"
    and rest: "\<And>tx'. built_for d0 (same_call op) tx' \<Longrightarrow> valid (after d0 txs) (f tx') Q E"
  shows "valid (after d0 txs) (bindM (wrapM g (dep_assembleTransaction env lib tx sim deadline)) f) Q E"
proof (rule valid_bind [OF valid_wrap])
  have ops: "t_Operations tx = [op]" using tx by (auto simp: built_for_def)
  have keep: "built_for d0 (same_call op) tx" using tx by (auto simp: built_for_def same_call_def)
  show "valid (after d0 txs) (dep_assembleTransaction env lib tx sim deadline)
      (\<lambda>tx' d. after d0 txs d \<and> built_for d0 (same_call op) tx') E"
    unfolding dep_assembleTransaction_def ops
  proof (simp only: list.distinct if_False, intro step_lift(1) valid_if, goal_cases)
    case (2 ops')
    then obtain op' where op': "ops' = [op']" "same_call op op'" using inject_simulation_same_call by blast
    have "built_for d0 (same_call op) t"
      if "NewTransaction lib (tx_params src ops' fee deadline) = Ok t" "fst src = sg_Address (dep_signer d0)" for src fee t
      using laws that op' by (auto simp: built_for_def txnbuild_laws_def tx_params_def)
    then show ?case
      by (intro step_quiet [OF qu.along_basic(5)] step_source valid_post [OF valid_lift]) (use E in auto)
  next
    case (3 ops')
    show ?case by (rule valid_okM) (simp add: keep)
  qed (rule E)
  show "valid (\<lambda>d. after d0 txs d \<and> built_for d0 (same_call op) tx') (f tx') Q E" for tx'
    by (rule valid_conj_pure) (rule rest)
qed

text \<open>What a call of \<open>buildAndSubmitTransaction\<close> submits at most, and what it has submitted when it
  returns a result.\<close>

definition submission :: "sdk \<Rightarrow> Deployer \<Rightarrow> Operation \<Rightarrow> Transaction list \<Rightarrow> bool" where
  "submission lib d op txs \<longleftrightarrow>
     restore_only lib d txs \<or>
     (\<exists>pre tx op'. txs = pre @ [tx] \<and> restore_only lib d pre \<and> same_call op op' \<and> own_tx d [op'] tx)"

definition submitted :: "denv \<Rightarrow> sdk \<Rightarrow> Deployer \<Rightarrow> Operation \<Rightarrow> Transaction list \<Rightarrow> TransactionMeta \<Rightarrow> bool" where
  "submitted env lib d op txs meta \<longleftrightarrow>
     (\<exists>pre tx op'. txs = pre @ [tx] \<and> restore_only lib d pre \<and> same_call op op' \<and> own_tx d [op'] tx \<and>
        confirmed env lib tx meta)"

lemma submission_cong: "same_config d d' \<Longrightarrow> submission lib d' op txs = submission lib d op txs"
  by (simp add: submission_def restore_only_def restore_tx_def own_tx_def same_config_def)

lemma submitted_cong: "same_config d d' \<Longrightarrow> submitted env lib d' op txs meta = submitted env lib d op txs meta"
  by (simp add: submitted_def restore_only_def restore_tx_def own_tx_def same_config_def)

lemma built_for_own:
  assumes "built_for d A tx" and "sg_SignTransaction (dep_signer d) (dep_networkPassphrase d) tx = Ok stx"
  shows "\<exists>op. A op \<and> own_tx d [op] stx"
  using assms by (auto simp: built_for_def own_tx_def)

lemma valid_submit:
  assumes laws: "txnbuild_laws lib" and src: "fst src = sg_Address (dep_signer d0)"
    and E: "\<And>txs d. submission lib d0 op txs \<Longrightarrow> after d0 txs d \<Longrightarrow> E d"
    and Q: "\<And>meta txs d. submitted env lib d0 op txs meta \<Longrightarrow> after d0 txs d \<Longrightarrow> Q meta d"
  shows "valid (after d0 []) (buildAndSubmitTransaction env lib src op) Q E"
proof -
  let ?send = "\<lambda>tx deadline. bindM (sign_and_send env lib ''failed to sign transaction: %w''
      ''failed to get signed transaction XDR: %w'' ''failed to submit transaction: %w'' [] tx)
      (\<lambda>hash. waitForTransaction env lib hash deadline)"
  have "valid (after d0 pre) (?send tx deadline) Q E"
    if pre: "restore_only lib d0 pre" and tx: "built_for d0 (same_call op) tx" for pre tx deadline
  proof (rule step_send)
    show "E d" if "after d0 pre d" for d
      using E [OF _ that] pre by (simp add: submission_def)
    fix stx assume stx: "sg_SignTransaction (dep_signer d0) (dep_networkPassphrase d0) tx = Ok stx"
    obtain op' where op': "same_call op op'" "own_tx d0 [op'] stx"
      using built_for_own [OF tx stx] by auto
    have sub: "submission lib d0 op (pre @ [stx])"
      using pre op' by (auto simp: submission_def)
    have fin: "submitted env lib d0 op (pre @ [stx]) meta" if "confirmed env lib stx meta" for meta
      using pre op' that by (auto simp: submitted_def)
    show "E d" if "after d0 (pre @ [stx]) d" for d
      by (rule E [OF sub that])
    show "valid (\<lambda>d. after d0 (pre @ [stx]) d \<and> awaiting env lib stx hash d) (waitForTransaction env lib hash deadline) Q E" for hash
      by (rule valid_waitForTransaction) (auto intro: E [OF sub] Q [OF fin])
  qed
  then have "valid (after d0 pre)
      (bindM (wrapM g (dep_assembleTransaction env lib tx sim deadline)) (\<lambda>t. ?send t deadline)) Q E"
    if "restore_only lib d0 pre" "built_for d0 ((=) op) tx" for pre tx sim deadline g
    using that E [of pre] by (intro step_assemble [OF laws]) (auto simp: submission_def)
  note rest = this
  show ?thesis
    unfolding buildAndSubmitTransaction_def
  proof (rule valid_bind)
    show "valid (after d0 []) (simulate_with_restore env lib src op)
        (\<lambda>(tx, sim, deadline) d. built_for d0 ((=) op) tx \<and> (\<exists>pre. restore_only lib d0 pre \<and> after d0 pre d)) E"
      by (rule valid_simulate_with_restore [OF laws src]) (auto intro: E simp: submission_def)
  next
    fix x :: "Transaction \<times> SimulateTransactionResponse \<times> int"
    obtain tx sim deadline where x: "x = (tx, sim, deadline)" by (cases x)
    show "valid (case x of (tx, sim, deadline) \<Rightarrow> \<lambda>d. built_for d0 ((=) op) tx \<and> (\<exists>pre. restore_only lib d0 pre \<and> after d0 pre d))
        (case x of (tx, sim, deadline) \<Rightarrow>
           bindM (wrapM (\<lambda>e. Errorf ''failed to assemble transaction: %w'' [AErr e]) (dep_assembleTransaction env lib tx sim deadline))
             (\<lambda>t. ?send t deadline)) Q E"
      using rest unfolding x valid_def by auto
  qed
qed

text \<open>The same over runs.\<close>

lemma submit_run:
  assumes "txnbuild_laws lib" and "fst src = sg_Address (dep_signer d)"
    and "run_state (buildAndSubmitTransaction env lib src op) d = (r, d')"
  shows "\<exists>txs. after d txs d' \<and> submission lib d op txs \<and> (\<forall>meta. r = Ok meta \<longrightarrow> submitted env lib d op txs meta)"
proof -
  let ?S = "\<lambda>d'. \<exists>txs. after d txs d' \<and> submission lib d op txs"
  let ?T = "\<lambda>meta d'. \<exists>txs. after d txs d' \<and> submission lib d op txs \<and> submitted env lib d op txs meta"
  have "submitted env lib d op txs meta \<Longrightarrow> submission lib d op txs" for txs meta
    by (auto simp: submitted_def submission_def)
  then have "valid (after d []) (buildAndSubmitTransaction env lib src op) ?T ?S"
    by (intro valid_submit [OF assms(1,2)]) blast+
  from validD [OF this after_refl assms(3)] show ?thesis by (cases r) auto
qed

section \<open>Contracts\<close>

text \<open>The source account is the signer's, and reading it submits nothing.\<close>

lemma source_run:
  assumes "run_state (wrapM g (getSourceAccount env lib)) d = (Ok src, d')"
  shows "quiet d d'" "fst src = sg_Address (dep_signer d')"
proof -
  obtain run: "run_state (getSourceAccount env lib) d = (Ok src, d')"
    using assms by (rule wrapM_Ok)
  show q: "quiet d d'" by (rule alongD [OF qu.along_getSourceAccount run])
  show "fst src = sg_Address (dep_signer d')"
    using getSourceAccount_Ok [OF run] q by (simp add: quiet_def same_config_def)
qed

lemma after_quiet: "quiet d d1 \<Longrightarrow> after d1 txs d2 \<Longrightarrow> after d txs d2"
  by (auto simp: after_def quiet_def same_config_def)

lemma after_trans: "after d txs d1 \<Longrightarrow> after d1 us d2 \<Longrightarrow> after d (txs @ us) d2"
  by (auto simp: after_def same_config_def)

lemma quiet_config: "quiet d d1 \<Longrightarrow> same_config d d1"
  by (simp add: quiet_def)

lemma submitted_by:
  assumes "txnbuild_laws lib" and "run_state (wrapM g (getSourceAccount env lib)) d = (Ok src, d1)"
    and "run_state (buildAndSubmitTransaction env lib src op) d1 = (Ok meta, d2)"
  shows "\<exists>txs. after d txs d2 \<and> submitted env lib d op txs meta"
proof -
  note src = source_run [OF assms(2)]
  obtain txs where "after d1 txs d2" "submitted env lib d1 op txs meta"
    using submit_run [OF assms(1) src(2) assms(3)] by auto
  then show ?thesis
    using after_quiet [OF src(1)] submitted_cong [OF quiet_config [OF src(1)]] by blast
qed

lemma contract_address_Ok:
  assumes "address_laws lib" and "strkey_laws lib" and "contract_address lib cid = Ok addr"
  shows "\<exists>b. strkey_Decode lib VersionByteContract cid = Ok b \<and> addr = ScAddressContract (Some b)"
  using assms
  by (auto simp: contract_address_def BuildContractScAddress_def address_laws_def strkey_laws_def
      split: if_splits option.splits result.splits)

definition invocation :: "Deployer \<Rightarrow> bytes \<Rightarrow> string \<Rightarrow> ScVal list \<Rightarrow> Operation" where
  "invocation d b functionName args =
     host_op (HostFunctionInvokeContract (ScAddressContract (Some b)) functionName args) (sg_Address (dep_signer d))"

text \<open>When \<open>InvokeContract\<close> returns, it has submitted, after at most one footprint restore, exactly one
  transaction; that one is signed by the deployer, calls the named function of the named contract with the
  given arguments from its own account, was accepted by the node and later reported successful, and the
  value returned is the one in its result.\<close>

lemma InvokeContract_run:
  assumes laws: "txnbuild_laws lib" "strkey_laws lib" "address_laws lib"
    and run: "run_state (InvokeContract env lib contractID functionName args) d = (Ok v, d')"
  shows "\<exists>b txs meta. strkey_Decode lib VersionByteContract contractID = Ok b \<and>
           dep_sent d' = dep_sent d @ txs \<and>
           submitted env lib d (invocation d b functionName args) txs meta \<and>
           extractReturnValue (Some meta) = Ok v"
proof -
  from run [unfolded InvokeContract_def] obtain src d1 addr meta d2
    where src: "run_state (wrapM (\<lambda>e. Errorf ''failed to get source account: %w'' [AErr e]) (getSourceAccount env lib)) d = (Ok src, d1)"
      and addr: "contract_address lib contractID = Ok addr"
      and sub: "run_state (buildAndSubmitTransaction env lib src
          (host_op (HostFunctionInvokeContract addr functionName args) (sg_Address (dep_signer d1)))) d1 = (Ok meta, d2)"
      and fin: "extractReturnValue (Some meta) = Ok v" "d' = d2"
    unfolding SignerAddress_def by (auto elim!: bindM_Ok)
  obtain b where b: "strkey_Decode lib VersionByteContract contractID = Ok b" "addr = ScAddressContract (Some b)"
    using contract_address_Ok [OF laws(3,2) addr] by blast
  have "sg_Address (dep_signer d1) = sg_Address (dep_signer d)"
    using source_run(1) [OF src] by (simp add: quiet_def same_config_def)
  with submitted_by [OF laws(1) src sub] b fin show ?thesis
    by (auto simp: invocation_def after_def)
qed

definition upload_op :: "Deployer \<Rightarrow> bytes \<Rightarrow> Operation" where
  "upload_op d wasm = host_op (HostFunctionUploadContractWasm wasm) (sg_Address (dep_signer d))"

definition create_op :: "Deployer \<Rightarrow> bytes \<Rightarrow> bytes \<Rightarrow> bytes \<Rightarrow> Operation" where
  "create_op d key salt wasmHash =
     host_op (HostFunctionCreateContract (PreimageFromAddress (ScAddressAccount (Some (Ed25519 (Some key)))) salt)
        (ExecutableWasm (Some wasmHash))) (sg_Address (dep_signer d))"

lemma uploadWASM_Ok:
  assumes "txnbuild_laws lib" and "run_state (uploadWASM env lib wasm) d = (Ok h, d')"
  shows "\<exists>txs meta. after d txs d' \<and> submitted env lib d (upload_op d wasm) txs meta \<and> extractWASMHash (Some meta) = Ok h"
proof -
  from assms(2) obtain src d1 meta d2
    where src: "run_state (wrapM (\<lambda>e. Errorf ''failed to get source account: %w'' [AErr e]) (getSourceAccount env lib)) d = (Ok src, d1)"
      and sub: "run_state (buildAndSubmitTransaction env lib src (upload_op d1 wasm)) d1 = (Ok meta, d2)"
      and fin: "extractWASMHash (Some meta) = Ok h" "d' = d2"
    unfolding uploadWASM_def SignerAddress_def upload_op_def by (auto elim!: bindM_Ok)
  have "upload_op d1 wasm = upload_op d wasm"
    using source_run(1) [OF src] by (simp add: quiet_def same_config_def upload_op_def)
  with submitted_by [OF assms(1) src sub] fin show ?thesis by auto
qed

lemma createContractInstance_Ok:
  assumes "txnbuild_laws lib" and "strkey_laws lib" and "run_state (createContractInstance env lib h salt) d = (Ok cid, d')"
  shows "\<exists>key txs meta. strkey_Decode lib VersionByteAccountID (sg_Address (dep_signer d)) = Ok key \<and> after d txs d' \<and>
    submitted env lib d (create_op d key salt h) txs meta \<and> extractContractID lib (Some meta) = Ok cid"
proof -
  from assms(3) obtain src d1 key meta d2
    where src: "run_state (wrapM (\<lambda>e. Errorf ''failed to get source account: %w'' [AErr e]) (getSourceAccount env lib)) d = (Ok src, d1)"
      and key: "strkey_Decode lib VersionByteAccountID (sg_Address (dep_signer d1)) = Ok key"
      and sub: "run_state (buildAndSubmitTransaction env lib src (create_op d1 (copy32 key) salt h)) d1 = (Ok meta, d2)"
      and fin: "extractContractID lib (Some meta) = Ok cid" "d' = d2"
    unfolding createContractInstance_def SignerAddress_def create_op_def by (auto elim!: bindM_Ok)
  have "length key = 32" using assms(2) key by (auto simp: strkey_laws_def)
  then have "copy32 key = key" by (simp add: copy32_def)
  moreover have "dep_signer d1 = dep_signer d"
    using source_run(1) [OF src] by (simp add: quiet_def same_config_def)
  ultimately show ?thesis
    using submitted_by [OF assms(1) src sub] fin key by (auto simp: create_op_def)
qed

text \<open>C37: A successful DeployContractBytes has submitted two confirmed transactions (each after at most one footprint
  restore): first the upload of the code, then the creation of an instance whose code hash is the one the
  upload returned and whose address is derived from the deployer's own key and the given salt; the
  contract id returned is the one in the result of the creation.\<close>

theorem DeployContractBytes_confirmed:
  assumes laws: "txnbuild_laws lib" "strkey_laws lib"
    and run: "run_state (DeployContractBytes env lib wasm salt) d = (Ok contractID, d')"
  shows "\<exists>key h up cr meta meta'. dep_sent d' = dep_sent d @ up @ cr \<and>
           submitted env lib d (upload_op d wasm) up meta \<and> extractWASMHash (Some meta) = Ok h \<and>
           strkey_Decode lib VersionByteAccountID (sg_Address (dep_signer d)) = Ok key \<and>
           submitted env lib d (create_op d key salt h) cr meta' \<and> extractContractID lib (Some meta') = Ok contractID"
proof -
  from run obtain h d1
    where up: "run_state (uploadWASM env lib wasm) d = (Ok h, d1)"
      and cr: "run_state (createContractInstance env lib h salt) d1 = (Ok contractID, d')"
    unfolding DeployContractBytes_def by (auto elim!: bindM_Ok wrapM_Ok)
  from uploadWASM_Ok [OF laws(1) up] obtain txs meta
    where 1: "after d txs d1" "submitted env lib d (upload_op d wasm) txs meta" "extractWASMHash (Some meta) = Ok h" by blast
  from createContractInstance_Ok [OF laws cr] obtain key us meta'
    where 2: "strkey_Decode lib VersionByteAccountID (sg_Address (dep_signer d1)) = Ok key" "after d1 us d'"
      "submitted env lib d1 (create_op d1 key salt h) us meta'" "extractContractID lib (Some meta') = Ok contractID" by blast
  have conf: "same_config d d1" using 1(1) by (simp add: after_def)
  then have "dep_signer d1 = dep_signer d" by (simp add: same_config_def)
  with 2 submitted_cong [OF conf] have "submitted env lib d (create_op d key salt h) us meta'"
    by (simp add: create_op_def)
  then show ?thesis
    using 1 2 after_trans [OF 1(1) 2(2)] \<open>dep_signer d1 = dep_signer d\<close>
    by (intro exI [of _ key] exI [of _ h] exI [of _ txs] exI [of _ us] exI [of _ meta] exI [of _ meta']) (simp add: after_def)
qed

text \<open>Whatever the outcome of \<open>SimulateContract\<close>, it has sent nothing but at most one restore.\<close>

lemma SimulateContract_run:
  assumes laws: "txnbuild_laws lib"
    and run: "run_state (SimulateContract env lib contractID functionName args) d = (r, d')"
  shows "\<exists>txs. dep_sent d' = dep_sent d @ txs \<and> restore_only lib d txs"
proof -
  let ?E = "\<lambda>d'. \<exists>txs. restore_only lib d txs \<and> after d txs d'"
  have tail: "valid ?E (case sim_Results sim of [] \<Rightarrow> okM None
      | result # _ \<Rightarrow> (case getResultXDR result of None \<Rightarrow> okM None
          | Some x \<Rightarrow> bindM (wrapM g (liftM (unb64_ScVal lib x))) (\<lambda>scVal. okM (Some scVal)))) (\<lambda>_. ?E) ?E" for sim g
    by (auto split: list.splits option.splits intro!: valid_okM step_lift)
  have sim: "valid (after d []) (simulate_with_restore env lib src op) (\<lambda>_. ?E) ?E"
    if "fst src = sg_Address (dep_signer d)" for src op
    by (rule valid_simulate_with_restore [OF laws that]) auto
  have "valid (after d []) (SimulateContract env lib contractID functionName args) (\<lambda>_. ?E) ?E"
    unfolding SimulateContract_def SignerAddress_def
    by (intro step_lift(1) step_source step_quiet [OF qu.along_basic(5)] valid_bind [OF sim])
      (use tail in \<open>auto intro!: exI [of _ "[]"]\<close>)
  from validD [OF this after_refl run] show ?thesis
    by (cases r) (auto simp: after_def)
qed

section \<open>Fees\<close>

lemma fl_minus_one_default: "fl_minus_one (Fin 5 (- 2)) = Fin 1 (- 2)"
  using bitlen_le_53 [of 1] by (simp add: round53_def excess_bits_def Let_def)

lemma ceil_quarter: "- ((- m) div 4) = (m + 3) div (4 :: int)"
  by presburger

lemma feeBumpExtra_default:
  assumes "0 < m" and "m < 2 ^ 53"
  shows "feeBumpExtra m (Fin 5 (- 2)) = (m + 3) div 4"
proof -
  have "bitlen m \<le> 53" using bitlen_le_53 [of m] assms by simp
  then have r: "round53 m (- 2) = Fin m (- 2)"
    using assms by (simp add: round53_def excess_bits_def Let_def)
  have "0 \<le> (m + 3) div 4" "(m + 3) div 4 \<le> m" using assms by presburger+
  then have "in_i64 ((m + 3) div 4)" using assms by (simp add: in_i64_def)
  then show ?thesis
    using assms r by (simp add: feeBumpExtra_def of_int64_exact fl_minus_one_default ceil_quarter del: fl_minus_one.simps)
qed

text \<open>With the default factor of 1.25 the fee of an assembled or restore transaction is the simulated minimum plus a
  quarter of it, rounded up, and at least 10000 stroops: exactly, for every minimum below 2 ^ 53. With any other
  factor it is at least the minimum plus 10000, as long as it does not overflow an int64.\<close>

theorem bumped_fee_bounds:
  assumes "0 < minFee" and "minFee < 2 ^ 53"
  shows "bumped_fee minFee (Fin 5 (- 2)) = minFee + max 10000 ((minFee + 3) div 4) \<and>
    (minFee + feeBumpExtra minFee factor < 2 ^ 63 \<longrightarrow> minFee + 10000 \<le> bumped_fee minFee factor)"
proof
  show "bumped_fee minFee (Fin 5 (- 2)) = minFee + max 10000 ((minFee + 3) div 4)"
    using assms by (simp add: bumped_fee_def Let_def feeBumpExtra_default max_def i64_id in_i64_def)
  show "minFee + feeBumpExtra minFee factor < 2 ^ 63 \<longrightarrow> minFee + 10000 \<le> bumped_fee minFee factor"
    using assms by (simp add: bumped_fee_def Let_def i64_id in_i64_def)
qed

section \<open>Payments\<close>

text \<open>Soroban RPC simulates only transactions with a smart-contract operation, as the comment of
  SubmitClassicOperation says: the simulation of a payment is an error.\<close>

definition payments_not_simulated :: "denv \<Rightarrow> sdk \<Rightarrow> bool" where
  "payments_not_simulated env lib \<longleftrightarrow>
     (\<forall>tx x i destination amount. t_Operations tx = [OpPayment destination amount] \<longrightarrow> tx_Base64 lib tx = Ok x \<longrightarrow>
        (case dSimulate_at env i x of Ok sim \<Rightarrow> sim_Error sim \<noteq> [] | _ \<Rightarrow> True))"

interpretation silent: dep_relation "\<lambda>d d'. dep_sent d' = dep_sent d"
  by unfold_locales simp_all

lemma bindM_stops:
  assumes "\<And>x d1. run_state m d \<noteq> (Ok x, d1)"
  shows "(\<forall>y. fst (run_state (bindM m f) d) \<noteq> Ok y) \<and> snd (run_state (bindM m f) d) = snd (run_state m d)"
  using assms by (auto simp: run_bindM split: prod.splits result.splits)

lemma payment_simulation_fails:
  assumes "txnbuild_laws lib" and "payments_not_simulated env lib"
  shows "run_state (build_and_simulate env lib msg suffix src (OpPayment destination amount) deadline) d \<noteq> (Ok y, d1)"
proof
  assume "run_state (build_and_simulate env lib msg suffix src (OpPayment destination amount) deadline) d = (Ok y, d1)"
  then obtain tx x sim i where "NewTransaction lib (tx_params src [OpPayment destination amount] MinBaseFee deadline) = Ok tx"
    and x: "tx_Base64 lib tx = Ok x" and sim: "dSimulate_at env i x = Ok sim" and none: "sim_Error sim = []"
    unfolding build_and_simulate_def
    by (auto elim!: bindM_Ok wrapM_Ok split: if_splits)
  with assms(1) have "t_Operations tx = [OpPayment destination amount]" by (simp add: txnbuild_laws_def tx_params_def)
  with assms(2) x have "case dSimulate_at env i x of Ok sim \<Rightarrow> sim_Error sim \<noteq> [] | _ \<Rightarrow> True"
    unfolding payments_not_simulated_def by blast
  with sim none show False by simp
qed

text \<open>C38: SendNativePayment never pays. It sends the payment through the path that simulates first, and Soroban RPC
  does not simulate a payment: whatever the amount, the destination and the state of the deployer, the call does not
  return successfully and no envelope is submitted.\<close>

theorem SendNativePayment_never_pays:
  assumes "txnbuild_laws lib" and "payments_not_simulated env lib"
  shows "fst (run_state (SendNativePayment env lib destination stroops) d) \<noteq> Ok () \<and>
     dep_sent (snd (run_state (SendNativePayment env lib destination stroops) d)) = dep_sent d"
proof -
  let ?op = "OpPayment destination (show_int stroops)"
  let ?m = "\<lambda>src deadline. build_and_simulate env lib ''failed to build transaction'' [] src ?op deadline"
  have sim: "run_state (simulate_with_restore env lib src ?op) d \<noteq> (Ok y, d2) \<and>
      dep_sent (snd (run_state (simulate_with_restore env lib src ?op) d)) = dep_sent d" for src y d d2
  proof -
    have "\<exists>k. simulate_with_restore env lib src ?op = bindM (deadline_now env) (\<lambda>t. bindM (?m src t) (k t))"
      unfolding simulate_with_restore_def by (rule exI, rule refl)
    then obtain k where k: "simulate_with_restore env lib src ?op = bindM (deadline_now env) (\<lambda>t. bindM (?m src t) (k t))" ..
    obtain r d1 where r: "run_state (deadline_now env) d = (r, d1)" by (cases "run_state (deadline_now env) d")
    have d1: "dep_sent d1 = dep_sent d" using alongD [OF silent.along_deadline_now r] .
    show ?thesis
    proof (cases r)
      case (Ok t)
      have "dep_sent (snd (run_state (?m src t) d1)) = dep_sent d1"
        using silent.along_build_and_simulate by (simp add: along_def)
      moreover have "(\<forall>y. fst (run_state (bindM (?m src t) (k t)) d1) \<noteq> Ok y) \<and>
          snd (run_state (bindM (?m src t) (k t)) d1) = snd (run_state (?m src t) d1)"
        by (rule bindM_stops) (rule payment_simulation_fails [OF assms])
      moreover have eq: "run_state (simulate_with_restore env lib src ?op) d = run_state (bindM (?m src t) (k t)) d1"
        by (simp add: k run_bindM [of "deadline_now env"] r Ok)
      ultimately show ?thesis
        unfolding eq using d1 by (cases "run_state (bindM (?m src t) (k t)) d1"; cases y) auto
    qed (use d1 r in \<open>simp_all add: k run_bindM [of "deadline_now env"]\<close>)
  qed
  have sub: "fst (run_state (buildAndSubmitTransaction env lib src ?op) d) \<noteq> Ok y \<and>
      dep_sent (snd (run_state (buildAndSubmitTransaction env lib src ?op) d)) = dep_sent d" for src y d
  proof -
    have "\<exists>k. buildAndSubmitTransaction env lib src ?op = bindM (simulate_with_restore env lib src ?op) k"
      unfolding buildAndSubmitTransaction_def by (rule exI, rule refl)
    then obtain k where k: "buildAndSubmitTransaction env lib src ?op = bindM (simulate_with_restore env lib src ?op) k" ..
    have no: "\<And>x d1. run_state (simulate_with_restore env lib src ?op) d \<noteq> (Ok x, d1)" using sim by blast
    from bindM_stops [OF no, of k] sim show ?thesis unfolding k by metis
  qed
  have src: "dep_sent (snd (run_state (getSourceAccount env lib) d)) = dep_sent d" for d
    using silent.along_getSourceAccount by (simp add: along_def)
  show ?thesis
    unfolding SendNativePayment_def
    using sub src by (auto simp: run_bindM split: prod.splits result.splits) (metis fst_conv snd_conv)+
qed

section \<open>Concrete runs\<close>

text \<open>A network on which the code of a contract is uploaded and an instance of it created: the
  answers depend on the call counter, and the result texts name the values they stand for.\<close>

definition sample_signer :: TxSigner where
  "sample_signer = \<lparr>sg_Address = CHR ''G'' # replicate 32 (CHR ''k''),
     sg_SignTransaction = (\<lambda>net tx. Ok (tx\<lparr>t_Signatures := [([], [])]\<rparr>))\<rparr>"

definition sample_contract :: string where
  "sample_contract = CHR ''C'' # replicate 32 (CHR ''c'')"

definition dep_sdk :: sdk where
  "dep_sdk = sample_sdk\<lparr>unb64_TransactionMeta := (\<lambda>s.
     Ok (MetaV4 (Some (Some (if s = ''code'' then ScvBytes (Some (replicate 32 5))
                             else ScvAddress (Some (ScAddressContract (Some (replicate 32 99)))))))))\<rparr>"

definition dep_net :: denv where
  "dep_net = \<lparr>dnow_at = (\<lambda>i. int i),
     dSimulate_at = (\<lambda>i x. Ok \<lparr>sim_Error = [], sim_TransactionDataXDR = ''data'', sim_MinResourceFee = 50000, sim_Results = [],
        sim_RestorePreamble = None\<rparr>),
     dSend_at = (\<lambda>i x. Ok \<lparr>send_Status = TXStatusPending, send_Hash = (if i < 9 then ''first'' else ''second''), send_ErrorResultXDR = []\<rparr>),
     dGetTransaction_at = (\<lambda>i h. Ok \<lparr>get_Status = StatusSuccess, get_ResultXDR = [],
        get_ResultMetaXDR = (if h = ''first'' then ''code'' else ''address''), get_LedgerCloseTime = 0\<rparr>),
     dGetLedgerEntries_at = (\<lambda>i ks. Ok [''entry'']),
     dGetEvents_at = (\<lambda>i q. Err (New ''no events'')),
     drounds_at = (\<lambda>i. 3), dselect_at = (\<lambda>i. TickerFired)\<rparr>"

definition sample_deployer :: Deployer where
  "sample_deployer = NewDeployerWithSigner ''net'' sample_signer []"

lemma dep_sdk_laws: "txnbuild_laws dep_sdk" "strkey_laws dep_sdk" "address_laws dep_sdk"
  using sample_txnbuild_laws sample_strkey_laws sample_address_laws
  by (simp_all add: dep_sdk_def txnbuild_laws_def strkey_laws_def address_laws_def)

lemma sample_deploy:
  "fst (run_state (DeployContractBytes dep_net dep_sdk [1, 2] (replicate 32 3)) sample_deployer) = Ok sample_contract"
  by code_simp

lemma run_parts: "fst (run_state m d) = r \<Longrightarrow> run_state m d = (r, snd (run_state m d))"
  by (cases "run_state m d") simp

theorem DeployContractBytes_confirmed_witness:
  "\<exists>key h up cr meta meta'.
     dep_sent (snd (run_state (DeployContractBytes dep_net dep_sdk [1, 2] (replicate 32 3)) sample_deployer)) =
       dep_sent sample_deployer @ up @ cr \<and>
     submitted dep_net dep_sdk sample_deployer (upload_op sample_deployer [1, 2]) up meta \<and> extractWASMHash (Some meta) = Ok h \<and>
     strkey_Decode dep_sdk VersionByteAccountID (sg_Address (dep_signer sample_deployer)) = Ok key \<and>
     submitted dep_net dep_sdk sample_deployer (create_op sample_deployer key (replicate 32 3) h) cr meta' \<and>
     extractContractID dep_sdk (Some meta') = Ok sample_contract"
  by (rule DeployContractBytes_confirmed [OF dep_sdk_laws(1,2) run_parts [OF sample_deploy]])

theorem bumped_fee_bounds_witness:
  "bumped_fee 50000 (Fin 5 (- 2)) = 62500 \<and> 60000 \<le> bumped_fee 50000 (Fin 1 0)"
proof -
  have "feeBumpExtra 50000 (Fin 1 0) < 2 ^ 62" by code_simp
  then show ?thesis
    using bumped_fee_bounds [of 50000 "Fin 1 0"] by (simp add: max_def)
qed

text \<open>A node that tells payments from contract calls.\<close>

definition classic_sdk :: sdk where
  "classic_sdk = dep_sdk\<lparr>tx_Base64 := (\<lambda>tx. Ok (case t_Operations tx of [OpPayment d a] \<Rightarrow> ''payment'' | _ \<Rightarrow> ''call''))\<rparr>"

definition soroban_net :: denv where
  "soroban_net = dep_net\<lparr>dSimulate_at := (\<lambda>i x. if x = ''payment''
     then Err (New ''transaction contains unsupported operation type: Payment'') else dSimulate_at dep_net i x)\<rparr>"

theorem SendNativePayment_never_pays_witness:
  "fst (run_state (SendNativePayment soroban_net classic_sdk (CHR ''G'' # replicate 32 (CHR ''x'')) 5) sample_deployer) \<noteq> Ok () \<and>
   dep_sent (snd (run_state (SendNativePayment soroban_net classic_sdk (CHR ''G'' # replicate 32 (CHR ''x'')) 5) sample_deployer)) = []"
proof -
  have "txnbuild_laws classic_sdk" using dep_sdk_laws(1) by (simp add: txnbuild_laws_def classic_sdk_def)
  moreover have "payments_not_simulated soroban_net classic_sdk"
    by (auto simp: payments_not_simulated_def soroban_net_def classic_sdk_def)
  ultimately have "fst (run_state (SendNativePayment soroban_net classic_sdk (CHR ''G'' # replicate 32 (CHR ''x'')) 5) sample_deployer) \<noteq> Ok ()
      \<and> dep_sent (snd (run_state (SendNativePayment soroban_net classic_sdk (CHR ''G'' # replicate 32 (CHR ''x'')) 5) sample_deployer))
        = dep_sent sample_deployer"
    by (rule SendNativePayment_never_pays)
  then show ?thesis by (simp add: sample_deployer_def NewDeployerWithSigner_def)
qed

end
