(* ===== verification/Bindings_Base.thy ===== *)
theory Bindings_Base
  imports Ccv_Base "HOL-Library.State_Monad"
begin

text \<open>
  What the generated contract bindings (bindings/contracts) are made of. A client holds the
  contract invoker of bindings/invoker.go and a contract id; a method encodes its arguments,
  invokes or simulates one contract function and decodes the value it returns. The structs
  of a contract are encoded as Soroban maps and decoded entry by entry; an event is
  decoded in the same way, but a field that does not decode keeps its zero value. The
  state the invoker works on is arbitrary.
\<close>

section \<open>The invoker and the clients\<close>

record 's Invoker =
  iv_InvokeContract :: "string \<Rightarrow> string \<Rightarrow> ScVal list \<Rightarrow> ('s, ScVal option result) state"
  iv_SimulateContract :: "string \<Rightarrow> string \<Rightarrow> ScVal list \<Rightarrow> ('s, ScVal option result) state"
  iv_GetEvents :: "string \<Rightarrow> int \<Rightarrow> string list \<Rightarrow> ('s, EventInfo list result) state"

record 's Client =
  cl_invoker :: "'s Invoker"
  cl_contractID :: string

definition mk_client :: "'s Invoker \<Rightarrow> string \<Rightarrow> 's Client" where
  "mk_client ivk contractID = \<lparr>cl_invoker = ivk, cl_contractID = contractID\<rparr>"

section \<open>Calls\<close>

text \<open>Arguments are evaluated from left to right; encoding a struct may panic.\<close>

fun seq_args :: "ScVal result list \<Rightarrow> ScVal list result" where
  "seq_args [] = Ok []"
| "seq_args (a # as) = bind_r a (\<lambda>v. bind_r (seq_args as) (\<lambda>vs. Ok (v # vs)))"

definition call_with :: "(string \<Rightarrow> string \<Rightarrow> ScVal list \<Rightarrow> ('s, ScVal option result) state) \<Rightarrow> string \<Rightarrow> string \<Rightarrow>
    ScVal result list \<Rightarrow> ('s, ScVal option result) state" where
  "call_with op contractID f args =
     (case seq_args args of
        Ok vs \<Rightarrow> do { r \<leftarrow> op contractID f vs;
                      State_Monad.return (wrap_err (\<lambda>e. Errorf (''failed to call '' @ f @ '': %w'') [AErr e]) r) }
      | Err e \<Rightarrow> State_Monad.return (Err e)
      | Panic q \<Rightarrow> State_Monad.return (Panic q))"

text \<open>A call whose result is ignored.\<close>

definition invoke_void :: "'s Client \<Rightarrow> string \<Rightarrow> ScVal result list \<Rightarrow> ('s, unit result) state" where
  "invoke_void c f args = do {
     r \<leftarrow> call_with (iv_InvokeContract (cl_invoker c)) (cl_contractID c) f args;
     State_Monad.return (bind_r r (\<lambda>_. Ok ())) }"

text \<open>A call whose result is required and decoded.\<close>

definition need_value :: "string \<Rightarrow> (ScVal \<Rightarrow> 'a result) \<Rightarrow> ScVal option \<Rightarrow> 'a result" where
  "need_value f decode r = (case r of None \<Rightarrow> Err (New (''no return value from '' @ f)) | Some v \<Rightarrow> decode v)"

definition invoke_value :: "'s Client \<Rightarrow> string \<Rightarrow> ScVal result list \<Rightarrow> (ScVal \<Rightarrow> 'a result) \<Rightarrow> ('s, 'a result) state" where
  "invoke_value c f args decode = do {
     r \<leftarrow> call_with (iv_InvokeContract (cl_invoker c)) (cl_contractID c) f args;
     State_Monad.return (bind_r r (need_value f decode)) }"

definition simulate_value :: "'s Client \<Rightarrow> string \<Rightarrow> ScVal result list \<Rightarrow> (ScVal \<Rightarrow> 'a result) \<Rightarrow> ('s, 'a result) state" where
  "simulate_value c f args decode = do {
     r \<leftarrow> call_with (iv_SimulateContract (cl_invoker c)) (cl_contractID c) f args;
     State_Monad.return (bind_r r (need_value f decode)) }"

section \<open>Decoding\<close>

text \<open>\<open>v, ok := val.GetX(); if !ok { return errors.New(msg) }\<close>\<close>

definition need :: "string \<Rightarrow> 'a option result \<Rightarrow> 'a result" where
  "need msg r = bind_r r (\<lambda>x. case x of None \<Rightarrow> Err (New msg) | Some v \<Rightarrow> Ok v)"

definition named :: "string \<Rightarrow> 'a result \<Rightarrow> 'a result" where
  "named name r = wrap_err (\<lambda>e. Errorf (name @ '': %w'') [AErr e]) r"

text \<open>A vector whose items are decoded one by one; the first failure ends it.\<close>

fun decode_items :: "(ScVal \<Rightarrow> 'a result) \<Rightarrow> ScVal list \<Rightarrow> 'a list result" where
  "decode_items f [] = Ok []"
| "decode_items f (v # vs) = bind_r (f v) (\<lambda>x. bind_r (decode_items f vs) (\<lambda>xs. Ok (x # xs)))"

definition vec_of :: "string \<Rightarrow> (ScVal \<Rightarrow> 'a result) \<Rightarrow> ScVal \<Rightarrow> 'a list result" where
  "vec_of msg f val = bind_r (need msg (GetVec val)) (decode_items f)"

definition bytes_item :: "string \<Rightarrow> ScVal \<Rightarrow> bytes result" where
  "bytes_item msg item = need msg (GetBytes item)"

text \<open>The items of a tuple of vectors carry their position in the error.\<close>

fun indexed_items :: "nat \<Rightarrow> nat \<Rightarrow> (ScVal \<Rightarrow> 'a result) \<Rightarrow> ScVal list \<Rightarrow> 'a list result" where
  "indexed_items k i f [] = Ok []"
| "indexed_items k i f (v # vs) =
     bind_r (wrap_err (\<lambda>e. Errorf (''tuple['' @ show_nat k @ ''][%d]: %w'') [AInt (int i), AErr e]) (f v)) (\<lambda>x.
     bind_r (indexed_items k (Suc i) f vs) (\<lambda>xs. Ok (x # xs)))"

definition tuple_vec :: "nat \<Rightarrow> (ScVal \<Rightarrow> 'a result) \<Rightarrow> ScVal \<Rightarrow> 'a list result" where
  "tuple_vec k f val = bind_r (need (''tuple['' @ show_nat k @ '']: expected vec'') (GetVec val)) (indexed_items k 0 f)"

definition pair_of :: "string \<Rightarrow> (ScVal \<Rightarrow> 'a result) \<Rightarrow> (ScVal \<Rightarrow> 'b result) \<Rightarrow> ScVal \<Rightarrow> ('a \<times> 'b) result" where
  "pair_of msg f g val =
     bind_r (need msg (GetVec val)) (\<lambda>vec. case vec of
       [x, y] \<Rightarrow> bind_r (f x) (\<lambda>a. bind_r (g y) (\<lambda>b. Ok (a, b)))
     | _ \<Rightarrow> Err (Errorf ''expected 2 elements, got %d'' [AInt (int (length vec))]))"

section \<open>Structs\<close>

text \<open>A struct literal: the values in order, then the sorted map of \<open>BuildStructScVal\<close>.\<close>

fun seq_fields :: "(string \<times> ScVal result) list \<Rightarrow> (string \<times> ScVal) list result" where
  "seq_fields [] = Ok []"
| "seq_fields ((k, r) # fs) = bind_r r (\<lambda>v. bind_r (seq_fields fs) (\<lambda>vs. Ok ((k, v) # vs)))"

definition build_struct :: "(string \<times> ScVal result) list \<Rightarrow> ScVal result" where
  "build_struct fs = bind_r (seq_fields fs) BuildStructScVal"

definition put :: "'a result \<Rightarrow> ('a \<Rightarrow> 's) \<Rightarrow> 's result" where
  "put r f = bind_r r (\<lambda>x. Ok (f x))"

definition parse_struct :: "string \<Rightarrow> (string \<Rightarrow> ScVal \<Rightarrow> 's \<Rightarrow> 's result) \<Rightarrow> 's \<Rightarrow> ScVal \<Rightarrow> 's result" where
  "parse_struct msg entry s val = bind_r (need msg (GetMap val)) (\<lambda>es. fold_entries entry es s)"

section \<open>Events\<close>

definition parse_event :: "sdk \<Rightarrow> (string \<Rightarrow> ScVal \<Rightarrow> 's \<Rightarrow> 's result) \<Rightarrow> (int \<Rightarrow> string \<Rightarrow> 's) \<Rightarrow> EventInfo \<Rightarrow> 's result" where
  "parse_event lib entry start e =
     bind_r (wrap_err (\<lambda>x. Errorf ''failed to decode event: %w'' [AErr x]) (unb64_ScVal lib (ei_ValueXDR e))) (\<lambda>val.
     parse_struct ''event is not a map'' entry (start (u32 (ei_Ledger e)) (ei_TransactionHash e)) val)"

text \<open>A vector in an event: items that do not decode keep the zero value, or are left out.\<close>

fun items_or :: "'a \<Rightarrow> (ScVal \<Rightarrow> 'a result) \<Rightarrow> ScVal list \<Rightarrow> 'a list result" where
  "items_or z f [] = Ok []"
| "items_or z f (v # vs) = bind_r (set_if_ok (f v) (\<lambda>x _. x) z) (\<lambda>x. bind_r (items_or z f vs) (\<lambda>xs. Ok (x # xs)))"

fun items_that :: "(ScVal \<Rightarrow> 'a result) \<Rightarrow> ScVal list \<Rightarrow> 'a list result" where
  "items_that f [] = Ok []"
| "items_that f (v # vs) =
     (case f v of
        Ok x \<Rightarrow> bind_r (items_that f vs) (\<lambda>xs. Ok (x # xs))
      | Err e \<Rightarrow> items_that f vs
      | Panic q \<Rightarrow> Panic q)"

definition set_if_vec :: "(ScVal list \<Rightarrow> 'a result) \<Rightarrow> ScVal \<Rightarrow> ('a \<Rightarrow> 's \<Rightarrow> 's) \<Rightarrow> 's \<Rightarrow> 's result" where
  "set_if_vec items val f s =
     bind_r (GetVec val) (\<lambda>v. case v of None \<Rightarrow> Ok s | Some vs \<Rightarrow> put (items vs) (\<lambda>x. f x s))"

text \<open>Waiting for an event. A round of the \<open>select\<close> sees the end of the context or the ticker,
  with the time since the start; with no round left the call has not returned yet (\<open>None\<close>).\<close>

datatype wait_round = RoundDone error | RoundTick int

fun first_match :: "(EventInfo \<Rightarrow> 'e result) \<Rightarrow> ('e \<Rightarrow> bool) option \<Rightarrow> EventInfo list \<Rightarrow> 'e option result" where
  "first_match parse filt [] = Ok None"
| "first_match parse filt (e # es) =
     (case parse e of
        Ok ev \<Rightarrow> (case filt of
                   None \<Rightarrow> Ok (Some ev)
                 | Some f \<Rightarrow> if f ev then Ok (Some ev) else first_match parse filt es)
      | Err x \<Rightarrow> first_match parse filt es
      | Panic q \<Rightarrow> Panic q)"

fun wait_for :: "'s Client \<Rightarrow> string \<Rightarrow> (EventInfo \<Rightarrow> 'e result) \<Rightarrow> int \<Rightarrow> int \<Rightarrow> ('e \<Rightarrow> bool) option \<Rightarrow> wait_round list \<Rightarrow>
    ('s, 'e result option) state" where
  "wait_for c topic parse startLedger timeout filt [] = State_Monad.return None"
| "wait_for c topic parse startLedger timeout filt (RoundDone e # rs) = State_Monad.return (Some (Err e))"
| "wait_for c topic parse startLedger timeout filt (RoundTick elapsed # rs) =
     (if elapsed > timeout then State_Monad.return (Some (Err (New ''timeout waiting for event'')))
      else do {
        r \<leftarrow> iv_GetEvents (cl_invoker c) (cl_contractID c) startLedger [topic];
        case r of
          Err e \<Rightarrow> wait_for c topic parse startLedger timeout filt rs
        | Panic q \<Rightarrow> State_Monad.return (Some (Panic q))
        | Ok events \<Rightarrow>
            (case first_match parse filt events of
               Ok (Some ev) \<Rightarrow> State_Monad.return (Some (Ok ev))
             | Ok None \<Rightarrow> wait_for c topic parse startLedger timeout filt rs
             | Err e \<Rightarrow> State_Monad.return (Some (Err e))
             | Panic q \<Rightarrow> State_Monad.return (Some (Panic q))) })"

section \<open>Codecs\<close>

text \<open>\<open>codec enc dec ok\<close>: a value with \<open>ok\<close> is encoded, and its encoding decodes to it.\<close>

definition codec :: "('a \<Rightarrow> ScVal result) \<Rightarrow> (ScVal \<Rightarrow> 'a result) \<Rightarrow> ('a \<Rightarrow> bool) \<Rightarrow> bool" where
  "codec enc dec ok \<longleftrightarrow> (\<forall>x. ok x \<longrightarrow> (\<exists>v. enc x = Ok v \<and> dec v = Ok x))"

lemma codecD: "codec enc dec ok \<Longrightarrow> ok x \<Longrightarrow> \<exists>v. enc x = Ok v \<and> dec v = Ok x"
  by (simp add: codec_def)

lemma codecI: "(\<And>x. ok x \<Longrightarrow> \<exists>v. enc x = Ok v \<and> dec v = Ok x) \<Longrightarrow> codec enc dec ok"
  by (simp add: codec_def)

lemma codec_must: "codec enc dec ok \<Longrightarrow> ok x \<Longrightarrow> \<exists>v. MustToScVal (enc x) = Ok v \<and> dec v = Ok x"
  by (fastforce simp: codec_def MustToScVal_def)

lemma decode_items_to_scvals:
  assumes "codec enc dec ok" and "list_all ok xs"
  shows "\<exists>vs. to_scvals enc xs = Ok vs \<and> decode_items dec vs = Ok xs"
  using assms(2)
proof (induction xs)
  case (Cons x xs)
  then show ?case using codecD [OF assms(1), of x] by auto
qed simp

lemma codec_slice:
  assumes "codec enc dec ok" and "list_all ok xs"
  shows "\<exists>v. StructSliceToScVal enc xs = Ok v \<and> (\<forall>msg. vec_of msg dec v = Ok xs)"
  using decode_items_to_scvals [OF assms]
  by (auto simp: StructSliceToScVal_def vec_of_def need_def VecToScVal_def GetVec_def)

lemma decode_items_map:
  assumes "\<And>x. x \<in> set xs \<Longrightarrow> f (g x) = Ok x"
  shows "decode_items f (map g xs) = Ok xs"
  using assms by (induction xs) auto

text \<open>Address strkeys that decode.\<close>

definition is_address :: "sdk \<Rightarrow> string \<Rightarrow> bool" where
  "is_address lib s \<longleftrightarrow> (\<exists>b. valid_address lib s b)"

definition optional_ok :: "('a \<Rightarrow> bool) \<Rightarrow> 'a option \<Rightarrow> bool" where
  "optional_ok P x = (case x of None \<Rightarrow> True | Some a \<Rightarrow> P a)"

definition sdk_laws :: "sdk \<Rightarrow> bool" where
  "sdk_laws lib \<longleftrightarrow> strkey_laws lib \<and> address_laws lib"

lemma address_codec: "sdk_laws lib \<Longrightarrow> is_address lib s \<Longrightarrow> AddressFromScVal lib (AddressToScVal lib s) = Ok s"
  using address_roundtrip(1) by (auto simp: sdk_laws_def is_address_def)

lemma optional_address_codec:
  assumes "sdk_laws lib" and "optional_ok (is_address lib) x"
  shows "OptionalAddressFromScVal lib (OptionalAddressToScVal lib x) = Ok x"
  using assms address_codec [OF assms(1)]
  by (cases x) (auto simp: OptionalAddressFromScVal_def OptionalAddressToScVal_def optional_ok_def VoidScVal_def AddressToScVal_def)

lemma slice_codecs:
  "sdk_laws lib \<Longrightarrow> list_all (is_address lib) ss \<Longrightarrow> vec_of msg (AddressFromScVal lib) (AddressSliceToScVal lib ss) = Ok ss"
  "list_all (\<lambda>b. length b = 32) bs \<Longrightarrow> vec_of msg Bytes32FromScVal (Bytes32SliceToScVal bs) = Ok bs"
  "vec_of msg (bytes_item m) (BytesSliceToScVal bs) = Ok bs"
  "vec_of msg Uint32FromScVal (Uint32SliceToScVal ns) = Ok ns"
  by (auto simp: vec_of_def need_def GetVec_def VecToScVal_def AddressSliceToScVal_def Bytes32SliceToScVal_def BytesSliceToScVal_def
      Uint32SliceToScVal_def bytes_item_def GetBytes_def BytesToScVal_def list_all_iff scval_dec_iff intro!: decode_items_map address_codec)

lemma scalar_codecs:
  "need msg (GetBytes (BytesToScVal b)) = Ok b" "need msg (GetU32 (Uint32ToScVal n)) = Ok n" "need msg (GetB (BoolToScVal t)) = Ok t"
  "Uint64FromScVal (Uint64ToScVal n) = Ok n" "U128FromScVal (U128ToScVal u) = Ok u"
  "in_i64 i \<Longrightarrow> I128FromScVal (I128ToScVal i) = Ok i" "length b = 32 \<Longrightarrow> Bytes32FromScVal (Bytes32ToScVal b) = Ok b"
  "length b = 4 \<Longrightarrow> Bytes4FromScVal (Bytes4ToScVal b) = Ok b"
  by (simp_all add: need_def get_defs BytesToScVal_def Uint32ToScVal_def BoolToScVal_def scval_dec_iff i128_codec.dec_enc)

lemma must_u128: "MustToScVal (U128_ToScVal u) = Ok (U128ToScVal u)"
  by (simp add: MustToScVal_def U128_ToScVal_def)

lemma parse_struct_map:
  "parse_struct msg entry z (ScvMap (Some (Some es))) = fold_entries entry es z"
  by (simp add: parse_struct_def need_def GetMap_def)

lemma fold_entries_symbol: "fold_entries f ((ScvSymbol (Some k), v) # es) s = bind_r (f k v s) (fold_entries f es)"
  by (simp add: GetSym_def)

lemma named_Ok [simp]: "named k (Ok x) = Ok x"
  by (simp add: named_def)

lemma put_Ok [simp]: "put (Ok x) f = Ok (f x)"
  by (simp add: put_def)

lemmas codec_simps = scalar_codecs slice_codecs address_codec optional_address_codec must_u128 parse_struct_map fold_entries_symbol

lemmas struct_codec_simps = codec_simps build_struct_def BuildStructScVal_def

end
