(* ===== verification/Bind_Common.thy ===== *)
theory Bind_Common
  imports Bindings_Base
begin

text \<open>
  The types that several generated bindings declare in the same words (bindings/contracts, files
  types.go and client.go): enumerations, structs with their encoders and decoders, and
  events with their parsers.
\<close>

section \<open>Enumerations\<close>

type_synonym MessageDirection = int

definition MessageDirectionOutbound :: MessageDirection where
  "MessageDirectionOutbound = 0"

definition MessageDirectionInbound :: MessageDirection where
  "MessageDirectionInbound = 1"

definition MessageDirection_ToScVal :: "MessageDirection \<Rightarrow> ScVal result" where
  "MessageDirection_ToScVal e = Ok (Uint32ToScVal e)"

definition MessageDirectionFromScVal :: "ScVal \<Rightarrow> MessageDirection result" where
  "MessageDirectionFromScVal v = need ''expected u32 for MessageDirection enum'' (GetU32 v)"

section \<open>Structs\<close>

record AllowListEntry =
  AllowListEntry_Allowlist :: "string list"
  AllowListEntry_AllowlistEnabled :: bool

definition zero_AllowListEntry :: AllowListEntry where
  "zero_AllowListEntry = \<lparr>AllowListEntry_Allowlist = [], AllowListEntry_AllowlistEnabled = False\<rparr>"

definition AllowListEntry_ToScVal :: "sdk \<Rightarrow> AllowListEntry \<Rightarrow> ScVal result" where
  "AllowListEntry_ToScVal lib s = build_struct [
     (''allowlist'', Ok (AddressSliceToScVal lib (AllowListEntry_Allowlist s))),
     (''allowlist_enabled'', Ok (BoolToScVal (AllowListEntry_AllowlistEnabled s)))]"

definition AllowListEntry_entry :: "sdk \<Rightarrow> string \<Rightarrow> ScVal \<Rightarrow> AllowListEntry \<Rightarrow> AllowListEntry result" where
  "AllowListEntry_entry lib key v s =
     (if key = ''allowlist'' then put (vec_of ''allowlist is not a vec'' (AddressFromScVal lib) v) (\<lambda>x. s\<lparr>AllowListEntry_Allowlist := x\<rparr>)
      else if key = ''allowlist_enabled'' then put (need ''allowlist_enabled is not bool'' (GetB v)) (\<lambda>x. s\<lparr>AllowListEntry_AllowlistEnabled := x\<rparr>)
      else Ok s)"

definition AllowListEntryFromScVal :: "sdk \<Rightarrow> ScVal \<Rightarrow> AllowListEntry result" where
  "AllowListEntryFromScVal lib = parse_struct ''not a map type'' (AllowListEntry_entry lib) zero_AllowListEntry"

record AllowListUpdate =
  AllowListUpdate_AddedAllowlistedSenders :: "string list"
  AllowListUpdate_AllowlistEnabled :: bool
  AllowListUpdate_DestChainSelector :: int
  AllowListUpdate_RemovedAllowlistedSenders :: "string list"

definition zero_AllowListUpdate :: AllowListUpdate where
  "zero_AllowListUpdate = \<lparr>AllowListUpdate_AddedAllowlistedSenders = [], AllowListUpdate_AllowlistEnabled = False,
     AllowListUpdate_DestChainSelector = 0, AllowListUpdate_RemovedAllowlistedSenders = []\<rparr>"

definition AllowListUpdate_ToScVal :: "sdk \<Rightarrow> AllowListUpdate \<Rightarrow> ScVal result" where
  "AllowListUpdate_ToScVal lib s = build_struct [
     (''added_allowlisted_senders'', Ok (AddressSliceToScVal lib (AllowListUpdate_AddedAllowlistedSenders s))),
     (''allowlist_enabled'', Ok (BoolToScVal (AllowListUpdate_AllowlistEnabled s))),
     (''dest_chain_selector'', Ok (Uint64ToScVal (AllowListUpdate_DestChainSelector s))),
     (''removed_allowlisted_senders'', Ok (AddressSliceToScVal lib (AllowListUpdate_RemovedAllowlistedSenders s)))]"

definition AllowListUpdate_entry :: "sdk \<Rightarrow> string \<Rightarrow> ScVal \<Rightarrow> AllowListUpdate \<Rightarrow> AllowListUpdate result" where
  "AllowListUpdate_entry lib key v s =
     (if key = ''added_allowlisted_senders'' then put (vec_of ''added_allowlisted_senders is not a vec'' (AddressFromScVal lib) v) (\<lambda>x. s\<lparr>AllowListUpdate_AddedAllowlistedSenders := x\<rparr>)
      else if key = ''allowlist_enabled'' then put (need ''allowlist_enabled is not bool'' (GetB v)) (\<lambda>x. s\<lparr>AllowListUpdate_AllowlistEnabled := x\<rparr>)
      else if key = ''dest_chain_selector'' then put (named ''dest_chain_selector'' (Uint64FromScVal v)) (\<lambda>x. s\<lparr>AllowListUpdate_DestChainSelector := x\<rparr>)
      else if key = ''removed_allowlisted_senders'' then put (vec_of ''removed_allowlisted_senders is not a vec'' (AddressFromScVal lib) v) (\<lambda>x. s\<lparr>AllowListUpdate_RemovedAllowlistedSenders := x\<rparr>)
      else Ok s)"

definition AllowListUpdateFromScVal :: "sdk \<Rightarrow> ScVal \<Rightarrow> AllowListUpdate result" where
  "AllowListUpdateFromScVal lib = parse_struct ''not a map type'' (AllowListUpdate_entry lib) zero_AllowListUpdate"

record TokenAmount =
  TokenAmount_Amount :: int
  TokenAmount_Token :: string

definition zero_TokenAmount :: TokenAmount where
  "zero_TokenAmount = \<lparr>TokenAmount_Amount = 0, TokenAmount_Token = []\<rparr>"

definition TokenAmount_ToScVal :: "sdk \<Rightarrow> TokenAmount \<Rightarrow> ScVal result" where
  "TokenAmount_ToScVal lib s = build_struct [
     (''amount'', Ok (I128ToScVal (TokenAmount_Amount s))), (''token'', Ok (AddressToScVal lib (TokenAmount_Token s)))]"

definition TokenAmount_entry :: "sdk \<Rightarrow> string \<Rightarrow> ScVal \<Rightarrow> TokenAmount \<Rightarrow> TokenAmount result" where
  "TokenAmount_entry lib key v s =
     (if key = ''amount'' then put (named ''amount'' (I128FromScVal v)) (\<lambda>x. s\<lparr>TokenAmount_Amount := x\<rparr>)
      else if key = ''token'' then put (named ''token'' (AddressFromScVal lib v)) (\<lambda>x. s\<lparr>TokenAmount_Token := x\<rparr>)
      else Ok s)"

definition TokenAmountFromScVal :: "sdk \<Rightarrow> ScVal \<Rightarrow> TokenAmount result" where
  "TokenAmountFromScVal lib = parse_struct ''not a map type'' (TokenAmount_entry lib) zero_TokenAmount"

record GenericExtraArgsV3 =
  GenericExtraArgsV3_BlockConfirmations :: int
  GenericExtraArgsV3_CcvArgs :: "bytes list"
  GenericExtraArgsV3_Ccvs :: "string list"
  GenericExtraArgsV3_Executor :: string
  GenericExtraArgsV3_ExecutorArgs :: bytes
  GenericExtraArgsV3_GasLimit :: int
  GenericExtraArgsV3_TokenArgs :: bytes
  GenericExtraArgsV3_TokenReceiver :: bytes

definition zero_GenericExtraArgsV3 :: GenericExtraArgsV3 where
  "zero_GenericExtraArgsV3 = \<lparr>GenericExtraArgsV3_BlockConfirmations = 0, GenericExtraArgsV3_CcvArgs = [], GenericExtraArgsV3_Ccvs = [],
     GenericExtraArgsV3_Executor = [], GenericExtraArgsV3_ExecutorArgs = [], GenericExtraArgsV3_GasLimit = 0,
     GenericExtraArgsV3_TokenArgs = [], GenericExtraArgsV3_TokenReceiver = []\<rparr>"

definition GenericExtraArgsV3_ToScVal :: "sdk \<Rightarrow> GenericExtraArgsV3 \<Rightarrow> ScVal result" where
  "GenericExtraArgsV3_ToScVal lib s = build_struct [
     (''block_confirmations'', Ok (Uint32ToScVal (GenericExtraArgsV3_BlockConfirmations s))),
     (''ccv_args'', Ok (BytesSliceToScVal (GenericExtraArgsV3_CcvArgs s))),
     (''ccvs'', Ok (AddressSliceToScVal lib (GenericExtraArgsV3_Ccvs s))),
     (''executor'', Ok (AddressToScVal lib (GenericExtraArgsV3_Executor s))),
     (''executor_args'', Ok (BytesToScVal (GenericExtraArgsV3_ExecutorArgs s))),
     (''gas_limit'', Ok (Uint32ToScVal (GenericExtraArgsV3_GasLimit s))),
     (''token_args'', Ok (BytesToScVal (GenericExtraArgsV3_TokenArgs s))),
     (''token_receiver'', Ok (BytesToScVal (GenericExtraArgsV3_TokenReceiver s)))]"

definition GenericExtraArgsV3_entry :: "sdk \<Rightarrow> string \<Rightarrow> ScVal \<Rightarrow> GenericExtraArgsV3 \<Rightarrow> GenericExtraArgsV3 result" where
  "GenericExtraArgsV3_entry lib key v s =
     (if key = ''block_confirmations'' then put (need ''block_confirmations is not u32'' (GetU32 v)) (\<lambda>x. s\<lparr>GenericExtraArgsV3_BlockConfirmations := x\<rparr>)
      else if key = ''ccv_args'' then put (vec_of ''ccv_args is not a vec'' (bytes_item ''vec item is not bytes'') v) (\<lambda>x. s\<lparr>GenericExtraArgsV3_CcvArgs := x\<rparr>)
      else if key = ''ccvs'' then put (vec_of ''ccvs is not a vec'' (AddressFromScVal lib) v) (\<lambda>x. s\<lparr>GenericExtraArgsV3_Ccvs := x\<rparr>)
      else if key = ''executor'' then put (named ''executor'' (AddressFromScVal lib v)) (\<lambda>x. s\<lparr>GenericExtraArgsV3_Executor := x\<rparr>)
      else if key = ''executor_args'' then put (need ''executor_args is not bytes'' (GetBytes v)) (\<lambda>x. s\<lparr>GenericExtraArgsV3_ExecutorArgs := x\<rparr>)
      else if key = ''gas_limit'' then put (need ''gas_limit is not u32'' (GetU32 v)) (\<lambda>x. s\<lparr>GenericExtraArgsV3_GasLimit := x\<rparr>)
      else if key = ''token_args'' then put (need ''token_args is not bytes'' (GetBytes v)) (\<lambda>x. s\<lparr>GenericExtraArgsV3_TokenArgs := x\<rparr>)
      else if key = ''token_receiver'' then put (need ''token_receiver is not bytes'' (GetBytes v)) (\<lambda>x. s\<lparr>GenericExtraArgsV3_TokenReceiver := x\<rparr>)
      else Ok s)"

definition GenericExtraArgsV3FromScVal :: "sdk \<Rightarrow> ScVal \<Rightarrow> GenericExtraArgsV3 result" where
  "GenericExtraArgsV3FromScVal lib = parse_struct ''not a map type'' (GenericExtraArgsV3_entry lib) zero_GenericExtraArgsV3"

record AnyToStellarMessage =
  AnyToStellarMessage_Data :: bytes
  AnyToStellarMessage_DestTokenAmounts :: "TokenAmount list"
  AnyToStellarMessage_MessageId :: bytes
  AnyToStellarMessage_Sender :: bytes
  AnyToStellarMessage_SourceChainSelector :: int

definition zero_AnyToStellarMessage :: AnyToStellarMessage where
  "zero_AnyToStellarMessage = \<lparr>AnyToStellarMessage_Data = [], AnyToStellarMessage_DestTokenAmounts = [],
     AnyToStellarMessage_MessageId = replicate 32 0, AnyToStellarMessage_Sender = [],
     AnyToStellarMessage_SourceChainSelector = 0\<rparr>"

definition AnyToStellarMessage_ToScVal :: "sdk \<Rightarrow> AnyToStellarMessage \<Rightarrow> ScVal result" where
  "AnyToStellarMessage_ToScVal lib s = build_struct [
     (''data'', Ok (BytesToScVal (AnyToStellarMessage_Data s))),
     (''dest_token_amounts'', StructSliceToScVal (TokenAmount_ToScVal lib) (AnyToStellarMessage_DestTokenAmounts s)),
     (''message_id'', Ok (Bytes32ToScVal (AnyToStellarMessage_MessageId s))),
     (''sender'', Ok (BytesToScVal (AnyToStellarMessage_Sender s))),
     (''source_chain_selector'', Ok (Uint64ToScVal (AnyToStellarMessage_SourceChainSelector s)))]"

definition AnyToStellarMessage_entry :: "sdk \<Rightarrow> string \<Rightarrow> ScVal \<Rightarrow> AnyToStellarMessage \<Rightarrow> AnyToStellarMessage result" where
  "AnyToStellarMessage_entry lib key v s =
     (if key = ''data'' then put (need ''data is not bytes'' (GetBytes v)) (\<lambda>x. s\<lparr>AnyToStellarMessage_Data := x\<rparr>)
      else if key = ''dest_token_amounts'' then put (vec_of ''dest_token_amounts is not a vec'' (TokenAmountFromScVal lib) v) (\<lambda>x. s\<lparr>AnyToStellarMessage_DestTokenAmounts := x\<rparr>)
      else if key = ''message_id'' then put (named ''message_id'' (Bytes32FromScVal v)) (\<lambda>x. s\<lparr>AnyToStellarMessage_MessageId := x\<rparr>)
      else if key = ''sender'' then put (need ''sender is not bytes'' (GetBytes v)) (\<lambda>x. s\<lparr>AnyToStellarMessage_Sender := x\<rparr>)
      else if key = ''source_chain_selector'' then put (named ''source_chain_selector'' (Uint64FromScVal v)) (\<lambda>x. s\<lparr>AnyToStellarMessage_SourceChainSelector := x\<rparr>)
      else Ok s)"

definition AnyToStellarMessageFromScVal :: "sdk \<Rightarrow> ScVal \<Rightarrow> AnyToStellarMessage result" where
  "AnyToStellarMessageFromScVal lib = parse_struct ''not a map type'' (AnyToStellarMessage_entry lib) zero_AnyToStellarMessage"

record StellarToAnyMessage =
  StellarToAnyMessage_Data :: bytes
  StellarToAnyMessage_ExtraArgs :: bytes
  StellarToAnyMessage_FeeToken :: string
  StellarToAnyMessage_Receiver :: bytes
  StellarToAnyMessage_TokenAmounts :: "TokenAmount list"

definition zero_StellarToAnyMessage :: StellarToAnyMessage where
  "zero_StellarToAnyMessage = \<lparr>StellarToAnyMessage_Data = [], StellarToAnyMessage_ExtraArgs = [], StellarToAnyMessage_FeeToken = [],
     StellarToAnyMessage_Receiver = [], StellarToAnyMessage_TokenAmounts = []\<rparr>"

definition StellarToAnyMessage_ToScVal :: "sdk \<Rightarrow> StellarToAnyMessage \<Rightarrow> ScVal result" where
  "StellarToAnyMessage_ToScVal lib s = build_struct [
     (''data'', Ok (BytesToScVal (StellarToAnyMessage_Data s))),
     (''extra_args'', Ok (BytesToScVal (StellarToAnyMessage_ExtraArgs s))),
     (''fee_token'', Ok (AddressToScVal lib (StellarToAnyMessage_FeeToken s))),
     (''receiver'', Ok (BytesToScVal (StellarToAnyMessage_Receiver s))),
     (''token_amounts'', StructSliceToScVal (TokenAmount_ToScVal lib) (StellarToAnyMessage_TokenAmounts s))]"

definition StellarToAnyMessage_entry :: "sdk \<Rightarrow> string \<Rightarrow> ScVal \<Rightarrow> StellarToAnyMessage \<Rightarrow> StellarToAnyMessage result" where
  "StellarToAnyMessage_entry lib key v s =
     (if key = ''data'' then put (need ''data is not bytes'' (GetBytes v)) (\<lambda>x. s\<lparr>StellarToAnyMessage_Data := x\<rparr>)
      else if key = ''extra_args'' then put (need ''extra_args is not bytes'' (GetBytes v)) (\<lambda>x. s\<lparr>StellarToAnyMessage_ExtraArgs := x\<rparr>)
      else if key = ''fee_token'' then put (named ''fee_token'' (AddressFromScVal lib v)) (\<lambda>x. s\<lparr>StellarToAnyMessage_FeeToken := x\<rparr>)
      else if key = ''receiver'' then put (need ''receiver is not bytes'' (GetBytes v)) (\<lambda>x. s\<lparr>StellarToAnyMessage_Receiver := x\<rparr>)
      else if key = ''token_amounts'' then put (vec_of ''token_amounts is not a vec'' (TokenAmountFromScVal lib) v) (\<lambda>x. s\<lparr>StellarToAnyMessage_TokenAmounts := x\<rparr>)
      else Ok s)"

definition StellarToAnyMessageFromScVal :: "sdk \<Rightarrow> ScVal \<Rightarrow> StellarToAnyMessage result" where
  "StellarToAnyMessageFromScVal lib = parse_struct ''not a map type'' (StellarToAnyMessage_entry lib) zero_StellarToAnyMessage"

record RateLimitConfig =
  RateLimitConfig_Capacity :: "int \<times> int"
  RateLimitConfig_IsEnabled :: bool
  RateLimitConfig_Rate :: "int \<times> int"

definition zero_RateLimitConfig :: RateLimitConfig where
  "zero_RateLimitConfig = \<lparr>RateLimitConfig_Capacity = (0, 0), RateLimitConfig_IsEnabled = False, RateLimitConfig_Rate = (0, 0)\<rparr>"

definition RateLimitConfig_ToScVal :: "sdk \<Rightarrow> RateLimitConfig \<Rightarrow> ScVal result" where
  "RateLimitConfig_ToScVal lib s = build_struct [
     (''capacity'', MustToScVal (U128_ToScVal (RateLimitConfig_Capacity s))),
     (''is_enabled'', Ok (BoolToScVal (RateLimitConfig_IsEnabled s))),
     (''rate'', MustToScVal (U128_ToScVal (RateLimitConfig_Rate s)))]"

definition RateLimitConfig_entry :: "sdk \<Rightarrow> string \<Rightarrow> ScVal \<Rightarrow> RateLimitConfig \<Rightarrow> RateLimitConfig result" where
  "RateLimitConfig_entry lib key v s =
     (if key = ''capacity'' then put (named ''capacity'' (U128FromScVal v)) (\<lambda>x. s\<lparr>RateLimitConfig_Capacity := x\<rparr>)
      else if key = ''is_enabled'' then put (need ''is_enabled is not bool'' (GetB v)) (\<lambda>x. s\<lparr>RateLimitConfig_IsEnabled := x\<rparr>)
      else if key = ''rate'' then put (named ''rate'' (U128FromScVal v)) (\<lambda>x. s\<lparr>RateLimitConfig_Rate := x\<rparr>)
      else Ok s)"

definition RateLimitConfigFromScVal :: "sdk \<Rightarrow> ScVal \<Rightarrow> RateLimitConfig result" where
  "RateLimitConfigFromScVal lib = parse_struct ''not a map type'' (RateLimitConfig_entry lib) zero_RateLimitConfig"

record ChainUpdate =
  ChainUpdate_InboundRateLimiterConfig :: RateLimitConfig
  ChainUpdate_OutboundRateLimiterConfig :: RateLimitConfig
  ChainUpdate_RemoteChainSelector :: int
  ChainUpdate_RemotePoolAddresses :: bytes
  ChainUpdate_RemoteTokenAddress :: bytes

definition zero_ChainUpdate :: ChainUpdate where
  "zero_ChainUpdate = \<lparr>ChainUpdate_InboundRateLimiterConfig = zero_RateLimitConfig,
     ChainUpdate_OutboundRateLimiterConfig = zero_RateLimitConfig, ChainUpdate_RemoteChainSelector = 0,
     ChainUpdate_RemotePoolAddresses = [], ChainUpdate_RemoteTokenAddress = []\<rparr>"

definition ChainUpdate_ToScVal :: "sdk \<Rightarrow> ChainUpdate \<Rightarrow> ScVal result" where
  "ChainUpdate_ToScVal lib s = build_struct [
     (''inbound_rate_limiter_config'', MustToScVal (RateLimitConfig_ToScVal lib (ChainUpdate_InboundRateLimiterConfig s))),
     (''outbound_rate_limiter_config'', MustToScVal (RateLimitConfig_ToScVal lib (ChainUpdate_OutboundRateLimiterConfig s))),
     (''remote_chain_selector'', Ok (Uint64ToScVal (ChainUpdate_RemoteChainSelector s))),
     (''remote_pool_addresses'', Ok (BytesToScVal (ChainUpdate_RemotePoolAddresses s))),
     (''remote_token_address'', Ok (BytesToScVal (ChainUpdate_RemoteTokenAddress s)))]"

definition ChainUpdate_entry :: "sdk \<Rightarrow> string \<Rightarrow> ScVal \<Rightarrow> ChainUpdate \<Rightarrow> ChainUpdate result" where
  "ChainUpdate_entry lib key v s =
     (if key = ''inbound_rate_limiter_config'' then put (named ''inbound_rate_limiter_config'' (RateLimitConfigFromScVal lib v)) (\<lambda>x. s\<lparr>ChainUpdate_InboundRateLimiterConfig := x\<rparr>)
      else if key = ''outbound_rate_limiter_config'' then put (named ''outbound_rate_limiter_config'' (RateLimitConfigFromScVal lib v)) (\<lambda>x. s\<lparr>ChainUpdate_OutboundRateLimiterConfig := x\<rparr>)
      else if key = ''remote_chain_selector'' then put (named ''remote_chain_selector'' (Uint64FromScVal v)) (\<lambda>x. s\<lparr>ChainUpdate_RemoteChainSelector := x\<rparr>)
      else if key = ''remote_pool_addresses'' then put (need ''remote_pool_addresses is not bytes'' (GetBytes v)) (\<lambda>x. s\<lparr>ChainUpdate_RemotePoolAddresses := x\<rparr>)
      else if key = ''remote_token_address'' then put (need ''remote_token_address is not bytes'' (GetBytes v)) (\<lambda>x. s\<lparr>ChainUpdate_RemoteTokenAddress := x\<rparr>)
      else Ok s)"

definition ChainUpdateFromScVal :: "sdk \<Rightarrow> ScVal \<Rightarrow> ChainUpdate result" where
  "ChainUpdateFromScVal lib = parse_struct ''not a map type'' (ChainUpdate_entry lib) zero_ChainUpdate"

record TokenBucket =
  TokenBucket_Capacity :: "int \<times> int"
  TokenBucket_IsEnabled :: bool
  TokenBucket_LastUpdated :: int
  TokenBucket_Rate :: "int \<times> int"
  TokenBucket_Tokens :: "int \<times> int"

definition zero_TokenBucket :: TokenBucket where
  "zero_TokenBucket = \<lparr>TokenBucket_Capacity = (0, 0), TokenBucket_IsEnabled = False, TokenBucket_LastUpdated = 0,
     TokenBucket_Rate = (0, 0), TokenBucket_Tokens = (0, 0)\<rparr>"

definition TokenBucket_ToScVal :: "sdk \<Rightarrow> TokenBucket \<Rightarrow> ScVal result" where
  "TokenBucket_ToScVal lib s = build_struct [
     (''capacity'', MustToScVal (U128_ToScVal (TokenBucket_Capacity s))),
     (''is_enabled'', Ok (BoolToScVal (TokenBucket_IsEnabled s))),
     (''last_updated'', Ok (Uint64ToScVal (TokenBucket_LastUpdated s))),
     (''rate'', MustToScVal (U128_ToScVal (TokenBucket_Rate s))),
     (''tokens'', MustToScVal (U128_ToScVal (TokenBucket_Tokens s)))]"

definition TokenBucket_entry :: "sdk \<Rightarrow> string \<Rightarrow> ScVal \<Rightarrow> TokenBucket \<Rightarrow> TokenBucket result" where
  "TokenBucket_entry lib key v s =
     (if key = ''capacity'' then put (named ''capacity'' (U128FromScVal v)) (\<lambda>x. s\<lparr>TokenBucket_Capacity := x\<rparr>)
      else if key = ''is_enabled'' then put (need ''is_enabled is not bool'' (GetB v)) (\<lambda>x. s\<lparr>TokenBucket_IsEnabled := x\<rparr>)
      else if key = ''last_updated'' then put (named ''last_updated'' (Uint64FromScVal v)) (\<lambda>x. s\<lparr>TokenBucket_LastUpdated := x\<rparr>)
      else if key = ''rate'' then put (named ''rate'' (U128FromScVal v)) (\<lambda>x. s\<lparr>TokenBucket_Rate := x\<rparr>)
      else if key = ''tokens'' then put (named ''tokens'' (U128FromScVal v)) (\<lambda>x. s\<lparr>TokenBucket_Tokens := x\<rparr>)
      else Ok s)"

definition TokenBucketFromScVal :: "sdk \<Rightarrow> ScVal \<Rightarrow> TokenBucket result" where
  "TokenBucketFromScVal lib = parse_struct ''not a map type'' (TokenBucket_entry lib) zero_TokenBucket"

record LockOrBurnIn =
  LockOrBurnIn_Amount :: int
  LockOrBurnIn_LocalToken :: string
  LockOrBurnIn_OriginalSender :: string
  LockOrBurnIn_Receiver :: bytes
  LockOrBurnIn_RemoteChainSelector :: int

definition zero_LockOrBurnIn :: LockOrBurnIn where
  "zero_LockOrBurnIn = \<lparr>LockOrBurnIn_Amount = 0, LockOrBurnIn_LocalToken = [], LockOrBurnIn_OriginalSender = [],
     LockOrBurnIn_Receiver = [], LockOrBurnIn_RemoteChainSelector = 0\<rparr>"

definition LockOrBurnIn_ToScVal :: "sdk \<Rightarrow> LockOrBurnIn \<Rightarrow> ScVal result" where
  "LockOrBurnIn_ToScVal lib s = build_struct [
     (''amount'', Ok (I128ToScVal (LockOrBurnIn_Amount s))),
     (''local_token'', Ok (AddressToScVal lib (LockOrBurnIn_LocalToken s))),
     (''original_sender'', Ok (AddressToScVal lib (LockOrBurnIn_OriginalSender s))),
     (''receiver'', Ok (BytesToScVal (LockOrBurnIn_Receiver s))),
     (''remote_chain_selector'', Ok (Uint64ToScVal (LockOrBurnIn_RemoteChainSelector s)))]"

definition LockOrBurnIn_entry :: "sdk \<Rightarrow> string \<Rightarrow> ScVal \<Rightarrow> LockOrBurnIn \<Rightarrow> LockOrBurnIn result" where
  "LockOrBurnIn_entry lib key v s =
     (if key = ''amount'' then put (named ''amount'' (I128FromScVal v)) (\<lambda>x. s\<lparr>LockOrBurnIn_Amount := x\<rparr>)
      else if key = ''local_token'' then put (named ''local_token'' (AddressFromScVal lib v)) (\<lambda>x. s\<lparr>LockOrBurnIn_LocalToken := x\<rparr>)
      else if key = ''original_sender'' then put (named ''original_sender'' (AddressFromScVal lib v)) (\<lambda>x. s\<lparr>LockOrBurnIn_OriginalSender := x\<rparr>)
      else if key = ''receiver'' then put (need ''receiver is not bytes'' (GetBytes v)) (\<lambda>x. s\<lparr>LockOrBurnIn_Receiver := x\<rparr>)
      else if key = ''remote_chain_selector'' then put (named ''remote_chain_selector'' (Uint64FromScVal v)) (\<lambda>x. s\<lparr>LockOrBurnIn_RemoteChainSelector := x\<rparr>)
      else Ok s)"

definition LockOrBurnInFromScVal :: "sdk \<Rightarrow> ScVal \<Rightarrow> LockOrBurnIn result" where
  "LockOrBurnInFromScVal lib = parse_struct ''not a map type'' (LockOrBurnIn_entry lib) zero_LockOrBurnIn"

record LockOrBurnOut =
  LockOrBurnOut_DestPoolData :: bytes
  LockOrBurnOut_DestTokenAddress :: bytes

definition zero_LockOrBurnOut :: LockOrBurnOut where
  "zero_LockOrBurnOut = \<lparr>LockOrBurnOut_DestPoolData = [], LockOrBurnOut_DestTokenAddress = []\<rparr>"

definition LockOrBurnOut_ToScVal :: "sdk \<Rightarrow> LockOrBurnOut \<Rightarrow> ScVal result" where
  "LockOrBurnOut_ToScVal lib s = build_struct [
     (''dest_pool_data'', Ok (BytesToScVal (LockOrBurnOut_DestPoolData s))),
     (''dest_token_address'', Ok (BytesToScVal (LockOrBurnOut_DestTokenAddress s)))]"

definition LockOrBurnOut_entry :: "sdk \<Rightarrow> string \<Rightarrow> ScVal \<Rightarrow> LockOrBurnOut \<Rightarrow> LockOrBurnOut result" where
  "LockOrBurnOut_entry lib key v s =
     (if key = ''dest_pool_data'' then put (need ''dest_pool_data is not bytes'' (GetBytes v)) (\<lambda>x. s\<lparr>LockOrBurnOut_DestPoolData := x\<rparr>)
      else if key = ''dest_token_address'' then put (need ''dest_token_address is not bytes'' (GetBytes v)) (\<lambda>x. s\<lparr>LockOrBurnOut_DestTokenAddress := x\<rparr>)
      else Ok s)"

definition LockOrBurnOutFromScVal :: "sdk \<Rightarrow> ScVal \<Rightarrow> LockOrBurnOut result" where
  "LockOrBurnOutFromScVal lib = parse_struct ''not a map type'' (LockOrBurnOut_entry lib) zero_LockOrBurnOut"

record PoolFeeConfig =
  PoolFeeConfig_FeeUsdCents :: int
  PoolFeeConfig_IsEnabled :: bool

definition zero_PoolFeeConfig :: PoolFeeConfig where
  "zero_PoolFeeConfig = \<lparr>PoolFeeConfig_FeeUsdCents = 0, PoolFeeConfig_IsEnabled = False\<rparr>"

definition PoolFeeConfig_ToScVal :: "sdk \<Rightarrow> PoolFeeConfig \<Rightarrow> ScVal result" where
  "PoolFeeConfig_ToScVal lib s = build_struct [
     (''fee_usd_cents'', Ok (Uint32ToScVal (PoolFeeConfig_FeeUsdCents s))),
     (''is_enabled'', Ok (BoolToScVal (PoolFeeConfig_IsEnabled s)))]"

definition PoolFeeConfig_entry :: "sdk \<Rightarrow> string \<Rightarrow> ScVal \<Rightarrow> PoolFeeConfig \<Rightarrow> PoolFeeConfig result" where
  "PoolFeeConfig_entry lib key v s =
     (if key = ''fee_usd_cents'' then put (need ''fee_usd_cents is not u32'' (GetU32 v)) (\<lambda>x. s\<lparr>PoolFeeConfig_FeeUsdCents := x\<rparr>)
      else if key = ''is_enabled'' then put (need ''is_enabled is not bool'' (GetB v)) (\<lambda>x. s\<lparr>PoolFeeConfig_IsEnabled := x\<rparr>)
      else Ok s)"

definition PoolFeeConfigFromScVal :: "sdk \<Rightarrow> ScVal \<Rightarrow> PoolFeeConfig result" where
  "PoolFeeConfigFromScVal lib = parse_struct ''not a map type'' (PoolFeeConfig_entry lib) zero_PoolFeeConfig"

record PoolFeeResult =
  PoolFeeResult_FeeUsdCents :: int

definition zero_PoolFeeResult :: PoolFeeResult where
  "zero_PoolFeeResult = \<lparr>PoolFeeResult_FeeUsdCents = 0\<rparr>"

definition PoolFeeResult_ToScVal :: "sdk \<Rightarrow> PoolFeeResult \<Rightarrow> ScVal result" where
  "PoolFeeResult_ToScVal lib s = build_struct [
     (''fee_usd_cents'', Ok (Uint32ToScVal (PoolFeeResult_FeeUsdCents s)))]"

definition PoolFeeResult_entry :: "sdk \<Rightarrow> string \<Rightarrow> ScVal \<Rightarrow> PoolFeeResult \<Rightarrow> PoolFeeResult result" where
  "PoolFeeResult_entry lib key v s =
     (if key = ''fee_usd_cents'' then put (need ''fee_usd_cents is not u32'' (GetU32 v)) (\<lambda>x. s\<lparr>PoolFeeResult_FeeUsdCents := x\<rparr>)
      else Ok s)"

definition PoolFeeResultFromScVal :: "sdk \<Rightarrow> ScVal \<Rightarrow> PoolFeeResult result" where
  "PoolFeeResultFromScVal lib = parse_struct ''not a map type'' (PoolFeeResult_entry lib) zero_PoolFeeResult"

record ReleaseOrMintIn =
  ReleaseOrMintIn_Amount :: int
  ReleaseOrMintIn_LocalToken :: string
  ReleaseOrMintIn_OriginalSender :: bytes
  ReleaseOrMintIn_Receiver :: string
  ReleaseOrMintIn_RemoteChainSelector :: int
  ReleaseOrMintIn_SourcePoolAddress :: bytes
  ReleaseOrMintIn_SourcePoolData :: bytes

definition zero_ReleaseOrMintIn :: ReleaseOrMintIn where
  "zero_ReleaseOrMintIn = \<lparr>ReleaseOrMintIn_Amount = 0, ReleaseOrMintIn_LocalToken = [], ReleaseOrMintIn_OriginalSender = [],
     ReleaseOrMintIn_Receiver = [], ReleaseOrMintIn_RemoteChainSelector = 0, ReleaseOrMintIn_SourcePoolAddress = [],
     ReleaseOrMintIn_SourcePoolData = []\<rparr>"

definition ReleaseOrMintIn_ToScVal :: "sdk \<Rightarrow> ReleaseOrMintIn \<Rightarrow> ScVal result" where
  "ReleaseOrMintIn_ToScVal lib s = build_struct [
     (''amount'', Ok (I128ToScVal (ReleaseOrMintIn_Amount s))),
     (''local_token'', Ok (AddressToScVal lib (ReleaseOrMintIn_LocalToken s))),
     (''original_sender'', Ok (BytesToScVal (ReleaseOrMintIn_OriginalSender s))),
     (''receiver'', Ok (AddressToScVal lib (ReleaseOrMintIn_Receiver s))),
     (''remote_chain_selector'', Ok (Uint64ToScVal (ReleaseOrMintIn_RemoteChainSelector s))),
     (''source_pool_address'', Ok (BytesToScVal (ReleaseOrMintIn_SourcePoolAddress s))),
     (''source_pool_data'', Ok (BytesToScVal (ReleaseOrMintIn_SourcePoolData s)))]"

definition ReleaseOrMintIn_entry :: "sdk \<Rightarrow> string \<Rightarrow> ScVal \<Rightarrow> ReleaseOrMintIn \<Rightarrow> ReleaseOrMintIn result" where
  "ReleaseOrMintIn_entry lib key v s =
     (if key = ''amount'' then put (named ''amount'' (I128FromScVal v)) (\<lambda>x. s\<lparr>ReleaseOrMintIn_Amount := x\<rparr>)
      else if key = ''local_token'' then put (named ''local_token'' (AddressFromScVal lib v)) (\<lambda>x. s\<lparr>ReleaseOrMintIn_LocalToken := x\<rparr>)
      else if key = ''original_sender'' then put (need ''original_sender is not bytes'' (GetBytes v)) (\<lambda>x. s\<lparr>ReleaseOrMintIn_OriginalSender := x\<rparr>)
      else if key = ''receiver'' then put (named ''receiver'' (AddressFromScVal lib v)) (\<lambda>x. s\<lparr>ReleaseOrMintIn_Receiver := x\<rparr>)
      else if key = ''remote_chain_selector'' then put (named ''remote_chain_selector'' (Uint64FromScVal v)) (\<lambda>x. s\<lparr>ReleaseOrMintIn_RemoteChainSelector := x\<rparr>)
      else if key = ''source_pool_address'' then put (need ''source_pool_address is not bytes'' (GetBytes v)) (\<lambda>x. s\<lparr>ReleaseOrMintIn_SourcePoolAddress := x\<rparr>)
      else if key = ''source_pool_data'' then put (need ''source_pool_data is not bytes'' (GetBytes v)) (\<lambda>x. s\<lparr>ReleaseOrMintIn_SourcePoolData := x\<rparr>)
      else Ok s)"

definition ReleaseOrMintInFromScVal :: "sdk \<Rightarrow> ScVal \<Rightarrow> ReleaseOrMintIn result" where
  "ReleaseOrMintInFromScVal lib = parse_struct ''not a map type'' (ReleaseOrMintIn_entry lib) zero_ReleaseOrMintIn"

record PoolRequiredCCVs =
  PoolRequiredCCVs_Ccvs :: "string list"
  PoolRequiredCCVs_IncludeDefaults :: bool

definition zero_PoolRequiredCCVs :: PoolRequiredCCVs where
  "zero_PoolRequiredCCVs = \<lparr>PoolRequiredCCVs_Ccvs = [], PoolRequiredCCVs_IncludeDefaults = False\<rparr>"

definition PoolRequiredCCVs_ToScVal :: "sdk \<Rightarrow> PoolRequiredCCVs \<Rightarrow> ScVal result" where
  "PoolRequiredCCVs_ToScVal lib s = build_struct [
     (''ccvs'', Ok (AddressSliceToScVal lib (PoolRequiredCCVs_Ccvs s))),
     (''include_defaults'', Ok (BoolToScVal (PoolRequiredCCVs_IncludeDefaults s)))]"

definition PoolRequiredCCVs_entry :: "sdk \<Rightarrow> string \<Rightarrow> ScVal \<Rightarrow> PoolRequiredCCVs \<Rightarrow> PoolRequiredCCVs result" where
  "PoolRequiredCCVs_entry lib key v s =
     (if key = ''ccvs'' then put (vec_of ''ccvs is not a vec'' (AddressFromScVal lib) v) (\<lambda>x. s\<lparr>PoolRequiredCCVs_Ccvs := x\<rparr>)
      else if key = ''include_defaults'' then put (need ''include_defaults is not bool'' (GetB v)) (\<lambda>x. s\<lparr>PoolRequiredCCVs_IncludeDefaults := x\<rparr>)
      else Ok s)"

definition PoolRequiredCCVsFromScVal :: "sdk \<Rightarrow> ScVal \<Rightarrow> PoolRequiredCCVs result" where
  "PoolRequiredCCVsFromScVal lib = parse_struct ''not a map type'' (PoolRequiredCCVs_entry lib) zero_PoolRequiredCCVs"

record RateLimiterState =
  RateLimiterState_Inbound :: TokenBucket
  RateLimiterState_Outbound :: TokenBucket

definition zero_RateLimiterState :: RateLimiterState where
  "zero_RateLimiterState = \<lparr>RateLimiterState_Inbound = zero_TokenBucket, RateLimiterState_Outbound = zero_TokenBucket\<rparr>"

definition RateLimiterState_ToScVal :: "sdk \<Rightarrow> RateLimiterState \<Rightarrow> ScVal result" where
  "RateLimiterState_ToScVal lib s = build_struct [
     (''inbound'', MustToScVal (TokenBucket_ToScVal lib (RateLimiterState_Inbound s))),
     (''outbound'', MustToScVal (TokenBucket_ToScVal lib (RateLimiterState_Outbound s)))]"

definition RateLimiterState_entry :: "sdk \<Rightarrow> string \<Rightarrow> ScVal \<Rightarrow> RateLimiterState \<Rightarrow> RateLimiterState result" where
  "RateLimiterState_entry lib key v s =
     (if key = ''inbound'' then put (named ''inbound'' (TokenBucketFromScVal lib v)) (\<lambda>x. s\<lparr>RateLimiterState_Inbound := x\<rparr>)
      else if key = ''outbound'' then put (named ''outbound'' (TokenBucketFromScVal lib v)) (\<lambda>x. s\<lparr>RateLimiterState_Outbound := x\<rparr>)
      else Ok s)"

definition RateLimiterStateFromScVal :: "sdk \<Rightarrow> ScVal \<Rightarrow> RateLimiterState result" where
  "RateLimiterStateFromScVal lib = parse_struct ''not a map type'' (RateLimiterState_entry lib) zero_RateLimiterState"

record ReleaseOrMintOut =
  ReleaseOrMintOut_DestinationAmount :: int

definition zero_ReleaseOrMintOut :: ReleaseOrMintOut where
  "zero_ReleaseOrMintOut = \<lparr>ReleaseOrMintOut_DestinationAmount = 0\<rparr>"

definition ReleaseOrMintOut_ToScVal :: "sdk \<Rightarrow> ReleaseOrMintOut \<Rightarrow> ScVal result" where
  "ReleaseOrMintOut_ToScVal lib s = build_struct [
     (''destination_amount'', Ok (I128ToScVal (ReleaseOrMintOut_DestinationAmount s)))]"

definition ReleaseOrMintOut_entry :: "sdk \<Rightarrow> string \<Rightarrow> ScVal \<Rightarrow> ReleaseOrMintOut \<Rightarrow> ReleaseOrMintOut result" where
  "ReleaseOrMintOut_entry lib key v s =
     (if key = ''destination_amount'' then put (named ''destination_amount'' (I128FromScVal v)) (\<lambda>x. s\<lparr>ReleaseOrMintOut_DestinationAmount := x\<rparr>)
      else Ok s)"

definition ReleaseOrMintOutFromScVal :: "sdk \<Rightarrow> ScVal \<Rightarrow> ReleaseOrMintOut result" where
  "ReleaseOrMintOutFromScVal lib = parse_struct ''not a map type'' (ReleaseOrMintOut_entry lib) zero_ReleaseOrMintOut"

record RemoteChainConfig =
  RemoteChainConfig_RemotePoolAddress :: bytes
  RemoteChainConfig_RemoteTokenAddress :: bytes

definition zero_RemoteChainConfig :: RemoteChainConfig where
  "zero_RemoteChainConfig = \<lparr>RemoteChainConfig_RemotePoolAddress = [], RemoteChainConfig_RemoteTokenAddress = []\<rparr>"

definition RemoteChainConfig_ToScVal :: "sdk \<Rightarrow> RemoteChainConfig \<Rightarrow> ScVal result" where
  "RemoteChainConfig_ToScVal lib s = build_struct [
     (''remote_pool_address'', Ok (BytesToScVal (RemoteChainConfig_RemotePoolAddress s))),
     (''remote_token_address'', Ok (BytesToScVal (RemoteChainConfig_RemoteTokenAddress s)))]"

definition RemoteChainConfig_entry :: "sdk \<Rightarrow> string \<Rightarrow> ScVal \<Rightarrow> RemoteChainConfig \<Rightarrow> RemoteChainConfig result" where
  "RemoteChainConfig_entry lib key v s =
     (if key = ''remote_pool_address'' then put (need ''remote_pool_address is not bytes'' (GetBytes v)) (\<lambda>x. s\<lparr>RemoteChainConfig_RemotePoolAddress := x\<rparr>)
      else if key = ''remote_token_address'' then put (need ''remote_token_address is not bytes'' (GetBytes v)) (\<lambda>x. s\<lparr>RemoteChainConfig_RemoteTokenAddress := x\<rparr>)
      else Ok s)"

definition RemoteChainConfigFromScVal :: "sdk \<Rightarrow> ScVal \<Rightarrow> RemoteChainConfig result" where
  "RemoteChainConfigFromScVal lib = parse_struct ''not a map type'' (RemoteChainConfig_entry lib) zero_RemoteChainConfig"

record OnRampEntry =
  OnRampEntry_DestChainSelector :: int
  OnRampEntry_Onramp :: string

definition zero_OnRampEntry :: OnRampEntry where
  "zero_OnRampEntry = \<lparr>OnRampEntry_DestChainSelector = 0, OnRampEntry_Onramp = []\<rparr>"

definition OnRampEntry_ToScVal :: "sdk \<Rightarrow> OnRampEntry \<Rightarrow> ScVal result" where
  "OnRampEntry_ToScVal lib s = build_struct [
     (''dest_chain_selector'', Ok (Uint64ToScVal (OnRampEntry_DestChainSelector s))),
     (''onramp'', Ok (AddressToScVal lib (OnRampEntry_Onramp s)))]"

definition OnRampEntry_entry :: "sdk \<Rightarrow> string \<Rightarrow> ScVal \<Rightarrow> OnRampEntry \<Rightarrow> OnRampEntry result" where
  "OnRampEntry_entry lib key v s =
     (if key = ''dest_chain_selector'' then put (named ''dest_chain_selector'' (Uint64FromScVal v)) (\<lambda>x. s\<lparr>OnRampEntry_DestChainSelector := x\<rparr>)
      else if key = ''onramp'' then put (named ''onramp'' (AddressFromScVal lib v)) (\<lambda>x. s\<lparr>OnRampEntry_Onramp := x\<rparr>)
      else Ok s)"

definition OnRampEntryFromScVal :: "sdk \<Rightarrow> ScVal \<Rightarrow> OnRampEntry result" where
  "OnRampEntryFromScVal lib = parse_struct ''not a map type'' (OnRampEntry_entry lib) zero_OnRampEntry"

record OffRampEntry =
  OffRampEntry_Offramp :: string
  OffRampEntry_SourceChainSelector :: int

definition zero_OffRampEntry :: OffRampEntry where
  "zero_OffRampEntry = \<lparr>OffRampEntry_Offramp = [], OffRampEntry_SourceChainSelector = 0\<rparr>"

definition OffRampEntry_ToScVal :: "sdk \<Rightarrow> OffRampEntry \<Rightarrow> ScVal result" where
  "OffRampEntry_ToScVal lib s = build_struct [
     (''offramp'', Ok (AddressToScVal lib (OffRampEntry_Offramp s))),
     (''source_chain_selector'', Ok (Uint64ToScVal (OffRampEntry_SourceChainSelector s)))]"

definition OffRampEntry_entry :: "sdk \<Rightarrow> string \<Rightarrow> ScVal \<Rightarrow> OffRampEntry \<Rightarrow> OffRampEntry result" where
  "OffRampEntry_entry lib key v s =
     (if key = ''offramp'' then put (named ''offramp'' (AddressFromScVal lib v)) (\<lambda>x. s\<lparr>OffRampEntry_Offramp := x\<rparr>)
      else if key = ''source_chain_selector'' then put (named ''source_chain_selector'' (Uint64FromScVal v)) (\<lambda>x. s\<lparr>OffRampEntry_SourceChainSelector := x\<rparr>)
      else Ok s)"

definition OffRampEntryFromScVal :: "sdk \<Rightarrow> ScVal \<Rightarrow> OffRampEntry result" where
  "OffRampEntryFromScVal lib = parse_struct ''not a map type'' (OffRampEntry_entry lib) zero_OffRampEntry"

section \<open>Events\<close>

record RoleGrantedEvent =
  RoleGrantedEvent_Role :: string
  RoleGrantedEvent_Account :: string
  RoleGrantedEvent_Sender :: string
  RoleGrantedEvent_Ledger :: int
  RoleGrantedEvent_TxHash :: string

definition RoleGrantedEvent_entry :: "sdk \<Rightarrow> string \<Rightarrow> ScVal \<Rightarrow> RoleGrantedEvent \<Rightarrow> RoleGrantedEvent result" where
  "RoleGrantedEvent_entry lib key v s =
     (if key = ''role'' then set_if_ok (SymbolFromScVal v) (\<lambda>x s. s\<lparr>RoleGrantedEvent_Role := x\<rparr>) s
      else if key = ''account'' then set_if_ok (AddressFromScVal lib v) (\<lambda>x s. s\<lparr>RoleGrantedEvent_Account := x\<rparr>) s
      else if key = ''sender'' then set_if_ok (AddressFromScVal lib v) (\<lambda>x s. s\<lparr>RoleGrantedEvent_Sender := x\<rparr>) s
      else Ok s)"

definition ParseRoleGrantedEvent :: "sdk \<Rightarrow> EventInfo \<Rightarrow> RoleGrantedEvent result" where
  "ParseRoleGrantedEvent lib = parse_event lib (RoleGrantedEvent_entry lib) (\<lambda>ledger tx.
     \<lparr>RoleGrantedEvent_Role = [], RoleGrantedEvent_Account = [], RoleGrantedEvent_Sender = [],
        RoleGrantedEvent_Ledger = ledger, RoleGrantedEvent_TxHash = tx\<rparr>)"

record RoleRevokedEvent =
  RoleRevokedEvent_Role :: string
  RoleRevokedEvent_Account :: string
  RoleRevokedEvent_Sender :: string
  RoleRevokedEvent_Ledger :: int
  RoleRevokedEvent_TxHash :: string

definition RoleRevokedEvent_entry :: "sdk \<Rightarrow> string \<Rightarrow> ScVal \<Rightarrow> RoleRevokedEvent \<Rightarrow> RoleRevokedEvent result" where
  "RoleRevokedEvent_entry lib key v s =
     (if key = ''role'' then set_if_ok (SymbolFromScVal v) (\<lambda>x s. s\<lparr>RoleRevokedEvent_Role := x\<rparr>) s
      else if key = ''account'' then set_if_ok (AddressFromScVal lib v) (\<lambda>x s. s\<lparr>RoleRevokedEvent_Account := x\<rparr>) s
      else if key = ''sender'' then set_if_ok (AddressFromScVal lib v) (\<lambda>x s. s\<lparr>RoleRevokedEvent_Sender := x\<rparr>) s
      else Ok s)"

definition ParseRoleRevokedEvent :: "sdk \<Rightarrow> EventInfo \<Rightarrow> RoleRevokedEvent result" where
  "ParseRoleRevokedEvent lib = parse_event lib (RoleRevokedEvent_entry lib) (\<lambda>ledger tx.
     \<lparr>RoleRevokedEvent_Role = [], RoleRevokedEvent_Account = [], RoleRevokedEvent_Sender = [],
        RoleRevokedEvent_Ledger = ledger, RoleRevokedEvent_TxHash = tx\<rparr>)"

record AuthorizedCallerAddedEvent =
  AuthorizedCallerAddedEvent_Caller :: string
  AuthorizedCallerAddedEvent_Ledger :: int
  AuthorizedCallerAddedEvent_TxHash :: string

definition AuthorizedCallerAddedEvent_entry :: "sdk \<Rightarrow> string \<Rightarrow> ScVal \<Rightarrow> AuthorizedCallerAddedEvent \<Rightarrow> AuthorizedCallerAddedEvent result" where
  "AuthorizedCallerAddedEvent_entry lib key v s =
     (if key = ''caller'' then set_if_ok (AddressFromScVal lib v) (\<lambda>x s. s\<lparr>AuthorizedCallerAddedEvent_Caller := x\<rparr>) s
      else Ok s)"

definition ParseAuthorizedCallerAddedEvent :: "sdk \<Rightarrow> EventInfo \<Rightarrow> AuthorizedCallerAddedEvent result" where
  "ParseAuthorizedCallerAddedEvent lib = parse_event lib (AuthorizedCallerAddedEvent_entry lib) (\<lambda>ledger tx.
     \<lparr>AuthorizedCallerAddedEvent_Caller = [], AuthorizedCallerAddedEvent_Ledger = ledger,
        AuthorizedCallerAddedEvent_TxHash = tx\<rparr>)"

record AuthorizedCallerRemovedEvent =
  AuthorizedCallerRemovedEvent_Caller :: string
  AuthorizedCallerRemovedEvent_Ledger :: int
  AuthorizedCallerRemovedEvent_TxHash :: string

definition AuthorizedCallerRemovedEvent_entry :: "sdk \<Rightarrow> string \<Rightarrow> ScVal \<Rightarrow> AuthorizedCallerRemovedEvent \<Rightarrow> AuthorizedCallerRemovedEvent result" where
  "AuthorizedCallerRemovedEvent_entry lib key v s =
     (if key = ''caller'' then set_if_ok (AddressFromScVal lib v) (\<lambda>x s. s\<lparr>AuthorizedCallerRemovedEvent_Caller := x\<rparr>) s
      else Ok s)"

definition ParseAuthorizedCallerRemovedEvent :: "sdk \<Rightarrow> EventInfo \<Rightarrow> AuthorizedCallerRemovedEvent result" where
  "ParseAuthorizedCallerRemovedEvent lib = parse_event lib (AuthorizedCallerRemovedEvent_entry lib) (\<lambda>ledger tx.
     \<lparr>AuthorizedCallerRemovedEvent_Caller = [], AuthorizedCallerRemovedEvent_Ledger = ledger,
        AuthorizedCallerRemovedEvent_TxHash = tx\<rparr>)"

record OwnershipTransferStartedEvent =
  OwnershipTransferStartedEvent_PreviousOwner :: string
  OwnershipTransferStartedEvent_NewOwner :: string
  OwnershipTransferStartedEvent_Ledger :: int
  OwnershipTransferStartedEvent_TxHash :: string

definition OwnershipTransferStartedEvent_entry :: "sdk \<Rightarrow> string \<Rightarrow> ScVal \<Rightarrow> OwnershipTransferStartedEvent \<Rightarrow> OwnershipTransferStartedEvent result" where
  "OwnershipTransferStartedEvent_entry lib key v s =
     (if key = ''previous_owner'' then set_if_ok (AddressFromScVal lib v) (\<lambda>x s. s\<lparr>OwnershipTransferStartedEvent_PreviousOwner := x\<rparr>) s
      else if key = ''new_owner'' then set_if_ok (AddressFromScVal lib v) (\<lambda>x s. s\<lparr>OwnershipTransferStartedEvent_NewOwner := x\<rparr>) s
      else Ok s)"

definition ParseOwnershipTransferStartedEvent :: "sdk \<Rightarrow> EventInfo \<Rightarrow> OwnershipTransferStartedEvent result" where
  "ParseOwnershipTransferStartedEvent lib = parse_event lib (OwnershipTransferStartedEvent_entry lib) (\<lambda>ledger tx.
     \<lparr>OwnershipTransferStartedEvent_PreviousOwner = [], OwnershipTransferStartedEvent_NewOwner = [],
        OwnershipTransferStartedEvent_Ledger = ledger, OwnershipTransferStartedEvent_TxHash = tx\<rparr>)"

record BurnedEvent =
  BurnedEvent_Sender :: string
  BurnedEvent_Amount :: int
  BurnedEvent_Ledger :: int
  BurnedEvent_TxHash :: string

definition BurnedEvent_entry :: "sdk \<Rightarrow> string \<Rightarrow> ScVal \<Rightarrow> BurnedEvent \<Rightarrow> BurnedEvent result" where
  "BurnedEvent_entry lib key v s =
     (if key = ''sender'' then set_if_ok (AddressFromScVal lib v) (\<lambda>x s. s\<lparr>BurnedEvent_Sender := x\<rparr>) s
      else if key = ''amount'' then set_if_ok (I128FromScVal v) (\<lambda>x s. s\<lparr>BurnedEvent_Amount := x\<rparr>) s
      else Ok s)"

definition ParseBurnedEvent :: "sdk \<Rightarrow> EventInfo \<Rightarrow> BurnedEvent result" where
  "ParseBurnedEvent lib = parse_event lib (BurnedEvent_entry lib) (\<lambda>ledger tx.
     \<lparr>BurnedEvent_Sender = [], BurnedEvent_Amount = 0, BurnedEvent_Ledger = ledger, BurnedEvent_TxHash = tx\<rparr>)"

record LockedEvent =
  LockedEvent_Sender :: string
  LockedEvent_Amount :: int
  LockedEvent_Ledger :: int
  LockedEvent_TxHash :: string

definition LockedEvent_entry :: "sdk \<Rightarrow> string \<Rightarrow> ScVal \<Rightarrow> LockedEvent \<Rightarrow> LockedEvent result" where
  "LockedEvent_entry lib key v s =
     (if key = ''sender'' then set_if_ok (AddressFromScVal lib v) (\<lambda>x s. s\<lparr>LockedEvent_Sender := x\<rparr>) s
      else if key = ''amount'' then set_if_ok (I128FromScVal v) (\<lambda>x s. s\<lparr>LockedEvent_Amount := x\<rparr>) s
      else Ok s)"

definition ParseLockedEvent :: "sdk \<Rightarrow> EventInfo \<Rightarrow> LockedEvent result" where
  "ParseLockedEvent lib = parse_event lib (LockedEvent_entry lib) (\<lambda>ledger tx.
     \<lparr>LockedEvent_Sender = [], LockedEvent_Amount = 0, LockedEvent_Ledger = ledger, LockedEvent_TxHash = tx\<rparr>)"

record MintedEvent =
  MintedEvent_Sender :: string
  MintedEvent_Recipient :: string
  MintedEvent_Amount :: int
  MintedEvent_Ledger :: int
  MintedEvent_TxHash :: string

definition MintedEvent_entry :: "sdk \<Rightarrow> string \<Rightarrow> ScVal \<Rightarrow> MintedEvent \<Rightarrow> MintedEvent result" where
  "MintedEvent_entry lib key v s =
     (if key = ''sender'' then set_if_ok (AddressFromScVal lib v) (\<lambda>x s. s\<lparr>MintedEvent_Sender := x\<rparr>) s
      else if key = ''recipient'' then set_if_ok (AddressFromScVal lib v) (\<lambda>x s. s\<lparr>MintedEvent_Recipient := x\<rparr>) s
      else if key = ''amount'' then set_if_ok (I128FromScVal v) (\<lambda>x s. s\<lparr>MintedEvent_Amount := x\<rparr>) s
      else Ok s)"

definition ParseMintedEvent :: "sdk \<Rightarrow> EventInfo \<Rightarrow> MintedEvent result" where
  "ParseMintedEvent lib = parse_event lib (MintedEvent_entry lib) (\<lambda>ledger tx.
     \<lparr>MintedEvent_Sender = [], MintedEvent_Recipient = [], MintedEvent_Amount = 0, MintedEvent_Ledger = ledger,
        MintedEvent_TxHash = tx\<rparr>)"

record ReleasedEvent =
  ReleasedEvent_Sender :: string
  ReleasedEvent_Recipient :: string
  ReleasedEvent_Amount :: int
  ReleasedEvent_Ledger :: int
  ReleasedEvent_TxHash :: string

definition ReleasedEvent_entry :: "sdk \<Rightarrow> string \<Rightarrow> ScVal \<Rightarrow> ReleasedEvent \<Rightarrow> ReleasedEvent result" where
  "ReleasedEvent_entry lib key v s =
     (if key = ''sender'' then set_if_ok (AddressFromScVal lib v) (\<lambda>x s. s\<lparr>ReleasedEvent_Sender := x\<rparr>) s
      else if key = ''recipient'' then set_if_ok (AddressFromScVal lib v) (\<lambda>x s. s\<lparr>ReleasedEvent_Recipient := x\<rparr>) s
      else if key = ''amount'' then set_if_ok (I128FromScVal v) (\<lambda>x s. s\<lparr>ReleasedEvent_Amount := x\<rparr>) s
      else Ok s)"

definition ParseReleasedEvent :: "sdk \<Rightarrow> EventInfo \<Rightarrow> ReleasedEvent result" where
  "ParseReleasedEvent lib = parse_event lib (ReleasedEvent_entry lib) (\<lambda>ledger tx.
     \<lparr>ReleasedEvent_Sender = [], ReleasedEvent_Recipient = [], ReleasedEvent_Amount = 0,
        ReleasedEvent_Ledger = ledger, ReleasedEvent_TxHash = tx\<rparr>)"

record ChainRemovedEvent =
  ChainRemovedEvent_RemoteChainSelector :: int
  ChainRemovedEvent_Ledger :: int
  ChainRemovedEvent_TxHash :: string

definition ChainRemovedEvent_entry :: "sdk \<Rightarrow> string \<Rightarrow> ScVal \<Rightarrow> ChainRemovedEvent \<Rightarrow> ChainRemovedEvent result" where
  "ChainRemovedEvent_entry lib key v s =
     (if key = ''remote_chain_selector'' then set_if_ok (Uint64FromScVal v) (\<lambda>x s. s\<lparr>ChainRemovedEvent_RemoteChainSelector := x\<rparr>) s
      else Ok s)"

definition ParseChainRemovedEvent :: "sdk \<Rightarrow> EventInfo \<Rightarrow> ChainRemovedEvent result" where
  "ParseChainRemovedEvent lib = parse_event lib (ChainRemovedEvent_entry lib) (\<lambda>ledger tx.
     \<lparr>ChainRemovedEvent_RemoteChainSelector = 0, ChainRemovedEvent_Ledger = ledger, ChainRemovedEvent_TxHash = tx\<rparr>)"

record ChainConfiguredEvent =
  ChainConfiguredEvent_RemoteChainSelector :: int
  ChainConfiguredEvent_RemotePoolAddress :: bytes
  ChainConfiguredEvent_RemoteTokenAddress :: bytes
  ChainConfiguredEvent_OutboundRateLimiterConfig :: RateLimitConfig
  ChainConfiguredEvent_InboundRateLimiterConfig :: RateLimitConfig
  ChainConfiguredEvent_Ledger :: int
  ChainConfiguredEvent_TxHash :: string

definition ChainConfiguredEvent_entry :: "sdk \<Rightarrow> string \<Rightarrow> ScVal \<Rightarrow> ChainConfiguredEvent \<Rightarrow> ChainConfiguredEvent result" where
  "ChainConfiguredEvent_entry lib key v s =
     (if key = ''remote_chain_selector'' then set_if_ok (Uint64FromScVal v) (\<lambda>x s. s\<lparr>ChainConfiguredEvent_RemoteChainSelector := x\<rparr>) s
      else if key = ''remote_pool_address'' then set_if (GetBytes v) (\<lambda>x s. s\<lparr>ChainConfiguredEvent_RemotePoolAddress := x\<rparr>) s
      else if key = ''remote_token_address'' then set_if (GetBytes v) (\<lambda>x s. s\<lparr>ChainConfiguredEvent_RemoteTokenAddress := x\<rparr>) s
      else if key = ''outbound_rate_limiter_config'' then set_if_ok (RateLimitConfigFromScVal lib v) (\<lambda>x s. s\<lparr>ChainConfiguredEvent_OutboundRateLimiterConfig := x\<rparr>) s
      else if key = ''inbound_rate_limiter_config'' then set_if_ok (RateLimitConfigFromScVal lib v) (\<lambda>x s. s\<lparr>ChainConfiguredEvent_InboundRateLimiterConfig := x\<rparr>) s
      else Ok s)"

definition ParseChainConfiguredEvent :: "sdk \<Rightarrow> EventInfo \<Rightarrow> ChainConfiguredEvent result" where
  "ParseChainConfiguredEvent lib = parse_event lib (ChainConfiguredEvent_entry lib) (\<lambda>ledger tx.
     \<lparr>ChainConfiguredEvent_RemoteChainSelector = 0, ChainConfiguredEvent_RemotePoolAddress = [],
        ChainConfiguredEvent_RemoteTokenAddress = [],
        ChainConfiguredEvent_OutboundRateLimiterConfig = zero_RateLimitConfig,
        ChainConfiguredEvent_InboundRateLimiterConfig = zero_RateLimitConfig, ChainConfiguredEvent_Ledger = ledger,
        ChainConfiguredEvent_TxHash = tx\<rparr>)"

record FinalityConfigSetEvent =
  FinalityConfigSetEvent_AllowedFinality :: int
  FinalityConfigSetEvent_Ledger :: int
  FinalityConfigSetEvent_TxHash :: string

definition FinalityConfigSetEvent_entry :: "sdk \<Rightarrow> string \<Rightarrow> ScVal \<Rightarrow> FinalityConfigSetEvent \<Rightarrow> FinalityConfigSetEvent result" where
  "FinalityConfigSetEvent_entry lib key v s =
     (if key = ''allowed_finality'' then set_if (GetU32 v) (\<lambda>x s. s\<lparr>FinalityConfigSetEvent_AllowedFinality := x\<rparr>) s
      else Ok s)"

definition ParseFinalityConfigSetEvent :: "sdk \<Rightarrow> EventInfo \<Rightarrow> FinalityConfigSetEvent result" where
  "ParseFinalityConfigSetEvent lib = parse_event lib (FinalityConfigSetEvent_entry lib) (\<lambda>ledger tx.
     \<lparr>FinalityConfigSetEvent_AllowedFinality = 0, FinalityConfigSetEvent_Ledger = ledger,
        FinalityConfigSetEvent_TxHash = tx\<rparr>)"

record FtfInboundConsumedEvent =
  FtfInboundConsumedEvent_RemoteChainSelector :: int
  FtfInboundConsumedEvent_Amount :: int
  FtfInboundConsumedEvent_Ledger :: int
  FtfInboundConsumedEvent_TxHash :: string

definition FtfInboundConsumedEvent_entry :: "sdk \<Rightarrow> string \<Rightarrow> ScVal \<Rightarrow> FtfInboundConsumedEvent \<Rightarrow> FtfInboundConsumedEvent result" where
  "FtfInboundConsumedEvent_entry lib key v s =
     (if key = ''remote_chain_selector'' then set_if_ok (Uint64FromScVal v) (\<lambda>x s. s\<lparr>FtfInboundConsumedEvent_RemoteChainSelector := x\<rparr>) s
      else if key = ''amount'' then set_if_ok (I128FromScVal v) (\<lambda>x s. s\<lparr>FtfInboundConsumedEvent_Amount := x\<rparr>) s
      else Ok s)"

definition ParseFtfInboundConsumedEvent :: "sdk \<Rightarrow> EventInfo \<Rightarrow> FtfInboundConsumedEvent result" where
  "ParseFtfInboundConsumedEvent lib = parse_event lib (FtfInboundConsumedEvent_entry lib) (\<lambda>ledger tx.
     \<lparr>FtfInboundConsumedEvent_RemoteChainSelector = 0, FtfInboundConsumedEvent_Amount = 0,
        FtfInboundConsumedEvent_Ledger = ledger, FtfInboundConsumedEvent_TxHash = tx\<rparr>)"

record FtfOutboundConsumedEvent =
  FtfOutboundConsumedEvent_RemoteChainSelector :: int
  FtfOutboundConsumedEvent_Amount :: int
  FtfOutboundConsumedEvent_Ledger :: int
  FtfOutboundConsumedEvent_TxHash :: string

definition FtfOutboundConsumedEvent_entry :: "sdk \<Rightarrow> string \<Rightarrow> ScVal \<Rightarrow> FtfOutboundConsumedEvent \<Rightarrow> FtfOutboundConsumedEvent result" where
  "FtfOutboundConsumedEvent_entry lib key v s =
     (if key = ''remote_chain_selector'' then set_if_ok (Uint64FromScVal v) (\<lambda>x s. s\<lparr>FtfOutboundConsumedEvent_RemoteChainSelector := x\<rparr>) s
      else if key = ''amount'' then set_if_ok (I128FromScVal v) (\<lambda>x s. s\<lparr>FtfOutboundConsumedEvent_Amount := x\<rparr>) s
      else Ok s)"

definition ParseFtfOutboundConsumedEvent :: "sdk \<Rightarrow> EventInfo \<Rightarrow> FtfOutboundConsumedEvent result" where
  "ParseFtfOutboundConsumedEvent lib = parse_event lib (FtfOutboundConsumedEvent_entry lib) (\<lambda>ledger tx.
     \<lparr>FtfOutboundConsumedEvent_RemoteChainSelector = 0, FtfOutboundConsumedEvent_Amount = 0,
        FtfOutboundConsumedEvent_Ledger = ledger, FtfOutboundConsumedEvent_TxHash = tx\<rparr>)"

record RateLimitConfiguredEvent =
  RateLimitConfiguredEvent_RemoteChainSelector :: int
  RateLimitConfiguredEvent_FastFinality :: bool
  RateLimitConfiguredEvent_OutboundConfig :: RateLimitConfig
  RateLimitConfiguredEvent_InboundConfig :: RateLimitConfig
  RateLimitConfiguredEvent_Ledger :: int
  RateLimitConfiguredEvent_TxHash :: string

definition RateLimitConfiguredEvent_entry :: "sdk \<Rightarrow> string \<Rightarrow> ScVal \<Rightarrow> RateLimitConfiguredEvent \<Rightarrow> RateLimitConfiguredEvent result" where
  "RateLimitConfiguredEvent_entry lib key v s =
     (if key = ''remote_chain_selector'' then set_if_ok (Uint64FromScVal v) (\<lambda>x s. s\<lparr>RateLimitConfiguredEvent_RemoteChainSelector := x\<rparr>) s
      else if key = ''fast_finality'' then set_if (GetB v) (\<lambda>x s. s\<lparr>RateLimitConfiguredEvent_FastFinality := x\<rparr>) s
      else if key = ''outbound_config'' then set_if_ok (RateLimitConfigFromScVal lib v) (\<lambda>x s. s\<lparr>RateLimitConfiguredEvent_OutboundConfig := x\<rparr>) s
      else if key = ''inbound_config'' then set_if_ok (RateLimitConfigFromScVal lib v) (\<lambda>x s. s\<lparr>RateLimitConfiguredEvent_InboundConfig := x\<rparr>) s
      else Ok s)"

definition ParseRateLimitConfiguredEvent :: "sdk \<Rightarrow> EventInfo \<Rightarrow> RateLimitConfiguredEvent result" where
  "ParseRateLimitConfiguredEvent lib = parse_event lib (RateLimitConfiguredEvent_entry lib) (\<lambda>ledger tx.
     \<lparr>RateLimitConfiguredEvent_RemoteChainSelector = 0, RateLimitConfiguredEvent_FastFinality = False,
        RateLimitConfiguredEvent_OutboundConfig = zero_RateLimitConfig,
        RateLimitConfiguredEvent_InboundConfig = zero_RateLimitConfig, RateLimitConfiguredEvent_Ledger = ledger,
        RateLimitConfiguredEvent_TxHash = tx\<rparr>)"

record AdvancedPoolHooksUpdatedEvent =
  AdvancedPoolHooksUpdatedEvent_OldHooks :: "string option"
  AdvancedPoolHooksUpdatedEvent_NewHooks :: "string option"
  AdvancedPoolHooksUpdatedEvent_Ledger :: int
  AdvancedPoolHooksUpdatedEvent_TxHash :: string

definition AdvancedPoolHooksUpdatedEvent_entry :: "sdk \<Rightarrow> string \<Rightarrow> ScVal \<Rightarrow> AdvancedPoolHooksUpdatedEvent \<Rightarrow> AdvancedPoolHooksUpdatedEvent result" where
  "AdvancedPoolHooksUpdatedEvent_entry lib key v s =
     (if key = ''old_hooks'' then set_if_ok (OptionalAddressFromScVal lib v) (\<lambda>x s. s\<lparr>AdvancedPoolHooksUpdatedEvent_OldHooks := x\<rparr>) s
      else if key = ''new_hooks'' then set_if_ok (OptionalAddressFromScVal lib v) (\<lambda>x s. s\<lparr>AdvancedPoolHooksUpdatedEvent_NewHooks := x\<rparr>) s
      else Ok s)"

definition ParseAdvancedPoolHooksUpdatedEvent :: "sdk \<Rightarrow> EventInfo \<Rightarrow> AdvancedPoolHooksUpdatedEvent result" where
  "ParseAdvancedPoolHooksUpdatedEvent lib = parse_event lib (AdvancedPoolHooksUpdatedEvent_entry lib) (\<lambda>ledger tx.
     \<lparr>AdvancedPoolHooksUpdatedEvent_OldHooks = None, AdvancedPoolHooksUpdatedEvent_NewHooks = None,
        AdvancedPoolHooksUpdatedEvent_Ledger = ledger, AdvancedPoolHooksUpdatedEvent_TxHash = tx\<rparr>)"

record InboundRateLimitConsumedEvent =
  InboundRateLimitConsumedEvent_RemoteChainSelector :: int
  InboundRateLimitConsumedEvent_Amount :: int
  InboundRateLimitConsumedEvent_Ledger :: int
  InboundRateLimitConsumedEvent_TxHash :: string

definition InboundRateLimitConsumedEvent_entry :: "sdk \<Rightarrow> string \<Rightarrow> ScVal \<Rightarrow> InboundRateLimitConsumedEvent \<Rightarrow> InboundRateLimitConsumedEvent result" where
  "InboundRateLimitConsumedEvent_entry lib key v s =
     (if key = ''remote_chain_selector'' then set_if_ok (Uint64FromScVal v) (\<lambda>x s. s\<lparr>InboundRateLimitConsumedEvent_RemoteChainSelector := x\<rparr>) s
      else if key = ''amount'' then set_if_ok (I128FromScVal v) (\<lambda>x s. s\<lparr>InboundRateLimitConsumedEvent_Amount := x\<rparr>) s
      else Ok s)"

definition ParseInboundRateLimitConsumedEvent :: "sdk \<Rightarrow> EventInfo \<Rightarrow> InboundRateLimitConsumedEvent result" where
  "ParseInboundRateLimitConsumedEvent lib = parse_event lib (InboundRateLimitConsumedEvent_entry lib) (\<lambda>ledger tx.
     \<lparr>InboundRateLimitConsumedEvent_RemoteChainSelector = 0, InboundRateLimitConsumedEvent_Amount = 0,
        InboundRateLimitConsumedEvent_Ledger = ledger, InboundRateLimitConsumedEvent_TxHash = tx\<rparr>)"

record OutboundRateLimitConsumedEvent =
  OutboundRateLimitConsumedEvent_RemoteChainSelector :: int
  OutboundRateLimitConsumedEvent_Amount :: int
  OutboundRateLimitConsumedEvent_Ledger :: int
  OutboundRateLimitConsumedEvent_TxHash :: string

definition OutboundRateLimitConsumedEvent_entry :: "sdk \<Rightarrow> string \<Rightarrow> ScVal \<Rightarrow> OutboundRateLimitConsumedEvent \<Rightarrow> OutboundRateLimitConsumedEvent result" where
  "OutboundRateLimitConsumedEvent_entry lib key v s =
     (if key = ''remote_chain_selector'' then set_if_ok (Uint64FromScVal v) (\<lambda>x s. s\<lparr>OutboundRateLimitConsumedEvent_RemoteChainSelector := x\<rparr>) s
      else if key = ''amount'' then set_if_ok (I128FromScVal v) (\<lambda>x s. s\<lparr>OutboundRateLimitConsumedEvent_Amount := x\<rparr>) s
      else Ok s)"

definition ParseOutboundRateLimitConsumedEvent :: "sdk \<Rightarrow> EventInfo \<Rightarrow> OutboundRateLimitConsumedEvent result" where
  "ParseOutboundRateLimitConsumedEvent lib = parse_event lib (OutboundRateLimitConsumedEvent_entry lib) (\<lambda>ledger tx.
     \<lparr>OutboundRateLimitConsumedEvent_RemoteChainSelector = 0, OutboundRateLimitConsumedEvent_Amount = 0,
        OutboundRateLimitConsumedEvent_Ledger = ledger, OutboundRateLimitConsumedEvent_TxHash = tx\<rparr>)"

record OwnershipTransferredEvent =
  OwnershipTransferredEvent_NewOwner :: string
  OwnershipTransferredEvent_Ledger :: int
  OwnershipTransferredEvent_TxHash :: string

definition OwnershipTransferredEvent_entry :: "sdk \<Rightarrow> string \<Rightarrow> ScVal \<Rightarrow> OwnershipTransferredEvent \<Rightarrow> OwnershipTransferredEvent result" where
  "OwnershipTransferredEvent_entry lib key v s =
     (if key = ''new_owner'' then set_if_ok (AddressFromScVal lib v) (\<lambda>x s. s\<lparr>OwnershipTransferredEvent_NewOwner := x\<rparr>) s
      else Ok s)"

definition ParseOwnershipTransferredEvent :: "sdk \<Rightarrow> EventInfo \<Rightarrow> OwnershipTransferredEvent result" where
  "ParseOwnershipTransferredEvent lib = parse_event lib (OwnershipTransferredEvent_entry lib) (\<lambda>ledger tx.
     \<lparr>OwnershipTransferredEvent_NewOwner = [], OwnershipTransferredEvent_Ledger = ledger,
        OwnershipTransferredEvent_TxHash = tx\<rparr>)"

record OnRampSetEvent =
  OnRampSetEvent_DestChainSelector :: int
  OnRampSetEvent_Onramp :: string
  OnRampSetEvent_Ledger :: int
  OnRampSetEvent_TxHash :: string

definition OnRampSetEvent_entry :: "sdk \<Rightarrow> string \<Rightarrow> ScVal \<Rightarrow> OnRampSetEvent \<Rightarrow> OnRampSetEvent result" where
  "OnRampSetEvent_entry lib key v s =
     (if key = ''dest_chain_selector'' then set_if_ok (Uint64FromScVal v) (\<lambda>x s. s\<lparr>OnRampSetEvent_DestChainSelector := x\<rparr>) s
      else if key = ''onramp'' then set_if_ok (AddressFromScVal lib v) (\<lambda>x s. s\<lparr>OnRampSetEvent_Onramp := x\<rparr>) s
      else Ok s)"

definition ParseOnRampSetEvent :: "sdk \<Rightarrow> EventInfo \<Rightarrow> OnRampSetEvent result" where
  "ParseOnRampSetEvent lib = parse_event lib (OnRampSetEvent_entry lib) (\<lambda>ledger tx.
     \<lparr>OnRampSetEvent_DestChainSelector = 0, OnRampSetEvent_Onramp = [], OnRampSetEvent_Ledger = ledger,
        OnRampSetEvent_TxHash = tx\<rparr>)"

record OffRampAddedEvent =
  OffRampAddedEvent_SourceChainSelector :: int
  OffRampAddedEvent_Offramp :: string
  OffRampAddedEvent_Ledger :: int
  OffRampAddedEvent_TxHash :: string

definition OffRampAddedEvent_entry :: "sdk \<Rightarrow> string \<Rightarrow> ScVal \<Rightarrow> OffRampAddedEvent \<Rightarrow> OffRampAddedEvent result" where
  "OffRampAddedEvent_entry lib key v s =
     (if key = ''source_chain_selector'' then set_if_ok (Uint64FromScVal v) (\<lambda>x s. s\<lparr>OffRampAddedEvent_SourceChainSelector := x\<rparr>) s
      else if key = ''offramp'' then set_if_ok (AddressFromScVal lib v) (\<lambda>x s. s\<lparr>OffRampAddedEvent_Offramp := x\<rparr>) s
      else Ok s)"

definition ParseOffRampAddedEvent :: "sdk \<Rightarrow> EventInfo \<Rightarrow> OffRampAddedEvent result" where
  "ParseOffRampAddedEvent lib = parse_event lib (OffRampAddedEvent_entry lib) (\<lambda>ledger tx.
     \<lparr>OffRampAddedEvent_SourceChainSelector = 0, OffRampAddedEvent_Offramp = [], OffRampAddedEvent_Ledger = ledger,
        OffRampAddedEvent_TxHash = tx\<rparr>)"

record OffRampRemovedEvent =
  OffRampRemovedEvent_SourceChainSelector :: int
  OffRampRemovedEvent_Offramp :: string
  OffRampRemovedEvent_Ledger :: int
  OffRampRemovedEvent_TxHash :: string

definition OffRampRemovedEvent_entry :: "sdk \<Rightarrow> string \<Rightarrow> ScVal \<Rightarrow> OffRampRemovedEvent \<Rightarrow> OffRampRemovedEvent result" where
  "OffRampRemovedEvent_entry lib key v s =
     (if key = ''source_chain_selector'' then set_if_ok (Uint64FromScVal v) (\<lambda>x s. s\<lparr>OffRampRemovedEvent_SourceChainSelector := x\<rparr>) s
      else if key = ''offramp'' then set_if_ok (AddressFromScVal lib v) (\<lambda>x s. s\<lparr>OffRampRemovedEvent_Offramp := x\<rparr>) s
      else Ok s)"

definition ParseOffRampRemovedEvent :: "sdk \<Rightarrow> EventInfo \<Rightarrow> OffRampRemovedEvent result" where
  "ParseOffRampRemovedEvent lib = parse_event lib (OffRampRemovedEvent_entry lib) (\<lambda>ledger tx.
     \<lparr>OffRampRemovedEvent_SourceChainSelector = 0, OffRampRemovedEvent_Offramp = [],
        OffRampRemovedEvent_Ledger = ledger, OffRampRemovedEvent_TxHash = tx\<rparr>)"

section \<open>Round trips\<close>

definition valid_AllowListEntry :: "sdk \<Rightarrow> AllowListEntry \<Rightarrow> bool" where
  "valid_AllowListEntry lib s \<longleftrightarrow> list_all (is_address lib) (AllowListEntry_Allowlist s)"

lemma AllowListEntry_keys: "sort [''allowlist'', ''allowlist_enabled''] =
    [''allowlist'', ''allowlist_enabled'']"
  by simp

lemma AllowListEntry_codec:
  assumes "sdk_laws lib"
  shows "codec (AllowListEntry_ToScVal lib) (AllowListEntryFromScVal lib) (valid_AllowListEntry lib)"
proof (rule codecI)
  show "\<exists>v. AllowListEntry_ToScVal lib s = Ok v \<and> AllowListEntryFromScVal lib v = Ok s" if ok: "valid_AllowListEntry lib s" for s
    using ok assms
    by (cases s) (simp add: AllowListEntry_ToScVal_def AllowListEntryFromScVal_def AllowListEntry_entry_def zero_AllowListEntry_def valid_AllowListEntry_def
        AllowListEntry_keys struct_codec_simps del: sort_key_simps fold_entries.simps(2))
qed

definition valid_AllowListUpdate :: "sdk \<Rightarrow> AllowListUpdate \<Rightarrow> bool" where
  "valid_AllowListUpdate lib s \<longleftrightarrow> list_all (is_address lib) (AllowListUpdate_AddedAllowlistedSenders s) \<and>
     list_all (is_address lib) (AllowListUpdate_RemovedAllowlistedSenders s)"

lemma AllowListUpdate_keys: "sort [''added_allowlisted_senders'', ''allowlist_enabled'', ''dest_chain_selector'', ''removed_allowlisted_senders''] =
    [''added_allowlisted_senders'', ''allowlist_enabled'', ''dest_chain_selector'', ''removed_allowlisted_senders'']"
  by simp

lemma AllowListUpdate_codec:
  assumes "sdk_laws lib"
  shows "codec (AllowListUpdate_ToScVal lib) (AllowListUpdateFromScVal lib) (valid_AllowListUpdate lib)"
proof (rule codecI)
  show "\<exists>v. AllowListUpdate_ToScVal lib s = Ok v \<and> AllowListUpdateFromScVal lib v = Ok s" if ok: "valid_AllowListUpdate lib s" for s
    using ok assms
    by (cases s) (simp add: AllowListUpdate_ToScVal_def AllowListUpdateFromScVal_def AllowListUpdate_entry_def zero_AllowListUpdate_def valid_AllowListUpdate_def
        AllowListUpdate_keys struct_codec_simps del: sort_key_simps fold_entries.simps(2))
qed

definition valid_TokenAmount :: "sdk \<Rightarrow> TokenAmount \<Rightarrow> bool" where
  "valid_TokenAmount lib s \<longleftrightarrow> in_i64 (TokenAmount_Amount s) \<and> is_address lib (TokenAmount_Token s)"

lemma TokenAmount_keys: "sort [''amount'', ''token''] =
    [''amount'', ''token'']"
  by simp

lemma TokenAmount_codec:
  assumes "sdk_laws lib"
  shows "codec (TokenAmount_ToScVal lib) (TokenAmountFromScVal lib) (valid_TokenAmount lib)"
proof (rule codecI)
  show "\<exists>v. TokenAmount_ToScVal lib s = Ok v \<and> TokenAmountFromScVal lib v = Ok s" if ok: "valid_TokenAmount lib s" for s
    using ok assms
    by (cases s) (simp add: TokenAmount_ToScVal_def TokenAmountFromScVal_def TokenAmount_entry_def zero_TokenAmount_def valid_TokenAmount_def
        TokenAmount_keys struct_codec_simps del: sort_key_simps fold_entries.simps(2))
qed

definition valid_GenericExtraArgsV3 :: "sdk \<Rightarrow> GenericExtraArgsV3 \<Rightarrow> bool" where
  "valid_GenericExtraArgsV3 lib s \<longleftrightarrow> list_all (is_address lib) (GenericExtraArgsV3_Ccvs s) \<and> is_address lib (GenericExtraArgsV3_Executor s)"

lemma GenericExtraArgsV3_keys: "sort [''block_confirmations'', ''ccv_args'', ''ccvs'', ''executor'', ''executor_args'', ''gas_limit'', ''token_args'',
    ''token_receiver''] =
    [''block_confirmations'', ''ccv_args'', ''ccvs'', ''executor'', ''executor_args'', ''gas_limit'', ''token_args'',
     ''token_receiver'']"
  by simp

lemma GenericExtraArgsV3_codec:
  assumes "sdk_laws lib"
  shows "codec (GenericExtraArgsV3_ToScVal lib) (GenericExtraArgsV3FromScVal lib) (valid_GenericExtraArgsV3 lib)"
proof (rule codecI)
  show "\<exists>v. GenericExtraArgsV3_ToScVal lib s = Ok v \<and> GenericExtraArgsV3FromScVal lib v = Ok s" if ok: "valid_GenericExtraArgsV3 lib s" for s
    using ok assms
    by (cases s) (simp add: GenericExtraArgsV3_ToScVal_def GenericExtraArgsV3FromScVal_def GenericExtraArgsV3_entry_def zero_GenericExtraArgsV3_def valid_GenericExtraArgsV3_def
        GenericExtraArgsV3_keys struct_codec_simps del: sort_key_simps fold_entries.simps(2))
qed

definition valid_AnyToStellarMessage :: "sdk \<Rightarrow> AnyToStellarMessage \<Rightarrow> bool" where
  "valid_AnyToStellarMessage lib s \<longleftrightarrow> list_all (valid_TokenAmount lib) (AnyToStellarMessage_DestTokenAmounts s) \<and>
     length (AnyToStellarMessage_MessageId s) = 32"

lemma AnyToStellarMessage_keys: "sort [''data'', ''dest_token_amounts'', ''message_id'', ''sender'', ''source_chain_selector''] =
    [''data'', ''dest_token_amounts'', ''message_id'', ''sender'', ''source_chain_selector'']"
  by simp

lemma AnyToStellarMessage_codec:
  assumes "sdk_laws lib"
  shows "codec (AnyToStellarMessage_ToScVal lib) (AnyToStellarMessageFromScVal lib) (valid_AnyToStellarMessage lib)"
proof (rule codecI)
  show "\<exists>v. AnyToStellarMessage_ToScVal lib s = Ok v \<and> AnyToStellarMessageFromScVal lib v = Ok s" if ok: "valid_AnyToStellarMessage lib s" for s
  proof -
    obtain v1 where o1: "StructSliceToScVal (TokenAmount_ToScVal lib) (AnyToStellarMessage_DestTokenAmounts s) = Ok v1"
      "\<And>msg. vec_of msg (TokenAmountFromScVal lib) v1 = Ok (AnyToStellarMessage_DestTokenAmounts s)"
      using codec_slice [OF TokenAmount_codec [OF assms]] ok unfolding valid_AnyToStellarMessage_def by blast
    show ?thesis using o1 ok assms
      by (cases s) (simp add: AnyToStellarMessage_ToScVal_def AnyToStellarMessageFromScVal_def AnyToStellarMessage_entry_def zero_AnyToStellarMessage_def valid_AnyToStellarMessage_def
        AnyToStellarMessage_keys struct_codec_simps del: sort_key_simps fold_entries.simps(2))
  qed
qed

definition valid_StellarToAnyMessage :: "sdk \<Rightarrow> StellarToAnyMessage \<Rightarrow> bool" where
  "valid_StellarToAnyMessage lib s \<longleftrightarrow> is_address lib (StellarToAnyMessage_FeeToken s) \<and>
     list_all (valid_TokenAmount lib) (StellarToAnyMessage_TokenAmounts s)"

lemma StellarToAnyMessage_keys: "sort [''data'', ''extra_args'', ''fee_token'', ''receiver'', ''token_amounts''] =
    [''data'', ''extra_args'', ''fee_token'', ''receiver'', ''token_amounts'']"
  by simp

lemma StellarToAnyMessage_codec:
  assumes "sdk_laws lib"
  shows "codec (StellarToAnyMessage_ToScVal lib) (StellarToAnyMessageFromScVal lib) (valid_StellarToAnyMessage lib)"
proof (rule codecI)
  show "\<exists>v. StellarToAnyMessage_ToScVal lib s = Ok v \<and> StellarToAnyMessageFromScVal lib v = Ok s" if ok: "valid_StellarToAnyMessage lib s" for s
  proof -
    obtain v1 where o1: "StructSliceToScVal (TokenAmount_ToScVal lib) (StellarToAnyMessage_TokenAmounts s) = Ok v1"
      "\<And>msg. vec_of msg (TokenAmountFromScVal lib) v1 = Ok (StellarToAnyMessage_TokenAmounts s)"
      using codec_slice [OF TokenAmount_codec [OF assms]] ok unfolding valid_StellarToAnyMessage_def by blast
    show ?thesis using o1 ok assms
      by (cases s) (simp add: StellarToAnyMessage_ToScVal_def StellarToAnyMessageFromScVal_def StellarToAnyMessage_entry_def zero_StellarToAnyMessage_def valid_StellarToAnyMessage_def
        StellarToAnyMessage_keys struct_codec_simps del: sort_key_simps fold_entries.simps(2))
  qed
qed

definition valid_RateLimitConfig :: "sdk \<Rightarrow> RateLimitConfig \<Rightarrow> bool" where
  "valid_RateLimitConfig lib s \<longleftrightarrow> True"

lemma RateLimitConfig_keys: "sort [''capacity'', ''is_enabled'', ''rate''] =
    [''capacity'', ''is_enabled'', ''rate'']"
  by simp

lemma RateLimitConfig_codec:
  assumes "sdk_laws lib"
  shows "codec (RateLimitConfig_ToScVal lib) (RateLimitConfigFromScVal lib) (valid_RateLimitConfig lib)"
proof (rule codecI)
  show "\<exists>v. RateLimitConfig_ToScVal lib s = Ok v \<and> RateLimitConfigFromScVal lib v = Ok s" if ok: "valid_RateLimitConfig lib s" for s
    using ok assms
    by (cases s) (simp add: RateLimitConfig_ToScVal_def RateLimitConfigFromScVal_def RateLimitConfig_entry_def zero_RateLimitConfig_def valid_RateLimitConfig_def
        RateLimitConfig_keys struct_codec_simps del: sort_key_simps fold_entries.simps(2))
qed

definition valid_ChainUpdate :: "sdk \<Rightarrow> ChainUpdate \<Rightarrow> bool" where
  "valid_ChainUpdate lib s \<longleftrightarrow> valid_RateLimitConfig lib (ChainUpdate_InboundRateLimiterConfig s) \<and>
     valid_RateLimitConfig lib (ChainUpdate_OutboundRateLimiterConfig s)"

lemma ChainUpdate_keys: "sort [''inbound_rate_limiter_config'', ''outbound_rate_limiter_config'', ''remote_chain_selector'',
    ''remote_pool_addresses'', ''remote_token_address''] =
    [''inbound_rate_limiter_config'', ''outbound_rate_limiter_config'', ''remote_chain_selector'',
     ''remote_pool_addresses'', ''remote_token_address'']"
  by simp

lemma ChainUpdate_codec:
  assumes "sdk_laws lib"
  shows "codec (ChainUpdate_ToScVal lib) (ChainUpdateFromScVal lib) (valid_ChainUpdate lib)"
proof (rule codecI)
  show "\<exists>v. ChainUpdate_ToScVal lib s = Ok v \<and> ChainUpdateFromScVal lib v = Ok s" if ok: "valid_ChainUpdate lib s" for s
  proof -
    obtain v1 where o1: "MustToScVal (RateLimitConfig_ToScVal lib (ChainUpdate_InboundRateLimiterConfig s)) = Ok v1" "RateLimitConfigFromScVal lib v1 = Ok (ChainUpdate_InboundRateLimiterConfig s)"
      using codec_must [OF RateLimitConfig_codec [OF assms]] ok unfolding valid_ChainUpdate_def by blast
    obtain v2 where o2: "MustToScVal (RateLimitConfig_ToScVal lib (ChainUpdate_OutboundRateLimiterConfig s)) = Ok v2" "RateLimitConfigFromScVal lib v2 = Ok (ChainUpdate_OutboundRateLimiterConfig s)"
      using codec_must [OF RateLimitConfig_codec [OF assms]] ok unfolding valid_ChainUpdate_def by blast
    show ?thesis using o1 o2 ok assms
      by (cases s) (simp add: ChainUpdate_ToScVal_def ChainUpdateFromScVal_def ChainUpdate_entry_def zero_ChainUpdate_def valid_ChainUpdate_def
        ChainUpdate_keys struct_codec_simps del: sort_key_simps fold_entries.simps(2))
  qed
qed

definition valid_TokenBucket :: "sdk \<Rightarrow> TokenBucket \<Rightarrow> bool" where
  "valid_TokenBucket lib s \<longleftrightarrow> True"

lemma TokenBucket_keys: "sort [''capacity'', ''is_enabled'', ''last_updated'', ''rate'', ''tokens''] =
    [''capacity'', ''is_enabled'', ''last_updated'', ''rate'', ''tokens'']"
  by simp

lemma TokenBucket_codec:
  assumes "sdk_laws lib"
  shows "codec (TokenBucket_ToScVal lib) (TokenBucketFromScVal lib) (valid_TokenBucket lib)"
proof (rule codecI)
  show "\<exists>v. TokenBucket_ToScVal lib s = Ok v \<and> TokenBucketFromScVal lib v = Ok s" if ok: "valid_TokenBucket lib s" for s
    using ok assms
    by (cases s) (simp add: TokenBucket_ToScVal_def TokenBucketFromScVal_def TokenBucket_entry_def zero_TokenBucket_def valid_TokenBucket_def
        TokenBucket_keys struct_codec_simps del: sort_key_simps fold_entries.simps(2))
qed

definition valid_LockOrBurnIn :: "sdk \<Rightarrow> LockOrBurnIn \<Rightarrow> bool" where
  "valid_LockOrBurnIn lib s \<longleftrightarrow> in_i64 (LockOrBurnIn_Amount s) \<and> is_address lib (LockOrBurnIn_LocalToken s) \<and>
     is_address lib (LockOrBurnIn_OriginalSender s)"

lemma LockOrBurnIn_keys: "sort [''amount'', ''local_token'', ''original_sender'', ''receiver'', ''remote_chain_selector''] =
    [''amount'', ''local_token'', ''original_sender'', ''receiver'', ''remote_chain_selector'']"
  by simp

lemma LockOrBurnIn_codec:
  assumes "sdk_laws lib"
  shows "codec (LockOrBurnIn_ToScVal lib) (LockOrBurnInFromScVal lib) (valid_LockOrBurnIn lib)"
proof (rule codecI)
  show "\<exists>v. LockOrBurnIn_ToScVal lib s = Ok v \<and> LockOrBurnInFromScVal lib v = Ok s" if ok: "valid_LockOrBurnIn lib s" for s
    using ok assms
    by (cases s) (simp add: LockOrBurnIn_ToScVal_def LockOrBurnInFromScVal_def LockOrBurnIn_entry_def zero_LockOrBurnIn_def valid_LockOrBurnIn_def
        LockOrBurnIn_keys struct_codec_simps del: sort_key_simps fold_entries.simps(2))
qed

definition valid_LockOrBurnOut :: "sdk \<Rightarrow> LockOrBurnOut \<Rightarrow> bool" where
  "valid_LockOrBurnOut lib s \<longleftrightarrow> True"

lemma LockOrBurnOut_keys: "sort [''dest_pool_data'', ''dest_token_address''] =
    [''dest_pool_data'', ''dest_token_address'']"
  by simp

lemma LockOrBurnOut_codec:
  assumes "sdk_laws lib"
  shows "codec (LockOrBurnOut_ToScVal lib) (LockOrBurnOutFromScVal lib) (valid_LockOrBurnOut lib)"
proof (rule codecI)
  show "\<exists>v. LockOrBurnOut_ToScVal lib s = Ok v \<and> LockOrBurnOutFromScVal lib v = Ok s" if ok: "valid_LockOrBurnOut lib s" for s
    using ok assms
    by (cases s) (simp add: LockOrBurnOut_ToScVal_def LockOrBurnOutFromScVal_def LockOrBurnOut_entry_def zero_LockOrBurnOut_def valid_LockOrBurnOut_def
        LockOrBurnOut_keys struct_codec_simps del: sort_key_simps fold_entries.simps(2))
qed

definition valid_PoolFeeConfig :: "sdk \<Rightarrow> PoolFeeConfig \<Rightarrow> bool" where
  "valid_PoolFeeConfig lib s \<longleftrightarrow> True"

lemma PoolFeeConfig_keys: "sort [''fee_usd_cents'', ''is_enabled''] =
    [''fee_usd_cents'', ''is_enabled'']"
  by simp

lemma PoolFeeConfig_codec:
  assumes "sdk_laws lib"
  shows "codec (PoolFeeConfig_ToScVal lib) (PoolFeeConfigFromScVal lib) (valid_PoolFeeConfig lib)"
proof (rule codecI)
  show "\<exists>v. PoolFeeConfig_ToScVal lib s = Ok v \<and> PoolFeeConfigFromScVal lib v = Ok s" if ok: "valid_PoolFeeConfig lib s" for s
    using ok assms
    by (cases s) (simp add: PoolFeeConfig_ToScVal_def PoolFeeConfigFromScVal_def PoolFeeConfig_entry_def zero_PoolFeeConfig_def valid_PoolFeeConfig_def
        PoolFeeConfig_keys struct_codec_simps del: sort_key_simps fold_entries.simps(2))
qed

definition valid_PoolFeeResult :: "sdk \<Rightarrow> PoolFeeResult \<Rightarrow> bool" where
  "valid_PoolFeeResult lib s \<longleftrightarrow> True"

lemma PoolFeeResult_keys: "sort [''fee_usd_cents''] =
    [''fee_usd_cents'']"
  by simp

lemma PoolFeeResult_codec:
  assumes "sdk_laws lib"
  shows "codec (PoolFeeResult_ToScVal lib) (PoolFeeResultFromScVal lib) (valid_PoolFeeResult lib)"
proof (rule codecI)
  show "\<exists>v. PoolFeeResult_ToScVal lib s = Ok v \<and> PoolFeeResultFromScVal lib v = Ok s" if ok: "valid_PoolFeeResult lib s" for s
    using ok assms
    by (cases s) (simp add: PoolFeeResult_ToScVal_def PoolFeeResultFromScVal_def PoolFeeResult_entry_def zero_PoolFeeResult_def valid_PoolFeeResult_def
        PoolFeeResult_keys struct_codec_simps del: sort_key_simps fold_entries.simps(2))
qed

definition valid_ReleaseOrMintIn :: "sdk \<Rightarrow> ReleaseOrMintIn \<Rightarrow> bool" where
  "valid_ReleaseOrMintIn lib s \<longleftrightarrow> in_i64 (ReleaseOrMintIn_Amount s) \<and> is_address lib (ReleaseOrMintIn_LocalToken s) \<and>
     is_address lib (ReleaseOrMintIn_Receiver s)"

lemma ReleaseOrMintIn_keys: "sort [''amount'', ''local_token'', ''original_sender'', ''receiver'', ''remote_chain_selector'',
    ''source_pool_address'', ''source_pool_data''] =
    [''amount'', ''local_token'', ''original_sender'', ''receiver'', ''remote_chain_selector'',
     ''source_pool_address'', ''source_pool_data'']"
  by simp

lemma ReleaseOrMintIn_codec:
  assumes "sdk_laws lib"
  shows "codec (ReleaseOrMintIn_ToScVal lib) (ReleaseOrMintInFromScVal lib) (valid_ReleaseOrMintIn lib)"
proof (rule codecI)
  show "\<exists>v. ReleaseOrMintIn_ToScVal lib s = Ok v \<and> ReleaseOrMintInFromScVal lib v = Ok s" if ok: "valid_ReleaseOrMintIn lib s" for s
    using ok assms
    by (cases s) (simp add: ReleaseOrMintIn_ToScVal_def ReleaseOrMintInFromScVal_def ReleaseOrMintIn_entry_def zero_ReleaseOrMintIn_def valid_ReleaseOrMintIn_def
        ReleaseOrMintIn_keys struct_codec_simps del: sort_key_simps fold_entries.simps(2))
qed

definition valid_PoolRequiredCCVs :: "sdk \<Rightarrow> PoolRequiredCCVs \<Rightarrow> bool" where
  "valid_PoolRequiredCCVs lib s \<longleftrightarrow> list_all (is_address lib) (PoolRequiredCCVs_Ccvs s)"

lemma PoolRequiredCCVs_keys: "sort [''ccvs'', ''include_defaults''] =
    [''ccvs'', ''include_defaults'']"
  by simp

lemma PoolRequiredCCVs_codec:
  assumes "sdk_laws lib"
  shows "codec (PoolRequiredCCVs_ToScVal lib) (PoolRequiredCCVsFromScVal lib) (valid_PoolRequiredCCVs lib)"
proof (rule codecI)
  show "\<exists>v. PoolRequiredCCVs_ToScVal lib s = Ok v \<and> PoolRequiredCCVsFromScVal lib v = Ok s" if ok: "valid_PoolRequiredCCVs lib s" for s
    using ok assms
    by (cases s) (simp add: PoolRequiredCCVs_ToScVal_def PoolRequiredCCVsFromScVal_def PoolRequiredCCVs_entry_def zero_PoolRequiredCCVs_def valid_PoolRequiredCCVs_def
        PoolRequiredCCVs_keys struct_codec_simps del: sort_key_simps fold_entries.simps(2))
qed

definition valid_RateLimiterState :: "sdk \<Rightarrow> RateLimiterState \<Rightarrow> bool" where
  "valid_RateLimiterState lib s \<longleftrightarrow> valid_TokenBucket lib (RateLimiterState_Inbound s) \<and> valid_TokenBucket lib (RateLimiterState_Outbound s)"

lemma RateLimiterState_keys: "sort [''inbound'', ''outbound''] =
    [''inbound'', ''outbound'']"
  by simp

lemma RateLimiterState_codec:
  assumes "sdk_laws lib"
  shows "codec (RateLimiterState_ToScVal lib) (RateLimiterStateFromScVal lib) (valid_RateLimiterState lib)"
proof (rule codecI)
  show "\<exists>v. RateLimiterState_ToScVal lib s = Ok v \<and> RateLimiterStateFromScVal lib v = Ok s" if ok: "valid_RateLimiterState lib s" for s
  proof -
    obtain v1 where o1: "MustToScVal (TokenBucket_ToScVal lib (RateLimiterState_Inbound s)) = Ok v1" "TokenBucketFromScVal lib v1 = Ok (RateLimiterState_Inbound s)"
      using codec_must [OF TokenBucket_codec [OF assms]] ok unfolding valid_RateLimiterState_def by blast
    obtain v2 where o2: "MustToScVal (TokenBucket_ToScVal lib (RateLimiterState_Outbound s)) = Ok v2" "TokenBucketFromScVal lib v2 = Ok (RateLimiterState_Outbound s)"
      using codec_must [OF TokenBucket_codec [OF assms]] ok unfolding valid_RateLimiterState_def by blast
    show ?thesis using o1 o2 ok assms
      by (cases s) (simp add: RateLimiterState_ToScVal_def RateLimiterStateFromScVal_def RateLimiterState_entry_def zero_RateLimiterState_def valid_RateLimiterState_def
        RateLimiterState_keys struct_codec_simps del: sort_key_simps fold_entries.simps(2))
  qed
qed

definition valid_ReleaseOrMintOut :: "sdk \<Rightarrow> ReleaseOrMintOut \<Rightarrow> bool" where
  "valid_ReleaseOrMintOut lib s \<longleftrightarrow> in_i64 (ReleaseOrMintOut_DestinationAmount s)"

lemma ReleaseOrMintOut_keys: "sort [''destination_amount''] =
    [''destination_amount'']"
  by simp

lemma ReleaseOrMintOut_codec:
  assumes "sdk_laws lib"
  shows "codec (ReleaseOrMintOut_ToScVal lib) (ReleaseOrMintOutFromScVal lib) (valid_ReleaseOrMintOut lib)"
proof (rule codecI)
  show "\<exists>v. ReleaseOrMintOut_ToScVal lib s = Ok v \<and> ReleaseOrMintOutFromScVal lib v = Ok s" if ok: "valid_ReleaseOrMintOut lib s" for s
    using ok assms
    by (cases s) (simp add: ReleaseOrMintOut_ToScVal_def ReleaseOrMintOutFromScVal_def ReleaseOrMintOut_entry_def zero_ReleaseOrMintOut_def valid_ReleaseOrMintOut_def
        ReleaseOrMintOut_keys struct_codec_simps del: sort_key_simps fold_entries.simps(2))
qed

definition valid_RemoteChainConfig :: "sdk \<Rightarrow> RemoteChainConfig \<Rightarrow> bool" where
  "valid_RemoteChainConfig lib s \<longleftrightarrow> True"

lemma RemoteChainConfig_keys: "sort [''remote_pool_address'', ''remote_token_address''] =
    [''remote_pool_address'', ''remote_token_address'']"
  by simp

lemma RemoteChainConfig_codec:
  assumes "sdk_laws lib"
  shows "codec (RemoteChainConfig_ToScVal lib) (RemoteChainConfigFromScVal lib) (valid_RemoteChainConfig lib)"
proof (rule codecI)
  show "\<exists>v. RemoteChainConfig_ToScVal lib s = Ok v \<and> RemoteChainConfigFromScVal lib v = Ok s" if ok: "valid_RemoteChainConfig lib s" for s
    using ok assms
    by (cases s) (simp add: RemoteChainConfig_ToScVal_def RemoteChainConfigFromScVal_def RemoteChainConfig_entry_def zero_RemoteChainConfig_def valid_RemoteChainConfig_def
        RemoteChainConfig_keys struct_codec_simps del: sort_key_simps fold_entries.simps(2))
qed

definition valid_OnRampEntry :: "sdk \<Rightarrow> OnRampEntry \<Rightarrow> bool" where
  "valid_OnRampEntry lib s \<longleftrightarrow> is_address lib (OnRampEntry_Onramp s)"

lemma OnRampEntry_keys: "sort [''dest_chain_selector'', ''onramp''] =
    [''dest_chain_selector'', ''onramp'']"
  by simp

lemma OnRampEntry_codec:
  assumes "sdk_laws lib"
  shows "codec (OnRampEntry_ToScVal lib) (OnRampEntryFromScVal lib) (valid_OnRampEntry lib)"
proof (rule codecI)
  show "\<exists>v. OnRampEntry_ToScVal lib s = Ok v \<and> OnRampEntryFromScVal lib v = Ok s" if ok: "valid_OnRampEntry lib s" for s
    using ok assms
    by (cases s) (simp add: OnRampEntry_ToScVal_def OnRampEntryFromScVal_def OnRampEntry_entry_def zero_OnRampEntry_def valid_OnRampEntry_def
        OnRampEntry_keys struct_codec_simps del: sort_key_simps fold_entries.simps(2))
qed

definition valid_OffRampEntry :: "sdk \<Rightarrow> OffRampEntry \<Rightarrow> bool" where
  "valid_OffRampEntry lib s \<longleftrightarrow> is_address lib (OffRampEntry_Offramp s)"

lemma OffRampEntry_keys: "sort [''offramp'', ''source_chain_selector''] =
    [''offramp'', ''source_chain_selector'']"
  by simp

lemma OffRampEntry_codec:
  assumes "sdk_laws lib"
  shows "codec (OffRampEntry_ToScVal lib) (OffRampEntryFromScVal lib) (valid_OffRampEntry lib)"
proof (rule codecI)
  show "\<exists>v. OffRampEntry_ToScVal lib s = Ok v \<and> OffRampEntryFromScVal lib v = Ok s" if ok: "valid_OffRampEntry lib s" for s
    using ok assms
    by (cases s) (simp add: OffRampEntry_ToScVal_def OffRampEntryFromScVal_def OffRampEntry_entry_def zero_OffRampEntry_def valid_OffRampEntry_def
        OffRampEntry_keys struct_codec_simps del: sort_key_simps fold_entries.simps(2))
qed

end
