(* ===== verification/Bind_Timelock.thy ===== *)
theory Bind_Timelock
  imports Bind_Common
begin

text \<open>
  The generated binding of the timelock contract (bindings/contracts/timelock): the types of its own and every
  method of \<open>TimelockClient\<close>.
\<close>

section \<open>Structs\<close>

record Call =
  Call_Data :: bytes
  Call_To :: bytes

definition zero_Call :: Call where
  "zero_Call = \<lparr>Call_Data = [], Call_To = replicate 32 0\<rparr>"

definition Call_ToScVal :: "sdk \<Rightarrow> Call \<Rightarrow> ScVal result" where
  "Call_ToScVal lib s = build_struct [
     (''data'', Ok (BytesToScVal (Call_Data s))), (''to'', Ok (Bytes32ToScVal (Call_To s)))]"

definition Call_entry :: "sdk \<Rightarrow> string \<Rightarrow> ScVal \<Rightarrow> Call \<Rightarrow> Call result" where
  "Call_entry lib key v s =
     (if key = ''data'' then put (need ''data is not bytes'' (GetBytes v)) (\<lambda>x. s\<lparr>Call_Data := x\<rparr>)
      else if key = ''to'' then put (named ''to'' (Bytes32FromScVal v)) (\<lambda>x. s\<lparr>Call_To := x\<rparr>)
      else Ok s)"

definition CallFromScVal :: "sdk \<Rightarrow> ScVal \<Rightarrow> Call result" where
  "CallFromScVal lib = parse_struct ''not a map type'' (Call_entry lib) zero_Call"

record Calls =
  Calls_Inner :: "Call list"

definition zero_Calls :: Calls where
  "zero_Calls = \<lparr>Calls_Inner = []\<rparr>"

definition Calls_ToScVal :: "sdk \<Rightarrow> Calls \<Rightarrow> ScVal result" where
  "Calls_ToScVal lib s = build_struct [
     (''inner'', StructSliceToScVal (Call_ToScVal lib) (Calls_Inner s))]"

definition Calls_entry :: "sdk \<Rightarrow> string \<Rightarrow> ScVal \<Rightarrow> Calls \<Rightarrow> Calls result" where
  "Calls_entry lib key v s =
     (if key = ''inner'' then put (vec_of ''inner is not a vec'' (CallFromScVal lib) v) (\<lambda>x. s\<lparr>Calls_Inner := x\<rparr>)
      else Ok s)"

definition CallsFromScVal :: "sdk \<Rightarrow> ScVal \<Rightarrow> Calls result" where
  "CallsFromScVal lib = parse_struct ''not a map type'' (Calls_entry lib) zero_Calls"

section \<open>Events\<close>

record CancelledEvent =
  CancelledEvent_Id :: bytes
  CancelledEvent_Ledger :: int
  CancelledEvent_TxHash :: string

definition CancelledEvent_entry :: "sdk \<Rightarrow> string \<Rightarrow> ScVal \<Rightarrow> CancelledEvent \<Rightarrow> CancelledEvent result" where
  "CancelledEvent_entry lib key v s =
     (if key = ''id'' then set_if_ok (Bytes32FromScVal v) (\<lambda>x s. s\<lparr>CancelledEvent_Id := x\<rparr>) s
      else Ok s)"

definition ParseCancelledEvent :: "sdk \<Rightarrow> EventInfo \<Rightarrow> CancelledEvent result" where
  "ParseCancelledEvent lib = parse_event lib (CancelledEvent_entry lib) (\<lambda>ledger tx.
     \<lparr>CancelledEvent_Id = replicate 32 0, CancelledEvent_Ledger = ledger, CancelledEvent_TxHash = tx\<rparr>)"

record CallExecutedEvent =
  CallExecutedEvent_Id :: bytes
  CallExecutedEvent_Index :: int
  CallExecutedEvent_To :: bytes
  CallExecutedEvent_Data :: bytes
  CallExecutedEvent_Ledger :: int
  CallExecutedEvent_TxHash :: string

definition CallExecutedEvent_entry :: "sdk \<Rightarrow> string \<Rightarrow> ScVal \<Rightarrow> CallExecutedEvent \<Rightarrow> CallExecutedEvent result" where
  "CallExecutedEvent_entry lib key v s =
     (if key = ''id'' then set_if_ok (Bytes32FromScVal v) (\<lambda>x s. s\<lparr>CallExecutedEvent_Id := x\<rparr>) s
      else if key = ''index'' then set_if (GetU32 v) (\<lambda>x s. s\<lparr>CallExecutedEvent_Index := x\<rparr>) s
      else if key = ''to'' then set_if_ok (Bytes32FromScVal v) (\<lambda>x s. s\<lparr>CallExecutedEvent_To := x\<rparr>) s
      else if key = ''data'' then set_if (GetBytes v) (\<lambda>x s. s\<lparr>CallExecutedEvent_Data := x\<rparr>) s
      else Ok s)"

definition ParseCallExecutedEvent :: "sdk \<Rightarrow> EventInfo \<Rightarrow> CallExecutedEvent result" where
  "ParseCallExecutedEvent lib = parse_event lib (CallExecutedEvent_entry lib) (\<lambda>ledger tx.
     \<lparr>CallExecutedEvent_Id = replicate 32 0, CallExecutedEvent_Index = 0, CallExecutedEvent_To = replicate 32 0,
        CallExecutedEvent_Data = [], CallExecutedEvent_Ledger = ledger, CallExecutedEvent_TxHash = tx\<rparr>)"

record CallScheduledEvent =
  CallScheduledEvent_Id :: bytes
  CallScheduledEvent_Index :: int
  CallScheduledEvent_To :: bytes
  CallScheduledEvent_Data :: bytes
  CallScheduledEvent_Predecessor :: bytes
  CallScheduledEvent_Salt :: bytes
  CallScheduledEvent_Delay :: int
  CallScheduledEvent_Ledger :: int
  CallScheduledEvent_TxHash :: string

definition CallScheduledEvent_entry :: "sdk \<Rightarrow> string \<Rightarrow> ScVal \<Rightarrow> CallScheduledEvent \<Rightarrow> CallScheduledEvent result" where
  "CallScheduledEvent_entry lib key v s =
     (if key = ''id'' then set_if_ok (Bytes32FromScVal v) (\<lambda>x s. s\<lparr>CallScheduledEvent_Id := x\<rparr>) s
      else if key = ''index'' then set_if (GetU32 v) (\<lambda>x s. s\<lparr>CallScheduledEvent_Index := x\<rparr>) s
      else if key = ''to'' then set_if_ok (Bytes32FromScVal v) (\<lambda>x s. s\<lparr>CallScheduledEvent_To := x\<rparr>) s
      else if key = ''data'' then set_if (GetBytes v) (\<lambda>x s. s\<lparr>CallScheduledEvent_Data := x\<rparr>) s
      else if key = ''predecessor'' then set_if_ok (Bytes32FromScVal v) (\<lambda>x s. s\<lparr>CallScheduledEvent_Predecessor := x\<rparr>) s
      else if key = ''salt'' then set_if_ok (Bytes32FromScVal v) (\<lambda>x s. s\<lparr>CallScheduledEvent_Salt := x\<rparr>) s
      else if key = ''delay'' then set_if_ok (Uint64FromScVal v) (\<lambda>x s. s\<lparr>CallScheduledEvent_Delay := x\<rparr>) s
      else Ok s)"

definition ParseCallScheduledEvent :: "sdk \<Rightarrow> EventInfo \<Rightarrow> CallScheduledEvent result" where
  "ParseCallScheduledEvent lib = parse_event lib (CallScheduledEvent_entry lib) (\<lambda>ledger tx.
     \<lparr>CallScheduledEvent_Id = replicate 32 0, CallScheduledEvent_Index = 0, CallScheduledEvent_To = replicate 32 0,
        CallScheduledEvent_Data = [], CallScheduledEvent_Predecessor = replicate 32 0,
        CallScheduledEvent_Salt = replicate 32 0, CallScheduledEvent_Delay = 0, CallScheduledEvent_Ledger = ledger,
        CallScheduledEvent_TxHash = tx\<rparr>)"

record MinDelayChangeEvent =
  MinDelayChangeEvent_OldDuration :: int
  MinDelayChangeEvent_NewDuration :: int
  MinDelayChangeEvent_Ledger :: int
  MinDelayChangeEvent_TxHash :: string

definition MinDelayChangeEvent_entry :: "sdk \<Rightarrow> string \<Rightarrow> ScVal \<Rightarrow> MinDelayChangeEvent \<Rightarrow> MinDelayChangeEvent result" where
  "MinDelayChangeEvent_entry lib key v s =
     (if key = ''old_duration'' then set_if_ok (Uint64FromScVal v) (\<lambda>x s. s\<lparr>MinDelayChangeEvent_OldDuration := x\<rparr>) s
      else if key = ''new_duration'' then set_if_ok (Uint64FromScVal v) (\<lambda>x s. s\<lparr>MinDelayChangeEvent_NewDuration := x\<rparr>) s
      else Ok s)"

definition ParseMinDelayChangeEvent :: "sdk \<Rightarrow> EventInfo \<Rightarrow> MinDelayChangeEvent result" where
  "ParseMinDelayChangeEvent lib = parse_event lib (MinDelayChangeEvent_entry lib) (\<lambda>ledger tx.
     \<lparr>MinDelayChangeEvent_OldDuration = 0, MinDelayChangeEvent_NewDuration = 0,
        MinDelayChangeEvent_Ledger = ledger, MinDelayChangeEvent_TxHash = tx\<rparr>)"

record BypasserCallExecutedEvent =
  BypasserCallExecutedEvent_Index :: int
  BypasserCallExecutedEvent_To :: bytes
  BypasserCallExecutedEvent_Data :: bytes
  BypasserCallExecutedEvent_Ledger :: int
  BypasserCallExecutedEvent_TxHash :: string

definition BypasserCallExecutedEvent_entry :: "sdk \<Rightarrow> string \<Rightarrow> ScVal \<Rightarrow> BypasserCallExecutedEvent \<Rightarrow> BypasserCallExecutedEvent result" where
  "BypasserCallExecutedEvent_entry lib key v s =
     (if key = ''index'' then set_if (GetU32 v) (\<lambda>x s. s\<lparr>BypasserCallExecutedEvent_Index := x\<rparr>) s
      else if key = ''to'' then set_if_ok (Bytes32FromScVal v) (\<lambda>x s. s\<lparr>BypasserCallExecutedEvent_To := x\<rparr>) s
      else if key = ''data'' then set_if (GetBytes v) (\<lambda>x s. s\<lparr>BypasserCallExecutedEvent_Data := x\<rparr>) s
      else Ok s)"

definition ParseBypasserCallExecutedEvent :: "sdk \<Rightarrow> EventInfo \<Rightarrow> BypasserCallExecutedEvent result" where
  "ParseBypasserCallExecutedEvent lib = parse_event lib (BypasserCallExecutedEvent_entry lib) (\<lambda>ledger tx.
     \<lparr>BypasserCallExecutedEvent_Index = 0, BypasserCallExecutedEvent_To = replicate 32 0,
        BypasserCallExecutedEvent_Data = [], BypasserCallExecutedEvent_Ledger = ledger,
        BypasserCallExecutedEvent_TxHash = tx\<rparr>)"

record FunctionSelectorBlockedEvent =
  FunctionSelectorBlockedEvent_Selector :: string
  FunctionSelectorBlockedEvent_Ledger :: int
  FunctionSelectorBlockedEvent_TxHash :: string

definition FunctionSelectorBlockedEvent_entry :: "sdk \<Rightarrow> string \<Rightarrow> ScVal \<Rightarrow> FunctionSelectorBlockedEvent \<Rightarrow> FunctionSelectorBlockedEvent result" where
  "FunctionSelectorBlockedEvent_entry lib key v s =
     (if key = ''selector'' then set_if_ok (SymbolFromScVal v) (\<lambda>x s. s\<lparr>FunctionSelectorBlockedEvent_Selector := x\<rparr>) s
      else Ok s)"

definition ParseFunctionSelectorBlockedEvent :: "sdk \<Rightarrow> EventInfo \<Rightarrow> FunctionSelectorBlockedEvent result" where
  "ParseFunctionSelectorBlockedEvent lib = parse_event lib (FunctionSelectorBlockedEvent_entry lib) (\<lambda>ledger tx.
     \<lparr>FunctionSelectorBlockedEvent_Selector = [], FunctionSelectorBlockedEvent_Ledger = ledger,
        FunctionSelectorBlockedEvent_TxHash = tx\<rparr>)"

record FunctionSelectorUnblockedEvent =
  FunctionSelectorUnblockedEvent_Selector :: string
  FunctionSelectorUnblockedEvent_Ledger :: int
  FunctionSelectorUnblockedEvent_TxHash :: string

definition FunctionSelectorUnblockedEvent_entry :: "sdk \<Rightarrow> string \<Rightarrow> ScVal \<Rightarrow> FunctionSelectorUnblockedEvent \<Rightarrow> FunctionSelectorUnblockedEvent result" where
  "FunctionSelectorUnblockedEvent_entry lib key v s =
     (if key = ''selector'' then set_if_ok (SymbolFromScVal v) (\<lambda>x s. s\<lparr>FunctionSelectorUnblockedEvent_Selector := x\<rparr>) s
      else Ok s)"

definition ParseFunctionSelectorUnblockedEvent :: "sdk \<Rightarrow> EventInfo \<Rightarrow> FunctionSelectorUnblockedEvent result" where
  "ParseFunctionSelectorUnblockedEvent lib = parse_event lib (FunctionSelectorUnblockedEvent_entry lib) (\<lambda>ledger tx.
     \<lparr>FunctionSelectorUnblockedEvent_Selector = [], FunctionSelectorUnblockedEvent_Ledger = ledger,
        FunctionSelectorUnblockedEvent_TxHash = tx\<rparr>)"

section \<open>The client\<close>

definition NewTimelockClient :: "'s Invoker \<Rightarrow> string \<Rightarrow> 's Client" where
  "NewTimelockClient ivk contractID = mk_client ivk contractID"

definition ContractID :: "'s Client \<Rightarrow> string" where
  "ContractID c = cl_contractID c"

definition Cancel :: "sdk \<Rightarrow> 's Client \<Rightarrow> string \<Rightarrow> bytes \<Rightarrow> ('s, unit result) state" where
  "Cancel lib c caller id' = invoke_void c ''cancel'' [Ok (AddressToScVal lib caller), Ok (Bytes32ToScVal id')]"

definition HasRole :: "sdk \<Rightarrow> 's Client \<Rightarrow> string \<Rightarrow> string \<Rightarrow> ('s, bool result) state" where
  "HasRole lib c role account =
     invoke_value c ''has_role'' [
       Ok (SymbolToScVal role), Ok (AddressToScVal lib account)] (\<lambda>v. need ''expected bool return type'' (GetB v))"

definition GrantRole :: "sdk \<Rightarrow> 's Client \<Rightarrow> string \<Rightarrow> string \<Rightarrow> string \<Rightarrow> ('s, unit result) state" where
  "GrantRole lib c caller role account =
     invoke_void c ''grant_role'' [
       Ok (AddressToScVal lib caller), Ok (SymbolToScVal role), Ok (AddressToScVal lib account)]"

definition Initialize :: "sdk \<Rightarrow> 's Client \<Rightarrow> int \<Rightarrow> string \<Rightarrow> string list \<Rightarrow> string list \<Rightarrow> string list \<Rightarrow> string list \<Rightarrow> ('s, unit result) state" where
  "Initialize lib c minDelay admin proposers executors cancellers bypassers =
     invoke_void c ''initialize'' [
       Ok (Uint64ToScVal minDelay), Ok (AddressToScVal lib admin), Ok (AddressSliceToScVal lib proposers),
       Ok (AddressSliceToScVal lib executors), Ok (AddressSliceToScVal lib cancellers),
       Ok (AddressSliceToScVal lib bypassers)]"

definition RevokeRole :: "sdk \<Rightarrow> 's Client \<Rightarrow> string \<Rightarrow> string \<Rightarrow> string \<Rightarrow> ('s, unit result) state" where
  "RevokeRole lib c caller role account =
     invoke_void c ''revoke_role'' [
       Ok (AddressToScVal lib caller), Ok (SymbolToScVal role), Ok (AddressToScVal lib account)]"

definition IsOperation :: "sdk \<Rightarrow> 's Client \<Rightarrow> bytes \<Rightarrow> ('s, bool result) state" where
  "IsOperation lib c id' =
     simulate_value c ''is_operation'' [
       Ok (Bytes32ToScVal id')] (\<lambda>v. need ''expected bool return type'' (GetB v))"

definition UpdateDelay :: "sdk \<Rightarrow> 's Client \<Rightarrow> string \<Rightarrow> int \<Rightarrow> ('s, unit result) state" where
  "UpdateDelay lib c caller newDelay =
     invoke_void c ''update_delay'' [Ok (AddressToScVal lib caller), Ok (Uint64ToScVal newDelay)]"

definition ExecuteBatch :: "sdk \<Rightarrow> 's Client \<Rightarrow> string \<Rightarrow> Calls \<Rightarrow> bytes \<Rightarrow> bytes \<Rightarrow> ('s, unit result) state" where
  "ExecuteBatch lib c caller calls predecessor salt =
     invoke_void c ''execute_batch'' [
       Ok (AddressToScVal lib caller), MustToScVal (Calls_ToScVal lib calls), Ok (Bytes32ToScVal predecessor),
       Ok (Bytes32ToScVal salt)]"

definition GetMinDelay :: "sdk \<Rightarrow> 's Client \<Rightarrow> ('s, int result) state" where
  "GetMinDelay lib c = simulate_value c ''get_min_delay'' [] (Uint64FromScVal)"

definition GetTimestamp :: "sdk \<Rightarrow> 's Client \<Rightarrow> bytes \<Rightarrow> ('s, int result) state" where
  "GetTimestamp lib c id' = simulate_value c ''get_timestamp'' [Ok (Bytes32ToScVal id')] (Uint64FromScVal)"

definition RenounceRole :: "sdk \<Rightarrow> 's Client \<Rightarrow> string \<Rightarrow> string \<Rightarrow> ('s, unit result) state" where
  "RenounceRole lib c account role =
     invoke_void c ''renounce_role'' [Ok (AddressToScVal lib account), Ok (SymbolToScVal role)]"

definition ScheduleBatch :: "sdk \<Rightarrow> 's Client \<Rightarrow> string \<Rightarrow> Calls \<Rightarrow> bytes \<Rightarrow> bytes \<Rightarrow> int \<Rightarrow> ('s, unit result) state" where
  "ScheduleBatch lib c caller calls predecessor salt delay =
     invoke_void c ''schedule_batch'' [
       Ok (AddressToScVal lib caller), MustToScVal (Calls_ToScVal lib calls), Ok (Bytes32ToScVal predecessor),
       Ok (Bytes32ToScVal salt), Ok (Uint64ToScVal delay)]"

definition ExtendAllTtls :: "sdk \<Rightarrow> 's Client \<Rightarrow> ('s, unit result) state" where
  "ExtendAllTtls lib c = invoke_void c ''extend_all_ttls'' []"

definition GetRoleMember :: "sdk \<Rightarrow> 's Client \<Rightarrow> string \<Rightarrow> int \<Rightarrow> ('s, string result) state" where
  "GetRoleMember lib c role index =
     simulate_value c ''get_role_member'' [Ok (SymbolToScVal role), Ok (Uint32ToScVal index)] (AddressFromScVal lib)"

definition IsOperationDone :: "sdk \<Rightarrow> 's Client \<Rightarrow> bytes \<Rightarrow> ('s, bool result) state" where
  "IsOperationDone lib c id' =
     simulate_value c ''is_operation_done'' [
       Ok (Bytes32ToScVal id')] (\<lambda>v. need ''expected bool return type'' (GetB v))"

definition ExtendOpTimeTtl :: "sdk \<Rightarrow> 's Client \<Rightarrow> bytes \<Rightarrow> ('s, unit result) state" where
  "ExtendOpTimeTtl lib c id' = invoke_void c ''extend_op_time_ttl'' [Ok (Bytes32ToScVal id')]"

definition IsOperationReady :: "sdk \<Rightarrow> 's Client \<Rightarrow> bytes \<Rightarrow> ('s, bool result) state" where
  "IsOperationReady lib c id' =
     simulate_value c ''is_operation_ready'' [
       Ok (Bytes32ToScVal id')] (\<lambda>v. need ''expected bool return type'' (GetB v))"

definition HashOperationBatch :: "sdk \<Rightarrow> 's Client \<Rightarrow> Calls \<Rightarrow> bytes \<Rightarrow> bytes \<Rightarrow> ('s, bytes result) state" where
  "HashOperationBatch lib c calls predecessor salt =
     invoke_value c ''hash_operation_batch'' [
       MustToScVal (Calls_ToScVal lib calls), Ok (Bytes32ToScVal predecessor), Ok (Bytes32ToScVal salt)] (Bytes32FromScVal)"

definition IsOperationPending :: "sdk \<Rightarrow> 's Client \<Rightarrow> bytes \<Rightarrow> ('s, bool result) state" where
  "IsOperationPending lib c id' =
     simulate_value c ''is_operation_pending'' [
       Ok (Bytes32ToScVal id')] (\<lambda>v. need ''expected bool return type'' (GetB v))"

definition GetRoleMemberCount :: "sdk \<Rightarrow> 's Client \<Rightarrow> string \<Rightarrow> ('s, int result) state" where
  "GetRoleMemberCount lib c role =
     simulate_value c ''get_role_member_count'' [
       Ok (SymbolToScVal role)] (\<lambda>v. need ''expected u32 return type'' (GetU32 v))"

definition BypasserExecuteBatch :: "sdk \<Rightarrow> 's Client \<Rightarrow> string \<Rightarrow> Calls \<Rightarrow> ('s, unit result) state" where
  "BypasserExecuteBatch lib c caller calls =
     invoke_void c ''bypasser_execute_batch'' [Ok (AddressToScVal lib caller), MustToScVal (Calls_ToScVal lib calls)]"

definition BlockFunctionSelector :: "sdk \<Rightarrow> 's Client \<Rightarrow> string \<Rightarrow> string \<Rightarrow> ('s, unit result) state" where
  "BlockFunctionSelector lib c caller selector =
     invoke_void c ''block_function_selector'' [Ok (AddressToScVal lib caller), Ok (SymbolToScVal selector)]"

definition GetBlockedSelectorAt :: "sdk \<Rightarrow> 's Client \<Rightarrow> int \<Rightarrow> ('s, string result) state" where
  "GetBlockedSelectorAt lib c index =
     simulate_value c ''get_blocked_selector_at'' [Ok (Uint32ToScVal index)] (SymbolFromScVal)"

definition UnblockFunctionSelector :: "sdk \<Rightarrow> 's Client \<Rightarrow> string \<Rightarrow> string \<Rightarrow> ('s, unit result) state" where
  "UnblockFunctionSelector lib c caller selector =
     invoke_void c ''unblock_function_selector'' [Ok (AddressToScVal lib caller), Ok (SymbolToScVal selector)]"

definition GetBlockedSelectorCount :: "sdk \<Rightarrow> 's Client \<Rightarrow> ('s, int result) state" where
  "GetBlockedSelectorCount lib c =
     simulate_value c ''get_blocked_selector_count'' [] (\<lambda>v. need ''expected u32 return type'' (GetU32 v))"

section \<open>Waiting for events\<close>

definition CancelledEventTopic :: string where
  "CancelledEventTopic = ''tl_Cancelled''"

definition WaitForCancelledEvent :: "sdk \<Rightarrow> 's Client \<Rightarrow> int \<Rightarrow> int \<Rightarrow> (CancelledEvent \<Rightarrow> bool) option \<Rightarrow> wait_round list \<Rightarrow> ('s, CancelledEvent result option) state" where
  "WaitForCancelledEvent lib c = wait_for c CancelledEventTopic (ParseCancelledEvent lib)"

definition RoleGrantedEventTopic :: string where
  "RoleGrantedEventTopic = ''tl_RoleGranted''"

definition WaitForRoleGrantedEvent :: "sdk \<Rightarrow> 's Client \<Rightarrow> int \<Rightarrow> int \<Rightarrow> (RoleGrantedEvent \<Rightarrow> bool) option \<Rightarrow> wait_round list \<Rightarrow> ('s, RoleGrantedEvent result option) state" where
  "WaitForRoleGrantedEvent lib c = wait_for c RoleGrantedEventTopic (ParseRoleGrantedEvent lib)"

definition RoleRevokedEventTopic :: string where
  "RoleRevokedEventTopic = ''tl_RoleRevoked''"

definition WaitForRoleRevokedEvent :: "sdk \<Rightarrow> 's Client \<Rightarrow> int \<Rightarrow> int \<Rightarrow> (RoleRevokedEvent \<Rightarrow> bool) option \<Rightarrow> wait_round list \<Rightarrow> ('s, RoleRevokedEvent result option) state" where
  "WaitForRoleRevokedEvent lib c = wait_for c RoleRevokedEventTopic (ParseRoleRevokedEvent lib)"

definition CallExecutedEventTopic :: string where
  "CallExecutedEventTopic = ''tl_CallExecuted''"

definition WaitForCallExecutedEvent :: "sdk \<Rightarrow> 's Client \<Rightarrow> int \<Rightarrow> int \<Rightarrow> (CallExecutedEvent \<Rightarrow> bool) option \<Rightarrow> wait_round list \<Rightarrow> ('s, CallExecutedEvent result option) state" where
  "WaitForCallExecutedEvent lib c = wait_for c CallExecutedEventTopic (ParseCallExecutedEvent lib)"

definition CallScheduledEventTopic :: string where
  "CallScheduledEventTopic = ''tl_CallScheduled''"

definition WaitForCallScheduledEvent :: "sdk \<Rightarrow> 's Client \<Rightarrow> int \<Rightarrow> int \<Rightarrow> (CallScheduledEvent \<Rightarrow> bool) option \<Rightarrow> wait_round list \<Rightarrow> ('s, CallScheduledEvent result option) state" where
  "WaitForCallScheduledEvent lib c = wait_for c CallScheduledEventTopic (ParseCallScheduledEvent lib)"

definition MinDelayChangeEventTopic :: string where
  "MinDelayChangeEventTopic = ''tl_MinDelay''"

definition WaitForMinDelayChangeEvent :: "sdk \<Rightarrow> 's Client \<Rightarrow> int \<Rightarrow> int \<Rightarrow> (MinDelayChangeEvent \<Rightarrow> bool) option \<Rightarrow> wait_round list \<Rightarrow> ('s, MinDelayChangeEvent result option) state" where
  "WaitForMinDelayChangeEvent lib c = wait_for c MinDelayChangeEventTopic (ParseMinDelayChangeEvent lib)"

definition BypasserCallExecutedEventTopic :: string where
  "BypasserCallExecutedEventTopic = ''tl_BypCallExec''"

definition WaitForBypasserCallExecutedEvent :: "sdk \<Rightarrow> 's Client \<Rightarrow> int \<Rightarrow> int \<Rightarrow> (BypasserCallExecutedEvent \<Rightarrow> bool) option \<Rightarrow> wait_round list \<Rightarrow> ('s, BypasserCallExecutedEvent result option) state" where
  "WaitForBypasserCallExecutedEvent lib c = wait_for c BypasserCallExecutedEventTopic (ParseBypasserCallExecutedEvent lib)"

definition FunctionSelectorBlockedEventTopic :: string where
  "FunctionSelectorBlockedEventTopic = ''tl_SelBlocked''"

definition WaitForFunctionSelectorBlockedEvent :: "sdk \<Rightarrow> 's Client \<Rightarrow> int \<Rightarrow> int \<Rightarrow> (FunctionSelectorBlockedEvent \<Rightarrow> bool) option \<Rightarrow> wait_round list \<Rightarrow> ('s, FunctionSelectorBlockedEvent result option) state" where
  "WaitForFunctionSelectorBlockedEvent lib c = wait_for c FunctionSelectorBlockedEventTopic (ParseFunctionSelectorBlockedEvent lib)"

definition FunctionSelectorUnblockedEventTopic :: string where
  "FunctionSelectorUnblockedEventTopic = ''tl_SelUnblock''"

definition WaitForFunctionSelectorUnblockedEvent :: "sdk \<Rightarrow> 's Client \<Rightarrow> int \<Rightarrow> int \<Rightarrow> (FunctionSelectorUnblockedEvent \<Rightarrow> bool) option \<Rightarrow> wait_round list \<Rightarrow> ('s, FunctionSelectorUnblockedEvent result option) state" where
  "WaitForFunctionSelectorUnblockedEvent lib c = wait_for c FunctionSelectorUnblockedEventTopic (ParseFunctionSelectorUnblockedEvent lib)"

section \<open>Round trips\<close>

definition valid_Call :: "sdk \<Rightarrow> Call \<Rightarrow> bool" where
  "valid_Call lib s \<longleftrightarrow> length (Call_To s) = 32"

lemma timelock_Call_keys: "sort [''data'', ''to''] =
    [''data'', ''to'']"
  by simp

lemma timelock_Call_codec:
  assumes "sdk_laws lib"
  shows "codec (Call_ToScVal lib) (CallFromScVal lib) (valid_Call lib)"
proof (rule codecI)
  show "\<exists>v. Call_ToScVal lib s = Ok v \<and> CallFromScVal lib v = Ok s" if ok: "valid_Call lib s" for s
    using ok assms
    by (cases s) (simp add: Call_ToScVal_def CallFromScVal_def Call_entry_def zero_Call_def valid_Call_def
        timelock_Call_keys struct_codec_simps del: sort_key_simps fold_entries.simps(2))
qed

definition valid_Calls :: "sdk \<Rightarrow> Calls \<Rightarrow> bool" where
  "valid_Calls lib s \<longleftrightarrow> list_all (valid_Call lib) (Calls_Inner s)"

lemma timelock_Calls_keys: "sort [''inner''] =
    [''inner'']"
  by simp

lemma timelock_Calls_codec:
  assumes "sdk_laws lib"
  shows "codec (Calls_ToScVal lib) (CallsFromScVal lib) (valid_Calls lib)"
proof (rule codecI)
  show "\<exists>v. Calls_ToScVal lib s = Ok v \<and> CallsFromScVal lib v = Ok s" if ok: "valid_Calls lib s" for s
  proof -
    obtain v1 where o1: "StructSliceToScVal (Call_ToScVal lib) (Calls_Inner s) = Ok v1"
      "\<And>msg. vec_of msg (CallFromScVal lib) v1 = Ok (Calls_Inner s)"
      using codec_slice [OF timelock_Call_codec [OF assms]] ok unfolding valid_Calls_def by blast
    show ?thesis using o1 ok assms
      by (cases s) (simp add: Calls_ToScVal_def CallsFromScVal_def Calls_entry_def zero_Calls_def valid_Calls_def
        timelock_Calls_keys struct_codec_simps del: sort_key_simps fold_entries.simps(2))
  qed
qed

end
