(* ===== verification/Bind_Mcms.thy ===== *)
theory Bind_Mcms
  imports Bind_Common
begin

text \<open>
  The generated binding of the mcms contract (bindings/contracts/mcms): the types of its own and every
  method of \<open>McmsClient\<close>.
\<close>

section \<open>Structs\<close>

record Signer =
  Signer_Addr :: bytes
  Signer_Group :: int
  Signer_Index :: int

definition zero_Signer :: Signer where
  "zero_Signer = \<lparr>Signer_Addr = replicate 32 0, Signer_Group = 0, Signer_Index = 0\<rparr>"

definition Signer_ToScVal :: "sdk \<Rightarrow> Signer \<Rightarrow> ScVal result" where
  "Signer_ToScVal lib s = build_struct [
     (''addr'', Ok (Bytes32ToScVal (Signer_Addr s))), (''group'', Ok (Uint32ToScVal (Signer_Group s))),
     (''index'', Ok (Uint32ToScVal (Signer_Index s)))]"

definition Signer_entry :: "sdk \<Rightarrow> string \<Rightarrow> ScVal \<Rightarrow> Signer \<Rightarrow> Signer result" where
  "Signer_entry lib key v s =
     (if key = ''addr'' then put (named ''addr'' (Bytes32FromScVal v)) (\<lambda>x. s\<lparr>Signer_Addr := x\<rparr>)
      else if key = ''group'' then put (need ''group is not u32'' (GetU32 v)) (\<lambda>x. s\<lparr>Signer_Group := x\<rparr>)
      else if key = ''index'' then put (need ''index is not u32'' (GetU32 v)) (\<lambda>x. s\<lparr>Signer_Index := x\<rparr>)
      else Ok s)"

definition SignerFromScVal :: "sdk \<Rightarrow> ScVal \<Rightarrow> Signer result" where
  "SignerFromScVal lib = parse_struct ''not a map type'' (Signer_entry lib) zero_Signer"

record Config =
  Config_GroupParents :: bytes
  Config_GroupQuorums :: bytes
  Config_Signers :: "Signer list"

definition zero_Config :: Config where
  "zero_Config = \<lparr>Config_GroupParents = replicate 32 0, Config_GroupQuorums = replicate 32 0, Config_Signers = []\<rparr>"

definition Config_ToScVal :: "sdk \<Rightarrow> Config \<Rightarrow> ScVal result" where
  "Config_ToScVal lib s = build_struct [
     (''group_parents'', Ok (Bytes32ToScVal (Config_GroupParents s))),
     (''group_quorums'', Ok (Bytes32ToScVal (Config_GroupQuorums s))),
     (''signers'', StructSliceToScVal (Signer_ToScVal lib) (Config_Signers s))]"

definition Config_entry :: "sdk \<Rightarrow> string \<Rightarrow> ScVal \<Rightarrow> Config \<Rightarrow> Config result" where
  "Config_entry lib key v s =
     (if key = ''group_parents'' then put (named ''group_parents'' (Bytes32FromScVal v)) (\<lambda>x. s\<lparr>Config_GroupParents := x\<rparr>)
      else if key = ''group_quorums'' then put (named ''group_quorums'' (Bytes32FromScVal v)) (\<lambda>x. s\<lparr>Config_GroupQuorums := x\<rparr>)
      else if key = ''signers'' then put (vec_of ''signers is not a vec'' (SignerFromScVal lib) v) (\<lambda>x. s\<lparr>Config_Signers := x\<rparr>)
      else Ok s)"

definition ConfigFromScVal :: "sdk \<Rightarrow> ScVal \<Rightarrow> Config result" where
  "ConfigFromScVal lib = parse_struct ''not a map type'' (Config_entry lib) zero_Config"

record Signature =
  Signature_R :: bytes
  Signature_S :: bytes
  Signature_V :: int

definition zero_Signature :: Signature where
  "zero_Signature = \<lparr>Signature_R = replicate 32 0, Signature_S = replicate 32 0, Signature_V = 0\<rparr>"

definition Signature_ToScVal :: "sdk \<Rightarrow> Signature \<Rightarrow> ScVal result" where
  "Signature_ToScVal lib s = build_struct [
     (''r'', Ok (Bytes32ToScVal (Signature_R s))), (''s'', Ok (Bytes32ToScVal (Signature_S s))),
     (''v'', Ok (Uint32ToScVal (Signature_V s)))]"

definition Signature_entry :: "sdk \<Rightarrow> string \<Rightarrow> ScVal \<Rightarrow> Signature \<Rightarrow> Signature result" where
  "Signature_entry lib key v s =
     (if key = ''r'' then put (named ''r'' (Bytes32FromScVal v)) (\<lambda>x. s\<lparr>Signature_R := x\<rparr>)
      else if key = ''s'' then put (named ''s'' (Bytes32FromScVal v)) (\<lambda>x. s\<lparr>Signature_S := x\<rparr>)
      else if key = ''v'' then put (need ''v is not u32'' (GetU32 v)) (\<lambda>x. s\<lparr>Signature_V := x\<rparr>)
      else Ok s)"

definition SignatureFromScVal :: "sdk \<Rightarrow> ScVal \<Rightarrow> Signature result" where
  "SignatureFromScVal lib = parse_struct ''not a map type'' (Signature_entry lib) zero_Signature"

record StellarOp =
  StellarOp_ChainId :: bytes
  StellarOp_Data :: bytes
  StellarOp_Multisig :: bytes
  StellarOp_Nonce :: int
  StellarOp_To :: bytes
  StellarOp_Value :: bytes

definition zero_StellarOp :: StellarOp where
  "zero_StellarOp = \<lparr>StellarOp_ChainId = replicate 32 0, StellarOp_Data = [], StellarOp_Multisig = replicate 32 0,
     StellarOp_Nonce = 0, StellarOp_To = replicate 32 0, StellarOp_Value = replicate 32 0\<rparr>"

definition StellarOp_ToScVal :: "sdk \<Rightarrow> StellarOp \<Rightarrow> ScVal result" where
  "StellarOp_ToScVal lib s = build_struct [
     (''chain_id'', Ok (Bytes32ToScVal (StellarOp_ChainId s))), (''data'', Ok (BytesToScVal (StellarOp_Data s))),
     (''multisig'', Ok (Bytes32ToScVal (StellarOp_Multisig s))), (''nonce'', Ok (Uint64ToScVal (StellarOp_Nonce s))),
     (''to'', Ok (Bytes32ToScVal (StellarOp_To s))), (''value'', Ok (Bytes32ToScVal (StellarOp_Value s)))]"

definition StellarOp_entry :: "sdk \<Rightarrow> string \<Rightarrow> ScVal \<Rightarrow> StellarOp \<Rightarrow> StellarOp result" where
  "StellarOp_entry lib key v s =
     (if key = ''chain_id'' then put (named ''chain_id'' (Bytes32FromScVal v)) (\<lambda>x. s\<lparr>StellarOp_ChainId := x\<rparr>)
      else if key = ''data'' then put (need ''data is not bytes'' (GetBytes v)) (\<lambda>x. s\<lparr>StellarOp_Data := x\<rparr>)
      else if key = ''multisig'' then put (named ''multisig'' (Bytes32FromScVal v)) (\<lambda>x. s\<lparr>StellarOp_Multisig := x\<rparr>)
      else if key = ''nonce'' then put (named ''nonce'' (Uint64FromScVal v)) (\<lambda>x. s\<lparr>StellarOp_Nonce := x\<rparr>)
      else if key = ''to'' then put (named ''to'' (Bytes32FromScVal v)) (\<lambda>x. s\<lparr>StellarOp_To := x\<rparr>)
      else if key = ''value'' then put (named ''value'' (Bytes32FromScVal v)) (\<lambda>x. s\<lparr>StellarOp_Value := x\<rparr>)
      else Ok s)"

definition StellarOpFromScVal :: "sdk \<Rightarrow> ScVal \<Rightarrow> StellarOp result" where
  "StellarOpFromScVal lib = parse_struct ''not a map type'' (StellarOp_entry lib) zero_StellarOp"

record MerkleProof =
  MerkleProof_Inner :: "bytes list"

definition zero_MerkleProof :: MerkleProof where
  "zero_MerkleProof = \<lparr>MerkleProof_Inner = []\<rparr>"

definition MerkleProof_ToScVal :: "sdk \<Rightarrow> MerkleProof \<Rightarrow> ScVal result" where
  "MerkleProof_ToScVal lib s = build_struct [
     (''inner'', Ok (Bytes32SliceToScVal (MerkleProof_Inner s)))]"

definition MerkleProof_entry :: "sdk \<Rightarrow> string \<Rightarrow> ScVal \<Rightarrow> MerkleProof \<Rightarrow> MerkleProof result" where
  "MerkleProof_entry lib key v s =
     (if key = ''inner'' then put (vec_of ''inner is not a vec'' (Bytes32FromScVal) v) (\<lambda>x. s\<lparr>MerkleProof_Inner := x\<rparr>)
      else Ok s)"

definition MerkleProofFromScVal :: "sdk \<Rightarrow> ScVal \<Rightarrow> MerkleProof result" where
  "MerkleProofFromScVal lib = parse_struct ''not a map type'' (MerkleProof_entry lib) zero_MerkleProof"

record SignatureVec =
  SignatureVec_Inner :: "Signature list"

definition zero_SignatureVec :: SignatureVec where
  "zero_SignatureVec = \<lparr>SignatureVec_Inner = []\<rparr>"

definition SignatureVec_ToScVal :: "sdk \<Rightarrow> SignatureVec \<Rightarrow> ScVal result" where
  "SignatureVec_ToScVal lib s = build_struct [
     (''inner'', StructSliceToScVal (Signature_ToScVal lib) (SignatureVec_Inner s))]"

definition SignatureVec_entry :: "sdk \<Rightarrow> string \<Rightarrow> ScVal \<Rightarrow> SignatureVec \<Rightarrow> SignatureVec result" where
  "SignatureVec_entry lib key v s =
     (if key = ''inner'' then put (vec_of ''inner is not a vec'' (SignatureFromScVal lib) v) (\<lambda>x. s\<lparr>SignatureVec_Inner := x\<rparr>)
      else Ok s)"

definition SignatureVecFromScVal :: "sdk \<Rightarrow> ScVal \<Rightarrow> SignatureVec result" where
  "SignatureVecFromScVal lib = parse_struct ''not a map type'' (SignatureVec_entry lib) zero_SignatureVec"

record SignerGroups =
  SignerGroups_Inner :: "int list"

definition zero_SignerGroups :: SignerGroups where
  "zero_SignerGroups = \<lparr>SignerGroups_Inner = []\<rparr>"

definition SignerGroups_ToScVal :: "sdk \<Rightarrow> SignerGroups \<Rightarrow> ScVal result" where
  "SignerGroups_ToScVal lib s = build_struct [
     (''inner'', Ok (Uint32SliceToScVal (SignerGroups_Inner s)))]"

definition SignerGroups_entry :: "sdk \<Rightarrow> string \<Rightarrow> ScVal \<Rightarrow> SignerGroups \<Rightarrow> SignerGroups result" where
  "SignerGroups_entry lib key v s =
     (if key = ''inner'' then put (vec_of ''inner is not a vec'' (Uint32FromScVal) v) (\<lambda>x. s\<lparr>SignerGroups_Inner := x\<rparr>)
      else Ok s)"

definition SignerGroupsFromScVal :: "sdk \<Rightarrow> ScVal \<Rightarrow> SignerGroups result" where
  "SignerGroupsFromScVal lib = parse_struct ''not a map type'' (SignerGroups_entry lib) zero_SignerGroups"

record SignerAddresses =
  SignerAddresses_Inner :: "bytes list"

definition zero_SignerAddresses :: SignerAddresses where
  "zero_SignerAddresses = \<lparr>SignerAddresses_Inner = []\<rparr>"

definition SignerAddresses_ToScVal :: "sdk \<Rightarrow> SignerAddresses \<Rightarrow> ScVal result" where
  "SignerAddresses_ToScVal lib s = build_struct [
     (''inner'', Ok (Bytes32SliceToScVal (SignerAddresses_Inner s)))]"

definition SignerAddresses_entry :: "sdk \<Rightarrow> string \<Rightarrow> ScVal \<Rightarrow> SignerAddresses \<Rightarrow> SignerAddresses result" where
  "SignerAddresses_entry lib key v s =
     (if key = ''inner'' then put (vec_of ''inner is not a vec'' (Bytes32FromScVal) v) (\<lambda>x. s\<lparr>SignerAddresses_Inner := x\<rparr>)
      else Ok s)"

definition SignerAddressesFromScVal :: "sdk \<Rightarrow> ScVal \<Rightarrow> SignerAddresses result" where
  "SignerAddressesFromScVal lib = parse_struct ''not a map type'' (SignerAddresses_entry lib) zero_SignerAddresses"

record StellarRootMetadata =
  StellarRootMetadata_ChainId :: bytes
  StellarRootMetadata_Multisig :: bytes
  StellarRootMetadata_OverridePreviousRoot :: bool
  StellarRootMetadata_PostOpCount :: int
  StellarRootMetadata_PreOpCount :: int

definition zero_StellarRootMetadata :: StellarRootMetadata where
  "zero_StellarRootMetadata = \<lparr>StellarRootMetadata_ChainId = replicate 32 0, StellarRootMetadata_Multisig = replicate 32 0,
     StellarRootMetadata_OverridePreviousRoot = False, StellarRootMetadata_PostOpCount = 0,
     StellarRootMetadata_PreOpCount = 0\<rparr>"

definition StellarRootMetadata_ToScVal :: "sdk \<Rightarrow> StellarRootMetadata \<Rightarrow> ScVal result" where
  "StellarRootMetadata_ToScVal lib s = build_struct [
     (''chain_id'', Ok (Bytes32ToScVal (StellarRootMetadata_ChainId s))),
     (''multisig'', Ok (Bytes32ToScVal (StellarRootMetadata_Multisig s))),
     (''override_previous_root'', Ok (BoolToScVal (StellarRootMetadata_OverridePreviousRoot s))),
     (''post_op_count'', Ok (Uint64ToScVal (StellarRootMetadata_PostOpCount s))),
     (''pre_op_count'', Ok (Uint64ToScVal (StellarRootMetadata_PreOpCount s)))]"

definition StellarRootMetadata_entry :: "sdk \<Rightarrow> string \<Rightarrow> ScVal \<Rightarrow> StellarRootMetadata \<Rightarrow> StellarRootMetadata result" where
  "StellarRootMetadata_entry lib key v s =
     (if key = ''chain_id'' then put (named ''chain_id'' (Bytes32FromScVal v)) (\<lambda>x. s\<lparr>StellarRootMetadata_ChainId := x\<rparr>)
      else if key = ''multisig'' then put (named ''multisig'' (Bytes32FromScVal v)) (\<lambda>x. s\<lparr>StellarRootMetadata_Multisig := x\<rparr>)
      else if key = ''override_previous_root'' then put (need ''override_previous_root is not bool'' (GetB v)) (\<lambda>x. s\<lparr>StellarRootMetadata_OverridePreviousRoot := x\<rparr>)
      else if key = ''post_op_count'' then put (named ''post_op_count'' (Uint64FromScVal v)) (\<lambda>x. s\<lparr>StellarRootMetadata_PostOpCount := x\<rparr>)
      else if key = ''pre_op_count'' then put (named ''pre_op_count'' (Uint64FromScVal v)) (\<lambda>x. s\<lparr>StellarRootMetadata_PreOpCount := x\<rparr>)
      else Ok s)"

definition StellarRootMetadataFromScVal :: "sdk \<Rightarrow> ScVal \<Rightarrow> StellarRootMetadata result" where
  "StellarRootMetadataFromScVal lib = parse_struct ''not a map type'' (StellarRootMetadata_entry lib) zero_StellarRootMetadata"

record ExpiringRootAndOpCount =
  ExpiringRootAndOpCount_OpCount :: int
  ExpiringRootAndOpCount_Root :: bytes
  ExpiringRootAndOpCount_ValidUntil :: int

definition zero_ExpiringRootAndOpCount :: ExpiringRootAndOpCount where
  "zero_ExpiringRootAndOpCount = \<lparr>ExpiringRootAndOpCount_OpCount = 0, ExpiringRootAndOpCount_Root = replicate 32 0,
     ExpiringRootAndOpCount_ValidUntil = 0\<rparr>"

definition ExpiringRootAndOpCount_ToScVal :: "sdk \<Rightarrow> ExpiringRootAndOpCount \<Rightarrow> ScVal result" where
  "ExpiringRootAndOpCount_ToScVal lib s = build_struct [
     (''op_count'', Ok (Uint64ToScVal (ExpiringRootAndOpCount_OpCount s))),
     (''root'', Ok (Bytes32ToScVal (ExpiringRootAndOpCount_Root s))),
     (''valid_until'', Ok (Uint32ToScVal (ExpiringRootAndOpCount_ValidUntil s)))]"

definition ExpiringRootAndOpCount_entry :: "sdk \<Rightarrow> string \<Rightarrow> ScVal \<Rightarrow> ExpiringRootAndOpCount \<Rightarrow> ExpiringRootAndOpCount result" where
  "ExpiringRootAndOpCount_entry lib key v s =
     (if key = ''op_count'' then put (named ''op_count'' (Uint64FromScVal v)) (\<lambda>x. s\<lparr>ExpiringRootAndOpCount_OpCount := x\<rparr>)
      else if key = ''root'' then put (named ''root'' (Bytes32FromScVal v)) (\<lambda>x. s\<lparr>ExpiringRootAndOpCount_Root := x\<rparr>)
      else if key = ''valid_until'' then put (need ''valid_until is not u32'' (GetU32 v)) (\<lambda>x. s\<lparr>ExpiringRootAndOpCount_ValidUntil := x\<rparr>)
      else Ok s)"

definition ExpiringRootAndOpCountFromScVal :: "sdk \<Rightarrow> ScVal \<Rightarrow> ExpiringRootAndOpCount result" where
  "ExpiringRootAndOpCountFromScVal lib = parse_struct ''not a map type'' (ExpiringRootAndOpCount_entry lib) zero_ExpiringRootAndOpCount"

section \<open>Events\<close>

record NewRootEvent =
  NewRootEvent_Root :: bytes
  NewRootEvent_ValidUntil :: int
  NewRootEvent_Metadata :: StellarRootMetadata
  NewRootEvent_Ledger :: int
  NewRootEvent_TxHash :: string

definition NewRootEvent_entry :: "sdk \<Rightarrow> string \<Rightarrow> ScVal \<Rightarrow> NewRootEvent \<Rightarrow> NewRootEvent result" where
  "NewRootEvent_entry lib key v s =
     (if key = ''root'' then set_if_ok (Bytes32FromScVal v) (\<lambda>x s. s\<lparr>NewRootEvent_Root := x\<rparr>) s
      else if key = ''valid_until'' then set_if (GetU32 v) (\<lambda>x s. s\<lparr>NewRootEvent_ValidUntil := x\<rparr>) s
      else if key = ''metadata'' then set_if_ok (StellarRootMetadataFromScVal lib v) (\<lambda>x s. s\<lparr>NewRootEvent_Metadata := x\<rparr>) s
      else Ok s)"

definition ParseNewRootEvent :: "sdk \<Rightarrow> EventInfo \<Rightarrow> NewRootEvent result" where
  "ParseNewRootEvent lib = parse_event lib (NewRootEvent_entry lib) (\<lambda>ledger tx.
     \<lparr>NewRootEvent_Root = replicate 32 0, NewRootEvent_ValidUntil = 0,
        NewRootEvent_Metadata = zero_StellarRootMetadata, NewRootEvent_Ledger = ledger, NewRootEvent_TxHash = tx\<rparr>)"

record ConfigSetEvent =
  ConfigSetEvent_Config :: Config
  ConfigSetEvent_IsRootCleared :: bool
  ConfigSetEvent_Ledger :: int
  ConfigSetEvent_TxHash :: string

definition ConfigSetEvent_entry :: "sdk \<Rightarrow> string \<Rightarrow> ScVal \<Rightarrow> ConfigSetEvent \<Rightarrow> ConfigSetEvent result" where
  "ConfigSetEvent_entry lib key v s =
     (if key = ''config'' then set_if_ok (ConfigFromScVal lib v) (\<lambda>x s. s\<lparr>ConfigSetEvent_Config := x\<rparr>) s
      else if key = ''is_root_cleared'' then set_if (GetB v) (\<lambda>x s. s\<lparr>ConfigSetEvent_IsRootCleared := x\<rparr>) s
      else Ok s)"

definition ParseConfigSetEvent :: "sdk \<Rightarrow> EventInfo \<Rightarrow> ConfigSetEvent result" where
  "ParseConfigSetEvent lib = parse_event lib (ConfigSetEvent_entry lib) (\<lambda>ledger tx.
     \<lparr>ConfigSetEvent_Config = zero_Config, ConfigSetEvent_IsRootCleared = False, ConfigSetEvent_Ledger = ledger,
        ConfigSetEvent_TxHash = tx\<rparr>)"

record OpExecutedEvent =
  OpExecutedEvent_Nonce :: int
  OpExecutedEvent_To :: bytes
  OpExecutedEvent_Data :: bytes
  OpExecutedEvent_Value :: bytes
  OpExecutedEvent_Ledger :: int
  OpExecutedEvent_TxHash :: string

definition OpExecutedEvent_entry :: "sdk \<Rightarrow> string \<Rightarrow> ScVal \<Rightarrow> OpExecutedEvent \<Rightarrow> OpExecutedEvent result" where
  "OpExecutedEvent_entry lib key v s =
     (if key = ''nonce'' then set_if_ok (Uint64FromScVal v) (\<lambda>x s. s\<lparr>OpExecutedEvent_Nonce := x\<rparr>) s
      else if key = ''to'' then set_if_ok (Bytes32FromScVal v) (\<lambda>x s. s\<lparr>OpExecutedEvent_To := x\<rparr>) s
      else if key = ''data'' then set_if (GetBytes v) (\<lambda>x s. s\<lparr>OpExecutedEvent_Data := x\<rparr>) s
      else if key = ''value'' then set_if_ok (Bytes32FromScVal v) (\<lambda>x s. s\<lparr>OpExecutedEvent_Value := x\<rparr>) s
      else Ok s)"

definition ParseOpExecutedEvent :: "sdk \<Rightarrow> EventInfo \<Rightarrow> OpExecutedEvent result" where
  "ParseOpExecutedEvent lib = parse_event lib (OpExecutedEvent_entry lib) (\<lambda>ledger tx.
     \<lparr>OpExecutedEvent_Nonce = 0, OpExecutedEvent_To = replicate 32 0, OpExecutedEvent_Data = [],
        OpExecutedEvent_Value = replicate 32 0, OpExecutedEvent_Ledger = ledger, OpExecutedEvent_TxHash = tx\<rparr>)"

record MinSecsPerLedgerSetEvent =
  MinSecsPerLedgerSetEvent_MinSecsPerLedger :: int
  MinSecsPerLedgerSetEvent_Ledger :: int
  MinSecsPerLedgerSetEvent_TxHash :: string

definition MinSecsPerLedgerSetEvent_entry :: "sdk \<Rightarrow> string \<Rightarrow> ScVal \<Rightarrow> MinSecsPerLedgerSetEvent \<Rightarrow> MinSecsPerLedgerSetEvent result" where
  "MinSecsPerLedgerSetEvent_entry lib key v s =
     (if key = ''min_secs_per_ledger'' then set_if_ok (Uint64FromScVal v) (\<lambda>x s. s\<lparr>MinSecsPerLedgerSetEvent_MinSecsPerLedger := x\<rparr>) s
      else Ok s)"

definition ParseMinSecsPerLedgerSetEvent :: "sdk \<Rightarrow> EventInfo \<Rightarrow> MinSecsPerLedgerSetEvent result" where
  "ParseMinSecsPerLedgerSetEvent lib = parse_event lib (MinSecsPerLedgerSetEvent_entry lib) (\<lambda>ledger tx.
     \<lparr>MinSecsPerLedgerSetEvent_MinSecsPerLedger = 0, MinSecsPerLedgerSetEvent_Ledger = ledger,
        MinSecsPerLedgerSetEvent_TxHash = tx\<rparr>)"

section \<open>The client\<close>

definition NewMcmsClient :: "'s Invoker \<Rightarrow> string \<Rightarrow> 's Client" where
  "NewMcmsClient ivk contractID = mk_client ivk contractID"

definition ContractID :: "'s Client \<Rightarrow> string" where
  "ContractID c = cl_contractID c"

definition Owner :: "sdk \<Rightarrow> 's Client \<Rightarrow> ('s, (string option) result) state" where
  "Owner lib c = simulate_value c ''owner'' [] (OptionalAddressFromScVal lib)"

definition Execute :: "sdk \<Rightarrow> 's Client \<Rightarrow> StellarOp \<Rightarrow> MerkleProof \<Rightarrow> ('s, unit result) state" where
  "Execute lib c op' proof' =
     invoke_void c ''execute'' [
       MustToScVal (StellarOp_ToScVal lib op'), MustToScVal (MerkleProof_ToScVal lib proof')]"

definition GetRoot :: "sdk \<Rightarrow> 's Client \<Rightarrow> ('s, ((bytes) \<times> (int)) result) state" where
  "GetRoot lib c =
     simulate_value c ''get_root'' []
       (pair_of ''expected vec for tuple return'' (\<lambda>v. named ''tuple[0]'' (Bytes32FromScVal v)) (\<lambda>v. need ''tuple[1]: expected u32'' (GetU32 v)))"

definition IsOwner :: "sdk \<Rightarrow> 's Client \<Rightarrow> string \<Rightarrow> ('s, bool result) state" where
  "IsOwner lib c addr =
     simulate_value c ''is_owner'' [
       Ok (AddressToScVal lib addr)] (\<lambda>v. need ''expected bool return type'' (GetB v))"

definition SetRoot :: "sdk \<Rightarrow> 's Client \<Rightarrow> bytes \<Rightarrow> int \<Rightarrow> StellarRootMetadata \<Rightarrow> MerkleProof \<Rightarrow> SignatureVec \<Rightarrow> ('s, unit result) state" where
  "SetRoot lib c root' validUntil metadata metadataProof signatures =
     invoke_void c ''set_root'' [
       Ok (Bytes32ToScVal root'), Ok (Uint32ToScVal validUntil),
       MustToScVal (StellarRootMetadata_ToScVal lib metadata), MustToScVal (MerkleProof_ToScVal lib metadataProof),
       MustToScVal (SignatureVec_ToScVal lib signatures)]"

definition GetConfig :: "sdk \<Rightarrow> 's Client \<Rightarrow> ('s, Config result) state" where
  "GetConfig lib c = simulate_value c ''get_config'' [] (ConfigFromScVal lib)"

definition InitOwner :: "sdk \<Rightarrow> 's Client \<Rightarrow> string \<Rightarrow> ('s, unit result) state" where
  "InitOwner lib c owner = invoke_void c ''init_owner'' [Ok (AddressToScVal lib owner)]"

definition Initialize :: "sdk \<Rightarrow> 's Client \<Rightarrow> string \<Rightarrow> bytes \<Rightarrow> ('s, unit result) state" where
  "Initialize lib c owner chainNetworkId =
     invoke_void c ''initialize'' [Ok (AddressToScVal lib owner), Ok (Bytes32ToScVal chainNetworkId)]"

definition SetConfig :: "sdk \<Rightarrow> 's Client \<Rightarrow> SignerAddresses \<Rightarrow> SignerGroups \<Rightarrow> bytes \<Rightarrow> bytes \<Rightarrow> bool \<Rightarrow> ('s, unit result) state" where
  "SetConfig lib c signerAddresses signerGroups groupQuorums groupParents clearRoot =
     invoke_void c ''set_config'' [
       MustToScVal (SignerAddresses_ToScVal lib signerAddresses),
       MustToScVal (SignerGroups_ToScVal lib signerGroups), Ok (Bytes32ToScVal groupQuorums),
       Ok (Bytes32ToScVal groupParents), Ok (BoolToScVal clearRoot)]"

definition GetOpCount :: "sdk \<Rightarrow> 's Client \<Rightarrow> ('s, int result) state" where
  "GetOpCount lib c = simulate_value c ''get_op_count'' [] (Uint64FromScVal)"

definition RequireOwner :: "sdk \<Rightarrow> 's Client \<Rightarrow> ('s, string result) state" where
  "RequireOwner lib c = invoke_value c ''require_owner'' [] (AddressFromScVal lib)"

definition SetNewOwner :: "sdk \<Rightarrow> 's Client \<Rightarrow> string \<Rightarrow> ('s, unit result) state" where
  "SetNewOwner lib c newOwner = invoke_void c ''set_new_owner'' [Ok (AddressToScVal lib newOwner)]"

definition ExtendAllTtls :: "sdk \<Rightarrow> 's Client \<Rightarrow> ('s, unit result) state" where
  "ExtendAllTtls lib c = invoke_void c ''extend_all_ttls'' []"

definition AcceptOwnership :: "sdk \<Rightarrow> 's Client \<Rightarrow> ('s, unit result) state" where
  "AcceptOwnership lib c = invoke_void c ''accept_ownership'' []"

definition ChainNetworkId :: "sdk \<Rightarrow> 's Client \<Rightarrow> ('s, bytes result) state" where
  "ChainNetworkId lib c = invoke_value c ''chain_network_id'' [] (Bytes32FromScVal)"

definition GetPendingOwner :: "sdk \<Rightarrow> 's Client \<Rightarrow> ('s, (string option) result) state" where
  "GetPendingOwner lib c = simulate_value c ''get_pending_owner'' [] (OptionalAddressFromScVal lib)"

definition GetRootMetadata :: "sdk \<Rightarrow> 's Client \<Rightarrow> ('s, StellarRootMetadata result) state" where
  "GetRootMetadata lib c = simulate_value c ''get_root_metadata'' [] (StellarRootMetadataFromScVal lib)"

definition TransferOwnership :: "sdk \<Rightarrow> 's Client \<Rightarrow> string \<Rightarrow> ('s, unit result) state" where
  "TransferOwnership lib c newOwner = invoke_void c ''transfer_ownership'' [Ok (AddressToScVal lib newOwner)]"

definition GetMinSecsPerLedger :: "sdk \<Rightarrow> 's Client \<Rightarrow> ('s, int result) state" where
  "GetMinSecsPerLedger lib c = simulate_value c ''get_min_secs_per_ledger'' [] (Uint64FromScVal)"

definition SetMinSecsPerLedger :: "sdk \<Rightarrow> 's Client \<Rightarrow> int \<Rightarrow> ('s, unit result) state" where
  "SetMinSecsPerLedger lib c secs = invoke_void c ''set_min_secs_per_ledger'' [Ok (Uint64ToScVal secs)]"

definition CancelOwnershipTransfer :: "sdk \<Rightarrow> 's Client \<Rightarrow> ('s, unit result) state" where
  "CancelOwnershipTransfer lib c = invoke_void c ''cancel_ownership_transfer'' []"

section \<open>Waiting for events\<close>

definition RoleGrantedEventTopic :: string where
  "RoleGrantedEventTopic = ''auth_RoleGranted''"

definition WaitForRoleGrantedEvent :: "sdk \<Rightarrow> 's Client \<Rightarrow> int \<Rightarrow> int \<Rightarrow> (RoleGrantedEvent \<Rightarrow> bool) option \<Rightarrow> wait_round list \<Rightarrow> ('s, RoleGrantedEvent result option) state" where
  "WaitForRoleGrantedEvent lib c = wait_for c RoleGrantedEventTopic (ParseRoleGrantedEvent lib)"

definition RoleRevokedEventTopic :: string where
  "RoleRevokedEventTopic = ''auth_RoleRevoked''"

definition WaitForRoleRevokedEvent :: "sdk \<Rightarrow> 's Client \<Rightarrow> int \<Rightarrow> int \<Rightarrow> (RoleRevokedEvent \<Rightarrow> bool) option \<Rightarrow> wait_round list \<Rightarrow> ('s, RoleRevokedEvent result option) state" where
  "WaitForRoleRevokedEvent lib c = wait_for c RoleRevokedEventTopic (ParseRoleRevokedEvent lib)"

definition AuthorizedCallerAddedEventTopic :: string where
  "AuthorizedCallerAddedEventTopic = ''auth_CallerAdded''"

definition WaitForAuthorizedCallerAddedEvent :: "sdk \<Rightarrow> 's Client \<Rightarrow> int \<Rightarrow> int \<Rightarrow> (AuthorizedCallerAddedEvent \<Rightarrow> bool) option \<Rightarrow> wait_round list \<Rightarrow> ('s, AuthorizedCallerAddedEvent result option) state" where
  "WaitForAuthorizedCallerAddedEvent lib c = wait_for c AuthorizedCallerAddedEventTopic (ParseAuthorizedCallerAddedEvent lib)"

definition AuthorizedCallerRemovedEventTopic :: string where
  "AuthorizedCallerRemovedEventTopic = ''auth_CallerRemoved''"

definition WaitForAuthorizedCallerRemovedEvent :: "sdk \<Rightarrow> 's Client \<Rightarrow> int \<Rightarrow> int \<Rightarrow> (AuthorizedCallerRemovedEvent \<Rightarrow> bool) option \<Rightarrow> wait_round list \<Rightarrow> ('s, AuthorizedCallerRemovedEvent result option) state" where
  "WaitForAuthorizedCallerRemovedEvent lib c = wait_for c AuthorizedCallerRemovedEventTopic (ParseAuthorizedCallerRemovedEvent lib)"

definition OwnershipTransferStartedEventTopic :: string where
  "OwnershipTransferStartedEventTopic = ''auth_OwnerTransferStart''"

definition WaitForOwnershipTransferStartedEvent :: "sdk \<Rightarrow> 's Client \<Rightarrow> int \<Rightarrow> int \<Rightarrow> (OwnershipTransferStartedEvent \<Rightarrow> bool) option \<Rightarrow> wait_round list \<Rightarrow> ('s, OwnershipTransferStartedEvent result option) state" where
  "WaitForOwnershipTransferStartedEvent lib c = wait_for c OwnershipTransferStartedEventTopic (ParseOwnershipTransferStartedEvent lib)"

definition NewRootEventTopic :: string where
  "NewRootEventTopic = ''mcms_NewRoot''"

definition WaitForNewRootEvent :: "sdk \<Rightarrow> 's Client \<Rightarrow> int \<Rightarrow> int \<Rightarrow> (NewRootEvent \<Rightarrow> bool) option \<Rightarrow> wait_round list \<Rightarrow> ('s, NewRootEvent result option) state" where
  "WaitForNewRootEvent lib c = wait_for c NewRootEventTopic (ParseNewRootEvent lib)"

definition ConfigSetEventTopic :: string where
  "ConfigSetEventTopic = ''mcms_ConfigSet''"

definition WaitForConfigSetEvent :: "sdk \<Rightarrow> 's Client \<Rightarrow> int \<Rightarrow> int \<Rightarrow> (ConfigSetEvent \<Rightarrow> bool) option \<Rightarrow> wait_round list \<Rightarrow> ('s, ConfigSetEvent result option) state" where
  "WaitForConfigSetEvent lib c = wait_for c ConfigSetEventTopic (ParseConfigSetEvent lib)"

definition OpExecutedEventTopic :: string where
  "OpExecutedEventTopic = ''mcms_OpExecuted''"

definition WaitForOpExecutedEvent :: "sdk \<Rightarrow> 's Client \<Rightarrow> int \<Rightarrow> int \<Rightarrow> (OpExecutedEvent \<Rightarrow> bool) option \<Rightarrow> wait_round list \<Rightarrow> ('s, OpExecutedEvent result option) state" where
  "WaitForOpExecutedEvent lib c = wait_for c OpExecutedEventTopic (ParseOpExecutedEvent lib)"

definition MinSecsPerLedgerSetEventTopic :: string where
  "MinSecsPerLedgerSetEventTopic = ''mcms_MinSecsPerLedgerSet''"

definition WaitForMinSecsPerLedgerSetEvent :: "sdk \<Rightarrow> 's Client \<Rightarrow> int \<Rightarrow> int \<Rightarrow> (MinSecsPerLedgerSetEvent \<Rightarrow> bool) option \<Rightarrow> wait_round list \<Rightarrow> ('s, MinSecsPerLedgerSetEvent result option) state" where
  "WaitForMinSecsPerLedgerSetEvent lib c = wait_for c MinSecsPerLedgerSetEventTopic (ParseMinSecsPerLedgerSetEvent lib)"

section \<open>Round trips\<close>

definition valid_Signer :: "sdk \<Rightarrow> Signer \<Rightarrow> bool" where
  "valid_Signer lib s \<longleftrightarrow> length (Signer_Addr s) = 32"

lemma mcms_Signer_keys: "sort [''addr'', ''group'', ''index''] =
    [''addr'', ''group'', ''index'']"
  by simp

lemma mcms_Signer_codec:
  assumes "sdk_laws lib"
  shows "codec (Signer_ToScVal lib) (SignerFromScVal lib) (valid_Signer lib)"
proof (rule codecI)
  show "\<exists>v. Signer_ToScVal lib s = Ok v \<and> SignerFromScVal lib v = Ok s" if ok: "valid_Signer lib s" for s
    using ok assms
    by (cases s) (simp add: Signer_ToScVal_def SignerFromScVal_def Signer_entry_def zero_Signer_def valid_Signer_def
        mcms_Signer_keys struct_codec_simps del: sort_key_simps fold_entries.simps(2))
qed

definition valid_Config :: "sdk \<Rightarrow> Config \<Rightarrow> bool" where
  "valid_Config lib s \<longleftrightarrow> length (Config_GroupParents s) = 32 \<and> length (Config_GroupQuorums s) = 32 \<and>
     list_all (valid_Signer lib) (Config_Signers s)"

lemma mcms_Config_keys: "sort [''group_parents'', ''group_quorums'', ''signers''] =
    [''group_parents'', ''group_quorums'', ''signers'']"
  by simp

lemma mcms_Config_codec:
  assumes "sdk_laws lib"
  shows "codec (Config_ToScVal lib) (ConfigFromScVal lib) (valid_Config lib)"
proof (rule codecI)
  show "\<exists>v. Config_ToScVal lib s = Ok v \<and> ConfigFromScVal lib v = Ok s" if ok: "valid_Config lib s" for s
  proof -
    obtain v1 where o1: "StructSliceToScVal (Signer_ToScVal lib) (Config_Signers s) = Ok v1"
      "\<And>msg. vec_of msg (SignerFromScVal lib) v1 = Ok (Config_Signers s)"
      using codec_slice [OF mcms_Signer_codec [OF assms]] ok unfolding valid_Config_def by blast
    show ?thesis using o1 ok assms
      by (cases s) (simp add: Config_ToScVal_def ConfigFromScVal_def Config_entry_def zero_Config_def valid_Config_def
        mcms_Config_keys struct_codec_simps del: sort_key_simps fold_entries.simps(2))
  qed
qed

definition valid_Signature :: "sdk \<Rightarrow> Signature \<Rightarrow> bool" where
  "valid_Signature lib s \<longleftrightarrow> length (Signature_R s) = 32 \<and> length (Signature_S s) = 32"

lemma mcms_Signature_keys: "sort [''r'', ''s'', ''v''] =
    [''r'', ''s'', ''v'']"
  by simp

lemma mcms_Signature_codec:
  assumes "sdk_laws lib"
  shows "codec (Signature_ToScVal lib) (SignatureFromScVal lib) (valid_Signature lib)"
proof (rule codecI)
  show "\<exists>v. Signature_ToScVal lib s = Ok v \<and> SignatureFromScVal lib v = Ok s" if ok: "valid_Signature lib s" for s
    using ok assms
    by (cases s) (simp add: Signature_ToScVal_def SignatureFromScVal_def Signature_entry_def zero_Signature_def valid_Signature_def
        mcms_Signature_keys struct_codec_simps del: sort_key_simps fold_entries.simps(2))
qed

definition valid_StellarOp :: "sdk \<Rightarrow> StellarOp \<Rightarrow> bool" where
  "valid_StellarOp lib s \<longleftrightarrow> length (StellarOp_ChainId s) = 32 \<and> length (StellarOp_Multisig s) = 32 \<and>
     length (StellarOp_To s) = 32 \<and> length (StellarOp_Value s) = 32"

lemma mcms_StellarOp_keys: "sort [''chain_id'', ''data'', ''multisig'', ''nonce'', ''to'', ''value''] =
    [''chain_id'', ''data'', ''multisig'', ''nonce'', ''to'', ''value'']"
  by simp

lemma mcms_StellarOp_codec:
  assumes "sdk_laws lib"
  shows "codec (StellarOp_ToScVal lib) (StellarOpFromScVal lib) (valid_StellarOp lib)"
proof (rule codecI)
  show "\<exists>v. StellarOp_ToScVal lib s = Ok v \<and> StellarOpFromScVal lib v = Ok s" if ok: "valid_StellarOp lib s" for s
    using ok assms
    by (cases s) (simp add: StellarOp_ToScVal_def StellarOpFromScVal_def StellarOp_entry_def zero_StellarOp_def valid_StellarOp_def
        mcms_StellarOp_keys struct_codec_simps del: sort_key_simps fold_entries.simps(2))
qed

definition valid_MerkleProof :: "sdk \<Rightarrow> MerkleProof \<Rightarrow> bool" where
  "valid_MerkleProof lib s \<longleftrightarrow> list_all (\<lambda>b. length b = 32) (MerkleProof_Inner s)"

lemma mcms_MerkleProof_keys: "sort [''inner''] =
    [''inner'']"
  by simp

lemma mcms_MerkleProof_codec:
  assumes "sdk_laws lib"
  shows "codec (MerkleProof_ToScVal lib) (MerkleProofFromScVal lib) (valid_MerkleProof lib)"
proof (rule codecI)
  show "\<exists>v. MerkleProof_ToScVal lib s = Ok v \<and> MerkleProofFromScVal lib v = Ok s" if ok: "valid_MerkleProof lib s" for s
    using ok assms
    by (cases s) (simp add: MerkleProof_ToScVal_def MerkleProofFromScVal_def MerkleProof_entry_def zero_MerkleProof_def valid_MerkleProof_def
        mcms_MerkleProof_keys struct_codec_simps del: sort_key_simps fold_entries.simps(2))
qed

definition valid_SignatureVec :: "sdk \<Rightarrow> SignatureVec \<Rightarrow> bool" where
  "valid_SignatureVec lib s \<longleftrightarrow> list_all (valid_Signature lib) (SignatureVec_Inner s)"

lemma mcms_SignatureVec_keys: "sort [''inner''] =
    [''inner'']"
  by simp

lemma mcms_SignatureVec_codec:
  assumes "sdk_laws lib"
  shows "codec (SignatureVec_ToScVal lib) (SignatureVecFromScVal lib) (valid_SignatureVec lib)"
proof (rule codecI)
  show "\<exists>v. SignatureVec_ToScVal lib s = Ok v \<and> SignatureVecFromScVal lib v = Ok s" if ok: "valid_SignatureVec lib s" for s
  proof -
    obtain v1 where o1: "StructSliceToScVal (Signature_ToScVal lib) (SignatureVec_Inner s) = Ok v1"
      "\<And>msg. vec_of msg (SignatureFromScVal lib) v1 = Ok (SignatureVec_Inner s)"
      using codec_slice [OF mcms_Signature_codec [OF assms]] ok unfolding valid_SignatureVec_def by blast
    show ?thesis using o1 ok assms
      by (cases s) (simp add: SignatureVec_ToScVal_def SignatureVecFromScVal_def SignatureVec_entry_def zero_SignatureVec_def valid_SignatureVec_def
        mcms_SignatureVec_keys struct_codec_simps del: sort_key_simps fold_entries.simps(2))
  qed
qed

definition valid_SignerGroups :: "sdk \<Rightarrow> SignerGroups \<Rightarrow> bool" where
  "valid_SignerGroups lib s \<longleftrightarrow> True"

lemma mcms_SignerGroups_keys: "sort [''inner''] =
    [''inner'']"
  by simp

lemma mcms_SignerGroups_codec:
  assumes "sdk_laws lib"
  shows "codec (SignerGroups_ToScVal lib) (SignerGroupsFromScVal lib) (valid_SignerGroups lib)"
proof (rule codecI)
  show "\<exists>v. SignerGroups_ToScVal lib s = Ok v \<and> SignerGroupsFromScVal lib v = Ok s" if ok: "valid_SignerGroups lib s" for s
    using ok assms
    by (cases s) (simp add: SignerGroups_ToScVal_def SignerGroupsFromScVal_def SignerGroups_entry_def zero_SignerGroups_def valid_SignerGroups_def
        mcms_SignerGroups_keys struct_codec_simps del: sort_key_simps fold_entries.simps(2))
qed

definition valid_SignerAddresses :: "sdk \<Rightarrow> SignerAddresses \<Rightarrow> bool" where
  "valid_SignerAddresses lib s \<longleftrightarrow> list_all (\<lambda>b. length b = 32) (SignerAddresses_Inner s)"

lemma mcms_SignerAddresses_keys: "sort [''inner''] =
    [''inner'']"
  by simp

lemma mcms_SignerAddresses_codec:
  assumes "sdk_laws lib"
  shows "codec (SignerAddresses_ToScVal lib) (SignerAddressesFromScVal lib) (valid_SignerAddresses lib)"
proof (rule codecI)
  show "\<exists>v. SignerAddresses_ToScVal lib s = Ok v \<and> SignerAddressesFromScVal lib v = Ok s" if ok: "valid_SignerAddresses lib s" for s
    using ok assms
    by (cases s) (simp add: SignerAddresses_ToScVal_def SignerAddressesFromScVal_def SignerAddresses_entry_def zero_SignerAddresses_def valid_SignerAddresses_def
        mcms_SignerAddresses_keys struct_codec_simps del: sort_key_simps fold_entries.simps(2))
qed

definition valid_StellarRootMetadata :: "sdk \<Rightarrow> StellarRootMetadata \<Rightarrow> bool" where
  "valid_StellarRootMetadata lib s \<longleftrightarrow> length (StellarRootMetadata_ChainId s) = 32 \<and> length (StellarRootMetadata_Multisig s) = 32"

lemma mcms_StellarRootMetadata_keys: "sort [''chain_id'', ''multisig'', ''override_previous_root'', ''post_op_count'', ''pre_op_count''] =
    [''chain_id'', ''multisig'', ''override_previous_root'', ''post_op_count'', ''pre_op_count'']"
  by simp

lemma mcms_StellarRootMetadata_codec:
  assumes "sdk_laws lib"
  shows "codec (StellarRootMetadata_ToScVal lib) (StellarRootMetadataFromScVal lib) (valid_StellarRootMetadata lib)"
proof (rule codecI)
  show "\<exists>v. StellarRootMetadata_ToScVal lib s = Ok v \<and> StellarRootMetadataFromScVal lib v = Ok s" if ok: "valid_StellarRootMetadata lib s" for s
    using ok assms
    by (cases s) (simp add: StellarRootMetadata_ToScVal_def StellarRootMetadataFromScVal_def StellarRootMetadata_entry_def zero_StellarRootMetadata_def valid_StellarRootMetadata_def
        mcms_StellarRootMetadata_keys struct_codec_simps del: sort_key_simps fold_entries.simps(2))
qed

definition valid_ExpiringRootAndOpCount :: "sdk \<Rightarrow> ExpiringRootAndOpCount \<Rightarrow> bool" where
  "valid_ExpiringRootAndOpCount lib s \<longleftrightarrow> length (ExpiringRootAndOpCount_Root s) = 32"

lemma mcms_ExpiringRootAndOpCount_keys: "sort [''op_count'', ''root'', ''valid_until''] =
    [''op_count'', ''root'', ''valid_until'']"
  by simp

lemma mcms_ExpiringRootAndOpCount_codec:
  assumes "sdk_laws lib"
  shows "codec (ExpiringRootAndOpCount_ToScVal lib) (ExpiringRootAndOpCountFromScVal lib) (valid_ExpiringRootAndOpCount lib)"
proof (rule codecI)
  show "\<exists>v. ExpiringRootAndOpCount_ToScVal lib s = Ok v \<and> ExpiringRootAndOpCountFromScVal lib v = Ok s" if ok: "valid_ExpiringRootAndOpCount lib s" for s
    using ok assms
    by (cases s) (simp add: ExpiringRootAndOpCount_ToScVal_def ExpiringRootAndOpCountFromScVal_def ExpiringRootAndOpCount_entry_def zero_ExpiringRootAndOpCount_def valid_ExpiringRootAndOpCount_def
        mcms_ExpiringRootAndOpCount_keys struct_codec_simps del: sort_key_simps fold_entries.simps(2))
qed

end
