(* ===== verification/Bind_Router.thy ===== *)
theory Bind_Router
  imports Bind_Common
begin

text \<open>
  The generated binding of the router contract (bindings/contracts/router): the types of its own and every
  method of \<open>RouterClient\<close>.
\<close>

section \<open>Structs\<close>

record RouterConfig =
  RouterConfig_RmnProxy :: string

definition zero_RouterConfig :: RouterConfig where
  "zero_RouterConfig = \<lparr>RouterConfig_RmnProxy = []\<rparr>"

definition RouterConfig_ToScVal :: "sdk \<Rightarrow> RouterConfig \<Rightarrow> ScVal result" where
  "RouterConfig_ToScVal lib s = build_struct [
     (''rmn_proxy'', Ok (AddressToScVal lib (RouterConfig_RmnProxy s)))]"

definition RouterConfig_entry :: "sdk \<Rightarrow> string \<Rightarrow> ScVal \<Rightarrow> RouterConfig \<Rightarrow> RouterConfig result" where
  "RouterConfig_entry lib key v s =
     (if key = ''rmn_proxy'' then put (named ''rmn_proxy'' (AddressFromScVal lib v)) (\<lambda>x. s\<lparr>RouterConfig_RmnProxy := x\<rparr>)
      else Ok s)"

definition RouterConfigFromScVal :: "sdk \<Rightarrow> ScVal \<Rightarrow> RouterConfig result" where
  "RouterConfigFromScVal lib = parse_struct ''not a map type'' (RouterConfig_entry lib) zero_RouterConfig"

section \<open>Events\<close>

record MessageExecutedEvent =
  MessageExecutedEvent_MessageId :: bytes
  MessageExecutedEvent_SourceChainSelector :: int
  MessageExecutedEvent_Offramp :: string
  MessageExecutedEvent_Ledger :: int
  MessageExecutedEvent_TxHash :: string

definition MessageExecutedEvent_entry :: "sdk \<Rightarrow> string \<Rightarrow> ScVal \<Rightarrow> MessageExecutedEvent \<Rightarrow> MessageExecutedEvent result" where
  "MessageExecutedEvent_entry lib key v s =
     (if key = ''message_id'' then set_if_ok (Bytes32FromScVal v) (\<lambda>x s. s\<lparr>MessageExecutedEvent_MessageId := x\<rparr>) s
      else if key = ''source_chain_selector'' then set_if_ok (Uint64FromScVal v) (\<lambda>x s. s\<lparr>MessageExecutedEvent_SourceChainSelector := x\<rparr>) s
      else if key = ''offramp'' then set_if_ok (AddressFromScVal lib v) (\<lambda>x s. s\<lparr>MessageExecutedEvent_Offramp := x\<rparr>) s
      else Ok s)"

definition ParseMessageExecutedEvent :: "sdk \<Rightarrow> EventInfo \<Rightarrow> MessageExecutedEvent result" where
  "ParseMessageExecutedEvent lib = parse_event lib (MessageExecutedEvent_entry lib) (\<lambda>ledger tx.
     \<lparr>MessageExecutedEvent_MessageId = replicate 32 0, MessageExecutedEvent_SourceChainSelector = 0,
        MessageExecutedEvent_Offramp = [], MessageExecutedEvent_Ledger = ledger, MessageExecutedEvent_TxHash = tx\<rparr>)"

record CCIPSendRequestedEvent =
  CCIPSendRequestedEvent_MessageId :: bytes
  CCIPSendRequestedEvent_DestChainSelector :: int
  CCIPSendRequestedEvent_Sender :: string
  CCIPSendRequestedEvent_Ledger :: int
  CCIPSendRequestedEvent_TxHash :: string

definition CCIPSendRequestedEvent_entry :: "sdk \<Rightarrow> string \<Rightarrow> ScVal \<Rightarrow> CCIPSendRequestedEvent \<Rightarrow> CCIPSendRequestedEvent result" where
  "CCIPSendRequestedEvent_entry lib key v s =
     (if key = ''message_id'' then set_if_ok (Bytes32FromScVal v) (\<lambda>x s. s\<lparr>CCIPSendRequestedEvent_MessageId := x\<rparr>) s
      else if key = ''dest_chain_selector'' then set_if_ok (Uint64FromScVal v) (\<lambda>x s. s\<lparr>CCIPSendRequestedEvent_DestChainSelector := x\<rparr>) s
      else if key = ''sender'' then set_if_ok (AddressFromScVal lib v) (\<lambda>x s. s\<lparr>CCIPSendRequestedEvent_Sender := x\<rparr>) s
      else Ok s)"

definition ParseCCIPSendRequestedEvent :: "sdk \<Rightarrow> EventInfo \<Rightarrow> CCIPSendRequestedEvent result" where
  "ParseCCIPSendRequestedEvent lib = parse_event lib (CCIPSendRequestedEvent_entry lib) (\<lambda>ledger tx.
     \<lparr>CCIPSendRequestedEvent_MessageId = replicate 32 0, CCIPSendRequestedEvent_DestChainSelector = 0,
        CCIPSendRequestedEvent_Sender = [], CCIPSendRequestedEvent_Ledger = ledger, CCIPSendRequestedEvent_TxHash = tx\<rparr>)"

section \<open>The client\<close>

definition NewRouterClient :: "'s Invoker \<Rightarrow> string \<Rightarrow> 's Client" where
  "NewRouterClient ivk contractID = mk_client ivk contractID"

definition ContractID :: "'s Client \<Rightarrow> string" where
  "ContractID c = cl_contractID c"

definition Owner :: "sdk \<Rightarrow> 's Client \<Rightarrow> ('s, (string option) result) state" where
  "Owner lib c = simulate_value c ''owner'' [] (OptionalAddressFromScVal lib)"

definition GetFee :: "sdk \<Rightarrow> 's Client \<Rightarrow> int \<Rightarrow> StellarToAnyMessage \<Rightarrow> ('s, int result) state" where
  "GetFee lib c destChainSelector message =
     simulate_value c ''get_fee'' [
       Ok (Uint64ToScVal destChainSelector), MustToScVal (StellarToAnyMessage_ToScVal lib message)] (I128FromScVal)"

definition IsOwner :: "sdk \<Rightarrow> 's Client \<Rightarrow> string \<Rightarrow> ('s, bool result) state" where
  "IsOwner lib c addr =
     simulate_value c ''is_owner'' [
       Ok (AddressToScVal lib addr)] (\<lambda>v. need ''expected bool return type'' (GetB v))"

definition CcipSend :: "sdk \<Rightarrow> 's Client \<Rightarrow> string \<Rightarrow> int \<Rightarrow> StellarToAnyMessage \<Rightarrow> int \<Rightarrow> ('s, bytes result) state" where
  "CcipSend lib c sender destChainSelector message feeTokenAmount =
     invoke_value c ''ccip_send'' [
       Ok (AddressToScVal lib sender), Ok (Uint64ToScVal destChainSelector),
       MustToScVal (StellarToAnyMessage_ToScVal lib message), Ok (I128ToScVal feeTokenAmount)] (Bytes32FromScVal)"

definition GetConfig :: "sdk \<Rightarrow> 's Client \<Rightarrow> ('s, RouterConfig result) state" where
  "GetConfig lib c = simulate_value c ''get_config'' [] (RouterConfigFromScVal lib)"

definition GetOnramp :: "sdk \<Rightarrow> 's Client \<Rightarrow> int \<Rightarrow> ('s, string result) state" where
  "GetOnramp lib c destChainSelector =
     simulate_value c ''get_onramp'' [Ok (Uint64ToScVal destChainSelector)] (AddressFromScVal lib)"

definition InitOwner :: "sdk \<Rightarrow> 's Client \<Rightarrow> string \<Rightarrow> ('s, unit result) state" where
  "InitOwner lib c owner = invoke_void c ''init_owner'' [Ok (AddressToScVal lib owner)]"

definition Initialize :: "sdk \<Rightarrow> 's Client \<Rightarrow> string \<Rightarrow> string \<Rightarrow> ('s, unit result) state" where
  "Initialize lib c owner rmnProxy =
     invoke_void c ''initialize'' [Ok (AddressToScVal lib owner), Ok (AddressToScVal lib rmnProxy)]"

definition IsOfframp :: "sdk \<Rightarrow> 's Client \<Rightarrow> int \<Rightarrow> string \<Rightarrow> ('s, bool result) state" where
  "IsOfframp lib c sourceChainSelector offramp =
     simulate_value c ''is_offramp'' [
       Ok (Uint64ToScVal sourceChainSelector), Ok (AddressToScVal lib offramp)] (\<lambda>v. need ''expected bool return type'' (GetB v))"

definition SetOnramp :: "sdk \<Rightarrow> 's Client \<Rightarrow> int \<Rightarrow> string \<Rightarrow> ('s, unit result) state" where
  "SetOnramp lib c destChainSelector onramp =
     invoke_void c ''set_onramp'' [Ok (Uint64ToScVal destChainSelector), Ok (AddressToScVal lib onramp)]"

definition AddOfframp :: "sdk \<Rightarrow> 's Client \<Rightarrow> int \<Rightarrow> string \<Rightarrow> ('s, unit result) state" where
  "AddOfframp lib c sourceChainSelector offramp =
     invoke_void c ''add_offramp'' [Ok (Uint64ToScVal sourceChainSelector), Ok (AddressToScVal lib offramp)]"

definition GetOnramps :: "sdk \<Rightarrow> 's Client \<Rightarrow> ('s, (OnRampEntry list) result) state" where
  "GetOnramps lib c =
     simulate_value c ''get_onramps'' [] (vec_of ''expected vec return type'' (OnRampEntryFromScVal lib))"

definition GetOfframps :: "sdk \<Rightarrow> 's Client \<Rightarrow> ('s, (OffRampEntry list) result) state" where
  "GetOfframps lib c =
     simulate_value c ''get_offramps'' [] (vec_of ''expected vec return type'' (OffRampEntryFromScVal lib))"

definition RequireOwner :: "sdk \<Rightarrow> 's Client \<Rightarrow> ('s, string result) state" where
  "RequireOwner lib c = invoke_value c ''require_owner'' [] (AddressFromScVal lib)"

definition RouteMessage :: "sdk \<Rightarrow> 's Client \<Rightarrow> string \<Rightarrow> int \<Rightarrow> string \<Rightarrow> AnyToStellarMessage \<Rightarrow> ('s, unit result) state" where
  "RouteMessage lib c offramp sourceChainSelector receiver message =
     invoke_void c ''route_message'' [
       Ok (AddressToScVal lib offramp), Ok (Uint64ToScVal sourceChainSelector), Ok (AddressToScVal lib receiver),
       MustToScVal (AnyToStellarMessage_ToScVal lib message)]"

definition SetNewOwner :: "sdk \<Rightarrow> 's Client \<Rightarrow> string \<Rightarrow> ('s, unit result) state" where
  "SetNewOwner lib c newOwner = invoke_void c ''set_new_owner'' [Ok (AddressToScVal lib newOwner)]"

definition RemoveOfframp :: "sdk \<Rightarrow> 's Client \<Rightarrow> int \<Rightarrow> string \<Rightarrow> ('s, unit result) state" where
  "RemoveOfframp lib c sourceChainSelector offramp =
     invoke_void c ''remove_offramp'' [Ok (Uint64ToScVal sourceChainSelector), Ok (AddressToScVal lib offramp)]"

definition AcceptOwnership :: "sdk \<Rightarrow> 's Client \<Rightarrow> ('s, unit result) state" where
  "AcceptOwnership lib c = invoke_void c ''accept_ownership'' []"

definition TypeAndVersion :: "sdk \<Rightarrow> 's Client \<Rightarrow> ('s, string result) state" where
  "TypeAndVersion lib c = invoke_value c ''type_and_version'' [] (StringFromScVal)"

definition GetPendingOwner :: "sdk \<Rightarrow> 's Client \<Rightarrow> ('s, (string option) result) state" where
  "GetPendingOwner lib c = simulate_value c ''get_pending_owner'' [] (OptionalAddressFromScVal lib)"

definition ApplyRampUpdates :: "sdk \<Rightarrow> 's Client \<Rightarrow> OnRampEntry list \<Rightarrow> OffRampEntry list \<Rightarrow> OffRampEntry list \<Rightarrow> ('s, unit result) state" where
  "ApplyRampUpdates lib c onrampUpdates offrampRemoves offrampAdds =
     invoke_void c ''apply_ramp_updates'' [
       StructSliceToScVal (OnRampEntry_ToScVal lib) onrampUpdates,
       StructSliceToScVal (OffRampEntry_ToScVal lib) offrampRemoves,
       StructSliceToScVal (OffRampEntry_ToScVal lib) offrampAdds]"

definition IsChainSupported :: "sdk \<Rightarrow> 's Client \<Rightarrow> int \<Rightarrow> ('s, bool result) state" where
  "IsChainSupported lib c destChainSelector =
     simulate_value c ''is_chain_supported'' [
       Ok (Uint64ToScVal destChainSelector)] (\<lambda>v. need ''expected bool return type'' (GetB v))"

definition TransferOwnership :: "sdk \<Rightarrow> 's Client \<Rightarrow> string \<Rightarrow> ('s, unit result) state" where
  "TransferOwnership lib c newOwner = invoke_void c ''transfer_ownership'' [Ok (AddressToScVal lib newOwner)]"

definition CancelOwnershipTransfer :: "sdk \<Rightarrow> 's Client \<Rightarrow> ('s, unit result) state" where
  "CancelOwnershipTransfer lib c = invoke_void c ''cancel_ownership_transfer'' []"

section \<open>Waiting for events\<close>

definition RoleGrantedEventTopic :: string where
  "RoleGrantedEventTopic = ''auth_RoleGranted''"

definition WaitForRoleGrantedEvent :: "sdk \<Rightarrow> 's Client \<Rightarrow> int \<Rightarrow> int \<Rightarrow> (RoleGrantedEvent \<Rightarrow> bool) option \<Rightarrow> wait_round list \<Rightarrow> ('s, RoleGrantedEvent result option) state" where
  "WaitForRoleGrantedEvent lib c = wait_for c RoleGrantedEventTopic (ParseRoleGrantedEvent lib)"

definition RoleRevokedEventTopic :: string where
  "RoleRevokedEventTopic = ''auth_RoleRevoked''"

definition WaitForRoleRevokedEvent :: "sdk \<Rightarrow> 's Client \<Rightarrow> int \<Rightarrow> int \<Rightarrow> (RoleRevokedEvent \<Rightarrow> bool) option \<Rightarrow> wait_round list \<Rightarrow> ('s, RoleRevokedEvent result option) state" where
  "WaitForRoleRevokedEvent lib c = wait_for c RoleRevokedEventTopic (ParseRoleRevokedEvent lib)"

definition AuthorizedCallerAddedEventTopic :: string where
  "AuthorizedCallerAddedEventTopic = ''auth_CallerAdded''"

definition WaitForAuthorizedCallerAddedEvent :: "sdk \<Rightarrow> 's Client \<Rightarrow> int \<Rightarrow> int \<Rightarrow> (AuthorizedCallerAddedEvent \<Rightarrow> bool) option \<Rightarrow> wait_round list \<Rightarrow> ('s, AuthorizedCallerAddedEvent result option) state" where
  "WaitForAuthorizedCallerAddedEvent lib c = wait_for c AuthorizedCallerAddedEventTopic (ParseAuthorizedCallerAddedEvent lib)"

definition AuthorizedCallerRemovedEventTopic :: string where
  "AuthorizedCallerRemovedEventTopic = ''auth_CallerRemoved''"

definition WaitForAuthorizedCallerRemovedEvent :: "sdk \<Rightarrow> 's Client \<Rightarrow> int \<Rightarrow> int \<Rightarrow> (AuthorizedCallerRemovedEvent \<Rightarrow> bool) option \<Rightarrow> wait_round list \<Rightarrow> ('s, AuthorizedCallerRemovedEvent result option) state" where
  "WaitForAuthorizedCallerRemovedEvent lib c = wait_for c AuthorizedCallerRemovedEventTopic (ParseAuthorizedCallerRemovedEvent lib)"

definition OwnershipTransferStartedEventTopic :: string where
  "OwnershipTransferStartedEventTopic = ''auth_OwnerTransferStart''"

definition WaitForOwnershipTransferStartedEvent :: "sdk \<Rightarrow> 's Client \<Rightarrow> int \<Rightarrow> int \<Rightarrow> (OwnershipTransferStartedEvent \<Rightarrow> bool) option \<Rightarrow> wait_round list \<Rightarrow> ('s, OwnershipTransferStartedEvent result option) state" where
  "WaitForOwnershipTransferStartedEvent lib c = wait_for c OwnershipTransferStartedEventTopic (ParseOwnershipTransferStartedEvent lib)"

definition OnRampSetEventTopic :: string where
  "OnRampSetEventTopic = ''router_OnRampSet''"

definition WaitForOnRampSetEvent :: "sdk \<Rightarrow> 's Client \<Rightarrow> int \<Rightarrow> int \<Rightarrow> (OnRampSetEvent \<Rightarrow> bool) option \<Rightarrow> wait_round list \<Rightarrow> ('s, OnRampSetEvent result option) state" where
  "WaitForOnRampSetEvent lib c = wait_for c OnRampSetEventTopic (ParseOnRampSetEvent lib)"

definition OffRampAddedEventTopic :: string where
  "OffRampAddedEventTopic = ''router_OffRampAdded''"

definition WaitForOffRampAddedEvent :: "sdk \<Rightarrow> 's Client \<Rightarrow> int \<Rightarrow> int \<Rightarrow> (OffRampAddedEvent \<Rightarrow> bool) option \<Rightarrow> wait_round list \<Rightarrow> ('s, OffRampAddedEvent result option) state" where
  "WaitForOffRampAddedEvent lib c = wait_for c OffRampAddedEventTopic (ParseOffRampAddedEvent lib)"

definition OffRampRemovedEventTopic :: string where
  "OffRampRemovedEventTopic = ''router_OffRampRemoved''"

definition WaitForOffRampRemovedEvent :: "sdk \<Rightarrow> 's Client \<Rightarrow> int \<Rightarrow> int \<Rightarrow> (OffRampRemovedEvent \<Rightarrow> bool) option \<Rightarrow> wait_round list \<Rightarrow> ('s, OffRampRemovedEvent result option) state" where
  "WaitForOffRampRemovedEvent lib c = wait_for c OffRampRemovedEventTopic (ParseOffRampRemovedEvent lib)"

definition MessageExecutedEventTopic :: string where
  "MessageExecutedEventTopic = ''router_MessageExecuted''"

definition WaitForMessageExecutedEvent :: "sdk \<Rightarrow> 's Client \<Rightarrow> int \<Rightarrow> int \<Rightarrow> (MessageExecutedEvent \<Rightarrow> bool) option \<Rightarrow> wait_round list \<Rightarrow> ('s, MessageExecutedEvent result option) state" where
  "WaitForMessageExecutedEvent lib c = wait_for c MessageExecutedEventTopic (ParseMessageExecutedEvent lib)"

definition CCIPSendRequestedEventTopic :: string where
  "CCIPSendRequestedEventTopic = ''router_CCIPSendRequested''"

definition WaitForCCIPSendRequestedEvent :: "sdk \<Rightarrow> 's Client \<Rightarrow> int \<Rightarrow> int \<Rightarrow> (CCIPSendRequestedEvent \<Rightarrow> bool) option \<Rightarrow> wait_round list \<Rightarrow> ('s, CCIPSendRequestedEvent result option) state" where
  "WaitForCCIPSendRequestedEvent lib c = wait_for c CCIPSendRequestedEventTopic (ParseCCIPSendRequestedEvent lib)"

section \<open>Round trips\<close>

definition valid_RouterConfig :: "sdk \<Rightarrow> RouterConfig \<Rightarrow> bool" where
  "valid_RouterConfig lib s \<longleftrightarrow> is_address lib (RouterConfig_RmnProxy s)"

lemma router_RouterConfig_keys: "sort [''rmn_proxy''] =
    [''rmn_proxy'']"
  by simp

lemma router_RouterConfig_codec:
  assumes "sdk_laws lib"
  shows "codec (RouterConfig_ToScVal lib) (RouterConfigFromScVal lib) (valid_RouterConfig lib)"
proof (rule codecI)
  show "\<exists>v. RouterConfig_ToScVal lib s = Ok v \<and> RouterConfigFromScVal lib v = Ok s" if ok: "valid_RouterConfig lib s" for s
    using ok assms
    by (cases s) (simp add: RouterConfig_ToScVal_def RouterConfigFromScVal_def RouterConfig_entry_def zero_RouterConfig_def valid_RouterConfig_def
        router_RouterConfig_keys struct_codec_simps del: sort_key_simps fold_entries.simps(2))
qed

end
