(* ===== verification/Bind_Onramp.thy ===== *)
theory Bind_Onramp
  imports Bind_Common
begin

text \<open>
  The generated binding of the onramp contract (bindings/contracts/onramp): the types of its own and every
  method of \<open>OnRampClient\<close>.
\<close>

section \<open>Structs\<close>

record Receipt =
  Receipt_DestBytesOverhead :: int
  Receipt_DestGasLimit :: int
  Receipt_ExtraArgs :: bytes
  Receipt_FeeTokenAmount :: int
  Receipt_Issuer :: string

definition zero_Receipt :: Receipt where
  "zero_Receipt = \<lparr>Receipt_DestBytesOverhead = 0, Receipt_DestGasLimit = 0, Receipt_ExtraArgs = [], Receipt_FeeTokenAmount = 0,
     Receipt_Issuer = []\<rparr>"

definition Receipt_ToScVal :: "sdk \<Rightarrow> Receipt \<Rightarrow> ScVal result" where
  "Receipt_ToScVal lib s = build_struct [
     (''dest_bytes_overhead'', Ok (Uint32ToScVal (Receipt_DestBytesOverhead s))),
     (''dest_gas_limit'', Ok (Uint32ToScVal (Receipt_DestGasLimit s))),
     (''extra_args'', Ok (BytesToScVal (Receipt_ExtraArgs s))),
     (''fee_token_amount'', Ok (I128ToScVal (Receipt_FeeTokenAmount s))),
     (''issuer'', Ok (AddressToScVal lib (Receipt_Issuer s)))]"

definition Receipt_entry :: "sdk \<Rightarrow> string \<Rightarrow> ScVal \<Rightarrow> Receipt \<Rightarrow> Receipt result" where
  "Receipt_entry lib key v s =
     (if key = ''dest_bytes_overhead'' then put (need ''dest_bytes_overhead is not u32'' (GetU32 v)) (\<lambda>x. s\<lparr>Receipt_DestBytesOverhead := x\<rparr>)
      else if key = ''dest_gas_limit'' then put (need ''dest_gas_limit is not u32'' (GetU32 v)) (\<lambda>x. s\<lparr>Receipt_DestGasLimit := x\<rparr>)
      else if key = ''extra_args'' then put (need ''extra_args is not bytes'' (GetBytes v)) (\<lambda>x. s\<lparr>Receipt_ExtraArgs := x\<rparr>)
      else if key = ''fee_token_amount'' then put (named ''fee_token_amount'' (I128FromScVal v)) (\<lambda>x. s\<lparr>Receipt_FeeTokenAmount := x\<rparr>)
      else if key = ''issuer'' then put (named ''issuer'' (AddressFromScVal lib v)) (\<lambda>x. s\<lparr>Receipt_Issuer := x\<rparr>)
      else Ok s)"

definition ReceiptFromScVal :: "sdk \<Rightarrow> ScVal \<Rightarrow> Receipt result" where
  "ReceiptFromScVal lib = parse_struct ''not a map type'' (Receipt_entry lib) zero_Receipt"

record StaticConfig =
  StaticConfig_ChainSelector :: int
  StaticConfig_MaxUsdCentsPerMessage :: int
  StaticConfig_RmnProxy :: string
  StaticConfig_TokenAdminRegistry :: string

definition zero_StaticConfig :: StaticConfig where
  "zero_StaticConfig = \<lparr>StaticConfig_ChainSelector = 0, StaticConfig_MaxUsdCentsPerMessage = 0, StaticConfig_RmnProxy = [],
     StaticConfig_TokenAdminRegistry = []\<rparr>"

definition StaticConfig_ToScVal :: "sdk \<Rightarrow> StaticConfig \<Rightarrow> ScVal result" where
  "StaticConfig_ToScVal lib s = build_struct [
     (''chain_selector'', Ok (Uint64ToScVal (StaticConfig_ChainSelector s))),
     (''max_usd_cents_per_message'', Ok (Uint32ToScVal (StaticConfig_MaxUsdCentsPerMessage s))),
     (''rmn_proxy'', Ok (AddressToScVal lib (StaticConfig_RmnProxy s))),
     (''token_admin_registry'', Ok (AddressToScVal lib (StaticConfig_TokenAdminRegistry s)))]"

definition StaticConfig_entry :: "sdk \<Rightarrow> string \<Rightarrow> ScVal \<Rightarrow> StaticConfig \<Rightarrow> StaticConfig result" where
  "StaticConfig_entry lib key v s =
     (if key = ''chain_selector'' then put (named ''chain_selector'' (Uint64FromScVal v)) (\<lambda>x. s\<lparr>StaticConfig_ChainSelector := x\<rparr>)
      else if key = ''max_usd_cents_per_message'' then put (need ''max_usd_cents_per_message is not u32'' (GetU32 v)) (\<lambda>x. s\<lparr>StaticConfig_MaxUsdCentsPerMessage := x\<rparr>)
      else if key = ''rmn_proxy'' then put (named ''rmn_proxy'' (AddressFromScVal lib v)) (\<lambda>x. s\<lparr>StaticConfig_RmnProxy := x\<rparr>)
      else if key = ''token_admin_registry'' then put (named ''token_admin_registry'' (AddressFromScVal lib v)) (\<lambda>x. s\<lparr>StaticConfig_TokenAdminRegistry := x\<rparr>)
      else Ok s)"

definition StaticConfigFromScVal :: "sdk \<Rightarrow> ScVal \<Rightarrow> StaticConfig result" where
  "StaticConfigFromScVal lib = parse_struct ''not a map type'' (StaticConfig_entry lib) zero_StaticConfig"

record DynamicConfig =
  DynamicConfig_FeeAggregator :: string
  DynamicConfig_FeeQuoter :: string

definition zero_DynamicConfig :: DynamicConfig where
  "zero_DynamicConfig = \<lparr>DynamicConfig_FeeAggregator = [], DynamicConfig_FeeQuoter = []\<rparr>"

definition DynamicConfig_ToScVal :: "sdk \<Rightarrow> DynamicConfig \<Rightarrow> ScVal result" where
  "DynamicConfig_ToScVal lib s = build_struct [
     (''fee_aggregator'', Ok (AddressToScVal lib (DynamicConfig_FeeAggregator s))),
     (''fee_quoter'', Ok (AddressToScVal lib (DynamicConfig_FeeQuoter s)))]"

definition DynamicConfig_entry :: "sdk \<Rightarrow> string \<Rightarrow> ScVal \<Rightarrow> DynamicConfig \<Rightarrow> DynamicConfig result" where
  "DynamicConfig_entry lib key v s =
     (if key = ''fee_aggregator'' then put (named ''fee_aggregator'' (AddressFromScVal lib v)) (\<lambda>x. s\<lparr>DynamicConfig_FeeAggregator := x\<rparr>)
      else if key = ''fee_quoter'' then put (named ''fee_quoter'' (AddressFromScVal lib v)) (\<lambda>x. s\<lparr>DynamicConfig_FeeQuoter := x\<rparr>)
      else Ok s)"

definition DynamicConfigFromScVal :: "sdk \<Rightarrow> ScVal \<Rightarrow> DynamicConfig result" where
  "DynamicConfigFromScVal lib = parse_struct ''not a map type'' (DynamicConfig_entry lib) zero_DynamicConfig"

record DestChainConfig =
  DestChainConfig_AddressBytesLength :: int
  DestChainConfig_BaseExecutionGasCost :: int
  DestChainConfig_DefaultCcvs :: "string list"
  DestChainConfig_DefaultExecutor :: string
  DestChainConfig_ExecutionFeeUsdCents :: int
  DestChainConfig_LaneMandatedCcvs :: "string list"
  DestChainConfig_MessageNetworkFeeUsdCents :: int
  DestChainConfig_MessageNumber :: int
  DestChainConfig_OffRamp :: bytes
  DestChainConfig_Router :: string
  DestChainConfig_TokenNetworkFeeUsdCents :: int
  DestChainConfig_TokenReceiverAllowed :: bool

definition zero_DestChainConfig :: DestChainConfig where
  "zero_DestChainConfig = \<lparr>DestChainConfig_AddressBytesLength = 0, DestChainConfig_BaseExecutionGasCost = 0,
     DestChainConfig_DefaultCcvs = [], DestChainConfig_DefaultExecutor = [],
     DestChainConfig_ExecutionFeeUsdCents = 0, DestChainConfig_LaneMandatedCcvs = [],
     DestChainConfig_MessageNetworkFeeUsdCents = 0, DestChainConfig_MessageNumber = 0, DestChainConfig_OffRamp = [],
     DestChainConfig_Router = [], DestChainConfig_TokenNetworkFeeUsdCents = 0,
     DestChainConfig_TokenReceiverAllowed = False\<rparr>"

definition DestChainConfig_ToScVal :: "sdk \<Rightarrow> DestChainConfig \<Rightarrow> ScVal result" where
  "DestChainConfig_ToScVal lib s = build_struct [
     (''address_bytes_length'', Ok (Uint32ToScVal (DestChainConfig_AddressBytesLength s))),
     (''base_execution_gas_cost'', Ok (Uint32ToScVal (DestChainConfig_BaseExecutionGasCost s))),
     (''default_ccvs'', Ok (AddressSliceToScVal lib (DestChainConfig_DefaultCcvs s))),
     (''default_executor'', Ok (AddressToScVal lib (DestChainConfig_DefaultExecutor s))),
     (''execution_fee_usd_cents'', Ok (Uint32ToScVal (DestChainConfig_ExecutionFeeUsdCents s))),
     (''lane_mandated_ccvs'', Ok (AddressSliceToScVal lib (DestChainConfig_LaneMandatedCcvs s))),
     (''message_network_fee_usd_cents'', Ok (Uint32ToScVal (DestChainConfig_MessageNetworkFeeUsdCents s))),
     (''message_number'', Ok (Uint64ToScVal (DestChainConfig_MessageNumber s))),
     (''off_ramp'', Ok (BytesToScVal (DestChainConfig_OffRamp s))),
     (''router'', Ok (AddressToScVal lib (DestChainConfig_Router s))),
     (''token_network_fee_usd_cents'', Ok (Uint32ToScVal (DestChainConfig_TokenNetworkFeeUsdCents s))),
     (''token_receiver_allowed'', Ok (BoolToScVal (DestChainConfig_TokenReceiverAllowed s)))]"

definition DestChainConfig_entry :: "sdk \<Rightarrow> string \<Rightarrow> ScVal \<Rightarrow> DestChainConfig \<Rightarrow> DestChainConfig result" where
  "DestChainConfig_entry lib key v s =
     (if key = ''address_bytes_length'' then put (need ''address_bytes_length is not u32'' (GetU32 v)) (\<lambda>x. s\<lparr>DestChainConfig_AddressBytesLength := x\<rparr>)
      else if key = ''base_execution_gas_cost'' then put (need ''base_execution_gas_cost is not u32'' (GetU32 v)) (\<lambda>x. s\<lparr>DestChainConfig_BaseExecutionGasCost := x\<rparr>)
      else if key = ''default_ccvs'' then put (vec_of ''default_ccvs is not a vec'' (AddressFromScVal lib) v) (\<lambda>x. s\<lparr>DestChainConfig_DefaultCcvs := x\<rparr>)
      else if key = ''default_executor'' then put (named ''default_executor'' (AddressFromScVal lib v)) (\<lambda>x. s\<lparr>DestChainConfig_DefaultExecutor := x\<rparr>)
      else if key = ''execution_fee_usd_cents'' then put (need ''execution_fee_usd_cents is not u32'' (GetU32 v)) (\<lambda>x. s\<lparr>DestChainConfig_ExecutionFeeUsdCents := x\<rparr>)
      else if key = ''lane_mandated_ccvs'' then put (vec_of ''lane_mandated_ccvs is not a vec'' (AddressFromScVal lib) v) (\<lambda>x. s\<lparr>DestChainConfig_LaneMandatedCcvs := x\<rparr>)
      else if key = ''message_network_fee_usd_cents'' then put (need ''message_network_fee_usd_cents is not u32'' (GetU32 v)) (\<lambda>x. s\<lparr>DestChainConfig_MessageNetworkFeeUsdCents := x\<rparr>)
      else if key = ''message_number'' then put (named ''message_number'' (Uint64FromScVal v)) (\<lambda>x. s\<lparr>DestChainConfig_MessageNumber := x\<rparr>)
      else if key = ''off_ramp'' then put (need ''off_ramp is not bytes'' (GetBytes v)) (\<lambda>x. s\<lparr>DestChainConfig_OffRamp := x\<rparr>)
      else if key = ''router'' then put (named ''router'' (AddressFromScVal lib v)) (\<lambda>x. s\<lparr>DestChainConfig_Router := x\<rparr>)
      else if key = ''token_network_fee_usd_cents'' then put (need ''token_network_fee_usd_cents is not u32'' (GetU32 v)) (\<lambda>x. s\<lparr>DestChainConfig_TokenNetworkFeeUsdCents := x\<rparr>)
      else if key = ''token_receiver_allowed'' then put (need ''token_receiver_allowed is not bool'' (GetB v)) (\<lambda>x. s\<lparr>DestChainConfig_TokenReceiverAllowed := x\<rparr>)
      else Ok s)"

definition DestChainConfigFromScVal :: "sdk \<Rightarrow> ScVal \<Rightarrow> DestChainConfig result" where
  "DestChainConfigFromScVal lib = parse_struct ''not a map type'' (DestChainConfig_entry lib) zero_DestChainConfig"

record DestChainConfigArgs =
  DestChainConfigArgs_AddressBytesLength :: int
  DestChainConfigArgs_BaseExecutionGasCost :: int
  DestChainConfigArgs_DefaultCcvs :: "string list"
  DestChainConfigArgs_DefaultExecutor :: string
  DestChainConfigArgs_DestChainSelector :: int
  DestChainConfigArgs_ExecutionFeeUsdCents :: int
  DestChainConfigArgs_LaneMandatedCcvs :: "string list"
  DestChainConfigArgs_MessageNetworkFeeUsdCents :: int
  DestChainConfigArgs_OffRamp :: bytes
  DestChainConfigArgs_Router :: string
  DestChainConfigArgs_TokenNetworkFeeUsdCents :: int
  DestChainConfigArgs_TokenReceiverAllowed :: bool

definition zero_DestChainConfigArgs :: DestChainConfigArgs where
  "zero_DestChainConfigArgs = \<lparr>DestChainConfigArgs_AddressBytesLength = 0, DestChainConfigArgs_BaseExecutionGasCost = 0,
     DestChainConfigArgs_DefaultCcvs = [], DestChainConfigArgs_DefaultExecutor = [],
     DestChainConfigArgs_DestChainSelector = 0, DestChainConfigArgs_ExecutionFeeUsdCents = 0,
     DestChainConfigArgs_LaneMandatedCcvs = [], DestChainConfigArgs_MessageNetworkFeeUsdCents = 0,
     DestChainConfigArgs_OffRamp = [], DestChainConfigArgs_Router = [],
     DestChainConfigArgs_TokenNetworkFeeUsdCents = 0, DestChainConfigArgs_TokenReceiverAllowed = False\<rparr>"

definition DestChainConfigArgs_ToScVal :: "sdk \<Rightarrow> DestChainConfigArgs \<Rightarrow> ScVal result" where
  "DestChainConfigArgs_ToScVal lib s = build_struct [
     (''address_bytes_length'', Ok (Uint32ToScVal (DestChainConfigArgs_AddressBytesLength s))),
     (''base_execution_gas_cost'', Ok (Uint32ToScVal (DestChainConfigArgs_BaseExecutionGasCost s))),
     (''default_ccvs'', Ok (AddressSliceToScVal lib (DestChainConfigArgs_DefaultCcvs s))),
     (''default_executor'', Ok (AddressToScVal lib (DestChainConfigArgs_DefaultExecutor s))),
     (''dest_chain_selector'', Ok (Uint64ToScVal (DestChainConfigArgs_DestChainSelector s))),
     (''execution_fee_usd_cents'', Ok (Uint32ToScVal (DestChainConfigArgs_ExecutionFeeUsdCents s))),
     (''lane_mandated_ccvs'', Ok (AddressSliceToScVal lib (DestChainConfigArgs_LaneMandatedCcvs s))),
     (''message_network_fee_usd_cents'', Ok (Uint32ToScVal (DestChainConfigArgs_MessageNetworkFeeUsdCents s))),
     (''off_ramp'', Ok (BytesToScVal (DestChainConfigArgs_OffRamp s))),
     (''router'', Ok (AddressToScVal lib (DestChainConfigArgs_Router s))),
     (''token_network_fee_usd_cents'', Ok (Uint32ToScVal (DestChainConfigArgs_TokenNetworkFeeUsdCents s))),
     (''token_receiver_allowed'', Ok (BoolToScVal (DestChainConfigArgs_TokenReceiverAllowed s)))]"

definition DestChainConfigArgs_entry :: "sdk \<Rightarrow> string \<Rightarrow> ScVal \<Rightarrow> DestChainConfigArgs \<Rightarrow> DestChainConfigArgs result" where
  "DestChainConfigArgs_entry lib key v s =
     (if key = ''address_bytes_length'' then put (need ''address_bytes_length is not u32'' (GetU32 v)) (\<lambda>x. s\<lparr>DestChainConfigArgs_AddressBytesLength := x\<rparr>)
      else if key = ''base_execution_gas_cost'' then put (need ''base_execution_gas_cost is not u32'' (GetU32 v)) (\<lambda>x. s\<lparr>DestChainConfigArgs_BaseExecutionGasCost := x\<rparr>)
      else if key = ''default_ccvs'' then put (vec_of ''default_ccvs is not a vec'' (AddressFromScVal lib) v) (\<lambda>x. s\<lparr>DestChainConfigArgs_DefaultCcvs := x\<rparr>)
      else if key = ''default_executor'' then put (named ''default_executor'' (AddressFromScVal lib v)) (\<lambda>x. s\<lparr>DestChainConfigArgs_DefaultExecutor := x\<rparr>)
      else if key = ''dest_chain_selector'' then put (named ''dest_chain_selector'' (Uint64FromScVal v)) (\<lambda>x. s\<lparr>DestChainConfigArgs_DestChainSelector := x\<rparr>)
      else if key = ''execution_fee_usd_cents'' then put (need ''execution_fee_usd_cents is not u32'' (GetU32 v)) (\<lambda>x. s\<lparr>DestChainConfigArgs_ExecutionFeeUsdCents := x\<rparr>)
      else if key = ''lane_mandated_ccvs'' then put (vec_of ''lane_mandated_ccvs is not a vec'' (AddressFromScVal lib) v) (\<lambda>x. s\<lparr>DestChainConfigArgs_LaneMandatedCcvs := x\<rparr>)
      else if key = ''message_network_fee_usd_cents'' then put (need ''message_network_fee_usd_cents is not u32'' (GetU32 v)) (\<lambda>x. s\<lparr>DestChainConfigArgs_MessageNetworkFeeUsdCents := x\<rparr>)
      else if key = ''off_ramp'' then put (need ''off_ramp is not bytes'' (GetBytes v)) (\<lambda>x. s\<lparr>DestChainConfigArgs_OffRamp := x\<rparr>)
      else if key = ''router'' then put (named ''router'' (AddressFromScVal lib v)) (\<lambda>x. s\<lparr>DestChainConfigArgs_Router := x\<rparr>)
      else if key = ''token_network_fee_usd_cents'' then put (need ''token_network_fee_usd_cents is not u32'' (GetU32 v)) (\<lambda>x. s\<lparr>DestChainConfigArgs_TokenNetworkFeeUsdCents := x\<rparr>)
      else if key = ''token_receiver_allowed'' then put (need ''token_receiver_allowed is not bool'' (GetB v)) (\<lambda>x. s\<lparr>DestChainConfigArgs_TokenReceiverAllowed := x\<rparr>)
      else Ok s)"

definition DestChainConfigArgsFromScVal :: "sdk \<Rightarrow> ScVal \<Rightarrow> DestChainConfigArgs result" where
  "DestChainConfigArgsFromScVal lib = parse_struct ''not a map type'' (DestChainConfigArgs_entry lib) zero_DestChainConfigArgs"

section \<open>Events\<close>

record ConfigSetEvent =
  ConfigSetEvent_StaticConfig :: StaticConfig
  ConfigSetEvent_DynamicConfig :: DynamicConfig
  ConfigSetEvent_Ledger :: int
  ConfigSetEvent_TxHash :: string

definition ConfigSetEvent_entry :: "sdk \<Rightarrow> string \<Rightarrow> ScVal \<Rightarrow> ConfigSetEvent \<Rightarrow> ConfigSetEvent result" where
  "ConfigSetEvent_entry lib key v s =
     (if key = ''static_config'' then set_if_ok (StaticConfigFromScVal lib v) (\<lambda>x s. s\<lparr>ConfigSetEvent_StaticConfig := x\<rparr>) s
      else if key = ''dynamic_config'' then set_if_ok (DynamicConfigFromScVal lib v) (\<lambda>x s. s\<lparr>ConfigSetEvent_DynamicConfig := x\<rparr>) s
      else Ok s)"

definition ParseConfigSetEvent :: "sdk \<Rightarrow> EventInfo \<Rightarrow> ConfigSetEvent result" where
  "ParseConfigSetEvent lib = parse_event lib (ConfigSetEvent_entry lib) (\<lambda>ledger tx.
     \<lparr>ConfigSetEvent_StaticConfig = zero_StaticConfig, ConfigSetEvent_DynamicConfig = zero_DynamicConfig,
        ConfigSetEvent_Ledger = ledger, ConfigSetEvent_TxHash = tx\<rparr>)"

record CCIPMessageSentEvent =
  CCIPMessageSentEvent_DestChainSelector :: int
  CCIPMessageSentEvent_SequenceNumber :: int
  CCIPMessageSentEvent_Sender :: string
  CCIPMessageSentEvent_MessageId :: bytes
  CCIPMessageSentEvent_FeeToken :: string
  CCIPMessageSentEvent_TokenAmountBeforeFees :: int
  CCIPMessageSentEvent_EncodedMessage :: bytes
  CCIPMessageSentEvent_Receipts :: "Receipt list"
  CCIPMessageSentEvent_VerifierBlobs :: "bytes list"
  CCIPMessageSentEvent_Ledger :: int
  CCIPMessageSentEvent_TxHash :: string

definition CCIPMessageSentEvent_entry :: "sdk \<Rightarrow> string \<Rightarrow> ScVal \<Rightarrow> CCIPMessageSentEvent \<Rightarrow> CCIPMessageSentEvent result" where
  "CCIPMessageSentEvent_entry lib key v s =
     (if key = ''dest_chain_selector'' then set_if_ok (Uint64FromScVal v) (\<lambda>x s. s\<lparr>CCIPMessageSentEvent_DestChainSelector := x\<rparr>) s
      else if key = ''sequence_number'' then set_if_ok (Uint64FromScVal v) (\<lambda>x s. s\<lparr>CCIPMessageSentEvent_SequenceNumber := x\<rparr>) s
      else if key = ''sender'' then set_if_ok (AddressFromScVal lib v) (\<lambda>x s. s\<lparr>CCIPMessageSentEvent_Sender := x\<rparr>) s
      else if key = ''message_id'' then set_if_ok (Bytes32FromScVal v) (\<lambda>x s. s\<lparr>CCIPMessageSentEvent_MessageId := x\<rparr>) s
      else if key = ''fee_token'' then set_if_ok (AddressFromScVal lib v) (\<lambda>x s. s\<lparr>CCIPMessageSentEvent_FeeToken := x\<rparr>) s
      else if key = ''token_amount_before_fees'' then set_if_ok (I128FromScVal v) (\<lambda>x s. s\<lparr>CCIPMessageSentEvent_TokenAmountBeforeFees := x\<rparr>) s
      else if key = ''encoded_message'' then set_if (GetBytes v) (\<lambda>x s. s\<lparr>CCIPMessageSentEvent_EncodedMessage := x\<rparr>) s
      else if key = ''receipts'' then set_if_vec (items_that (ReceiptFromScVal lib)) v (\<lambda>x s. s\<lparr>CCIPMessageSentEvent_Receipts := x\<rparr>) s
      else if key = ''verifier_blobs'' then set_if_vec (items_or ([]) (bytes_item [])) v (\<lambda>x s. s\<lparr>CCIPMessageSentEvent_VerifierBlobs := x\<rparr>) s
      else Ok s)"

definition ParseCCIPMessageSentEvent :: "sdk \<Rightarrow> EventInfo \<Rightarrow> CCIPMessageSentEvent result" where
  "ParseCCIPMessageSentEvent lib = parse_event lib (CCIPMessageSentEvent_entry lib) (\<lambda>ledger tx.
     \<lparr>CCIPMessageSentEvent_DestChainSelector = 0, CCIPMessageSentEvent_SequenceNumber = 0,
        CCIPMessageSentEvent_Sender = [], CCIPMessageSentEvent_MessageId = replicate 32 0,
        CCIPMessageSentEvent_FeeToken = [], CCIPMessageSentEvent_TokenAmountBeforeFees = 0,
        CCIPMessageSentEvent_EncodedMessage = [], CCIPMessageSentEvent_Receipts = [],
        CCIPMessageSentEvent_VerifierBlobs = [], CCIPMessageSentEvent_Ledger = ledger,
        CCIPMessageSentEvent_TxHash = tx\<rparr>)"

record DestChainConfigSetEvent =
  DestChainConfigSetEvent_DestChainSelector :: int
  DestChainConfigSetEvent_MessageNumber :: int
  DestChainConfigSetEvent_Config :: DestChainConfig
  DestChainConfigSetEvent_Ledger :: int
  DestChainConfigSetEvent_TxHash :: string

definition DestChainConfigSetEvent_entry :: "sdk \<Rightarrow> string \<Rightarrow> ScVal \<Rightarrow> DestChainConfigSetEvent \<Rightarrow> DestChainConfigSetEvent result" where
  "DestChainConfigSetEvent_entry lib key v s =
     (if key = ''dest_chain_selector'' then set_if_ok (Uint64FromScVal v) (\<lambda>x s. s\<lparr>DestChainConfigSetEvent_DestChainSelector := x\<rparr>) s
      else if key = ''message_number'' then set_if_ok (Uint64FromScVal v) (\<lambda>x s. s\<lparr>DestChainConfigSetEvent_MessageNumber := x\<rparr>) s
      else if key = ''config'' then set_if_ok (DestChainConfigFromScVal lib v) (\<lambda>x s. s\<lparr>DestChainConfigSetEvent_Config := x\<rparr>) s
      else Ok s)"

definition ParseDestChainConfigSetEvent :: "sdk \<Rightarrow> EventInfo \<Rightarrow> DestChainConfigSetEvent result" where
  "ParseDestChainConfigSetEvent lib = parse_event lib (DestChainConfigSetEvent_entry lib) (\<lambda>ledger tx.
     \<lparr>DestChainConfigSetEvent_DestChainSelector = 0, DestChainConfigSetEvent_MessageNumber = 0,
        DestChainConfigSetEvent_Config = zero_DestChainConfig, DestChainConfigSetEvent_Ledger = ledger,
        DestChainConfigSetEvent_TxHash = tx\<rparr>)"

section \<open>The client\<close>

definition NewOnRampClient :: "'s Invoker \<Rightarrow> string \<Rightarrow> 's Client" where
  "NewOnRampClient ivk contractID = mk_client ivk contractID"

definition ContractID :: "'s Client \<Rightarrow> string" where
  "ContractID c = cl_contractID c"

definition Init :: "sdk \<Rightarrow> 's Client \<Rightarrow> string \<Rightarrow> ('s, unit result) state" where
  "Init lib c rmnProxy = invoke_void c ''init'' [Ok (AddressToScVal lib rmnProxy)]"

definition Owner :: "sdk \<Rightarrow> 's Client \<Rightarrow> ('s, (string option) result) state" where
  "Owner lib c = simulate_value c ''owner'' [] (OptionalAddressFromScVal lib)"

definition GetFee :: "sdk \<Rightarrow> 's Client \<Rightarrow> int \<Rightarrow> StellarToAnyMessage \<Rightarrow> ('s, int result) state" where
  "GetFee lib c destChainSelector message =
     simulate_value c ''get_fee'' [
       Ok (Uint64ToScVal destChainSelector), MustToScVal (StellarToAnyMessage_ToScVal lib message)] (I128FromScVal)"

definition IsOwner :: "sdk \<Rightarrow> 's Client \<Rightarrow> string \<Rightarrow> ('s, bool result) state" where
  "IsOwner lib c addr =
     simulate_value c ''is_owner'' [
       Ok (AddressToScVal lib addr)] (\<lambda>v. need ''expected bool return type'' (GetB v))"

definition IsCursed :: "sdk \<Rightarrow> 's Client \<Rightarrow> ('s, bool result) state" where
  "IsCursed lib c = simulate_value c ''is_cursed'' [] (\<lambda>v. need ''expected bool return type'' (GetB v))"

definition InitOwner :: "sdk \<Rightarrow> 's Client \<Rightarrow> string \<Rightarrow> ('s, unit result) state" where
  "InitOwner lib c owner = invoke_void c ''init_owner'' [Ok (AddressToScVal lib owner)]"

definition Initialize :: "sdk \<Rightarrow> 's Client \<Rightarrow> string \<Rightarrow> StaticConfig \<Rightarrow> DynamicConfig \<Rightarrow> ('s, unit result) state" where
  "Initialize lib c owner staticConfig dynamicConfig =
     invoke_void c ''initialize'' [
       Ok (AddressToScVal lib owner), MustToScVal (StaticConfig_ToScVal lib staticConfig),
       MustToScVal (DynamicConfig_ToScVal lib dynamicConfig)]"

definition RequireOwner :: "sdk \<Rightarrow> 's Client \<Rightarrow> ('s, string result) state" where
  "RequireOwner lib c = invoke_value c ''require_owner'' [] (AddressFromScVal lib)"

definition SetNewOwner :: "sdk \<Rightarrow> 's Client \<Rightarrow> string \<Rightarrow> ('s, unit result) state" where
  "SetNewOwner lib c newOwner = invoke_void c ''set_new_owner'' [Ok (AddressToScVal lib newOwner)]"

definition AcceptOwnership :: "sdk \<Rightarrow> 's Client \<Rightarrow> ('s, unit result) state" where
  "AcceptOwnership lib c = invoke_void c ''accept_ownership'' []"

definition TypeAndVersion :: "sdk \<Rightarrow> 's Client \<Rightarrow> ('s, string result) state" where
  "TypeAndVersion lib c = invoke_value c ''type_and_version'' [] (StringFromScVal)"

definition GetPendingOwner :: "sdk \<Rightarrow> 's Client \<Rightarrow> ('s, (string option) result) state" where
  "GetPendingOwner lib c = simulate_value c ''get_pending_owner'' [] (OptionalAddressFromScVal lib)"

definition GetStaticConfig :: "sdk \<Rightarrow> 's Client \<Rightarrow> ('s, StaticConfig result) state" where
  "GetStaticConfig lib c = simulate_value c ''get_static_config'' [] (StaticConfigFromScVal lib)"

definition IsSubjectCursed :: "sdk \<Rightarrow> 's Client \<Rightarrow> bytes \<Rightarrow> ('s, bool result) state" where
  "IsSubjectCursed lib c subject =
     simulate_value c ''is_subject_cursed'' [
       Ok (Bytes16ToScVal subject)] (\<lambda>v. need ''expected bool return type'' (GetB v))"

definition GetDynamicConfig :: "sdk \<Rightarrow> 's Client \<Rightarrow> ('s, DynamicConfig result) state" where
  "GetDynamicConfig lib c = simulate_value c ''get_dynamic_config'' [] (DynamicConfigFromScVal lib)"

definition RequireNotCursed :: "sdk \<Rightarrow> 's Client \<Rightarrow> ('s, unit result) state" where
  "RequireNotCursed lib c = invoke_void c ''require_not_cursed'' []"

definition SetDynamicConfig :: "sdk \<Rightarrow> 's Client \<Rightarrow> DynamicConfig \<Rightarrow> ('s, unit result) state" where
  "SetDynamicConfig lib c dynamicConfig =
     invoke_void c ''set_dynamic_config'' [MustToScVal (DynamicConfig_ToScVal lib dynamicConfig)]"

definition TransferOwnership :: "sdk \<Rightarrow> 's Client \<Rightarrow> string \<Rightarrow> ('s, unit result) state" where
  "TransferOwnership lib c newOwner = invoke_void c ''transfer_ownership'' [Ok (AddressToScVal lib newOwner)]"

definition ForwardFromRouter :: "sdk \<Rightarrow> 's Client \<Rightarrow> int \<Rightarrow> StellarToAnyMessage \<Rightarrow> int \<Rightarrow> string \<Rightarrow> ('s, bytes result) state" where
  "ForwardFromRouter lib c destChainSelector message feeTokenAmount originalSender =
     invoke_value c ''forward_from_router'' [
       Ok (Uint64ToScVal destChainSelector), MustToScVal (StellarToAnyMessage_ToScVal lib message),
       Ok (I128ToScVal feeTokenAmount), Ok (AddressToScVal lib originalSender)] (Bytes32FromScVal)"

definition WithdrawFeeTokens :: "sdk \<Rightarrow> 's Client \<Rightarrow> string list \<Rightarrow> ('s, unit result) state" where
  "WithdrawFeeTokens lib c feeTokens = invoke_void c ''withdraw_fee_tokens'' [Ok (AddressSliceToScVal lib feeTokens)]"

definition GetDestChainConfig :: "sdk \<Rightarrow> 's Client \<Rightarrow> int \<Rightarrow> ('s, DestChainConfig result) state" where
  "GetDestChainConfig lib c destChainSelector =
     simulate_value c ''get_dest_chain_config'' [Ok (Uint64ToScVal destChainSelector)] (DestChainConfigFromScVal lib)"

definition GetPoolBySourceToken :: "sdk \<Rightarrow> 's Client \<Rightarrow> string \<Rightarrow> ('s, string result) state" where
  "GetPoolBySourceToken lib c sourceToken =
     simulate_value c ''get_pool_by_source_token'' [Ok (AddressToScVal lib sourceToken)] (AddressFromScVal lib)"

definition RequireChainNotCursed :: "sdk \<Rightarrow> 's Client \<Rightarrow> int \<Rightarrow> ('s, unit result) state" where
  "RequireChainNotCursed lib c chainSelector =
     invoke_void c ''require_chain_not_cursed'' [Ok (Uint64ToScVal chainSelector)]"

definition CancelOwnershipTransfer :: "sdk \<Rightarrow> 's Client \<Rightarrow> ('s, unit result) state" where
  "CancelOwnershipTransfer lib c = invoke_void c ''cancel_ownership_transfer'' []"

definition GetAllDestChainConfigs :: "sdk \<Rightarrow> 's Client \<Rightarrow> ('s, ((int list) \<times> (DestChainConfig list)) result) state" where
  "GetAllDestChainConfigs lib c =
     simulate_value c ''get_all_dest_chain_configs'' []
       (pair_of ''expected vec for tuple return'' (tuple_vec 0 (Uint64FromScVal)) (tuple_vec 1 (DestChainConfigFromScVal lib)))"

definition RequireSubjectNotCursed :: "sdk \<Rightarrow> 's Client \<Rightarrow> bytes \<Rightarrow> ('s, unit result) state" where
  "RequireSubjectNotCursed lib c subject = invoke_void c ''require_subject_not_cursed'' [Ok (Bytes16ToScVal subject)]"

definition ApplyDestChainConfigUpdates :: "sdk \<Rightarrow> 's Client \<Rightarrow> DestChainConfigArgs list \<Rightarrow> ('s, unit result) state" where
  "ApplyDestChainConfigUpdates lib c destChainConfigArgs =
     invoke_void c ''apply_dest_chain_config_updates'' [
       StructSliceToScVal (DestChainConfigArgs_ToScVal lib) destChainConfigArgs]"

definition GetExpectedNextMessageNumber :: "sdk \<Rightarrow> 's Client \<Rightarrow> int \<Rightarrow> ('s, int result) state" where
  "GetExpectedNextMessageNumber lib c destChainSelector =
     simulate_value c ''get_expected_next_message_number'' [Ok (Uint64ToScVal destChainSelector)] (Uint64FromScVal)"

section \<open>Waiting for events\<close>

definition RoleGrantedEventTopic :: string where
  "RoleGrantedEventTopic = ''auth_RoleGranted''"

definition WaitForRoleGrantedEvent :: "sdk \<Rightarrow> 's Client \<Rightarrow> int \<Rightarrow> int \<Rightarrow> (RoleGrantedEvent \<Rightarrow> bool) option \<Rightarrow> wait_round list \<Rightarrow> ('s, RoleGrantedEvent result option) state" where
  "WaitForRoleGrantedEvent lib c = wait_for c RoleGrantedEventTopic (ParseRoleGrantedEvent lib)"

definition RoleRevokedEventTopic :: string where
  "RoleRevokedEventTopic = ''auth_RoleRevoked''"

definition WaitForRoleRevokedEvent :: "sdk \<Rightarrow> 's Client \<Rightarrow> int \<Rightarrow> int \<Rightarrow> (RoleRevokedEvent \<Rightarrow> bool) option \<Rightarrow> wait_round list \<Rightarrow> ('s, RoleRevokedEvent result option) state" where
  "WaitForRoleRevokedEvent lib c = wait_for c RoleRevokedEventTopic (ParseRoleRevokedEvent lib)"

definition AuthorizedCallerAddedEventTopic :: string where
  "AuthorizedCallerAddedEventTopic = ''auth_CallerAdded''"

definition WaitForAuthorizedCallerAddedEvent :: "sdk \<Rightarrow> 's Client \<Rightarrow> int \<Rightarrow> int \<Rightarrow> (AuthorizedCallerAddedEvent \<Rightarrow> bool) option \<Rightarrow> wait_round list \<Rightarrow> ('s, AuthorizedCallerAddedEvent result option) state" where
  "WaitForAuthorizedCallerAddedEvent lib c = wait_for c AuthorizedCallerAddedEventTopic (ParseAuthorizedCallerAddedEvent lib)"

definition AuthorizedCallerRemovedEventTopic :: string where
  "AuthorizedCallerRemovedEventTopic = ''auth_CallerRemoved''"

definition WaitForAuthorizedCallerRemovedEvent :: "sdk \<Rightarrow> 's Client \<Rightarrow> int \<Rightarrow> int \<Rightarrow> (AuthorizedCallerRemovedEvent \<Rightarrow> bool) option \<Rightarrow> wait_round list \<Rightarrow> ('s, AuthorizedCallerRemovedEvent result option) state" where
  "WaitForAuthorizedCallerRemovedEvent lib c = wait_for c AuthorizedCallerRemovedEventTopic (ParseAuthorizedCallerRemovedEvent lib)"

definition OwnershipTransferStartedEventTopic :: string where
  "OwnershipTransferStartedEventTopic = ''auth_OwnerTransferStart''"

definition WaitForOwnershipTransferStartedEvent :: "sdk \<Rightarrow> 's Client \<Rightarrow> int \<Rightarrow> int \<Rightarrow> (OwnershipTransferStartedEvent \<Rightarrow> bool) option \<Rightarrow> wait_round list \<Rightarrow> ('s, OwnershipTransferStartedEvent result option) state" where
  "WaitForOwnershipTransferStartedEvent lib c = wait_for c OwnershipTransferStartedEventTopic (ParseOwnershipTransferStartedEvent lib)"

definition ConfigSetEventTopic :: string where
  "ConfigSetEventTopic = ''onramp_1_7_ConfigSet''"

definition WaitForConfigSetEvent :: "sdk \<Rightarrow> 's Client \<Rightarrow> int \<Rightarrow> int \<Rightarrow> (ConfigSetEvent \<Rightarrow> bool) option \<Rightarrow> wait_round list \<Rightarrow> ('s, ConfigSetEvent result option) state" where
  "WaitForConfigSetEvent lib c = wait_for c ConfigSetEventTopic (ParseConfigSetEvent lib)"

definition CCIPMessageSentEventTopic :: string where
  "CCIPMessageSentEventTopic = ''onramp_1_7_CCIPMessageSent''"

definition WaitForCCIPMessageSentEvent :: "sdk \<Rightarrow> 's Client \<Rightarrow> int \<Rightarrow> int \<Rightarrow> (CCIPMessageSentEvent \<Rightarrow> bool) option \<Rightarrow> wait_round list \<Rightarrow> ('s, CCIPMessageSentEvent result option) state" where
  "WaitForCCIPMessageSentEvent lib c = wait_for c CCIPMessageSentEventTopic (ParseCCIPMessageSentEvent lib)"

definition DestChainConfigSetEventTopic :: string where
  "DestChainConfigSetEventTopic = ''onramp_1_7_DestChainConfigSet''"

definition WaitForDestChainConfigSetEvent :: "sdk \<Rightarrow> 's Client \<Rightarrow> int \<Rightarrow> int \<Rightarrow> (DestChainConfigSetEvent \<Rightarrow> bool) option \<Rightarrow> wait_round list \<Rightarrow> ('s, DestChainConfigSetEvent result option) state" where
  "WaitForDestChainConfigSetEvent lib c = wait_for c DestChainConfigSetEventTopic (ParseDestChainConfigSetEvent lib)"

definition OwnershipTransferredEventTopic :: string where
  "OwnershipTransferredEventTopic = ''onramp_1_7_OwnershipTransferred''"

definition WaitForOwnershipTransferredEvent :: "sdk \<Rightarrow> 's Client \<Rightarrow> int \<Rightarrow> int \<Rightarrow> (OwnershipTransferredEvent \<Rightarrow> bool) option \<Rightarrow> wait_round list \<Rightarrow> ('s, OwnershipTransferredEvent result option) state" where
  "WaitForOwnershipTransferredEvent lib c = wait_for c OwnershipTransferredEventTopic (ParseOwnershipTransferredEvent lib)"

section \<open>Round trips\<close>

definition valid_Receipt :: "sdk \<Rightarrow> Receipt \<Rightarrow> bool" where
  "valid_Receipt lib s \<longleftrightarrow> in_i64 (Receipt_FeeTokenAmount s) \<and> is_address lib (Receipt_Issuer s)"

lemma onramp_Receipt_keys: "sort [''dest_bytes_overhead'', ''dest_gas_limit'', ''extra_args'', ''fee_token_amount'', ''issuer''] =
    [''dest_bytes_overhead'', ''dest_gas_limit'', ''extra_args'', ''fee_token_amount'', ''issuer'']"
  by simp

lemma onramp_Receipt_codec:
  assumes "sdk_laws lib"
  shows "codec (Receipt_ToScVal lib) (ReceiptFromScVal lib) (valid_Receipt lib)"
proof (rule codecI)
  show "\<exists>v. Receipt_ToScVal lib s = Ok v \<and> ReceiptFromScVal lib v = Ok s" if ok: "valid_Receipt lib s" for s
    using ok assms
    by (cases s) (simp add: Receipt_ToScVal_def ReceiptFromScVal_def Receipt_entry_def zero_Receipt_def valid_Receipt_def
        onramp_Receipt_keys struct_codec_simps del: sort_key_simps fold_entries.simps(2))
qed

definition valid_StaticConfig :: "sdk \<Rightarrow> StaticConfig \<Rightarrow> bool" where
  "valid_StaticConfig lib s \<longleftrightarrow> is_address lib (StaticConfig_RmnProxy s) \<and> is_address lib (StaticConfig_TokenAdminRegistry s)"

lemma onramp_StaticConfig_keys: "sort [''chain_selector'', ''max_usd_cents_per_message'', ''rmn_proxy'', ''token_admin_registry''] =
    [''chain_selector'', ''max_usd_cents_per_message'', ''rmn_proxy'', ''token_admin_registry'']"
  by simp

lemma onramp_StaticConfig_codec:
  assumes "sdk_laws lib"
  shows "codec (StaticConfig_ToScVal lib) (StaticConfigFromScVal lib) (valid_StaticConfig lib)"
proof (rule codecI)
  show "\<exists>v. StaticConfig_ToScVal lib s = Ok v \<and> StaticConfigFromScVal lib v = Ok s" if ok: "valid_StaticConfig lib s" for s
    using ok assms
    by (cases s) (simp add: StaticConfig_ToScVal_def StaticConfigFromScVal_def StaticConfig_entry_def zero_StaticConfig_def valid_StaticConfig_def
        onramp_StaticConfig_keys struct_codec_simps del: sort_key_simps fold_entries.simps(2))
qed

definition valid_DynamicConfig :: "sdk \<Rightarrow> DynamicConfig \<Rightarrow> bool" where
  "valid_DynamicConfig lib s \<longleftrightarrow> is_address lib (DynamicConfig_FeeAggregator s) \<and> is_address lib (DynamicConfig_FeeQuoter s)"

lemma onramp_DynamicConfig_keys: "sort [''fee_aggregator'', ''fee_quoter''] =
    [''fee_aggregator'', ''fee_quoter'']"
  by simp

lemma onramp_DynamicConfig_codec:
  assumes "sdk_laws lib"
  shows "codec (DynamicConfig_ToScVal lib) (DynamicConfigFromScVal lib) (valid_DynamicConfig lib)"
proof (rule codecI)
  show "\<exists>v. DynamicConfig_ToScVal lib s = Ok v \<and> DynamicConfigFromScVal lib v = Ok s" if ok: "valid_DynamicConfig lib s" for s
    using ok assms
    by (cases s) (simp add: DynamicConfig_ToScVal_def DynamicConfigFromScVal_def DynamicConfig_entry_def zero_DynamicConfig_def valid_DynamicConfig_def
        onramp_DynamicConfig_keys struct_codec_simps del: sort_key_simps fold_entries.simps(2))
qed

definition valid_DestChainConfig :: "sdk \<Rightarrow> DestChainConfig \<Rightarrow> bool" where
  "valid_DestChainConfig lib s \<longleftrightarrow> list_all (is_address lib) (DestChainConfig_DefaultCcvs s) \<and>
     is_address lib (DestChainConfig_DefaultExecutor s) \<and>
     list_all (is_address lib) (DestChainConfig_LaneMandatedCcvs s) \<and> is_address lib (DestChainConfig_Router s)"

lemma onramp_DestChainConfig_keys: "sort [''address_bytes_length'', ''base_execution_gas_cost'', ''default_ccvs'', ''default_executor'',
    ''execution_fee_usd_cents'', ''lane_mandated_ccvs'', ''message_network_fee_usd_cents'', ''message_number'',
    ''off_ramp'', ''router'', ''token_network_fee_usd_cents'', ''token_receiver_allowed''] =
    [''address_bytes_length'', ''base_execution_gas_cost'', ''default_ccvs'', ''default_executor'',
     ''execution_fee_usd_cents'', ''lane_mandated_ccvs'', ''message_network_fee_usd_cents'', ''message_number'',
     ''off_ramp'', ''router'', ''token_network_fee_usd_cents'', ''token_receiver_allowed'']"
  by simp

lemma onramp_DestChainConfig_codec:
  assumes "sdk_laws lib"
  shows "codec (DestChainConfig_ToScVal lib) (DestChainConfigFromScVal lib) (valid_DestChainConfig lib)"
proof (rule codecI)
  show "\<exists>v. DestChainConfig_ToScVal lib s = Ok v \<and> DestChainConfigFromScVal lib v = Ok s" if ok: "valid_DestChainConfig lib s" for s
    using ok assms
    by (cases s) (simp add: DestChainConfig_ToScVal_def DestChainConfigFromScVal_def DestChainConfig_entry_def zero_DestChainConfig_def valid_DestChainConfig_def
        onramp_DestChainConfig_keys struct_codec_simps del: sort_key_simps fold_entries.simps(2))
qed

definition valid_DestChainConfigArgs :: "sdk \<Rightarrow> DestChainConfigArgs \<Rightarrow> bool" where
  "valid_DestChainConfigArgs lib s \<longleftrightarrow> list_all (is_address lib) (DestChainConfigArgs_DefaultCcvs s) \<and>
     is_address lib (DestChainConfigArgs_DefaultExecutor s) \<and>
     list_all (is_address lib) (DestChainConfigArgs_LaneMandatedCcvs s) \<and>
     is_address lib (DestChainConfigArgs_Router s)"

lemma onramp_DestChainConfigArgs_keys: "sort [''address_bytes_length'', ''base_execution_gas_cost'', ''default_ccvs'', ''default_executor'',
    ''dest_chain_selector'', ''execution_fee_usd_cents'', ''lane_mandated_ccvs'', ''message_network_fee_usd_cents'',
    ''off_ramp'', ''router'', ''token_network_fee_usd_cents'', ''token_receiver_allowed''] =
    [''address_bytes_length'', ''base_execution_gas_cost'', ''default_ccvs'', ''default_executor'',
     ''dest_chain_selector'', ''execution_fee_usd_cents'', ''lane_mandated_ccvs'', ''message_network_fee_usd_cents'',
     ''off_ramp'', ''router'', ''token_network_fee_usd_cents'', ''token_receiver_allowed'']"
  by simp

lemma onramp_DestChainConfigArgs_codec:
  assumes "sdk_laws lib"
  shows "codec (DestChainConfigArgs_ToScVal lib) (DestChainConfigArgsFromScVal lib) (valid_DestChainConfigArgs lib)"
proof (rule codecI)
  show "\<exists>v. DestChainConfigArgs_ToScVal lib s = Ok v \<and> DestChainConfigArgsFromScVal lib v = Ok s" if ok: "valid_DestChainConfigArgs lib s" for s
    using ok assms
    by (cases s) (simp add: DestChainConfigArgs_ToScVal_def DestChainConfigArgsFromScVal_def DestChainConfigArgs_entry_def zero_DestChainConfigArgs_def valid_DestChainConfigArgs_def
        onramp_DestChainConfigArgs_keys struct_codec_simps del: sort_key_simps fold_entries.simps(2))
qed

end
