(* ===== verification/Bindings_Calls.thy ===== *)
theory Bindings_Calls
  imports Deployer_Runs Bind_Timelock Bind_Mcms Bind_Router Bind_Onramp
begin

text \<open>
  The generated clients on top of the two implementations of the contract invoker. The locale
  \<open>invoker_contract\<close> says what a client relies on: an invocation that returns has been performed, a
  simulation changes nothing that \<open>read_only\<close> forbids. It is interpreted on the deployer and on the
  invoker of the transaction manager, and the properties follow a call of the governance
  and of the messaging contracts to the arguments in the transaction.
\<close>

section \<open>The two invokers\<close>

definition deployer_invoker :: "denv \<Rightarrow> sdk \<Rightarrow> Deployer Invoker" where
  "deployer_invoker env lib =
     \<lparr>iv_InvokeContract = Deployer.InvokeContract env lib, iv_SimulateContract = Deployer.SimulateContract env lib,
      iv_GetEvents = Deployer.GetEvents env\<rparr>"

definition adapter_invoker :: "sdk \<Rightarrow> 's InvokerAdapter \<Rightarrow> 's Invoker" where
  "adapter_invoker lib a =
     \<lparr>iv_InvokeContract = adapter_InvokeContract lib a, iv_SimulateContract = adapter_SimulateContract lib a,
      iv_GetEvents = (\<lambda>cid start topics. State_Monad.return (adapter_GetEvents a cid start topics))\<rparr>"

section \<open>What a client relies on\<close>

lemma wrap_err_Ok: "wrap_err g r = Ok x \<longleftrightarrow> r = Ok x"
  by (cases r) auto

locale invoker_contract =
  fixes ivk :: "'s Invoker"
    and performed :: "string \<Rightarrow> string \<Rightarrow> ScVal list \<Rightarrow> ScVal option \<Rightarrow> 's \<Rightarrow> 's \<Rightarrow> bool"
    and read_only :: "'s \<Rightarrow> 's \<Rightarrow> bool"
  assumes invoke: "run_state (iv_InvokeContract ivk cid f vs) s = (Ok v, s') \<Longrightarrow> performed cid f vs v s s'"
    and simulate: "run_state (iv_SimulateContract ivk cid f vs) s = (r, s') \<Longrightarrow> read_only s s'"
    and unchanged: "read_only s s"
begin

lemma call_performed:
  assumes "run_state (call_with (iv_InvokeContract ivk) cid f args) s = (Ok v, s')"
  shows "\<exists>vs. seq_args args = Ok vs \<and> performed cid f vs v s s'"
  using assms by (auto simp: call_with_def wrap_err_Ok intro: invoke split: result.splits prod.splits)

lemma void_performed:
  assumes "run_state (invoke_void (mk_client ivk cid) f args) s = (Ok (), s')"
  shows "\<exists>vs v. seq_args args = Ok vs \<and> performed cid f vs v s s'"
  using assms call_performed [of cid f args s]
  by (auto simp: invoke_void_def mk_client_def split: prod.splits) blast

lemma value_performed:
  assumes "run_state (invoke_value (mk_client ivk cid) f args decode) s = (Ok x, s')"
  shows "\<exists>vs v. seq_args args = Ok vs \<and> performed cid f vs (Some v) s s' \<and> decode v = Ok x"
  using assms call_performed [of cid f args s]
  by (auto simp: invoke_value_def mk_client_def need_value_def split: prod.splits option.splits) blast

lemma simulate_reads:
  assumes "run_state (simulate_value (mk_client ivk cid) f args decode) s = (r, s')"
  shows "read_only s s'"
  using assms
  by (auto simp: simulate_value_def mk_client_def call_with_def unchanged dest: simulate split: result.splits prod.splits)

end

text \<open>The deployer performs a call by a confirmed transaction; a simulation sends at most a restore.\<close>

definition dep_performed :: "denv \<Rightarrow> sdk \<Rightarrow> string \<Rightarrow> string \<Rightarrow> ScVal list \<Rightarrow> ScVal option \<Rightarrow> Deployer \<Rightarrow> Deployer \<Rightarrow> bool" where
  "dep_performed env lib cid f vs v d d' \<longleftrightarrow>
     (txnbuild_laws lib \<and> sdk_laws lib \<longrightarrow>
        (\<exists>b txs meta. strkey_Decode lib VersionByteContract cid = Ok b \<and> dep_sent d' = dep_sent d @ txs \<and>
           submitted env lib d (invocation d b f vs) txs meta \<and> extractReturnValue (Some meta) = Ok v))"

definition dep_read_only :: "sdk \<Rightarrow> Deployer \<Rightarrow> Deployer \<Rightarrow> bool" where
  "dep_read_only lib d d' \<longleftrightarrow>
     (txnbuild_laws lib \<longrightarrow> (\<exists>txs. dep_sent d' = dep_sent d @ txs \<and> restore_only lib d txs))"

interpretation dep: invoker_contract "deployer_invoker env lib" "dep_performed env lib" "dep_read_only lib" for env lib
proof
  fix cid f vs d v d'
  assume "run_state (iv_InvokeContract (deployer_invoker env lib) cid f vs) d = (Ok v, d')"
  then show "dep_performed env lib cid f vs v d d'"
    using InvokeContract_run by (auto simp: dep_performed_def deployer_invoker_def sdk_laws_def)
next
  fix cid f vs d r d'
  assume "run_state (iv_SimulateContract (deployer_invoker env lib) cid f vs) d = (r, d')"
  then show "dep_read_only lib d d'"
    using SimulateContract_run by (auto simp: dep_read_only_def deployer_invoker_def)
qed (simp add: dep_read_only_def)

text \<open>The invoker of the transaction manager performs a call by a request that ends finalized; a
  simulation leaves to the manager's \<open>Simulate\<close> what happens to the state.\<close>

definition txm_performed :: "sdk \<Rightarrow> 's InvokerAdapter \<Rightarrow> string \<Rightarrow> string \<Rightarrow> ScVal list \<Rightarrow> ScVal option \<Rightarrow> 's \<Rightarrow> 's \<Rightarrow> bool" where
  "txm_performed lib a cid f vs v s s' \<longleftrightarrow>
     (\<exists>op res. BuildInvokeContractOperation lib cid f vs (ia_fromAddress a) = Ok op \<and>
        run_state (ia_EnqueueAndWait a (invoke_request a op)) s = (Ok (Some res), s') \<and>
        res_Error res = None \<and> res_Status res = Finalized \<and>
        extractReturnValueFromResultMetaXDR lib (res_ResultMetaXDR res) = Ok v)"

definition txm_reads :: "'s InvokerAdapter \<Rightarrow> 's \<Rightarrow> 's \<Rightarrow> bool" where
  "txm_reads a s s' \<longleftrightarrow> s' = s \<or> (\<exists>req. s' = snd (run_state (ia_Simulate a req) s))"

lemma invoke_result_Ok:
  assumes "invoke_result lib cid f r = Ok v"
  shows "\<exists>res. r = Ok (Some res) \<and> res_Error res = None \<and> res_Status res = Finalized \<and>
    extractReturnValueFromResultMetaXDR lib (res_ResultMetaXDR res) = Ok v"
  using assms by (auto simp: invoke_result_def split: result.splits option.splits if_splits)

interpretation txm: invoker_contract "adapter_invoker lib a" "txm_performed lib a" "txm_reads a" for lib a
proof
  fix cid f vs s v s'
  assume "run_state (iv_InvokeContract (adapter_invoker lib a) cid f vs) s = (Ok v, s')"
  then show "txm_performed lib a cid f vs v s s'"
    by (auto simp: adapter_invoker_def adapter_InvokeContract_def txm_performed_def split: result.splits prod.splits
        dest!: invoke_result_Ok)
next
  fix cid f vs s r s'
  assume "run_state (iv_SimulateContract (adapter_invoker lib a) cid f vs) s = (r, s')"
  then show "txm_reads a s s'"
    by (auto simp: adapter_invoker_def adapter_SimulateContract_def txm_reads_def split: result.splits prod.splits)
      (metis snd_conv)+
qed (simp add: txm_reads_def)

section \<open>Arguments\<close>

text \<open>A struct argument of a call is encoded without a panic and decodes to itself.\<close>

lemma must_arg:
  assumes "codec enc dec ok" and "ok x"
  obtains v where "MustToScVal (enc x) = Ok v" and "dec v = Ok x"
  using codec_must [OF assms] by blast

text \<open>C25: When ScheduleBatch of the timelock client returns over the deployer, a confirmed transaction signed
  by the deployer calls schedule_batch of that timelock, and what its arguments decode to are the
  caller, the calls in order, the predecessor, the salt and the delay that were passed.\<close>

theorem ScheduleBatch_reaches_timelock:
  assumes laws: "txnbuild_laws lib" "sdk_laws lib"
    and args: "is_address lib caller" "valid_Calls lib calls" "length predecessor = 32" "length salt = 32"
    and run: "run_state (ScheduleBatch lib (NewTimelockClient (deployer_invoker env lib) timelock) caller calls predecessor salt delay) d
      = (Ok (), d')"
  shows "\<exists>b a1 a2 a3 a4 a5 txs meta. strkey_Decode lib VersionByteContract timelock = Ok b \<and>
      dep_sent d' = dep_sent d @ txs \<and> submitted env lib d (invocation d b ''schedule_batch'' [a1, a2, a3, a4, a5]) txs meta \<and>
      AddressFromScVal lib a1 = Ok caller \<and> CallsFromScVal lib a2 = Ok calls \<and> Bytes32FromScVal a3 = Ok predecessor \<and>
      Bytes32FromScVal a4 = Ok salt \<and> Uint64FromScVal a5 = Ok delay"
proof -
  obtain a2 where a2: "MustToScVal (Calls_ToScVal lib calls) = Ok a2" "CallsFromScVal lib a2 = Ok calls"
    using must_arg [OF timelock_Calls_codec [OF laws(2)] args(2)] .
  from run obtain vs v where "seq_args [Ok (AddressToScVal lib caller), MustToScVal (Calls_ToScVal lib calls),
      Ok (Bytes32ToScVal predecessor), Ok (Bytes32ToScVal salt), Ok (Uint64ToScVal delay)] = Ok vs"
    "dep_performed env lib timelock ''schedule_batch'' vs v d d'"
    unfolding ScheduleBatch_def NewTimelockClient_def using dep.void_performed by blast
  with a2 laws show ?thesis
    by (fastforce simp: dep_performed_def address_codec [OF laws(2) args(1)] scalar_codecs args)
qed

text \<open>C26: When CcipSend of the router client returns over the transaction manager, the manager has taken a
  request with the call of ccip_send to its finalization: the arguments of the operation decode to the sender, the
  destination chain, the message and the fee amount that were passed, and the 32 bytes returned are the value in
  the result of that transaction.\<close>

theorem CcipSend_reaches_router:
  assumes laws: "sdk_laws lib"
    and args: "is_address lib sender" "valid_StellarToAnyMessage lib message" "in_i64 feeTokenAmount"
    and run: "run_state (CcipSend lib (NewRouterClient (adapter_invoker lib a) router) sender dest message feeTokenAmount) s = (Ok messageID, s')"
  shows "\<exists>a1 a2 a3 a4 op res v. BuildInvokeContractOperation lib router ''ccip_send'' [a1, a2, a3, a4] (ia_fromAddress a) = Ok op \<and>
      run_state (ia_EnqueueAndWait a (invoke_request a op)) s = (Ok (Some res), s') \<and> res_Error res = None \<and> res_Status res = Finalized \<and>
      extractReturnValueFromResultMetaXDR lib (res_ResultMetaXDR res) = Ok (Some v) \<and> Bytes32FromScVal v = Ok messageID \<and>
      AddressFromScVal lib a1 = Ok sender \<and> Uint64FromScVal a2 = Ok dest \<and> StellarToAnyMessageFromScVal lib a3 = Ok message \<and>
      I128FromScVal a4 = Ok feeTokenAmount"
proof -
  obtain a3 where a3: "MustToScVal (StellarToAnyMessage_ToScVal lib message) = Ok a3" "StellarToAnyMessageFromScVal lib a3 = Ok message"
    using must_arg [OF StellarToAnyMessage_codec [OF laws] args(2)] .
  from run obtain vs v where "seq_args [Ok (AddressToScVal lib sender), Ok (Uint64ToScVal dest),
      MustToScVal (StellarToAnyMessage_ToScVal lib message), Ok (I128ToScVal feeTokenAmount)] = Ok vs"
    "txm_performed lib a router ''ccip_send'' vs (Some v) s s'" "Bytes32FromScVal v = Ok messageID"
    using txm.value_performed [OF run [unfolded CcipSend_def NewRouterClient_def]] by blast
  with a3 show ?thesis
    by (fastforce simp: txm_performed_def address_codec [OF laws args(1)] scalar_codecs args)
qed

text \<open>C27: Asking the OnRamp for a fee over the deployer never submits the call: whatever the outcome, the only
  transaction that may be sent is one restore of archived entries, signed by the deployer, and only when
  automatic restoring is on.\<close>

theorem GetFee_sends_only_restore:
  assumes laws: "txnbuild_laws lib"
    and run: "run_state (Bind_Onramp.GetFee lib (NewOnRampClient (deployer_invoker env lib) onramp) dest message) d = (r, d')"
  shows "\<exists>txs. dep_sent d' = dep_sent d @ txs \<and> restore_only lib d txs"
  using dep.simulate_reads [OF run [unfolded Bind_Onramp.GetFee_def NewOnRampClient_def]] laws
  by (simp add: dep_read_only_def)

section \<open>Types\<close>

text \<open>The types of the governance contracts round trip: batches of timelock calls, and the operations, root
  metadata, Merkle proofs, signatures, signer lists and configurations of the MCMS contract are encoded
  without a panic, and decoding the encoding gives the same value, for values whose fixed-size byte fields have
  their size.\<close>

theorem governance_types_roundtrip:
  assumes "sdk_laws lib"
  shows "codec (Calls_ToScVal lib) (CallsFromScVal lib) (valid_Calls lib) \<and>
    codec (StellarOp_ToScVal lib) (StellarOpFromScVal lib) (valid_StellarOp lib) \<and>
    codec (StellarRootMetadata_ToScVal lib) (StellarRootMetadataFromScVal lib) (valid_StellarRootMetadata lib) \<and>
    codec (MerkleProof_ToScVal lib) (MerkleProofFromScVal lib) (valid_MerkleProof lib) \<and>
    codec (SignatureVec_ToScVal lib) (SignatureVecFromScVal lib) (valid_SignatureVec lib) \<and>
    codec (SignerAddresses_ToScVal lib) (SignerAddressesFromScVal lib) (valid_SignerAddresses lib) \<and>
    codec (SignerGroups_ToScVal lib) (SignerGroupsFromScVal lib) (valid_SignerGroups lib) \<and>
    codec (Config_ToScVal lib) (ConfigFromScVal lib) (valid_Config lib)"
  using assms
  by (intro conjI timelock_Calls_codec mcms_StellarOp_codec mcms_StellarRootMetadata_codec mcms_MerkleProof_codec
      mcms_SignatureVec_codec mcms_SignerAddresses_codec mcms_SignerGroups_codec mcms_Config_codec)

text \<open>C28: The message and pool types that the messaging contracts exchange round trip: outgoing and incoming
  messages, the extra arguments, lock-or-burn and release-or-mint requests, chain updates with their rate limits,
  allow lists, and the destination chain configuration of the OnRamp.\<close>

theorem messaging_types_roundtrip:
  assumes "sdk_laws lib"
  shows "codec (StellarToAnyMessage_ToScVal lib) (StellarToAnyMessageFromScVal lib) (valid_StellarToAnyMessage lib) \<and>
    codec (AnyToStellarMessage_ToScVal lib) (AnyToStellarMessageFromScVal lib) (valid_AnyToStellarMessage lib) \<and>
    codec (GenericExtraArgsV3_ToScVal lib) (GenericExtraArgsV3FromScVal lib) (valid_GenericExtraArgsV3 lib) \<and>
    codec (LockOrBurnIn_ToScVal lib) (LockOrBurnInFromScVal lib) (valid_LockOrBurnIn lib) \<and>
    codec (ReleaseOrMintIn_ToScVal lib) (ReleaseOrMintInFromScVal lib) (valid_ReleaseOrMintIn lib) \<and>
    codec (ChainUpdate_ToScVal lib) (ChainUpdateFromScVal lib) (valid_ChainUpdate lib) \<and>
    codec (AllowListUpdate_ToScVal lib) (AllowListUpdateFromScVal lib) (valid_AllowListUpdate lib) \<and>
    codec (DestChainConfigArgs_ToScVal lib) (DestChainConfigArgsFromScVal lib) (valid_DestChainConfigArgs lib)"
  using assms
  by (intro conjI StellarToAnyMessage_codec AnyToStellarMessage_codec GenericExtraArgsV3_codec LockOrBurnIn_codec
      ReleaseOrMintIn_codec ChainUpdate_codec AllowListUpdate_codec onramp_DestChainConfigArgs_codec)

section \<open>Events\<close>

lemma first_match_Some:
  "first_match parse filt es = Ok (Some ev) \<Longrightarrow>
     \<exists>e \<in> set es. parse e = Ok ev \<and> (\<forall>f. filt = Some f \<longrightarrow> f ev)"
  by (induction es) (auto split: result.splits option.splits if_splits)

lemma wait_for_sound:
  assumes "run_state (wait_for c topic parse start timeout filt rounds) s = (Some (Ok ev), s')"
  shows "\<exists>s1 s2 events. run_state (iv_GetEvents (cl_invoker c) (cl_contractID c) start [topic]) s1 = (Ok events, s2) \<and>
     (\<exists>e \<in> set events. parse e = Ok ev \<and> (\<forall>f. filt = Some f \<longrightarrow> f ev))"
  using assms
proof (induction c topic parse start timeout filt rounds arbitrary: s rule: wait_for.induct)
  case (3 c topic parse start timeout filt elapsed rs)
  obtain r s1 where get: "run_state (iv_GetEvents (cl_invoker c) (cl_contractID c) start [topic]) s = (r, s1)"
    by (cases "run_state (iv_GetEvents (cl_invoker c) (cl_contractID c) start [topic]) s")
  have go: "elapsed \<le> timeout" using "3.prems" by (auto split: if_splits)
  show ?case
  proof (cases r)
    case (Ok events)
    then show ?thesis using "3.prems" "3.IH" go get
      by (cases "first_match parse filt events") (auto split: option.splits dest!: first_match_Some)
  next
    case (Err e)
    then show ?thesis using "3.prems" "3.IH" go get by auto
  qed (use "3.prems" go get in auto)
qed simp_all

text \<open>A round that ends the wait: the context is done, or the time is over.\<close>

fun ends_wait :: "int \<Rightarrow> wait_round \<Rightarrow> bool" where
  "ends_wait timeout (RoundDone e) = True"
| "ends_wait timeout (RoundTick elapsed) = (timeout < elapsed)"

lemma wait_for_ends:
  assumes "list_ex (ends_wait timeout) rounds"
  shows "fst (run_state (wait_for c topic parse start timeout filt rounds) s) \<noteq> None"
  using assms
proof (induction c topic parse start timeout filt rounds arbitrary: s rule: wait_for.induct)
  case (3 c topic parse start timeout filt elapsed rs)
  obtain r s1 where get: "run_state (iv_GetEvents (cl_invoker c) (cl_contractID c) start [topic]) s = (r, s1)"
    by (cases "run_state (iv_GetEvents (cl_invoker c) (cl_contractID c) start [topic]) s")
  show ?case
  proof (cases "timeout < elapsed")
    case False
    then have rest: "list_ex (ends_wait timeout) rs" using "3.prems" by simp
    show ?thesis
    proof (cases r)
      case (Ok events)
      then show ?thesis using False "3.IH" rest get
        by (cases "first_match parse filt events") (auto split: option.splits)
    next
      case (Err e)
      then show ?thesis using False "3.IH" rest get by auto
    qed (use False get in auto)
  qed simp
qed simp_all

text \<open>C29: Waiting for a CCIPMessageSent event of the OnRamp ends: it has returned by the first round in which
  the timeout is over or the context is done, whatever the node answers; and an event it returns was parsed from an
  event the node listed for that contract and topic, and satisfies the filter.\<close>

theorem WaitForCCIPMessageSentEvent_ends_and_is_sound:
  "(list_ex (ends_wait timeout) rounds \<longrightarrow>
      fst (run_state (WaitForCCIPMessageSentEvent lib c start timeout filt rounds) s) \<noteq> None) \<and>
   (fst (run_state (WaitForCCIPMessageSentEvent lib c start timeout filt rounds) s) = Some (Ok ev) \<longrightarrow>
      (\<exists>s1 s2 events e. run_state (iv_GetEvents (cl_invoker c) (cl_contractID c) start [CCIPMessageSentEventTopic]) s1 = (Ok events, s2) \<and>
         e \<in> set events \<and> ParseCCIPMessageSentEvent lib e = Ok ev \<and> (\<forall>f. filt = Some f \<longrightarrow> f ev)))"
proof (intro conjI impI)
  assume "list_ex (ends_wait timeout) rounds"
  then show "fst (run_state (WaitForCCIPMessageSentEvent lib c start timeout filt rounds) s) \<noteq> None"
    unfolding WaitForCCIPMessageSentEvent_def by (rule wait_for_ends)
next
  assume "fst (run_state (WaitForCCIPMessageSentEvent lib c start timeout filt rounds) s) = Some (Ok ev)"
  from wait_for_sound [OF run_parts [OF this [unfolded WaitForCCIPMessageSentEvent_def]]]
  show "\<exists>s1 s2 events e. run_state (iv_GetEvents (cl_invoker c) (cl_contractID c) start [CCIPMessageSentEventTopic]) s1 = (Ok events, s2) \<and>
         e \<in> set events \<and> ParseCCIPMessageSentEvent lib e = Ok ev \<and> (\<forall>f. filt = Some f \<longrightarrow> f ev)"
    by blast
qed

section \<open>Concrete runs\<close>

lemma dep_sdk_codec_laws: "sdk_laws dep_sdk"
  using dep_sdk_laws by (simp add: sdk_laws_def)

definition sample_account :: string where
  "sample_account = CHR ''G'' # replicate 32 (CHR ''k'')"

definition sample_calls :: Calls where
  "sample_calls = \<lparr>Calls_Inner = [\<lparr>Call_Data = [1, 2], Call_To = replicate 32 4\<rparr>]\<rparr>"

definition sample_message :: StellarToAnyMessage where
  "sample_message = \<lparr>StellarToAnyMessage_Data = [1], StellarToAnyMessage_ExtraArgs = [], StellarToAnyMessage_FeeToken = sample_contract,
     StellarToAnyMessage_Receiver = [7], StellarToAnyMessage_TokenAmounts = [\<lparr>TokenAmount_Amount = 5, TokenAmount_Token = sample_contract\<rparr>]\<rparr>"

lemma sample_address: "is_address dep_sdk sample_account" "is_address dep_sdk sample_contract"
proof -
  have "strkey_Decode dep_sdk VersionByteAccountID sample_account = Ok (map char_byte (tl sample_account))"
    "strkey_Decode dep_sdk VersionByteContract sample_contract = Ok (map char_byte (tl sample_contract))" by code_simp+
  then show "is_address dep_sdk sample_account" "is_address dep_sdk sample_contract"
    unfolding is_address_def valid_address_def by blast+
qed

lemma sample_schedule:
  "fst (run_state (ScheduleBatch dep_sdk (NewTimelockClient (deployer_invoker dep_net dep_sdk) sample_contract) sample_account
     sample_calls (replicate 32 0) (replicate 32 9) 60) sample_deployer) = Ok ()"
  by code_simp

definition sample_adapter :: "unit InvokerAdapter" where
  "sample_adapter = \<lparr>
     ia_EnqueueAndWait = (\<lambda>req. State_Monad.return (Ok (Some \<lparr>res_ID = ''id'', res_Hash = ''h'', res_Status = Finalized, res_Fee = None,
        res_LedgerCloseTime = 0, res_ResultXDR = [], res_ResultMetaXDR = ''code'', res_Error = None\<rparr>))),
     ia_Simulate = (\<lambda>req. State_Monad.return (Err (New ''none''))), ia_getClient = Err (New ''none''),
     ia_fromAddress = [], ia_ledgerBoundsOffset = 0\<rparr>"

lemma sample_send:
  "fst (run_state (CcipSend dep_sdk (NewRouterClient (adapter_invoker dep_sdk sample_adapter) sample_contract) sample_account 3
     sample_message 8) ()) = Ok (replicate 32 5)"
  by code_simp

definition event_sdk :: sdk where
  "event_sdk = sample_sdk\<lparr>unb64_ScVal := (\<lambda>s. Ok (ScvMap (Some (Some []))))\<rparr>"

definition event_client :: "unit Client" where
  "event_client = mk_client \<lparr>iv_InvokeContract = (\<lambda>_ _ _. State_Monad.return (Ok None)),
     iv_SimulateContract = (\<lambda>_ _ _. State_Monad.return (Ok None)),
     iv_GetEvents = (\<lambda>_ _ _. State_Monad.return (Ok [\<lparr>ei_EventType = EventTypeContract, ei_Ledger = 9, ei_LedgerClosedAt = [],
        ei_ContractID = sample_contract, ei_ID = [], ei_OpIndex = 0, ei_TxIndex = 0, ei_TransactionHash = ''h'', ei_TopicXDR = [],
        ei_ValueXDR = ''v''\<rparr>]))\<rparr> sample_contract"

theorem ScheduleBatch_reaches_timelock_witness:
  "\<exists>b a1 a2 a3 a4 a5 txs meta. strkey_Decode dep_sdk VersionByteContract sample_contract = Ok b \<and>
      dep_sent (snd (run_state (ScheduleBatch dep_sdk (NewTimelockClient (deployer_invoker dep_net dep_sdk) sample_contract) sample_account
        sample_calls (replicate 32 0) (replicate 32 9) 60) sample_deployer)) = dep_sent sample_deployer @ txs \<and>
      submitted dep_net dep_sdk sample_deployer (invocation sample_deployer b ''schedule_batch'' [a1, a2, a3, a4, a5]) txs meta \<and>
      AddressFromScVal dep_sdk a1 = Ok sample_account \<and> CallsFromScVal dep_sdk a2 = Ok sample_calls \<and>
      Bytes32FromScVal a3 = Ok (replicate 32 0) \<and> Bytes32FromScVal a4 = Ok (replicate 32 9) \<and> Uint64FromScVal a5 = Ok 60"
proof (rule ScheduleBatch_reaches_timelock [OF dep_sdk_laws(1) dep_sdk_codec_laws sample_address(1) _ _ _ run_parts [OF sample_schedule]])
  show "valid_Calls dep_sdk sample_calls"
    by (simp add: valid_Calls_def valid_Call_def sample_calls_def)
qed simp_all

theorem CcipSend_reaches_router_witness:
  "\<exists>a1 a2 a3 a4 op res v. BuildInvokeContractOperation dep_sdk sample_contract ''ccip_send'' [a1, a2, a3, a4] [] = Ok op \<and>
      run_state (ia_EnqueueAndWait sample_adapter (invoke_request sample_adapter op)) () = (Ok (Some res), ()) \<and> res_Error res = None \<and>
      res_Status res = Finalized \<and>
      extractReturnValueFromResultMetaXDR dep_sdk (res_ResultMetaXDR res) = Ok (Some v) \<and> Bytes32FromScVal v = Ok (replicate 32 5) \<and>
      AddressFromScVal dep_sdk a1 = Ok sample_account \<and> Uint64FromScVal a2 = Ok 3 \<and>
      StellarToAnyMessageFromScVal dep_sdk a3 = Ok sample_message \<and> I128FromScVal a4 = Ok 8"
proof -
  have from_: "ia_fromAddress sample_adapter = []" by (simp add: sample_adapter_def)
  have ok: "valid_StellarToAnyMessage dep_sdk sample_message" "in_i64 8"
    using sample_address
    by (simp_all add: valid_StellarToAnyMessage_def valid_TokenAmount_def sample_message_def in_i64_def)
  show ?thesis
    using CcipSend_reaches_router [OF dep_sdk_codec_laws sample_address(1) ok run_parts [OF sample_send]]
    unfolding from_ by simp
qed

theorem GetFee_sends_only_restore_witness:
  "\<exists>txs. dep_sent (snd (run_state (Bind_Onramp.GetFee dep_sdk (NewOnRampClient (deployer_invoker dep_net dep_sdk) sample_contract) 3
     sample_message) sample_deployer)) = dep_sent sample_deployer @ txs \<and> restore_only dep_sdk sample_deployer txs"
  by (rule GetFee_sends_only_restore [OF dep_sdk_laws(1) surjective_pairing])

theorem governance_types_roundtrip_witness:
  "codec (Calls_ToScVal dep_sdk) (CallsFromScVal dep_sdk) (valid_Calls dep_sdk) \<and> valid_Calls dep_sdk sample_calls"
  using governance_types_roundtrip [OF dep_sdk_codec_laws]
  by (simp add: valid_Calls_def valid_Call_def sample_calls_def)

theorem messaging_types_roundtrip_witness:
  "codec (StellarToAnyMessage_ToScVal dep_sdk) (StellarToAnyMessageFromScVal dep_sdk) (valid_StellarToAnyMessage dep_sdk) \<and>
   valid_StellarToAnyMessage dep_sdk sample_message"
  using messaging_types_roundtrip [OF dep_sdk_codec_laws] sample_address
  by (simp add: valid_StellarToAnyMessage_def valid_TokenAmount_def sample_message_def in_i64_def)

lemma sample_wait:
  "\<exists>ev. fst (run_state (WaitForCCIPMessageSentEvent event_sdk event_client 1 10 None [RoundTick 2]) ()) = Some (Ok ev)"
proof -
  have "(case fst (run_state (WaitForCCIPMessageSentEvent event_sdk event_client 1 10 None [RoundTick 2]) ()) of
      Some (Ok ev) \<Rightarrow> True | _ \<Rightarrow> False)" by code_simp
  then show ?thesis by (auto split: option.splits result.splits)
qed

theorem WaitForCCIPMessageSentEvent_ends_and_is_sound_witness:
  "fst (run_state (WaitForCCIPMessageSentEvent event_sdk event_client 1 10 (Some (\<lambda>_. False)) [RoundTick 2, RoundTick 12]) ()) \<noteq> None \<and>
   (\<exists>s1 s2 events e ev. run_state (iv_GetEvents (cl_invoker event_client) (cl_contractID event_client) 1 [CCIPMessageSentEventTopic]) s1 =
        (Ok events, s2) \<and> e \<in> set events \<and> ParseCCIPMessageSentEvent event_sdk e = Ok ev)"
proof
  show "fst (run_state (WaitForCCIPMessageSentEvent event_sdk event_client 1 10 (Some (\<lambda>_. False)) [RoundTick 2, RoundTick 12]) ()) \<noteq> None"
    by (rule WaitForCCIPMessageSentEvent_ends_and_is_sound [THEN conjunct1, THEN mp]) simp
  obtain ev where "fst (run_state (WaitForCCIPMessageSentEvent event_sdk event_client 1 10 None [RoundTick 2]) ()) = Some (Ok ev)"
    using sample_wait by blast
  from WaitForCCIPMessageSentEvent_ends_and_is_sound [THEN conjunct2, THEN mp, OF this]
  show "\<exists>s1 s2 events e ev. run_state (iv_GetEvents (cl_invoker event_client) (cl_contractID event_client) 1 [CCIPMessageSentEventTopic]) s1 =
        (Ok events, s2) \<and> e \<in> set events \<and> ParseCCIPMessageSentEvent event_sdk e = Ok ev"
    by blast
qed

end
