(* ===== verification/Bind_CcipReceiver.thy ===== *)
theory Bind_CcipReceiver
  imports Bind_Common
begin

text \<open>
  The generated binding of the ccip receiver contract (bindings/contracts/ccip_receiver): the types of its own and every
  method of \<open>ExampleCcipReceiverClient\<close>.
\<close>

section \<open>Structs\<close>

record CcvConfigUpdate =
  CcvConfigUpdate_SourceChainSelector :: int
  CcvConfigUpdate_RequiredCcvs :: "string list"
  CcvConfigUpdate_OptionalCcvs :: "string list"
  CcvConfigUpdate_OptionalThreshold :: int

definition zero_CcvConfigUpdate :: CcvConfigUpdate where
  "zero_CcvConfigUpdate = \<lparr>CcvConfigUpdate_SourceChainSelector = 0, CcvConfigUpdate_RequiredCcvs = [], CcvConfigUpdate_OptionalCcvs = [],
     CcvConfigUpdate_OptionalThreshold = 0\<rparr>"

definition CcvConfigUpdate_ToScVal :: "sdk \<Rightarrow> CcvConfigUpdate \<Rightarrow> ScVal result" where
  "CcvConfigUpdate_ToScVal lib s = build_struct [
     (''source_chain_selector'', Ok (Uint64ToScVal (CcvConfigUpdate_SourceChainSelector s))),
     (''required_ccvs'', Ok (AddressSliceToScVal lib (CcvConfigUpdate_RequiredCcvs s))),
     (''optional_ccvs'', Ok (AddressSliceToScVal lib (CcvConfigUpdate_OptionalCcvs s))),
     (''optional_threshold'', Ok (Uint32ToScVal (CcvConfigUpdate_OptionalThreshold s)))]"

definition CcvConfigUpdate_entry :: "sdk \<Rightarrow> string \<Rightarrow> ScVal \<Rightarrow> CcvConfigUpdate \<Rightarrow> CcvConfigUpdate result" where
  "CcvConfigUpdate_entry lib key v s =
     (if key = ''source_chain_selector'' then put (named ''source_chain_selector'' (Uint64FromScVal v)) (\<lambda>x. s\<lparr>CcvConfigUpdate_SourceChainSelector := x\<rparr>)
      else if key = ''required_ccvs'' then put (vec_of ''required_ccvs is not a vec'' (AddressFromScVal lib) v) (\<lambda>x. s\<lparr>CcvConfigUpdate_RequiredCcvs := x\<rparr>)
      else if key = ''optional_ccvs'' then put (vec_of ''optional_ccvs is not a vec'' (AddressFromScVal lib) v) (\<lambda>x. s\<lparr>CcvConfigUpdate_OptionalCcvs := x\<rparr>)
      else if key = ''optional_threshold'' then put (need ''optional_threshold is not u32'' (GetU32 v)) (\<lambda>x. s\<lparr>CcvConfigUpdate_OptionalThreshold := x\<rparr>)
      else Ok s)"

definition CcvConfigUpdateFromScVal :: "sdk \<Rightarrow> ScVal \<Rightarrow> CcvConfigUpdate result" where
  "CcvConfigUpdateFromScVal lib = parse_struct ''not a map type'' (CcvConfigUpdate_entry lib) zero_CcvConfigUpdate"

record CcvChainConfig =
  CcvChainConfig_RequiredCcvs :: "string list"
  CcvChainConfig_OptionalCcvs :: "string list"
  CcvChainConfig_OptionalThreshold :: int

definition zero_CcvChainConfig :: CcvChainConfig where
  "zero_CcvChainConfig = \<lparr>CcvChainConfig_RequiredCcvs = [], CcvChainConfig_OptionalCcvs = [], CcvChainConfig_OptionalThreshold = 0\<rparr>"

definition CcvChainConfig_ToScVal :: "sdk \<Rightarrow> CcvChainConfig \<Rightarrow> ScVal result" where
  "CcvChainConfig_ToScVal lib s = build_struct [
     (''required_ccvs'', Ok (AddressSliceToScVal lib (CcvChainConfig_RequiredCcvs s))),
     (''optional_ccvs'', Ok (AddressSliceToScVal lib (CcvChainConfig_OptionalCcvs s))),
     (''optional_threshold'', Ok (Uint32ToScVal (CcvChainConfig_OptionalThreshold s)))]"

definition CcvChainConfig_entry :: "sdk \<Rightarrow> string \<Rightarrow> ScVal \<Rightarrow> CcvChainConfig \<Rightarrow> CcvChainConfig result" where
  "CcvChainConfig_entry lib key v s =
     (if key = ''required_ccvs'' then put (vec_of ''required_ccvs is not a vec'' (AddressFromScVal lib) v) (\<lambda>x. s\<lparr>CcvChainConfig_RequiredCcvs := x\<rparr>)
      else if key = ''optional_ccvs'' then put (vec_of ''optional_ccvs is not a vec'' (AddressFromScVal lib) v) (\<lambda>x. s\<lparr>CcvChainConfig_OptionalCcvs := x\<rparr>)
      else if key = ''optional_threshold'' then put (need ''optional_threshold is not u32'' (GetU32 v)) (\<lambda>x. s\<lparr>CcvChainConfig_OptionalThreshold := x\<rparr>)
      else Ok s)"

definition CcvChainConfigFromScVal :: "sdk \<Rightarrow> ScVal \<Rightarrow> CcvChainConfig result" where
  "CcvChainConfigFromScVal lib = parse_struct ''not a map type'' (CcvChainConfig_entry lib) zero_CcvChainConfig"

record RemoteChainConfig =
  RemoteChainConfig_ExtraArgs :: bytes
  RemoteChainConfig_AllowedFinalityConfig :: int

definition zero_RemoteChainConfig :: RemoteChainConfig where
  "zero_RemoteChainConfig = \<lparr>RemoteChainConfig_ExtraArgs = [], RemoteChainConfig_AllowedFinalityConfig = 0\<rparr>"

definition RemoteChainConfig_ToScVal :: "sdk \<Rightarrow> RemoteChainConfig \<Rightarrow> ScVal result" where
  "RemoteChainConfig_ToScVal lib s = build_struct [
     (''extra_args'', Ok (BytesToScVal (RemoteChainConfig_ExtraArgs s))),
     (''allowed_finality_config'', Ok (Uint32ToScVal (RemoteChainConfig_AllowedFinalityConfig s)))]"

definition RemoteChainConfig_entry :: "sdk \<Rightarrow> string \<Rightarrow> ScVal \<Rightarrow> RemoteChainConfig \<Rightarrow> RemoteChainConfig result" where
  "RemoteChainConfig_entry lib key v s =
     (if key = ''extra_args'' then put (need ''extra_args is not bytes'' (GetBytes v)) (\<lambda>x. s\<lparr>RemoteChainConfig_ExtraArgs := x\<rparr>)
      else if key = ''allowed_finality_config'' then put (need ''allowed_finality_config is not u32'' (GetU32 v)) (\<lambda>x. s\<lparr>RemoteChainConfig_AllowedFinalityConfig := x\<rparr>)
      else Ok s)"

definition RemoteChainConfigFromScVal :: "sdk \<Rightarrow> ScVal \<Rightarrow> RemoteChainConfig result" where
  "RemoteChainConfigFromScVal lib = parse_struct ''not a map type'' (RemoteChainConfig_entry lib) zero_RemoteChainConfig"

record CcvsAndFinalityConfig =
  CcvsAndFinalityConfig_RequiredCcvs :: "string list"
  CcvsAndFinalityConfig_OptionalCcvs :: "string list"
  CcvsAndFinalityConfig_OptionalThreshold :: int
  CcvsAndFinalityConfig_AllowedFinalityConfig :: int

definition zero_CcvsAndFinalityConfig :: CcvsAndFinalityConfig where
  "zero_CcvsAndFinalityConfig = \<lparr>CcvsAndFinalityConfig_RequiredCcvs = [], CcvsAndFinalityConfig_OptionalCcvs = [],
     CcvsAndFinalityConfig_OptionalThreshold = 0, CcvsAndFinalityConfig_AllowedFinalityConfig = 0\<rparr>"

definition CcvsAndFinalityConfig_ToScVal :: "sdk \<Rightarrow> CcvsAndFinalityConfig \<Rightarrow> ScVal result" where
  "CcvsAndFinalityConfig_ToScVal lib s = build_struct [
     (''required_ccvs'', Ok (AddressSliceToScVal lib (CcvsAndFinalityConfig_RequiredCcvs s))),
     (''optional_ccvs'', Ok (AddressSliceToScVal lib (CcvsAndFinalityConfig_OptionalCcvs s))),
     (''optional_threshold'', Ok (Uint32ToScVal (CcvsAndFinalityConfig_OptionalThreshold s))),
     (''allowed_finality_config'', Ok (Uint32ToScVal (CcvsAndFinalityConfig_AllowedFinalityConfig s)))]"

definition CcvsAndFinalityConfig_entry :: "sdk \<Rightarrow> string \<Rightarrow> ScVal \<Rightarrow> CcvsAndFinalityConfig \<Rightarrow> CcvsAndFinalityConfig result" where
  "CcvsAndFinalityConfig_entry lib key v s =
     (if key = ''required_ccvs'' then put (vec_of ''required_ccvs is not a vec'' (AddressFromScVal lib) v) (\<lambda>x. s\<lparr>CcvsAndFinalityConfig_RequiredCcvs := x\<rparr>)
      else if key = ''optional_ccvs'' then put (vec_of ''optional_ccvs is not a vec'' (AddressFromScVal lib) v) (\<lambda>x. s\<lparr>CcvsAndFinalityConfig_OptionalCcvs := x\<rparr>)
      else if key = ''optional_threshold'' then put (need ''optional_threshold is not u32'' (GetU32 v)) (\<lambda>x. s\<lparr>CcvsAndFinalityConfig_OptionalThreshold := x\<rparr>)
      else if key = ''allowed_finality_config'' then put (need ''allowed_finality_config is not u32'' (GetU32 v)) (\<lambda>x. s\<lparr>CcvsAndFinalityConfig_AllowedFinalityConfig := x\<rparr>)
      else Ok s)"

definition CcvsAndFinalityConfigFromScVal :: "sdk \<Rightarrow> ScVal \<Rightarrow> CcvsAndFinalityConfig result" where
  "CcvsAndFinalityConfigFromScVal lib = parse_struct ''not a map type'' (CcvsAndFinalityConfig_entry lib) zero_CcvsAndFinalityConfig"

section \<open>Events\<close>

record CcipCcvConfigSetEvent =
  CcipCcvConfigSetEvent_SourceChainSelector :: int
  CcipCcvConfigSetEvent_RequiredLen :: int
  CcipCcvConfigSetEvent_OptionalLen :: int
  CcipCcvConfigSetEvent_OptionalThreshold :: int
  CcipCcvConfigSetEvent_Ledger :: int
  CcipCcvConfigSetEvent_TxHash :: string

definition CcipCcvConfigSetEvent_entry :: "sdk \<Rightarrow> string \<Rightarrow> ScVal \<Rightarrow> CcipCcvConfigSetEvent \<Rightarrow> CcipCcvConfigSetEvent result" where
  "CcipCcvConfigSetEvent_entry lib key v s =
     (if key = ''source_chain_selector'' then set_if_ok (Uint64FromScVal v) (\<lambda>x s. s\<lparr>CcipCcvConfigSetEvent_SourceChainSelector := x\<rparr>) s
      else if key = ''required_len'' then set_if (GetU32 v) (\<lambda>x s. s\<lparr>CcipCcvConfigSetEvent_RequiredLen := x\<rparr>) s
      else if key = ''optional_len'' then set_if (GetU32 v) (\<lambda>x s. s\<lparr>CcipCcvConfigSetEvent_OptionalLen := x\<rparr>) s
      else if key = ''optional_threshold'' then set_if (GetU32 v) (\<lambda>x s. s\<lparr>CcipCcvConfigSetEvent_OptionalThreshold := x\<rparr>) s
      else Ok s)"

definition ParseCcipCcvConfigSetEvent :: "sdk \<Rightarrow> EventInfo \<Rightarrow> CcipCcvConfigSetEvent result" where
  "ParseCcipCcvConfigSetEvent lib = parse_event lib (CcipCcvConfigSetEvent_entry lib) (\<lambda>ledger tx.
     \<lparr>CcipCcvConfigSetEvent_SourceChainSelector = 0, CcipCcvConfigSetEvent_RequiredLen = 0,
        CcipCcvConfigSetEvent_OptionalLen = 0, CcipCcvConfigSetEvent_OptionalThreshold = 0,
        CcipCcvConfigSetEvent_Ledger = ledger, CcipCcvConfigSetEvent_TxHash = tx\<rparr>)"

record CcipMessageReceivedEvent =
  CcipMessageReceivedEvent_MessageId :: bytes
  CcipMessageReceivedEvent_SourceChainSelector :: int
  CcipMessageReceivedEvent_DataLen :: int
  CcipMessageReceivedEvent_SenderLen :: int
  CcipMessageReceivedEvent_DestTokenTransfers :: int
  CcipMessageReceivedEvent_Ledger :: int
  CcipMessageReceivedEvent_TxHash :: string

definition CcipMessageReceivedEvent_entry :: "sdk \<Rightarrow> string \<Rightarrow> ScVal \<Rightarrow> CcipMessageReceivedEvent \<Rightarrow> CcipMessageReceivedEvent result" where
  "CcipMessageReceivedEvent_entry lib key v s =
     (if key = ''message_id'' then set_if_ok (Bytes32FromScVal v) (\<lambda>x s. s\<lparr>CcipMessageReceivedEvent_MessageId := x\<rparr>) s
      else if key = ''source_chain_selector'' then set_if_ok (Uint64FromScVal v) (\<lambda>x s. s\<lparr>CcipMessageReceivedEvent_SourceChainSelector := x\<rparr>) s
      else if key = ''data_len'' then set_if (GetU32 v) (\<lambda>x s. s\<lparr>CcipMessageReceivedEvent_DataLen := x\<rparr>) s
      else if key = ''sender_len'' then set_if (GetU32 v) (\<lambda>x s. s\<lparr>CcipMessageReceivedEvent_SenderLen := x\<rparr>) s
      else if key = ''dest_token_transfers'' then set_if (GetU32 v) (\<lambda>x s. s\<lparr>CcipMessageReceivedEvent_DestTokenTransfers := x\<rparr>) s
      else Ok s)"

definition ParseCcipMessageReceivedEvent :: "sdk \<Rightarrow> EventInfo \<Rightarrow> CcipMessageReceivedEvent result" where
  "ParseCcipMessageReceivedEvent lib = parse_event lib (CcipMessageReceivedEvent_entry lib) (\<lambda>ledger tx.
     \<lparr>CcipMessageReceivedEvent_MessageId = replicate 32 0, CcipMessageReceivedEvent_SourceChainSelector = 0,
        CcipMessageReceivedEvent_DataLen = 0, CcipMessageReceivedEvent_SenderLen = 0,
        CcipMessageReceivedEvent_DestTokenTransfers = 0, CcipMessageReceivedEvent_Ledger = ledger,
        CcipMessageReceivedEvent_TxHash = tx\<rparr>)"

record CcipRemoteChainConfiguredEvent =
  CcipRemoteChainConfiguredEvent_DestChainSelector :: int
  CcipRemoteChainConfiguredEvent_ExtraArgsLen :: int
  CcipRemoteChainConfiguredEvent_AllowedFinalityConfig :: int
  CcipRemoteChainConfiguredEvent_Ledger :: int
  CcipRemoteChainConfiguredEvent_TxHash :: string

definition CcipRemoteChainConfiguredEvent_entry :: "sdk \<Rightarrow> string \<Rightarrow> ScVal \<Rightarrow> CcipRemoteChainConfiguredEvent \<Rightarrow> CcipRemoteChainConfiguredEvent result" where
  "CcipRemoteChainConfiguredEvent_entry lib key v s =
     (if key = ''dest_chain_selector'' then set_if_ok (Uint64FromScVal v) (\<lambda>x s. s\<lparr>CcipRemoteChainConfiguredEvent_DestChainSelector := x\<rparr>) s
      else if key = ''extra_args_len'' then set_if (GetU32 v) (\<lambda>x s. s\<lparr>CcipRemoteChainConfiguredEvent_ExtraArgsLen := x\<rparr>) s
      else if key = ''allowed_finality_config'' then set_if (GetU32 v) (\<lambda>x s. s\<lparr>CcipRemoteChainConfiguredEvent_AllowedFinalityConfig := x\<rparr>) s
      else Ok s)"

definition ParseCcipRemoteChainConfiguredEvent :: "sdk \<Rightarrow> EventInfo \<Rightarrow> CcipRemoteChainConfiguredEvent result" where
  "ParseCcipRemoteChainConfiguredEvent lib = parse_event lib (CcipRemoteChainConfiguredEvent_entry lib) (\<lambda>ledger tx.
     \<lparr>CcipRemoteChainConfiguredEvent_DestChainSelector = 0, CcipRemoteChainConfiguredEvent_ExtraArgsLen = 0,
        CcipRemoteChainConfiguredEvent_AllowedFinalityConfig = 0, CcipRemoteChainConfiguredEvent_Ledger = ledger,
        CcipRemoteChainConfiguredEvent_TxHash = tx\<rparr>)"

section \<open>The client\<close>

definition NewExampleCcipReceiverClient :: "'s Invoker \<Rightarrow> string \<Rightarrow> 's Client" where
  "NewExampleCcipReceiverClient ivk contractID = mk_client ivk contractID"

definition ContractID :: "'s Client \<Rightarrow> string" where
  "ContractID c = cl_contractID c"

definition Owner :: "sdk \<Rightarrow> 's Client \<Rightarrow> ('s, (string option) result) state" where
  "Owner lib c = simulate_value c ''owner'' [] (OptionalAddressFromScVal lib)"

definition IsOwner :: "sdk \<Rightarrow> 's Client \<Rightarrow> string \<Rightarrow> ('s, bool result) state" where
  "IsOwner lib c addr =
     simulate_value c ''is_owner'' [
       Ok (AddressToScVal lib addr)] (\<lambda>v. need ''expected bool return type'' (GetB v))"

definition GetRouter :: "sdk \<Rightarrow> 's Client \<Rightarrow> ('s, string result) state" where
  "GetRouter lib c = simulate_value c ''get_router'' [] (AddressFromScVal lib)"

definition InitOwner :: "sdk \<Rightarrow> 's Client \<Rightarrow> string \<Rightarrow> ('s, unit result) state" where
  "InitOwner lib c owner = invoke_void c ''init_owner'' [Ok (AddressToScVal lib owner)]"

definition Initialize :: "sdk \<Rightarrow> 's Client \<Rightarrow> string \<Rightarrow> string \<Rightarrow> ('s, unit result) state" where
  "Initialize lib c owner router =
     invoke_void c ''initialize'' [Ok (AddressToScVal lib owner), Ok (AddressToScVal lib router)]"

definition CcipReceive :: "sdk \<Rightarrow> 's Client \<Rightarrow> AnyToStellarMessage \<Rightarrow> ('s, unit result) state" where
  "CcipReceive lib c message = invoke_void c ''ccip_receive'' [MustToScVal (AnyToStellarMessage_ToScVal lib message)]"

definition RequireOwner :: "sdk \<Rightarrow> 's Client \<Rightarrow> ('s, string result) state" where
  "RequireOwner lib c = invoke_value c ''require_owner'' [] (AddressFromScVal lib)"

definition SetNewOwner :: "sdk \<Rightarrow> 's Client \<Rightarrow> string \<Rightarrow> ('s, unit result) state" where
  "SetNewOwner lib c newOwner = invoke_void c ''set_new_owner'' [Ok (AddressToScVal lib newOwner)]"

definition GetCcvConfig :: "sdk \<Rightarrow> 's Client \<Rightarrow> int \<Rightarrow> ('s, CcvChainConfig result) state" where
  "GetCcvConfig lib c sourceChainSelector =
     simulate_value c ''get_ccv_config'' [Ok (Uint64ToScVal sourceChainSelector)] (CcvChainConfigFromScVal lib)"

definition LastMessageId :: "sdk \<Rightarrow> 's Client \<Rightarrow> ('s, bytes result) state" where
  "LastMessageId lib c = invoke_value c ''last_message_id'' [] (Bytes32FromScVal)"

definition AcceptOwnership :: "sdk \<Rightarrow> 's Client \<Rightarrow> ('s, unit result) state" where
  "AcceptOwnership lib c = invoke_void c ''accept_ownership'' []"

definition TypeAndVersion :: "sdk \<Rightarrow> 's Client \<Rightarrow> ('s, string result) state" where
  "TypeAndVersion lib c = invoke_value c ''type_and_version'' [] (StringFromScVal)"

definition GetPendingOwner :: "sdk \<Rightarrow> 's Client \<Rightarrow> ('s, (string option) result) state" where
  "GetPendingOwner lib c = simulate_value c ''get_pending_owner'' [] (OptionalAddressFromScVal lib)"

definition TransferOwnership :: "sdk \<Rightarrow> 's Client \<Rightarrow> string \<Rightarrow> ('s, unit result) state" where
  "TransferOwnership lib c newOwner = invoke_void c ''transfer_ownership'' [Ok (AddressToScVal lib newOwner)]"

definition EnableRemoteChain :: "sdk \<Rightarrow> 's Client \<Rightarrow> string \<Rightarrow> int \<Rightarrow> bytes \<Rightarrow> int \<Rightarrow> ('s, unit result) state" where
  "EnableRemoteChain lib c caller destChainSelector extraArgs allowedFinalityConfig =
     invoke_void c ''enable_remote_chain'' [
       Ok (AddressToScVal lib caller), Ok (Uint64ToScVal destChainSelector), Ok (BytesToScVal extraArgs),
       Ok (Uint32ToScVal allowedFinalityConfig)]"

definition DisableRemoteChain :: "sdk \<Rightarrow> 's Client \<Rightarrow> string \<Rightarrow> int \<Rightarrow> ('s, unit result) state" where
  "DisableRemoteChain lib c caller destChainSelector =
     invoke_void c ''disable_remote_chain'' [Ok (AddressToScVal lib caller), Ok (Uint64ToScVal destChainSelector)]"

definition GetRemoteChainConfig :: "sdk \<Rightarrow> 's Client \<Rightarrow> int \<Rightarrow> ('s, RemoteChainConfig result) state" where
  "GetRemoteChainConfig lib c chainSelector =
     simulate_value c ''get_remote_chain_config'' [Ok (Uint64ToScVal chainSelector)] (RemoteChainConfigFromScVal lib)"

definition SendDataPayFeeToken :: "sdk \<Rightarrow> 's Client \<Rightarrow> string \<Rightarrow> int \<Rightarrow> bytes \<Rightarrow> bytes \<Rightarrow> string \<Rightarrow> int \<Rightarrow> ('s, bytes result) state" where
  "SendDataPayFeeToken lib c caller destChainSelector receiver data feeToken feeTokenAmount =
     invoke_value c ''send_data_pay_fee_token'' [
       Ok (AddressToScVal lib caller), Ok (Uint64ToScVal destChainSelector), Ok (BytesToScVal receiver),
       Ok (BytesToScVal data), Ok (AddressToScVal lib feeToken), Ok (I128ToScVal feeTokenAmount)] (Bytes32FromScVal)"

definition ApplyCcvConfigUpdates :: "sdk \<Rightarrow> 's Client \<Rightarrow> string \<Rightarrow> CcvConfigUpdate list \<Rightarrow> ('s, unit result) state" where
  "ApplyCcvConfigUpdates lib c caller updates =
     invoke_void c ''apply_ccv_config_updates'' [
       Ok (AddressToScVal lib caller), StructSliceToScVal (CcvConfigUpdate_ToScVal lib) updates]"

definition CancelOwnershipTransfer :: "sdk \<Rightarrow> 's Client \<Rightarrow> ('s, unit result) state" where
  "CancelOwnershipTransfer lib c = invoke_void c ''cancel_ownership_transfer'' []"

definition GetRemoteChainSelectors :: "sdk \<Rightarrow> 's Client \<Rightarrow> ('s, (int list) result) state" where
  "GetRemoteChainSelectors lib c =
     simulate_value c ''get_remote_chain_selectors'' [] (vec_of ''expected vec return type'' (Uint64FromScVal))"

definition GetRemoteChainExtraArgs :: "sdk \<Rightarrow> 's Client \<Rightarrow> int \<Rightarrow> ('s, bytes result) state" where
  "GetRemoteChainExtraArgs lib c destChainSelector =
     simulate_value c ''get_remote_chain_extra_args'' [
       Ok (Uint64ToScVal destChainSelector)] (\<lambda>v. need ''expected bytes return type'' (GetBytes v))"

definition GetCcvsAndFinalityConfig :: "sdk \<Rightarrow> 's Client \<Rightarrow> int \<Rightarrow> bytes \<Rightarrow> ('s, CcvsAndFinalityConfig result) state" where
  "GetCcvsAndFinalityConfig lib c sourceChainSelector unused =
     simulate_value c ''get_ccvs_and_finality_config'' [
       Ok (Uint64ToScVal sourceChainSelector), Ok (BytesToScVal unused)] (CcvsAndFinalityConfigFromScVal lib)"

section \<open>Waiting for events\<close>

definition CcipCcvConfigSetEventTopic :: string where
  "CcipCcvConfigSetEventTopic = ''example_CcvCfg''"

definition WaitForCcipCcvConfigSetEvent :: "sdk \<Rightarrow> 's Client \<Rightarrow> int \<Rightarrow> int \<Rightarrow> (CcipCcvConfigSetEvent \<Rightarrow> bool) option \<Rightarrow> wait_round list \<Rightarrow> ('s, CcipCcvConfigSetEvent result option) state" where
  "WaitForCcipCcvConfigSetEvent lib c = wait_for c CcipCcvConfigSetEventTopic (ParseCcipCcvConfigSetEvent lib)"

definition CcipMessageReceivedEventTopic :: string where
  "CcipMessageReceivedEventTopic = ''example_CcipMessageReceived''"

definition WaitForCcipMessageReceivedEvent :: "sdk \<Rightarrow> 's Client \<Rightarrow> int \<Rightarrow> int \<Rightarrow> (CcipMessageReceivedEvent \<Rightarrow> bool) option \<Rightarrow> wait_round list \<Rightarrow> ('s, CcipMessageReceivedEvent result option) state" where
  "WaitForCcipMessageReceivedEvent lib c = wait_for c CcipMessageReceivedEventTopic (ParseCcipMessageReceivedEvent lib)"

definition CcipRemoteChainConfiguredEventTopic :: string where
  "CcipRemoteChainConfiguredEventTopic = ''example_RemChCfg''"

definition WaitForCcipRemoteChainConfiguredEvent :: "sdk \<Rightarrow> 's Client \<Rightarrow> int \<Rightarrow> int \<Rightarrow> (CcipRemoteChainConfiguredEvent \<Rightarrow> bool) option \<Rightarrow> wait_round list \<Rightarrow> ('s, CcipRemoteChainConfiguredEvent result option) state" where
  "WaitForCcipRemoteChainConfiguredEvent lib c = wait_for c CcipRemoteChainConfiguredEventTopic (ParseCcipRemoteChainConfiguredEvent lib)"

section \<open>Round trips\<close>

definition valid_CcvConfigUpdate :: "sdk \<Rightarrow> CcvConfigUpdate \<Rightarrow> bool" where
  "valid_CcvConfigUpdate lib s \<longleftrightarrow> list_all (is_address lib) (CcvConfigUpdate_RequiredCcvs s) \<and>
     list_all (is_address lib) (CcvConfigUpdate_OptionalCcvs s)"

lemma ccip_receiver_CcvConfigUpdate_keys: "sort [''source_chain_selector'', ''required_ccvs'', ''optional_ccvs'', ''optional_threshold''] =
    [''optional_ccvs'', ''optional_threshold'', ''required_ccvs'', ''source_chain_selector'']"
  by simp

lemma ccip_receiver_CcvConfigUpdate_codec:
  assumes "sdk_laws lib"
  shows "codec (CcvConfigUpdate_ToScVal lib) (CcvConfigUpdateFromScVal lib) (valid_CcvConfigUpdate lib)"
proof (rule codecI)
  show "\<exists>v. CcvConfigUpdate_ToScVal lib s = Ok v \<and> CcvConfigUpdateFromScVal lib v = Ok s" if ok: "valid_CcvConfigUpdate lib s" for s
    using ok assms
    by (cases s) (simp add: CcvConfigUpdate_ToScVal_def CcvConfigUpdateFromScVal_def CcvConfigUpdate_entry_def zero_CcvConfigUpdate_def valid_CcvConfigUpdate_def
        ccip_receiver_CcvConfigUpdate_keys struct_codec_simps del: sort_key_simps fold_entries.simps(2))
qed

definition valid_CcvChainConfig :: "sdk \<Rightarrow> CcvChainConfig \<Rightarrow> bool" where
  "valid_CcvChainConfig lib s \<longleftrightarrow> list_all (is_address lib) (CcvChainConfig_RequiredCcvs s) \<and>
     list_all (is_address lib) (CcvChainConfig_OptionalCcvs s)"

lemma ccip_receiver_CcvChainConfig_keys: "sort [''required_ccvs'', ''optional_ccvs'', ''optional_threshold''] =
    [''optional_ccvs'', ''optional_threshold'', ''required_ccvs'']"
  by simp

lemma ccip_receiver_CcvChainConfig_codec:
  assumes "sdk_laws lib"
  shows "codec (CcvChainConfig_ToScVal lib) (CcvChainConfigFromScVal lib) (valid_CcvChainConfig lib)"
proof (rule codecI)
  show "\<exists>v. CcvChainConfig_ToScVal lib s = Ok v \<and> CcvChainConfigFromScVal lib v = Ok s" if ok: "valid_CcvChainConfig lib s" for s
    using ok assms
    by (cases s) (simp add: CcvChainConfig_ToScVal_def CcvChainConfigFromScVal_def CcvChainConfig_entry_def zero_CcvChainConfig_def valid_CcvChainConfig_def
        ccip_receiver_CcvChainConfig_keys struct_codec_simps del: sort_key_simps fold_entries.simps(2))
qed

definition valid_RemoteChainConfig :: "sdk \<Rightarrow> RemoteChainConfig \<Rightarrow> bool" where
  "valid_RemoteChainConfig lib s \<longleftrightarrow> True"

lemma ccip_receiver_RemoteChainConfig_keys: "sort [''extra_args'', ''allowed_finality_config''] =
    [''allowed_finality_config'', ''extra_args'']"
  by simp

lemma ccip_receiver_RemoteChainConfig_codec:
  assumes "sdk_laws lib"
  shows "codec (RemoteChainConfig_ToScVal lib) (RemoteChainConfigFromScVal lib) (valid_RemoteChainConfig lib)"
proof (rule codecI)
  show "\<exists>v. RemoteChainConfig_ToScVal lib s = Ok v \<and> RemoteChainConfigFromScVal lib v = Ok s" if ok: "valid_RemoteChainConfig lib s" for s
    using ok assms
    by (cases s) (simp add: RemoteChainConfig_ToScVal_def RemoteChainConfigFromScVal_def RemoteChainConfig_entry_def zero_RemoteChainConfig_def valid_RemoteChainConfig_def
        ccip_receiver_RemoteChainConfig_keys struct_codec_simps del: sort_key_simps fold_entries.simps(2))
qed

definition valid_CcvsAndFinalityConfig :: "sdk \<Rightarrow> CcvsAndFinalityConfig \<Rightarrow> bool" where
  "valid_CcvsAndFinalityConfig lib s \<longleftrightarrow> list_all (is_address lib) (CcvsAndFinalityConfig_RequiredCcvs s) \<and>
     list_all (is_address lib) (CcvsAndFinalityConfig_OptionalCcvs s)"

lemma ccip_receiver_CcvsAndFinalityConfig_keys: "sort [''required_ccvs'', ''optional_ccvs'', ''optional_threshold'', ''allowed_finality_config''] =
    [''allowed_finality_config'', ''optional_ccvs'', ''optional_threshold'', ''required_ccvs'']"
  by simp

lemma ccip_receiver_CcvsAndFinalityConfig_codec:
  assumes "sdk_laws lib"
  shows "codec (CcvsAndFinalityConfig_ToScVal lib) (CcvsAndFinalityConfigFromScVal lib) (valid_CcvsAndFinalityConfig lib)"
proof (rule codecI)
  show "\<exists>v. CcvsAndFinalityConfig_ToScVal lib s = Ok v \<and> CcvsAndFinalityConfigFromScVal lib v = Ok s" if ok: "valid_CcvsAndFinalityConfig lib s" for s
    using ok assms
    by (cases s) (simp add: CcvsAndFinalityConfig_ToScVal_def CcvsAndFinalityConfigFromScVal_def CcvsAndFinalityConfig_entry_def zero_CcvsAndFinalityConfig_def valid_CcvsAndFinalityConfig_def
        ccip_receiver_CcvsAndFinalityConfig_keys struct_codec_simps del: sort_key_simps fold_entries.simps(2))
qed

end
