(* ===== verification/Bind_CommitteeVerifier.thy ===== *)
theory Bind_CommitteeVerifier
  imports Bind_Common
begin

text \<open>
  The generated binding of the committee verifier contract (bindings/contracts/committee_verifier): the types of its own and every
  method of \<open>CommitteeVerifierClient\<close>.
\<close>

section \<open>Structs\<close>

record FeeResponse =
  FeeResponse_DestBytesOverhead :: int
  FeeResponse_DestGasLimit :: int
  FeeResponse_Fee :: int

definition zero_FeeResponse :: FeeResponse where
  "zero_FeeResponse = \<lparr>FeeResponse_DestBytesOverhead = 0, FeeResponse_DestGasLimit = 0, FeeResponse_Fee = 0\<rparr>"

definition FeeResponse_ToScVal :: "sdk \<Rightarrow> FeeResponse \<Rightarrow> ScVal result" where
  "FeeResponse_ToScVal lib s = build_struct [
     (''dest_bytes_overhead'', Ok (Uint32ToScVal (FeeResponse_DestBytesOverhead s))),
     (''dest_gas_limit'', Ok (Uint32ToScVal (FeeResponse_DestGasLimit s))),
     (''fee'', Ok (Uint32ToScVal (FeeResponse_Fee s)))]"

definition FeeResponse_entry :: "sdk \<Rightarrow> string \<Rightarrow> ScVal \<Rightarrow> FeeResponse \<Rightarrow> FeeResponse result" where
  "FeeResponse_entry lib key v s =
     (if key = ''dest_bytes_overhead'' then put (need ''dest_bytes_overhead is not u32'' (GetU32 v)) (\<lambda>x. s\<lparr>FeeResponse_DestBytesOverhead := x\<rparr>)
      else if key = ''dest_gas_limit'' then put (need ''dest_gas_limit is not u32'' (GetU32 v)) (\<lambda>x. s\<lparr>FeeResponse_DestGasLimit := x\<rparr>)
      else if key = ''fee'' then put (need ''fee is not u32'' (GetU32 v)) (\<lambda>x. s\<lparr>FeeResponse_Fee := x\<rparr>)
      else Ok s)"

definition FeeResponseFromScVal :: "sdk \<Rightarrow> ScVal \<Rightarrow> FeeResponse result" where
  "FeeResponseFromScVal lib = parse_struct ''not a map type'' (FeeResponse_entry lib) zero_FeeResponse"

record DynamicConfig =
  DynamicConfig_AllowlistAdmin :: "string option"
  DynamicConfig_FeeAggregator :: "string option"

definition zero_DynamicConfig :: DynamicConfig where
  "zero_DynamicConfig = \<lparr>DynamicConfig_AllowlistAdmin = None, DynamicConfig_FeeAggregator = None\<rparr>"

definition DynamicConfig_ToScVal :: "sdk \<Rightarrow> DynamicConfig \<Rightarrow> ScVal result" where
  "DynamicConfig_ToScVal lib s = build_struct [
     (''allowlist_admin'', Ok (OptionalAddressToScVal lib (DynamicConfig_AllowlistAdmin s))),
     (''fee_aggregator'', Ok (OptionalAddressToScVal lib (DynamicConfig_FeeAggregator s)))]"

definition DynamicConfig_entry :: "sdk \<Rightarrow> string \<Rightarrow> ScVal \<Rightarrow> DynamicConfig \<Rightarrow> DynamicConfig result" where
  "DynamicConfig_entry lib key v s =
     (if key = ''allowlist_admin'' then put (named ''allowlist_admin'' (OptionalAddressFromScVal lib v)) (\<lambda>x. s\<lparr>DynamicConfig_AllowlistAdmin := x\<rparr>)
      else if key = ''fee_aggregator'' then put (named ''fee_aggregator'' (OptionalAddressFromScVal lib v)) (\<lambda>x. s\<lparr>DynamicConfig_FeeAggregator := x\<rparr>)
      else Ok s)"

definition DynamicConfigFromScVal :: "sdk \<Rightarrow> ScVal \<Rightarrow> DynamicConfig result" where
  "DynamicConfigFromScVal lib = parse_struct ''not a map type'' (DynamicConfig_entry lib) zero_DynamicConfig"

record RemoteChainConfig =
  RemoteChainConfig_AllowlistEnabled :: bool
  RemoteChainConfig_FeeUsdCents :: int
  RemoteChainConfig_GasForVerification :: int
  RemoteChainConfig_PayloadSizeBytes :: int
  RemoteChainConfig_RemoteChainSelector :: int
  RemoteChainConfig_Router :: "string option"

definition zero_RemoteChainConfig :: RemoteChainConfig where
  "zero_RemoteChainConfig = \<lparr>RemoteChainConfig_AllowlistEnabled = False, RemoteChainConfig_FeeUsdCents = 0,
     RemoteChainConfig_GasForVerification = 0, RemoteChainConfig_PayloadSizeBytes = 0,
     RemoteChainConfig_RemoteChainSelector = 0, RemoteChainConfig_Router = None\<rparr>"

definition RemoteChainConfig_ToScVal :: "sdk \<Rightarrow> RemoteChainConfig \<Rightarrow> ScVal result" where
  "RemoteChainConfig_ToScVal lib s = build_struct [
     (''allowlist_enabled'', Ok (BoolToScVal (RemoteChainConfig_AllowlistEnabled s))),
     (''fee_usd_cents'', Ok (Uint32ToScVal (RemoteChainConfig_FeeUsdCents s))),
     (''gas_for_verification'', Ok (Uint32ToScVal (RemoteChainConfig_GasForVerification s))),
     (''payload_size_bytes'', Ok (Uint32ToScVal (RemoteChainConfig_PayloadSizeBytes s))),
     (''remote_chain_selector'', Ok (Uint64ToScVal (RemoteChainConfig_RemoteChainSelector s))),
     (''router'', Ok (OptionalAddressToScVal lib (RemoteChainConfig_Router s)))]"

definition RemoteChainConfig_entry :: "sdk \<Rightarrow> string \<Rightarrow> ScVal \<Rightarrow> RemoteChainConfig \<Rightarrow> RemoteChainConfig result" where
  "RemoteChainConfig_entry lib key v s =
     (if key = ''allowlist_enabled'' then put (need ''allowlist_enabled is not bool'' (GetB v)) (\<lambda>x. s\<lparr>RemoteChainConfig_AllowlistEnabled := x\<rparr>)
      else if key = ''fee_usd_cents'' then put (need ''fee_usd_cents is not u32'' (GetU32 v)) (\<lambda>x. s\<lparr>RemoteChainConfig_FeeUsdCents := x\<rparr>)
      else if key = ''gas_for_verification'' then put (need ''gas_for_verification is not u32'' (GetU32 v)) (\<lambda>x. s\<lparr>RemoteChainConfig_GasForVerification := x\<rparr>)
      else if key = ''payload_size_bytes'' then put (need ''payload_size_bytes is not u32'' (GetU32 v)) (\<lambda>x. s\<lparr>RemoteChainConfig_PayloadSizeBytes := x\<rparr>)
      else if key = ''remote_chain_selector'' then put (named ''remote_chain_selector'' (Uint64FromScVal v)) (\<lambda>x. s\<lparr>RemoteChainConfig_RemoteChainSelector := x\<rparr>)
      else if key = ''router'' then put (named ''router'' (OptionalAddressFromScVal lib v)) (\<lambda>x. s\<lparr>RemoteChainConfig_Router := x\<rparr>)
      else Ok s)"

definition RemoteChainConfigFromScVal :: "sdk \<Rightarrow> ScVal \<Rightarrow> RemoteChainConfig result" where
  "RemoteChainConfigFromScVal lib = parse_struct ''not a map type'' (RemoteChainConfig_entry lib) zero_RemoteChainConfig"

record SignatureQuorumConfig =
  SignatureQuorumConfig_Signers :: "bytes list"
  SignatureQuorumConfig_SourceChainSelector :: int
  SignatureQuorumConfig_Threshold :: int

definition zero_SignatureQuorumConfig :: SignatureQuorumConfig where
  "zero_SignatureQuorumConfig = \<lparr>SignatureQuorumConfig_Signers = [], SignatureQuorumConfig_SourceChainSelector = 0,
     SignatureQuorumConfig_Threshold = 0\<rparr>"

definition SignatureQuorumConfig_ToScVal :: "sdk \<Rightarrow> SignatureQuorumConfig \<Rightarrow> ScVal result" where
  "SignatureQuorumConfig_ToScVal lib s = build_struct [
     (''signers'', Ok (Bytes32SliceToScVal (SignatureQuorumConfig_Signers s))),
     (''source_chain_selector'', Ok (Uint64ToScVal (SignatureQuorumConfig_SourceChainSelector s))),
     (''threshold'', Ok (Uint32ToScVal (SignatureQuorumConfig_Threshold s)))]"

definition SignatureQuorumConfig_entry :: "sdk \<Rightarrow> string \<Rightarrow> ScVal \<Rightarrow> SignatureQuorumConfig \<Rightarrow> SignatureQuorumConfig result" where
  "SignatureQuorumConfig_entry lib key v s =
     (if key = ''signers'' then put (vec_of ''signers is not a vec'' (Bytes32FromScVal) v) (\<lambda>x. s\<lparr>SignatureQuorumConfig_Signers := x\<rparr>)
      else if key = ''source_chain_selector'' then put (named ''source_chain_selector'' (Uint64FromScVal v)) (\<lambda>x. s\<lparr>SignatureQuorumConfig_SourceChainSelector := x\<rparr>)
      else if key = ''threshold'' then put (need ''threshold is not u32'' (GetU32 v)) (\<lambda>x. s\<lparr>SignatureQuorumConfig_Threshold := x\<rparr>)
      else Ok s)"

definition SignatureQuorumConfigFromScVal :: "sdk \<Rightarrow> ScVal \<Rightarrow> SignatureQuorumConfig result" where
  "SignatureQuorumConfigFromScVal lib = parse_struct ''not a map type'' (SignatureQuorumConfig_entry lib) zero_SignatureQuorumConfig"

section \<open>Events\<close>

record ConfigSetEvent =
  ConfigSetEvent_DynamicConfig :: DynamicConfig
  ConfigSetEvent_Ledger :: int
  ConfigSetEvent_TxHash :: string

definition ConfigSetEvent_entry :: "sdk \<Rightarrow> string \<Rightarrow> ScVal \<Rightarrow> ConfigSetEvent \<Rightarrow> ConfigSetEvent result" where
  "ConfigSetEvent_entry lib key v s =
     (if key = ''dynamic_config'' then set_if_ok (DynamicConfigFromScVal lib v) (\<lambda>x s. s\<lparr>ConfigSetEvent_DynamicConfig := x\<rparr>) s
      else Ok s)"

definition ParseConfigSetEvent :: "sdk \<Rightarrow> EventInfo \<Rightarrow> ConfigSetEvent result" where
  "ParseConfigSetEvent lib = parse_event lib (ConfigSetEvent_entry lib) (\<lambda>ledger tx.
     \<lparr>ConfigSetEvent_DynamicConfig = zero_DynamicConfig, ConfigSetEvent_Ledger = ledger, ConfigSetEvent_TxHash = tx\<rparr>)"

record SignatureConfigSetEvent =
  SignatureConfigSetEvent_SourceChainSelector :: int
  SignatureConfigSetEvent_Signers :: "bytes list"
  SignatureConfigSetEvent_Threshold :: int
  SignatureConfigSetEvent_Ledger :: int
  SignatureConfigSetEvent_TxHash :: string

definition SignatureConfigSetEvent_entry :: "sdk \<Rightarrow> string \<Rightarrow> ScVal \<Rightarrow> SignatureConfigSetEvent \<Rightarrow> SignatureConfigSetEvent result" where
  "SignatureConfigSetEvent_entry lib key v s =
     (if key = ''source_chain_selector'' then set_if_ok (Uint64FromScVal v) (\<lambda>x s. s\<lparr>SignatureConfigSetEvent_SourceChainSelector := x\<rparr>) s
      else if key = ''signers'' then set_if_vec (items_or (replicate 32 0) (Bytes32FromScVal)) v (\<lambda>x s. s\<lparr>SignatureConfigSetEvent_Signers := x\<rparr>) s
      else if key = ''threshold'' then set_if (GetU32 v) (\<lambda>x s. s\<lparr>SignatureConfigSetEvent_Threshold := x\<rparr>) s
      else Ok s)"

definition ParseSignatureConfigSetEvent :: "sdk \<Rightarrow> EventInfo \<Rightarrow> SignatureConfigSetEvent result" where
  "ParseSignatureConfigSetEvent lib = parse_event lib (SignatureConfigSetEvent_entry lib) (\<lambda>ledger tx.
     \<lparr>SignatureConfigSetEvent_SourceChainSelector = 0, SignatureConfigSetEvent_Signers = [],
        SignatureConfigSetEvent_Threshold = 0, SignatureConfigSetEvent_Ledger = ledger,
        SignatureConfigSetEvent_TxHash = tx\<rparr>)"

record RemoteChainConfigSetEvent =
  RemoteChainConfigSetEvent_RemoteChainSelector :: int
  RemoteChainConfigSetEvent_Router :: "string option"
  RemoteChainConfigSetEvent_AllowlistEnabled :: bool
  RemoteChainConfigSetEvent_Ledger :: int
  RemoteChainConfigSetEvent_TxHash :: string

definition RemoteChainConfigSetEvent_entry :: "sdk \<Rightarrow> string \<Rightarrow> ScVal \<Rightarrow> RemoteChainConfigSetEvent \<Rightarrow> RemoteChainConfigSetEvent result" where
  "RemoteChainConfigSetEvent_entry lib key v s =
     (if key = ''remote_chain_selector'' then set_if_ok (Uint64FromScVal v) (\<lambda>x s. s\<lparr>RemoteChainConfigSetEvent_RemoteChainSelector := x\<rparr>) s
      else if key = ''router'' then set_if_ok (OptionalAddressFromScVal lib v) (\<lambda>x s. s\<lparr>RemoteChainConfigSetEvent_Router := x\<rparr>) s
      else if key = ''allowlist_enabled'' then set_if (GetB v) (\<lambda>x s. s\<lparr>RemoteChainConfigSetEvent_AllowlistEnabled := x\<rparr>) s
      else Ok s)"

definition ParseRemoteChainConfigSetEvent :: "sdk \<Rightarrow> EventInfo \<Rightarrow> RemoteChainConfigSetEvent result" where
  "ParseRemoteChainConfigSetEvent lib = parse_event lib (RemoteChainConfigSetEvent_entry lib) (\<lambda>ledger tx.
     \<lparr>RemoteChainConfigSetEvent_RemoteChainSelector = 0, RemoteChainConfigSetEvent_Router = None,
        RemoteChainConfigSetEvent_AllowlistEnabled = False, RemoteChainConfigSetEvent_Ledger = ledger,
        RemoteChainConfigSetEvent_TxHash = tx\<rparr>)"

record AllowListSendersAddedEvent =
  AllowListSendersAddedEvent_DestChainSelector :: int
  AllowListSendersAddedEvent_Sender :: string
  AllowListSendersAddedEvent_Ledger :: int
  AllowListSendersAddedEvent_TxHash :: string

definition AllowListSendersAddedEvent_entry :: "sdk \<Rightarrow> string \<Rightarrow> ScVal \<Rightarrow> AllowListSendersAddedEvent \<Rightarrow> AllowListSendersAddedEvent result" where
  "AllowListSendersAddedEvent_entry lib key v s =
     (if key = ''dest_chain_selector'' then set_if_ok (Uint64FromScVal v) (\<lambda>x s. s\<lparr>AllowListSendersAddedEvent_DestChainSelector := x\<rparr>) s
      else if key = ''sender'' then set_if_ok (AddressFromScVal lib v) (\<lambda>x s. s\<lparr>AllowListSendersAddedEvent_Sender := x\<rparr>) s
      else Ok s)"

definition ParseAllowListSendersAddedEvent :: "sdk \<Rightarrow> EventInfo \<Rightarrow> AllowListSendersAddedEvent result" where
  "ParseAllowListSendersAddedEvent lib = parse_event lib (AllowListSendersAddedEvent_entry lib) (\<lambda>ledger tx.
     \<lparr>AllowListSendersAddedEvent_DestChainSelector = 0, AllowListSendersAddedEvent_Sender = [],
        AllowListSendersAddedEvent_Ledger = ledger, AllowListSendersAddedEvent_TxHash = tx\<rparr>)"

record AllowListStateChangedEvent =
  AllowListStateChangedEvent_DestChainSelector :: int
  AllowListStateChangedEvent_AllowlistEnabled :: bool
  AllowListStateChangedEvent_Ledger :: int
  AllowListStateChangedEvent_TxHash :: string

definition AllowListStateChangedEvent_entry :: "sdk \<Rightarrow> string \<Rightarrow> ScVal \<Rightarrow> AllowListStateChangedEvent \<Rightarrow> AllowListStateChangedEvent result" where
  "AllowListStateChangedEvent_entry lib key v s =
     (if key = ''dest_chain_selector'' then set_if_ok (Uint64FromScVal v) (\<lambda>x s. s\<lparr>AllowListStateChangedEvent_DestChainSelector := x\<rparr>) s
      else if key = ''allowlist_enabled'' then set_if (GetB v) (\<lambda>x s. s\<lparr>AllowListStateChangedEvent_AllowlistEnabled := x\<rparr>) s
      else Ok s)"

definition ParseAllowListStateChangedEvent :: "sdk \<Rightarrow> EventInfo \<Rightarrow> AllowListStateChangedEvent result" where
  "ParseAllowListStateChangedEvent lib = parse_event lib (AllowListStateChangedEvent_entry lib) (\<lambda>ledger tx.
     \<lparr>AllowListStateChangedEvent_DestChainSelector = 0, AllowListStateChangedEvent_AllowlistEnabled = False,
        AllowListStateChangedEvent_Ledger = ledger, AllowListStateChangedEvent_TxHash = tx\<rparr>)"

record AllowListSendersRemovedEvent =
  AllowListSendersRemovedEvent_DestChainSelector :: int
  AllowListSendersRemovedEvent_Sender :: string
  AllowListSendersRemovedEvent_Ledger :: int
  AllowListSendersRemovedEvent_TxHash :: string

definition AllowListSendersRemovedEvent_entry :: "sdk \<Rightarrow> string \<Rightarrow> ScVal \<Rightarrow> AllowListSendersRemovedEvent \<Rightarrow> AllowListSendersRemovedEvent result" where
  "AllowListSendersRemovedEvent_entry lib key v s =
     (if key = ''dest_chain_selector'' then set_if_ok (Uint64FromScVal v) (\<lambda>x s. s\<lparr>AllowListSendersRemovedEvent_DestChainSelector := x\<rparr>) s
      else if key = ''sender'' then set_if_ok (AddressFromScVal lib v) (\<lambda>x s. s\<lparr>AllowListSendersRemovedEvent_Sender := x\<rparr>) s
      else Ok s)"

definition ParseAllowListSendersRemovedEvent :: "sdk \<Rightarrow> EventInfo \<Rightarrow> AllowListSendersRemovedEvent result" where
  "ParseAllowListSendersRemovedEvent lib = parse_event lib (AllowListSendersRemovedEvent_entry lib) (\<lambda>ledger tx.
     \<lparr>AllowListSendersRemovedEvent_DestChainSelector = 0, AllowListSendersRemovedEvent_Sender = [],
        AllowListSendersRemovedEvent_Ledger = ledger, AllowListSendersRemovedEvent_TxHash = tx\<rparr>)"

record StorageAdminTransferredEvent =
  StorageAdminTransferredEvent_From :: string
  StorageAdminTransferredEvent_To :: string
  StorageAdminTransferredEvent_Ledger :: int
  StorageAdminTransferredEvent_TxHash :: string

definition StorageAdminTransferredEvent_entry :: "sdk \<Rightarrow> string \<Rightarrow> ScVal \<Rightarrow> StorageAdminTransferredEvent \<Rightarrow> StorageAdminTransferredEvent result" where
  "StorageAdminTransferredEvent_entry lib key v s =
     (if key = ''from'' then set_if_ok (AddressFromScVal lib v) (\<lambda>x s. s\<lparr>StorageAdminTransferredEvent_From := x\<rparr>) s
      else if key = ''to'' then set_if_ok (AddressFromScVal lib v) (\<lambda>x s. s\<lparr>StorageAdminTransferredEvent_To := x\<rparr>) s
      else Ok s)"

definition ParseStorageAdminTransferredEvent :: "sdk \<Rightarrow> EventInfo \<Rightarrow> StorageAdminTransferredEvent result" where
  "ParseStorageAdminTransferredEvent lib = parse_event lib (StorageAdminTransferredEvent_entry lib) (\<lambda>ledger tx.
     \<lparr>StorageAdminTransferredEvent_From = [], StorageAdminTransferredEvent_To = [],
        StorageAdminTransferredEvent_Ledger = ledger, StorageAdminTransferredEvent_TxHash = tx\<rparr>)"

record StorageAdminTransferReqEvent =
  StorageAdminTransferReqEvent_From :: string
  StorageAdminTransferReqEvent_To :: string
  StorageAdminTransferReqEvent_Ledger :: int
  StorageAdminTransferReqEvent_TxHash :: string

definition StorageAdminTransferReqEvent_entry :: "sdk \<Rightarrow> string \<Rightarrow> ScVal \<Rightarrow> StorageAdminTransferReqEvent \<Rightarrow> StorageAdminTransferReqEvent result" where
  "StorageAdminTransferReqEvent_entry lib key v s =
     (if key = ''from'' then set_if_ok (AddressFromScVal lib v) (\<lambda>x s. s\<lparr>StorageAdminTransferReqEvent_From := x\<rparr>) s
      else if key = ''to'' then set_if_ok (AddressFromScVal lib v) (\<lambda>x s. s\<lparr>StorageAdminTransferReqEvent_To := x\<rparr>) s
      else Ok s)"

definition ParseStorageAdminTransferReqEvent :: "sdk \<Rightarrow> EventInfo \<Rightarrow> StorageAdminTransferReqEvent result" where
  "ParseStorageAdminTransferReqEvent lib = parse_event lib (StorageAdminTransferReqEvent_entry lib) (\<lambda>ledger tx.
     \<lparr>StorageAdminTransferReqEvent_From = [], StorageAdminTransferReqEvent_To = [],
        StorageAdminTransferReqEvent_Ledger = ledger, StorageAdminTransferReqEvent_TxHash = tx\<rparr>)"

record StorageLocationsUpdatedEvent =
  StorageLocationsUpdatedEvent_OldLocations :: "bytes list"
  StorageLocationsUpdatedEvent_NewLocations :: "bytes list"
  StorageLocationsUpdatedEvent_Ledger :: int
  StorageLocationsUpdatedEvent_TxHash :: string

definition StorageLocationsUpdatedEvent_entry :: "sdk \<Rightarrow> string \<Rightarrow> ScVal \<Rightarrow> StorageLocationsUpdatedEvent \<Rightarrow> StorageLocationsUpdatedEvent result" where
  "StorageLocationsUpdatedEvent_entry lib key v s =
     (if key = ''old_locations'' then set_if_vec (items_or ([]) (bytes_item [])) v (\<lambda>x s. s\<lparr>StorageLocationsUpdatedEvent_OldLocations := x\<rparr>) s
      else if key = ''new_locations'' then set_if_vec (items_or ([]) (bytes_item [])) v (\<lambda>x s. s\<lparr>StorageLocationsUpdatedEvent_NewLocations := x\<rparr>) s
      else Ok s)"

definition ParseStorageLocationsUpdatedEvent :: "sdk \<Rightarrow> EventInfo \<Rightarrow> StorageLocationsUpdatedEvent result" where
  "ParseStorageLocationsUpdatedEvent lib = parse_event lib (StorageLocationsUpdatedEvent_entry lib) (\<lambda>ledger tx.
     \<lparr>StorageLocationsUpdatedEvent_OldLocations = [], StorageLocationsUpdatedEvent_NewLocations = [],
        StorageLocationsUpdatedEvent_Ledger = ledger, StorageLocationsUpdatedEvent_TxHash = tx\<rparr>)"

section \<open>The client\<close>

definition NewCommitteeVerifierClient :: "'s Invoker \<Rightarrow> string \<Rightarrow> 's Client" where
  "NewCommitteeVerifierClient ivk contractID = mk_client ivk contractID"

definition ContractID :: "'s Client \<Rightarrow> string" where
  "ContractID c = cl_contractID c"

definition Owner :: "sdk \<Rightarrow> 's Client \<Rightarrow> ('s, (string option) result) state" where
  "Owner lib c = simulate_value c ''owner'' [] (OptionalAddressFromScVal lib)"

definition GetFee :: "sdk \<Rightarrow> 's Client \<Rightarrow> int \<Rightarrow> bytes \<Rightarrow> bytes \<Rightarrow> int \<Rightarrow> ('s, FeeResponse result) state" where
  "GetFee lib c destChainSelector message extraArgs blockConfirmations =
     simulate_value c ''get_fee'' [
       Ok (Uint64ToScVal destChainSelector), Ok (BytesToScVal message), Ok (BytesToScVal extraArgs),
       Ok (Uint32ToScVal blockConfirmations)] (FeeResponseFromScVal lib)"

definition IsOwner :: "sdk \<Rightarrow> 's Client \<Rightarrow> string \<Rightarrow> ('s, bool result) state" where
  "IsOwner lib c addr =
     simulate_value c ''is_owner'' [
       Ok (AddressToScVal lib addr)] (\<lambda>v. need ''expected bool return type'' (GetB v))"

definition InitOwner :: "sdk \<Rightarrow> 's Client \<Rightarrow> string \<Rightarrow> ('s, unit result) state" where
  "InitOwner lib c owner = invoke_void c ''init_owner'' [Ok (AddressToScVal lib owner)]"

definition Initialize :: "sdk \<Rightarrow> 's Client \<Rightarrow> string \<Rightarrow> DynamicConfig \<Rightarrow> bytes list \<Rightarrow> string \<Rightarrow> bytes \<Rightarrow> ('s, unit result) state" where
  "Initialize lib c owner dynamicConfig storageLocations rmnProxy versionTag =
     invoke_void c ''initialize'' [
       Ok (AddressToScVal lib owner), MustToScVal (DynamicConfig_ToScVal lib dynamicConfig),
       Ok (BytesSliceToScVal storageLocations), Ok (AddressToScVal lib rmnProxy), Ok (Bytes4ToScVal versionTag)]"

definition VersionTag :: "sdk \<Rightarrow> 's Client \<Rightarrow> ('s, bytes result) state" where
  "VersionTag lib c = invoke_value c ''version_tag'' [] (Bytes4FromScVal)"

definition RequireOwner :: "sdk \<Rightarrow> 's Client \<Rightarrow> ('s, string result) state" where
  "RequireOwner lib c = invoke_value c ''require_owner'' [] (AddressFromScVal lib)"

definition SetNewOwner :: "sdk \<Rightarrow> 's Client \<Rightarrow> string \<Rightarrow> ('s, unit result) state" where
  "SetNewOwner lib c newOwner = invoke_void c ''set_new_owner'' [Ok (AddressToScVal lib newOwner)]"

definition VerifyMessage :: "sdk \<Rightarrow> 's Client \<Rightarrow> int \<Rightarrow> bytes \<Rightarrow> bytes \<Rightarrow> ('s, unit result) state" where
  "VerifyMessage lib c sourceChainSelector messageHash verifierResults =
     invoke_void c ''verify_message'' [
       Ok (Uint64ToScVal sourceChainSelector), Ok (Bytes32ToScVal messageHash), Ok (BytesToScVal verifierResults)]"

definition IsInAllowlist :: "sdk \<Rightarrow> 's Client \<Rightarrow> int \<Rightarrow> string \<Rightarrow> ('s, bool result) state" where
  "IsInAllowlist lib c key addr =
     simulate_value c ''is_in_allowlist'' [
       Ok (Uint64ToScVal key), Ok (AddressToScVal lib addr)] (\<lambda>v. need ''expected bool return type'' (GetB v))"

definition AcceptOwnership :: "sdk \<Rightarrow> 's Client \<Rightarrow> ('s, unit result) state" where
  "AcceptOwnership lib c = invoke_void c ''accept_ownership'' []"

definition TypeAndVersion :: "sdk \<Rightarrow> 's Client \<Rightarrow> ('s, string result) state" where
  "TypeAndVersion lib c = invoke_value c ''type_and_version'' [] (StringFromScVal)"

definition GetPendingOwner :: "sdk \<Rightarrow> 's Client \<Rightarrow> ('s, (string option) result) state" where
  "GetPendingOwner lib c = simulate_value c ''get_pending_owner'' [] (OptionalAddressFromScVal lib)"

definition GetDynamicConfig :: "sdk \<Rightarrow> 's Client \<Rightarrow> ('s, DynamicConfig result) state" where
  "GetDynamicConfig lib c = simulate_value c ''get_dynamic_config'' [] (DynamicConfigFromScVal lib)"

definition SetDynamicConfig :: "sdk \<Rightarrow> 's Client \<Rightarrow> DynamicConfig \<Rightarrow> ('s, unit result) state" where
  "SetDynamicConfig lib c dynamicConfig =
     invoke_void c ''set_dynamic_config'' [MustToScVal (DynamicConfig_ToScVal lib dynamicConfig)]"

definition TransferOwnership :: "sdk \<Rightarrow> 's Client \<Rightarrow> string \<Rightarrow> ('s, unit result) state" where
  "TransferOwnership lib c newOwner = invoke_void c ''transfer_ownership'' [Ok (AddressToScVal lib newOwner)]"

definition ExtractVersionTag :: "sdk \<Rightarrow> 's Client \<Rightarrow> bytes \<Rightarrow> ('s, bytes result) state" where
  "ExtractVersionTag lib c verifierResults =
     invoke_value c ''extract_version_tag'' [Ok (BytesToScVal verifierResults)] (Bytes4FromScVal)"

definition ForwardToVerifier :: "sdk \<Rightarrow> 's Client \<Rightarrow> int \<Rightarrow> string \<Rightarrow> bytes \<Rightarrow> string \<Rightarrow> int \<Rightarrow> bytes \<Rightarrow> ('s, bytes result) state" where
  "ForwardToVerifier lib c destChainSelector sender messageId feeToken feeTokenAmount verifierArgs =
     invoke_value c ''forward_to_verifier'' [
       Ok (Uint64ToScVal destChainSelector), Ok (AddressToScVal lib sender), Ok (Bytes32ToScVal messageId),
       Ok (AddressToScVal lib feeToken), Ok (I128ToScVal feeTokenAmount), Ok (BytesToScVal verifierArgs)] (\<lambda>v. need ''expected bytes return type'' (GetBytes v))"

definition GetAllowlistEntry :: "sdk \<Rightarrow> 's Client \<Rightarrow> int \<Rightarrow> ('s, (AllowListEntry option) result) state" where
  "GetAllowlistEntry lib c key =
     simulate_value c ''get_allowlist_entry'' [
       Ok (Uint64ToScVal key)] (\<lambda>v. if v = ScvVoid then Ok None else put (AllowListEntryFromScVal lib v) Some)"

definition ValidateSignatures :: "sdk \<Rightarrow> 's Client \<Rightarrow> int \<Rightarrow> bytes \<Rightarrow> bytes \<Rightarrow> ('s, unit result) state" where
  "ValidateSignatures lib c sourceChainSelector signedHash signatures =
     invoke_void c ''validate_signatures'' [
       Ok (Uint64ToScVal sourceChainSelector), Ok (Bytes32ToScVal signedHash), Ok (BytesToScVal signatures)]"

definition WithdrawFeeTokens :: "sdk \<Rightarrow> 's Client \<Rightarrow> string list \<Rightarrow> ('s, unit result) state" where
  "WithdrawFeeTokens lib c feeTokens = invoke_void c ''withdraw_fee_tokens'' [Ok (AddressSliceToScVal lib feeTokens)]"

definition GetSignatureConfig :: "sdk \<Rightarrow> 's Client \<Rightarrow> int \<Rightarrow> ('s, SignatureQuorumConfig result) state" where
  "GetSignatureConfig lib c sourceChainSelector =
     simulate_value c ''get_signature_config'' [
       Ok (Uint64ToScVal sourceChainSelector)] (SignatureQuorumConfigFromScVal lib)"

definition IsAllowlistEnabled :: "sdk \<Rightarrow> 's Client \<Rightarrow> int \<Rightarrow> ('s, bool result) state" where
  "IsAllowlistEnabled lib c key =
     simulate_value c ''is_allowlist_enabled'' [
       Ok (Uint64ToScVal key)] (\<lambda>v. need ''expected bool return type'' (GetB v))"

definition RequireInAllowlist :: "sdk \<Rightarrow> 's Client \<Rightarrow> int \<Rightarrow> string \<Rightarrow> ('s, unit result) state" where
  "RequireInAllowlist lib c key address =
     invoke_void c ''require_in_allowlist'' [Ok (Uint64ToScVal key), Ok (AddressToScVal lib address)]"

definition ExtractSignatureLen :: "sdk \<Rightarrow> 's Client \<Rightarrow> bytes \<Rightarrow> ('s, int result) state" where
  "ExtractSignatureLen lib c verifierResults =
     invoke_value c ''extract_signature_len'' [
       Ok (BytesToScVal verifierResults)] (\<lambda>v. need ''expected u32 return type'' (GetU32 v))"

definition GetStorageLocations :: "sdk \<Rightarrow> 's Client \<Rightarrow> ('s, (bytes list) result) state" where
  "GetStorageLocations lib c =
     simulate_value c ''get_storage_locations'' []
       (vec_of ''expected vec return type'' (bytes_item ''vec item is not bytes''))"

definition ApplyAllowlistUpdates :: "sdk \<Rightarrow> 's Client \<Rightarrow> AllowListUpdate list \<Rightarrow> ('s, unit result) state" where
  "ApplyAllowlistUpdates lib c updates =
     invoke_void c ''apply_allowlist_updates'' [StructSliceToScVal (AllowListUpdate_ToScVal lib) updates]"

definition ApplySignatureConfigs :: "sdk \<Rightarrow> 's Client \<Rightarrow> int list \<Rightarrow> SignatureQuorumConfig list \<Rightarrow> ('s, unit result) state" where
  "ApplySignatureConfigs lib c sourceChainsToRemove signatureConfigs =
     invoke_void c ''apply_signature_configs'' [
       Ok (Uint64SliceToScVal sourceChainsToRemove),
       StructSliceToScVal (SignatureQuorumConfig_ToScVal lib) signatureConfigs]"

definition GetRemoteChainConfig :: "sdk \<Rightarrow> 's Client \<Rightarrow> int \<Rightarrow> ('s, RemoteChainConfig result) state" where
  "GetRemoteChainConfig lib c remoteChainSelector =
     simulate_value c ''get_remote_chain_config'' [
       Ok (Uint64ToScVal remoteChainSelector)] (RemoteChainConfigFromScVal lib)"

definition UpdateStorageLocations :: "sdk \<Rightarrow> 's Client \<Rightarrow> bytes list \<Rightarrow> ('s, unit result) state" where
  "UpdateStorageLocations lib c newLocations =
     invoke_void c ''update_storage_locations'' [Ok (BytesSliceToScVal newLocations)]"

definition CancelOwnershipTransfer :: "sdk \<Rightarrow> 's Client \<Rightarrow> ('s, unit result) state" where
  "CancelOwnershipTransfer lib c = invoke_void c ''cancel_ownership_transfer'' []"

definition GetAllSignatureConfigs :: "sdk \<Rightarrow> 's Client \<Rightarrow> ('s, (SignatureQuorumConfig list) result) state" where
  "GetAllSignatureConfigs lib c =
     simulate_value c ''get_all_signature_configs'' []
       (vec_of ''expected vec return type'' (SignatureQuorumConfigFromScVal lib))"

definition GetStorageLocationsAdmin :: "sdk \<Rightarrow> 's Client \<Rightarrow> ('s, string result) state" where
  "GetStorageLocationsAdmin lib c = simulate_value c ''get_storage_locations_admin'' [] (AddressFromScVal lib)"

definition GetPendingStorageLocAdmin :: "sdk \<Rightarrow> 's Client \<Rightarrow> ('s, (string option) result) state" where
  "GetPendingStorageLocAdmin lib c =
     simulate_value c ''get_pending_storage_loc_admin'' [] (OptionalAddressFromScVal lib)"

definition AcceptStorageLocationsAdmin :: "sdk \<Rightarrow> 's Client \<Rightarrow> ('s, unit result) state" where
  "AcceptStorageLocationsAdmin lib c = invoke_void c ''accept_storage_locations_admin'' []"

definition ApplyRemoteChainCfgUpdates :: "sdk \<Rightarrow> 's Client \<Rightarrow> RemoteChainConfig list \<Rightarrow> ('s, unit result) state" where
  "ApplyRemoteChainCfgUpdates lib c remoteChainConfigArgs =
     invoke_void c ''apply_remote_chain_cfg_updates'' [
       StructSliceToScVal (RemoteChainConfig_ToScVal lib) remoteChainConfigArgs]"

definition TransferStorageLocationsAdmin :: "sdk \<Rightarrow> 's Client \<Rightarrow> string \<Rightarrow> ('s, unit result) state" where
  "TransferStorageLocationsAdmin lib c to =
     invoke_void c ''transfer_storage_locations_admin'' [Ok (AddressToScVal lib to)]"

section \<open>Waiting for events\<close>

definition ConfigSetEventTopic :: string where
  "ConfigSetEventTopic = ''ccv_ConfigSet''"

definition WaitForConfigSetEvent :: "sdk \<Rightarrow> 's Client \<Rightarrow> int \<Rightarrow> int \<Rightarrow> (ConfigSetEvent \<Rightarrow> bool) option \<Rightarrow> wait_round list \<Rightarrow> ('s, ConfigSetEvent result option) state" where
  "WaitForConfigSetEvent lib c = wait_for c ConfigSetEventTopic (ParseConfigSetEvent lib)"

definition SignatureConfigSetEventTopic :: string where
  "SignatureConfigSetEventTopic = ''ccv_SignatureConfigSet''"

definition WaitForSignatureConfigSetEvent :: "sdk \<Rightarrow> 's Client \<Rightarrow> int \<Rightarrow> int \<Rightarrow> (SignatureConfigSetEvent \<Rightarrow> bool) option \<Rightarrow> wait_round list \<Rightarrow> ('s, SignatureConfigSetEvent result option) state" where
  "WaitForSignatureConfigSetEvent lib c = wait_for c SignatureConfigSetEventTopic (ParseSignatureConfigSetEvent lib)"

definition RemoteChainConfigSetEventTopic :: string where
  "RemoteChainConfigSetEventTopic = ''ccv_RemoteChainConfigSet''"

definition WaitForRemoteChainConfigSetEvent :: "sdk \<Rightarrow> 's Client \<Rightarrow> int \<Rightarrow> int \<Rightarrow> (RemoteChainConfigSetEvent \<Rightarrow> bool) option \<Rightarrow> wait_round list \<Rightarrow> ('s, RemoteChainConfigSetEvent result option) state" where
  "WaitForRemoteChainConfigSetEvent lib c = wait_for c RemoteChainConfigSetEventTopic (ParseRemoteChainConfigSetEvent lib)"

definition AllowListSendersAddedEventTopic :: string where
  "AllowListSendersAddedEventTopic = ''ccv_AllowListSendersAdded''"

definition WaitForAllowListSendersAddedEvent :: "sdk \<Rightarrow> 's Client \<Rightarrow> int \<Rightarrow> int \<Rightarrow> (AllowListSendersAddedEvent \<Rightarrow> bool) option \<Rightarrow> wait_round list \<Rightarrow> ('s, AllowListSendersAddedEvent result option) state" where
  "WaitForAllowListSendersAddedEvent lib c = wait_for c AllowListSendersAddedEventTopic (ParseAllowListSendersAddedEvent lib)"

definition AllowListStateChangedEventTopic :: string where
  "AllowListStateChangedEventTopic = ''ccv_AllowListStateChanged''"

definition WaitForAllowListStateChangedEvent :: "sdk \<Rightarrow> 's Client \<Rightarrow> int \<Rightarrow> int \<Rightarrow> (AllowListStateChangedEvent \<Rightarrow> bool) option \<Rightarrow> wait_round list \<Rightarrow> ('s, AllowListStateChangedEvent result option) state" where
  "WaitForAllowListStateChangedEvent lib c = wait_for c AllowListStateChangedEventTopic (ParseAllowListStateChangedEvent lib)"

definition AllowListSendersRemovedEventTopic :: string where
  "AllowListSendersRemovedEventTopic = ''ccv_AllowListSendersRemoved''"

definition WaitForAllowListSendersRemovedEvent :: "sdk \<Rightarrow> 's Client \<Rightarrow> int \<Rightarrow> int \<Rightarrow> (AllowListSendersRemovedEvent \<Rightarrow> bool) option \<Rightarrow> wait_round list \<Rightarrow> ('s, AllowListSendersRemovedEvent result option) state" where
  "WaitForAllowListSendersRemovedEvent lib c = wait_for c AllowListSendersRemovedEventTopic (ParseAllowListSendersRemovedEvent lib)"

definition StorageAdminTransferredEventTopic :: string where
  "StorageAdminTransferredEventTopic = ''ccv_StorageAdminTransferred''"

definition WaitForStorageAdminTransferredEvent :: "sdk \<Rightarrow> 's Client \<Rightarrow> int \<Rightarrow> int \<Rightarrow> (StorageAdminTransferredEvent \<Rightarrow> bool) option \<Rightarrow> wait_round list \<Rightarrow> ('s, StorageAdminTransferredEvent result option) state" where
  "WaitForStorageAdminTransferredEvent lib c = wait_for c StorageAdminTransferredEventTopic (ParseStorageAdminTransferredEvent lib)"

definition StorageAdminTransferReqEventTopic :: string where
  "StorageAdminTransferReqEventTopic = ''ccv_StorageAdminTransferReq''"

definition WaitForStorageAdminTransferReqEvent :: "sdk \<Rightarrow> 's Client \<Rightarrow> int \<Rightarrow> int \<Rightarrow> (StorageAdminTransferReqEvent \<Rightarrow> bool) option \<Rightarrow> wait_round list \<Rightarrow> ('s, StorageAdminTransferReqEvent result option) state" where
  "WaitForStorageAdminTransferReqEvent lib c = wait_for c StorageAdminTransferReqEventTopic (ParseStorageAdminTransferReqEvent lib)"

definition StorageLocationsUpdatedEventTopic :: string where
  "StorageLocationsUpdatedEventTopic = ''ccv_StorageLocationsUpdated''"

definition WaitForStorageLocationsUpdatedEvent :: "sdk \<Rightarrow> 's Client \<Rightarrow> int \<Rightarrow> int \<Rightarrow> (StorageLocationsUpdatedEvent \<Rightarrow> bool) option \<Rightarrow> wait_round list \<Rightarrow> ('s, StorageLocationsUpdatedEvent result option) state" where
  "WaitForStorageLocationsUpdatedEvent lib c = wait_for c StorageLocationsUpdatedEventTopic (ParseStorageLocationsUpdatedEvent lib)"

definition RoleGrantedEventTopic :: string where
  "RoleGrantedEventTopic = ''auth_RoleGranted''"

definition WaitForRoleGrantedEvent :: "sdk \<Rightarrow> 's Client \<Rightarrow> int \<Rightarrow> int \<Rightarrow> (RoleGrantedEvent \<Rightarrow> bool) option \<Rightarrow> wait_round list \<Rightarrow> ('s, RoleGrantedEvent result option) state" where
  "WaitForRoleGrantedEvent lib c = wait_for c RoleGrantedEventTopic (ParseRoleGrantedEvent lib)"

definition RoleRevokedEventTopic :: string where
  "RoleRevokedEventTopic = ''auth_RoleRevoked''"

definition WaitForRoleRevokedEvent :: "sdk \<Rightarrow> 's Client \<Rightarrow> int \<Rightarrow> int \<Rightarrow> (RoleRevokedEvent \<Rightarrow> bool) option \<Rightarrow> wait_round list \<Rightarrow> ('s, RoleRevokedEvent result option) state" where
  "WaitForRoleRevokedEvent lib c = wait_for c RoleRevokedEventTopic (ParseRoleRevokedEvent lib)"

definition AuthorizedCallerAddedEventTopic :: string where
  "AuthorizedCallerAddedEventTopic = ''auth_CallerAdded''"

definition WaitForAuthorizedCallerAddedEvent :: "sdk \<Rightarrow> 's Client \<Rightarrow> int \<Rightarrow> int \<Rightarrow> (AuthorizedCallerAddedEvent \<Rightarrow> bool) option \<Rightarrow> wait_round list \<Rightarrow> ('s, AuthorizedCallerAddedEvent result option) state" where
  "WaitForAuthorizedCallerAddedEvent lib c = wait_for c AuthorizedCallerAddedEventTopic (ParseAuthorizedCallerAddedEvent lib)"

definition AuthorizedCallerRemovedEventTopic :: string where
  "AuthorizedCallerRemovedEventTopic = ''auth_CallerRemoved''"

definition WaitForAuthorizedCallerRemovedEvent :: "sdk \<Rightarrow> 's Client \<Rightarrow> int \<Rightarrow> int \<Rightarrow> (AuthorizedCallerRemovedEvent \<Rightarrow> bool) option \<Rightarrow> wait_round list \<Rightarrow> ('s, AuthorizedCallerRemovedEvent result option) state" where
  "WaitForAuthorizedCallerRemovedEvent lib c = wait_for c AuthorizedCallerRemovedEventTopic (ParseAuthorizedCallerRemovedEvent lib)"

definition OwnershipTransferStartedEventTopic :: string where
  "OwnershipTransferStartedEventTopic = ''auth_OwnerTransferStart''"

definition WaitForOwnershipTransferStartedEvent :: "sdk \<Rightarrow> 's Client \<Rightarrow> int \<Rightarrow> int \<Rightarrow> (OwnershipTransferStartedEvent \<Rightarrow> bool) option \<Rightarrow> wait_round list \<Rightarrow> ('s, OwnershipTransferStartedEvent result option) state" where
  "WaitForOwnershipTransferStartedEvent lib c = wait_for c OwnershipTransferStartedEventTopic (ParseOwnershipTransferStartedEvent lib)"

section \<open>Round trips\<close>

definition valid_FeeResponse :: "sdk \<Rightarrow> FeeResponse \<Rightarrow> bool" where
  "valid_FeeResponse lib s \<longleftrightarrow> True"

lemma committee_verifier_FeeResponse_keys: "sort [''dest_bytes_overhead'', ''dest_gas_limit'', ''fee''] =
    [''dest_bytes_overhead'', ''dest_gas_limit'', ''fee'']"
  by simp

lemma committee_verifier_FeeResponse_codec:
  assumes "sdk_laws lib"
  shows "codec (FeeResponse_ToScVal lib) (FeeResponseFromScVal lib) (valid_FeeResponse lib)"
proof (rule codecI)
  show "\<exists>v. FeeResponse_ToScVal lib s = Ok v \<and> FeeResponseFromScVal lib v = Ok s" if ok: "valid_FeeResponse lib s" for s
    using ok assms
    by (cases s) (simp add: FeeResponse_ToScVal_def FeeResponseFromScVal_def FeeResponse_entry_def zero_FeeResponse_def valid_FeeResponse_def
        committee_verifier_FeeResponse_keys struct_codec_simps del: sort_key_simps fold_entries.simps(2))
qed

definition valid_DynamicConfig :: "sdk \<Rightarrow> DynamicConfig \<Rightarrow> bool" where
  "valid_DynamicConfig lib s \<longleftrightarrow> optional_ok (is_address lib) (DynamicConfig_AllowlistAdmin s) \<and>
     optional_ok (is_address lib) (DynamicConfig_FeeAggregator s)"

lemma committee_verifier_DynamicConfig_keys: "sort [''allowlist_admin'', ''fee_aggregator''] =
    [''allowlist_admin'', ''fee_aggregator'']"
  by simp

lemma committee_verifier_DynamicConfig_codec:
  assumes "sdk_laws lib"
  shows "codec (DynamicConfig_ToScVal lib) (DynamicConfigFromScVal lib) (valid_DynamicConfig lib)"
proof (rule codecI)
  show "\<exists>v. DynamicConfig_ToScVal lib s = Ok v \<and> DynamicConfigFromScVal lib v = Ok s" if ok: "valid_DynamicConfig lib s" for s
    using ok assms
    by (cases s) (simp add: DynamicConfig_ToScVal_def DynamicConfigFromScVal_def DynamicConfig_entry_def zero_DynamicConfig_def valid_DynamicConfig_def
        committee_verifier_DynamicConfig_keys struct_codec_simps del: sort_key_simps fold_entries.simps(2))
qed

definition valid_RemoteChainConfig :: "sdk \<Rightarrow> RemoteChainConfig \<Rightarrow> bool" where
  "valid_RemoteChainConfig lib s \<longleftrightarrow> optional_ok (is_address lib) (RemoteChainConfig_Router s)"

lemma committee_verifier_RemoteChainConfig_keys: "sort [''allowlist_enabled'', ''fee_usd_cents'', ''gas_for_verification'', ''payload_size_bytes'',
    ''remote_chain_selector'', ''router''] =
    [''allowlist_enabled'', ''fee_usd_cents'', ''gas_for_verification'', ''payload_size_bytes'',
     ''remote_chain_selector'', ''router'']"
  by simp

lemma committee_verifier_RemoteChainConfig_codec:
  assumes "sdk_laws lib"
  shows "codec (RemoteChainConfig_ToScVal lib) (RemoteChainConfigFromScVal lib) (valid_RemoteChainConfig lib)"
proof (rule codecI)
  show "\<exists>v. RemoteChainConfig_ToScVal lib s = Ok v \<and> RemoteChainConfigFromScVal lib v = Ok s" if ok: "valid_RemoteChainConfig lib s" for s
    using ok assms
    by (cases s) (simp add: RemoteChainConfig_ToScVal_def RemoteChainConfigFromScVal_def RemoteChainConfig_entry_def zero_RemoteChainConfig_def valid_RemoteChainConfig_def
        committee_verifier_RemoteChainConfig_keys struct_codec_simps del: sort_key_simps fold_entries.simps(2))
qed

definition valid_SignatureQuorumConfig :: "sdk \<Rightarrow> SignatureQuorumConfig \<Rightarrow> bool" where
  "valid_SignatureQuorumConfig lib s \<longleftrightarrow> list_all (\<lambda>b. length b = 32) (SignatureQuorumConfig_Signers s)"

lemma committee_verifier_SignatureQuorumConfig_keys: "sort [''signers'', ''source_chain_selector'', ''threshold''] =
    [''signers'', ''source_chain_selector'', ''threshold'']"
  by simp

lemma committee_verifier_SignatureQuorumConfig_codec:
  assumes "sdk_laws lib"
  shows "codec (SignatureQuorumConfig_ToScVal lib) (SignatureQuorumConfigFromScVal lib) (valid_SignatureQuorumConfig lib)"
proof (rule codecI)
  show "\<exists>v. SignatureQuorumConfig_ToScVal lib s = Ok v \<and> SignatureQuorumConfigFromScVal lib v = Ok s" if ok: "valid_SignatureQuorumConfig lib s" for s
    using ok assms
    by (cases s) (simp add: SignatureQuorumConfig_ToScVal_def SignatureQuorumConfigFromScVal_def SignatureQuorumConfig_entry_def zero_SignatureQuorumConfig_def valid_SignatureQuorumConfig_def
        committee_verifier_SignatureQuorumConfig_keys struct_codec_simps del: sort_key_simps fold_entries.simps(2))
qed

end
