(* ===== verification/Bind_FeeQuoter.thy ===== *)
theory Bind_FeeQuoter
  imports Bind_Common
begin

text \<open>
  The generated binding of the fee quoter contract (bindings/contracts/fee_quoter): the types of its own and every
  method of \<open>FeeQuoterClient\<close>.
\<close>

section \<open>Structs\<close>

record GasPriceUpdate =
  GasPriceUpdate_DestChainSelector :: int
  GasPriceUpdate_UsdPerUnitGas :: "int \<times> int"

definition zero_GasPriceUpdate :: GasPriceUpdate where
  "zero_GasPriceUpdate = \<lparr>GasPriceUpdate_DestChainSelector = 0, GasPriceUpdate_UsdPerUnitGas = (0, 0)\<rparr>"

definition GasPriceUpdate_ToScVal :: "sdk \<Rightarrow> GasPriceUpdate \<Rightarrow> ScVal result" where
  "GasPriceUpdate_ToScVal lib s = build_struct [
     (''dest_chain_selector'', Ok (Uint64ToScVal (GasPriceUpdate_DestChainSelector s))),
     (''usd_per_unit_gas'', MustToScVal (U128_ToScVal (GasPriceUpdate_UsdPerUnitGas s)))]"

definition GasPriceUpdate_entry :: "sdk \<Rightarrow> string \<Rightarrow> ScVal \<Rightarrow> GasPriceUpdate \<Rightarrow> GasPriceUpdate result" where
  "GasPriceUpdate_entry lib key v s =
     (if key = ''dest_chain_selector'' then put (named ''dest_chain_selector'' (Uint64FromScVal v)) (\<lambda>x. s\<lparr>GasPriceUpdate_DestChainSelector := x\<rparr>)
      else if key = ''usd_per_unit_gas'' then put (named ''usd_per_unit_gas'' (U128FromScVal v)) (\<lambda>x. s\<lparr>GasPriceUpdate_UsdPerUnitGas := x\<rparr>)
      else Ok s)"

definition GasPriceUpdateFromScVal :: "sdk \<Rightarrow> ScVal \<Rightarrow> GasPriceUpdate result" where
  "GasPriceUpdateFromScVal lib = parse_struct ''not a map type'' (GasPriceUpdate_entry lib) zero_GasPriceUpdate"

record TokenPriceUpdate =
  TokenPriceUpdate_Token :: string
  TokenPriceUpdate_UsdPerToken :: "int \<times> int"

definition zero_TokenPriceUpdate :: TokenPriceUpdate where
  "zero_TokenPriceUpdate = \<lparr>TokenPriceUpdate_Token = [], TokenPriceUpdate_UsdPerToken = (0, 0)\<rparr>"

definition TokenPriceUpdate_ToScVal :: "sdk \<Rightarrow> TokenPriceUpdate \<Rightarrow> ScVal result" where
  "TokenPriceUpdate_ToScVal lib s = build_struct [
     (''token'', Ok (AddressToScVal lib (TokenPriceUpdate_Token s))),
     (''usd_per_token'', MustToScVal (U128_ToScVal (TokenPriceUpdate_UsdPerToken s)))]"

definition TokenPriceUpdate_entry :: "sdk \<Rightarrow> string \<Rightarrow> ScVal \<Rightarrow> TokenPriceUpdate \<Rightarrow> TokenPriceUpdate result" where
  "TokenPriceUpdate_entry lib key v s =
     (if key = ''token'' then put (named ''token'' (AddressFromScVal lib v)) (\<lambda>x. s\<lparr>TokenPriceUpdate_Token := x\<rparr>)
      else if key = ''usd_per_token'' then put (named ''usd_per_token'' (U128FromScVal v)) (\<lambda>x. s\<lparr>TokenPriceUpdate_UsdPerToken := x\<rparr>)
      else Ok s)"

definition TokenPriceUpdateFromScVal :: "sdk \<Rightarrow> ScVal \<Rightarrow> TokenPriceUpdate result" where
  "TokenPriceUpdateFromScVal lib = parse_struct ''not a map type'' (TokenPriceUpdate_entry lib) zero_TokenPriceUpdate"

record PriceUpdates =
  PriceUpdates_GasPriceUpdates :: "GasPriceUpdate list"
  PriceUpdates_TokenPriceUpdates :: "TokenPriceUpdate list"

definition zero_PriceUpdates :: PriceUpdates where
  "zero_PriceUpdates = \<lparr>PriceUpdates_GasPriceUpdates = [], PriceUpdates_TokenPriceUpdates = []\<rparr>"

definition PriceUpdates_ToScVal :: "sdk \<Rightarrow> PriceUpdates \<Rightarrow> ScVal result" where
  "PriceUpdates_ToScVal lib s = build_struct [
     (''gas_price_updates'', StructSliceToScVal (GasPriceUpdate_ToScVal lib) (PriceUpdates_GasPriceUpdates s)),
     (''token_price_updates'', StructSliceToScVal (TokenPriceUpdate_ToScVal lib) (PriceUpdates_TokenPriceUpdates s))]"

definition PriceUpdates_entry :: "sdk \<Rightarrow> string \<Rightarrow> ScVal \<Rightarrow> PriceUpdates \<Rightarrow> PriceUpdates result" where
  "PriceUpdates_entry lib key v s =
     (if key = ''gas_price_updates'' then put (vec_of ''gas_price_updates is not a vec'' (GasPriceUpdateFromScVal lib) v) (\<lambda>x. s\<lparr>PriceUpdates_GasPriceUpdates := x\<rparr>)
      else if key = ''token_price_updates'' then put (vec_of ''token_price_updates is not a vec'' (TokenPriceUpdateFromScVal lib) v) (\<lambda>x. s\<lparr>PriceUpdates_TokenPriceUpdates := x\<rparr>)
      else Ok s)"

definition PriceUpdatesFromScVal :: "sdk \<Rightarrow> ScVal \<Rightarrow> PriceUpdates result" where
  "PriceUpdatesFromScVal lib = parse_struct ''not a map type'' (PriceUpdates_entry lib) zero_PriceUpdates"

record StaticConfig =
  StaticConfig_LinkToken :: string
  StaticConfig_MaxFeeJuelsPerMsg :: int

definition zero_StaticConfig :: StaticConfig where
  "zero_StaticConfig = \<lparr>StaticConfig_LinkToken = [], StaticConfig_MaxFeeJuelsPerMsg = 0\<rparr>"

definition StaticConfig_ToScVal :: "sdk \<Rightarrow> StaticConfig \<Rightarrow> ScVal result" where
  "StaticConfig_ToScVal lib s = build_struct [
     (''link_token'', Ok (AddressToScVal lib (StaticConfig_LinkToken s))),
     (''max_fee_juels_per_msg'', Ok (I128ToScVal (StaticConfig_MaxFeeJuelsPerMsg s)))]"

definition StaticConfig_entry :: "sdk \<Rightarrow> string \<Rightarrow> ScVal \<Rightarrow> StaticConfig \<Rightarrow> StaticConfig result" where
  "StaticConfig_entry lib key v s =
     (if key = ''link_token'' then put (named ''link_token'' (AddressFromScVal lib v)) (\<lambda>x. s\<lparr>StaticConfig_LinkToken := x\<rparr>)
      else if key = ''max_fee_juels_per_msg'' then put (named ''max_fee_juels_per_msg'' (I128FromScVal v)) (\<lambda>x. s\<lparr>StaticConfig_MaxFeeJuelsPerMsg := x\<rparr>)
      else Ok s)"

definition StaticConfigFromScVal :: "sdk \<Rightarrow> ScVal \<Rightarrow> StaticConfig result" where
  "StaticConfigFromScVal lib = parse_struct ''not a map type'' (StaticConfig_entry lib) zero_StaticConfig"

record GasQuoteResult =
  GasQuoteResult_FeeTokenPrice :: "int \<times> int"
  GasQuoteResult_GasCostUsdCents :: "int \<times> int"
  GasQuoteResult_PremiumMultiplier :: int
  GasQuoteResult_TotalGas :: int

definition zero_GasQuoteResult :: GasQuoteResult where
  "zero_GasQuoteResult = \<lparr>GasQuoteResult_FeeTokenPrice = (0, 0), GasQuoteResult_GasCostUsdCents = (0, 0),
     GasQuoteResult_PremiumMultiplier = 0, GasQuoteResult_TotalGas = 0\<rparr>"

definition GasQuoteResult_ToScVal :: "sdk \<Rightarrow> GasQuoteResult \<Rightarrow> ScVal result" where
  "GasQuoteResult_ToScVal lib s = build_struct [
     (''fee_token_price'', MustToScVal (U128_ToScVal (GasQuoteResult_FeeTokenPrice s))),
     (''gas_cost_usd_cents'', MustToScVal (U128_ToScVal (GasQuoteResult_GasCostUsdCents s))),
     (''premium_multiplier'', Ok (Uint32ToScVal (GasQuoteResult_PremiumMultiplier s))),
     (''total_gas'', Ok (Uint32ToScVal (GasQuoteResult_TotalGas s)))]"

definition GasQuoteResult_entry :: "sdk \<Rightarrow> string \<Rightarrow> ScVal \<Rightarrow> GasQuoteResult \<Rightarrow> GasQuoteResult result" where
  "GasQuoteResult_entry lib key v s =
     (if key = ''fee_token_price'' then put (named ''fee_token_price'' (U128FromScVal v)) (\<lambda>x. s\<lparr>GasQuoteResult_FeeTokenPrice := x\<rparr>)
      else if key = ''gas_cost_usd_cents'' then put (named ''gas_cost_usd_cents'' (U128FromScVal v)) (\<lambda>x. s\<lparr>GasQuoteResult_GasCostUsdCents := x\<rparr>)
      else if key = ''premium_multiplier'' then put (need ''premium_multiplier is not u32'' (GetU32 v)) (\<lambda>x. s\<lparr>GasQuoteResult_PremiumMultiplier := x\<rparr>)
      else if key = ''total_gas'' then put (need ''total_gas is not u32'' (GetU32 v)) (\<lambda>x. s\<lparr>GasQuoteResult_TotalGas := x\<rparr>)
      else Ok s)"

definition GasQuoteResultFromScVal :: "sdk \<Rightarrow> ScVal \<Rightarrow> GasQuoteResult result" where
  "GasQuoteResultFromScVal lib = parse_struct ''not a map type'' (GasQuoteResult_entry lib) zero_GasQuoteResult"

record DestChainConfig =
  DestChainConfig_DefaultTokenDestGas :: int
  DestChainConfig_DefaultTokenFeeUsd :: int
  DestChainConfig_DefaultTxGasLimit :: int
  DestChainConfig_DestGasOverhead :: int
  DestChainConfig_DestGasPerPayloadByte :: int
  DestChainConfig_IsEnabled :: bool
  DestChainConfig_LinkPremiumPercent :: int
  DestChainConfig_MaxDataBytes :: int
  DestChainConfig_MaxPerMsgGasLimit :: int
  DestChainConfig_NetworkFeeUsdCents :: int

definition zero_DestChainConfig :: DestChainConfig where
  "zero_DestChainConfig = \<lparr>DestChainConfig_DefaultTokenDestGas = 0, DestChainConfig_DefaultTokenFeeUsd = 0,
     DestChainConfig_DefaultTxGasLimit = 0, DestChainConfig_DestGasOverhead = 0,
     DestChainConfig_DestGasPerPayloadByte = 0, DestChainConfig_IsEnabled = False,
     DestChainConfig_LinkPremiumPercent = 0, DestChainConfig_MaxDataBytes = 0, DestChainConfig_MaxPerMsgGasLimit = 0,
     DestChainConfig_NetworkFeeUsdCents = 0\<rparr>"

definition DestChainConfig_ToScVal :: "sdk \<Rightarrow> DestChainConfig \<Rightarrow> ScVal result" where
  "DestChainConfig_ToScVal lib s = build_struct [
     (''default_token_dest_gas'', Ok (Uint32ToScVal (DestChainConfig_DefaultTokenDestGas s))),
     (''default_token_fee_usd'', Ok (Uint32ToScVal (DestChainConfig_DefaultTokenFeeUsd s))),
     (''default_tx_gas_limit'', Ok (Uint32ToScVal (DestChainConfig_DefaultTxGasLimit s))),
     (''dest_gas_overhead'', Ok (Uint32ToScVal (DestChainConfig_DestGasOverhead s))),
     (''dest_gas_per_payload_byte'', Ok (Uint32ToScVal (DestChainConfig_DestGasPerPayloadByte s))),
     (''is_enabled'', Ok (BoolToScVal (DestChainConfig_IsEnabled s))),
     (''link_premium_percent'', Ok (Uint32ToScVal (DestChainConfig_LinkPremiumPercent s))),
     (''max_data_bytes'', Ok (Uint32ToScVal (DestChainConfig_MaxDataBytes s))),
     (''max_per_msg_gas_limit'', Ok (Uint32ToScVal (DestChainConfig_MaxPerMsgGasLimit s))),
     (''network_fee_usd_cents'', Ok (Uint32ToScVal (DestChainConfig_NetworkFeeUsdCents s)))]"

definition DestChainConfig_entry :: "sdk \<Rightarrow> string \<Rightarrow> ScVal \<Rightarrow> DestChainConfig \<Rightarrow> DestChainConfig result" where
  "DestChainConfig_entry lib key v s =
     (if key = ''default_token_dest_gas'' then put (need ''default_token_dest_gas is not u32'' (GetU32 v)) (\<lambda>x. s\<lparr>DestChainConfig_DefaultTokenDestGas := x\<rparr>)
      else if key = ''default_token_fee_usd'' then put (need ''default_token_fee_usd is not u32'' (GetU32 v)) (\<lambda>x. s\<lparr>DestChainConfig_DefaultTokenFeeUsd := x\<rparr>)
      else if key = ''default_tx_gas_limit'' then put (need ''default_tx_gas_limit is not u32'' (GetU32 v)) (\<lambda>x. s\<lparr>DestChainConfig_DefaultTxGasLimit := x\<rparr>)
      else if key = ''dest_gas_overhead'' then put (need ''dest_gas_overhead is not u32'' (GetU32 v)) (\<lambda>x. s\<lparr>DestChainConfig_DestGasOverhead := x\<rparr>)
      else if key = ''dest_gas_per_payload_byte'' then put (need ''dest_gas_per_payload_byte is not u32'' (GetU32 v)) (\<lambda>x. s\<lparr>DestChainConfig_DestGasPerPayloadByte := x\<rparr>)
      else if key = ''is_enabled'' then put (need ''is_enabled is not bool'' (GetB v)) (\<lambda>x. s\<lparr>DestChainConfig_IsEnabled := x\<rparr>)
      else if key = ''link_premium_percent'' then put (need ''link_premium_percent is not u32'' (GetU32 v)) (\<lambda>x. s\<lparr>DestChainConfig_LinkPremiumPercent := x\<rparr>)
      else if key = ''max_data_bytes'' then put (need ''max_data_bytes is not u32'' (GetU32 v)) (\<lambda>x. s\<lparr>DestChainConfig_MaxDataBytes := x\<rparr>)
      else if key = ''max_per_msg_gas_limit'' then put (need ''max_per_msg_gas_limit is not u32'' (GetU32 v)) (\<lambda>x. s\<lparr>DestChainConfig_MaxPerMsgGasLimit := x\<rparr>)
      else if key = ''network_fee_usd_cents'' then put (need ''network_fee_usd_cents is not u32'' (GetU32 v)) (\<lambda>x. s\<lparr>DestChainConfig_NetworkFeeUsdCents := x\<rparr>)
      else Ok s)"

definition DestChainConfigFromScVal :: "sdk \<Rightarrow> ScVal \<Rightarrow> DestChainConfig result" where
  "DestChainConfigFromScVal lib = parse_struct ''not a map type'' (DestChainConfig_entry lib) zero_DestChainConfig"

record MessageFeeResult =
  MessageFeeResult_FeeTokenAmount :: int
  MessageFeeResult_FeeTokenPrice :: "int \<times> int"
  MessageFeeResult_FeeUsdCents :: "int \<times> int"

definition zero_MessageFeeResult :: MessageFeeResult where
  "zero_MessageFeeResult = \<lparr>MessageFeeResult_FeeTokenAmount = 0, MessageFeeResult_FeeTokenPrice = (0, 0),
     MessageFeeResult_FeeUsdCents = (0, 0)\<rparr>"

definition MessageFeeResult_ToScVal :: "sdk \<Rightarrow> MessageFeeResult \<Rightarrow> ScVal result" where
  "MessageFeeResult_ToScVal lib s = build_struct [
     (''fee_token_amount'', Ok (I128ToScVal (MessageFeeResult_FeeTokenAmount s))),
     (''fee_token_price'', MustToScVal (U128_ToScVal (MessageFeeResult_FeeTokenPrice s))),
     (''fee_usd_cents'', MustToScVal (U128_ToScVal (MessageFeeResult_FeeUsdCents s)))]"

definition MessageFeeResult_entry :: "sdk \<Rightarrow> string \<Rightarrow> ScVal \<Rightarrow> MessageFeeResult \<Rightarrow> MessageFeeResult result" where
  "MessageFeeResult_entry lib key v s =
     (if key = ''fee_token_amount'' then put (named ''fee_token_amount'' (I128FromScVal v)) (\<lambda>x. s\<lparr>MessageFeeResult_FeeTokenAmount := x\<rparr>)
      else if key = ''fee_token_price'' then put (named ''fee_token_price'' (U128FromScVal v)) (\<lambda>x. s\<lparr>MessageFeeResult_FeeTokenPrice := x\<rparr>)
      else if key = ''fee_usd_cents'' then put (named ''fee_usd_cents'' (U128FromScVal v)) (\<lambda>x. s\<lparr>MessageFeeResult_FeeUsdCents := x\<rparr>)
      else Ok s)"

definition MessageFeeResultFromScVal :: "sdk \<Rightarrow> ScVal \<Rightarrow> MessageFeeResult result" where
  "MessageFeeResultFromScVal lib = parse_struct ''not a map type'' (MessageFeeResult_entry lib) zero_MessageFeeResult"

record TimestampedPrice =
  TimestampedPrice_Timestamp :: int
  TimestampedPrice_Value :: "int \<times> int"

definition zero_TimestampedPrice :: TimestampedPrice where
  "zero_TimestampedPrice = \<lparr>TimestampedPrice_Timestamp = 0, TimestampedPrice_Value = (0, 0)\<rparr>"

definition TimestampedPrice_ToScVal :: "sdk \<Rightarrow> TimestampedPrice \<Rightarrow> ScVal result" where
  "TimestampedPrice_ToScVal lib s = build_struct [
     (''timestamp'', Ok (Uint64ToScVal (TimestampedPrice_Timestamp s))),
     (''value'', MustToScVal (U128_ToScVal (TimestampedPrice_Value s)))]"

definition TimestampedPrice_entry :: "sdk \<Rightarrow> string \<Rightarrow> ScVal \<Rightarrow> TimestampedPrice \<Rightarrow> TimestampedPrice result" where
  "TimestampedPrice_entry lib key v s =
     (if key = ''timestamp'' then put (named ''timestamp'' (Uint64FromScVal v)) (\<lambda>x. s\<lparr>TimestampedPrice_Timestamp := x\<rparr>)
      else if key = ''value'' then put (named ''value'' (U128FromScVal v)) (\<lambda>x. s\<lparr>TimestampedPrice_Value := x\<rparr>)
      else Ok s)"

definition TimestampedPriceFromScVal :: "sdk \<Rightarrow> ScVal \<Rightarrow> TimestampedPrice result" where
  "TimestampedPriceFromScVal lib = parse_struct ''not a map type'' (TimestampedPrice_entry lib) zero_TimestampedPrice"

record TokenTransferFeeConfig =
  TokenTransferFeeConfig_DestBytesOverhead :: int
  TokenTransferFeeConfig_DestGasOverhead :: int
  TokenTransferFeeConfig_FeeUsdCents :: int
  TokenTransferFeeConfig_IsEnabled :: bool

definition zero_TokenTransferFeeConfig :: TokenTransferFeeConfig where
  "zero_TokenTransferFeeConfig = \<lparr>TokenTransferFeeConfig_DestBytesOverhead = 0, TokenTransferFeeConfig_DestGasOverhead = 0,
     TokenTransferFeeConfig_FeeUsdCents = 0, TokenTransferFeeConfig_IsEnabled = False\<rparr>"

definition TokenTransferFeeConfig_ToScVal :: "sdk \<Rightarrow> TokenTransferFeeConfig \<Rightarrow> ScVal result" where
  "TokenTransferFeeConfig_ToScVal lib s = build_struct [
     (''dest_bytes_overhead'', Ok (Uint32ToScVal (TokenTransferFeeConfig_DestBytesOverhead s))),
     (''dest_gas_overhead'', Ok (Uint32ToScVal (TokenTransferFeeConfig_DestGasOverhead s))),
     (''fee_usd_cents'', Ok (Uint32ToScVal (TokenTransferFeeConfig_FeeUsdCents s))),
     (''is_enabled'', Ok (BoolToScVal (TokenTransferFeeConfig_IsEnabled s)))]"

definition TokenTransferFeeConfig_entry :: "sdk \<Rightarrow> string \<Rightarrow> ScVal \<Rightarrow> TokenTransferFeeConfig \<Rightarrow> TokenTransferFeeConfig result" where
  "TokenTransferFeeConfig_entry lib key v s =
     (if key = ''dest_bytes_overhead'' then put (need ''dest_bytes_overhead is not u32'' (GetU32 v)) (\<lambda>x. s\<lparr>TokenTransferFeeConfig_DestBytesOverhead := x\<rparr>)
      else if key = ''dest_gas_overhead'' then put (need ''dest_gas_overhead is not u32'' (GetU32 v)) (\<lambda>x. s\<lparr>TokenTransferFeeConfig_DestGasOverhead := x\<rparr>)
      else if key = ''fee_usd_cents'' then put (need ''fee_usd_cents is not u32'' (GetU32 v)) (\<lambda>x. s\<lparr>TokenTransferFeeConfig_FeeUsdCents := x\<rparr>)
      else if key = ''is_enabled'' then put (need ''is_enabled is not bool'' (GetB v)) (\<lambda>x. s\<lparr>TokenTransferFeeConfig_IsEnabled := x\<rparr>)
      else Ok s)"

definition TokenTransferFeeConfigFromScVal :: "sdk \<Rightarrow> ScVal \<Rightarrow> TokenTransferFeeConfig result" where
  "TokenTransferFeeConfigFromScVal lib = parse_struct ''not a map type'' (TokenTransferFeeConfig_entry lib) zero_TokenTransferFeeConfig"

record TokenFeeConfigArgs =
  TokenFeeConfigArgs_Config :: TokenTransferFeeConfig
  TokenFeeConfigArgs_DestChainSelector :: int
  TokenFeeConfigArgs_Token :: string

definition zero_TokenFeeConfigArgs :: TokenFeeConfigArgs where
  "zero_TokenFeeConfigArgs = \<lparr>TokenFeeConfigArgs_Config = zero_TokenTransferFeeConfig, TokenFeeConfigArgs_DestChainSelector = 0,
     TokenFeeConfigArgs_Token = []\<rparr>"

definition TokenFeeConfigArgs_ToScVal :: "sdk \<Rightarrow> TokenFeeConfigArgs \<Rightarrow> ScVal result" where
  "TokenFeeConfigArgs_ToScVal lib s = build_struct [
     (''config'', MustToScVal (TokenTransferFeeConfig_ToScVal lib (TokenFeeConfigArgs_Config s))),
     (''dest_chain_selector'', Ok (Uint64ToScVal (TokenFeeConfigArgs_DestChainSelector s))),
     (''token'', Ok (AddressToScVal lib (TokenFeeConfigArgs_Token s)))]"

definition TokenFeeConfigArgs_entry :: "sdk \<Rightarrow> string \<Rightarrow> ScVal \<Rightarrow> TokenFeeConfigArgs \<Rightarrow> TokenFeeConfigArgs result" where
  "TokenFeeConfigArgs_entry lib key v s =
     (if key = ''config'' then put (named ''config'' (TokenTransferFeeConfigFromScVal lib v)) (\<lambda>x. s\<lparr>TokenFeeConfigArgs_Config := x\<rparr>)
      else if key = ''dest_chain_selector'' then put (named ''dest_chain_selector'' (Uint64FromScVal v)) (\<lambda>x. s\<lparr>TokenFeeConfigArgs_DestChainSelector := x\<rparr>)
      else if key = ''token'' then put (named ''token'' (AddressFromScVal lib v)) (\<lambda>x. s\<lparr>TokenFeeConfigArgs_Token := x\<rparr>)
      else Ok s)"

definition TokenFeeConfigArgsFromScVal :: "sdk \<Rightarrow> ScVal \<Rightarrow> TokenFeeConfigArgs result" where
  "TokenFeeConfigArgsFromScVal lib = parse_struct ''not a map type'' (TokenFeeConfigArgs_entry lib) zero_TokenFeeConfigArgs"

record DestChainConfigArgs =
  DestChainConfigArgs_Config :: DestChainConfig
  DestChainConfigArgs_DestChainSelector :: int

definition zero_DestChainConfigArgs :: DestChainConfigArgs where
  "zero_DestChainConfigArgs = \<lparr>DestChainConfigArgs_Config = zero_DestChainConfig, DestChainConfigArgs_DestChainSelector = 0\<rparr>"

definition DestChainConfigArgs_ToScVal :: "sdk \<Rightarrow> DestChainConfigArgs \<Rightarrow> ScVal result" where
  "DestChainConfigArgs_ToScVal lib s = build_struct [
     (''config'', MustToScVal (DestChainConfig_ToScVal lib (DestChainConfigArgs_Config s))),
     (''dest_chain_selector'', Ok (Uint64ToScVal (DestChainConfigArgs_DestChainSelector s)))]"

definition DestChainConfigArgs_entry :: "sdk \<Rightarrow> string \<Rightarrow> ScVal \<Rightarrow> DestChainConfigArgs \<Rightarrow> DestChainConfigArgs result" where
  "DestChainConfigArgs_entry lib key v s =
     (if key = ''config'' then put (named ''config'' (DestChainConfigFromScVal lib v)) (\<lambda>x. s\<lparr>DestChainConfigArgs_Config := x\<rparr>)
      else if key = ''dest_chain_selector'' then put (named ''dest_chain_selector'' (Uint64FromScVal v)) (\<lambda>x. s\<lparr>DestChainConfigArgs_DestChainSelector := x\<rparr>)
      else Ok s)"

definition DestChainConfigArgsFromScVal :: "sdk \<Rightarrow> ScVal \<Rightarrow> DestChainConfigArgs result" where
  "DestChainConfigArgsFromScVal lib = parse_struct ''not a map type'' (DestChainConfigArgs_entry lib) zero_DestChainConfigArgs"

record TokenTransferFeeResult =
  TokenTransferFeeResult_DestBytesOverhead :: int
  TokenTransferFeeResult_DestGasOverhead :: int
  TokenTransferFeeResult_FeeUsdCents :: int

definition zero_TokenTransferFeeResult :: TokenTransferFeeResult where
  "zero_TokenTransferFeeResult = \<lparr>TokenTransferFeeResult_DestBytesOverhead = 0, TokenTransferFeeResult_DestGasOverhead = 0,
     TokenTransferFeeResult_FeeUsdCents = 0\<rparr>"

definition TokenTransferFeeResult_ToScVal :: "sdk \<Rightarrow> TokenTransferFeeResult \<Rightarrow> ScVal result" where
  "TokenTransferFeeResult_ToScVal lib s = build_struct [
     (''dest_bytes_overhead'', Ok (Uint32ToScVal (TokenTransferFeeResult_DestBytesOverhead s))),
     (''dest_gas_overhead'', Ok (Uint32ToScVal (TokenTransferFeeResult_DestGasOverhead s))),
     (''fee_usd_cents'', Ok (Uint32ToScVal (TokenTransferFeeResult_FeeUsdCents s)))]"

definition TokenTransferFeeResult_entry :: "sdk \<Rightarrow> string \<Rightarrow> ScVal \<Rightarrow> TokenTransferFeeResult \<Rightarrow> TokenTransferFeeResult result" where
  "TokenTransferFeeResult_entry lib key v s =
     (if key = ''dest_bytes_overhead'' then put (need ''dest_bytes_overhead is not u32'' (GetU32 v)) (\<lambda>x. s\<lparr>TokenTransferFeeResult_DestBytesOverhead := x\<rparr>)
      else if key = ''dest_gas_overhead'' then put (need ''dest_gas_overhead is not u32'' (GetU32 v)) (\<lambda>x. s\<lparr>TokenTransferFeeResult_DestGasOverhead := x\<rparr>)
      else if key = ''fee_usd_cents'' then put (need ''fee_usd_cents is not u32'' (GetU32 v)) (\<lambda>x. s\<lparr>TokenTransferFeeResult_FeeUsdCents := x\<rparr>)
      else Ok s)"

definition TokenTransferFeeResultFromScVal :: "sdk \<Rightarrow> ScVal \<Rightarrow> TokenTransferFeeResult result" where
  "TokenTransferFeeResultFromScVal lib = parse_struct ''not a map type'' (TokenTransferFeeResult_entry lib) zero_TokenTransferFeeResult"

record TokenFeeConfigRemoveArgs =
  TokenFeeConfigRemoveArgs_DestChainSelector :: int
  TokenFeeConfigRemoveArgs_Token :: string

definition zero_TokenFeeConfigRemoveArgs :: TokenFeeConfigRemoveArgs where
  "zero_TokenFeeConfigRemoveArgs = \<lparr>TokenFeeConfigRemoveArgs_DestChainSelector = 0, TokenFeeConfigRemoveArgs_Token = []\<rparr>"

definition TokenFeeConfigRemoveArgs_ToScVal :: "sdk \<Rightarrow> TokenFeeConfigRemoveArgs \<Rightarrow> ScVal result" where
  "TokenFeeConfigRemoveArgs_ToScVal lib s = build_struct [
     (''dest_chain_selector'', Ok (Uint64ToScVal (TokenFeeConfigRemoveArgs_DestChainSelector s))),
     (''token'', Ok (AddressToScVal lib (TokenFeeConfigRemoveArgs_Token s)))]"

definition TokenFeeConfigRemoveArgs_entry :: "sdk \<Rightarrow> string \<Rightarrow> ScVal \<Rightarrow> TokenFeeConfigRemoveArgs \<Rightarrow> TokenFeeConfigRemoveArgs result" where
  "TokenFeeConfigRemoveArgs_entry lib key v s =
     (if key = ''dest_chain_selector'' then put (named ''dest_chain_selector'' (Uint64FromScVal v)) (\<lambda>x. s\<lparr>TokenFeeConfigRemoveArgs_DestChainSelector := x\<rparr>)
      else if key = ''token'' then put (named ''token'' (AddressFromScVal lib v)) (\<lambda>x. s\<lparr>TokenFeeConfigRemoveArgs_Token := x\<rparr>)
      else Ok s)"

definition TokenFeeConfigRemoveArgsFromScVal :: "sdk \<Rightarrow> ScVal \<Rightarrow> TokenFeeConfigRemoveArgs result" where
  "TokenFeeConfigRemoveArgsFromScVal lib = parse_struct ''not a map type'' (TokenFeeConfigRemoveArgs_entry lib) zero_TokenFeeConfigRemoveArgs"

section \<open>Events\<close>

record FeeTokenAddedEvent =
  FeeTokenAddedEvent_FeeToken :: string
  FeeTokenAddedEvent_Ledger :: int
  FeeTokenAddedEvent_TxHash :: string

definition FeeTokenAddedEvent_entry :: "sdk \<Rightarrow> string \<Rightarrow> ScVal \<Rightarrow> FeeTokenAddedEvent \<Rightarrow> FeeTokenAddedEvent result" where
  "FeeTokenAddedEvent_entry lib key v s =
     (if key = ''fee_token'' then set_if_ok (AddressFromScVal lib v) (\<lambda>x s. s\<lparr>FeeTokenAddedEvent_FeeToken := x\<rparr>) s
      else Ok s)"

definition ParseFeeTokenAddedEvent :: "sdk \<Rightarrow> EventInfo \<Rightarrow> FeeTokenAddedEvent result" where
  "ParseFeeTokenAddedEvent lib = parse_event lib (FeeTokenAddedEvent_entry lib) (\<lambda>ledger tx.
     \<lparr>FeeTokenAddedEvent_FeeToken = [], FeeTokenAddedEvent_Ledger = ledger, FeeTokenAddedEvent_TxHash = tx\<rparr>)"

record DestChainAddedEvent =
  DestChainAddedEvent_DestChainSelector :: int
  DestChainAddedEvent_IsEnabled :: bool
  DestChainAddedEvent_MaxDataBytes :: int
  DestChainAddedEvent_Ledger :: int
  DestChainAddedEvent_TxHash :: string

definition DestChainAddedEvent_entry :: "sdk \<Rightarrow> string \<Rightarrow> ScVal \<Rightarrow> DestChainAddedEvent \<Rightarrow> DestChainAddedEvent result" where
  "DestChainAddedEvent_entry lib key v s =
     (if key = ''dest_chain_selector'' then set_if_ok (Uint64FromScVal v) (\<lambda>x s. s\<lparr>DestChainAddedEvent_DestChainSelector := x\<rparr>) s
      else if key = ''is_enabled'' then set_if (GetB v) (\<lambda>x s. s\<lparr>DestChainAddedEvent_IsEnabled := x\<rparr>) s
      else if key = ''max_data_bytes'' then set_if (GetU32 v) (\<lambda>x s. s\<lparr>DestChainAddedEvent_MaxDataBytes := x\<rparr>) s
      else Ok s)"

definition ParseDestChainAddedEvent :: "sdk \<Rightarrow> EventInfo \<Rightarrow> DestChainAddedEvent result" where
  "ParseDestChainAddedEvent lib = parse_event lib (DestChainAddedEvent_entry lib) (\<lambda>ledger tx.
     \<lparr>DestChainAddedEvent_DestChainSelector = 0, DestChainAddedEvent_IsEnabled = False,
        DestChainAddedEvent_MaxDataBytes = 0, DestChainAddedEvent_Ledger = ledger, DestChainAddedEvent_TxHash = tx\<rparr>)"

record FeeTokenRemovedEvent =
  FeeTokenRemovedEvent_FeeToken :: string
  FeeTokenRemovedEvent_Ledger :: int
  FeeTokenRemovedEvent_TxHash :: string

definition FeeTokenRemovedEvent_entry :: "sdk \<Rightarrow> string \<Rightarrow> ScVal \<Rightarrow> FeeTokenRemovedEvent \<Rightarrow> FeeTokenRemovedEvent result" where
  "FeeTokenRemovedEvent_entry lib key v s =
     (if key = ''fee_token'' then set_if_ok (AddressFromScVal lib v) (\<lambda>x s. s\<lparr>FeeTokenRemovedEvent_FeeToken := x\<rparr>) s
      else Ok s)"

definition ParseFeeTokenRemovedEvent :: "sdk \<Rightarrow> EventInfo \<Rightarrow> FeeTokenRemovedEvent result" where
  "ParseFeeTokenRemovedEvent lib = parse_event lib (FeeTokenRemovedEvent_entry lib) (\<lambda>ledger tx.
     \<lparr>FeeTokenRemovedEvent_FeeToken = [], FeeTokenRemovedEvent_Ledger = ledger, FeeTokenRemovedEvent_TxHash = tx\<rparr>)"

record UsdPerTokenUpdatedEvent =
  UsdPerTokenUpdatedEvent_Token :: string
  UsdPerTokenUpdatedEvent_Value :: "int \<times> int"
  UsdPerTokenUpdatedEvent_Timestamp :: int
  UsdPerTokenUpdatedEvent_Ledger :: int
  UsdPerTokenUpdatedEvent_TxHash :: string

definition UsdPerTokenUpdatedEvent_entry :: "sdk \<Rightarrow> string \<Rightarrow> ScVal \<Rightarrow> UsdPerTokenUpdatedEvent \<Rightarrow> UsdPerTokenUpdatedEvent result" where
  "UsdPerTokenUpdatedEvent_entry lib key v s =
     (if key = ''token'' then set_if_ok (AddressFromScVal lib v) (\<lambda>x s. s\<lparr>UsdPerTokenUpdatedEvent_Token := x\<rparr>) s
      else if key = ''value'' then set_if_ok (U128FromScVal v) (\<lambda>x s. s\<lparr>UsdPerTokenUpdatedEvent_Value := x\<rparr>) s
      else if key = ''timestamp'' then set_if_ok (Uint64FromScVal v) (\<lambda>x s. s\<lparr>UsdPerTokenUpdatedEvent_Timestamp := x\<rparr>) s
      else Ok s)"

definition ParseUsdPerTokenUpdatedEvent :: "sdk \<Rightarrow> EventInfo \<Rightarrow> UsdPerTokenUpdatedEvent result" where
  "ParseUsdPerTokenUpdatedEvent lib = parse_event lib (UsdPerTokenUpdatedEvent_entry lib) (\<lambda>ledger tx.
     \<lparr>UsdPerTokenUpdatedEvent_Token = [], UsdPerTokenUpdatedEvent_Value = (0, 0),
        UsdPerTokenUpdatedEvent_Timestamp = 0, UsdPerTokenUpdatedEvent_Ledger = ledger,
        UsdPerTokenUpdatedEvent_TxHash = tx\<rparr>)"

record UsdPerUnitGasUpdatedEvent =
  UsdPerUnitGasUpdatedEvent_DestChainSelector :: int
  UsdPerUnitGasUpdatedEvent_Value :: "int \<times> int"
  UsdPerUnitGasUpdatedEvent_Timestamp :: int
  UsdPerUnitGasUpdatedEvent_Ledger :: int
  UsdPerUnitGasUpdatedEvent_TxHash :: string

definition UsdPerUnitGasUpdatedEvent_entry :: "sdk \<Rightarrow> string \<Rightarrow> ScVal \<Rightarrow> UsdPerUnitGasUpdatedEvent \<Rightarrow> UsdPerUnitGasUpdatedEvent result" where
  "UsdPerUnitGasUpdatedEvent_entry lib key v s =
     (if key = ''dest_chain_selector'' then set_if_ok (Uint64FromScVal v) (\<lambda>x s. s\<lparr>UsdPerUnitGasUpdatedEvent_DestChainSelector := x\<rparr>) s
      else if key = ''value'' then set_if_ok (U128FromScVal v) (\<lambda>x s. s\<lparr>UsdPerUnitGasUpdatedEvent_Value := x\<rparr>) s
      else if key = ''timestamp'' then set_if_ok (Uint64FromScVal v) (\<lambda>x s. s\<lparr>UsdPerUnitGasUpdatedEvent_Timestamp := x\<rparr>) s
      else Ok s)"

definition ParseUsdPerUnitGasUpdatedEvent :: "sdk \<Rightarrow> EventInfo \<Rightarrow> UsdPerUnitGasUpdatedEvent result" where
  "ParseUsdPerUnitGasUpdatedEvent lib = parse_event lib (UsdPerUnitGasUpdatedEvent_entry lib) (\<lambda>ledger tx.
     \<lparr>UsdPerUnitGasUpdatedEvent_DestChainSelector = 0, UsdPerUnitGasUpdatedEvent_Value = (0, 0),
        UsdPerUnitGasUpdatedEvent_Timestamp = 0, UsdPerUnitGasUpdatedEvent_Ledger = ledger,
        UsdPerUnitGasUpdatedEvent_TxHash = tx\<rparr>)"

record TokenFeeConfigDeletedEvent =
  TokenFeeConfigDeletedEvent_DestChainSelector :: int
  TokenFeeConfigDeletedEvent_Token :: string
  TokenFeeConfigDeletedEvent_Ledger :: int
  TokenFeeConfigDeletedEvent_TxHash :: string

definition TokenFeeConfigDeletedEvent_entry :: "sdk \<Rightarrow> string \<Rightarrow> ScVal \<Rightarrow> TokenFeeConfigDeletedEvent \<Rightarrow> TokenFeeConfigDeletedEvent result" where
  "TokenFeeConfigDeletedEvent_entry lib key v s =
     (if key = ''dest_chain_selector'' then set_if_ok (Uint64FromScVal v) (\<lambda>x s. s\<lparr>TokenFeeConfigDeletedEvent_DestChainSelector := x\<rparr>) s
      else if key = ''token'' then set_if_ok (AddressFromScVal lib v) (\<lambda>x s. s\<lparr>TokenFeeConfigDeletedEvent_Token := x\<rparr>) s
      else Ok s)"

definition ParseTokenFeeConfigDeletedEvent :: "sdk \<Rightarrow> EventInfo \<Rightarrow> TokenFeeConfigDeletedEvent result" where
  "ParseTokenFeeConfigDeletedEvent lib = parse_event lib (TokenFeeConfigDeletedEvent_entry lib) (\<lambda>ledger tx.
     \<lparr>TokenFeeConfigDeletedEvent_DestChainSelector = 0, TokenFeeConfigDeletedEvent_Token = [],
        TokenFeeConfigDeletedEvent_Ledger = ledger, TokenFeeConfigDeletedEvent_TxHash = tx\<rparr>)"

record TokenFeeConfigUpdatedEvent =
  TokenFeeConfigUpdatedEvent_DestChainSelector :: int
  TokenFeeConfigUpdatedEvent_Token :: string
  TokenFeeConfigUpdatedEvent_FeeUsdCents :: int
  TokenFeeConfigUpdatedEvent_DestGasOverhead :: int
  TokenFeeConfigUpdatedEvent_DestBytesOverhead :: int
  TokenFeeConfigUpdatedEvent_Ledger :: int
  TokenFeeConfigUpdatedEvent_TxHash :: string

definition TokenFeeConfigUpdatedEvent_entry :: "sdk \<Rightarrow> string \<Rightarrow> ScVal \<Rightarrow> TokenFeeConfigUpdatedEvent \<Rightarrow> TokenFeeConfigUpdatedEvent result" where
  "TokenFeeConfigUpdatedEvent_entry lib key v s =
     (if key = ''dest_chain_selector'' then set_if_ok (Uint64FromScVal v) (\<lambda>x s. s\<lparr>TokenFeeConfigUpdatedEvent_DestChainSelector := x\<rparr>) s
      else if key = ''token'' then set_if_ok (AddressFromScVal lib v) (\<lambda>x s. s\<lparr>TokenFeeConfigUpdatedEvent_Token := x\<rparr>) s
      else if key = ''fee_usd_cents'' then set_if (GetU32 v) (\<lambda>x s. s\<lparr>TokenFeeConfigUpdatedEvent_FeeUsdCents := x\<rparr>) s
      else if key = ''dest_gas_overhead'' then set_if (GetU32 v) (\<lambda>x s. s\<lparr>TokenFeeConfigUpdatedEvent_DestGasOverhead := x\<rparr>) s
      else if key = ''dest_bytes_overhead'' then set_if (GetU32 v) (\<lambda>x s. s\<lparr>TokenFeeConfigUpdatedEvent_DestBytesOverhead := x\<rparr>) s
      else Ok s)"

definition ParseTokenFeeConfigUpdatedEvent :: "sdk \<Rightarrow> EventInfo \<Rightarrow> TokenFeeConfigUpdatedEvent result" where
  "ParseTokenFeeConfigUpdatedEvent lib = parse_event lib (TokenFeeConfigUpdatedEvent_entry lib) (\<lambda>ledger tx.
     \<lparr>TokenFeeConfigUpdatedEvent_DestChainSelector = 0, TokenFeeConfigUpdatedEvent_Token = [],
        TokenFeeConfigUpdatedEvent_FeeUsdCents = 0, TokenFeeConfigUpdatedEvent_DestGasOverhead = 0,
        TokenFeeConfigUpdatedEvent_DestBytesOverhead = 0, TokenFeeConfigUpdatedEvent_Ledger = ledger,
        TokenFeeConfigUpdatedEvent_TxHash = tx\<rparr>)"

record DestChainConfigUpdatedEvent =
  DestChainConfigUpdatedEvent_DestChainSelector :: int
  DestChainConfigUpdatedEvent_IsEnabled :: bool
  DestChainConfigUpdatedEvent_MaxDataBytes :: int
  DestChainConfigUpdatedEvent_Ledger :: int
  DestChainConfigUpdatedEvent_TxHash :: string

definition DestChainConfigUpdatedEvent_entry :: "sdk \<Rightarrow> string \<Rightarrow> ScVal \<Rightarrow> DestChainConfigUpdatedEvent \<Rightarrow> DestChainConfigUpdatedEvent result" where
  "DestChainConfigUpdatedEvent_entry lib key v s =
     (if key = ''dest_chain_selector'' then set_if_ok (Uint64FromScVal v) (\<lambda>x s. s\<lparr>DestChainConfigUpdatedEvent_DestChainSelector := x\<rparr>) s
      else if key = ''is_enabled'' then set_if (GetB v) (\<lambda>x s. s\<lparr>DestChainConfigUpdatedEvent_IsEnabled := x\<rparr>) s
      else if key = ''max_data_bytes'' then set_if (GetU32 v) (\<lambda>x s. s\<lparr>DestChainConfigUpdatedEvent_MaxDataBytes := x\<rparr>) s
      else Ok s)"

definition ParseDestChainConfigUpdatedEvent :: "sdk \<Rightarrow> EventInfo \<Rightarrow> DestChainConfigUpdatedEvent result" where
  "ParseDestChainConfigUpdatedEvent lib = parse_event lib (DestChainConfigUpdatedEvent_entry lib) (\<lambda>ledger tx.
     \<lparr>DestChainConfigUpdatedEvent_DestChainSelector = 0, DestChainConfigUpdatedEvent_IsEnabled = False,
        DestChainConfigUpdatedEvent_MaxDataBytes = 0, DestChainConfigUpdatedEvent_Ledger = ledger,
        DestChainConfigUpdatedEvent_TxHash = tx\<rparr>)"

section \<open>The client\<close>

definition NewFeeQuoterClient :: "'s Invoker \<Rightarrow> string \<Rightarrow> 's Client" where
  "NewFeeQuoterClient ivk contractID = mk_client ivk contractID"

definition ContractID :: "'s Client \<Rightarrow> string" where
  "ContractID c = cl_contractID c"

definition Owner :: "sdk \<Rightarrow> 's Client \<Rightarrow> ('s, (string option) result) state" where
  "Owner lib c = simulate_value c ''owner'' [] (OptionalAddressFromScVal lib)"

definition IsOwner :: "sdk \<Rightarrow> 's Client \<Rightarrow> string \<Rightarrow> ('s, bool result) state" where
  "IsOwner lib c addr =
     simulate_value c ''is_owner'' [
       Ok (AddressToScVal lib addr)] (\<lambda>v. need ''expected bool return type'' (GetB v))"

definition InitOwner :: "sdk \<Rightarrow> 's Client \<Rightarrow> string \<Rightarrow> ('s, unit result) state" where
  "InitOwner lib c owner = invoke_void c ''init_owner'' [Ok (AddressToScVal lib owner)]"

definition Initialize :: "sdk \<Rightarrow> 's Client \<Rightarrow> string \<Rightarrow> StaticConfig \<Rightarrow> string list \<Rightarrow> ('s, unit result) state" where
  "Initialize lib c owner staticConfig authorizedCallers =
     invoke_void c ''initialize'' [
       Ok (AddressToScVal lib owner), MustToScVal (StaticConfig_ToScVal lib staticConfig),
       Ok (AddressSliceToScVal lib authorizedCallers)]"

definition RequireOwner :: "sdk \<Rightarrow> 's Client \<Rightarrow> ('s, string result) state" where
  "RequireOwner lib c = invoke_value c ''require_owner'' [] (AddressFromScVal lib)"

definition SetNewOwner :: "sdk \<Rightarrow> 's Client \<Rightarrow> string \<Rightarrow> ('s, unit result) state" where
  "SetNewOwner lib c newOwner = invoke_void c ''set_new_owner'' [Ok (AddressToScVal lib newOwner)]"

definition UpdatePrices :: "sdk \<Rightarrow> 's Client \<Rightarrow> string \<Rightarrow> PriceUpdates \<Rightarrow> ('s, unit result) state" where
  "UpdatePrices lib c updater priceUpdates =
     invoke_void c ''update_prices'' [
       Ok (AddressToScVal lib updater), MustToScVal (PriceUpdates_ToScVal lib priceUpdates)]"

definition GetFeeTokens :: "sdk \<Rightarrow> 's Client \<Rightarrow> ('s, (string list) result) state" where
  "GetFeeTokens lib c =
     simulate_value c ''get_fee_tokens'' [] (vec_of ''expected vec return type'' (AddressFromScVal lib))"

definition GetMessageFee :: "sdk \<Rightarrow> 's Client \<Rightarrow> int \<Rightarrow> StellarToAnyMessage \<Rightarrow> ('s, MessageFeeResult result) state" where
  "GetMessageFee lib c destChainSelector message =
     simulate_value c ''get_message_fee'' [
       Ok (Uint64ToScVal destChainSelector), MustToScVal (StellarToAnyMessage_ToScVal lib message)] (MessageFeeResultFromScVal lib)"

definition GetTokenPrice :: "sdk \<Rightarrow> 's Client \<Rightarrow> string \<Rightarrow> ('s, TimestampedPrice result) state" where
  "GetTokenPrice lib c token =
     simulate_value c ''get_token_price'' [Ok (AddressToScVal lib token)] (TimestampedPriceFromScVal lib)"

definition AcceptOwnership :: "sdk \<Rightarrow> 's Client \<Rightarrow> ('s, unit result) state" where
  "AcceptOwnership lib c = invoke_void c ''accept_ownership'' []"

definition GetTokenPrices :: "sdk \<Rightarrow> 's Client \<Rightarrow> string list \<Rightarrow> ('s, (TimestampedPrice list) result) state" where
  "GetTokenPrices lib c tokens =
     simulate_value c ''get_token_prices'' [
       Ok (AddressSliceToScVal lib tokens)] (vec_of ''expected vec return type'' (TimestampedPriceFromScVal lib))"

definition TypeAndVersion :: "sdk \<Rightarrow> 's Client \<Rightarrow> ('s, string result) state" where
  "TypeAndVersion lib c = invoke_value c ''type_and_version'' [] (StringFromScVal)"

definition GetPendingOwner :: "sdk \<Rightarrow> 's Client \<Rightarrow> ('s, (string option) result) state" where
  "GetPendingOwner lib c = simulate_value c ''get_pending_owner'' [] (OptionalAddressFromScVal lib)"

definition GetStaticConfig :: "sdk \<Rightarrow> 's Client \<Rightarrow> ('s, StaticConfig result) state" where
  "GetStaticConfig lib c = simulate_value c ''get_static_config'' [] (StaticConfigFromScVal lib)"

definition RemoveFeeTokens :: "sdk \<Rightarrow> 's Client \<Rightarrow> string list \<Rightarrow> ('s, unit result) state" where
  "RemoveFeeTokens lib c tokens = invoke_void c ''remove_fee_tokens'' [Ok (AddressSliceToScVal lib tokens)]"

definition QuoteGasForExec :: "sdk \<Rightarrow> 's Client \<Rightarrow> int \<Rightarrow> int \<Rightarrow> int \<Rightarrow> string \<Rightarrow> ('s, GasQuoteResult result) state" where
  "QuoteGasForExec lib c destChainSelector nonCalldataGas calldataSize feeToken =
     invoke_value c ''quote_gas_for_exec'' [
       Ok (Uint64ToScVal destChainSelector), Ok (Uint32ToScVal nonCalldataGas), Ok (Uint32ToScVal calldataSize),
       Ok (AddressToScVal lib feeToken)] (GasQuoteResultFromScVal lib)"

definition TransferOwnership :: "sdk \<Rightarrow> 's Client \<Rightarrow> string \<Rightarrow> ('s, unit result) state" where
  "TransferOwnership lib c newOwner = invoke_void c ''transfer_ownership'' [Ok (AddressToScVal lib newOwner)]"

definition ConvertTokenAmount :: "sdk \<Rightarrow> 's Client \<Rightarrow> string \<Rightarrow> int \<Rightarrow> string \<Rightarrow> ('s, int result) state" where
  "ConvertTokenAmount lib c fromToken fromTokenAmount toToken =
     invoke_value c ''convert_token_amount'' [
       Ok (AddressToScVal lib fromToken), Ok (I128ToScVal fromTokenAmount), Ok (AddressToScVal lib toToken)] (I128FromScVal)"

definition GetAllDestConfigs :: "sdk \<Rightarrow> 's Client \<Rightarrow> ('s, ((int list) \<times> (DestChainConfig list)) result) state" where
  "GetAllDestConfigs lib c =
     simulate_value c ''get_all_dest_configs'' []
       (pair_of ''expected vec for tuple return'' (tuple_vec 0 (Uint64FromScVal)) (tuple_vec 1 (DestChainConfigFromScVal lib)))"

definition GetTokenFeeConfig :: "sdk \<Rightarrow> 's Client \<Rightarrow> int \<Rightarrow> string \<Rightarrow> ('s, TokenTransferFeeConfig result) state" where
  "GetTokenFeeConfig lib c destChainSelector token =
     simulate_value c ''get_token_fee_config'' [
       Ok (Uint64ToScVal destChainSelector), Ok (AddressToScVal lib token)] (TokenTransferFeeConfigFromScVal lib)"

definition GetDestChainConfig :: "sdk \<Rightarrow> 's Client \<Rightarrow> int \<Rightarrow> ('s, DestChainConfig result) state" where
  "GetDestChainConfig lib c destChainSelector =
     simulate_value c ''get_dest_chain_config'' [Ok (Uint64ToScVal destChainSelector)] (DestChainConfigFromScVal lib)"

definition GetTokenTransferFee :: "sdk \<Rightarrow> 's Client \<Rightarrow> int \<Rightarrow> string \<Rightarrow> ('s, TokenTransferFeeResult result) state" where
  "GetTokenTransferFee lib c destChainSelector token =
     simulate_value c ''get_token_transfer_fee'' [
       Ok (Uint64ToScVal destChainSelector), Ok (AddressToScVal lib token)] (TokenTransferFeeResultFromScVal lib)"

definition ApplyTokenFeeConfigs :: "sdk \<Rightarrow> 's Client \<Rightarrow> TokenFeeConfigArgs list \<Rightarrow> TokenFeeConfigRemoveArgs list \<Rightarrow> ('s, unit result) state" where
  "ApplyTokenFeeConfigs lib c configArgs removeArgs =
     invoke_void c ''apply_token_fee_configs'' [
       StructSliceToScVal (TokenFeeConfigArgs_ToScVal lib) configArgs,
       StructSliceToScVal (TokenFeeConfigRemoveArgs_ToScVal lib) removeArgs]"

definition ApplyDestChainConfigs :: "sdk \<Rightarrow> 's Client \<Rightarrow> DestChainConfigArgs list \<Rightarrow> ('s, unit result) state" where
  "ApplyDestChainConfigs lib c configArgs =
     invoke_void c ''apply_dest_chain_configs'' [StructSliceToScVal (DestChainConfigArgs_ToScVal lib) configArgs]"

definition GetDestChainGasPrice :: "sdk \<Rightarrow> 's Client \<Rightarrow> int \<Rightarrow> ('s, TimestampedPrice result) state" where
  "GetDestChainGasPrice lib c destChainSelector =
     simulate_value c ''get_dest_chain_gas_price'' [
       Ok (Uint64ToScVal destChainSelector)] (TimestampedPriceFromScVal lib)"

definition CancelOwnershipTransfer :: "sdk \<Rightarrow> 's Client \<Rightarrow> ('s, unit result) state" where
  "CancelOwnershipTransfer lib c = invoke_void c ''cancel_ownership_transfer'' []"

definition GetValidatedTokenPrice :: "sdk \<Rightarrow> 's Client \<Rightarrow> string \<Rightarrow> ('s, (int \<times> int) result) state" where
  "GetValidatedTokenPrice lib c token =
     simulate_value c ''get_validated_token_price'' [Ok (AddressToScVal lib token)] (U128FromScVal)"

section \<open>Waiting for events\<close>

definition RoleGrantedEventTopic :: string where
  "RoleGrantedEventTopic = ''auth_RoleGranted''"

definition WaitForRoleGrantedEvent :: "sdk \<Rightarrow> 's Client \<Rightarrow> int \<Rightarrow> int \<Rightarrow> (RoleGrantedEvent \<Rightarrow> bool) option \<Rightarrow> wait_round list \<Rightarrow> ('s, RoleGrantedEvent result option) state" where
  "WaitForRoleGrantedEvent lib c = wait_for c RoleGrantedEventTopic (ParseRoleGrantedEvent lib)"

definition RoleRevokedEventTopic :: string where
  "RoleRevokedEventTopic = ''auth_RoleRevoked''"

definition WaitForRoleRevokedEvent :: "sdk \<Rightarrow> 's Client \<Rightarrow> int \<Rightarrow> int \<Rightarrow> (RoleRevokedEvent \<Rightarrow> bool) option \<Rightarrow> wait_round list \<Rightarrow> ('s, RoleRevokedEvent result option) state" where
  "WaitForRoleRevokedEvent lib c = wait_for c RoleRevokedEventTopic (ParseRoleRevokedEvent lib)"

definition AuthorizedCallerAddedEventTopic :: string where
  "AuthorizedCallerAddedEventTopic = ''auth_CallerAdded''"

definition WaitForAuthorizedCallerAddedEvent :: "sdk \<Rightarrow> 's Client \<Rightarrow> int \<Rightarrow> int \<Rightarrow> (AuthorizedCallerAddedEvent \<Rightarrow> bool) option \<Rightarrow> wait_round list \<Rightarrow> ('s, AuthorizedCallerAddedEvent result option) state" where
  "WaitForAuthorizedCallerAddedEvent lib c = wait_for c AuthorizedCallerAddedEventTopic (ParseAuthorizedCallerAddedEvent lib)"

definition AuthorizedCallerRemovedEventTopic :: string where
  "AuthorizedCallerRemovedEventTopic = ''auth_CallerRemoved''"

definition WaitForAuthorizedCallerRemovedEvent :: "sdk \<Rightarrow> 's Client \<Rightarrow> int \<Rightarrow> int \<Rightarrow> (AuthorizedCallerRemovedEvent \<Rightarrow> bool) option \<Rightarrow> wait_round list \<Rightarrow> ('s, AuthorizedCallerRemovedEvent result option) state" where
  "WaitForAuthorizedCallerRemovedEvent lib c = wait_for c AuthorizedCallerRemovedEventTopic (ParseAuthorizedCallerRemovedEvent lib)"

definition OwnershipTransferStartedEventTopic :: string where
  "OwnershipTransferStartedEventTopic = ''auth_OwnerTransferStart''"

definition WaitForOwnershipTransferStartedEvent :: "sdk \<Rightarrow> 's Client \<Rightarrow> int \<Rightarrow> int \<Rightarrow> (OwnershipTransferStartedEvent \<Rightarrow> bool) option \<Rightarrow> wait_round list \<Rightarrow> ('s, OwnershipTransferStartedEvent result option) state" where
  "WaitForOwnershipTransferStartedEvent lib c = wait_for c OwnershipTransferStartedEventTopic (ParseOwnershipTransferStartedEvent lib)"

definition FeeTokenAddedEventTopic :: string where
  "FeeTokenAddedEventTopic = ''fq_FeeTokenAdded''"

definition WaitForFeeTokenAddedEvent :: "sdk \<Rightarrow> 's Client \<Rightarrow> int \<Rightarrow> int \<Rightarrow> (FeeTokenAddedEvent \<Rightarrow> bool) option \<Rightarrow> wait_round list \<Rightarrow> ('s, FeeTokenAddedEvent result option) state" where
  "WaitForFeeTokenAddedEvent lib c = wait_for c FeeTokenAddedEventTopic (ParseFeeTokenAddedEvent lib)"

definition DestChainAddedEventTopic :: string where
  "DestChainAddedEventTopic = ''fq_DestChainAdded''"

definition WaitForDestChainAddedEvent :: "sdk \<Rightarrow> 's Client \<Rightarrow> int \<Rightarrow> int \<Rightarrow> (DestChainAddedEvent \<Rightarrow> bool) option \<Rightarrow> wait_round list \<Rightarrow> ('s, DestChainAddedEvent result option) state" where
  "WaitForDestChainAddedEvent lib c = wait_for c DestChainAddedEventTopic (ParseDestChainAddedEvent lib)"

definition FeeTokenRemovedEventTopic :: string where
  "FeeTokenRemovedEventTopic = ''fq_FeeTokenRemoved''"

definition WaitForFeeTokenRemovedEvent :: "sdk \<Rightarrow> 's Client \<Rightarrow> int \<Rightarrow> int \<Rightarrow> (FeeTokenRemovedEvent \<Rightarrow> bool) option \<Rightarrow> wait_round list \<Rightarrow> ('s, FeeTokenRemovedEvent result option) state" where
  "WaitForFeeTokenRemovedEvent lib c = wait_for c FeeTokenRemovedEventTopic (ParseFeeTokenRemovedEvent lib)"

definition UsdPerTokenUpdatedEventTopic :: string where
  "UsdPerTokenUpdatedEventTopic = ''fq_UsdPerTokenUpdated''"

definition WaitForUsdPerTokenUpdatedEvent :: "sdk \<Rightarrow> 's Client \<Rightarrow> int \<Rightarrow> int \<Rightarrow> (UsdPerTokenUpdatedEvent \<Rightarrow> bool) option \<Rightarrow> wait_round list \<Rightarrow> ('s, UsdPerTokenUpdatedEvent result option) state" where
  "WaitForUsdPerTokenUpdatedEvent lib c = wait_for c UsdPerTokenUpdatedEventTopic (ParseUsdPerTokenUpdatedEvent lib)"

definition UsdPerUnitGasUpdatedEventTopic :: string where
  "UsdPerUnitGasUpdatedEventTopic = ''fq_UsdPerUnitGasUpdated''"

definition WaitForUsdPerUnitGasUpdatedEvent :: "sdk \<Rightarrow> 's Client \<Rightarrow> int \<Rightarrow> int \<Rightarrow> (UsdPerUnitGasUpdatedEvent \<Rightarrow> bool) option \<Rightarrow> wait_round list \<Rightarrow> ('s, UsdPerUnitGasUpdatedEvent result option) state" where
  "WaitForUsdPerUnitGasUpdatedEvent lib c = wait_for c UsdPerUnitGasUpdatedEventTopic (ParseUsdPerUnitGasUpdatedEvent lib)"

definition TokenFeeConfigDeletedEventTopic :: string where
  "TokenFeeConfigDeletedEventTopic = ''fq_TknTransferFeeDeleted''"

definition WaitForTokenFeeConfigDeletedEvent :: "sdk \<Rightarrow> 's Client \<Rightarrow> int \<Rightarrow> int \<Rightarrow> (TokenFeeConfigDeletedEvent \<Rightarrow> bool) option \<Rightarrow> wait_round list \<Rightarrow> ('s, TokenFeeConfigDeletedEvent result option) state" where
  "WaitForTokenFeeConfigDeletedEvent lib c = wait_for c TokenFeeConfigDeletedEventTopic (ParseTokenFeeConfigDeletedEvent lib)"

definition TokenFeeConfigUpdatedEventTopic :: string where
  "TokenFeeConfigUpdatedEventTopic = ''fq_TknTransferFeeUpdated''"

definition WaitForTokenFeeConfigUpdatedEvent :: "sdk \<Rightarrow> 's Client \<Rightarrow> int \<Rightarrow> int \<Rightarrow> (TokenFeeConfigUpdatedEvent \<Rightarrow> bool) option \<Rightarrow> wait_round list \<Rightarrow> ('s, TokenFeeConfigUpdatedEvent result option) state" where
  "WaitForTokenFeeConfigUpdatedEvent lib c = wait_for c TokenFeeConfigUpdatedEventTopic (ParseTokenFeeConfigUpdatedEvent lib)"

definition DestChainConfigUpdatedEventTopic :: string where
  "DestChainConfigUpdatedEventTopic = ''fq_DestChainConfigUpdated''"

definition WaitForDestChainConfigUpdatedEvent :: "sdk \<Rightarrow> 's Client \<Rightarrow> int \<Rightarrow> int \<Rightarrow> (DestChainConfigUpdatedEvent \<Rightarrow> bool) option \<Rightarrow> wait_round list \<Rightarrow> ('s, DestChainConfigUpdatedEvent result option) state" where
  "WaitForDestChainConfigUpdatedEvent lib c = wait_for c DestChainConfigUpdatedEventTopic (ParseDestChainConfigUpdatedEvent lib)"

section \<open>Round trips\<close>

definition valid_GasPriceUpdate :: "sdk \<Rightarrow> GasPriceUpdate \<Rightarrow> bool" where
  "valid_GasPriceUpdate lib s \<longleftrightarrow> True"

lemma fee_quoter_GasPriceUpdate_keys: "sort [''dest_chain_selector'', ''usd_per_unit_gas''] =
    [''dest_chain_selector'', ''usd_per_unit_gas'']"
  by simp

lemma fee_quoter_GasPriceUpdate_codec:
  assumes "sdk_laws lib"
  shows "codec (GasPriceUpdate_ToScVal lib) (GasPriceUpdateFromScVal lib) (valid_GasPriceUpdate lib)"
proof (rule codecI)
  show "\<exists>v. GasPriceUpdate_ToScVal lib s = Ok v \<and> GasPriceUpdateFromScVal lib v = Ok s" if ok: "valid_GasPriceUpdate lib s" for s
    using ok assms
    by (cases s) (simp add: GasPriceUpdate_ToScVal_def GasPriceUpdateFromScVal_def GasPriceUpdate_entry_def zero_GasPriceUpdate_def valid_GasPriceUpdate_def
        fee_quoter_GasPriceUpdate_keys struct_codec_simps del: sort_key_simps fold_entries.simps(2))
qed

definition valid_TokenPriceUpdate :: "sdk \<Rightarrow> TokenPriceUpdate \<Rightarrow> bool" where
  "valid_TokenPriceUpdate lib s \<longleftrightarrow> is_address lib (TokenPriceUpdate_Token s)"

lemma fee_quoter_TokenPriceUpdate_keys: "sort [''token'', ''usd_per_token''] =
    [''token'', ''usd_per_token'']"
  by simp

lemma fee_quoter_TokenPriceUpdate_codec:
  assumes "sdk_laws lib"
  shows "codec (TokenPriceUpdate_ToScVal lib) (TokenPriceUpdateFromScVal lib) (valid_TokenPriceUpdate lib)"
proof (rule codecI)
  show "\<exists>v. TokenPriceUpdate_ToScVal lib s = Ok v \<and> TokenPriceUpdateFromScVal lib v = Ok s" if ok: "valid_TokenPriceUpdate lib s" for s
    using ok assms
    by (cases s) (simp add: TokenPriceUpdate_ToScVal_def TokenPriceUpdateFromScVal_def TokenPriceUpdate_entry_def zero_TokenPriceUpdate_def valid_TokenPriceUpdate_def
        fee_quoter_TokenPriceUpdate_keys struct_codec_simps del: sort_key_simps fold_entries.simps(2))
qed

definition valid_PriceUpdates :: "sdk \<Rightarrow> PriceUpdates \<Rightarrow> bool" where
  "valid_PriceUpdates lib s \<longleftrightarrow> list_all (valid_GasPriceUpdate lib) (PriceUpdates_GasPriceUpdates s) \<and>
     list_all (valid_TokenPriceUpdate lib) (PriceUpdates_TokenPriceUpdates s)"

lemma fee_quoter_PriceUpdates_keys: "sort [''gas_price_updates'', ''token_price_updates''] =
    [''gas_price_updates'', ''token_price_updates'']"
  by simp

lemma fee_quoter_PriceUpdates_codec:
  assumes "sdk_laws lib"
  shows "codec (PriceUpdates_ToScVal lib) (PriceUpdatesFromScVal lib) (valid_PriceUpdates lib)"
proof (rule codecI)
  show "\<exists>v. PriceUpdates_ToScVal lib s = Ok v \<and> PriceUpdatesFromScVal lib v = Ok s" if ok: "valid_PriceUpdates lib s" for s
  proof -
    obtain v1 where o1: "StructSliceToScVal (GasPriceUpdate_ToScVal lib) (PriceUpdates_GasPriceUpdates s) = Ok v1"
      "\<And>msg. vec_of msg (GasPriceUpdateFromScVal lib) v1 = Ok (PriceUpdates_GasPriceUpdates s)"
      using codec_slice [OF fee_quoter_GasPriceUpdate_codec [OF assms]] ok unfolding valid_PriceUpdates_def by blast
    obtain v2 where o2: "StructSliceToScVal (TokenPriceUpdate_ToScVal lib) (PriceUpdates_TokenPriceUpdates s) = Ok v2"
      "\<And>msg. vec_of msg (TokenPriceUpdateFromScVal lib) v2 = Ok (PriceUpdates_TokenPriceUpdates s)"
      using codec_slice [OF fee_quoter_TokenPriceUpdate_codec [OF assms]] ok unfolding valid_PriceUpdates_def by blast
    show ?thesis using o1 o2 ok assms
      by (cases s) (simp add: PriceUpdates_ToScVal_def PriceUpdatesFromScVal_def PriceUpdates_entry_def zero_PriceUpdates_def valid_PriceUpdates_def
        fee_quoter_PriceUpdates_keys struct_codec_simps del: sort_key_simps fold_entries.simps(2))
  qed
qed

definition valid_StaticConfig :: "sdk \<Rightarrow> StaticConfig \<Rightarrow> bool" where
  "valid_StaticConfig lib s \<longleftrightarrow> is_address lib (StaticConfig_LinkToken s) \<and> in_i64 (StaticConfig_MaxFeeJuelsPerMsg s)"

lemma fee_quoter_StaticConfig_keys: "sort [''link_token'', ''max_fee_juels_per_msg''] =
    [''link_token'', ''max_fee_juels_per_msg'']"
  by simp

lemma fee_quoter_StaticConfig_codec:
  assumes "sdk_laws lib"
  shows "codec (StaticConfig_ToScVal lib) (StaticConfigFromScVal lib) (valid_StaticConfig lib)"
proof (rule codecI)
  show "\<exists>v. StaticConfig_ToScVal lib s = Ok v \<and> StaticConfigFromScVal lib v = Ok s" if ok: "valid_StaticConfig lib s" for s
    using ok assms
    by (cases s) (simp add: StaticConfig_ToScVal_def StaticConfigFromScVal_def StaticConfig_entry_def zero_StaticConfig_def valid_StaticConfig_def
        fee_quoter_StaticConfig_keys struct_codec_simps del: sort_key_simps fold_entries.simps(2))
qed

definition valid_GasQuoteResult :: "sdk \<Rightarrow> GasQuoteResult \<Rightarrow> bool" where
  "valid_GasQuoteResult lib s \<longleftrightarrow> True"

lemma fee_quoter_GasQuoteResult_keys: "sort [''fee_token_price'', ''gas_cost_usd_cents'', ''premium_multiplier'', ''total_gas''] =
    [''fee_token_price'', ''gas_cost_usd_cents'', ''premium_multiplier'', ''total_gas'']"
  by simp

lemma fee_quoter_GasQuoteResult_codec:
  assumes "sdk_laws lib"
  shows "codec (GasQuoteResult_ToScVal lib) (GasQuoteResultFromScVal lib) (valid_GasQuoteResult lib)"
proof (rule codecI)
  show "\<exists>v. GasQuoteResult_ToScVal lib s = Ok v \<and> GasQuoteResultFromScVal lib v = Ok s" if ok: "valid_GasQuoteResult lib s" for s
    using ok assms
    by (cases s) (simp add: GasQuoteResult_ToScVal_def GasQuoteResultFromScVal_def GasQuoteResult_entry_def zero_GasQuoteResult_def valid_GasQuoteResult_def
        fee_quoter_GasQuoteResult_keys struct_codec_simps del: sort_key_simps fold_entries.simps(2))
qed

definition valid_DestChainConfig :: "sdk \<Rightarrow> DestChainConfig \<Rightarrow> bool" where
  "valid_DestChainConfig lib s \<longleftrightarrow> True"

lemma fee_quoter_DestChainConfig_keys: "sort [''default_token_dest_gas'', ''default_token_fee_usd'', ''default_tx_gas_limit'', ''dest_gas_overhead'',
    ''dest_gas_per_payload_byte'', ''is_enabled'', ''link_premium_percent'', ''max_data_bytes'',
    ''max_per_msg_gas_limit'', ''network_fee_usd_cents''] =
    [''default_token_dest_gas'', ''default_token_fee_usd'', ''default_tx_gas_limit'', ''dest_gas_overhead'',
     ''dest_gas_per_payload_byte'', ''is_enabled'', ''link_premium_percent'', ''max_data_bytes'',
     ''max_per_msg_gas_limit'', ''network_fee_usd_cents'']"
  by simp

lemma fee_quoter_DestChainConfig_codec:
  assumes "sdk_laws lib"
  shows "codec (DestChainConfig_ToScVal lib) (DestChainConfigFromScVal lib) (valid_DestChainConfig lib)"
proof (rule codecI)
  show "\<exists>v. DestChainConfig_ToScVal lib s = Ok v \<and> DestChainConfigFromScVal lib v = Ok s" if ok: "valid_DestChainConfig lib s" for s
    using ok assms
    by (cases s) (simp add: DestChainConfig_ToScVal_def DestChainConfigFromScVal_def DestChainConfig_entry_def zero_DestChainConfig_def valid_DestChainConfig_def
        fee_quoter_DestChainConfig_keys struct_codec_simps del: sort_key_simps fold_entries.simps(2))
qed

definition valid_MessageFeeResult :: "sdk \<Rightarrow> MessageFeeResult \<Rightarrow> bool" where
  "valid_MessageFeeResult lib s \<longleftrightarrow> in_i64 (MessageFeeResult_FeeTokenAmount s)"

lemma fee_quoter_MessageFeeResult_keys: "sort [''fee_token_amount'', ''fee_token_price'', ''fee_usd_cents''] =
    [''fee_token_amount'', ''fee_token_price'', ''fee_usd_cents'']"
  by simp

lemma fee_quoter_MessageFeeResult_codec:
  assumes "sdk_laws lib"
  shows "codec (MessageFeeResult_ToScVal lib) (MessageFeeResultFromScVal lib) (valid_MessageFeeResult lib)"
proof (rule codecI)
  show "\<exists>v. MessageFeeResult_ToScVal lib s = Ok v \<and> MessageFeeResultFromScVal lib v = Ok s" if ok: "valid_MessageFeeResult lib s" for s
    using ok assms
    by (cases s) (simp add: MessageFeeResult_ToScVal_def MessageFeeResultFromScVal_def MessageFeeResult_entry_def zero_MessageFeeResult_def valid_MessageFeeResult_def
        fee_quoter_MessageFeeResult_keys struct_codec_simps del: sort_key_simps fold_entries.simps(2))
qed

definition valid_TimestampedPrice :: "sdk \<Rightarrow> TimestampedPrice \<Rightarrow> bool" where
  "valid_TimestampedPrice lib s \<longleftrightarrow> True"

lemma fee_quoter_TimestampedPrice_keys: "sort [''timestamp'', ''value''] =
    [''timestamp'', ''value'']"
  by simp

lemma fee_quoter_TimestampedPrice_codec:
  assumes "sdk_laws lib"
  shows "codec (TimestampedPrice_ToScVal lib) (TimestampedPriceFromScVal lib) (valid_TimestampedPrice lib)"
proof (rule codecI)
  show "\<exists>v. TimestampedPrice_ToScVal lib s = Ok v \<and> TimestampedPriceFromScVal lib v = Ok s" if ok: "valid_TimestampedPrice lib s" for s
    using ok assms
    by (cases s) (simp add: TimestampedPrice_ToScVal_def TimestampedPriceFromScVal_def TimestampedPrice_entry_def zero_TimestampedPrice_def valid_TimestampedPrice_def
        fee_quoter_TimestampedPrice_keys struct_codec_simps del: sort_key_simps fold_entries.simps(2))
qed

definition valid_TokenTransferFeeConfig :: "sdk \<Rightarrow> TokenTransferFeeConfig \<Rightarrow> bool" where
  "valid_TokenTransferFeeConfig lib s \<longleftrightarrow> True"

lemma fee_quoter_TokenTransferFeeConfig_keys: "sort [''dest_bytes_overhead'', ''dest_gas_overhead'', ''fee_usd_cents'', ''is_enabled''] =
    [''dest_bytes_overhead'', ''dest_gas_overhead'', ''fee_usd_cents'', ''is_enabled'']"
  by simp

lemma fee_quoter_TokenTransferFeeConfig_codec:
  assumes "sdk_laws lib"
  shows "codec (TokenTransferFeeConfig_ToScVal lib) (TokenTransferFeeConfigFromScVal lib) (valid_TokenTransferFeeConfig lib)"
proof (rule codecI)
  show "\<exists>v. TokenTransferFeeConfig_ToScVal lib s = Ok v \<and> TokenTransferFeeConfigFromScVal lib v = Ok s" if ok: "valid_TokenTransferFeeConfig lib s" for s
    using ok assms
    by (cases s) (simp add: TokenTransferFeeConfig_ToScVal_def TokenTransferFeeConfigFromScVal_def TokenTransferFeeConfig_entry_def zero_TokenTransferFeeConfig_def valid_TokenTransferFeeConfig_def
        fee_quoter_TokenTransferFeeConfig_keys struct_codec_simps del: sort_key_simps fold_entries.simps(2))
qed

definition valid_TokenFeeConfigArgs :: "sdk \<Rightarrow> TokenFeeConfigArgs \<Rightarrow> bool" where
  "valid_TokenFeeConfigArgs lib s \<longleftrightarrow> valid_TokenTransferFeeConfig lib (TokenFeeConfigArgs_Config s) \<and> is_address lib (TokenFeeConfigArgs_Token s)"

lemma fee_quoter_TokenFeeConfigArgs_keys: "sort [''config'', ''dest_chain_selector'', ''token''] =
    [''config'', ''dest_chain_selector'', ''token'']"
  by simp

lemma fee_quoter_TokenFeeConfigArgs_codec:
  assumes "sdk_laws lib"
  shows "codec (TokenFeeConfigArgs_ToScVal lib) (TokenFeeConfigArgsFromScVal lib) (valid_TokenFeeConfigArgs lib)"
proof (rule codecI)
  show "\<exists>v. TokenFeeConfigArgs_ToScVal lib s = Ok v \<and> TokenFeeConfigArgsFromScVal lib v = Ok s" if ok: "valid_TokenFeeConfigArgs lib s" for s
  proof -
    obtain v1 where o1: "MustToScVal (TokenTransferFeeConfig_ToScVal lib (TokenFeeConfigArgs_Config s)) = Ok v1" "TokenTransferFeeConfigFromScVal lib v1 = Ok (TokenFeeConfigArgs_Config s)"
      using codec_must [OF fee_quoter_TokenTransferFeeConfig_codec [OF assms]] ok unfolding valid_TokenFeeConfigArgs_def by blast
    show ?thesis using o1 ok assms
      by (cases s) (simp add: TokenFeeConfigArgs_ToScVal_def TokenFeeConfigArgsFromScVal_def TokenFeeConfigArgs_entry_def zero_TokenFeeConfigArgs_def valid_TokenFeeConfigArgs_def
        fee_quoter_TokenFeeConfigArgs_keys struct_codec_simps del: sort_key_simps fold_entries.simps(2))
  qed
qed

definition valid_DestChainConfigArgs :: "sdk \<Rightarrow> DestChainConfigArgs \<Rightarrow> bool" where
  "valid_DestChainConfigArgs lib s \<longleftrightarrow> valid_DestChainConfig lib (DestChainConfigArgs_Config s)"

lemma fee_quoter_DestChainConfigArgs_keys: "sort [''config'', ''dest_chain_selector''] =
    [''config'', ''dest_chain_selector'']"
  by simp

lemma fee_quoter_DestChainConfigArgs_codec:
  assumes "sdk_laws lib"
  shows "codec (DestChainConfigArgs_ToScVal lib) (DestChainConfigArgsFromScVal lib) (valid_DestChainConfigArgs lib)"
proof (rule codecI)
  show "\<exists>v. DestChainConfigArgs_ToScVal lib s = Ok v \<and> DestChainConfigArgsFromScVal lib v = Ok s" if ok: "valid_DestChainConfigArgs lib s" for s
  proof -
    obtain v1 where o1: "MustToScVal (DestChainConfig_ToScVal lib (DestChainConfigArgs_Config s)) = Ok v1" "DestChainConfigFromScVal lib v1 = Ok (DestChainConfigArgs_Config s)"
      using codec_must [OF fee_quoter_DestChainConfig_codec [OF assms]] ok unfolding valid_DestChainConfigArgs_def by blast
    show ?thesis using o1 ok assms
      by (cases s) (simp add: DestChainConfigArgs_ToScVal_def DestChainConfigArgsFromScVal_def DestChainConfigArgs_entry_def zero_DestChainConfigArgs_def valid_DestChainConfigArgs_def
        fee_quoter_DestChainConfigArgs_keys struct_codec_simps del: sort_key_simps fold_entries.simps(2))
  qed
qed

definition valid_TokenTransferFeeResult :: "sdk \<Rightarrow> TokenTransferFeeResult \<Rightarrow> bool" where
  "valid_TokenTransferFeeResult lib s \<longleftrightarrow> True"

lemma fee_quoter_TokenTransferFeeResult_keys: "sort [''dest_bytes_overhead'', ''dest_gas_overhead'', ''fee_usd_cents''] =
    [''dest_bytes_overhead'', ''dest_gas_overhead'', ''fee_usd_cents'']"
  by simp

lemma fee_quoter_TokenTransferFeeResult_codec:
  assumes "sdk_laws lib"
  shows "codec (TokenTransferFeeResult_ToScVal lib) (TokenTransferFeeResultFromScVal lib) (valid_TokenTransferFeeResult lib)"
proof (rule codecI)
  show "\<exists>v. TokenTransferFeeResult_ToScVal lib s = Ok v \<and> TokenTransferFeeResultFromScVal lib v = Ok s" if ok: "valid_TokenTransferFeeResult lib s" for s
    using ok assms
    by (cases s) (simp add: TokenTransferFeeResult_ToScVal_def TokenTransferFeeResultFromScVal_def TokenTransferFeeResult_entry_def zero_TokenTransferFeeResult_def valid_TokenTransferFeeResult_def
        fee_quoter_TokenTransferFeeResult_keys struct_codec_simps del: sort_key_simps fold_entries.simps(2))
qed

definition valid_TokenFeeConfigRemoveArgs :: "sdk \<Rightarrow> TokenFeeConfigRemoveArgs \<Rightarrow> bool" where
  "valid_TokenFeeConfigRemoveArgs lib s \<longleftrightarrow> is_address lib (TokenFeeConfigRemoveArgs_Token s)"

lemma fee_quoter_TokenFeeConfigRemoveArgs_keys: "sort [''dest_chain_selector'', ''token''] =
    [''dest_chain_selector'', ''token'']"
  by simp

lemma fee_quoter_TokenFeeConfigRemoveArgs_codec:
  assumes "sdk_laws lib"
  shows "codec (TokenFeeConfigRemoveArgs_ToScVal lib) (TokenFeeConfigRemoveArgsFromScVal lib) (valid_TokenFeeConfigRemoveArgs lib)"
proof (rule codecI)
  show "\<exists>v. TokenFeeConfigRemoveArgs_ToScVal lib s = Ok v \<and> TokenFeeConfigRemoveArgsFromScVal lib v = Ok s" if ok: "valid_TokenFeeConfigRemoveArgs lib s" for s
    using ok assms
    by (cases s) (simp add: TokenFeeConfigRemoveArgs_ToScVal_def TokenFeeConfigRemoveArgsFromScVal_def TokenFeeConfigRemoveArgs_entry_def zero_TokenFeeConfigRemoveArgs_def valid_TokenFeeConfigRemoveArgs_def
        fee_quoter_TokenFeeConfigRemoveArgs_keys struct_codec_simps del: sort_key_simps fold_entries.simps(2))
qed

end
