(* ===== verification/Bind_Offramp.thy ===== *)
theory Bind_Offramp
  imports Bind_Common
begin

text \<open>
  The generated binding of the offramp contract (bindings/contracts/offramp): the types of its own and every
  method of \<open>OffRampClient\<close>.
\<close>

section \<open>Enumerations\<close>

type_synonym MessageExecutionState = int

definition MessageExecutionStateUntouched :: MessageExecutionState where
  "MessageExecutionStateUntouched = 0"

definition MessageExecutionStateInProgress :: MessageExecutionState where
  "MessageExecutionStateInProgress = 1"

definition MessageExecutionStateSuccess :: MessageExecutionState where
  "MessageExecutionStateSuccess = 2"

definition MessageExecutionStateFailure :: MessageExecutionState where
  "MessageExecutionStateFailure = 3"

definition MessageExecutionState_ToScVal :: "MessageExecutionState \<Rightarrow> ScVal result" where
  "MessageExecutionState_ToScVal e = Ok (Uint32ToScVal e)"

definition MessageExecutionStateFromScVal :: "ScVal \<Rightarrow> MessageExecutionState result" where
  "MessageExecutionStateFromScVal v = need ''expected u32 for MessageExecutionState enum'' (GetU32 v)"

section \<open>Structs\<close>

record StaticConfig =
  StaticConfig_ChainSelector :: int
  StaticConfig_RmnProxy :: string
  StaticConfig_TokenAdminRegistry :: string

definition zero_StaticConfig :: StaticConfig where
  "zero_StaticConfig = \<lparr>StaticConfig_ChainSelector = 0, StaticConfig_RmnProxy = [], StaticConfig_TokenAdminRegistry = []\<rparr>"

definition StaticConfig_ToScVal :: "sdk \<Rightarrow> StaticConfig \<Rightarrow> ScVal result" where
  "StaticConfig_ToScVal lib s = build_struct [
     (''chain_selector'', Ok (Uint64ToScVal (StaticConfig_ChainSelector s))),
     (''rmn_proxy'', Ok (AddressToScVal lib (StaticConfig_RmnProxy s))),
     (''token_admin_registry'', Ok (AddressToScVal lib (StaticConfig_TokenAdminRegistry s)))]"

definition StaticConfig_entry :: "sdk \<Rightarrow> string \<Rightarrow> ScVal \<Rightarrow> StaticConfig \<Rightarrow> StaticConfig result" where
  "StaticConfig_entry lib key v s =
     (if key = ''chain_selector'' then put (named ''chain_selector'' (Uint64FromScVal v)) (\<lambda>x. s\<lparr>StaticConfig_ChainSelector := x\<rparr>)
      else if key = ''rmn_proxy'' then put (named ''rmn_proxy'' (AddressFromScVal lib v)) (\<lambda>x. s\<lparr>StaticConfig_RmnProxy := x\<rparr>)
      else if key = ''token_admin_registry'' then put (named ''token_admin_registry'' (AddressFromScVal lib v)) (\<lambda>x. s\<lparr>StaticConfig_TokenAdminRegistry := x\<rparr>)
      else Ok s)"

definition StaticConfigFromScVal :: "sdk \<Rightarrow> ScVal \<Rightarrow> StaticConfig result" where
  "StaticConfigFromScVal lib = parse_struct ''not a map type'' (StaticConfig_entry lib) zero_StaticConfig"

record SourceChainConfig =
  SourceChainConfig_DefaultCcvs :: "string list"
  SourceChainConfig_IsEnabled :: bool
  SourceChainConfig_LaneMandatedCcvs :: "string list"
  SourceChainConfig_OnRamps :: "bytes list"
  SourceChainConfig_Router :: string

definition zero_SourceChainConfig :: SourceChainConfig where
  "zero_SourceChainConfig = \<lparr>SourceChainConfig_DefaultCcvs = [], SourceChainConfig_IsEnabled = False,
     SourceChainConfig_LaneMandatedCcvs = [], SourceChainConfig_OnRamps = [], SourceChainConfig_Router = []\<rparr>"

definition SourceChainConfig_ToScVal :: "sdk \<Rightarrow> SourceChainConfig \<Rightarrow> ScVal result" where
  "SourceChainConfig_ToScVal lib s = build_struct [
     (''default_ccvs'', Ok (AddressSliceToScVal lib (SourceChainConfig_DefaultCcvs s))),
     (''is_enabled'', Ok (BoolToScVal (SourceChainConfig_IsEnabled s))),
     (''lane_mandated_ccvs'', Ok (AddressSliceToScVal lib (SourceChainConfig_LaneMandatedCcvs s))),
     (''on_ramps'', Ok (BytesSliceToScVal (SourceChainConfig_OnRamps s))),
     (''router'', Ok (AddressToScVal lib (SourceChainConfig_Router s)))]"

definition SourceChainConfig_entry :: "sdk \<Rightarrow> string \<Rightarrow> ScVal \<Rightarrow> SourceChainConfig \<Rightarrow> SourceChainConfig result" where
  "SourceChainConfig_entry lib key v s =
     (if key = ''default_ccvs'' then put (vec_of ''default_ccvs is not a vec'' (AddressFromScVal lib) v) (\<lambda>x. s\<lparr>SourceChainConfig_DefaultCcvs := x\<rparr>)
      else if key = ''is_enabled'' then put (need ''is_enabled is not bool'' (GetB v)) (\<lambda>x. s\<lparr>SourceChainConfig_IsEnabled := x\<rparr>)
      else if key = ''lane_mandated_ccvs'' then put (vec_of ''lane_mandated_ccvs is not a vec'' (AddressFromScVal lib) v) (\<lambda>x. s\<lparr>SourceChainConfig_LaneMandatedCcvs := x\<rparr>)
      else if key = ''on_ramps'' then put (vec_of ''on_ramps is not a vec'' (bytes_item ''vec item is not bytes'') v) (\<lambda>x. s\<lparr>SourceChainConfig_OnRamps := x\<rparr>)
      else if key = ''router'' then put (named ''router'' (AddressFromScVal lib v)) (\<lambda>x. s\<lparr>SourceChainConfig_Router := x\<rparr>)
      else Ok s)"

definition SourceChainConfigFromScVal :: "sdk \<Rightarrow> ScVal \<Rightarrow> SourceChainConfig result" where
  "SourceChainConfigFromScVal lib = parse_struct ''not a map type'' (SourceChainConfig_entry lib) zero_SourceChainConfig"

record SourceChainConfigArgs =
  SourceChainConfigArgs_DefaultCcvs :: "string list"
  SourceChainConfigArgs_IsEnabled :: bool
  SourceChainConfigArgs_LaneMandatedCcvs :: "string list"
  SourceChainConfigArgs_OnRamps :: "bytes list"
  SourceChainConfigArgs_Router :: string
  SourceChainConfigArgs_SourceChainSelector :: int

definition zero_SourceChainConfigArgs :: SourceChainConfigArgs where
  "zero_SourceChainConfigArgs = \<lparr>SourceChainConfigArgs_DefaultCcvs = [], SourceChainConfigArgs_IsEnabled = False,
     SourceChainConfigArgs_LaneMandatedCcvs = [], SourceChainConfigArgs_OnRamps = [],
     SourceChainConfigArgs_Router = [], SourceChainConfigArgs_SourceChainSelector = 0\<rparr>"

definition SourceChainConfigArgs_ToScVal :: "sdk \<Rightarrow> SourceChainConfigArgs \<Rightarrow> ScVal result" where
  "SourceChainConfigArgs_ToScVal lib s = build_struct [
     (''default_ccvs'', Ok (AddressSliceToScVal lib (SourceChainConfigArgs_DefaultCcvs s))),
     (''is_enabled'', Ok (BoolToScVal (SourceChainConfigArgs_IsEnabled s))),
     (''lane_mandated_ccvs'', Ok (AddressSliceToScVal lib (SourceChainConfigArgs_LaneMandatedCcvs s))),
     (''on_ramps'', Ok (BytesSliceToScVal (SourceChainConfigArgs_OnRamps s))),
     (''router'', Ok (AddressToScVal lib (SourceChainConfigArgs_Router s))),
     (''source_chain_selector'', Ok (Uint64ToScVal (SourceChainConfigArgs_SourceChainSelector s)))]"

definition SourceChainConfigArgs_entry :: "sdk \<Rightarrow> string \<Rightarrow> ScVal \<Rightarrow> SourceChainConfigArgs \<Rightarrow> SourceChainConfigArgs result" where
  "SourceChainConfigArgs_entry lib key v s =
     (if key = ''default_ccvs'' then put (vec_of ''default_ccvs is not a vec'' (AddressFromScVal lib) v) (\<lambda>x. s\<lparr>SourceChainConfigArgs_DefaultCcvs := x\<rparr>)
      else if key = ''is_enabled'' then put (need ''is_enabled is not bool'' (GetB v)) (\<lambda>x. s\<lparr>SourceChainConfigArgs_IsEnabled := x\<rparr>)
      else if key = ''lane_mandated_ccvs'' then put (vec_of ''lane_mandated_ccvs is not a vec'' (AddressFromScVal lib) v) (\<lambda>x. s\<lparr>SourceChainConfigArgs_LaneMandatedCcvs := x\<rparr>)
      else if key = ''on_ramps'' then put (vec_of ''on_ramps is not a vec'' (bytes_item ''vec item is not bytes'') v) (\<lambda>x. s\<lparr>SourceChainConfigArgs_OnRamps := x\<rparr>)
      else if key = ''router'' then put (named ''router'' (AddressFromScVal lib v)) (\<lambda>x. s\<lparr>SourceChainConfigArgs_Router := x\<rparr>)
      else if key = ''source_chain_selector'' then put (named ''source_chain_selector'' (Uint64FromScVal v)) (\<lambda>x. s\<lparr>SourceChainConfigArgs_SourceChainSelector := x\<rparr>)
      else Ok s)"

definition SourceChainConfigArgsFromScVal :: "sdk \<Rightarrow> ScVal \<Rightarrow> SourceChainConfigArgs result" where
  "SourceChainConfigArgsFromScVal lib = parse_struct ''not a map type'' (SourceChainConfigArgs_entry lib) zero_SourceChainConfigArgs"

section \<open>Events\<close>

record StaticConfigSetEvent =
  StaticConfigSetEvent_StaticConfig :: StaticConfig
  StaticConfigSetEvent_Ledger :: int
  StaticConfigSetEvent_TxHash :: string

definition StaticConfigSetEvent_entry :: "sdk \<Rightarrow> string \<Rightarrow> ScVal \<Rightarrow> StaticConfigSetEvent \<Rightarrow> StaticConfigSetEvent result" where
  "StaticConfigSetEvent_entry lib key v s =
     (if key = ''static_config'' then set_if_ok (StaticConfigFromScVal lib v) (\<lambda>x s. s\<lparr>StaticConfigSetEvent_StaticConfig := x\<rparr>) s
      else Ok s)"

definition ParseStaticConfigSetEvent :: "sdk \<Rightarrow> EventInfo \<Rightarrow> StaticConfigSetEvent result" where
  "ParseStaticConfigSetEvent lib = parse_event lib (StaticConfigSetEvent_entry lib) (\<lambda>ledger tx.
     \<lparr>StaticConfigSetEvent_StaticConfig = zero_StaticConfig, StaticConfigSetEvent_Ledger = ledger,
        StaticConfigSetEvent_TxHash = tx\<rparr>)"

record SourceChainConfigSetEvent =
  SourceChainConfigSetEvent_SourceChainSelector :: int
  SourceChainConfigSetEvent_SourceConfig :: SourceChainConfig
  SourceChainConfigSetEvent_Ledger :: int
  SourceChainConfigSetEvent_TxHash :: string

definition SourceChainConfigSetEvent_entry :: "sdk \<Rightarrow> string \<Rightarrow> ScVal \<Rightarrow> SourceChainConfigSetEvent \<Rightarrow> SourceChainConfigSetEvent result" where
  "SourceChainConfigSetEvent_entry lib key v s =
     (if key = ''source_chain_selector'' then set_if_ok (Uint64FromScVal v) (\<lambda>x s. s\<lparr>SourceChainConfigSetEvent_SourceChainSelector := x\<rparr>) s
      else if key = ''source_config'' then set_if_ok (SourceChainConfigFromScVal lib v) (\<lambda>x s. s\<lparr>SourceChainConfigSetEvent_SourceConfig := x\<rparr>) s
      else Ok s)"

definition ParseSourceChainConfigSetEvent :: "sdk \<Rightarrow> EventInfo \<Rightarrow> SourceChainConfigSetEvent result" where
  "ParseSourceChainConfigSetEvent lib = parse_event lib (SourceChainConfigSetEvent_entry lib) (\<lambda>ledger tx.
     \<lparr>SourceChainConfigSetEvent_SourceChainSelector = 0,
        SourceChainConfigSetEvent_SourceConfig = zero_SourceChainConfig, SourceChainConfigSetEvent_Ledger = ledger,
        SourceChainConfigSetEvent_TxHash = tx\<rparr>)"

record ExecutionStateChangedEvent =
  ExecutionStateChangedEvent_SourceChainSelector :: int
  ExecutionStateChangedEvent_SequenceNumber :: int
  ExecutionStateChangedEvent_MessageId :: bytes
  ExecutionStateChangedEvent_State :: int
  ExecutionStateChangedEvent_ReturnData :: bytes
  ExecutionStateChangedEvent_Ledger :: int
  ExecutionStateChangedEvent_TxHash :: string

definition ExecutionStateChangedEvent_entry :: "sdk \<Rightarrow> string \<Rightarrow> ScVal \<Rightarrow> ExecutionStateChangedEvent \<Rightarrow> ExecutionStateChangedEvent result" where
  "ExecutionStateChangedEvent_entry lib key v s =
     (if key = ''source_chain_selector'' then set_if_ok (Uint64FromScVal v) (\<lambda>x s. s\<lparr>ExecutionStateChangedEvent_SourceChainSelector := x\<rparr>) s
      else if key = ''sequence_number'' then set_if_ok (Uint64FromScVal v) (\<lambda>x s. s\<lparr>ExecutionStateChangedEvent_SequenceNumber := x\<rparr>) s
      else if key = ''message_id'' then set_if_ok (Bytes32FromScVal v) (\<lambda>x s. s\<lparr>ExecutionStateChangedEvent_MessageId := x\<rparr>) s
      else if key = ''state'' then set_if_ok (MessageExecutionStateFromScVal v) (\<lambda>x s. s\<lparr>ExecutionStateChangedEvent_State := x\<rparr>) s
      else if key = ''return_data'' then set_if (GetBytes v) (\<lambda>x s. s\<lparr>ExecutionStateChangedEvent_ReturnData := x\<rparr>) s
      else Ok s)"

definition ParseExecutionStateChangedEvent :: "sdk \<Rightarrow> EventInfo \<Rightarrow> ExecutionStateChangedEvent result" where
  "ParseExecutionStateChangedEvent lib = parse_event lib (ExecutionStateChangedEvent_entry lib) (\<lambda>ledger tx.
     \<lparr>ExecutionStateChangedEvent_SourceChainSelector = 0, ExecutionStateChangedEvent_SequenceNumber = 0,
        ExecutionStateChangedEvent_MessageId = replicate 32 0, ExecutionStateChangedEvent_State = 0,
        ExecutionStateChangedEvent_ReturnData = [], ExecutionStateChangedEvent_Ledger = ledger,
        ExecutionStateChangedEvent_TxHash = tx\<rparr>)"

section \<open>The client\<close>

definition NewOffRampClient :: "'s Invoker \<Rightarrow> string \<Rightarrow> 's Client" where
  "NewOffRampClient ivk contractID = mk_client ivk contractID"

definition ContractID :: "'s Client \<Rightarrow> string" where
  "ContractID c = cl_contractID c"

definition Init :: "sdk \<Rightarrow> 's Client \<Rightarrow> string \<Rightarrow> ('s, unit result) state" where
  "Init lib c rmnProxy = invoke_void c ''init'' [Ok (AddressToScVal lib rmnProxy)]"

definition Owner :: "sdk \<Rightarrow> 's Client \<Rightarrow> ('s, (string option) result) state" where
  "Owner lib c = simulate_value c ''owner'' [] (OptionalAddressFromScVal lib)"

definition Execute :: "sdk \<Rightarrow> 's Client \<Rightarrow> bytes \<Rightarrow> string list \<Rightarrow> bytes list \<Rightarrow> int \<Rightarrow> ('s, unit result) state" where
  "Execute lib c encodedMessage ccvs verifierResults gasLimitOverride =
     invoke_void c ''execute'' [
       Ok (BytesToScVal encodedMessage), Ok (AddressSliceToScVal lib ccvs), Ok (BytesSliceToScVal verifierResults),
       Ok (Uint32ToScVal gasLimitOverride)]"

definition IsOwner :: "sdk \<Rightarrow> 's Client \<Rightarrow> string \<Rightarrow> ('s, bool result) state" where
  "IsOwner lib c addr =
     simulate_value c ''is_owner'' [
       Ok (AddressToScVal lib addr)] (\<lambda>v. need ''expected bool return type'' (GetB v))"

definition IsCursed :: "sdk \<Rightarrow> 's Client \<Rightarrow> ('s, bool result) state" where
  "IsCursed lib c = simulate_value c ''is_cursed'' [] (\<lambda>v. need ''expected bool return type'' (GetB v))"

definition InitOwner :: "sdk \<Rightarrow> 's Client \<Rightarrow> string \<Rightarrow> ('s, unit result) state" where
  "InitOwner lib c owner = invoke_void c ''init_owner'' [Ok (AddressToScVal lib owner)]"

definition Initialize :: "sdk \<Rightarrow> 's Client \<Rightarrow> string \<Rightarrow> StaticConfig \<Rightarrow> ('s, unit result) state" where
  "Initialize lib c owner staticConfig =
     invoke_void c ''initialize'' [
       Ok (AddressToScVal lib owner), MustToScVal (StaticConfig_ToScVal lib staticConfig)]"

definition RequireOwner :: "sdk \<Rightarrow> 's Client \<Rightarrow> ('s, string result) state" where
  "RequireOwner lib c = invoke_value c ''require_owner'' [] (AddressFromScVal lib)"

definition SetNewOwner :: "sdk \<Rightarrow> 's Client \<Rightarrow> string \<Rightarrow> ('s, unit result) state" where
  "SetNewOwner lib c newOwner = invoke_void c ''set_new_owner'' [Ok (AddressToScVal lib newOwner)]"

definition AcceptOwnership :: "sdk \<Rightarrow> 's Client \<Rightarrow> ('s, unit result) state" where
  "AcceptOwnership lib c = invoke_void c ''accept_ownership'' []"

definition TypeAndVersion :: "sdk \<Rightarrow> 's Client \<Rightarrow> ('s, string result) state" where
  "TypeAndVersion lib c = invoke_value c ''type_and_version'' [] (StringFromScVal)"

definition GetPendingOwner :: "sdk \<Rightarrow> 's Client \<Rightarrow> ('s, (string option) result) state" where
  "GetPendingOwner lib c = simulate_value c ''get_pending_owner'' [] (OptionalAddressFromScVal lib)"

definition GetStaticConfig :: "sdk \<Rightarrow> 's Client \<Rightarrow> ('s, StaticConfig result) state" where
  "GetStaticConfig lib c = simulate_value c ''get_static_config'' [] (StaticConfigFromScVal lib)"

definition IsSubjectCursed :: "sdk \<Rightarrow> 's Client \<Rightarrow> bytes \<Rightarrow> ('s, bool result) state" where
  "IsSubjectCursed lib c subject =
     simulate_value c ''is_subject_cursed'' [
       Ok (Bytes16ToScVal subject)] (\<lambda>v. need ''expected bool return type'' (GetB v))"

definition RequireNotCursed :: "sdk \<Rightarrow> 's Client \<Rightarrow> ('s, unit result) state" where
  "RequireNotCursed lib c = invoke_void c ''require_not_cursed'' []"

definition TransferOwnership :: "sdk \<Rightarrow> 's Client \<Rightarrow> string \<Rightarrow> ('s, unit result) state" where
  "TransferOwnership lib c newOwner = invoke_void c ''transfer_ownership'' [Ok (AddressToScVal lib newOwner)]"

definition GetExecutionState :: "sdk \<Rightarrow> 's Client \<Rightarrow> bytes \<Rightarrow> ('s, int result) state" where
  "GetExecutionState lib c messageId =
     simulate_value c ''get_execution_state'' [Ok (Bytes32ToScVal messageId)] (MessageExecutionStateFromScVal)"

definition GetSourceChainConfig :: "sdk \<Rightarrow> 's Client \<Rightarrow> int \<Rightarrow> ('s, SourceChainConfig result) state" where
  "GetSourceChainConfig lib c sourceChainSelector =
     simulate_value c ''get_source_chain_config'' [
       Ok (Uint64ToScVal sourceChainSelector)] (SourceChainConfigFromScVal lib)"

definition RequireChainNotCursed :: "sdk \<Rightarrow> 's Client \<Rightarrow> int \<Rightarrow> ('s, unit result) state" where
  "RequireChainNotCursed lib c chainSelector =
     invoke_void c ''require_chain_not_cursed'' [Ok (Uint64ToScVal chainSelector)]"

definition CancelOwnershipTransfer :: "sdk \<Rightarrow> 's Client \<Rightarrow> ('s, unit result) state" where
  "CancelOwnershipTransfer lib c = invoke_void c ''cancel_ownership_transfer'' []"

definition ExtendExecutionStateTtl :: "sdk \<Rightarrow> 's Client \<Rightarrow> bytes \<Rightarrow> ('s, unit result) state" where
  "ExtendExecutionStateTtl lib c messageId =
     invoke_void c ''extend_execution_state_ttl'' [Ok (Bytes32ToScVal messageId)]"

definition RequireSubjectNotCursed :: "sdk \<Rightarrow> 's Client \<Rightarrow> bytes \<Rightarrow> ('s, unit result) state" where
  "RequireSubjectNotCursed lib c subject = invoke_void c ''require_subject_not_cursed'' [Ok (Bytes16ToScVal subject)]"

definition GetAllSourceChainConfigs :: "sdk \<Rightarrow> 's Client \<Rightarrow> ('s, ((int list) \<times> (SourceChainConfig list)) result) state" where
  "GetAllSourceChainConfigs lib c =
     simulate_value c ''get_all_source_chain_configs'' []
       (pair_of ''expected vec for tuple return'' (tuple_vec 0 (Uint64FromScVal)) (tuple_vec 1 (SourceChainConfigFromScVal lib)))"

definition ApplySourceChainCfgUpdates :: "sdk \<Rightarrow> 's Client \<Rightarrow> SourceChainConfigArgs list \<Rightarrow> ('s, unit result) state" where
  "ApplySourceChainCfgUpdates lib c sourceChainConfigArgs =
     invoke_void c ''apply_source_chain_cfg_updates'' [
       StructSliceToScVal (SourceChainConfigArgs_ToScVal lib) sourceChainConfigArgs]"

section \<open>Waiting for events\<close>

definition RoleGrantedEventTopic :: string where
  "RoleGrantedEventTopic = ''auth_RoleGranted''"

definition WaitForRoleGrantedEvent :: "sdk \<Rightarrow> 's Client \<Rightarrow> int \<Rightarrow> int \<Rightarrow> (RoleGrantedEvent \<Rightarrow> bool) option \<Rightarrow> wait_round list \<Rightarrow> ('s, RoleGrantedEvent result option) state" where
  "WaitForRoleGrantedEvent lib c = wait_for c RoleGrantedEventTopic (ParseRoleGrantedEvent lib)"

definition RoleRevokedEventTopic :: string where
  "RoleRevokedEventTopic = ''auth_RoleRevoked''"

definition WaitForRoleRevokedEvent :: "sdk \<Rightarrow> 's Client \<Rightarrow> int \<Rightarrow> int \<Rightarrow> (RoleRevokedEvent \<Rightarrow> bool) option \<Rightarrow> wait_round list \<Rightarrow> ('s, RoleRevokedEvent result option) state" where
  "WaitForRoleRevokedEvent lib c = wait_for c RoleRevokedEventTopic (ParseRoleRevokedEvent lib)"

definition AuthorizedCallerAddedEventTopic :: string where
  "AuthorizedCallerAddedEventTopic = ''auth_CallerAdded''"

definition WaitForAuthorizedCallerAddedEvent :: "sdk \<Rightarrow> 's Client \<Rightarrow> int \<Rightarrow> int \<Rightarrow> (AuthorizedCallerAddedEvent \<Rightarrow> bool) option \<Rightarrow> wait_round list \<Rightarrow> ('s, AuthorizedCallerAddedEvent result option) state" where
  "WaitForAuthorizedCallerAddedEvent lib c = wait_for c AuthorizedCallerAddedEventTopic (ParseAuthorizedCallerAddedEvent lib)"

definition AuthorizedCallerRemovedEventTopic :: string where
  "AuthorizedCallerRemovedEventTopic = ''auth_CallerRemoved''"

definition WaitForAuthorizedCallerRemovedEvent :: "sdk \<Rightarrow> 's Client \<Rightarrow> int \<Rightarrow> int \<Rightarrow> (AuthorizedCallerRemovedEvent \<Rightarrow> bool) option \<Rightarrow> wait_round list \<Rightarrow> ('s, AuthorizedCallerRemovedEvent result option) state" where
  "WaitForAuthorizedCallerRemovedEvent lib c = wait_for c AuthorizedCallerRemovedEventTopic (ParseAuthorizedCallerRemovedEvent lib)"

definition OwnershipTransferStartedEventTopic :: string where
  "OwnershipTransferStartedEventTopic = ''auth_OwnerTransferStart''"

definition WaitForOwnershipTransferStartedEvent :: "sdk \<Rightarrow> 's Client \<Rightarrow> int \<Rightarrow> int \<Rightarrow> (OwnershipTransferStartedEvent \<Rightarrow> bool) option \<Rightarrow> wait_round list \<Rightarrow> ('s, OwnershipTransferStartedEvent result option) state" where
  "WaitForOwnershipTransferStartedEvent lib c = wait_for c OwnershipTransferStartedEventTopic (ParseOwnershipTransferStartedEvent lib)"

definition StaticConfigSetEventTopic :: string where
  "StaticConfigSetEventTopic = ''offramp_1_7_StaticConfigSet''"

definition WaitForStaticConfigSetEvent :: "sdk \<Rightarrow> 's Client \<Rightarrow> int \<Rightarrow> int \<Rightarrow> (StaticConfigSetEvent \<Rightarrow> bool) option \<Rightarrow> wait_round list \<Rightarrow> ('s, StaticConfigSetEvent result option) state" where
  "WaitForStaticConfigSetEvent lib c = wait_for c StaticConfigSetEventTopic (ParseStaticConfigSetEvent lib)"

definition SourceChainConfigSetEventTopic :: string where
  "SourceChainConfigSetEventTopic = ''offramp_1_7_SrcChainCfgSet''"

definition WaitForSourceChainConfigSetEvent :: "sdk \<Rightarrow> 's Client \<Rightarrow> int \<Rightarrow> int \<Rightarrow> (SourceChainConfigSetEvent \<Rightarrow> bool) option \<Rightarrow> wait_round list \<Rightarrow> ('s, SourceChainConfigSetEvent result option) state" where
  "WaitForSourceChainConfigSetEvent lib c = wait_for c SourceChainConfigSetEventTopic (ParseSourceChainConfigSetEvent lib)"

definition ExecutionStateChangedEventTopic :: string where
  "ExecutionStateChangedEventTopic = ''offramp_1_7_ExecStateChanged''"

definition WaitForExecutionStateChangedEvent :: "sdk \<Rightarrow> 's Client \<Rightarrow> int \<Rightarrow> int \<Rightarrow> (ExecutionStateChangedEvent \<Rightarrow> bool) option \<Rightarrow> wait_round list \<Rightarrow> ('s, ExecutionStateChangedEvent result option) state" where
  "WaitForExecutionStateChangedEvent lib c = wait_for c ExecutionStateChangedEventTopic (ParseExecutionStateChangedEvent lib)"

section \<open>Round trips\<close>

definition valid_StaticConfig :: "sdk \<Rightarrow> StaticConfig \<Rightarrow> bool" where
  "valid_StaticConfig lib s \<longleftrightarrow> is_address lib (StaticConfig_RmnProxy s) \<and> is_address lib (StaticConfig_TokenAdminRegistry s)"

lemma offramp_StaticConfig_keys: "sort [''chain_selector'', ''rmn_proxy'', ''token_admin_registry''] =
    [''chain_selector'', ''rmn_proxy'', ''token_admin_registry'']"
  by simp

lemma offramp_StaticConfig_codec:
  assumes "sdk_laws lib"
  shows "codec (StaticConfig_ToScVal lib) (StaticConfigFromScVal lib) (valid_StaticConfig lib)"
proof (rule codecI)
  show "\<exists>v. StaticConfig_ToScVal lib s = Ok v \<and> StaticConfigFromScVal lib v = Ok s" if ok: "valid_StaticConfig lib s" for s
    using ok assms
    by (cases s) (simp add: StaticConfig_ToScVal_def StaticConfigFromScVal_def StaticConfig_entry_def zero_StaticConfig_def valid_StaticConfig_def
        offramp_StaticConfig_keys struct_codec_simps del: sort_key_simps fold_entries.simps(2))
qed

definition valid_SourceChainConfig :: "sdk \<Rightarrow> SourceChainConfig \<Rightarrow> bool" where
  "valid_SourceChainConfig lib s \<longleftrightarrow> list_all (is_address lib) (SourceChainConfig_DefaultCcvs s) \<and>
     list_all (is_address lib) (SourceChainConfig_LaneMandatedCcvs s) \<and>
     is_address lib (SourceChainConfig_Router s)"

lemma offramp_SourceChainConfig_keys: "sort [''default_ccvs'', ''is_enabled'', ''lane_mandated_ccvs'', ''on_ramps'', ''router''] =
    [''default_ccvs'', ''is_enabled'', ''lane_mandated_ccvs'', ''on_ramps'', ''router'']"
  by simp

lemma offramp_SourceChainConfig_codec:
  assumes "sdk_laws lib"
  shows "codec (SourceChainConfig_ToScVal lib) (SourceChainConfigFromScVal lib) (valid_SourceChainConfig lib)"
proof (rule codecI)
  show "\<exists>v. SourceChainConfig_ToScVal lib s = Ok v \<and> SourceChainConfigFromScVal lib v = Ok s" if ok: "valid_SourceChainConfig lib s" for s
    using ok assms
    by (cases s) (simp add: SourceChainConfig_ToScVal_def SourceChainConfigFromScVal_def SourceChainConfig_entry_def zero_SourceChainConfig_def valid_SourceChainConfig_def
        offramp_SourceChainConfig_keys struct_codec_simps del: sort_key_simps fold_entries.simps(2))
qed

definition valid_SourceChainConfigArgs :: "sdk \<Rightarrow> SourceChainConfigArgs \<Rightarrow> bool" where
  "valid_SourceChainConfigArgs lib s \<longleftrightarrow> list_all (is_address lib) (SourceChainConfigArgs_DefaultCcvs s) \<and>
     list_all (is_address lib) (SourceChainConfigArgs_LaneMandatedCcvs s) \<and>
     is_address lib (SourceChainConfigArgs_Router s)"

lemma offramp_SourceChainConfigArgs_keys: "sort [''default_ccvs'', ''is_enabled'', ''lane_mandated_ccvs'', ''on_ramps'', ''router'', ''source_chain_selector''] =
    [''default_ccvs'', ''is_enabled'', ''lane_mandated_ccvs'', ''on_ramps'', ''router'', ''source_chain_selector'']"
  by simp

lemma offramp_SourceChainConfigArgs_codec:
  assumes "sdk_laws lib"
  shows "codec (SourceChainConfigArgs_ToScVal lib) (SourceChainConfigArgsFromScVal lib) (valid_SourceChainConfigArgs lib)"
proof (rule codecI)
  show "\<exists>v. SourceChainConfigArgs_ToScVal lib s = Ok v \<and> SourceChainConfigArgsFromScVal lib v = Ok s" if ok: "valid_SourceChainConfigArgs lib s" for s
    using ok assms
    by (cases s) (simp add: SourceChainConfigArgs_ToScVal_def SourceChainConfigArgsFromScVal_def SourceChainConfigArgs_entry_def zero_SourceChainConfigArgs_def valid_SourceChainConfigArgs_def
        offramp_SourceChainConfigArgs_keys struct_codec_simps del: sort_key_simps fold_entries.simps(2))
qed

end
