(* ===== verification/Bind_RampRegistry.thy ===== *)
theory Bind_RampRegistry
  imports Bind_Common
begin

text \<open>
  The generated binding of the ramp registry contract (bindings/contracts/ramp_registry): the types of its own and every
  method of \<open>RampRegistryClient\<close>.
\<close>

section \<open>Structs\<close>

record OffRampKey =
  OffRampKey_Offramp :: string
  OffRampKey_SourceChainSelector :: int

definition zero_OffRampKey :: OffRampKey where
  "zero_OffRampKey = \<lparr>OffRampKey_Offramp = [], OffRampKey_SourceChainSelector = 0\<rparr>"

definition OffRampKey_ToScVal :: "sdk \<Rightarrow> OffRampKey \<Rightarrow> ScVal result" where
  "OffRampKey_ToScVal lib s = build_struct [
     (''offramp'', Ok (AddressToScVal lib (OffRampKey_Offramp s))),
     (''source_chain_selector'', Ok (Uint64ToScVal (OffRampKey_SourceChainSelector s)))]"

definition OffRampKey_entry :: "sdk \<Rightarrow> string \<Rightarrow> ScVal \<Rightarrow> OffRampKey \<Rightarrow> OffRampKey result" where
  "OffRampKey_entry lib key v s =
     (if key = ''offramp'' then put (named ''offramp'' (AddressFromScVal lib v)) (\<lambda>x. s\<lparr>OffRampKey_Offramp := x\<rparr>)
      else if key = ''source_chain_selector'' then put (named ''source_chain_selector'' (Uint64FromScVal v)) (\<lambda>x. s\<lparr>OffRampKey_SourceChainSelector := x\<rparr>)
      else Ok s)"

definition OffRampKeyFromScVal :: "sdk \<Rightarrow> ScVal \<Rightarrow> OffRampKey result" where
  "OffRampKeyFromScVal lib = parse_struct ''not a map type'' (OffRampKey_entry lib) zero_OffRampKey"

record OnRampUpdate =
  OnRampUpdate_DestChainSelector :: int
  OnRampUpdate_Onramp :: "string option"

definition zero_OnRampUpdate :: OnRampUpdate where
  "zero_OnRampUpdate = \<lparr>OnRampUpdate_DestChainSelector = 0, OnRampUpdate_Onramp = None\<rparr>"

definition OnRampUpdate_ToScVal :: "sdk \<Rightarrow> OnRampUpdate \<Rightarrow> ScVal result" where
  "OnRampUpdate_ToScVal lib s = build_struct [
     (''dest_chain_selector'', Ok (Uint64ToScVal (OnRampUpdate_DestChainSelector s))),
     (''onramp'', Ok (OptionalAddressToScVal lib (OnRampUpdate_Onramp s)))]"

definition OnRampUpdate_entry :: "sdk \<Rightarrow> string \<Rightarrow> ScVal \<Rightarrow> OnRampUpdate \<Rightarrow> OnRampUpdate result" where
  "OnRampUpdate_entry lib key v s =
     (if key = ''dest_chain_selector'' then put (named ''dest_chain_selector'' (Uint64FromScVal v)) (\<lambda>x. s\<lparr>OnRampUpdate_DestChainSelector := x\<rparr>)
      else if key = ''onramp'' then put (named ''onramp'' (OptionalAddressFromScVal lib v)) (\<lambda>x. s\<lparr>OnRampUpdate_Onramp := x\<rparr>)
      else Ok s)"

definition OnRampUpdateFromScVal :: "sdk \<Rightarrow> ScVal \<Rightarrow> OnRampUpdate result" where
  "OnRampUpdateFromScVal lib = parse_struct ''not a map type'' (OnRampUpdate_entry lib) zero_OnRampUpdate"

record OffRampUpdate =
  OffRampUpdate_Enabled :: bool
  OffRampUpdate_Offramp :: string
  OffRampUpdate_SourceChainSelector :: int

definition zero_OffRampUpdate :: OffRampUpdate where
  "zero_OffRampUpdate = \<lparr>OffRampUpdate_Enabled = False, OffRampUpdate_Offramp = [], OffRampUpdate_SourceChainSelector = 0\<rparr>"

definition OffRampUpdate_ToScVal :: "sdk \<Rightarrow> OffRampUpdate \<Rightarrow> ScVal result" where
  "OffRampUpdate_ToScVal lib s = build_struct [
     (''enabled'', Ok (BoolToScVal (OffRampUpdate_Enabled s))),
     (''offramp'', Ok (AddressToScVal lib (OffRampUpdate_Offramp s))),
     (''source_chain_selector'', Ok (Uint64ToScVal (OffRampUpdate_SourceChainSelector s)))]"

definition OffRampUpdate_entry :: "sdk \<Rightarrow> string \<Rightarrow> ScVal \<Rightarrow> OffRampUpdate \<Rightarrow> OffRampUpdate result" where
  "OffRampUpdate_entry lib key v s =
     (if key = ''enabled'' then put (need ''enabled is not bool'' (GetB v)) (\<lambda>x. s\<lparr>OffRampUpdate_Enabled := x\<rparr>)
      else if key = ''offramp'' then put (named ''offramp'' (AddressFromScVal lib v)) (\<lambda>x. s\<lparr>OffRampUpdate_Offramp := x\<rparr>)
      else if key = ''source_chain_selector'' then put (named ''source_chain_selector'' (Uint64FromScVal v)) (\<lambda>x. s\<lparr>OffRampUpdate_SourceChainSelector := x\<rparr>)
      else Ok s)"

definition OffRampUpdateFromScVal :: "sdk \<Rightarrow> ScVal \<Rightarrow> OffRampUpdate result" where
  "OffRampUpdateFromScVal lib = parse_struct ''not a map type'' (OffRampUpdate_entry lib) zero_OffRampUpdate"

section \<open>Events\<close>

record OnRampRemovedEvent =
  OnRampRemovedEvent_DestChainSelector :: int
  OnRampRemovedEvent_Ledger :: int
  OnRampRemovedEvent_TxHash :: string

definition OnRampRemovedEvent_entry :: "sdk \<Rightarrow> string \<Rightarrow> ScVal \<Rightarrow> OnRampRemovedEvent \<Rightarrow> OnRampRemovedEvent result" where
  "OnRampRemovedEvent_entry lib key v s =
     (if key = ''dest_chain_selector'' then set_if_ok (Uint64FromScVal v) (\<lambda>x s. s\<lparr>OnRampRemovedEvent_DestChainSelector := x\<rparr>) s
      else Ok s)"

definition ParseOnRampRemovedEvent :: "sdk \<Rightarrow> EventInfo \<Rightarrow> OnRampRemovedEvent result" where
  "ParseOnRampRemovedEvent lib = parse_event lib (OnRampRemovedEvent_entry lib) (\<lambda>ledger tx.
     \<lparr>OnRampRemovedEvent_DestChainSelector = 0, OnRampRemovedEvent_Ledger = ledger, OnRampRemovedEvent_TxHash = tx\<rparr>)"

section \<open>The client\<close>

definition NewRampRegistryClient :: "'s Invoker \<Rightarrow> string \<Rightarrow> 's Client" where
  "NewRampRegistryClient ivk contractID = mk_client ivk contractID"

definition ContractID :: "'s Client \<Rightarrow> string" where
  "ContractID c = cl_contractID c"

definition Owner :: "sdk \<Rightarrow> 's Client \<Rightarrow> ('s, (string option) result) state" where
  "Owner lib c = simulate_value c ''owner'' [] (OptionalAddressFromScVal lib)"

definition IsOwner :: "sdk \<Rightarrow> 's Client \<Rightarrow> string \<Rightarrow> ('s, bool result) state" where
  "IsOwner lib c addr =
     simulate_value c ''is_owner'' [
       Ok (AddressToScVal lib addr)] (\<lambda>v. need ''expected bool return type'' (GetB v))"

definition GetOnramp :: "sdk \<Rightarrow> 's Client \<Rightarrow> int \<Rightarrow> ('s, string result) state" where
  "GetOnramp lib c destChainSelector =
     simulate_value c ''get_onramp'' [Ok (Uint64ToScVal destChainSelector)] (AddressFromScVal lib)"

definition InitOwner :: "sdk \<Rightarrow> 's Client \<Rightarrow> string \<Rightarrow> ('s, unit result) state" where
  "InitOwner lib c owner = invoke_void c ''init_owner'' [Ok (AddressToScVal lib owner)]"

definition Initialize :: "sdk \<Rightarrow> 's Client \<Rightarrow> string \<Rightarrow> ('s, unit result) state" where
  "Initialize lib c owner = invoke_void c ''initialize'' [Ok (AddressToScVal lib owner)]"

definition IsOfframp :: "sdk \<Rightarrow> 's Client \<Rightarrow> int \<Rightarrow> string \<Rightarrow> ('s, bool result) state" where
  "IsOfframp lib c sourceChainSelector offramp =
     simulate_value c ''is_offramp'' [
       Ok (Uint64ToScVal sourceChainSelector), Ok (AddressToScVal lib offramp)] (\<lambda>v. need ''expected bool return type'' (GetB v))"

definition GetOnramps :: "sdk \<Rightarrow> 's Client \<Rightarrow> ('s, (OnRampEntry list) result) state" where
  "GetOnramps lib c =
     simulate_value c ''get_onramps'' [] (vec_of ''expected vec return type'' (OnRampEntryFromScVal lib))"

definition GetOfframps :: "sdk \<Rightarrow> 's Client \<Rightarrow> ('s, (OffRampEntry list) result) state" where
  "GetOfframps lib c =
     simulate_value c ''get_offramps'' [] (vec_of ''expected vec return type'' (OffRampEntryFromScVal lib))"

definition RequireOwner :: "sdk \<Rightarrow> 's Client \<Rightarrow> ('s, string result) state" where
  "RequireOwner lib c = invoke_value c ''require_owner'' [] (AddressFromScVal lib)"

definition SetNewOwner :: "sdk \<Rightarrow> 's Client \<Rightarrow> string \<Rightarrow> ('s, unit result) state" where
  "SetNewOwner lib c newOwner = invoke_void c ''set_new_owner'' [Ok (AddressToScVal lib newOwner)]"

definition AcceptOwnership :: "sdk \<Rightarrow> 's Client \<Rightarrow> ('s, unit result) state" where
  "AcceptOwnership lib c = invoke_void c ''accept_ownership'' []"

definition TypeAndVersion :: "sdk \<Rightarrow> 's Client \<Rightarrow> ('s, string result) state" where
  "TypeAndVersion lib c = invoke_value c ''type_and_version'' [] (StringFromScVal)"

definition GetPendingOwner :: "sdk \<Rightarrow> 's Client \<Rightarrow> ('s, (string option) result) state" where
  "GetPendingOwner lib c = simulate_value c ''get_pending_owner'' [] (OptionalAddressFromScVal lib)"

definition TransferOwnership :: "sdk \<Rightarrow> 's Client \<Rightarrow> string \<Rightarrow> ('s, unit result) state" where
  "TransferOwnership lib c newOwner = invoke_void c ''transfer_ownership'' [Ok (AddressToScVal lib newOwner)]"

definition ApplyOnrampUpdates :: "sdk \<Rightarrow> 's Client \<Rightarrow> OnRampUpdate list \<Rightarrow> ('s, unit result) state" where
  "ApplyOnrampUpdates lib c updates =
     invoke_void c ''apply_onramp_updates'' [StructSliceToScVal (OnRampUpdate_ToScVal lib) updates]"

definition ApplyOfframpUpdates :: "sdk \<Rightarrow> 's Client \<Rightarrow> OffRampUpdate list \<Rightarrow> ('s, unit result) state" where
  "ApplyOfframpUpdates lib c updates =
     invoke_void c ''apply_offramp_updates'' [StructSliceToScVal (OffRampUpdate_ToScVal lib) updates]"

definition CancelOwnershipTransfer :: "sdk \<Rightarrow> 's Client \<Rightarrow> ('s, unit result) state" where
  "CancelOwnershipTransfer lib c = invoke_void c ''cancel_ownership_transfer'' []"

section \<open>Waiting for events\<close>

definition OnRampSetEventTopic :: string where
  "OnRampSetEventTopic = ''ramp_reg_OnRampSet''"

definition WaitForOnRampSetEvent :: "sdk \<Rightarrow> 's Client \<Rightarrow> int \<Rightarrow> int \<Rightarrow> (OnRampSetEvent \<Rightarrow> bool) option \<Rightarrow> wait_round list \<Rightarrow> ('s, OnRampSetEvent result option) state" where
  "WaitForOnRampSetEvent lib c = wait_for c OnRampSetEventTopic (ParseOnRampSetEvent lib)"

definition OffRampAddedEventTopic :: string where
  "OffRampAddedEventTopic = ''ramp_reg_OffRampAdded''"

definition WaitForOffRampAddedEvent :: "sdk \<Rightarrow> 's Client \<Rightarrow> int \<Rightarrow> int \<Rightarrow> (OffRampAddedEvent \<Rightarrow> bool) option \<Rightarrow> wait_round list \<Rightarrow> ('s, OffRampAddedEvent result option) state" where
  "WaitForOffRampAddedEvent lib c = wait_for c OffRampAddedEventTopic (ParseOffRampAddedEvent lib)"

definition OnRampRemovedEventTopic :: string where
  "OnRampRemovedEventTopic = ''ramp_reg_OnRampRemoved''"

definition WaitForOnRampRemovedEvent :: "sdk \<Rightarrow> 's Client \<Rightarrow> int \<Rightarrow> int \<Rightarrow> (OnRampRemovedEvent \<Rightarrow> bool) option \<Rightarrow> wait_round list \<Rightarrow> ('s, OnRampRemovedEvent result option) state" where
  "WaitForOnRampRemovedEvent lib c = wait_for c OnRampRemovedEventTopic (ParseOnRampRemovedEvent lib)"

definition OffRampRemovedEventTopic :: string where
  "OffRampRemovedEventTopic = ''ramp_reg_OffRampRemoved''"

definition WaitForOffRampRemovedEvent :: "sdk \<Rightarrow> 's Client \<Rightarrow> int \<Rightarrow> int \<Rightarrow> (OffRampRemovedEvent \<Rightarrow> bool) option \<Rightarrow> wait_round list \<Rightarrow> ('s, OffRampRemovedEvent result option) state" where
  "WaitForOffRampRemovedEvent lib c = wait_for c OffRampRemovedEventTopic (ParseOffRampRemovedEvent lib)"

section \<open>Round trips\<close>

definition valid_OffRampKey :: "sdk \<Rightarrow> OffRampKey \<Rightarrow> bool" where
  "valid_OffRampKey lib s \<longleftrightarrow> is_address lib (OffRampKey_Offramp s)"

lemma ramp_registry_OffRampKey_keys: "sort [''offramp'', ''source_chain_selector''] =
    [''offramp'', ''source_chain_selector'']"
  by simp

lemma ramp_registry_OffRampKey_codec:
  assumes "sdk_laws lib"
  shows "codec (OffRampKey_ToScVal lib) (OffRampKeyFromScVal lib) (valid_OffRampKey lib)"
proof (rule codecI)
  show "\<exists>v. OffRampKey_ToScVal lib s = Ok v \<and> OffRampKeyFromScVal lib v = Ok s" if ok: "valid_OffRampKey lib s" for s
    using ok assms
    by (cases s) (simp add: OffRampKey_ToScVal_def OffRampKeyFromScVal_def OffRampKey_entry_def zero_OffRampKey_def valid_OffRampKey_def
        ramp_registry_OffRampKey_keys struct_codec_simps del: sort_key_simps fold_entries.simps(2))
qed

definition valid_OnRampUpdate :: "sdk \<Rightarrow> OnRampUpdate \<Rightarrow> bool" where
  "valid_OnRampUpdate lib s \<longleftrightarrow> optional_ok (is_address lib) (OnRampUpdate_Onramp s)"

lemma ramp_registry_OnRampUpdate_keys: "sort [''dest_chain_selector'', ''onramp''] =
    [''dest_chain_selector'', ''onramp'']"
  by simp

lemma ramp_registry_OnRampUpdate_codec:
  assumes "sdk_laws lib"
  shows "codec (OnRampUpdate_ToScVal lib) (OnRampUpdateFromScVal lib) (valid_OnRampUpdate lib)"
proof (rule codecI)
  show "\<exists>v. OnRampUpdate_ToScVal lib s = Ok v \<and> OnRampUpdateFromScVal lib v = Ok s" if ok: "valid_OnRampUpdate lib s" for s
    using ok assms
    by (cases s) (simp add: OnRampUpdate_ToScVal_def OnRampUpdateFromScVal_def OnRampUpdate_entry_def zero_OnRampUpdate_def valid_OnRampUpdate_def
        ramp_registry_OnRampUpdate_keys struct_codec_simps del: sort_key_simps fold_entries.simps(2))
qed

definition valid_OffRampUpdate :: "sdk \<Rightarrow> OffRampUpdate \<Rightarrow> bool" where
  "valid_OffRampUpdate lib s \<longleftrightarrow> is_address lib (OffRampUpdate_Offramp s)"

lemma ramp_registry_OffRampUpdate_keys: "sort [''enabled'', ''offramp'', ''source_chain_selector''] =
    [''enabled'', ''offramp'', ''source_chain_selector'']"
  by simp

lemma ramp_registry_OffRampUpdate_codec:
  assumes "sdk_laws lib"
  shows "codec (OffRampUpdate_ToScVal lib) (OffRampUpdateFromScVal lib) (valid_OffRampUpdate lib)"
proof (rule codecI)
  show "\<exists>v. OffRampUpdate_ToScVal lib s = Ok v \<and> OffRampUpdateFromScVal lib v = Ok s" if ok: "valid_OffRampUpdate lib s" for s
    using ok assms
    by (cases s) (simp add: OffRampUpdate_ToScVal_def OffRampUpdateFromScVal_def OffRampUpdate_entry_def zero_OffRampUpdate_def valid_OffRampUpdate_def
        ramp_registry_OffRampUpdate_keys struct_codec_simps del: sort_key_simps fold_entries.simps(2))
qed

end
