(* ===== verification/Bind_RmnRemote.thy ===== *)
theory Bind_RmnRemote
  imports Bind_Common
begin

text \<open>
  The generated binding of the rmn remote contract (bindings/contracts/rmn_remote): the types of its own and every
  method of \<open>RmnRemoteClient\<close>.
\<close>

section \<open>Events\<close>

record CursedEvent =
  CursedEvent_Subjects :: "bytes list"
  CursedEvent_Ledger :: int
  CursedEvent_TxHash :: string

definition CursedEvent_entry :: "sdk \<Rightarrow> string \<Rightarrow> ScVal \<Rightarrow> CursedEvent \<Rightarrow> CursedEvent result" where
  "CursedEvent_entry lib key v s =
     (if key = ''subjects'' then set_if_vec (items_or (replicate 16 0) (Bytes16FromScVal)) v (\<lambda>x s. s\<lparr>CursedEvent_Subjects := x\<rparr>) s
      else Ok s)"

definition ParseCursedEvent :: "sdk \<Rightarrow> EventInfo \<Rightarrow> CursedEvent result" where
  "ParseCursedEvent lib = parse_event lib (CursedEvent_entry lib) (\<lambda>ledger tx.
     \<lparr>CursedEvent_Subjects = [], CursedEvent_Ledger = ledger, CursedEvent_TxHash = tx\<rparr>)"

record UncursedEvent =
  UncursedEvent_Subjects :: "bytes list"
  UncursedEvent_Ledger :: int
  UncursedEvent_TxHash :: string

definition UncursedEvent_entry :: "sdk \<Rightarrow> string \<Rightarrow> ScVal \<Rightarrow> UncursedEvent \<Rightarrow> UncursedEvent result" where
  "UncursedEvent_entry lib key v s =
     (if key = ''subjects'' then set_if_vec (items_or (replicate 16 0) (Bytes16FromScVal)) v (\<lambda>x s. s\<lparr>UncursedEvent_Subjects := x\<rparr>) s
      else Ok s)"

definition ParseUncursedEvent :: "sdk \<Rightarrow> EventInfo \<Rightarrow> UncursedEvent result" where
  "ParseUncursedEvent lib = parse_event lib (UncursedEvent_entry lib) (\<lambda>ledger tx.
     \<lparr>UncursedEvent_Subjects = [], UncursedEvent_Ledger = ledger, UncursedEvent_TxHash = tx\<rparr>)"

section \<open>The client\<close>

definition NewRmnRemoteClient :: "'s Invoker \<Rightarrow> string \<Rightarrow> 's Client" where
  "NewRmnRemoteClient ivk contractID = mk_client ivk contractID"

definition ContractID :: "'s Client \<Rightarrow> string" where
  "ContractID c = cl_contractID c"

definition Curse :: "sdk \<Rightarrow> 's Client \<Rightarrow> string \<Rightarrow> bytes list \<Rightarrow> ('s, unit result) state" where
  "Curse lib c caller subjects =
     invoke_void c ''curse'' [Ok (AddressToScVal lib caller), Ok (Bytes16SliceToScVal subjects)]"

definition Owner :: "sdk \<Rightarrow> 's Client \<Rightarrow> ('s, (string option) result) state" where
  "Owner lib c = simulate_value c ''owner'' [] (OptionalAddressFromScVal lib)"

definition Uncurse :: "sdk \<Rightarrow> 's Client \<Rightarrow> bytes list \<Rightarrow> ('s, unit result) state" where
  "Uncurse lib c subjects = invoke_void c ''uncurse'' [Ok (Bytes16SliceToScVal subjects)]"

definition IsOwner :: "sdk \<Rightarrow> 's Client \<Rightarrow> string \<Rightarrow> ('s, bool result) state" where
  "IsOwner lib c addr =
     simulate_value c ''is_owner'' [
       Ok (AddressToScVal lib addr)] (\<lambda>v. need ''expected bool return type'' (GetB v))"

definition IsCursed :: "sdk \<Rightarrow> 's Client \<Rightarrow> ('s, bool result) state" where
  "IsCursed lib c = simulate_value c ''is_cursed'' [] (\<lambda>v. need ''expected bool return type'' (GetB v))"

definition InitOwner :: "sdk \<Rightarrow> 's Client \<Rightarrow> string \<Rightarrow> ('s, unit result) state" where
  "InitOwner lib c owner = invoke_void c ''init_owner'' [Ok (AddressToScVal lib owner)]"

definition Initialize :: "sdk \<Rightarrow> 's Client \<Rightarrow> string \<Rightarrow> string list \<Rightarrow> ('s, unit result) state" where
  "Initialize lib c owner curseAdmins =
     invoke_void c ''initialize'' [Ok (AddressToScVal lib owner), Ok (AddressSliceToScVal lib curseAdmins)]"

definition RequireOwner :: "sdk \<Rightarrow> 's Client \<Rightarrow> ('s, string result) state" where
  "RequireOwner lib c = invoke_value c ''require_owner'' [] (AddressFromScVal lib)"

definition SetNewOwner :: "sdk \<Rightarrow> 's Client \<Rightarrow> string \<Rightarrow> ('s, unit result) state" where
  "SetNewOwner lib c newOwner = invoke_void c ''set_new_owner'' [Ok (AddressToScVal lib newOwner)]"

definition AcceptOwnership :: "sdk \<Rightarrow> 's Client \<Rightarrow> ('s, unit result) state" where
  "AcceptOwnership lib c = invoke_void c ''accept_ownership'' []"

definition GetCurseAdmins :: "sdk \<Rightarrow> 's Client \<Rightarrow> ('s, (string list) result) state" where
  "GetCurseAdmins lib c =
     simulate_value c ''get_curse_admins'' [] (vec_of ''expected vec return type'' (AddressFromScVal lib))"

definition TypeAndVersion :: "sdk \<Rightarrow> 's Client \<Rightarrow> ('s, string result) state" where
  "TypeAndVersion lib c = invoke_value c ''type_and_version'' [] (StringFromScVal)"

definition GetPendingOwner :: "sdk \<Rightarrow> 's Client \<Rightarrow> ('s, (string option) result) state" where
  "GetPendingOwner lib c = simulate_value c ''get_pending_owner'' [] (OptionalAddressFromScVal lib)"

definition TransferOwnership :: "sdk \<Rightarrow> 's Client \<Rightarrow> string \<Rightarrow> ('s, unit result) state" where
  "TransferOwnership lib c newOwner = invoke_void c ''transfer_ownership'' [Ok (AddressToScVal lib newOwner)]"

definition GetCursedSubjects :: "sdk \<Rightarrow> 's Client \<Rightarrow> ('s, (bytes list) result) state" where
  "GetCursedSubjects lib c =
     simulate_value c ''get_cursed_subjects'' [] (vec_of ''expected vec return type'' (Bytes16FromScVal))"

definition IsCursedBySubject :: "sdk \<Rightarrow> 's Client \<Rightarrow> bytes \<Rightarrow> ('s, bool result) state" where
  "IsCursedBySubject lib c subject =
     simulate_value c ''is_cursed_by_subject'' [
       Ok (Bytes16ToScVal subject)] (\<lambda>v. need ''expected bool return type'' (GetB v))"

definition ApplyCurseAdminUpdates :: "sdk \<Rightarrow> 's Client \<Rightarrow> string list \<Rightarrow> string list \<Rightarrow> ('s, unit result) state" where
  "ApplyCurseAdminUpdates lib c addedAdmins removedAdmins =
     invoke_void c ''apply_curse_admin_updates'' [
       Ok (AddressSliceToScVal lib addedAdmins), Ok (AddressSliceToScVal lib removedAdmins)]"

definition CancelOwnershipTransfer :: "sdk \<Rightarrow> 's Client \<Rightarrow> ('s, unit result) state" where
  "CancelOwnershipTransfer lib c = invoke_void c ''cancel_ownership_transfer'' []"

section \<open>Waiting for events\<close>

definition AuthorizedCallerAddedEventTopic :: string where
  "AuthorizedCallerAddedEventTopic = ''auth_CallerAdded''"

definition WaitForAuthorizedCallerAddedEvent :: "sdk \<Rightarrow> 's Client \<Rightarrow> int \<Rightarrow> int \<Rightarrow> (AuthorizedCallerAddedEvent \<Rightarrow> bool) option \<Rightarrow> wait_round list \<Rightarrow> ('s, AuthorizedCallerAddedEvent result option) state" where
  "WaitForAuthorizedCallerAddedEvent lib c = wait_for c AuthorizedCallerAddedEventTopic (ParseAuthorizedCallerAddedEvent lib)"

definition AuthorizedCallerRemovedEventTopic :: string where
  "AuthorizedCallerRemovedEventTopic = ''auth_CallerRemoved''"

definition WaitForAuthorizedCallerRemovedEvent :: "sdk \<Rightarrow> 's Client \<Rightarrow> int \<Rightarrow> int \<Rightarrow> (AuthorizedCallerRemovedEvent \<Rightarrow> bool) option \<Rightarrow> wait_round list \<Rightarrow> ('s, AuthorizedCallerRemovedEvent result option) state" where
  "WaitForAuthorizedCallerRemovedEvent lib c = wait_for c AuthorizedCallerRemovedEventTopic (ParseAuthorizedCallerRemovedEvent lib)"

definition OwnershipTransferStartedEventTopic :: string where
  "OwnershipTransferStartedEventTopic = ''auth_OwnerTransferStart''"

definition WaitForOwnershipTransferStartedEvent :: "sdk \<Rightarrow> 's Client \<Rightarrow> int \<Rightarrow> int \<Rightarrow> (OwnershipTransferStartedEvent \<Rightarrow> bool) option \<Rightarrow> wait_round list \<Rightarrow> ('s, OwnershipTransferStartedEvent result option) state" where
  "WaitForOwnershipTransferStartedEvent lib c = wait_for c OwnershipTransferStartedEventTopic (ParseOwnershipTransferStartedEvent lib)"

definition CursedEventTopic :: string where
  "CursedEventTopic = ''rmn_Cursed''"

definition WaitForCursedEvent :: "sdk \<Rightarrow> 's Client \<Rightarrow> int \<Rightarrow> int \<Rightarrow> (CursedEvent \<Rightarrow> bool) option \<Rightarrow> wait_round list \<Rightarrow> ('s, CursedEvent result option) state" where
  "WaitForCursedEvent lib c = wait_for c CursedEventTopic (ParseCursedEvent lib)"

definition UncursedEventTopic :: string where
  "UncursedEventTopic = ''rmn_Uncursed''"

definition WaitForUncursedEvent :: "sdk \<Rightarrow> 's Client \<Rightarrow> int \<Rightarrow> int \<Rightarrow> (UncursedEvent \<Rightarrow> bool) option \<Rightarrow> wait_round list \<Rightarrow> ('s, UncursedEvent result option) state" where
  "WaitForUncursedEvent lib c = wait_for c UncursedEventTopic (ParseUncursedEvent lib)"

end
