(* ===== verification/Bind_SiloedLockReleasePool.thy ===== *)
theory Bind_SiloedLockReleasePool
  imports Bind_Common
begin

text \<open>
  The generated binding of the siloed lock release pool contract (bindings/contracts/siloed_lock_release_pool): the types of its own and every
  method of \<open>SiloedLockReleasePoolClient\<close>.
\<close>

section \<open>Structs\<close>

record LockBoxEntry =
  LockBoxEntry_LockBox :: string
  LockBoxEntry_RemoteChainSelector :: int

definition zero_LockBoxEntry :: LockBoxEntry where
  "zero_LockBoxEntry = \<lparr>LockBoxEntry_LockBox = [], LockBoxEntry_RemoteChainSelector = 0\<rparr>"

definition LockBoxEntry_ToScVal :: "sdk \<Rightarrow> LockBoxEntry \<Rightarrow> ScVal result" where
  "LockBoxEntry_ToScVal lib s = build_struct [
     (''lock_box'', Ok (AddressToScVal lib (LockBoxEntry_LockBox s))),
     (''remote_chain_selector'', Ok (Uint64ToScVal (LockBoxEntry_RemoteChainSelector s)))]"

definition LockBoxEntry_entry :: "sdk \<Rightarrow> string \<Rightarrow> ScVal \<Rightarrow> LockBoxEntry \<Rightarrow> LockBoxEntry result" where
  "LockBoxEntry_entry lib key v s =
     (if key = ''lock_box'' then put (named ''lock_box'' (AddressFromScVal lib v)) (\<lambda>x. s\<lparr>LockBoxEntry_LockBox := x\<rparr>)
      else if key = ''remote_chain_selector'' then put (named ''remote_chain_selector'' (Uint64FromScVal v)) (\<lambda>x. s\<lparr>LockBoxEntry_RemoteChainSelector := x\<rparr>)
      else Ok s)"

definition LockBoxEntryFromScVal :: "sdk \<Rightarrow> ScVal \<Rightarrow> LockBoxEntry result" where
  "LockBoxEntryFromScVal lib = parse_struct ''not a map type'' (LockBoxEntry_entry lib) zero_LockBoxEntry"

section \<open>Events\<close>

record LockBoxConfiguredEvent =
  LockBoxConfiguredEvent_RemoteChainSelector :: int
  LockBoxConfiguredEvent_LockBox :: string
  LockBoxConfiguredEvent_Ledger :: int
  LockBoxConfiguredEvent_TxHash :: string

definition LockBoxConfiguredEvent_entry :: "sdk \<Rightarrow> string \<Rightarrow> ScVal \<Rightarrow> LockBoxConfiguredEvent \<Rightarrow> LockBoxConfiguredEvent result" where
  "LockBoxConfiguredEvent_entry lib key v s =
     (if key = ''remote_chain_selector'' then set_if_ok (Uint64FromScVal v) (\<lambda>x s. s\<lparr>LockBoxConfiguredEvent_RemoteChainSelector := x\<rparr>) s
      else if key = ''lock_box'' then set_if_ok (AddressFromScVal lib v) (\<lambda>x s. s\<lparr>LockBoxConfiguredEvent_LockBox := x\<rparr>) s
      else Ok s)"

definition ParseLockBoxConfiguredEvent :: "sdk \<Rightarrow> EventInfo \<Rightarrow> LockBoxConfiguredEvent result" where
  "ParseLockBoxConfiguredEvent lib = parse_event lib (LockBoxConfiguredEvent_entry lib) (\<lambda>ledger tx.
     \<lparr>LockBoxConfiguredEvent_RemoteChainSelector = 0, LockBoxConfiguredEvent_LockBox = [],
        LockBoxConfiguredEvent_Ledger = ledger, LockBoxConfiguredEvent_TxHash = tx\<rparr>)"

section \<open>The client\<close>

definition NewSiloedLockReleasePoolClient :: "'s Invoker \<Rightarrow> string \<Rightarrow> 's Client" where
  "NewSiloedLockReleasePoolClient ivk contractID = mk_client ivk contractID"

definition ContractID :: "'s Client \<Rightarrow> string" where
  "ContractID c = cl_contractID c"

definition Owner :: "sdk \<Rightarrow> 's Client \<Rightarrow> ('s, (string option) result) state" where
  "Owner lib c = simulate_value c ''owner'' [] (OptionalAddressFromScVal lib)"

definition GetFee :: "sdk \<Rightarrow> 's Client \<Rightarrow> int \<Rightarrow> ('s, PoolFeeResult result) state" where
  "GetFee lib c remoteChainSelector =
     simulate_value c ''get_fee'' [Ok (Uint64ToScVal remoteChainSelector)] (PoolFeeResultFromScVal lib)"

definition IsOwner :: "sdk \<Rightarrow> 's Client \<Rightarrow> string \<Rightarrow> ('s, bool result) state" where
  "IsOwner lib c addr =
     simulate_value c ''is_owner'' [
       Ok (AddressToScVal lib addr)] (\<lambda>v. need ''expected bool return type'' (GetB v))"

definition GetToken :: "sdk \<Rightarrow> 's Client \<Rightarrow> ('s, string result) state" where
  "GetToken lib c = simulate_value c ''get_token'' [] (AddressFromScVal lib)"

definition GetRouter :: "sdk \<Rightarrow> 's Client \<Rightarrow> ('s, (string option) result) state" where
  "GetRouter lib c = simulate_value c ''get_router'' [] (OptionalAddressFromScVal lib)"

definition InitOwner :: "sdk \<Rightarrow> 's Client \<Rightarrow> string \<Rightarrow> ('s, unit result) state" where
  "InitOwner lib c owner = invoke_void c ''init_owner'' [Ok (AddressToScVal lib owner)]"

definition Initialize :: "sdk \<Rightarrow> 's Client \<Rightarrow> string \<Rightarrow> string \<Rightarrow> int \<Rightarrow> string \<Rightarrow> string \<Rightarrow> ('s, unit result) state" where
  "Initialize lib c owner token tokenDecimals router rampRegistry =
     invoke_void c ''initialize'' [
       Ok (AddressToScVal lib owner), Ok (AddressToScVal lib token), Ok (Uint32ToScVal tokenDecimals),
       Ok (AddressToScVal lib router), Ok (AddressToScVal lib rampRegistry)]"

definition SetRouter :: "sdk \<Rightarrow> 's Client \<Rightarrow> string \<Rightarrow> ('s, unit result) state" where
  "SetRouter lib c router = invoke_void c ''set_router'' [Ok (AddressToScVal lib router)]"

definition GetLockBox :: "sdk \<Rightarrow> 's Client \<Rightarrow> int \<Rightarrow> ('s, string result) state" where
  "GetLockBox lib c remoteChainSelector =
     simulate_value c ''get_lock_box'' [Ok (Uint64ToScVal remoteChainSelector)] (AddressFromScVal lib)"

definition LockOrBurn :: "sdk \<Rightarrow> 's Client \<Rightarrow> string \<Rightarrow> LockOrBurnIn \<Rightarrow> int \<Rightarrow> ('s, LockOrBurnOut result) state" where
  "LockOrBurn lib c caller input requestedFinality =
     invoke_value c ''lock_or_burn'' [
       Ok (AddressToScVal lib caller), MustToScVal (LockOrBurnIn_ToScVal lib input),
       Ok (Uint32ToScVal requestedFinality)] (LockOrBurnOutFromScVal lib)"

definition RequireOwner :: "sdk \<Rightarrow> 's Client \<Rightarrow> ('s, string result) state" where
  "RequireOwner lib c = invoke_value c ''require_owner'' [] (AddressFromScVal lib)"

definition SetNewOwner :: "sdk \<Rightarrow> 's Client \<Rightarrow> string \<Rightarrow> ('s, unit result) state" where
  "SetNewOwner lib c newOwner = invoke_void c ''set_new_owner'' [Ok (AddressToScVal lib newOwner)]"

definition GetRemotePool :: "sdk \<Rightarrow> 's Client \<Rightarrow> int \<Rightarrow> ('s, bytes result) state" where
  "GetRemotePool lib c remoteChainSelector =
     simulate_value c ''get_remote_pool'' [
       Ok (Uint64ToScVal remoteChainSelector)] (\<lambda>v. need ''expected bytes return type'' (GetBytes v))"

definition ReleaseOrMint :: "sdk \<Rightarrow> 's Client \<Rightarrow> string \<Rightarrow> ReleaseOrMintIn \<Rightarrow> int \<Rightarrow> ('s, ReleaseOrMintOut result) state" where
  "ReleaseOrMint lib c caller input requestedFinality =
     invoke_value c ''release_or_mint'' [
       Ok (AddressToScVal lib caller), MustToScVal (ReleaseOrMintIn_ToScVal lib input),
       Ok (Uint32ToScVal requestedFinality)] (ReleaseOrMintOutFromScVal lib)"

definition AcceptOwnership :: "sdk \<Rightarrow> 's Client \<Rightarrow> ('s, unit result) state" where
  "AcceptOwnership lib c = invoke_void c ''accept_ownership'' []"

definition GetRemoteToken :: "sdk \<Rightarrow> 's Client \<Rightarrow> int \<Rightarrow> ('s, bytes result) state" where
  "GetRemoteToken lib c remoteChainSelector =
     simulate_value c ''get_remote_token'' [
       Ok (Uint64ToScVal remoteChainSelector)] (\<lambda>v. need ''expected bytes return type'' (GetBytes v))"

definition TypeAndVersion :: "sdk \<Rightarrow> 's Client \<Rightarrow> ('s, string result) state" where
  "TypeAndVersion lib c = invoke_value c ''type_and_version'' [] (StringFromScVal)"

definition GetPendingOwner :: "sdk \<Rightarrow> 's Client \<Rightarrow> ('s, (string option) result) state" where
  "GetPendingOwner lib c = simulate_value c ''get_pending_owner'' [] (OptionalAddressFromScVal lib)"

definition GetRampRegistry :: "sdk \<Rightarrow> 's Client \<Rightarrow> ('s, (string option) result) state" where
  "GetRampRegistry lib c = simulate_value c ''get_ramp_registry'' [] (OptionalAddressFromScVal lib)"

definition GetRequiredCcvs :: "sdk \<Rightarrow> 's Client \<Rightarrow> string \<Rightarrow> int \<Rightarrow> int \<Rightarrow> int \<Rightarrow> bytes \<Rightarrow> int \<Rightarrow> ('s, PoolRequiredCCVs result) state" where
  "GetRequiredCcvs lib c localToken remoteChainSelector amount requestedFinality extraData direction =
     simulate_value c ''get_required_ccvs'' [
       Ok (AddressToScVal lib localToken), Ok (Uint64ToScVal remoteChainSelector), Ok (I128ToScVal amount),
       Ok (Uint32ToScVal requestedFinality), Ok (BytesToScVal extraData),
       MustToScVal (MessageDirection_ToScVal direction)] (PoolRequiredCCVsFromScVal lib)"

definition SetRampRegistry :: "sdk \<Rightarrow> 's Client \<Rightarrow> string \<Rightarrow> ('s, unit result) state" where
  "SetRampRegistry lib c rampRegistry = invoke_void c ''set_ramp_registry'' [Ok (AddressToScVal lib rampRegistry)]"

definition GetTokenDecimals :: "sdk \<Rightarrow> 's Client \<Rightarrow> ('s, int result) state" where
  "GetTokenDecimals lib c =
     simulate_value c ''get_token_decimals'' [] (\<lambda>v. need ''expected u32 return type'' (GetU32 v))"

definition IsSupportedChain :: "sdk \<Rightarrow> 's Client \<Rightarrow> int \<Rightarrow> ('s, bool result) state" where
  "IsSupportedChain lib c remoteChainSelector =
     simulate_value c ''is_supported_chain'' [
       Ok (Uint64ToScVal remoteChainSelector)] (\<lambda>v. need ''expected bool return type'' (GetB v))"

definition IsSupportedToken :: "sdk \<Rightarrow> 's Client \<Rightarrow> string \<Rightarrow> ('s, bool result) state" where
  "IsSupportedToken lib c token =
     simulate_value c ''is_supported_token'' [
       Ok (AddressToScVal lib token)] (\<lambda>v. need ''expected bool return type'' (GetB v))"

definition TransferOwnership :: "sdk \<Rightarrow> 's Client \<Rightarrow> string \<Rightarrow> ('s, unit result) state" where
  "TransferOwnership lib c newOwner = invoke_void c ''transfer_ownership'' [Ok (AddressToScVal lib newOwner)]"

definition ApplyChainUpdates :: "sdk \<Rightarrow> 's Client \<Rightarrow> ChainUpdate list \<Rightarrow> int list \<Rightarrow> ('s, unit result) state" where
  "ApplyChainUpdates lib c adds removes =
     invoke_void c ''apply_chain_updates'' [
       StructSliceToScVal (ChainUpdate_ToScVal lib) adds, Ok (Uint64SliceToScVal removes)]"

definition SetPoolFeeConfig :: "sdk \<Rightarrow> 's Client \<Rightarrow> int \<Rightarrow> PoolFeeConfig \<Rightarrow> ('s, unit result) state" where
  "SetPoolFeeConfig lib c remoteChainSelector config =
     invoke_void c ''set_pool_fee_config'' [
       Ok (Uint64ToScVal remoteChainSelector), MustToScVal (PoolFeeConfig_ToScVal lib config)]"

definition ConfigureLockBoxes :: "sdk \<Rightarrow> 's Client \<Rightarrow> LockBoxEntry list \<Rightarrow> ('s, unit result) state" where
  "ConfigureLockBoxes lib c configs =
     invoke_void c ''configure_lock_boxes'' [StructSliceToScVal (LockBoxEntry_ToScVal lib) configs]"

definition GetRateLimitAdmin :: "sdk \<Rightarrow> 's Client \<Rightarrow> ('s, (string option) result) state" where
  "GetRateLimitAdmin lib c = simulate_value c ''get_rate_limit_admin'' [] (OptionalAddressFromScVal lib)"

definition SetRateLimitAdmin :: "sdk \<Rightarrow> 's Client \<Rightarrow> string \<Rightarrow> ('s, unit result) state" where
  "SetRateLimitAdmin lib c admin = invoke_void c ''set_rate_limit_admin'' [Ok (AddressToScVal lib admin)]"

definition SetRateLimitConfig :: "sdk \<Rightarrow> 's Client \<Rightarrow> int \<Rightarrow> RateLimitConfig \<Rightarrow> RateLimitConfig \<Rightarrow> bool \<Rightarrow> ('s, unit result) state" where
  "SetRateLimitConfig lib c remoteChainSelector outboundConfig inboundConfig fastFinality =
     invoke_void c ''set_rate_limit_config'' [
       Ok (Uint64ToScVal remoteChainSelector), MustToScVal (RateLimitConfig_ToScVal lib outboundConfig),
       MustToScVal (RateLimitConfig_ToScVal lib inboundConfig), Ok (BoolToScVal fastFinality)]"

definition GetAdvancedPoolHooks :: "sdk \<Rightarrow> 's Client \<Rightarrow> ('s, (string option) result) state" where
  "GetAdvancedPoolHooks lib c = simulate_value c ''get_advanced_pool_hooks'' [] (OptionalAddressFromScVal lib)"

definition SetAdvancedPoolHooks :: "sdk \<Rightarrow> 's Client \<Rightarrow> string \<Rightarrow> ('s, unit result) state" where
  "SetAdvancedPoolHooks lib c hooks = invoke_void c ''set_advanced_pool_hooks'' [Ok (AddressToScVal lib hooks)]"

definition GetAllLockBoxConfigs :: "sdk \<Rightarrow> 's Client \<Rightarrow> ('s, (LockBoxEntry list) result) state" where
  "GetAllLockBoxConfigs lib c =
     simulate_value c ''get_all_lock_box_configs'' []
       (vec_of ''expected vec return type'' (LockBoxEntryFromScVal lib))"

definition CancelOwnershipTransfer :: "sdk \<Rightarrow> 's Client \<Rightarrow> ('s, unit result) state" where
  "CancelOwnershipTransfer lib c = invoke_void c ''cancel_ownership_transfer'' []"

definition RemoveAdvancedPoolHooks :: "sdk \<Rightarrow> 's Client \<Rightarrow> ('s, unit result) state" where
  "RemoveAdvancedPoolHooks lib c = invoke_void c ''remove_advanced_pool_hooks'' []"

definition GetAllowedFinalityConfig :: "sdk \<Rightarrow> 's Client \<Rightarrow> ('s, int result) state" where
  "GetAllowedFinalityConfig lib c =
     simulate_value c ''get_allowed_finality_config'' [] (\<lambda>v. need ''expected u32 return type'' (GetU32 v))"

definition SetAllowedFinalityConfig :: "sdk \<Rightarrow> 's Client \<Rightarrow> int \<Rightarrow> ('s, unit result) state" where
  "SetAllowedFinalityConfig lib c allowedFinality =
     invoke_void c ''set_allowed_finality_config'' [Ok (Uint32ToScVal allowedFinality)]"

definition GetCurrentRateLimiterState :: "sdk \<Rightarrow> 's Client \<Rightarrow> int \<Rightarrow> bool \<Rightarrow> ('s, RateLimiterState result) state" where
  "GetCurrentRateLimiterState lib c remoteChainSelector fastFinality =
     simulate_value c ''get_current_rate_limiter_state'' [
       Ok (Uint64ToScVal remoteChainSelector), Ok (BoolToScVal fastFinality)] (RateLimiterStateFromScVal lib)"

section \<open>Waiting for events\<close>

definition RoleGrantedEventTopic :: string where
  "RoleGrantedEventTopic = ''auth_RoleGranted''"

definition WaitForRoleGrantedEvent :: "sdk \<Rightarrow> 's Client \<Rightarrow> int \<Rightarrow> int \<Rightarrow> (RoleGrantedEvent \<Rightarrow> bool) option \<Rightarrow> wait_round list \<Rightarrow> ('s, RoleGrantedEvent result option) state" where
  "WaitForRoleGrantedEvent lib c = wait_for c RoleGrantedEventTopic (ParseRoleGrantedEvent lib)"

definition RoleRevokedEventTopic :: string where
  "RoleRevokedEventTopic = ''auth_RoleRevoked''"

definition WaitForRoleRevokedEvent :: "sdk \<Rightarrow> 's Client \<Rightarrow> int \<Rightarrow> int \<Rightarrow> (RoleRevokedEvent \<Rightarrow> bool) option \<Rightarrow> wait_round list \<Rightarrow> ('s, RoleRevokedEvent result option) state" where
  "WaitForRoleRevokedEvent lib c = wait_for c RoleRevokedEventTopic (ParseRoleRevokedEvent lib)"

definition AuthorizedCallerAddedEventTopic :: string where
  "AuthorizedCallerAddedEventTopic = ''auth_CallerAdded''"

definition WaitForAuthorizedCallerAddedEvent :: "sdk \<Rightarrow> 's Client \<Rightarrow> int \<Rightarrow> int \<Rightarrow> (AuthorizedCallerAddedEvent \<Rightarrow> bool) option \<Rightarrow> wait_round list \<Rightarrow> ('s, AuthorizedCallerAddedEvent result option) state" where
  "WaitForAuthorizedCallerAddedEvent lib c = wait_for c AuthorizedCallerAddedEventTopic (ParseAuthorizedCallerAddedEvent lib)"

definition AuthorizedCallerRemovedEventTopic :: string where
  "AuthorizedCallerRemovedEventTopic = ''auth_CallerRemoved''"

definition WaitForAuthorizedCallerRemovedEvent :: "sdk \<Rightarrow> 's Client \<Rightarrow> int \<Rightarrow> int \<Rightarrow> (AuthorizedCallerRemovedEvent \<Rightarrow> bool) option \<Rightarrow> wait_round list \<Rightarrow> ('s, AuthorizedCallerRemovedEvent result option) state" where
  "WaitForAuthorizedCallerRemovedEvent lib c = wait_for c AuthorizedCallerRemovedEventTopic (ParseAuthorizedCallerRemovedEvent lib)"

definition OwnershipTransferStartedEventTopic :: string where
  "OwnershipTransferStartedEventTopic = ''auth_OwnerTransferStart''"

definition WaitForOwnershipTransferStartedEvent :: "sdk \<Rightarrow> 's Client \<Rightarrow> int \<Rightarrow> int \<Rightarrow> (OwnershipTransferStartedEvent \<Rightarrow> bool) option \<Rightarrow> wait_round list \<Rightarrow> ('s, OwnershipTransferStartedEvent result option) state" where
  "WaitForOwnershipTransferStartedEvent lib c = wait_for c OwnershipTransferStartedEventTopic (ParseOwnershipTransferStartedEvent lib)"

definition BurnedEventTopic :: string where
  "BurnedEventTopic = ''pool_Burned''"

definition WaitForBurnedEvent :: "sdk \<Rightarrow> 's Client \<Rightarrow> int \<Rightarrow> int \<Rightarrow> (BurnedEvent \<Rightarrow> bool) option \<Rightarrow> wait_round list \<Rightarrow> ('s, BurnedEvent result option) state" where
  "WaitForBurnedEvent lib c = wait_for c BurnedEventTopic (ParseBurnedEvent lib)"

definition LockedEventTopic :: string where
  "LockedEventTopic = ''pool_Locked''"

definition WaitForLockedEvent :: "sdk \<Rightarrow> 's Client \<Rightarrow> int \<Rightarrow> int \<Rightarrow> (LockedEvent \<Rightarrow> bool) option \<Rightarrow> wait_round list \<Rightarrow> ('s, LockedEvent result option) state" where
  "WaitForLockedEvent lib c = wait_for c LockedEventTopic (ParseLockedEvent lib)"

definition MintedEventTopic :: string where
  "MintedEventTopic = ''pool_Minted''"

definition WaitForMintedEvent :: "sdk \<Rightarrow> 's Client \<Rightarrow> int \<Rightarrow> int \<Rightarrow> (MintedEvent \<Rightarrow> bool) option \<Rightarrow> wait_round list \<Rightarrow> ('s, MintedEvent result option) state" where
  "WaitForMintedEvent lib c = wait_for c MintedEventTopic (ParseMintedEvent lib)"

definition ReleasedEventTopic :: string where
  "ReleasedEventTopic = ''pool_Released''"

definition WaitForReleasedEvent :: "sdk \<Rightarrow> 's Client \<Rightarrow> int \<Rightarrow> int \<Rightarrow> (ReleasedEvent \<Rightarrow> bool) option \<Rightarrow> wait_round list \<Rightarrow> ('s, ReleasedEvent result option) state" where
  "WaitForReleasedEvent lib c = wait_for c ReleasedEventTopic (ParseReleasedEvent lib)"

definition ChainRemovedEventTopic :: string where
  "ChainRemovedEventTopic = ''pool_ChainRemoved''"

definition WaitForChainRemovedEvent :: "sdk \<Rightarrow> 's Client \<Rightarrow> int \<Rightarrow> int \<Rightarrow> (ChainRemovedEvent \<Rightarrow> bool) option \<Rightarrow> wait_round list \<Rightarrow> ('s, ChainRemovedEvent result option) state" where
  "WaitForChainRemovedEvent lib c = wait_for c ChainRemovedEventTopic (ParseChainRemovedEvent lib)"

definition ChainConfiguredEventTopic :: string where
  "ChainConfiguredEventTopic = ''pool_ChainConfigured''"

definition WaitForChainConfiguredEvent :: "sdk \<Rightarrow> 's Client \<Rightarrow> int \<Rightarrow> int \<Rightarrow> (ChainConfiguredEvent \<Rightarrow> bool) option \<Rightarrow> wait_round list \<Rightarrow> ('s, ChainConfiguredEvent result option) state" where
  "WaitForChainConfiguredEvent lib c = wait_for c ChainConfiguredEventTopic (ParseChainConfiguredEvent lib)"

definition FinalityConfigSetEventTopic :: string where
  "FinalityConfigSetEventTopic = ''pool_FinalityConfigSet''"

definition WaitForFinalityConfigSetEvent :: "sdk \<Rightarrow> 's Client \<Rightarrow> int \<Rightarrow> int \<Rightarrow> (FinalityConfigSetEvent \<Rightarrow> bool) option \<Rightarrow> wait_round list \<Rightarrow> ('s, FinalityConfigSetEvent result option) state" where
  "WaitForFinalityConfigSetEvent lib c = wait_for c FinalityConfigSetEventTopic (ParseFinalityConfigSetEvent lib)"

definition FtfInboundConsumedEventTopic :: string where
  "FtfInboundConsumedEventTopic = ''pool_FtfInboundConsumed''"

definition WaitForFtfInboundConsumedEvent :: "sdk \<Rightarrow> 's Client \<Rightarrow> int \<Rightarrow> int \<Rightarrow> (FtfInboundConsumedEvent \<Rightarrow> bool) option \<Rightarrow> wait_round list \<Rightarrow> ('s, FtfInboundConsumedEvent result option) state" where
  "WaitForFtfInboundConsumedEvent lib c = wait_for c FtfInboundConsumedEventTopic (ParseFtfInboundConsumedEvent lib)"

definition FtfOutboundConsumedEventTopic :: string where
  "FtfOutboundConsumedEventTopic = ''pool_FtfOutboundConsumed''"

definition WaitForFtfOutboundConsumedEvent :: "sdk \<Rightarrow> 's Client \<Rightarrow> int \<Rightarrow> int \<Rightarrow> (FtfOutboundConsumedEvent \<Rightarrow> bool) option \<Rightarrow> wait_round list \<Rightarrow> ('s, FtfOutboundConsumedEvent result option) state" where
  "WaitForFtfOutboundConsumedEvent lib c = wait_for c FtfOutboundConsumedEventTopic (ParseFtfOutboundConsumedEvent lib)"

definition RateLimitConfiguredEventTopic :: string where
  "RateLimitConfiguredEventTopic = ''pool_RateLimitConfigured''"

definition WaitForRateLimitConfiguredEvent :: "sdk \<Rightarrow> 's Client \<Rightarrow> int \<Rightarrow> int \<Rightarrow> (RateLimitConfiguredEvent \<Rightarrow> bool) option \<Rightarrow> wait_round list \<Rightarrow> ('s, RateLimitConfiguredEvent result option) state" where
  "WaitForRateLimitConfiguredEvent lib c = wait_for c RateLimitConfiguredEventTopic (ParseRateLimitConfiguredEvent lib)"

definition AdvancedPoolHooksUpdatedEventTopic :: string where
  "AdvancedPoolHooksUpdatedEventTopic = ''pool_HooksUpdated''"

definition WaitForAdvancedPoolHooksUpdatedEvent :: "sdk \<Rightarrow> 's Client \<Rightarrow> int \<Rightarrow> int \<Rightarrow> (AdvancedPoolHooksUpdatedEvent \<Rightarrow> bool) option \<Rightarrow> wait_round list \<Rightarrow> ('s, AdvancedPoolHooksUpdatedEvent result option) state" where
  "WaitForAdvancedPoolHooksUpdatedEvent lib c = wait_for c AdvancedPoolHooksUpdatedEventTopic (ParseAdvancedPoolHooksUpdatedEvent lib)"

definition InboundRateLimitConsumedEventTopic :: string where
  "InboundRateLimitConsumedEventTopic = ''pool_InboundRateLimitConsumed''"

definition WaitForInboundRateLimitConsumedEvent :: "sdk \<Rightarrow> 's Client \<Rightarrow> int \<Rightarrow> int \<Rightarrow> (InboundRateLimitConsumedEvent \<Rightarrow> bool) option \<Rightarrow> wait_round list \<Rightarrow> ('s, InboundRateLimitConsumedEvent result option) state" where
  "WaitForInboundRateLimitConsumedEvent lib c = wait_for c InboundRateLimitConsumedEventTopic (ParseInboundRateLimitConsumedEvent lib)"

definition OutboundRateLimitConsumedEventTopic :: string where
  "OutboundRateLimitConsumedEventTopic = ''pool_OutboundRateLimitConsumed''"

definition WaitForOutboundRateLimitConsumedEvent :: "sdk \<Rightarrow> 's Client \<Rightarrow> int \<Rightarrow> int \<Rightarrow> (OutboundRateLimitConsumedEvent \<Rightarrow> bool) option \<Rightarrow> wait_round list \<Rightarrow> ('s, OutboundRateLimitConsumedEvent result option) state" where
  "WaitForOutboundRateLimitConsumedEvent lib c = wait_for c OutboundRateLimitConsumedEventTopic (ParseOutboundRateLimitConsumedEvent lib)"

definition LockBoxConfiguredEventTopic :: string where
  "LockBoxConfiguredEventTopic = ''pool_LockBoxConfigured''"

definition WaitForLockBoxConfiguredEvent :: "sdk \<Rightarrow> 's Client \<Rightarrow> int \<Rightarrow> int \<Rightarrow> (LockBoxConfiguredEvent \<Rightarrow> bool) option \<Rightarrow> wait_round list \<Rightarrow> ('s, LockBoxConfiguredEvent result option) state" where
  "WaitForLockBoxConfiguredEvent lib c = wait_for c LockBoxConfiguredEventTopic (ParseLockBoxConfiguredEvent lib)"

section \<open>Round trips\<close>

definition valid_LockBoxEntry :: "sdk \<Rightarrow> LockBoxEntry \<Rightarrow> bool" where
  "valid_LockBoxEntry lib s \<longleftrightarrow> is_address lib (LockBoxEntry_LockBox s)"

lemma siloed_lock_release_pool_LockBoxEntry_keys: "sort [''lock_box'', ''remote_chain_selector''] =
    [''lock_box'', ''remote_chain_selector'']"
  by simp

lemma siloed_lock_release_pool_LockBoxEntry_codec:
  assumes "sdk_laws lib"
  shows "codec (LockBoxEntry_ToScVal lib) (LockBoxEntryFromScVal lib) (valid_LockBoxEntry lib)"
proof (rule codecI)
  show "\<exists>v. LockBoxEntry_ToScVal lib s = Ok v \<and> LockBoxEntryFromScVal lib v = Ok s" if ok: "valid_LockBoxEntry lib s" for s
    using ok assms
    by (cases s) (simp add: LockBoxEntry_ToScVal_def LockBoxEntryFromScVal_def LockBoxEntry_entry_def zero_LockBoxEntry_def valid_LockBoxEntry_def
        siloed_lock_release_pool_LockBoxEntry_keys struct_codec_simps del: sort_key_simps fold_entries.simps(2))
qed

end
