(* ===== verification/Bind_TokenAdminRegistry.thy ===== *)
theory Bind_TokenAdminRegistry
  imports Bind_Common
begin

text \<open>
  The generated binding of the token admin registry contract (bindings/contracts/token_admin_registry): the types of its own and every
  method of \<open>TokenAdminRegistryClient\<close>.
\<close>

section \<open>Structs\<close>

record TokenConfig =
  TokenConfig_Administrator :: "string option"
  TokenConfig_PendingAdministrator :: "string option"
  TokenConfig_TokenPool :: "string option"

definition zero_TokenConfig :: TokenConfig where
  "zero_TokenConfig = \<lparr>TokenConfig_Administrator = None, TokenConfig_PendingAdministrator = None, TokenConfig_TokenPool = None\<rparr>"

definition TokenConfig_ToScVal :: "sdk \<Rightarrow> TokenConfig \<Rightarrow> ScVal result" where
  "TokenConfig_ToScVal lib s = build_struct [
     (''administrator'', Ok (OptionalAddressToScVal lib (TokenConfig_Administrator s))),
     (''pending_administrator'', Ok (OptionalAddressToScVal lib (TokenConfig_PendingAdministrator s))),
     (''token_pool'', Ok (OptionalAddressToScVal lib (TokenConfig_TokenPool s)))]"

definition TokenConfig_entry :: "sdk \<Rightarrow> string \<Rightarrow> ScVal \<Rightarrow> TokenConfig \<Rightarrow> TokenConfig result" where
  "TokenConfig_entry lib key v s =
     (if key = ''administrator'' then put (named ''administrator'' (OptionalAddressFromScVal lib v)) (\<lambda>x. s\<lparr>TokenConfig_Administrator := x\<rparr>)
      else if key = ''pending_administrator'' then put (named ''pending_administrator'' (OptionalAddressFromScVal lib v)) (\<lambda>x. s\<lparr>TokenConfig_PendingAdministrator := x\<rparr>)
      else if key = ''token_pool'' then put (named ''token_pool'' (OptionalAddressFromScVal lib v)) (\<lambda>x. s\<lparr>TokenConfig_TokenPool := x\<rparr>)
      else Ok s)"

definition TokenConfigFromScVal :: "sdk \<Rightarrow> ScVal \<Rightarrow> TokenConfig result" where
  "TokenConfigFromScVal lib = parse_struct ''not a map type'' (TokenConfig_entry lib) zero_TokenConfig"

section \<open>Events\<close>

record PoolSetEvent =
  PoolSetEvent_Token :: string
  PoolSetEvent_PreviousPool :: "string option"
  PoolSetEvent_NewPool :: "string option"
  PoolSetEvent_Ledger :: int
  PoolSetEvent_TxHash :: string

definition PoolSetEvent_entry :: "sdk \<Rightarrow> string \<Rightarrow> ScVal \<Rightarrow> PoolSetEvent \<Rightarrow> PoolSetEvent result" where
  "PoolSetEvent_entry lib key v s =
     (if key = ''token'' then set_if_ok (AddressFromScVal lib v) (\<lambda>x s. s\<lparr>PoolSetEvent_Token := x\<rparr>) s
      else if key = ''previous_pool'' then set_if_ok (OptionalAddressFromScVal lib v) (\<lambda>x s. s\<lparr>PoolSetEvent_PreviousPool := x\<rparr>) s
      else if key = ''new_pool'' then set_if_ok (OptionalAddressFromScVal lib v) (\<lambda>x s. s\<lparr>PoolSetEvent_NewPool := x\<rparr>) s
      else Ok s)"

definition ParsePoolSetEvent :: "sdk \<Rightarrow> EventInfo \<Rightarrow> PoolSetEvent result" where
  "ParsePoolSetEvent lib = parse_event lib (PoolSetEvent_entry lib) (\<lambda>ledger tx.
     \<lparr>PoolSetEvent_Token = [], PoolSetEvent_PreviousPool = None, PoolSetEvent_NewPool = None,
        PoolSetEvent_Ledger = ledger, PoolSetEvent_TxHash = tx\<rparr>)"

record RegistryModuleAddedEvent =
  RegistryModuleAddedEvent_Module :: string
  RegistryModuleAddedEvent_Ledger :: int
  RegistryModuleAddedEvent_TxHash :: string

definition RegistryModuleAddedEvent_entry :: "sdk \<Rightarrow> string \<Rightarrow> ScVal \<Rightarrow> RegistryModuleAddedEvent \<Rightarrow> RegistryModuleAddedEvent result" where
  "RegistryModuleAddedEvent_entry lib key v s =
     (if key = ''module'' then set_if_ok (AddressFromScVal lib v) (\<lambda>x s. s\<lparr>RegistryModuleAddedEvent_Module := x\<rparr>) s
      else Ok s)"

definition ParseRegistryModuleAddedEvent :: "sdk \<Rightarrow> EventInfo \<Rightarrow> RegistryModuleAddedEvent result" where
  "ParseRegistryModuleAddedEvent lib = parse_event lib (RegistryModuleAddedEvent_entry lib) (\<lambda>ledger tx.
     \<lparr>RegistryModuleAddedEvent_Module = [], RegistryModuleAddedEvent_Ledger = ledger,
        RegistryModuleAddedEvent_TxHash = tx\<rparr>)"

record RegistryModuleRemovedEvent =
  RegistryModuleRemovedEvent_Module :: string
  RegistryModuleRemovedEvent_Ledger :: int
  RegistryModuleRemovedEvent_TxHash :: string

definition RegistryModuleRemovedEvent_entry :: "sdk \<Rightarrow> string \<Rightarrow> ScVal \<Rightarrow> RegistryModuleRemovedEvent \<Rightarrow> RegistryModuleRemovedEvent result" where
  "RegistryModuleRemovedEvent_entry lib key v s =
     (if key = ''module'' then set_if_ok (AddressFromScVal lib v) (\<lambda>x s. s\<lparr>RegistryModuleRemovedEvent_Module := x\<rparr>) s
      else Ok s)"

definition ParseRegistryModuleRemovedEvent :: "sdk \<Rightarrow> EventInfo \<Rightarrow> RegistryModuleRemovedEvent result" where
  "ParseRegistryModuleRemovedEvent lib = parse_event lib (RegistryModuleRemovedEvent_entry lib) (\<lambda>ledger tx.
     \<lparr>RegistryModuleRemovedEvent_Module = [], RegistryModuleRemovedEvent_Ledger = ledger,
        RegistryModuleRemovedEvent_TxHash = tx\<rparr>)"

record AdminTransferRequestedEvent =
  AdminTransferRequestedEvent_Token :: string
  AdminTransferRequestedEvent_CurrentAdmin :: "string option"
  AdminTransferRequestedEvent_NewAdmin :: "string option"
  AdminTransferRequestedEvent_Ledger :: int
  AdminTransferRequestedEvent_TxHash :: string

definition AdminTransferRequestedEvent_entry :: "sdk \<Rightarrow> string \<Rightarrow> ScVal \<Rightarrow> AdminTransferRequestedEvent \<Rightarrow> AdminTransferRequestedEvent result" where
  "AdminTransferRequestedEvent_entry lib key v s =
     (if key = ''token'' then set_if_ok (AddressFromScVal lib v) (\<lambda>x s. s\<lparr>AdminTransferRequestedEvent_Token := x\<rparr>) s
      else if key = ''current_admin'' then set_if_ok (OptionalAddressFromScVal lib v) (\<lambda>x s. s\<lparr>AdminTransferRequestedEvent_CurrentAdmin := x\<rparr>) s
      else if key = ''new_admin'' then set_if_ok (OptionalAddressFromScVal lib v) (\<lambda>x s. s\<lparr>AdminTransferRequestedEvent_NewAdmin := x\<rparr>) s
      else Ok s)"

definition ParseAdminTransferRequestedEvent :: "sdk \<Rightarrow> EventInfo \<Rightarrow> AdminTransferRequestedEvent result" where
  "ParseAdminTransferRequestedEvent lib = parse_event lib (AdminTransferRequestedEvent_entry lib) (\<lambda>ledger tx.
     \<lparr>AdminTransferRequestedEvent_Token = [], AdminTransferRequestedEvent_CurrentAdmin = None,
        AdminTransferRequestedEvent_NewAdmin = None, AdminTransferRequestedEvent_Ledger = ledger,
        AdminTransferRequestedEvent_TxHash = tx\<rparr>)"

record AdministratorTransferredEvent =
  AdministratorTransferredEvent_Token :: string
  AdministratorTransferredEvent_NewAdmin :: string
  AdministratorTransferredEvent_Ledger :: int
  AdministratorTransferredEvent_TxHash :: string

definition AdministratorTransferredEvent_entry :: "sdk \<Rightarrow> string \<Rightarrow> ScVal \<Rightarrow> AdministratorTransferredEvent \<Rightarrow> AdministratorTransferredEvent result" where
  "AdministratorTransferredEvent_entry lib key v s =
     (if key = ''token'' then set_if_ok (AddressFromScVal lib v) (\<lambda>x s. s\<lparr>AdministratorTransferredEvent_Token := x\<rparr>) s
      else if key = ''new_admin'' then set_if_ok (AddressFromScVal lib v) (\<lambda>x s. s\<lparr>AdministratorTransferredEvent_NewAdmin := x\<rparr>) s
      else Ok s)"

definition ParseAdministratorTransferredEvent :: "sdk \<Rightarrow> EventInfo \<Rightarrow> AdministratorTransferredEvent result" where
  "ParseAdministratorTransferredEvent lib = parse_event lib (AdministratorTransferredEvent_entry lib) (\<lambda>ledger tx.
     \<lparr>AdministratorTransferredEvent_Token = [], AdministratorTransferredEvent_NewAdmin = [],
        AdministratorTransferredEvent_Ledger = ledger, AdministratorTransferredEvent_TxHash = tx\<rparr>)"

section \<open>The client\<close>

definition NewTokenAdminRegistryClient :: "'s Invoker \<Rightarrow> string \<Rightarrow> 's Client" where
  "NewTokenAdminRegistryClient ivk contractID = mk_client ivk contractID"

definition ContractID :: "'s Client \<Rightarrow> string" where
  "ContractID c = cl_contractID c"

definition Owner :: "sdk \<Rightarrow> 's Client \<Rightarrow> ('s, (string option) result) state" where
  "Owner lib c = simulate_value c ''owner'' [] (OptionalAddressFromScVal lib)"

definition GetPool :: "sdk \<Rightarrow> 's Client \<Rightarrow> string \<Rightarrow> ('s, (string option) result) state" where
  "GetPool lib c token = simulate_value c ''get_pool'' [Ok (AddressToScVal lib token)] (OptionalAddressFromScVal lib)"

definition IsOwner :: "sdk \<Rightarrow> 's Client \<Rightarrow> string \<Rightarrow> ('s, bool result) state" where
  "IsOwner lib c addr =
     simulate_value c ''is_owner'' [
       Ok (AddressToScVal lib addr)] (\<lambda>v. need ''expected bool return type'' (GetB v))"

definition SetPool :: "sdk \<Rightarrow> 's Client \<Rightarrow> string \<Rightarrow> string option \<Rightarrow> ('s, unit result) state" where
  "SetPool lib c localToken pool =
     invoke_void c ''set_pool'' [Ok (AddressToScVal lib localToken), Ok (OptionalAddressToScVal lib pool)]"

definition GetPools :: "sdk \<Rightarrow> 's Client \<Rightarrow> string list \<Rightarrow> ('s, ((string option) list) result) state" where
  "GetPools lib c tokens =
     simulate_value c ''get_pools'' [
       Ok (AddressSliceToScVal lib tokens)] (vec_of ''expected vec return type'' (OptionalAddressFromScVal lib))"

definition InitOwner :: "sdk \<Rightarrow> 's Client \<Rightarrow> string \<Rightarrow> ('s, unit result) state" where
  "InitOwner lib c owner = invoke_void c ''init_owner'' [Ok (AddressToScVal lib owner)]"

definition Initialize :: "sdk \<Rightarrow> 's Client \<Rightarrow> string \<Rightarrow> ('s, unit result) state" where
  "Initialize lib c owner = invoke_void c ''initialize'' [Ok (AddressToScVal lib owner)]"

definition RequireOwner :: "sdk \<Rightarrow> 's Client \<Rightarrow> ('s, string result) state" where
  "RequireOwner lib c = invoke_value c ''require_owner'' [] (AddressFromScVal lib)"

definition SetNewOwner :: "sdk \<Rightarrow> 's Client \<Rightarrow> string \<Rightarrow> ('s, unit result) state" where
  "SetNewOwner lib c newOwner = invoke_void c ''set_new_owner'' [Ok (AddressToScVal lib newOwner)]"

definition AcceptOwnership :: "sdk \<Rightarrow> 's Client \<Rightarrow> ('s, unit result) state" where
  "AcceptOwnership lib c = invoke_void c ''accept_ownership'' []"

definition GetTokenConfig :: "sdk \<Rightarrow> 's Client \<Rightarrow> string \<Rightarrow> ('s, TokenConfig result) state" where
  "GetTokenConfig lib c token =
     simulate_value c ''get_token_config'' [Ok (AddressToScVal lib token)] (TokenConfigFromScVal lib)"

definition IsAdministrator :: "sdk \<Rightarrow> 's Client \<Rightarrow> string \<Rightarrow> string \<Rightarrow> ('s, bool result) state" where
  "IsAdministrator lib c localToken administrator =
     simulate_value c ''is_administrator'' [
       Ok (AddressToScVal lib localToken), Ok (AddressToScVal lib administrator)] (\<lambda>v. need ''expected bool return type'' (GetB v))"

definition TypeAndVersion :: "sdk \<Rightarrow> 's Client \<Rightarrow> ('s, string result) state" where
  "TypeAndVersion lib c = invoke_value c ''type_and_version'' [] (StringFromScVal)"

definition AcceptAdminRole :: "sdk \<Rightarrow> 's Client \<Rightarrow> string \<Rightarrow> ('s, unit result) state" where
  "AcceptAdminRole lib c localToken = invoke_void c ''accept_admin_role'' [Ok (AddressToScVal lib localToken)]"

definition GetPendingOwner :: "sdk \<Rightarrow> 's Client \<Rightarrow> ('s, (string option) result) state" where
  "GetPendingOwner lib c = simulate_value c ''get_pending_owner'' [] (OptionalAddressFromScVal lib)"

definition IsRegistryModule :: "sdk \<Rightarrow> 's Client \<Rightarrow> string \<Rightarrow> ('s, bool result) state" where
  "IsRegistryModule lib c module =
     simulate_value c ''is_registry_module'' [
       Ok (AddressToScVal lib module)] (\<lambda>v. need ''expected bool return type'' (GetB v))"

definition TransferOwnership :: "sdk \<Rightarrow> 's Client \<Rightarrow> string \<Rightarrow> ('s, unit result) state" where
  "TransferOwnership lib c newOwner = invoke_void c ''transfer_ownership'' [Ok (AddressToScVal lib newOwner)]"

definition AddRegistryModule :: "sdk \<Rightarrow> 's Client \<Rightarrow> string \<Rightarrow> ('s, unit result) state" where
  "AddRegistryModule lib c module = invoke_void c ''add_registry_module'' [Ok (AddressToScVal lib module)]"

definition TransferAdminRole :: "sdk \<Rightarrow> 's Client \<Rightarrow> string \<Rightarrow> string option \<Rightarrow> ('s, unit result) state" where
  "TransferAdminRole lib c localToken newAdmin =
     invoke_void c ''transfer_admin_role'' [
       Ok (AddressToScVal lib localToken), Ok (OptionalAddressToScVal lib newAdmin)]"

definition ProposeAdministrator :: "sdk \<Rightarrow> 's Client \<Rightarrow> string \<Rightarrow> string \<Rightarrow> string \<Rightarrow> ('s, unit result) state" where
  "ProposeAdministrator lib c caller localToken administrator =
     invoke_void c ''propose_administrator'' [
       Ok (AddressToScVal lib caller), Ok (AddressToScVal lib localToken), Ok (AddressToScVal lib administrator)]"

definition RemoveRegistryModule :: "sdk \<Rightarrow> 's Client \<Rightarrow> string \<Rightarrow> ('s, unit result) state" where
  "RemoveRegistryModule lib c module = invoke_void c ''remove_registry_module'' [Ok (AddressToScVal lib module)]"

definition CancelOwnershipTransfer :: "sdk \<Rightarrow> 's Client \<Rightarrow> ('s, unit result) state" where
  "CancelOwnershipTransfer lib c = invoke_void c ''cancel_ownership_transfer'' []"

definition GetAllConfiguredTokens :: "sdk \<Rightarrow> 's Client \<Rightarrow> int \<Rightarrow> int \<Rightarrow> ('s, (string list) result) state" where
  "GetAllConfiguredTokens lib c startIndex maxCount =
     simulate_value c ''get_all_configured_tokens'' [
       Ok (Uint32ToScVal startIndex), Ok (Uint32ToScVal maxCount)] (vec_of ''expected vec return type'' (AddressFromScVal lib))"

section \<open>Waiting for events\<close>

definition RoleGrantedEventTopic :: string where
  "RoleGrantedEventTopic = ''auth_RoleGranted''"

definition WaitForRoleGrantedEvent :: "sdk \<Rightarrow> 's Client \<Rightarrow> int \<Rightarrow> int \<Rightarrow> (RoleGrantedEvent \<Rightarrow> bool) option \<Rightarrow> wait_round list \<Rightarrow> ('s, RoleGrantedEvent result option) state" where
  "WaitForRoleGrantedEvent lib c = wait_for c RoleGrantedEventTopic (ParseRoleGrantedEvent lib)"

definition RoleRevokedEventTopic :: string where
  "RoleRevokedEventTopic = ''auth_RoleRevoked''"

definition WaitForRoleRevokedEvent :: "sdk \<Rightarrow> 's Client \<Rightarrow> int \<Rightarrow> int \<Rightarrow> (RoleRevokedEvent \<Rightarrow> bool) option \<Rightarrow> wait_round list \<Rightarrow> ('s, RoleRevokedEvent result option) state" where
  "WaitForRoleRevokedEvent lib c = wait_for c RoleRevokedEventTopic (ParseRoleRevokedEvent lib)"

definition AuthorizedCallerAddedEventTopic :: string where
  "AuthorizedCallerAddedEventTopic = ''auth_CallerAdded''"

definition WaitForAuthorizedCallerAddedEvent :: "sdk \<Rightarrow> 's Client \<Rightarrow> int \<Rightarrow> int \<Rightarrow> (AuthorizedCallerAddedEvent \<Rightarrow> bool) option \<Rightarrow> wait_round list \<Rightarrow> ('s, AuthorizedCallerAddedEvent result option) state" where
  "WaitForAuthorizedCallerAddedEvent lib c = wait_for c AuthorizedCallerAddedEventTopic (ParseAuthorizedCallerAddedEvent lib)"

definition AuthorizedCallerRemovedEventTopic :: string where
  "AuthorizedCallerRemovedEventTopic = ''auth_CallerRemoved''"

definition WaitForAuthorizedCallerRemovedEvent :: "sdk \<Rightarrow> 's Client \<Rightarrow> int \<Rightarrow> int \<Rightarrow> (AuthorizedCallerRemovedEvent \<Rightarrow> bool) option \<Rightarrow> wait_round list \<Rightarrow> ('s, AuthorizedCallerRemovedEvent result option) state" where
  "WaitForAuthorizedCallerRemovedEvent lib c = wait_for c AuthorizedCallerRemovedEventTopic (ParseAuthorizedCallerRemovedEvent lib)"

definition OwnershipTransferStartedEventTopic :: string where
  "OwnershipTransferStartedEventTopic = ''auth_OwnerTransferStart''"

definition WaitForOwnershipTransferStartedEvent :: "sdk \<Rightarrow> 's Client \<Rightarrow> int \<Rightarrow> int \<Rightarrow> (OwnershipTransferStartedEvent \<Rightarrow> bool) option \<Rightarrow> wait_round list \<Rightarrow> ('s, OwnershipTransferStartedEvent result option) state" where
  "WaitForOwnershipTransferStartedEvent lib c = wait_for c OwnershipTransferStartedEventTopic (ParseOwnershipTransferStartedEvent lib)"

definition PoolSetEventTopic :: string where
  "PoolSetEventTopic = ''tar_PoolSet''"

definition WaitForPoolSetEvent :: "sdk \<Rightarrow> 's Client \<Rightarrow> int \<Rightarrow> int \<Rightarrow> (PoolSetEvent \<Rightarrow> bool) option \<Rightarrow> wait_round list \<Rightarrow> ('s, PoolSetEvent result option) state" where
  "WaitForPoolSetEvent lib c = wait_for c PoolSetEventTopic (ParsePoolSetEvent lib)"

definition RegistryModuleAddedEventTopic :: string where
  "RegistryModuleAddedEventTopic = ''tar_ModuleAdded''"

definition WaitForRegistryModuleAddedEvent :: "sdk \<Rightarrow> 's Client \<Rightarrow> int \<Rightarrow> int \<Rightarrow> (RegistryModuleAddedEvent \<Rightarrow> bool) option \<Rightarrow> wait_round list \<Rightarrow> ('s, RegistryModuleAddedEvent result option) state" where
  "WaitForRegistryModuleAddedEvent lib c = wait_for c RegistryModuleAddedEventTopic (ParseRegistryModuleAddedEvent lib)"

definition RegistryModuleRemovedEventTopic :: string where
  "RegistryModuleRemovedEventTopic = ''tar_ModuleRemoved''"

definition WaitForRegistryModuleRemovedEvent :: "sdk \<Rightarrow> 's Client \<Rightarrow> int \<Rightarrow> int \<Rightarrow> (RegistryModuleRemovedEvent \<Rightarrow> bool) option \<Rightarrow> wait_round list \<Rightarrow> ('s, RegistryModuleRemovedEvent result option) state" where
  "WaitForRegistryModuleRemovedEvent lib c = wait_for c RegistryModuleRemovedEventTopic (ParseRegistryModuleRemovedEvent lib)"

definition AdminTransferRequestedEventTopic :: string where
  "AdminTransferRequestedEventTopic = ''tar_AdminTransferReq''"

definition WaitForAdminTransferRequestedEvent :: "sdk \<Rightarrow> 's Client \<Rightarrow> int \<Rightarrow> int \<Rightarrow> (AdminTransferRequestedEvent \<Rightarrow> bool) option \<Rightarrow> wait_round list \<Rightarrow> ('s, AdminTransferRequestedEvent result option) state" where
  "WaitForAdminTransferRequestedEvent lib c = wait_for c AdminTransferRequestedEventTopic (ParseAdminTransferRequestedEvent lib)"

definition AdministratorTransferredEventTopic :: string where
  "AdministratorTransferredEventTopic = ''tar_AdminTransferred''"

definition WaitForAdministratorTransferredEvent :: "sdk \<Rightarrow> 's Client \<Rightarrow> int \<Rightarrow> int \<Rightarrow> (AdministratorTransferredEvent \<Rightarrow> bool) option \<Rightarrow> wait_round list \<Rightarrow> ('s, AdministratorTransferredEvent result option) state" where
  "WaitForAdministratorTransferredEvent lib c = wait_for c AdministratorTransferredEventTopic (ParseAdministratorTransferredEvent lib)"

section \<open>Round trips\<close>

definition valid_TokenConfig :: "sdk \<Rightarrow> TokenConfig \<Rightarrow> bool" where
  "valid_TokenConfig lib s \<longleftrightarrow> optional_ok (is_address lib) (TokenConfig_Administrator s) \<and>
     optional_ok (is_address lib) (TokenConfig_PendingAdministrator s) \<and>
     optional_ok (is_address lib) (TokenConfig_TokenPool s)"

lemma token_admin_registry_TokenConfig_keys: "sort [''administrator'', ''pending_administrator'', ''token_pool''] =
    [''administrator'', ''pending_administrator'', ''token_pool'']"
  by simp

lemma token_admin_registry_TokenConfig_codec:
  assumes "sdk_laws lib"
  shows "codec (TokenConfig_ToScVal lib) (TokenConfigFromScVal lib) (valid_TokenConfig lib)"
proof (rule codecI)
  show "\<exists>v. TokenConfig_ToScVal lib s = Ok v \<and> TokenConfigFromScVal lib v = Ok s" if ok: "valid_TokenConfig lib s" for s
    using ok assms
    by (cases s) (simp add: TokenConfig_ToScVal_def TokenConfigFromScVal_def TokenConfig_entry_def zero_TokenConfig_def valid_TokenConfig_def
        token_admin_registry_TokenConfig_keys struct_codec_simps del: sort_key_simps fold_entries.simps(2))
qed

end
