(* ===== verification/Bind_TokenLockBox.thy ===== *)
theory Bind_TokenLockBox
  imports Bind_Common
begin

text \<open>
  The generated binding of the token lock box contract (bindings/contracts/token_lock_box): the types of its own and every
  method of \<open>TokenLockBoxClient\<close>.
\<close>

section \<open>Events\<close>

record DepositEvent =
  DepositEvent_Token :: string
  DepositEvent_Depositor :: string
  DepositEvent_Amount :: int
  DepositEvent_Ledger :: int
  DepositEvent_TxHash :: string

definition DepositEvent_entry :: "sdk \<Rightarrow> string \<Rightarrow> ScVal \<Rightarrow> DepositEvent \<Rightarrow> DepositEvent result" where
  "DepositEvent_entry lib key v s =
     (if key = ''token'' then set_if_ok (AddressFromScVal lib v) (\<lambda>x s. s\<lparr>DepositEvent_Token := x\<rparr>) s
      else if key = ''depositor'' then set_if_ok (AddressFromScVal lib v) (\<lambda>x s. s\<lparr>DepositEvent_Depositor := x\<rparr>) s
      else if key = ''amount'' then set_if_ok (I128FromScVal v) (\<lambda>x s. s\<lparr>DepositEvent_Amount := x\<rparr>) s
      else Ok s)"

definition ParseDepositEvent :: "sdk \<Rightarrow> EventInfo \<Rightarrow> DepositEvent result" where
  "ParseDepositEvent lib = parse_event lib (DepositEvent_entry lib) (\<lambda>ledger tx.
     \<lparr>DepositEvent_Token = [], DepositEvent_Depositor = [], DepositEvent_Amount = 0, DepositEvent_Ledger = ledger,
        DepositEvent_TxHash = tx\<rparr>)"

record WithdrawalEvent =
  WithdrawalEvent_Token :: string
  WithdrawalEvent_Recipient :: string
  WithdrawalEvent_Amount :: int
  WithdrawalEvent_Ledger :: int
  WithdrawalEvent_TxHash :: string

definition WithdrawalEvent_entry :: "sdk \<Rightarrow> string \<Rightarrow> ScVal \<Rightarrow> WithdrawalEvent \<Rightarrow> WithdrawalEvent result" where
  "WithdrawalEvent_entry lib key v s =
     (if key = ''token'' then set_if_ok (AddressFromScVal lib v) (\<lambda>x s. s\<lparr>WithdrawalEvent_Token := x\<rparr>) s
      else if key = ''recipient'' then set_if_ok (AddressFromScVal lib v) (\<lambda>x s. s\<lparr>WithdrawalEvent_Recipient := x\<rparr>) s
      else if key = ''amount'' then set_if_ok (I128FromScVal v) (\<lambda>x s. s\<lparr>WithdrawalEvent_Amount := x\<rparr>) s
      else Ok s)"

definition ParseWithdrawalEvent :: "sdk \<Rightarrow> EventInfo \<Rightarrow> WithdrawalEvent result" where
  "ParseWithdrawalEvent lib = parse_event lib (WithdrawalEvent_entry lib) (\<lambda>ledger tx.
     \<lparr>WithdrawalEvent_Token = [], WithdrawalEvent_Recipient = [], WithdrawalEvent_Amount = 0,
        WithdrawalEvent_Ledger = ledger, WithdrawalEvent_TxHash = tx\<rparr>)"

section \<open>The client\<close>

definition NewTokenLockBoxClient :: "'s Invoker \<Rightarrow> string \<Rightarrow> 's Client" where
  "NewTokenLockBoxClient ivk contractID = mk_client ivk contractID"

definition ContractID :: "'s Client \<Rightarrow> string" where
  "ContractID c = cl_contractID c"

definition Owner :: "sdk \<Rightarrow> 's Client \<Rightarrow> ('s, (string option) result) state" where
  "Owner lib c = simulate_value c ''owner'' [] (OptionalAddressFromScVal lib)"

definition Deposit :: "sdk \<Rightarrow> 's Client \<Rightarrow> string \<Rightarrow> int \<Rightarrow> ('s, unit result) state" where
  "Deposit lib c caller amount = invoke_void c ''deposit'' [Ok (AddressToScVal lib caller), Ok (I128ToScVal amount)]"

definition IsOwner :: "sdk \<Rightarrow> 's Client \<Rightarrow> string \<Rightarrow> ('s, bool result) state" where
  "IsOwner lib c addr =
     simulate_value c ''is_owner'' [
       Ok (AddressToScVal lib addr)] (\<lambda>v. need ''expected bool return type'' (GetB v))"

definition Withdraw :: "sdk \<Rightarrow> 's Client \<Rightarrow> string \<Rightarrow> int \<Rightarrow> string \<Rightarrow> ('s, unit result) state" where
  "Withdraw lib c caller amount recipient =
     invoke_void c ''withdraw'' [
       Ok (AddressToScVal lib caller), Ok (I128ToScVal amount), Ok (AddressToScVal lib recipient)]"

definition GetToken :: "sdk \<Rightarrow> 's Client \<Rightarrow> ('s, string result) state" where
  "GetToken lib c = simulate_value c ''get_token'' [] (AddressFromScVal lib)"

definition InitOwner :: "sdk \<Rightarrow> 's Client \<Rightarrow> string \<Rightarrow> ('s, unit result) state" where
  "InitOwner lib c owner = invoke_void c ''init_owner'' [Ok (AddressToScVal lib owner)]"

definition Initialize :: "sdk \<Rightarrow> 's Client \<Rightarrow> string \<Rightarrow> string \<Rightarrow> ('s, unit result) state" where
  "Initialize lib c owner token =
     invoke_void c ''initialize'' [Ok (AddressToScVal lib owner), Ok (AddressToScVal lib token)]"

definition RequireOwner :: "sdk \<Rightarrow> 's Client \<Rightarrow> ('s, string result) state" where
  "RequireOwner lib c = invoke_value c ''require_owner'' [] (AddressFromScVal lib)"

definition SetNewOwner :: "sdk \<Rightarrow> 's Client \<Rightarrow> string \<Rightarrow> ('s, unit result) state" where
  "SetNewOwner lib c newOwner = invoke_void c ''set_new_owner'' [Ok (AddressToScVal lib newOwner)]"

definition AcceptOwnership :: "sdk \<Rightarrow> 's Client \<Rightarrow> ('s, unit result) state" where
  "AcceptOwnership lib c = invoke_void c ''accept_ownership'' []"

definition GetPendingOwner :: "sdk \<Rightarrow> 's Client \<Rightarrow> ('s, (string option) result) state" where
  "GetPendingOwner lib c = simulate_value c ''get_pending_owner'' [] (OptionalAddressFromScVal lib)"

definition IsTokenSupported :: "sdk \<Rightarrow> 's Client \<Rightarrow> string \<Rightarrow> ('s, bool result) state" where
  "IsTokenSupported lib c token =
     simulate_value c ''is_token_supported'' [
       Ok (AddressToScVal lib token)] (\<lambda>v. need ''expected bool return type'' (GetB v))"

definition TransferOwnership :: "sdk \<Rightarrow> 's Client \<Rightarrow> string \<Rightarrow> ('s, unit result) state" where
  "TransferOwnership lib c newOwner = invoke_void c ''transfer_ownership'' [Ok (AddressToScVal lib newOwner)]"

definition AddAllowedCallers :: "sdk \<Rightarrow> 's Client \<Rightarrow> string list \<Rightarrow> ('s, unit result) state" where
  "AddAllowedCallers lib c callers = invoke_void c ''add_allowed_callers'' [Ok (AddressSliceToScVal lib callers)]"

definition GetAllowedCallers :: "sdk \<Rightarrow> 's Client \<Rightarrow> ('s, (string list) result) state" where
  "GetAllowedCallers lib c =
     simulate_value c ''get_allowed_callers'' [] (vec_of ''expected vec return type'' (AddressFromScVal lib))"

definition RemoveAllowedCallers :: "sdk \<Rightarrow> 's Client \<Rightarrow> string list \<Rightarrow> ('s, unit result) state" where
  "RemoveAllowedCallers lib c callers =
     invoke_void c ''remove_allowed_callers'' [Ok (AddressSliceToScVal lib callers)]"

definition CancelOwnershipTransfer :: "sdk \<Rightarrow> 's Client \<Rightarrow> ('s, unit result) state" where
  "CancelOwnershipTransfer lib c = invoke_void c ''cancel_ownership_transfer'' []"

section \<open>Waiting for events\<close>

definition RoleGrantedEventTopic :: string where
  "RoleGrantedEventTopic = ''auth_RoleGranted''"

definition WaitForRoleGrantedEvent :: "sdk \<Rightarrow> 's Client \<Rightarrow> int \<Rightarrow> int \<Rightarrow> (RoleGrantedEvent \<Rightarrow> bool) option \<Rightarrow> wait_round list \<Rightarrow> ('s, RoleGrantedEvent result option) state" where
  "WaitForRoleGrantedEvent lib c = wait_for c RoleGrantedEventTopic (ParseRoleGrantedEvent lib)"

definition RoleRevokedEventTopic :: string where
  "RoleRevokedEventTopic = ''auth_RoleRevoked''"

definition WaitForRoleRevokedEvent :: "sdk \<Rightarrow> 's Client \<Rightarrow> int \<Rightarrow> int \<Rightarrow> (RoleRevokedEvent \<Rightarrow> bool) option \<Rightarrow> wait_round list \<Rightarrow> ('s, RoleRevokedEvent result option) state" where
  "WaitForRoleRevokedEvent lib c = wait_for c RoleRevokedEventTopic (ParseRoleRevokedEvent lib)"

definition AuthorizedCallerAddedEventTopic :: string where
  "AuthorizedCallerAddedEventTopic = ''auth_CallerAdded''"

definition WaitForAuthorizedCallerAddedEvent :: "sdk \<Rightarrow> 's Client \<Rightarrow> int \<Rightarrow> int \<Rightarrow> (AuthorizedCallerAddedEvent \<Rightarrow> bool) option \<Rightarrow> wait_round list \<Rightarrow> ('s, AuthorizedCallerAddedEvent result option) state" where
  "WaitForAuthorizedCallerAddedEvent lib c = wait_for c AuthorizedCallerAddedEventTopic (ParseAuthorizedCallerAddedEvent lib)"

definition AuthorizedCallerRemovedEventTopic :: string where
  "AuthorizedCallerRemovedEventTopic = ''auth_CallerRemoved''"

definition WaitForAuthorizedCallerRemovedEvent :: "sdk \<Rightarrow> 's Client \<Rightarrow> int \<Rightarrow> int \<Rightarrow> (AuthorizedCallerRemovedEvent \<Rightarrow> bool) option \<Rightarrow> wait_round list \<Rightarrow> ('s, AuthorizedCallerRemovedEvent result option) state" where
  "WaitForAuthorizedCallerRemovedEvent lib c = wait_for c AuthorizedCallerRemovedEventTopic (ParseAuthorizedCallerRemovedEvent lib)"

definition OwnershipTransferStartedEventTopic :: string where
  "OwnershipTransferStartedEventTopic = ''auth_OwnerTransferStart''"

definition WaitForOwnershipTransferStartedEvent :: "sdk \<Rightarrow> 's Client \<Rightarrow> int \<Rightarrow> int \<Rightarrow> (OwnershipTransferStartedEvent \<Rightarrow> bool) option \<Rightarrow> wait_round list \<Rightarrow> ('s, OwnershipTransferStartedEvent result option) state" where
  "WaitForOwnershipTransferStartedEvent lib c = wait_for c OwnershipTransferStartedEventTopic (ParseOwnershipTransferStartedEvent lib)"

definition DepositEventTopic :: string where
  "DepositEventTopic = ''lockbox_Deposit''"

definition WaitForDepositEvent :: "sdk \<Rightarrow> 's Client \<Rightarrow> int \<Rightarrow> int \<Rightarrow> (DepositEvent \<Rightarrow> bool) option \<Rightarrow> wait_round list \<Rightarrow> ('s, DepositEvent result option) state" where
  "WaitForDepositEvent lib c = wait_for c DepositEventTopic (ParseDepositEvent lib)"

definition WithdrawalEventTopic :: string where
  "WithdrawalEventTopic = ''lockbox_Withdrawal''"

definition WaitForWithdrawalEvent :: "sdk \<Rightarrow> 's Client \<Rightarrow> int \<Rightarrow> int \<Rightarrow> (WithdrawalEvent \<Rightarrow> bool) option \<Rightarrow> wait_round list \<Rightarrow> ('s, WithdrawalEvent result option) state" where
  "WaitForWithdrawalEvent lib c = wait_for c WithdrawalEventTopic (ParseWithdrawalEvent lib)"

end
