(* ===== verification/Bind_TokenPool.thy ===== *)
theory Bind_TokenPool
  imports Bind_Common
begin

text \<open>
  The generated binding of the token pool contract (bindings/contracts/token_pool): the types of its own and every
  method of \<open>TokenPoolClient\<close>.
\<close>

section \<open>Structs\<close>

record LockOrBurnIn =
  LockOrBurnIn_Receiver :: bytes
  LockOrBurnIn_RemoteChainSelector :: int
  LockOrBurnIn_OriginalSender :: string
  LockOrBurnIn_Amount :: int
  LockOrBurnIn_LocalToken :: string

definition zero_LockOrBurnIn :: LockOrBurnIn where
  "zero_LockOrBurnIn = \<lparr>LockOrBurnIn_Receiver = [], LockOrBurnIn_RemoteChainSelector = 0, LockOrBurnIn_OriginalSender = [],
     LockOrBurnIn_Amount = 0, LockOrBurnIn_LocalToken = []\<rparr>"

definition LockOrBurnIn_ToScVal :: "sdk \<Rightarrow> LockOrBurnIn \<Rightarrow> ScVal result" where
  "LockOrBurnIn_ToScVal lib s = build_struct [
     (''receiver'', Ok (BytesToScVal (LockOrBurnIn_Receiver s))),
     (''remote_chain_selector'', Ok (Uint64ToScVal (LockOrBurnIn_RemoteChainSelector s))),
     (''original_sender'', Ok (AddressToScVal lib (LockOrBurnIn_OriginalSender s))),
     (''amount'', Ok (I128ToScVal (LockOrBurnIn_Amount s))),
     (''local_token'', Ok (AddressToScVal lib (LockOrBurnIn_LocalToken s)))]"

definition LockOrBurnIn_entry :: "sdk \<Rightarrow> string \<Rightarrow> ScVal \<Rightarrow> LockOrBurnIn \<Rightarrow> LockOrBurnIn result" where
  "LockOrBurnIn_entry lib key v s =
     (if key = ''receiver'' then put (need ''receiver is not bytes'' (GetBytes v)) (\<lambda>x. s\<lparr>LockOrBurnIn_Receiver := x\<rparr>)
      else if key = ''remote_chain_selector'' then put (named ''remote_chain_selector'' (Uint64FromScVal v)) (\<lambda>x. s\<lparr>LockOrBurnIn_RemoteChainSelector := x\<rparr>)
      else if key = ''original_sender'' then put (named ''original_sender'' (AddressFromScVal lib v)) (\<lambda>x. s\<lparr>LockOrBurnIn_OriginalSender := x\<rparr>)
      else if key = ''amount'' then put (named ''amount'' (I128FromScVal v)) (\<lambda>x. s\<lparr>LockOrBurnIn_Amount := x\<rparr>)
      else if key = ''local_token'' then put (named ''local_token'' (AddressFromScVal lib v)) (\<lambda>x. s\<lparr>LockOrBurnIn_LocalToken := x\<rparr>)
      else Ok s)"

definition LockOrBurnInFromScVal :: "sdk \<Rightarrow> ScVal \<Rightarrow> LockOrBurnIn result" where
  "LockOrBurnInFromScVal lib = parse_struct ''not a map type'' (LockOrBurnIn_entry lib) zero_LockOrBurnIn"

record LockOrBurnOut =
  LockOrBurnOut_DestTokenAddress :: bytes
  LockOrBurnOut_DestPoolData :: bytes

definition zero_LockOrBurnOut :: LockOrBurnOut where
  "zero_LockOrBurnOut = \<lparr>LockOrBurnOut_DestTokenAddress = [], LockOrBurnOut_DestPoolData = []\<rparr>"

definition LockOrBurnOut_ToScVal :: "sdk \<Rightarrow> LockOrBurnOut \<Rightarrow> ScVal result" where
  "LockOrBurnOut_ToScVal lib s = build_struct [
     (''dest_token_address'', Ok (BytesToScVal (LockOrBurnOut_DestTokenAddress s))),
     (''dest_pool_data'', Ok (BytesToScVal (LockOrBurnOut_DestPoolData s)))]"

definition LockOrBurnOut_entry :: "sdk \<Rightarrow> string \<Rightarrow> ScVal \<Rightarrow> LockOrBurnOut \<Rightarrow> LockOrBurnOut result" where
  "LockOrBurnOut_entry lib key v s =
     (if key = ''dest_token_address'' then put (need ''dest_token_address is not bytes'' (GetBytes v)) (\<lambda>x. s\<lparr>LockOrBurnOut_DestTokenAddress := x\<rparr>)
      else if key = ''dest_pool_data'' then put (need ''dest_pool_data is not bytes'' (GetBytes v)) (\<lambda>x. s\<lparr>LockOrBurnOut_DestPoolData := x\<rparr>)
      else Ok s)"

definition LockOrBurnOutFromScVal :: "sdk \<Rightarrow> ScVal \<Rightarrow> LockOrBurnOut result" where
  "LockOrBurnOutFromScVal lib = parse_struct ''not a map type'' (LockOrBurnOut_entry lib) zero_LockOrBurnOut"

record ReleaseOrMintIn =
  ReleaseOrMintIn_OriginalSender :: bytes
  ReleaseOrMintIn_RemoteChainSelector :: int
  ReleaseOrMintIn_Receiver :: string
  ReleaseOrMintIn_Amount :: int
  ReleaseOrMintIn_LocalToken :: string
  ReleaseOrMintIn_SourcePoolAddress :: bytes
  ReleaseOrMintIn_SourcePoolData :: bytes

definition zero_ReleaseOrMintIn :: ReleaseOrMintIn where
  "zero_ReleaseOrMintIn = \<lparr>ReleaseOrMintIn_OriginalSender = [], ReleaseOrMintIn_RemoteChainSelector = 0, ReleaseOrMintIn_Receiver = [],
     ReleaseOrMintIn_Amount = 0, ReleaseOrMintIn_LocalToken = [], ReleaseOrMintIn_SourcePoolAddress = [],
     ReleaseOrMintIn_SourcePoolData = []\<rparr>"

definition ReleaseOrMintIn_ToScVal :: "sdk \<Rightarrow> ReleaseOrMintIn \<Rightarrow> ScVal result" where
  "ReleaseOrMintIn_ToScVal lib s = build_struct [
     (''original_sender'', Ok (BytesToScVal (ReleaseOrMintIn_OriginalSender s))),
     (''remote_chain_selector'', Ok (Uint64ToScVal (ReleaseOrMintIn_RemoteChainSelector s))),
     (''receiver'', Ok (AddressToScVal lib (ReleaseOrMintIn_Receiver s))),
     (''amount'', Ok (I128ToScVal (ReleaseOrMintIn_Amount s))),
     (''local_token'', Ok (AddressToScVal lib (ReleaseOrMintIn_LocalToken s))),
     (''source_pool_address'', Ok (BytesToScVal (ReleaseOrMintIn_SourcePoolAddress s))),
     (''source_pool_data'', Ok (BytesToScVal (ReleaseOrMintIn_SourcePoolData s)))]"

definition ReleaseOrMintIn_entry :: "sdk \<Rightarrow> string \<Rightarrow> ScVal \<Rightarrow> ReleaseOrMintIn \<Rightarrow> ReleaseOrMintIn result" where
  "ReleaseOrMintIn_entry lib key v s =
     (if key = ''original_sender'' then put (need ''original_sender is not bytes'' (GetBytes v)) (\<lambda>x. s\<lparr>ReleaseOrMintIn_OriginalSender := x\<rparr>)
      else if key = ''remote_chain_selector'' then put (named ''remote_chain_selector'' (Uint64FromScVal v)) (\<lambda>x. s\<lparr>ReleaseOrMintIn_RemoteChainSelector := x\<rparr>)
      else if key = ''receiver'' then put (named ''receiver'' (AddressFromScVal lib v)) (\<lambda>x. s\<lparr>ReleaseOrMintIn_Receiver := x\<rparr>)
      else if key = ''amount'' then put (named ''amount'' (I128FromScVal v)) (\<lambda>x. s\<lparr>ReleaseOrMintIn_Amount := x\<rparr>)
      else if key = ''local_token'' then put (named ''local_token'' (AddressFromScVal lib v)) (\<lambda>x. s\<lparr>ReleaseOrMintIn_LocalToken := x\<rparr>)
      else if key = ''source_pool_address'' then put (need ''source_pool_address is not bytes'' (GetBytes v)) (\<lambda>x. s\<lparr>ReleaseOrMintIn_SourcePoolAddress := x\<rparr>)
      else if key = ''source_pool_data'' then put (need ''source_pool_data is not bytes'' (GetBytes v)) (\<lambda>x. s\<lparr>ReleaseOrMintIn_SourcePoolData := x\<rparr>)
      else Ok s)"

definition ReleaseOrMintInFromScVal :: "sdk \<Rightarrow> ScVal \<Rightarrow> ReleaseOrMintIn result" where
  "ReleaseOrMintInFromScVal lib = parse_struct ''not a map type'' (ReleaseOrMintIn_entry lib) zero_ReleaseOrMintIn"

record RateLimitConfig =
  RateLimitConfig_IsEnabled :: bool
  RateLimitConfig_Capacity :: "int \<times> int"
  RateLimitConfig_Rate :: "int \<times> int"

definition zero_RateLimitConfig :: RateLimitConfig where
  "zero_RateLimitConfig = \<lparr>RateLimitConfig_IsEnabled = False, RateLimitConfig_Capacity = (0, 0), RateLimitConfig_Rate = (0, 0)\<rparr>"

definition RateLimitConfig_ToScVal :: "sdk \<Rightarrow> RateLimitConfig \<Rightarrow> ScVal result" where
  "RateLimitConfig_ToScVal lib s = build_struct [
     (''is_enabled'', Ok (BoolToScVal (RateLimitConfig_IsEnabled s))),
     (''capacity'', MustToScVal (U128_ToScVal (RateLimitConfig_Capacity s))),
     (''rate'', MustToScVal (U128_ToScVal (RateLimitConfig_Rate s)))]"

definition RateLimitConfig_entry :: "sdk \<Rightarrow> string \<Rightarrow> ScVal \<Rightarrow> RateLimitConfig \<Rightarrow> RateLimitConfig result" where
  "RateLimitConfig_entry lib key v s =
     (if key = ''is_enabled'' then put (need ''is_enabled is not bool'' (GetB v)) (\<lambda>x. s\<lparr>RateLimitConfig_IsEnabled := x\<rparr>)
      else if key = ''capacity'' then put (named ''capacity'' (U128FromScVal v)) (\<lambda>x. s\<lparr>RateLimitConfig_Capacity := x\<rparr>)
      else if key = ''rate'' then put (named ''rate'' (U128FromScVal v)) (\<lambda>x. s\<lparr>RateLimitConfig_Rate := x\<rparr>)
      else Ok s)"

definition RateLimitConfigFromScVal :: "sdk \<Rightarrow> ScVal \<Rightarrow> RateLimitConfig result" where
  "RateLimitConfigFromScVal lib = parse_struct ''not a map type'' (RateLimitConfig_entry lib) zero_RateLimitConfig"

record TokenBucket =
  TokenBucket_Tokens :: "int \<times> int"
  TokenBucket_LastUpdated :: int
  TokenBucket_IsEnabled :: bool
  TokenBucket_Capacity :: "int \<times> int"
  TokenBucket_Rate :: "int \<times> int"

definition zero_TokenBucket :: TokenBucket where
  "zero_TokenBucket = \<lparr>TokenBucket_Tokens = (0, 0), TokenBucket_LastUpdated = 0, TokenBucket_IsEnabled = False,
     TokenBucket_Capacity = (0, 0), TokenBucket_Rate = (0, 0)\<rparr>"

definition TokenBucket_ToScVal :: "sdk \<Rightarrow> TokenBucket \<Rightarrow> ScVal result" where
  "TokenBucket_ToScVal lib s = build_struct [
     (''tokens'', MustToScVal (U128_ToScVal (TokenBucket_Tokens s))),
     (''last_updated'', Ok (Uint64ToScVal (TokenBucket_LastUpdated s))),
     (''is_enabled'', Ok (BoolToScVal (TokenBucket_IsEnabled s))),
     (''capacity'', MustToScVal (U128_ToScVal (TokenBucket_Capacity s))),
     (''rate'', MustToScVal (U128_ToScVal (TokenBucket_Rate s)))]"

definition TokenBucket_entry :: "sdk \<Rightarrow> string \<Rightarrow> ScVal \<Rightarrow> TokenBucket \<Rightarrow> TokenBucket result" where
  "TokenBucket_entry lib key v s =
     (if key = ''tokens'' then put (named ''tokens'' (U128FromScVal v)) (\<lambda>x. s\<lparr>TokenBucket_Tokens := x\<rparr>)
      else if key = ''last_updated'' then put (named ''last_updated'' (Uint64FromScVal v)) (\<lambda>x. s\<lparr>TokenBucket_LastUpdated := x\<rparr>)
      else if key = ''is_enabled'' then put (need ''is_enabled is not bool'' (GetB v)) (\<lambda>x. s\<lparr>TokenBucket_IsEnabled := x\<rparr>)
      else if key = ''capacity'' then put (named ''capacity'' (U128FromScVal v)) (\<lambda>x. s\<lparr>TokenBucket_Capacity := x\<rparr>)
      else if key = ''rate'' then put (named ''rate'' (U128FromScVal v)) (\<lambda>x. s\<lparr>TokenBucket_Rate := x\<rparr>)
      else Ok s)"

definition TokenBucketFromScVal :: "sdk \<Rightarrow> ScVal \<Rightarrow> TokenBucket result" where
  "TokenBucketFromScVal lib = parse_struct ''not a map type'' (TokenBucket_entry lib) zero_TokenBucket"

record RateLimiterState =
  RateLimiterState_Outbound :: TokenBucket
  RateLimiterState_Inbound :: TokenBucket

definition zero_RateLimiterState :: RateLimiterState where
  "zero_RateLimiterState = \<lparr>RateLimiterState_Outbound = zero_TokenBucket, RateLimiterState_Inbound = zero_TokenBucket\<rparr>"

definition RateLimiterState_ToScVal :: "sdk \<Rightarrow> RateLimiterState \<Rightarrow> ScVal result" where
  "RateLimiterState_ToScVal lib s = build_struct [
     (''outbound'', MustToScVal (TokenBucket_ToScVal lib (RateLimiterState_Outbound s))),
     (''inbound'', MustToScVal (TokenBucket_ToScVal lib (RateLimiterState_Inbound s)))]"

definition RateLimiterState_entry :: "sdk \<Rightarrow> string \<Rightarrow> ScVal \<Rightarrow> RateLimiterState \<Rightarrow> RateLimiterState result" where
  "RateLimiterState_entry lib key v s =
     (if key = ''outbound'' then put (named ''outbound'' (TokenBucketFromScVal lib v)) (\<lambda>x. s\<lparr>RateLimiterState_Outbound := x\<rparr>)
      else if key = ''inbound'' then put (named ''inbound'' (TokenBucketFromScVal lib v)) (\<lambda>x. s\<lparr>RateLimiterState_Inbound := x\<rparr>)
      else Ok s)"

definition RateLimiterStateFromScVal :: "sdk \<Rightarrow> ScVal \<Rightarrow> RateLimiterState result" where
  "RateLimiterStateFromScVal lib = parse_struct ''not a map type'' (RateLimiterState_entry lib) zero_RateLimiterState"

record ChainUpdate =
  ChainUpdate_RemoteChainSelector :: int
  ChainUpdate_RemotePoolAddresses :: bytes
  ChainUpdate_RemoteTokenAddress :: bytes
  ChainUpdate_OutboundRateLimiterConfig :: RateLimitConfig
  ChainUpdate_InboundRateLimiterConfig :: RateLimitConfig

definition zero_ChainUpdate :: ChainUpdate where
  "zero_ChainUpdate = \<lparr>ChainUpdate_RemoteChainSelector = 0, ChainUpdate_RemotePoolAddresses = [], ChainUpdate_RemoteTokenAddress = [],
     ChainUpdate_OutboundRateLimiterConfig = zero_RateLimitConfig,
     ChainUpdate_InboundRateLimiterConfig = zero_RateLimitConfig\<rparr>"

definition ChainUpdate_ToScVal :: "sdk \<Rightarrow> ChainUpdate \<Rightarrow> ScVal result" where
  "ChainUpdate_ToScVal lib s = build_struct [
     (''remote_chain_selector'', Ok (Uint64ToScVal (ChainUpdate_RemoteChainSelector s))),
     (''remote_pool_addresses'', Ok (BytesToScVal (ChainUpdate_RemotePoolAddresses s))),
     (''remote_token_address'', Ok (BytesToScVal (ChainUpdate_RemoteTokenAddress s))),
     (''outbound_rate_limiter_config'', MustToScVal (RateLimitConfig_ToScVal lib (ChainUpdate_OutboundRateLimiterConfig s))),
     (''inbound_rate_limiter_config'', MustToScVal (RateLimitConfig_ToScVal lib (ChainUpdate_InboundRateLimiterConfig s)))]"

definition ChainUpdate_entry :: "sdk \<Rightarrow> string \<Rightarrow> ScVal \<Rightarrow> ChainUpdate \<Rightarrow> ChainUpdate result" where
  "ChainUpdate_entry lib key v s =
     (if key = ''remote_chain_selector'' then put (named ''remote_chain_selector'' (Uint64FromScVal v)) (\<lambda>x. s\<lparr>ChainUpdate_RemoteChainSelector := x\<rparr>)
      else if key = ''remote_pool_addresses'' then put (need ''remote_pool_addresses is not bytes'' (GetBytes v)) (\<lambda>x. s\<lparr>ChainUpdate_RemotePoolAddresses := x\<rparr>)
      else if key = ''remote_token_address'' then put (need ''remote_token_address is not bytes'' (GetBytes v)) (\<lambda>x. s\<lparr>ChainUpdate_RemoteTokenAddress := x\<rparr>)
      else if key = ''outbound_rate_limiter_config'' then put (named ''outbound_rate_limiter_config'' (RateLimitConfigFromScVal lib v)) (\<lambda>x. s\<lparr>ChainUpdate_OutboundRateLimiterConfig := x\<rparr>)
      else if key = ''inbound_rate_limiter_config'' then put (named ''inbound_rate_limiter_config'' (RateLimitConfigFromScVal lib v)) (\<lambda>x. s\<lparr>ChainUpdate_InboundRateLimiterConfig := x\<rparr>)
      else Ok s)"

definition ChainUpdateFromScVal :: "sdk \<Rightarrow> ScVal \<Rightarrow> ChainUpdate result" where
  "ChainUpdateFromScVal lib = parse_struct ''not a map type'' (ChainUpdate_entry lib) zero_ChainUpdate"

section \<open>The client\<close>

definition NewTokenPoolClient :: "'s Invoker \<Rightarrow> string \<Rightarrow> 's Client" where
  "NewTokenPoolClient ivk contractID = mk_client ivk contractID"

definition ContractID :: "'s Client \<Rightarrow> string" where
  "ContractID c = cl_contractID c"

definition Initialize :: "sdk \<Rightarrow> 's Client \<Rightarrow> string \<Rightarrow> string \<Rightarrow> int \<Rightarrow> string \<Rightarrow> string \<Rightarrow> ('s, unit result) state" where
  "Initialize lib c owner token tokenDecimals router rampRegistry =
     invoke_void c ''initialize'' [
       Ok (AddressToScVal lib owner), Ok (AddressToScVal lib token), Ok (Uint32ToScVal tokenDecimals),
       Ok (AddressToScVal lib router), Ok (AddressToScVal lib rampRegistry)]"

definition TypeAndVersion :: "sdk \<Rightarrow> 's Client \<Rightarrow> ('s, string result) state" where
  "TypeAndVersion lib c = invoke_value c ''type_and_version'' [] (StringFromScVal)"

definition LockOrBurn :: "sdk \<Rightarrow> 's Client \<Rightarrow> string \<Rightarrow> LockOrBurnIn \<Rightarrow> int \<Rightarrow> ('s, LockOrBurnOut result) state" where
  "LockOrBurn lib c caller input requestedFinality =
     invoke_value c ''lock_or_burn'' [
       Ok (AddressToScVal lib caller), MustToScVal (LockOrBurnIn_ToScVal lib input),
       Ok (Uint32ToScVal requestedFinality)] (LockOrBurnOutFromScVal lib)"

definition ReleaseOrMint :: "sdk \<Rightarrow> 's Client \<Rightarrow> string \<Rightarrow> ReleaseOrMintIn \<Rightarrow> int \<Rightarrow> ('s, ReleaseOrMintOut result) state" where
  "ReleaseOrMint lib c caller input requestedFinality =
     invoke_value c ''release_or_mint'' [
       Ok (AddressToScVal lib caller), MustToScVal (ReleaseOrMintIn_ToScVal lib input),
       Ok (Uint32ToScVal requestedFinality)] (ReleaseOrMintOutFromScVal lib)"

definition GetFee :: "sdk \<Rightarrow> 's Client \<Rightarrow> int \<Rightarrow> ('s, PoolFeeResult result) state" where
  "GetFee lib c remoteChainSelector =
     simulate_value c ''get_fee'' [Ok (Uint64ToScVal remoteChainSelector)] (PoolFeeResultFromScVal lib)"

definition IsSupportedToken :: "sdk \<Rightarrow> 's Client \<Rightarrow> string \<Rightarrow> ('s, bool result) state" where
  "IsSupportedToken lib c token =
     simulate_value c ''is_supported_token'' [
       Ok (AddressToScVal lib token)] (\<lambda>v. need ''expected bool return type'' (GetB v))"

definition IsSupportedChain :: "sdk \<Rightarrow> 's Client \<Rightarrow> int \<Rightarrow> ('s, bool result) state" where
  "IsSupportedChain lib c remoteChainSelector =
     simulate_value c ''is_supported_chain'' [
       Ok (Uint64ToScVal remoteChainSelector)] (\<lambda>v. need ''expected bool return type'' (GetB v))"

definition GetToken :: "sdk \<Rightarrow> 's Client \<Rightarrow> ('s, string result) state" where
  "GetToken lib c = simulate_value c ''get_token'' [] (AddressFromScVal lib)"

definition GetTokenDecimals :: "sdk \<Rightarrow> 's Client \<Rightarrow> ('s, int result) state" where
  "GetTokenDecimals lib c =
     simulate_value c ''get_token_decimals'' [] (\<lambda>v. need ''expected u32 return type'' (GetU32 v))"

definition GetRemotePool :: "sdk \<Rightarrow> 's Client \<Rightarrow> int \<Rightarrow> ('s, bytes result) state" where
  "GetRemotePool lib c remoteChainSelector =
     simulate_value c ''get_remote_pool'' [
       Ok (Uint64ToScVal remoteChainSelector)] (\<lambda>v. need ''expected bytes return type'' (GetBytes v))"

definition GetRemoteToken :: "sdk \<Rightarrow> 's Client \<Rightarrow> int \<Rightarrow> ('s, bytes result) state" where
  "GetRemoteToken lib c remoteChainSelector =
     simulate_value c ''get_remote_token'' [
       Ok (Uint64ToScVal remoteChainSelector)] (\<lambda>v. need ''expected bytes return type'' (GetBytes v))"

definition ApplyChainUpdates :: "sdk \<Rightarrow> 's Client \<Rightarrow> ChainUpdate list \<Rightarrow> int list \<Rightarrow> ('s, unit result) state" where
  "ApplyChainUpdates lib c adds removes =
     invoke_void c ''apply_chain_updates'' [
       StructSliceToScVal (ChainUpdate_ToScVal lib) adds, Ok (Uint64SliceToScVal removes)]"

definition SetRateLimitConfig :: "sdk \<Rightarrow> 's Client \<Rightarrow> int \<Rightarrow> RateLimitConfig \<Rightarrow> RateLimitConfig \<Rightarrow> bool \<Rightarrow> ('s, unit result) state" where
  "SetRateLimitConfig lib c remoteChainSelector outboundConfig inboundConfig fastFinality =
     invoke_void c ''set_rate_limit_config'' [
       Ok (Uint64ToScVal remoteChainSelector), MustToScVal (RateLimitConfig_ToScVal lib outboundConfig),
       MustToScVal (RateLimitConfig_ToScVal lib inboundConfig), Ok (BoolToScVal fastFinality)]"

definition SetRateLimitAdmin :: "sdk \<Rightarrow> 's Client \<Rightarrow> string \<Rightarrow> ('s, unit result) state" where
  "SetRateLimitAdmin lib c admin = invoke_void c ''set_rate_limit_admin'' [Ok (AddressToScVal lib admin)]"

definition GetCurrentRateLimiterState :: "sdk \<Rightarrow> 's Client \<Rightarrow> int \<Rightarrow> bool \<Rightarrow> ('s, RateLimiterState result) state" where
  "GetCurrentRateLimiterState lib c remoteChainSelector fastFinality =
     simulate_value c ''get_current_rate_limiter_state'' [
       Ok (Uint64ToScVal remoteChainSelector), Ok (BoolToScVal fastFinality)] (RateLimiterStateFromScVal lib)"

definition GetRateLimitAdmin :: "sdk \<Rightarrow> 's Client \<Rightarrow> ('s, (string option) result) state" where
  "GetRateLimitAdmin lib c = simulate_value c ''get_rate_limit_admin'' [] (OptionalAddressFromScVal lib)"

definition SetAllowedFinalityConfig :: "sdk \<Rightarrow> 's Client \<Rightarrow> int \<Rightarrow> ('s, unit result) state" where
  "SetAllowedFinalityConfig lib c allowedFinality =
     invoke_void c ''set_allowed_finality_config'' [Ok (Uint32ToScVal allowedFinality)]"

definition GetAllowedFinalityConfig :: "sdk \<Rightarrow> 's Client \<Rightarrow> ('s, int result) state" where
  "GetAllowedFinalityConfig lib c =
     simulate_value c ''get_allowed_finality_config'' [] (\<lambda>v. need ''expected u32 return type'' (GetU32 v))"

definition GetAdvancedPoolHooks :: "sdk \<Rightarrow> 's Client \<Rightarrow> ('s, (string option) result) state" where
  "GetAdvancedPoolHooks lib c = simulate_value c ''get_advanced_pool_hooks'' [] (OptionalAddressFromScVal lib)"

definition SetAdvancedPoolHooks :: "sdk \<Rightarrow> 's Client \<Rightarrow> string \<Rightarrow> ('s, unit result) state" where
  "SetAdvancedPoolHooks lib c hooks = invoke_void c ''set_advanced_pool_hooks'' [Ok (AddressToScVal lib hooks)]"

definition RemoveAdvancedPoolHooks :: "sdk \<Rightarrow> 's Client \<Rightarrow> ('s, unit result) state" where
  "RemoveAdvancedPoolHooks lib c = invoke_void c ''remove_advanced_pool_hooks'' []"

definition GetRequiredCcvs :: "sdk \<Rightarrow> 's Client \<Rightarrow> string \<Rightarrow> int \<Rightarrow> int \<Rightarrow> int \<Rightarrow> bytes \<Rightarrow> int \<Rightarrow> ('s, PoolRequiredCCVs result) state" where
  "GetRequiredCcvs lib c localToken remoteChainSelector amount requestedFinality extraData direction =
     simulate_value c ''get_required_ccvs'' [
       Ok (AddressToScVal lib localToken), Ok (Uint64ToScVal remoteChainSelector), Ok (I128ToScVal amount),
       Ok (Uint32ToScVal requestedFinality), Ok (BytesToScVal extraData),
       MustToScVal (MessageDirection_ToScVal direction)] (PoolRequiredCCVsFromScVal lib)"

definition SetRouter :: "sdk \<Rightarrow> 's Client \<Rightarrow> string \<Rightarrow> ('s, unit result) state" where
  "SetRouter lib c router = invoke_void c ''set_router'' [Ok (AddressToScVal lib router)]"

definition GetRouter :: "sdk \<Rightarrow> 's Client \<Rightarrow> ('s, (string option) result) state" where
  "GetRouter lib c = simulate_value c ''get_router'' [] (OptionalAddressFromScVal lib)"

definition SetRampRegistry :: "sdk \<Rightarrow> 's Client \<Rightarrow> string \<Rightarrow> ('s, unit result) state" where
  "SetRampRegistry lib c rampRegistry = invoke_void c ''set_ramp_registry'' [Ok (AddressToScVal lib rampRegistry)]"

definition GetRampRegistry :: "sdk \<Rightarrow> 's Client \<Rightarrow> ('s, (string option) result) state" where
  "GetRampRegistry lib c = simulate_value c ''get_ramp_registry'' [] (OptionalAddressFromScVal lib)"

section \<open>Round trips\<close>

definition valid_LockOrBurnIn :: "sdk \<Rightarrow> LockOrBurnIn \<Rightarrow> bool" where
  "valid_LockOrBurnIn lib s \<longleftrightarrow> is_address lib (LockOrBurnIn_OriginalSender s) \<and> in_i64 (LockOrBurnIn_Amount s) \<and>
     is_address lib (LockOrBurnIn_LocalToken s)"

lemma token_pool_LockOrBurnIn_keys: "sort [''receiver'', ''remote_chain_selector'', ''original_sender'', ''amount'', ''local_token''] =
    [''amount'', ''local_token'', ''original_sender'', ''receiver'', ''remote_chain_selector'']"
  by simp

lemma token_pool_LockOrBurnIn_codec:
  assumes "sdk_laws lib"
  shows "codec (LockOrBurnIn_ToScVal lib) (LockOrBurnInFromScVal lib) (valid_LockOrBurnIn lib)"
proof (rule codecI)
  show "\<exists>v. LockOrBurnIn_ToScVal lib s = Ok v \<and> LockOrBurnInFromScVal lib v = Ok s" if ok: "valid_LockOrBurnIn lib s" for s
    using ok assms
    by (cases s) (simp add: LockOrBurnIn_ToScVal_def LockOrBurnInFromScVal_def LockOrBurnIn_entry_def zero_LockOrBurnIn_def valid_LockOrBurnIn_def
        token_pool_LockOrBurnIn_keys struct_codec_simps del: sort_key_simps fold_entries.simps(2))
qed

definition valid_LockOrBurnOut :: "sdk \<Rightarrow> LockOrBurnOut \<Rightarrow> bool" where
  "valid_LockOrBurnOut lib s \<longleftrightarrow> True"

lemma token_pool_LockOrBurnOut_keys: "sort [''dest_token_address'', ''dest_pool_data''] =
    [''dest_pool_data'', ''dest_token_address'']"
  by simp

lemma token_pool_LockOrBurnOut_codec:
  assumes "sdk_laws lib"
  shows "codec (LockOrBurnOut_ToScVal lib) (LockOrBurnOutFromScVal lib) (valid_LockOrBurnOut lib)"
proof (rule codecI)
  show "\<exists>v. LockOrBurnOut_ToScVal lib s = Ok v \<and> LockOrBurnOutFromScVal lib v = Ok s" if ok: "valid_LockOrBurnOut lib s" for s
    using ok assms
    by (cases s) (simp add: LockOrBurnOut_ToScVal_def LockOrBurnOutFromScVal_def LockOrBurnOut_entry_def zero_LockOrBurnOut_def valid_LockOrBurnOut_def
        token_pool_LockOrBurnOut_keys struct_codec_simps del: sort_key_simps fold_entries.simps(2))
qed

definition valid_ReleaseOrMintIn :: "sdk \<Rightarrow> ReleaseOrMintIn \<Rightarrow> bool" where
  "valid_ReleaseOrMintIn lib s \<longleftrightarrow> is_address lib (ReleaseOrMintIn_Receiver s) \<and> in_i64 (ReleaseOrMintIn_Amount s) \<and>
     is_address lib (ReleaseOrMintIn_LocalToken s)"

lemma token_pool_ReleaseOrMintIn_keys: "sort [''original_sender'', ''remote_chain_selector'', ''receiver'', ''amount'', ''local_token'',
    ''source_pool_address'', ''source_pool_data''] =
    [''amount'', ''local_token'', ''original_sender'', ''receiver'', ''remote_chain_selector'',
     ''source_pool_address'', ''source_pool_data'']"
  by simp

lemma token_pool_ReleaseOrMintIn_codec:
  assumes "sdk_laws lib"
  shows "codec (ReleaseOrMintIn_ToScVal lib) (ReleaseOrMintInFromScVal lib) (valid_ReleaseOrMintIn lib)"
proof (rule codecI)
  show "\<exists>v. ReleaseOrMintIn_ToScVal lib s = Ok v \<and> ReleaseOrMintInFromScVal lib v = Ok s" if ok: "valid_ReleaseOrMintIn lib s" for s
    using ok assms
    by (cases s) (simp add: ReleaseOrMintIn_ToScVal_def ReleaseOrMintInFromScVal_def ReleaseOrMintIn_entry_def zero_ReleaseOrMintIn_def valid_ReleaseOrMintIn_def
        token_pool_ReleaseOrMintIn_keys struct_codec_simps del: sort_key_simps fold_entries.simps(2))
qed

definition valid_RateLimitConfig :: "sdk \<Rightarrow> RateLimitConfig \<Rightarrow> bool" where
  "valid_RateLimitConfig lib s \<longleftrightarrow> True"

lemma token_pool_RateLimitConfig_keys: "sort [''is_enabled'', ''capacity'', ''rate''] =
    [''capacity'', ''is_enabled'', ''rate'']"
  by simp

lemma token_pool_RateLimitConfig_codec:
  assumes "sdk_laws lib"
  shows "codec (RateLimitConfig_ToScVal lib) (RateLimitConfigFromScVal lib) (valid_RateLimitConfig lib)"
proof (rule codecI)
  show "\<exists>v. RateLimitConfig_ToScVal lib s = Ok v \<and> RateLimitConfigFromScVal lib v = Ok s" if ok: "valid_RateLimitConfig lib s" for s
    using ok assms
    by (cases s) (simp add: RateLimitConfig_ToScVal_def RateLimitConfigFromScVal_def RateLimitConfig_entry_def zero_RateLimitConfig_def valid_RateLimitConfig_def
        token_pool_RateLimitConfig_keys struct_codec_simps del: sort_key_simps fold_entries.simps(2))
qed

definition valid_TokenBucket :: "sdk \<Rightarrow> TokenBucket \<Rightarrow> bool" where
  "valid_TokenBucket lib s \<longleftrightarrow> True"

lemma token_pool_TokenBucket_keys: "sort [''tokens'', ''last_updated'', ''is_enabled'', ''capacity'', ''rate''] =
    [''capacity'', ''is_enabled'', ''last_updated'', ''rate'', ''tokens'']"
  by simp

lemma token_pool_TokenBucket_codec:
  assumes "sdk_laws lib"
  shows "codec (TokenBucket_ToScVal lib) (TokenBucketFromScVal lib) (valid_TokenBucket lib)"
proof (rule codecI)
  show "\<exists>v. TokenBucket_ToScVal lib s = Ok v \<and> TokenBucketFromScVal lib v = Ok s" if ok: "valid_TokenBucket lib s" for s
    using ok assms
    by (cases s) (simp add: TokenBucket_ToScVal_def TokenBucketFromScVal_def TokenBucket_entry_def zero_TokenBucket_def valid_TokenBucket_def
        token_pool_TokenBucket_keys struct_codec_simps del: sort_key_simps fold_entries.simps(2))
qed

definition valid_RateLimiterState :: "sdk \<Rightarrow> RateLimiterState \<Rightarrow> bool" where
  "valid_RateLimiterState lib s \<longleftrightarrow> valid_TokenBucket lib (RateLimiterState_Outbound s) \<and> valid_TokenBucket lib (RateLimiterState_Inbound s)"

lemma token_pool_RateLimiterState_keys: "sort [''outbound'', ''inbound''] =
    [''inbound'', ''outbound'']"
  by simp

lemma token_pool_RateLimiterState_codec:
  assumes "sdk_laws lib"
  shows "codec (RateLimiterState_ToScVal lib) (RateLimiterStateFromScVal lib) (valid_RateLimiterState lib)"
proof (rule codecI)
  show "\<exists>v. RateLimiterState_ToScVal lib s = Ok v \<and> RateLimiterStateFromScVal lib v = Ok s" if ok: "valid_RateLimiterState lib s" for s
  proof -
    obtain v1 where o1: "MustToScVal (TokenBucket_ToScVal lib (RateLimiterState_Outbound s)) = Ok v1" "TokenBucketFromScVal lib v1 = Ok (RateLimiterState_Outbound s)"
      using codec_must [OF token_pool_TokenBucket_codec [OF assms]] ok unfolding valid_RateLimiterState_def by blast
    obtain v2 where o2: "MustToScVal (TokenBucket_ToScVal lib (RateLimiterState_Inbound s)) = Ok v2" "TokenBucketFromScVal lib v2 = Ok (RateLimiterState_Inbound s)"
      using codec_must [OF token_pool_TokenBucket_codec [OF assms]] ok unfolding valid_RateLimiterState_def by blast
    show ?thesis using o1 o2 ok assms
      by (cases s) (simp add: RateLimiterState_ToScVal_def RateLimiterStateFromScVal_def RateLimiterState_entry_def zero_RateLimiterState_def valid_RateLimiterState_def
        token_pool_RateLimiterState_keys struct_codec_simps del: sort_key_simps fold_entries.simps(2))
  qed
qed

definition valid_ChainUpdate :: "sdk \<Rightarrow> ChainUpdate \<Rightarrow> bool" where
  "valid_ChainUpdate lib s \<longleftrightarrow> valid_RateLimitConfig lib (ChainUpdate_OutboundRateLimiterConfig s) \<and>
     valid_RateLimitConfig lib (ChainUpdate_InboundRateLimiterConfig s)"

lemma token_pool_ChainUpdate_keys: "sort [''remote_chain_selector'', ''remote_pool_addresses'', ''remote_token_address'', ''outbound_rate_limiter_config'',
    ''inbound_rate_limiter_config''] =
    [''inbound_rate_limiter_config'', ''outbound_rate_limiter_config'', ''remote_chain_selector'',
     ''remote_pool_addresses'', ''remote_token_address'']"
  by simp

lemma token_pool_ChainUpdate_codec:
  assumes "sdk_laws lib"
  shows "codec (ChainUpdate_ToScVal lib) (ChainUpdateFromScVal lib) (valid_ChainUpdate lib)"
proof (rule codecI)
  show "\<exists>v. ChainUpdate_ToScVal lib s = Ok v \<and> ChainUpdateFromScVal lib v = Ok s" if ok: "valid_ChainUpdate lib s" for s
  proof -
    obtain v1 where o1: "MustToScVal (RateLimitConfig_ToScVal lib (ChainUpdate_OutboundRateLimiterConfig s)) = Ok v1" "RateLimitConfigFromScVal lib v1 = Ok (ChainUpdate_OutboundRateLimiterConfig s)"
      using codec_must [OF token_pool_RateLimitConfig_codec [OF assms]] ok unfolding valid_ChainUpdate_def by blast
    obtain v2 where o2: "MustToScVal (RateLimitConfig_ToScVal lib (ChainUpdate_InboundRateLimiterConfig s)) = Ok v2" "RateLimitConfigFromScVal lib v2 = Ok (ChainUpdate_InboundRateLimiterConfig s)"
      using codec_must [OF token_pool_RateLimitConfig_codec [OF assms]] ok unfolding valid_ChainUpdate_def by blast
    show ?thesis using o1 o2 ok assms
      by (cases s) (simp add: ChainUpdate_ToScVal_def ChainUpdateFromScVal_def ChainUpdate_entry_def zero_ChainUpdate_def valid_ChainUpdate_def
        token_pool_ChainUpdate_keys struct_codec_simps del: sort_key_simps fold_entries.simps(2))
  qed
qed

end
