(* ===== verification/Bind_VersionedVerifierResolver.thy ===== *)
theory Bind_VersionedVerifierResolver
  imports Bind_Common
begin

text \<open>
  The generated binding of the versioned verifier resolver contract (bindings/contracts/versioned_verifier_resolver): the types of its own and every
  method of \<open>VersionedVerifierResolverClient\<close>.
\<close>

section \<open>Structs\<close>

record InboundImplementationArgs =
  InboundImplementationArgs_Verifier :: string
  InboundImplementationArgs_Version :: bytes

definition zero_InboundImplementationArgs :: InboundImplementationArgs where
  "zero_InboundImplementationArgs = \<lparr>InboundImplementationArgs_Verifier = [], InboundImplementationArgs_Version = replicate 4 0\<rparr>"

definition InboundImplementationArgs_ToScVal :: "sdk \<Rightarrow> InboundImplementationArgs \<Rightarrow> ScVal result" where
  "InboundImplementationArgs_ToScVal lib s = build_struct [
     (''verifier'', Ok (AddressToScVal lib (InboundImplementationArgs_Verifier s))),
     (''version'', Ok (Bytes4ToScVal (InboundImplementationArgs_Version s)))]"

definition InboundImplementationArgs_entry :: "sdk \<Rightarrow> string \<Rightarrow> ScVal \<Rightarrow> InboundImplementationArgs \<Rightarrow> InboundImplementationArgs result" where
  "InboundImplementationArgs_entry lib key v s =
     (if key = ''verifier'' then put (named ''verifier'' (AddressFromScVal lib v)) (\<lambda>x. s\<lparr>InboundImplementationArgs_Verifier := x\<rparr>)
      else if key = ''version'' then put (named ''version'' (Bytes4FromScVal v)) (\<lambda>x. s\<lparr>InboundImplementationArgs_Version := x\<rparr>)
      else Ok s)"

definition InboundImplementationArgsFromScVal :: "sdk \<Rightarrow> ScVal \<Rightarrow> InboundImplementationArgs result" where
  "InboundImplementationArgsFromScVal lib = parse_struct ''not a map type'' (InboundImplementationArgs_entry lib) zero_InboundImplementationArgs"

record OutboundImplementationArgs =
  OutboundImplementationArgs_DestChainSelector :: int
  OutboundImplementationArgs_Verifier :: string

definition zero_OutboundImplementationArgs :: OutboundImplementationArgs where
  "zero_OutboundImplementationArgs = \<lparr>OutboundImplementationArgs_DestChainSelector = 0, OutboundImplementationArgs_Verifier = []\<rparr>"

definition OutboundImplementationArgs_ToScVal :: "sdk \<Rightarrow> OutboundImplementationArgs \<Rightarrow> ScVal result" where
  "OutboundImplementationArgs_ToScVal lib s = build_struct [
     (''dest_chain_selector'', Ok (Uint64ToScVal (OutboundImplementationArgs_DestChainSelector s))),
     (''verifier'', Ok (AddressToScVal lib (OutboundImplementationArgs_Verifier s)))]"

definition OutboundImplementationArgs_entry :: "sdk \<Rightarrow> string \<Rightarrow> ScVal \<Rightarrow> OutboundImplementationArgs \<Rightarrow> OutboundImplementationArgs result" where
  "OutboundImplementationArgs_entry lib key v s =
     (if key = ''dest_chain_selector'' then put (named ''dest_chain_selector'' (Uint64FromScVal v)) (\<lambda>x. s\<lparr>OutboundImplementationArgs_DestChainSelector := x\<rparr>)
      else if key = ''verifier'' then put (named ''verifier'' (AddressFromScVal lib v)) (\<lambda>x. s\<lparr>OutboundImplementationArgs_Verifier := x\<rparr>)
      else Ok s)"

definition OutboundImplementationArgsFromScVal :: "sdk \<Rightarrow> ScVal \<Rightarrow> OutboundImplementationArgs result" where
  "OutboundImplementationArgsFromScVal lib = parse_struct ''not a map type'' (OutboundImplementationArgs_entry lib) zero_OutboundImplementationArgs"

record InboundImplementationUpdate =
  InboundImplementationUpdate_Verifier :: "string option"
  InboundImplementationUpdate_Version :: bytes

definition zero_InboundImplementationUpdate :: InboundImplementationUpdate where
  "zero_InboundImplementationUpdate = \<lparr>InboundImplementationUpdate_Verifier = None, InboundImplementationUpdate_Version = replicate 4 0\<rparr>"

definition InboundImplementationUpdate_ToScVal :: "sdk \<Rightarrow> InboundImplementationUpdate \<Rightarrow> ScVal result" where
  "InboundImplementationUpdate_ToScVal lib s = build_struct [
     (''verifier'', Ok (OptionalAddressToScVal lib (InboundImplementationUpdate_Verifier s))),
     (''version'', Ok (Bytes4ToScVal (InboundImplementationUpdate_Version s)))]"

definition InboundImplementationUpdate_entry :: "sdk \<Rightarrow> string \<Rightarrow> ScVal \<Rightarrow> InboundImplementationUpdate \<Rightarrow> InboundImplementationUpdate result" where
  "InboundImplementationUpdate_entry lib key v s =
     (if key = ''verifier'' then put (named ''verifier'' (OptionalAddressFromScVal lib v)) (\<lambda>x. s\<lparr>InboundImplementationUpdate_Verifier := x\<rparr>)
      else if key = ''version'' then put (named ''version'' (Bytes4FromScVal v)) (\<lambda>x. s\<lparr>InboundImplementationUpdate_Version := x\<rparr>)
      else Ok s)"

definition InboundImplementationUpdateFromScVal :: "sdk \<Rightarrow> ScVal \<Rightarrow> InboundImplementationUpdate result" where
  "InboundImplementationUpdateFromScVal lib = parse_struct ''not a map type'' (InboundImplementationUpdate_entry lib) zero_InboundImplementationUpdate"

record OutboundImplementationUpdate =
  OutboundImplementationUpdate_DestChainSelector :: int
  OutboundImplementationUpdate_Verifier :: "string option"

definition zero_OutboundImplementationUpdate :: OutboundImplementationUpdate where
  "zero_OutboundImplementationUpdate = \<lparr>OutboundImplementationUpdate_DestChainSelector = 0, OutboundImplementationUpdate_Verifier = None\<rparr>"

definition OutboundImplementationUpdate_ToScVal :: "sdk \<Rightarrow> OutboundImplementationUpdate \<Rightarrow> ScVal result" where
  "OutboundImplementationUpdate_ToScVal lib s = build_struct [
     (''dest_chain_selector'', Ok (Uint64ToScVal (OutboundImplementationUpdate_DestChainSelector s))),
     (''verifier'', Ok (OptionalAddressToScVal lib (OutboundImplementationUpdate_Verifier s)))]"

definition OutboundImplementationUpdate_entry :: "sdk \<Rightarrow> string \<Rightarrow> ScVal \<Rightarrow> OutboundImplementationUpdate \<Rightarrow> OutboundImplementationUpdate result" where
  "OutboundImplementationUpdate_entry lib key v s =
     (if key = ''dest_chain_selector'' then put (named ''dest_chain_selector'' (Uint64FromScVal v)) (\<lambda>x. s\<lparr>OutboundImplementationUpdate_DestChainSelector := x\<rparr>)
      else if key = ''verifier'' then put (named ''verifier'' (OptionalAddressFromScVal lib v)) (\<lambda>x. s\<lparr>OutboundImplementationUpdate_Verifier := x\<rparr>)
      else Ok s)"

definition OutboundImplementationUpdateFromScVal :: "sdk \<Rightarrow> ScVal \<Rightarrow> OutboundImplementationUpdate result" where
  "OutboundImplementationUpdateFromScVal lib = parse_struct ''not a map type'' (OutboundImplementationUpdate_entry lib) zero_OutboundImplementationUpdate"

section \<open>Events\<close>

record InboundImplSetEvent =
  InboundImplSetEvent_Version :: bytes
  InboundImplSetEvent_Verifier :: string
  InboundImplSetEvent_Ledger :: int
  InboundImplSetEvent_TxHash :: string

definition InboundImplSetEvent_entry :: "sdk \<Rightarrow> string \<Rightarrow> ScVal \<Rightarrow> InboundImplSetEvent \<Rightarrow> InboundImplSetEvent result" where
  "InboundImplSetEvent_entry lib key v s =
     (if key = ''version'' then set_if_ok (Bytes4FromScVal v) (\<lambda>x s. s\<lparr>InboundImplSetEvent_Version := x\<rparr>) s
      else if key = ''verifier'' then set_if_ok (AddressFromScVal lib v) (\<lambda>x s. s\<lparr>InboundImplSetEvent_Verifier := x\<rparr>) s
      else Ok s)"

definition ParseInboundImplSetEvent :: "sdk \<Rightarrow> EventInfo \<Rightarrow> InboundImplSetEvent result" where
  "ParseInboundImplSetEvent lib = parse_event lib (InboundImplSetEvent_entry lib) (\<lambda>ledger tx.
     \<lparr>InboundImplSetEvent_Version = replicate 4 0, InboundImplSetEvent_Verifier = [],
        InboundImplSetEvent_Ledger = ledger, InboundImplSetEvent_TxHash = tx\<rparr>)"

record OutboundImplSetEvent =
  OutboundImplSetEvent_DestChainSelector :: int
  OutboundImplSetEvent_Verifier :: string
  OutboundImplSetEvent_Ledger :: int
  OutboundImplSetEvent_TxHash :: string

definition OutboundImplSetEvent_entry :: "sdk \<Rightarrow> string \<Rightarrow> ScVal \<Rightarrow> OutboundImplSetEvent \<Rightarrow> OutboundImplSetEvent result" where
  "OutboundImplSetEvent_entry lib key v s =
     (if key = ''dest_chain_selector'' then set_if_ok (Uint64FromScVal v) (\<lambda>x s. s\<lparr>OutboundImplSetEvent_DestChainSelector := x\<rparr>) s
      else if key = ''verifier'' then set_if_ok (AddressFromScVal lib v) (\<lambda>x s. s\<lparr>OutboundImplSetEvent_Verifier := x\<rparr>) s
      else Ok s)"

definition ParseOutboundImplSetEvent :: "sdk \<Rightarrow> EventInfo \<Rightarrow> OutboundImplSetEvent result" where
  "ParseOutboundImplSetEvent lib = parse_event lib (OutboundImplSetEvent_entry lib) (\<lambda>ledger tx.
     \<lparr>OutboundImplSetEvent_DestChainSelector = 0, OutboundImplSetEvent_Verifier = [],
        OutboundImplSetEvent_Ledger = ledger, OutboundImplSetEvent_TxHash = tx\<rparr>)"

record FeeAggregatorSetEvent =
  FeeAggregatorSetEvent_FeeAggregator :: string
  FeeAggregatorSetEvent_Ledger :: int
  FeeAggregatorSetEvent_TxHash :: string

definition FeeAggregatorSetEvent_entry :: "sdk \<Rightarrow> string \<Rightarrow> ScVal \<Rightarrow> FeeAggregatorSetEvent \<Rightarrow> FeeAggregatorSetEvent result" where
  "FeeAggregatorSetEvent_entry lib key v s =
     (if key = ''fee_aggregator'' then set_if_ok (AddressFromScVal lib v) (\<lambda>x s. s\<lparr>FeeAggregatorSetEvent_FeeAggregator := x\<rparr>) s
      else Ok s)"

definition ParseFeeAggregatorSetEvent :: "sdk \<Rightarrow> EventInfo \<Rightarrow> FeeAggregatorSetEvent result" where
  "ParseFeeAggregatorSetEvent lib = parse_event lib (FeeAggregatorSetEvent_entry lib) (\<lambda>ledger tx.
     \<lparr>FeeAggregatorSetEvent_FeeAggregator = [], FeeAggregatorSetEvent_Ledger = ledger,
        FeeAggregatorSetEvent_TxHash = tx\<rparr>)"

record InboundImplRemovedEvent =
  InboundImplRemovedEvent_Version :: bytes
  InboundImplRemovedEvent_Ledger :: int
  InboundImplRemovedEvent_TxHash :: string

definition InboundImplRemovedEvent_entry :: "sdk \<Rightarrow> string \<Rightarrow> ScVal \<Rightarrow> InboundImplRemovedEvent \<Rightarrow> InboundImplRemovedEvent result" where
  "InboundImplRemovedEvent_entry lib key v s =
     (if key = ''version'' then set_if_ok (Bytes4FromScVal v) (\<lambda>x s. s\<lparr>InboundImplRemovedEvent_Version := x\<rparr>) s
      else Ok s)"

definition ParseInboundImplRemovedEvent :: "sdk \<Rightarrow> EventInfo \<Rightarrow> InboundImplRemovedEvent result" where
  "ParseInboundImplRemovedEvent lib = parse_event lib (InboundImplRemovedEvent_entry lib) (\<lambda>ledger tx.
     \<lparr>InboundImplRemovedEvent_Version = replicate 4 0, InboundImplRemovedEvent_Ledger = ledger,
        InboundImplRemovedEvent_TxHash = tx\<rparr>)"

record OutboundImplRemovedEvent =
  OutboundImplRemovedEvent_DestChainSelector :: int
  OutboundImplRemovedEvent_Ledger :: int
  OutboundImplRemovedEvent_TxHash :: string

definition OutboundImplRemovedEvent_entry :: "sdk \<Rightarrow> string \<Rightarrow> ScVal \<Rightarrow> OutboundImplRemovedEvent \<Rightarrow> OutboundImplRemovedEvent result" where
  "OutboundImplRemovedEvent_entry lib key v s =
     (if key = ''dest_chain_selector'' then set_if_ok (Uint64FromScVal v) (\<lambda>x s. s\<lparr>OutboundImplRemovedEvent_DestChainSelector := x\<rparr>) s
      else Ok s)"

definition ParseOutboundImplRemovedEvent :: "sdk \<Rightarrow> EventInfo \<Rightarrow> OutboundImplRemovedEvent result" where
  "ParseOutboundImplRemovedEvent lib = parse_event lib (OutboundImplRemovedEvent_entry lib) (\<lambda>ledger tx.
     \<lparr>OutboundImplRemovedEvent_DestChainSelector = 0, OutboundImplRemovedEvent_Ledger = ledger,
        OutboundImplRemovedEvent_TxHash = tx\<rparr>)"

section \<open>The client\<close>

definition NewVersionedVerifierResolverClient :: "'s Invoker \<Rightarrow> string \<Rightarrow> 's Client" where
  "NewVersionedVerifierResolverClient ivk contractID = mk_client ivk contractID"

definition ContractID :: "'s Client \<Rightarrow> string" where
  "ContractID c = cl_contractID c"

definition Owner :: "sdk \<Rightarrow> 's Client \<Rightarrow> ('s, (string option) result) state" where
  "Owner lib c = simulate_value c ''owner'' [] (OptionalAddressFromScVal lib)"

definition IsOwner :: "sdk \<Rightarrow> 's Client \<Rightarrow> string \<Rightarrow> ('s, bool result) state" where
  "IsOwner lib c addr =
     simulate_value c ''is_owner'' [
       Ok (AddressToScVal lib addr)] (\<lambda>v. need ''expected bool return type'' (GetB v))"

definition InitOwner :: "sdk \<Rightarrow> 's Client \<Rightarrow> string \<Rightarrow> ('s, unit result) state" where
  "InitOwner lib c owner = invoke_void c ''init_owner'' [Ok (AddressToScVal lib owner)]"

definition Initialize :: "sdk \<Rightarrow> 's Client \<Rightarrow> string \<Rightarrow> string \<Rightarrow> ('s, unit result) state" where
  "Initialize lib c owner feeAggregator =
     invoke_void c ''initialize'' [Ok (AddressToScVal lib owner), Ok (AddressToScVal lib feeAggregator)]"

definition RequireOwner :: "sdk \<Rightarrow> 's Client \<Rightarrow> ('s, string result) state" where
  "RequireOwner lib c = invoke_value c ''require_owner'' [] (AddressFromScVal lib)"

definition SetNewOwner :: "sdk \<Rightarrow> 's Client \<Rightarrow> string \<Rightarrow> ('s, unit result) state" where
  "SetNewOwner lib c newOwner = invoke_void c ''set_new_owner'' [Ok (AddressToScVal lib newOwner)]"

definition AcceptOwnership :: "sdk \<Rightarrow> 's Client \<Rightarrow> ('s, unit result) state" where
  "AcceptOwnership lib c = invoke_void c ''accept_ownership'' []"

definition TypeAndVersion :: "sdk \<Rightarrow> 's Client \<Rightarrow> ('s, string result) state" where
  "TypeAndVersion lib c = invoke_value c ''type_and_version'' [] (StringFromScVal)"

definition GetPendingOwner :: "sdk \<Rightarrow> 's Client \<Rightarrow> ('s, (string option) result) state" where
  "GetPendingOwner lib c = simulate_value c ''get_pending_owner'' [] (OptionalAddressFromScVal lib)"

definition GetFeeAggregator :: "sdk \<Rightarrow> 's Client \<Rightarrow> ('s, string result) state" where
  "GetFeeAggregator lib c = simulate_value c ''get_fee_aggregator'' [] (AddressFromScVal lib)"

definition SetFeeAggregator :: "sdk \<Rightarrow> 's Client \<Rightarrow> string \<Rightarrow> ('s, unit result) state" where
  "SetFeeAggregator lib c feeAggregator =
     invoke_void c ''set_fee_aggregator'' [Ok (AddressToScVal lib feeAggregator)]"

definition TransferOwnership :: "sdk \<Rightarrow> 's Client \<Rightarrow> string \<Rightarrow> ('s, unit result) state" where
  "TransferOwnership lib c newOwner = invoke_void c ''transfer_ownership'' [Ok (AddressToScVal lib newOwner)]"

definition WithdrawFeeTokens :: "sdk \<Rightarrow> 's Client \<Rightarrow> string list \<Rightarrow> ('s, unit result) state" where
  "WithdrawFeeTokens lib c feeTokens = invoke_void c ''withdraw_fee_tokens'' [Ok (AddressSliceToScVal lib feeTokens)]"

definition CancelOwnershipTransfer :: "sdk \<Rightarrow> 's Client \<Rightarrow> ('s, unit result) state" where
  "CancelOwnershipTransfer lib c = invoke_void c ''cancel_ownership_transfer'' []"

definition ApplyInboundImplUpdates :: "sdk \<Rightarrow> 's Client \<Rightarrow> InboundImplementationUpdate list \<Rightarrow> ('s, unit result) state" where
  "ApplyInboundImplUpdates lib c implementations =
     invoke_void c ''apply_inbound_impl_updates'' [
       StructSliceToScVal (InboundImplementationUpdate_ToScVal lib) implementations]"

definition GetInboundImplementation :: "sdk \<Rightarrow> 's Client \<Rightarrow> bytes \<Rightarrow> ('s, string result) state" where
  "GetInboundImplementation lib c verifierResults =
     simulate_value c ''get_inbound_implementation'' [Ok (BytesToScVal verifierResults)] (AddressFromScVal lib)"

definition ApplyOutboundImplUpdates :: "sdk \<Rightarrow> 's Client \<Rightarrow> OutboundImplementationUpdate list \<Rightarrow> ('s, unit result) state" where
  "ApplyOutboundImplUpdates lib c implementations =
     invoke_void c ''apply_outbound_impl_updates'' [
       StructSliceToScVal (OutboundImplementationUpdate_ToScVal lib) implementations]"

definition GetOutboundImplementation :: "sdk \<Rightarrow> 's Client \<Rightarrow> int \<Rightarrow> bytes \<Rightarrow> ('s, string result) state" where
  "GetOutboundImplementation lib c destChainSelector extraArgs =
     simulate_value c ''get_outbound_implementation'' [
       Ok (Uint64ToScVal destChainSelector), Ok (BytesToScVal extraArgs)] (AddressFromScVal lib)"

definition GetAllInboundImplementations :: "sdk \<Rightarrow> 's Client \<Rightarrow> ('s, (InboundImplementationArgs list) result) state" where
  "GetAllInboundImplementations lib c =
     simulate_value c ''get_all_inbound_implementations'' []
       (vec_of ''expected vec return type'' (InboundImplementationArgsFromScVal lib))"

definition GetAllOutboundImplementations :: "sdk \<Rightarrow> 's Client \<Rightarrow> ('s, (OutboundImplementationArgs list) result) state" where
  "GetAllOutboundImplementations lib c =
     simulate_value c ''get_all_outbound_implementations'' []
       (vec_of ''expected vec return type'' (OutboundImplementationArgsFromScVal lib))"

section \<open>Waiting for events\<close>

definition InboundImplSetEventTopic :: string where
  "InboundImplSetEventTopic = ''vvr_InboundImplSet''"

definition WaitForInboundImplSetEvent :: "sdk \<Rightarrow> 's Client \<Rightarrow> int \<Rightarrow> int \<Rightarrow> (InboundImplSetEvent \<Rightarrow> bool) option \<Rightarrow> wait_round list \<Rightarrow> ('s, InboundImplSetEvent result option) state" where
  "WaitForInboundImplSetEvent lib c = wait_for c InboundImplSetEventTopic (ParseInboundImplSetEvent lib)"

definition OutboundImplSetEventTopic :: string where
  "OutboundImplSetEventTopic = ''vvr_OutboundImplSet''"

definition WaitForOutboundImplSetEvent :: "sdk \<Rightarrow> 's Client \<Rightarrow> int \<Rightarrow> int \<Rightarrow> (OutboundImplSetEvent \<Rightarrow> bool) option \<Rightarrow> wait_round list \<Rightarrow> ('s, OutboundImplSetEvent result option) state" where
  "WaitForOutboundImplSetEvent lib c = wait_for c OutboundImplSetEventTopic (ParseOutboundImplSetEvent lib)"

definition FeeAggregatorSetEventTopic :: string where
  "FeeAggregatorSetEventTopic = ''vvr_FeeAggregatorSet''"

definition WaitForFeeAggregatorSetEvent :: "sdk \<Rightarrow> 's Client \<Rightarrow> int \<Rightarrow> int \<Rightarrow> (FeeAggregatorSetEvent \<Rightarrow> bool) option \<Rightarrow> wait_round list \<Rightarrow> ('s, FeeAggregatorSetEvent result option) state" where
  "WaitForFeeAggregatorSetEvent lib c = wait_for c FeeAggregatorSetEventTopic (ParseFeeAggregatorSetEvent lib)"

definition InboundImplRemovedEventTopic :: string where
  "InboundImplRemovedEventTopic = ''vvr_InboundImplRemoved''"

definition WaitForInboundImplRemovedEvent :: "sdk \<Rightarrow> 's Client \<Rightarrow> int \<Rightarrow> int \<Rightarrow> (InboundImplRemovedEvent \<Rightarrow> bool) option \<Rightarrow> wait_round list \<Rightarrow> ('s, InboundImplRemovedEvent result option) state" where
  "WaitForInboundImplRemovedEvent lib c = wait_for c InboundImplRemovedEventTopic (ParseInboundImplRemovedEvent lib)"

definition OutboundImplRemovedEventTopic :: string where
  "OutboundImplRemovedEventTopic = ''vvr_OutboundImplRemoved''"

definition WaitForOutboundImplRemovedEvent :: "sdk \<Rightarrow> 's Client \<Rightarrow> int \<Rightarrow> int \<Rightarrow> (OutboundImplRemovedEvent \<Rightarrow> bool) option \<Rightarrow> wait_round list \<Rightarrow> ('s, OutboundImplRemovedEvent result option) state" where
  "WaitForOutboundImplRemovedEvent lib c = wait_for c OutboundImplRemovedEventTopic (ParseOutboundImplRemovedEvent lib)"

definition OwnershipTransferredEventTopic :: string where
  "OwnershipTransferredEventTopic = ''vvr_OwnerTransferred''"

definition WaitForOwnershipTransferredEvent :: "sdk \<Rightarrow> 's Client \<Rightarrow> int \<Rightarrow> int \<Rightarrow> (OwnershipTransferredEvent \<Rightarrow> bool) option \<Rightarrow> wait_round list \<Rightarrow> ('s, OwnershipTransferredEvent result option) state" where
  "WaitForOwnershipTransferredEvent lib c = wait_for c OwnershipTransferredEventTopic (ParseOwnershipTransferredEvent lib)"

definition RoleGrantedEventTopic :: string where
  "RoleGrantedEventTopic = ''auth_RoleGranted''"

definition WaitForRoleGrantedEvent :: "sdk \<Rightarrow> 's Client \<Rightarrow> int \<Rightarrow> int \<Rightarrow> (RoleGrantedEvent \<Rightarrow> bool) option \<Rightarrow> wait_round list \<Rightarrow> ('s, RoleGrantedEvent result option) state" where
  "WaitForRoleGrantedEvent lib c = wait_for c RoleGrantedEventTopic (ParseRoleGrantedEvent lib)"

definition RoleRevokedEventTopic :: string where
  "RoleRevokedEventTopic = ''auth_RoleRevoked''"

definition WaitForRoleRevokedEvent :: "sdk \<Rightarrow> 's Client \<Rightarrow> int \<Rightarrow> int \<Rightarrow> (RoleRevokedEvent \<Rightarrow> bool) option \<Rightarrow> wait_round list \<Rightarrow> ('s, RoleRevokedEvent result option) state" where
  "WaitForRoleRevokedEvent lib c = wait_for c RoleRevokedEventTopic (ParseRoleRevokedEvent lib)"

definition AuthorizedCallerAddedEventTopic :: string where
  "AuthorizedCallerAddedEventTopic = ''auth_CallerAdded''"

definition WaitForAuthorizedCallerAddedEvent :: "sdk \<Rightarrow> 's Client \<Rightarrow> int \<Rightarrow> int \<Rightarrow> (AuthorizedCallerAddedEvent \<Rightarrow> bool) option \<Rightarrow> wait_round list \<Rightarrow> ('s, AuthorizedCallerAddedEvent result option) state" where
  "WaitForAuthorizedCallerAddedEvent lib c = wait_for c AuthorizedCallerAddedEventTopic (ParseAuthorizedCallerAddedEvent lib)"

definition AuthorizedCallerRemovedEventTopic :: string where
  "AuthorizedCallerRemovedEventTopic = ''auth_CallerRemoved''"

definition WaitForAuthorizedCallerRemovedEvent :: "sdk \<Rightarrow> 's Client \<Rightarrow> int \<Rightarrow> int \<Rightarrow> (AuthorizedCallerRemovedEvent \<Rightarrow> bool) option \<Rightarrow> wait_round list \<Rightarrow> ('s, AuthorizedCallerRemovedEvent result option) state" where
  "WaitForAuthorizedCallerRemovedEvent lib c = wait_for c AuthorizedCallerRemovedEventTopic (ParseAuthorizedCallerRemovedEvent lib)"

definition OwnershipTransferStartedEventTopic :: string where
  "OwnershipTransferStartedEventTopic = ''auth_OwnerTransferStart''"

definition WaitForOwnershipTransferStartedEvent :: "sdk \<Rightarrow> 's Client \<Rightarrow> int \<Rightarrow> int \<Rightarrow> (OwnershipTransferStartedEvent \<Rightarrow> bool) option \<Rightarrow> wait_round list \<Rightarrow> ('s, OwnershipTransferStartedEvent result option) state" where
  "WaitForOwnershipTransferStartedEvent lib c = wait_for c OwnershipTransferStartedEventTopic (ParseOwnershipTransferStartedEvent lib)"

section \<open>Round trips\<close>

definition valid_InboundImplementationArgs :: "sdk \<Rightarrow> InboundImplementationArgs \<Rightarrow> bool" where
  "valid_InboundImplementationArgs lib s \<longleftrightarrow> is_address lib (InboundImplementationArgs_Verifier s) \<and> length (InboundImplementationArgs_Version s) = 4"

lemma versioned_verifier_resolver_InboundImplementationArgs_keys: "sort [''verifier'', ''version''] =
    [''verifier'', ''version'']"
  by simp

lemma versioned_verifier_resolver_InboundImplementationArgs_codec:
  assumes "sdk_laws lib"
  shows "codec (InboundImplementationArgs_ToScVal lib) (InboundImplementationArgsFromScVal lib) (valid_InboundImplementationArgs lib)"
proof (rule codecI)
  show "\<exists>v. InboundImplementationArgs_ToScVal lib s = Ok v \<and> InboundImplementationArgsFromScVal lib v = Ok s" if ok: "valid_InboundImplementationArgs lib s" for s
    using ok assms
    by (cases s) (simp add: InboundImplementationArgs_ToScVal_def InboundImplementationArgsFromScVal_def InboundImplementationArgs_entry_def zero_InboundImplementationArgs_def valid_InboundImplementationArgs_def
        versioned_verifier_resolver_InboundImplementationArgs_keys struct_codec_simps del: sort_key_simps fold_entries.simps(2))
qed

definition valid_OutboundImplementationArgs :: "sdk \<Rightarrow> OutboundImplementationArgs \<Rightarrow> bool" where
  "valid_OutboundImplementationArgs lib s \<longleftrightarrow> is_address lib (OutboundImplementationArgs_Verifier s)"

lemma versioned_verifier_resolver_OutboundImplementationArgs_keys: "sort [''dest_chain_selector'', ''verifier''] =
    [''dest_chain_selector'', ''verifier'']"
  by simp

lemma versioned_verifier_resolver_OutboundImplementationArgs_codec:
  assumes "sdk_laws lib"
  shows "codec (OutboundImplementationArgs_ToScVal lib) (OutboundImplementationArgsFromScVal lib) (valid_OutboundImplementationArgs lib)"
proof (rule codecI)
  show "\<exists>v. OutboundImplementationArgs_ToScVal lib s = Ok v \<and> OutboundImplementationArgsFromScVal lib v = Ok s" if ok: "valid_OutboundImplementationArgs lib s" for s
    using ok assms
    by (cases s) (simp add: OutboundImplementationArgs_ToScVal_def OutboundImplementationArgsFromScVal_def OutboundImplementationArgs_entry_def zero_OutboundImplementationArgs_def valid_OutboundImplementationArgs_def
        versioned_verifier_resolver_OutboundImplementationArgs_keys struct_codec_simps del: sort_key_simps fold_entries.simps(2))
qed

definition valid_InboundImplementationUpdate :: "sdk \<Rightarrow> InboundImplementationUpdate \<Rightarrow> bool" where
  "valid_InboundImplementationUpdate lib s \<longleftrightarrow> optional_ok (is_address lib) (InboundImplementationUpdate_Verifier s) \<and>
     length (InboundImplementationUpdate_Version s) = 4"

lemma versioned_verifier_resolver_InboundImplementationUpdate_keys: "sort [''verifier'', ''version''] =
    [''verifier'', ''version'']"
  by simp

lemma versioned_verifier_resolver_InboundImplementationUpdate_codec:
  assumes "sdk_laws lib"
  shows "codec (InboundImplementationUpdate_ToScVal lib) (InboundImplementationUpdateFromScVal lib) (valid_InboundImplementationUpdate lib)"
proof (rule codecI)
  show "\<exists>v. InboundImplementationUpdate_ToScVal lib s = Ok v \<and> InboundImplementationUpdateFromScVal lib v = Ok s" if ok: "valid_InboundImplementationUpdate lib s" for s
    using ok assms
    by (cases s) (simp add: InboundImplementationUpdate_ToScVal_def InboundImplementationUpdateFromScVal_def InboundImplementationUpdate_entry_def zero_InboundImplementationUpdate_def valid_InboundImplementationUpdate_def
        versioned_verifier_resolver_InboundImplementationUpdate_keys struct_codec_simps del: sort_key_simps fold_entries.simps(2))
qed

definition valid_OutboundImplementationUpdate :: "sdk \<Rightarrow> OutboundImplementationUpdate \<Rightarrow> bool" where
  "valid_OutboundImplementationUpdate lib s \<longleftrightarrow> optional_ok (is_address lib) (OutboundImplementationUpdate_Verifier s)"

lemma versioned_verifier_resolver_OutboundImplementationUpdate_keys: "sort [''dest_chain_selector'', ''verifier''] =
    [''dest_chain_selector'', ''verifier'']"
  by simp

lemma versioned_verifier_resolver_OutboundImplementationUpdate_codec:
  assumes "sdk_laws lib"
  shows "codec (OutboundImplementationUpdate_ToScVal lib) (OutboundImplementationUpdateFromScVal lib) (valid_OutboundImplementationUpdate lib)"
proof (rule codecI)
  show "\<exists>v. OutboundImplementationUpdate_ToScVal lib s = Ok v \<and> OutboundImplementationUpdateFromScVal lib v = Ok s" if ok: "valid_OutboundImplementationUpdate lib s" for s
    using ok assms
    by (cases s) (simp add: OutboundImplementationUpdate_ToScVal_def OutboundImplementationUpdateFromScVal_def OutboundImplementationUpdate_entry_def zero_OutboundImplementationUpdate_def valid_OutboundImplementationUpdate_def
        versioned_verifier_resolver_OutboundImplementationUpdate_keys struct_codec_simps del: sort_key_simps fold_entries.simps(2))
qed

end
