(* ===== verification/Deploy_Util.thy ===== *)
theory Deploy_Util
  imports Deployer "HOL-Library.List_Lexorder"
begin

text \<open>
  The helpers of the deployment code: addresses, selectors and committee signers
  (deployment/ccip/stellarutil), and the salts, configuration and artifact paths of the governance contracts
  (deployment/mcmsutil). Package hexutil of go-ethereum, the environment topology and the MCMS library
  are not part of the repository and are parameters. The lemmas show that the remote selectors are exactly the
  other chains in ascending order, what the committee signers of a chain are, and which addresses
  survive the conversion to hexadecimal text.
\<close>

section \<open>Package strings and path/filepath\<close>

text \<open>The UTF-8 encodings of the white space characters that \<open>strings.TrimSpace\<close> removes.\<close>

definition space_seqs :: "string list" where
  "space_seqs = map (map char_of)
     ([[9], [10], [11], [12], [13], [32], [194, 133], [194, 160], [225, 154, 128]] @
      map (\<lambda>n. [226, 128, n]) [128, 129, 130, 131, 132, 133, 134, 135, 136, 137, 138, 168, 169, 175 :: nat] @
      [[226, 129, 159], [227, 128, 128]])"

primrec trim_left :: "nat \<Rightarrow> string list \<Rightarrow> string \<Rightarrow> string" where
  "trim_left 0 ps s = s"
| "trim_left (Suc n) ps s =
     (case find (HasPrefix s) ps of Some p \<Rightarrow> trim_left n ps (drop (length p) s) | None \<Rightarrow> s)"

text \<open>Every round removes a character, so the length of the text is enough rounds.\<close>

definition TrimSpace :: "string \<Rightarrow> string" where
  "TrimSpace s =
     (let l = trim_left (length s) space_seqs s
      in rev (trim_left (length l) (map rev space_seqs) (rev l)))"

text \<open>\<open>filepath.Clean\<close> on Unix works on the elements between slashes: empty elements and \<open>.\<close> disappear, \<open>..\<close> removes
  the element before it.\<close>

fun split_path :: "string \<Rightarrow> string list" where
  "split_path [] = [[]]"
| "split_path (c # s) =
     (if c = CHR ''/'' then [] # split_path s
      else (case split_path s of e # es \<Rightarrow> (c # e) # es | [] \<Rightarrow> [[c]]))"

fun clean_elements :: "bool \<Rightarrow> string list \<Rightarrow> string list \<Rightarrow> string list" where
  "clean_elements rooted out [] = rev out"
| "clean_elements rooted out (e # es) =
     (if e = [] \<or> e = ''.'' then clean_elements rooted out es
      else if e = ''..'' then
        (if out \<noteq> [] \<and> hd out \<noteq> ''..'' then clean_elements rooted (tl out) es
         else if rooted then clean_elements rooted out es
         else clean_elements rooted (e # out) es)
      else clean_elements rooted (e # out) es)"

fun join_path :: "string list \<Rightarrow> string" where
  "join_path [] = []"
| "join_path [e] = e"
| "join_path (e # es) = e @ ''/'' @ join_path es"

definition Clean :: "string \<Rightarrow> string" where
  "Clean path =
     (let rooted = HasPrefix path ''/''; es = clean_elements rooted [] (split_path path)
      in if rooted then ''/'' @ join_path es else if es = [] then ''.'' else join_path es)"

definition Join2 :: "string \<Rightarrow> string \<Rightarrow> string" where
  "Join2 a b =
     (if a = [] \<and> b = [] then [] else if a = [] then Clean b else if b = [] then Clean a else Clean (a @ ''/'' @ b))"

section \<open>Addresses (stellarutil/address.go)\<close>

text \<open>Package hexutil of go-ethereum.\<close>

record hexutil =
  hexutil_Encode :: "bytes \<Rightarrow> string"
  hexutil_Decode :: "string \<Rightarrow> bytes result"

definition hexutil_laws :: "hexutil \<Rightarrow> bool" where
  "hexutil_laws hx \<longleftrightarrow>
     (\<forall>b. hexutil_Encode hx b = ''0x'' @ hex_EncodeToString b) \<and> (\<forall>b. hexutil_Decode hx (hexutil_Encode hx b) = Ok b)"

definition GenerateContractAddress :: "hashing \<Rightarrow> string \<Rightarrow> string \<Rightarrow> bytes" where
  "GenerateContractAddress hs name networkPassphrase =
     (let networkID = Sum256 hs (map char_byte networkPassphrase)
      in Sum256 hs (networkID @ map char_byte name))"

definition ParseFeeAggregatorAddress :: "sdk \<Rightarrow> string \<Rightarrow> string result" where
  "ParseFeeAggregatorAddress lib s0 =
     (let s = TrimSpace s0 in
      if s = [] then Err (New ''empty fee aggregator address'')
      else if hd s = CHR ''G'' then
        bind_r (wrap_err (\<lambda>e. Errorf ''decode account strkey: %w'' [AErr e]) (strkey_Decode lib VersionByteAccountID s)) (\<lambda>_. Ok s)
      else if hd s = CHR ''C'' then
        bind_r (wrap_err (\<lambda>e. Errorf ''decode contract strkey: %w'' [AErr e]) (strkey_Decode lib VersionByteContract s)) (\<lambda>_. Ok s)
      else
        bind_r (wrap_err (\<lambda>e. Errorf ''fee aggregator must be G/C strkey or 0x-hex: %w'' [AErr e])
                  (hex_DecodeString (TrimPrefix s ''0x''))) (\<lambda>raw.
        if length raw \<noteq> 32 then Err (Errorf ''hex fee aggregator must be 32 bytes, got %d'' [AInt (int (length raw))])
        else wrap_err (\<lambda>e. Errorf ''encode account strkey: %w'' [AErr e]) (strkey_Encode lib VersionByteAccountID raw)))"

definition MustGenerateMockContractID :: "hashing \<Rightarrow> sdk \<Rightarrow> string \<Rightarrow> string \<Rightarrow> string result" where
  "MustGenerateMockContractID hs lib deployerAddress contractName =
     (case strkey_Encode lib VersionByteContract (GenerateDeterministicSalt hs deployerAddress contractName) of
        Ok s \<Rightarrow> Ok s
      | Err e \<Rightarrow> Panic (err_text (Errorf ''failed to encode mock contract ID: %w'' [AErr e]))
      | Panic q \<Rightarrow> Panic q)"

definition StrkeyToHex :: "hexutil \<Rightarrow> sdk \<Rightarrow> string \<Rightarrow> string result" where
  "StrkeyToHex hx lib addr =
     (let decode = (\<lambda>vb. bind_r (wrap_err (\<lambda>e. Errorf ''decode strkey %s: %w'' [AStr addr, AErr e]) (strkey_Decode lib vb addr))
                           (\<lambda>raw. Ok (hexutil_Encode hx raw)))
      in if addr \<noteq> [] \<and> hd addr = CHR ''C'' then decode VersionByteContract
         else if addr \<noteq> [] \<and> hd addr = CHR ''G'' then decode VersionByteAccountID
         else Err (Errorf ''unsupported strkey prefix: %s'' [AStr addr]))"

section \<open>Selectors (stellarutil/selectors.go)\<close>

fun remote_loop :: "int \<Rightarrow> int list \<Rightarrow> int list \<Rightarrow> int list \<Rightarrow> int list" where
  "remote_loop local seen remote [] = remote"
| "remote_loop local seen remote (selector # ss) =
     (if selector = 0 \<or> selector = local then remote_loop local seen remote ss
      else if selector \<in> set seen then remote_loop local seen remote ss
      else remote_loop local (selector # seen) (remote @ [selector]) ss)"

text \<open>The elements are distinct when they are sorted, so the instability of \<open>sort.Slice\<close> is not visible.\<close>

definition FilterRemoteSelectors :: "int list \<Rightarrow> int \<Rightarrow> int list" where
  "FilterRemoteSelectors selectors localSelector = sort (remote_loop localSelector [] [] selectors)"

section \<open>Committee signers (stellarutil/topology.go)\<close>

text \<open>What the code reads of a topology. Committees is a Go map: the list is the order in which \<open>range\<close> visits it.
  The lookup of an operator by its alias is a function of the topology.\<close>

record ChainCommitteeConfig =
  cc_NOPAliases :: "string list"
  cc_Threshold :: int

record Topology =
  tp_Committees :: "(string \<rightharpoonup> ChainCommitteeConfig) list"
  tp_GetNOP :: "string \<Rightarrow> (string \<times> string) list option"

text \<open>Package chain-selectors.\<close>

record chainsel =
  FamilyEVM :: string
  FamilyStellar :: string
  GetSelectorFamily :: "int \<Rightarrow> string result"

fun first_family :: "(string \<times> string) list \<Rightarrow> string list \<Rightarrow> string list \<Rightarrow> string" where
  "first_family signerByFamily seen [] = []"
| "first_family signerByFamily seen (fam # order) =
     (if fam = [] then first_family signerByFamily seen order
      else if fam \<in> set seen then first_family signerByFamily seen order
      else (case map_of signerByFamily fam of
              Some h \<Rightarrow> if h \<noteq> [] then h else first_family signerByFamily (fam # seen) order
            | None \<Rightarrow> first_family signerByFamily (fam # seen) order))"

definition committeeVerifierSignerHex :: "chainsel \<Rightarrow> (string \<times> string) list \<Rightarrow> string \<Rightarrow> string" where
  "committeeVerifierSignerHex cs signerByFamily preferredFamily =
     (if signerByFamily = [] then [] else first_family signerByFamily [] [preferredFamily, FamilyEVM cs, FamilyStellar cs])"

definition decodeCommitteeVerifierSigner :: "string \<Rightarrow> bytes option" where
  "decodeCommitteeVerifierSigner addrHex =
     (case hex_DecodeString addrHex of
        Ok decoded \<Rightarrow> if length decoded = 20 then Some (replicate 12 0 @ decoded) else None
      | _ \<Rightarrow> None)"

definition nop_signer :: "chainsel \<Rightarrow> Topology \<Rightarrow> string \<Rightarrow> string \<Rightarrow> bytes option" where
  "nop_signer cs topology preferredFamily alias =
     (case tp_GetNOP topology alias of
        None \<Rightarrow> None
      | Some signerByFamily \<Rightarrow>
          (let addrHex = committeeVerifierSignerHex cs signerByFamily preferredFamily
           in if addrHex = [] then None else decodeCommitteeVerifierSigner addrHex))"

definition committee_signers :: "chainsel \<Rightarrow> Topology \<Rightarrow> string \<Rightarrow> ChainCommitteeConfig \<Rightarrow> bytes list" where
  "committee_signers cs topology preferredFamily chainCfg = List.map_filter (nop_signer cs topology preferredFamily) (cc_NOPAliases chainCfg)"

fun signers_loop :: "chainsel \<Rightarrow> Topology \<Rightarrow> string \<Rightarrow> string \<Rightarrow> (string \<rightharpoonup> ChainCommitteeConfig) list \<Rightarrow> bytes list \<times> int" where
  "signers_loop cs topology selectorStr preferredFamily [] = ([], 0)"
| "signers_loop cs topology selectorStr preferredFamily (committee # committees) =
     (case committee selectorStr of
        None \<Rightarrow> signers_loop cs topology selectorStr preferredFamily committees
      | Some chainCfg \<Rightarrow>
          (let signers = committee_signers cs topology preferredFamily chainCfg
           in if signers \<noteq> [] then (sort_key (map unat) signers, u32 (cc_Threshold chainCfg))
              else signers_loop cs topology selectorStr preferredFamily committees))"

definition ResolveSignersFromTopology :: "chainsel \<Rightarrow> Topology option \<Rightarrow> int \<Rightarrow> string \<Rightarrow> bytes list \<times> int" where
  "ResolveSignersFromTopology cs topology sourceChainSelector preferredFamily =
     (case topology of
        None \<Rightarrow> ([], 0)
      | Some t \<Rightarrow> signers_loop cs t (show_int sourceChainSelector) preferredFamily (tp_Committees t))"

text \<open>The same function over the topology type of chainlink-ccip; the fields it reads have the same names.\<close>

definition ResolveSignersFromOffchainTopology :: "chainsel \<Rightarrow> Topology option \<Rightarrow> int \<Rightarrow> string \<Rightarrow> bytes list \<times> int" where
  "ResolveSignersFromOffchainTopology cs topology sourceChainSelector preferredFamily =
     (case topology of
        None \<Rightarrow> ([], 0)
      | Some t \<Rightarrow> signers_loop cs t (show_int sourceChainSelector) preferredFamily (tp_Committees t))"

definition DefaultCommitteeVerifierVersionTag :: bytes where
  "DefaultCommitteeVerifierVersionTag = [0xe9, 0xa0, 0x5a, 0x20]"

section \<open>Governance (mcmsutil)\<close>

definition QualifierStr :: "string option \<Rightarrow> string" where
  "QualifierStr q = (case q of None \<Rightarrow> [] | Some s \<Rightarrow> s)"

definition ChainNetworkID :: "hashing \<Rightarrow> string \<Rightarrow> bytes" where
  "ChainNetworkID hs passphrase = Sum256 hs (map char_byte passphrase)"

definition MCMSDeploySalt :: "hashing \<Rightarrow> int \<Rightarrow> string \<Rightarrow> bytes" where
  "MCMSDeploySalt hs chainSelector qual = Sum256 hs (map char_byte (''stellar-mcms:'' @ show_int chainSelector @ '':'' @ qual))"

definition TimelockDeploySalt :: "hashing \<Rightarrow> int \<Rightarrow> string \<Rightarrow> bytes" where
  "TimelockDeploySalt hs chainSelector qual =
     Sum256 hs (map char_byte (''stellar-timelock:'' @ show_int chainSelector @ '':'' @ qual))"

definition evmAddressToPadded32 :: "bytes \<Rightarrow> bytes" where
  "evmAddressToPadded32 a = take 32 (replicate 12 0 @ a)"

text \<open>XDR of a Soroban value, by the Stellar SDK.\<close>

record scval_xdr =
  marshal_ScVal :: "ScVal \<Rightarrow> bytes result"
  unmarshal_ScVal :: "bytes \<Rightarrow> ScVal result"

definition scval_xdr_laws :: "scval_xdr \<Rightarrow> bool" where
  "scval_xdr_laws xd \<longleftrightarrow> (\<forall>v b. marshal_ScVal xd v = Ok b \<longrightarrow> unmarshal_ScVal xd b = Ok v)"

definition EncodeSorobanMCMSInvokePayload :: "scval_xdr \<Rightarrow> string \<Rightarrow> ScVal list \<Rightarrow> bytes result" where
  "EncodeSorobanMCMSInvokePayload xd functionName argScVals =
     wrap_err (\<lambda>e. Errorf ''marshal soroban invoke payload %q: %w'' [AStr functionName, AErr e])
       (marshal_ScVal xd (VecToScVal (SymbolToScVal functionName # argScVals)))"

text \<open>The environment variables and the working directory of the process.\<close>

record process_env =
  Getenv :: "string \<Rightarrow> string"
  Getwd :: "string result"

definition DefaultMCMSWasmRelative :: string where
  "DefaultMCMSWasmRelative = ''target/wasm32v1-none/release/mcms.wasm''"

definition DefaultTimelockWasmRelative :: string where
  "DefaultTimelockWasmRelative = ''target/wasm32v1-none/release/timelock.wasm''"

definition ResolveMCMSWasmPath :: "process_env \<Rightarrow> string result" where
  "ResolveMCMSWasmPath os =
     (if Getenv os ''STELLAR_MCMS_WASM'' \<noteq> [] then Ok (Getenv os ''STELLAR_MCMS_WASM'')
      else if Getenv os ''CHAINLINK_STELLAR_ROOT'' \<noteq> [] then
        Ok (Join2 (Getenv os ''CHAINLINK_STELLAR_ROOT'') DefaultMCMSWasmRelative)
      else bind_r (Getwd os) (\<lambda>cwd. Ok (Join2 cwd DefaultMCMSWasmRelative)))"

definition ResolveTimelockWasmPath :: "process_env \<Rightarrow> string result" where
  "ResolveTimelockWasmPath os =
     (if Getenv os ''STELLAR_TIMELOCK_WASM'' \<noteq> [] then Ok (Getenv os ''STELLAR_TIMELOCK_WASM'')
      else if Getenv os ''CHAINLINK_STELLAR_ROOT'' \<noteq> [] then
        Ok (Join2 (Getenv os ''CHAINLINK_STELLAR_ROOT'') DefaultTimelockWasmRelative)
      else bind_r (Getwd os) (\<lambda>cwd. Ok (Join2 cwd DefaultTimelockWasmRelative)))"

section \<open>Lemmas\<close>

lemma remote_loop_spec:
  assumes "set seen = set remote" and "distinct remote" and "0 \<notin> set remote" and "local \<notin> set remote"
  shows "distinct (remote_loop local seen remote ss) \<and>
    set (remote_loop local seen remote ss) = (set remote \<union> set ss) - {0, local}"
  using assms by (induction ss arbitrary: seen remote) auto

text \<open>The remote selectors are the selectors other than 0 and the local one, once each, in ascending order; such a list is
  unique.\<close>

lemma FilterRemoteSelectors_spec:
  "sorted (FilterRemoteSelectors selectors l) \<and> distinct (FilterRemoteSelectors selectors l) \<and>
   set (FilterRemoteSelectors selectors l) = set selectors - {0, l}"
  using remote_loop_spec [of "[]" "[]" l selectors] by (simp add: FilterRemoteSelectors_def)

lemma FilterRemoteSelectors_eq: "FilterRemoteSelectors selectors l = sorted_list_of_set (set selectors - {0, l})"
  using FilterRemoteSelectors_spec [of selectors l]
  by (metis List.finite_set sorted_list_of_set.idem_if_sorted_distinct)

lemma TrimPrefix_hex: "TrimPrefix (''0x'' @ s) ''0x'' = s"
  by (simp add: TrimPrefix_def)

text \<open>A strkey of a contract survives the conversion to hexadecimal text and back; a strkey of an account comes back as the
  contract with the same 32 bytes.\<close>

lemma StrkeyToHex_decodes:
  assumes "strkey_laws lib" and "strkey_Decode lib vb addr = Ok raw"
  shows "StrkeyToHex hx lib addr = Ok (hexutil_Encode hx raw)"
  using decode_head [OF assms] assms(2) by (cases vb) (auto simp: StrkeyToHex_def)

lemma StrkeyToHex_Ok:
  assumes "StrkeyToHex hx lib addr = Ok h"
  obtains vb raw where "strkey_Decode lib vb addr = Ok raw" and "h = hexutil_Encode hx raw"
  using assms by (auto simp: StrkeyToHex_def Let_def split: if_splits)

lemma HexToContractStrkey_encoded:
  assumes "hexutil_laws hx"
  shows "HexToContractStrkey lib (hexutil_Encode hx raw) = strkey_Encode lib VersionByteContract raw"
  using assms hex_roundtrip [of raw] by (simp add: HexToContractStrkey_def hexutil_laws_def TrimPrefix_def)

text \<open>The signers of a committee: 12 zero bytes and 20 decoded ones each, in ascending order.\<close>

lemma nop_signer_shape: "nop_signer cs t fam alias = Some s \<Longrightarrow> length s = 32 \<and> take 12 s = replicate 12 0"
  by (auto simp: nop_signer_def decodeCommitteeVerifierSigner_def Let_def split: option.splits if_splits result.splits)

lemma set_map_filter: "y \<in> set (List.map_filter f xs) \<longleftrightarrow> (\<exists>x \<in> set xs. f x = Some y)"
  by (induction xs) (auto simp: map_filter_def)

lemma committee_signer_shape:
  "s \<in> set (committee_signers cs t fam cfg) \<Longrightarrow> length s = 32 \<and> take 12 s = replicate 12 0"
  by (auto simp: committee_signers_def set_map_filter dest!: nop_signer_shape)

lemma signers_loop_spec:
  "signers_loop cs t sel fam committees =
     (case find (\<lambda>c. \<exists>cfg. c sel = Some cfg \<and> committee_signers cs t fam cfg \<noteq> []) committees of
        None \<Rightarrow> ([], 0)
      | Some c \<Rightarrow> (sort_key (map unat) (committee_signers cs t fam (the (c sel))), u32 (cc_Threshold (the (c sel)))))"
  by (induction committees) (auto simp: Let_def split: option.splits)

text \<open>Text without leading or trailing white space is not changed by trimming.\<close>

lemma find_None_trim: "find (HasPrefix s) ps = None \<Longrightarrow> trim_left n ps s = s"
  by (cases n) simp_all

end
