(* ===== verification/Deploy_Datastore.thy ===== *)
theory Deploy_Datastore
  imports Deploy_Util Bind_Onramp Bind_Offramp Bind_Mcms
begin

text \<open>
  The address records of a deployment (deployment/ccip: datastore_contract_ref.go, stellar_datastore.go,
  datastore_lookup.go, lane_config.go; deployment/mcmsutil: refs.go, address_ref.go, config.go). The address store of the
  deployments framework is a parameter with the laws of a keyed store, and so are the names
  that chainlink-ccip gives to its contracts. The properties show that a recorded contract
  is found again, without disturbing the record of another one, that the governance
  contracts written by a deployment are found by the next one, and what the lane configurations hold.
\<close>

section \<open>The address store\<close>

record AddressRef =
  ar_Address :: string
  ar_ChainSelector :: int
  ar_Type :: string
  ar_Version :: "string option"
  ar_Qualifier :: string

definition zero_AddressRef :: AddressRef where
  "zero_AddressRef = \<lparr>ar_Address = [], ar_ChainSelector = 0, ar_Type = [], ar_Version = None, ar_Qualifier = []\<rparr>"

datatype AddressRefKey = NewAddressRefKey int string "string option" string

definition ref_key :: "AddressRef \<Rightarrow> AddressRefKey" where
  "ref_key r = NewAddressRefKey (ar_ChainSelector r) (ar_Type r) (ar_Version r) (ar_Qualifier r)"

text \<open>\<open>datastore.MemoryDataStore\<close> and the sealed view of it.\<close>

record 'd datastore =
  NewMemoryDataStore :: 'd
  ds_Upsert :: "'d \<Rightarrow> AddressRef \<Rightarrow> 'd result"
  ds_Add :: "'d \<Rightarrow> AddressRef \<Rightarrow> 'd result"
  ds_Get :: "'d \<Rightarrow> AddressRefKey \<Rightarrow> AddressRef result"
  ds_Filter :: "'d \<Rightarrow> AddressRef list"
  Seal :: "'d \<Rightarrow> 'd"

text \<open>The documented behaviour: an upsert always stores, an add stores under a key that has no record; a lookup returns what
  was stored last under the key. Keys that differ in the chain, the type or the qualifier are independent.\<close>

fun independent :: "AddressRefKey \<Rightarrow> AddressRefKey \<Rightarrow> bool" where
  "independent (NewAddressRefKey s t v q) (NewAddressRefKey s' t' v' q') \<longleftrightarrow> s \<noteq> s' \<or> t \<noteq> t' \<or> q \<noteq> q'"

definition stores :: "'d datastore \<Rightarrow> 'd \<Rightarrow> AddressRef \<Rightarrow> 'd \<Rightarrow> bool" where
  "stores ds d r d' \<longleftrightarrow> ds_Get ds d' (ref_key r) = Ok r \<and>
     (\<forall>k. independent k (ref_key r) \<longrightarrow> ds_Get ds d' k = ds_Get ds d k)"

definition datastore_laws :: "'d datastore \<Rightarrow> bool" where
  "datastore_laws ds \<longleftrightarrow>
     (\<forall>d r. \<exists>d'. ds_Upsert ds d r = Ok d' \<and> stores ds d r d') \<and>
     (\<forall>d r. (\<exists>e. ds_Get ds d (ref_key r) = Err e) \<longrightarrow> (\<exists>d'. ds_Add ds d r = Ok d' \<and> stores ds d r d')) \<and>
     (\<forall>k. \<exists>e. ds_Get ds (NewMemoryDataStore ds) k = Err e) \<and>
     (\<forall>d k. ds_Get ds (Seal ds d) k = ds_Get ds d k)"

section \<open>Names of the contracts\<close>

text \<open>Contract types, versions and qualifiers that packages outside the repository define.\<close>

record ccip_names =
  evm_onramp_ContractType :: string
  evm_onramp_Version :: string
  evm_offramp_ContractType :: string
  evm_offramp_Version :: string
  evm_router_ContractType :: string
  evm_router_Version :: string
  evm_fee_quoter_ContractType :: string
  evm_fee_quoter_Version :: string
  evm_rmn_remote_ContractType :: string
  evm_rmn_remote_Version :: string
  evm_rmn_proxy_ContractType :: string
  evm_rmn_proxy_Version :: string
  CommitteeVerifierResolverType :: string
  evm_versioned_verifier_resolver_Version :: string
  evm_committee_verifier_ContractType :: string
  evm_committee_verifier_Version :: string
  evm_executor_ContractType :: string
  evm_executor_Version :: string
  evm_proxy_ContractType :: string
  evm_proxy_Version :: string
  DefaultCommitteeVerifierQualifier :: string
  DefaultExecutorQualifier :: string
  ProposerManyChainMultisig :: string
  BypasserManyChainMultisig :: string
  CancellerManyChainMultisig :: string
  RBACTimelock :: string
  MCMSVersion :: string

definition ContractDeploymentVersion :: "string option" where
  "ContractDeploymentVersion = Some ''2.0.0''"

definition CcipReceiverContractType :: string where
  "CcipReceiverContractType = ''CcipReceiverExample''"

definition TokenAdminRegistryContractType :: string where
  "TokenAdminRegistryContractType = ''token_admin_registry''"

definition LockReleaseTokenPoolContractType :: string where
  "LockReleaseTokenPoolContractType = ''lock_release_token_pool''"

definition SiloedLockReleaseTokenPoolContractType :: string where
  "SiloedLockReleaseTokenPoolContractType = ''siloed_lock_release_token_pool''"

definition TokenLockBoxContractType :: string where
  "TokenLockBoxContractType = ''token_lock_box''"

definition TestTokenContractType :: string where
  "TestTokenContractType = ''sac_token''"

definition DevenvTestTokenPoolQualifier :: string where
  "DevenvTestTokenPoolQualifier = ''TEST''"

definition DevenvLegacyLockReleasePoolQualifier :: string where
  "DevenvLegacyLockReleasePoolQualifier = ''LEGACY_LR''"

definition RampRegistryContractType :: string where
  "RampRegistryContractType = ''RampRegistry''"

definition McmsContractType :: string where
  "McmsContractType = ''MCMS''"

section \<open>References (datastore_contract_ref.go)\<close>

record DatastoreSorobanContractRef =
  sr_Type :: string
  sr_Version :: "string option"
  sr_Qualifier :: string

definition PartialAddressRef :: "DatastoreSorobanContractRef \<Rightarrow> AddressRef" where
  "PartialAddressRef r = zero_AddressRef\<lparr>ar_Type := sr_Type r, ar_Version := sr_Version r, ar_Qualifier := sr_Qualifier r\<rparr>"

definition LaneAddressRef :: "DatastoreSorobanContractRef \<Rightarrow> int \<Rightarrow> AddressRef" where
  "LaneAddressRef r chainSelector = (PartialAddressRef r)\<lparr>ar_ChainSelector := chainSelector\<rparr>"

definition FullAddressRef :: "DatastoreSorobanContractRef \<Rightarrow> int \<Rightarrow> string \<Rightarrow> AddressRef" where
  "FullAddressRef r chainSelector addressHex = (LaneAddressRef r chainSelector)\<lparr>ar_Address := addressHex\<rparr>"

definition ref_AddressRefKey :: "DatastoreSorobanContractRef \<Rightarrow> int \<Rightarrow> AddressRefKey" where
  "ref_AddressRefKey r chainSelector = NewAddressRefKey chainSelector (sr_Type r) (sr_Version r) (sr_Qualifier r)"

definition mk_ref :: "string \<Rightarrow> string option \<Rightarrow> string \<Rightarrow> DatastoreSorobanContractRef" where
  "mk_ref t v q = \<lparr>sr_Type = t, sr_Version = v, sr_Qualifier = q\<rparr>"

definition OnRampDatastoreRef :: "ccip_names \<Rightarrow> DatastoreSorobanContractRef" where
  "OnRampDatastoreRef nm = mk_ref (evm_onramp_ContractType nm) (Some (evm_onramp_Version nm)) []"

definition OffRampDatastoreRef :: "ccip_names \<Rightarrow> DatastoreSorobanContractRef" where
  "OffRampDatastoreRef nm = mk_ref (evm_offramp_ContractType nm) (Some (evm_offramp_Version nm)) []"

definition RouterDatastoreRef :: "ccip_names \<Rightarrow> DatastoreSorobanContractRef" where
  "RouterDatastoreRef nm = mk_ref (evm_router_ContractType nm) (Some (evm_router_Version nm)) []"

definition FeeQuoterDatastoreRef :: "ccip_names \<Rightarrow> DatastoreSorobanContractRef" where
  "FeeQuoterDatastoreRef nm = mk_ref (evm_fee_quoter_ContractType nm) (Some (evm_fee_quoter_Version nm)) []"

definition RMNRemoteDatastoreRef :: "ccip_names \<Rightarrow> DatastoreSorobanContractRef" where
  "RMNRemoteDatastoreRef nm = mk_ref (evm_rmn_remote_ContractType nm) (Some (evm_rmn_remote_Version nm)) []"

definition RMNProxyDatastoreRef :: "ccip_names \<Rightarrow> DatastoreSorobanContractRef" where
  "RMNProxyDatastoreRef nm = mk_ref (evm_rmn_proxy_ContractType nm) (Some (evm_rmn_proxy_Version nm)) []"

definition TokenAdminRegistryDatastoreRef :: DatastoreSorobanContractRef where
  "TokenAdminRegistryDatastoreRef = mk_ref TokenAdminRegistryContractType ContractDeploymentVersion []"

definition VVRDatastoreRef :: "ccip_names \<Rightarrow> DatastoreSorobanContractRef" where
  "VVRDatastoreRef nm = mk_ref (CommitteeVerifierResolverType nm) (Some (evm_versioned_verifier_resolver_Version nm))
     (DefaultCommitteeVerifierQualifier nm)"

definition CommitteeVerifierDatastoreRef :: "ccip_names \<Rightarrow> DatastoreSorobanContractRef" where
  "CommitteeVerifierDatastoreRef nm = mk_ref (evm_committee_verifier_ContractType nm) (Some (evm_committee_verifier_Version nm))
     (DefaultCommitteeVerifierQualifier nm)"

definition RampRegistryDatastoreRef :: DatastoreSorobanContractRef where
  "RampRegistryDatastoreRef = mk_ref RampRegistryContractType ContractDeploymentVersion []"

definition CCIPReceiverDatastoreRef :: DatastoreSorobanContractRef where
  "CCIPReceiverDatastoreRef = mk_ref CcipReceiverContractType ContractDeploymentVersion []"

definition LegacyLockReleasePoolDevenvDatastoreRef :: DatastoreSorobanContractRef where
  "LegacyLockReleasePoolDevenvDatastoreRef =
     mk_ref LockReleaseTokenPoolContractType ContractDeploymentVersion DevenvLegacyLockReleasePoolQualifier"

definition LockReleasePoolDevenvDatastoreRef :: DatastoreSorobanContractRef where
  "LockReleasePoolDevenvDatastoreRef = LegacyLockReleasePoolDevenvDatastoreRef"

definition SiloedLockReleasePoolDevenvDatastoreRef :: DatastoreSorobanContractRef where
  "SiloedLockReleasePoolDevenvDatastoreRef =
     mk_ref SiloedLockReleaseTokenPoolContractType ContractDeploymentVersion DevenvTestTokenPoolQualifier"

definition TokenLockBoxDevenvDatastoreRef :: DatastoreSorobanContractRef where
  "TokenLockBoxDevenvDatastoreRef = mk_ref TokenLockBoxContractType ContractDeploymentVersion DevenvTestTokenPoolQualifier"

definition DevenvTestTokenDatastoreRef :: DatastoreSorobanContractRef where
  "DevenvTestTokenDatastoreRef = mk_ref TestTokenContractType ContractDeploymentVersion DevenvTestTokenPoolQualifier"

definition DefaultExecutorDatastoreRef :: "ccip_names \<Rightarrow> DatastoreSorobanContractRef" where
  "DefaultExecutorDatastoreRef nm = mk_ref (evm_executor_ContractType nm) (Some (evm_executor_Version nm)) (DefaultExecutorQualifier nm)"

definition ExecutorProxyDatastoreRef :: "ccip_names \<Rightarrow> string \<Rightarrow> DatastoreSorobanContractRef" where
  "ExecutorProxyDatastoreRef nm qualifier = mk_ref (evm_proxy_ContractType nm) (Some (evm_proxy_Version nm)) qualifier"

section \<open>Recording and looking up (stellar_datastore.go, lane_config.go, datastore_lookup.go)\<close>

fun MergeExistingAddressRefs :: "'d datastore \<Rightarrow> 'd \<Rightarrow> AddressRef list \<Rightarrow> 'd result" where
  "MergeExistingAddressRefs ds d [] = Ok d"
| "MergeExistingAddressRefs ds d (ref # refs) =
     bind_r (wrap_err (\<lambda>e. Errorf ''merge existing address ref (%s %s): %w''
               [AStr (ar_Type ref), AStr (case ar_Version ref of Some v \<Rightarrow> v | None \<Rightarrow> ''<nil>''), AErr e])
              (ds_Upsert ds d ref)) (\<lambda>d'. MergeExistingAddressRefs ds d' refs)"

definition UpsertDeployedStrKey ::
    "hexutil \<Rightarrow> sdk \<Rightarrow> 'd datastore \<Rightarrow> 'd \<Rightarrow> int \<Rightarrow> string \<Rightarrow> string option \<Rightarrow> string \<Rightarrow> string \<Rightarrow> 'd result" where
  "UpsertDeployedStrKey hx lib ds d chainSelector typ version qualifier contractStrkey =
     bind_r (wrap_err (\<lambda>e. Errorf ''strkey to hex for %s: %w'' [AStr typ, AErr e]) (StrkeyToHex hx lib contractStrkey)) (\<lambda>hexAddr.
     wrap_err (\<lambda>e. Errorf ''upsert address ref %s: %w'' [AStr typ, AErr e])
       (ds_Upsert ds d \<lparr>ar_Address = hexAddr, ar_ChainSelector = chainSelector, ar_Type = typ, ar_Version = version,
                         ar_Qualifier = qualifier\<rparr>))"

definition LookupAddressRef :: "'d datastore \<Rightarrow> 'd \<Rightarrow> int \<Rightarrow> string \<Rightarrow> string option \<Rightarrow> string \<Rightarrow> AddressRef result" where
  "LookupAddressRef ds d selector contractType version qualifier =
     ds_Get ds d (NewAddressRefKey selector contractType version qualifier)"

definition LookupStellarContractStrkey ::
    "sdk \<Rightarrow> 'd datastore \<Rightarrow> 'd \<Rightarrow> int \<Rightarrow> string \<Rightarrow> string option \<Rightarrow> string \<Rightarrow> string result" where
  "LookupStellarContractStrkey lib ds d selector contractType version qualifier =
     bind_r (LookupAddressRef ds d selector contractType version qualifier) (\<lambda>ref.
     wrap_err (\<lambda>e. Errorf ''convert %s address %s to contract strkey: %w'' [AStr contractType, AStr (ar_Address ref), AErr e])
       (HexToContractStrkey lib (ar_Address ref)))"

definition ref_LookupStrkey :: "sdk \<Rightarrow> 'd datastore \<Rightarrow> DatastoreSorobanContractRef \<Rightarrow> 'd \<Rightarrow> int \<Rightarrow> string result" where
  "ref_LookupStrkey lib ds r d chainSelector =
     LookupStellarContractStrkey lib ds d chainSelector (sr_Type r) (sr_Version r) (sr_Qualifier r)"

definition ref_LookupAddressRef :: "'d datastore \<Rightarrow> DatastoreSorobanContractRef \<Rightarrow> 'd \<Rightarrow> int \<Rightarrow> AddressRef result" where
  "ref_LookupAddressRef ds r d chainSelector = LookupAddressRef ds d chainSelector (sr_Type r) (sr_Version r) (sr_Qualifier r)"

definition ref_UpsertDeployedStrKey ::
    "hexutil \<Rightarrow> sdk \<Rightarrow> 'd datastore \<Rightarrow> DatastoreSorobanContractRef \<Rightarrow> 'd \<Rightarrow> int \<Rightarrow> string \<Rightarrow> 'd result" where
  "ref_UpsertDeployedStrKey hx lib ds r d chainSelector contractStrkey =
     UpsertDeployedStrKey hx lib ds d chainSelector (sr_Type r) (sr_Version r) (sr_Qualifier r) contractStrkey"

definition RecordOnRamp :: "ccip_names \<Rightarrow> hexutil \<Rightarrow> sdk \<Rightarrow> 'd datastore \<Rightarrow> 'd \<Rightarrow> int \<Rightarrow> string \<Rightarrow> 'd result" where
  "RecordOnRamp nm hx lib ds d chainSelector contractStrkey = ref_UpsertDeployedStrKey hx lib ds (OnRampDatastoreRef nm) d chainSelector contractStrkey"

definition RecordOffRamp :: "ccip_names \<Rightarrow> hexutil \<Rightarrow> sdk \<Rightarrow> 'd datastore \<Rightarrow> 'd \<Rightarrow> int \<Rightarrow> string \<Rightarrow> 'd result" where
  "RecordOffRamp nm hx lib ds d chainSelector contractStrkey = ref_UpsertDeployedStrKey hx lib ds (OffRampDatastoreRef nm) d chainSelector contractStrkey"

definition RecordRouter :: "ccip_names \<Rightarrow> hexutil \<Rightarrow> sdk \<Rightarrow> 'd datastore \<Rightarrow> 'd \<Rightarrow> int \<Rightarrow> string \<Rightarrow> 'd result" where
  "RecordRouter nm hx lib ds d chainSelector contractStrkey = ref_UpsertDeployedStrKey hx lib ds (RouterDatastoreRef nm) d chainSelector contractStrkey"

definition RecordFeeQuoter :: "ccip_names \<Rightarrow> hexutil \<Rightarrow> sdk \<Rightarrow> 'd datastore \<Rightarrow> 'd \<Rightarrow> int \<Rightarrow> string \<Rightarrow> 'd result" where
  "RecordFeeQuoter nm hx lib ds d chainSelector contractStrkey = ref_UpsertDeployedStrKey hx lib ds (FeeQuoterDatastoreRef nm) d chainSelector contractStrkey"

definition RecordRMNRemote :: "ccip_names \<Rightarrow> hexutil \<Rightarrow> sdk \<Rightarrow> 'd datastore \<Rightarrow> 'd \<Rightarrow> int \<Rightarrow> string \<Rightarrow> 'd result" where
  "RecordRMNRemote nm hx lib ds d chainSelector contractStrkey = ref_UpsertDeployedStrKey hx lib ds (RMNRemoteDatastoreRef nm) d chainSelector contractStrkey"

definition RecordTokenAdminRegistry :: "hexutil \<Rightarrow> sdk \<Rightarrow> 'd datastore \<Rightarrow> 'd \<Rightarrow> int \<Rightarrow> string \<Rightarrow> 'd result" where
  "RecordTokenAdminRegistry hx lib ds d chainSelector contractStrkey = ref_UpsertDeployedStrKey hx lib ds TokenAdminRegistryDatastoreRef d chainSelector contractStrkey"

definition RecordVVR :: "ccip_names \<Rightarrow> hexutil \<Rightarrow> sdk \<Rightarrow> 'd datastore \<Rightarrow> 'd \<Rightarrow> int \<Rightarrow> string \<Rightarrow> 'd result" where
  "RecordVVR nm hx lib ds d chainSelector contractStrkey = ref_UpsertDeployedStrKey hx lib ds (VVRDatastoreRef nm) d chainSelector contractStrkey"

definition RecordCommitteeVerifier :: "ccip_names \<Rightarrow> hexutil \<Rightarrow> sdk \<Rightarrow> 'd datastore \<Rightarrow> 'd \<Rightarrow> int \<Rightarrow> string \<Rightarrow> 'd result" where
  "RecordCommitteeVerifier nm hx lib ds d chainSelector contractStrkey = ref_UpsertDeployedStrKey hx lib ds (CommitteeVerifierDatastoreRef nm) d chainSelector contractStrkey"

definition RecordRampRegistry :: "hexutil \<Rightarrow> sdk \<Rightarrow> 'd datastore \<Rightarrow> 'd \<Rightarrow> int \<Rightarrow> string \<Rightarrow> 'd result" where
  "RecordRampRegistry hx lib ds d chainSelector contractStrkey = ref_UpsertDeployedStrKey hx lib ds RampRegistryDatastoreRef d chainSelector contractStrkey"

definition RecordCCIPReceiver :: "hexutil \<Rightarrow> sdk \<Rightarrow> 'd datastore \<Rightarrow> 'd \<Rightarrow> int \<Rightarrow> string \<Rightarrow> 'd result" where
  "RecordCCIPReceiver hx lib ds d chainSelector contractStrkey = ref_UpsertDeployedStrKey hx lib ds CCIPReceiverDatastoreRef d chainSelector contractStrkey"

definition RecordLockReleasePool :: "hexutil \<Rightarrow> sdk \<Rightarrow> 'd datastore \<Rightarrow> 'd \<Rightarrow> int \<Rightarrow> string \<Rightarrow> 'd result" where
  "RecordLockReleasePool hx lib ds d chainSelector contractStrkey = ref_UpsertDeployedStrKey hx lib ds LegacyLockReleasePoolDevenvDatastoreRef d chainSelector contractStrkey"

definition RecordSiloedLockReleasePool :: "hexutil \<Rightarrow> sdk \<Rightarrow> 'd datastore \<Rightarrow> 'd \<Rightarrow> int \<Rightarrow> string \<Rightarrow> 'd result" where
  "RecordSiloedLockReleasePool hx lib ds d chainSelector contractStrkey = ref_UpsertDeployedStrKey hx lib ds SiloedLockReleasePoolDevenvDatastoreRef d chainSelector contractStrkey"

definition RecordTokenLockBox :: "hexutil \<Rightarrow> sdk \<Rightarrow> 'd datastore \<Rightarrow> 'd \<Rightarrow> int \<Rightarrow> string \<Rightarrow> 'd result" where
  "RecordTokenLockBox hx lib ds d chainSelector contractStrkey = ref_UpsertDeployedStrKey hx lib ds TokenLockBoxDevenvDatastoreRef d chainSelector contractStrkey"

definition GetOnRampStrkey :: "ccip_names \<Rightarrow> sdk \<Rightarrow> 'd datastore \<Rightarrow> 'd \<Rightarrow> int \<Rightarrow> string result" where
  "GetOnRampStrkey nm lib ds d chainSelector = ref_LookupStrkey lib ds (OnRampDatastoreRef nm) d chainSelector"

definition GetOffRampStrkey :: "ccip_names \<Rightarrow> sdk \<Rightarrow> 'd datastore \<Rightarrow> 'd \<Rightarrow> int \<Rightarrow> string result" where
  "GetOffRampStrkey nm lib ds d chainSelector = ref_LookupStrkey lib ds (OffRampDatastoreRef nm) d chainSelector"

definition GetRouterStrkey :: "ccip_names \<Rightarrow> sdk \<Rightarrow> 'd datastore \<Rightarrow> 'd \<Rightarrow> int \<Rightarrow> string result" where
  "GetRouterStrkey nm lib ds d chainSelector = ref_LookupStrkey lib ds (RouterDatastoreRef nm) d chainSelector"

definition GetFeeQuoterStrkey :: "ccip_names \<Rightarrow> sdk \<Rightarrow> 'd datastore \<Rightarrow> 'd \<Rightarrow> int \<Rightarrow> string result" where
  "GetFeeQuoterStrkey nm lib ds d chainSelector = ref_LookupStrkey lib ds (FeeQuoterDatastoreRef nm) d chainSelector"

definition GetTokenAdminRegistryStrkey :: "sdk \<Rightarrow> 'd datastore \<Rightarrow> 'd \<Rightarrow> int \<Rightarrow> string result" where
  "GetTokenAdminRegistryStrkey lib ds d chainSelector = ref_LookupStrkey lib ds TokenAdminRegistryDatastoreRef d chainSelector"

definition GetVVRStrkey :: "ccip_names \<Rightarrow> sdk \<Rightarrow> 'd datastore \<Rightarrow> 'd \<Rightarrow> int \<Rightarrow> string result" where
  "GetVVRStrkey nm lib ds d chainSelector = ref_LookupStrkey lib ds (VVRDatastoreRef nm) d chainSelector"

definition GetCommitteeVerifierStrkey :: "ccip_names \<Rightarrow> sdk \<Rightarrow> 'd datastore \<Rightarrow> 'd \<Rightarrow> int \<Rightarrow> string result" where
  "GetCommitteeVerifierStrkey nm lib ds d chainSelector = ref_LookupStrkey lib ds (CommitteeVerifierDatastoreRef nm) d chainSelector"

definition GetRampRegistryStrkey :: "sdk \<Rightarrow> 'd datastore \<Rightarrow> 'd \<Rightarrow> int \<Rightarrow> string result" where
  "GetRampRegistryStrkey lib ds d chainSelector = ref_LookupStrkey lib ds RampRegistryDatastoreRef d chainSelector"

definition GetRMNRemoteStrkey :: "ccip_names \<Rightarrow> sdk \<Rightarrow> 'd datastore \<Rightarrow> 'd \<Rightarrow> int \<Rightarrow> string result" where
  "GetRMNRemoteStrkey nm lib ds d chainSelector = ref_LookupStrkey lib ds (RMNRemoteDatastoreRef nm) d chainSelector"

definition add_converted :: "hexutil \<Rightarrow> sdk \<Rightarrow> 'd datastore \<Rightarrow> (error \<Rightarrow> error) \<Rightarrow> (error \<Rightarrow> error) \<Rightarrow> DatastoreSorobanContractRef \<Rightarrow> int \<Rightarrow> string \<Rightarrow> 'd \<Rightarrow> 'd result" where
  "add_converted hx lib ds on_convert on_add ref chainSelector contractID d =
     bind_r (wrap_err on_convert (StrkeyToHex hx lib contractID)) (\<lambda>hexAddr.
     wrap_err on_add
       (ds_Add ds d (FullAddressRef ref chainSelector hexAddr)))"

definition LockReleasePoolAddressRefDataStore :: "hexutil \<Rightarrow> sdk \<Rightarrow> 'd datastore \<Rightarrow> int \<Rightarrow> string \<Rightarrow> string \<Rightarrow> 'd result" where
  "LockReleasePoolAddressRefDataStore hx lib ds chainSelector poolContractID tokenContractID =
     bind_r (add_converted hx lib ds (\<lambda>e. Errorf ''convert pool address: %w'' [AErr e]) (\<lambda>e. Errorf ''add pool address ref: %w'' [AErr e])
              LegacyLockReleasePoolDevenvDatastoreRef chainSelector poolContractID
              (NewMemoryDataStore ds)) (\<lambda>d1.
     bind_r (if tokenContractID \<noteq> [] then add_converted hx lib ds (\<lambda>e. Errorf ''convert token address: %w'' [AErr e]) (\<lambda>e. Errorf ''add token address ref: %w'' [AErr e])
                     DevenvTestTokenDatastoreRef chainSelector tokenContractID d1
             else Ok d1) (\<lambda>d2. Ok (Seal ds d2)))"

definition DevenvTokenPoolsAddressRefDataStore ::
    "hexutil \<Rightarrow> sdk \<Rightarrow> 'd datastore \<Rightarrow> int \<Rightarrow> string \<Rightarrow> string \<Rightarrow> string \<Rightarrow> string \<Rightarrow> 'd result" where
  "DevenvTokenPoolsAddressRefDataStore hx lib ds chainSelector siloedPoolContractID legacyPoolContractID lockBoxContractID tokenContractID =
     (let addRef = (\<lambda>ref contractID d. if contractID = [] then Ok d
                      else add_converted hx lib ds (\<lambda>e. Errorf ''convert %s address: %w'' [AStr (sr_Type ref), AErr e])
                        (\<lambda>e. Errorf ''add %s address ref: %w'' [AStr (sr_Type ref), AErr e]) ref chainSelector contractID d) in
      bind_r (addRef SiloedLockReleasePoolDevenvDatastoreRef siloedPoolContractID (NewMemoryDataStore ds)) (\<lambda>d1.
      bind_r (addRef LegacyLockReleasePoolDevenvDatastoreRef legacyPoolContractID d1) (\<lambda>d2.
      bind_r (addRef TokenLockBoxDevenvDatastoreRef lockBoxContractID d2) (\<lambda>d3.
      bind_r (if tokenContractID \<noteq> [] then add_converted hx lib ds (\<lambda>e. Errorf ''convert token address: %w'' [AErr e]) (\<lambda>e. Errorf ''add token address ref: %w'' [AErr e])
                     DevenvTestTokenDatastoreRef chainSelector tokenContractID d3
              else Ok d3) (\<lambda>d4. Ok (Seal ds d4))))))"

section \<open>Lane configurations (lane_config.go)\<close>

definition StellarAddressByteLen :: int where
  "StellarAddressByteLen = 32"

definition AddressBytesLength :: "chainsel \<Rightarrow> int \<Rightarrow> int result" where
  "AddressBytesLength cs selector =
     bind_r (wrap_err (\<lambda>e. Errorf ''get selector family for %d: %w'' [AInt selector, AErr e]) (GetSelectorFamily cs selector)) (\<lambda>family.
     if family = FamilyStellar cs then Ok StellarAddressByteLen else Ok 20)"

definition ZeroAddressBytes :: "chainsel \<Rightarrow> int \<Rightarrow> bytes result" where
  "ZeroAddressBytes cs selector = bind_r (AddressBytesLength cs selector) (\<lambda>n. Ok (replicate (nat n) 0))"

definition AddressBytesHex :: "hexutil \<Rightarrow> chainsel \<Rightarrow> AddressRef \<Rightarrow> int \<Rightarrow> bytes result" where
  "AddressBytesHex hx cs ref selector =
     bind_r (wrap_err (\<lambda>e. Errorf ''decode address %s: %w'' [AStr (ar_Address ref), AErr e]) (hexutil_Decode hx (ar_Address ref))) (\<lambda>raw.
     bind_r (AddressBytesLength cs selector) (\<lambda>expectedLen.
     if int (length raw) \<noteq> expectedLen
     then Err (Errorf ''address %s has %d bytes, expected %d for selector %d''
                 [AStr (ar_Address ref), AInt (int (length raw)), AInt expectedLen, AInt selector])
     else Ok raw))"

definition CanonicalSourceOnRampBytes :: "hexutil \<Rightarrow> chainsel \<Rightarrow> AddressRef \<Rightarrow> int \<Rightarrow> bytes result" where
  "CanonicalSourceOnRampBytes hx cs ref selector =
     bind_r (AddressBytesHex hx cs ref selector) (\<lambda>raw.
     bind_r (wrap_err (\<lambda>e. Errorf ''get selector family for %d: %w'' [AInt selector, AErr e]) (GetSelectorFamily cs selector)) (\<lambda>family.
     if family \<noteq> FamilyEVM cs then Ok raw else Ok (replicate (32 - length raw) 0 @ raw)))"

fun BuildOnRampDestConfigs ::
    "ccip_names \<Rightarrow> hexutil \<Rightarrow> chainsel \<Rightarrow> 'd datastore \<Rightarrow> 'd \<Rightarrow> int list \<Rightarrow> string \<Rightarrow> bool \<Rightarrow> string \<Rightarrow> string \<Rightarrow>
     Bind_Onramp.DestChainConfigArgs list result" where
  "BuildOnRampDestConfigs nm hx cs ds d [] defaultExecutor useRemoteOffRamp vvrContractID routerContractID = Ok []"
| "BuildOnRampDestConfigs nm hx cs ds d (rs # remoteSelectors) defaultExecutor useRemoteOffRamp vvrContractID routerContractID =
     bind_r (AddressBytesLength cs rs) (\<lambda>addressBytesLength.
     bind_r (ZeroAddressBytes cs rs) (\<lambda>zero.
     bind_r (if useRemoteOffRamp then
               bind_r (wrap_err (\<lambda>e. Errorf ''lookup remote offramp for %d: %w'' [AInt rs, AErr e])
                         (ref_LookupAddressRef ds (OffRampDatastoreRef nm) d rs)) (\<lambda>offRampRef.
               wrap_err (\<lambda>e. Errorf ''resolve remote offramp bytes for %d: %w'' [AInt rs, AErr e]) (AddressBytesHex hx cs offRampRef rs))
             else Ok zero) (\<lambda>offRampBytes.
     bind_r (BuildOnRampDestConfigs nm hx cs ds d remoteSelectors defaultExecutor useRemoteOffRamp vvrContractID routerContractID) (\<lambda>configs.
     Ok (\<lparr>DestChainConfigArgs_AddressBytesLength = addressBytesLength,
          DestChainConfigArgs_BaseExecutionGasCost = 100000, DestChainConfigArgs_DefaultCcvs = [vvrContractID],
          DestChainConfigArgs_DefaultExecutor = defaultExecutor, DestChainConfigArgs_DestChainSelector = rs,
          DestChainConfigArgs_ExecutionFeeUsdCents = 0, DestChainConfigArgs_LaneMandatedCcvs = [],
          DestChainConfigArgs_MessageNetworkFeeUsdCents = 100, DestChainConfigArgs_OffRamp = offRampBytes,
          DestChainConfigArgs_Router = routerContractID, DestChainConfigArgs_TokenNetworkFeeUsdCents = 50,
          DestChainConfigArgs_TokenReceiverAllowed = True\<rparr> # configs)))))"

fun BuildOffRampSourceConfigs ::
    "ccip_names \<Rightarrow> hexutil \<Rightarrow> chainsel \<Rightarrow> 'd datastore \<Rightarrow> 'd \<Rightarrow> int list \<Rightarrow> bool \<Rightarrow> string \<Rightarrow> string \<Rightarrow>
     Bind_Offramp.SourceChainConfigArgs list result" where
  "BuildOffRampSourceConfigs nm hx cs ds d [] useRemoteOnRamp vvrContractID routerContractID = Ok []"
| "BuildOffRampSourceConfigs nm hx cs ds d (rs # remoteSelectors) useRemoteOnRamp vvrContractID routerContractID =
     bind_r (if useRemoteOnRamp then
               bind_r (wrap_err (\<lambda>e. Errorf ''lookup remote onramp for %d: %w'' [AInt rs, AErr e])
                         (ref_LookupAddressRef ds (OnRampDatastoreRef nm) d rs)) (\<lambda>onRampRef.
               wrap_err (\<lambda>e. Errorf ''resolve remote onramp bytes for %d: %w'' [AInt rs, AErr e])
                 (CanonicalSourceOnRampBytes hx cs onRampRef rs))
             else Ok (replicate 32 0)) (\<lambda>onRampBytes.
     bind_r (BuildOffRampSourceConfigs nm hx cs ds d remoteSelectors useRemoteOnRamp vvrContractID routerContractID) (\<lambda>configs.
     Ok (\<lparr>SourceChainConfigArgs_DefaultCcvs = [vvrContractID], SourceChainConfigArgs_IsEnabled = True,
          SourceChainConfigArgs_LaneMandatedCcvs = [], SourceChainConfigArgs_OnRamps = [onRampBytes],
          SourceChainConfigArgs_Router = routerContractID, SourceChainConfigArgs_SourceChainSelector = rs\<rparr> # configs)))"

section \<open>Governance addresses (mcmsutil/refs.go, address_ref.go, config.go)\<close>

text \<open>\<open>semver.Version.Equal\<close>, \<open>GetAddressRef\<close> of chainlink-ccip, and the configuration type of the MCMS library with its
  comparison and its conversion to contract inputs.\<close>

record 'c mcms_lib =
  Version_Equal :: "string option \<Rightarrow> string option \<Rightarrow> bool"
  GetAddressRef :: "AddressRef list \<Rightarrow> int \<Rightarrow> string \<Rightarrow> string option \<Rightarrow> string \<Rightarrow> AddressRef"
  Config_Equals :: "'c \<Rightarrow> 'c \<Rightarrow> bool"
  ExtractSetConfigInputs :: "'c \<Rightarrow> (bytes \<times> bytes \<times> bytes list \<times> int list) result"

definition mcms_types :: "ccip_names \<Rightarrow> string list" where
  "mcms_types nm = [McmsContractType, ProposerManyChainMultisig nm, BypasserManyChainMultisig nm, CancellerManyChainMultisig nm]"

fun FindExistingStellarMCMS :: "ccip_names \<Rightarrow> 'c mcms_lib \<Rightarrow> AddressRef list \<Rightarrow> int \<Rightarrow> string \<Rightarrow> string option" where
  "FindExistingStellarMCMS nm ml [] chainSelector qual = None"
| "FindExistingStellarMCMS nm ml (r # refs) chainSelector qual =
     (if ar_ChainSelector r \<noteq> chainSelector then FindExistingStellarMCMS nm ml refs chainSelector qual
      else if ar_Qualifier r \<noteq> qual then FindExistingStellarMCMS nm ml refs chainSelector qual
      else if \<not> Version_Equal ml (ar_Version r) (Some (MCMSVersion nm)) then FindExistingStellarMCMS nm ml refs chainSelector qual
      else if ar_Type r \<in> set (mcms_types nm) \<and> ar_Address r \<noteq> [] then Some (ar_Address r)
      else FindExistingStellarMCMS nm ml refs chainSelector qual)"

definition StellarMCMSDatastoreRefs :: "ccip_names \<Rightarrow> int \<Rightarrow> string \<Rightarrow> string \<Rightarrow> AddressRef list" where
  "StellarMCMSDatastoreRefs nm chainSelector qual contractID =
     map (\<lambda>ct. \<lparr>ar_Address = contractID, ar_ChainSelector = chainSelector, ar_Type = ct, ar_Version = Some (MCMSVersion nm),
                ar_Qualifier = qual\<rparr>)
       [McmsContractType, ProposerManyChainMultisig nm, BypasserManyChainMultisig nm, CancellerManyChainMultisig nm]"

fun FindExistingStellarTimelock :: "ccip_names \<Rightarrow> 'c mcms_lib \<Rightarrow> AddressRef list \<Rightarrow> int \<Rightarrow> string \<Rightarrow> string option" where
  "FindExistingStellarTimelock nm ml [] chainSelector qual = None"
| "FindExistingStellarTimelock nm ml (r # refs) chainSelector qual =
     (if ar_ChainSelector r \<noteq> chainSelector then FindExistingStellarTimelock nm ml refs chainSelector qual
      else if ar_Qualifier r \<noteq> qual then FindExistingStellarTimelock nm ml refs chainSelector qual
      else if \<not> Version_Equal ml (ar_Version r) (Some (MCMSVersion nm)) then FindExistingStellarTimelock nm ml refs chainSelector qual
      else if ar_Type r = RBACTimelock nm \<and> ar_Address r \<noteq> [] then Some (ar_Address r)
      else FindExistingStellarTimelock nm ml refs chainSelector qual)"

definition StellarTimelockDatastoreRef :: "ccip_names \<Rightarrow> int \<Rightarrow> string \<Rightarrow> string \<Rightarrow> AddressRef" where
  "StellarTimelockDatastoreRef nm chainSelector qual contractID =
     \<lparr>ar_Address = contractID, ar_ChainSelector = chainSelector, ar_Type = RBACTimelock nm, ar_Version = Some (MCMSVersion nm),
      ar_Qualifier = qual\<rparr>"

datatype TimelockAction = TimelockActionSchedule | TimelockActionBypass | TimelockActionCancel | TimelockActionOther string

definition MCMSRefLookupOrder :: "ccip_names \<Rightarrow> TimelockAction \<Rightarrow> string list result" where
  "MCMSRefLookupOrder nm action =
     bind_r (case action of
               TimelockActionSchedule \<Rightarrow> Ok (ProposerManyChainMultisig nm)
             | TimelockActionBypass \<Rightarrow> Ok (BypasserManyChainMultisig nm)
             | TimelockActionCancel \<Rightarrow> Ok (CancellerManyChainMultisig nm)
             | TimelockActionOther a \<Rightarrow> Err (Errorf ''unsupported timelock action: %s'' [AStr a])) (\<lambda>primary.
     Ok [primary, ProposerManyChainMultisig nm, BypasserManyChainMultisig nm, CancellerManyChainMultisig nm, McmsContractType])"

fun first_address :: "'c mcms_lib \<Rightarrow> AddressRef list \<Rightarrow> int \<Rightarrow> string option \<Rightarrow> string \<Rightarrow> string list \<Rightarrow> AddressRef option" where
  "first_address ml refs chainSelector v qual [] = None"
| "first_address ml refs chainSelector v qual (addrType # order) =
     (let ref = GetAddressRef ml refs chainSelector addrType v qual
      in if ar_Address ref \<noteq> [] then Some ref else first_address ml refs chainSelector v qual order)"

definition FindStellarMCMSAddressRef ::
    "ccip_names \<Rightarrow> 'c mcms_lib \<Rightarrow> 'd datastore \<Rightarrow> 'd \<Rightarrow> int \<Rightarrow> TimelockAction \<Rightarrow> string \<Rightarrow> AddressRef result" where
  "FindStellarMCMSAddressRef nm ml ds d chainSelector action qualifier =
     bind_r (MCMSRefLookupOrder nm action) (\<lambda>order.
     case first_address ml (ds_Filter ds d) chainSelector (Some (MCMSVersion nm)) qualifier order of
       Some ref \<Rightarrow> Ok ref
     | None \<Rightarrow> Err (Errorf ''no Stellar MCMS address found for chain %d qualifier %q (expected EVM-style MCM alias types or %s)''
                 [AInt chainSelector, AStr qualifier, AStr McmsContractType]))"

definition FindStellarTimelockAddressRef ::
    "ccip_names \<Rightarrow> 'c mcms_lib \<Rightarrow> 'd datastore \<Rightarrow> 'd \<Rightarrow> int \<Rightarrow> TimelockAction \<Rightarrow> string \<Rightarrow> AddressRef result" where
  "FindStellarTimelockAddressRef nm ml ds d chainSelector action qualifier =
     (let ref = GetAddressRef ml (ds_Filter ds d) chainSelector (RBACTimelock nm) (Some (MCMSVersion nm)) qualifier
      in if ar_Address ref \<noteq> [] then Ok ref else FindStellarMCMSAddressRef nm ml ds d chainSelector action qualifier)"

definition MergeTripleMCMSConfig :: "'c mcms_lib \<Rightarrow> 'c \<Rightarrow> 'c \<Rightarrow> 'c \<Rightarrow> 'c result" where
  "MergeTripleMCMSConfig ml p b c =
     (if \<not> Config_Equals ml p b \<or> \<not> Config_Equals ml b c
      then Err (New ''stellar MCMS: Proposer, Bypasser, and Canceller configs must be identical for a single MCMS instance'')
      else Ok p)"

definition ConfigToStellarSetConfig ::
    "'c mcms_lib \<Rightarrow> 'c option \<Rightarrow> bool \<Rightarrow> (Bind_Mcms.SignerAddresses \<times> Bind_Mcms.SignerGroups \<times> bytes \<times> bytes \<times> bool) result" where
  "ConfigToStellarSetConfig ml cfg clearRoot =
     (case cfg of
        None \<Rightarrow> Err (New ''nil MCMS config'')
      | Some c \<Rightarrow>
          bind_r (ExtractSetConfigInputs ml c) (\<lambda>(gq, gp, addrs, groups).
          Ok (\<lparr>SignerAddresses_Inner = map evmAddressToPadded32 addrs\<rparr>, \<lparr>SignerGroups_Inner = map u32 groups\<rparr>, gq, gp, clearRoot)))"

section \<open>Recorded contracts are found\<close>

lemmas ref_key_simps = ref_key_def stores_def

lemma independent_sym: "independent a b \<longleftrightarrow> independent b a"
  by (cases a; cases b) auto

lemma upsert_then_lookup:
  assumes laws: "hexutil_laws hx" "strkey_laws lib" "datastore_laws ds"
    and key: "strkey_Decode lib vb k = Ok raw"
  obtains d' where "ref_UpsertDeployedStrKey hx lib ds r d sel k = Ok d'"
    and "ref_LookupStrkey lib ds r d' sel = strkey_Encode lib VersionByteContract raw"
    and "\<And>(r' :: DatastoreSorobanContractRef) sel'. sel' \<noteq> sel \<or> (sr_Type r', sr_Qualifier r') \<noteq> (sr_Type r, sr_Qualifier r) \<Longrightarrow>
           ref_LookupStrkey lib ds r' d' sel' = ref_LookupStrkey lib ds r' d sel'"
proof -
  let ?ref = "\<lparr>ar_Address = hexutil_Encode hx raw, ar_ChainSelector = sel, ar_Type = sr_Type r, ar_Version = sr_Version r,
    ar_Qualifier = sr_Qualifier r\<rparr>"
  from laws(3) obtain d' where d': "ds_Upsert ds d ?ref = Ok d'" "stores ds d ?ref d'"
    unfolding datastore_laws_def by blast
  have "\<exists>s. strkey_Encode lib VersionByteContract raw = Ok s"
    using laws(2) decode_head [OF laws(2) key] unfolding strkey_laws_def by blast
  then have found: "ref_LookupStrkey lib ds r d' sel = strkey_Encode lib VersionByteContract raw"
    using d'(2) HexToContractStrkey_encoded [OF laws(1), of lib raw]
    by (auto simp: ref_LookupStrkey_def LookupStellarContractStrkey_def LookupAddressRef_def ref_key_simps)
  show ?thesis
  proof (rule that [OF _ found])
    show "ref_UpsertDeployedStrKey hx lib ds r d sel k = Ok d'"
      using d'(1) by (simp add: ref_UpsertDeployedStrKey_def UpsertDeployedStrKey_def StrkeyToHex_decodes [OF laws(2) key])
  next
    fix r' :: DatastoreSorobanContractRef and sel'
    assume "sel' \<noteq> sel \<or> (sr_Type r', sr_Qualifier r') \<noteq> (sr_Type r, sr_Qualifier r)"
    with d'(2) show "ref_LookupStrkey lib ds r' d' sel' = ref_LookupStrkey lib ds r' d sel'"
      by (auto simp: ref_LookupStrkey_def LookupStellarContractStrkey_def LookupAddressRef_def ref_key_simps)
  qed
qed

text \<open>The nine contracts that have both a recording and a lookup function, in the order of datastore\_lookup.go.\<close>

definition recorded_refs :: "ccip_names \<Rightarrow> DatastoreSorobanContractRef list" where
  "recorded_refs nm = [OnRampDatastoreRef nm, OffRampDatastoreRef nm, RouterDatastoreRef nm, FeeQuoterDatastoreRef nm,
     TokenAdminRegistryDatastoreRef, VVRDatastoreRef nm, CommitteeVerifierDatastoreRef nm, RampRegistryDatastoreRef,
     RMNRemoteDatastoreRef nm]"

definition recorders :: "ccip_names \<Rightarrow> hexutil \<Rightarrow> sdk \<Rightarrow> 'd datastore \<Rightarrow> ('d \<Rightarrow> int \<Rightarrow> string \<Rightarrow> 'd result) list" where
  "recorders nm hx lib ds = [RecordOnRamp nm hx lib ds, RecordOffRamp nm hx lib ds, RecordRouter nm hx lib ds,
     RecordFeeQuoter nm hx lib ds, RecordTokenAdminRegistry hx lib ds, RecordVVR nm hx lib ds,
     RecordCommitteeVerifier nm hx lib ds, RecordRampRegistry hx lib ds, RecordRMNRemote nm hx lib ds]"

definition readers :: "ccip_names \<Rightarrow> sdk \<Rightarrow> 'd datastore \<Rightarrow> ('d \<Rightarrow> int \<Rightarrow> string result) list" where
  "readers nm lib ds = [GetOnRampStrkey nm lib ds, GetOffRampStrkey nm lib ds, GetRouterStrkey nm lib ds,
     GetFeeQuoterStrkey nm lib ds, GetTokenAdminRegistryStrkey lib ds, GetVVRStrkey nm lib ds,
     GetCommitteeVerifierStrkey nm lib ds, GetRampRegistryStrkey lib ds, GetRMNRemoteStrkey nm lib ds]"

text \<open>chainlink-ccip gives different contracts different types or qualifiers.\<close>

definition names_distinct :: "ccip_names \<Rightarrow> bool" where
  "names_distinct nm \<longleftrightarrow> distinct (map (\<lambda>r. (sr_Type r, sr_Qualifier r)) (recorded_refs nm))"

lemma recorders_refs: "recorders nm hx lib ds = map (ref_UpsertDeployedStrKey hx lib ds) (recorded_refs nm)"
  by (simp add: recorders_def recorded_refs_def fun_eq_iff RecordOnRamp_def RecordOffRamp_def RecordRouter_def RecordFeeQuoter_def
      RecordTokenAdminRegistry_def RecordVVR_def RecordCommitteeVerifier_def RecordRampRegistry_def RecordRMNRemote_def)

lemma readers_refs: "readers nm lib ds = map (ref_LookupStrkey lib ds) (recorded_refs nm)"
  by (simp add: readers_def recorded_refs_def fun_eq_iff GetOnRampStrkey_def GetOffRampStrkey_def GetRouterStrkey_def
      GetFeeQuoterStrkey_def GetTokenAdminRegistryStrkey_def GetVVRStrkey_def GetCommitteeVerifierStrkey_def
      GetRampRegistryStrkey_def GetRMNRemoteStrkey_def)

lemma length_recorded_refs: "length (recorded_refs nm) = 9"
  by (simp add: recorded_refs_def)

text \<open>C34: Recording the strkey of a deployed contract with one of the nine Record functions succeeds, the matching Get function
  then returns exactly that strkey for that chain, and what every Get function returns for any other contract or any
  other chain is what it returned before.\<close>

theorem recorded_contracts_found:
  assumes laws: "hexutil_laws hx" "strkey_laws lib" "datastore_laws ds" "names_distinct nm"
    and key: "strkey_Decode lib VersionByteContract k = Ok raw" and i: "i < 9"
  shows "\<exists>d'. (recorders nm hx lib ds ! i) d sel k = Ok d' \<and> (readers nm lib ds ! i) d' sel = Ok k \<and>
    (\<forall>j sel'. j < 9 \<and> (j \<noteq> i \<or> sel' \<noteq> sel) \<longrightarrow> (readers nm lib ds ! j) d' sel' = (readers nm lib ds ! j) d sel')"
proof -
  let ?r = "recorded_refs nm ! i"
  obtain d' where d': "ref_UpsertDeployedStrKey hx lib ds ?r d sel k = Ok d'"
    "ref_LookupStrkey lib ds ?r d' sel = strkey_Encode lib VersionByteContract raw"
    "\<And>(r' :: DatastoreSorobanContractRef) sel'. sel' \<noteq> sel \<or> (sr_Type r', sr_Qualifier r') \<noteq> (sr_Type ?r, sr_Qualifier ?r) \<Longrightarrow>
       ref_LookupStrkey lib ds r' d' sel' = ref_LookupStrkey lib ds r' d sel'"
    using upsert_then_lookup [OF laws(1-3) key] by blast
  have other: "(sr_Type (recorded_refs nm ! j), sr_Qualifier (recorded_refs nm ! j)) \<noteq> (sr_Type ?r, sr_Qualifier ?r)"
    if "j < 9" "j \<noteq> i" for j
    using that i laws(4) unfolding names_distinct_def by (fastforce simp: distinct_conv_nth length_recorded_refs)
  show ?thesis
    using d' other i decode_head [OF laws(2) key]
    by (intro exI [of _ d']) (auto simp: recorders_refs readers_refs length_recorded_refs)
qed

text \<open>The strkey of an account is recorded too, and comes back as the strkey of the contract with the same bytes.\<close>

theorem recorded_account_becomes_contract:
  assumes laws: "hexutil_laws hx" "strkey_laws lib" "datastore_laws ds"
    and key: "strkey_Decode lib VersionByteAccountID k = Ok raw"
  shows "\<exists>d' c. ref_UpsertDeployedStrKey hx lib ds r d sel k = Ok d' \<and> ref_LookupStrkey lib ds r d' sel = Ok c \<and> c \<noteq> k"
proof -
  obtain d' where d': "ref_UpsertDeployedStrKey hx lib ds r d sel k = Ok d'"
    "ref_LookupStrkey lib ds r d' sel = strkey_Encode lib VersionByteContract raw"
    using upsert_then_lookup [OF laws key] by blast
  from decode_head [OF laws(2) key] laws(2) obtain c where "strkey_Encode lib VersionByteContract raw = Ok c" "hd c = CHR ''C''" "hd k = CHR ''G''"
    unfolding strkey_laws_def by (auto split: VersionByte.splits) metis
  with d' show ?thesis by fastforce
qed

section \<open>Lane configurations\<close>

lemma AddressBytesHex_length:
  "AddressBytesHex hx cs ref sel = Ok raw \<Longrightarrow> AddressBytesLength cs sel = Ok (int (length raw))"
  by (auto simp: AddressBytesHex_def split: if_splits)

lemma AddressBytesLength_values: "AddressBytesLength cs sel = Ok n \<longleftrightarrow>
    (\<exists>f. GetSelectorFamily cs sel = Ok f \<and> n = (if f = FamilyStellar cs then 32 else 20))"
  by (auto simp: AddressBytesLength_def StellarAddressByteLen_def split: if_splits)

lemma CanonicalSourceOnRampBytes_length:
  assumes "CanonicalSourceOnRampBytes hx cs ref sel = Ok b"
    and "GetSelectorFamily cs sel = Ok (FamilyEVM cs) \<or> GetSelectorFamily cs sel = Ok (FamilyStellar cs)"
  shows "length b = 32"
  using assms by (auto simp: CanonicalSourceOnRampBytes_def AddressBytesLength_def StellarAddressByteLen_def
      split: if_splits dest!: AddressBytesHex_length)

text \<open>C35: The lane configurations cover the remote chains they were asked for, in order, or fail. A destination
  configuration of the OnRamp holds an off-ramp address of the length it announces, which is 20 or 32 bytes; a source
  configuration of the OffRamp is enabled and holds one on-ramp, of 32 bytes when the remote chain is an EVM or a
  Stellar chain.\<close>

theorem lane_configs_well_formed:
  "(BuildOnRampDestConfigs nm hx cs ds d sels ex useRemote vvr router = Ok dests \<longrightarrow>
      map DestChainConfigArgs_DestChainSelector dests = sels \<and>
      (\<forall>c \<in> set dests. int (length (DestChainConfigArgs_OffRamp c)) = DestChainConfigArgs_AddressBytesLength c \<and>
         DestChainConfigArgs_AddressBytesLength c \<in> {20, 32} \<and> DestChainConfigArgs_DefaultCcvs c = [vvr] \<and>
         DestChainConfigArgs_Router c = router \<and> DestChainConfigArgs_DefaultExecutor c = ex)) \<and>
   (BuildOffRampSourceConfigs nm hx cs ds d sels useRemote vvr router = Ok srcs \<longrightarrow>
      map SourceChainConfigArgs_SourceChainSelector srcs = sels \<and>
      (\<forall>c \<in> set srcs. SourceChainConfigArgs_IsEnabled c \<and> SourceChainConfigArgs_DefaultCcvs c = [vvr] \<and>
         SourceChainConfigArgs_Router c = router \<and>
         (\<exists>b. SourceChainConfigArgs_OnRamps c = [b] \<and>
           (GetSelectorFamily cs (SourceChainConfigArgs_SourceChainSelector c) \<in> {Ok (FamilyEVM cs), Ok (FamilyStellar cs)} \<longrightarrow>
              length b = 32))))"
proof (intro conjI impI)
  assume "BuildOnRampDestConfigs nm hx cs ds d sels ex useRemote vvr router = Ok dests"
  then show "map DestChainConfigArgs_DestChainSelector dests = sels"
    and "\<forall>c \<in> set dests. int (length (DestChainConfigArgs_OffRamp c)) = DestChainConfigArgs_AddressBytesLength c \<and>
         DestChainConfigArgs_AddressBytesLength c \<in> {20, 32} \<and> DestChainConfigArgs_DefaultCcvs c = [vvr] \<and>
         DestChainConfigArgs_Router c = router \<and> DestChainConfigArgs_DefaultExecutor c = ex"
    by (induction sels arbitrary: dests)
      (auto simp: ZeroAddressBytes_def AddressBytesLength_values dest!: AddressBytesHex_length split: if_splits)
next
  assume "BuildOffRampSourceConfigs nm hx cs ds d sels useRemote vvr router = Ok srcs"
  then show "map SourceChainConfigArgs_SourceChainSelector srcs = sels"
    and "\<forall>c \<in> set srcs. SourceChainConfigArgs_IsEnabled c \<and> SourceChainConfigArgs_DefaultCcvs c = [vvr] \<and>
         SourceChainConfigArgs_Router c = router \<and>
         (\<exists>b. SourceChainConfigArgs_OnRamps c = [b] \<and>
           (GetSelectorFamily cs (SourceChainConfigArgs_SourceChainSelector c) \<in> {Ok (FamilyEVM cs), Ok (FamilyStellar cs)} \<longrightarrow>
              length b = 32))"
    by (induction sels arbitrary: srcs)
      (auto split: if_splits, (simp add: CanonicalSourceOnRampBytes_length)+)
qed

section \<open>Governance addresses\<close>

definition mcms_lib_laws :: "'c mcms_lib \<Rightarrow> bool" where
  "mcms_lib_laws ml \<longleftrightarrow> (\<forall>v. Version_Equal ml (Some v) (Some v))"

lemma FindExistingStellarMCMS_append:
  "FindExistingStellarMCMS nm ml (xs @ ys) sel qual =
     (case FindExistingStellarMCMS nm ml xs sel qual of Some a \<Rightarrow> Some a | None \<Rightarrow> FindExistingStellarMCMS nm ml ys sel qual)"
  by (induction xs) auto

lemma FindExistingStellarTimelock_append:
  "FindExistingStellarTimelock nm ml (xs @ ys) sel qual =
     (case FindExistingStellarTimelock nm ml xs sel qual of Some a \<Rightarrow> Some a | None \<Rightarrow> FindExistingStellarTimelock nm ml ys sel qual)"
  by (induction xs) auto

lemma FindExistingStellarMCMS_own:
  assumes "mcms_lib_laws ml" and "contractID \<noteq> []"
  shows "FindExistingStellarMCMS nm ml (StellarMCMSDatastoreRefs nm sel qual contractID) sel qual = Some contractID"
  using assms by (simp add: StellarMCMSDatastoreRefs_def mcms_types_def mcms_lib_laws_def)

lemma FindExistingStellarTimelock_own:
  assumes "mcms_lib_laws ml" and "contractID \<noteq> []"
  shows "FindExistingStellarTimelock nm ml [StellarTimelockDatastoreRef nm sel qual contractID] sel qual = Some contractID"
  using assms by (simp add: StellarTimelockDatastoreRef_def mcms_lib_laws_def)

text \<open>The addresses of the multisigs are no timelock as long as the types differ.\<close>

lemma FindExistingStellarTimelock_mcms_refs:
  assumes "RBACTimelock nm \<notin> set (mcms_types nm)"
  shows "FindExistingStellarTimelock nm ml (StellarMCMSDatastoreRefs nm sel qual contractID) sel qual = None"
  using assms by (auto simp: StellarMCMSDatastoreRefs_def mcms_types_def)

lemma Find_nonempty:
  "FindExistingStellarMCMS nm ml refs sel qual = Some a \<Longrightarrow> a \<noteq> []"
  "FindExistingStellarTimelock nm ml refs sel qual = Some t \<Longrightarrow> t \<noteq> []"
  by (induction refs) (auto split: if_splits)

section \<open>A concrete store\<close>

text \<open>An association list, hexadecimal text by package encoding/hex, two chain families and the names that are used in a deployment.\<close>

definition list_store :: "(AddressRefKey \<times> AddressRef) list datastore" where
  "list_store = \<lparr>NewMemoryDataStore = [],
     ds_Upsert = (\<lambda>d r. Ok ((ref_key r, r) # d)),
     ds_Add = (\<lambda>d r. if map_of d (ref_key r) = None then Ok ((ref_key r, r) # d) else Err (New ''address ref already exists'')),
     ds_Get = (\<lambda>d k. case map_of d k of Some r \<Rightarrow> Ok r | None \<Rightarrow> Err (New ''address ref not found'')),
     ds_Filter = (\<lambda>d. map snd d), Seal = id\<rparr>"

definition plain_hexutil :: hexutil where
  "plain_hexutil = \<lparr>hexutil_Encode = (\<lambda>b. ''0x'' @ hex_EncodeToString b), hexutil_Decode = (\<lambda>s. hex_DecodeString (drop 2 s))\<rparr>"

definition two_families :: chainsel where
  "two_families = \<lparr>FamilyEVM = ''evm'', FamilyStellar = ''stellar'',
     GetSelectorFamily = (\<lambda>n. if n = 1 then Ok ''evm'' else if n = 2 then Ok ''stellar'' else Err (New ''unknown chain selector''))\<rparr>"

definition sample_names :: ccip_names where
  "sample_names = \<lparr>evm_onramp_ContractType = ''OnRamp'', evm_onramp_Version = ''2.0.0'', evm_offramp_ContractType = ''OffRamp'', evm_offramp_Version = ''2.0.0'',
     evm_router_ContractType = ''Router'', evm_router_Version = ''1.2.0'', evm_fee_quoter_ContractType = ''FeeQuoter'', evm_fee_quoter_Version = ''2.0.0'',
     evm_rmn_remote_ContractType = ''RMNRemote'', evm_rmn_remote_Version = ''1.6.0'', evm_rmn_proxy_ContractType = ''RMNProxy'', evm_rmn_proxy_Version = ''1.0.0'',
     CommitteeVerifierResolverType = ''CommitteeVerifierResolver'', evm_versioned_verifier_resolver_Version = ''2.0.0'',
     evm_committee_verifier_ContractType = ''CommitteeVerifier'', evm_committee_verifier_Version = ''2.0.0'',
     evm_executor_ContractType = ''Executor'', evm_executor_Version = ''2.0.0'', evm_proxy_ContractType = ''ExecutorProxy'', evm_proxy_Version = ''2.0.0'',
     DefaultCommitteeVerifierQualifier = ''default'', DefaultExecutorQualifier = ''default'',
     ProposerManyChainMultisig = ''ProposerManyChainMultiSig'', BypasserManyChainMultisig = ''BypasserManyChainMultiSig'',
     CancellerManyChainMultisig = ''CancellerManyChainMultiSig'', RBACTimelock = ''RBACTimelock'', MCMSVersion = ''1.0.0''\<rparr>"

lemma list_store_laws: "datastore_laws list_store"
  by (auto simp: datastore_laws_def list_store_def ref_key_simps split: option.splits)

lemma plain_hexutil_laws: "hexutil_laws plain_hexutil"
  by (simp add: hexutil_laws_def plain_hexutil_def hex_roundtrip)

lemma sample_names_distinct: "names_distinct sample_names"
  by code_simp

theorem recorded_contracts_found_witness:
  "\<exists>d'. (recorders sample_names plain_hexutil sample_sdk list_store ! 4) [] 7 zero_contract = Ok d' \<and>
     (readers sample_names sample_sdk list_store ! 4) d' 7 = Ok zero_contract"
proof -
  have "strkey_Decode sample_sdk VersionByteContract zero_contract = Ok (replicate 32 0)" by code_simp
  from recorded_contracts_found [OF plain_hexutil_laws sample_strkey_laws list_store_laws sample_names_distinct this, of 4]
  show ?thesis by fastforce
qed

theorem lane_configs_well_formed_witness:
  "\<exists>srcs. BuildOffRampSourceConfigs sample_names plain_hexutil two_families list_store [] [1, 2] False ''V'' ''R'' = Ok srcs \<and>
     map SourceChainConfigArgs_SourceChainSelector srcs = [1, 2]"
proof -
  obtain srcs where srcs: "BuildOffRampSourceConfigs sample_names plain_hexutil two_families list_store [] [1, 2] False ''V'' ''R'' = Ok srcs"
    by simp
  with lane_configs_well_formed [of sample_names plain_hexutil two_families list_store "[]" "[1, 2]" "[]" False "''V''" "''R''" "[]" srcs]
  show ?thesis by (intro exI [of _ srcs]) simp
qed

end
