(* ===== verification/Ops_Base.thy ===== *)
theory Ops_Base
  imports Deployer Bindings_Base
begin

text \<open>
  The frame of the deployment operations (deployment/operations): what an operation is, its dependencies, the
  operation that deploys a WASM file, and the inputs that several packages declare in the same words. The
  theories \<open>Ops_Ramps\<close>, \<open>Ops_Pools\<close>, \<open>Ops_Verification\<close> and \<open>Ops_Governance\<close> have one record for each further input and
  one operation for each call of a contract, built from the client of the generated bindings and the
  fields of the input; their names carry the package first.
\<close>

section \<open>Dependencies and operations\<close>

text \<open>\<open>stellardeps.StellarDeps\<close>: the deployer of WASM files and the contract invoker.\<close>

record 's StellarDeps =
  deps_Deploy :: "string \<Rightarrow> bytes \<Rightarrow> ('s, string result) state"
  deps_Invoker :: "'s Invoker"

text \<open>An operation has the identifier under which the framework reports it, and a handler.\<close>

record ('i, 'o, 's) Operation =
  op_ID :: string
  op_handler :: "'s StellarDeps \<Rightarrow> 'i \<Rightarrow> ('s, 'o result) state"

record DeployInput =
  DeployInput_WasmPath :: string
  DeployInput_Salt :: bytes

record DeployOutput =
  DeployOutput_ContractID :: string

definition NewDeployOperation :: "string \<Rightarrow> (DeployInput, DeployOutput, 's) Operation" where
  "NewDeployOperation id' = \<lparr>op_ID = id', op_handler = (\<lambda>d inp. do {
     r \<leftarrow> deps_Deploy d (DeployInput_WasmPath inp) (DeployInput_Salt inp);
     State_Monad.return (bind_r r (\<lambda>cid. Ok \<lparr>DeployOutput_ContractID = cid\<rparr>)) })\<rparr>"

section \<open>Inputs that several packages share\<close>

record pool_InitializeInput =
  pool_InitializeInput_ContractID :: string
  pool_InitializeInput_Owner :: string
  pool_InitializeInput_Token :: string
  pool_InitializeInput_TokenDecimals :: int
  pool_InitializeInput_Router :: string
  pool_InitializeInput_RampRegistry :: string

record TransferOwnershipInput =
  TransferOwnershipInput_ContractID :: string
  TransferOwnershipInput_NewOwner :: string

record AcceptOwnershipInput =
  AcceptOwnershipInput_ContractID :: string

end
