(* ===== verification/Ops_Governance.thy ===== *)
theory Ops_Governance
  imports Ops_Base Bind_Mcms Bind_Timelock
begin

text \<open>
  The deployment operations of the MCMS and timelock contracts.
\<close>

section \<open>deployment/operations/mcms/mcms.go\<close>

definition mcms_ContractType :: string where
  "mcms_ContractType = ''MCMS''"

definition mcms_Deploy :: "(DeployInput, DeployOutput, 's) Operation" where
  "mcms_Deploy = NewDeployOperation ''mcms:deploy''"

record mcms_InitializeInput =
  mcms_InitializeInput_ContractID :: string
  mcms_InitializeInput_Owner :: string
  mcms_InitializeInput_ChainNetworkID :: bytes

record mcms_SetConfigInput =
  mcms_SetConfigInput_ContractID :: string
  mcms_SetConfigInput_SignerAddresses :: "Bind_Mcms.SignerAddresses"
  mcms_SetConfigInput_SignerGroups :: "Bind_Mcms.SignerGroups"
  mcms_SetConfigInput_GroupQuorums :: bytes
  mcms_SetConfigInput_GroupParents :: bytes
  mcms_SetConfigInput_ClearRoot :: bool

record mcms_GetOpCountInput =
  mcms_GetOpCountInput_ContractID :: string

record mcms_GetOpCountOutput =
  mcms_GetOpCountOutput_OpCount :: int

record mcms_GetConfigInput =
  mcms_GetConfigInput_ContractID :: string

record mcms_GetConfigOutput =
  mcms_GetConfigOutput_Config :: "Bind_Mcms.Config option"

definition mcms_Initialize :: "sdk \<Rightarrow> (mcms_InitializeInput, unit, 's) Operation" where
  "mcms_Initialize lib = \<lparr>op_ID = ''mcms:initialize'', op_handler = (\<lambda>d inp.
     Bind_Mcms.Initialize lib (Bind_Mcms.NewMcmsClient (deps_Invoker d) (mcms_InitializeInput_ContractID inp))
       (mcms_InitializeInput_Owner inp) (mcms_InitializeInput_ChainNetworkID inp))\<rparr>"

definition mcms_SetConfig :: "sdk \<Rightarrow> (mcms_SetConfigInput, unit, 's) Operation" where
  "mcms_SetConfig lib = \<lparr>op_ID = ''mcms:set-config'', op_handler = (\<lambda>d inp.
     Bind_Mcms.SetConfig lib (Bind_Mcms.NewMcmsClient (deps_Invoker d) (mcms_SetConfigInput_ContractID inp))
       (mcms_SetConfigInput_SignerAddresses inp) (mcms_SetConfigInput_SignerGroups inp)
       (mcms_SetConfigInput_GroupQuorums inp) (mcms_SetConfigInput_GroupParents inp) (mcms_SetConfigInput_ClearRoot inp))\<rparr>"

definition mcms_GetOpCount :: "sdk \<Rightarrow> (mcms_GetOpCountInput, mcms_GetOpCountOutput, 's) Operation" where
  "mcms_GetOpCount lib = \<lparr>op_ID = ''mcms:get-op-count'', op_handler = (\<lambda>d inp.
     do { r \<leftarrow> Bind_Mcms.GetOpCount lib (Bind_Mcms.NewMcmsClient (deps_Invoker d) (mcms_GetOpCountInput_ContractID inp));
       State_Monad.return (bind_r r (\<lambda>v. Ok \<lparr>mcms_GetOpCountOutput_OpCount = v\<rparr>)) })\<rparr>"

definition mcms_GetConfig :: "sdk \<Rightarrow> (mcms_GetConfigInput, mcms_GetConfigOutput, 's) Operation" where
  "mcms_GetConfig lib = \<lparr>op_ID = ''mcms:get-config'', op_handler = (\<lambda>d inp.
     do { r \<leftarrow> Bind_Mcms.GetConfig lib (Bind_Mcms.NewMcmsClient (deps_Invoker d) (mcms_GetConfigInput_ContractID inp));
       State_Monad.return (bind_r r (\<lambda>v. Ok \<lparr>mcms_GetConfigOutput_Config = Some v\<rparr>)) })\<rparr>"

definition mcms_TransferOwnership :: "sdk \<Rightarrow> (TransferOwnershipInput, unit, 's) Operation" where
  "mcms_TransferOwnership lib = \<lparr>op_ID = ''mcms:transfer-ownership'', op_handler = (\<lambda>d inp.
     Bind_Mcms.TransferOwnership lib (Bind_Mcms.NewMcmsClient (deps_Invoker d) (TransferOwnershipInput_ContractID inp))
       (TransferOwnershipInput_NewOwner inp))\<rparr>"

definition mcms_AcceptOwnership :: "sdk \<Rightarrow> (AcceptOwnershipInput, unit, 's) Operation" where
  "mcms_AcceptOwnership lib = \<lparr>op_ID = ''mcms:accept-ownership'', op_handler = (\<lambda>d inp.
     Bind_Mcms.AcceptOwnership lib (Bind_Mcms.NewMcmsClient (deps_Invoker d) (AcceptOwnershipInput_ContractID inp)))\<rparr>"

section \<open>deployment/operations/timelock/timelock.go\<close>

definition timelock_ContractType :: string where
  "timelock_ContractType = ''Timelock''"

definition timelock_Deploy :: "(DeployInput, DeployOutput, 's) Operation" where
  "timelock_Deploy = NewDeployOperation ''timelock:deploy''"

record timelock_InitializeInput =
  timelock_InitializeInput_ContractID :: string
  timelock_InitializeInput_MinDelay :: int
  timelock_InitializeInput_Admin :: string
  timelock_InitializeInput_Proposers :: "string list"
  timelock_InitializeInput_Executors :: "string list"
  timelock_InitializeInput_Cancellers :: "string list"
  timelock_InitializeInput_Bypassers :: "string list"

record timelock_GrantRoleInput =
  timelock_GrantRoleInput_ContractID :: string
  timelock_GrantRoleInput_Caller :: string
  timelock_GrantRoleInput_Role :: string
  timelock_GrantRoleInput_Account :: string

record timelock_RevokeRoleInput =
  timelock_RevokeRoleInput_ContractID :: string
  timelock_RevokeRoleInput_Caller :: string
  timelock_RevokeRoleInput_Role :: string
  timelock_RevokeRoleInput_Account :: string

record timelock_UpdateDelayInput =
  timelock_UpdateDelayInput_ContractID :: string
  timelock_UpdateDelayInput_Caller :: string
  timelock_UpdateDelayInput_NewDelay :: int

record timelock_GetMinDelayInput =
  timelock_GetMinDelayInput_ContractID :: string

record timelock_GetMinDelayOutput =
  timelock_GetMinDelayOutput_MinDelay :: int

definition timelock_Initialize :: "sdk \<Rightarrow> (timelock_InitializeInput, unit, 's) Operation" where
  "timelock_Initialize lib = \<lparr>op_ID = ''timelock:initialize'', op_handler = (\<lambda>d inp.
     Bind_Timelock.Initialize lib (Bind_Timelock.NewTimelockClient (deps_Invoker d) (timelock_InitializeInput_ContractID inp))
       (timelock_InitializeInput_MinDelay inp) (timelock_InitializeInput_Admin inp) (timelock_InitializeInput_Proposers inp)
       (timelock_InitializeInput_Executors inp) (timelock_InitializeInput_Cancellers inp)
       (timelock_InitializeInput_Bypassers inp))\<rparr>"

definition timelock_GrantRole :: "sdk \<Rightarrow> (timelock_GrantRoleInput, unit, 's) Operation" where
  "timelock_GrantRole lib = \<lparr>op_ID = ''timelock:grant-role'', op_handler = (\<lambda>d inp.
     Bind_Timelock.GrantRole lib (Bind_Timelock.NewTimelockClient (deps_Invoker d) (timelock_GrantRoleInput_ContractID inp))
       (timelock_GrantRoleInput_Caller inp) (timelock_GrantRoleInput_Role inp) (timelock_GrantRoleInput_Account inp))\<rparr>"

definition timelock_RevokeRole :: "sdk \<Rightarrow> (timelock_RevokeRoleInput, unit, 's) Operation" where
  "timelock_RevokeRole lib = \<lparr>op_ID = ''timelock:revoke-role'', op_handler = (\<lambda>d inp.
     Bind_Timelock.RevokeRole lib (Bind_Timelock.NewTimelockClient (deps_Invoker d) (timelock_RevokeRoleInput_ContractID inp))
       (timelock_RevokeRoleInput_Caller inp) (timelock_RevokeRoleInput_Role inp) (timelock_RevokeRoleInput_Account inp))\<rparr>"

definition timelock_UpdateDelay :: "sdk \<Rightarrow> (timelock_UpdateDelayInput, unit, 's) Operation" where
  "timelock_UpdateDelay lib = \<lparr>op_ID = ''timelock:update-delay'', op_handler = (\<lambda>d inp.
     Bind_Timelock.UpdateDelay lib (Bind_Timelock.NewTimelockClient (deps_Invoker d) (timelock_UpdateDelayInput_ContractID inp))
       (timelock_UpdateDelayInput_Caller inp) (timelock_UpdateDelayInput_NewDelay inp))\<rparr>"

definition timelock_GetMinDelay :: "sdk \<Rightarrow> (timelock_GetMinDelayInput, timelock_GetMinDelayOutput, 's) Operation" where
  "timelock_GetMinDelay lib = \<lparr>op_ID = ''timelock:get-min-delay'', op_handler = (\<lambda>d inp.
     do { r \<leftarrow> Bind_Timelock.GetMinDelay lib (Bind_Timelock.NewTimelockClient (deps_Invoker d) (timelock_GetMinDelayInput_ContractID inp));
       State_Monad.return (bind_r r (\<lambda>v. Ok \<lparr>timelock_GetMinDelayOutput_MinDelay = v\<rparr>)) })\<rparr>"

end
