(* ===== verification/Ops_Ramps.thy ===== *)
theory Ops_Ramps
  imports Ops_Base Bind_Offramp Bind_Onramp Bind_RampRegistry Bind_Router
begin

text \<open>
  The deployment operations of the ramps, the ramp registry and the router.
\<close>

section \<open>deployment/operations/onramp/onramp.go\<close>

definition onramp_ContractType :: string where
  "onramp_ContractType = ''OnRamp''"

definition onramp_Deploy :: "(DeployInput, DeployOutput, 's) Operation" where
  "onramp_Deploy = NewDeployOperation ''onramp:deploy''"

record onramp_InitializeInput =
  onramp_InitializeInput_ContractID :: string
  onramp_InitializeInput_Owner :: string
  onramp_InitializeInput_StaticConfig :: "Bind_Onramp.StaticConfig"
  onramp_InitializeInput_DynamicConfig :: "Bind_Onramp.DynamicConfig"

record onramp_ApplyDestChainConfigUpdatesInput =
  onramp_ApplyDestChainConfigUpdatesInput_ContractID :: string
  onramp_ApplyDestChainConfigUpdatesInput_Updates :: "Bind_Onramp.DestChainConfigArgs list"

definition onramp_Initialize :: "sdk \<Rightarrow> (onramp_InitializeInput, unit, 's) Operation" where
  "onramp_Initialize lib = \<lparr>op_ID = ''onramp:initialize'', op_handler = (\<lambda>d inp.
     Bind_Onramp.Initialize lib (Bind_Onramp.NewOnRampClient (deps_Invoker d) (onramp_InitializeInput_ContractID inp))
       (onramp_InitializeInput_Owner inp) (onramp_InitializeInput_StaticConfig inp)
       (onramp_InitializeInput_DynamicConfig inp))\<rparr>"

definition onramp_ApplyDestChainConfigUpdates :: "sdk \<Rightarrow> (onramp_ApplyDestChainConfigUpdatesInput, unit, 's) Operation" where
  "onramp_ApplyDestChainConfigUpdates lib = \<lparr>op_ID = ''onramp:apply-dest-chain-config-updates'', op_handler = (\<lambda>d inp.
     Bind_Onramp.ApplyDestChainConfigUpdates lib (Bind_Onramp.NewOnRampClient (deps_Invoker d) (onramp_ApplyDestChainConfigUpdatesInput_ContractID inp))
       (onramp_ApplyDestChainConfigUpdatesInput_Updates inp))\<rparr>"

definition onramp_TransferOwnership :: "sdk \<Rightarrow> (TransferOwnershipInput, unit, 's) Operation" where
  "onramp_TransferOwnership lib = \<lparr>op_ID = ''onramp:transfer-ownership'', op_handler = (\<lambda>d inp.
     Bind_Onramp.TransferOwnership lib (Bind_Onramp.NewOnRampClient (deps_Invoker d) (TransferOwnershipInput_ContractID inp))
       (TransferOwnershipInput_NewOwner inp))\<rparr>"

definition onramp_AcceptOwnership :: "sdk \<Rightarrow> (AcceptOwnershipInput, unit, 's) Operation" where
  "onramp_AcceptOwnership lib = \<lparr>op_ID = ''onramp:accept-ownership'', op_handler = (\<lambda>d inp.
     Bind_Onramp.AcceptOwnership lib (Bind_Onramp.NewOnRampClient (deps_Invoker d) (AcceptOwnershipInput_ContractID inp)))\<rparr>"

section \<open>deployment/operations/offramp/offramp.go\<close>

definition offramp_ContractType :: string where
  "offramp_ContractType = ''OffRamp''"

definition offramp_Deploy :: "(DeployInput, DeployOutput, 's) Operation" where
  "offramp_Deploy = NewDeployOperation ''offramp:deploy''"

record offramp_InitializeInput =
  offramp_InitializeInput_ContractID :: string
  offramp_InitializeInput_Owner :: string
  offramp_InitializeInput_Config :: "Bind_Offramp.StaticConfig"

record offramp_ApplySourceChainCfgUpdatesInput =
  offramp_ApplySourceChainCfgUpdatesInput_ContractID :: string
  offramp_ApplySourceChainCfgUpdatesInput_Updates :: "Bind_Offramp.SourceChainConfigArgs list"

record offramp_ExecuteInput =
  offramp_ExecuteInput_ContractID :: string
  offramp_ExecuteInput_EncodedMessage :: bytes
  offramp_ExecuteInput_Ccvs :: "string list"
  offramp_ExecuteInput_VerifierResults :: "bytes list"
  offramp_ExecuteInput_GasLimitOverride :: int

definition offramp_Initialize :: "sdk \<Rightarrow> (offramp_InitializeInput, unit, 's) Operation" where
  "offramp_Initialize lib = \<lparr>op_ID = ''offramp:initialize'', op_handler = (\<lambda>d inp.
     Bind_Offramp.Initialize lib (Bind_Offramp.NewOffRampClient (deps_Invoker d) (offramp_InitializeInput_ContractID inp))
       (offramp_InitializeInput_Owner inp) (offramp_InitializeInput_Config inp))\<rparr>"

definition offramp_ApplySourceChainCfgUpdates :: "sdk \<Rightarrow> (offramp_ApplySourceChainCfgUpdatesInput, unit, 's) Operation" where
  "offramp_ApplySourceChainCfgUpdates lib = \<lparr>op_ID = ''offramp:apply-source-chain-cfg-updates'', op_handler = (\<lambda>d inp.
     Bind_Offramp.ApplySourceChainCfgUpdates lib (Bind_Offramp.NewOffRampClient (deps_Invoker d) (offramp_ApplySourceChainCfgUpdatesInput_ContractID inp))
       (offramp_ApplySourceChainCfgUpdatesInput_Updates inp))\<rparr>"

definition offramp_Execute :: "sdk \<Rightarrow> (offramp_ExecuteInput, unit, 's) Operation" where
  "offramp_Execute lib = \<lparr>op_ID = ''offramp:execute'', op_handler = (\<lambda>d inp.
     Bind_Offramp.Execute lib (Bind_Offramp.NewOffRampClient (deps_Invoker d) (offramp_ExecuteInput_ContractID inp))
       (offramp_ExecuteInput_EncodedMessage inp) (offramp_ExecuteInput_Ccvs inp) (offramp_ExecuteInput_VerifierResults inp)
       (offramp_ExecuteInput_GasLimitOverride inp))\<rparr>"

definition offramp_TransferOwnership :: "sdk \<Rightarrow> (TransferOwnershipInput, unit, 's) Operation" where
  "offramp_TransferOwnership lib = \<lparr>op_ID = ''offramp:transfer-ownership'', op_handler = (\<lambda>d inp.
     Bind_Offramp.TransferOwnership lib (Bind_Offramp.NewOffRampClient (deps_Invoker d) (TransferOwnershipInput_ContractID inp))
       (TransferOwnershipInput_NewOwner inp))\<rparr>"

definition offramp_AcceptOwnership :: "sdk \<Rightarrow> (AcceptOwnershipInput, unit, 's) Operation" where
  "offramp_AcceptOwnership lib = \<lparr>op_ID = ''offramp:accept-ownership'', op_handler = (\<lambda>d inp.
     Bind_Offramp.AcceptOwnership lib (Bind_Offramp.NewOffRampClient (deps_Invoker d) (AcceptOwnershipInput_ContractID inp)))\<rparr>"

section \<open>deployment/operations/ramp_registry/ramp_registry.go\<close>

definition ramp_registry_ContractType :: string where
  "ramp_registry_ContractType = ''RampRegistry''"

definition ramp_registry_Deploy :: "(DeployInput, DeployOutput, 's) Operation" where
  "ramp_registry_Deploy = NewDeployOperation ''ramp-registry:deploy''"

record ramp_registry_InitializeInput =
  ramp_registry_InitializeInput_ContractID :: string
  ramp_registry_InitializeInput_Owner :: string

record ramp_registry_ApplyOnrampUpdatesInput =
  ramp_registry_ApplyOnrampUpdatesInput_ContractID :: string
  ramp_registry_ApplyOnrampUpdatesInput_Updates :: "Bind_RampRegistry.OnRampUpdate list"

record ramp_registry_ApplyOfframpUpdatesInput =
  ramp_registry_ApplyOfframpUpdatesInput_ContractID :: string
  ramp_registry_ApplyOfframpUpdatesInput_Updates :: "Bind_RampRegistry.OffRampUpdate list"

definition ramp_registry_Initialize :: "sdk \<Rightarrow> (ramp_registry_InitializeInput, unit, 's) Operation" where
  "ramp_registry_Initialize lib = \<lparr>op_ID = ''ramp-registry:initialize'', op_handler = (\<lambda>d inp.
     Bind_RampRegistry.Initialize lib (Bind_RampRegistry.NewRampRegistryClient (deps_Invoker d) (ramp_registry_InitializeInput_ContractID inp))
       (ramp_registry_InitializeInput_Owner inp))\<rparr>"

definition ramp_registry_ApplyOnrampUpdates :: "sdk \<Rightarrow> (ramp_registry_ApplyOnrampUpdatesInput, unit, 's) Operation" where
  "ramp_registry_ApplyOnrampUpdates lib = \<lparr>op_ID = ''ramp-registry:apply-onramp-updates'', op_handler = (\<lambda>d inp.
     Bind_RampRegistry.ApplyOnrampUpdates lib (Bind_RampRegistry.NewRampRegistryClient (deps_Invoker d) (ramp_registry_ApplyOnrampUpdatesInput_ContractID inp))
       (ramp_registry_ApplyOnrampUpdatesInput_Updates inp))\<rparr>"

definition ramp_registry_ApplyOfframpUpdates :: "sdk \<Rightarrow> (ramp_registry_ApplyOfframpUpdatesInput, unit, 's) Operation" where
  "ramp_registry_ApplyOfframpUpdates lib = \<lparr>op_ID = ''ramp-registry:apply-offramp-updates'', op_handler = (\<lambda>d inp.
     Bind_RampRegistry.ApplyOfframpUpdates lib (Bind_RampRegistry.NewRampRegistryClient (deps_Invoker d) (ramp_registry_ApplyOfframpUpdatesInput_ContractID inp))
       (ramp_registry_ApplyOfframpUpdatesInput_Updates inp))\<rparr>"

definition ramp_registry_TransferOwnership :: "sdk \<Rightarrow> (TransferOwnershipInput, unit, 's) Operation" where
  "ramp_registry_TransferOwnership lib = \<lparr>op_ID = ''ramp-registry:transfer-ownership'', op_handler = (\<lambda>d inp.
     Bind_RampRegistry.TransferOwnership lib (Bind_RampRegistry.NewRampRegistryClient (deps_Invoker d) (TransferOwnershipInput_ContractID inp))
       (TransferOwnershipInput_NewOwner inp))\<rparr>"

definition ramp_registry_AcceptOwnership :: "sdk \<Rightarrow> (AcceptOwnershipInput, unit, 's) Operation" where
  "ramp_registry_AcceptOwnership lib = \<lparr>op_ID = ''ramp-registry:accept-ownership'', op_handler = (\<lambda>d inp.
     Bind_RampRegistry.AcceptOwnership lib (Bind_RampRegistry.NewRampRegistryClient (deps_Invoker d) (AcceptOwnershipInput_ContractID inp)))\<rparr>"

section \<open>deployment/operations/router/router.go\<close>

definition router_ContractType :: string where
  "router_ContractType = ''Router''"

definition router_Deploy :: "(DeployInput, DeployOutput, 's) Operation" where
  "router_Deploy = NewDeployOperation ''router:deploy''"

record router_InitializeInput =
  router_InitializeInput_ContractID :: string
  router_InitializeInput_Owner :: string
  router_InitializeInput_RmnProxy :: string

record router_ApplyRampUpdatesInput =
  router_ApplyRampUpdatesInput_ContractID :: string
  router_ApplyRampUpdatesInput_OnRampUpdates :: "Bind_Common.OnRampEntry list"
  router_ApplyRampUpdatesInput_OffRampRemoves :: "Bind_Common.OffRampEntry list"
  router_ApplyRampUpdatesInput_OffRampAdds :: "Bind_Common.OffRampEntry list"

definition router_Initialize :: "sdk \<Rightarrow> (router_InitializeInput, unit, 's) Operation" where
  "router_Initialize lib = \<lparr>op_ID = ''router:initialize'', op_handler = (\<lambda>d inp.
     Bind_Router.Initialize lib (Bind_Router.NewRouterClient (deps_Invoker d) (router_InitializeInput_ContractID inp))
       (router_InitializeInput_Owner inp) (router_InitializeInput_RmnProxy inp))\<rparr>"

definition router_ApplyRampUpdates :: "sdk \<Rightarrow> (router_ApplyRampUpdatesInput, unit, 's) Operation" where
  "router_ApplyRampUpdates lib = \<lparr>op_ID = ''router:apply-ramp-updates'', op_handler = (\<lambda>d inp.
     Bind_Router.ApplyRampUpdates lib (Bind_Router.NewRouterClient (deps_Invoker d) (router_ApplyRampUpdatesInput_ContractID inp))
       (router_ApplyRampUpdatesInput_OnRampUpdates inp) (router_ApplyRampUpdatesInput_OffRampRemoves inp)
       (router_ApplyRampUpdatesInput_OffRampAdds inp))\<rparr>"

definition router_TransferOwnership :: "sdk \<Rightarrow> (TransferOwnershipInput, unit, 's) Operation" where
  "router_TransferOwnership lib = \<lparr>op_ID = ''router:transfer-ownership'', op_handler = (\<lambda>d inp.
     Bind_Router.TransferOwnership lib (Bind_Router.NewRouterClient (deps_Invoker d) (TransferOwnershipInput_ContractID inp))
       (TransferOwnershipInput_NewOwner inp))\<rparr>"

definition router_AcceptOwnership :: "sdk \<Rightarrow> (AcceptOwnershipInput, unit, 's) Operation" where
  "router_AcceptOwnership lib = \<lparr>op_ID = ''router:accept-ownership'', op_handler = (\<lambda>d inp.
     Bind_Router.AcceptOwnership lib (Bind_Router.NewRouterClient (deps_Invoker d) (AcceptOwnershipInput_ContractID inp)))\<rparr>"

end
