(* ===== verification/Ops_Pools.thy ===== *)
theory Ops_Pools
  imports Ops_Base Bind_BurnMintPool Bind_LockReleasePool Bind_SiloedLockReleasePool Bind_TokenAdminRegistry Bind_TokenLockBox
    Bind_TokenPool
begin

text \<open>
  The deployment operations of the token pools, the lock box, the token admin registry and asset contracts.
\<close>

section \<open>deployment/operations/burn_mint_pool/burn_mint_pool.go\<close>

definition burn_mint_pool_ContractType :: string where
  "burn_mint_pool_ContractType = ''BurnMintPool''"

definition burn_mint_pool_Deploy :: "(DeployInput, DeployOutput, 's) Operation" where
  "burn_mint_pool_Deploy = NewDeployOperation ''burn-mint-pool:deploy''"

definition burn_mint_pool_Initialize :: "sdk \<Rightarrow> (pool_InitializeInput, unit, 's) Operation" where
  "burn_mint_pool_Initialize lib = \<lparr>op_ID = ''burn-mint-pool:initialize'', op_handler = (\<lambda>d inp.
     Bind_BurnMintPool.Initialize lib (Bind_BurnMintPool.NewBurnMintPoolClient (deps_Invoker d) (pool_InitializeInput_ContractID inp))
       (pool_InitializeInput_Owner inp) (pool_InitializeInput_Token inp) (pool_InitializeInput_TokenDecimals inp)
       (pool_InitializeInput_Router inp) (pool_InitializeInput_RampRegistry inp))\<rparr>"

definition burn_mint_pool_TransferOwnership :: "sdk \<Rightarrow> (TransferOwnershipInput, unit, 's) Operation" where
  "burn_mint_pool_TransferOwnership lib = \<lparr>op_ID = ''burn-mint-pool:transfer-ownership'', op_handler = (\<lambda>d inp.
     Bind_BurnMintPool.TransferOwnership lib (Bind_BurnMintPool.NewBurnMintPoolClient (deps_Invoker d) (TransferOwnershipInput_ContractID inp))
       (TransferOwnershipInput_NewOwner inp))\<rparr>"

definition burn_mint_pool_AcceptOwnership :: "sdk \<Rightarrow> (AcceptOwnershipInput, unit, 's) Operation" where
  "burn_mint_pool_AcceptOwnership lib = \<lparr>op_ID = ''burn-mint-pool:accept-ownership'', op_handler = (\<lambda>d inp.
     Bind_BurnMintPool.AcceptOwnership lib (Bind_BurnMintPool.NewBurnMintPoolClient (deps_Invoker d) (AcceptOwnershipInput_ContractID inp)))\<rparr>"

section \<open>deployment/operations/lock_release_pool/lock_release_pool.go\<close>

definition lock_release_pool_ContractType :: string where
  "lock_release_pool_ContractType = ''LockReleasePool''"

definition lock_release_pool_Deploy :: "(DeployInput, DeployOutput, 's) Operation" where
  "lock_release_pool_Deploy = NewDeployOperation ''lock-release-pool:deploy''"

record lock_release_pool_SetRateLimitConfigInput =
  lock_release_pool_SetRateLimitConfigInput_ContractID :: string
  lock_release_pool_SetRateLimitConfigInput_RemoteChainSelector :: int
  lock_release_pool_SetRateLimitConfigInput_OutboundConfig :: "Bind_Common.RateLimitConfig"
  lock_release_pool_SetRateLimitConfigInput_InboundConfig :: "Bind_Common.RateLimitConfig"
  lock_release_pool_SetRateLimitConfigInput_FastFinality :: bool

record lock_release_pool_GetCurrentRateLimiterStateInput =
  lock_release_pool_GetCurrentRateLimiterStateInput_ContractID :: string
  lock_release_pool_GetCurrentRateLimiterStateInput_RemoteChainSelector :: int
  lock_release_pool_GetCurrentRateLimiterStateInput_FastFinality :: bool

record lock_release_pool_GetCurrentRateLimiterStateOutput =
  lock_release_pool_GetCurrentRateLimiterStateOutput_State :: "Bind_Common.RateLimiterState option"

definition lock_release_pool_Initialize :: "sdk \<Rightarrow> (pool_InitializeInput, unit, 's) Operation" where
  "lock_release_pool_Initialize lib = \<lparr>op_ID = ''lock-release-pool:initialize'', op_handler = (\<lambda>d inp.
     Bind_LockReleasePool.Initialize lib (Bind_LockReleasePool.NewLockReleasePoolClient (deps_Invoker d) (pool_InitializeInput_ContractID inp))
       (pool_InitializeInput_Owner inp) (pool_InitializeInput_Token inp) (pool_InitializeInput_TokenDecimals inp)
       (pool_InitializeInput_Router inp) (pool_InitializeInput_RampRegistry inp))\<rparr>"

definition lock_release_pool_TransferOwnership :: "sdk \<Rightarrow> (TransferOwnershipInput, unit, 's) Operation" where
  "lock_release_pool_TransferOwnership lib = \<lparr>op_ID = ''lock-release-pool:transfer-ownership'', op_handler = (\<lambda>d inp.
     Bind_LockReleasePool.TransferOwnership lib (Bind_LockReleasePool.NewLockReleasePoolClient (deps_Invoker d) (TransferOwnershipInput_ContractID inp))
       (TransferOwnershipInput_NewOwner inp))\<rparr>"

definition lock_release_pool_AcceptOwnership :: "sdk \<Rightarrow> (AcceptOwnershipInput, unit, 's) Operation" where
  "lock_release_pool_AcceptOwnership lib = \<lparr>op_ID = ''lock-release-pool:accept-ownership'', op_handler = (\<lambda>d inp.
     Bind_LockReleasePool.AcceptOwnership lib (Bind_LockReleasePool.NewLockReleasePoolClient (deps_Invoker d) (AcceptOwnershipInput_ContractID inp)))\<rparr>"

definition lock_release_pool_SetRateLimitConfig :: "sdk \<Rightarrow> (lock_release_pool_SetRateLimitConfigInput, unit, 's) Operation" where
  "lock_release_pool_SetRateLimitConfig lib = \<lparr>op_ID = ''lock-release-pool:set-rate-limit-config'', op_handler = (\<lambda>d inp.
     Bind_LockReleasePool.SetRateLimitConfig lib (Bind_LockReleasePool.NewLockReleasePoolClient (deps_Invoker d) (lock_release_pool_SetRateLimitConfigInput_ContractID inp))
       (lock_release_pool_SetRateLimitConfigInput_RemoteChainSelector inp)
       (lock_release_pool_SetRateLimitConfigInput_OutboundConfig inp)
       (lock_release_pool_SetRateLimitConfigInput_InboundConfig inp)
       (lock_release_pool_SetRateLimitConfigInput_FastFinality inp))\<rparr>"

definition lock_release_pool_GetCurrentRateLimiterState :: "sdk \<Rightarrow> (lock_release_pool_GetCurrentRateLimiterStateInput, lock_release_pool_GetCurrentRateLimiterStateOutput, 's) Operation" where
  "lock_release_pool_GetCurrentRateLimiterState lib = \<lparr>op_ID = ''lock-release-pool:get-current-rate-limiter-state'', op_handler = (\<lambda>d inp.
     do { r \<leftarrow> Bind_LockReleasePool.GetCurrentRateLimiterState lib (Bind_LockReleasePool.NewLockReleasePoolClient (deps_Invoker d) (lock_release_pool_GetCurrentRateLimiterStateInput_ContractID inp))
       (lock_release_pool_GetCurrentRateLimiterStateInput_RemoteChainSelector inp)
       (lock_release_pool_GetCurrentRateLimiterStateInput_FastFinality inp);
       State_Monad.return (bind_r r (\<lambda>v. Ok \<lparr>lock_release_pool_GetCurrentRateLimiterStateOutput_State = Some v\<rparr>)) })\<rparr>"

section \<open>deployment/operations/siloed_lock_release_pool/siloed_lock_release_pool.go\<close>

definition siloed_lock_release_pool_ContractType :: string where
  "siloed_lock_release_pool_ContractType = ''SiloedLockReleasePool''"

definition siloed_lock_release_pool_Deploy :: "(DeployInput, DeployOutput, 's) Operation" where
  "siloed_lock_release_pool_Deploy = NewDeployOperation ''siloed-lock-release-pool:deploy''"

record siloed_lock_release_pool_ApplyChainUpdatesInput =
  siloed_lock_release_pool_ApplyChainUpdatesInput_ContractID :: string
  siloed_lock_release_pool_ApplyChainUpdatesInput_Adds :: "Bind_Common.ChainUpdate list"
  siloed_lock_release_pool_ApplyChainUpdatesInput_Removes :: "int list"

record siloed_lock_release_pool_ConfigureLockBoxesInput =
  siloed_lock_release_pool_ConfigureLockBoxesInput_ContractID :: string
  siloed_lock_release_pool_ConfigureLockBoxesInput_Configs :: "Bind_SiloedLockReleasePool.LockBoxEntry list"

definition siloed_lock_release_pool_Initialize :: "sdk \<Rightarrow> (pool_InitializeInput, unit, 's) Operation" where
  "siloed_lock_release_pool_Initialize lib = \<lparr>op_ID = ''siloed-lock-release-pool:initialize'', op_handler = (\<lambda>d inp.
     Bind_SiloedLockReleasePool.Initialize lib (Bind_SiloedLockReleasePool.NewSiloedLockReleasePoolClient (deps_Invoker d) (pool_InitializeInput_ContractID inp))
       (pool_InitializeInput_Owner inp) (pool_InitializeInput_Token inp) (pool_InitializeInput_TokenDecimals inp)
       (pool_InitializeInput_Router inp) (pool_InitializeInput_RampRegistry inp))\<rparr>"

definition siloed_lock_release_pool_TransferOwnership :: "sdk \<Rightarrow> (TransferOwnershipInput, unit, 's) Operation" where
  "siloed_lock_release_pool_TransferOwnership lib = \<lparr>op_ID = ''siloed-lock-release-pool:transfer-ownership'', op_handler = (\<lambda>d inp.
     Bind_SiloedLockReleasePool.TransferOwnership lib (Bind_SiloedLockReleasePool.NewSiloedLockReleasePoolClient (deps_Invoker d) (TransferOwnershipInput_ContractID inp))
       (TransferOwnershipInput_NewOwner inp))\<rparr>"

definition siloed_lock_release_pool_AcceptOwnership :: "sdk \<Rightarrow> (AcceptOwnershipInput, unit, 's) Operation" where
  "siloed_lock_release_pool_AcceptOwnership lib = \<lparr>op_ID = ''siloed-lock-release-pool:accept-ownership'', op_handler = (\<lambda>d inp.
     Bind_SiloedLockReleasePool.AcceptOwnership lib (Bind_SiloedLockReleasePool.NewSiloedLockReleasePoolClient (deps_Invoker d) (AcceptOwnershipInput_ContractID inp)))\<rparr>"

definition siloed_lock_release_pool_ApplyChainUpdates :: "sdk \<Rightarrow> (siloed_lock_release_pool_ApplyChainUpdatesInput, unit, 's) Operation" where
  "siloed_lock_release_pool_ApplyChainUpdates lib = \<lparr>op_ID = ''siloed-lock-release-pool:apply-chain-updates'', op_handler = (\<lambda>d inp.
     Bind_SiloedLockReleasePool.ApplyChainUpdates lib (Bind_SiloedLockReleasePool.NewSiloedLockReleasePoolClient (deps_Invoker d) (siloed_lock_release_pool_ApplyChainUpdatesInput_ContractID inp))
       (siloed_lock_release_pool_ApplyChainUpdatesInput_Adds inp)
       (siloed_lock_release_pool_ApplyChainUpdatesInput_Removes inp))\<rparr>"

definition siloed_lock_release_pool_ConfigureLockBoxes :: "sdk \<Rightarrow> (siloed_lock_release_pool_ConfigureLockBoxesInput, unit, 's) Operation" where
  "siloed_lock_release_pool_ConfigureLockBoxes lib = \<lparr>op_ID = ''siloed-lock-release-pool:configure-lock-boxes'', op_handler = (\<lambda>d inp.
     Bind_SiloedLockReleasePool.ConfigureLockBoxes lib (Bind_SiloedLockReleasePool.NewSiloedLockReleasePoolClient (deps_Invoker d) (siloed_lock_release_pool_ConfigureLockBoxesInput_ContractID inp))
       (siloed_lock_release_pool_ConfigureLockBoxesInput_Configs inp))\<rparr>"

section \<open>deployment/operations/token_pool/token_pool.go\<close>

definition token_pool_ContractType :: string where
  "token_pool_ContractType = ''TokenPool''"

definition token_pool_Deploy :: "(DeployInput, DeployOutput, 's) Operation" where
  "token_pool_Deploy = NewDeployOperation ''token-pool:deploy''"

definition token_pool_Initialize :: "sdk \<Rightarrow> (pool_InitializeInput, unit, 's) Operation" where
  "token_pool_Initialize lib = \<lparr>op_ID = ''token-pool:initialize'', op_handler = (\<lambda>d inp.
     Bind_TokenPool.Initialize lib (Bind_TokenPool.NewTokenPoolClient (deps_Invoker d) (pool_InitializeInput_ContractID inp))
       (pool_InitializeInput_Owner inp) (pool_InitializeInput_Token inp) (pool_InitializeInput_TokenDecimals inp)
       (pool_InitializeInput_Router inp) (pool_InitializeInput_RampRegistry inp))\<rparr>"

section \<open>deployment/operations/token_lock_box/token_lock_box.go\<close>

definition token_lock_box_ContractType :: string where
  "token_lock_box_ContractType = ''TokenLockBox''"

definition token_lock_box_Deploy :: "(DeployInput, DeployOutput, 's) Operation" where
  "token_lock_box_Deploy = NewDeployOperation ''token-lock-box:deploy''"

record token_lock_box_InitializeInput =
  token_lock_box_InitializeInput_ContractID :: string
  token_lock_box_InitializeInput_Owner :: string
  token_lock_box_InitializeInput_Token :: string

record token_lock_box_AddAllowedCallersInput =
  token_lock_box_AddAllowedCallersInput_ContractID :: string
  token_lock_box_AddAllowedCallersInput_Callers :: "string list"

record token_lock_box_RemoveAllowedCallersInput =
  token_lock_box_RemoveAllowedCallersInput_ContractID :: string
  token_lock_box_RemoveAllowedCallersInput_Callers :: "string list"

record token_lock_box_DepositInput =
  token_lock_box_DepositInput_ContractID :: string
  token_lock_box_DepositInput_Caller :: string
  token_lock_box_DepositInput_Amount :: int

record token_lock_box_WithdrawInput =
  token_lock_box_WithdrawInput_ContractID :: string
  token_lock_box_WithdrawInput_Caller :: string
  token_lock_box_WithdrawInput_Amount :: int
  token_lock_box_WithdrawInput_Recipient :: string

definition token_lock_box_Initialize :: "sdk \<Rightarrow> (token_lock_box_InitializeInput, unit, 's) Operation" where
  "token_lock_box_Initialize lib = \<lparr>op_ID = ''token-lock-box:initialize'', op_handler = (\<lambda>d inp.
     Bind_TokenLockBox.Initialize lib (Bind_TokenLockBox.NewTokenLockBoxClient (deps_Invoker d) (token_lock_box_InitializeInput_ContractID inp))
       (token_lock_box_InitializeInput_Owner inp) (token_lock_box_InitializeInput_Token inp))\<rparr>"

definition token_lock_box_TransferOwnership :: "sdk \<Rightarrow> (TransferOwnershipInput, unit, 's) Operation" where
  "token_lock_box_TransferOwnership lib = \<lparr>op_ID = ''token-lock-box:transfer-ownership'', op_handler = (\<lambda>d inp.
     Bind_TokenLockBox.TransferOwnership lib (Bind_TokenLockBox.NewTokenLockBoxClient (deps_Invoker d) (TransferOwnershipInput_ContractID inp))
       (TransferOwnershipInput_NewOwner inp))\<rparr>"

definition token_lock_box_AcceptOwnership :: "sdk \<Rightarrow> (AcceptOwnershipInput, unit, 's) Operation" where
  "token_lock_box_AcceptOwnership lib = \<lparr>op_ID = ''token-lock-box:accept-ownership'', op_handler = (\<lambda>d inp.
     Bind_TokenLockBox.AcceptOwnership lib (Bind_TokenLockBox.NewTokenLockBoxClient (deps_Invoker d) (AcceptOwnershipInput_ContractID inp)))\<rparr>"

definition token_lock_box_AddAllowedCallers :: "sdk \<Rightarrow> (token_lock_box_AddAllowedCallersInput, unit, 's) Operation" where
  "token_lock_box_AddAllowedCallers lib = \<lparr>op_ID = ''token-lock-box:add-allowed-callers'', op_handler = (\<lambda>d inp.
     Bind_TokenLockBox.AddAllowedCallers lib (Bind_TokenLockBox.NewTokenLockBoxClient (deps_Invoker d) (token_lock_box_AddAllowedCallersInput_ContractID inp))
       (token_lock_box_AddAllowedCallersInput_Callers inp))\<rparr>"

definition token_lock_box_RemoveAllowedCallers :: "sdk \<Rightarrow> (token_lock_box_RemoveAllowedCallersInput, unit, 's) Operation" where
  "token_lock_box_RemoveAllowedCallers lib = \<lparr>op_ID = ''token-lock-box:remove-allowed-callers'', op_handler = (\<lambda>d inp.
     Bind_TokenLockBox.RemoveAllowedCallers lib (Bind_TokenLockBox.NewTokenLockBoxClient (deps_Invoker d) (token_lock_box_RemoveAllowedCallersInput_ContractID inp))
       (token_lock_box_RemoveAllowedCallersInput_Callers inp))\<rparr>"

definition token_lock_box_Deposit :: "sdk \<Rightarrow> (token_lock_box_DepositInput, unit, 's) Operation" where
  "token_lock_box_Deposit lib = \<lparr>op_ID = ''token-lock-box:deposit'', op_handler = (\<lambda>d inp.
     Bind_TokenLockBox.Deposit lib (Bind_TokenLockBox.NewTokenLockBoxClient (deps_Invoker d) (token_lock_box_DepositInput_ContractID inp))
       (token_lock_box_DepositInput_Caller inp) (token_lock_box_DepositInput_Amount inp))\<rparr>"

definition token_lock_box_Withdraw :: "sdk \<Rightarrow> (token_lock_box_WithdrawInput, unit, 's) Operation" where
  "token_lock_box_Withdraw lib = \<lparr>op_ID = ''token-lock-box:withdraw'', op_handler = (\<lambda>d inp.
     Bind_TokenLockBox.Withdraw lib (Bind_TokenLockBox.NewTokenLockBoxClient (deps_Invoker d) (token_lock_box_WithdrawInput_ContractID inp))
       (token_lock_box_WithdrawInput_Caller inp) (token_lock_box_WithdrawInput_Amount inp)
       (token_lock_box_WithdrawInput_Recipient inp))\<rparr>"

section \<open>deployment/operations/token_admin_registry/token_admin_registry.go\<close>

definition token_admin_registry_ContractType :: string where
  "token_admin_registry_ContractType = ''TokenAdminRegistry''"

definition token_admin_registry_Deploy :: "(DeployInput, DeployOutput, 's) Operation" where
  "token_admin_registry_Deploy = NewDeployOperation ''token-admin-registry:deploy''"

record token_admin_registry_InitializeInput =
  token_admin_registry_InitializeInput_ContractID :: string
  token_admin_registry_InitializeInput_Owner :: string

record token_admin_registry_ProposeAdministratorInput =
  token_admin_registry_ProposeAdministratorInput_ContractID :: string
  token_admin_registry_ProposeAdministratorInput_Caller :: string
  token_admin_registry_ProposeAdministratorInput_LocalToken :: string
  token_admin_registry_ProposeAdministratorInput_Administrator :: string

record token_admin_registry_AcceptAdminRoleInput =
  token_admin_registry_AcceptAdminRoleInput_ContractID :: string
  token_admin_registry_AcceptAdminRoleInput_LocalToken :: string

record token_admin_registry_SetPoolInput =
  token_admin_registry_SetPoolInput_ContractID :: string
  token_admin_registry_SetPoolInput_LocalToken :: string
  token_admin_registry_SetPoolInput_Pool :: "string option"

definition token_admin_registry_Initialize :: "sdk \<Rightarrow> (token_admin_registry_InitializeInput, unit, 's) Operation" where
  "token_admin_registry_Initialize lib = \<lparr>op_ID = ''token-admin-registry:initialize'', op_handler = (\<lambda>d inp.
     Bind_TokenAdminRegistry.Initialize lib (Bind_TokenAdminRegistry.NewTokenAdminRegistryClient (deps_Invoker d) (token_admin_registry_InitializeInput_ContractID inp))
       (token_admin_registry_InitializeInput_Owner inp))\<rparr>"

definition token_admin_registry_ProposeAdministrator :: "sdk \<Rightarrow> (token_admin_registry_ProposeAdministratorInput, unit, 's) Operation" where
  "token_admin_registry_ProposeAdministrator lib = \<lparr>op_ID = ''token-admin-registry:propose-administrator'', op_handler = (\<lambda>d inp.
     Bind_TokenAdminRegistry.ProposeAdministrator lib (Bind_TokenAdminRegistry.NewTokenAdminRegistryClient (deps_Invoker d) (token_admin_registry_ProposeAdministratorInput_ContractID inp))
       (token_admin_registry_ProposeAdministratorInput_Caller inp)
       (token_admin_registry_ProposeAdministratorInput_LocalToken inp)
       (token_admin_registry_ProposeAdministratorInput_Administrator inp))\<rparr>"

definition token_admin_registry_AcceptAdminRole :: "sdk \<Rightarrow> (token_admin_registry_AcceptAdminRoleInput, unit, 's) Operation" where
  "token_admin_registry_AcceptAdminRole lib = \<lparr>op_ID = ''token-admin-registry:accept-admin-role'', op_handler = (\<lambda>d inp.
     Bind_TokenAdminRegistry.AcceptAdminRole lib (Bind_TokenAdminRegistry.NewTokenAdminRegistryClient (deps_Invoker d) (token_admin_registry_AcceptAdminRoleInput_ContractID inp))
       (token_admin_registry_AcceptAdminRoleInput_LocalToken inp))\<rparr>"

definition token_admin_registry_SetPool :: "sdk \<Rightarrow> (token_admin_registry_SetPoolInput, unit, 's) Operation" where
  "token_admin_registry_SetPool lib = \<lparr>op_ID = ''token-admin-registry:set-pool'', op_handler = (\<lambda>d inp.
     Bind_TokenAdminRegistry.SetPool lib (Bind_TokenAdminRegistry.NewTokenAdminRegistryClient (deps_Invoker d) (token_admin_registry_SetPoolInput_ContractID inp))
       (token_admin_registry_SetPoolInput_LocalToken inp) (token_admin_registry_SetPoolInput_Pool inp))\<rparr>"

definition token_admin_registry_TransferOwnership :: "sdk \<Rightarrow> (TransferOwnershipInput, unit, 's) Operation" where
  "token_admin_registry_TransferOwnership lib = \<lparr>op_ID = ''token-admin-registry:transfer-ownership'', op_handler = (\<lambda>d inp.
     Bind_TokenAdminRegistry.TransferOwnership lib (Bind_TokenAdminRegistry.NewTokenAdminRegistryClient (deps_Invoker d) (TransferOwnershipInput_ContractID inp))
       (TransferOwnershipInput_NewOwner inp))\<rparr>"

definition token_admin_registry_AcceptOwnership :: "sdk \<Rightarrow> (AcceptOwnershipInput, unit, 's) Operation" where
  "token_admin_registry_AcceptOwnership lib = \<lparr>op_ID = ''token-admin-registry:accept-ownership'', op_handler = (\<lambda>d inp.
     Bind_TokenAdminRegistry.AcceptOwnership lib (Bind_TokenAdminRegistry.NewTokenAdminRegistryClient (deps_Invoker d) (AcceptOwnershipInput_ContractID inp)))\<rparr>"

section \<open>deployment/operations/sac_token/sac_token.go\<close>

record sac_token_TransferInput =
  sac_token_TransferInput_ContractID :: string
  sac_token_TransferInput_From :: string
  sac_token_TransferInput_To :: string
  sac_token_TransferInput_Amount :: int

record sac_token_ApproveInput =
  sac_token_ApproveInput_ContractID :: string
  sac_token_ApproveInput_From :: string
  sac_token_ApproveInput_Spender :: string
  sac_token_ApproveInput_Amount :: int
  sac_token_ApproveInput_ExpirationLedger :: int

definition sac_token_Transfer :: "sdk \<Rightarrow> (sac_token_TransferInput, unit, 's) Operation" where
  "sac_token_Transfer lib = \<lparr>op_ID = ''sac-token:transfer'', op_handler = (\<lambda>d inp.
     do { r \<leftarrow> iv_InvokeContract (deps_Invoker d) (sac_token_TransferInput_ContractID inp) ''transfer''
              [AddressToScVal lib (sac_token_TransferInput_From inp),
               AddressToScVal lib (sac_token_TransferInput_To inp),
               I128ToScVal (sac_token_TransferInput_Amount inp)];
       State_Monad.return (bind_r r (\<lambda>_. Ok ())) })\<rparr>"

definition sac_token_Approve :: "sdk \<Rightarrow> (sac_token_ApproveInput, unit, 's) Operation" where
  "sac_token_Approve lib = \<lparr>op_ID = ''sac-token:approve'', op_handler = (\<lambda>d inp.
     do { r \<leftarrow> iv_InvokeContract (deps_Invoker d) (sac_token_ApproveInput_ContractID inp) ''approve''
              [AddressToScVal lib (sac_token_ApproveInput_From inp),
               AddressToScVal lib (sac_token_ApproveInput_Spender inp),
               I128ToScVal (sac_token_ApproveInput_Amount inp),
               Uint32ToScVal (sac_token_ApproveInput_ExpirationLedger inp)];
       State_Monad.return (bind_r r (\<lambda>_. Ok ())) })\<rparr>"

end
