(* ===== verification/Ops_Verification.thy ===== *)
theory Ops_Verification
  imports Ops_Base Bind_CcipReceiver Bind_CommitteeVerifier Bind_FeeQuoter Bind_RmnProxy Bind_RmnRemote Bind_VersionedVerifierResolver
begin

text \<open>
  The deployment operations of the verifiers, the fee quoter, the RMN contracts and the example receiver.
\<close>

section \<open>deployment/operations/committee_verifier/committee_verifier.go\<close>

definition committee_verifier_ContractType :: string where
  "committee_verifier_ContractType = ''CommitteeVerifier''"

definition committee_verifier_Deploy :: "(DeployInput, DeployOutput, 's) Operation" where
  "committee_verifier_Deploy = NewDeployOperation ''committee-verifier:deploy''"

record committee_verifier_InitializeInput =
  committee_verifier_InitializeInput_ContractID :: string
  committee_verifier_InitializeInput_Owner :: string
  committee_verifier_InitializeInput_DynamicConfig :: "Bind_CommitteeVerifier.DynamicConfig"
  committee_verifier_InitializeInput_StorageLocations :: "bytes list"
  committee_verifier_InitializeInput_RmnProxy :: string
  committee_verifier_InitializeInput_VersionTag :: bytes

record committee_verifier_ApplyRemoteChainCfgUpdatesInput =
  committee_verifier_ApplyRemoteChainCfgUpdatesInput_ContractID :: string
  committee_verifier_ApplyRemoteChainCfgUpdatesInput_Configs :: "Bind_CommitteeVerifier.RemoteChainConfig list"

record committee_verifier_ApplySignatureConfigsInput =
  committee_verifier_ApplySignatureConfigsInput_ContractID :: string
  committee_verifier_ApplySignatureConfigsInput_RemoveSelectors :: "int list"
  committee_verifier_ApplySignatureConfigsInput_SignatureQuorumConfigs :: "Bind_CommitteeVerifier.SignatureQuorumConfig list"

record committee_verifier_WithdrawFeeTokensInput =
  committee_verifier_WithdrawFeeTokensInput_ContractID :: string
  committee_verifier_WithdrawFeeTokensInput_FeeTokens :: "string list"

definition committee_verifier_Initialize :: "sdk \<Rightarrow> (committee_verifier_InitializeInput, unit, 's) Operation" where
  "committee_verifier_Initialize lib = \<lparr>op_ID = ''committee-verifier:initialize'', op_handler = (\<lambda>d inp.
     Bind_CommitteeVerifier.Initialize lib (Bind_CommitteeVerifier.NewCommitteeVerifierClient (deps_Invoker d) (committee_verifier_InitializeInput_ContractID inp))
       (committee_verifier_InitializeInput_Owner inp) (committee_verifier_InitializeInput_DynamicConfig inp)
       (committee_verifier_InitializeInput_StorageLocations inp) (committee_verifier_InitializeInput_RmnProxy inp)
       (committee_verifier_InitializeInput_VersionTag inp))\<rparr>"

definition committee_verifier_ApplyRemoteChainCfgUpdates :: "sdk \<Rightarrow> (committee_verifier_ApplyRemoteChainCfgUpdatesInput, unit, 's) Operation" where
  "committee_verifier_ApplyRemoteChainCfgUpdates lib = \<lparr>op_ID = ''committee-verifier:apply-remote-chain-cfg-updates'', op_handler = (\<lambda>d inp.
     Bind_CommitteeVerifier.ApplyRemoteChainCfgUpdates lib (Bind_CommitteeVerifier.NewCommitteeVerifierClient (deps_Invoker d) (committee_verifier_ApplyRemoteChainCfgUpdatesInput_ContractID inp))
       (committee_verifier_ApplyRemoteChainCfgUpdatesInput_Configs inp))\<rparr>"

definition committee_verifier_ApplySignatureConfigs :: "sdk \<Rightarrow> (committee_verifier_ApplySignatureConfigsInput, unit, 's) Operation" where
  "committee_verifier_ApplySignatureConfigs lib = \<lparr>op_ID = ''committee-verifier:apply-signature-configs'', op_handler = (\<lambda>d inp.
     Bind_CommitteeVerifier.ApplySignatureConfigs lib (Bind_CommitteeVerifier.NewCommitteeVerifierClient (deps_Invoker d) (committee_verifier_ApplySignatureConfigsInput_ContractID inp))
       (committee_verifier_ApplySignatureConfigsInput_RemoveSelectors inp)
       (committee_verifier_ApplySignatureConfigsInput_SignatureQuorumConfigs inp))\<rparr>"

definition committee_verifier_WithdrawFeeTokens :: "sdk \<Rightarrow> (committee_verifier_WithdrawFeeTokensInput, unit, 's) Operation" where
  "committee_verifier_WithdrawFeeTokens lib = \<lparr>op_ID = ''committee-verifier:withdraw-fee-tokens'', op_handler = (\<lambda>d inp.
     Bind_CommitteeVerifier.WithdrawFeeTokens lib (Bind_CommitteeVerifier.NewCommitteeVerifierClient (deps_Invoker d) (committee_verifier_WithdrawFeeTokensInput_ContractID inp))
       (committee_verifier_WithdrawFeeTokensInput_FeeTokens inp))\<rparr>"

definition committee_verifier_TransferOwnership :: "sdk \<Rightarrow> (TransferOwnershipInput, unit, 's) Operation" where
  "committee_verifier_TransferOwnership lib = \<lparr>op_ID = ''committee-verifier:transfer-ownership'', op_handler = (\<lambda>d inp.
     Bind_CommitteeVerifier.TransferOwnership lib (Bind_CommitteeVerifier.NewCommitteeVerifierClient (deps_Invoker d) (TransferOwnershipInput_ContractID inp))
       (TransferOwnershipInput_NewOwner inp))\<rparr>"

definition committee_verifier_AcceptOwnership :: "sdk \<Rightarrow> (AcceptOwnershipInput, unit, 's) Operation" where
  "committee_verifier_AcceptOwnership lib = \<lparr>op_ID = ''committee-verifier:accept-ownership'', op_handler = (\<lambda>d inp.
     Bind_CommitteeVerifier.AcceptOwnership lib (Bind_CommitteeVerifier.NewCommitteeVerifierClient (deps_Invoker d) (AcceptOwnershipInput_ContractID inp)))\<rparr>"

section \<open>deployment/operations/versioned_verifier_resolver/versioned_verifier_resolver.go\<close>

definition versioned_verifier_resolver_ContractType :: string where
  "versioned_verifier_resolver_ContractType = ''VersionedVerifierResolver''"

definition versioned_verifier_resolver_Deploy :: "(DeployInput, DeployOutput, 's) Operation" where
  "versioned_verifier_resolver_Deploy = NewDeployOperation ''versioned-verifier-resolver:deploy''"

record versioned_verifier_resolver_InitializeInput =
  versioned_verifier_resolver_InitializeInput_ContractID :: string
  versioned_verifier_resolver_InitializeInput_Owner :: string
  versioned_verifier_resolver_InitializeInput_FeeAggregator :: string

record versioned_verifier_resolver_ApplyOutboundImplUpdatesInput =
  versioned_verifier_resolver_ApplyOutboundImplUpdatesInput_ContractID :: string
  versioned_verifier_resolver_ApplyOutboundImplUpdatesInput_Implementations :: "Bind_VersionedVerifierResolver.OutboundImplementationUpdate list"

record versioned_verifier_resolver_ApplyInboundImplUpdatesInput =
  versioned_verifier_resolver_ApplyInboundImplUpdatesInput_ContractID :: string
  versioned_verifier_resolver_ApplyInboundImplUpdatesInput_Implementations :: "Bind_VersionedVerifierResolver.InboundImplementationUpdate list"

record versioned_verifier_resolver_WithdrawFeeTokensInput =
  versioned_verifier_resolver_WithdrawFeeTokensInput_ContractID :: string
  versioned_verifier_resolver_WithdrawFeeTokensInput_FeeTokens :: "string list"

definition versioned_verifier_resolver_Initialize :: "sdk \<Rightarrow> (versioned_verifier_resolver_InitializeInput, unit, 's) Operation" where
  "versioned_verifier_resolver_Initialize lib = \<lparr>op_ID = ''versioned-verifier-resolver:initialize'', op_handler = (\<lambda>d inp.
     Bind_VersionedVerifierResolver.Initialize lib (Bind_VersionedVerifierResolver.NewVersionedVerifierResolverClient (deps_Invoker d) (versioned_verifier_resolver_InitializeInput_ContractID inp))
       (versioned_verifier_resolver_InitializeInput_Owner inp)
       (versioned_verifier_resolver_InitializeInput_FeeAggregator inp))\<rparr>"

definition versioned_verifier_resolver_ApplyOutboundImplUpdates :: "sdk \<Rightarrow> (versioned_verifier_resolver_ApplyOutboundImplUpdatesInput, unit, 's) Operation" where
  "versioned_verifier_resolver_ApplyOutboundImplUpdates lib = \<lparr>op_ID = ''versioned-verifier-resolver:apply-outbound-impl-updates'', op_handler = (\<lambda>d inp.
     Bind_VersionedVerifierResolver.ApplyOutboundImplUpdates lib (Bind_VersionedVerifierResolver.NewVersionedVerifierResolverClient (deps_Invoker d) (versioned_verifier_resolver_ApplyOutboundImplUpdatesInput_ContractID inp))
       (versioned_verifier_resolver_ApplyOutboundImplUpdatesInput_Implementations inp))\<rparr>"

definition versioned_verifier_resolver_ApplyInboundImplUpdates :: "sdk \<Rightarrow> (versioned_verifier_resolver_ApplyInboundImplUpdatesInput, unit, 's) Operation" where
  "versioned_verifier_resolver_ApplyInboundImplUpdates lib = \<lparr>op_ID = ''versioned-verifier-resolver:apply-inbound-impl-updates'', op_handler = (\<lambda>d inp.
     Bind_VersionedVerifierResolver.ApplyInboundImplUpdates lib (Bind_VersionedVerifierResolver.NewVersionedVerifierResolverClient (deps_Invoker d) (versioned_verifier_resolver_ApplyInboundImplUpdatesInput_ContractID inp))
       (versioned_verifier_resolver_ApplyInboundImplUpdatesInput_Implementations inp))\<rparr>"

definition versioned_verifier_resolver_WithdrawFeeTokens :: "sdk \<Rightarrow> (versioned_verifier_resolver_WithdrawFeeTokensInput, unit, 's) Operation" where
  "versioned_verifier_resolver_WithdrawFeeTokens lib = \<lparr>op_ID = ''versioned-verifier-resolver:withdraw-fee-tokens'', op_handler = (\<lambda>d inp.
     Bind_VersionedVerifierResolver.WithdrawFeeTokens lib (Bind_VersionedVerifierResolver.NewVersionedVerifierResolverClient (deps_Invoker d) (versioned_verifier_resolver_WithdrawFeeTokensInput_ContractID inp))
       (versioned_verifier_resolver_WithdrawFeeTokensInput_FeeTokens inp))\<rparr>"

definition versioned_verifier_resolver_TransferOwnership :: "sdk \<Rightarrow> (TransferOwnershipInput, unit, 's) Operation" where
  "versioned_verifier_resolver_TransferOwnership lib = \<lparr>op_ID = ''versioned-verifier-resolver:transfer-ownership'', op_handler = (\<lambda>d inp.
     Bind_VersionedVerifierResolver.TransferOwnership lib (Bind_VersionedVerifierResolver.NewVersionedVerifierResolverClient (deps_Invoker d) (TransferOwnershipInput_ContractID inp))
       (TransferOwnershipInput_NewOwner inp))\<rparr>"

definition versioned_verifier_resolver_AcceptOwnership :: "sdk \<Rightarrow> (AcceptOwnershipInput, unit, 's) Operation" where
  "versioned_verifier_resolver_AcceptOwnership lib = \<lparr>op_ID = ''versioned-verifier-resolver:accept-ownership'', op_handler = (\<lambda>d inp.
     Bind_VersionedVerifierResolver.AcceptOwnership lib (Bind_VersionedVerifierResolver.NewVersionedVerifierResolverClient (deps_Invoker d) (AcceptOwnershipInput_ContractID inp)))\<rparr>"

section \<open>deployment/operations/fee_quoter/fee_quoter.go\<close>

definition fee_quoter_ContractType :: string where
  "fee_quoter_ContractType = ''FeeQuoter''"

definition fee_quoter_Deploy :: "(DeployInput, DeployOutput, 's) Operation" where
  "fee_quoter_Deploy = NewDeployOperation ''fee-quoter:deploy''"

record fee_quoter_InitializeInput =
  fee_quoter_InitializeInput_ContractID :: string
  fee_quoter_InitializeInput_Owner :: string
  fee_quoter_InitializeInput_StaticConfig :: "Bind_FeeQuoter.StaticConfig"
  fee_quoter_InitializeInput_AuthorizedCallers :: "string list"

record fee_quoter_ApplyDestChainConfigsInput =
  fee_quoter_ApplyDestChainConfigsInput_ContractID :: string
  fee_quoter_ApplyDestChainConfigsInput_Configs :: "Bind_FeeQuoter.DestChainConfigArgs list"

record fee_quoter_UpdatePricesInput =
  fee_quoter_UpdatePricesInput_ContractID :: string
  fee_quoter_UpdatePricesInput_Updater :: string
  fee_quoter_UpdatePricesInput_PriceUpdates :: "Bind_FeeQuoter.PriceUpdates"

record fee_quoter_ApplyTokenFeeConfigsInput =
  fee_quoter_ApplyTokenFeeConfigsInput_ContractID :: string
  fee_quoter_ApplyTokenFeeConfigsInput_AddConfigs :: "Bind_FeeQuoter.TokenFeeConfigArgs list"
  fee_quoter_ApplyTokenFeeConfigsInput_RemoveArgs :: "Bind_FeeQuoter.TokenFeeConfigRemoveArgs list"

definition fee_quoter_Initialize :: "sdk \<Rightarrow> (fee_quoter_InitializeInput, unit, 's) Operation" where
  "fee_quoter_Initialize lib = \<lparr>op_ID = ''fee-quoter:initialize'', op_handler = (\<lambda>d inp.
     Bind_FeeQuoter.Initialize lib (Bind_FeeQuoter.NewFeeQuoterClient (deps_Invoker d) (fee_quoter_InitializeInput_ContractID inp))
       (fee_quoter_InitializeInput_Owner inp) (fee_quoter_InitializeInput_StaticConfig inp)
       (fee_quoter_InitializeInput_AuthorizedCallers inp))\<rparr>"

definition fee_quoter_ApplyDestChainConfigs :: "sdk \<Rightarrow> (fee_quoter_ApplyDestChainConfigsInput, unit, 's) Operation" where
  "fee_quoter_ApplyDestChainConfigs lib = \<lparr>op_ID = ''fee-quoter:apply-dest-chain-configs'', op_handler = (\<lambda>d inp.
     Bind_FeeQuoter.ApplyDestChainConfigs lib (Bind_FeeQuoter.NewFeeQuoterClient (deps_Invoker d) (fee_quoter_ApplyDestChainConfigsInput_ContractID inp))
       (fee_quoter_ApplyDestChainConfigsInput_Configs inp))\<rparr>"

definition fee_quoter_UpdatePrices :: "sdk \<Rightarrow> (fee_quoter_UpdatePricesInput, unit, 's) Operation" where
  "fee_quoter_UpdatePrices lib = \<lparr>op_ID = ''fee-quoter:update-prices'', op_handler = (\<lambda>d inp.
     Bind_FeeQuoter.UpdatePrices lib (Bind_FeeQuoter.NewFeeQuoterClient (deps_Invoker d) (fee_quoter_UpdatePricesInput_ContractID inp))
       (fee_quoter_UpdatePricesInput_Updater inp) (fee_quoter_UpdatePricesInput_PriceUpdates inp))\<rparr>"

definition fee_quoter_ApplyTokenFeeConfigs :: "sdk \<Rightarrow> (fee_quoter_ApplyTokenFeeConfigsInput, unit, 's) Operation" where
  "fee_quoter_ApplyTokenFeeConfigs lib = \<lparr>op_ID = ''fee-quoter:apply-token-fee-configs'', op_handler = (\<lambda>d inp.
     Bind_FeeQuoter.ApplyTokenFeeConfigs lib (Bind_FeeQuoter.NewFeeQuoterClient (deps_Invoker d) (fee_quoter_ApplyTokenFeeConfigsInput_ContractID inp))
       (fee_quoter_ApplyTokenFeeConfigsInput_AddConfigs inp) (fee_quoter_ApplyTokenFeeConfigsInput_RemoveArgs inp))\<rparr>"

definition fee_quoter_TransferOwnership :: "sdk \<Rightarrow> (TransferOwnershipInput, unit, 's) Operation" where
  "fee_quoter_TransferOwnership lib = \<lparr>op_ID = ''fee-quoter:transfer-ownership'', op_handler = (\<lambda>d inp.
     Bind_FeeQuoter.TransferOwnership lib (Bind_FeeQuoter.NewFeeQuoterClient (deps_Invoker d) (TransferOwnershipInput_ContractID inp))
       (TransferOwnershipInput_NewOwner inp))\<rparr>"

definition fee_quoter_AcceptOwnership :: "sdk \<Rightarrow> (AcceptOwnershipInput, unit, 's) Operation" where
  "fee_quoter_AcceptOwnership lib = \<lparr>op_ID = ''fee-quoter:accept-ownership'', op_handler = (\<lambda>d inp.
     Bind_FeeQuoter.AcceptOwnership lib (Bind_FeeQuoter.NewFeeQuoterClient (deps_Invoker d) (AcceptOwnershipInput_ContractID inp)))\<rparr>"

section \<open>deployment/operations/rmn_proxy/rmn_proxy.go\<close>

definition rmn_proxy_ContractType :: string where
  "rmn_proxy_ContractType = ''RmnProxy''"

definition rmn_proxy_Deploy :: "(DeployInput, DeployOutput, 's) Operation" where
  "rmn_proxy_Deploy = NewDeployOperation ''rmn-proxy:deploy''"

record rmn_proxy_InitializeInput =
  rmn_proxy_InitializeInput_ContractID :: string
  rmn_proxy_InitializeInput_Owner :: string
  rmn_proxy_InitializeInput_RmnRemote :: string

definition rmn_proxy_Initialize :: "sdk \<Rightarrow> (rmn_proxy_InitializeInput, unit, 's) Operation" where
  "rmn_proxy_Initialize lib = \<lparr>op_ID = ''rmn-proxy:initialize'', op_handler = (\<lambda>d inp.
     Bind_RmnProxy.Initialize lib (Bind_RmnProxy.NewRmnProxyClient (deps_Invoker d) (rmn_proxy_InitializeInput_ContractID inp))
       (rmn_proxy_InitializeInput_Owner inp) (rmn_proxy_InitializeInput_RmnRemote inp))\<rparr>"

definition rmn_proxy_TransferOwnership :: "sdk \<Rightarrow> (TransferOwnershipInput, unit, 's) Operation" where
  "rmn_proxy_TransferOwnership lib = \<lparr>op_ID = ''rmn-proxy:transfer-ownership'', op_handler = (\<lambda>d inp.
     Bind_RmnProxy.TransferOwnership lib (Bind_RmnProxy.NewRmnProxyClient (deps_Invoker d) (TransferOwnershipInput_ContractID inp))
       (TransferOwnershipInput_NewOwner inp))\<rparr>"

definition rmn_proxy_AcceptOwnership :: "sdk \<Rightarrow> (AcceptOwnershipInput, unit, 's) Operation" where
  "rmn_proxy_AcceptOwnership lib = \<lparr>op_ID = ''rmn-proxy:accept-ownership'', op_handler = (\<lambda>d inp.
     Bind_RmnProxy.AcceptOwnership lib (Bind_RmnProxy.NewRmnProxyClient (deps_Invoker d) (AcceptOwnershipInput_ContractID inp)))\<rparr>"

section \<open>deployment/operations/rmn_remote/rmn_remote.go\<close>

definition rmn_remote_ContractType :: string where
  "rmn_remote_ContractType = ''RmnRemote''"

definition rmn_remote_Deploy :: "(DeployInput, DeployOutput, 's) Operation" where
  "rmn_remote_Deploy = NewDeployOperation ''rmn-remote:deploy''"

record rmn_remote_InitializeInput =
  rmn_remote_InitializeInput_ContractID :: string
  rmn_remote_InitializeInput_Owner :: string
  rmn_remote_InitializeInput_CurseAdmins :: "string list"

record rmn_remote_CurseInput =
  rmn_remote_CurseInput_ContractID :: string
  rmn_remote_CurseInput_Caller :: string
  rmn_remote_CurseInput_Subjects :: "bytes list"

record rmn_remote_UncurseInput =
  rmn_remote_UncurseInput_ContractID :: string
  rmn_remote_UncurseInput_Subjects :: "bytes list"

definition rmn_remote_Initialize :: "sdk \<Rightarrow> (rmn_remote_InitializeInput, unit, 's) Operation" where
  "rmn_remote_Initialize lib = \<lparr>op_ID = ''rmn-remote:initialize'', op_handler = (\<lambda>d inp.
     Bind_RmnRemote.Initialize lib (Bind_RmnRemote.NewRmnRemoteClient (deps_Invoker d) (rmn_remote_InitializeInput_ContractID inp))
       (rmn_remote_InitializeInput_Owner inp) (rmn_remote_InitializeInput_CurseAdmins inp))\<rparr>"

definition rmn_remote_TransferOwnership :: "sdk \<Rightarrow> (TransferOwnershipInput, unit, 's) Operation" where
  "rmn_remote_TransferOwnership lib = \<lparr>op_ID = ''rmn-remote:transfer-ownership'', op_handler = (\<lambda>d inp.
     Bind_RmnRemote.TransferOwnership lib (Bind_RmnRemote.NewRmnRemoteClient (deps_Invoker d) (TransferOwnershipInput_ContractID inp))
       (TransferOwnershipInput_NewOwner inp))\<rparr>"

definition rmn_remote_AcceptOwnership :: "sdk \<Rightarrow> (AcceptOwnershipInput, unit, 's) Operation" where
  "rmn_remote_AcceptOwnership lib = \<lparr>op_ID = ''rmn-remote:accept-ownership'', op_handler = (\<lambda>d inp.
     Bind_RmnRemote.AcceptOwnership lib (Bind_RmnRemote.NewRmnRemoteClient (deps_Invoker d) (AcceptOwnershipInput_ContractID inp)))\<rparr>"

definition rmn_remote_Curse :: "sdk \<Rightarrow> (rmn_remote_CurseInput, unit, 's) Operation" where
  "rmn_remote_Curse lib = \<lparr>op_ID = ''rmn-remote:curse'', op_handler = (\<lambda>d inp.
     Bind_RmnRemote.Curse lib (Bind_RmnRemote.NewRmnRemoteClient (deps_Invoker d) (rmn_remote_CurseInput_ContractID inp))
       (rmn_remote_CurseInput_Caller inp) (rmn_remote_CurseInput_Subjects inp))\<rparr>"

definition rmn_remote_Uncurse :: "sdk \<Rightarrow> (rmn_remote_UncurseInput, unit, 's) Operation" where
  "rmn_remote_Uncurse lib = \<lparr>op_ID = ''rmn-remote:uncurse'', op_handler = (\<lambda>d inp.
     Bind_RmnRemote.Uncurse lib (Bind_RmnRemote.NewRmnRemoteClient (deps_Invoker d) (rmn_remote_UncurseInput_ContractID inp))
       (rmn_remote_UncurseInput_Subjects inp))\<rparr>"

section \<open>deployment/operations/ccip_receiver/ccip_receiver.go\<close>

definition ccip_receiver_ContractType :: string where
  "ccip_receiver_ContractType = ''CCIPReceiver''"

definition ccip_receiver_Deploy :: "(DeployInput, DeployOutput, 's) Operation" where
  "ccip_receiver_Deploy = NewDeployOperation ''ccip-receiver:deploy''"

record ccip_receiver_InitializeInput =
  ccip_receiver_InitializeInput_ContractID :: string
  ccip_receiver_InitializeInput_Owner :: string
  ccip_receiver_InitializeInput_Router :: string

record ccip_receiver_EnableRemoteChainInput =
  ccip_receiver_EnableRemoteChainInput_ContractID :: string
  ccip_receiver_EnableRemoteChainInput_Caller :: string
  ccip_receiver_EnableRemoteChainInput_RemoteChainSelector :: int
  ccip_receiver_EnableRemoteChainInput_ExtraArgs :: bytes
  ccip_receiver_EnableRemoteChainInput_AllowedFinalityConfig :: int

definition ccip_receiver_Initialize :: "sdk \<Rightarrow> (ccip_receiver_InitializeInput, unit, 's) Operation" where
  "ccip_receiver_Initialize lib = \<lparr>op_ID = ''ccip-receiver:initialize'', op_handler = (\<lambda>d inp.
     Bind_CcipReceiver.Initialize lib (Bind_CcipReceiver.NewExampleCcipReceiverClient (deps_Invoker d) (ccip_receiver_InitializeInput_ContractID inp))
       (ccip_receiver_InitializeInput_Owner inp) (ccip_receiver_InitializeInput_Router inp))\<rparr>"

definition ccip_receiver_EnableRemoteChain :: "sdk \<Rightarrow> (ccip_receiver_EnableRemoteChainInput, unit, 's) Operation" where
  "ccip_receiver_EnableRemoteChain lib = \<lparr>op_ID = ''ccip-receiver:enable-remote-chain'', op_handler = (\<lambda>d inp.
     Bind_CcipReceiver.EnableRemoteChain lib (Bind_CcipReceiver.NewExampleCcipReceiverClient (deps_Invoker d) (ccip_receiver_EnableRemoteChainInput_ContractID inp))
       (ccip_receiver_EnableRemoteChainInput_Caller inp) (ccip_receiver_EnableRemoteChainInput_RemoteChainSelector inp)
       (ccip_receiver_EnableRemoteChainInput_ExtraArgs inp) (ccip_receiver_EnableRemoteChainInput_AllowedFinalityConfig inp))\<rparr>"

definition ccip_receiver_TransferOwnership :: "sdk \<Rightarrow> (TransferOwnershipInput, unit, 's) Operation" where
  "ccip_receiver_TransferOwnership lib = \<lparr>op_ID = ''ccip-receiver:transfer-ownership'', op_handler = (\<lambda>d inp.
     Bind_CcipReceiver.TransferOwnership lib (Bind_CcipReceiver.NewExampleCcipReceiverClient (deps_Invoker d) (TransferOwnershipInput_ContractID inp))
       (TransferOwnershipInput_NewOwner inp))\<rparr>"

definition ccip_receiver_AcceptOwnership :: "sdk \<Rightarrow> (AcceptOwnershipInput, unit, 's) Operation" where
  "ccip_receiver_AcceptOwnership lib = \<lparr>op_ID = ''ccip-receiver:accept-ownership'', op_handler = (\<lambda>d inp.
     Bind_CcipReceiver.AcceptOwnership lib (Bind_CcipReceiver.NewExampleCcipReceiverClient (deps_Invoker d) (AcceptOwnershipInput_ContractID inp)))\<rparr>"

end
