(* ===== verification/Ownership.thy ===== *)
theory Ownership
  imports Bindings_Calls Deploy_Datastore Ops_Governance Ops_Ramps Ops_Pools Ops_Verification
begin

text \<open>
  Transfer of contract ownership (deployment/ownership and deployment/sequences/transfer\_ownership.go): the
  dispatch on the contract type, and the two sequences that read the owner of every listed contract and
  either act as the deployer or emit an operation for the governance contracts. The relation \<open>handover\<close> is
  the abstract account of such a sequence, one rule for each way a contract may be handled; the
  properties show that both sequences implement it. The operation runner of the deployments
  framework and the batches of chainlink-ccip are parameters.
\<close>

section \<open>The framework\<close>

text \<open>\<open>cldfops.ExecuteOperation\<close> on an operation with its dependencies and its input. It skips an operation that an
  earlier successful report covers and returns the reported output, and runs the handler otherwise.\<close>

record 's framework =
  execute_void :: "string \<Rightarrow> ('s, unit result) state \<Rightarrow> ('s, unit result) state"
  execute_deploy :: "string \<Rightarrow> ('s, DeployOutput result) state \<Rightarrow> ('s, DeployOutput result) state"
  reported_void :: "string \<Rightarrow> ('s, unit result) state \<Rightarrow> bool"
  reported_deploy :: "string \<Rightarrow> ('s, DeployOutput result) state \<Rightarrow> DeployOutput option"

definition framework_laws :: "'s framework \<Rightarrow> bool" where
  "framework_laws fw \<longleftrightarrow>
     (\<forall>i h. execute_void fw i h = (if reported_void fw i h then State_Monad.return (Ok ()) else h)) \<and>
     (\<forall>i h. execute_deploy fw i h = (case reported_deploy fw i h of Some out \<Rightarrow> State_Monad.return (Ok out) | None \<Rightarrow> h))"

definition ExecuteOperation :: "'s framework \<Rightarrow> ('i, unit, 's) Operation \<Rightarrow> 's StellarDeps \<Rightarrow> 'i \<Rightarrow> ('s, unit result) state" where
  "ExecuteOperation fw op deps input = execute_void fw (op_ID op) (op_handler op deps input)"

definition ExecuteDeploy :: "'s framework \<Rightarrow> (DeployInput, DeployOutput, 's) Operation \<Rightarrow> 's StellarDeps \<Rightarrow> DeployInput \<Rightarrow>
    ('s, DeployOutput result) state" where
  "ExecuteDeploy fw op deps input = execute_deploy fw (op_ID op) (op_handler op deps input)"

definition FromDeployer :: "denv \<Rightarrow> sdk \<Rightarrow> (string \<Rightarrow> bytes result) \<Rightarrow> Deployer StellarDeps" where
  "FromDeployer env lib readFile = \<lparr>deps_Deploy = DeployContract env lib readFile, deps_Invoker = deployer_invoker env lib\<rparr>"

section \<open>Dispatch on the contract type (ownership/contract\_owner.go, exec.go)\<close>

definition optionalStellarOwner :: "string option \<Rightarrow> string result" where
  "optionalStellarOwner o' = (case o' of None \<Rightarrow> Err (New ''contract returned no owner'') | Some s \<Rightarrow> Ok s)"

definition owner_calls :: "sdk \<Rightarrow> (string \<times> ('s Invoker \<Rightarrow> string \<Rightarrow> ('s, string option result) state)) list" where
  "owner_calls lib = [
     (mcms_ContractType, \<lambda>v cid. Bind_Mcms.Owner lib (NewMcmsClient v cid)),
     (offramp_ContractType, \<lambda>v cid. Bind_Offramp.Owner lib (NewOffRampClient v cid)),
     (onramp_ContractType, \<lambda>v cid. Bind_Onramp.Owner lib (NewOnRampClient v cid)),
     (router_ContractType, \<lambda>v cid. Bind_Router.Owner lib (NewRouterClient v cid)),
     (fee_quoter_ContractType, \<lambda>v cid. Bind_FeeQuoter.Owner lib (NewFeeQuoterClient v cid)),
     (rmn_remote_ContractType, \<lambda>v cid. Bind_RmnRemote.Owner lib (NewRmnRemoteClient v cid)),
     (rmn_proxy_ContractType, \<lambda>v cid. Bind_RmnProxy.Owner lib (NewRmnProxyClient v cid)),
     (ramp_registry_ContractType, \<lambda>v cid. Bind_RampRegistry.Owner lib (NewRampRegistryClient v cid)),
     (token_admin_registry_ContractType, \<lambda>v cid. Bind_TokenAdminRegistry.Owner lib (NewTokenAdminRegistryClient v cid)),
     (committee_verifier_ContractType, \<lambda>v cid. Bind_CommitteeVerifier.Owner lib (NewCommitteeVerifierClient v cid)),
     (versioned_verifier_resolver_ContractType,
        \<lambda>v cid. Bind_VersionedVerifierResolver.Owner lib (NewVersionedVerifierResolverClient v cid)),
     (lock_release_pool_ContractType, \<lambda>v cid. Bind_LockReleasePool.Owner lib (NewLockReleasePoolClient v cid)),
     (siloed_lock_release_pool_ContractType, \<lambda>v cid. Bind_SiloedLockReleasePool.Owner lib (NewSiloedLockReleasePoolClient v cid)),
     (burn_mint_pool_ContractType, \<lambda>v cid. Bind_BurnMintPool.Owner lib (NewBurnMintPoolClient v cid)),
     (token_lock_box_ContractType, \<lambda>v cid. Bind_TokenLockBox.Owner lib (NewTokenLockBoxClient v cid)),
     (ccip_receiver_ContractType, \<lambda>v cid. Bind_CcipReceiver.Owner lib (NewExampleCcipReceiverClient v cid))]"

definition ContractOwner :: "sdk \<Rightarrow> 's StellarDeps \<Rightarrow> AddressRef \<Rightarrow> ('s, string result) state" where
  "ContractOwner lib deps ref =
     (case map_of (owner_calls lib) (ar_Type ref) of
        Some call \<Rightarrow> do { o' \<leftarrow> call (deps_Invoker deps) (ar_Address ref);
                         State_Monad.return (bind_r o' optionalStellarOwner) }
      | None \<Rightarrow> State_Monad.return (Err (Errorf ''stellar ownership: unsupported contract type %q for %s''
                  [AStr (ar_Type ref), AStr (ar_Address ref)])))"

definition transfer_operations :: "sdk \<Rightarrow> (string \<times> (TransferOwnershipInput, unit, 's) Operation) list" where
  "transfer_operations lib = [
     (mcms_ContractType, mcms_TransferOwnership lib), (offramp_ContractType, offramp_TransferOwnership lib),
     (onramp_ContractType, onramp_TransferOwnership lib), (router_ContractType, router_TransferOwnership lib),
     (fee_quoter_ContractType, fee_quoter_TransferOwnership lib), (rmn_remote_ContractType, rmn_remote_TransferOwnership lib),
     (rmn_proxy_ContractType, rmn_proxy_TransferOwnership lib), (ramp_registry_ContractType, ramp_registry_TransferOwnership lib),
     (token_admin_registry_ContractType, token_admin_registry_TransferOwnership lib),
     (committee_verifier_ContractType, committee_verifier_TransferOwnership lib),
     (versioned_verifier_resolver_ContractType, versioned_verifier_resolver_TransferOwnership lib),
     (lock_release_pool_ContractType, lock_release_pool_TransferOwnership lib),
     (siloed_lock_release_pool_ContractType, siloed_lock_release_pool_TransferOwnership lib),
     (burn_mint_pool_ContractType, burn_mint_pool_TransferOwnership lib), (token_lock_box_ContractType, token_lock_box_TransferOwnership lib),
     (ccip_receiver_ContractType, ccip_receiver_TransferOwnership lib)]"

definition ExecuteTransferOwnership :: "'s framework \<Rightarrow> sdk \<Rightarrow> 's StellarDeps \<Rightarrow> AddressRef \<Rightarrow> string \<Rightarrow> ('s, unit result) state" where
  "ExecuteTransferOwnership fw lib deps ref newOwner =
     (case map_of (transfer_operations lib) (ar_Type ref) of
        Some op \<Rightarrow> ExecuteOperation fw op deps
                    \<lparr>TransferOwnershipInput_ContractID = ar_Address ref, TransferOwnershipInput_NewOwner = newOwner\<rparr>
      | None \<Rightarrow> State_Monad.return (Err (Errorf ''stellar transfer ownership: unsupported contract type %q for %s''
                  [AStr (ar_Type ref), AStr (ar_Address ref)])))"

definition accept_operations :: "sdk \<Rightarrow> (string \<times> (AcceptOwnershipInput, unit, 's) Operation) list" where
  "accept_operations lib = [
     (mcms_ContractType, mcms_AcceptOwnership lib), (offramp_ContractType, offramp_AcceptOwnership lib),
     (onramp_ContractType, onramp_AcceptOwnership lib), (router_ContractType, router_AcceptOwnership lib),
     (fee_quoter_ContractType, fee_quoter_AcceptOwnership lib), (rmn_remote_ContractType, rmn_remote_AcceptOwnership lib),
     (rmn_proxy_ContractType, rmn_proxy_AcceptOwnership lib), (ramp_registry_ContractType, ramp_registry_AcceptOwnership lib),
     (token_admin_registry_ContractType, token_admin_registry_AcceptOwnership lib),
     (committee_verifier_ContractType, committee_verifier_AcceptOwnership lib),
     (versioned_verifier_resolver_ContractType, versioned_verifier_resolver_AcceptOwnership lib),
     (lock_release_pool_ContractType, lock_release_pool_AcceptOwnership lib),
     (siloed_lock_release_pool_ContractType, siloed_lock_release_pool_AcceptOwnership lib),
     (burn_mint_pool_ContractType, burn_mint_pool_AcceptOwnership lib), (token_lock_box_ContractType, token_lock_box_AcceptOwnership lib),
     (ccip_receiver_ContractType, ccip_receiver_AcceptOwnership lib)]"

definition ExecuteAcceptOwnership :: "'s framework \<Rightarrow> sdk \<Rightarrow> 's StellarDeps \<Rightarrow> AddressRef \<Rightarrow> ('s, unit result) state" where
  "ExecuteAcceptOwnership fw lib deps ref =
     (case map_of (accept_operations lib) (ar_Type ref) of
        Some op \<Rightarrow> ExecuteOperation fw op deps \<lparr>AcceptOwnershipInput_ContractID = ar_Address ref\<rparr>
      | None \<Rightarrow> State_Monad.return (Err (Errorf ''stellar accept ownership: unsupported contract type %q for %s''
                  [AStr (ar_Type ref), AStr (ar_Address ref)])))"

section \<open>The sequences (sequences/transfer\_ownership.go)\<close>

record mcms_Transaction =
  mt_ContractType :: string
  mt_To :: string
  mt_Data :: bytes
  mt_AdditionalFields :: string

definition zero_mcms_Transaction :: mcms_Transaction where
  "zero_mcms_Transaction = \<lparr>mt_ContractType = [], mt_To = [], mt_Data = [], mt_AdditionalFields = []\<rparr>"

record WriteOutput =
  wo_ChainSelector :: int
  wo_ExecInfo :: "string option"
  wo_Tx :: mcms_Transaction

record StellarTransferOwnershipInput =
  to_ChainSelector :: int
  to_ContractRef :: "AddressRef list"
  to_ProposedOwner :: string
  to_GovernanceAddr :: string

text \<open>What the sequences read of a chain of the environment.\<close>

record stellar_chain =
  ch_Signer :: "(keypair_Full option \<times> stellarSDKSigner) option"
  ch_NetworkPassphrase :: string

definition stellarMCMSTxAdditionalFields :: string where
  "stellarMCMSTxAdditionalFields = ''{\"version\":1,\"family\":\"stellar\"}''"

text \<open>Packages outside the repository: XDR, and the batch that chainlink-ccip makes of a write.\<close>

record 'b seq_lib =
  sl_xdr :: scval_xdr
  NewBatchOperationFromWrites :: "WriteOutput list \<Rightarrow> 'b result"

definition direct_write :: "int \<Rightarrow> string \<Rightarrow> WriteOutput" where
  "direct_write chainSelector hash = \<lparr>wo_ChainSelector = chainSelector, wo_ExecInfo = Some hash, wo_Tx = zero_mcms_Transaction\<rparr>"

definition governance_write :: "scval_xdr \<Rightarrow> int \<Rightarrow> AddressRef \<Rightarrow> string \<Rightarrow> ScVal list \<Rightarrow> WriteOutput result" where
  "governance_write xd chainSelector ref f args =
     bind_r (EncodeSorobanMCMSInvokePayload xd f args) (\<lambda>data.
     Ok \<lparr>wo_ChainSelector = chainSelector, wo_ExecInfo = None,
         wo_Tx = \<lparr>mt_ContractType = ar_Type ref, mt_To = ar_Address ref, mt_Data = data,
                  mt_AdditionalFields = stellarMCMSTxAdditionalFields\<rparr>\<rparr>)"

definition transfer_write ::
    "Deployer framework \<Rightarrow> sdk \<Rightarrow> scval_xdr \<Rightarrow> Deployer StellarDeps \<Rightarrow> StellarTransferOwnershipInput \<Rightarrow> string \<Rightarrow> string \<Rightarrow> AddressRef \<Rightarrow>
     WriteOutput dep" where
  "transfer_write fw lib xd deps inp deployerAddr owner ref =
     (if owner = deployerAddr then
        bindM (wrapM (\<lambda>e. Errorf ''transfer ownership %s: %w'' [AStr (ar_Address ref), AErr e])
                 (ExecuteTransferOwnership fw lib deps ref (to_ProposedOwner inp))) (\<lambda>_.
        okM (direct_write (to_ChainSelector inp) ''stellar-direct-transfer''))
      else if owner = to_GovernanceAddr inp then
        liftM (governance_write xd (to_ChainSelector inp) ref ''transfer_ownership'' [AddressToScVal lib (to_ProposedOwner inp)])
      else failM (Errorf ''contract %s owner %q is neither deployer %q nor governance %q''
                    [AStr (ar_Address ref), AStr owner, AStr deployerAddr, AStr (to_GovernanceAddr inp)]))"

definition accept_write ::
    "Deployer framework \<Rightarrow> sdk \<Rightarrow> scval_xdr \<Rightarrow> Deployer StellarDeps \<Rightarrow> StellarTransferOwnershipInput \<Rightarrow> string \<Rightarrow> string \<Rightarrow> AddressRef \<Rightarrow>
     WriteOutput dep" where
  "accept_write fw lib xd deps inp deployerAddr owner ref =
     (if to_ProposedOwner inp = deployerAddr then
        bindM (wrapM (\<lambda>e. Errorf ''accept ownership %s: %w'' [AStr (ar_Address ref), AErr e])
                 (ExecuteAcceptOwnership fw lib deps ref)) (\<lambda>_.
        okM (direct_write (to_ChainSelector inp) ''stellar-direct-accept''))
      else if to_ProposedOwner inp = to_GovernanceAddr inp then
        liftM (governance_write xd (to_ChainSelector inp) ref ''accept_ownership'' [])
      else failM (Errorf ''accept routing: proposed owner %q must be deployer %q or governance %q for %s''
                    [AStr (to_ProposedOwner inp), AStr deployerAddr, AStr (to_GovernanceAddr inp), AStr (ar_Address ref)]))"

text \<open>The loop over the listed contracts, which both sequences have; \<open>write\<close> is the \<open>switch\<close> of the sequence.\<close>

fun ownership_loop ::
    "sdk \<Rightarrow> 'b seq_lib \<Rightarrow> Deployer StellarDeps \<Rightarrow> string \<Rightarrow> (string \<Rightarrow> AddressRef \<Rightarrow> WriteOutput dep) \<Rightarrow> AddressRef list \<Rightarrow> 'b list \<Rightarrow>
     'b list dep" where
  "ownership_loop lib sl deps proposed write [] batchOps = okM batchOps"
| "ownership_loop lib sl deps proposed write (ref # refs) batchOps =
     bindM (wrapM (\<lambda>e. Errorf ''read owner %s: %w'' [AStr (ar_Address ref), AErr e]) (ContractOwner lib deps ref)) (\<lambda>owner.
     if owner = proposed then ownership_loop lib sl deps proposed write refs batchOps
     else
       bindM (write owner ref) (\<lambda>wo.
       bindM (liftM (NewBatchOperationFromWrites sl [wo])) (\<lambda>batchOp.
       ownership_loop lib sl deps proposed write refs (batchOps @ [batchOp]))))"

definition with_deployer :: "sdk \<Rightarrow> (error \<Rightarrow> error) \<Rightarrow> stellar_chain \<Rightarrow> 'a dep \<Rightarrow> 'a result \<times> Deployer option" where
  "with_deployer lib g ch body =
     (case wrap_err g (NewDeployerFromChain lib (ch_Signer ch) (ch_NetworkPassphrase ch) []) of
        Ok d \<Rightarrow> (case run_state body d of (r, d') \<Rightarrow> (r, Some d'))
      | Err e \<Rightarrow> (Err e, None)
      | Panic q \<Rightarrow> (Panic q, None))"

definition on_chain ::
    "sdk \<Rightarrow> string \<Rightarrow> (int \<rightharpoonup> stellar_chain) \<Rightarrow> int \<Rightarrow> (string \<Rightarrow> 'a dep) \<Rightarrow> 'a result \<times> Deployer option" where
  "on_chain lib msg blockChains chainSelector body =
     (case blockChains chainSelector of
        None \<Rightarrow> (Err (Errorf msg [AInt chainSelector]), None)
      | Some ch \<Rightarrow> with_deployer lib (\<lambda>e. e) ch (bindM SignerAddress body))"

definition StellarTransferOwnershipViaMCMS ::
    "Deployer framework \<Rightarrow> denv \<Rightarrow> sdk \<Rightarrow> 'b seq_lib \<Rightarrow> (string \<Rightarrow> bytes result) \<Rightarrow> (int \<rightharpoonup> stellar_chain) \<Rightarrow> StellarTransferOwnershipInput \<Rightarrow>
     'b list result \<times> Deployer option" where
  "StellarTransferOwnershipViaMCMS fw env lib sl readFile blockChains inp =
     on_chain lib ''stellar chain %d not found in environment'' blockChains (to_ChainSelector inp) (\<lambda>deployerAddr.
       let deps = FromDeployer env lib readFile
       in ownership_loop lib sl deps (to_ProposedOwner inp) (transfer_write fw lib (sl_xdr sl) deps inp deployerAddr) (to_ContractRef inp) [])"

definition StellarAcceptOwnership ::
    "Deployer framework \<Rightarrow> denv \<Rightarrow> sdk \<Rightarrow> 'b seq_lib \<Rightarrow> (string \<Rightarrow> bytes result) \<Rightarrow> (int \<rightharpoonup> stellar_chain) \<Rightarrow> StellarTransferOwnershipInput \<Rightarrow>
     'b list result \<times> Deployer option" where
  "StellarAcceptOwnership fw env lib sl readFile blockChains inp =
     on_chain lib ''stellar chain %d not found in environment'' blockChains (to_ChainSelector inp) (\<lambda>deployerAddr.
       let deps = FromDeployer env lib readFile
       in ownership_loop lib sl deps (to_ProposedOwner inp) (accept_write fw lib (sl_xdr sl) deps inp deployerAddr) (to_ContractRef inp) [])"

section \<open>The dispatch is uniform\<close>

lemmas owner_defs = Bind_Mcms.Owner_def Bind_Offramp.Owner_def Bind_Onramp.Owner_def Bind_Router.Owner_def Bind_FeeQuoter.Owner_def
  Bind_RmnRemote.Owner_def Bind_RmnProxy.Owner_def Bind_RampRegistry.Owner_def Bind_TokenAdminRegistry.Owner_def
  Bind_CommitteeVerifier.Owner_def Bind_VersionedVerifierResolver.Owner_def Bind_LockReleasePool.Owner_def
  Bind_SiloedLockReleasePool.Owner_def Bind_BurnMintPool.Owner_def Bind_TokenLockBox.Owner_def Bind_CcipReceiver.Owner_def

lemmas client_defs = NewMcmsClient_def NewOffRampClient_def NewOnRampClient_def NewRouterClient_def NewFeeQuoterClient_def
  NewRmnRemoteClient_def NewRmnProxyClient_def NewRampRegistryClient_def NewTokenAdminRegistryClient_def NewCommitteeVerifierClient_def
  NewVersionedVerifierResolverClient_def NewLockReleasePoolClient_def NewSiloedLockReleasePoolClient_def NewBurnMintPoolClient_def
  NewTokenLockBoxClient_def NewExampleCcipReceiverClient_def

lemmas transfer_defs = mcms_TransferOwnership_def offramp_TransferOwnership_def onramp_TransferOwnership_def router_TransferOwnership_def
  fee_quoter_TransferOwnership_def rmn_remote_TransferOwnership_def rmn_proxy_TransferOwnership_def ramp_registry_TransferOwnership_def
  token_admin_registry_TransferOwnership_def committee_verifier_TransferOwnership_def versioned_verifier_resolver_TransferOwnership_def
  lock_release_pool_TransferOwnership_def siloed_lock_release_pool_TransferOwnership_def burn_mint_pool_TransferOwnership_def
  token_lock_box_TransferOwnership_def ccip_receiver_TransferOwnership_def

lemmas transfer_client_defs = Bind_Mcms.TransferOwnership_def Bind_Offramp.TransferOwnership_def Bind_Onramp.TransferOwnership_def
  Bind_Router.TransferOwnership_def Bind_FeeQuoter.TransferOwnership_def Bind_RmnRemote.TransferOwnership_def
  Bind_RmnProxy.TransferOwnership_def Bind_RampRegistry.TransferOwnership_def Bind_TokenAdminRegistry.TransferOwnership_def
  Bind_CommitteeVerifier.TransferOwnership_def Bind_VersionedVerifierResolver.TransferOwnership_def Bind_LockReleasePool.TransferOwnership_def
  Bind_SiloedLockReleasePool.TransferOwnership_def Bind_BurnMintPool.TransferOwnership_def Bind_TokenLockBox.TransferOwnership_def
  Bind_CcipReceiver.TransferOwnership_def

lemmas accept_defs = mcms_AcceptOwnership_def offramp_AcceptOwnership_def onramp_AcceptOwnership_def router_AcceptOwnership_def
  fee_quoter_AcceptOwnership_def rmn_remote_AcceptOwnership_def rmn_proxy_AcceptOwnership_def ramp_registry_AcceptOwnership_def
  token_admin_registry_AcceptOwnership_def committee_verifier_AcceptOwnership_def versioned_verifier_resolver_AcceptOwnership_def
  lock_release_pool_AcceptOwnership_def siloed_lock_release_pool_AcceptOwnership_def burn_mint_pool_AcceptOwnership_def
  token_lock_box_AcceptOwnership_def ccip_receiver_AcceptOwnership_def

lemmas accept_client_defs = Bind_Mcms.AcceptOwnership_def Bind_Offramp.AcceptOwnership_def Bind_Onramp.AcceptOwnership_def
  Bind_Router.AcceptOwnership_def Bind_FeeQuoter.AcceptOwnership_def Bind_RmnRemote.AcceptOwnership_def
  Bind_RmnProxy.AcceptOwnership_def Bind_RampRegistry.AcceptOwnership_def Bind_TokenAdminRegistry.AcceptOwnership_def
  Bind_CommitteeVerifier.AcceptOwnership_def Bind_VersionedVerifierResolver.AcceptOwnership_def Bind_LockReleasePool.AcceptOwnership_def
  Bind_SiloedLockReleasePool.AcceptOwnership_def Bind_BurnMintPool.AcceptOwnership_def Bind_TokenLockBox.AcceptOwnership_def
  Bind_CcipReceiver.AcceptOwnership_def

lemma owner_calls_uniform:
  "(t, call) \<in> set (owner_calls lib) \<Longrightarrow> call v cid = simulate_value (mk_client v cid) ''owner'' [] (OptionalAddressFromScVal lib)"
  by (auto simp: owner_calls_def owner_defs client_defs)

lemma transfer_operations_uniform:
  "(t, op) \<in> set (transfer_operations lib) \<Longrightarrow> op_handler op deps inp =
     invoke_void (mk_client (deps_Invoker deps) (TransferOwnershipInput_ContractID inp)) ''transfer_ownership''
       [Ok (AddressToScVal lib (TransferOwnershipInput_NewOwner inp))]"
  by (auto simp: transfer_operations_def transfer_defs transfer_client_defs client_defs)

lemma accept_operations_uniform:
  "(t, op) \<in> set (accept_operations lib) \<Longrightarrow> op_handler op deps inp =
     invoke_void (mk_client (deps_Invoker deps) (AcceptOwnershipInput_ContractID inp)) ''accept_ownership'' []"
  by (auto simp: accept_operations_def accept_defs accept_client_defs client_defs)

section \<open>The abstract account of a sequence\<close>

text \<open>Reading the owner: a simulated call of \<open>owner\<close> on the contract of the reference, during which nothing but a restore is sent.\<close>

definition reads_owner :: "denv \<Rightarrow> sdk \<Rightarrow> AddressRef \<Rightarrow> string \<Rightarrow> Deployer \<Rightarrow> Deployer \<Rightarrow> bool" where
  "reads_owner env lib ref owner d d' \<longleftrightarrow>
     (\<exists>v. run_state (Deployer.SimulateContract env lib (ar_Address ref) ''owner'' []) d = (Ok (Some v), d') \<and>
          OptionalAddressFromScVal lib v = Ok (Some owner)) \<and>
     same_config d d' \<and> (\<exists>txs. dep_sent d' = dep_sent d @ txs \<and> restore_only lib d txs)"

text \<open>Calling as the deployer: a confirmed transaction of its own, or nothing when the framework has a report of that call.\<close>

definition calls ::
    "Deployer framework \<Rightarrow> denv \<Rightarrow> sdk \<Rightarrow> string \<Rightarrow> string \<Rightarrow> ScVal result list \<Rightarrow> Deployer \<Rightarrow> Deployer \<Rightarrow> bool" where
  "calls fw env lib cid f args d d' \<longleftrightarrow> same_config d d' \<and>
     ((\<exists>i. reported_void fw i (invoke_void (mk_client (deployer_invoker env lib) cid) f args)) \<and> d' = d \<or>
      (\<exists>b vs txs meta. strkey_Decode lib VersionByteContract cid = Ok b \<and> seq_args args = Ok vs \<and> dep_sent d' = dep_sent d @ txs \<and>
         submitted env lib d (invocation d b f vs) txs meta))"

text \<open>An operation for governance: its data is the XDR of a vector with the function symbol and the arguments.\<close>

definition payload :: "scval_xdr \<Rightarrow> int \<Rightarrow> AddressRef \<Rightarrow> string \<Rightarrow> ScVal list \<Rightarrow> WriteOutput \<Rightarrow> bool" where
  "payload xd sel ref f args wo \<longleftrightarrow> wo_ChainSelector wo = sel \<and> wo_ExecInfo wo = None \<and>
     mt_To (wo_Tx wo) = ar_Address ref \<and> mt_ContractType (wo_Tx wo) = ar_Type ref \<and>
     unmarshal_ScVal xd (mt_Data (wo_Tx wo)) = Ok (ScvVec (Some (Some (ScvSymbol (Some f) # args))))"

record handover_spec =
  hs_proposed :: string
  hs_function :: string
  hs_args :: "ScVal list"
  hs_direct :: "string \<Rightarrow> bool"
  hs_governed :: "string \<Rightarrow> bool"
  hs_mark :: string
  hs_selector :: int

inductive handover ::
    "Deployer framework \<Rightarrow> denv \<Rightarrow> sdk \<Rightarrow> 'b seq_lib \<Rightarrow> handover_spec \<Rightarrow> Deployer \<Rightarrow> AddressRef list \<Rightarrow> 'b list \<Rightarrow> Deployer \<Rightarrow> bool"
  for fw env lib sl sp where
  finished: "handover fw env lib sl sp d [] [] d"
| already: "reads_owner env lib ref (hs_proposed sp) d d1 \<Longrightarrow> handover fw env lib sl sp d1 refs bs d' \<Longrightarrow>
    handover fw env lib sl sp d (ref # refs) bs d'"
| direct: "reads_owner env lib ref owner d d1 \<Longrightarrow> owner \<noteq> hs_proposed sp \<Longrightarrow> hs_direct sp owner \<Longrightarrow>
    calls fw env lib (ar_Address ref) (hs_function sp) (map Ok (hs_args sp)) d1 d2 \<Longrightarrow>
    NewBatchOperationFromWrites sl [direct_write (hs_selector sp) (hs_mark sp)] = Ok b \<Longrightarrow>
    handover fw env lib sl sp d2 refs bs d' \<Longrightarrow> handover fw env lib sl sp d (ref # refs) (b # bs) d'"
| governed: "reads_owner env lib ref owner d d1 \<Longrightarrow> owner \<noteq> hs_proposed sp \<Longrightarrow> \<not> hs_direct sp owner \<Longrightarrow> hs_governed sp owner \<Longrightarrow>
    payload (sl_xdr sl) (hs_selector sp) ref (hs_function sp) (hs_args sp) wo \<Longrightarrow>
    NewBatchOperationFromWrites sl [wo] = Ok b \<Longrightarrow>
    handover fw env lib sl sp d1 refs bs d' \<Longrightarrow> handover fw env lib sl sp d (ref # refs) (b # bs) d'"

definition transfer_spec :: "sdk \<Rightarrow> StellarTransferOwnershipInput \<Rightarrow> string \<Rightarrow> handover_spec" where
  "transfer_spec lib inp deployerAddr = \<lparr>hs_proposed = to_ProposedOwner inp, hs_function = ''transfer_ownership'',
     hs_args = [AddressToScVal lib (to_ProposedOwner inp)], hs_direct = (\<lambda>owner. owner = deployerAddr),
     hs_governed = (\<lambda>owner. owner = to_GovernanceAddr inp), hs_mark = ''stellar-direct-transfer'', hs_selector = to_ChainSelector inp\<rparr>"

definition accept_spec :: "StellarTransferOwnershipInput \<Rightarrow> string \<Rightarrow> handover_spec" where
  "accept_spec inp deployerAddr = \<lparr>hs_proposed = to_ProposedOwner inp, hs_function = ''accept_ownership'', hs_args = [],
     hs_direct = (\<lambda>owner. to_ProposedOwner inp = deployerAddr),
     hs_governed = (\<lambda>owner. to_ProposedOwner inp = to_GovernanceAddr inp), hs_mark = ''stellar-direct-accept'',
     hs_selector = to_ChainSelector inp\<rparr>"

section \<open>The sequences implement it\<close>

lemma call_with_Ok:
  assumes "run_state (call_with op cid f args) s = (Ok v, s')"
  shows "\<exists>vs. seq_args args = Ok vs \<and> run_state (op cid f vs) s = (Ok v, s')"
  using assms by (auto simp: call_with_def split: result.splits prod.splits)

lemma ContractOwner_reads:
  assumes laws: "txnbuild_laws lib"
    and run: "run_state (ContractOwner lib (FromDeployer env lib readFile) ref) d = (Ok owner, d')"
  shows "reads_owner env lib ref owner d d'"
proof -
  from run obtain call :: "Deployer Invoker \<Rightarrow> string \<Rightarrow> (Deployer, string option result) state"
    where call: "map_of (owner_calls lib) (ar_Type ref) = Some call"
    by (auto simp: ContractOwner_def split: option.splits)
  have sim: "call v cid = simulate_value (mk_client v cid) ''owner'' [] (OptionalAddressFromScVal lib)" for v cid
    using owner_calls_uniform [OF map_of_SomeD [OF call]] .
  from run obtain v where v: "run_state (Deployer.SimulateContract env lib (ar_Address ref) ''owner'' []) d = (Ok (Some v), d')"
    "OptionalAddressFromScVal lib v = Ok (Some owner)"
    by (auto simp: ContractOwner_def call sim simulate_value_def mk_client_def FromDeployer_def deployer_invoker_def need_value_def
        optionalStellarOwner_def split: prod.splits option.splits dest!: call_with_Ok)
  from SimulateContract_run [OF laws v(1)] alongD [OF cf.along_SimulateContract v(1)] v
  show ?thesis unfolding reads_owner_def by blast
qed

lemma seq_args_Ok [simp]: "seq_args (map Ok vs) = Ok vs"
  by (induction vs) auto

lemma executed_calls:
  assumes laws: "txnbuild_laws lib" "sdk_laws lib" "framework_laws fw"
    and op: "op_handler op (FromDeployer env lib readFile) inp = invoke_void (mk_client (deployer_invoker env lib) cid) f args"
    and run: "run_state (ExecuteOperation fw op (FromDeployer env lib readFile) inp) d = (Ok (), d')"
  shows "calls fw env lib cid f args d d'"
proof (cases "reported_void fw (op_ID op) (op_handler op (FromDeployer env lib readFile) inp)")
  case True
  with laws(3) run have "d' = d" by (simp add: ExecuteOperation_def framework_laws_def)
  with True op show ?thesis unfolding calls_def by (auto simp: same_config_def)
next
  case False
  with laws(3) run op have inv: "run_state (invoke_void (mk_client (deployer_invoker env lib) cid) f args) d = (Ok (), d')"
    by (simp add: ExecuteOperation_def framework_laws_def)
  from dep.void_performed [OF inv] obtain vs v where v: "seq_args args = Ok vs" "dep_performed env lib cid f vs v d d'"
    by blast
  from inv v(1) obtain v' where "run_state (Deployer.InvokeContract env lib cid f vs) d = (Ok v', d')"
    by (auto simp: invoke_void_def mk_client_def deployer_invoker_def split: prod.splits dest!: call_with_Ok)
  from alongD [OF cf.along_InvokeContract this] v laws(1,2) show ?thesis
    unfolding calls_def dep_performed_def by blast
qed

lemma direct_transfer_calls:
  assumes laws: "txnbuild_laws lib" "sdk_laws lib" "framework_laws fw"
    and run: "run_state (ExecuteTransferOwnership fw lib (FromDeployer env lib readFile) ref newOwner) d = (Ok (), d')"
  shows "calls fw env lib (ar_Address ref) ''transfer_ownership'' [Ok (AddressToScVal lib newOwner)] d d'"
proof -
  from run obtain op :: "(TransferOwnershipInput, unit, Deployer) Operation" where op: "map_of (transfer_operations lib) (ar_Type ref) = Some op"
    by (auto simp: ExecuteTransferOwnership_def split: option.splits)
  from run [unfolded ExecuteTransferOwnership_def op option.case] transfer_operations_uniform [OF map_of_SomeD [OF op]]
  show ?thesis by (intro executed_calls [OF laws]) (auto simp: FromDeployer_def)
qed

lemma direct_accept_calls:
  assumes laws: "txnbuild_laws lib" "sdk_laws lib" "framework_laws fw"
    and run: "run_state (ExecuteAcceptOwnership fw lib (FromDeployer env lib readFile) ref) d = (Ok (), d')"
  shows "calls fw env lib (ar_Address ref) ''accept_ownership'' [] d d'"
proof -
  from run obtain op :: "(AcceptOwnershipInput, unit, Deployer) Operation" where op: "map_of (accept_operations lib) (ar_Type ref) = Some op"
    by (auto simp: ExecuteAcceptOwnership_def split: option.splits)
  from run [unfolded ExecuteAcceptOwnership_def op option.case] accept_operations_uniform [OF map_of_SomeD [OF op]]
  show ?thesis by (intro executed_calls [OF laws]) (auto simp: FromDeployer_def)
qed

lemma governance_write_payload:
  assumes "scval_xdr_laws xd" and "governance_write xd sel ref f args = Ok wo"
  shows "payload xd sel ref f args wo"
  using assms by (auto simp: governance_write_def payload_def scval_xdr_laws_def EncodeSorobanMCMSInvokePayload_def VecToScVal_def SymbolToScVal_def)

text \<open>What the loop asks of the \<open>switch\<close> of a sequence.\<close>

definition write_ok :: "Deployer framework \<Rightarrow> denv \<Rightarrow> sdk \<Rightarrow> scval_xdr \<Rightarrow> handover_spec \<Rightarrow> (string \<Rightarrow> AddressRef \<Rightarrow> WriteOutput dep) \<Rightarrow> bool" where
  "write_ok fw env lib xd sp write \<longleftrightarrow>
     (\<forall>owner ref d wo d'. run_state (write owner ref) d = (Ok wo, d') \<longrightarrow>
        hs_direct sp owner \<and> calls fw env lib (ar_Address ref) (hs_function sp) (map Ok (hs_args sp)) d d' \<and> wo = direct_write (hs_selector sp) (hs_mark sp) \<or>
        \<not> hs_direct sp owner \<and> hs_governed sp owner \<and> d' = d \<and> payload xd (hs_selector sp) ref (hs_function sp) (hs_args sp) wo)"

lemma ownership_loop_handover:
  assumes laws: "txnbuild_laws lib" and emits: "write_ok fw env lib (sl_xdr sl) sp write" and sp: "proposed = hs_proposed sp"
    and run: "run_state (ownership_loop lib sl (FromDeployer env lib readFile) proposed write refs acc) d = (Ok bs, d')"
  shows "\<exists>new. bs = acc @ new \<and> handover fw env lib sl sp d refs new d'"
  using run
proof (induction refs arbitrary: acc d)
  case Nil
  then show ?case by (auto intro: handover.finished)
next
  case (Cons ref refs)
  from Cons.prems obtain owner d1 where own: "run_state (ContractOwner lib (FromDeployer env lib readFile) ref) d = (Ok owner, d1)"
    and rest: "run_state (if owner = proposed then ownership_loop lib sl (FromDeployer env lib readFile) proposed write refs acc
      else bindM (write owner ref) (\<lambda>wo. bindM (liftM (NewBatchOperationFromWrites sl [wo])) (\<lambda>b.
        ownership_loop lib sl (FromDeployer env lib readFile) proposed write refs (acc @ [b])))) d1 = (Ok bs, d')"
    by (auto elim!: bindM_Ok wrapM_Ok)
  note reads = ContractOwner_reads [OF laws own]
  show ?case
  proof (cases "owner = proposed")
    case True
    with rest Cons.IH [of acc d1] reads sp show ?thesis by (auto intro: handover.already)
  next
    case False
    with rest obtain wo d2 b where wo: "run_state (write owner ref) d1 = (Ok wo, d2)" and b: "NewBatchOperationFromWrites sl [wo] = Ok b"
      and more: "run_state (ownership_loop lib sl (FromDeployer env lib readFile) proposed write refs (acc @ [b])) d2 = (Ok bs, d')"
      by (auto elim!: bindM_Ok)
    from Cons.IH [OF more] obtain new where new: "bs = acc @ b # new" "handover fw env lib sl sp d2 refs new d'" by auto
    from emits wo consider
        (d) "hs_direct sp owner" "calls fw env lib (ar_Address ref) (hs_function sp) (map Ok (hs_args sp)) d1 d2" "wo = direct_write (hs_selector sp) (hs_mark sp)"
      | (g) "\<not> hs_direct sp owner" "hs_governed sp owner" "d2 = d1" "payload (sl_xdr sl) (hs_selector sp) ref (hs_function sp) (hs_args sp) wo"
      unfolding write_ok_def by blast
    then have "handover fw env lib sl sp d (ref # refs) (b # new) d'"
    proof cases
      case d
      with False reads b new sp show ?thesis by (auto intro: handover.direct)
    next
      case g
      with False reads b new sp show ?thesis by (auto intro: handover.governed)
    qed
    with new show ?thesis by auto
  qed
qed

lemma transfer_write_ok:
  assumes "txnbuild_laws lib" "sdk_laws lib" "framework_laws fw" "scval_xdr_laws xd"
  shows "write_ok fw env lib xd (transfer_spec lib inp a) (transfer_write fw lib xd (FromDeployer env lib readFile) inp a)"
  using assms
  by (auto simp: write_ok_def transfer_write_def transfer_spec_def split: if_splits elim!: bindM_Ok wrapM_Ok
      intro: direct_transfer_calls governance_write_payload)

lemma accept_write_ok:
  assumes "txnbuild_laws lib" "sdk_laws lib" "framework_laws fw" "scval_xdr_laws xd"
  shows "write_ok fw env lib xd (accept_spec inp a) (accept_write fw lib xd (FromDeployer env lib readFile) inp a)"
  using assms
  by (auto simp: write_ok_def accept_write_def accept_spec_def split: if_splits elim!: bindM_Ok wrapM_Ok
      intro: direct_accept_calls governance_write_payload)

lemma on_chain_Ok:
  assumes "on_chain lib msg blockChains sel body = (Ok x, d')"
  obtains ch d d1 where "blockChains sel = Some ch" and "NewDeployerFromChain lib (ch_Signer ch) (ch_NetworkPassphrase ch) [] = Ok d"
    and "run_state (body (sg_Address (dep_signer d))) d = (Ok x, d1)" and "d' = Some d1"
  using assms by (auto simp: on_chain_def with_deployer_def SignerAddress_def split: option.splits result.splits prod.splits elim!: bindM_Ok)

section \<open>What the sequences send\<close>

definition own_call :: "sdk \<Rightarrow> Deployer \<Rightarrow> AddressRef \<Rightarrow> string \<Rightarrow> ScVal list \<Rightarrow> Transaction \<Rightarrow> bool" where
  "own_call lib d ref f args tx \<longleftrightarrow>
     (\<exists>b op'. strkey_Decode lib VersionByteContract (ar_Address ref) = Ok b \<and> same_call (invocation d b f args) op' \<and> own_tx d [op'] tx)"

definition sends_only :: "sdk \<Rightarrow> Deployer \<Rightarrow> AddressRef list \<Rightarrow> string \<Rightarrow> ScVal list \<Rightarrow> Deployer \<Rightarrow> bool" where
  "sends_only lib d refs f args d' \<longleftrightarrow> same_config d d' \<and>
     (\<exists>txs. dep_sent d' = dep_sent d @ txs \<and>
        (\<forall>tx \<in> set txs. restore_tx lib d tx \<or> (\<exists>ref \<in> set refs. own_call lib d ref f args tx)))"

lemma sends_only_trans:
  assumes "sends_only lib d rs f args d1" and "sends_only lib d1 rs' f args d'"
  shows "sends_only lib d (rs @ rs') f args d'"
proof -
  have cfg: "same_config d d1" using assms(1) by (simp add: sends_only_def)
  then have "restore_tx lib d1 tx = restore_tx lib d tx" "own_call lib d1 ref f args tx = own_call lib d ref f args tx" for tx ref
    by (simp_all add: restore_tx_def own_call_def invocation_def own_tx_def same_config_def)
  with assms show ?thesis
    unfolding sends_only_def same_config_def by (auto 4 3)
qed

lemma reads_owner_sends:
  assumes "reads_owner env lib ref owner d d'"
  shows "sends_only lib d [] f args d'"
  using assms by (auto simp: reads_owner_def sends_only_def restore_only_def)

lemma calls_sends:
  assumes "calls fw env lib (ar_Address ref) f (map Ok args) d d'"
  shows "sends_only lib d [ref] f args d'"
  using assms by (fastforce simp: calls_def sends_only_def submitted_def restore_only_def own_call_def)

lemma handover_sends:
  assumes "handover fw env lib sl sp d refs bs d'"
  shows "sends_only lib d refs (hs_function sp) (hs_args sp) d' \<and> length bs \<le> length refs"
  using assms
proof induction
  case (finished d)
  then show ?case by (simp add: sends_only_def same_config_def)
next
  case (already ref d d1 refs bs d')
  then have "sends_only lib d ([] @ refs) (hs_function sp) (hs_args sp) d'" by (blast intro: sends_only_trans reads_owner_sends)
  with already show ?case by (auto simp: sends_only_def)
next
  case (direct ref owner d d1 d2 b refs bs d')
  then have "sends_only lib d ([] @ [ref] @ refs) (hs_function sp) (hs_args sp) d'"
    by (blast intro: sends_only_trans reads_owner_sends calls_sends)
  with direct show ?case by simp
next
  case (governed ref owner d d1 wo b refs bs d')
  then have "sends_only lib d ([] @ refs) (hs_function sp) (hs_args sp) d'" by (blast intro: sends_only_trans reads_owner_sends)
  with governed show ?case by (auto simp: sends_only_def)
qed

lemma transfer_sequence_handover:
  assumes laws: "txnbuild_laws lib" "sdk_laws lib" "framework_laws fw" "scval_xdr_laws (sl_xdr sl)"
    and run: "StellarTransferOwnershipViaMCMS fw env lib sl readFile blockChains inp = (Ok bs, res)"
  shows "\<exists>ch d d'. blockChains (to_ChainSelector inp) = Some ch \<and>
    NewDeployerFromChain lib (ch_Signer ch) (ch_NetworkPassphrase ch) [] = Ok d \<and> res = Some d' \<and>
    handover fw env lib sl (transfer_spec lib inp (sg_Address (dep_signer d))) d (to_ContractRef inp) bs d' \<and>
    sends_only lib d (to_ContractRef inp) ''transfer_ownership'' [AddressToScVal lib (to_ProposedOwner inp)] d'"
proof -
  from run [unfolded StellarTransferOwnershipViaMCMS_def Let_def] obtain ch d d1
    where "blockChains (to_ChainSelector inp) = Some ch" "NewDeployerFromChain lib (ch_Signer ch) (ch_NetworkPassphrase ch) [] = Ok d"
      and loop: "run_state (ownership_loop lib sl (FromDeployer env lib readFile) (to_ProposedOwner inp)
        (transfer_write fw lib (sl_xdr sl) (FromDeployer env lib readFile) inp (sg_Address (dep_signer d))) (to_ContractRef inp) []) d = (Ok bs, d1)"
      and "res = Some d1" by (elim on_chain_Ok)
  moreover from ownership_loop_handover [OF laws(1) transfer_write_ok [OF laws] _ loop]
  have "handover fw env lib sl (transfer_spec lib inp (sg_Address (dep_signer d))) d (to_ContractRef inp) bs d1"
    by (auto simp: transfer_spec_def)
  moreover from handover_sends [OF this] have "sends_only lib d (to_ContractRef inp) ''transfer_ownership'' [AddressToScVal lib (to_ProposedOwner inp)] d1"
    by (simp add: transfer_spec_def)
  ultimately show ?thesis by blast
qed

lemma accept_sequence_handover:
  assumes laws: "txnbuild_laws lib" "sdk_laws lib" "framework_laws fw" "scval_xdr_laws (sl_xdr sl)"
    and run: "StellarAcceptOwnership fw env lib sl readFile blockChains inp = (Ok bs, res)"
  shows "\<exists>ch d d'. blockChains (to_ChainSelector inp) = Some ch \<and>
    NewDeployerFromChain lib (ch_Signer ch) (ch_NetworkPassphrase ch) [] = Ok d \<and> res = Some d' \<and>
    handover fw env lib sl (accept_spec inp (sg_Address (dep_signer d))) d (to_ContractRef inp) bs d' \<and>
    sends_only lib d (to_ContractRef inp) ''accept_ownership'' [] d'"
proof -
  from run [unfolded StellarAcceptOwnership_def Let_def] obtain ch d d1
    where "blockChains (to_ChainSelector inp) = Some ch" "NewDeployerFromChain lib (ch_Signer ch) (ch_NetworkPassphrase ch) [] = Ok d"
      and loop: "run_state (ownership_loop lib sl (FromDeployer env lib readFile) (to_ProposedOwner inp)
        (accept_write fw lib (sl_xdr sl) (FromDeployer env lib readFile) inp (sg_Address (dep_signer d))) (to_ContractRef inp) []) d = (Ok bs, d1)"
      and "res = Some d1" by (elim on_chain_Ok)
  moreover from ownership_loop_handover [OF laws(1) accept_write_ok [OF laws] _ loop]
  have "handover fw env lib sl (accept_spec inp (sg_Address (dep_signer d))) d (to_ContractRef inp) bs d1"
    by (auto simp: accept_spec_def)
  moreover from handover_sends [OF this] have "sends_only lib d (to_ContractRef inp) ''accept_ownership'' [] d1"
    by (simp add: accept_spec_def)
  ultimately show ?thesis by blast
qed

text \<open>C30: When the transfer or the accept sequence returns, it has handled the listed contracts one after the other, each in
  exactly one of three ways, according to the owner that a simulated call of the contract reported: a contract already
  owned by the proposed owner is left alone; one that the deployer can act on is called in a confirmed transaction of the
  deployer (transfer: the deployer owns it, accept: the deployer is the proposed owner) unless the framework holds a
  report of that call; one that governance must act on sends nothing and yields a batch operation whose data
  decodes to the function and its arguments. Every transaction sent is signed by the deployer and is a restore
  or that call on one of the listed contracts.\<close>

theorem ownership_sequences_hand_over:
  assumes laws: "txnbuild_laws lib" "sdk_laws lib" "framework_laws fw" "scval_xdr_laws (sl_xdr sl)"
  shows "(StellarTransferOwnershipViaMCMS fw env lib sl readFile blockChains inp = (Ok bs, res) \<longrightarrow>
      (\<exists>ch d d'. blockChains (to_ChainSelector inp) = Some ch \<and>
         NewDeployerFromChain lib (ch_Signer ch) (ch_NetworkPassphrase ch) [] = Ok d \<and> res = Some d' \<and>
         handover fw env lib sl (transfer_spec lib inp (sg_Address (dep_signer d))) d (to_ContractRef inp) bs d' \<and>
         sends_only lib d (to_ContractRef inp) ''transfer_ownership'' [AddressToScVal lib (to_ProposedOwner inp)] d')) \<and>
    (StellarAcceptOwnership fw env lib sl readFile blockChains inp = (Ok bs, res) \<longrightarrow>
      (\<exists>ch d d'. blockChains (to_ChainSelector inp) = Some ch \<and>
         NewDeployerFromChain lib (ch_Signer ch) (ch_NetworkPassphrase ch) [] = Ok d \<and> res = Some d' \<and>
         handover fw env lib sl (accept_spec inp (sg_Address (dep_signer d))) d (to_ContractRef inp) bs d' \<and>
         sends_only lib d (to_ContractRef inp) ''accept_ownership'' [] d'))"
  by (intro conjI impI transfer_sequence_handover [OF laws] accept_sequence_handover [OF laws])

section \<open>Recorded addresses are not strkeys\<close>

lemma handover_addresses:
  assumes "handover fw env lib sl sp d refs bs d'" and "ref \<in> set refs"
  shows "\<exists>b. strkey_Decode lib VersionByteContract (ar_Address ref) = Ok b"
proof -
  have read: "\<exists>b. strkey_Decode lib VersionByteContract (ar_Address r) = Ok b" if "reads_owner env lib r owner d d1" for r owner d d1
    using that by (auto simp: reads_owner_def Deployer.SimulateContract_def contract_address_def elim!: bindM_Ok split: option.splits)
  from assms show ?thesis by induction (auto intro: read)
qed

text \<open>C33: The sequences take the address of a reference for a strkey, but the records of deployed contracts hold hexadecimal
  text: when any of the listed references is one that was looked up in the address store after its contract had been
  recorded there, neither sequence returns, whoever owns the contract.\<close>

theorem ownership_sequences_reject_recorded_refs:
  assumes laws: "txnbuild_laws lib" "sdk_laws lib" "framework_laws fw" "scval_xdr_laws (sl_xdr sl)" "hexutil_laws hx" "datastore_laws ds"
    and recorded: "ref_UpsertDeployedStrKey hx lib ds r st sel k = Ok st'" "ref_LookupAddressRef ds r st' sel = Ok ref"
    and listed: "ref \<in> set (to_ContractRef inp)"
  shows "\<not> is_Ok (fst (StellarTransferOwnershipViaMCMS fw env lib sl readFile blockChains inp)) \<and>
    \<not> is_Ok (fst (StellarAcceptOwnership fw env lib sl readFile blockChains inp))"
proof -
  have strkey: "strkey_laws lib" using laws(2) by (simp add: sdk_laws_def)
  from recorded(1) obtain h where h: "StrkeyToHex hx lib k = Ok h"
    and up: "ds_Upsert ds st \<lparr>ar_Address = h, ar_ChainSelector = sel, ar_Type = sr_Type r, ar_Version = sr_Version r,
      ar_Qualifier = sr_Qualifier r\<rparr> = Ok st'"
    by (auto simp: ref_UpsertDeployedStrKey_def UpsertDeployedStrKey_def)
  from laws(6) up recorded(2) have "ar_Address ref = h"
    unfolding datastore_laws_def stores_def ref_LookupAddressRef_def LookupAddressRef_def ref_key_def
    by (metis (no_types, lifting) AddressRef.select_convs result.inject(1))
  with StrkeyToHex_Ok [OF h] laws(5) have "hd (ar_Address ref) = CHR ''0''"
    by (metis hexutil_laws_def append_Cons list.sel(1))
  then have none: "\<nexists>b. strkey_Decode lib VersionByteContract (ar_Address ref) = Ok b"
    using decode_head [OF strkey] by fastforce
  have stuck: "\<not> handover fw env lib sl sp d (to_ContractRef inp) bs d'" for sp d bs d'
    using handover_addresses listed none by blast
  show ?thesis
  proof (intro conjI notI)
    assume "is_Ok (fst (StellarTransferOwnershipViaMCMS fw env lib sl readFile blockChains inp))"
    then obtain bs res where "StellarTransferOwnershipViaMCMS fw env lib sl readFile blockChains inp = (Ok bs, res)"
      by (auto simp: is_Ok_iff prod_eq_iff)
    from transfer_sequence_handover [OF laws(1-4) this] stuck show False by blast
  next
    assume "is_Ok (fst (StellarAcceptOwnership fw env lib sl readFile blockChains inp))"
    then obtain bs res where "StellarAcceptOwnership fw env lib sl readFile blockChains inp = (Ok bs, res)"
      by (auto simp: is_Ok_iff prod_eq_iff)
    from accept_sequence_handover [OF laws(1-4) this] stuck show False by blast
  qed
qed

section \<open>A concrete run\<close>

text \<open>A framework without reports, and a network on which every contract answers that the deployer owns it.\<close>

definition plain_framework :: "'s framework" where
  "plain_framework = \<lparr>execute_void = (\<lambda>i h. h), execute_deploy = (\<lambda>i h. h), reported_void = (\<lambda>i h. False), reported_deploy = (\<lambda>i h. None)\<rparr>"

definition own_sdk :: sdk where
  "own_sdk = dep_sdk\<lparr>unb64_ScVal := (\<lambda>s. Ok (AddressToScVal dep_sdk sample_account))\<rparr>"

definition own_net :: denv where
  "own_net = dep_net\<lparr>dSimulate_at := (\<lambda>i x. Ok \<lparr>sim_Error = [], sim_TransactionDataXDR = ''data'', sim_MinResourceFee = 50000,
     sim_Results = [\<lparr>simr_AuthXDR = None, simr_ReturnValueXDR = Some ''owner''\<rparr>], sim_RestorePreamble = None\<rparr>)\<rparr>"

text \<open>XDR of one value only.\<close>

definition one_xdr :: "ScVal \<Rightarrow> scval_xdr" where
  "one_xdr v = \<lparr>marshal_ScVal = (\<lambda>x. if x = v then Ok [1] else Err (New ''xdr'')), unmarshal_ScVal = (\<lambda>b. Ok v)\<rparr>"

definition sample_seq_lib :: "WriteOutput seq_lib" where
  "sample_seq_lib = \<lparr>sl_xdr = one_xdr ScvVoid, NewBatchOperationFromWrites = (\<lambda>ws. Ok (hd ws))\<rparr>"

definition sample_chains :: "int \<rightharpoonup> stellar_chain" where
  "sample_chains = (\<lambda>n. if n = 7 then Some \<lparr>
     ch_Signer = Some (Some \<lparr>kp_Address = sample_account, kp_tx_Sign = sg_SignTransaction sample_signer\<rparr>,
                       \<lparr>ss_Address = sample_account, ss_SignDecorated = (\<lambda>h. Ok ([], []))\<rparr>),
     ch_NetworkPassphrase = ''net''\<rparr> else None)"

definition sample_ref :: "string \<Rightarrow> AddressRef" where
  "sample_ref a = \<lparr>ar_Address = a, ar_ChainSelector = 7, ar_Type = ''Router'', ar_Version = Some ''1.2.0'', ar_Qualifier = []\<rparr>"

definition sample_transfer :: "string \<Rightarrow> StellarTransferOwnershipInput" where
  "sample_transfer a = \<lparr>to_ChainSelector = 7, to_ContractRef = [sample_ref a], to_ProposedOwner = sample_contract,
     to_GovernanceAddr = sample_contract\<rparr>"

lemma own_laws: "txnbuild_laws own_sdk" "sdk_laws own_sdk" "strkey_laws own_sdk" "framework_laws plain_framework" "scval_xdr_laws (one_xdr v)"
proof -
  have "strkey_laws own_sdk" "address_laws own_sdk" "txnbuild_laws own_sdk"
    using dep_sdk_laws by (simp_all add: own_sdk_def txnbuild_laws_def strkey_laws_def address_laws_def)
  then show "txnbuild_laws own_sdk" "sdk_laws own_sdk" "strkey_laws own_sdk" by (simp_all add: sdk_laws_def)
qed (simp_all add: plain_framework_def framework_laws_def one_xdr_def scval_xdr_laws_def)

text \<open>The entries of the dispatch tables for the router.\<close>

lemmas contract_type_defs = mcms_ContractType_def offramp_ContractType_def onramp_ContractType_def router_ContractType_def

lemma Router_owner:
  "ContractOwner lib (FromDeployer env lib readFile) (sample_ref c) =
     do { o' \<leftarrow> simulate_value (mk_client (deployer_invoker env lib) c) ''owner'' [] (OptionalAddressFromScVal lib);
          State_Monad.return (bind_r o' optionalStellarOwner) }"
  by (simp add: ContractOwner_def owner_calls_def contract_type_defs sample_ref_def FromDeployer_def Bind_Router.Owner_def NewRouterClient_def)

lemma Router_transfer:
  "ExecuteTransferOwnership plain_framework lib (FromDeployer env lib readFile) (sample_ref c) newOwner =
     invoke_void (mk_client (deployer_invoker env lib) c) ''transfer_ownership'' [Ok (AddressToScVal lib newOwner)]"
  by (simp add: ExecuteTransferOwnership_def transfer_operations_def contract_type_defs sample_ref_def FromDeployer_def
      ExecuteOperation_def plain_framework_def router_TransferOwnership_def Bind_Router.TransferOwnership_def NewRouterClient_def)

definition own_deployer :: Deployer where
  "own_deployer = NewDeployer ''net'' \<lparr>kp_Address = sample_account, kp_tx_Sign = sg_SignTransaction sample_signer\<rparr> []"

text \<open>Evaluation of a run of the deployer on this network.\<close>

lemmas deployer_eval = simulate_value_def invoke_void_def call_with_def mk_client_def deployer_invoker_def Deployer.SimulateContract_def
  Deployer.InvokeContract_def contract_address_def BuildContractScAddress_def getSourceAccount_def getLedgerEntryXDR_def simulate_with_restore_def
  build_and_simulate_def deadline_now_def host_op_def SignerAddress_def run_bindM buildAndSubmitTransaction_def dep_assembleTransaction_def
  inject_simulation_def sign_and_send_def accepted_hash_def waitForTransaction_def time_sub_def extractReturnValue_def meta_return_def
  tx_params_def need_value_def getResultXDR_def numeral_3_eq_3

lemmas sample_eval = own_net_def own_sdk_def dep_net_def dep_sdk_def sample_sdk_def own_deployer_def NewDeployer_def NewDeployerWithSigner_def
  NewKeypairSigner_def sample_signer_def plain_transaction_def plain_decode_def plain_encode_def version_char_def sample_contract_def
  sample_account_def OptionalAddressFromScVal_def AddressFromScVal_def AddressToScVal_def ParseAddress_def ed25519_field_def

definition after_owner :: Deployer where
  "after_owner = snd (run_state (simulate_value (mk_client (deployer_invoker own_net own_sdk) sample_contract) ''owner'' []
     (OptionalAddressFromScVal own_sdk)) own_deployer)"

lemma sample_owner:
  "run_state (simulate_value (mk_client (deployer_invoker own_net own_sdk) sample_contract) ''owner'' []
     (OptionalAddressFromScVal own_sdk)) own_deployer = (Ok (Some sample_account), after_owner)"
proof -
  have "fst (run_state (simulate_value (mk_client (deployer_invoker own_net own_sdk) sample_contract) ''owner'' []
     (OptionalAddressFromScVal own_sdk)) own_deployer) = Ok (Some sample_account)"
    by (simp add: deployer_eval sample_eval)
  then show ?thesis by (simp add: after_owner_def prod_eq_iff)
qed

lemma sample_direct:
  "fst (run_state (invoke_void (mk_client (deployer_invoker own_net own_sdk) sample_contract) ''transfer_ownership''
     [Ok (AddressToScVal own_sdk sample_contract)]) after_owner) = Ok ()"
  by (simp add: after_owner_def deployer_eval sample_eval)

lemma sample_transfer_run:
  "fst (StellarTransferOwnershipViaMCMS plain_framework own_net own_sdk sample_seq_lib (\<lambda>p. Err (New ''no file'')) sample_chains
     (sample_transfer sample_contract)) = Ok [direct_write 7 ''stellar-direct-transfer'']"
proof -
  obtain d2 where d2: "run_state (invoke_void (mk_client (deployer_invoker own_net own_sdk) sample_contract) ''transfer_ownership''
     [Ok (AddressToScVal own_sdk sample_contract)]) after_owner = (Ok (), d2)"
    using sample_direct by (metis prod.collapse)
  have "sample_account \<noteq> sample_contract" "sg_Address (dep_signer own_deployer) = sample_account"
    by (simp_all add: sample_account_def sample_contract_def own_deployer_def NewDeployer_def NewDeployerWithSigner_def NewKeypairSigner_def)
  with d2 show ?thesis
    by (simp add: StellarTransferOwnershipViaMCMS_def on_chain_def with_deployer_def sample_chains_def sample_transfer_def NewDeployerFromChain_def
        SignerAddress_def run_bindM Router_owner sample_owner optionalStellarOwner_def transfer_write_def Router_transfer sample_seq_lib_def
        Let_def flip: own_deployer_def)
qed

theorem ownership_sequences_hand_over_witness:
  "\<exists>d d'. handover plain_framework own_net own_sdk sample_seq_lib
      (transfer_spec own_sdk (sample_transfer sample_contract) (sg_Address (dep_signer d))) d [sample_ref sample_contract]
      [direct_write 7 ''stellar-direct-transfer''] d' \<and>
    sends_only own_sdk d [sample_ref sample_contract] ''transfer_ownership'' [AddressToScVal own_sdk sample_contract] d'"
proof -
  let ?run = "StellarTransferOwnershipViaMCMS plain_framework own_net own_sdk sample_seq_lib (\<lambda>p. Err (New ''no file'')) sample_chains
     (sample_transfer sample_contract)"
  have run: "?run = (Ok [direct_write 7 ''stellar-direct-transfer''], snd ?run)"
    using sample_transfer_run by (simp add: prod_eq_iff)
  have xdr: "scval_xdr_laws (sl_xdr sample_seq_lib)" by (simp add: sample_seq_lib_def own_laws)
  from ownership_sequences_hand_over [OF own_laws(1,2,4) xdr, THEN conjunct1, THEN mp, OF run]
  show ?thesis by (auto simp: sample_transfer_def)
qed

lemma list_store_record:
  assumes "strkey_laws lib" and "strkey_Decode lib VersionByteContract k = Ok raw"
  shows "\<exists>st. ref_UpsertDeployedStrKey plain_hexutil lib list_store r [] sel k = Ok st \<and>
    ref_LookupAddressRef list_store r st sel = Ok (FullAddressRef r sel (hexutil_Encode plain_hexutil raw))"
  by (simp add: ref_UpsertDeployedStrKey_def UpsertDeployedStrKey_def StrkeyToHex_decodes [OF assms] list_store_def ref_LookupAddressRef_def
      LookupAddressRef_def ref_key_def FullAddressRef_def LaneAddressRef_def PartialAddressRef_def zero_AddressRef_def)

theorem ownership_sequences_reject_recorded_refs_witness:
  "\<exists>a. FullAddressRef (RouterDatastoreRef sample_names) 7 a = sample_ref a \<and>
     \<not> is_Ok (fst (StellarTransferOwnershipViaMCMS plain_framework own_net own_sdk sample_seq_lib (\<lambda>p. Err (New ''no file'')) sample_chains
       (sample_transfer a)))"
proof -
  have xdr: "scval_xdr_laws (sl_xdr sample_seq_lib)" by (simp add: sample_seq_lib_def own_laws)
  let ?a = "hexutil_Encode plain_hexutil (map char_byte (tl sample_contract))"
  have ref: "FullAddressRef (RouterDatastoreRef sample_names) 7 a = sample_ref a" for a
    by (simp add: FullAddressRef_def LaneAddressRef_def PartialAddressRef_def zero_AddressRef_def RouterDatastoreRef_def mk_ref_def
        sample_names_def sample_ref_def)
  have "strkey_Decode own_sdk VersionByteContract sample_contract = Ok (map char_byte (tl sample_contract))"
    by (simp add: own_sdk_def dep_sdk_def sample_sdk_def plain_decode_def sample_contract_def version_char_def)
  from list_store_record [OF own_laws(3) this, of "RouterDatastoreRef sample_names" 7] obtain st
    where st: "ref_UpsertDeployedStrKey plain_hexutil own_sdk list_store (RouterDatastoreRef sample_names) [] 7 sample_contract = Ok st"
      "ref_LookupAddressRef list_store (RouterDatastoreRef sample_names) st 7 = Ok (sample_ref ?a)"
    unfolding ref by blast
  from ownership_sequences_reject_recorded_refs [OF own_laws(1,2,4) xdr plain_hexutil_laws list_store_laws st]
  have "\<not> is_Ok (fst (StellarTransferOwnershipViaMCMS plain_framework own_net own_sdk sample_seq_lib (\<lambda>p. Err (New ''no file'')) sample_chains
       (sample_transfer ?a)))" by (simp add: sample_transfer_def)
  with ref show ?thesis by blast
qed

end
