(* ===== verification/Governance.thy ===== *)
theory Governance
  imports Ownership
begin

text \<open>
  Deployment and configuration of the governance contracts (deployment/sequences/mcms.go), cursing
  (sequences/curse.go, adapters/stellar\_curse\_adapter.go), and the fees and the fee aggregator
  (sequences/fee.go and its adapters). What the sequences do is shown in \<open>Governance_Runs\<close>.
\<close>

section \<open>MCMS and timelock (sequences/mcms.go)\<close>

text \<open>The input of chainlink-ccip; an EVM address is 20 bytes, \<open>TimelockMinDelay\<close> is a \<open>*big.Int\<close>.\<close>

record 'c MCMSDeploymentConfig =
  md_ChainSelector :: int
  md_Qualifier :: "string option"
  md_Proposer :: 'c
  md_Bypasser :: 'c
  md_Canceller :: 'c
  md_ExistingAddresses :: "AddressRef list"
  md_TimelockAdmin :: bytes
  md_TimelockMinDelay :: "int option"

definition chain_address :: "stellar_chain \<Rightarrow> string" where
  "chain_address ch = (case ch_Signer ch of Some (_, s) \<Rightarrow> ss_Address s | None \<Rightarrow> [])"

definition stellarTimelockAdmin :: "'c MCMSDeploymentConfig \<Rightarrow> stellar_chain \<Rightarrow> string result" where
  "stellarTimelockAdmin inp ch =
     (if md_TimelockAdmin inp = replicate 20 0 then Ok (chain_address ch)
      else Err (New (''timelockAdmin must be the zero address for Stellar RBACTimelock deploy (use chain signer); '' @
                     ''non-zero EVM addresses are not supported'')))"

definition min_delay :: "int option \<Rightarrow> int result" where
  "min_delay d = (case d of None \<Rightarrow> Ok 0 | Some n \<Rightarrow> if in_u64 n then Ok n else Err (New ''timelockMinDelay must fit uint64''))"

definition deploy_mcms ::
    "Deployer framework \<Rightarrow> process_env \<Rightarrow> hashing \<Rightarrow> sdk \<Rightarrow> Deployer StellarDeps \<Rightarrow> stellar_chain \<Rightarrow> int \<Rightarrow> string \<Rightarrow> string dep" where
  "deploy_mcms fw os hs lib deps ch sel qual =
     bindM (liftM (ResolveMCMSWasmPath os)) (\<lambda>wasmPath.
     bindM (wrapM (\<lambda>e. Errorf ''mcms deploy: %w'' [AErr e])
              (ExecuteDeploy fw mcms_Deploy deps \<lparr>DeployInput_WasmPath = wasmPath, DeployInput_Salt = MCMSDeploySalt hs sel qual\<rparr>)) (\<lambda>depOut.
     bindM (wrapM (\<lambda>e. Errorf ''mcms initialize: %w'' [AErr e])
              (ExecuteOperation fw (mcms_Initialize lib) deps
                 \<lparr>mcms_InitializeInput_ContractID = DeployOutput_ContractID depOut, mcms_InitializeInput_Owner = chain_address ch,
                  mcms_InitializeInput_ChainNetworkID = ChainNetworkID hs (ch_NetworkPassphrase ch)\<rparr>)) (\<lambda>_.
     okM (DeployOutput_ContractID depOut))))"

definition deploy_timelock ::
    "Deployer framework \<Rightarrow> process_env \<Rightarrow> hashing \<Rightarrow> sdk \<Rightarrow> Deployer StellarDeps \<Rightarrow> stellar_chain \<Rightarrow> 'c MCMSDeploymentConfig \<Rightarrow> string \<Rightarrow> string \<Rightarrow>
     string dep" where
  "deploy_timelock fw os hs lib deps ch inp qual contractID =
     bindM (liftM (ResolveTimelockWasmPath os)) (\<lambda>tlWasm.
     bindM (wrapM (\<lambda>e. Errorf ''timelock deploy: %w'' [AErr e])
              (ExecuteDeploy fw timelock_Deploy deps
                 \<lparr>DeployInput_WasmPath = tlWasm, DeployInput_Salt = TimelockDeploySalt hs (md_ChainSelector inp) qual\<rparr>)) (\<lambda>tlOut.
     bindM (liftM (stellarTimelockAdmin inp ch)) (\<lambda>admin.
     bindM (liftM (min_delay (md_TimelockMinDelay inp))) (\<lambda>minDelay.
     bindM (wrapM (\<lambda>e. Errorf ''timelock initialize: %w'' [AErr e])
              (ExecuteOperation fw (timelock_Initialize lib) deps
                 \<lparr>timelock_InitializeInput_ContractID = DeployOutput_ContractID tlOut, timelock_InitializeInput_MinDelay = minDelay,
                  timelock_InitializeInput_Admin = admin, timelock_InitializeInput_Proposers = [contractID],
                  timelock_InitializeInput_Executors = [], timelock_InitializeInput_Cancellers = [contractID],
                  timelock_InitializeInput_Bypassers = [contractID]\<rparr>)) (\<lambda>_.
     okM (DeployOutput_ContractID tlOut))))))"

definition set_mcms_config ::
    "Deployer framework \<Rightarrow> sdk \<Rightarrow> Deployer StellarDeps \<Rightarrow> string \<Rightarrow> Bind_Mcms.SignerAddresses \<times> Bind_Mcms.SignerGroups \<times> bytes \<times> bytes \<times> bool \<Rightarrow>
     unit dep" where
  "set_mcms_config fw lib deps contractID cfg =
     (case cfg of (signerAddrs, signerGroups, gq, gp, _) \<Rightarrow>
        ExecuteOperation fw (mcms_SetConfig lib) deps
          \<lparr>mcms_SetConfigInput_ContractID = contractID, mcms_SetConfigInput_SignerAddresses = signerAddrs,
           mcms_SetConfigInput_SignerGroups = signerGroups, mcms_SetConfigInput_GroupQuorums = gq, mcms_SetConfigInput_GroupParents = gp,
           mcms_SetConfigInput_ClearRoot = True\<rparr>)"

definition deploy_body ::
    "Deployer framework \<Rightarrow> process_env \<Rightarrow> hashing \<Rightarrow> sdk \<Rightarrow> ccip_names \<Rightarrow> 'c mcms_lib \<Rightarrow> Deployer StellarDeps \<Rightarrow> stellar_chain \<Rightarrow>
     'c MCMSDeploymentConfig \<Rightarrow> Bind_Mcms.SignerAddresses \<times> Bind_Mcms.SignerGroups \<times> bytes \<times> bytes \<times> bool \<Rightarrow> AddressRef list dep" where
  "deploy_body fw os hs lib nm ml deps ch inp cfg =
     (let sel = md_ChainSelector inp; qual = QualifierStr (md_Qualifier inp); existing = md_ExistingAddresses inp in
      bindM (case FindExistingStellarMCMS nm ml existing sel qual of
               Some contractID \<Rightarrow> okM contractID
             | None \<Rightarrow> deploy_mcms fw os hs lib deps ch sel qual) (\<lambda>contractID.
      bindM (wrapM (\<lambda>e. Errorf ''mcms set_config: %w'' [AErr e]) (set_mcms_config fw lib deps contractID cfg)) (\<lambda>_.
      let mcmsRefs = StellarMCMSDatastoreRefs nm sel qual contractID; mergedRefs = existing @ mcmsRefs in
      bindM (case FindExistingStellarTimelock nm ml mergedRefs sel qual of
               Some tlID \<Rightarrow> okM tlID
             | None \<Rightarrow> deploy_timelock fw os hs lib deps ch inp qual contractID) (\<lambda>tlID.
      okM (mcmsRefs @ [StellarTimelockDatastoreRef nm sel qual tlID])))))"

definition DeployStellarMCMS ::
    "Deployer framework \<Rightarrow> denv \<Rightarrow> process_env \<Rightarrow> hashing \<Rightarrow> sdk \<Rightarrow> ccip_names \<Rightarrow> 'c mcms_lib \<Rightarrow> (string \<Rightarrow> bytes result) \<Rightarrow>
     (int \<rightharpoonup> stellar_chain) \<Rightarrow> 'c MCMSDeploymentConfig \<Rightarrow> AddressRef list result \<times> Deployer option" where
  "DeployStellarMCMS fw env os hs lib nm ml readFile blockChains inp =
     (case blockChains (md_ChainSelector inp) of
        None \<Rightarrow> (Err (Errorf ''stellar chain %d not found in environment'' [AInt (md_ChainSelector inp)]), None)
      | Some ch \<Rightarrow>
          (case bind_r (MergeTripleMCMSConfig ml (md_Proposer inp) (md_Bypasser inp) (md_Canceller inp))
                  (\<lambda>merged. ConfigToStellarSetConfig ml (Some merged) True) of
             Ok cfg \<Rightarrow> with_deployer lib (\<lambda>e. e) ch (deploy_body fw os hs lib nm ml (FromDeployer env lib readFile) ch inp cfg)
           | Err e \<Rightarrow> (Err e, None)
           | Panic q \<Rightarrow> (Panic q, None)))"

text \<open>The two sequences that do nothing.\<close>

definition FinalizeStellarDeployMCMS :: "AddressRef list result" where
  "FinalizeStellarDeployMCMS = Ok []"

definition GrantAdminRoleToTimelockStellar :: "AddressRef list result" where
  "GrantAdminRoleToTimelockStellar = Ok []"

fun update_loop ::
    "Deployer framework \<Rightarrow> sdk \<Rightarrow> Deployer StellarDeps \<Rightarrow> Bind_Mcms.SignerAddresses \<times> Bind_Mcms.SignerGroups \<times> bytes \<times> bytes \<times> bool \<Rightarrow>
     AddressRef list \<Rightarrow> unit dep" where
  "update_loop fw lib deps cfg [] = okM ()"
| "update_loop fw lib deps cfg (ref # refs) =
     (if ar_Address ref = [] then update_loop fw lib deps cfg refs
      else bindM (wrapM (\<lambda>e. Errorf ''set_config on %s: %w'' [AStr (ar_Address ref), AErr e])
                    (set_mcms_config fw lib deps (ar_Address ref) cfg)) (\<lambda>_. update_loop fw lib deps cfg refs))"

definition UpdateStellarMCMSConfig ::
    "Deployer framework \<Rightarrow> denv \<Rightarrow> sdk \<Rightarrow> 'c mcms_lib \<Rightarrow> (string \<Rightarrow> bytes result) \<Rightarrow> (int \<rightharpoonup> stellar_chain) \<Rightarrow> int \<Rightarrow> 'c \<Rightarrow> AddressRef list \<Rightarrow>
     unit result \<times> Deployer option" where
  "UpdateStellarMCMSConfig fw env lib ml readFile blockChains chainSelector config mcmContracts =
     on_chain lib ''stellar chain %d not found in environment'' blockChains chainSelector (\<lambda>_.
       bindM (liftM (ConfigToStellarSetConfig ml (Some config) True)) (\<lambda>cfg.
       update_loop fw lib (FromDeployer env lib readFile) cfg mcmContracts))"

section \<open>Cursing (sequences/curse.go, adapters/stellar\_curse\_adapter.go)\<close>

definition StellarCurse ::
    "Deployer framework \<Rightarrow> denv \<Rightarrow> sdk \<Rightarrow> (string \<Rightarrow> bytes result) \<Rightarrow> (int \<rightharpoonup> stellar_chain) \<Rightarrow> int \<Rightarrow> bytes list \<Rightarrow> string \<Rightarrow>
     unit result \<times> Deployer option" where
  "StellarCurse fw env lib readFile blockChains chainSelector subjects rmnContractID =
     on_chain lib ''stellar chain %d not found'' blockChains chainSelector (\<lambda>signer.
       wrapM (\<lambda>e. Errorf ''curse on chain %d: %w'' [AInt chainSelector, AErr e])
         (ExecuteOperation fw (rmn_remote_Curse lib) (FromDeployer env lib readFile)
            \<lparr>rmn_remote_CurseInput_ContractID = rmnContractID, rmn_remote_CurseInput_Caller = signer, rmn_remote_CurseInput_Subjects = subjects\<rparr>))"

definition StellarUncurse ::
    "Deployer framework \<Rightarrow> denv \<Rightarrow> sdk \<Rightarrow> (string \<Rightarrow> bytes result) \<Rightarrow> (int \<rightharpoonup> stellar_chain) \<Rightarrow> int \<Rightarrow> bytes list \<Rightarrow> string \<Rightarrow>
     unit result \<times> Deployer option" where
  "StellarUncurse fw env lib readFile blockChains chainSelector subjects rmnContractID =
     on_chain lib ''stellar chain %d not found'' blockChains chainSelector (\<lambda>signer.
       wrapM (\<lambda>e. Errorf ''uncurse on chain %d: %w'' [AInt chainSelector, AErr e])
         (ExecuteOperation fw (rmn_remote_Uncurse lib) (FromDeployer env lib readFile)
            \<lparr>rmn_remote_UncurseInput_ContractID = rmnContractID, rmn_remote_UncurseInput_Subjects = subjects\<rparr>))"

text \<open>The adapter caches the contract ids of the chains it has been initialized for. \<open>FindAndFormatRef\<close> of chainlink-ccip, which
  finds the only reference of a chain that matches, is a parameter.\<close>

record StellarCurseAdapter =
  ca_rmnContractID :: "int \<rightharpoonup> string"
  ca_routerContractID :: "int \<rightharpoonup> string"

definition NewStellarCurseAdapter :: StellarCurseAdapter where
  "NewStellarCurseAdapter = \<lparr>ca_rmnContractID = Map.empty, ca_routerContractID = Map.empty\<rparr>"

definition stellarContractIDOnChain ::
    "sdk \<Rightarrow> (AddressRef \<Rightarrow> int \<Rightarrow> AddressRef result) \<Rightarrow> int \<Rightarrow> DatastoreSorobanContractRef \<Rightarrow> string result" where
  "stellarContractIDOnChain lib findRef selector ref =
     bind_r (findRef (PartialAddressRef ref) selector) (\<lambda>r. HexToContractStrkey lib (ar_Address r))"

definition cache_id ::
    "(int \<rightharpoonup> string) \<Rightarrow> int \<Rightarrow> string \<Rightarrow> string result \<Rightarrow> (int \<rightharpoonup> string) result" where
  "cache_id m selector msg r =
     (if m selector \<noteq> None then Ok m
      else bind_r (wrap_err (\<lambda>e. Errorf msg [AInt selector, AErr e]) r) (\<lambda>addr. Ok (m(selector \<mapsto> addr))))"

text \<open>When the second lookup fails, the first contract id stays cached: the adapter that is returned counts also on an error.\<close>

definition curse_Initialize ::
    "ccip_names \<Rightarrow> sdk \<Rightarrow> (AddressRef \<Rightarrow> int \<Rightarrow> AddressRef result) \<Rightarrow> (int \<rightharpoonup> stellar_chain) \<Rightarrow> int \<Rightarrow> StellarCurseAdapter \<Rightarrow>
     unit result \<times> StellarCurseAdapter" where
  "curse_Initialize nm lib findRef blockChains selector a =
     (if blockChains selector = None then (Err (Errorf ''stellar chain %d not found in environment'' [AInt selector]), a)
      else case cache_id (ca_rmnContractID a) selector ''resolve RMN Remote on chain %d: %w''
                  (stellarContractIDOnChain lib findRef selector (RMNRemoteDatastoreRef nm)) of
        Err e \<Rightarrow> (Err e, a)
      | Panic q \<Rightarrow> (Panic q, a)
      | Ok m \<Rightarrow>
          (let a1 = a\<lparr>ca_rmnContractID := m\<rparr> in
           case cache_id (ca_routerContractID a1) selector ''resolve Router on chain %d: %w''
                  (stellarContractIDOnChain lib findRef selector (RouterDatastoreRef nm)) of
             Err e \<Rightarrow> (Err e, a1)
           | Panic q \<Rightarrow> (Panic q, a1)
           | Ok m' \<Rightarrow> (Ok (), a1\<lparr>ca_routerContractID := m'\<rparr>)))"

definition with_cached ::
    "sdk \<Rightarrow> (int \<rightharpoonup> string) \<Rightarrow> string \<Rightarrow> (int \<rightharpoonup> stellar_chain) \<Rightarrow> int \<Rightarrow> (string \<Rightarrow> 'a dep) \<Rightarrow> 'a result \<times> Deployer option" where
  "with_cached lib ids msg blockChains selector body =
     (case ids selector of
        None \<Rightarrow> (Err (Errorf msg [AInt selector]), None)
      | Some cid \<Rightarrow>
          (case blockChains selector of
             None \<Rightarrow> (Err (Errorf ''stellar chain %d not in environment'' [AInt selector]), None)
           | Some ch \<Rightarrow> with_deployer lib (\<lambda>e. e) ch (body cid)))"

definition IsSubjectCursedOnChain ::
    "denv \<Rightarrow> sdk \<Rightarrow> StellarCurseAdapter \<Rightarrow> (int \<rightharpoonup> stellar_chain) \<Rightarrow> int \<Rightarrow> bytes \<Rightarrow> bool result \<times> Deployer option" where
  "IsSubjectCursedOnChain env lib a blockChains selector subject =
     with_cached lib (ca_rmnContractID a) ''no RMN Remote cached for chain %d'' blockChains selector (\<lambda>rmnID.
       Bind_RmnRemote.IsCursedBySubject lib (NewRmnRemoteClient (deployer_invoker env lib) rmnID) subject)"

definition IsChainConnectedToTargetChain ::
    "denv \<Rightarrow> sdk \<Rightarrow> StellarCurseAdapter \<Rightarrow> (int \<rightharpoonup> stellar_chain) \<Rightarrow> int \<Rightarrow> int \<Rightarrow> bool result \<times> Deployer option" where
  "IsChainConnectedToTargetChain env lib a blockChains selector targetSel =
     with_cached lib (ca_routerContractID a) ''no Router cached for chain %d'' blockChains selector (\<lambda>routerID.
       Bind_Router.IsChainSupported lib (NewRouterClient (deployer_invoker env lib) routerID) targetSel)"

definition IsCurseEnabledForChain :: "StellarCurseAdapter \<Rightarrow> int \<Rightarrow> bool" where
  "IsCurseEnabledForChain a selector \<longleftrightarrow> ca_rmnContractID a selector \<noteq> None"

definition wrapCurseSequence ::
    "StellarCurseAdapter \<Rightarrow> (int \<Rightarrow> bytes list \<Rightarrow> string \<Rightarrow> unit result \<times> Deployer option) \<Rightarrow> int \<Rightarrow> bytes list \<Rightarrow> unit result \<times> Deployer option" where
  "wrapCurseSequence a inner chainSelector subjects =
     (case ca_rmnContractID a chainSelector of
        None \<Rightarrow> (Err (Errorf ''no RMN Remote cached for chain %d'' [AInt chainSelector]), None)
      | Some rmnID \<Rightarrow> inner chainSelector subjects rmnID)"

fun connected_loop :: "chainsel \<Rightarrow> (string \<Rightarrow> bool) \<Rightarrow> OffRampEntry list \<Rightarrow> int list \<Rightarrow> int list" where
  "connected_loop cs registered [] found = found"
| "connected_loop cs registered (entry # es) found =
     (if OffRampEntry_Offramp entry = [] then connected_loop cs registered es found
      else (case GetSelectorFamily cs (OffRampEntry_SourceChainSelector entry) of
              Ok family \<Rightarrow>
                if \<not> registered family then connected_loop cs registered es found
                else if OffRampEntry_SourceChainSelector entry \<in> set found then connected_loop cs registered es found
                else connected_loop cs registered es (found @ [OffRampEntry_SourceChainSelector entry])
            | _ \<Rightarrow> connected_loop cs registered es found))"

definition ListConnectedChains ::
    "denv \<Rightarrow> sdk \<Rightarrow> chainsel \<Rightarrow> (string \<Rightarrow> bool) \<Rightarrow> StellarCurseAdapter \<Rightarrow> (int \<rightharpoonup> stellar_chain) \<Rightarrow> int \<Rightarrow> int list result \<times> Deployer option" where
  "ListConnectedChains env lib cs registered a blockChains selector =
     with_cached lib (ca_routerContractID a) ''no Router cached for chain %d'' blockChains selector (\<lambda>routerID.
       bindM (wrapM (\<lambda>e. Errorf ''get offramps on chain %d: %w'' [AInt selector, AErr e])
                (Bind_Router.GetOfframps lib (NewRouterClient (deployer_invoker env lib) routerID))) (\<lambda>offRamps.
       okM (connected_loop cs registered offRamps [])))"

section \<open>Fees and the fee aggregator (sequences/fee.go and the fee adapters)\<close>

text \<open>The settings of chainlink-ccip are maps; the order in which Go ranges over them is the order of the lists here.\<close>

record TokenTransferFeeArgs =
  tf_DestBytesOverhead :: int
  tf_DestGasOverhead :: int
  tf_MinFeeUSDCents :: int
  tf_IsEnabled :: bool

definition token_fee_config :: "int \<Rightarrow> string \<Rightarrow> TokenTransferFeeArgs \<Rightarrow> TokenFeeConfigArgs" where
  "token_fee_config destSel token feeArgs =
     \<lparr>TokenFeeConfigArgs_Config = \<lparr>TokenTransferFeeConfig_DestBytesOverhead = tf_DestBytesOverhead feeArgs,
        TokenTransferFeeConfig_DestGasOverhead = tf_DestGasOverhead feeArgs,
        TokenTransferFeeConfig_FeeUsdCents = tf_MinFeeUSDCents feeArgs, TokenTransferFeeConfig_IsEnabled = tf_IsEnabled feeArgs\<rparr>,
      TokenFeeConfigArgs_DestChainSelector = destSel, TokenFeeConfigArgs_Token = token\<rparr>"

fun token_fee_loop :: "int \<Rightarrow> (string \<times> TokenTransferFeeArgs option) list \<Rightarrow> TokenFeeConfigArgs list \<Rightarrow> TokenFeeConfigArgs list" where
  "token_fee_loop destSel [] cfgArgs = cfgArgs"
| "token_fee_loop destSel ((token, feeArgs) # fees) cfgArgs =
     (case feeArgs of
        None \<Rightarrow> token_fee_loop destSel fees cfgArgs
      | Some a \<Rightarrow> token_fee_loop destSel fees (cfgArgs @ [token_fee_config destSel token a]))"

fun transfer_fee_args ::
    "(int \<times> (string \<times> TokenTransferFeeArgs option) list) list \<Rightarrow> TokenFeeConfigArgs list \<Rightarrow> TokenFeeConfigArgs list" where
  "transfer_fee_args [] cfgArgs = cfgArgs"
| "transfer_fee_args ((destSel, tokenFees) # settings) cfgArgs = transfer_fee_args settings (token_fee_loop destSel tokenFees cfgArgs)"

definition StellarSetTokenTransferFee ::
    "Deployer framework \<Rightarrow> denv \<Rightarrow> sdk \<Rightarrow> (string \<Rightarrow> bytes result) \<Rightarrow> (int \<rightharpoonup> stellar_chain) \<Rightarrow> int \<Rightarrow>
     (int \<times> (string \<times> TokenTransferFeeArgs option) list) list \<Rightarrow> string \<Rightarrow> unit result \<times> Deployer option" where
  "StellarSetTokenTransferFee fw env lib readFile blockChains selector settings fqContractID =
     on_chain lib ''stellar chain %d not found'' blockChains selector (\<lambda>_.
       let cfgArgs = transfer_fee_args settings [] in
       if cfgArgs = [] then okM ()
       else wrapM (\<lambda>e. Errorf ''apply token fee configs on chain %d: %w'' [AInt selector, AErr e])
              (ExecuteOperation fw (fee_quoter_ApplyTokenFeeConfigs lib) (FromDeployer env lib readFile)
                 \<lparr>fee_quoter_ApplyTokenFeeConfigsInput_ContractID = fqContractID,
                  fee_quoter_ApplyTokenFeeConfigsInput_AddConfigs = cfgArgs, fee_quoter_ApplyTokenFeeConfigsInput_RemoveArgs = []\<rparr>))"

record FeeQuoterDestChainConfig =
  fd_IsEnabled :: bool
  fd_MaxDataBytes :: int
  fd_MaxPerMsgGasLimit :: int
  fd_DestGasOverhead :: int
  fd_DestGasPerPayloadByteBase :: int
  fd_DefaultTokenFeeUSDCents :: int
  fd_DefaultTokenDestGasOverhead :: int
  fd_DefaultTxGasLimit :: int
  fd_NetworkFeeUSDCents :: int
  fd_LinkFeeMultiplierPercent :: "int option"

text \<open>\<open>V2Params\<close> is a pointer; the access to a field of a nil one panics.\<close>

definition dest_chain_config :: "int \<Rightarrow> FeeQuoterDestChainConfig \<Rightarrow> DestChainConfigArgs result" where
  "dest_chain_config destSel cfg =
     (case fd_LinkFeeMultiplierPercent cfg of
        None \<Rightarrow> Panic ''nil pointer dereference''
      | Some link \<Rightarrow> Ok
         \<lparr>DestChainConfigArgs_Config = \<lparr>DestChainConfig_DefaultTokenDestGas = fd_DefaultTokenDestGasOverhead cfg,
            DestChainConfig_DefaultTokenFeeUsd = fd_DefaultTokenFeeUSDCents cfg mod 2 ^ 32,
            DestChainConfig_DefaultTxGasLimit = fd_DefaultTxGasLimit cfg, DestChainConfig_DestGasOverhead = fd_DestGasOverhead cfg,
            DestChainConfig_DestGasPerPayloadByte = fd_DestGasPerPayloadByteBase cfg mod 2 ^ 32,
            DestChainConfig_IsEnabled = fd_IsEnabled cfg, DestChainConfig_LinkPremiumPercent = link mod 2 ^ 32,
            DestChainConfig_MaxDataBytes = fd_MaxDataBytes cfg, DestChainConfig_MaxPerMsgGasLimit = fd_MaxPerMsgGasLimit cfg,
            DestChainConfig_NetworkFeeUsdCents = fd_NetworkFeeUSDCents cfg mod 2 ^ 32\<rparr>,
          DestChainConfigArgs_DestChainSelector = destSel\<rparr>)"

fun dest_config_args :: "(int \<times> FeeQuoterDestChainConfig) list \<Rightarrow> DestChainConfigArgs list \<Rightarrow> DestChainConfigArgs list result" where
  "dest_config_args [] cfgArgs = Ok cfgArgs"
| "dest_config_args ((destSel, cfg) # settings) cfgArgs =
     bind_r (dest_chain_config destSel cfg) (\<lambda>c. dest_config_args settings (cfgArgs @ [c]))"

definition StellarApplyDestChainConfig ::
    "Deployer framework \<Rightarrow> denv \<Rightarrow> sdk \<Rightarrow> (string \<Rightarrow> bytes result) \<Rightarrow> (int \<rightharpoonup> stellar_chain) \<Rightarrow> int \<Rightarrow>
     (int \<times> FeeQuoterDestChainConfig) list \<Rightarrow> string \<Rightarrow> unit result \<times> Deployer option" where
  "StellarApplyDestChainConfig fw env lib readFile blockChains selector settings fqContractID =
     on_chain lib ''stellar chain %d not found'' blockChains selector (\<lambda>_.
       bindM (liftM (dest_config_args settings [])) (\<lambda>cfgArgs.
       if cfgArgs = [] then okM ()
       else wrapM (\<lambda>e. Errorf ''apply dest chain configs on chain %d: %w'' [AInt selector, AErr e])
              (ExecuteOperation fw (fee_quoter_ApplyDestChainConfigs lib) (FromDeployer env lib readFile)
                 \<lparr>fee_quoter_ApplyDestChainConfigsInput_ContractID = fqContractID,
                  fee_quoter_ApplyDestChainConfigsInput_Configs = cfgArgs\<rparr>)))"

text \<open>The fee adapter (adapters/stellar\_fee\_adapter.go): the sequences on the strkey of a recorded fee quoter, and the check of a reference.\<close>

definition with_fee_quoter ::
    "sdk \<Rightarrow> AddressRef \<Rightarrow> int \<Rightarrow> (string \<Rightarrow> unit result \<times> Deployer option) \<Rightarrow> unit result \<times> Deployer option" where
  "with_fee_quoter lib fq selector inner =
     (case wrap_err (\<lambda>e. Errorf ''fee quoter datastore address to strkey for chain %d: %w'' [AInt selector, AErr e])
             (HexToContractStrkey lib (ar_Address fq)) of
        Ok fqStrkey \<Rightarrow> inner fqStrkey
      | Err e \<Rightarrow> (Err e, None)
      | Panic q \<Rightarrow> (Panic q, None))"

definition SetTokenTransferFee ::
    "Deployer framework \<Rightarrow> denv \<Rightarrow> sdk \<Rightarrow> (string \<Rightarrow> bytes result) \<Rightarrow> AddressRef \<Rightarrow> (int \<rightharpoonup> stellar_chain) \<Rightarrow> int \<Rightarrow>
     (int \<times> (string \<times> TokenTransferFeeArgs option) list) list \<Rightarrow> unit result \<times> Deployer option" where
  "SetTokenTransferFee fw env lib readFile fq blockChains selector settings =
     with_fee_quoter lib fq selector (StellarSetTokenTransferFee fw env lib readFile blockChains selector settings)"

definition ApplyDestChainConfigUpdates ::
    "Deployer framework \<Rightarrow> denv \<Rightarrow> sdk \<Rightarrow> (string \<Rightarrow> bytes result) \<Rightarrow> AddressRef \<Rightarrow> (int \<rightharpoonup> stellar_chain) \<Rightarrow> int \<Rightarrow>
     (int \<times> FeeQuoterDestChainConfig) list \<Rightarrow> unit result \<times> Deployer option" where
  "ApplyDestChainConfigUpdates fw env lib readFile feeRef blockChains selector settings =
     with_fee_quoter lib feeRef selector (StellarApplyDestChainConfig fw env lib readFile blockChains selector settings)"

definition fee_Validate :: "sdk \<Rightarrow> AddressRef \<Rightarrow> unit result" where
  "fee_Validate lib feeRef =
     (if ar_Address feeRef = [] then Err (New ''fee quoter address is empty'')
      else bind_r (wrap_err (\<lambda>e. Errorf ''invalid fee quoter address %q: %w'' [AStr (ar_Address feeRef), AErr e])
                     (HexToContractStrkey lib (ar_Address feeRef))) (\<lambda>_. Ok ()))"

record FeeAggregatorForChain =
  fa_ChainSelector :: int
  fa_FeeAggregator :: string
  fa_Contracts :: "AddressRef list"

definition aggregate_onramp :: "ccip_names \<Rightarrow> denv \<Rightarrow> sdk \<Rightarrow> 'd datastore \<Rightarrow> 'd \<Rightarrow> int \<Rightarrow> string \<Rightarrow> unit dep" where
  "aggregate_onramp nm env lib ds st sel feeAgg =
     bindM (wrapM (\<lambda>e. Errorf ''resolve OnRamp: %w'' [AErr e]) (liftM (GetOnRampStrkey nm lib ds st sel))) (\<lambda>onID.
     bindM (wrapM (\<lambda>e. Errorf ''onramp get dynamic config: %w'' [AErr e])
              (Bind_Onramp.GetDynamicConfig lib (NewOnRampClient (deployer_invoker env lib) onID))) (\<lambda>dyn.
     wrapM (\<lambda>e. Errorf ''onramp set dynamic config: %w'' [AErr e])
       (Bind_Onramp.SetDynamicConfig lib (NewOnRampClient (deployer_invoker env lib) onID)
          (dyn\<lparr>Bind_Onramp.DynamicConfig_FeeAggregator := feeAgg\<rparr>))))"

definition aggregate_vvr :: "ccip_names \<Rightarrow> denv \<Rightarrow> sdk \<Rightarrow> 'd datastore \<Rightarrow> 'd \<Rightarrow> int \<Rightarrow> string \<Rightarrow> unit dep" where
  "aggregate_vvr nm env lib ds st sel feeAgg =
     bindM (wrapM (\<lambda>e. Errorf ''resolve VVR: %w'' [AErr e]) (liftM (GetVVRStrkey nm lib ds st sel))) (\<lambda>vvrID.
     wrapM (\<lambda>e. Errorf ''vvr set_fee_aggregator: %w'' [AErr e])
       (Bind_VersionedVerifierResolver.SetFeeAggregator lib (NewVersionedVerifierResolverClient (deployer_invoker env lib) vvrID) feeAgg))"

definition aggregate_cv :: "ccip_names \<Rightarrow> denv \<Rightarrow> sdk \<Rightarrow> 'd datastore \<Rightarrow> 'd \<Rightarrow> int \<Rightarrow> string \<Rightarrow> unit dep" where
  "aggregate_cv nm env lib ds st sel feeAgg =
     bindM (wrapM (\<lambda>e. Errorf ''resolve CommitteeVerifier: %w'' [AErr e]) (liftM (GetCommitteeVerifierStrkey nm lib ds st sel))) (\<lambda>cvID.
     bindM (wrapM (\<lambda>e. Errorf ''committee verifier get dynamic config: %w'' [AErr e])
              (Bind_CommitteeVerifier.GetDynamicConfig lib (NewCommitteeVerifierClient (deployer_invoker env lib) cvID))) (\<lambda>dyn.
     wrapM (\<lambda>e. Errorf ''committee verifier set dynamic config: %w'' [AErr e])
       (Bind_CommitteeVerifier.SetDynamicConfig lib (NewCommitteeVerifierClient (deployer_invoker env lib) cvID)
          (dyn\<lparr>Bind_CommitteeVerifier.DynamicConfig_FeeAggregator := Some feeAgg\<rparr>))))"

definition wanted_types :: "ccip_names \<Rightarrow> AddressRef list \<Rightarrow> string list" where
  "wanted_types nm contracts =
     (if contracts = [] then [sr_Type (OnRampDatastoreRef nm), sr_Type (VVRDatastoreRef nm), sr_Type (CommitteeVerifierDatastoreRef nm)]
      else map ar_Type contracts)"

definition ApplyStellarFeeAggregator ::
    "ccip_names \<Rightarrow> denv \<Rightarrow> sdk \<Rightarrow> 'd datastore \<Rightarrow> 'd option \<Rightarrow> (int \<rightharpoonup> stellar_chain) \<Rightarrow> FeeAggregatorForChain \<Rightarrow> unit result \<times> Deployer option" where
  "ApplyStellarFeeAggregator nm env lib ds store blockChains inp =
     (case store of
        None \<Rightarrow> (Err (New ''environment DataStore is nil''), None)
      | Some st \<Rightarrow>
          (case ParseFeeAggregatorAddress lib (fa_FeeAggregator inp) of
             Err e \<Rightarrow> (Err e, None)
           | Panic q \<Rightarrow> (Panic q, None)
           | Ok feeAgg \<Rightarrow>
               (case blockChains (fa_ChainSelector inp) of
                  None \<Rightarrow> (Err (Errorf ''stellar chain %d not found in environment'' [AInt (fa_ChainSelector inp)]), None)
                | Some ch \<Rightarrow>
                    (let sel = fa_ChainSelector inp; want = set (wanted_types nm (fa_Contracts inp)) in
                     with_deployer lib (\<lambda>e. Errorf ''stellar deployer from chain: %w'' [AErr e]) ch
                       (bindM (if sr_Type (OnRampDatastoreRef nm) \<in> want then aggregate_onramp nm env lib ds st sel feeAgg else okM ()) (\<lambda>_.
                        bindM (if sr_Type (VVRDatastoreRef nm) \<in> want then aggregate_vvr nm env lib ds st sel feeAgg else okM ()) (\<lambda>_.
                        if sr_Type (CommitteeVerifierDatastoreRef nm) \<in> want then aggregate_cv nm env lib ds st sel feeAgg else okM ())))))))"

definition GetFeeAggregator ::
    "ccip_names \<Rightarrow> denv \<Rightarrow> sdk \<Rightarrow> 'd datastore \<Rightarrow> 'd option \<Rightarrow> (int \<rightharpoonup> stellar_chain) \<Rightarrow> int \<Rightarrow> string result \<times> Deployer option" where
  "GetFeeAggregator nm env lib ds store blockChains chainSelector =
     (case store of
        None \<Rightarrow> (Err (New ''environment DataStore is nil''), None)
      | Some st \<Rightarrow>
          (case blockChains chainSelector of
             None \<Rightarrow> (Err (Errorf ''stellar chain %d not found in environment'' [AInt chainSelector]), None)
           | Some ch \<Rightarrow>
               with_deployer lib (\<lambda>e. Errorf ''stellar deployer from chain: %w'' [AErr e]) ch
                 (bindM (wrapM (\<lambda>e. Errorf ''resolve VVR for chain %d: %w'' [AInt chainSelector, AErr e])
                           (liftM (GetVVRStrkey nm lib ds st chainSelector))) (\<lambda>vvrID.
                  Bind_VersionedVerifierResolver.GetFeeAggregator lib
                    (NewVersionedVerifierResolverClient (deployer_invoker env lib) vvrID)))))"

end
