(* ===== verification/Governance_Runs.thy ===== *)
theory Governance_Runs
  imports Governance
begin

text \<open>
  What the governance sequences do when they return. A deployment is split into its three parts, the
  multisig, its configuration and the timelock, each either found among the recorded addresses or
  deployed and initialized; the properties say which calls a deployment consists of, that a second
  deployment with the recorded addresses only sets the configuration again, which chains count as
  connected, and that setting a fee aggregator changes no other field of a configuration.
\<close>

section \<open>What a deployment of the governance contracts consists of\<close>

text \<open>A deployment through the framework: the deployer creates the contract, or the framework has a report of that deployment.\<close>

definition deploys ::
    "Deployer framework \<Rightarrow> denv \<Rightarrow> sdk \<Rightarrow> (string \<Rightarrow> bytes result) \<Rightarrow> string \<Rightarrow> bytes \<Rightarrow> string \<Rightarrow> Deployer \<Rightarrow> Deployer \<Rightarrow> bool" where
  "deploys fw env lib readFile wasm salt cid d d' \<longleftrightarrow>
     (\<exists>i. reported_deploy fw i (op_handler (NewDeployOperation i) (FromDeployer env lib readFile)
        \<lparr>DeployInput_WasmPath = wasm, DeployInput_Salt = salt\<rparr>) = Some \<lparr>DeployOutput_ContractID = cid\<rparr>) \<and> d' = d \<or>
     run_state (DeployContract env lib readFile wasm salt) d = (Ok cid, d')"

lemma executed_deploys:
  assumes "framework_laws fw"
    and "run_state (ExecuteDeploy fw (NewDeployOperation i) (FromDeployer env lib readFile) \<lparr>DeployInput_WasmPath = w, DeployInput_Salt = salt\<rparr>) d = (Ok out, d')"
  shows "deploys fw env lib readFile w salt (DeployOutput_ContractID out) d d'"
  using assms unfolding ExecuteDeploy_def framework_laws_def deploys_def
  by (cases out) (auto simp: NewDeployOperation_def FromDeployer_def split: option.splits prod.splits)

definition set_config_args :: "sdk \<Rightarrow> Bind_Mcms.SignerAddresses \<times> Bind_Mcms.SignerGroups \<times> bytes \<times> bytes \<times> bool \<Rightarrow> ScVal result list" where
  "set_config_args lib cfg = (case cfg of (signerAddrs, signerGroups, gq, gp, _) \<Rightarrow>
     [MustToScVal (SignerAddresses_ToScVal lib signerAddrs), MustToScVal (SignerGroups_ToScVal lib signerGroups),
      Ok (Bytes32ToScVal gq), Ok (Bytes32ToScVal gp), Ok (BoolToScVal True)])"

lemma set_mcms_config_calls:
  assumes "txnbuild_laws lib" "sdk_laws lib" "framework_laws fw"
    and "run_state (set_mcms_config fw lib (FromDeployer env lib readFile) cid cfg) d = (Ok (), d')"
  shows "calls fw env lib cid ''set_config'' (set_config_args lib cfg) d d'"
  using assms unfolding set_mcms_config_def set_config_args_def
  by (cases cfg) (auto simp: mcms_SetConfig_def Bind_Mcms.SetConfig_def NewMcmsClient_def FromDeployer_def intro!: executed_calls [OF assms(1-3)])

text \<open>The multisig is the recorded one, or a new one that has been initialized with the deployer as owner.\<close>

definition mcms_ready ::
    "Deployer framework \<Rightarrow> denv \<Rightarrow> process_env \<Rightarrow> hashing \<Rightarrow> sdk \<Rightarrow> (string \<Rightarrow> bytes result) \<Rightarrow> stellar_chain \<Rightarrow> int \<Rightarrow> string \<Rightarrow> string option \<Rightarrow>
     string \<Rightarrow> Deployer \<Rightarrow> Deployer \<Rightarrow> bool" where
  "mcms_ready fw env os hs lib readFile ch sel qual known cid d d' \<longleftrightarrow>
     known = Some cid \<and> d' = d \<or>
     known = None \<and> (\<exists>wasm d1. ResolveMCMSWasmPath os = Ok wasm \<and>
        deploys fw env lib readFile wasm (MCMSDeploySalt hs sel qual) cid d d1 \<and>
        calls fw env lib cid ''initialize'' [Ok (AddressToScVal lib (chain_address ch)),
          Ok (Bytes32ToScVal (ChainNetworkID hs (ch_NetworkPassphrase ch)))] d1 d')"

text \<open>The timelock is the recorded one, or a new one with the chain's signer as admin whose proposer, canceller and bypasser is the
  multisig alone, without an executor.\<close>

definition timelock_ready ::
    "Deployer framework \<Rightarrow> denv \<Rightarrow> process_env \<Rightarrow> hashing \<Rightarrow> sdk \<Rightarrow> (string \<Rightarrow> bytes result) \<Rightarrow> stellar_chain \<Rightarrow> 'c MCMSDeploymentConfig \<Rightarrow> string \<Rightarrow>
     string option \<Rightarrow> string \<Rightarrow> string \<Rightarrow> Deployer \<Rightarrow> Deployer \<Rightarrow> bool" where
  "timelock_ready fw env os hs lib readFile ch inp qual known cid tid d d' \<longleftrightarrow>
     known = Some tid \<and> d' = d \<or>
     known = None \<and> md_TimelockAdmin inp = replicate 20 0 \<and>
       (\<exists>wasm delay d1. ResolveTimelockWasmPath os = Ok wasm \<and>
          delay = (case md_TimelockMinDelay inp of None \<Rightarrow> 0 | Some n \<Rightarrow> n) \<and> in_u64 delay \<and>
          deploys fw env lib readFile wasm (TimelockDeploySalt hs (md_ChainSelector inp) qual) tid d d1 \<and>
          calls fw env lib tid ''initialize'' [Ok (Uint64ToScVal delay), Ok (AddressToScVal lib (chain_address ch)),
            Ok (AddressSliceToScVal lib [cid]), Ok (AddressSliceToScVal lib []), Ok (AddressSliceToScVal lib [cid]),
            Ok (AddressSliceToScVal lib [cid])] d1 d')"

lemma known_ready:
  "mcms_ready fw env os hs lib readFile ch sel qual (Some c) cid d d' \<longleftrightarrow> cid = c \<and> d' = d"
  "timelock_ready fw env os hs lib readFile ch inp qual (Some c) cid tid d d' \<longleftrightarrow> tid = c \<and> d' = d"
  by (auto simp: mcms_ready_def timelock_ready_def)

lemma deploy_mcms_ready:
  assumes laws: "txnbuild_laws lib" "sdk_laws lib" "framework_laws fw"
    and run: "run_state (deploy_mcms fw os hs lib (FromDeployer env lib readFile) ch sel qual) d = (Ok cid, d')"
  shows "mcms_ready fw env os hs lib readFile ch sel qual None cid d d'"
proof -
  let ?inp = "\<lparr>mcms_InitializeInput_ContractID = cid, mcms_InitializeInput_Owner = chain_address ch,
    mcms_InitializeInput_ChainNetworkID = ChainNetworkID hs (ch_NetworkPassphrase ch)\<rparr>"
  from run obtain wasm out d1 where wasm: "ResolveMCMSWasmPath os = Ok wasm"
    and dep: "run_state (ExecuteDeploy fw (NewDeployOperation ''mcms:deploy'') (FromDeployer env lib readFile)
      \<lparr>DeployInput_WasmPath = wasm, DeployInput_Salt = MCMSDeploySalt hs sel qual\<rparr>) d = (Ok out, d1)"
    and cid: "DeployOutput_ContractID out = cid"
    and init: "run_state (ExecuteOperation fw (mcms_Initialize lib) (FromDeployer env lib readFile) ?inp) d1 = (Ok (), d')"
    unfolding deploy_mcms_def mcms_Deploy_def by (auto elim!: bindM_Ok wrapM_Ok)
  from executed_deploys [OF laws(3) dep] cid
  have "deploys fw env lib readFile wasm (MCMSDeploySalt hs sel qual) cid d d1" by simp
  moreover have "calls fw env lib cid ''initialize'' [Ok (AddressToScVal lib (chain_address ch)),
      Ok (Bytes32ToScVal (ChainNetworkID hs (ch_NetworkPassphrase ch)))] d1 d'"
    by (rule executed_calls [OF laws _ init]) (simp add: mcms_Initialize_def Bind_Mcms.Initialize_def NewMcmsClient_def FromDeployer_def)
  ultimately show ?thesis using wasm unfolding mcms_ready_def by blast
qed

lemma deploy_timelock_ready:
  assumes laws: "txnbuild_laws lib" "sdk_laws lib" "framework_laws fw"
    and run: "run_state (deploy_timelock fw os hs lib (FromDeployer env lib readFile) ch inp qual cid) d = (Ok tid, d')"
  shows "timelock_ready fw env os hs lib readFile ch inp qual None cid tid d d'"
proof -
  let ?inp = "\<lambda>delay. \<lparr>timelock_InitializeInput_ContractID = tid, timelock_InitializeInput_MinDelay = delay,
    timelock_InitializeInput_Admin = chain_address ch, timelock_InitializeInput_Proposers = [cid],
    timelock_InitializeInput_Executors = [], timelock_InitializeInput_Cancellers = [cid], timelock_InitializeInput_Bypassers = [cid]\<rparr>"
  from run obtain wasm out d1 admin delay where wasm: "ResolveTimelockWasmPath os = Ok wasm"
    and dep: "run_state (ExecuteDeploy fw (NewDeployOperation ''timelock:deploy'') (FromDeployer env lib readFile)
      \<lparr>DeployInput_WasmPath = wasm, DeployInput_Salt = TimelockDeploySalt hs (md_ChainSelector inp) qual\<rparr>) d = (Ok out, d1)"
    and tid: "DeployOutput_ContractID out = tid" and admin: "stellarTimelockAdmin inp ch = Ok admin"
    and delay: "min_delay (md_TimelockMinDelay inp) = Ok delay"
    and init: "run_state (ExecuteOperation fw (timelock_Initialize lib) (FromDeployer env lib readFile)
      (?inp delay\<lparr>timelock_InitializeInput_Admin := admin\<rparr>)) d1 = (Ok (), d')"
    unfolding deploy_timelock_def timelock_Deploy_def by (auto elim!: bindM_Ok wrapM_Ok)
  from admin have zero: "md_TimelockAdmin inp = replicate 20 0" and owner: "admin = chain_address ch"
    by (simp_all add: stellarTimelockAdmin_def split: if_splits)
  have fits: "delay = (case md_TimelockMinDelay inp of None \<Rightarrow> 0 | Some n \<Rightarrow> n) \<and> in_u64 delay"
    using delay by (auto simp: min_delay_def in_u64_def split: option.splits if_splits)
  from executed_deploys [OF laws(3) dep] tid
  have deployed: "deploys fw env lib readFile wasm (TimelockDeploySalt hs (md_ChainSelector inp) qual) tid d d1" by simp
  have "calls fw env lib tid ''initialize'' [Ok (Uint64ToScVal delay), Ok (AddressToScVal lib (chain_address ch)),
      Ok (AddressSliceToScVal lib [cid]), Ok (AddressSliceToScVal lib []), Ok (AddressSliceToScVal lib [cid]),
      Ok (AddressSliceToScVal lib [cid])] d1 d'"
    by (rule executed_calls [OF laws _ init])
      (simp add: timelock_Initialize_def Bind_Timelock.Initialize_def NewTimelockClient_def FromDeployer_def owner)
  with wasm zero fits deployed show ?thesis unfolding timelock_ready_def by blast
qed

text \<open>The three parts of a deployment, from the deployer \<open>d\<close> to \<open>d'\<close>.\<close>

definition governance_deployed ::
    "Deployer framework \<Rightarrow> denv \<Rightarrow> process_env \<Rightarrow> hashing \<Rightarrow> sdk \<Rightarrow> ccip_names \<Rightarrow> 'c mcms_lib \<Rightarrow> (string \<Rightarrow> bytes result) \<Rightarrow> stellar_chain \<Rightarrow>
     'c MCMSDeploymentConfig \<Rightarrow> Bind_Mcms.SignerAddresses \<times> Bind_Mcms.SignerGroups \<times> bytes \<times> bytes \<times> bool \<Rightarrow> string \<Rightarrow> string \<Rightarrow>
     Deployer \<Rightarrow> Deployer \<Rightarrow> bool" where
  "governance_deployed fw env os hs lib nm ml readFile ch inp cfg cid tid d d' \<longleftrightarrow>
     (let sel = md_ChainSelector inp; qual = QualifierStr (md_Qualifier inp); existing = md_ExistingAddresses inp in
      \<exists>d1 d2. mcms_ready fw env os hs lib readFile ch sel qual (FindExistingStellarMCMS nm ml existing sel qual) cid d d1 \<and>
        calls fw env lib cid ''set_config'' (set_config_args lib cfg) d1 d2 \<and>
        timelock_ready fw env os hs lib readFile ch inp qual
          (FindExistingStellarTimelock nm ml (existing @ StellarMCMSDatastoreRefs nm sel qual cid) sel qual) cid tid d2 d')"

definition governance_refs :: "ccip_names \<Rightarrow> 'c MCMSDeploymentConfig \<Rightarrow> string \<Rightarrow> string \<Rightarrow> AddressRef list" where
  "governance_refs nm inp cid tid =
     StellarMCMSDatastoreRefs nm (md_ChainSelector inp) (QualifierStr (md_Qualifier inp)) cid @
     [StellarTimelockDatastoreRef nm (md_ChainSelector inp) (QualifierStr (md_Qualifier inp)) tid]"

lemma deploy_body_deployed:
  assumes laws: "txnbuild_laws lib" "sdk_laws lib" "framework_laws fw"
    and run: "run_state (deploy_body fw os hs lib nm ml (FromDeployer env lib readFile) ch inp cfg) d = (Ok out, d')"
  shows "\<exists>cid tid. governance_deployed fw env os hs lib nm ml readFile ch inp cfg cid tid d d' \<and> out = governance_refs nm inp cid tid"
proof -
  let ?sel = "md_ChainSelector inp" and ?qual = "QualifierStr (md_Qualifier inp)" and ?ex = "md_ExistingAddresses inp"
  let ?refs = "StellarMCMSDatastoreRefs nm ?sel ?qual"
  from run obtain cid d1 d2 tid
    where mcms: "run_state (case FindExistingStellarMCMS nm ml ?ex ?sel ?qual of Some c \<Rightarrow> okM c
        | None \<Rightarrow> deploy_mcms fw os hs lib (FromDeployer env lib readFile) ch ?sel ?qual) d = (Ok cid, d1)"
      and conf: "run_state (set_mcms_config fw lib (FromDeployer env lib readFile) cid cfg) d1 = (Ok (), d2)"
      and lock: "run_state (case FindExistingStellarTimelock nm ml (?ex @ ?refs cid) ?sel ?qual of Some t \<Rightarrow> okM t
        | None \<Rightarrow> deploy_timelock fw os hs lib (FromDeployer env lib readFile) ch inp ?qual cid) d2 = (Ok tid, d')"
      and out: "out = governance_refs nm inp cid tid"
    unfolding deploy_body_def Let_def governance_refs_def by (auto elim!: bindM_Ok wrapM_Ok)
  have "mcms_ready fw env os hs lib readFile ch ?sel ?qual (FindExistingStellarMCMS nm ml ?ex ?sel ?qual) cid d d1"
    using mcms by (cases "FindExistingStellarMCMS nm ml ?ex ?sel ?qual") (auto intro: deploy_mcms_ready [OF laws] simp: known_ready)
  moreover have "timelock_ready fw env os hs lib readFile ch inp ?qual
      (FindExistingStellarTimelock nm ml (?ex @ ?refs cid) ?sel ?qual) cid tid d2 d'"
    using lock by (cases "FindExistingStellarTimelock nm ml (?ex @ ?refs cid) ?sel ?qual") (auto intro: deploy_timelock_ready [OF laws] simp: known_ready)
  ultimately show ?thesis using set_mcms_config_calls [OF laws conf] out unfolding governance_deployed_def Let_def by blast
qed

lemma with_deployer_Ok:
  assumes "with_deployer lib g ch body = (Ok x, res)"
  obtains d d' where "NewDeployerFromChain lib (ch_Signer ch) (ch_NetworkPassphrase ch) [] = Ok d"
    and "run_state body d = (Ok x, d')" and "res = Some d'"
  using assms by (auto simp: with_deployer_def wrap_err_Ok split: result.splits prod.splits)

lemma DeployStellarMCMS_run:
  assumes laws: "txnbuild_laws lib" "sdk_laws lib" "framework_laws fw"
    and run: "DeployStellarMCMS fw env os hs lib nm ml readFile blockChains inp = (Ok out, res)"
  shows "\<exists>ch cfg d d' cid tid. blockChains (md_ChainSelector inp) = Some ch \<and>
    Config_Equals ml (md_Proposer inp) (md_Bypasser inp) \<and> Config_Equals ml (md_Bypasser inp) (md_Canceller inp) \<and>
    ConfigToStellarSetConfig ml (Some (md_Proposer inp)) True = Ok cfg \<and>
    NewDeployerFromChain lib (ch_Signer ch) (ch_NetworkPassphrase ch) [] = Ok d \<and> res = Some d' \<and>
    governance_deployed fw env os hs lib nm ml readFile ch inp cfg cid tid d d' \<and> out = governance_refs nm inp cid tid"
proof -
  from run obtain ch merged cfg where ch: "blockChains (md_ChainSelector inp) = Some ch"
    and merged: "MergeTripleMCMSConfig ml (md_Proposer inp) (md_Bypasser inp) (md_Canceller inp) = Ok merged"
      "ConfigToStellarSetConfig ml (Some merged) True = Ok cfg"
    and body: "with_deployer lib (\<lambda>e. e) ch (deploy_body fw os hs lib nm ml (FromDeployer env lib readFile) ch inp cfg) = (Ok out, res)"
    by (auto simp: DeployStellarMCMS_def split: option.splits result.splits)
  from merged(1) have "Config_Equals ml (md_Proposer inp) (md_Bypasser inp)" "Config_Equals ml (md_Bypasser inp) (md_Canceller inp)"
    "merged = md_Proposer inp"
    by (simp_all add: MergeTripleMCMSConfig_def split: if_splits)
  moreover from body obtain d d' where "NewDeployerFromChain lib (ch_Signer ch) (ch_NetworkPassphrase ch) [] = Ok d" "res = Some d'"
    and "run_state (deploy_body fw os hs lib nm ml (FromDeployer env lib readFile) ch inp cfg) d = (Ok out, d')"
    by (elim with_deployer_Ok)
  moreover note deploy_body_deployed [OF laws this(3)]
  ultimately show ?thesis using ch merged(2) by blast
qed

section \<open>Deploying again\<close>

definition no_reports :: "'s framework \<Rightarrow> bool" where
  "no_reports fw \<longleftrightarrow> (\<forall>i h. \<not> reported_void fw i h) \<and> (\<forall>i h. reported_deploy fw i h = None)"

lemma calls_nonempty:
  assumes "no_reports fw" and "sdk_laws lib" and "calls fw env lib cid f args d d'"
  shows "cid \<noteq> []"
  using assms decode_head by (fastforce simp: calls_def no_reports_def sdk_laws_def)

lemma deployed_nonempty:
  assumes "no_reports fw" and "sdk_laws lib" and "governance_deployed fw env os hs lib nm ml readFile ch inp cfg cid tid d d'"
  shows "cid \<noteq> []" and "tid \<noteq> []"
  using assms(3) calls_nonempty [OF assms(1,2)] Find_nonempty(2)
  unfolding governance_deployed_def Let_def timelock_ready_def by blast+

lemma redeployed_finds:
  assumes ml: "mcms_lib_laws ml" and ids: "cid \<noteq> []" "tid \<noteq> []"
    and dep: "governance_deployed fw env os hs lib nm ml readFile ch inp cfg cid tid d d'"
  defines "sel \<equiv> md_ChainSelector inp" and "qual \<equiv> QualifierStr (md_Qualifier inp)"
    and "known \<equiv> md_ExistingAddresses inp @ governance_refs nm inp cid tid"
  shows "FindExistingStellarMCMS nm ml known sel qual = Some cid"
    and "FindExistingStellarTimelock nm ml (known @ rest) sel qual = Some tid"
proof -
  let ?ex = "md_ExistingAddresses inp" and ?refs = "StellarMCMSDatastoreRefs nm sel qual cid"
  have known: "known = ?ex @ ?refs @ [StellarTimelockDatastoreRef nm sel qual tid]"
    by (simp add: known_def governance_refs_def sel_def qual_def)
  have mcms: "FindExistingStellarMCMS nm ml ?ex sel qual \<in> {Some cid, None}"
    and lock: "FindExistingStellarTimelock nm ml (?ex @ ?refs) sel qual \<in> {Some tid, None}"
    using dep unfolding governance_deployed_def Let_def mcms_ready_def timelock_ready_def sel_def qual_def by blast+
  show "FindExistingStellarMCMS nm ml known sel qual = Some cid"
    using mcms by (auto simp: known FindExistingStellarMCMS_append FindExistingStellarMCMS_own [OF ml ids(1)])
  have "FindExistingStellarTimelock nm ml (?ex @ ?refs @ [StellarTimelockDatastoreRef nm sel qual tid] @ rest) sel qual =
    FindExistingStellarTimelock nm ml ((?ex @ ?refs) @ [StellarTimelockDatastoreRef nm sel qual tid] @ rest) sel qual" by simp
  also have "\<dots> = Some tid"
    using lock FindExistingStellarTimelock_own [OF ml ids(2), of nm sel qual]
    by (auto simp del: append_assoc append.simps simp: FindExistingStellarTimelock_append [of nm ml "?ex @ ?refs"]
        FindExistingStellarTimelock_append [of nm ml "[StellarTimelockDatastoreRef nm sel qual tid]"])
  finally show "FindExistingStellarTimelock nm ml (known @ rest) sel qual = Some tid" by (simp add: known)
qed

lemma redeploy_only_configures:
  assumes laws: "txnbuild_laws lib" "sdk_laws lib" "framework_laws fw" "no_reports fw" "framework_laws fw'" "mcms_lib_laws ml"
    and first: "DeployStellarMCMS fw env os hs lib nm ml readFile blockChains inp = (Ok out, res)"
    and again: "DeployStellarMCMS fw' env' os' hs' lib nm ml readFile' blockChains' inp' = (Ok out', res')"
    and inp': "md_ChainSelector inp' = md_ChainSelector inp" "md_Qualifier inp' = md_Qualifier inp"
      "md_ExistingAddresses inp' = md_ExistingAddresses inp @ out"
  shows "out' = out \<and> (\<exists>ch cfg d d'. blockChains' (md_ChainSelector inp) = Some ch \<and>
     ConfigToStellarSetConfig ml (Some (md_Proposer inp')) True = Ok cfg \<and>
     NewDeployerFromChain lib (ch_Signer ch) (ch_NetworkPassphrase ch) [] = Ok d \<and> res' = Some d' \<and>
     calls fw' env' lib (ar_Address (hd out)) ''set_config'' (set_config_args lib cfg) d d')"
proof -
  from DeployStellarMCMS_run [OF laws(1-3) first] obtain ch cfg d d' cid tid
    where dep: "governance_deployed fw env os hs lib nm ml readFile ch inp cfg cid tid d d'" and out: "out = governance_refs nm inp cid tid"
    by blast
  note ids = deployed_nonempty [OF laws(4,2) dep]
  note known = redeployed_finds [OF laws(6) ids dep, folded out]
  from DeployStellarMCMS_run [OF laws(1,2,5) again] obtain ch' cfg' e e' cid' tid'
    where run: "blockChains' (md_ChainSelector inp) = Some ch'" "ConfigToStellarSetConfig ml (Some (md_Proposer inp')) True = Ok cfg'"
      "NewDeployerFromChain lib (ch_Signer ch') (ch_NetworkPassphrase ch') [] = Ok e" "res' = Some e'"
      and dep': "governance_deployed fw' env' os' hs' lib nm ml readFile' ch' inp' cfg' cid' tid' e e'"
      and out': "out' = governance_refs nm inp' cid' tid'"
    unfolding inp' by blast
  have same: "cid' = cid" "tid' = tid" "calls fw' env' lib cid ''set_config'' (set_config_args lib cfg') e e'"
    using dep' unfolding governance_deployed_def Let_def inp' known known_ready by auto
  have "ar_Address (hd out) = cid" by (simp add: out governance_refs_def StellarMCMSDatastoreRefs_def)
  moreover have "out' = out" by (simp add: out out' same governance_refs_def inp')
  ultimately show ?thesis using run same(3) by blast
qed

section \<open>Connected chains\<close>

definition counted :: "chainsel \<Rightarrow> (string \<Rightarrow> bool) \<Rightarrow> OffRampEntry \<Rightarrow> bool" where
  "counted cs registered e \<longleftrightarrow>
     OffRampEntry_Offramp e \<noteq> [] \<and> (\<exists>family. GetSelectorFamily cs (OffRampEntry_SourceChainSelector e) = Ok family \<and> registered family)"

lemma connected_loop_spec:
  "distinct found \<Longrightarrow> distinct (connected_loop cs registered es found)"
  "set (connected_loop cs registered es found) = set found \<union> OffRampEntry_SourceChainSelector ` {e \<in> set es. counted cs registered e}"
  by (induction es arbitrary: found) (auto simp: counted_def split: result.splits)

section \<open>The fee aggregator\<close>

lemma invoke_calls:
  assumes "txnbuild_laws lib" "sdk_laws lib"
    and "run_state (invoke_void (mk_client (deployer_invoker env lib) cid) f args) d = (Ok (), d')"
  shows "calls plain_framework env lib cid f args d d'"
proof -
  let ?op = "\<lparr>op_ID = [], op_handler = (\<lambda>_ _. invoke_void (mk_client (deployer_invoker env lib) cid) f args)\<rparr> :: (unit, unit, Deployer) Operation"
  have "run_state (ExecuteOperation plain_framework ?op (FromDeployer env lib (\<lambda>_. Ok [])) ()) d = (Ok (), d')"
    using assms(3) by (simp add: ExecuteOperation_def plain_framework_def)
  from executed_calls [OF assms(1,2) own_laws(4) _ this] show ?thesis by simp
qed

text \<open>A simulated call of \<open>get_dynamic_config\<close>, during which nothing but a restore is sent.\<close>

definition reads_config :: "denv \<Rightarrow> sdk \<Rightarrow> (ScVal \<Rightarrow> 'a result) \<Rightarrow> string \<Rightarrow> 'a \<Rightarrow> Deployer \<Rightarrow> Deployer \<Rightarrow> bool" where
  "reads_config env lib decode cid x d d' \<longleftrightarrow>
     run_state (simulate_value (mk_client (deployer_invoker env lib) cid) ''get_dynamic_config'' [] decode) d = (Ok x, d') \<and>
     (\<exists>txs. dep_sent d' = dep_sent d @ txs \<and> restore_only lib d txs)"

lemma reads_configI:
  assumes "txnbuild_laws lib"
    and "run_state (simulate_value (mk_client (deployer_invoker env lib) cid) ''get_dynamic_config'' [] decode) d = (Ok x, d')"
  shows "reads_config env lib decode cid x d d'"
  using dep.simulate_reads [OF assms(2)] assms by (simp add: reads_config_def dep_read_only_def)

definition set_on_onramp :: "ccip_names \<Rightarrow> denv \<Rightarrow> sdk \<Rightarrow> 'd datastore \<Rightarrow> 'd \<Rightarrow> int \<Rightarrow> string \<Rightarrow> Deployer \<Rightarrow> Deployer \<Rightarrow> bool" where
  "set_on_onramp nm env lib ds st sel agg d d' \<longleftrightarrow>
     (\<exists>cid cfg e. GetOnRampStrkey nm lib ds st sel = Ok cid \<and> reads_config env lib (Bind_Onramp.DynamicConfigFromScVal lib) cid cfg d e \<and>
        calls plain_framework env lib cid ''set_dynamic_config''
          [MustToScVal (Bind_Onramp.DynamicConfig_ToScVal lib (cfg\<lparr>Bind_Onramp.DynamicConfig_FeeAggregator := agg\<rparr>))] e d')"

definition set_on_vvr :: "ccip_names \<Rightarrow> denv \<Rightarrow> sdk \<Rightarrow> 'd datastore \<Rightarrow> 'd \<Rightarrow> int \<Rightarrow> string \<Rightarrow> Deployer \<Rightarrow> Deployer \<Rightarrow> bool" where
  "set_on_vvr nm env lib ds st sel agg d d' \<longleftrightarrow>
     (\<exists>cid. GetVVRStrkey nm lib ds st sel = Ok cid \<and>
        calls plain_framework env lib cid ''set_fee_aggregator'' [Ok (AddressToScVal lib agg)] d d')"

definition set_on_verifier :: "ccip_names \<Rightarrow> denv \<Rightarrow> sdk \<Rightarrow> 'd datastore \<Rightarrow> 'd \<Rightarrow> int \<Rightarrow> string \<Rightarrow> Deployer \<Rightarrow> Deployer \<Rightarrow> bool" where
  "set_on_verifier nm env lib ds st sel agg d d' \<longleftrightarrow>
     (\<exists>cid cfg e. GetCommitteeVerifierStrkey nm lib ds st sel = Ok cid \<and>
        reads_config env lib (Bind_CommitteeVerifier.DynamicConfigFromScVal lib) cid cfg d e \<and>
        calls plain_framework env lib cid ''set_dynamic_config''
          [MustToScVal (Bind_CommitteeVerifier.DynamicConfig_ToScVal lib (cfg\<lparr>Bind_CommitteeVerifier.DynamicConfig_FeeAggregator := Some agg\<rparr>))] e d')"

lemma aggregate_sets:
  assumes "txnbuild_laws lib" "sdk_laws lib"
  shows "run_state (aggregate_onramp nm env lib ds st sel agg) d = (Ok (), d') \<Longrightarrow> set_on_onramp nm env lib ds st sel agg d d'"
    and "run_state (aggregate_vvr nm env lib ds st sel agg) d = (Ok (), d') \<Longrightarrow> set_on_vvr nm env lib ds st sel agg d d'"
    and "run_state (aggregate_cv nm env lib ds st sel agg) d = (Ok (), d') \<Longrightarrow> set_on_verifier nm env lib ds st sel agg d d'"
  unfolding aggregate_onramp_def aggregate_vvr_def aggregate_cv_def set_on_onramp_def set_on_vvr_def set_on_verifier_def
    Bind_Onramp.GetDynamicConfig_def Bind_Onramp.SetDynamicConfig_def Bind_CommitteeVerifier.GetDynamicConfig_def
    Bind_CommitteeVerifier.SetDynamicConfig_def Bind_VersionedVerifierResolver.SetFeeAggregator_def client_defs
  by (auto elim!: bindM_Ok wrapM_Ok) (blast intro: invoke_calls [OF assms] reads_configI [OF assms(1)])+

definition in_case :: "bool \<Rightarrow> (Deployer \<Rightarrow> Deployer \<Rightarrow> bool) \<Rightarrow> Deployer \<Rightarrow> Deployer \<Rightarrow> bool" where
  "in_case b R d d' \<longleftrightarrow> (if b then R d d' else d' = d)"

lemma then_Ok:
  assumes "run_state (bindM m (\<lambda>_ :: unit. k)) d = (Ok y, d')"
  obtains d1 where "run_state m d = (Ok (), d1)" and "run_state k d1 = (Ok y, d')"
  using assms by (auto elim: bindM_Ok)

lemma run_in_case:
  assumes "run_state (if b then m else okM ()) d = (Ok (), d')" and "run_state m d = (Ok (), d') \<Longrightarrow> R d d'"
  shows "in_case b R d d'"
  using assms by (auto simp: in_case_def)

section \<open>Properties\<close>

text \<open>C31: When the deployment of the governance contracts returns, the three signer configurations of the input are equal, and
  one after the other: the multisig is the recorded one, or was deployed under the salt of its chain and qualifier and
  initialized with the chain's signer as its owner and the network's id; its signer configuration was set, its roots cleared, from the
  proposer's configuration; and the timelock is the recorded one, or was deployed and initialized, only for a zero admin
  address, with the chain's signer as admin, the given delay, the multisig as only proposer, canceller and
  bypasser, and no executor. The references returned are four for the multisig and one for the timelock.\<close>

theorem governance_deployment_wired:
  assumes "txnbuild_laws lib" "sdk_laws lib" "framework_laws fw"
    and "DeployStellarMCMS fw env os hs lib nm ml readFile blockChains inp = (Ok out, res)"
  shows "\<exists>ch cfg d d' cid tid. blockChains (md_ChainSelector inp) = Some ch \<and>
    Config_Equals ml (md_Proposer inp) (md_Bypasser inp) \<and> Config_Equals ml (md_Bypasser inp) (md_Canceller inp) \<and>
    ConfigToStellarSetConfig ml (Some (md_Proposer inp)) True = Ok cfg \<and>
    NewDeployerFromChain lib (ch_Signer ch) (ch_NetworkPassphrase ch) [] = Ok d \<and> res = Some d' \<and>
    governance_deployed fw env os hs lib nm ml readFile ch inp cfg cid tid d d' \<and> out = governance_refs nm inp cid tid"
  by (rule DeployStellarMCMS_run [OF assms])

text \<open>C32: Deploying again creates nothing: after a first deployment without reports, a second one for the same chain and qualifier whose
  existing addresses include what the first returned, with whatever signer configuration, framework, node and
  files, returns the same references, and all it does on the network is to set the configuration of the
  multisig that the first one returned.\<close>

theorem governance_redeploy_only_configures:
  assumes "txnbuild_laws lib" "sdk_laws lib" "framework_laws fw" "no_reports fw" "framework_laws fw'" "mcms_lib_laws ml"
    and "DeployStellarMCMS fw env os hs lib nm ml readFile blockChains inp = (Ok out, res)"
    and "DeployStellarMCMS fw' env' os' hs' lib nm ml readFile' blockChains' inp' = (Ok out', res')"
    and "md_ChainSelector inp' = md_ChainSelector inp" "md_Qualifier inp' = md_Qualifier inp"
      "md_ExistingAddresses inp' = md_ExistingAddresses inp @ out"
  shows "out' = out \<and> (\<exists>ch cfg d d'. blockChains' (md_ChainSelector inp) = Some ch \<and>
     ConfigToStellarSetConfig ml (Some (md_Proposer inp')) True = Ok cfg \<and>
     NewDeployerFromChain lib (ch_Signer ch) (ch_NetworkPassphrase ch) [] = Ok d \<and> res' = Some d' \<and>
     calls fw' env' lib (ar_Address (hd out)) ''set_config'' (set_config_args lib cfg) d d')"
  by (rule redeploy_only_configures [OF assms])

text \<open>C36: When setting the fee aggregator returns, the parsed address was set on exactly the kinds of contract that were asked for (all three
  when none was), in the order OnRamp, resolver, verifier: the resolver by a confirmed call, the other two by a
  confirmed call whose configuration is the one just read from the contract with only the fee aggregator replaced.\<close>

theorem fee_aggregator_replaced:
  assumes laws: "txnbuild_laws lib" "sdk_laws lib"
    and run: "ApplyStellarFeeAggregator nm env lib ds store blockChains inp = (Ok (), res)"
  shows "\<exists>st agg ch d d1 d2 d3. store = Some st \<and> ParseFeeAggregatorAddress lib (fa_FeeAggregator inp) = Ok agg \<and>
    blockChains (fa_ChainSelector inp) = Some ch \<and> NewDeployerFromChain lib (ch_Signer ch) (ch_NetworkPassphrase ch) [] = Ok d \<and>
    res = Some d3 \<and>
    in_case (sr_Type (OnRampDatastoreRef nm) \<in> set (wanted_types nm (fa_Contracts inp)))
      (set_on_onramp nm env lib ds st (fa_ChainSelector inp) agg) d d1 \<and>
    in_case (sr_Type (VVRDatastoreRef nm) \<in> set (wanted_types nm (fa_Contracts inp)))
      (set_on_vvr nm env lib ds st (fa_ChainSelector inp) agg) d1 d2 \<and>
    in_case (sr_Type (CommitteeVerifierDatastoreRef nm) \<in> set (wanted_types nm (fa_Contracts inp)))
      (set_on_verifier nm env lib ds st (fa_ChainSelector inp) agg) d2 d3"
proof -
  let ?want = "set (wanted_types nm (fa_Contracts inp))" and ?sel = "fa_ChainSelector inp"
  from run obtain st agg ch where st: "store = Some st" "ParseFeeAggregatorAddress lib (fa_FeeAggregator inp) = Ok agg" "blockChains ?sel = Some ch"
    and body: "with_deployer lib (\<lambda>e. Errorf ''stellar deployer from chain: %w'' [AErr e]) ch
       (bindM (if sr_Type (OnRampDatastoreRef nm) \<in> ?want then aggregate_onramp nm env lib ds st ?sel agg else okM ()) (\<lambda>_.
        bindM (if sr_Type (VVRDatastoreRef nm) \<in> ?want then aggregate_vvr nm env lib ds st ?sel agg else okM ()) (\<lambda>_.
        if sr_Type (CommitteeVerifierDatastoreRef nm) \<in> ?want then aggregate_cv nm env lib ds st ?sel agg else okM ()))) = (Ok (), res)"
    by (auto simp: ApplyStellarFeeAggregator_def Let_def split: option.splits result.splits)
  from body obtain d d1 d2 d3 where dep: "NewDeployerFromChain lib (ch_Signer ch) (ch_NetworkPassphrase ch) [] = Ok d" "res = Some d3"
    and parts: "run_state (if sr_Type (OnRampDatastoreRef nm) \<in> ?want then aggregate_onramp nm env lib ds st ?sel agg else okM ()) d = (Ok (), d1)"
      "run_state (if sr_Type (VVRDatastoreRef nm) \<in> ?want then aggregate_vvr nm env lib ds st ?sel agg else okM ()) d1 = (Ok (), d2)"
      "run_state (if sr_Type (CommitteeVerifierDatastoreRef nm) \<in> ?want then aggregate_cv nm env lib ds st ?sel agg else okM ()) d2 = (Ok (), d3)"
    by (elim with_deployer_Ok then_Ok)
  note sets = aggregate_sets [OF laws]
  have "in_case (sr_Type (OnRampDatastoreRef nm) \<in> ?want) (set_on_onramp nm env lib ds st ?sel agg) d d1"
    by (rule run_in_case [OF parts(1)]) (rule sets)
  moreover have "in_case (sr_Type (VVRDatastoreRef nm) \<in> ?want) (set_on_vvr nm env lib ds st ?sel agg) d1 d2"
    by (rule run_in_case [OF parts(2)]) (rule sets)
  moreover have "in_case (sr_Type (CommitteeVerifierDatastoreRef nm) \<in> ?want) (set_on_verifier nm env lib ds st ?sel agg) d2 d3"
    by (rule run_in_case [OF parts(3)]) (rule sets)
  ultimately show ?thesis using st dep by blast
qed

text \<open>The chains that the curse adapter reports as connected are, each once, the source chains of the off-ramps that the router
  answered with an address and whose family has a curse adapter; finding them sends nothing but a restore.\<close>

theorem connected_chains_exact:
  assumes laws: "txnbuild_laws lib"
    and run: "ListConnectedChains env lib cs registered a blockChains selector = (Ok found, res)"
  shows "\<exists>routerID ch d d' offRamps txs. ca_routerContractID a selector = Some routerID \<and> blockChains selector = Some ch \<and>
    NewDeployerFromChain lib (ch_Signer ch) (ch_NetworkPassphrase ch) [] = Ok d \<and> res = Some d' \<and>
    run_state (Bind_Router.GetOfframps lib (NewRouterClient (deployer_invoker env lib) routerID)) d = (Ok offRamps, d') \<and>
    dep_sent d' = dep_sent d @ txs \<and> restore_only lib d txs \<and> distinct found \<and>
    set found = OffRampEntry_SourceChainSelector ` {e \<in> set offRamps. counted cs registered e}"
proof -
  from run obtain routerID ch where ids: "ca_routerContractID a selector = Some routerID" "blockChains selector = Some ch"
    and body: "with_deployer lib (\<lambda>e. e) ch (bindM (wrapM (\<lambda>e. Errorf ''get offramps on chain %d: %w'' [AInt selector, AErr e])
        (Bind_Router.GetOfframps lib (NewRouterClient (deployer_invoker env lib) routerID)))
        (\<lambda>offRamps. okM (connected_loop cs registered offRamps []))) = (Ok found, res)"
    by (auto simp: ListConnectedChains_def with_cached_def split: option.splits)
  from body obtain d d' offRamps where dep: "NewDeployerFromChain lib (ch_Signer ch) (ch_NetworkPassphrase ch) [] = Ok d" "res = Some d'"
    and off: "run_state (Bind_Router.GetOfframps lib (NewRouterClient (deployer_invoker env lib) routerID)) d = (Ok offRamps, d')"
    and found: "found = connected_loop cs registered offRamps []"
    by (auto elim!: with_deployer_Ok bindM_Ok wrapM_Ok)
  from dep.simulate_reads off laws obtain txs where "dep_sent d' = dep_sent d @ txs" "restore_only lib d txs"
    unfolding Bind_Router.GetOfframps_def NewRouterClient_def dep_read_only_def by blast
  with ids dep off show ?thesis unfolding found by (auto simp: connected_loop_spec)
qed

section \<open>Concrete runs\<close>

lemma run_first: "fst p = Ok x \<Longrightarrow> p = (Ok x, snd p)"
  by (cases p) simp

text \<open>The network of \<open>Deployer_Runs\<close>, whose node confirms every transaction, and an input with a recorded timelock.\<close>

lemma sample_invoke:
  assumes "same_config own_deployer d" and "seq_args args = Ok vs"
  shows "fst (run_state (invoke_void (mk_client (deployer_invoker dep_net dep_sdk) sample_contract) f args) d) = Ok ()"
proof -
  have d: "dep_networkPassphrase d = dep_networkPassphrase own_deployer" "dep_signer d = dep_signer own_deployer"
    "dep_autoRestore d = dep_autoRestore own_deployer" "dep_feeBumpFactor d = dep_feeBumpFactor own_deployer"
    "dep_txnTimeBound d = dep_txnTimeBound own_deployer"
    using assms(1) by (simp_all add: same_config_def)
  show ?thesis by (simp add: assms(2) d deployer_eval sample_eval)
qed

lemma sample_invoked:
  assumes "same_config own_deployer d" and "seq_args args = Ok vs"
  obtains d' where "run_state (invoke_void (mk_client (deployer_invoker dep_net dep_sdk) sample_contract) f args) d = (Ok (), d')"
    and "same_config own_deployer d'"
proof -
  let ?m = "invoke_void (mk_client (deployer_invoker dep_net dep_sdk) sample_contract) f args"
  obtain d' where run: "run_state ?m d = (Ok (), d')"
    using sample_invoke [OF assms] by (metis prod.collapse)
  from invoke_calls [OF dep_sdk_laws(1) _ run] dep_sdk_laws have "same_config d d'" by (simp add: calls_def sdk_laws_def)
  with run that cf.trans assms(1) show ?thesis by blast
qed

definition sample_os :: process_env where
  "sample_os = \<lparr>Getenv = (\<lambda>v. ''mcms.wasm''), Getwd = Ok ''/''\<rparr>"

definition sample_hashing :: hashing where
  "sample_hashing = \<lparr>Sum256 = (\<lambda>b. replicate 32 3), marshal_ContractIdPreimage = (\<lambda>n p. Ok [])\<rparr>"

definition sample_ml :: "nat mcms_lib" where
  "sample_ml = \<lparr>Version_Equal = (=), GetAddressRef = (\<lambda>refs sel ty v q. zero_AddressRef), Config_Equals = (=),
     ExtractSetConfigInputs = (\<lambda>c. Ok (replicate 32 0, replicate 32 0, [replicate 20 1], [0]))\<rparr>"

definition sample_timelock :: AddressRef where
  "sample_timelock = StellarTimelockDatastoreRef sample_names 7 [] sample_contract"

definition sample_governance :: "AddressRef list \<Rightarrow> nat MCMSDeploymentConfig" where
  "sample_governance known = \<lparr>md_ChainSelector = 7, md_Qualifier = None, md_Proposer = 1, md_Bypasser = 1, md_Canceller = 1,
     md_ExistingAddresses = known, md_TimelockAdmin = replicate 20 0, md_TimelockMinDelay = None\<rparr>"

definition sample_governance_run :: "AddressRef list \<Rightarrow> AddressRef list result \<times> Deployer option" where
  "sample_governance_run known = DeployStellarMCMS plain_framework dep_net sample_os sample_hashing dep_sdk sample_names sample_ml (\<lambda>p. Ok [1, 2])
     sample_chains (sample_governance known)"

lemma sample_byte: "byte_char 99 = CHR ''c''"
  by (simp add: byte_char_def char_of_eq_iff)

lemma sample_create:
  "fst (run_state (DeployContract dep_net dep_sdk (\<lambda>p. Ok [1, 2]) w (replicate 32 3)) own_deployer) = Ok sample_contract"
  by (simp add: DeployContract_def DeployContractBytes_def uploadWASM_def createContractInstance_def extractWASMHash_def extractContractID_def
      sample_byte deployer_eval sample_eval)

lemma sample_created:
  obtains d where "run_state (DeployContract dep_net dep_sdk (\<lambda>p. Ok [1, 2]) w (replicate 32 3)) own_deployer = (Ok sample_contract, d)"
    and "same_config own_deployer d"
proof -
  let ?m = "DeployContract dep_net dep_sdk (\<lambda>p. Ok [1, 2]) w (replicate 32 3)"
  have "along same_config ?m" unfolding DeployContract_def DeployContractBytes_def
    by (intro cf.along_intros cf.along_uploadWASM cf.along_createContractInstance)
  with that [OF run_parts [OF sample_create]] show ?thesis by (auto simp: along_def)
qed

lemma sample_config_args:
  "\<exists>vs. seq_args [Ok a, Ok b] = Ok vs"
  "\<exists>vs. seq_args [MustToScVal (SignerAddresses_ToScVal lib sa), MustToScVal (SignerGroups_ToScVal lib sg), Ok a, Ok b, Ok c] = Ok vs"
  by (simp_all add: SignerAddresses_ToScVal_def SignerGroups_ToScVal_def MustToScVal_def build_struct_def BuildStructScVal_def)

lemma sample_deployer_from_chain:
  "sample_chains 7 = Some ch \<Longrightarrow> NewDeployerFromChain dep_sdk (ch_Signer ch) (ch_NetworkPassphrase ch) [] = Ok own_deployer"
  by (auto simp: sample_chains_def NewDeployerFromChain_def own_deployer_def)

lemma sample_config:
  assumes "same_config own_deployer d"
  obtains d' where "run_state (set_mcms_config plain_framework dep_sdk (FromDeployer dep_net dep_sdk r) sample_contract cfg) d = (Ok (), d')"
    and "same_config own_deployer d'"
proof -
  obtain sa sg gq gp cl where cfg: "cfg = (sa, sg, gq, gp, cl)" by (cases cfg)
  let ?args = "[MustToScVal (SignerAddresses_ToScVal dep_sdk sa), MustToScVal (SignerGroups_ToScVal dep_sdk sg), Ok (Bytes32ToScVal gq),
    Ok (Bytes32ToScVal gp), Ok (BoolToScVal True)]"
  obtain vs where "seq_args ?args = Ok vs" using sample_config_args(2) by blast
  from sample_invoked [OF assms this, of "''set_config''"] obtain d'
    where "run_state (invoke_void (mk_client (deployer_invoker dep_net dep_sdk) sample_contract) ''set_config'' ?args) d = (Ok (), d')"
      and "same_config own_deployer d'" by blast
  then show ?thesis
    by (intro that) (auto simp: set_mcms_config_def cfg ExecuteOperation_def plain_framework_def mcms_SetConfig_def
        Bind_Mcms.SetConfig_def NewMcmsClient_def FromDeployer_def)
qed

lemma sample_deployed_mcms:
  obtains d where "run_state (deploy_mcms plain_framework sample_os sample_hashing dep_sdk (FromDeployer dep_net dep_sdk (\<lambda>p. Ok [1, 2])) ch 7 q)
      own_deployer = (Ok sample_contract, d)"
    and "same_config own_deployer d"
proof -
  let ?owner = "Ok (AddressToScVal dep_sdk (chain_address ch))" and ?net = "Ok (Bytes32ToScVal (ChainNetworkID sample_hashing (ch_NetworkPassphrase ch)))"
  obtain d where d: "run_state (DeployContract dep_net dep_sdk (\<lambda>p. Ok [1, 2]) ''mcms.wasm'' (replicate 32 3)) own_deployer = (Ok sample_contract, d)"
    "same_config own_deployer d" by (rule sample_created)
  obtain vs where "seq_args [?owner, ?net] = Ok vs" using sample_config_args(1) by blast
  from sample_invoked [OF d(2) this, of "''initialize''"] obtain d'
    where "run_state (invoke_void (mk_client (deployer_invoker dep_net dep_sdk) sample_contract) ''initialize'' [?owner, ?net]) d = (Ok (), d')"
      and "same_config own_deployer d'" by blast
  with d that show ?thesis
    by (auto simp: deploy_mcms_def ResolveMCMSWasmPath_def sample_os_def MCMSDeploySalt_def sample_hashing_def run_bindM ExecuteDeploy_def
        mcms_Deploy_def NewDeployOperation_def plain_framework_def FromDeployer_def ExecuteOperation_def mcms_Initialize_def
        Bind_Mcms.Initialize_def NewMcmsClient_def)
qed

abbreviation sample_refs :: "AddressRef list" where
  "sample_refs \<equiv> governance_refs sample_names (sample_governance []) sample_contract sample_contract"

lemma sample_found:
  "FindExistingStellarMCMS sample_names sample_ml [sample_timelock] 7 [] = None"
  "FindExistingStellarTimelock sample_names sample_ml (sample_timelock # rest) 7 [] = Some sample_contract"
  "FindExistingStellarMCMS sample_names sample_ml (sample_timelock # sample_refs) 7 [] = Some sample_contract"
  by (simp_all add: sample_timelock_def StellarTimelockDatastoreRef_def sample_ml_def sample_names_def mcms_types_def sample_contract_def
      governance_refs_def StellarMCMSDatastoreRefs_def sample_governance_def QualifierStr_def McmsContractType_def)

lemma sample_governance_runs:
  "fst (sample_governance_run [sample_timelock]) = Ok sample_refs"
  "fst (sample_governance_run (sample_timelock # sample_refs)) = Ok sample_refs"
proof -
  let ?cfg = "(\<lparr>SignerAddresses_Inner = map evmAddressToPadded32 [replicate 20 1]\<rparr>, \<lparr>SignerGroups_Inner = [u32 0]\<rparr>, replicate 32 0, replicate 32 0, True)"
  obtain ch where ch: "sample_chains 7 = Some ch" by (simp add: sample_chains_def)
  obtain d where d: "run_state (deploy_mcms plain_framework sample_os sample_hashing dep_sdk (FromDeployer dep_net dep_sdk (\<lambda>p. Ok [1, 2])) ch 7 [])
      own_deployer = (Ok sample_contract, d)" "same_config own_deployer d" by (rule sample_deployed_mcms)
  obtain d1 where d1: "run_state (set_mcms_config plain_framework dep_sdk (FromDeployer dep_net dep_sdk (\<lambda>p. Ok [1, 2])) sample_contract ?cfg) d = (Ok (), d1)"
    by (rule sample_config [OF d(2)])
  obtain d2 where d2: "run_state (set_mcms_config plain_framework dep_sdk (FromDeployer dep_net dep_sdk (\<lambda>p. Ok [1, 2])) sample_contract ?cfg)
      own_deployer = (Ok (), d2)"
    by (rule sample_config [OF cf.refl])
  note run_defs = sample_governance_run_def DeployStellarMCMS_def sample_governance_def ch MergeTripleMCMSConfig_def ConfigToStellarSetConfig_def
    sample_ml_def with_deployer_def sample_deployer_from_chain [OF ch] deploy_body_def Let_def QualifierStr_def governance_refs_def
  show "fst (sample_governance_run [sample_timelock]) = Ok sample_refs"
    using sample_found(1,2) d(1) d1 by (simp add: run_defs run_bindM)
  show "fst (sample_governance_run (sample_timelock # sample_refs)) = Ok sample_refs"
    using sample_found(2,3) d2 by (simp add: run_defs run_bindM)
qed

theorem governance_deployment_wired_witness:
  "fst (sample_governance_run [sample_timelock]) = Ok sample_refs \<and>
   (\<exists>ch cfg d d' cid tid. sample_chains 7 = Some ch \<and>
      governance_deployed plain_framework dep_net sample_os sample_hashing dep_sdk sample_names sample_ml (\<lambda>p. Ok [1, 2]) ch
        (sample_governance [sample_timelock]) cfg cid tid d d' \<and>
      sample_refs = governance_refs sample_names (sample_governance [sample_timelock]) cid tid)"
proof -
  have "sdk_laws dep_sdk" using dep_sdk_laws by (simp add: sdk_laws_def)
  from governance_deployment_wired [OF dep_sdk_laws(1) this own_laws(4) run_first [OF sample_governance_runs(1), unfolded sample_governance_run_def]]
  show ?thesis using sample_governance_runs(1) by (fastforce simp: sample_governance_def)
qed

theorem governance_redeploy_only_configures_witness:
  "\<exists>cfg d d'. ConfigToStellarSetConfig sample_ml (Some 1) True = Ok cfg \<and>
     calls plain_framework dep_net dep_sdk sample_contract ''set_config'' (set_config_args dep_sdk cfg) d d'"
proof -
  have laws: "sdk_laws dep_sdk" "no_reports plain_framework" "mcms_lib_laws sample_ml"
    using dep_sdk_laws by (simp_all add: sdk_laws_def no_reports_def plain_framework_def mcms_lib_laws_def sample_ml_def)
  have hd: "ar_Address (hd sample_refs) = sample_contract" by (simp add: governance_refs_def StellarMCMSDatastoreRefs_def)
  have inp: "md_ChainSelector (sample_governance (sample_timelock # sample_refs)) = md_ChainSelector (sample_governance [sample_timelock])"
    "md_Qualifier (sample_governance (sample_timelock # sample_refs)) = md_Qualifier (sample_governance [sample_timelock])"
    "md_ExistingAddresses (sample_governance (sample_timelock # sample_refs)) = md_ExistingAddresses (sample_governance [sample_timelock]) @ sample_refs"
    "md_Proposer (sample_governance (sample_timelock # sample_refs)) = 1"
    by (simp_all add: sample_governance_def)
  from governance_redeploy_only_configures [OF dep_sdk_laws(1) laws(1) own_laws(4) laws(2) own_laws(4) laws(3)
      run_first [OF sample_governance_runs(1), unfolded sample_governance_run_def]
      run_first [OF sample_governance_runs(2), unfolded sample_governance_run_def] inp(1-3), unfolded hd inp(4)]
  show ?thesis by blast
qed

lemma space_heads: "\<forall>p \<in> set space_seqs. p \<noteq> [] \<and> hd p \<noteq> CHR ''C'' \<and> last p \<noteq> CHR ''c''"
  by (simp add: space_seqs_def char_of_eq_iff take_bit_eq_mod)

lemma HasPrefix_hd: "HasPrefix (c # s) p \<Longrightarrow> p = [] \<or> hd p = c"
  by (cases p) auto

lemma no_space:
  "find (HasPrefix (CHR ''C'' # s)) space_seqs = None"
  "find (HasPrefix (CHR ''c'' # s)) (map rev space_seqs) = None"
  using space_heads HasPrefix_hd by (fastforce simp: find_None_iff hd_rev)+

lemma sample_trimmed: "TrimSpace sample_contract = sample_contract" "sample_contract \<noteq> []" "hd sample_contract = CHR ''C''"
proof -
  have "rev sample_contract = CHR ''c'' # replicate 31 (CHR ''c'') @ ''C''"
    by (simp add: sample_contract_def replicate_append_same flip: replicate_Suc)
  then show "TrimSpace sample_contract = sample_contract"
    by (simp add: TrimSpace_def no_space find_None_trim Let_def) (simp add: sample_contract_def no_space find_None_trim)
qed (simp_all add: sample_contract_def)

lemma sample_vvr_run:
  obtains st where "fst (ApplyStellarFeeAggregator sample_names dep_net dep_sdk list_store (Some st) sample_chains
      \<lparr>fa_ChainSelector = 7, fa_FeeAggregator = sample_contract, fa_Contracts = [FullAddressRef (VVRDatastoreRef sample_names) 7 []]\<rparr>) = Ok ()"
proof -
  have key: "strkey_Decode dep_sdk VersionByteContract sample_contract = Ok (map char_byte (tl sample_contract))"
    by (simp add: dep_sdk_def sample_sdk_def plain_decode_def sample_contract_def version_char_def)
  obtain st where "ref_LookupStrkey dep_sdk list_store (VVRDatastoreRef sample_names) st 7 =
      strkey_Encode dep_sdk VersionByteContract (map char_byte (tl sample_contract))"
    by (rule upsert_then_lookup [OF plain_hexutil_laws dep_sdk_laws(2) list_store_laws key])
  then have found: "GetVVRStrkey sample_names dep_sdk list_store st 7 = Ok sample_contract"
    using decode_head [OF dep_sdk_laws(2) key] by (simp add: GetVVRStrkey_def)
  have parsed: "ParseFeeAggregatorAddress dep_sdk sample_contract = Ok sample_contract"
    using key sample_trimmed by (simp add: ParseFeeAggregatorAddress_def Let_def)
  obtain ch where ch: "sample_chains 7 = Some ch" by (simp add: sample_chains_def)
  obtain d where "run_state (invoke_void (mk_client (deployer_invoker dep_net dep_sdk) sample_contract) ''set_fee_aggregator''
      [Ok (AddressToScVal dep_sdk sample_contract)]) own_deployer = (Ok (), d)"
    by (rule sample_invoked [OF cf.refl, of "[Ok (AddressToScVal dep_sdk sample_contract)]"]) auto
  with found parsed ch sample_deployer_from_chain [OF ch] that [of st] show ?thesis
    by (simp add: ApplyStellarFeeAggregator_def Let_def with_deployer_def run_bindM aggregate_vvr_def wanted_types_def
        FullAddressRef_def LaneAddressRef_def PartialAddressRef_def VVRDatastoreRef_def OnRampDatastoreRef_def CommitteeVerifierDatastoreRef_def mk_ref_def
        sample_names_def zero_AddressRef_def Bind_VersionedVerifierResolver.SetFeeAggregator_def NewVersionedVerifierResolverClient_def)
qed

theorem fee_aggregator_replaced_witness:
  "\<exists>st ch d d'. sample_chains 7 = Some ch \<and> NewDeployerFromChain dep_sdk (ch_Signer ch) (ch_NetworkPassphrase ch) [] = Ok d \<and>
     set_on_vvr sample_names dep_net dep_sdk list_store st 7 sample_contract d d'"
proof -
  obtain st where run: "fst (ApplyStellarFeeAggregator sample_names dep_net dep_sdk list_store (Some st) sample_chains
      \<lparr>fa_ChainSelector = 7, fa_FeeAggregator = sample_contract, fa_Contracts = [FullAddressRef (VVRDatastoreRef sample_names) 7 []]\<rparr>) = Ok ()"
    by (rule sample_vvr_run)
  have laws: "sdk_laws dep_sdk" using dep_sdk_laws by (simp add: sdk_laws_def)
  have type: "sr_Type (OnRampDatastoreRef sample_names) \<noteq> sr_Type (VVRDatastoreRef sample_names)"
    by (simp add: OnRampDatastoreRef_def VVRDatastoreRef_def mk_ref_def sample_names_def)
  have parsed: "ParseFeeAggregatorAddress dep_sdk sample_contract = Ok agg \<Longrightarrow> agg = sample_contract" for agg
    using sample_trimmed by (auto simp: ParseFeeAggregatorAddress_def Let_def)
  from fee_aggregator_replaced [OF dep_sdk_laws(1) laws run_first [OF run]] type parsed show ?thesis
    by (fastforce simp: in_case_def wanted_types_def FullAddressRef_def LaneAddressRef_def PartialAddressRef_def)
qed

text \<open>A router with one off-ramp, of the second chain.\<close>

definition sample_offramp :: ScVal where
  "sample_offramp = ScvMap (Some (Some [(ScvSymbol (Some ''offramp''), AddressToScVal dep_sdk sample_contract),
     (ScvSymbol (Some ''source_chain_selector''), Uint64ToScVal 2)]))"

definition off_sdk :: sdk where
  "off_sdk = dep_sdk\<lparr>unb64_ScVal := (\<lambda>s. Ok (ScvVec (Some (Some [sample_offramp]))))\<rparr>"

definition sample_adapter :: StellarCurseAdapter where
  "sample_adapter = \<lparr>ca_rmnContractID = Map.empty, ca_routerContractID = [7 \<mapsto> sample_contract]\<rparr>"

lemma sample_connected:
  "fst (ListConnectedChains own_net off_sdk two_families (\<lambda>f. True) sample_adapter sample_chains 7) = Ok [2]"
proof -
  obtain ch where ch: "sample_chains 7 = Some ch" by (simp add: sample_chains_def)
  then have dep: "NewDeployerFromChain off_sdk (ch_Signer ch) (ch_NetworkPassphrase ch) [] = Ok own_deployer"
    by (auto simp: sample_chains_def NewDeployerFromChain_def own_deployer_def)
  have entry: "OffRampEntryFromScVal off_sdk sample_offramp = Ok \<lparr>OffRampEntry_Offramp = sample_contract, OffRampEntry_SourceChainSelector = 2\<rparr>"
    by (simp add: OffRampEntryFromScVal_def sample_offramp_def parse_struct_map GetSym_def BuildContractScAddress_def OffRampEntry_entry_def zero_OffRampEntry_def
        Uint64ToScVal_def Uint64FromScVal_def off_sdk_def dep_sdk_def sample_sdk_def AddressFromScVal_def AddressToScVal_def ParseAddress_def
        plain_decode_def plain_encode_def version_char_def sample_contract_def)
  have "fst (run_state (Bind_Router.GetOfframps off_sdk (NewRouterClient (deployer_invoker own_net off_sdk) sample_contract)) own_deployer) =
      Ok [\<lparr>OffRampEntry_Offramp = sample_contract, OffRampEntry_SourceChainSelector = 2\<rparr>]"
    using entry
    by (simp add: Bind_Router.GetOfframps_def NewRouterClient_def off_sdk_def vec_of_def need_def GetVec_def deployer_eval sample_eval)
  then obtain d' where "run_state (Bind_Router.GetOfframps off_sdk (NewRouterClient (deployer_invoker own_net off_sdk) sample_contract)) own_deployer =
      (Ok [\<lparr>OffRampEntry_Offramp = sample_contract, OffRampEntry_SourceChainSelector = 2\<rparr>], d')"
    by (metis prod.collapse)
  with sample_trimmed(2) show ?thesis
    by (simp add: ListConnectedChains_def with_cached_def sample_adapter_def ch dep with_deployer_def run_bindM two_families_def)
qed

theorem connected_chains_exact_witness:
  "\<exists>offRamps. {2} = OffRampEntry_SourceChainSelector ` {e \<in> set offRamps. counted two_families (\<lambda>f. True) e}"
proof -
  have "txnbuild_laws off_sdk" using dep_sdk_laws by (simp add: off_sdk_def txnbuild_laws_def)
  from connected_chains_exact [OF this run_first [OF sample_connected]] show ?thesis by (metis list.simps(15) list.set(1))
qed

end
