(* ===== verification/Spec2Isabelle.thy ===== *)
theory Spec2Isabelle
  imports
    TxStore Fee Converters Txm_Outcomes Txm_Intake Txm_Wire Relayer_Service Ccv_Attempts Ccv_Source
    Bindings_Calls Bind_BurnMintPool Bind_CcipReceiver Bind_CommitteeVerifier Bind_FeeQuoter Bind_LockReleasePool
    Bind_Mcms Bind_Offramp Bind_Onramp Bind_RampRegistry Bind_RmnProxy Bind_RmnRemote Bind_Router
    Bind_SiloedLockReleasePool Bind_Timelock Bind_TokenAdminRegistry Bind_TokenLockBox Bind_TokenPool
    Bind_VersionedVerifierResolver Governance_Runs
begin

text \<open>
  A verification development for the Go code of chainlink-stellar.

  \<^bold>\<open>The program.\<close> The repository connects Chainlink nodes to the Stellar network. Its parts, and how
  they work together:

  \<^item> The transaction manager (relayer/txm) takes requests into a bounded channel (Enqueue), and a
    broadcast loop builds, simulates, assembles, signs and submits them, with footprint restores and bounded
    retries. Sequence numbers come from a store per account. A confirm loop polls the transactions in flight
    and finalizes, fails, retries or expires them. A fee strategy bids for inclusion, seeded by a cache of
    network fee statistics.
  \<^item> The relayer service (relayer/stellar_service.go) offers queries, simulation and submission on top of
    the manager; the type converters translate between domain values and XDR; the invoker adapter makes
    the manager an invoker of contracts.
  \<^item> The CCV services read and execute cross-chain messages: the source reader decodes CCIPMessageSent events
    and ledger headers, the contract transmitter converts verifier signatures and calls the OffRamp, the
    destination reader and the execution attempt poller observe executions.
  \<^item> The deployer (deployment/deployer.go) is a second invoker: one key, direct submission, restores of
    archived entries, upload and creation of contracts, payments.
  \<^item> The deployment code (deployment) runs operations, one for each call of a contract, over the deployer:
    sequences deploy and configure the governance contracts, hand over ownership, curse chains and set fees, with
    the addresses of the deployed contracts in an address book.
  \<^item> The bindings (bindings) are the clients of the Soroban contracts over either invoker, built on the
    value codec of bindings/scval.

  \<^bold>\<open>The theories.\<close>

  \<^item> \<open>Prelude\<close>: Go errors, results and panics, fixed-width integers, strings, list lemmas. \<open>Sdk\<close>: the types of
    the Stellar Go SDK; its functions are a record of functions, an argument of every definition that calls
    them, with their documented laws as named predicates and one concrete instance. \<open>Float64\<close>: the IEEE double
    arithmetic of the fee code.
  \<^item> \<open>TxStore\<close> (txstore.go): the sequence allocator, its well-formedness, and a refinement of an abstract
    specification of the status of each number; the locale \<open>sequence_allocator\<close> is what the broadcast pipeline
    relies on.
  \<^item> \<open>Txm_Config\<close> (config.go), \<open>Fee\<close> (fee.go, fee_tracker.go).
  \<^item> \<open>Txm_State\<close> (tx.go, txm.go): heap of transaction objects, channel, stores, intake and queries;
    \<open>Txm_Broadcast\<close> (broadcast.go, restore.go, txm.go), \<open>Txm_Confirm\<close> (failed_result.go, txm.go).
    \<open>Txm_Logic\<close>: total-correctness triples and the locales \<open>txm_frame\<close>, \<open>txm_flow\<close>, \<open>txm_wire\<close>,
    \<open>txm_invariant\<close> and \<open>txm_service\<close>, which show once which handlers keep an invariant that the primitive actions keep.
    \<open>Txm_System\<close>: the step relation, its reachable states and five invariants; \<open>Txm_Once\<close>: no transaction is
    in two places. \<open>Txm_Outcomes\<close>, \<open>Txm_Intake\<close>, \<open>Txm_Wire\<close>: what a broadcast, a poll, an Enqueue achieve, what
    goes on the wire and how often. \<open>Txm_Sample\<close>: a concrete manager.
  \<^item> \<open>Scval_Codec\<close> (bindings/scval), \<open>Converters\<close> (type_converters.go), \<open>Invoker_Adapter\<close> (invoker_adapter.go,
    network.go), \<open>Relayer_Service\<close> (stellar_service.go).
  \<^item> \<open>Ccv_Base\<close> (ccv/common, reading of Soroban values), \<open>Ccv_Transmitter\<close>, \<open>Ccv_Dest\<close>, \<open>Ccv_Attempts\<close>, \<open>Ccv_Source\<close>
    (ccv/contract_transmitter, ccv/destination_reader, ccv/source_reader).
  \<^item> \<open>Deployer\<close> (deployment/deployer.go): every method as an action on the deployer's state, which also keeps the
    submitted transactions; \<open>Deployer_Runs\<close>: relations along actions (the locales \<open>dep_relation\<close> and
    \<open>dep_sending\<close>), triples, and what a returned call has submitted.
  \<^item> \<open>Bindings_Base\<close> (bindings/invoker.go and the shapes all generated code has), \<open>Bind_Common\<close> (types that several
    contracts share), one theory \<open>Bind_X\<close> per contract X of bindings/contracts with its types, its client methods
    and its events, and the round trip of every struct; \<open>Bindings_Calls\<close>: the locale \<open>invoker_contract\<close>,
    interpreted on the deployer and on the manager's adapter, and calls followed from the client to the
    arguments in the transaction.
  \<^item> \<open>Deploy_Util\<close> (deployment/ccip/stellarutil, deployment/mcmsutil): addresses, selectors, signers of a topology, salts,
    payloads, paths. \<open>Deploy_Datastore\<close> (deployment/ccip, deployment/mcmsutil): references, the address book, lane
    configurations, lookup of the governance contracts; the store is a record of functions with the laws of a keyed store.
    \<open>Ops_Base\<close>, \<open>Ops_Ramps\<close>, \<open>Ops_Pools\<close>, \<open>Ops_Verification\<close>, \<open>Ops_Governance\<close> (deployment/operations): the input
    and the handler of every operation.
  \<^item> \<open>Ownership\<close> (deployment/ownership, sequences/transfer_ownership.go): the dispatch on the contract type and the two
    sequences; the relation \<open>handover\<close> is their abstract account. \<open>Governance\<close> (sequences/mcms.go, curse.go, fee.go and
    their adapters); \<open>Governance_Runs\<close>: what these sequences do when they return.

  \<^bold>\<open>What the properties show.\<close> Safety and invariants of the manager in every reachable state; how each
  broadcast ends and how the answer of the node decides each poll; the fields and number of the envelopes sent; the allocator's refinement; exact and
  overflowing fee arithmetic; round trips of values, events, reports and contract types; that polling reads every
  event once as long as its ranges fit on a page of the node, and what it loses when one does not; what a returned deployer call has submitted and confirmed; which calls the ownership and governance
  sequences consist of, and what a second run adds; that recorded contracts are found; and, where the code does something else
  than it means to, a theorem that says so.

  \<^bold>\<open>Conventions and bounds.\<close> A call out of the process (RPC node, clock, keystore, random choice of a \<open>select\<close>)
  is answered by a function of an interaction counter, so that the properties hold for every answer. A Go
  panic is the value \<open>Panic\<close>. Loops are recursive functions: the submit, restore and poll loops of the manager
  count down the configured attempts, the confirmation wait of the deployer counts the rounds in which the
  timeout is not chosen (any number), the wait for an event runs over a schedule of ticks and is proved to have
  returned once a tick is past the timeout. \<open>math.Pow\<close> halves its exponent. The handlers of the manager are atomic
  steps; the stores are also treated under arbitrary interleavings of their methods. The envelopes given to
  SendTransaction are logged in a ghost field of the manager (and of the deployer) that no operation reads. Conversions of doubles out of the int64 range behave as on
  amd64; \<open>strings.ToLower\<close> is that of ASCII text; the broadcast channel has room for one transaction;
  \<open>sort.Slice\<close> is a stable sort; the expiry of the attempt cache over time is left out; the order of the
  secp256k1 curve is a parameter. Transactions are the values they were built with: writing simulation
  results into an operation reaches the envelope only when the transaction is built again.

  \<^bold>\<open>Not modelled.\<close> Logging and metrics counters (the events of the manager's metrics interface are recorded in its
  state); the tables of contract error texts and the storage key unions of the bindings, which no client method
  uses; the bindings generator, which is a build-time text generator; mocks, tests and program entry points; the
  wiring of the development environment (ccv/chain), the accessors that build services from configuration, and
  the node pool of relayer/chain; the sequence of a full CCIP deployment and the adapters that register or forward
  to it, whose inputs are large configuration types of packages outside the repository; and the Rust contracts, which
  run on chain. Of the deployments framework the operation runner with its reports, the address store and the
  batches are parameters; descriptions and versions of operations are left out, and a sequence that fails returns
  only its error.
\<close>

end
